(* ===== verification/Prelude.thy ===== *)
theory Prelude
  imports Main "HOL-Library.Word"
begin

text \<open>
  Shared vocabulary of the Bochs development: the names of the fixed-width integer types of
  \<^verbatim>\<open>config.h\<close> as words, the conversion of a C boolean to a machine word, and the generic
  facts about carries and borrows of binary addition and subtraction that the flag, shift and
  arithmetic theories rest on. The carry lemmas are stated once, for integers and then for words
  of any width, so that every operand size of the processor uses the same facts.
\<close>

unbundle bit_operations_syntax

type_synonym Bit8u = "8 word"
type_synonym Bit16u = "16 word"
type_synonym Bit32u = "32 word"
type_synonym Bit64u = "64 word"
type_synonym bx_address = "64 word"

named_theorems lazy_simps "bit-level characterisations of the lazy flag accessors"
named_theorems reg_simps "reading a register after writing one"
named_theorems handler_defs "unfolding of instruction handlers"

section \<open>Bits of sums and differences\<close>

text \<open>
  \<open>carry_in a b c n\<close> is the carry into bit \<open>n\<close> of \<open>a + b + c\<close>, and \<open>borrow_in a b c n\<close> the
  borrow into bit \<open>n\<close> of \<open>a - b - c\<close>, both given by what the lower \<open>n\<close> bits do.
\<close>

definition carry_in :: "int \<Rightarrow> int \<Rightarrow> bool \<Rightarrow> nat \<Rightarrow> bool" where
  "carry_in a b c n \<longleftrightarrow> 2 ^ n \<le> take_bit n a + take_bit n b + of_bool c"

definition borrow_in :: "int \<Rightarrow> int \<Rightarrow> bool \<Rightarrow> nat \<Rightarrow> bool" where
  "borrow_in a b c n \<longleftrightarrow> take_bit n a < take_bit n b + of_bool c"

lemma bit_int_take_bit_ge: "bit (x::int) n \<longleftrightarrow> 2 ^ n \<le> take_bit (Suc n) x"
proof -
  have "0 \<le> take_bit n x" "take_bit n x < 2 ^ n" by simp_all
  then show ?thesis by (auto simp: take_bit_Suc_from_most of_bool_def not_le)
qed

lemma bit_iff_of_mod:
  fixes x s :: int
  assumes "take_bit (Suc n) x = s mod 2 ^ Suc n" and "0 \<le> s" and "s < 4 * 2 ^ n"
  shows "bit x n \<longleftrightarrow> (2 ^ n \<le> s \<and> s < 2 * 2 ^ n) \<or> 3 * 2 ^ n \<le> s"
proof -
  define p :: int where "p = 2 ^ n"
  have p: "0 < p" by (simp add: p_def)
  have b: "bit x n \<longleftrightarrow> p \<le> s mod (2 * p)"
    using assms(1) by (simp add: bit_int_take_bit_ge p_def)
  have s: "s < 4 * p" using assms(3) by (simp add: p_def)
  consider "s < 2 * p" | "2 * p \<le> s" by linarith
  then have "bit x n \<longleftrightarrow> (p \<le> s \<and> s < 2 * p) \<or> 3 * p \<le> s"
  proof cases
    case 1
    then have "s mod (2 * p) = s" using assms(2) by simp
    then show ?thesis using b 1 p by auto
  next
    case 2
    have "s mod (2 * p) = (s - 2 * p) mod (2 * p)" by (simp only: minus_mod_self2)
    also have "\<dots> = s - 2 * p" using 2 s by (intro mod_pos_pos_trivial) auto
    finally show ?thesis using b 2 p by auto
  qed
  then show ?thesis by (simp add: p_def)
qed

lemma bit_add_carry_int:
  "bit (a + b + of_bool c :: int) n \<longleftrightarrow> (bit a n \<noteq> (bit b n \<noteq> carry_in a b c n))"
proof -
  define A B p where "A = take_bit n a" and "B = take_bit n b" and "p = (2 ^ n :: int)"
  define S where "S = A + B + of_bool c + p * of_bool (bit a n) + p * of_bool (bit b n)"
  have A: "0 \<le> A" "A < p" and B: "0 \<le> B" "B < p" by (simp_all add: A_def B_def p_def)
  have S: "take_bit (Suc n) a + take_bit (Suc n) b + of_bool c = S"
    by (simp add: take_bit_Suc_from_most S_def A_def B_def p_def)
  have "take_bit (Suc n) (a + b + of_bool c)
    = take_bit (Suc n) (take_bit (Suc n) a + take_bit (Suc n) b + of_bool c)"
    unfolding take_bit_eq_mod by (intro mod_add_cong) simp_all
  also have "\<dots> = S mod 2 ^ Suc n" unfolding S by (rule take_bit_eq_mod)
  finally have "take_bit (Suc n) (a + b + of_bool c) = S mod 2 ^ Suc n" .
  moreover have "0 \<le> S" "S < 4 * 2 ^ n"
    using A B by (auto simp: S_def p_def [symmetric] of_bool_def)
  ultimately have "bit (a + b + of_bool c) n \<longleftrightarrow> (p \<le> S \<and> S < 2 * p) \<or> 3 * p \<le> S"
    unfolding p_def by (rule bit_iff_of_mod)
  then show ?thesis
    using A B by (auto simp: carry_in_def A_def [symmetric] B_def [symmetric] p_def [symmetric]
        S_def of_bool_def)
qed

lemma bit_sub_borrow_int:
  "bit (a - (b + of_bool c) :: int) n \<longleftrightarrow> (bit a n \<noteq> (bit b n \<noteq> borrow_in a b c n))"
proof -
  define A B p where "A = take_bit n a" and "B = take_bit n b" and "p = (2 ^ n :: int)"
  define S where "S = 2 * p + A - B - of_bool c + p * of_bool (bit a n) - p * of_bool (bit b n)"
  have A: "0 \<le> A" "A < p" and B: "0 \<le> B" "B < p" by (simp_all add: A_def B_def p_def)
  have S: "2 ^ Suc n + (take_bit (Suc n) a - (take_bit (Suc n) b + of_bool c)) = S"
    by (simp add: take_bit_Suc_from_most S_def A_def B_def p_def)
  have "take_bit (Suc n) (a - (b + of_bool c))
    = take_bit (Suc n) (2 ^ Suc n + (take_bit (Suc n) a - (take_bit (Suc n) b + of_bool c)))"
    unfolding take_bit_eq_mod
    by (simp only: mod_add_self1) (intro mod_add_cong mod_diff_cong, simp_all)
  also have "\<dots> = S mod 2 ^ Suc n" unfolding S by (rule take_bit_eq_mod)
  finally have "take_bit (Suc n) (a - (b + of_bool c)) = S mod 2 ^ Suc n" .
  moreover have "0 \<le> S" "S < 4 * 2 ^ n"
    using A B by (auto simp: S_def p_def [symmetric] of_bool_def)
  ultimately have "bit (a - (b + of_bool c)) n \<longleftrightarrow> (p \<le> S \<and> S < 2 * p) \<or> 3 * p \<le> S"
    unfolding p_def by (rule bit_iff_of_mod)
  then show ?thesis
    using A B by (auto simp: borrow_in_def A_def [symmetric] B_def [symmetric] S_def of_bool_def)
qed

lemma carry_in_Suc:
  "carry_in a b c (Suc n) \<longleftrightarrow> (bit a n \<and> bit b n) \<or> ((bit a n \<or> bit b n) \<and> carry_in a b c n)"
proof -
  define A B p where "A = take_bit n a" and "B = take_bit n b" and "p = (2 ^ n :: int)"
  have "0 \<le> A" "A < p" "0 \<le> B" "B < p" by (simp_all add: A_def B_def p_def)
  then show ?thesis
    by (auto simp: carry_in_def take_bit_Suc_from_most of_bool_def
        A_def [symmetric] B_def [symmetric] p_def [symmetric])
qed

lemma borrow_in_Suc:
  "borrow_in a b c (Suc n) \<longleftrightarrow>
     (\<not> bit a n \<and> bit b n) \<or> ((\<not> bit a n \<or> bit b n) \<and> borrow_in a b c n)"
proof -
  define A B p where "A = take_bit n a" and "B = take_bit n b" and "p = (2 ^ n :: int)"
  have "0 \<le> A" "A < p" "0 \<le> B" "B < p" by (simp_all add: A_def B_def p_def)
  then show ?thesis
    by (auto simp: borrow_in_def take_bit_Suc_from_most of_bool_def
        A_def [symmetric] B_def [symmetric] p_def [symmetric])
qed

lemma take_bit_length_uint [simp]: "take_bit LENGTH('a) (uint w) = uint w" for w :: "'a::len word"
  by (rule take_bit_int_eq_self) simp_all

lemma bit_word_add_carry:
  fixes a b :: "'a::len word"
  assumes "n < LENGTH('a)"
  shows "bit (a + b + of_bool c) n \<longleftrightarrow>
    (bit a n \<noteq> (bit b n \<noteq> carry_in (uint a) (uint b) c n))"
proof -
  have "bit (a + b + of_bool c) n \<longleftrightarrow> bit (uint (a + b + of_bool c)) n"
    using assms by (simp add: bit_uint_iff)
  also have "uint (a + b + of_bool c) = take_bit LENGTH('a) (uint a + uint b + of_bool c)"
    by (cases c) (simp_all add: uint_word_ariths take_bit_eq_mod mod_simps)
  finally show ?thesis
    using assms by (simp add: bit_take_bit_iff bit_add_carry_int bit_uint_iff)
qed

lemma bit_word_sub_borrow:
  fixes a b :: "'a::len word"
  assumes "n < LENGTH('a)"
  shows "bit (a - (b + of_bool c)) n \<longleftrightarrow>
    (bit a n \<noteq> (bit b n \<noteq> borrow_in (uint a) (uint b) c n))"
proof -
  have "bit (a - (b + of_bool c)) n \<longleftrightarrow> bit (uint (a - (b + of_bool c))) n"
    using assms by (simp add: bit_uint_iff)
  also have "uint (a - (b + of_bool c)) = take_bit LENGTH('a) (uint a - (uint b + of_bool c))"
    by (cases c) (simp_all add: uint_word_ariths take_bit_eq_mod mod_simps)
  finally show ?thesis
    using assms by (simp add: bit_take_bit_iff bit_sub_borrow_int bit_uint_iff)
qed

lemma sint_top_bit:
  fixes w :: "'a::len word"
  assumes "LENGTH('a) = Suc n"
  shows "sint w = take_bit n (uint w) - 2 ^ n * of_bool (bit w n)"
proof -
  have "sint w = signed_take_bit n (uint w)"
    using assms by (simp add: sint_uint)
  also have "\<dots> = take_bit n (uint w) - 2 ^ n * of_bool (bit w n)"
    using assms by (simp add: signed_take_bit_eq_take_bit_minus bit_uint_iff take_bit_Suc_from_most)
  finally show ?thesis .
qed

text \<open>Signed overflow is the disagreement of the carries into and out of the top bit.\<close>

lemma carry_overflow:
  fixes a b :: "'a::len word"
  assumes "LENGTH('a) = Suc n"
  shows "carry_in (uint a) (uint b) c (Suc n) \<noteq> carry_in (uint a) (uint b) c n \<longleftrightarrow>
    \<not> (- (2 ^ n) \<le> sint a + sint b + of_bool c \<and> sint a + sint b + of_bool c < 2 ^ n)"
proof -
  define A B p where "A = take_bit n (uint a)" and "B = take_bit n (uint b)" and "p = (2 ^ n :: int)"
  have "0 \<le> A" "A < p" "0 \<le> B" "B < p" by (simp_all add: A_def B_def p_def)
  then show ?thesis
    using assms unfolding carry_in_Suc
    by (auto simp: carry_in_def sint_top_bit [OF assms] of_bool_def bit_uint_iff
        A_def [symmetric] B_def [symmetric] p_def [symmetric])
qed

lemma borrow_overflow:
  fixes a b :: "'a::len word"
  assumes "LENGTH('a) = Suc n"
  shows "borrow_in (uint a) (uint b) c (Suc n) \<noteq> borrow_in (uint a) (uint b) c n \<longleftrightarrow>
    \<not> (- (2 ^ n) \<le> sint a - sint b - of_bool c \<and> sint a - sint b - of_bool c < 2 ^ n)"
proof -
  define A B p where "A = take_bit n (uint a)" and "B = take_bit n (uint b)" and "p = (2 ^ n :: int)"
  have "0 \<le> A" "A < p" "0 \<le> B" "B < p" by (simp_all add: A_def B_def p_def)
  then show ?thesis
    using assms unfolding borrow_in_Suc
    by (auto simp: borrow_in_def sint_top_bit [OF assms] of_bool_def bit_uint_iff
        A_def [symmetric] B_def [symmetric] p_def [symmetric])
qed

lemma carry_in_length:
  fixes a b :: "'a::len word"
  shows "carry_in (uint a) (uint b) c LENGTH('a) \<longleftrightarrow> 2 ^ LENGTH('a) \<le> uint a + uint b + of_bool c"
  by (simp add: carry_in_def)

lemma borrow_in_length:
  fixes a b :: "'a::len word"
  shows "borrow_in (uint a) (uint b) c LENGTH('a) \<longleftrightarrow> uint a < uint b + of_bool c"
  by (simp add: borrow_in_def)

end
