(* ===== verification/LazyFlags.thy ===== *)
theory LazyFlags
  imports Prelude
begin

text \<open>
  The lazy arithmetic flags of \<^verbatim>\<open>cpu/lazy_flags.h\<close>. Instead of six flag bits the processor keeps
  the sign-extended result of the last flag-setting instruction and a word of auxiliary bits; each
  flag is computed from the two when somebody asks for it. The theory translates the accessors, the
  mutators and the \<^verbatim>\<open>SET_FLAGS\<close> macros, gives the architectural meaning of the six flags
  (\<open>flags_of\<close>, \<open>add_flags\<close>, \<open>sub_flags\<close>, \<open>logic_flags\<close>), and shows that the lazy representation
  implements it for every operand size.
  The build modelled is the 64-bit one (\<^verbatim>\<open>BX_SUPPORT_X86_64\<close>), where \<^verbatim>\<open>bx_address\<close> has 64 bits.
\<close>

section \<open>The lazy flags entry\<close>

record bx_lazyflags_entry =
  lf_result :: bx_address
  lf_auxbits :: bx_address

definition LF_BIT_SD :: nat where "LF_BIT_SD = 0"
definition LF_BIT_AF :: nat where "LF_BIT_AF = 3"
definition LF_BIT_PDB :: nat where "LF_BIT_PDB = 8"
definition LF_BIT_CF :: nat where "LF_BIT_CF = 31"
definition LF_BIT_PO :: nat where "LF_BIT_PO = 30"
definition BX_LF_SIGN_BIT :: nat where "BX_LF_SIGN_BIT = 63"

definition LF_MASK_SD :: Bit32u where "LF_MASK_SD = push_bit LF_BIT_SD 0x01"
definition LF_MASK_AF :: Bit32u where "LF_MASK_AF = push_bit LF_BIT_AF 0x01"
definition LF_MASK_PDB :: Bit32u where "LF_MASK_PDB = push_bit LF_BIT_PDB 0xFF"
definition LF_MASK_CF :: Bit32u where "LF_MASK_CF = push_bit LF_BIT_CF 0x01"
definition LF_MASK_PO :: Bit32u where "LF_MASK_PO = push_bit LF_BIT_PO 0x01"

lemmas LF_BIT_defs = LF_BIT_SD_def LF_BIT_AF_def LF_BIT_PDB_def LF_BIT_CF_def LF_BIT_PO_def
  BX_LF_SIGN_BIT_def
lemmas LF_MASK_defs = LF_MASK_SD_def LF_MASK_AF_def LF_MASK_PDB_def LF_MASK_CF_def LF_MASK_PO_def

definition ADD_COUT_VEC :: "'a::len word \<Rightarrow> 'a word \<Rightarrow> 'a word \<Rightarrow> 'a word" where
  "ADD_COUT_VEC op1 op2 res = (op1 AND op2) OR ((op1 OR op2) AND NOT res)"

definition SUB_COUT_VEC :: "'a::len word \<Rightarrow> 'a word \<Rightarrow> 'a word \<Rightarrow> 'a word" where
  "SUB_COUT_VEC op1 op2 res = (NOT op1 AND op2) OR ((NOT op1 XOR op2) AND res)"

definition GET_ADD_OVERFLOW :: "'a::len word \<Rightarrow> 'a word \<Rightarrow> 'a word \<Rightarrow> 'a word \<Rightarrow> 'a word" where
  "GET_ADD_OVERFLOW op1 op2 res m = ((op1 XOR res) AND (op2 XOR res)) AND m"

section \<open>Reading flags\<close>

text \<open>The \<^verbatim>\<open>getB\<close> accessors return an \<^verbatim>\<open>unsigned\<close> that is 0 or 1.\<close>

definition getB_OF :: "bx_lazyflags_entry \<Rightarrow> Bit32u" where
  "getB_OF e = ucast (drop_bit LF_BIT_CF (lf_auxbits e + ucast (push_bit LF_BIT_PO (1::Bit32u))) AND 1)"

definition get_OF :: "bx_lazyflags_entry \<Rightarrow> Bit32u" where
  "get_OF e = ucast ((lf_auxbits e + ucast (push_bit LF_BIT_PO (1::Bit32u)))
                AND ucast (push_bit LF_BIT_CF (1::Bit32u)))"

definition getB_SF :: "bx_lazyflags_entry \<Rightarrow> Bit32u" where
  "getB_SF e = ucast ((drop_bit BX_LF_SIGN_BIT (lf_result e) XOR drop_bit LF_BIT_SD (lf_auxbits e)) AND 1)"

definition getB_ZF :: "bx_lazyflags_entry \<Rightarrow> Bit32u" where
  "getB_ZF e = (if 0 = lf_result e then 1 else 0)"

definition getB_AF :: "bx_lazyflags_entry \<Rightarrow> Bit32u" where
  "getB_AF e = ucast (drop_bit LF_BIT_AF (lf_auxbits e) AND 1)"

definition get_AF :: "bx_lazyflags_entry \<Rightarrow> Bit32u" where
  "get_AF e = ucast (lf_auxbits e AND ucast LF_MASK_AF)"

definition getB_PF :: "bx_lazyflags_entry \<Rightarrow> Bit32u" where
  "getB_PF e =
    (let temp = ucast (255 AND lf_result e) :: Bit32u;
         temp = temp XOR ucast (255 AND drop_bit LF_BIT_PDB (lf_auxbits e));
         temp = (temp XOR drop_bit 4 temp) AND 0x0F
     in drop_bit (unat temp) 0x9669 AND 1)"

definition getB_CF :: "bx_lazyflags_entry \<Rightarrow> Bit32u" where
  "getB_CF e = ucast (drop_bit LF_BIT_CF (lf_auxbits e) AND 1)"

definition get_CF :: "bx_lazyflags_entry \<Rightarrow> Bit32u" where
  "get_CF e = ucast (lf_auxbits e AND ucast LF_MASK_CF)"

section \<open>Writing single flags\<close>

definition set_flags_OxxxxC :: "Bit32u \<Rightarrow> Bit32u \<Rightarrow> bx_lazyflags_entry \<Rightarrow> bx_lazyflags_entry" where
  "set_flags_OxxxxC new_of new_cf e =
    (let temp_po = new_of XOR new_cf;
         aux = lf_auxbits e AND ucast (NOT (LF_MASK_PO OR LF_MASK_CF));
         aux = aux OR ucast (push_bit LF_BIT_PO temp_po OR push_bit LF_BIT_CF new_cf)
     in e\<lparr>lf_auxbits := aux\<rparr>)"

definition assert_flags_OxxxxC :: "bx_lazyflags_entry \<Rightarrow> bx_lazyflags_entry" where
  "assert_flags_OxxxxC e = set_flags_OxxxxC 1 1 e"

definition set_OF :: "bool \<Rightarrow> bx_lazyflags_entry \<Rightarrow> bx_lazyflags_entry" where
  "set_OF val e = (let temp_cf = getB_CF e \<noteq> 0 in set_flags_OxxxxC (of_bool val) (of_bool temp_cf) e)"

definition clear_OF :: "bx_lazyflags_entry \<Rightarrow> bx_lazyflags_entry" where
  "clear_OF e = (let temp_cf = getB_CF e \<noteq> 0 in set_flags_OxxxxC 0 (of_bool temp_cf) e)"

definition assert_OF :: "bx_lazyflags_entry \<Rightarrow> bx_lazyflags_entry" where
  "assert_OF e = (let temp_cf = getB_CF e in set_flags_OxxxxC 1 temp_cf e)"

definition set_SF :: "bool \<Rightarrow> bx_lazyflags_entry \<Rightarrow> bx_lazyflags_entry" where
  "set_SF val e =
    (let temp_sf = getB_SF e \<noteq> 0
     in e\<lparr>lf_auxbits := lf_auxbits e XOR push_bit LF_BIT_SD (of_bool (temp_sf \<noteq> val))\<rparr>)"

definition clear_SF :: "bx_lazyflags_entry \<Rightarrow> bx_lazyflags_entry" where
  "clear_SF e = set_SF False e"

definition assert_SF :: "bx_lazyflags_entry \<Rightarrow> bx_lazyflags_entry" where
  "assert_SF e = set_SF True e"

definition clear_ZF :: "bx_lazyflags_entry \<Rightarrow> bx_lazyflags_entry" where
  "clear_ZF e = e\<lparr>lf_result := lf_result e OR push_bit 8 1\<rparr>"

definition assert_ZF :: "bx_lazyflags_entry \<Rightarrow> bx_lazyflags_entry" where
  "assert_ZF e =
    (let aux = lf_auxbits e XOR push_bit LF_BIT_SD (drop_bit BX_LF_SIGN_BIT (lf_result e) AND 1);
         temp_pdb = ucast (255 AND lf_result e) :: Bit32u;
         aux = aux XOR ucast (push_bit LF_BIT_PDB temp_pdb)
     in e\<lparr>lf_auxbits := aux, lf_result := 0\<rparr>)"

definition set_ZF :: "bool \<Rightarrow> bx_lazyflags_entry \<Rightarrow> bx_lazyflags_entry" where
  "set_ZF val e = (if val then assert_ZF e else clear_ZF e)"

definition set_AF :: "bool \<Rightarrow> bx_lazyflags_entry \<Rightarrow> bx_lazyflags_entry" where
  "set_AF val e =
    (let aux = lf_auxbits e AND ucast (NOT LF_MASK_AF)
     in e\<lparr>lf_auxbits := aux OR push_bit LF_BIT_AF (of_bool val)\<rparr>)"

definition clear_AF :: "bx_lazyflags_entry \<Rightarrow> bx_lazyflags_entry" where
  "clear_AF e = e\<lparr>lf_auxbits := lf_auxbits e AND ucast (NOT LF_MASK_AF)\<rparr>"

definition assert_AF :: "bx_lazyflags_entry \<Rightarrow> bx_lazyflags_entry" where
  "assert_AF e = e\<lparr>lf_auxbits := lf_auxbits e OR ucast LF_MASK_AF\<rparr>"

definition set_PF :: "bool \<Rightarrow> bx_lazyflags_entry \<Rightarrow> bx_lazyflags_entry" where
  "set_PF val e =
    (let temp_pdb = ucast (255 AND lf_result e) XOR of_bool (\<not> val) :: Bit32u;
         aux = lf_auxbits e AND ucast (NOT LF_MASK_PDB)
     in e\<lparr>lf_auxbits := aux OR ucast (push_bit LF_BIT_PDB temp_pdb)\<rparr>)"

definition clear_PF :: "bx_lazyflags_entry \<Rightarrow> bx_lazyflags_entry" where
  "clear_PF e = set_PF False e"

definition assert_PF :: "bx_lazyflags_entry \<Rightarrow> bx_lazyflags_entry" where
  "assert_PF e = set_PF True e"

definition set_CF :: "bool \<Rightarrow> bx_lazyflags_entry \<Rightarrow> bx_lazyflags_entry" where
  "set_CF val e = (let temp_of = getB_OF e \<noteq> 0 in set_flags_OxxxxC (of_bool temp_of) (of_bool val) e)"

definition clear_CF :: "bx_lazyflags_entry \<Rightarrow> bx_lazyflags_entry" where
  "clear_CF e = (let temp_of = getB_OF e \<noteq> 0 in set_flags_OxxxxC (of_bool temp_of) 0 e)"

definition assert_CF :: "bx_lazyflags_entry \<Rightarrow> bx_lazyflags_entry" where
  "assert_CF e = (let temp_of = getB_OF e \<noteq> 0 in set_flags_OxxxxC (of_bool temp_of) 1 e)"

section \<open>Writing flags from carries and a result\<close>

text \<open>
  The macros are instantiated at the operand sizes 8, 16, 32 and 64. Carries and result come as
  64-bit words; \<open>(Bit32u)temp\<close> discards what a narrower carry vector would not have had. The sign
  extension \<open>(bx_address)(Bit##size##s)\<close> is \<open>signed_take_bit (sz - 1)\<close>.
\<close>

definition lf_carry_temp :: "nat \<Rightarrow> bx_address \<Rightarrow> bx_address" where
  "lf_carry_temp sz carries =
    (let temp = (carries AND ucast LF_MASK_AF) OR push_bit LF_BIT_PO (drop_bit (sz - 2) carries);
         temp = (if sz = 32 then carries AND ucast (NOT (LF_MASK_PDB OR LF_MASK_SD)) else temp);
         temp = (if sz = 16 then (carries AND ucast LF_MASK_AF) OR push_bit 16 carries else temp);
         temp = (if sz = 8 then (carries AND ucast LF_MASK_AF) OR push_bit 24 carries else temp)
     in temp)"

definition SET_FLAGS_OSZAPC_SIZE ::
  "nat \<Rightarrow> bx_address \<Rightarrow> bx_address \<Rightarrow> bx_lazyflags_entry \<Rightarrow> bx_lazyflags_entry" where
  "SET_FLAGS_OSZAPC_SIZE sz carries res e =
    e\<lparr>lf_result := signed_take_bit (sz - 1) res,
      lf_auxbits := ucast (ucast (lf_carry_temp sz carries) :: Bit32u)\<rparr>"

definition SET_FLAGS_OSZAP_SIZE ::
  "nat \<Rightarrow> bx_address \<Rightarrow> bx_address \<Rightarrow> bx_lazyflags_entry \<Rightarrow> bx_lazyflags_entry" where
  "SET_FLAGS_OSZAP_SIZE sz carries res e =
    (let temp = lf_carry_temp sz carries;
         delta_c = (lf_auxbits e XOR temp) AND ucast LF_MASK_CF;
         delta_c = delta_c XOR drop_bit 1 delta_c
     in e\<lparr>lf_result := signed_take_bit (sz - 1) res,
          lf_auxbits := ucast (ucast (temp XOR delta_c) :: Bit32u)\<rparr>)"

definition SET_FLAGS_OSZAxC_LOGIC_SIZE ::
  "nat \<Rightarrow> bx_address \<Rightarrow> bx_lazyflags_entry \<Rightarrow> bx_lazyflags_entry" where
  "SET_FLAGS_OSZAxC_LOGIC_SIZE sz res e =
    (let saved_PF = getB_PF e \<noteq> 0 in set_PF saved_PF (SET_FLAGS_OSZAPC_SIZE sz 0 res e))"

definition SET_FLAGS_OSZAPC_8 :: "Bit32u \<Rightarrow> Bit32u \<Rightarrow> bx_lazyflags_entry \<Rightarrow> bx_lazyflags_entry" where
  "SET_FLAGS_OSZAPC_8 carries res e = SET_FLAGS_OSZAPC_SIZE 8 (ucast carries) (ucast res) e"

definition SET_FLAGS_OSZAPC_LOGIC_8 :: "Bit32u \<Rightarrow> bx_lazyflags_entry \<Rightarrow> bx_lazyflags_entry" where
  "SET_FLAGS_OSZAPC_LOGIC_8 res e = SET_FLAGS_OSZAPC_8 0 res e"

definition SET_FLAGS_OSZAPC_ADD_8 :: "Bit32u \<Rightarrow> Bit32u \<Rightarrow> Bit32u \<Rightarrow> bx_lazyflags_entry \<Rightarrow> bx_lazyflags_entry" where
  "SET_FLAGS_OSZAPC_ADD_8 op1 op2 res e = SET_FLAGS_OSZAPC_8 (ADD_COUT_VEC op1 op2 res) res e"

definition SET_FLAGS_OSZAPC_SUB_8 :: "Bit32u \<Rightarrow> Bit32u \<Rightarrow> Bit32u \<Rightarrow> bx_lazyflags_entry \<Rightarrow> bx_lazyflags_entry" where
  "SET_FLAGS_OSZAPC_SUB_8 op1 op2 res e = SET_FLAGS_OSZAPC_8 (SUB_COUT_VEC op1 op2 res) res e"

definition SET_FLAGS_OSZAP_8 :: "Bit32u \<Rightarrow> Bit32u \<Rightarrow> bx_lazyflags_entry \<Rightarrow> bx_lazyflags_entry" where
  "SET_FLAGS_OSZAP_8 carries res e = SET_FLAGS_OSZAP_SIZE 8 (ucast carries) (ucast res) e"

definition SET_FLAGS_OSZAP_ADD_8 :: "Bit32u \<Rightarrow> Bit32u \<Rightarrow> Bit32u \<Rightarrow> bx_lazyflags_entry \<Rightarrow> bx_lazyflags_entry" where
  "SET_FLAGS_OSZAP_ADD_8 op1 op2 res e = SET_FLAGS_OSZAP_8 (ADD_COUT_VEC op1 op2 res) res e"

definition SET_FLAGS_OSZAP_SUB_8 :: "Bit32u \<Rightarrow> Bit32u \<Rightarrow> Bit32u \<Rightarrow> bx_lazyflags_entry \<Rightarrow> bx_lazyflags_entry" where
  "SET_FLAGS_OSZAP_SUB_8 op1 op2 res e = SET_FLAGS_OSZAP_8 (SUB_COUT_VEC op1 op2 res) res e"

definition SET_FLAGS_OSZAPC_16 :: "Bit32u \<Rightarrow> Bit32u \<Rightarrow> bx_lazyflags_entry \<Rightarrow> bx_lazyflags_entry" where
  "SET_FLAGS_OSZAPC_16 carries res e = SET_FLAGS_OSZAPC_SIZE 16 (ucast carries) (ucast res) e"

definition SET_FLAGS_OSZAPC_LOGIC_16 :: "Bit32u \<Rightarrow> bx_lazyflags_entry \<Rightarrow> bx_lazyflags_entry" where
  "SET_FLAGS_OSZAPC_LOGIC_16 res e = SET_FLAGS_OSZAPC_16 0 res e"

definition SET_FLAGS_OSZAPC_ADD_16 :: "Bit32u \<Rightarrow> Bit32u \<Rightarrow> Bit32u \<Rightarrow> bx_lazyflags_entry \<Rightarrow> bx_lazyflags_entry" where
  "SET_FLAGS_OSZAPC_ADD_16 op1 op2 res e = SET_FLAGS_OSZAPC_16 (ADD_COUT_VEC op1 op2 res) res e"

definition SET_FLAGS_OSZAPC_SUB_16 :: "Bit32u \<Rightarrow> Bit32u \<Rightarrow> Bit32u \<Rightarrow> bx_lazyflags_entry \<Rightarrow> bx_lazyflags_entry" where
  "SET_FLAGS_OSZAPC_SUB_16 op1 op2 res e = SET_FLAGS_OSZAPC_16 (SUB_COUT_VEC op1 op2 res) res e"

definition SET_FLAGS_OSZAP_16 :: "Bit32u \<Rightarrow> Bit32u \<Rightarrow> bx_lazyflags_entry \<Rightarrow> bx_lazyflags_entry" where
  "SET_FLAGS_OSZAP_16 carries res e = SET_FLAGS_OSZAP_SIZE 16 (ucast carries) (ucast res) e"

definition SET_FLAGS_OSZAP_ADD_16 :: "Bit32u \<Rightarrow> Bit32u \<Rightarrow> Bit32u \<Rightarrow> bx_lazyflags_entry \<Rightarrow> bx_lazyflags_entry" where
  "SET_FLAGS_OSZAP_ADD_16 op1 op2 res e = SET_FLAGS_OSZAP_16 (ADD_COUT_VEC op1 op2 res) res e"

definition SET_FLAGS_OSZAP_SUB_16 :: "Bit32u \<Rightarrow> Bit32u \<Rightarrow> Bit32u \<Rightarrow> bx_lazyflags_entry \<Rightarrow> bx_lazyflags_entry" where
  "SET_FLAGS_OSZAP_SUB_16 op1 op2 res e = SET_FLAGS_OSZAP_16 (SUB_COUT_VEC op1 op2 res) res e"

definition SET_FLAGS_OSZAPC_32 :: "Bit32u \<Rightarrow> Bit32u \<Rightarrow> bx_lazyflags_entry \<Rightarrow> bx_lazyflags_entry" where
  "SET_FLAGS_OSZAPC_32 carries res e = SET_FLAGS_OSZAPC_SIZE 32 (ucast carries) (ucast res) e"

definition SET_FLAGS_OSZAPC_LOGIC_32 :: "Bit32u \<Rightarrow> bx_lazyflags_entry \<Rightarrow> bx_lazyflags_entry" where
  "SET_FLAGS_OSZAPC_LOGIC_32 res e = SET_FLAGS_OSZAPC_32 0 res e"

definition SET_FLAGS_OSZAPC_ADD_32 :: "Bit32u \<Rightarrow> Bit32u \<Rightarrow> Bit32u \<Rightarrow> bx_lazyflags_entry \<Rightarrow> bx_lazyflags_entry" where
  "SET_FLAGS_OSZAPC_ADD_32 op1 op2 res e = SET_FLAGS_OSZAPC_32 (ADD_COUT_VEC op1 op2 res) res e"

definition SET_FLAGS_OSZAPC_SUB_32 :: "Bit32u \<Rightarrow> Bit32u \<Rightarrow> Bit32u \<Rightarrow> bx_lazyflags_entry \<Rightarrow> bx_lazyflags_entry" where
  "SET_FLAGS_OSZAPC_SUB_32 op1 op2 res e = SET_FLAGS_OSZAPC_32 (SUB_COUT_VEC op1 op2 res) res e"

definition SET_FLAGS_OSZAP_32 :: "Bit32u \<Rightarrow> Bit32u \<Rightarrow> bx_lazyflags_entry \<Rightarrow> bx_lazyflags_entry" where
  "SET_FLAGS_OSZAP_32 carries res e = SET_FLAGS_OSZAP_SIZE 32 (ucast carries) (ucast res) e"

definition SET_FLAGS_OSZAP_ADD_32 :: "Bit32u \<Rightarrow> Bit32u \<Rightarrow> Bit32u \<Rightarrow> bx_lazyflags_entry \<Rightarrow> bx_lazyflags_entry" where
  "SET_FLAGS_OSZAP_ADD_32 op1 op2 res e = SET_FLAGS_OSZAP_32 (ADD_COUT_VEC op1 op2 res) res e"

definition SET_FLAGS_OSZAP_SUB_32 :: "Bit32u \<Rightarrow> Bit32u \<Rightarrow> Bit32u \<Rightarrow> bx_lazyflags_entry \<Rightarrow> bx_lazyflags_entry" where
  "SET_FLAGS_OSZAP_SUB_32 op1 op2 res e = SET_FLAGS_OSZAP_32 (SUB_COUT_VEC op1 op2 res) res e"

definition SET_FLAGS_OSZAPC_64 :: "Bit64u \<Rightarrow> Bit64u \<Rightarrow> bx_lazyflags_entry \<Rightarrow> bx_lazyflags_entry" where
  "SET_FLAGS_OSZAPC_64 carries res e = SET_FLAGS_OSZAPC_SIZE 64 carries res e"

definition SET_FLAGS_OSZAPC_LOGIC_64 :: "Bit64u \<Rightarrow> bx_lazyflags_entry \<Rightarrow> bx_lazyflags_entry" where
  "SET_FLAGS_OSZAPC_LOGIC_64 res e = SET_FLAGS_OSZAPC_64 0 res e"

definition SET_FLAGS_OSZAPC_ADD_64 :: "Bit64u \<Rightarrow> Bit64u \<Rightarrow> Bit64u \<Rightarrow> bx_lazyflags_entry \<Rightarrow> bx_lazyflags_entry" where
  "SET_FLAGS_OSZAPC_ADD_64 op1 op2 res e = SET_FLAGS_OSZAPC_64 (ADD_COUT_VEC op1 op2 res) res e"

definition SET_FLAGS_OSZAPC_SUB_64 :: "Bit64u \<Rightarrow> Bit64u \<Rightarrow> Bit64u \<Rightarrow> bx_lazyflags_entry \<Rightarrow> bx_lazyflags_entry" where
  "SET_FLAGS_OSZAPC_SUB_64 op1 op2 res e = SET_FLAGS_OSZAPC_64 (SUB_COUT_VEC op1 op2 res) res e"

definition SET_FLAGS_OSZAP_64 :: "Bit64u \<Rightarrow> Bit64u \<Rightarrow> bx_lazyflags_entry \<Rightarrow> bx_lazyflags_entry" where
  "SET_FLAGS_OSZAP_64 carries res e = SET_FLAGS_OSZAP_SIZE 64 carries res e"

definition SET_FLAGS_OSZAP_ADD_64 :: "Bit64u \<Rightarrow> Bit64u \<Rightarrow> Bit64u \<Rightarrow> bx_lazyflags_entry \<Rightarrow> bx_lazyflags_entry" where
  "SET_FLAGS_OSZAP_ADD_64 op1 op2 res e = SET_FLAGS_OSZAP_64 (ADD_COUT_VEC op1 op2 res) res e"

definition SET_FLAGS_OSZAP_SUB_64 :: "Bit64u \<Rightarrow> Bit64u \<Rightarrow> Bit64u \<Rightarrow> bx_lazyflags_entry \<Rightarrow> bx_lazyflags_entry" where
  "SET_FLAGS_OSZAP_SUB_64 op1 op2 res e = SET_FLAGS_OSZAP_64 (SUB_COUT_VEC op1 op2 res) res e"

definition SET_FLAGS_OSZAxC_LOGIC_32 :: "Bit32u \<Rightarrow> bx_lazyflags_entry \<Rightarrow> bx_lazyflags_entry" where
  "SET_FLAGS_OSZAxC_LOGIC_32 res e = SET_FLAGS_OSZAxC_LOGIC_SIZE 32 (ucast res) e"

definition SET_FLAGS_OSZAxC_LOGIC_64 :: "Bit64u \<Rightarrow> bx_lazyflags_entry \<Rightarrow> bx_lazyflags_entry" where
  "SET_FLAGS_OSZAxC_LOGIC_64 res e = SET_FLAGS_OSZAxC_LOGIC_SIZE 64 res e"

lemmas SET_FLAGS_defs =
  SET_FLAGS_OSZAPC_8_def
  SET_FLAGS_OSZAPC_16_def
  SET_FLAGS_OSZAPC_32_def
  SET_FLAGS_OSZAPC_64_def
  SET_FLAGS_OSZAP_8_def
  SET_FLAGS_OSZAP_16_def
  SET_FLAGS_OSZAP_32_def
  SET_FLAGS_OSZAP_64_def
  SET_FLAGS_OSZAPC_LOGIC_8_def
  SET_FLAGS_OSZAPC_LOGIC_16_def
  SET_FLAGS_OSZAPC_LOGIC_32_def
  SET_FLAGS_OSZAPC_LOGIC_64_def
  SET_FLAGS_OSZAPC_ADD_8_def
  SET_FLAGS_OSZAPC_ADD_16_def
  SET_FLAGS_OSZAPC_ADD_32_def
  SET_FLAGS_OSZAPC_ADD_64_def
  SET_FLAGS_OSZAPC_SUB_8_def
  SET_FLAGS_OSZAPC_SUB_16_def
  SET_FLAGS_OSZAPC_SUB_32_def
  SET_FLAGS_OSZAPC_SUB_64_def
  SET_FLAGS_OSZAP_ADD_8_def
  SET_FLAGS_OSZAP_ADD_16_def
  SET_FLAGS_OSZAP_ADD_32_def
  SET_FLAGS_OSZAP_ADD_64_def
  SET_FLAGS_OSZAP_SUB_8_def
  SET_FLAGS_OSZAP_SUB_16_def
  SET_FLAGS_OSZAP_SUB_32_def
  SET_FLAGS_OSZAP_SUB_64_def

section \<open>The architectural flags\<close>

text \<open>
  What the flags mean, independently of how they are stored: six booleans. \<open>flags_of\<close> reads them out
  of a lazy entry; \<open>add_flags\<close>, \<open>sub_flags\<close> and \<open>logic_flags\<close> are the textbook definitions over the
  operands of any width.
\<close>

record oszapc_flags =
  fOF :: bool
  fSF :: bool
  fZF :: bool
  fAF :: bool
  fPF :: bool
  fCF :: bool

definition flags_of :: "bx_lazyflags_entry \<Rightarrow> oszapc_flags" where
  "flags_of e = \<lparr>fOF = getB_OF e \<noteq> 0, fSF = getB_SF e \<noteq> 0, fZF = getB_ZF e \<noteq> 0,
                 fAF = getB_AF e \<noteq> 0, fPF = getB_PF e \<noteq> 0, fCF = getB_CF e \<noteq> 0\<rparr>"

definition even_parity8 :: "'a::len word \<Rightarrow> bool" where
  "even_parity8 w \<longleftrightarrow> even (length (filter (bit w) [0..<8]))"

definition add_flags :: "'a::len word \<Rightarrow> 'a word \<Rightarrow> bool \<Rightarrow> oszapc_flags" where
  "add_flags a b c =
    (let r = a + b + of_bool c; n = LENGTH('a); s = sint a + sint b + of_bool c
     in \<lparr>fOF = \<not> (- (2 ^ (n - 1)) \<le> s \<and> s < 2 ^ (n - 1)), fSF = bit r (n - 1), fZF = (r = 0),
         fAF = 16 \<le> uint a mod 16 + uint b mod 16 + of_bool c, fPF = even_parity8 r,
         fCF = 2 ^ n \<le> uint a + uint b + of_bool c\<rparr>)"

definition sub_flags :: "'a::len word \<Rightarrow> 'a word \<Rightarrow> bool \<Rightarrow> oszapc_flags" where
  "sub_flags a b c =
    (let r = a - (b + of_bool c); n = LENGTH('a); s = sint a - sint b - of_bool c
     in \<lparr>fOF = \<not> (- (2 ^ (n - 1)) \<le> s \<and> s < 2 ^ (n - 1)), fSF = bit r (n - 1), fZF = (r = 0),
         fAF = uint a mod 16 < uint b mod 16 + of_bool c, fPF = even_parity8 r,
         fCF = uint a < uint b + of_bool c\<rparr>)"

definition logic_flags :: "'a::len word \<Rightarrow> oszapc_flags" where
  "logic_flags r = \<lparr>fOF = False, fSF = bit r (LENGTH('a) - 1), fZF = (r = 0),
                    fAF = False, fPF = even_parity8 r, fCF = False\<rparr>"

section \<open>Flags as bits\<close>

lemma drop_bit_and_1: "drop_bit n w AND 1 = of_bool (bit w n)" for w :: "'a::len word"
  by (simp add: and_one_eq mod_2_eq_odd bit_iff_odd_drop_bit)

lemma of_bool_word_eq_0 [simp]: "(of_bool b :: 'a::len word) = 0 \<longleftrightarrow> \<not> b"
  by simp

lemma ucast_of_bool [simp]: "(ucast (of_bool b :: 'a::len word) :: 'b::len word) = of_bool b"
  by (cases b) simp_all

lemma bit_add_exp30: "bit (a + ucast (push_bit 30 (1 :: 32 word)) :: 64 word) 31 \<longleftrightarrow> (bit a 31 \<noteq> bit a 30)"
proof -
  have "\<not> carry_in (uint a) (2 ^ 30) False 30"
    using take_bit_int_less_exp [of 30 "uint a"] by (simp add: carry_in_def not_le)
  moreover have "bit (2 ^ 30 :: int) 30" "\<not> bit (2 ^ 30 :: int) 31"
    by (simp_all add: bit_exp_iff)
  ultimately have "carry_in (uint a) (2 ^ 30) False 31 \<longleftrightarrow> bit a 30"
    using carry_in_Suc [of "uint a" "2 ^ 30" False 30] by (simp add: bit_uint_iff numeral_eq_Suc)
  then show ?thesis
    using bit_word_add_carry [of 31 a "ucast (push_bit 30 (1 :: 32 word))" False] by simp
qed

lemma getB_OF_bit [lazy_simps]: "getB_OF e = of_bool (bit (lf_auxbits e) 31 \<noteq> bit (lf_auxbits e) 30)"
  unfolding getB_OF_def LF_BIT_defs by (simp only: drop_bit_and_1 bit_add_exp30 ucast_of_bool)

lemma getB_SF_bit [lazy_simps]: "getB_SF e = of_bool (bit (lf_result e) 63 \<noteq> bit (lf_auxbits e) 0)"
  unfolding getB_SF_def LF_BIT_defs
  by (simp only: drop_bit_xor [symmetric] drop_bit_and_1 ucast_of_bool drop_bit_0 id_apply)
    (simp add: bit_xor_iff bit_drop_bit_eq and_one_eq mod_2_eq_odd flip: bit_0)

lemma getB_AF_bit [lazy_simps]: "getB_AF e = of_bool (bit (lf_auxbits e) 3)"
  unfolding getB_AF_def LF_BIT_defs by (simp only: drop_bit_and_1 ucast_of_bool)

lemma getB_CF_bit [lazy_simps]: "getB_CF e = of_bool (bit (lf_auxbits e) 31)"
  unfolding getB_CF_def LF_BIT_defs by (simp only: drop_bit_and_1 ucast_of_bool)

lemma getB_ZF_bit [lazy_simps]: "getB_ZF e = of_bool (lf_result e = 0)"
  by (auto simp: getB_ZF_def)

text \<open>Parity: the table constant \<open>0x9669\<close> has bit \<open>t\<close> set exactly when the nibble \<open>t\<close> has even parity.\<close>

lemma even_length_filter_Cons:
  "even (length (filter P (x # xs))) \<longleftrightarrow> (P x \<noteq> even (length (filter P xs)))"
  by simp

lemma parity_fold:
  "((a0 \<noteq> a4) = ((a1 \<noteq> a5) = ((a2 \<noteq> a6) = (a3 \<noteq> a7)))) \<longleftrightarrow>
   (a0 \<noteq> (a1 \<noteq> (a2 \<noteq> (a3 \<noteq> (a4 \<noteq> (a5 \<noteq> (a6 \<noteq> (a7 \<noteq> True))))))))"
  by (cases a0; cases a1; cases a2; cases a3; simp) (cases a4; cases a5; cases a6; simp)+

lemma low_byte: "255 AND w = take_bit 8 w" for w :: "'a::len word"
  by (simp add: take_bit_eq_mask mask_eq_exp_minus_1 and.commute)

lemma nibble_bits:
  "t AND 0x0F = of_bool (bit t 0) + 2 * of_bool (bit t 1) + 4 * of_bool (bit t 2) + 8 * of_bool (bit t 3)"
  for t :: Bit32u
proof -
  have T: "take_bit (n + 1) (uint t) = 2 ^ n * of_bool (bit t n) + take_bit n (uint t)" if "n < 32" for n
    using that by (simp add: take_bit_Suc_from_most bit_uint_iff)
  have "t AND 0x0F = take_bit 4 t"
    by (simp add: take_bit_eq_mask mask_eq_exp_minus_1)
  also have "\<dots> = word_of_int (take_bit 4 (uint t))"
    by (simp flip: unsigned_take_bit_eq)
  also have "take_bit 4 (uint t) = of_bool (bit t 0) + 2 * of_bool (bit t 1)
      + 4 * of_bool (bit t 2) + 8 * of_bool (bit t 3)"
    using T [of 3] T [of 2] T [of 1] T [of 0] by (simp add: eval_nat_numeral)
  finally show ?thesis by simp
qed

lemma parity_table: "drop_bit (unat (t AND 0x0F)) 0x9669 AND 1 =
  (of_bool (bit t 0 = (bit t 1 = (bit t 2 = bit t 3))) :: Bit32u)" for t :: Bit32u
  unfolding nibble_bits
  by (cases "bit t 0"; cases "bit t 1"; cases "bit t 2"; cases "bit t 3") simp_all

lemma getB_PF_bit [lazy_simps]:
  "getB_PF e = of_bool (even (length (filter (\<lambda>n. bit (lf_result e) n \<noteq> bit (lf_auxbits e) (n + 8)) [0..<8])))"
proof -
  let ?P = "\<lambda>n. bit (lf_result e) n \<noteq> bit (lf_auxbits e) (n + 8)"
  define t where "t = (ucast (255 AND lf_result e) :: Bit32u) XOR ucast (255 AND drop_bit 8 (lf_auxbits e))"
  have t: "bit t n \<longleftrightarrow> n < 8 \<and> ?P n" for n
    by (auto simp: t_def low_byte bit_xor_iff bit_ucast_iff bit_take_bit_iff bit_drop_bit_eq add.commute)
  have x: "bit (t XOR drop_bit 4 t) n \<longleftrightarrow> (?P n \<noteq> ?P (4 + n))" if "n < 4" for n
    using that by (simp add: bit_xor_iff bit_drop_bit_eq t)
  have "getB_PF e = of_bool (bit (t XOR drop_bit 4 t) 0 = (bit (t XOR drop_bit 4 t) 1 =
      (bit (t XOR drop_bit 4 t) 2 = bit (t XOR drop_bit 4 t) 3)))"
    by (simp add: getB_PF_def Let_def LF_BIT_defs t_def parity_table)
  also have "\<dots> = of_bool (even (length (filter ?P [0, 1, 2, 3, 4, 5, 6, 7])))"
    by (simp only: x zero_less_numeral one_less_numeral_iff numeral_less_iff num.size semiring_norm
        add_0_right numeral_plus_one numeral_plus_numeral even_length_filter_Cons parity_fold)
      (simp only: list.size filter.simps even_zero)
  also have "[0, 1, 2, 3, 4, 5, 6, 7] = [0..<8]"
    by (simp add: upt_rec)
  finally show ?thesis .
qed

section \<open>Setters change exactly one flag\<close>

text \<open>Bits of an auxiliary word after each setter.\<close>

lemma bit_255: "bit (255 :: 'a::len word) n \<longleftrightarrow> n < LENGTH('a) \<and> n < 8"
proof -
  have "(255 :: 'a word) = mask 8" by (simp add: mask_eq_exp_minus_1)
  then show ?thesis by (auto simp only: bit_mask_iff possible_bit_word)
qed

lemma bit_LF_MASK:
  "bit LF_MASK_SD n \<longleftrightarrow> n = 0" "bit LF_MASK_AF n \<longleftrightarrow> n = 3" "bit LF_MASK_CF n \<longleftrightarrow> n = 31"
  "bit LF_MASK_PO n \<longleftrightarrow> n = 30" "bit LF_MASK_PDB n \<longleftrightarrow> 8 \<le> n \<and> n < 16"
  unfolding LF_MASK_defs LF_BIT_defs bit_push_bit_iff bit_1_iff bit_255 by auto

lemmas lf_bit_rules = bit_and_iff bit_or_iff bit_xor_iff bit_not_iff bit_push_bit_iff bit_drop_bit_eq
  bit_ucast_iff bit_take_bit_iff bit_of_bool_iff bit_LF_MASK bit_1_iff

lemma aux_set_flags_OxxxxC:
  "bit (lf_auxbits (set_flags_OxxxxC (of_bool ov) (of_bool cv) e)) n \<longleftrightarrow>
    (if n = 31 then cv else if n = 30 then ov \<noteq> cv else n < 30 \<and> bit (lf_auxbits e) n)"
  by (auto simp: set_flags_OxxxxC_def LF_BIT_defs Let_def lf_bit_rules not_less)

lemma result_set_flags_OxxxxC [simp]: "lf_result (set_flags_OxxxxC ov cv e) = lf_result e"
  by (simp add: set_flags_OxxxxC_def Let_def)

lemma aux_set_AF:
  "bit (lf_auxbits (set_AF v e)) n \<longleftrightarrow> (if n = 3 then v else n < 32 \<and> bit (lf_auxbits e) n)"
  by (auto simp: set_AF_def LF_BIT_defs Let_def lf_bit_rules not_less)

lemma aux_set_SF:
  "bit (lf_auxbits (set_SF v e)) n \<longleftrightarrow>
    (bit (lf_auxbits e) n \<noteq> (n = 0 \<and> (getB_SF e \<noteq> 0) \<noteq> v))"
  by (auto simp: set_SF_def LF_BIT_defs Let_def lf_bit_rules)

lemma aux_assert_ZF:
  "bit (lf_auxbits (assert_ZF e)) n \<longleftrightarrow>
    (bit (lf_auxbits e) n \<noteq>
      (n = 0 \<and> bit (lf_result e) 63 \<or> 8 \<le> n \<and> n < 16 \<and> bit (lf_result e) (n - 8)))"
  by (auto simp: assert_ZF_def LF_BIT_defs Let_def low_byte drop_bit_and_1 lf_bit_rules)

lemma aux_set_PF:
  "bit (lf_auxbits (set_PF v e)) n \<longleftrightarrow>
    (if 8 \<le> n \<and> n < 16 then bit (lf_result e) (n - 8) \<noteq> (n = 8 \<and> \<not> v)
     else n < 32 \<and> bit (lf_auxbits e) n)"
  by (auto simp: set_PF_def LF_BIT_defs Let_def low_byte lf_bit_rules)

lemma result_setters [simp]:
  "lf_result (set_OF v e) = lf_result e" "lf_result (set_SF v e) = lf_result e"
  "lf_result (set_AF v e) = lf_result e" "lf_result (set_PF v e) = lf_result e"
  "lf_result (set_CF v e) = lf_result e" "lf_result (assert_ZF e) = 0"
  "lf_result (clear_ZF e) = lf_result e OR 256" "lf_auxbits (clear_ZF e) = lf_auxbits e"
  by (simp_all add: set_OF_def set_SF_def set_AF_def set_PF_def set_CF_def assert_ZF_def clear_ZF_def Let_def)

definition lf_parity :: "bx_lazyflags_entry \<Rightarrow> bool" where
  "lf_parity e \<longleftrightarrow> even (length (filter (\<lambda>n. bit (lf_result e) n \<noteq> bit (lf_auxbits e) (n + 8)) [0..<8]))"

lemma flags_of_bits:
  "flags_of e = \<lparr>fOF = bit (lf_auxbits e) 31 \<noteq> bit (lf_auxbits e) 30,
    fSF = bit (lf_result e) 63 \<noteq> bit (lf_auxbits e) 0, fZF = (lf_result e = 0),
    fAF = bit (lf_auxbits e) 3, fPF = lf_parity e, fCF = bit (lf_auxbits e) 31\<rparr>"
  by (simp add: flags_of_def lazy_simps lf_parity_def)

lemma lf_parity_cong:
  assumes "\<And>n. n < 8 \<Longrightarrow> (bit (lf_result e) n \<noteq> bit (lf_auxbits e) (n + 8)) =
    (bit (lf_result e') n \<noteq> bit (lf_auxbits e') (n + 8))"
  shows "lf_parity e = lf_parity e'"
proof -
  have "filter (\<lambda>n. bit (lf_result e) n \<noteq> bit (lf_auxbits e) (n + 8)) [0..<8]
    = filter (\<lambda>n. bit (lf_result e') n \<noteq> bit (lf_auxbits e') (n + 8)) [0..<8]"
    using assms by (intro filter_cong) auto
  then show ?thesis by (simp add: lf_parity_def)
qed

lemma lf_parity_setters [simp]:
  "lf_parity (set_flags_OxxxxC (of_bool ov) (of_bool cv) e) = lf_parity e"
  "lf_parity (set_SF v e) = lf_parity e" "lf_parity (set_AF v e) = lf_parity e"
  "lf_parity (set_ZF v e) = lf_parity e"
proof -
  show "lf_parity (set_flags_OxxxxC (of_bool ov) (of_bool cv) e) = lf_parity e"
    by (rule lf_parity_cong) (simp add: aux_set_flags_OxxxxC)
  show "lf_parity (set_SF v e) = lf_parity e"
    by (rule lf_parity_cong) (simp add: aux_set_SF)
  show "lf_parity (set_AF v e) = lf_parity e"
    by (rule lf_parity_cong) (simp add: aux_set_AF)
  have b: "bit (lf_result e OR 256) n = bit (lf_result e) n" if "n < 8" for n
    using that bit_push_bit_iff [of 8 "1 :: 64 word" n] by (simp add: bit_or_iff)
  show "lf_parity (set_ZF v e) = lf_parity e"
    by (rule lf_parity_cong) (auto simp: set_ZF_def aux_assert_ZF b)
qed

lemma lf_parity_set_PF [simp]: "lf_parity (set_PF v e) = v"
proof -
  have "filter (\<lambda>n. bit (lf_result (set_PF v e)) n \<noteq> bit (lf_auxbits (set_PF v e)) (n + 8)) [0..<8]
    = filter (\<lambda>n. n = 0 \<and> \<not> v) [0..<8]"
    by (intro filter_cong) (auto simp: aux_set_PF)
  also have "\<dots> = (if v then [] else [0])" by (simp add: upt_rec)
  finally show ?thesis by (simp add: lf_parity_def)
qed

lemma flags_set_flags_OxxxxC:
  "flags_of (set_flags_OxxxxC (of_bool ov) (of_bool cv) e) = (flags_of e)\<lparr>fOF := ov, fCF := cv\<rparr>"
  by (auto simp: flags_of_bits aux_set_flags_OxxxxC)

lemma flags_assert_OxxxxC:
  "flags_of (assert_flags_OxxxxC e) = (flags_of e)\<lparr>fOF := True, fCF := True\<rparr>"
  using flags_set_flags_OxxxxC [of True True e] by (simp add: assert_flags_OxxxxC_def)

lemma getB_flags:
  "getB_OF e = of_bool (fOF (flags_of e))" "getB_SF e = of_bool (fSF (flags_of e))"
  "getB_ZF e = of_bool (fZF (flags_of e))" "getB_AF e = of_bool (fAF (flags_of e))"
  "getB_PF e = of_bool (fPF (flags_of e))" "getB_CF e = of_bool (fCF (flags_of e))"
  by (simp_all add: flags_of_bits lazy_simps lf_parity_def)

lemma flags_setters:
  "flags_of (set_OF v e) = (flags_of e)\<lparr>fOF := v\<rparr>" "flags_of (set_SF v e) = (flags_of e)\<lparr>fSF := v\<rparr>"
  "flags_of (set_ZF v e) = (flags_of e)\<lparr>fZF := v\<rparr>" "flags_of (set_AF v e) = (flags_of e)\<lparr>fAF := v\<rparr>"
  "flags_of (set_PF v e) = (flags_of e)\<lparr>fPF := v\<rparr>" "flags_of (set_CF v e) = (flags_of e)\<lparr>fCF := v\<rparr>"
proof -
  show "flags_of (set_OF v e) = (flags_of e)\<lparr>fOF := v\<rparr>"
    by (simp add: set_OF_def flags_set_flags_OxxxxC) (simp add: flags_of_def)
  show "flags_of (set_CF v e) = (flags_of e)\<lparr>fCF := v\<rparr>"
    by (simp add: set_CF_def flags_set_flags_OxxxxC) (simp add: flags_of_def)
  show "flags_of (set_SF v e) = (flags_of e)\<lparr>fSF := v\<rparr>"
    by (auto simp: flags_of_bits aux_set_SF lazy_simps)
  show "flags_of (set_AF v e) = (flags_of e)\<lparr>fAF := v\<rparr>"
    by (auto simp: flags_of_bits aux_set_AF)
  show "flags_of (set_PF v e) = (flags_of e)\<lparr>fPF := v\<rparr>"
    by (auto simp: flags_of_bits aux_set_PF)
  have or: "bit (w OR 256 :: 64 word) 63 = bit w 63" "(w OR 256 :: 64 word) \<noteq> 0" for w
  proof -
    show "bit (w OR 256 :: 64 word) 63 = bit w 63" by (simp add: bit_or_iff)
    have "bit (w OR 256 :: 64 word) 8" by (simp add: bit_or_iff)
    then show "(w OR 256 :: 64 word) \<noteq> 0" by (metis bit_0_eq bot_apply bot_bool_def)
  qed
  show "flags_of (set_ZF v e) = (flags_of e)\<lparr>fZF := v\<rparr>"
    using lf_parity_setters(4) [of v e]
    by (auto simp: flags_of_bits set_ZF_def aux_assert_ZF or)
qed

section \<open>Flags set from carries and a result\<close>

lemma signed_take_bit_eq_0_iff:
  "signed_take_bit k w = 0 \<longleftrightarrow> take_bit (Suc k) w = 0" if "k < LENGTH('a)" for w :: "'a::len word"
proof
  assume "signed_take_bit k w = 0"
  then have "take_bit (Suc k) (signed_take_bit k w) = 0" by simp
  then show "take_bit (Suc k) w = 0" by (simp add: take_bit_signed_take_bit)
next
  assume "take_bit (Suc k) w = 0"
  then have z: "\<not> bit w n" if "n \<le> k" for n
    using that bit_take_bit_iff [of "Suc k" w n] by simp
  show "signed_take_bit k w = 0"
    by (rule bit_eqI) (simp add: bit_signed_take_bit_iff z)
qed

lemma aux_carry_temp:
  assumes "sz \<in> {8, 16, 32, 64}"
  shows "bit (lf_carry_temp sz c) 31 \<longleftrightarrow> bit c (sz - 1)" "bit (lf_carry_temp sz c) 30 \<longleftrightarrow> bit c (sz - 2)"
    "bit (lf_carry_temp sz c) 3 \<longleftrightarrow> bit c 3" "\<not> bit (lf_carry_temp sz c) 0"
    "8 \<le> n \<Longrightarrow> n < 16 \<Longrightarrow> \<not> bit (lf_carry_temp sz c) n"
  using assms by (auto simp: lf_carry_temp_def Let_def LF_BIT_defs lf_bit_rules)

lemma flags_SET_FLAGS_OSZAPC_SIZE:
  assumes sz: "sz \<in> {8, 16, 32, 64}"
  shows "flags_of (SET_FLAGS_OSZAPC_SIZE sz c r e) =
    \<lparr>fOF = bit c (sz - 1) \<noteq> bit c (sz - 2), fSF = bit r (sz - 1), fZF = (take_bit sz r = 0),
     fAF = bit c 3, fPF = even_parity8 r, fCF = bit c (sz - 1)\<rparr>"
proof -
  have "lf_parity (SET_FLAGS_OSZAPC_SIZE sz c r e) = lf_parity \<lparr>lf_result = r, lf_auxbits = 0\<rparr>"
    using sz by (intro lf_parity_cong [of "SET_FLAGS_OSZAPC_SIZE sz c r e"])
      (auto simp: SET_FLAGS_OSZAPC_SIZE_def bit_ucast_iff aux_carry_temp bit_signed_take_bit_iff)
  moreover have "lf_parity \<lparr>lf_result = r, lf_auxbits = 0\<rparr> = even_parity8 r"
    by (simp add: lf_parity_def even_parity8_def)
  moreover have "signed_take_bit (sz - 1) r = 0 \<longleftrightarrow> take_bit sz r = 0"
    using sz by (auto simp: signed_take_bit_eq_0_iff)
  ultimately show ?thesis
    using sz by (simp add: flags_of_bits) (auto simp: SET_FLAGS_OSZAPC_SIZE_def bit_ucast_iff
        aux_carry_temp bit_signed_take_bit_iff)
qed

lemma flags_SET_FLAGS_OSZAP_SIZE:
  assumes sz: "sz \<in> {8, 16, 32, 64}"
  shows "flags_of (SET_FLAGS_OSZAP_SIZE sz c r e) =
    \<lparr>fOF = bit c (sz - 1) \<noteq> bit c (sz - 2), fSF = bit r (sz - 1), fZF = (take_bit sz r = 0),
     fAF = bit c 3, fPF = even_parity8 r, fCF = fCF (flags_of e)\<rparr>"
proof -
  let ?s = "SET_FLAGS_OSZAP_SIZE sz c r e" and ?t = "lf_carry_temp sz c"
  have aux: "bit (lf_auxbits ?s) n \<longleftrightarrow> n < 32 \<and> (bit ?t n \<noteq>
      ((n = 31 \<or> n = 30) \<and> bit (lf_auxbits e) 31 \<noteq> bit ?t 31))" for n
    by (auto simp: SET_FLAGS_OSZAP_SIZE_def Let_def lf_bit_rules)
  have res: "lf_result ?s = signed_take_bit (sz - 1) r"
    by (simp add: SET_FLAGS_OSZAP_SIZE_def Let_def)
  have "lf_parity ?s = lf_parity \<lparr>lf_result = r, lf_auxbits = 0\<rparr>"
    using sz by (intro lf_parity_cong [of ?s]) (auto simp: aux res aux_carry_temp bit_signed_take_bit_iff)
  moreover have "lf_parity \<lparr>lf_result = r, lf_auxbits = 0\<rparr> = even_parity8 r"
    by (simp add: lf_parity_def even_parity8_def)
  moreover have "signed_take_bit (sz - 1) r = 0 \<longleftrightarrow> take_bit sz r = 0"
    using sz by (auto simp: signed_take_bit_eq_0_iff)
  ultimately show ?thesis
    using sz by (simp add: flags_of_bits aux res) (auto simp: aux_carry_temp bit_signed_take_bit_iff)
qed

section \<open>The lazy representation implements the architectural flags\<close>

text \<open>
  The operands of an 8- or 16-bit instruction are held in 32-bit variables, and the sum keeps bits
  beyond the operand size. Only the low bits matter: the carry vector is computed bit by bit, so its
  low bits are the carries of the narrow addition.
\<close>

lemma bit_ADD_COUT_VEC:
  fixes a b :: "'b::len word"
  assumes "n < LENGTH('b)"
  shows "bit (ADD_COUT_VEC a b (a + b + of_bool c)) n \<longleftrightarrow> carry_in (uint a) (uint b) c (Suc n)"
  using assms
  by (auto simp: ADD_COUT_VEC_def bit_and_iff bit_or_iff bit_not_iff bit_word_add_carry carry_in_Suc
      bit_uint_iff)

lemma bit_SUB_COUT_VEC:
  fixes a b :: "'b::len word"
  assumes "n < LENGTH('b)"
  shows "bit (SUB_COUT_VEC a b (a - (b + of_bool c))) n \<longleftrightarrow> borrow_in (uint a) (uint b) c (Suc n)"
  using assms
  by (auto simp: SUB_COUT_VEC_def bit_and_iff bit_or_iff bit_xor_iff bit_not_iff bit_word_sub_borrow
      borrow_in_Suc bit_uint_iff)

lemma wide_result_flags:
  fixes r :: "'a::len word" and s :: "'b::len word"
  assumes "LENGTH('a) \<le> LENGTH('b)" "LENGTH('a) \<le> 64" "8 \<le> LENGTH('a)"
    and b: "\<And>n. n < LENGTH('a) \<Longrightarrow> bit s n = bit r n"
  shows "bit (ucast s :: 64 word) (LENGTH('a) - 1) = bit r (LENGTH('a) - 1)"
    "take_bit LENGTH('a) (ucast s :: 64 word) = 0 \<longleftrightarrow> r = 0"
    "even_parity8 (ucast s :: 64 word) = even_parity8 r"
proof -
  have u: "bit (ucast s :: 64 word) n = bit r n" if "n < LENGTH('a)" for n
    using that assms by (simp add: bit_ucast_iff)
  then show "bit (ucast s :: 64 word) (LENGTH('a) - 1) = bit r (LENGTH('a) - 1)" by simp
  show "take_bit LENGTH('a) (ucast s :: 64 word) = 0 \<longleftrightarrow> r = 0"
  proof
    assume "take_bit LENGTH('a) (ucast s :: 64 word) = 0"
    then have "\<not> bit (take_bit LENGTH('a) (ucast s :: 64 word)) n" for n by simp
    then show "r = 0" by (intro bit_word_eqI) (simp add: bit_take_bit_iff u)
  next
    assume "r = 0"
    then show "take_bit LENGTH('a) (ucast s :: 64 word) = 0"
      by (intro bit_word_eqI) (use u in \<open>auto simp: bit_take_bit_iff\<close>)
  qed
  have "filter (bit (ucast s :: 64 word)) [0..<8] = filter (bit r) [0..<8]"
    using assms(3) by (intro filter_cong) (auto simp: u)
  then show "even_parity8 (ucast s :: 64 word) = even_parity8 r"
    by (simp add: even_parity8_def)
qed

lemma add_flags_alt:
  fixes a b :: "'a::len word"
  assumes "LENGTH('a) = Suc m" "3 \<le> m"
  shows "add_flags a b c =
    \<lparr>fOF = carry_in (uint a) (uint b) c (Suc m) \<noteq> carry_in (uint a) (uint b) c m,
     fSF = bit (a + b + of_bool c) m, fZF = (a + b + of_bool c = 0),
     fAF = carry_in (uint a) (uint b) c 4, fPF = even_parity8 (a + b + of_bool c),
     fCF = carry_in (uint a) (uint b) c (Suc m)\<rparr>"
  using carry_overflow [OF assms(1), of a b c] carry_in_length [of a b c] assms
  by (simp add: add_flags_def Let_def) (simp add: carry_in_def take_bit_eq_mod)

lemma sub_flags_alt:
  fixes a b :: "'a::len word"
  assumes "LENGTH('a) = Suc m" "3 \<le> m"
  shows "sub_flags a b c =
    \<lparr>fOF = borrow_in (uint a) (uint b) c (Suc m) \<noteq> borrow_in (uint a) (uint b) c m,
     fSF = bit (a - (b + of_bool c)) m, fZF = (a - (b + of_bool c) = 0),
     fAF = borrow_in (uint a) (uint b) c 4, fPF = even_parity8 (a - (b + of_bool c)),
     fCF = borrow_in (uint a) (uint b) c (Suc m)\<rparr>"
  using borrow_overflow [OF assms(1), of a b c] borrow_in_length [of a b c] assms
  by (simp add: sub_flags_def Let_def) (simp add: borrow_in_def take_bit_eq_mod)


lemma add_carries_low:
  fixes x y s :: "'b::len word" and c :: bool
  assumes sz: "LENGTH('a::len) \<in> {8, 16, 32, 64}" and le: "LENGTH('a) \<le> LENGTH('b)"
    and s: "(ucast s :: 'a word) = ucast x + ucast y + of_bool c"
  defines "v \<equiv> ucast (ADD_COUT_VEC x y s) :: 64 word"
  shows "\<lparr>fOF = bit v (LENGTH('a) - 1) \<noteq> bit v (LENGTH('a) - 2),
          fSF = bit (ucast s :: 64 word) (LENGTH('a) - 1),
          fZF = (take_bit LENGTH('a) (ucast s :: 64 word) = 0),
          fAF = bit v 3, fPF = even_parity8 (ucast s :: 64 word), fCF = bit v (LENGTH('a) - 1)\<rparr>
    = add_flags (ucast x :: 'a word) (ucast y) c"
proof -
  let ?x = "ucast x :: 'a word" and ?y = "ucast y :: 'a word" and ?s = "ucast s :: 'a word"
  obtain m where m: "LENGTH('a) = Suc m" "3 \<le> m" "m < 64" using sz by auto
  have C: "bit v n \<longleftrightarrow> carry_in (uint ?x) (uint ?y) c (Suc n)" if "n \<le> m" for n
  proof -
    have "bit v n \<longleftrightarrow> bit (ADD_COUT_VEC ?x ?y ?s) n"
      using that m le by (auto simp: v_def ADD_COUT_VEC_def bit_and_iff bit_or_iff bit_xor_iff bit_not_iff bit_ucast_iff)
    then show ?thesis using that m by (simp add: s bit_ADD_COUT_VEC)
  qed
  have S: "bit s n = bit ?s n" if "n < LENGTH('a)" for n
    using that by (simp add: bit_ucast_iff)
  have w: "LENGTH('a) \<le> 64" "8 \<le> LENGTH('a)" using sz by auto
  obtain k where k: "m = Suc k" using m by (cases m) auto
  show ?thesis
    using add_flags_alt [OF m(1,2), of ?x ?y c] m wide_result_flags [OF le w S] C [of 3] C [of k] C [of m] k
    by (simp add: s)
qed

lemma sub_borrows_low:
  fixes x y s :: "'b::len word" and c :: bool
  assumes sz: "LENGTH('a::len) \<in> {8, 16, 32, 64}" and le: "LENGTH('a) \<le> LENGTH('b)"
    and s: "(ucast s :: 'a word) = ucast x - (ucast y + of_bool c)"
  defines "v \<equiv> ucast (SUB_COUT_VEC x y s) :: 64 word"
  shows "\<lparr>fOF = bit v (LENGTH('a) - 1) \<noteq> bit v (LENGTH('a) - 2),
          fSF = bit (ucast s :: 64 word) (LENGTH('a) - 1),
          fZF = (take_bit LENGTH('a) (ucast s :: 64 word) = 0),
          fAF = bit v 3, fPF = even_parity8 (ucast s :: 64 word), fCF = bit v (LENGTH('a) - 1)\<rparr>
    = sub_flags (ucast x :: 'a word) (ucast y) c"
proof -
  let ?x = "ucast x :: 'a word" and ?y = "ucast y :: 'a word" and ?s = "ucast s :: 'a word"
  obtain m where m: "LENGTH('a) = Suc m" "3 \<le> m" "m < 64" using sz by auto
  have C: "bit v n \<longleftrightarrow> borrow_in (uint ?x) (uint ?y) c (Suc n)" if "n \<le> m" for n
  proof -
    have "bit v n \<longleftrightarrow> bit (SUB_COUT_VEC ?x ?y ?s) n"
      using that m le by (auto simp: v_def SUB_COUT_VEC_def bit_and_iff bit_or_iff bit_xor_iff bit_not_iff bit_ucast_iff)
    then show ?thesis using that m by (simp add: s bit_SUB_COUT_VEC)
  qed
  have S: "bit s n = bit ?s n" if "n < LENGTH('a)" for n
    using that by (simp add: bit_ucast_iff)
  have w: "LENGTH('a) \<le> 64" "8 \<le> LENGTH('a)" using sz by auto
  obtain k where k: "m = Suc k" using m by (cases m) auto
  show ?thesis
    using sub_flags_alt [OF m(1,2), of ?x ?y c] m wide_result_flags [OF le w S] C [of 3] C [of k] C [of m] k
    by (simp add: s)
qed

lemma size_members: "8 \<in> {8, 16, 32, 64 :: nat}" "16 \<in> {8, 16, 32, 64 :: nat}"
  "32 \<in> {8, 16, 32, 64 :: nat}" "64 \<in> {8, 16, 32, 64 :: nat}"
  by simp_all

lemmas SET_FLAGS_flags = SET_FLAGS_defs
  flags_SET_FLAGS_OSZAPC_SIZE [OF size_members(1)] flags_SET_FLAGS_OSZAPC_SIZE [OF size_members(2)]
  flags_SET_FLAGS_OSZAPC_SIZE [OF size_members(3)] flags_SET_FLAGS_OSZAPC_SIZE [OF size_members(4)]
  flags_SET_FLAGS_OSZAP_SIZE [OF size_members(1)] flags_SET_FLAGS_OSZAP_SIZE [OF size_members(2)]
  flags_SET_FLAGS_OSZAP_SIZE [OF size_members(3)] flags_SET_FLAGS_OSZAP_SIZE [OF size_members(4)]

lemma flags_ADD:
  "(ucast s8 :: 8 word) = ucast x8 + ucast y8 + of_bool c \<Longrightarrow> flags_of (SET_FLAGS_OSZAPC_ADD_8 x8 y8 s8 e) = add_flags (ucast x8 :: 8 word) (ucast y8) c"
  "(ucast s16 :: 16 word) = ucast x16 + ucast y16 + of_bool c \<Longrightarrow> flags_of (SET_FLAGS_OSZAPC_ADD_16 x16 y16 s16 e) = add_flags (ucast x16 :: 16 word) (ucast y16) c"
  "s32 = x32 + y32 + of_bool c \<Longrightarrow> flags_of (SET_FLAGS_OSZAPC_ADD_32 x32 y32 s32 e) = add_flags x32 y32 c"
  "s64 = x64 + y64 + of_bool c \<Longrightarrow> flags_of (SET_FLAGS_OSZAPC_ADD_64 x64 y64 s64 e) = add_flags x64 y64 c"
  using add_carries_low [where 'a = 8 and 'b = 32 and x = x8 and y = y8 and s = s8 and c = c]
    add_carries_low [where 'a = 16 and 'b = 32 and x = x16 and y = y16 and s = s16 and c = c]
    add_carries_low [where 'a = 32 and 'b = 32 and x = x32 and y = y32 and s = s32 and c = c]
    add_carries_low [where 'a = 64 and 'b = 64 and x = x64 and y = y64 and s = s64 and c = c]
  by (simp_all add: SET_FLAGS_flags)

lemma flags_SUB:
  "(ucast s8 :: 8 word) = ucast x8 - (ucast y8 + of_bool c) \<Longrightarrow> flags_of (SET_FLAGS_OSZAPC_SUB_8 x8 y8 s8 e) = sub_flags (ucast x8 :: 8 word) (ucast y8) c"
  "(ucast s16 :: 16 word) = ucast x16 - (ucast y16 + of_bool c) \<Longrightarrow> flags_of (SET_FLAGS_OSZAPC_SUB_16 x16 y16 s16 e) = sub_flags (ucast x16 :: 16 word) (ucast y16) c"
  "s32 = x32 - (y32 + of_bool c) \<Longrightarrow> flags_of (SET_FLAGS_OSZAPC_SUB_32 x32 y32 s32 e) = sub_flags x32 y32 c"
  "s64 = x64 - (y64 + of_bool c) \<Longrightarrow> flags_of (SET_FLAGS_OSZAPC_SUB_64 x64 y64 s64 e) = sub_flags x64 y64 c"
  using sub_borrows_low [where 'a = 8 and 'b = 32 and x = x8 and y = y8 and s = s8 and c = c]
    sub_borrows_low [where 'a = 16 and 'b = 32 and x = x16 and y = y16 and s = s16 and c = c]
    sub_borrows_low [where 'a = 32 and 'b = 32 and x = x32 and y = y32 and s = s32 and c = c]
    sub_borrows_low [where 'a = 64 and 'b = 64 and x = x64 and y = y64 and s = s64 and c = c]
  by (simp_all add: SET_FLAGS_flags)

lemma flags_OSZAP:
  "flags_of (SET_FLAGS_OSZAP_ADD_8 x8 y8 s8 e) =
    (flags_of (SET_FLAGS_OSZAPC_ADD_8 x8 y8 s8 e))\<lparr>fCF := fCF (flags_of e)\<rparr>"
  "flags_of (SET_FLAGS_OSZAP_ADD_16 x16 y16 s16 e) =
    (flags_of (SET_FLAGS_OSZAPC_ADD_16 x16 y16 s16 e))\<lparr>fCF := fCF (flags_of e)\<rparr>"
  "flags_of (SET_FLAGS_OSZAP_ADD_32 x32 y32 s32 e) =
    (flags_of (SET_FLAGS_OSZAPC_ADD_32 x32 y32 s32 e))\<lparr>fCF := fCF (flags_of e)\<rparr>"
  "flags_of (SET_FLAGS_OSZAP_ADD_64 x64 y64 s64 e) =
    (flags_of (SET_FLAGS_OSZAPC_ADD_64 x64 y64 s64 e))\<lparr>fCF := fCF (flags_of e)\<rparr>"
  "flags_of (SET_FLAGS_OSZAP_SUB_8 x8 y8 s8 e) =
    (flags_of (SET_FLAGS_OSZAPC_SUB_8 x8 y8 s8 e))\<lparr>fCF := fCF (flags_of e)\<rparr>"
  "flags_of (SET_FLAGS_OSZAP_SUB_16 x16 y16 s16 e) =
    (flags_of (SET_FLAGS_OSZAPC_SUB_16 x16 y16 s16 e))\<lparr>fCF := fCF (flags_of e)\<rparr>"
  "flags_of (SET_FLAGS_OSZAP_SUB_32 x32 y32 s32 e) =
    (flags_of (SET_FLAGS_OSZAPC_SUB_32 x32 y32 s32 e))\<lparr>fCF := fCF (flags_of e)\<rparr>"
  "flags_of (SET_FLAGS_OSZAP_SUB_64 x64 y64 s64 e) =
    (flags_of (SET_FLAGS_OSZAPC_SUB_64 x64 y64 s64 e))\<lparr>fCF := fCF (flags_of e)\<rparr>"
  by (simp_all add: SET_FLAGS_flags)

lemmas flags_ADD0 = flags_ADD [where c = False, unfolded of_bool_eq add_0_right]
lemmas flags_SUB0 = flags_SUB [where c = False, unfolded of_bool_eq add_0_right]
lemmas flags_ADD1 = flags_ADD [where c = True, unfolded of_bool_eq]
lemmas flags_SUB1 = flags_SUB [where c = True, unfolded of_bool_eq]

lemma flags_LOGIC:
  "flags_of (SET_FLAGS_OSZAPC_LOGIC_8 (ucast r8) e) = logic_flags (r8 :: 8 word)"
  "flags_of (SET_FLAGS_OSZAPC_LOGIC_16 (ucast r16) e) = logic_flags (r16 :: 16 word)"
  "flags_of (SET_FLAGS_OSZAPC_LOGIC_32 r32 e) = logic_flags r32"
  "flags_of (SET_FLAGS_OSZAPC_LOGIC_64 r64 e) = logic_flags r64"
  using wide_result_flags [of "ucast r8 :: 32 word" r8] wide_result_flags [of "ucast r16 :: 32 word" r16]
    wide_result_flags [of r32 r32] wide_result_flags [of r64 r64]
  by (simp_all add: SET_FLAGS_flags logic_flags_def bit_ucast_iff)

lemma ucast_up_down [simp]:
  "LENGTH('a) \<le> LENGTH('b) \<Longrightarrow> (ucast (ucast x :: 'b::len word) :: 'a::len word) = x"
  by (rule bit_word_eqI) (auto simp: bit_ucast_iff)

lemma ucast_add_down:
  "LENGTH('b) \<le> LENGTH('a) \<Longrightarrow> (ucast (x + y) :: 'b::len word) = ucast x + ucast y" for x y :: "'a::len word"
  by (rule word_uint_eqI)
    (simp add: unsigned_ucast_eq uint_word_ariths take_bit_eq_mod mod_mod_cancel le_imp_power_dvd mod_simps)

lemma ucast_sub_down:
  "LENGTH('b) \<le> LENGTH('a) \<Longrightarrow> (ucast (x - y) :: 'b::len word) = ucast x - ucast y" for x y :: "'a::len word"
  by (rule word_uint_eqI)
    (simp add: unsigned_ucast_eq uint_word_ariths take_bit_eq_mod mod_mod_cancel le_imp_power_dvd mod_simps)

lemma ucast_minus_down:
  "LENGTH('b) \<le> LENGTH('a) \<Longrightarrow> (ucast (- y) :: 'b::len word) = - ucast y" for y :: "'a::len word"
  using ucast_sub_down [of 0 y] by simp

lemma add_flags_inc:
  assumes "8 \<le> LENGTH('a)"
  shows "add_flags a 0 True = add_flags (a :: 'a::len word) 1 False"
proof -
  have "sint (1 :: 'a word) = 1" "uint (1 :: 'a word) = 1"
    using assms by (simp_all add: signed_1)
  then show ?thesis by (simp add: add_flags_def Let_def)
qed

lemma sub_flags_dec:
  assumes "8 \<le> LENGTH('a)"
  shows "sub_flags a 0 True = sub_flags (a :: 'a::len word) 1 False"
proof -
  have "sint (1 :: 'a word) = 1" "uint (1 :: 'a word) = 1"
    using assms by (simp_all add: signed_1)
  then show ?thesis by (simp add: sub_flags_def Let_def)
qed

section \<open>The flags as a file of independent cells\<close>

text \<open>
  What the rest of the processor relies on when it reads and writes flags one by one: a flag reads
  back what was last written to it, whatever was done to the other five.
\<close>

locale flag_file =
  fixes get_cell :: "'f \<Rightarrow> 's \<Rightarrow> bool"
    and put_cell :: "'f \<Rightarrow> bool \<Rightarrow> 's \<Rightarrow> 's"
  assumes get_put: "get_cell f (put_cell g v s) \<longleftrightarrow> (if f = g then v else get_cell f s)"
begin

lemma put_put_same: "get_cell f (put_cell g v (put_cell g w s)) = get_cell f (put_cell g v s)"
  by (simp add: get_put)

lemma put_commute:
  "g \<noteq> h \<Longrightarrow> get_cell f (put_cell g v (put_cell h w s)) = get_cell f (put_cell h w (put_cell g v s))"
  by (simp add: get_put)

lemma get_fold_put:
  "distinct (map fst ps) \<Longrightarrow>
    get_cell f (fold (\<lambda>(g, v). put_cell g v) ps s) = (case map_of ps f of Some v \<Rightarrow> v | None \<Rightarrow> get_cell f s)"
proof (induction ps arbitrary: s)
  case Nil
  then show ?case by simp
next
  case (Cons p ps)
  obtain g v where p: "p = (g, v)" by (cases p)
  with Cons have "map_of ps g = None" by (simp add: map_of_eq_None_iff)
  with Cons p show ?case by (auto simp: get_put split: option.splits)
qed

end

datatype flag = FlagOF | FlagSF | FlagZF | FlagAF | FlagPF | FlagCF

fun getB_flag :: "flag \<Rightarrow> bx_lazyflags_entry \<Rightarrow> bool" where
  "getB_flag FlagOF e \<longleftrightarrow> getB_OF e \<noteq> 0"
| "getB_flag FlagSF e \<longleftrightarrow> getB_SF e \<noteq> 0"
| "getB_flag FlagZF e \<longleftrightarrow> getB_ZF e \<noteq> 0"
| "getB_flag FlagAF e \<longleftrightarrow> getB_AF e \<noteq> 0"
| "getB_flag FlagPF e \<longleftrightarrow> getB_PF e \<noteq> 0"
| "getB_flag FlagCF e \<longleftrightarrow> getB_CF e \<noteq> 0"

fun set_flag :: "flag \<Rightarrow> bool \<Rightarrow> bx_lazyflags_entry \<Rightarrow> bx_lazyflags_entry" where
  "set_flag FlagOF v e = set_OF v e"
| "set_flag FlagSF v e = set_SF v e"
| "set_flag FlagZF v e = set_ZF v e"
| "set_flag FlagAF v e = set_AF v e"
| "set_flag FlagPF v e = set_PF v e"
| "set_flag FlagCF v e = set_CF v e"

interpretation lazy: flag_file getB_flag set_flag
proof unfold_locales
  fix f g v e
  show "getB_flag f (set_flag g v e) \<longleftrightarrow> (if f = g then v else getB_flag f e)"
    by (cases f; cases g) (simp_all add: getB_flags flags_setters)
qed

text \<open>Every setter of the lazy flags entry writes its own flag and leaves the other five readable
  as before, although all six share the same two words.\<close>

theorem lazy_flag_set_get:
  "getB_flag f (set_flag g v e) \<longleftrightarrow> (if f = g then v else getB_flag f e)"
  by (rule lazy.get_put)

text \<open>After an addition with carry-in the lazy entry holds the architectural flags of that
  addition, at all four operand sizes: it is enough that the low bits of the stored sum are right.\<close>

theorem lazy_add_flags:
  fixes x8 y8 x16 y16 :: Bit32u
  shows "flags_of (SET_FLAGS_OSZAPC_ADD_8 x8 y8 (x8 + y8 + of_bool c) e) = add_flags (ucast x8 :: Bit8u) (ucast y8) c \<and>
    flags_of (SET_FLAGS_OSZAPC_ADD_16 x16 y16 (x16 + y16 + of_bool c) e) = add_flags (ucast x16 :: Bit16u) (ucast y16) c \<and>
    flags_of (SET_FLAGS_OSZAPC_ADD_32 x32 y32 (x32 + y32 + of_bool c) e) = add_flags x32 y32 c \<and>
    flags_of (SET_FLAGS_OSZAPC_ADD_64 x64 y64 (x64 + y64 + of_bool c) e) = add_flags x64 y64 c"
  by (intro conjI flags_ADD) (simp_all add: ucast_add_down)

text \<open>After a subtraction with borrow-in the lazy entry holds the architectural flags of that
  subtraction, at all four operand sizes.\<close>

theorem lazy_sub_flags:
  fixes x8 y8 x16 y16 :: Bit32u
  shows "flags_of (SET_FLAGS_OSZAPC_SUB_8 x8 y8 (x8 - (y8 + of_bool c)) e) = sub_flags (ucast x8 :: Bit8u) (ucast y8) c \<and>
    flags_of (SET_FLAGS_OSZAPC_SUB_16 x16 y16 (x16 - (y16 + of_bool c)) e) = sub_flags (ucast x16 :: Bit16u) (ucast y16) c \<and>
    flags_of (SET_FLAGS_OSZAPC_SUB_32 x32 y32 (x32 - (y32 + of_bool c)) e) = sub_flags x32 y32 c \<and>
    flags_of (SET_FLAGS_OSZAPC_SUB_64 x64 y64 (x64 - (y64 + of_bool c)) e) = sub_flags x64 y64 c"
  by (intro conjI flags_SUB) (simp_all add: ucast_add_down ucast_sub_down)

end
