(* ===== verification/CpuState.thy ===== *)
theory CpuState
  imports LazyFlags
begin

text \<open>
  The part of the processor state that integer instructions touch, from \<^verbatim>\<open>cpu/cpu.h\<close>: the general
  register file with its aliased 8-, 16- and 32-bit views, the stored \<open>eflags\<close> image and the lazy
  arithmetic flags, together with the macros that read and write registers and the conversion between
  lazy flags and the EFLAGS image. A decoded instruction is the record \<open>bxInstruction_c\<close> of its
  operand fields. Handlers that can raise a fault return \<open>Inl\<close> of the exception.
\<close>

section \<open>State\<close>

text \<open>
  The register array is indexed by the register number the decoder stored in the instruction; the
  model is a total function because every handler indexes it with decoder output only.
\<close>

record bx_cpu =
  gen_reg :: "nat \<Rightarrow> Bit64u"
  eflags :: Bit32u
  oszapc :: bx_lazyflags_entry

datatype Ia_opcode =
    BX_IA_ROL_Eb | BX_IA_ROR_Eb | BX_IA_RCL_Eb | BX_IA_RCR_Eb | BX_IA_SHL_Eb | BX_IA_SHR_Eb | BX_IA_SAR_Eb
  | BX_IA_ROL_Ew | BX_IA_ROR_Ew | BX_IA_RCL_Ew | BX_IA_RCR_Ew | BX_IA_SHL_Ew | BX_IA_SHR_Ew | BX_IA_SAR_Ew
  | BX_IA_ROL_Ed | BX_IA_ROR_Ed | BX_IA_RCL_Ed | BX_IA_RCR_Ed | BX_IA_SHL_Ed | BX_IA_SHR_Ed | BX_IA_SAR_Ed
  | BX_IA_ROL_Eq | BX_IA_ROR_Eq | BX_IA_RCL_Eq | BX_IA_RCR_Eq | BX_IA_SHL_Eq | BX_IA_SHR_Eq | BX_IA_SAR_Eq
  | BX_IA_SHLD_EwGw | BX_IA_SHRD_EwGw | BX_IA_SHLD_EdGd | BX_IA_SHRD_EdGd | BX_IA_SHLD_EqGq | BX_IA_SHRD_EqGq
  | BX_IA_other nat

record bxInstruction_c =
  getIaOpcode :: Ia_opcode
  dst :: nat
  src1 :: nat
  src2 :: nat
  extend8bitL :: bool
  Ib :: Bit8u
  Iw :: Bit16u
  Id :: Bit32u
  Iq :: Bit64u
  Ib2 :: Bit8u
  instr_seg :: nat
  sibBase :: nat
  sibIndex :: nat
  sibScale :: nat
  displ32u :: Bit32u
  as32L :: bool
  as64L :: bool
  os32L :: bool

abbreviation src :: "bxInstruction_c \<Rightarrow> nat" where "src i \<equiv> src1 i"

datatype bx_exception =
    BX_DE_EXCEPTION | BX_DB_EXCEPTION | BX_BP_EXCEPTION | BX_OF_EXCEPTION | BX_BR_EXCEPTION | BX_UD_EXCEPTION
  | BX_NM_EXCEPTION | BX_DF_EXCEPTION | BX_TS_EXCEPTION | BX_NP_EXCEPTION | BX_SS_EXCEPTION | BX_GP_EXCEPTION
  | BX_PF_EXCEPTION | BX_MF_EXCEPTION | BX_AC_EXCEPTION | BX_MC_EXCEPTION | BX_XM_EXCEPTION | BX_VE_EXCEPTION
  | BX_CP_EXCEPTION | BX_SX_EXCEPTION

section \<open>Views of one register\<close>

definition reg_rl :: "Bit64u \<Rightarrow> Bit8u" where "reg_rl w = ucast w"
definition reg_rh :: "Bit64u \<Rightarrow> Bit8u" where "reg_rh w = ucast (drop_bit 8 w)"
definition reg_rx :: "Bit64u \<Rightarrow> Bit16u" where "reg_rx w = ucast w"
definition reg_erx :: "Bit64u \<Rightarrow> Bit32u" where "reg_erx w = ucast w"
definition reg_hrx :: "Bit64u \<Rightarrow> Bit32u" where "reg_hrx w = ucast (drop_bit 32 w)"

definition reg_set_rl :: "Bit8u \<Rightarrow> Bit64u \<Rightarrow> Bit64u" where
  "reg_set_rl v w = (w AND NOT (mask 8)) OR ucast v"

definition reg_set_rh :: "Bit8u \<Rightarrow> Bit64u \<Rightarrow> Bit64u" where
  "reg_set_rh v w = (w AND NOT (push_bit 8 (mask 8))) OR push_bit 8 (ucast v)"

definition reg_set_rx :: "Bit16u \<Rightarrow> Bit64u \<Rightarrow> Bit64u" where
  "reg_set_rx v w = (w AND NOT (mask 16)) OR ucast v"

definition reg_set_erx :: "Bit32u \<Rightarrow> Bit64u \<Rightarrow> Bit64u" where
  "reg_set_erx v w = (w AND NOT (mask 32)) OR ucast v"

definition reg_set_hrx :: "Bit32u \<Rightarrow> Bit64u \<Rightarrow> Bit64u" where
  "reg_set_hrx v w = (w AND mask 32) OR push_bit 32 (ucast v)"

section \<open>Register access macros\<close>

definition BX_READ_8BIT_REGx :: "nat \<Rightarrow> bool \<Rightarrow> bx_cpu \<Rightarrow> Bit8u" where
  "BX_READ_8BIT_REGx index extended s =
    (if \<not> bit index 2 \<or> extended then reg_rl (gen_reg s index) else reg_rh (gen_reg s (index - 4)))"

definition BX_READ_16BIT_REG :: "nat \<Rightarrow> bx_cpu \<Rightarrow> Bit16u" where
  "BX_READ_16BIT_REG index s = reg_rx (gen_reg s index)"

definition BX_READ_32BIT_REG :: "nat \<Rightarrow> bx_cpu \<Rightarrow> Bit32u" where
  "BX_READ_32BIT_REG index s = reg_erx (gen_reg s index)"

definition BX_READ_64BIT_REG :: "nat \<Rightarrow> bx_cpu \<Rightarrow> Bit64u" where
  "BX_READ_64BIT_REG index s = gen_reg s index"

definition set_gen_reg :: "nat \<Rightarrow> Bit64u \<Rightarrow> bx_cpu \<Rightarrow> bx_cpu" where
  "set_gen_reg index v s = s\<lparr>gen_reg := (gen_reg s)(index := v)\<rparr>"

definition BX_WRITE_8BIT_REGH :: "nat \<Rightarrow> Bit8u \<Rightarrow> bx_cpu \<Rightarrow> bx_cpu" where
  "BX_WRITE_8BIT_REGH index v s = set_gen_reg index (reg_set_rh v (gen_reg s index)) s"

definition BX_WRITE_8BIT_REGL :: "nat \<Rightarrow> Bit8u \<Rightarrow> bx_cpu \<Rightarrow> bx_cpu" where
  "BX_WRITE_8BIT_REGL index v s = set_gen_reg index (reg_set_rl v (gen_reg s index)) s"

definition BX_WRITE_8BIT_REGx :: "nat \<Rightarrow> bool \<Rightarrow> Bit8u \<Rightarrow> bx_cpu \<Rightarrow> bx_cpu" where
  "BX_WRITE_8BIT_REGx index extended v s =
    (if \<not> bit index 2 \<or> extended then BX_WRITE_8BIT_REGL index v s else BX_WRITE_8BIT_REGH (index - 4) v s)"

definition BX_WRITE_16BIT_REG :: "nat \<Rightarrow> Bit16u \<Rightarrow> bx_cpu \<Rightarrow> bx_cpu" where
  "BX_WRITE_16BIT_REG index v s = set_gen_reg index (reg_set_rx v (gen_reg s index)) s"

definition BX_WRITE_32BIT_REG :: "nat \<Rightarrow> Bit32u \<Rightarrow> bx_cpu \<Rightarrow> bx_cpu" where
  "BX_WRITE_32BIT_REG index v s = set_gen_reg index (reg_set_erx v (gen_reg s index)) s"

definition BX_WRITE_32BIT_REGZ :: "nat \<Rightarrow> Bit32u \<Rightarrow> bx_cpu \<Rightarrow> bx_cpu" where
  "BX_WRITE_32BIT_REGZ index v s = set_gen_reg index (ucast v) s"

definition BX_WRITE_64BIT_REG :: "nat \<Rightarrow> Bit64u \<Rightarrow> bx_cpu \<Rightarrow> bx_cpu" where
  "BX_WRITE_64BIT_REG index v s = set_gen_reg index v s"

definition BX_CLEAR_64BIT_HIGH :: "nat \<Rightarrow> bx_cpu \<Rightarrow> bx_cpu" where
  "BX_CLEAR_64BIT_HIGH index s = set_gen_reg index (reg_set_hrx 0 (gen_reg s index)) s"

abbreviation "AL s \<equiv> reg_rl (gen_reg s 0)"
abbreviation "AH s \<equiv> reg_rh (gen_reg s 0)"
abbreviation "CL s \<equiv> reg_rl (gen_reg s 1)"
abbreviation "AX s \<equiv> BX_READ_16BIT_REG 0 s"
abbreviation "DX s \<equiv> BX_READ_16BIT_REG 2 s"
abbreviation "EAX s \<equiv> BX_READ_32BIT_REG 0 s"
abbreviation "EDX s \<equiv> BX_READ_32BIT_REG 2 s"
abbreviation "RAX s \<equiv> BX_READ_64BIT_REG 0 s"
abbreviation "RDX s \<equiv> BX_READ_64BIT_REG 2 s"

section \<open>Flags of the processor\<close>

definition upd_oszapc :: "(bx_lazyflags_entry \<Rightarrow> bx_lazyflags_entry) \<Rightarrow> bx_cpu \<Rightarrow> bx_cpu" where
  "upd_oszapc f s = s\<lparr>oszapc := f (oszapc s)\<rparr>"

abbreviation "cpu_flags s \<equiv> flags_of (oszapc s)"

definition EFlagsOSZAPCMask :: Bit32u where
  "EFlagsOSZAPCMask = 1 OR push_bit 2 1 OR push_bit 4 1 OR push_bit 6 1 OR push_bit 7 1 OR push_bit 11 1"

definition setEFlagsOSZAPC :: "Bit32u \<Rightarrow> bx_cpu \<Rightarrow> bx_cpu" where
  "setEFlagsOSZAPC flags32 s =
    (let s = upd_oszapc (set_OF (1 AND drop_bit 11 flags32 \<noteq> 0)) s;
         s = upd_oszapc (set_SF (1 AND drop_bit 7 flags32 \<noteq> 0)) s;
         s = upd_oszapc (set_ZF (1 AND drop_bit 6 flags32 \<noteq> 0)) s;
         s = upd_oszapc (set_AF (1 AND drop_bit 4 flags32 \<noteq> 0)) s;
         s = upd_oszapc (set_PF (1 AND drop_bit 2 flags32 \<noteq> 0)) s
     in upd_oszapc (set_CF (1 AND drop_bit 0 flags32 \<noteq> 0)) s)"

definition setDFV_OSZAPC :: "Bit32u \<Rightarrow> bx_cpu \<Rightarrow> bx_cpu" where
  "setDFV_OSZAPC dfv s =
    (let s = upd_oszapc (set_CF (dfv AND 0x1 \<noteq> 0)) s;
         s = upd_oszapc (set_PF (dfv AND 0x1 \<noteq> 0)) s;
         s = upd_oszapc (set_ZF (drop_bit 1 dfv AND 0x1 \<noteq> 0)) s;
         s = upd_oszapc (set_SF (drop_bit 2 dfv AND 0x1 \<noteq> 0)) s;
         s = upd_oszapc (set_OF (drop_bit 3 dfv AND 0x1 \<noteq> 0)) s
     in upd_oszapc clear_AF s)"

definition clearEFlagsOSZAPC :: "bx_cpu \<Rightarrow> bx_cpu" where
  "clearEFlagsOSZAPC s = upd_oszapc (SET_FLAGS_OSZAPC_LOGIC_32 1) s"

definition force_flags :: "bx_cpu \<Rightarrow> Bit32u \<times> bx_cpu" where
  "force_flags s =
    (let e = oszapc s;
         newflags = getB_CF e;
         newflags = newflags OR push_bit 2 (getB_PF e);
         newflags = newflags OR push_bit 4 (getB_AF e);
         newflags = newflags OR push_bit 6 (getB_ZF e);
         newflags = newflags OR push_bit 7 (getB_SF e);
         newflags = newflags OR push_bit 11 (getB_OF e);
         ef = (eflags s AND NOT EFlagsOSZAPCMask) OR (newflags AND EFlagsOSZAPCMask)
     in (ef, s\<lparr>eflags := ef\<rparr>))"

definition read_eflags :: "bx_cpu \<Rightarrow> Bit32u \<times> bx_cpu" where
  "read_eflags s = force_flags s"


section \<open>Reading a register after writing one\<close>

lemma bit_mask_word: "bit (mask k :: 'a::len word) n \<longleftrightarrow> n < LENGTH('a) \<and> n < k"
  by (auto simp: bit_mask_iff)

lemmas reg_bit_rules = bit_and_iff bit_or_iff bit_not_iff bit_push_bit_iff bit_drop_bit_eq bit_ucast_iff
  bit_take_bit_iff bit_mask_word

lemmas reg_view_defs = reg_rl_def reg_rh_def reg_rx_def reg_erx_def reg_hrx_def
  reg_set_rl_def reg_set_rh_def reg_set_rx_def reg_set_erx_def reg_set_hrx_def

lemma reg_view_same [simp]:
  "reg_rl (reg_set_rl v8 w) = v8" "reg_rh (reg_set_rh v8 w) = v8" "reg_rx (reg_set_rx v16 w) = v16"
  "reg_erx (reg_set_erx v32 w) = v32" "reg_hrx (reg_set_hrx v32 w) = v32" "reg_erx (ucast v32) = v32"
  "reg_hrx (ucast v32) = 0"
  by (rule bit_word_eqI, auto simp: reg_view_defs reg_bit_rules dest: bit_imp_le_length)+

lemma reg_view_other [simp]:
  "reg_rl (reg_set_rh v8 w) = reg_rl w" "reg_rh (reg_set_rl v8 w) = reg_rh w"
  "reg_hrx (reg_set_rl v8 w) = reg_hrx w" "reg_hrx (reg_set_rh v8 w) = reg_hrx w"
  "reg_hrx (reg_set_rx v16 w) = reg_hrx w" "reg_hrx (reg_set_erx v32 w) = reg_hrx w"
  "reg_erx (reg_set_hrx v32 w) = reg_erx w"
  by (rule bit_word_eqI, auto simp: reg_view_defs reg_bit_rules dest: bit_imp_le_length)+

lemma reg_rx_bytes: "reg_rx w = push_bit 8 (ucast (reg_rh w)) OR ucast (reg_rl w)"
  by (rule bit_word_eqI) (auto simp: reg_view_defs reg_bit_rules)

lemma reg_set_erx_clear_high: "reg_set_hrx 0 (reg_set_erx v w) = ucast v"
  by (rule bit_word_eqI) (auto simp: reg_view_defs reg_bit_rules dest: bit_imp_le_length)

lemma gen_reg_set_gen_reg [simp]:
  "gen_reg (set_gen_reg i v s) = (gen_reg s)(i := v)" "oszapc (set_gen_reg i v s) = oszapc s"
  "eflags (set_gen_reg i v s) = eflags s"
  by (simp_all add: set_gen_reg_def)

lemma upd_oszapc_simps [simp]:
  "gen_reg (upd_oszapc f s) = gen_reg s" "eflags (upd_oszapc f s) = eflags s"
  "oszapc (upd_oszapc f s) = f (oszapc s)"
  by (simp_all add: upd_oszapc_def)

lemmas reg_access_defs = BX_READ_8BIT_REGx_def BX_READ_16BIT_REG_def BX_READ_32BIT_REG_def
  BX_READ_64BIT_REG_def BX_WRITE_8BIT_REGL_def BX_WRITE_8BIT_REGH_def BX_WRITE_8BIT_REGx_def
  BX_WRITE_16BIT_REG_def BX_WRITE_32BIT_REG_def BX_WRITE_32BIT_REGZ_def BX_WRITE_64BIT_REG_def
  BX_CLEAR_64BIT_HIGH_def

section \<open>Operands of a fixed width\<close>

text \<open>
  What an instruction handler relies on when it works with register operands of one width: a register
  reads back what was written, distinct operands do not interfere, and neither access touches the
  flags. \<open>ok\<close> is the set of operand numbers the decoder produces.
\<close>

locale reg_operand =
  fixes rd :: "nat \<Rightarrow> bx_cpu \<Rightarrow> 'a::len word"
    and wr :: "nat \<Rightarrow> 'a word \<Rightarrow> bx_cpu \<Rightarrow> bx_cpu"
    and ok :: "nat \<Rightarrow> bool"
  assumes rd_wr_same: "rd r (wr r v s) = v"
    and rd_wr_other: "ok r \<Longrightarrow> ok q \<Longrightarrow> r \<noteq> q \<Longrightarrow> rd q (wr r v s) = rd q s"
    and wr_oszapc: "oszapc (wr r v s) = oszapc s"
    and wr_eflags: "eflags (wr r v s) = eflags s"
    and rd_upd: "rd r (upd_oszapc f s) = rd r s"
begin

lemma rd_result: "rd r (upd_oszapc f (wr r v s)) = v"
  by (simp add: rd_upd rd_wr_same)

lemma rd_frame: "ok r \<Longrightarrow> ok q \<Longrightarrow> r \<noteq> q \<Longrightarrow> rd q (upd_oszapc f (wr r v s)) = rd q s"
  by (simp add: rd_upd rd_wr_other)

lemma flags_result: "oszapc (upd_oszapc f (wr r v s)) = f (oszapc s)"
  by (simp add: wr_oszapc)

lemma swap_last: "rd r (upd_oszapc f (wr r v (wr q w s))) = v"
  by (simp add: rd_upd rd_wr_same)

lemma swap_first: "ok r \<Longrightarrow> ok q \<Longrightarrow> r \<noteq> q \<Longrightarrow> rd q (upd_oszapc f (wr r v (wr q w s))) = w"
  by (simp add: rd_upd rd_wr_other rd_wr_same)

end

interpretation r16: reg_operand BX_READ_16BIT_REG BX_WRITE_16BIT_REG "\<lambda>_. True"
  by unfold_locales (simp_all add: reg_access_defs)

interpretation r32: reg_operand BX_READ_32BIT_REG BX_WRITE_32BIT_REGZ "\<lambda>_. True"
  by unfold_locales (simp_all add: reg_access_defs)

interpretation r64: reg_operand BX_READ_64BIT_REG BX_WRITE_64BIT_REG "\<lambda>_. True"
  by unfold_locales (simp_all add: reg_access_defs)

text \<open>
  Byte operands: with a REX prefix (\<open>extend8bitL\<close>) every number names a low byte, without one the
  numbers 4 to 7 name the high bytes of the first four registers.
\<close>

interpretation r8x: reg_operand "\<lambda>r. BX_READ_8BIT_REGx r True" "\<lambda>r. BX_WRITE_8BIT_REGx r True" "\<lambda>_. True"
  by unfold_locales (simp_all add: reg_access_defs)

lemma low_byte_numbers: "r < 8 \<Longrightarrow> (\<not> bit r 2) \<longleftrightarrow> r < 4" for r :: nat
proof -
  assume "r < 8"
  then have "r \<in> {0, 1, 2, 3, 4, 5, 6, 7}" by auto
  then show ?thesis by (auto simp: bit_iff_odd)
qed

interpretation r8: reg_operand "\<lambda>r. BX_READ_8BIT_REGx r False" "\<lambda>r. BX_WRITE_8BIT_REGx r False" "\<lambda>r. r < 8"
proof unfold_locales
  fix r q :: nat and v s
  assume "r < 8" "q < 8" "r \<noteq> q"
  then show "BX_READ_8BIT_REGx q False (BX_WRITE_8BIT_REGx r False v s) = BX_READ_8BIT_REGx q False s"
    by (auto simp: reg_access_defs low_byte_numbers)
qed (simp_all add: reg_access_defs)


section \<open>Lazy flags and the EFLAGS image\<close>

text \<open>Loading the six flags from an image is the sequence of the six setters.\<close>

definition oszapc_image :: "Bit32u \<Rightarrow> (flag \<times> bool) list" where
  "oszapc_image x = [(FlagOF, bit x 11), (FlagSF, bit x 7), (FlagZF, bit x 6),
                     (FlagAF, bit x 4), (FlagPF, bit x 2), (FlagCF, bit x 0)]"

lemma one_and_drop_bit: "1 AND drop_bit n w \<noteq> 0 \<longleftrightarrow> bit w n" for w :: "'a::len word"
  by (simp only: and.commute [of 1] drop_bit_and_1 of_bool_word_eq_0 not_not)

lemma setEFlagsOSZAPC_fold:
  "oszapc (setEFlagsOSZAPC x s) = fold (\<lambda>(g, v). set_flag g v) (oszapc_image x) (oszapc s)"
  unfolding setEFlagsOSZAPC_def Let_def upd_oszapc_simps one_and_drop_bit oszapc_image_def by simp

lemma flags_of_getB_flag:
  "flags_of e = \<lparr>fOF = getB_flag FlagOF e, fSF = getB_flag FlagSF e, fZF = getB_flag FlagZF e,
    fAF = getB_flag FlagAF e, fPF = getB_flag FlagPF e, fCF = getB_flag FlagCF e\<rparr>"
  by (simp add: flags_of_def)

lemma flags_setEFlagsOSZAPC:
  "cpu_flags (setEFlagsOSZAPC x s) = \<lparr>fOF = bit x 11, fSF = bit x 7, fZF = bit x 6,
    fAF = bit x 4, fPF = bit x 2, fCF = bit x 0\<rparr>"
proof -
  have "distinct (map fst (oszapc_image x))" by (simp add: oszapc_image_def)
  note get = lazy.get_fold_put [OF this]
  show ?thesis
    unfolding flags_of_getB_flag setEFlagsOSZAPC_fold get by (simp add: oszapc_image_def)
qed

lemma setEFlagsOSZAPC_frame [simp]:
  "gen_reg (setEFlagsOSZAPC x s) = gen_reg s" "eflags (setEFlagsOSZAPC x s) = eflags s"
  by (simp_all add: setEFlagsOSZAPC_def Let_def)

lemma bit_EFlagsOSZAPCMask: "bit EFlagsOSZAPCMask n \<longleftrightarrow> n \<in> {0, 2, 4, 6, 7, 11}"
  unfolding EFlagsOSZAPCMask_def bit_or_iff bit_push_bit_iff bit_1_iff by auto

lemma bit_force_flags:
  "bit (fst (force_flags s)) n \<longleftrightarrow>
    (if n = 0 then fCF (cpu_flags s) else if n = 2 then fPF (cpu_flags s)
     else if n = 4 then fAF (cpu_flags s) else if n = 6 then fZF (cpu_flags s)
     else if n = 7 then fSF (cpu_flags s) else if n = 11 then fOF (cpu_flags s)
     else bit (eflags s) n)"
  by (auto simp: force_flags_def Let_def getB_flags bit_EFlagsOSZAPCMask reg_bit_rules bit_of_bool_iff
      dest: bit_imp_le_length)

lemma force_flags_state: "snd (force_flags s) = s\<lparr>eflags := fst (force_flags s)\<rparr>"
  by (simp add: force_flags_def Let_def)

text \<open>Loading the arithmetic flags from an EFLAGS image and reading EFLAGS back returns those six
  bits of the image and the stored value of every other bit.\<close>

theorem eflags_load_read:
  "fst (read_eflags (setEFlagsOSZAPC x s)) = (x AND EFlagsOSZAPCMask) OR (eflags s AND NOT EFlagsOSZAPCMask)"
  by (rule bit_word_eqI)
    (auto simp: read_eflags_def bit_force_flags flags_setEFlagsOSZAPC bit_EFlagsOSZAPCMask reg_bit_rules)

text \<open>Clearing the arithmetic flags is done by pretending that a logical operation returned 1.\<close>

lemma clearEFlagsOSZAPC_flags:
  "cpu_flags (clearEFlagsOSZAPC s) = \<lparr>fOF = False, fSF = False, fZF = False, fAF = False, fPF = False, fCF = False\<rparr>"
  by (simp add: clearEFlagsOSZAPC_def flags_LOGIC logic_flags_def even_parity8_def upt_rec)


section \<open>Outcome of an instruction\<close>

text \<open>
  \<open>with_flags s' s0 fl\<close> says exactly what a flag-setting instruction leaves behind: the registers and
  the stored EFLAGS image of \<open>s0\<close>, the state after its register writes, and the arithmetic flags \<open>fl\<close>.
\<close>

definition with_flags :: "bx_cpu \<Rightarrow> bx_cpu \<Rightarrow> oszapc_flags \<Rightarrow> bool" where
  "with_flags s' s0 fl \<longleftrightarrow> gen_reg s' = gen_reg s0 \<and> eflags s' = eflags s0 \<and> cpu_flags s' = fl"

lemma with_flags_upd:
  "oszapc s0 = oszapc s \<Longrightarrow> flags_of (f (oszapc s)) = fl \<Longrightarrow> with_flags (upd_oszapc f s0) s0 fl"
  by (simp add: with_flags_def)

lemma write_oszapc [simp]:
  "oszapc (BX_WRITE_8BIT_REGx r x v8 s) = oszapc s" "oszapc (BX_WRITE_8BIT_REGL r v8 s) = oszapc s"
  "oszapc (BX_WRITE_8BIT_REGH r v8 s) = oszapc s"
  "oszapc (BX_WRITE_16BIT_REG r v16 s) = oszapc s" "oszapc (BX_WRITE_32BIT_REG r v32 s) = oszapc s"
  "oszapc (BX_WRITE_32BIT_REGZ r v32 s) = oszapc s" "oszapc (BX_WRITE_64BIT_REG r v64 s) = oszapc s"
  "oszapc (BX_CLEAR_64BIT_HIGH r s) = oszapc s"
  by (simp_all add: reg_access_defs)

lemma write_eflags [simp]:
  "eflags (BX_WRITE_8BIT_REGx r x v8 s) = eflags s" "eflags (BX_WRITE_8BIT_REGL r v8 s) = eflags s"
  "eflags (BX_WRITE_8BIT_REGH r v8 s) = eflags s"
  "eflags (BX_WRITE_16BIT_REG r v16 s) = eflags s" "eflags (BX_WRITE_32BIT_REG r v32 s) = eflags s"
  "eflags (BX_WRITE_32BIT_REGZ r v32 s) = eflags s" "eflags (BX_WRITE_64BIT_REG r v64 s) = eflags s"
  "eflags (BX_CLEAR_64BIT_HIGH r s) = eflags s"
  by (simp_all add: reg_access_defs)

lemma read_upd_oszapc [simp]:
  "BX_READ_8BIT_REGx r x (upd_oszapc f s) = BX_READ_8BIT_REGx r x s"
  "BX_READ_16BIT_REG r (upd_oszapc f s) = BX_READ_16BIT_REG r s"
  "BX_READ_32BIT_REG r (upd_oszapc f s) = BX_READ_32BIT_REG r s"
  "BX_READ_64BIT_REG r (upd_oszapc f s) = BX_READ_64BIT_REG r s"
  by (simp_all add: reg_access_defs)

lemma reg_write_upd:
  "gen_reg (BX_WRITE_8BIT_REGx r x v8 (upd_oszapc f s)) = gen_reg (BX_WRITE_8BIT_REGx r x v8 s)"
  "gen_reg (BX_WRITE_8BIT_REGL r v8 (upd_oszapc f s)) = gen_reg (BX_WRITE_8BIT_REGL r v8 s)"
  "gen_reg (BX_WRITE_16BIT_REG r v16 (upd_oszapc f s)) = gen_reg (BX_WRITE_16BIT_REG r v16 s)"
  "gen_reg (BX_WRITE_32BIT_REGZ r v32 (upd_oszapc f s)) = gen_reg (BX_WRITE_32BIT_REGZ r v32 s)"
  "gen_reg (BX_WRITE_64BIT_REG r v64 (upd_oszapc f s)) = gen_reg (BX_WRITE_64BIT_REG r v64 s)"
  by (simp_all add: reg_access_defs)

lemma ucast_eq_up:
  "(ucast a :: 'b::len word) = ucast b \<longleftrightarrow> a = b" if "LENGTH('a) \<le> LENGTH('b)" for a b :: "'a::len word"
  using that by (metis ucast_up_down)

section \<open>Concrete states\<close>

text \<open>A processor with given registers and clear flags, and a two-operand instruction, for examples.\<close>

definition sample_cpu :: "(nat \<Rightarrow> Bit64u) \<Rightarrow> bx_cpu" where
  "sample_cpu f = \<lparr>gen_reg = f, eflags = 2, oszapc = \<lparr>lf_result = 1, lf_auxbits = 0\<rparr>\<rparr>"

definition sample_instr :: "nat \<Rightarrow> nat \<Rightarrow> Bit8u \<Rightarrow> bxInstruction_c" where
  "sample_instr d r imm = \<lparr>getIaOpcode = BX_IA_other 0, dst = d, src1 = r, src2 = r,
    extend8bitL = False, Ib = imm, Iw = ucast imm, Id = ucast imm, Iq = ucast imm, Ib2 = 0, instr_seg = 3, sibBase = 3, sibIndex = 4,
    sibScale = 0, displ32u = 0, as32L = True, as64L = False, os32L = True\<rparr>"

lemmas sample_defs = sample_cpu_def sample_instr_def

end
