(* ===== verification/Arith8.thy ===== *)
theory Arith8
  imports CpuState
begin

text \<open>
  The register forms of the 8-bit integer arithmetic handlers of \<^verbatim>\<open>cpu/arith8.cc\<close>: one definition
  per handler, with the handler's own order of register writes and flag updates.
\<close>

section \<open>Handlers\<close>

definition ADD_GbEbR :: "bxInstruction_c \<Rightarrow> bx_cpu \<Rightarrow> bx_cpu" where
  "ADD_GbEbR i s =
    (let op1_8 = ucast (BX_READ_8BIT_REGx (dst i) (extend8bitL i) s) :: Bit32u;
         op2_8 = ucast (BX_READ_8BIT_REGx (src i) (extend8bitL i) s);
         sum_8 = op1_8 + op2_8;
         s = BX_WRITE_8BIT_REGx (dst i) (extend8bitL i) (ucast sum_8) s
     in upd_oszapc (SET_FLAGS_OSZAPC_ADD_8 op1_8 op2_8 sum_8) s)"

definition ADD_EbIbR :: "bxInstruction_c \<Rightarrow> bx_cpu \<Rightarrow> bx_cpu" where
  "ADD_EbIbR i s =
    (let op1_8 = ucast (BX_READ_8BIT_REGx (dst i) (extend8bitL i) s) :: Bit32u;
         op2_8 = ucast (Ib i);
         sum_8 = op1_8 + op2_8;
         s = BX_WRITE_8BIT_REGx (dst i) (extend8bitL i) (ucast sum_8) s
     in upd_oszapc (SET_FLAGS_OSZAPC_ADD_8 op1_8 op2_8 sum_8) s)"

definition ADC_GbEbR :: "bxInstruction_c \<Rightarrow> bx_cpu \<Rightarrow> bx_cpu" where
  "ADC_GbEbR i s =
    (let op1_8 = ucast (BX_READ_8BIT_REGx (dst i) (extend8bitL i) s) :: Bit32u;
         op2_8 = ucast (BX_READ_8BIT_REGx (src i) (extend8bitL i) s);
         sum_8 = op1_8 + op2_8 + getB_CF (oszapc s);
         s = BX_WRITE_8BIT_REGx (dst i) (extend8bitL i) (ucast sum_8) s
     in upd_oszapc (SET_FLAGS_OSZAPC_ADD_8 op1_8 op2_8 sum_8) s)"

definition ADC_EbIbR :: "bxInstruction_c \<Rightarrow> bx_cpu \<Rightarrow> bx_cpu" where
  "ADC_EbIbR i s =
    (let op1_8 = ucast (BX_READ_8BIT_REGx (dst i) (extend8bitL i) s) :: Bit32u;
         op2_8 = ucast (Ib i);
         sum_8 = op1_8 + op2_8 + getB_CF (oszapc s);
         s = BX_WRITE_8BIT_REGx (dst i) (extend8bitL i) (ucast sum_8) s
     in upd_oszapc (SET_FLAGS_OSZAPC_ADD_8 op1_8 op2_8 sum_8) s)"

definition SBB_GbEbR :: "bxInstruction_c \<Rightarrow> bx_cpu \<Rightarrow> bx_cpu" where
  "SBB_GbEbR i s =
    (let op1_8 = ucast (BX_READ_8BIT_REGx (dst i) (extend8bitL i) s) :: Bit32u;
         op2_8 = ucast (BX_READ_8BIT_REGx (src i) (extend8bitL i) s);
         diff_8 = op1_8 - (op2_8 + getB_CF (oszapc s));
         s = BX_WRITE_8BIT_REGx (dst i) (extend8bitL i) (ucast diff_8) s
     in upd_oszapc (SET_FLAGS_OSZAPC_SUB_8 op1_8 op2_8 diff_8) s)"

definition SBB_EbIbR :: "bxInstruction_c \<Rightarrow> bx_cpu \<Rightarrow> bx_cpu" where
  "SBB_EbIbR i s =
    (let op1_8 = ucast (BX_READ_8BIT_REGx (dst i) (extend8bitL i) s) :: Bit32u;
         op2_8 = ucast (Ib i);
         diff_8 = op1_8 - (op2_8 + getB_CF (oszapc s));
         s = BX_WRITE_8BIT_REGx (dst i) (extend8bitL i) (ucast diff_8) s
     in upd_oszapc (SET_FLAGS_OSZAPC_SUB_8 op1_8 op2_8 diff_8) s)"

definition SUB_GbEbR :: "bxInstruction_c \<Rightarrow> bx_cpu \<Rightarrow> bx_cpu" where
  "SUB_GbEbR i s =
    (let op1_8 = ucast (BX_READ_8BIT_REGx (dst i) (extend8bitL i) s) :: Bit32u;
         op2_8 = ucast (BX_READ_8BIT_REGx (src i) (extend8bitL i) s);
         diff_8 = op1_8 - op2_8;
         s = BX_WRITE_8BIT_REGx (dst i) (extend8bitL i) (ucast diff_8) s
     in upd_oszapc (SET_FLAGS_OSZAPC_SUB_8 op1_8 op2_8 diff_8) s)"

definition SUB_EbIbR :: "bxInstruction_c \<Rightarrow> bx_cpu \<Rightarrow> bx_cpu" where
  "SUB_EbIbR i s =
    (let op1_8 = ucast (BX_READ_8BIT_REGx (dst i) (extend8bitL i) s) :: Bit32u;
         op2_8 = ucast (Ib i);
         diff_8 = op1_8 - op2_8;
         s = BX_WRITE_8BIT_REGx (dst i) (extend8bitL i) (ucast diff_8) s
     in upd_oszapc (SET_FLAGS_OSZAPC_SUB_8 op1_8 op2_8 diff_8) s)"

definition CMP_GbEbR :: "bxInstruction_c \<Rightarrow> bx_cpu \<Rightarrow> bx_cpu" where
  "CMP_GbEbR i s =
    (let op1_8 = ucast (BX_READ_8BIT_REGx (dst i) (extend8bitL i) s) :: Bit32u;
         op2_8 = ucast (BX_READ_8BIT_REGx (src i) (extend8bitL i) s);
         diff_8 = op1_8 - op2_8
     in upd_oszapc (SET_FLAGS_OSZAPC_SUB_8 op1_8 op2_8 diff_8) s)"

definition CMP_EbIbR :: "bxInstruction_c \<Rightarrow> bx_cpu \<Rightarrow> bx_cpu" where
  "CMP_EbIbR i s =
    (let op1_8 = ucast (BX_READ_8BIT_REGx (dst i) (extend8bitL i) s) :: Bit32u;
         op2_8 = ucast (Ib i);
         diff_8 = op1_8 - op2_8
     in upd_oszapc (SET_FLAGS_OSZAPC_SUB_8 op1_8 op2_8 diff_8) s)"

definition XADD_EbGbR :: "bxInstruction_c \<Rightarrow> bx_cpu \<Rightarrow> bx_cpu" where
  "XADD_EbGbR i s =
    (let op1_8 = ucast (BX_READ_8BIT_REGx (dst i) (extend8bitL i) s) :: Bit32u;
         op2_8 = ucast (BX_READ_8BIT_REGx (src i) (extend8bitL i) s);
         sum_8 = op1_8 + op2_8;
         s = BX_WRITE_8BIT_REGx (src i) (extend8bitL i) (ucast op1_8) s;
         s = BX_WRITE_8BIT_REGx (dst i) (extend8bitL i) (ucast sum_8) s
     in upd_oszapc (SET_FLAGS_OSZAPC_ADD_8 op1_8 op2_8 sum_8) s)"

definition NEG_EbR :: "bxInstruction_c \<Rightarrow> bx_cpu \<Rightarrow> bx_cpu" where
  "NEG_EbR i s =
    (let op1_8 = ucast (BX_READ_8BIT_REGx (dst i) (extend8bitL i) s) :: Bit32u;
         op1_8 = - op1_8;
         s = BX_WRITE_8BIT_REGx (dst i) (extend8bitL i) (ucast op1_8) s
     in upd_oszapc (SET_FLAGS_OSZAPC_SUB_8 0 (0 - op1_8) op1_8) s)"

definition INC_EbR :: "bxInstruction_c \<Rightarrow> bx_cpu \<Rightarrow> bx_cpu" where
  "INC_EbR i s =
    (let op1_8 = ucast (BX_READ_8BIT_REGx (dst i) (extend8bitL i) s) :: Bit32u;
         op1_8 = op1_8 + 1;
         s = BX_WRITE_8BIT_REGx (dst i) (extend8bitL i) (ucast op1_8) s
     in upd_oszapc (SET_FLAGS_OSZAP_ADD_8 (op1_8 - 1) 0 op1_8) s)"

definition DEC_EbR :: "bxInstruction_c \<Rightarrow> bx_cpu \<Rightarrow> bx_cpu" where
  "DEC_EbR i s =
    (let op1_8 = ucast (BX_READ_8BIT_REGx (dst i) (extend8bitL i) s) :: Bit32u;
         op1_8 = op1_8 - 1;
         s = BX_WRITE_8BIT_REGx (dst i) (extend8bitL i) (ucast op1_8) s
     in upd_oszapc (SET_FLAGS_OSZAP_SUB_8 (op1_8 + 1) 0 op1_8) s)"

definition CMPXCHG_EbGbR :: "bxInstruction_c \<Rightarrow> bx_cpu \<Rightarrow> bx_cpu" where
  "CMPXCHG_EbGbR i s =
    (let op1_8 = ucast (BX_READ_8BIT_REGx (dst i) (extend8bitL i) s) :: Bit32u;
         diff_8 = ucast (AL s) - op1_8;
         s = upd_oszapc (SET_FLAGS_OSZAPC_SUB_8 (ucast (AL s)) op1_8 diff_8) s
     in (if diff_8 = 0
         then let op2_8 = BX_READ_8BIT_REGx (src i) (extend8bitL i) s in BX_WRITE_8BIT_REGx (dst i) (extend8bitL i) op2_8 s
         else BX_WRITE_8BIT_REGL 0 (ucast op1_8) s))"

section \<open>Results and flags\<close>

lemmas arith8_defs = ADD_GbEbR_def ADC_GbEbR_def SUB_GbEbR_def SBB_GbEbR_def CMP_GbEbR_def ADD_EbIbR_def ADC_EbIbR_def SUB_EbIbR_def SBB_EbIbR_def CMP_EbIbR_def
  NEG_EbR_def INC_EbR_def DEC_EbR_def XADD_EbGbR_def CMPXCHG_EbGbR_def

lemma arith8_reg:
  fixes i :: bxInstruction_c and s :: bx_cpu
  defines "a \<equiv> BX_READ_8BIT_REGx (dst i) (extend8bitL i) s" and "b \<equiv> BX_READ_8BIT_REGx (src i) (extend8bitL i) s" and "c \<equiv> fCF (cpu_flags s)"
  shows "with_flags (ADD_GbEbR i s) (BX_WRITE_8BIT_REGx (dst i) (extend8bitL i) (a + b) s) (add_flags a b False)"
    "with_flags (ADC_GbEbR i s) (BX_WRITE_8BIT_REGx (dst i) (extend8bitL i) (a + b + of_bool c) s) (add_flags a b c)"
    "with_flags (SUB_GbEbR i s) (BX_WRITE_8BIT_REGx (dst i) (extend8bitL i) (a - b) s) (sub_flags a b False)"
    "with_flags (SBB_GbEbR i s) (BX_WRITE_8BIT_REGx (dst i) (extend8bitL i) (a - (b + of_bool c)) s) (sub_flags a b c)"
    "with_flags (CMP_GbEbR i s) s (sub_flags a b False)"
  unfolding a_def b_def c_def arith8_defs Let_def with_flags_def
  by (simp_all add: ucast_add_down ucast_sub_down ucast_minus_down getB_flags flags_ADD0(1) flags_SUB0(1)
      flags_ADD(1) [where c = "fCF (cpu_flags s)"] flags_SUB(1) [where c = "fCF (cpu_flags s)"])

lemma arith8_imm:
  fixes i :: bxInstruction_c and s :: bx_cpu
  defines "a \<equiv> BX_READ_8BIT_REGx (dst i) (extend8bitL i) s" and "b \<equiv> Ib i" and "c \<equiv> fCF (cpu_flags s)"
  shows "with_flags (ADD_EbIbR i s) (BX_WRITE_8BIT_REGx (dst i) (extend8bitL i) (a + b) s) (add_flags a b False)"
    "with_flags (ADC_EbIbR i s) (BX_WRITE_8BIT_REGx (dst i) (extend8bitL i) (a + b + of_bool c) s) (add_flags a b c)"
    "with_flags (SUB_EbIbR i s) (BX_WRITE_8BIT_REGx (dst i) (extend8bitL i) (a - b) s) (sub_flags a b False)"
    "with_flags (SBB_EbIbR i s) (BX_WRITE_8BIT_REGx (dst i) (extend8bitL i) (a - (b + of_bool c)) s) (sub_flags a b c)"
    "with_flags (CMP_EbIbR i s) s (sub_flags a b False)"
  unfolding a_def b_def c_def arith8_defs Let_def with_flags_def
  by (simp_all add: ucast_add_down ucast_sub_down ucast_minus_down getB_flags flags_ADD0(1) flags_SUB0(1)
      flags_ADD(1) [where c = "fCF (cpu_flags s)"] flags_SUB(1) [where c = "fCF (cpu_flags s)"])

lemma arith8_unary:
  fixes i :: bxInstruction_c and s :: bx_cpu
  defines "a \<equiv> BX_READ_8BIT_REGx (dst i) (extend8bitL i) s"
  shows "with_flags (NEG_EbR i s) (BX_WRITE_8BIT_REGx (dst i) (extend8bitL i) (- a) s) (sub_flags 0 a False)"
    "with_flags (INC_EbR i s) (BX_WRITE_8BIT_REGx (dst i) (extend8bitL i) (a + 1) s) ((add_flags a 1 False)\<lparr>fCF := fCF (cpu_flags s)\<rparr>)"
    "with_flags (DEC_EbR i s) (BX_WRITE_8BIT_REGx (dst i) (extend8bitL i) (a - 1) s) ((sub_flags a 1 False)\<lparr>fCF := fCF (cpu_flags s)\<rparr>)"
  unfolding a_def arith8_defs Let_def with_flags_def
  by (simp_all add: ucast_add_down ucast_sub_down ucast_minus_down flags_OSZAP flags_SUB0(1) flags_ADD1(1) flags_SUB1(1)
      add_flags_inc sub_flags_dec reg_access_defs reg_set_erx_clear_high)


end
