(* ===== verification/Arith16.thy ===== *)
theory Arith16
  imports CpuState
begin

text \<open>
  The register forms of the 16-bit integer arithmetic handlers of \<^verbatim>\<open>cpu/arith16.cc\<close>: one definition
  per handler, with the handler's own order of register writes and flag updates.
\<close>

section \<open>Handlers\<close>

definition ADD_GwEwR :: "bxInstruction_c \<Rightarrow> bx_cpu \<Rightarrow> bx_cpu" where
  "ADD_GwEwR i s =
    (let op1_16 = ucast (BX_READ_16BIT_REG (dst i) s) :: Bit32u;
         op2_16 = ucast (BX_READ_16BIT_REG (src i) s);
         sum_16 = op1_16 + op2_16;
         s = BX_WRITE_16BIT_REG (dst i) (ucast sum_16) s
     in upd_oszapc (SET_FLAGS_OSZAPC_ADD_16 op1_16 op2_16 sum_16) s)"

definition ADD_EwIwR :: "bxInstruction_c \<Rightarrow> bx_cpu \<Rightarrow> bx_cpu" where
  "ADD_EwIwR i s =
    (let op1_16 = ucast (BX_READ_16BIT_REG (dst i) s) :: Bit32u;
         op2_16 = ucast (Iw i);
         sum_16 = op1_16 + op2_16;
         s = BX_WRITE_16BIT_REG (dst i) (ucast sum_16) s
     in upd_oszapc (SET_FLAGS_OSZAPC_ADD_16 op1_16 op2_16 sum_16) s)"

definition ADC_GwEwR :: "bxInstruction_c \<Rightarrow> bx_cpu \<Rightarrow> bx_cpu" where
  "ADC_GwEwR i s =
    (let op1_16 = ucast (BX_READ_16BIT_REG (dst i) s) :: Bit32u;
         op2_16 = ucast (BX_READ_16BIT_REG (src i) s);
         sum_16 = op1_16 + op2_16 + getB_CF (oszapc s);
         s = BX_WRITE_16BIT_REG (dst i) (ucast sum_16) s
     in upd_oszapc (SET_FLAGS_OSZAPC_ADD_16 op1_16 op2_16 sum_16) s)"

definition ADC_EwIwR :: "bxInstruction_c \<Rightarrow> bx_cpu \<Rightarrow> bx_cpu" where
  "ADC_EwIwR i s =
    (let op1_16 = ucast (BX_READ_16BIT_REG (dst i) s) :: Bit32u;
         op2_16 = ucast (Iw i);
         sum_16 = op1_16 + op2_16 + getB_CF (oszapc s);
         s = BX_WRITE_16BIT_REG (dst i) (ucast sum_16) s
     in upd_oszapc (SET_FLAGS_OSZAPC_ADD_16 op1_16 op2_16 sum_16) s)"

definition SBB_GwEwR :: "bxInstruction_c \<Rightarrow> bx_cpu \<Rightarrow> bx_cpu" where
  "SBB_GwEwR i s =
    (let op1_16 = ucast (BX_READ_16BIT_REG (dst i) s) :: Bit32u;
         op2_16 = ucast (BX_READ_16BIT_REG (src i) s);
         diff_16 = op1_16 - (op2_16 + getB_CF (oszapc s));
         s = BX_WRITE_16BIT_REG (dst i) (ucast diff_16) s
     in upd_oszapc (SET_FLAGS_OSZAPC_SUB_16 op1_16 op2_16 diff_16) s)"

definition SBB_EwIwR :: "bxInstruction_c \<Rightarrow> bx_cpu \<Rightarrow> bx_cpu" where
  "SBB_EwIwR i s =
    (let op1_16 = ucast (BX_READ_16BIT_REG (dst i) s) :: Bit32u;
         op2_16 = ucast (Iw i);
         diff_16 = op1_16 - (op2_16 + getB_CF (oszapc s));
         s = BX_WRITE_16BIT_REG (dst i) (ucast diff_16) s
     in upd_oszapc (SET_FLAGS_OSZAPC_SUB_16 op1_16 op2_16 diff_16) s)"

definition SUB_GwEwR :: "bxInstruction_c \<Rightarrow> bx_cpu \<Rightarrow> bx_cpu" where
  "SUB_GwEwR i s =
    (let op1_16 = ucast (BX_READ_16BIT_REG (dst i) s) :: Bit32u;
         op2_16 = ucast (BX_READ_16BIT_REG (src i) s);
         diff_16 = op1_16 - op2_16;
         s = BX_WRITE_16BIT_REG (dst i) (ucast diff_16) s
     in upd_oszapc (SET_FLAGS_OSZAPC_SUB_16 op1_16 op2_16 diff_16) s)"

definition SUB_EwIwR :: "bxInstruction_c \<Rightarrow> bx_cpu \<Rightarrow> bx_cpu" where
  "SUB_EwIwR i s =
    (let op1_16 = ucast (BX_READ_16BIT_REG (dst i) s) :: Bit32u;
         op2_16 = ucast (Iw i);
         diff_16 = op1_16 - op2_16;
         s = BX_WRITE_16BIT_REG (dst i) (ucast diff_16) s
     in upd_oszapc (SET_FLAGS_OSZAPC_SUB_16 op1_16 op2_16 diff_16) s)"

definition CMP_GwEwR :: "bxInstruction_c \<Rightarrow> bx_cpu \<Rightarrow> bx_cpu" where
  "CMP_GwEwR i s =
    (let op1_16 = ucast (BX_READ_16BIT_REG (dst i) s) :: Bit32u;
         op2_16 = ucast (BX_READ_16BIT_REG (src i) s);
         diff_16 = op1_16 - op2_16
     in upd_oszapc (SET_FLAGS_OSZAPC_SUB_16 op1_16 op2_16 diff_16) s)"

definition CMP_EwIwR :: "bxInstruction_c \<Rightarrow> bx_cpu \<Rightarrow> bx_cpu" where
  "CMP_EwIwR i s =
    (let op1_16 = ucast (BX_READ_16BIT_REG (dst i) s) :: Bit32u;
         op2_16 = ucast (Iw i);
         diff_16 = op1_16 - op2_16
     in upd_oszapc (SET_FLAGS_OSZAPC_SUB_16 op1_16 op2_16 diff_16) s)"

definition XADD_EwGwR :: "bxInstruction_c \<Rightarrow> bx_cpu \<Rightarrow> bx_cpu" where
  "XADD_EwGwR i s =
    (let op1_16 = ucast (BX_READ_16BIT_REG (dst i) s) :: Bit32u;
         op2_16 = ucast (BX_READ_16BIT_REG (src i) s);
         sum_16 = op1_16 + op2_16;
         s = BX_WRITE_16BIT_REG (src i) (ucast op1_16) s;
         s = BX_WRITE_16BIT_REG (dst i) (ucast sum_16) s
     in upd_oszapc (SET_FLAGS_OSZAPC_ADD_16 op1_16 op2_16 sum_16) s)"

definition NEG_EwR :: "bxInstruction_c \<Rightarrow> bx_cpu \<Rightarrow> bx_cpu" where
  "NEG_EwR i s =
    (let op1_16 = ucast (BX_READ_16BIT_REG (dst i) s) :: Bit32u;
         op1_16 = - op1_16;
         s = BX_WRITE_16BIT_REG (dst i) (ucast op1_16) s
     in upd_oszapc (SET_FLAGS_OSZAPC_SUB_16 0 (0 - op1_16) op1_16) s)"

definition INC_EwR :: "bxInstruction_c \<Rightarrow> bx_cpu \<Rightarrow> bx_cpu" where
  "INC_EwR i s =
    (let s = BX_WRITE_16BIT_REG (dst i) (BX_READ_16BIT_REG (dst i) s + 1) s;
         rx = ucast (BX_READ_16BIT_REG (dst i) s) :: Bit32u
     in upd_oszapc (SET_FLAGS_OSZAP_ADD_16 (rx - 1) 0 rx) s)"

definition DEC_EwR :: "bxInstruction_c \<Rightarrow> bx_cpu \<Rightarrow> bx_cpu" where
  "DEC_EwR i s =
    (let s = BX_WRITE_16BIT_REG (dst i) (BX_READ_16BIT_REG (dst i) s - 1) s;
         rx = ucast (BX_READ_16BIT_REG (dst i) s) :: Bit32u
     in upd_oszapc (SET_FLAGS_OSZAP_SUB_16 (rx + 1) 0 rx) s)"

definition CMPXCHG_EwGwR :: "bxInstruction_c \<Rightarrow> bx_cpu \<Rightarrow> bx_cpu" where
  "CMPXCHG_EwGwR i s =
    (let op1_16 = BX_READ_16BIT_REG (dst i) s;
         diff_16 = AX s - op1_16;
         s = upd_oszapc (SET_FLAGS_OSZAPC_SUB_16 (ucast (AX s)) (ucast op1_16) (ucast diff_16)) s
     in (if diff_16 = 0 then BX_WRITE_16BIT_REG (dst i) (BX_READ_16BIT_REG (src i) s) s
         else BX_WRITE_16BIT_REG 0 op1_16 s))"

definition CBW :: "bxInstruction_c \<Rightarrow> bx_cpu \<Rightarrow> bx_cpu" where
  "CBW i s =
    BX_WRITE_16BIT_REG 0 (scast (AL s)) s"

definition CWD :: "bxInstruction_c \<Rightarrow> bx_cpu \<Rightarrow> bx_cpu" where
  "CWD i s =
    (if AX s AND 0x8000 \<noteq> 0 then BX_WRITE_16BIT_REG 2 0xFFFF s else BX_WRITE_16BIT_REG 2 0x0000 s)"

section \<open>Results and flags\<close>

lemmas arith16_defs = ADD_GwEwR_def ADC_GwEwR_def SUB_GwEwR_def SBB_GwEwR_def CMP_GwEwR_def ADD_EwIwR_def ADC_EwIwR_def SUB_EwIwR_def SBB_EwIwR_def CMP_EwIwR_def
  NEG_EwR_def INC_EwR_def DEC_EwR_def XADD_EwGwR_def CMPXCHG_EwGwR_def

lemma arith16_reg:
  fixes i :: bxInstruction_c and s :: bx_cpu
  defines "a \<equiv> BX_READ_16BIT_REG (dst i) s" and "b \<equiv> BX_READ_16BIT_REG (src i) s" and "c \<equiv> fCF (cpu_flags s)"
  shows "with_flags (ADD_GwEwR i s) (BX_WRITE_16BIT_REG (dst i) (a + b) s) (add_flags a b False)"
    "with_flags (ADC_GwEwR i s) (BX_WRITE_16BIT_REG (dst i) (a + b + of_bool c) s) (add_flags a b c)"
    "with_flags (SUB_GwEwR i s) (BX_WRITE_16BIT_REG (dst i) (a - b) s) (sub_flags a b False)"
    "with_flags (SBB_GwEwR i s) (BX_WRITE_16BIT_REG (dst i) (a - (b + of_bool c)) s) (sub_flags a b c)"
    "with_flags (CMP_GwEwR i s) s (sub_flags a b False)"
  unfolding a_def b_def c_def arith16_defs Let_def with_flags_def
  by (simp_all add: ucast_add_down ucast_sub_down ucast_minus_down getB_flags flags_ADD0(2) flags_SUB0(2)
      flags_ADD(2) [where c = "fCF (cpu_flags s)"] flags_SUB(2) [where c = "fCF (cpu_flags s)"])

lemma arith16_imm:
  fixes i :: bxInstruction_c and s :: bx_cpu
  defines "a \<equiv> BX_READ_16BIT_REG (dst i) s" and "b \<equiv> Iw i" and "c \<equiv> fCF (cpu_flags s)"
  shows "with_flags (ADD_EwIwR i s) (BX_WRITE_16BIT_REG (dst i) (a + b) s) (add_flags a b False)"
    "with_flags (ADC_EwIwR i s) (BX_WRITE_16BIT_REG (dst i) (a + b + of_bool c) s) (add_flags a b c)"
    "with_flags (SUB_EwIwR i s) (BX_WRITE_16BIT_REG (dst i) (a - b) s) (sub_flags a b False)"
    "with_flags (SBB_EwIwR i s) (BX_WRITE_16BIT_REG (dst i) (a - (b + of_bool c)) s) (sub_flags a b c)"
    "with_flags (CMP_EwIwR i s) s (sub_flags a b False)"
  unfolding a_def b_def c_def arith16_defs Let_def with_flags_def
  by (simp_all add: ucast_add_down ucast_sub_down ucast_minus_down getB_flags flags_ADD0(2) flags_SUB0(2)
      flags_ADD(2) [where c = "fCF (cpu_flags s)"] flags_SUB(2) [where c = "fCF (cpu_flags s)"])

lemma arith16_unary:
  fixes i :: bxInstruction_c and s :: bx_cpu
  defines "a \<equiv> BX_READ_16BIT_REG (dst i) s"
  shows "with_flags (NEG_EwR i s) (BX_WRITE_16BIT_REG (dst i) (- a) s) (sub_flags 0 a False)"
    "with_flags (INC_EwR i s) (BX_WRITE_16BIT_REG (dst i) (a + 1) s) ((add_flags a 1 False)\<lparr>fCF := fCF (cpu_flags s)\<rparr>)"
    "with_flags (DEC_EwR i s) (BX_WRITE_16BIT_REG (dst i) (a - 1) s) ((sub_flags a 1 False)\<lparr>fCF := fCF (cpu_flags s)\<rparr>)"
  unfolding a_def arith16_defs Let_def with_flags_def
  by (simp_all add: ucast_add_down ucast_sub_down ucast_minus_down flags_OSZAP flags_SUB0(2) flags_ADD1(2) flags_SUB1(2)
      add_flags_inc sub_flags_dec reg_access_defs reg_set_erx_clear_high)


end
