(* ===== verification/Arith32.thy ===== *)
theory Arith32
  imports CpuState
begin

text \<open>
  The register forms of the 32-bit integer arithmetic handlers of \<^verbatim>\<open>cpu/arith32.cc\<close>: one definition
  per handler, with the handler's own order of register writes and flag updates.
\<close>

section \<open>Handlers\<close>

definition ADD_GdEdR :: "bxInstruction_c \<Rightarrow> bx_cpu \<Rightarrow> bx_cpu" where
  "ADD_GdEdR i s =
    (let op1_32 = BX_READ_32BIT_REG (dst i) s :: Bit32u;
         op2_32 = BX_READ_32BIT_REG (src i) s;
         sum_32 = op1_32 + op2_32;
         s = BX_WRITE_32BIT_REGZ (dst i) sum_32 s
     in upd_oszapc (SET_FLAGS_OSZAPC_ADD_32 op1_32 op2_32 sum_32) s)"

definition ADD_EdIdR :: "bxInstruction_c \<Rightarrow> bx_cpu \<Rightarrow> bx_cpu" where
  "ADD_EdIdR i s =
    (let op1_32 = BX_READ_32BIT_REG (dst i) s :: Bit32u;
         op2_32 = Id i;
         sum_32 = op1_32 + op2_32;
         s = BX_WRITE_32BIT_REGZ (dst i) sum_32 s
     in upd_oszapc (SET_FLAGS_OSZAPC_ADD_32 op1_32 op2_32 sum_32) s)"

definition ADC_GdEdR :: "bxInstruction_c \<Rightarrow> bx_cpu \<Rightarrow> bx_cpu" where
  "ADC_GdEdR i s =
    (let op1_32 = BX_READ_32BIT_REG (dst i) s :: Bit32u;
         op2_32 = BX_READ_32BIT_REG (src i) s;
         sum_32 = op1_32 + op2_32 + getB_CF (oszapc s);
         s = BX_WRITE_32BIT_REGZ (dst i) sum_32 s
     in upd_oszapc (SET_FLAGS_OSZAPC_ADD_32 op1_32 op2_32 sum_32) s)"

definition ADC_EdIdR :: "bxInstruction_c \<Rightarrow> bx_cpu \<Rightarrow> bx_cpu" where
  "ADC_EdIdR i s =
    (let op1_32 = BX_READ_32BIT_REG (dst i) s :: Bit32u;
         op2_32 = Id i;
         sum_32 = op1_32 + op2_32 + getB_CF (oszapc s);
         s = BX_WRITE_32BIT_REGZ (dst i) sum_32 s
     in upd_oszapc (SET_FLAGS_OSZAPC_ADD_32 op1_32 op2_32 sum_32) s)"

definition SBB_GdEdR :: "bxInstruction_c \<Rightarrow> bx_cpu \<Rightarrow> bx_cpu" where
  "SBB_GdEdR i s =
    (let op1_32 = BX_READ_32BIT_REG (dst i) s :: Bit32u;
         op2_32 = BX_READ_32BIT_REG (src i) s;
         diff_32 = op1_32 - (op2_32 + getB_CF (oszapc s));
         s = BX_WRITE_32BIT_REGZ (dst i) diff_32 s
     in upd_oszapc (SET_FLAGS_OSZAPC_SUB_32 op1_32 op2_32 diff_32) s)"

definition SBB_EdIdR :: "bxInstruction_c \<Rightarrow> bx_cpu \<Rightarrow> bx_cpu" where
  "SBB_EdIdR i s =
    (let op1_32 = BX_READ_32BIT_REG (dst i) s :: Bit32u;
         op2_32 = Id i;
         diff_32 = op1_32 - (op2_32 + getB_CF (oszapc s));
         s = BX_WRITE_32BIT_REGZ (dst i) diff_32 s
     in upd_oszapc (SET_FLAGS_OSZAPC_SUB_32 op1_32 op2_32 diff_32) s)"

definition SUB_GdEdR :: "bxInstruction_c \<Rightarrow> bx_cpu \<Rightarrow> bx_cpu" where
  "SUB_GdEdR i s =
    (let op1_32 = BX_READ_32BIT_REG (dst i) s :: Bit32u;
         op2_32 = BX_READ_32BIT_REG (src i) s;
         diff_32 = op1_32 - op2_32;
         s = BX_WRITE_32BIT_REGZ (dst i) diff_32 s
     in upd_oszapc (SET_FLAGS_OSZAPC_SUB_32 op1_32 op2_32 diff_32) s)"

definition SUB_EdIdR :: "bxInstruction_c \<Rightarrow> bx_cpu \<Rightarrow> bx_cpu" where
  "SUB_EdIdR i s =
    (let op1_32 = BX_READ_32BIT_REG (dst i) s :: Bit32u;
         op2_32 = Id i;
         diff_32 = op1_32 - op2_32;
         s = BX_WRITE_32BIT_REGZ (dst i) diff_32 s
     in upd_oszapc (SET_FLAGS_OSZAPC_SUB_32 op1_32 op2_32 diff_32) s)"

definition CMP_GdEdR :: "bxInstruction_c \<Rightarrow> bx_cpu \<Rightarrow> bx_cpu" where
  "CMP_GdEdR i s =
    (let op1_32 = BX_READ_32BIT_REG (dst i) s :: Bit32u;
         op2_32 = BX_READ_32BIT_REG (src i) s;
         diff_32 = op1_32 - op2_32
     in upd_oszapc (SET_FLAGS_OSZAPC_SUB_32 op1_32 op2_32 diff_32) s)"

definition CMP_EdIdR :: "bxInstruction_c \<Rightarrow> bx_cpu \<Rightarrow> bx_cpu" where
  "CMP_EdIdR i s =
    (let op1_32 = BX_READ_32BIT_REG (dst i) s :: Bit32u;
         op2_32 = Id i;
         diff_32 = op1_32 - op2_32
     in upd_oszapc (SET_FLAGS_OSZAPC_SUB_32 op1_32 op2_32 diff_32) s)"

definition XADD_EdGdR :: "bxInstruction_c \<Rightarrow> bx_cpu \<Rightarrow> bx_cpu" where
  "XADD_EdGdR i s =
    (let op1_32 = BX_READ_32BIT_REG (dst i) s :: Bit32u;
         op2_32 = BX_READ_32BIT_REG (src i) s;
         sum_32 = op1_32 + op2_32;
         s = BX_WRITE_32BIT_REGZ (src i) op1_32 s;
         s = BX_WRITE_32BIT_REGZ (dst i) sum_32 s
     in upd_oszapc (SET_FLAGS_OSZAPC_ADD_32 op1_32 op2_32 sum_32) s)"

definition NEG_EdR :: "bxInstruction_c \<Rightarrow> bx_cpu \<Rightarrow> bx_cpu" where
  "NEG_EdR i s =
    (let op1_32 = BX_READ_32BIT_REG (dst i) s :: Bit32u;
         op1_32 = - op1_32;
         s = BX_WRITE_32BIT_REGZ (dst i) op1_32 s
     in upd_oszapc (SET_FLAGS_OSZAPC_SUB_32 0 (0 - op1_32) op1_32) s)"

definition INC_EdR :: "bxInstruction_c \<Rightarrow> bx_cpu \<Rightarrow> bx_cpu" where
  "INC_EdR i s =
    (let s = BX_WRITE_32BIT_REG (dst i) (BX_READ_32BIT_REG (dst i) s + 1) s;
         erx = BX_READ_32BIT_REG (dst i) s;
         s = upd_oszapc (SET_FLAGS_OSZAP_ADD_32 (erx - 1) 0 erx) s
     in BX_CLEAR_64BIT_HIGH (dst i) s)"

definition DEC_EdR :: "bxInstruction_c \<Rightarrow> bx_cpu \<Rightarrow> bx_cpu" where
  "DEC_EdR i s =
    (let s = BX_WRITE_32BIT_REG (dst i) (BX_READ_32BIT_REG (dst i) s - 1) s;
         erx = BX_READ_32BIT_REG (dst i) s;
         s = upd_oszapc (SET_FLAGS_OSZAP_SUB_32 (erx + 1) 0 erx) s
     in BX_CLEAR_64BIT_HIGH (dst i) s)"

definition CMPXCHG_EdGdR :: "bxInstruction_c \<Rightarrow> bx_cpu \<Rightarrow> bx_cpu" where
  "CMPXCHG_EdGdR i s =
    (let op1_32 = BX_READ_32BIT_REG (dst i) s;
         diff_32 = EAX s - op1_32;
         s = upd_oszapc (SET_FLAGS_OSZAPC_SUB_32 (EAX s) op1_32 diff_32) s
     in (if diff_32 = 0 then BX_WRITE_32BIT_REGZ (dst i) (BX_READ_32BIT_REG (src i) s) s
         else BX_WRITE_64BIT_REG 0 (ucast op1_32) s))"

definition CWDE :: "bxInstruction_c \<Rightarrow> bx_cpu \<Rightarrow> bx_cpu" where
  "CWDE i s =
    (let tmp = scast (AX s) :: Bit32u
     in BX_WRITE_64BIT_REG 0 (ucast tmp) s)"

definition CDQ :: "bxInstruction_c \<Rightarrow> bx_cpu \<Rightarrow> bx_cpu" where
  "CDQ i s =
    (if EAX s AND 0x80000000 \<noteq> 0 then BX_WRITE_64BIT_REG 2 0xFFFFFFFF s else BX_WRITE_64BIT_REG 2 0x00000000 s)"

section \<open>Results and flags\<close>

lemmas arith32_defs = ADD_GdEdR_def ADC_GdEdR_def SUB_GdEdR_def SBB_GdEdR_def CMP_GdEdR_def ADD_EdIdR_def ADC_EdIdR_def SUB_EdIdR_def SBB_EdIdR_def CMP_EdIdR_def
  NEG_EdR_def INC_EdR_def DEC_EdR_def XADD_EdGdR_def CMPXCHG_EdGdR_def

lemma arith32_reg:
  fixes i :: bxInstruction_c and s :: bx_cpu
  defines "a \<equiv> BX_READ_32BIT_REG (dst i) s" and "b \<equiv> BX_READ_32BIT_REG (src i) s" and "c \<equiv> fCF (cpu_flags s)"
  shows "with_flags (ADD_GdEdR i s) (BX_WRITE_32BIT_REGZ (dst i) (a + b) s) (add_flags a b False)"
    "with_flags (ADC_GdEdR i s) (BX_WRITE_32BIT_REGZ (dst i) (a + b + of_bool c) s) (add_flags a b c)"
    "with_flags (SUB_GdEdR i s) (BX_WRITE_32BIT_REGZ (dst i) (a - b) s) (sub_flags a b False)"
    "with_flags (SBB_GdEdR i s) (BX_WRITE_32BIT_REGZ (dst i) (a - (b + of_bool c)) s) (sub_flags a b c)"
    "with_flags (CMP_GdEdR i s) s (sub_flags a b False)"
  unfolding a_def b_def c_def arith32_defs Let_def with_flags_def
  by (simp_all add: ucast_add_down ucast_sub_down ucast_minus_down getB_flags flags_ADD0(3) flags_SUB0(3)
      flags_ADD(3) [where c = "fCF (cpu_flags s)"] flags_SUB(3) [where c = "fCF (cpu_flags s)"])

lemma arith32_imm:
  fixes i :: bxInstruction_c and s :: bx_cpu
  defines "a \<equiv> BX_READ_32BIT_REG (dst i) s" and "b \<equiv> Id i" and "c \<equiv> fCF (cpu_flags s)"
  shows "with_flags (ADD_EdIdR i s) (BX_WRITE_32BIT_REGZ (dst i) (a + b) s) (add_flags a b False)"
    "with_flags (ADC_EdIdR i s) (BX_WRITE_32BIT_REGZ (dst i) (a + b + of_bool c) s) (add_flags a b c)"
    "with_flags (SUB_EdIdR i s) (BX_WRITE_32BIT_REGZ (dst i) (a - b) s) (sub_flags a b False)"
    "with_flags (SBB_EdIdR i s) (BX_WRITE_32BIT_REGZ (dst i) (a - (b + of_bool c)) s) (sub_flags a b c)"
    "with_flags (CMP_EdIdR i s) s (sub_flags a b False)"
  unfolding a_def b_def c_def arith32_defs Let_def with_flags_def
  by (simp_all add: ucast_add_down ucast_sub_down ucast_minus_down getB_flags flags_ADD0(3) flags_SUB0(3)
      flags_ADD(3) [where c = "fCF (cpu_flags s)"] flags_SUB(3) [where c = "fCF (cpu_flags s)"])

lemma arith32_unary:
  fixes i :: bxInstruction_c and s :: bx_cpu
  defines "a \<equiv> BX_READ_32BIT_REG (dst i) s"
  shows "with_flags (NEG_EdR i s) (BX_WRITE_32BIT_REGZ (dst i) (- a) s) (sub_flags 0 a False)"
    "with_flags (INC_EdR i s) (BX_WRITE_32BIT_REGZ (dst i) (a + 1) s) ((add_flags a 1 False)\<lparr>fCF := fCF (cpu_flags s)\<rparr>)"
    "with_flags (DEC_EdR i s) (BX_WRITE_32BIT_REGZ (dst i) (a - 1) s) ((sub_flags a 1 False)\<lparr>fCF := fCF (cpu_flags s)\<rparr>)"
  unfolding a_def arith32_defs Let_def with_flags_def
  by (simp_all add: ucast_add_down ucast_sub_down ucast_minus_down flags_OSZAP flags_SUB0(3) flags_ADD1(3) flags_SUB1(3)
      add_flags_inc sub_flags_dec reg_access_defs reg_set_erx_clear_high)


end
