(* ===== verification/Arith64.thy ===== *)
theory Arith64
  imports CpuState
begin

text \<open>
  The register forms of the 64-bit integer arithmetic handlers of \<^verbatim>\<open>cpu/arith64.cc\<close>: one definition
  per handler, with the handler's own order of register writes and flag updates.
\<close>

section \<open>Handlers\<close>

definition ADD_GqEqR :: "bxInstruction_c \<Rightarrow> bx_cpu \<Rightarrow> bx_cpu" where
  "ADD_GqEqR i s =
    (let op1_64 = BX_READ_64BIT_REG (dst i) s :: Bit64u;
         op2_64 = BX_READ_64BIT_REG (src i) s;
         sum_64 = op1_64 + op2_64;
         s = BX_WRITE_64BIT_REG (dst i) sum_64 s
     in upd_oszapc (SET_FLAGS_OSZAPC_ADD_64 op1_64 op2_64 sum_64) s)"

definition ADD_EqIdR :: "bxInstruction_c \<Rightarrow> bx_cpu \<Rightarrow> bx_cpu" where
  "ADD_EqIdR i s =
    (let op1_64 = BX_READ_64BIT_REG (dst i) s :: Bit64u;
         op2_64 = scast (Id i);
         sum_64 = op1_64 + op2_64;
         s = BX_WRITE_64BIT_REG (dst i) sum_64 s
     in upd_oszapc (SET_FLAGS_OSZAPC_ADD_64 op1_64 op2_64 sum_64) s)"

definition ADC_GqEqR :: "bxInstruction_c \<Rightarrow> bx_cpu \<Rightarrow> bx_cpu" where
  "ADC_GqEqR i s =
    (let op1_64 = BX_READ_64BIT_REG (dst i) s :: Bit64u;
         op2_64 = BX_READ_64BIT_REG (src i) s;
         sum_64 = op1_64 + op2_64 + ucast (getB_CF (oszapc s));
         s = BX_WRITE_64BIT_REG (dst i) sum_64 s
     in upd_oszapc (SET_FLAGS_OSZAPC_ADD_64 op1_64 op2_64 sum_64) s)"

definition ADC_EqIdR :: "bxInstruction_c \<Rightarrow> bx_cpu \<Rightarrow> bx_cpu" where
  "ADC_EqIdR i s =
    (let op1_64 = BX_READ_64BIT_REG (dst i) s :: Bit64u;
         op2_64 = scast (Id i);
         sum_64 = op1_64 + op2_64 + ucast (getB_CF (oszapc s));
         s = BX_WRITE_64BIT_REG (dst i) sum_64 s
     in upd_oszapc (SET_FLAGS_OSZAPC_ADD_64 op1_64 op2_64 sum_64) s)"

definition SBB_GqEqR :: "bxInstruction_c \<Rightarrow> bx_cpu \<Rightarrow> bx_cpu" where
  "SBB_GqEqR i s =
    (let op1_64 = BX_READ_64BIT_REG (dst i) s :: Bit64u;
         op2_64 = BX_READ_64BIT_REG (src i) s;
         diff_64 = op1_64 - (op2_64 + ucast (getB_CF (oszapc s)));
         s = BX_WRITE_64BIT_REG (dst i) diff_64 s
     in upd_oszapc (SET_FLAGS_OSZAPC_SUB_64 op1_64 op2_64 diff_64) s)"

definition SBB_EqIdR :: "bxInstruction_c \<Rightarrow> bx_cpu \<Rightarrow> bx_cpu" where
  "SBB_EqIdR i s =
    (let op1_64 = BX_READ_64BIT_REG (dst i) s :: Bit64u;
         op2_64 = scast (Id i);
         diff_64 = op1_64 - (op2_64 + ucast (getB_CF (oszapc s)));
         s = BX_WRITE_64BIT_REG (dst i) diff_64 s
     in upd_oszapc (SET_FLAGS_OSZAPC_SUB_64 op1_64 op2_64 diff_64) s)"

definition SUB_GqEqR :: "bxInstruction_c \<Rightarrow> bx_cpu \<Rightarrow> bx_cpu" where
  "SUB_GqEqR i s =
    (let op1_64 = BX_READ_64BIT_REG (dst i) s :: Bit64u;
         op2_64 = BX_READ_64BIT_REG (src i) s;
         diff_64 = op1_64 - op2_64;
         s = BX_WRITE_64BIT_REG (dst i) diff_64 s
     in upd_oszapc (SET_FLAGS_OSZAPC_SUB_64 op1_64 op2_64 diff_64) s)"

definition SUB_EqIdR :: "bxInstruction_c \<Rightarrow> bx_cpu \<Rightarrow> bx_cpu" where
  "SUB_EqIdR i s =
    (let op1_64 = BX_READ_64BIT_REG (dst i) s :: Bit64u;
         op2_64 = scast (Id i);
         diff_64 = op1_64 - op2_64;
         s = BX_WRITE_64BIT_REG (dst i) diff_64 s
     in upd_oszapc (SET_FLAGS_OSZAPC_SUB_64 op1_64 op2_64 diff_64) s)"

definition CMP_GqEqR :: "bxInstruction_c \<Rightarrow> bx_cpu \<Rightarrow> bx_cpu" where
  "CMP_GqEqR i s =
    (let op1_64 = BX_READ_64BIT_REG (dst i) s :: Bit64u;
         op2_64 = BX_READ_64BIT_REG (src i) s;
         diff_64 = op1_64 - op2_64
     in upd_oszapc (SET_FLAGS_OSZAPC_SUB_64 op1_64 op2_64 diff_64) s)"

definition CMP_EqIdR :: "bxInstruction_c \<Rightarrow> bx_cpu \<Rightarrow> bx_cpu" where
  "CMP_EqIdR i s =
    (let op1_64 = BX_READ_64BIT_REG (dst i) s :: Bit64u;
         op2_64 = scast (Id i);
         diff_64 = op1_64 - op2_64
     in upd_oszapc (SET_FLAGS_OSZAPC_SUB_64 op1_64 op2_64 diff_64) s)"

definition XADD_EqGqR :: "bxInstruction_c \<Rightarrow> bx_cpu \<Rightarrow> bx_cpu" where
  "XADD_EqGqR i s =
    (let op1_64 = BX_READ_64BIT_REG (dst i) s :: Bit64u;
         op2_64 = BX_READ_64BIT_REG (src i) s;
         sum_64 = op1_64 + op2_64;
         s = BX_WRITE_64BIT_REG (src i) op1_64 s;
         s = BX_WRITE_64BIT_REG (dst i) sum_64 s
     in upd_oszapc (SET_FLAGS_OSZAPC_ADD_64 op1_64 op2_64 sum_64) s)"

definition NEG_EqR :: "bxInstruction_c \<Rightarrow> bx_cpu \<Rightarrow> bx_cpu" where
  "NEG_EqR i s =
    (let op1_64 = BX_READ_64BIT_REG (dst i) s :: Bit64u;
         op1_64 = - op1_64;
         s = BX_WRITE_64BIT_REG (dst i) op1_64 s
     in upd_oszapc (SET_FLAGS_OSZAPC_SUB_64 0 (- op1_64) op1_64) s)"

definition INC_EqR :: "bxInstruction_c \<Rightarrow> bx_cpu \<Rightarrow> bx_cpu" where
  "INC_EqR i s =
    (let s = BX_WRITE_64BIT_REG (dst i) (BX_READ_64BIT_REG (dst i) s + 1) s;
         rrx = BX_READ_64BIT_REG (dst i) s
     in upd_oszapc (SET_FLAGS_OSZAP_ADD_64 (rrx - 1) 0 rrx) s)"

definition DEC_EqR :: "bxInstruction_c \<Rightarrow> bx_cpu \<Rightarrow> bx_cpu" where
  "DEC_EqR i s =
    (let s = BX_WRITE_64BIT_REG (dst i) (BX_READ_64BIT_REG (dst i) s - 1) s;
         rrx = BX_READ_64BIT_REG (dst i) s
     in upd_oszapc (SET_FLAGS_OSZAP_SUB_64 (rrx + 1) 0 rrx) s)"

definition CMPXCHG_EqGqR :: "bxInstruction_c \<Rightarrow> bx_cpu \<Rightarrow> bx_cpu" where
  "CMPXCHG_EqGqR i s =
    (let op1_64 = BX_READ_64BIT_REG (dst i) s;
         diff_64 = RAX s - op1_64;
         s = upd_oszapc (SET_FLAGS_OSZAPC_SUB_64 (RAX s) op1_64 diff_64) s
     in (if diff_64 = 0 then BX_WRITE_64BIT_REG (dst i) (BX_READ_64BIT_REG (src i) s) s
         else BX_WRITE_64BIT_REG 0 op1_64 s))"

definition CDQE :: "bxInstruction_c \<Rightarrow> bx_cpu \<Rightarrow> bx_cpu" where
  "CDQE i s =
    BX_WRITE_64BIT_REG 0 (scast (EAX s)) s"

definition CQO :: "bxInstruction_c \<Rightarrow> bx_cpu \<Rightarrow> bx_cpu" where
  "CQO i s =
    (if RAX s AND 0x8000000000000000 \<noteq> 0 then BX_WRITE_64BIT_REG 2 0xffffffffffffffff s else BX_WRITE_64BIT_REG 2 0 s)"

section \<open>Results and flags\<close>

lemmas arith64_defs = ADD_GqEqR_def ADC_GqEqR_def SUB_GqEqR_def SBB_GqEqR_def CMP_GqEqR_def ADD_EqIdR_def ADC_EqIdR_def SUB_EqIdR_def SBB_EqIdR_def CMP_EqIdR_def
  NEG_EqR_def INC_EqR_def DEC_EqR_def XADD_EqGqR_def CMPXCHG_EqGqR_def

lemma arith64_reg:
  fixes i :: bxInstruction_c and s :: bx_cpu
  defines "a \<equiv> BX_READ_64BIT_REG (dst i) s" and "b \<equiv> BX_READ_64BIT_REG (src i) s" and "c \<equiv> fCF (cpu_flags s)"
  shows "with_flags (ADD_GqEqR i s) (BX_WRITE_64BIT_REG (dst i) (a + b) s) (add_flags a b False)"
    "with_flags (ADC_GqEqR i s) (BX_WRITE_64BIT_REG (dst i) (a + b + of_bool c) s) (add_flags a b c)"
    "with_flags (SUB_GqEqR i s) (BX_WRITE_64BIT_REG (dst i) (a - b) s) (sub_flags a b False)"
    "with_flags (SBB_GqEqR i s) (BX_WRITE_64BIT_REG (dst i) (a - (b + of_bool c)) s) (sub_flags a b c)"
    "with_flags (CMP_GqEqR i s) s (sub_flags a b False)"
  unfolding a_def b_def c_def arith64_defs Let_def with_flags_def
  by (simp_all add: ucast_add_down ucast_sub_down ucast_minus_down getB_flags flags_ADD0(4) flags_SUB0(4)
      flags_ADD(4) [where c = "fCF (cpu_flags s)"] flags_SUB(4) [where c = "fCF (cpu_flags s)"])

lemma arith64_imm:
  fixes i :: bxInstruction_c and s :: bx_cpu
  defines "a \<equiv> BX_READ_64BIT_REG (dst i) s" and "b \<equiv> scast (Id i)" and "c \<equiv> fCF (cpu_flags s)"
  shows "with_flags (ADD_EqIdR i s) (BX_WRITE_64BIT_REG (dst i) (a + b) s) (add_flags a b False)"
    "with_flags (ADC_EqIdR i s) (BX_WRITE_64BIT_REG (dst i) (a + b + of_bool c) s) (add_flags a b c)"
    "with_flags (SUB_EqIdR i s) (BX_WRITE_64BIT_REG (dst i) (a - b) s) (sub_flags a b False)"
    "with_flags (SBB_EqIdR i s) (BX_WRITE_64BIT_REG (dst i) (a - (b + of_bool c)) s) (sub_flags a b c)"
    "with_flags (CMP_EqIdR i s) s (sub_flags a b False)"
  unfolding a_def b_def c_def arith64_defs Let_def with_flags_def
  by (simp_all add: ucast_add_down ucast_sub_down ucast_minus_down getB_flags flags_ADD0(4) flags_SUB0(4)
      flags_ADD(4) [where c = "fCF (cpu_flags s)"] flags_SUB(4) [where c = "fCF (cpu_flags s)"])

lemma arith64_unary:
  fixes i :: bxInstruction_c and s :: bx_cpu
  defines "a \<equiv> BX_READ_64BIT_REG (dst i) s"
  shows "with_flags (NEG_EqR i s) (BX_WRITE_64BIT_REG (dst i) (- a) s) (sub_flags 0 a False)"
    "with_flags (INC_EqR i s) (BX_WRITE_64BIT_REG (dst i) (a + 1) s) ((add_flags a 1 False)\<lparr>fCF := fCF (cpu_flags s)\<rparr>)"
    "with_flags (DEC_EqR i s) (BX_WRITE_64BIT_REG (dst i) (a - 1) s) ((sub_flags a 1 False)\<lparr>fCF := fCF (cpu_flags s)\<rparr>)"
  unfolding a_def arith64_defs Let_def with_flags_def
  by (simp_all add: ucast_add_down ucast_sub_down ucast_minus_down flags_OSZAP flags_SUB0(4) flags_ADD1(4) flags_SUB1(4)
      add_flags_inc sub_flags_dec reg_access_defs reg_set_erx_clear_high)


end
