(* ===== verification/SetCC.thy ===== *)
theory SetCC
  imports CpuState
begin

text \<open>
  The conditional byte stores of \<^verbatim>\<open>cpu/bit.cc\<close> (register forms of \<open>SETcc\<close>): each of the sixteen handlers
  writes a condition computed from the lazy flags. \<open>lnot\<close> is the C operator \<open>!\<close> on \<open>unsigned\<close>.
\<close>

section \<open>Handlers\<close>

definition lnot :: "Bit32u \<Rightarrow> Bit32u" where
  "lnot x = (if x = 0 then 1 else 0)"

definition SETCC_EbR :: "(bx_lazyflags_entry \<Rightarrow> Bit32u) \<Rightarrow> bxInstruction_c \<Rightarrow> bx_cpu \<Rightarrow> bx_cpu" where
  "SETCC_EbR cond i s = BX_WRITE_8BIT_REGx (dst i) (extend8bitL i) (ucast (cond (oszapc s))) s"

definition SETO_EbR :: "bxInstruction_c \<Rightarrow> bx_cpu \<Rightarrow> bx_cpu" where
  "SETO_EbR = SETCC_EbR (\<lambda>e. getB_OF e)"

definition SETNO_EbR :: "bxInstruction_c \<Rightarrow> bx_cpu \<Rightarrow> bx_cpu" where
  "SETNO_EbR = SETCC_EbR (\<lambda>e. lnot (getB_OF e))"

definition SETB_EbR :: "bxInstruction_c \<Rightarrow> bx_cpu \<Rightarrow> bx_cpu" where
  "SETB_EbR = SETCC_EbR (\<lambda>e. getB_CF e)"

definition SETNB_EbR :: "bxInstruction_c \<Rightarrow> bx_cpu \<Rightarrow> bx_cpu" where
  "SETNB_EbR = SETCC_EbR (\<lambda>e. lnot (getB_CF e))"

definition SETZ_EbR :: "bxInstruction_c \<Rightarrow> bx_cpu \<Rightarrow> bx_cpu" where
  "SETZ_EbR = SETCC_EbR (\<lambda>e. getB_ZF e)"

definition SETNZ_EbR :: "bxInstruction_c \<Rightarrow> bx_cpu \<Rightarrow> bx_cpu" where
  "SETNZ_EbR = SETCC_EbR (\<lambda>e. lnot (getB_ZF e))"

definition SETBE_EbR :: "bxInstruction_c \<Rightarrow> bx_cpu \<Rightarrow> bx_cpu" where
  "SETBE_EbR = SETCC_EbR (\<lambda>e. getB_CF e OR getB_ZF e)"

definition SETNBE_EbR :: "bxInstruction_c \<Rightarrow> bx_cpu \<Rightarrow> bx_cpu" where
  "SETNBE_EbR = SETCC_EbR (\<lambda>e. lnot (getB_CF e OR getB_ZF e))"

definition SETS_EbR :: "bxInstruction_c \<Rightarrow> bx_cpu \<Rightarrow> bx_cpu" where
  "SETS_EbR = SETCC_EbR (\<lambda>e. getB_SF e)"

definition SETNS_EbR :: "bxInstruction_c \<Rightarrow> bx_cpu \<Rightarrow> bx_cpu" where
  "SETNS_EbR = SETCC_EbR (\<lambda>e. lnot (getB_SF e))"

definition SETP_EbR :: "bxInstruction_c \<Rightarrow> bx_cpu \<Rightarrow> bx_cpu" where
  "SETP_EbR = SETCC_EbR (\<lambda>e. getB_PF e)"

definition SETNP_EbR :: "bxInstruction_c \<Rightarrow> bx_cpu \<Rightarrow> bx_cpu" where
  "SETNP_EbR = SETCC_EbR (\<lambda>e. lnot (getB_PF e))"

definition SETL_EbR :: "bxInstruction_c \<Rightarrow> bx_cpu \<Rightarrow> bx_cpu" where
  "SETL_EbR = SETCC_EbR (\<lambda>e. getB_SF e XOR getB_OF e)"

definition SETNL_EbR :: "bxInstruction_c \<Rightarrow> bx_cpu \<Rightarrow> bx_cpu" where
  "SETNL_EbR = SETCC_EbR (\<lambda>e. lnot (getB_SF e XOR getB_OF e))"

definition SETLE_EbR :: "bxInstruction_c \<Rightarrow> bx_cpu \<Rightarrow> bx_cpu" where
  "SETLE_EbR = SETCC_EbR (\<lambda>e. getB_ZF e OR (getB_SF e XOR getB_OF e))"

definition SETNLE_EbR :: "bxInstruction_c \<Rightarrow> bx_cpu \<Rightarrow> bx_cpu" where
  "SETNLE_EbR = SETCC_EbR (\<lambda>e. lnot (getB_ZF e OR (getB_SF e XOR getB_OF e)))"

lemmas SETcc_defs = SETO_EbR_def SETNO_EbR_def SETB_EbR_def SETNB_EbR_def SETZ_EbR_def SETNZ_EbR_def SETBE_EbR_def SETNBE_EbR_def
  SETS_EbR_def SETNS_EbR_def SETP_EbR_def SETNP_EbR_def SETL_EbR_def SETNL_EbR_def SETLE_EbR_def SETNLE_EbR_def

section \<open>The condition each handler stores\<close>

lemma of_bool_bits:
  "(of_bool p OR of_bool q :: 'a::len word) = of_bool (p \<or> q)"
  "(of_bool p XOR of_bool q :: 'a::len word) = of_bool (p \<noteq> q)"
  by (cases p; cases q; simp)+

lemma lnot_of_bool: "lnot (of_bool p) = of_bool (\<not> p)"
  by (simp add: lnot_def)

text \<open>Every handler stores the byte 0 or 1 that says whether its condition holds, and changes nothing else.\<close>

lemma SETcc_conditions:
  fixes i :: bxInstruction_c and s :: bx_cpu
  defines "put \<equiv> \<lambda>p. BX_WRITE_8BIT_REGx (dst i) (extend8bitL i) (of_bool p) s" and "f \<equiv> cpu_flags s"
  shows "SETO_EbR i s = put (fOF f)"
    "SETNO_EbR i s = put (\<not> fOF f)"
    "SETB_EbR i s = put (fCF f)"
    "SETNB_EbR i s = put (\<not> fCF f)"
    "SETZ_EbR i s = put (fZF f)"
    "SETNZ_EbR i s = put (\<not> fZF f)"
    "SETBE_EbR i s = put (fCF f \<or> fZF f)"
    "SETNBE_EbR i s = put (\<not> (fCF f \<or> fZF f))"
    "SETS_EbR i s = put (fSF f)"
    "SETNS_EbR i s = put (\<not> fSF f)"
    "SETP_EbR i s = put (fPF f)"
    "SETNP_EbR i s = put (\<not> fPF f)"
    "SETL_EbR i s = put (fSF f \<noteq> fOF f)"
    "SETNL_EbR i s = put (\<not> (fSF f \<noteq> fOF f))"
    "SETLE_EbR i s = put (fZF f \<or> fSF f \<noteq> fOF f)"
    "SETNLE_EbR i s = put (\<not> (fZF f \<or> fSF f \<noteq> fOF f))"
  by (simp_all only: SETcc_defs SETCC_EbR_def getB_flags of_bool_bits lnot_of_bool ucast_of_bool put_def f_def)

end
