(* ===== verification/ArithProps.thy ===== *)
theory ArithProps
  imports Arith8 Arith16 Arith32 Arith64 SetCC
begin

text \<open>
  Properties of the integer arithmetic handlers that span operand sizes or several instructions:
  what every addition and subtraction leaves behind, exchange-and-add, compare-and-exchange, signed
  and unsigned comparison through \<open>CMP\<close> and \<open>SETcc\<close>, multi-word arithmetic through the carry flag,
  and sign extension.
\<close>

section \<open>Addition and subtraction at every operand size\<close>

text \<open>
  The operands and the destination of a two-register instruction at each size, as the state sees them.
\<close>

abbreviation (input) "op1_of_8 i s \<equiv> BX_READ_8BIT_REGx (dst i) (extend8bitL i) s"
abbreviation (input) "op2_of_8 i s \<equiv> BX_READ_8BIT_REGx (src i) (extend8bitL i) s"
abbreviation (input) "put_8 i v s \<equiv> BX_WRITE_8BIT_REGx (dst i) (extend8bitL i) v s"
abbreviation (input) "op1_of_16 i s \<equiv> BX_READ_16BIT_REG (dst i) s"
abbreviation (input) "op2_of_16 i s \<equiv> BX_READ_16BIT_REG (src i) s"
abbreviation (input) "put_16 i v s \<equiv> BX_WRITE_16BIT_REG (dst i) v s"
abbreviation (input) "op1_of_32 i s \<equiv> BX_READ_32BIT_REG (dst i) s"
abbreviation (input) "op2_of_32 i s \<equiv> BX_READ_32BIT_REG (src i) s"
abbreviation (input) "put_32 i v s \<equiv> BX_WRITE_32BIT_REGZ (dst i) v s"
abbreviation (input) "op1_of_64 i s \<equiv> BX_READ_64BIT_REG (dst i) s"
abbreviation (input) "op2_of_64 i s \<equiv> BX_READ_64BIT_REG (src i) s"
abbreviation (input) "put_64 i v s \<equiv> BX_WRITE_64BIT_REG (dst i) v s"

text \<open>C1. ADD, ADC, SUB and SBB between registers store the wrapped sum or difference (with the carry flag added or
  borrowed for ADC and SBB) in the destination, CMP stores nothing, and all five change no other register and leave the
  six flags of the operation, at every operand size.\<close>

theorem add_sub_registers:
  "with_flags (ADD_GbEbR i s) (put_8 i (op1_of_8 i s + op2_of_8 i s) s)
      (add_flags (op1_of_8 i s) (op2_of_8 i s) False)
   \<and> with_flags (ADC_GbEbR i s) (put_8 i (op1_of_8 i s + op2_of_8 i s + of_bool (fCF (cpu_flags s))) s)
      (add_flags (op1_of_8 i s) (op2_of_8 i s) (fCF (cpu_flags s)))
   \<and> with_flags (ADD_GwEwR i s) (put_16 i (op1_of_16 i s + op2_of_16 i s) s)
      (add_flags (op1_of_16 i s) (op2_of_16 i s) False)
   \<and> with_flags (ADC_GwEwR i s) (put_16 i (op1_of_16 i s + op2_of_16 i s + of_bool (fCF (cpu_flags s))) s)
      (add_flags (op1_of_16 i s) (op2_of_16 i s) (fCF (cpu_flags s)))
   \<and> with_flags (ADD_GdEdR i s) (put_32 i (op1_of_32 i s + op2_of_32 i s) s)
      (add_flags (op1_of_32 i s) (op2_of_32 i s) False)
   \<and> with_flags (ADC_GdEdR i s) (put_32 i (op1_of_32 i s + op2_of_32 i s + of_bool (fCF (cpu_flags s))) s)
      (add_flags (op1_of_32 i s) (op2_of_32 i s) (fCF (cpu_flags s)))
   \<and> with_flags (ADD_GqEqR i s) (put_64 i (op1_of_64 i s + op2_of_64 i s) s)
      (add_flags (op1_of_64 i s) (op2_of_64 i s) False)
   \<and> with_flags (ADC_GqEqR i s) (put_64 i (op1_of_64 i s + op2_of_64 i s + of_bool (fCF (cpu_flags s))) s)
      (add_flags (op1_of_64 i s) (op2_of_64 i s) (fCF (cpu_flags s)))
   \<and> with_flags (SUB_GbEbR i s) (put_8 i (op1_of_8 i s - op2_of_8 i s) s)
      (sub_flags (op1_of_8 i s) (op2_of_8 i s) False)
   \<and> with_flags (SBB_GbEbR i s) (put_8 i (op1_of_8 i s - (op2_of_8 i s + of_bool (fCF (cpu_flags s)))) s)
      (sub_flags (op1_of_8 i s) (op2_of_8 i s) (fCF (cpu_flags s)))
   \<and> with_flags (CMP_GbEbR i s) s (sub_flags (op1_of_8 i s) (op2_of_8 i s) False)
   \<and> with_flags (SUB_GwEwR i s) (put_16 i (op1_of_16 i s - op2_of_16 i s) s)
      (sub_flags (op1_of_16 i s) (op2_of_16 i s) False)
   \<and> with_flags (SBB_GwEwR i s) (put_16 i (op1_of_16 i s - (op2_of_16 i s + of_bool (fCF (cpu_flags s)))) s)
      (sub_flags (op1_of_16 i s) (op2_of_16 i s) (fCF (cpu_flags s)))
   \<and> with_flags (CMP_GwEwR i s) s (sub_flags (op1_of_16 i s) (op2_of_16 i s) False)
   \<and> with_flags (SUB_GdEdR i s) (put_32 i (op1_of_32 i s - op2_of_32 i s) s)
      (sub_flags (op1_of_32 i s) (op2_of_32 i s) False)
   \<and> with_flags (SBB_GdEdR i s) (put_32 i (op1_of_32 i s - (op2_of_32 i s + of_bool (fCF (cpu_flags s)))) s)
      (sub_flags (op1_of_32 i s) (op2_of_32 i s) (fCF (cpu_flags s)))
   \<and> with_flags (CMP_GdEdR i s) s (sub_flags (op1_of_32 i s) (op2_of_32 i s) False)
   \<and> with_flags (SUB_GqEqR i s) (put_64 i (op1_of_64 i s - op2_of_64 i s) s)
      (sub_flags (op1_of_64 i s) (op2_of_64 i s) False)
   \<and> with_flags (SBB_GqEqR i s) (put_64 i (op1_of_64 i s - (op2_of_64 i s + of_bool (fCF (cpu_flags s)))) s)
      (sub_flags (op1_of_64 i s) (op2_of_64 i s) (fCF (cpu_flags s)))
   \<and> with_flags (CMP_GqEqR i s) s (sub_flags (op1_of_64 i s) (op2_of_64 i s) False)"
  using arith8_reg(1,2) [of i s] arith16_reg(1,2) [of i s] arith32_reg(1,2) [of i s] arith64_reg(1,2) [of i s] arith8_reg(3-5) [of i s] arith16_reg(3-5) [of i s] arith32_reg(3-5) [of i s] arith64_reg(3-5) [of i s]
  by (intro conjI)

text \<open>INC and DEC add or subtract one and set five flags as ADD and SUB of one would, but keep the
  carry flag; NEG subtracts its operand from zero, flags included.\<close>

theorem inc_dec_neg_registers:
  "with_flags (INC_EbR i s) (put_8 i (op1_of_8 i s + 1) s)
      ((add_flags (op1_of_8 i s) 1 False)\<lparr>fCF := fCF (cpu_flags s)\<rparr>)
   \<and> with_flags (DEC_EbR i s) (put_8 i (op1_of_8 i s - 1) s)
      ((sub_flags (op1_of_8 i s) 1 False)\<lparr>fCF := fCF (cpu_flags s)\<rparr>)
   \<and> with_flags (NEG_EbR i s) (put_8 i (- op1_of_8 i s) s) (sub_flags 0 (op1_of_8 i s) False)
   \<and> with_flags (INC_EwR i s) (put_16 i (op1_of_16 i s + 1) s)
      ((add_flags (op1_of_16 i s) 1 False)\<lparr>fCF := fCF (cpu_flags s)\<rparr>)
   \<and> with_flags (DEC_EwR i s) (put_16 i (op1_of_16 i s - 1) s)
      ((sub_flags (op1_of_16 i s) 1 False)\<lparr>fCF := fCF (cpu_flags s)\<rparr>)
   \<and> with_flags (NEG_EwR i s) (put_16 i (- op1_of_16 i s) s) (sub_flags 0 (op1_of_16 i s) False)
   \<and> with_flags (INC_EdR i s) (put_32 i (op1_of_32 i s + 1) s)
      ((add_flags (op1_of_32 i s) 1 False)\<lparr>fCF := fCF (cpu_flags s)\<rparr>)
   \<and> with_flags (DEC_EdR i s) (put_32 i (op1_of_32 i s - 1) s)
      ((sub_flags (op1_of_32 i s) 1 False)\<lparr>fCF := fCF (cpu_flags s)\<rparr>)
   \<and> with_flags (NEG_EdR i s) (put_32 i (- op1_of_32 i s) s) (sub_flags 0 (op1_of_32 i s) False)
   \<and> with_flags (INC_EqR i s) (put_64 i (op1_of_64 i s + 1) s)
      ((add_flags (op1_of_64 i s) 1 False)\<lparr>fCF := fCF (cpu_flags s)\<rparr>)
   \<and> with_flags (DEC_EqR i s) (put_64 i (op1_of_64 i s - 1) s)
      ((sub_flags (op1_of_64 i s) 1 False)\<lparr>fCF := fCF (cpu_flags s)\<rparr>)
   \<and> with_flags (NEG_EqR i s) (put_64 i (- op1_of_64 i s) s) (sub_flags 0 (op1_of_64 i s) False)"
  using arith8_unary [of i s] arith16_unary [of i s] arith32_unary [of i s] arith64_unary [of i s]
  by (intro conjI)

section \<open>Exchanging operands\<close>

text \<open>XADD stores the sum in the destination and the old destination in the source; the destination is
  written last, so with both operands in one register the sum survives.\<close>

lemma xadd_registers:
  "with_flags (XADD_EbGbR i s)
      (put_8 i (op1_of_8 i s + op2_of_8 i s) (BX_WRITE_8BIT_REGx (src i) (extend8bitL i) (op1_of_8 i s) s))
      (add_flags (op1_of_8 i s) (op2_of_8 i s) False)
   \<and> with_flags (XADD_EwGwR i s)
      (put_16 i (op1_of_16 i s + op2_of_16 i s) (BX_WRITE_16BIT_REG (src i) (op1_of_16 i s) s))
      (add_flags (op1_of_16 i s) (op2_of_16 i s) False)
   \<and> with_flags (XADD_EdGdR i s)
      (put_32 i (op1_of_32 i s + op2_of_32 i s) (BX_WRITE_32BIT_REGZ (src i) (op1_of_32 i s) s))
      (add_flags (op1_of_32 i s) (op2_of_32 i s) False)
   \<and> with_flags (XADD_EqGqR i s)
      (put_64 i (op1_of_64 i s + op2_of_64 i s) (BX_WRITE_64BIT_REG (src i) (op1_of_64 i s) s))
      (add_flags (op1_of_64 i s) (op2_of_64 i s) False)"
  by (intro conjI; simp add: with_flags_def Let_def XADD_EbGbR_def XADD_EwGwR_def XADD_EdGdR_def XADD_EqGqR_def
      ucast_add_down flags_ADD0)

text \<open>CMPXCHG is compare-and-swap: it compares the accumulator with the destination, setting the
  flags of that comparison, and either stores the source in the destination (equal) or loads the
  accumulator from the destination (different).\<close>

theorem cmpxchg_registers:
  "with_flags (CMPXCHG_EbGbR i s)
      (if AL s = op1_of_8 i s then put_8 i (op2_of_8 i s) s else BX_WRITE_8BIT_REGL 0 (op1_of_8 i s) s)
      (sub_flags (AL s) (op1_of_8 i s) False)
   \<and> with_flags (CMPXCHG_EwGwR i s)
      (if AX s = op1_of_16 i s then put_16 i (op2_of_16 i s) s else BX_WRITE_16BIT_REG 0 (op1_of_16 i s) s)
      (sub_flags (AX s) (op1_of_16 i s) False)
   \<and> with_flags (CMPXCHG_EdGdR i s)
      (if EAX s = op1_of_32 i s then put_32 i (op2_of_32 i s) s else BX_WRITE_64BIT_REG 0 (ucast (op1_of_32 i s)) s)
      (sub_flags (EAX s) (op1_of_32 i s) False)
   \<and> with_flags (CMPXCHG_EqGqR i s)
      (if RAX s = op1_of_64 i s then put_64 i (op2_of_64 i s) s else BX_WRITE_64BIT_REG 0 (op1_of_64 i s) s)
      (sub_flags (RAX s) (op1_of_64 i s) False)"
  by (intro conjI; simp add: with_flags_def Let_def reg_write_upd CMPXCHG_EbGbR_def CMPXCHG_EwGwR_def CMPXCHG_EdGdR_def
      CMPXCHG_EqGqR_def ucast_sub_down ucast_eq_up flags_SUB0)

section \<open>Comparisons\<close>

abbreviation (input) "setcc_byte j p s \<equiv> BX_WRITE_8BIT_REGx (dst j) (extend8bitL j) (of_bool p) s"

lemma with_flags_flags: "with_flags s' s0 fl \<Longrightarrow> cpu_flags s' = fl"
  by (simp add: with_flags_def)

text \<open>The flags of a subtraction decide every order relation between its operands.\<close>

lemma sub_flags_compare:
  fixes a b :: "'a::len word"
  shows "fCF (sub_flags a b False) \<longleftrightarrow> a < b" "fZF (sub_flags a b False) \<longleftrightarrow> a = b"
    "fSF (sub_flags a b False) \<noteq> fOF (sub_flags a b False) \<longleftrightarrow> sint a < sint b"
proof -
  obtain n where n: "LENGTH('a) = Suc n" using len_gt_0 [where 'a = 'a] by (cases "LENGTH('a)") simp_all
  have carry: "borrow_in (uint a) (uint b) False (Suc n) \<longleftrightarrow> uint a < uint b"
    using borrow_in_length [of a b False] by (simp add: n)
  define A B p where "A = take_bit n (uint a)" and "B = take_bit n (uint b)" and "p = (2 ^ n :: int)"
  have range: "0 \<le> A" "A < p" "0 \<le> B" "B < p" by (simp_all add: A_def B_def p_def)
  have u: "uint a = A + p * of_bool (bit a n)" "uint b = B + p * of_bool (bit b n)"
    using take_bit_length_uint [of a] take_bit_length_uint [of b]
    by (simp_all add: A_def B_def p_def n take_bit_Suc_from_most bit_uint_iff)
  then have lt: "uint a < uint b \<longleftrightarrow> A + p * of_bool (bit a n) < B + p * of_bool (bit b n)" by simp
  have sg: "sint a = A - p * of_bool (bit a n)" "sint b = B - p * of_bool (bit b n)"
    by (simp_all add: sint_top_bit [OF n] A_def B_def p_def)
  have of: "fOF (sub_flags a b False) \<longleftrightarrow> (uint a < uint b) \<noteq> borrow_in (uint a) (uint b) False n"
    and sf: "fSF (sub_flags a b False) \<longleftrightarrow> (bit a n \<noteq> bit b n) \<noteq> borrow_in (uint a) (uint b) False n"
    using borrow_overflow [OF n, of a b False] bit_word_sub_borrow [of n a b False] carry
    by (auto simp: sub_flags_def Let_def n)
  show "fCF (sub_flags a b False) \<longleftrightarrow> a < b" "fZF (sub_flags a b False) \<longleftrightarrow> a = b"
    by (simp_all add: sub_flags_def Let_def word_less_def)
  show "fSF (sub_flags a b False) \<noteq> fOF (sub_flags a b False) \<longleftrightarrow> sint a < sint b"
    unfolding of sf sg lt
    using range by (cases "bit a n"; cases "bit b n"; auto)
qed

lemma sub_flags_le:
  fixes a b :: "'a::len word"
  shows "fCF (sub_flags a b False) \<or> fZF (sub_flags a b False) \<longleftrightarrow> a \<le> b"
    "fZF (sub_flags a b False) \<or> fSF (sub_flags a b False) \<noteq> fOF (sub_flags a b False) \<longleftrightarrow> sint a \<le> sint b"
    "a < b \<or> a = b \<longleftrightarrow> a \<le> b" "a = b \<or> sint a < sint b \<longleftrightarrow> sint a \<le> sint b"
  unfolding sub_flags_compare by (auto simp: le_less signed_word_eqI)

text \<open>C2. After CMP, the conditions below, below-or-equal, less and less-or-equal store whether the first
  operand precedes the second in the unsigned and in the signed order, and the zero condition
  whether they are equal, at every operand size.\<close>

theorem cmp_setcc_order:
  "SETZ_EbR j (CMP_GbEbR i s) = setcc_byte j (op1_of_8 i s = op2_of_8 i s) (CMP_GbEbR i s)
   \<and> SETB_EbR j (CMP_GbEbR i s) = setcc_byte j (op1_of_8 i s < op2_of_8 i s) (CMP_GbEbR i s)
   \<and> SETBE_EbR j (CMP_GbEbR i s) = setcc_byte j (op1_of_8 i s \<le> op2_of_8 i s) (CMP_GbEbR i s)
   \<and> SETL_EbR j (CMP_GbEbR i s) = setcc_byte j (sint (op1_of_8 i s) < sint (op2_of_8 i s)) (CMP_GbEbR i s)
   \<and> SETLE_EbR j (CMP_GbEbR i s) = setcc_byte j (sint (op1_of_8 i s) \<le> sint (op2_of_8 i s)) (CMP_GbEbR i s)
   \<and> SETZ_EbR j (CMP_GwEwR i s) = setcc_byte j (op1_of_16 i s = op2_of_16 i s) (CMP_GwEwR i s)
   \<and> SETB_EbR j (CMP_GwEwR i s) = setcc_byte j (op1_of_16 i s < op2_of_16 i s) (CMP_GwEwR i s)
   \<and> SETBE_EbR j (CMP_GwEwR i s) = setcc_byte j (op1_of_16 i s \<le> op2_of_16 i s) (CMP_GwEwR i s)
   \<and> SETL_EbR j (CMP_GwEwR i s) = setcc_byte j (sint (op1_of_16 i s) < sint (op2_of_16 i s)) (CMP_GwEwR i s)
   \<and> SETLE_EbR j (CMP_GwEwR i s) = setcc_byte j (sint (op1_of_16 i s) \<le> sint (op2_of_16 i s)) (CMP_GwEwR i s)
   \<and> SETZ_EbR j (CMP_GdEdR i s) = setcc_byte j (op1_of_32 i s = op2_of_32 i s) (CMP_GdEdR i s)
   \<and> SETB_EbR j (CMP_GdEdR i s) = setcc_byte j (op1_of_32 i s < op2_of_32 i s) (CMP_GdEdR i s)
   \<and> SETBE_EbR j (CMP_GdEdR i s) = setcc_byte j (op1_of_32 i s \<le> op2_of_32 i s) (CMP_GdEdR i s)
   \<and> SETL_EbR j (CMP_GdEdR i s) = setcc_byte j (sint (op1_of_32 i s) < sint (op2_of_32 i s)) (CMP_GdEdR i s)
   \<and> SETLE_EbR j (CMP_GdEdR i s) = setcc_byte j (sint (op1_of_32 i s) \<le> sint (op2_of_32 i s)) (CMP_GdEdR i s)
   \<and> SETZ_EbR j (CMP_GqEqR i s) = setcc_byte j (op1_of_64 i s = op2_of_64 i s) (CMP_GqEqR i s)
   \<and> SETB_EbR j (CMP_GqEqR i s) = setcc_byte j (op1_of_64 i s < op2_of_64 i s) (CMP_GqEqR i s)
   \<and> SETBE_EbR j (CMP_GqEqR i s) = setcc_byte j (op1_of_64 i s \<le> op2_of_64 i s) (CMP_GqEqR i s)
   \<and> SETL_EbR j (CMP_GqEqR i s) = setcc_byte j (sint (op1_of_64 i s) < sint (op2_of_64 i s)) (CMP_GqEqR i s)
   \<and> SETLE_EbR j (CMP_GqEqR i s) = setcc_byte j (sint (op1_of_64 i s) \<le> sint (op2_of_64 i s)) (CMP_GqEqR i s)"
  by (intro conjI; simp only: SETcc_conditions arith8_reg arith16_reg arith32_reg arith64_reg
      with_flags_flags [OF arith8_reg(5)] with_flags_flags [OF arith16_reg(5)]
      with_flags_flags [OF arith32_reg(5)] with_flags_flags [OF arith64_reg(5)] sub_flags_compare
      sub_flags_le)

section \<open>Arithmetic on several words\<close>

lemma carry_of_add_flags:
  "fCF (add_flags a b c) \<longleftrightarrow> 2 ^ LENGTH('a) \<le> uint a + uint b + of_bool c" for a b :: "'a::len word"
  by (simp add: add_flags_def Let_def)

lemma carry_of_sub_flags:
  "fCF (sub_flags a b c) \<longleftrightarrow> uint a < uint b + of_bool c" for a b :: "'a::len word"
  by (simp add: sub_flags_def Let_def)

lemma uint_add_carry:
  fixes a b :: "'a::len word"
  shows "uint (a + b + of_bool c) + 2 ^ LENGTH('a) * of_bool (2 ^ LENGTH('a) \<le> uint a + uint b + of_bool c)
    = uint a + uint b + of_bool c"
proof -
  define p where "p = (2 ^ LENGTH('a) :: int)"
  have r: "0 \<le> uint a" "uint a < p" "0 \<le> uint b" "uint b < p" by (simp_all add: p_def)
  have "uint (a + b + of_bool c) = (uint a + uint b + of_bool c) mod p"
    by (cases c) (simp_all add: p_def uint_word_ariths take_bit_eq_mod mod_simps)
  moreover have "(uint a + uint b + of_bool c) mod p = uint a + uint b + of_bool c - p"
    if "p \<le> uint a + uint b + of_bool c"
    by (rule int_mod_pos_eq [where q = 1]; insert that r; cases c; simp only: of_bool_eq; linarith)
  ultimately show ?thesis
    using r by (auto simp: p_def [symmetric] mod_pos_pos_trivial)
qed

lemma uint_sub_borrow:
  fixes a b :: "'a::len word"
  shows "uint (a - (b + of_bool c)) - 2 ^ LENGTH('a) * of_bool (uint a < uint b + of_bool c)
    = uint a - uint b - of_bool c"
proof -
  define p where "p = (2 ^ LENGTH('a) :: int)"
  have r: "0 \<le> uint a" "uint a < p" "0 \<le> uint b" "uint b < p" by (simp_all add: p_def)
  have "uint (a - (b + of_bool c)) = (uint a - uint b - of_bool c) mod p"
    by (cases c) (simp_all add: p_def uint_word_ariths take_bit_eq_mod mod_simps algebra_simps)
  moreover have "(uint a - uint b - of_bool c) mod p = uint a - uint b - of_bool c + p"
    if "uint a < uint b + of_bool c"
    by (rule int_mod_pos_eq [where q = "-1"]; insert that r; cases c; simp only: of_bool_eq; linarith)
  moreover have "(uint a - uint b - of_bool c) mod p = uint a - uint b - of_bool c"
    if "\<not> uint a < uint b + of_bool c"
    by (rule int_mod_pos_eq [where q = 0]; insert that r; cases c; simp only: of_bool_eq; linarith)
  ultimately show ?thesis
    by (cases "uint a < uint b + of_bool c") (simp_all only: p_def [symmetric] of_bool_eq mult_1_right mult_0_right, simp_all)
qed

text \<open>A 128-bit addition written as ADD of the low halves and ADC of the high halves is exact: the two
  destinations and the final carry flag together hold the sum of the two 128-bit numbers.\<close>

theorem add_adc_128:
  assumes "dst i \<noteq> dst j" "dst i \<noteq> src j"
  shows "let s' = ADC_GqEqR j (ADD_GqEqR i s);
             wide = (\<lambda>h l s. uint (BX_READ_64BIT_REG h s) * 2 ^ 64 + uint (BX_READ_64BIT_REG l s))
         in wide (dst j) (dst i) s' + 2 ^ 128 * of_bool (fCF (cpu_flags s'))
            = wide (dst j) (dst i) s + wide (src j) (src i) s"
  using assms arith64_reg(1) [of i s] arith64_reg(2) [of j "ADD_GqEqR i s"]
    uint_add_carry [of "gen_reg s (dst i)" "gen_reg s (src i)" False]
    uint_add_carry [of "gen_reg s (dst j)" "gen_reg s (src j)" "fCF (cpu_flags (ADD_GqEqR i s))"]
  by (auto simp: Let_def with_flags_def reg_access_defs carry_of_add_flags)

theorem add_adc_128_witness:
  "let i = sample_instr 0 1 0; j = sample_instr 2 3 0;
       s' = ADC_GqEqR j (ADD_GqEqR i (sample_cpu (\<lambda>r. if r = 0 then 0xFFFFFFFFFFFFFFFF else 1)))
   in dst i \<noteq> dst j \<and> dst i \<noteq> src j \<and>
      uint (BX_READ_64BIT_REG 2 s') * 2 ^ 64 + uint (BX_READ_64BIT_REG 0 s')
        + 2 ^ 128 * of_bool (fCF (cpu_flags s')) = 3 * 2 ^ 64"
  using add_adc_128 [of "sample_instr 0 1 0" "sample_instr 2 3 0"
      "sample_cpu (\<lambda>r. if r = 0 then 0xFFFFFFFFFFFFFFFF else 1)"]
  by (simp add: Let_def sample_defs reg_access_defs)

lemma borrow_chain:
  fixes al ah bl bh rl rh :: int
  assumes "rl - 2 ^ 64 * of_bool c = al - bl" "rh - 2 ^ 64 * of_bool d = ah - bh - of_bool c"
    and "0 \<le> rl" "rl < 2 ^ 64" "0 \<le> rh" "rh < 2 ^ 64"
  shows "rh * 2 ^ 64 + rl - 2 ^ 128 * of_bool d = (ah * 2 ^ 64 + al) - (bh * 2 ^ 64 + bl)"
    and "d \<longleftrightarrow> ah * 2 ^ 64 + al < bh * 2 ^ 64 + bl"
  using assms by (cases c; cases d; simp; linarith)+

text \<open>A 128-bit subtraction written as SUB of the low halves and SBB of the high halves is exact: the
  carry flag reports whether the first number is smaller than the second.\<close>

theorem sub_sbb_128:
  assumes "dst i \<noteq> dst j" "dst i \<noteq> src j"
  shows "let s' = SBB_GqEqR j (SUB_GqEqR i s);
             wide = (\<lambda>h l s. uint (BX_READ_64BIT_REG h s) * 2 ^ 64 + uint (BX_READ_64BIT_REG l s))
         in wide (dst j) (dst i) s' - 2 ^ 128 * of_bool (fCF (cpu_flags s'))
            = wide (dst j) (dst i) s - wide (src j) (src i) s
          \<and> (fCF (cpu_flags s') \<longleftrightarrow> wide (dst j) (dst i) s < wide (src j) (src i) s)"
proof -
  define s1 where "s1 = SUB_GqEqR i s"
  define c where "c = fCF (cpu_flags s1)"
  define d where "d = fCF (cpu_flags (SBB_GqEqR j s1))"
  have a: "gen_reg s1 = (gen_reg s)(dst i := gen_reg s (dst i) - gen_reg s (src i))"
    "c \<longleftrightarrow> uint (gen_reg s (dst i)) < uint (gen_reg s (src i))"
    using arith64_reg(3) [of i s] by (simp_all add: with_flags_def reg_access_defs carry_of_sub_flags s1_def c_def)
  have b: "gen_reg (SBB_GqEqR j s1) = (gen_reg s1)(dst j := gen_reg s1 (dst j) - (gen_reg s1 (src j) + of_bool c))"
    "d \<longleftrightarrow> uint (gen_reg s1 (dst j)) < uint (gen_reg s1 (src j)) + of_bool c"
    using arith64_reg(4) [of j s1] by (simp_all add: with_flags_def reg_access_defs carry_of_sub_flags c_def d_def)
  have "uint (gen_reg s (dst i) - gen_reg s (src i)) - 2 ^ 64 * of_bool c
      = uint (gen_reg s (dst i)) - uint (gen_reg s (src i))"
    "uint (gen_reg s (dst j) - (gen_reg s (src j) + of_bool c)) - 2 ^ 64 * of_bool d
      = uint (gen_reg s (dst j)) - uint (gen_reg s (src j)) - of_bool c"
    using uint_sub_borrow [of "gen_reg s (dst i)" "gen_reg s (src i)" False] assms a b
      uint_sub_borrow [of "gen_reg s (dst j)" "gen_reg s (src j)" c] by simp_all
  note borrow_chain [OF this unsigned_greater_eq _ unsigned_greater_eq]
  then show ?thesis
    using assms a b uint_lt2p [where 'a = 64]
    by (simp add: Let_def reg_access_defs s1_def [symmetric] d_def [symmetric])
qed

theorem sub_sbb_128_witness:
  "let i = sample_instr 0 1 0; j = sample_instr 2 3 0;
       s' = SBB_GqEqR j (SUB_GqEqR i (sample_cpu (\<lambda>r. if r = 2 then 2 else if r = 0 then 0 else 1)))
   in dst i \<noteq> dst j \<and> dst i \<noteq> src j \<and>
      uint (BX_READ_64BIT_REG 2 s') * 2 ^ 64 + uint (BX_READ_64BIT_REG 0 s')
        - 2 ^ 128 * of_bool (fCF (cpu_flags s')) = 2 ^ 64 - 1"
  using sub_sbb_128 [of "sample_instr 0 1 0" "sample_instr 2 3 0"
      "sample_cpu (\<lambda>r. if r = 2 then 2 else if r = 0 then 0 else 1)"]
  by (auto simp: Let_def sample_defs reg_access_defs)

section \<open>Sign extension\<close>

lemma sint_scast_up: "LENGTH('a) \<le> LENGTH('b) \<Longrightarrow> sint (scast a :: 'b::len word) = sint a" for a :: "'a::len word"
  by (metis is_up scast_up_scast_id sint_up_scast)

lemma and_exp_nonzero: "w AND push_bit n 1 \<noteq> 0 \<longleftrightarrow> bit w n" for w :: "'a::len word"
  by (metis and.commute and_exp_eq_0_iff_not_bit push_bit_of_1)

lemma sint_sign_bit:
  fixes w :: "'a::len word"
  shows "sint w = uint w - 2 ^ LENGTH('a) * of_bool (w AND push_bit (LENGTH('a) - 1) 1 \<noteq> 0)"
proof -
  obtain n where n: "LENGTH('a) = Suc n" using len_gt_0 [where 'a = 'a] by (cases "LENGTH('a)") simp_all
  have "uint w = take_bit n (uint w) + 2 ^ n * of_bool (bit w n)"
    using take_bit_length_uint [of w] by (simp add: n take_bit_Suc_from_most bit_uint_iff)
  then show ?thesis
    unfolding and_exp_nonzero by (cases "bit w n") (simp_all add: sint_top_bit [OF n] n)
qed

text \<open>The sign extensions keep the signed value: CBW, CWDE and CDQE within the accumulator, CWD, CDQ and
  CQO into the register pair with the high half in the data register.\<close>

lemma sign_extensions:
  "sint (AX (CBW i s)) = sint (AL s) \<and> sint (EAX (CWDE i s)) = sint (AX s) \<and> sint (RAX (CDQE i s)) = sint (EAX s)
   \<and> (let s' = CWD i s in sint (DX s') * 2 ^ 16 + uint (AX s') = sint (AX s))
   \<and> (let s' = CDQ i s in sint (EDX s') * 2 ^ 32 + uint (EAX s') = sint (EAX s))
   \<and> (let s' = CQO i s in sint (RDX s') * 2 ^ 64 + uint (RAX s') = sint (RAX s))"
proof -
  have up: "sint (AX (CBW i s)) = sint (AL s)" "sint (EAX (CWDE i s)) = sint (AX s)" "sint (RAX (CDQE i s)) = sint (EAX s)"
    by (simp_all add: CBW_def CWDE_def CDQE_def reg_access_defs sint_scast_up)
  have "let s' = CWD i s in sint (DX s') * 2 ^ 16 + uint (AX s') = sint (AX s)"
    using sint_sign_bit [of "AX s"] by (simp add: CWD_def reg_access_defs Let_def)
  moreover have "let s' = CDQ i s in sint (EDX s') * 2 ^ 32 + uint (EAX s') = sint (EAX s)"
    using sint_sign_bit [of "EAX s"] by (simp add: CDQ_def reg_access_defs Let_def reg_erx_def)
  moreover have "let s' = CQO i s in sint (RDX s') * 2 ^ 64 + uint (RAX s') = sint (RAX s)"
    using sint_sign_bit [of "RAX s"] by (simp add: CQO_def reg_access_defs Let_def)
  ultimately show ?thesis using up by (intro conjI)
qed

end
