(* ===== verification/PhysMem.thy ===== *)
theory PhysMem
  imports LazyFlags
begin

text \<open>
  Guest RAM as \<^verbatim>\<open>memory/memory_stub.cc\<close> keeps it: a backing store indexed by linear offset, with the PCI hole below
  four gigabytes left out, reached through the A20 gate, and reading as ones outside its limits.  Multi-byte accesses are
  little-endian.  The locale \<open>cell_store\<close> states what the page walks rely on: a store of aligned cells in which a
  write changes one cell and is ignored where there is no RAM.
\<close>

section \<open>State\<close>

record bx_mem =
  mem_len :: Bit64u
  mem_vector :: "Bit64u \<Rightarrow> Bit8u"
  bogus :: "Bit64u \<Rightarrow> Bit8u"
  a20_mask :: Bit64u

definition A20ADDR :: "bx_mem \<Rightarrow> Bit64u \<Rightarrow> Bit64u" where "A20ADDR m x = x AND a20_mask m"

definition BX_PCI_HOLE_START :: Bit64u where "BX_PCI_HOLE_START = 0xC0000000"
definition BX_PCI_HOLE_LAST :: Bit64u where "BX_PCI_HOLE_LAST = 0xFFFFFFFF"
definition BX_PCI_HOLE_SIZE :: Bit64u where "BX_PCI_HOLE_SIZE = BX_PCI_HOLE_LAST - BX_PCI_HOLE_START + 1"

definition bx_is_pci_hole_addr :: "Bit64u \<Rightarrow> bool" where
  "bx_is_pci_hole_addr gpa \<longleftrightarrow> BX_PCI_HOLE_START \<le> gpa \<and> gpa \<le> BX_PCI_HOLE_LAST"

definition bx_translate_gpa_to_linear :: "Bit64u \<Rightarrow> Bit64u" where
  "bx_translate_gpa_to_linear gpa = (if BX_PCI_HOLE_LAST < gpa then gpa - BX_PCI_HOLE_SIZE else gpa)"

section \<open>Little-endian values\<close>

primrec word_of_bytes :: "Bit8u list \<Rightarrow> 'a::len word" where
  "word_of_bytes [] = 0"
| "word_of_bytes (b # bs) = ucast b OR push_bit 8 (word_of_bytes bs)"

primrec bytes_of_word :: "nat \<Rightarrow> 'a::len word \<Rightarrow> Bit8u list" where
  "bytes_of_word 0 w = []"
| "bytes_of_word (Suc n) w = ucast w # bytes_of_word n (drop_bit 8 w)"

section \<open>Accesses\<close>

definition readPhysicalPage :: "bx_mem \<Rightarrow> Bit64u \<Rightarrow> nat \<Rightarrow> Bit8u list" where
  "readPhysicalPage m addr n =
    (let a20addr = A20ADDR m addr;
         linear_addr = bx_translate_gpa_to_linear a20addr
     in if linear_addr < mem_len m then
          (if bx_is_pci_hole_addr a20addr then replicate n 0xff
           else map (\<lambda>i. mem_vector m (linear_addr + of_nat i)) [0..<n])
        else replicate n 0xff)"

definition store_bytes :: "Bit64u \<Rightarrow> Bit8u list \<Rightarrow> (Bit64u \<Rightarrow> Bit8u) \<Rightarrow> Bit64u \<Rightarrow> Bit8u" where
  "store_bytes a bs v x = (let i = unat (x - a) in if i < length bs then bs ! i else v x)"

definition writePhysicalPage :: "bx_mem \<Rightarrow> Bit64u \<Rightarrow> Bit8u list \<Rightarrow> bx_mem" where
  "writePhysicalPage m addr data =
    (let a20addr = A20ADDR m addr;
         linear_addr = bx_translate_gpa_to_linear a20addr
     in if linear_addr < mem_len m then
          (if bx_is_pci_hole_addr a20addr then m
           else m\<lparr>mem_vector := store_bytes linear_addr data (mem_vector m)\<rparr>)
        else m)"

text \<open>The condition under which both report an access that leaves its page.\<close>

definition cross_page_access :: "Bit64u \<Rightarrow> nat \<Rightarrow> bool" where
  "cross_page_access addr n \<longleftrightarrow> drop_bit 12 addr \<noteq> drop_bit 12 (addr + of_nat n - 1)"

definition read_physical_dword :: "bx_mem \<Rightarrow> Bit64u \<Rightarrow> Bit32u" where
  "read_physical_dword m paddr = word_of_bytes (readPhysicalPage m paddr 4)"

definition read_physical_qword :: "bx_mem \<Rightarrow> Bit64u \<Rightarrow> Bit64u" where
  "read_physical_qword m paddr = word_of_bytes (readPhysicalPage m paddr 8)"

definition write_physical_dword :: "bx_mem \<Rightarrow> Bit64u \<Rightarrow> Bit32u \<Rightarrow> bx_mem" where
  "write_physical_dword m paddr val = writePhysicalPage m paddr (bytes_of_word 4 val)"

definition write_physical_qword :: "bx_mem \<Rightarrow> Bit64u \<Rightarrow> Bit64u \<Rightarrow> bx_mem" where
  "write_physical_qword m paddr val = writePhysicalPage m paddr (bytes_of_word 8 val)"

section \<open>Direct access\<close>

text \<open>A pointer into host memory is what it points to: the byte of the backing store for a linear offset, a byte of the page
  that stands for absent memory, or nothing (which no caller follows).  Where the host has placed the blocks of the backing store is left open.\<close>

datatype host_ptr = NullPtr | Vector Bit64u | Bogus Bit64u

definition getHostMemAddr :: "bx_mem \<Rightarrow> Bit64u \<Rightarrow> Bit32u \<Rightarrow> host_ptr" where
  "getHostMemAddr m addr rw =
    (let a20addr = A20ADDR m addr;
         write = (rw AND 1 \<noteq> 0);
         linear_addr = bx_translate_gpa_to_linear a20addr
     in if bx_is_pci_hole_addr a20addr then NullPtr
        else if \<not> write then
          (if linear_addr < mem_len m then Vector linear_addr else Bogus (a20addr AND 0xfff))
        else if mem_len m \<le> linear_addr then NullPtr
        else Vector linear_addr)"

definition host_or :: "host_ptr \<Rightarrow> Bit32u \<Rightarrow> host_ptr" where
  "host_or p off = (case p of NullPtr \<Rightarrow> NullPtr | Vector l \<Rightarrow> Vector (l OR ucast off) | Bogus x \<Rightarrow> Bogus (x OR ucast off))"

definition ReadHost :: "bx_mem \<Rightarrow> host_ptr \<Rightarrow> nat \<Rightarrow> Bit8u list" where
  "ReadHost m p n =
    (case p of
       NullPtr \<Rightarrow> []
     | Vector l \<Rightarrow> map (\<lambda>i. mem_vector m (l + of_nat i)) [0..<n]
     | Bogus x \<Rightarrow> map (\<lambda>i. bogus m (x + of_nat i)) [0..<n])"

definition WriteHost :: "bx_mem \<Rightarrow> host_ptr \<Rightarrow> Bit8u list \<Rightarrow> bx_mem" where
  "WriteHost m p bs =
    (case p of
       NullPtr \<Rightarrow> m
     | Vector l \<Rightarrow> m\<lparr>mem_vector := store_bytes l bs (mem_vector m)\<rparr>
     | Bogus x \<Rightarrow> m\<lparr>bogus := store_bytes x bs (bogus m)\<rparr>)"

section \<open>Bytes of a word\<close>

lemma length_bytes_of_word [simp]: "length (bytes_of_word n w) = n"
  by (induction n arbitrary: w) simp_all

lemma nth_bytes_of_word: "i < n \<Longrightarrow> bytes_of_word n w ! i = ucast (drop_bit (8 * i) w)"
  by (induction n arbitrary: w i) (auto simp: nth_Cons' drop_bit_drop_bit diff_mult_distrib2)

lemma word_of_bytes_of_word: "(word_of_bytes (bytes_of_word n w) :: 'a::len word) = take_bit (8 * n) w"
proof (induction n arbitrary: w)
  case (Suc n)
  show ?case
    by (rule bit_word_eqI)
      (auto simp: Suc bit_or_iff bit_push_bit_iff bit_take_bit_iff bit_drop_bit_eq bit_ucast_iff)
qed simp

lemma word_bytes_id [simp]: "LENGTH('a) = 8 * n \<Longrightarrow> (word_of_bytes (bytes_of_word n w) :: 'a::len word) = w"
  by (metis take_bit_length_eq word_of_bytes_of_word)

lemma word_of_ones: "LENGTH('a) = 8 * n \<Longrightarrow> (word_of_bytes (replicate n 0xff) :: 'a::len word) = - 1"
proof -
  assume n: "LENGTH('a) = 8 * n"
  have ff: "(0xff :: Bit8u) = - 1" by simp
  have "bytes_of_word n (- 1 :: 'a word) = replicate n 0xff"
  proof (rule nth_equalityI)
    fix i
    assume "i < length (bytes_of_word n (- 1 :: 'a word))"
    then have "i < n" "8 * i + 8 \<le> LENGTH('a)" using n by auto
    then show "bytes_of_word n (- 1 :: 'a word) ! i = replicate n 0xff ! i"
      unfolding ff by (intro bit_word_eqI) (auto simp: nth_bytes_of_word bit_ucast_iff bit_drop_bit_eq bit_mask_iff)
  qed simp
  then show ?thesis using word_bytes_id[OF n, of "- 1"] by simp
qed

section \<open>Aligned cells\<close>

lemma small_of_nat:
  assumes "i < 2 ^ k" "k \<le> n"
  shows "\<not> bit (of_nat i :: 'a::len word) n"
proof -
  have "\<not> bit i n" using assms by (metis bit_take_bit_iff leD take_bit_nat_eq_self_iff)
  then show ?thesis by (simp add: bit_simps)
qed

lemma aligned_plus:
  fixes c :: "'a::len word"
  assumes "take_bit k c = 0" "i < 2 ^ k"
  shows "drop_bit k (c + of_nat i) = drop_bit k c"
proof -
  have low: "\<not> bit c n" if "n < k" for n using assms(1) that by (metis bit_take_bit_iff bit_0_eq bot_apply bot_bool_def)
  have "c AND of_nat i = 0"
  proof (rule bit_word_eqI)
    show "bit (c AND of_nat i) n = bit 0 n" for n
      using low[of n] small_of_nat[OF assms(2), of n, where 'a = 'a] by (cases "n < k") (auto simp: bit_and_iff)
  qed
  then have "c + of_nat i = c OR of_nat i" by (rule disjunctive_add_eq_or)
  moreover have "drop_bit k (of_nat i :: 'a word) = 0"
    by (rule bit_word_eqI) (use small_of_nat[OF assms(2), where 'a = 'a] in \<open>auto simp: bit_drop_bit_eq\<close>)
  ultimately show ?thesis by (simp add: drop_bit_or)
qed

lemma cell_index_iff:
  fixes c x :: "'a::len word"
  assumes "take_bit k c = 0"
  shows "unat (x - c) < 2 ^ k \<longleftrightarrow> drop_bit k x = drop_bit k c"
proof
  assume "unat (x - c) < 2 ^ k"
  from aligned_plus[OF assms this] show "drop_bit k x = drop_bit k c" by simp
next
  assume e: "drop_bit k x = drop_bit k c"
  have "x = push_bit k (drop_bit k x) + take_bit k x" by (metis bits_ident)
  moreover have "c = push_bit k (drop_bit k c)" using bits_ident[of k c] assms by simp
  ultimately have "x - c = take_bit k x" using e by (metis add_diff_cancel_left')
  then have "unat (x - c) = take_bit k (unat x)" by (simp add: unsigned_take_bit_eq)
  then show "unat (x - c) < 2 ^ k" by simp
qed

lemma take_bit_A20ADDR: "take_bit k a = 0 \<Longrightarrow> take_bit k (A20ADDR m a) = 0"
  by (simp add: A20ADDR_def take_bit_and)

lemma aligned_diff:
  fixes a b :: "'a::len word"
  assumes "take_bit k a = 0" "take_bit k b = 0"
  shows "take_bit k (a - b) = 0"
proof -
  have "a = push_bit k (drop_bit k a)" "b = push_bit k (drop_bit k b)"
    using assms bits_ident[of k a] bits_ident[of k b] by simp_all
  moreover have "push_bit k x - push_bit k y = push_bit k (x - y)" for x y :: "'a word"
    by (simp add: push_bit_eq_mult left_diff_distrib)
  ultimately have "a - b = push_bit k (drop_bit k a - drop_bit k b)" by metis
  then show ?thesis by (simp add: take_bit_push_bit)
qed

lemma take_bit_linear:
  assumes "take_bit k a = 0" "k \<le> 12"
  shows "take_bit k (bx_translate_gpa_to_linear a) = 0"
proof -
  have "take_bit k BX_PCI_HOLE_SIZE = take_bit k (take_bit 12 BX_PCI_HOLE_SIZE)"
    using assms(2) by (simp add: take_bit_take_bit min_def)
  also have "take_bit 12 BX_PCI_HOLE_SIZE = 0"
    by (simp add: BX_PCI_HOLE_SIZE_def BX_PCI_HOLE_LAST_def BX_PCI_HOLE_START_def)
  finally show ?thesis using assms(1) aligned_diff[of k a BX_PCI_HOLE_SIZE] by (simp add: bx_translate_gpa_to_linear_def)
qed

lemma unat_above_hole: "BX_PCI_HOLE_LAST < a \<Longrightarrow> unat (a - BX_PCI_HOLE_SIZE) = unat a - 0x40000000 \<and> 0x100000000 \<le> unat a"
proof -
  assume "BX_PCI_HOLE_LAST < a"
  then have "0x100000000 \<le> unat a" by (simp add: BX_PCI_HOLE_LAST_def word_less_nat_alt)
  then show ?thesis
    by (subst unat_sub) (simp_all add: BX_PCI_HOLE_SIZE_def BX_PCI_HOLE_LAST_def BX_PCI_HOLE_START_def word_le_nat_alt)
qed

lemma linear_inject:
  assumes "\<not> bx_is_pci_hole_addr a" "\<not> bx_is_pci_hole_addr b"
  shows "bx_translate_gpa_to_linear a = bx_translate_gpa_to_linear b \<longleftrightarrow> a = b"
proof -
  have "unat x < 0xC0000000" if "\<not> bx_is_pci_hole_addr x" "\<not> BX_PCI_HOLE_LAST < x" for x
    using that by (simp add: bx_is_pci_hole_addr_def BX_PCI_HOLE_START_def word_le_nat_alt not_less)
  then have "\<not> BX_PCI_HOLE_LAST < x \<Longrightarrow> \<not> bx_is_pci_hole_addr x \<Longrightarrow> BX_PCI_HOLE_LAST < y \<Longrightarrow> x \<noteq> y - BX_PCI_HOLE_SIZE" for x y
    using unat_above_hole[of y] by fastforce
  then have "a = b" if "bx_translate_gpa_to_linear a = bx_translate_gpa_to_linear b"
    using that assms unfolding bx_translate_gpa_to_linear_def by (metis diff_add_cancel)
  then show ?thesis by blast
qed

section \<open>The store of cells\<close>

definition ram_cell :: "bx_mem \<Rightarrow> Bit64u \<Rightarrow> bool" where
  "ram_cell m a \<longleftrightarrow> bx_translate_gpa_to_linear (A20ADDR m a) < mem_len m \<and> \<not> bx_is_pci_hole_addr (A20ADDR m a)"

lemma read_cases:
  "readPhysicalPage m a n =
    (if ram_cell m a then map (\<lambda>i. mem_vector m (bx_translate_gpa_to_linear (A20ADDR m a) + of_nat i)) [0..<n]
     else replicate n 0xff)"
  by (simp add: readPhysicalPage_def ram_cell_def Let_def)

lemma write_cases:
  "writePhysicalPage m a bs =
    (if ram_cell m a then m\<lparr>mem_vector := store_bytes (bx_translate_gpa_to_linear (A20ADDR m a)) bs (mem_vector m)\<rparr> else m)"
  by (simp add: writePhysicalPage_def ram_cell_def Let_def)

lemma mem_vector_update [simp]:
  "A20ADDR (m\<lparr>mem_vector := f\<rparr>) = A20ADDR m" "ram_cell (m\<lparr>mem_vector := f\<rparr>) = ram_cell m"
  by (simp_all add: fun_eq_iff A20ADDR_def ram_cell_def)

lemma mem_write [simp]:
  "mem_len (writePhysicalPage m a bs) = mem_len m" "a20_mask (writePhysicalPage m a bs) = a20_mask m"
  "A20ADDR (writePhysicalPage m a bs) = A20ADDR m" "ram_cell (writePhysicalPage m a bs) = ram_cell m"
  by (simp_all add: write_cases)

lemma read_write_same:
  assumes "ram_cell m a" "length bs \<le> 4096"
  shows "readPhysicalPage (writePhysicalPage m a bs) a (length bs) = bs"
proof (rule nth_equalityI)
  fix i
  assume "i < length (readPhysicalPage (writePhysicalPage m a bs) a (length bs))"
  then have "i < length bs" by (simp add: read_cases split: if_splits)
  moreover from this assms(2) have "unat (of_nat i :: Bit64u) = i" by (simp add: unsigned_of_nat take_bit_nat_eq_self)
  ultimately show "readPhysicalPage (writePhysicalPage m a bs) a (length bs) ! i = bs ! i"
    using assms(1) by (simp add: read_cases write_cases store_bytes_def Let_def)
qed (simp add: read_cases)

lemma read_write_other:
  assumes "take_bit k a = 0" "take_bit k b = 0" "k \<le> 12" "A20ADDR m a \<noteq> A20ADDR m b" "length bs = 2 ^ k"
  shows "readPhysicalPage (writePhysicalPage m a bs) b (2 ^ k) = readPhysicalPage m b (2 ^ k)"
proof (cases "ram_cell m a \<and> ram_cell m b")
  case True
  let ?a = "bx_translate_gpa_to_linear (A20ADDR m a)" and ?b = "bx_translate_gpa_to_linear (A20ADDR m b)"
  have al: "take_bit k ?a = 0" "take_bit k ?b = 0" using assms(1-3) by (simp_all add: take_bit_A20ADDR take_bit_linear)
  have "?a \<noteq> ?b" using True assms(4) linear_inject by (auto simp: ram_cell_def)
  then have ne: "drop_bit k ?a \<noteq> drop_bit k ?b" using al by (metis add.right_neutral bits_ident)
  have "store_bytes ?a bs (mem_vector m) (?b + of_nat i) = mem_vector m (?b + of_nat i)" if "i < 2 ^ k" for i
  proof -
    have "\<not> unat (?b + of_nat i - ?a) < 2 ^ k"
      using ne cell_index_iff[OF al(1)] aligned_plus[OF al(2) that] by simp
    then show ?thesis by (simp add: store_bytes_def Let_def assms(5))
  qed
  then show ?thesis using True by (simp add: read_cases write_cases)
qed (auto simp: read_cases write_cases)

locale cell_store =
  fixes rd :: "'m \<Rightarrow> Bit64u \<Rightarrow> ('e::len) word" and wr :: "'m \<Rightarrow> Bit64u \<Rightarrow> 'e word \<Rightarrow> 'm"
    and cell :: "'m \<Rightarrow> Bit64u \<Rightarrow> Bit64u" and ram :: "'m \<Rightarrow> Bit64u \<Rightarrow> bool" and aligned :: "Bit64u \<Rightarrow> bool"
  assumes cell_wr: "cell (wr m a v) = cell m"
    and ram_wr: "ram (wr m a v) = ram m"
    and rd_cell: "cell m a = cell m b \<Longrightarrow> rd m a = rd m b"
    and rd_wr_same: "ram m a \<Longrightarrow> rd (wr m a v) a = v"
    and rd_wr_other: "aligned a \<Longrightarrow> aligned b \<Longrightarrow> cell m a \<noteq> cell m b \<Longrightarrow> rd (wr m a v) b = rd m b"
    and rd_bogus: "\<not> ram m a \<Longrightarrow> rd m a = - 1"
    and wr_bogus: "\<not> ram m a \<Longrightarrow> wr m a v = m"
begin

text \<open>Writing back an earlier value of a cell with bits added.\<close>

lemma rd_merge:
  assumes "aligned a" "aligned b" "rd m a OR v = e OR v" "\<not> ram m a \<Longrightarrow> e = - 1"
  shows "rd (wr m a (e OR v)) b = (if cell m b = cell m a then rd m b OR v else rd m b)"
proof (cases "cell m b = cell m a")
  case True
  then have "rd (wr m a (e OR v)) b = rd (wr m a (e OR v)) a" "rd m b = rd m a" by (auto simp: cell_wr intro: rd_cell)
  then show ?thesis using True assms(3,4) by (cases "ram m a") (simp_all add: rd_wr_same wr_bogus rd_bogus)
next
  case False
  then show ?thesis using rd_wr_other[OF assms(1,2)] by auto
qed

end

interpretation qword: cell_store read_physical_qword write_physical_qword A20ADDR ram_cell "\<lambda>a. take_bit 3 a = 0"
proof unfold_locales
  fix m :: bx_mem and a b v
  show "read_physical_qword m a = read_physical_qword m b" if "A20ADDR m a = A20ADDR m b"
    using that by (simp add: read_physical_qword_def read_cases ram_cell_def)
  show "read_physical_qword (write_physical_qword m a v) a = v" if "ram_cell m a"
    using read_write_same[OF that, of "bytes_of_word 8 v"] by (simp add: read_physical_qword_def write_physical_qword_def)
  show "read_physical_qword (write_physical_qword m a v) b = read_physical_qword m b"
    if "take_bit 3 a = 0" "take_bit 3 b = 0" "A20ADDR m a \<noteq> A20ADDR m b"
    using read_write_other[OF that(1,2) _ that(3), of "bytes_of_word 8 v"]
    by (simp add: read_physical_qword_def write_physical_qword_def)
  show "read_physical_qword m a = - 1" if "\<not> ram_cell m a"
    using that word_of_ones[where 'a = 64, of 8] by (simp add: read_physical_qword_def read_cases)
qed (simp_all add: write_physical_qword_def write_cases)

interpretation dword: cell_store read_physical_dword write_physical_dword A20ADDR ram_cell "\<lambda>a. take_bit 2 a = 0"
proof unfold_locales
  fix m :: bx_mem and a b v
  show "read_physical_dword m a = read_physical_dword m b" if "A20ADDR m a = A20ADDR m b"
    using that by (simp add: read_physical_dword_def read_cases ram_cell_def)
  show "read_physical_dword (write_physical_dword m a v) a = v" if "ram_cell m a"
    using read_write_same[OF that, of "bytes_of_word 4 v"] by (simp add: read_physical_dword_def write_physical_dword_def)
  show "read_physical_dword (write_physical_dword m a v) b = read_physical_dword m b"
    if "take_bit 2 a = 0" "take_bit 2 b = 0" "A20ADDR m a \<noteq> A20ADDR m b"
    using read_write_other[OF that(1,2) _ that(3), of "bytes_of_word 4 v"]
    by (simp add: read_physical_dword_def write_physical_dword_def)
  show "read_physical_dword m a = - 1" if "\<not> ram_cell m a"
    using that word_of_ones[where 'a = 32, of 4] by (simp add: read_physical_dword_def read_cases)
qed (simp_all add: write_physical_dword_def write_cases)

end
