(* ===== verification/Tlb.thy ===== *)
theory Tlb
  imports PhysMem
begin

text \<open>
  The translation lookaside buffers of \<^verbatim>\<open>cpu/tlb.h\<close>: direct-mapped arrays of entries, each for one 4K page, with the
  operations that look an entry up, flush the buffer and invalidate one page.  A large page fills several entries;
  \<open>split_large\<close> tells the invalidation that it has to search all of them.  The invariant says that every valid
  entry stands in the slot of its page and that large entries are announced.
\<close>

section \<open>State\<close>

record bx_TLB_entry =
  lpf :: bx_address
  ppf :: Bit64u
  hostPageAddr :: host_ptr
  accessBits :: Bit32u
  tlb_pkey :: Bit32u
  lpf_mask :: Bit32u

record TLB =
  tlb_entry :: "nat \<Rightarrow> bx_TLB_entry"
  split_large :: bool

definition LPF_MASK :: bx_address where "LPF_MASK = 0xfffffffffffff000"
definition PPF_MASK :: Bit64u where "PPF_MASK = 0xfffffffffffff000"

definition PAGE_OFFSET :: "bx_address \<Rightarrow> Bit32u" where "PAGE_OFFSET laddr = ucast laddr AND 0xfff"
definition LPFOf :: "bx_address \<Rightarrow> bx_address" where "LPFOf laddr = laddr AND LPF_MASK"
definition PPFOf :: "Bit64u \<Rightarrow> Bit64u" where "PPFOf paddr = paddr AND PPF_MASK"

definition AlignedAccessLPFOf :: "bx_address \<Rightarrow> bx_address \<Rightarrow> bx_address" where
  "AlignedAccessLPFOf laddr alignment_mask = laddr AND (LPF_MASK OR alignment_mask)"

definition TLB_LPFOf :: "bx_address \<Rightarrow> bx_address" where "TLB_LPFOf laddr = AlignedAccessLPFOf laddr 0x7ff"

definition BX_INVALID_TLB_ENTRY :: bx_address where "BX_INVALID_TLB_ENTRY = 0xffffffffffffffff"

definition TLB_SysReadOK :: Bit32u where "TLB_SysReadOK = 0x01"
definition TLB_UserReadOK :: Bit32u where "TLB_UserReadOK = 0x02"
definition TLB_SysWriteOK :: Bit32u where "TLB_SysWriteOK = 0x04"
definition TLB_UserWriteOK :: Bit32u where "TLB_UserWriteOK = 0x08"
definition TLB_SysReadShadowStackOK :: Bit32u where "TLB_SysReadShadowStackOK = 0x10"
definition TLB_UserReadShadowStackOK :: Bit32u where "TLB_UserReadShadowStackOK = 0x20"
definition TLB_SysWriteShadowStackOK :: Bit32u where "TLB_SysWriteShadowStackOK = 0x40"
definition TLB_UserWriteShadowStackOK :: Bit32u where "TLB_UserWriteShadowStackOK = 0x80"
definition TLB_SysExecuteOK :: Bit32u where "TLB_SysExecuteOK = 0x01"
definition TLB_UserExecuteOK :: Bit32u where "TLB_UserExecuteOK = 0x02"
definition TLB_GlobalPage :: Bit32u where "TLB_GlobalPage = 0x80000000"
definition TLB_NoHostPtr :: bx_address where "TLB_NoHostPtr = 0x800"

section \<open>One entry\<close>

definition tlb_valid :: "bx_TLB_entry \<Rightarrow> bool" where "tlb_valid e \<longleftrightarrow> lpf e \<noteq> BX_INVALID_TLB_ENTRY"

definition invalidate :: "bx_TLB_entry \<Rightarrow> bx_TLB_entry" where
  "invalidate e = e\<lparr>lpf := BX_INVALID_TLB_ENTRY, accessBits := 0\<rparr>"

section \<open>The buffer\<close>

text \<open>The template parameter \<open>size\<close> is an argument; the sources use the powers of two 2048 and 1024.\<close>

definition get_index_of :: "nat \<Rightarrow> bx_address \<Rightarrow> Bit32u \<Rightarrow> nat" where
  "get_index_of sz l len = unat (drop_bit 12 ((ucast l + len) AND push_bit 12 (of_nat (sz - 1))))"

definition get_entry_of :: "nat \<Rightarrow> TLB \<Rightarrow> bx_address \<Rightarrow> Bit32u \<Rightarrow> bx_TLB_entry" where
  "get_entry_of sz t l len = tlb_entry t (get_index_of sz l len)"

definition set_entry :: "nat \<Rightarrow> bx_TLB_entry \<Rightarrow> TLB \<Rightarrow> TLB" where
  "set_entry n e t = t\<lparr>tlb_entry := (tlb_entry t)(n := e)\<rparr>"

definition tlb_flush :: "nat \<Rightarrow> TLB \<Rightarrow> TLB" where
  "tlb_flush sz t = t\<lparr>tlb_entry := (\<lambda>n. if n < sz then invalidate (tlb_entry t n) else tlb_entry t n), split_large := False\<rparr>"

text \<open>Both loops go over all entries, drop those that match and collect the page masks of the others.\<close>

definition drop_entries :: "nat \<Rightarrow> (bx_TLB_entry \<Rightarrow> bool) \<Rightarrow> TLB \<Rightarrow> TLB \<times> Bit32u" where
  "drop_entries sz hit t = fold (\<lambda>n (t, m).
      let e = tlb_entry t n
      in if tlb_valid e then
           (if hit e then (set_entry n (invalidate e) t, m) else (t, m OR lpf_mask e))
         else (t, m)) [0..<sz] (t, 0)"

definition flushNonGlobal :: "nat \<Rightarrow> TLB \<Rightarrow> TLB" where
  "flushNonGlobal sz t =
    (let (t, m) = drop_entries sz (\<lambda>e. accessBits e AND TLB_GlobalPage = 0) t
     in t\<lparr>split_large := 0xfff < m\<rparr>)"

definition tlb_invlpg :: "nat \<Rightarrow> bx_address \<Rightarrow> TLB \<Rightarrow> TLB" where
  "tlb_invlpg sz laddr t =
    (if split_large t then
       (let (t, m) = drop_entries sz (\<lambda>e. laddr AND NOT (ucast (lpf_mask e)) = lpf e AND NOT (ucast (lpf_mask e))) t
        in t\<lparr>split_large := 0xfff < m\<rparr>)
     else
       (let n = get_index_of sz laddr 0; e = tlb_entry t n
        in if LPFOf (lpf e) = LPFOf laddr then set_entry n (invalidate e) t else t))"

section \<open>What the loops do\<close>

lemma set_entry_simps [simp]:
  "tlb_entry (set_entry n e t) = (tlb_entry t)(n := e)" "split_large (set_entry n e t) = split_large t"
  by (simp_all add: set_entry_def)

lemma invalid_invalidate [simp]: "\<not> tlb_valid (invalidate e)"
  by (simp add: tlb_valid_def invalidate_def)

lemma drop_entries_entry:
  "tlb_entry (fst (drop_entries sz hit t)) n =
    (if n < sz \<and> tlb_valid (tlb_entry t n) \<and> hit (tlb_entry t n) then invalidate (tlb_entry t n) else tlb_entry t n)"
  "split_large (fst (drop_entries sz hit t)) = split_large t"
  by (induction sz) (auto simp: drop_entries_def Let_def split: prod.split)

lemma drop_entries_mask:
  "bit (snd (drop_entries sz hit t)) k \<longleftrightarrow>
    (\<exists>n < sz. tlb_valid (tlb_entry t n) \<and> \<not> hit (tlb_entry t n) \<and> bit (lpf_mask (tlb_entry t n)) k)"
proof (induction sz)
  case (Suc sz)
  obtain u m where d: "drop_entries sz hit t = (u, m)" by (cases "drop_entries sz hit t")
  then have "tlb_entry u sz = tlb_entry t sz" using drop_entries_entry(1)[of sz hit t sz] by simp
  then show ?case using Suc d by (auto simp: drop_entries_def Let_def bit_or_iff less_Suc_eq)
qed (simp add: drop_entries_def)

lemma nonzero_bit: "w \<noteq> 0 \<longleftrightarrow> (\<exists>j. bit w j)" for w :: "'a::len word"
proof
  show "\<exists>j. bit w j" if "w \<noteq> 0"
  proof (rule ccontr)
    assume "\<not> (\<exists>j. bit w j)"
    then have "w = 0" by (intro bit_word_eqI) simp
    then show False using that by simp
  qed
qed auto

lemma wide_mask_iff: "0xfff < m \<longleftrightarrow> (\<exists>k\<ge>12. bit m k)" for m :: Bit32u
proof -
  have "take_bit 32 (unat m) = unat m" using unsigned_less[of m] by (intro take_bit_nat_eq_self) simp
  then have "unat (drop_bit 12 m) = unat m div 4096"
    by (simp only: unsigned_drop_bit_eq) (simp add: drop_bit_eq_div)
  moreover have "unat m div 4096 = 0 \<longleftrightarrow> unat m \<le> 4095" by auto
  ultimately have "m \<le> 0xfff \<longleftrightarrow> drop_bit 12 m = 0" 
    unfolding word_le_nat_alt by (simp add: unat_eq_0[symmetric])
  then have "0xfff < m \<longleftrightarrow> drop_bit 12 m \<noteq> 0" by auto
  also have "\<dots> \<longleftrightarrow> (\<exists>j. bit (drop_bit 12 m) j)" by (simp only: nonzero_bit)
  also have "\<dots> \<longleftrightarrow> (\<exists>k\<ge>12. bit m k)"
    unfolding bit_drop_bit_eq comp_apply by (metis le_add1 le_add_diff_inverse)
  finally show ?thesis .
qed

section \<open>Invariant\<close>

definition tlb_covers :: "bx_address \<Rightarrow> bx_TLB_entry \<Rightarrow> bool" where
  "tlb_covers laddr e \<longleftrightarrow> tlb_valid e \<and> laddr AND NOT (ucast (lpf_mask e)) = lpf e AND NOT (ucast (lpf_mask e))"

definition entry_ok :: "nat \<Rightarrow> bool \<Rightarrow> nat \<Rightarrow> bx_TLB_entry \<Rightarrow> bool" where
  "entry_ok sz large n e \<longleftrightarrow>
    (tlb_valid e \<longrightarrow> get_index_of sz (lpf e) 0 = n \<and> (lpf_mask e = 0xfff \<or> 0xfff < lpf_mask e \<and> large))"

definition tlb_ok :: "nat \<Rightarrow> TLB \<Rightarrow> bool" where
  "tlb_ok sz t \<longleftrightarrow> (\<forall>n < sz. entry_ok sz (split_large t) n (tlb_entry t n))"

lemma entry_ok_invalidate [simp]: "entry_ok sz l n (invalidate e)"
  by (simp add: entry_ok_def)

lemma tlb_ok_flush: "tlb_ok sz (tlb_flush sz t)"
  by (simp add: tlb_ok_def tlb_flush_def)

lemma tlb_ok_drop:
  assumes "tlb_ok sz t" "drop_entries sz hit t = (u, m)"
  shows "tlb_ok sz (u\<lparr>split_large := 0xfff < m\<rparr>)"
proof -
  have e: "tlb_entry u n = (if n < sz \<and> tlb_valid (tlb_entry t n) \<and> hit (tlb_entry t n) then invalidate (tlb_entry t n)
      else tlb_entry t n)" for n
    using drop_entries_entry(1)[of sz hit t n] assms(2) by simp
  have m: "bit m k" if "n < sz" "tlb_valid (tlb_entry t n)" "\<not> hit (tlb_entry t n)" "bit (lpf_mask (tlb_entry t n)) k" for n k
    using drop_entries_mask[of sz hit t k] assms(2) that by auto
  then have "0xfff < m" if "n < sz" "tlb_valid (tlb_entry t n)" "\<not> hit (tlb_entry t n)" "0xfff < lpf_mask (tlb_entry t n)" for n
    using that unfolding wide_mask_iff by blast
  then show ?thesis using assms(1) by (auto simp: tlb_ok_def entry_ok_def e)
qed

lemma tlb_ok_flushNonGlobal: "tlb_ok sz t \<Longrightarrow> tlb_ok sz (flushNonGlobal sz t)"
  by (auto simp: flushNonGlobal_def split: prod.split intro: tlb_ok_drop)

lemma tlb_ok_set_entry:
  "tlb_ok sz t \<Longrightarrow> entry_ok sz (split_large t) n e \<Longrightarrow> tlb_ok sz (set_entry n e t)"
  by (simp add: tlb_ok_def)

lemma tlb_ok_invlpg: "tlb_ok sz t \<Longrightarrow> tlb_ok sz (tlb_invlpg sz laddr t)"
  by (auto simp: tlb_invlpg_def Let_def split: prod.split intro: tlb_ok_drop tlb_ok_set_entry)

section \<open>Invalidation of a page\<close>

lemma bit_LPF_MASK: "bit LPF_MASK k \<longleftrightarrow> 12 \<le> k \<and> k < 64"
proof -
  have e: "LPF_MASK = NOT (mask 12)" by (simp add: LPF_MASK_def mask_eq_exp_minus_1)
  show ?thesis unfolding e by (auto simp: bit_not_iff bit_mask_iff)
qed

lemma bit_LPFOf: "bit (LPFOf a) k \<longleftrightarrow> 12 \<le> k \<and> bit a k"
  by (auto simp: LPFOf_def bit_and_iff bit_LPF_MASK dest: bit_imp_le_length)

lemma get_index_of_LPFOf: "LPFOf a = LPFOf b \<Longrightarrow> get_index_of sz a 0 = get_index_of sz b 0"
proof -
  assume "LPFOf a = LPFOf b"
  then have "bit a k = bit b k" if "12 \<le> k" for k using that by (metis bit_LPFOf)
  then have "drop_bit 12 (ucast a AND push_bit 12 w) = drop_bit 12 (ucast b AND push_bit 12 w)" for w :: Bit32u
    by (intro bit_word_eqI) (auto simp: bit_drop_bit_eq bit_and_iff bit_ucast_iff bit_push_bit_iff)
  then show ?thesis by (simp add: get_index_of_def)
qed

lemma small_page_covers: "lpf_mask e = 0xfff \<Longrightarrow> tlb_covers laddr e \<longleftrightarrow> tlb_valid e \<and> LPFOf (lpf e) = LPFOf laddr"
proof -
  have "NOT (ucast (0xfff :: Bit32u)) = LPF_MASK" by (simp add: LPF_MASK_def)
  then show "lpf_mask e = 0xfff \<Longrightarrow> ?thesis" by (auto simp: tlb_covers_def LPFOf_def)
qed

text \<open>Invalidating a page removes exactly the entries that translate it, whatever their page size: afterwards no valid
  entry covers the address, and every valid entry that did not cover it is still there unchanged.\<close>

theorem invlpg_exact:
  assumes "tlb_ok sz t" "n < sz"
  shows "tlb_entry (tlb_invlpg sz laddr t) n =
      (if tlb_covers laddr (tlb_entry t n) then invalidate (tlb_entry t n) else tlb_entry t n) \<or>
    \<not> tlb_valid (tlb_entry t n) \<and> \<not> tlb_valid (tlb_entry (tlb_invlpg sz laddr t) n)"
proof (cases "split_large t")
  case True
  let ?hit = "\<lambda>e. laddr AND NOT (ucast (lpf_mask e)) = lpf e AND NOT (ucast (lpf_mask e))"
  obtain u m where d: "drop_entries sz ?hit t = (u, m)" by (cases "drop_entries sz ?hit t")
  then have "tlb_entry u n = (if tlb_covers laddr (tlb_entry t n) then invalidate (tlb_entry t n) else tlb_entry t n)"
    using drop_entries_entry(1)[of sz ?hit t n] assms(2) by (simp add: tlb_covers_def)
  then show ?thesis using True d by (simp add: tlb_invlpg_def)
next
  case False
  let ?e = "tlb_entry t n"
  show ?thesis
  proof (cases "tlb_valid ?e")
    case True
    then have e: "get_index_of sz (lpf ?e) 0 = n" "lpf_mask ?e = 0xfff"
      using assms False by (auto simp: tlb_ok_def entry_ok_def)
    have "tlb_covers laddr ?e \<longleftrightarrow> LPFOf (lpf ?e) = LPFOf laddr" using small_page_covers[OF e(2)] True by simp
    moreover have "get_index_of sz laddr 0 = n" if "LPFOf (lpf ?e) = LPFOf laddr"
      using get_index_of_LPFOf[OF that, of sz] e(1) by simp
    ultimately show ?thesis using False
      by (cases "LPFOf (lpf ?e) = LPFOf laddr"; cases "get_index_of sz laddr 0 = n") (simp_all add: tlb_invlpg_def Let_def)
  next
    case invalid: False
    then show ?thesis using False
      by (cases "get_index_of sz laddr 0 = n") (simp_all add: tlb_invlpg_def Let_def)
  qed
qed

text \<open>A buffer with one large page in two slots and a small page between them.\<close>

definition sample_entry :: "bx_address \<Rightarrow> Bit32u \<Rightarrow> bx_TLB_entry" where
  "sample_entry l m = \<lparr>lpf = l, ppf = 0, hostPageAddr = NullPtr, accessBits = 0x0f, tlb_pkey = 0, lpf_mask = m\<rparr>"

definition sample_tlb :: TLB where
  "sample_tlb = \<lparr>tlb_entry = (\<lambda>n. sample_entry (if n = 1 then 0x801000 else 0x400000 + of_nat n * 0x1000)
      (if n = 1 then 0xfff else 0x1fffff)), split_large = True\<rparr>"

theorem invlpg_exact_witness:
  "tlb_ok 4 sample_tlb \<and> \<not> tlb_valid (tlb_entry (tlb_invlpg 4 0x403123 sample_tlb) 2)"
proof -
  have "entry_ok 4 True n (tlb_entry sample_tlb n)" if four: "n < 4" for n
  proof -
    consider "n = 0" | "n = 1" | "n = 2" | "n = 3" using four by fastforce
    then show ?thesis by cases (simp_all add: entry_ok_def sample_tlb_def sample_entry_def get_index_of_def)
  qed
  then have ok: "tlb_ok 4 sample_tlb" by (simp add: tlb_ok_def sample_tlb_def)
  have c: "tlb_covers 0x403123 (tlb_entry sample_tlb 2)"
    by (simp add: tlb_covers_def tlb_valid_def sample_tlb_def sample_entry_def BX_INVALID_TLB_ENTRY_def)
  from invlpg_exact[OF ok, of 2 "0x403123"] c ok show ?thesis by auto
qed

end
