(* ===== verification/Paging.thy ===== *)
theory Paging
  imports CpuState PhysMem Tlb
begin

text \<open>
  The page walks of \<^verbatim>\<open>cpu/paging.cc\<close>: legacy two-level paging with 4M pages, PAE paging and four- or five-level long mode
  paging, with protection keys, supervisor mode execution and access prevention and shadow stacks, and the function
  \<open>translate_linear\<close> that consults a TLB entry first and refills it after a walk.  The state holds the registers these
  functions read.  Walks outside a virtual machine guest, in a build without memory types, are modelled; a fault is the
  exception with its error code and leaves the faulting address in \<open>cr2\<close>.
\<close>

section \<open>State\<close>

text \<open>Where the last access went, for the write that completes a read-modify-write.  The field \<open>pages\<close> holds the number of
  pages, or the host address of a direct access.\<close>

datatype xlation_pages = Pages nat | HostAddr host_ptr

record bx_xlation =
  paddress1 :: Bit64u
  paddress2 :: Bit64u
  len1 :: nat
  len2 :: nat
  pages :: xlation_pages

record bx_mmu =
  cr0 :: Bit32u
  cr2 :: bx_address
  cr3 :: bx_address
  cr4 :: bx_address
  efer :: Bit32u
  eflags_AC :: bool
  pkru :: Bit32u
  pkrs :: Bit32u
  rd_pkey :: "nat \<Rightarrow> Bit32u"
  wr_pkey :: "nat \<Rightarrow> Bit32u"
  linaddr_width :: nat
  long64_mode :: bool
  PDPTR_CACHE :: "nat \<Rightarrow> Bit64u"
  maxphyaddr :: nat
  isa_1g_pages :: bool
  CPL :: nat
  alignment_check_mask :: Bit32u
  alignment_check_ignored :: bool
  address_xlation :: bx_xlation
  phys :: bx_mem
  DTLB :: TLB
  ITLB :: TLB

type_synonym bx_trap = "bx_exception \<times> Bit32u"

definition get_PG :: "bx_mmu \<Rightarrow> bool" where "get_PG s = bit (cr0 s) 31"
definition get_WP :: "bx_mmu \<Rightarrow> bool" where "get_WP s = bit (cr0 s) 16"
definition get_PSE :: "bx_mmu \<Rightarrow> bool" where "get_PSE s = bit (cr4 s) 4"
definition get_PAE :: "bx_mmu \<Rightarrow> bool" where "get_PAE s = bit (cr4 s) 5"
definition get_PGE :: "bx_mmu \<Rightarrow> bool" where "get_PGE s = bit (cr4 s) 7"
definition get_LA57 :: "bx_mmu \<Rightarrow> bool" where "get_LA57 s = bit (cr4 s) 12"
definition get_SMEP :: "bx_mmu \<Rightarrow> bool" where "get_SMEP s = bit (cr4 s) 20"
definition get_SMAP :: "bx_mmu \<Rightarrow> bool" where "get_SMAP s = bit (cr4 s) 21"
definition get_PKE :: "bx_mmu \<Rightarrow> bool" where "get_PKE s = bit (cr4 s) 22"
definition get_PKS :: "bx_mmu \<Rightarrow> bool" where "get_PKS s = bit (cr4 s) 24"
definition get_LASS :: "bx_mmu \<Rightarrow> bool" where "get_LASS s = bit (cr4 s) 27"
definition get_LMA :: "bx_mmu \<Rightarrow> bool" where "get_LMA s = bit (efer s) 10"
definition get_NXE :: "bx_mmu \<Rightarrow> bool" where "get_NXE s = bit (efer s) 11"

definition long_mode :: "bx_mmu \<Rightarrow> bool" where "long_mode s = get_LMA s"

definition BX_READ :: Bit32u where "BX_READ = 0"
definition BX_WRITE :: Bit32u where "BX_WRITE = 1"
definition BX_EXECUTE :: Bit32u where "BX_EXECUTE = 2"
definition BX_RW :: Bit32u where "BX_RW = 3"
definition BX_SHADOW_STACK_READ :: Bit32u where "BX_SHADOW_STACK_READ = 4"
definition BX_SHADOW_STACK_WRITE :: Bit32u where "BX_SHADOW_STACK_WRITE = 5"
definition BX_SHADOW_STACK_RW :: Bit32u where "BX_SHADOW_STACK_RW = 7"
definition BX_IMPLICIT_SUPERVISOR_READ :: Bit32u where "BX_IMPLICIT_SUPERVISOR_READ = 8"
definition BX_IMPLICIT_SUPERVISOR_WRITE :: Bit32u where "BX_IMPLICIT_SUPERVISOR_WRITE = 9"

definition ERROR_NOT_PRESENT :: Bit32u where "ERROR_NOT_PRESENT = 0x00"
definition ERROR_PROTECTION :: Bit32u where "ERROR_PROTECTION = 0x01"
definition ERROR_RESERVED :: Bit32u where "ERROR_RESERVED = 0x08"
definition ERROR_CODE_ACCESS :: Bit32u where "ERROR_CODE_ACCESS = 0x10"
definition ERROR_PKEY :: Bit32u where "ERROR_PKEY = 0x20"
definition ERROR_SHADOW_STACK :: Bit32u where "ERROR_SHADOW_STACK = 0x40"

definition BX_COMBINED_ACCESS_WRITE :: Bit32u where "BX_COMBINED_ACCESS_WRITE = 0x2"
definition BX_COMBINED_ACCESS_USER :: Bit32u where "BX_COMBINED_ACCESS_USER = 0x4"
definition BX_COMBINED_ACCESS_GLOBAL_PAGE :: Bit32u where "BX_COMBINED_ACCESS_GLOBAL_PAGE = 0x100"

definition IS_USER_PAGE :: "Bit32u \<Rightarrow> bool" where "IS_USER_PAGE ca \<longleftrightarrow> ca AND BX_COMBINED_ACCESS_USER \<noteq> 0"
definition IS_WRITEABLE_PAGE :: "Bit32u \<Rightarrow> bool" where "IS_WRITEABLE_PAGE ca \<longleftrightarrow> ca AND BX_COMBINED_ACCESS_WRITE \<noteq> 0"

definition BX_MEMTYPE_WB :: Bit32u where "BX_MEMTYPE_WB = 6"
definition combine_memtype :: "Bit32u \<Rightarrow> Bit32u \<Rightarrow> Bit32u" where "combine_memtype ca memtype = ca OR push_bit 9 memtype"

definition PAGE_DIRECTORY_NX_BIT :: Bit64u where "PAGE_DIRECTORY_NX_BIT = 0x8000000000000000"
definition BX_CR3_PAGING_MASK :: Bit64u where "BX_CR3_PAGING_MASK = 0x000ffffffffff000"

definition BX_PHY_ADDRESS_RESERVED_BITS :: "bx_mmu \<Rightarrow> Bit64u" where
  "BX_PHY_ADDRESS_RESERVED_BITS s = NOT (push_bit (maxphyaddr s) 1 - 1)"

definition BX_PAGING_PHY_ADDRESS_RESERVED_BITS :: "bx_mmu \<Rightarrow> Bit64u" where
  "BX_PAGING_PHY_ADDRESS_RESERVED_BITS s = BX_PHY_ADDRESS_RESERVED_BITS s AND 0xfffffffffffff"

definition PAGING_PAE_RESERVED_BITS :: "bx_mmu \<Rightarrow> Bit64u" where
  "PAGING_PAE_RESERVED_BITS s = BX_PAGING_PHY_ADDRESS_RESERVED_BITS s"

definition PAGING_LEGACY_PAE_RESERVED_BITS :: "bx_mmu \<Rightarrow> Bit64u" where
  "PAGING_LEGACY_PAE_RESERVED_BITS s = BX_PAGING_PHY_ADDRESS_RESERVED_BITS s OR 0x7ff0000000000000"

definition PAGING_PAE_PDE2M_RESERVED_BITS :: "bx_mmu \<Rightarrow> Bit64u" where
  "PAGING_PAE_PDE2M_RESERVED_BITS s = BX_PAGING_PHY_ADDRESS_RESERVED_BITS s OR 0x001FE000"

definition PAGING_PAE_PDPTE_RESERVED_BITS :: "bx_mmu \<Rightarrow> Bit64u" where
  "PAGING_PAE_PDPTE_RESERVED_BITS s = BX_PAGING_PHY_ADDRESS_RESERVED_BITS s OR 0xFFF00000000001E6"

definition PAGING_PDE4M_RESERVED_BITS :: "bx_mmu \<Rightarrow> Bit32u" where
  "PAGING_PDE4M_RESERVED_BITS s =
    (let pa = (if maxphyaddr s < 40 then maxphyaddr s else 40)
     in push_bit (pa - 19) (push_bit (41 - pa) 1 - 1))"

definition BX_LEVEL_PML5 :: nat where "BX_LEVEL_PML5 = 4"
definition BX_LEVEL_PML4 :: nat where "BX_LEVEL_PML4 = 3"
definition BX_LEVEL_PDE :: nat where "BX_LEVEL_PDE = 1"
definition BX_LEVEL_PTE :: nat where "BX_LEVEL_PTE = 0"

section \<open>Faults\<close>

definition page_fault :: "Bit32u \<Rightarrow> bx_address \<Rightarrow> bool \<Rightarrow> Bit32u \<Rightarrow> bx_mmu \<Rightarrow> bx_trap \<times> bx_mmu" where
  "page_fault fault laddr user rw s =
    (let isWrite = rw AND 1;
         error_code = fault OR push_bit 2 (of_bool user) OR push_bit 1 isWrite;
         error_code = (if rw = BX_EXECUTE \<and> get_SMEP s then error_code OR ERROR_CODE_ACCESS else error_code);
         error_code = (if rw = BX_EXECUTE \<and> get_PAE s \<and> get_NXE s then error_code OR ERROR_CODE_ACCESS else error_code);
         error_code = (if rw AND 4 \<noteq> 0 then error_code OR ERROR_SHADOW_STACK else error_code)
     in ((BX_PF_EXCEPTION, error_code), s\<lparr>cr2 := laddr\<rparr>))"

section \<open>Checks of one entry\<close>

text \<open>The left side is the fault code; the right side the new value of \<open>nx_page\<close>.\<close>

definition check_entry_PAE :: "bx_mmu \<Rightarrow> nat \<Rightarrow> Bit64u \<Rightarrow> Bit64u \<Rightarrow> bool \<Rightarrow> Bit32u + bool" where
  "check_entry_PAE s leaf entry reserved nx_page =
    (if entry AND 0x1 = 0 then Inl ERROR_NOT_PRESENT
     else if entry AND reserved \<noteq> 0 then Inl (ERROR_RESERVED OR ERROR_PROTECTION)
     else if entry AND 0x80 \<noteq> 0 \<and> leaf > BX_LEVEL_PDE + of_bool (isa_1g_pages s) then
       Inl (ERROR_RESERVED OR ERROR_PROTECTION)
     else if entry AND PAGE_DIRECTORY_NX_BIT \<noteq> 0 then Inr True
     else Inr nx_page)"

definition priv_check :: "nat list" where
  "priv_check = [1, 1, 1, 1, 1, 1, 1, 1, 0, 0, 0, 0, 1, 0, 1, 1,
                 1, 0, 1, 1, 1, 0, 1, 1, 0, 0, 0, 0, 1, 0, 1, 1]"

definition check_leaf_entry_faults ::
  "bx_mmu \<Rightarrow> Bit64u \<Rightarrow> Bit32u \<Rightarrow> bool \<Rightarrow> Bit32u \<Rightarrow> bool \<Rightarrow> Bit32u + Bit32u" where
  "check_leaf_entry_faults s leaf_entry ca user rw nx_page =
    (let shadow_stack = (rw AND 4 \<noteq> 0);
         shadow_stack_page = (IS_WRITEABLE_PAGE ca \<and> leaf_entry AND 0x40 \<noteq> 0 \<and> leaf_entry AND 0x02 = 0);
         combined_access = ca AND ucast leaf_entry;
         priv_index = push_bit 4 (of_bool (get_WP s)) OR push_bit 3 (of_bool user) OR
           (combined_access AND (BX_COMBINED_ACCESS_WRITE OR BX_COMBINED_ACCESS_USER)) OR (rw AND 1);
         implicit = (rw = BX_IMPLICIT_SUPERVISOR_READ \<or> rw = BX_IMPLICIT_SUPERVISOR_WRITE)
     in if shadow_stack \<and> \<not> shadow_stack_page then Inl ERROR_PROTECTION
        else if shadow_stack \<and> (combined_access AND BX_COMBINED_ACCESS_USER) XOR push_bit 2 (of_bool user) \<noteq> 0 then
          Inl ERROR_PROTECTION
        else if \<not> shadow_stack \<and> (priv_check ! unat priv_index = 0 \<or> nx_page \<and> rw = BX_EXECUTE) then Inl ERROR_PROTECTION
        else if get_SMEP s \<and> rw = BX_EXECUTE \<and> \<not> user \<and> IS_USER_PAGE combined_access then Inl ERROR_PROTECTION
        else if get_SMAP s \<and> (\<not> eflags_AC s \<or> implicit) \<and> rw \<noteq> BX_EXECUTE \<and> \<not> user \<and> IS_USER_PAGE combined_access then
          Inl ERROR_PROTECTION
        else Inr combined_access)"

definition handle_pkeys :: "bx_mmu \<Rightarrow> Bit64u \<Rightarrow> bool \<Rightarrow> bool \<Rightarrow> Bit32u \<Rightarrow> Bit32u + Bit32u" where
  "handle_pkeys s leaf_entry user user_page rw =
    (let isWrite = (rw AND 1 \<noteq> 0);
         key = ucast (drop_bit 59 leaf_entry AND 0xf) :: Bit32u;
         k = 2 * unat key;
         index = (\<lambda>pkey. if user_page then pkey else pkey + 16)
     in if rw \<noteq> BX_EXECUTE \<and> get_PKE s \<and> user_page then
          (if bit (pkru s) k then Inl (ERROR_PROTECTION OR ERROR_PKEY)
           else if bit (pkru s) (k + 1) \<and> isWrite \<and> (user \<or> get_WP s) then Inl (ERROR_PROTECTION OR ERROR_PKEY)
           else Inr (index key))
        else if rw \<noteq> BX_EXECUTE \<and> get_PKS s \<and> \<not> user_page then
          (if bit (pkrs s) k then Inl (ERROR_PROTECTION OR ERROR_PKEY)
           else if bit (pkrs s) (k + 1) \<and> isWrite \<and> get_WP s then Inl (ERROR_PROTECTION OR ERROR_PKEY)
           else Inr (index key))
        else Inr (index 0))"

section \<open>Walks\<close>

text \<open>What a walk has found: the entries on its path from the root to the leaf with their addresses, the physical page
  frame, the mask of the page size, the combined permissions of the entries above the leaf and the no-execute flag.\<close>

record 'e page_walk =
  w_path :: "(Bit64u \<times> 'e) list"
  w_ppf :: Bit64u
  w_lpf_mask :: Bit32u
  w_access :: Bit32u
  w_nx :: bool

abbreviation leaf_entry :: "('e, 'm) page_walk_scheme \<Rightarrow> 'e" where "leaf_entry w \<equiv> snd (last (w_path w))"

fun long_mode_walk :: "bx_mmu \<Rightarrow> bx_address \<Rightarrow> Bit64u \<Rightarrow> nat \<Rightarrow> Bit64u \<Rightarrow> Bit64u \<Rightarrow> Bit32u \<Rightarrow> bool \<Rightarrow>
    (Bit64u \<times> Bit64u) list \<Rightarrow> Bit32u + Bit64u page_walk" where
  "long_mode_walk s laddr reserved leaf base offset_mask ca nx_page path =
    (let entry_addr = base + (drop_bit (9 + 9 * leaf) laddr AND 0xff8);
         entry = read_physical_qword (phys s) entry_addr;
         offset_mask = drop_bit 9 offset_mask;
         path = path @ [(entry_addr, entry)]
     in case check_entry_PAE s leaf entry reserved nx_page of
          Inl fault \<Rightarrow> Inl fault
        | Inr nx_page \<Rightarrow>
            (let ppf = entry AND 0x000ffffffffff000
             in case leaf of
                  0 \<Rightarrow> Inr \<lparr>w_path = path, w_ppf = ppf, w_lpf_mask = 0xfff, w_access = ca, w_nx = nx_page\<rparr>
                | Suc leaf' \<Rightarrow>
                    if entry AND 0x80 \<noteq> 0 then
                      (let ppf = ppf AND 0x000fffffffffe000
                       in if ppf AND offset_mask \<noteq> 0 then Inl (ERROR_RESERVED OR ERROR_PROTECTION)
                          else Inr \<lparr>w_path = path, w_ppf = ppf, w_lpf_mask = ucast offset_mask, w_access = ca, w_nx = nx_page\<rparr>)
                    else long_mode_walk s laddr reserved leaf' ppf offset_mask (ca AND ucast entry) nx_page path))"

fun PAE_walk :: "bx_mmu \<Rightarrow> bx_address \<Rightarrow> Bit64u \<Rightarrow> nat \<Rightarrow> Bit64u \<Rightarrow> Bit32u \<Rightarrow> bool \<Rightarrow>
    (Bit64u \<times> Bit64u) list \<Rightarrow> Bit32u + Bit64u page_walk" where
  "PAE_walk s laddr reserved leaf base ca nx_page path =
    (let entry_addr = base + (drop_bit (9 + 9 * leaf) laddr AND 0xff8);
         entry = read_physical_qword (phys s) entry_addr;
         path = path @ [(entry_addr, entry)]
     in case check_entry_PAE s leaf entry reserved nx_page of
          Inl fault \<Rightarrow> Inl fault
        | Inr nx_page \<Rightarrow>
            (let ppf = entry AND 0x000ffffffffff000
             in case leaf of
                  0 \<Rightarrow> Inr \<lparr>w_path = path, w_ppf = ppf, w_lpf_mask = 0xfff, w_access = ca, w_nx = nx_page\<rparr>
                | Suc leaf' \<Rightarrow>
                    if entry AND 0x80 \<noteq> 0 then
                      (if entry AND PAGING_PAE_PDE2M_RESERVED_BITS s \<noteq> 0 then Inl (ERROR_RESERVED OR ERROR_PROTECTION)
                       else Inr \<lparr>w_path = path, w_ppf = entry AND 0x000fffffffe00000, w_lpf_mask = 0x1fffff,
                              w_access = ca, w_nx = nx_page\<rparr>)
                    else PAE_walk s laddr reserved leaf' ppf (ca AND ucast entry) nx_page path))"

fun legacy_walk :: "bx_mmu \<Rightarrow> bx_address \<Rightarrow> nat \<Rightarrow> Bit64u \<Rightarrow> Bit32u \<Rightarrow>
    (Bit64u \<times> Bit32u) list \<Rightarrow> Bit32u + Bit32u page_walk" where
  "legacy_walk s laddr leaf base ca path =
    (let entry_addr = base + (drop_bit (10 + 10 * leaf) laddr AND 0xffc);
         entry = read_physical_dword (phys s) entry_addr;
         path = path @ [(entry_addr, entry)]
     in if entry AND 0x1 = 0 then Inl ERROR_NOT_PRESENT
        else
          (let ppf = ucast (entry AND 0xfffff000)
           in case leaf of
                0 \<Rightarrow> Inr \<lparr>w_path = path, w_ppf = ppf, w_lpf_mask = 0xfff, w_access = ca, w_nx = False\<rparr>
              | Suc leaf' \<Rightarrow>
                  if entry AND 0x80 \<noteq> 0 \<and> get_PSE s then
                    (if entry AND PAGING_PDE4M_RESERVED_BITS s \<noteq> 0 then Inl (ERROR_RESERVED OR ERROR_PROTECTION)
                     else Inr \<lparr>w_path = path, w_ppf = ucast (entry AND 0xffc00000) OR push_bit 19 (ucast (entry AND 0x003fe000)),
                            w_lpf_mask = 0x3fffff, w_access = ca, w_nx = False\<rparr>)
                  else legacy_walk s laddr leaf' ppf (ca AND entry) path))"

declare long_mode_walk.simps [simp del] PAE_walk.simps [simp del] legacy_walk.simps [simp del]

section \<open>Accessed and dirty bits\<close>

definition mark_accessed_PAE :: "Bit64u \<times> Bit64u \<Rightarrow> bx_mem \<Rightarrow> bx_mem" where
  "mark_accessed_PAE = (\<lambda>(entry_addr, entry) m.
     if entry AND 0x20 = 0 then write_physical_qword m entry_addr (entry OR 0x20) else m)"

definition update_access_dirty_PAE :: "(Bit64u \<times> Bit64u) list \<Rightarrow> bool \<Rightarrow> bx_mem \<Rightarrow> bx_mem" where
  "update_access_dirty_PAE path write m =
    (let m = fold mark_accessed_PAE (butlast path) m;
         (entry_addr, entry) = last path;
         set_dirty = (write \<and> entry AND 0x40 = 0)
     in if entry AND 0x20 = 0 \<or> set_dirty then
          write_physical_qword m entry_addr (if set_dirty then entry OR 0x20 OR 0x40 else entry OR 0x20)
        else m)"

definition mark_accessed :: "Bit64u \<times> Bit32u \<Rightarrow> bx_mem \<Rightarrow> bx_mem" where
  "mark_accessed = (\<lambda>(entry_addr, entry) m.
     if entry AND 0x20 = 0 then write_physical_dword m entry_addr (entry OR 0x20) else m)"

definition update_access_dirty :: "(Bit64u \<times> Bit32u) list \<Rightarrow> bool \<Rightarrow> bx_mem \<Rightarrow> bx_mem" where
  "update_access_dirty path write m =
    (let m = fold mark_accessed (butlast path) m;
         (entry_addr, entry) = last path;
         set_dirty = (write \<and> entry AND 0x40 = 0)
     in if entry AND 0x20 = 0 \<or> set_dirty then
          write_physical_dword m entry_addr (if set_dirty then entry OR 0x20 OR 0x40 else entry OR 0x20)
        else m)"

section \<open>Translation by a walk\<close>

text \<open>The result is the physical page frame with the combined access in its low bits, the page mask and the
  protection key index.\<close>

type_synonym walk_result = "(bx_trap + Bit64u \<times> Bit32u \<times> Bit32u) \<times> bx_mmu"

definition walk_fault :: "Bit32u \<Rightarrow> bx_address \<Rightarrow> bool \<Rightarrow> Bit32u \<Rightarrow> bx_mmu \<Rightarrow> walk_result" where
  "walk_fault fault laddr user rw s = (let (t, s) = page_fault fault laddr user rw s in (Inl t, s))"

definition translate_linear_long_mode :: "bx_address \<Rightarrow> bool \<Rightarrow> Bit32u \<Rightarrow> bx_mmu \<Rightarrow> walk_result" where
  "translate_linear_long_mode laddr user rw s =
    (let reserved = PAGING_PAE_RESERVED_BITS s;
         reserved = (if \<not> get_NXE s then reserved OR PAGE_DIRECTORY_NX_BIT else reserved);
         offset_mask = push_bit (linaddr_width s) 1 - 1;
         start_leaf = (if get_LA57 s then BX_LEVEL_PML5 else BX_LEVEL_PML4)
     in case long_mode_walk s laddr reserved start_leaf (cr3 s AND BX_CR3_PAGING_MASK) offset_mask
          (BX_COMBINED_ACCESS_WRITE OR BX_COMBINED_ACCESS_USER) False [] of
          Inl fault \<Rightarrow> walk_fault fault laddr user rw s
        | Inr w \<Rightarrow>
            (case handle_pkeys s (leaf_entry w) user (IS_USER_PAGE (w_access w AND ucast (leaf_entry w))) rw of
               Inl fault \<Rightarrow> walk_fault fault laddr user rw s
             | Inr pkey \<Rightarrow>
                 (case check_leaf_entry_faults s (leaf_entry w) (w_access w) user rw (w_nx w) of
                    Inl fault \<Rightarrow> walk_fault fault laddr user rw s
                  | Inr ca \<Rightarrow>
                      (let ca = (if get_PGE s then ca OR (ucast (leaf_entry w) AND BX_COMBINED_ACCESS_GLOBAL_PAGE) else ca);
                           ca = ca OR of_bool (w_nx w)
                       in (Inr (w_ppf w OR ucast ca, w_lpf_mask w, pkey),
                           s\<lparr>phys := update_access_dirty_PAE (w_path w) (rw AND 1 \<noteq> 0) (phys s)\<rparr>)))))"

definition CheckPDPTR :: "bx_address \<Rightarrow> bx_mmu \<Rightarrow> bool \<times> bx_mmu" where
  "CheckPDPTR cr3_val s =
    (let cr3_val = cr3_val AND 0xffffffe0;
         pdptr = (\<lambda>n. read_physical_qword (phys s) (cr3_val OR push_bit 3 (of_nat n)))
     in if list_ex (\<lambda>n. pdptr n AND 0x1 \<noteq> 0 \<and> pdptr n AND PAGING_PAE_PDPTE_RESERVED_BITS s \<noteq> 0) [0..<4] then (False, s)
        else (True, s\<lparr>PDPTR_CACHE := (\<lambda>n. if n < 4 then pdptr n else PDPTR_CACHE s n)\<rparr>))"

definition translate_linear_load_PDPTR :: "bx_address \<Rightarrow> bx_mmu \<Rightarrow> Bit32u + Bit64u" where
  "translate_linear_load_PDPTR laddr s =
    (let index = unat (drop_bit 30 laddr AND 0x3);
         pdptr = PDPTR_CACHE s index
     in if pdptr AND 0x1 = 0 then Inl ERROR_NOT_PRESENT else Inr pdptr)"

definition translate_linear_PAE :: "bx_address \<Rightarrow> bool \<Rightarrow> Bit32u \<Rightarrow> bx_mmu \<Rightarrow> walk_result" where
  "translate_linear_PAE laddr user rw s =
    (let reserved = PAGING_LEGACY_PAE_RESERVED_BITS s;
         reserved = (if \<not> get_NXE s then reserved OR PAGE_DIRECTORY_NX_BIT else reserved)
     in case translate_linear_load_PDPTR laddr s of
          Inl fault \<Rightarrow> walk_fault fault laddr user rw s
        | Inr pdpte \<Rightarrow>
            (case PAE_walk s laddr reserved BX_LEVEL_PDE (pdpte AND 0x000ffffffffff000)
               (BX_COMBINED_ACCESS_WRITE OR BX_COMBINED_ACCESS_USER) False [] of
               Inl fault \<Rightarrow> walk_fault fault laddr user rw s
             | Inr w \<Rightarrow>
                 (case check_leaf_entry_faults s (leaf_entry w) (w_access w) user rw (w_nx w) of
                    Inl fault \<Rightarrow> walk_fault fault laddr user rw s
                  | Inr ca \<Rightarrow>
                      (let ca = (if get_PGE s then ca OR (ucast (leaf_entry w) AND BX_COMBINED_ACCESS_GLOBAL_PAGE) else ca);
                           ca = ca OR of_bool (w_nx w)
                       in (Inr (w_ppf w OR ucast ca, w_lpf_mask w, 0),
                           s\<lparr>phys := update_access_dirty_PAE (w_path w) (rw AND 1 \<noteq> 0) (phys s)\<rparr>)))))"

definition translate_linear_legacy :: "bx_address \<Rightarrow> bool \<Rightarrow> Bit32u \<Rightarrow> bx_mmu \<Rightarrow> walk_result" where
  "translate_linear_legacy laddr user rw s =
    (case legacy_walk s laddr BX_LEVEL_PDE (ucast (ucast (cr3 s) :: Bit32u) AND BX_CR3_PAGING_MASK)
       (BX_COMBINED_ACCESS_WRITE OR BX_COMBINED_ACCESS_USER) [] of
       Inl fault \<Rightarrow> walk_fault fault laddr user rw s
     | Inr w \<Rightarrow>
         (case check_leaf_entry_faults s (ucast (leaf_entry w)) (w_access w) user rw False of
            Inl fault \<Rightarrow> walk_fault fault laddr user rw s
          | Inr ca \<Rightarrow>
              (let ca = (if get_PGE s then ca OR (leaf_entry w AND BX_COMBINED_ACCESS_GLOBAL_PAGE) else ca)
               in (Inr (w_ppf w OR ucast ca, w_lpf_mask w, 0),
                   s\<lparr>phys := update_access_dirty (w_path w) (rw AND 1 \<noteq> 0) (phys s)\<rparr>))))"

section \<open>Translation through a TLB entry\<close>

text \<open>The test of a matching entry that ends a translation without a walk.\<close>

definition tlb_permits :: "bx_mmu \<Rightarrow> bx_TLB_entry \<Rightarrow> bool \<Rightarrow> Bit32u \<Rightarrow> bool" where
  "tlb_permits s e user rw =
    (let isWrite = rw AND 1; isShadowStack = rw AND 4; u = of_bool user
     in if isWrite \<noteq> 0 then
          accessBits e AND push_bit (unat (isShadowStack OR push_bit 1 isWrite OR u)) 1 AND wr_pkey s (unat (tlb_pkey e)) \<noteq> 0
        else accessBits e AND push_bit (unat (isShadowStack OR u)) 1 AND rd_pkey s (unat (tlb_pkey e)) \<noteq> 0)"

definition tlb_access_bits :: "bx_mmu \<Rightarrow> Bit32u \<Rightarrow> bx_address \<Rightarrow> bool \<Rightarrow> Bit32u \<Rightarrow> Bit32u" where
  "tlb_access_bits s ca lp user rw =
    (let isWrite = (rw AND 1 \<noteq> 0); isExecute = (rw = BX_EXECUTE); isShadowStack = (rw AND 4 \<noteq> 0);
         b = (if isExecute then TLB_SysExecuteOK
              else if isShadowStack then
                (if isWrite then TLB_SysReadOK OR TLB_SysReadShadowStackOK OR TLB_SysWriteShadowStackOK
                 else TLB_SysReadOK OR TLB_SysReadShadowStackOK)
              else if isWrite then TLB_SysReadOK OR TLB_SysWriteOK else TLB_SysReadOK);
         b = (if \<not> get_PG s then
                (if isExecute then b OR TLB_UserExecuteOK else b OR TLB_UserReadOK OR TLB_UserWriteOK)
              else
                (let b = (if IS_USER_PAGE ca then
                      (let b = (if user then
                             (if isExecute then b OR TLB_UserExecuteOK
                              else if isShadowStack then
                                (if isWrite then b OR TLB_UserReadOK OR TLB_UserReadShadowStackOK OR TLB_UserWriteShadowStackOK
                                 else b OR TLB_UserReadOK OR TLB_UserReadShadowStackOK)
                              else if isWrite then b OR TLB_UserReadOK OR TLB_UserWriteOK else b OR TLB_UserReadOK)
                           else b);
                           b = (if isExecute then (if get_SMEP s then b AND NOT TLB_SysExecuteOK else b)
                                else if get_SMAP s then b AND NOT (TLB_SysReadOK OR TLB_SysWriteOK) else b)
                       in b AND NOT (TLB_SysReadShadowStackOK OR TLB_SysWriteShadowStackOK))
                    else b)
                 in if long_mode s \<and> get_LASS s then
                      (if bit lp 63 then b AND NOT (TLB_UserReadOK OR TLB_UserWriteOK OR TLB_UserReadShadowStackOK OR
                         TLB_UserWriteShadowStackOK OR TLB_UserExecuteOK)
                       else
                         (let b = b AND NOT TLB_SysExecuteOK
                          in if get_SMAP s then b AND NOT (TLB_SysReadOK OR TLB_SysWriteOK OR TLB_SysReadShadowStackOK OR
                               TLB_SysWriteShadowStackOK) else b))
                    else b))
     in if ca AND BX_COMBINED_ACCESS_GLOBAL_PAGE \<noteq> 0 then b OR TLB_GlobalPage else b)"

definition walk_linear :: "bx_address \<Rightarrow> bool \<Rightarrow> Bit32u \<Rightarrow> bx_mmu \<Rightarrow> walk_result" where
  "walk_linear laddr user rw s =
    (if long_mode s then translate_linear_long_mode laddr user rw s
     else if get_PAE s then translate_linear_PAE laddr user rw s
     else translate_linear_legacy laddr user rw s)"

definition note_split_large :: "Bit32u \<Rightarrow> Bit32u \<Rightarrow> bx_mmu \<Rightarrow> bx_mmu" where
  "note_split_large rw m s =
    (if m > 0xfff then
       (if rw = BX_EXECUTE then s\<lparr>ITLB := (ITLB s)\<lparr>split_large := True\<rparr>\<rparr>
        else s\<lparr>DTLB := (DTLB s)\<lparr>split_large := True\<rparr>\<rparr>)
     else s)"

definition fill_entry :: "bx_mmu \<Rightarrow> bx_address \<Rightarrow> Bit64u \<Rightarrow> Bit32u \<Rightarrow> Bit32u \<Rightarrow> Bit32u \<Rightarrow> bool \<Rightarrow> Bit32u \<Rightarrow>
    bx_TLB_entry \<Rightarrow> bx_TLB_entry" where
  "fill_entry s laddr paddress m ca pk user rw e =
    (let lp = LPFOf laddr; pp = PPFOf paddress; host = getHostMemAddr (phys s) pp rw
     in e\<lparr>lpf := (if host \<noteq> NullPtr then lp else lp OR TLB_NoHostPtr), lpf_mask := m, tlb_pkey := pk, ppf := pp,
          accessBits := tlb_access_bits s ca lp user rw, hostPageAddr := host\<rparr>)"

definition translate_linear :: "bx_TLB_entry \<Rightarrow> bx_address \<Rightarrow> bool \<Rightarrow> Bit32u \<Rightarrow> bx_mmu \<Rightarrow>
    (bx_trap + Bit64u) \<times> bx_TLB_entry \<times> bx_mmu" where
  "translate_linear e laddr user rw s =
    (let laddr = (if \<not> long_mode s then laddr AND 0xffffffff else laddr);
         hit = (rw \<noteq> BX_EXECUTE \<and> TLB_LPFOf (lpf e) = LPFOf laddr)
     in if hit \<and> tlb_permits s e user rw then (Inr (ppf e OR ucast (PAGE_OFFSET laddr)), e, s)
        else
          (let e = (if hit then invalidate e else e)
           in if get_PG s then
                (case walk_linear laddr user rw s of
                   (Inl t, s) \<Rightarrow> (Inl t, e, s)
                 | (Inr (pa, m, pk), s) \<Rightarrow>
                     (let ca = ucast pa AND m;
                          paddress = A20ADDR (phys s) ((pa AND NOT (ucast m)) OR (laddr AND ucast m));
                          s = note_split_large rw m s
                      in (Inr paddress, fill_entry s laddr paddress m ca pk user rw e, s)))
              else
                (let ca = combine_memtype (BX_COMBINED_ACCESS_WRITE OR BX_COMBINED_ACCESS_USER) BX_MEMTYPE_WB;
                     paddress = A20ADDR (phys s) laddr
                 in (Inr paddress, fill_entry s laddr paddress 0xfff ca 0 user rw e, s))))"

section \<open>Maintenance\<close>

definition BX_DTLB_SIZE :: nat where "BX_DTLB_SIZE = 2048"
definition BX_ITLB_SIZE :: nat where "BX_ITLB_SIZE = 1024"

definition TLB_flush :: "bx_mmu \<Rightarrow> bx_mmu" where
  "TLB_flush s = s\<lparr>DTLB := tlb_flush BX_DTLB_SIZE (DTLB s), ITLB := tlb_flush BX_ITLB_SIZE (ITLB s)\<rparr>"

definition TLB_flushNonGlobal :: "bx_mmu \<Rightarrow> bx_mmu" where
  "TLB_flushNonGlobal s = s\<lparr>DTLB := flushNonGlobal BX_DTLB_SIZE (DTLB s), ITLB := flushNonGlobal BX_ITLB_SIZE (ITLB s)\<rparr>"

definition TLB_invlpg :: "bx_address \<Rightarrow> bx_mmu \<Rightarrow> bx_mmu" where
  "TLB_invlpg laddr s = s\<lparr>DTLB := tlb_invlpg BX_DTLB_SIZE laddr (DTLB s), ITLB := tlb_invlpg BX_ITLB_SIZE laddr (ITLB s)\<rparr>"

definition set_PKeys :: "Bit32u \<Rightarrow> Bit32u \<Rightarrow> bx_mmu \<Rightarrow> bx_mmu" where
  "set_PKeys pkru_val pkrs_val s =
    (let s = s\<lparr>pkru := pkru_val, pkrs := pkrs_val\<rparr>;
         all = TLB_SysReadOK OR TLB_UserReadOK OR TLB_SysWriteOK OR TLB_UserWriteOK;
         rd = (\<lambda>i. if long_mode s \<and> i < 16 \<and> get_PKE s \<and> bit pkru_val (i * 2) then 0
                   else if long_mode s \<and> 16 \<le> i \<and> i < 32 \<and> get_PKS s \<and> bit pkrs_val ((i - 16) * 2) then 0 else all);
         wr = (\<lambda>i. let w = rd i
                   in if long_mode s \<and> i < 16 \<and> get_PKE s \<and> bit pkru_val (i * 2 + 1) then
                        (let w = w AND NOT TLB_UserWriteOK in if get_WP s then w AND NOT TLB_SysWriteOK else w)
                      else if long_mode s \<and> 16 \<le> i \<and> i < 32 \<and> get_PKS s \<and> bit pkrs_val ((i - 16) * 2 + 1) then
                        (if get_WP s then w AND NOT TLB_SysWriteOK else w)
                      else w)
     in s\<lparr>rd_pkey := (\<lambda>i. if i < 32 then rd i OR push_bit 4 (rd i) else rd_pkey s i),
          wr_pkey := (\<lambda>i. if i < 32 then wr i OR push_bit 4 (wr i) else wr_pkey s i)\<rparr>)"

end
