(* ===== verification/Access.thy ===== *)
theory Access
  imports Paging
begin

text \<open>
  Accesses to linear addresses: the slow path of \<^verbatim>\<open>cpu/access.cc\<close>, which checks the address, translates every page of the
  access and only then touches memory, and the fast path of \<^verbatim>\<open>cpu/access2.cc\<close>, which serves an access within one page
  through the host pointer of a TLB entry.  An operation returns an exception or its result; the slow path returns
  nothing where the code returns -1 for an address that is not canonical.
\<close>

section \<open>Canonical addresses\<close>

definition IsCanonicalToWidth :: "bx_address \<Rightarrow> nat \<Rightarrow> bool" where
  "IsCanonicalToWidth addr LIN_ADDRESS_WIDTH \<longleftrightarrow> signed_drop_bit (LIN_ADDRESS_WIDTH - 1) addr + 1 < 2"

definition IsCanonical :: "bx_mmu \<Rightarrow> bx_address \<Rightarrow> bool" where
  "IsCanonical s addr = IsCanonicalToWidth addr (linaddr_width s)"

definition IsCanonicalAccess :: "bx_mmu \<Rightarrow> bx_address \<Rightarrow> Bit32u \<Rightarrow> bool \<Rightarrow> bool" where
  "IsCanonicalAccess s laddr rw user =
    (if \<not> IsCanonical s laddr then False
     else if long_mode s \<and> get_LASS s then
       (let access_user_space = (drop_bit 63 laddr = 0);
            implicit = (rw = BX_IMPLICIT_SUPERVISOR_READ \<or> rw = BX_IMPLICIT_SUPERVISOR_WRITE)
        in if user then access_user_space
           else if rw = BX_EXECUTE \<or> get_SMAP s \<and> (\<not> eflags_AC s \<or> implicit) then \<not> access_user_space
           else True)
     else True)"

section \<open>Translation through a slot of the data TLB\<close>

definition translate_dtlb :: "nat \<Rightarrow> bx_address \<Rightarrow> bool \<Rightarrow> Bit32u \<Rightarrow> bx_mmu \<Rightarrow> (bx_trap + Bit64u) \<times> bx_mmu" where
  "translate_dtlb n laddr user rw s =
    (let (r, e, s) = translate_linear (tlb_entry (DTLB s) n) laddr user rw s
     in (r, s\<lparr>DTLB := set_entry n e (DTLB s)\<rparr>))"

definition BX_DTLB_INDEX_OF :: "bx_address \<Rightarrow> Bit32u \<Rightarrow> nat" where
  "BX_DTLB_INDEX_OF l len = get_index_of BX_DTLB_SIZE l len"

definition BX_ITLB_INDEX_OF :: "bx_address \<Rightarrow> nat" where
  "BX_ITLB_INDEX_OF l = get_index_of BX_ITLB_SIZE l 0"

definition set_one_page :: "Bit64u \<Rightarrow> bx_mmu \<Rightarrow> bx_mmu" where
  "set_one_page p s = s\<lparr>address_xlation := (address_xlation s)\<lparr>paddress1 := p, pages := Pages 1\<rparr>\<rparr>"

text \<open>The pages an access touches, as physical addresses with lengths; \<open>None\<close> where an address is not canonical.\<close>

definition access_pages ::
  "bx_address \<Rightarrow> nat \<Rightarrow> nat \<Rightarrow> Bit32u \<Rightarrow> Bit32u \<Rightarrow> bx_mmu \<Rightarrow> (bx_trap + (Bit64u \<times> nat) list option) \<times> bx_mmu" where
  "access_pages laddr len curr_pl rw ac_mask s =
    (let user = (curr_pl = 3); pageOffset = PAGE_OFFSET laddr
     in if \<not> IsCanonicalAccess s laddr rw user then (Inr None, s)
        else if alignment_check_mask s \<noteq> 0 \<and> user \<and> pageOffset AND ac_mask \<noteq> 0 \<and> \<not> alignment_check_ignored s then
          (Inl (BX_AC_EXCEPTION, 0), s)
        else if unat pageOffset + len \<le> 4096 then
          (case translate_dtlb (BX_DTLB_INDEX_OF laddr 0) laddr user rw s of
             (Inl t, s) \<Rightarrow> (Inl t, s)
           | (Inr p, s) \<Rightarrow> (Inr (Some [(p, len)]), set_one_page p s))
        else
          (let l1 = 4096 - unat pageOffset; l2 = len - l1;
               s = s\<lparr>address_xlation := (address_xlation s)\<lparr>len1 := l1, len2 := l2, pages := Pages 2\<rparr>\<rparr>;
               laddr2 = laddr + of_nat l1;
               laddr2 = (if \<not> long64_mode s then laddr2 AND 0xffffffff else laddr2)
           in if long64_mode s \<and> \<not> IsCanonicalAccess s laddr2 rw user then (Inr None, s)
              else
                (case translate_dtlb (BX_DTLB_INDEX_OF laddr 0) laddr user rw s of
                   (Inl t, s) \<Rightarrow> (Inl t, s)
                 | (Inr p1, s) \<Rightarrow>
                     (let s = s\<lparr>address_xlation := (address_xlation s)\<lparr>paddress1 := p1\<rparr>\<rparr>
                      in case translate_dtlb (BX_DTLB_INDEX_OF laddr2 0) laddr2 user rw s of
                           (Inl t, s) \<Rightarrow> (Inl t, s)
                         | (Inr p2, s) \<Rightarrow>
                             (Inr (Some [(p1, l1), (p2, l2)]), s\<lparr>address_xlation := (address_xlation s)\<lparr>paddress2 := p2\<rparr>\<rparr>)))))"

section \<open>The slow path\<close>

definition read_pages :: "bx_mem \<Rightarrow> (Bit64u \<times> nat) list \<Rightarrow> Bit8u list" where
  "read_pages m ps = concat (map (\<lambda>(p, n). readPhysicalPage m p n) ps)"

fun write_pages :: "(Bit64u \<times> nat) list \<Rightarrow> Bit8u list \<Rightarrow> bx_mem \<Rightarrow> bx_mem" where
  "write_pages [] data m = m"
| "write_pages ((p, n) # ps) data m = write_pages ps (drop n data) (writePhysicalPage m p (take n data))"

definition access_read_linear ::
  "bx_address \<Rightarrow> nat \<Rightarrow> nat \<Rightarrow> Bit32u \<Rightarrow> Bit32u \<Rightarrow> bx_mmu \<Rightarrow> (bx_trap + Bit8u list option) \<times> bx_mmu" where
  "access_read_linear laddr len curr_pl rw ac_mask s =
    (let (r, s) = access_pages laddr len curr_pl rw ac_mask s
     in (map_sum (\<lambda>t. t) (map_option (read_pages (phys s))) r, s))"

definition access_write_linear ::
  "bx_address \<Rightarrow> nat \<Rightarrow> nat \<Rightarrow> Bit32u \<Rightarrow> Bit32u \<Rightarrow> Bit8u list \<Rightarrow> bx_mmu \<Rightarrow> (bx_trap + unit option) \<times> bx_mmu" where
  "access_write_linear laddr len curr_pl rw ac_mask data s =
    (case access_pages laddr len curr_pl rw ac_mask s of
       (Inl t, s) \<Rightarrow> (Inl t, s)
     | (Inr None, s) \<Rightarrow> (Inr None, s)
     | (Inr (Some ps), s) \<Rightarrow> (Inr (Some ()), s\<lparr>phys := write_pages ps data (phys s)\<rparr>))"

section \<open>The fast path\<close>

definition isWriteOK :: "bx_mmu \<Rightarrow> bx_TLB_entry \<Rightarrow> bool \<Rightarrow> bool" where
  "isWriteOK s e user \<longleftrightarrow> accessBits e AND push_bit (of_bool user) 0x04 AND wr_pkey s (unat (tlb_pkey e)) \<noteq> 0"

definition isReadOK :: "bx_mmu \<Rightarrow> bx_TLB_entry \<Rightarrow> bool \<Rightarrow> bool" where
  "isReadOK s e user \<longleftrightarrow> accessBits e AND push_bit (of_bool user) 0x01 AND rd_pkey s (unat (tlb_pkey e)) \<noteq> 0"

definition USER_PL :: "bx_mmu \<Rightarrow> bool" where "USER_PL s \<longleftrightarrow> CPL s = 3"

definition BX_SEG_REG_SS :: nat where "BX_SEG_REG_SS = 2"

definition int_number :: "nat \<Rightarrow> bx_exception" where
  "int_number s = (if s = BX_SEG_REG_SS then BX_SS_EXCEPTION else BX_GP_EXCEPTION)"

definition raise_unless_done :: "bx_exception \<Rightarrow> (bx_trap + 'a option) \<times> bx_mmu \<Rightarrow> (bx_trap + 'a) \<times> bx_mmu" where
  "raise_unless_done x = (\<lambda>(r, s). case r of Inl t \<Rightarrow> (Inl t, s) | Inr None \<Rightarrow> (Inl (x, 0), s) | Inr (Some v) \<Rightarrow> (Inr v, s))"

abbreviation fault_unless_done :: "nat \<Rightarrow> (bx_trap + 'a option) \<times> bx_mmu \<Rightarrow> (bx_trap + 'a) \<times> bx_mmu" where
  "fault_unless_done seg \<equiv> raise_unless_done (int_number seg)"

text \<open>One function for accesses of \<open>len\<close> bytes, a power of two; the sources have one copy for every length.\<close>

definition read_linear :: "nat \<Rightarrow> nat \<Rightarrow> bx_address \<Rightarrow> bx_mmu \<Rightarrow> (bx_trap + Bit8u list) \<times> bx_mmu" where
  "read_linear len seg laddr s =
    (let m = of_nat (len - 1);
         e = tlb_entry (DTLB s) (BX_DTLB_INDEX_OF laddr m)
     in if lpf e = AlignedAccessLPFOf laddr (ucast (m AND alignment_check_mask s)) \<and> isReadOK s e (USER_PL s) then
          (Inr (ReadHost (phys s) (host_or (hostPageAddr e) (PAGE_OFFSET laddr)) len), s)
        else fault_unless_done seg (access_read_linear laddr len (CPL s) BX_READ m s))"

definition write_linear :: "nat \<Rightarrow> nat \<Rightarrow> bx_address \<Rightarrow> Bit8u list \<Rightarrow> bx_mmu \<Rightarrow> (bx_trap + unit) \<times> bx_mmu" where
  "write_linear len seg laddr data s =
    (let m = of_nat (len - 1);
         e = tlb_entry (DTLB s) (BX_DTLB_INDEX_OF laddr m)
     in if lpf e = AlignedAccessLPFOf laddr (ucast (m AND alignment_check_mask s)) \<and> isWriteOK s e (USER_PL s) then
          (Inr (), s\<lparr>phys := WriteHost (phys s) (host_or (hostPageAddr e) (PAGE_OFFSET laddr)) data\<rparr>)
        else fault_unless_done seg (access_write_linear laddr len (CPL s) BX_WRITE m data s))"

definition read_RMW_linear :: "nat \<Rightarrow> nat \<Rightarrow> bx_address \<Rightarrow> bx_mmu \<Rightarrow> (bx_trap + Bit8u list) \<times> bx_mmu" where
  "read_RMW_linear len seg laddr s =
    (let m = of_nat (len - 1);
         e = tlb_entry (DTLB s) (BX_DTLB_INDEX_OF laddr m)
     in if lpf e = AlignedAccessLPFOf laddr (ucast (m AND alignment_check_mask s)) \<and> isWriteOK s e (USER_PL s) then
          (let pageOffset = PAGE_OFFSET laddr; pAddr = ppf e OR ucast pageOffset; hostAddr = host_or (hostPageAddr e) pageOffset
           in (Inr (ReadHost (phys s) hostAddr len),
               s\<lparr>address_xlation := (address_xlation s)\<lparr>pages := HostAddr hostAddr, paddress1 := pAddr\<rparr>\<rparr>))
        else fault_unless_done seg (access_read_linear laddr len (CPL s) BX_RW m s))"

definition write_RMW_linear :: "nat \<Rightarrow> Bit8u list \<Rightarrow> bx_mmu \<Rightarrow> bx_mmu" where
  "write_RMW_linear len data s =
    (let x = address_xlation s
     in case pages x of
          HostAddr hostAddr \<Rightarrow> s\<lparr>phys := WriteHost (phys s) hostAddr data\<rparr>
        | Pages n \<Rightarrow>
            if n = 1 then s\<lparr>phys := writePhysicalPage (phys s) (paddress1 x) data\<rparr>
            else s\<lparr>phys := writePhysicalPage (writePhysicalPage (phys s) (paddress1 x) (take (len1 x) data))
                     (paddress2 x) (drop (len1 x) data)\<rparr>)"

text \<open>Two halves of a 16-byte operand; the sources assert that it lies in one page.\<close>

definition host_plus :: "host_ptr \<Rightarrow> Bit64u \<Rightarrow> host_ptr" where
  "host_plus p n = (case p of NullPtr \<Rightarrow> NullPtr | Vector l \<Rightarrow> Vector (l + n) | Bogus x \<Rightarrow> Bogus (x + n))"

definition write_RMW_linear_dqword :: "Bit64u \<Rightarrow> Bit64u \<Rightarrow> bx_mmu \<Rightarrow> bx_mmu" where
  "write_RMW_linear_dqword hi lo s =
    (let s = write_RMW_linear 8 (bytes_of_word 8 lo) s; x = address_xlation s;
         pg = (case pages x of HostAddr h \<Rightarrow> HostAddr (host_plus h 8) | Pages n \<Rightarrow> Pages n)
     in write_RMW_linear 8 (bytes_of_word 8 hi) (s\<lparr>address_xlation := x\<lparr>paddress1 := paddress1 x + 8, pages := pg\<rparr>\<rparr>))"

definition tickle_read_linear :: "nat \<Rightarrow> bx_address \<Rightarrow> bx_mmu \<Rightarrow> (bx_trap + unit) \<times> bx_mmu" where
  "tickle_read_linear seg laddr s =
    (let n = BX_DTLB_INDEX_OF laddr 0; e = tlb_entry (DTLB s) n
     in if lpf e = LPFOf laddr \<and> isReadOK s e (USER_PL s) then (Inr (), set_one_page (ppf e OR ucast (PAGE_OFFSET laddr)) s)
        else if \<not> IsCanonicalAccess s laddr BX_READ (USER_PL s) then (Inl (int_number seg, 0), s)
        else
          (case translate_dtlb n laddr (USER_PL s) BX_READ s of
             (Inl t, s) \<Rightarrow> (Inl t, s)
           | (Inr p, s) \<Rightarrow> (Inr (), set_one_page p s)))"

definition tickle_write_linear :: "nat \<Rightarrow> bx_address \<Rightarrow> nat \<Rightarrow> bx_mmu \<Rightarrow> (bx_trap + unit) \<times> bx_mmu" where
  "tickle_write_linear seg laddr len s =
    (let l = len - 1; m = of_nat l; user = USER_PL s;
         n = BX_DTLB_INDEX_OF laddr m; e = tlb_entry (DTLB s) n;
         pageOffset = PAGE_OFFSET laddr; last_addr = laddr + of_nat l
     in if lpf e = AlignedAccessLPFOf laddr (ucast (m AND alignment_check_mask s)) \<and> isWriteOK s e user then
          (Inr (), set_one_page (ppf e OR ucast pageOffset) s)
        else if \<not> IsCanonicalAccess s laddr BX_WRITE user \<or> \<not> IsCanonicalAccess s last_addr BX_WRITE user then
          (Inl (int_number seg, 0), s)
        else if alignment_check_mask s \<noteq> 0 \<and> user \<and> pageOffset AND m \<noteq> 0 then (Inl (BX_AC_EXCEPTION, 0), s)
        else
          (case translate_dtlb n laddr user BX_WRITE (s\<lparr>address_xlation := (address_xlation s)\<lparr>pages := Pages 1\<rparr>\<rparr>) of
             (Inl t, s) \<Rightarrow> (Inl t, s)
           | (Inr p, s) \<Rightarrow>
               (let s = s\<lparr>address_xlation := (address_xlation s)\<lparr>paddress1 := p\<rparr>\<rparr>
                in if drop_bit 12 laddr \<noteq> drop_bit 12 last_addr then
                     (case translate_dtlb n last_addr user BX_WRITE (s\<lparr>address_xlation := (address_xlation s)\<lparr>pages := Pages 2\<rparr>\<rparr>) of
                        (Inl t, s) \<Rightarrow> (Inl t, s)
                      | (Inr p2, s) \<Rightarrow> (Inr (), s\<lparr>address_xlation := (address_xlation s)\<lparr>paddress2 := p2\<rparr>\<rparr>))
                   else (Inr (), s))))"

section \<open>Vector accesses\<close>

text \<open>Accesses of 16, 32 or 64 bytes, without alignment checking.\<close>

definition read_linear_vector :: "nat \<Rightarrow> nat \<Rightarrow> bx_address \<Rightarrow> bx_mmu \<Rightarrow> (bx_trap + Bit8u list) \<times> bx_mmu" where
  "read_linear_vector len seg laddr s =
    (let e = tlb_entry (DTLB s) (BX_DTLB_INDEX_OF laddr (of_nat (len - 1)))
     in if lpf e = LPFOf laddr \<and> isReadOK s e (USER_PL s) then
          (Inr (ReadHost (phys s) (host_or (hostPageAddr e) (PAGE_OFFSET laddr)) len), s)
        else fault_unless_done seg (access_read_linear laddr len (CPL s) BX_READ 0 s))"

definition write_linear_vector :: "nat \<Rightarrow> nat \<Rightarrow> bx_address \<Rightarrow> Bit8u list \<Rightarrow> bx_mmu \<Rightarrow> (bx_trap + unit) \<times> bx_mmu" where
  "write_linear_vector len seg laddr data s =
    (let e = tlb_entry (DTLB s) (BX_DTLB_INDEX_OF laddr (of_nat (len - 1)))
     in if lpf e = LPFOf laddr \<and> isWriteOK s e (USER_PL s) then
          (Inr (), s\<lparr>phys := WriteHost (phys s) (host_or (hostPageAddr e) (PAGE_OFFSET laddr)) data\<rparr>)
        else fault_unless_done seg (access_write_linear laddr len (CPL s) BX_WRITE 0 data s))"

definition read_linear_vector_aligned :: "nat \<Rightarrow> nat \<Rightarrow> bx_address \<Rightarrow> bx_mmu \<Rightarrow> (bx_trap + Bit8u list) \<times> bx_mmu" where
  "read_linear_vector_aligned len seg laddr s =
    (let e = tlb_entry (DTLB s) (BX_DTLB_INDEX_OF laddr 0)
     in if lpf e = AlignedAccessLPFOf laddr (of_nat (len - 1)) \<and> isReadOK s e (USER_PL s) then
          (Inr (ReadHost (phys s) (host_or (hostPageAddr e) (PAGE_OFFSET laddr)) len), s)
        else if laddr AND of_nat (len - 1) \<noteq> 0 then (Inl (BX_GP_EXCEPTION, 0), s)
        else fault_unless_done seg (access_read_linear laddr len (CPL s) BX_READ 0 s))"

definition write_linear_vector_aligned :: "nat \<Rightarrow> nat \<Rightarrow> bx_address \<Rightarrow> Bit8u list \<Rightarrow> bx_mmu \<Rightarrow> (bx_trap + unit) \<times> bx_mmu" where
  "write_linear_vector_aligned len seg laddr data s =
    (let e = tlb_entry (DTLB s) (BX_DTLB_INDEX_OF laddr 0)
     in if lpf e = AlignedAccessLPFOf laddr (of_nat (len - 1)) \<and> isWriteOK s e (USER_PL s) then
          (Inr (), s\<lparr>phys := WriteHost (phys s) (host_or (hostPageAddr e) (PAGE_OFFSET laddr)) data\<rparr>)
        else if laddr AND of_nat (len - 1) \<noteq> 0 then (Inl (BX_GP_EXCEPTION, 0), s)
        else fault_unless_done seg (access_write_linear laddr len (CPL s) BX_WRITE 0 data s))"

definition read_RMW_linear_dqword_aligned_64 :: "nat \<Rightarrow> bx_address \<Rightarrow> bx_mmu \<Rightarrow> (bx_trap + Bit8u list) \<times> bx_mmu" where
  "read_RMW_linear_dqword_aligned_64 seg laddr s =
    (let e = tlb_entry (DTLB s) (BX_DTLB_INDEX_OF laddr 0)
     in if lpf e = AlignedAccessLPFOf laddr 15 \<and> isWriteOK s e (USER_PL s) then
          (let pageOffset = PAGE_OFFSET laddr; pAddr = ppf e OR ucast pageOffset; hostAddr = host_or (hostPageAddr e) pageOffset
           in (Inr (ReadHost (phys s) hostAddr 16),
               s\<lparr>address_xlation := (address_xlation s)\<lparr>pages := HostAddr hostAddr, paddress1 := pAddr\<rparr>\<rparr>))
        else if laddr AND 15 \<noteq> 0 then (Inl (BX_GP_EXCEPTION, 0), s)
        else fault_unless_done seg (access_read_linear laddr 16 (CPL s) BX_RW 0 s))"

section \<open>Accesses of the processor to its tables and to a new stack\<close>

definition system_read :: "nat \<Rightarrow> bx_address \<Rightarrow> bx_mmu \<Rightarrow> (bx_trap + Bit8u list) \<times> bx_mmu" where
  "system_read len laddr s =
    (let e = tlb_entry (DTLB s) (BX_DTLB_INDEX_OF laddr (of_nat (len - 1)))
     in if lpf e = LPFOf laddr \<and> isReadOK s e False then
          (Inr (ReadHost (phys s) (host_or (hostPageAddr e) (PAGE_OFFSET laddr)) len), s)
        else raise_unless_done BX_GP_EXCEPTION (access_read_linear laddr len 0 BX_IMPLICIT_SUPERVISOR_READ 0 s))"

definition system_write :: "nat \<Rightarrow> bx_address \<Rightarrow> Bit8u list \<Rightarrow> bx_mmu \<Rightarrow> (bx_trap + unit) \<times> bx_mmu" where
  "system_write len laddr data s =
    (let e = tlb_entry (DTLB s) (BX_DTLB_INDEX_OF laddr (of_nat (len - 1)))
     in if lpf e = LPFOf laddr \<and> isWriteOK s e False then
          (Inr (), s\<lparr>phys := WriteHost (phys s) (host_or (hostPageAddr e) (PAGE_OFFSET laddr)) data\<rparr>)
        else raise_unless_done BX_GP_EXCEPTION (access_write_linear laddr len 0 BX_IMPLICIT_SUPERVISOR_WRITE 0 data s))"

definition write_new_stack :: "nat \<Rightarrow> bx_address \<Rightarrow> nat \<Rightarrow> Bit8u list \<Rightarrow> bx_mmu \<Rightarrow> (bx_trap + unit) \<times> bx_mmu" where
  "write_new_stack len laddr curr_pl data s =
    (let m = of_nat (len - 1); user = (curr_pl = 3);
         e = tlb_entry (DTLB s) (BX_DTLB_INDEX_OF laddr m)
     in if lpf e = AlignedAccessLPFOf laddr (ucast (m AND alignment_check_mask s)) \<and> isWriteOK s e user then
          (Inr (), s\<lparr>phys := WriteHost (phys s) (host_or (hostPageAddr e) (PAGE_OFFSET laddr)) data\<rparr>)
        else raise_unless_done BX_SS_EXCEPTION (access_write_linear laddr len curr_pl BX_WRITE m data s))"

section \<open>Shadow stacks\<close>

definition isShadowStackWriteOK :: "bx_mmu \<Rightarrow> bx_TLB_entry \<Rightarrow> bool \<Rightarrow> bool" where
  "isShadowStackWriteOK s e user \<longleftrightarrow> accessBits e AND push_bit (of_bool user) 0x40 AND wr_pkey s (unat (tlb_pkey e)) \<noteq> 0"

definition isShadowStackReadOK :: "bx_mmu \<Rightarrow> bx_TLB_entry \<Rightarrow> bool \<Rightarrow> bool" where
  "isShadowStackReadOK s e user \<longleftrightarrow> accessBits e AND push_bit (of_bool user) 0x10 AND rd_pkey s (unat (tlb_pkey e)) \<noteq> 0"

text \<open>\<open>len\<close> is 4 or 8; only the accesses of 4 bytes check the alignment.\<close>

definition shadow_stack_read :: "nat \<Rightarrow> nat \<Rightarrow> bx_address \<Rightarrow> nat \<Rightarrow> bx_mmu \<Rightarrow> (bx_trap + Bit8u list) \<times> bx_mmu" where
  "shadow_stack_read len seg offset curr_pl s =
    (let e = tlb_entry (DTLB s) (BX_DTLB_INDEX_OF offset (of_nat (len - 1)))
     in if lpf e = AlignedAccessLPFOf offset (of_nat (len - 1)) \<and> isShadowStackReadOK s e (curr_pl = 3) then
          (Inr (ReadHost (phys s) (host_or (hostPageAddr e) (PAGE_OFFSET offset)) len), s)
        else if len = 4 \<and> offset AND 3 \<noteq> 0 then (Inl (BX_GP_EXCEPTION, 0), s)
        else fault_unless_done seg (access_read_linear offset len curr_pl BX_SHADOW_STACK_READ 0 s))"

definition shadow_stack_write :: "nat \<Rightarrow> nat \<Rightarrow> bx_address \<Rightarrow> nat \<Rightarrow> Bit8u list \<Rightarrow> bx_mmu \<Rightarrow> (bx_trap + unit) \<times> bx_mmu" where
  "shadow_stack_write len seg offset curr_pl data s =
    (let e = tlb_entry (DTLB s) (BX_DTLB_INDEX_OF offset (of_nat (len - 1)))
     in if lpf e = AlignedAccessLPFOf offset (of_nat (len - 1)) \<and> isShadowStackWriteOK s e (curr_pl = 3) then
          (Inr (), s\<lparr>phys := WriteHost (phys s) (host_or (hostPageAddr e) (PAGE_OFFSET offset)) data\<rparr>)
        else if len = 4 \<and> offset AND 3 \<noteq> 0 then (Inl (BX_GP_EXCEPTION, 0), s)
        else fault_unless_done seg (access_write_linear offset len curr_pl BX_SHADOW_STACK_WRITE 0 data s))"

definition shadow_stack_lock_cmpxchg8b ::
  "nat \<Rightarrow> bx_address \<Rightarrow> nat \<Rightarrow> Bit64u \<Rightarrow> Bit64u \<Rightarrow> bx_mmu \<Rightarrow> (bx_trap + bool) \<times> bx_mmu" where
  "shadow_stack_lock_cmpxchg8b seg offset curr_pl data expected_data s =
    (case shadow_stack_read 8 seg offset curr_pl s of
       (Inl t, s) \<Rightarrow> (Inl t, s)
     | (Inr bs, s) \<Rightarrow>
         (let val64 = word_of_bytes bs; found = (val64 = expected_data)
          in case shadow_stack_write 8 seg offset curr_pl (bytes_of_word 8 (if found then data else val64)) s of
               (Inl t, s) \<Rightarrow> (Inl t, s)
             | (Inr _, s) \<Rightarrow> (Inr found, s)))"

definition shadow_stack_atomic_set_busy :: "nat \<Rightarrow> bx_address \<Rightarrow> nat \<Rightarrow> bool \<Rightarrow> bx_mmu \<Rightarrow> (bx_trap + bool) \<times> bx_mmu" where
  "shadow_stack_atomic_set_busy seg offset curr_pl long64 s =
    shadow_stack_lock_cmpxchg8b seg offset curr_pl (offset OR 0x1) (if long64 then offset else offset AND 0xffffffff) s"

definition shadow_stack_atomic_clear_busy :: "nat \<Rightarrow> bx_address \<Rightarrow> nat \<Rightarrow> bx_mmu \<Rightarrow> (bx_trap + bool) \<times> bx_mmu" where
  "shadow_stack_atomic_clear_busy seg offset curr_pl s = shadow_stack_lock_cmpxchg8b seg offset curr_pl offset (offset OR 0x1) s"

section \<open>Instruction fetch\<close>

definition fetch_page :: "bx_address \<Rightarrow> bx_mmu \<Rightarrow> (bx_trap + Bit64u) \<times> bx_mmu" where
  "fetch_page laddr s =
    (let n = BX_ITLB_INDEX_OF laddr; e = tlb_entry (ITLB s) n
     in if lpf e = LPFOf laddr \<and> accessBits e AND push_bit (of_bool (USER_PL s)) 1 \<noteq> 0 then (Inr (ppf e), s)
        else
          (let (r, e, s) = translate_linear e laddr (USER_PL s) BX_EXECUTE s
           in (map_sum (\<lambda>t. t) PPFOf r, s\<lparr>ITLB := set_entry n e (ITLB s)\<rparr>)))"

end
