(* ===== verification/Descriptor.thy ===== *)
theory Descriptor
  imports CpuState
begin

text \<open>
  Selectors and segment descriptors: the structures of \<^verbatim>\<open>cpu/descriptor.h\<close> and the functions of
  \<^verbatim>\<open>cpu/segment_ctrl_pro.cc\<close> that take a descriptor of a table apart and put it together again.  The members of the union
  of the source are separate fields; no function reads a member other than the one that the type of the descriptor selects.
\<close>

section \<open>Data\<close>

record bx_selector_t =
  sel_value :: Bit16u
  sel_index :: Bit16u
  sel_ti :: Bit8u
  sel_rpl :: Bit8u

record bx_descriptor_t =
  d_valid :: Bit32u
  d_p :: bool
  d_dpl :: Bit8u
  d_segment :: bool
  d_type :: Bit8u
  d_base :: bx_address
  d_limit_scaled :: Bit32u
  d_g :: bool
  d_d_b :: bool
  d_l :: bool
  d_avl :: bool
  gate_param_count :: Bit8u
  gate_dest_selector :: Bit16u
  gate_dest_offset :: Bit32u
  taskgate_tss_selector :: Bit16u

record bx_segment_reg_t =
  selector :: bx_selector_t
  cache :: bx_descriptor_t

record bx_global_segment_reg_t =
  gs_base :: bx_address
  gs_limit :: Bit16u

definition SegValidCache :: Bit32u where "SegValidCache = 0x01"
definition SegAccessROK :: Bit32u where "SegAccessROK = 0x02"
definition SegAccessWOK :: Bit32u where "SegAccessWOK = 0x04"
definition SegAccessROK4G :: Bit32u where "SegAccessROK4G = 0x08"
definition SegAccessWOK4G :: Bit32u where "SegAccessWOK4G = 0x10"

definition BX_SYS_SEGMENT_AVAIL_286_TSS :: Bit8u where "BX_SYS_SEGMENT_AVAIL_286_TSS = 0x1"
definition BX_SYS_SEGMENT_LDT :: Bit8u where "BX_SYS_SEGMENT_LDT = 0x2"
definition BX_SYS_SEGMENT_BUSY_286_TSS :: Bit8u where "BX_SYS_SEGMENT_BUSY_286_TSS = 0x3"
definition BX_286_CALL_GATE :: Bit8u where "BX_286_CALL_GATE = 0x4"
definition BX_TASK_GATE :: Bit8u where "BX_TASK_GATE = 0x5"
definition BX_286_INTERRUPT_GATE :: Bit8u where "BX_286_INTERRUPT_GATE = 0x6"
definition BX_286_TRAP_GATE :: Bit8u where "BX_286_TRAP_GATE = 0x7"
definition BX_SYS_SEGMENT_AVAIL_386_TSS :: Bit8u where "BX_SYS_SEGMENT_AVAIL_386_TSS = 0x9"
definition BX_SYS_SEGMENT_BUSY_386_TSS :: Bit8u where "BX_SYS_SEGMENT_BUSY_386_TSS = 0xb"
definition BX_386_CALL_GATE :: Bit8u where "BX_386_CALL_GATE = 0xc"
definition BX_386_INTERRUPT_GATE :: Bit8u where "BX_386_INTERRUPT_GATE = 0xe"
definition BX_386_TRAP_GATE :: Bit8u where "BX_386_TRAP_GATE = 0xf"

definition BX_DATA_READ_WRITE_ACCESSED :: Bit8u where "BX_DATA_READ_WRITE_ACCESSED = 0x3"
definition BX_CODE_EXEC_READ_ACCESSED :: Bit8u where "BX_CODE_EXEC_READ_ACCESSED = 0xb"

lemmas descriptor_types = BX_SYS_SEGMENT_AVAIL_286_TSS_def BX_SYS_SEGMENT_LDT_def BX_SYS_SEGMENT_BUSY_286_TSS_def
  BX_286_CALL_GATE_def BX_TASK_GATE_def BX_286_INTERRUPT_GATE_def BX_286_TRAP_GATE_def BX_SYS_SEGMENT_AVAIL_386_TSS_def
  BX_SYS_SEGMENT_BUSY_386_TSS_def BX_386_CALL_GATE_def BX_386_INTERRUPT_GATE_def BX_386_TRAP_GATE_def

definition IS_PRESENT :: "bx_descriptor_t \<Rightarrow> bool" where "IS_PRESENT descriptor = d_p descriptor"
definition IS_CODE_SEGMENT :: "Bit8u \<Rightarrow> bool" where "IS_CODE_SEGMENT t \<longleftrightarrow> t AND 0x8 \<noteq> 0"
definition IS_CODE_SEGMENT_CONFORMING :: "Bit8u \<Rightarrow> bool" where "IS_CODE_SEGMENT_CONFORMING t \<longleftrightarrow> t AND 0x4 \<noteq> 0"
definition IS_DATA_SEGMENT_EXPAND_DOWN :: "Bit8u \<Rightarrow> bool" where "IS_DATA_SEGMENT_EXPAND_DOWN t \<longleftrightarrow> t AND 0x4 \<noteq> 0"
definition IS_CODE_SEGMENT_READABLE :: "Bit8u \<Rightarrow> bool" where "IS_CODE_SEGMENT_READABLE t \<longleftrightarrow> t AND 0x2 \<noteq> 0"
definition IS_DATA_SEGMENT_WRITEABLE :: "Bit8u \<Rightarrow> bool" where "IS_DATA_SEGMENT_WRITEABLE t \<longleftrightarrow> t AND 0x2 \<noteq> 0"
definition IS_SEGMENT_ACCESSED :: "Bit8u \<Rightarrow> bool" where "IS_SEGMENT_ACCESSED t \<longleftrightarrow> t AND 0x1 \<noteq> 0"
definition IS_DATA_SEGMENT :: "Bit8u \<Rightarrow> bool" where "IS_DATA_SEGMENT t \<longleftrightarrow> \<not> IS_CODE_SEGMENT t"
definition IS_CODE_SEGMENT_NON_CONFORMING :: "Bit8u \<Rightarrow> bool" where "IS_CODE_SEGMENT_NON_CONFORMING t \<longleftrightarrow> \<not> IS_CODE_SEGMENT_CONFORMING t"

section \<open>Taking apart\<close>

definition parse_selector :: "Bit16u \<Rightarrow> bx_selector_t" where
  "parse_selector raw_selector =
    \<lparr>sel_value = raw_selector, sel_index = drop_bit 3 raw_selector, sel_ti = ucast (drop_bit 2 raw_selector AND 0x01),
     sel_rpl = ucast (raw_selector AND 0x03)\<rparr>"

definition get_ar_byte :: "bx_descriptor_t \<Rightarrow> Bit8u" where
  "get_ar_byte d = d_type d OR push_bit 4 (of_bool (d_segment d)) OR push_bit 5 (d_dpl d) OR push_bit 7 (of_bool (d_p d))"

definition set_ar_byte :: "Bit8u \<Rightarrow> bx_descriptor_t \<Rightarrow> bx_descriptor_t" where
  "set_ar_byte ar_byte d = d\<lparr>d_p := drop_bit 7 ar_byte AND 0x01 \<noteq> 0, d_dpl := drop_bit 5 ar_byte AND 0x03,
     d_segment := drop_bit 4 ar_byte AND 0x01 \<noteq> 0, d_type := ar_byte AND 0x0f\<rparr>"

definition parse_descriptor :: "Bit32u \<Rightarrow> Bit32u \<Rightarrow> bx_descriptor_t \<Rightarrow> bx_descriptor_t" where
  "parse_descriptor dword1 dword2 temp =
    (let temp = set_ar_byte (ucast (drop_bit 8 dword2)) temp;
         temp = temp\<lparr>d_valid := 0\<rparr>;
         limit = (dword1 AND 0xffff) OR (dword2 AND 0x000F0000);
         g = (dword2 AND 0x00800000 > 0)
     in if d_segment temp then
          temp\<lparr>d_base := ucast (drop_bit 16 dword1 OR push_bit 16 (dword2 AND 0xFF)) OR ucast (dword2 AND 0xFF000000),
            d_g := g, d_d_b := dword2 AND 0x00400000 > 0, d_l := dword2 AND 0x00200000 > 0, d_avl := dword2 AND 0x00100000 > 0,
            d_limit_scaled := (if g then push_bit 12 limit OR 0xfff else limit), d_valid := 1\<rparr>
        else if d_type temp \<in> {BX_286_CALL_GATE, BX_286_INTERRUPT_GATE, BX_286_TRAP_GATE} then
          temp\<lparr>gate_param_count := ucast (dword2 AND 0x1f), gate_dest_selector := ucast (drop_bit 16 dword1),
            gate_dest_offset := dword1 AND 0xffff, d_valid := 1\<rparr>
        else if d_type temp \<in> {BX_386_CALL_GATE, BX_386_INTERRUPT_GATE, BX_386_TRAP_GATE} then
          temp\<lparr>gate_param_count := ucast (dword2 AND 0x1f), gate_dest_selector := ucast (drop_bit 16 dword1),
            gate_dest_offset := (dword2 AND 0xffff0000) OR (dword1 AND 0x0000ffff), d_valid := 1\<rparr>
        else if d_type temp = BX_TASK_GATE then
          temp\<lparr>taskgate_tss_selector := ucast (drop_bit 16 dword1), d_valid := 1\<rparr>
        else if d_type temp \<in> {BX_SYS_SEGMENT_LDT, BX_SYS_SEGMENT_AVAIL_286_TSS, BX_SYS_SEGMENT_BUSY_286_TSS,
            BX_SYS_SEGMENT_AVAIL_386_TSS, BX_SYS_SEGMENT_BUSY_386_TSS} then
          temp\<lparr>d_base := ucast (drop_bit 16 dword1 OR push_bit 16 (dword2 AND 0xff) OR (dword2 AND 0xff000000)),
            d_g := g, d_d_b := dword2 AND 0x00400000 > 0, d_avl := dword2 AND 0x00100000 > 0,
            d_limit_scaled := (if g then push_bit 12 limit OR 0xfff else limit), d_valid := 1\<rparr>
        else temp\<lparr>d_valid := 0\<rparr>)"

section \<open>Putting together\<close>

definition get_descriptor_l :: "bx_descriptor_t \<Rightarrow> Bit32u" where
  "get_descriptor_l d =
    (let limit = d_limit_scaled d;
         limit = (if d_g d then drop_bit 12 limit else limit);
         val = ucast (push_bit 16 (d_base d AND 0xffff)) OR (limit AND 0xffff)
     in if d_segment d \<or> d_valid d = 0 then val
        else if d_type d \<in> {BX_SYS_SEGMENT_LDT, BX_SYS_SEGMENT_AVAIL_286_TSS, BX_SYS_SEGMENT_BUSY_286_TSS,
            BX_SYS_SEGMENT_AVAIL_386_TSS, BX_SYS_SEGMENT_BUSY_386_TSS} then val
        else 0)"

definition get_descriptor_h :: "bx_descriptor_t \<Rightarrow> Bit32u" where
  "get_descriptor_h d =
    (let limit = d_limit_scaled d;
         limit = (if d_g d then drop_bit 12 limit else limit)
     in if d_segment d \<or> d_valid d = 0 then
          ucast (d_base d AND 0xff000000) OR ucast (drop_bit 16 (d_base d) AND 0x000000ff) OR push_bit 8 (ucast (d_type d)) OR
          push_bit 12 (of_bool (d_segment d)) OR push_bit 13 (ucast (d_dpl d)) OR push_bit 15 (of_bool (d_p d)) OR (limit AND 0xf0000) OR
          push_bit 20 (of_bool (d_avl d)) OR push_bit 21 (of_bool (d_l d)) OR push_bit 22 (of_bool (d_d_b d)) OR push_bit 23 (of_bool (d_g d))
        else if d_type d \<in> {BX_SYS_SEGMENT_LDT, BX_SYS_SEGMENT_AVAIL_286_TSS, BX_SYS_SEGMENT_BUSY_286_TSS,
            BX_SYS_SEGMENT_AVAIL_386_TSS, BX_SYS_SEGMENT_BUSY_386_TSS} then
          ucast (drop_bit 16 (d_base d) AND 0xff) OR push_bit 8 (ucast (d_type d)) OR push_bit 13 (ucast (d_dpl d)) OR
          push_bit 15 (of_bool (d_p d)) OR (limit AND 0xf0000) OR push_bit 20 (of_bool (d_avl d)) OR push_bit 22 (of_bool (d_d_b d)) OR
          push_bit 23 (of_bool (d_g d)) OR ucast (d_base d AND 0xff000000)
        else 0)"

definition set_segment_ar_data :: "bool \<Rightarrow> Bit16u \<Rightarrow> bx_address \<Rightarrow> Bit32u \<Rightarrow> Bit16u \<Rightarrow> bx_segment_reg_t \<Rightarrow> bool \<times> bx_segment_reg_t" where
  "set_segment_ar_data valid raw_selector base limit_scaled ar_data seg =
    (let d = set_ar_byte (ucast ar_data) (cache seg);
         d = d\<lparr>d_valid := of_bool valid\<rparr>;
         d = (if d_segment d \<or> \<not> valid then
                d\<lparr>d_g := drop_bit 15 ar_data AND 0x1 \<noteq> 0, d_d_b := drop_bit 14 ar_data AND 0x1 \<noteq> 0,
                  d_l := drop_bit 13 ar_data AND 0x1 \<noteq> 0, d_avl := drop_bit 12 ar_data AND 0x1 \<noteq> 0,
                  d_base := base, d_limit_scaled := limit_scaled\<rparr>
              else if d_type d \<in> {BX_SYS_SEGMENT_LDT, BX_SYS_SEGMENT_AVAIL_286_TSS, BX_SYS_SEGMENT_BUSY_286_TSS,
                  BX_SYS_SEGMENT_AVAIL_386_TSS, BX_SYS_SEGMENT_BUSY_386_TSS} then
                d\<lparr>d_avl := drop_bit 12 ar_data AND 0x1 \<noteq> 0, d_d_b := drop_bit 14 ar_data AND 0x1 \<noteq> 0,
                  d_g := drop_bit 15 ar_data AND 0x1 \<noteq> 0, d_base := base, d_limit_scaled := limit_scaled\<rparr>
              else d)
     in (d_valid d \<noteq> 0, \<lparr>selector = parse_selector raw_selector, cache = d\<rparr>))"

section \<open>Names of system types\<close>

definition get_descriptor_type_name64 :: "nat \<Rightarrow> string option" where
  "get_descriptor_type_name64 t =
    (let type_names = [None, None, Some ''LDT'', None, None, None, None, None, None, Some ''64-Bit TSS (Available)'', None,
           Some ''64-Bit TSS (Busy)'', Some ''64-Bit Call Gate'', None, Some ''64-Bit Interrupt Gate'', Some ''64-Bit Trap Gate'']
     in if t < 16 then type_names ! t else None)"

definition get_descriptor_type_name32 :: "nat \<Rightarrow> string option" where
  "get_descriptor_type_name32 t =
    (let type_names = [None, Some ''16-Bit TSS (available)'', Some ''LDT'', Some ''16-Bit TSS (Busy)'', Some ''16-Bit Call Gate'', Some ''Task Gate'',
           Some ''16-Bit Interrupt Gate'', Some ''16-Bit Trap Gate'', None, Some ''32-Bit TSS (Available)'', None, Some ''32-Bit TSS (Busy)'',
           Some ''32-Bit Call Gate'', None, Some ''32-Bit Interrupt Gate'', Some ''32-Bit Trap Gate'']
     in if t < 16 then type_names ! t else None)"

definition get_descriptor_type_name :: "nat \<Rightarrow> bool \<Rightarrow> string option" where
  "get_descriptor_type_name t long_mode = (if long_mode then get_descriptor_type_name64 t else get_descriptor_type_name32 t)"

section \<open>Masks as runs of bits\<close>

lemma bit_run: "bit (push_bit k (mask m) :: 'a::len word) n \<longleftrightarrow> n < LENGTH('a) \<and> k \<le> n \<and> n < k + m"
  by (auto simp: bit_push_bit_iff bit_mask_iff)

lemma dword_masks:
  "(0xffff :: Bit32u) = (mask 16)" "(0x000F0000 :: Bit32u) = push_bit 16 (mask 4)" "(0xFF :: Bit32u) = (mask 8)"
  "(0xFF000000 :: Bit32u) = push_bit 24 (mask 8)" "(0xfff :: Bit32u) = (mask 12)" "(0xffff0000 :: Bit32u) = push_bit 16 (mask 16)"
  "(0x1f :: Bit32u) = (mask 5)"
  by (simp_all add: mask_eq_exp_minus_1 push_bit_eq_mult)

lemma qword_masks:
  "(0xffff :: Bit64u) = (mask 16)" "(0xff000000 :: Bit64u) = push_bit 24 (mask 8)" "(0xff :: Bit64u) = (mask 8)"
  by (simp_all add: mask_eq_exp_minus_1 push_bit_eq_mult)

lemma byte_masks: "(0x0f :: Bit8u) = (mask 4)" "(0x03 :: Bit8u) = (mask 2)"
  by (simp_all add: mask_eq_exp_minus_1 push_bit_eq_mult)

lemma flag_masks:
  "dword2 AND 0x00800000 > 0 \<longleftrightarrow> bit dword2 23" "dword2 AND 0x00400000 > 0 \<longleftrightarrow> bit dword2 22"
  "dword2 AND 0x00200000 > 0 \<longleftrightarrow> bit dword2 21" "dword2 AND 0x00100000 > 0 \<longleftrightarrow> bit dword2 20" for dword2 :: Bit32u
  using and_exp_eq_0_iff_not_bit[of dword2 23] and_exp_eq_0_iff_not_bit[of dword2 22] and_exp_eq_0_iff_not_bit[of dword2 21]
    and_exp_eq_0_iff_not_bit[of dword2 20]
  by (simp_all add: word_gt_0)

lemma bit_of_shifted: "drop_bit n w AND 1 \<noteq> 0 \<longleftrightarrow> bit w n" for w :: "'a::len word"
  using and_exp_eq_0_iff_not_bit[of "drop_bit n w" 0] by (simp add: bit_drop_bit_eq)

lemmas field_bits = bit_and_iff bit_or_iff bit_not_iff bit_push_bit_iff bit_drop_bit_eq bit_ucast_iff bit_run bit_mask_word bit_1_iff bit_of_bool_iff

section \<open>The access rights byte\<close>

definition descriptor_ok :: "bx_descriptor_t \<Rightarrow> bool" where
  "descriptor_ok d \<longleftrightarrow> unat (d_dpl d) < 4 \<and> unat (d_type d) < 16 \<and> take_bit 32 (d_base d) = d_base d \<and>
    (if d_g d then take_bit 12 (d_limit_scaled d) = mask 12 else take_bit 20 (d_limit_scaled d) = d_limit_scaled d)"

lemma high_bits_clear:
  assumes "unat (w :: 'a::len word) < 2 ^ k" "k \<le> n"
  shows "\<not> bit w n"
proof -
  have "take_bit k (unat w) = unat w" using assms(1) by (rule take_bit_nat_eq_self)
  then have "take_bit k w = w" by (metis unsigned_take_bit_eq word_unat_eq_iff)
  then show ?thesis using assms(2) by (metis bit_take_bit_iff leD)
qed

lemma set_ar_byte_fields [simp]:
  "d_p (set_ar_byte b d) = bit b 7" "d_dpl (set_ar_byte b d) = drop_bit 5 b AND (mask 2)" "d_segment (set_ar_byte b d) = bit b 4"
  "d_type (set_ar_byte b d) = b AND (mask 4)"
  unfolding set_ar_byte_def bit_of_shifted byte_masks by simp_all

lemma set_ar_byte_frame [simp]:
  "d_valid (set_ar_byte b d) = d_valid d" "d_base (set_ar_byte b d) = d_base d" "d_limit_scaled (set_ar_byte b d) = d_limit_scaled d"
  "d_g (set_ar_byte b d) = d_g d" "d_d_b (set_ar_byte b d) = d_d_b d" "d_l (set_ar_byte b d) = d_l d" "d_avl (set_ar_byte b d) = d_avl d"
  by (simp_all add: set_ar_byte_def)

lemma get_set_ar_byte [simp]: "get_ar_byte (set_ar_byte b d) = b"
proof (rule bit_word_eqI)
  fix n assume "n < LENGTH(8)"
  then have "n = 4 \<or> n = 7 \<or> n < 4 \<or> 5 \<le> n \<and> n < 7" by auto
  then show "bit (get_ar_byte (set_ar_byte b d)) n = bit b n"
    unfolding get_ar_byte_def set_ar_byte_fields field_bits o_apply by auto
qed

text \<open>Or-ing the accessed bit into the byte is or-ing it into the type.\<close>

lemma get_ar_byte_accessed: "get_ar_byte d OR 1 = get_ar_byte (d\<lparr>d_type := d_type d OR 1\<rparr>)"
  by (simp add: get_ar_byte_def ac_simps)

section \<open>Descriptors of a table\<close>

definition system_segment :: "Bit8u \<Rightarrow> bool" where "system_segment t \<longleftrightarrow> t \<in> {1, 2, 3, 9, 11}"

lemma ar_bit [simp]: "bit (ucast (drop_bit 8 dword2) :: Bit8u) n \<longleftrightarrow> n < 8 \<and> bit (dword2 :: Bit32u) (n + 8)"
  by (auto simp: bit_ucast_iff bit_drop_bit_eq add.commute)

lemma parse_segment:
  fixes dword1 dword2 :: Bit32u
  assumes "bit dword2 12 \<or> system_segment (ucast (drop_bit 8 dword2) AND 0x0f)"
  defines "limit \<equiv> (dword1 AND (mask 16)) OR (dword2 AND push_bit 16 (mask 4))"
    and "base \<equiv> drop_bit 16 dword1 OR push_bit 16 (dword2 AND (mask 8)) OR (dword2 AND push_bit 24 (mask 8))"
  shows "parse_descriptor dword1 dword2 temp =
    (set_ar_byte (ucast (drop_bit 8 dword2)) temp)\<lparr>d_base := ucast base, d_g := bit dword2 23, d_d_b := bit dword2 22, d_avl := bit dword2 20,
      d_l := (if bit dword2 12 then bit dword2 21 else d_l temp), d_valid := 1,
      d_limit_scaled := (if bit dword2 23 then push_bit 12 limit OR (mask 12) else limit)\<rparr>"
proof -
  have b: "ucast (x OR y) = ucast x OR (ucast y :: bx_address)" for x y :: Bit32u by (rule bit_word_eqI) (auto simp: bit_ucast_iff bit_or_iff)
  have s: "d_segment (set_ar_byte (ucast (drop_bit 8 dword2)) temp) = bit dword2 12"
    "d_type (set_ar_byte (ucast (drop_bit 8 dword2)) temp) = ucast (drop_bit 8 dword2) AND 0x0f"
    by (simp, simp add: set_ar_byte_def)
  show ?thesis
  proof (cases "bit dword2 12")
    case True
    then show ?thesis
      unfolding parse_descriptor_def Let_def limit_def base_def dword_masks flag_masks b by (intro bx_descriptor_t.equality) (simp_all add: or.assoc)
  next
    case False
    then show ?thesis using assms(1) s unfolding parse_descriptor_def Let_def limit_def base_def flag_masks
      by (intro bx_descriptor_t.equality) (auto simp add: descriptor_types system_segment_def b mask_eq_exp_minus_1)
  qed
qed

text \<open>The limit of the table, and back.\<close>

lemma limit_roundtrip:
  fixes dword1 dword2 :: Bit32u
  defines "limit \<equiv> (dword1 AND mask 16) OR (dword2 AND push_bit 16 (mask 4))"
  shows "drop_bit 12 (push_bit 12 limit OR mask 12) = limit" "limit AND mask 16 = dword1 AND mask 16"
    "limit AND push_bit 16 (mask 4) = dword2 AND push_bit 16 (mask 4)"
  unfolding limit_def by (rule bit_word_eqI; auto simp: field_bits)+

lemma base_roundtrip:
  fixes dword1 dword2 :: Bit32u
  defines "b \<equiv> ucast (drop_bit 16 dword1 OR push_bit 16 (dword2 AND mask 8) OR (dword2 AND push_bit 24 (mask 8))) :: bx_address"
  shows "(ucast (push_bit 16 (b AND mask 16)) :: Bit32u) = dword1 AND push_bit 16 (mask 16)" "(ucast (b AND push_bit 24 (mask 8)) :: Bit32u) = dword2 AND push_bit 24 (mask 8)"
    "(ucast (drop_bit 16 b AND mask 8) :: Bit32u) = dword2 AND mask 8"
  unfolding b_def by (rule bit_word_eqI; auto simp: field_bits dest: bit_imp_le_length)+

lemma get_descriptor_segment:
  assumes "d_segment d \<or> d_valid d = 0 \<or> system_segment (d_type d)"
  defines "limit \<equiv> (if d_g d then drop_bit 12 (d_limit_scaled d) else d_limit_scaled d)"
  shows "get_descriptor_l d = ucast (push_bit 16 (d_base d AND mask 16)) OR (limit AND mask 16)"
    "get_descriptor_h d = ucast (d_base d AND push_bit 24 (mask 8)) OR ucast (drop_bit 16 (d_base d) AND mask 8) OR push_bit 8 (ucast (d_type d)) OR
      push_bit 12 (of_bool (d_segment d)) OR push_bit 13 (ucast (d_dpl d)) OR push_bit 15 (of_bool (d_p d)) OR (limit AND push_bit 16 (mask 4)) OR
      push_bit 20 (of_bool (d_avl d)) OR push_bit 21 (of_bool ((d_segment d \<or> d_valid d = 0) \<and> d_l d)) OR push_bit 22 (of_bool (d_d_b d)) OR push_bit 23 (of_bool (d_g d))"
proof -
  have m: "(0xff000000 :: Bit64u) = push_bit 24 (mask 8)" "(0xff :: Bit64u) = mask 8" "(0xffff :: Bit64u) = mask 16" "(0xf0000 :: Bit32u) = push_bit 16 (mask 4)"
    "(0xffff :: Bit32u) = mask 16"
    by (simp_all add: mask_eq_exp_minus_1 push_bit_eq_mult)
  have t: "d_type d \<in> {BX_SYS_SEGMENT_LDT, BX_SYS_SEGMENT_AVAIL_286_TSS, BX_SYS_SEGMENT_BUSY_286_TSS,
            BX_SYS_SEGMENT_AVAIL_386_TSS, BX_SYS_SEGMENT_BUSY_386_TSS} \<longleftrightarrow> system_segment (d_type d)"
    by (auto simp: descriptor_types system_segment_def)
  show "get_descriptor_l d = ucast (push_bit 16 (d_base d AND mask 16)) OR (limit AND mask 16)"
    using assms(1) unfolding get_descriptor_l_def Let_def m t limit_def by auto
  show "get_descriptor_h d = ucast (d_base d AND push_bit 24 (mask 8)) OR ucast (drop_bit 16 (d_base d) AND mask 8) OR push_bit 8 (ucast (d_type d)) OR
      push_bit 12 (of_bool (d_segment d)) OR push_bit 13 (ucast (d_dpl d)) OR push_bit 15 (of_bool (d_p d)) OR (limit AND push_bit 16 (mask 4)) OR
      push_bit 20 (of_bool (d_avl d)) OR push_bit 21 (of_bool ((d_segment d \<or> d_valid d = 0) \<and> d_l d)) OR push_bit 22 (of_bool (d_d_b d)) OR push_bit 23 (of_bool (d_g d))"
    using assms(1) unfolding get_descriptor_h_def Let_def m t limit_def by (auto simp: ac_simps)
qed

lemma base_roundtrip_more:
  fixes dword1 dword2 :: Bit32u
  defines "limit \<equiv> (dword1 AND mask 16) OR (dword2 AND push_bit 16 (mask 4))"
  shows "(if g then drop_bit 12 (if g then push_bit 12 limit OR mask 12 else limit) else if g then push_bit 12 limit OR mask 12 else limit) = limit"
  using limit_roundtrip(1)[of dword1 dword2] by (simp add: limit_def)

text \<open>C25. A code, data, task state or local table descriptor of a table is parsed without loss: writing back the base, the limit in
  its granularity, the type, the privilege level and the attribute bits gives the two double words that were parsed, except
  for the reserved bit 21 of a system segment, which is dropped.\<close>

theorem descriptor_roundtrip:
  assumes "bit dword2 12 \<or> system_segment (ucast (drop_bit 8 dword2) AND 0x0f)"
  shows "get_descriptor_l (parse_descriptor dword1 dword2 temp) = dword1 \<and>
    get_descriptor_h (parse_descriptor dword1 dword2 temp) = (if bit dword2 12 then dword2 else dword2 AND NOT (push_bit 21 1))"
proof
  let ?d = "parse_descriptor dword1 dword2 temp"
  have m: "(0x0f :: Bit8u) = mask 4" by (simp add: mask_eq_exp_minus_1)
  have s: "d_segment ?d \<or> d_valid ?d = 0 \<or> system_segment (d_type ?d)"
    using assms unfolding parse_segment[OF assms] m by simp
  have f: "d_base ?d = ucast (drop_bit 16 dword1 OR push_bit 16 (dword2 AND mask 8) OR (dword2 AND push_bit 24 (mask 8)))" "d_g ?d = bit dword2 23"
    "d_d_b ?d = bit dword2 22" "d_avl ?d = bit dword2 20" "d_valid ?d = 1" "d_segment ?d = bit dword2 12" "d_p ?d = bit dword2 15"
    "d_limit_scaled ?d = (if bit dword2 23 then push_bit 12 ((dword1 AND mask 16) OR (dword2 AND push_bit 16 (mask 4))) OR mask 12
       else (dword1 AND mask 16) OR (dword2 AND push_bit 16 (mask 4)))"
    "d_type ?d = ucast (drop_bit 8 dword2) AND mask 4" "d_dpl ?d = drop_bit 5 (ucast (drop_bit 8 dword2)) AND mask 2"
    "(bit dword2 12 \<or> (1 :: Bit32u) = 0) \<and> d_l ?d \<longleftrightarrow> bit dword2 12 \<and> bit dword2 21"
    unfolding parse_segment[OF assms] by simp_all
  show "get_descriptor_l ?d = dword1"
    unfolding get_descriptor_segment(1)[OF s] f base_roundtrip base_roundtrip_more limit_roundtrip
    by (rule bit_word_eqI) (auto simp: field_bits)
  show "get_descriptor_h ?d = (if bit dword2 12 then dword2 else dword2 AND NOT (push_bit 21 1))"
  proof (rule bit_word_eqI)
    fix n assume "n < LENGTH(32)"
    then consider "n < 8" | "8 \<le> n" "n < 12" | "n = 12" | "13 \<le> n" "n < 15" | "n = 15" | "16 \<le> n" "n < 20" | "n = 20" | "n = 21" | "n = 22" | "n = 23"
      | "24 \<le> n" "n < 32" by fastforce
    then show "bit (get_descriptor_h ?d) n = bit (if bit dword2 12 then dword2 else dword2 AND NOT (push_bit 21 1)) n"
      unfolding get_descriptor_segment(2)[OF s] f base_roundtrip base_roundtrip_more limit_roundtrip
      unfolding if_distrib[of "\<lambda>x. bit x n"] field_bits ar_bit o_apply
      by cases auto
  qed
qed

theorem descriptor_roundtrip_witness:
  "\<forall>temp. get_descriptor_l (parse_descriptor 0x0000ffff 0x00cf9300 temp) = 0x0000ffff \<and> get_descriptor_h (parse_descriptor 0x0000ffff 0x00cf9300 temp) = 0x00cf9300"
  using descriptor_roundtrip[of "0x00cf9300" "0x0000ffff"] by simp

end
