(* ===== verification/Segment.thy ===== *)
theory Segment
  imports Access Descriptor
begin

text \<open>
  Segment registers and the accesses that go through them: the state of the processor with its segment and table
  registers, the checks of \<^verbatim>\<open>cpu/access.cc\<close> on type and limit, the address generation of \<^verbatim>\<open>cpu/cpu.h\<close> with the flags that
  remember a successful check, and the virtual accesses of \<^verbatim>\<open>cpu/access.h\<close>.
\<close>

section \<open>State\<close>

text \<open>The registers that the memory unit shares with the rest of the processor are read where they live: the privilege
  level is the RPL of CS.\<close>

record bx_sys =
  core :: bx_cpu
  mmu :: bx_mmu
  sregs :: "nat \<Rightarrow> bx_segment_reg_t"
  gdtr :: bx_global_segment_reg_t
  idtr :: bx_global_segment_reg_t
  ldtr :: bx_segment_reg_t
  tr :: bx_segment_reg_t
  cpu_mode :: nat

type_synonym 'a sys_op = "bx_sys \<Rightarrow> (bx_trap + 'a) \<times> bx_sys"

definition BX_SEG_REG_ES :: nat where "BX_SEG_REG_ES = 0"
definition BX_SEG_REG_CS :: nat where "BX_SEG_REG_CS = 1"
definition BX_SEG_REG_DS :: nat where "BX_SEG_REG_DS = 3"
definition BX_SEG_REG_FS :: nat where "BX_SEG_REG_FS = 4"
definition BX_SEG_REG_GS :: nat where "BX_SEG_REG_GS = 5"

lemmas seg_numbers = BX_SEG_REG_ES_def BX_SEG_REG_CS_def BX_SEG_REG_SS_def BX_SEG_REG_DS_def BX_SEG_REG_FS_def BX_SEG_REG_GS_def

definition BX_MODE_IA32_REAL :: nat where "BX_MODE_IA32_REAL = 0"
definition BX_MODE_IA32_V8086 :: nat where "BX_MODE_IA32_V8086 = 1"
definition BX_MODE_IA32_PROTECTED :: nat where "BX_MODE_IA32_PROTECTED = 2"
definition BX_MODE_LONG_COMPAT :: nat where "BX_MODE_LONG_COMPAT = 3"
definition BX_MODE_LONG_64 :: nat where "BX_MODE_LONG_64 = 4"

lemmas cpu_modes = BX_MODE_IA32_REAL_def BX_MODE_IA32_V8086_def BX_MODE_IA32_PROTECTED_def BX_MODE_LONG_COMPAT_def BX_MODE_LONG_64_def

definition real_mode :: "bx_sys \<Rightarrow> bool" where "real_mode s \<longleftrightarrow> cpu_mode s = BX_MODE_IA32_REAL"
definition v8086_mode :: "bx_sys \<Rightarrow> bool" where "v8086_mode s \<longleftrightarrow> cpu_mode s = BX_MODE_IA32_V8086"
definition protected_mode :: "bx_sys \<Rightarrow> bool" where "protected_mode s \<longleftrightarrow> BX_MODE_IA32_PROTECTED \<le> cpu_mode s"
definition in_long64_mode :: "bx_sys \<Rightarrow> bool" where "in_long64_mode s \<longleftrightarrow> cpu_mode s = BX_MODE_LONG_64"

definition cpl :: "bx_sys \<Rightarrow> Bit8u" where "cpl s = sel_rpl (selector (sregs s BX_SEG_REG_CS))"

definition mmu_view :: "bx_sys \<Rightarrow> bx_mmu" where
  "mmu_view s = (mmu s)\<lparr>CPL := unat (cpl s), long64_mode := in_long64_mode s, eflags_AC := bit (eflags (core s)) 18\<rparr>"

definition on_mmu :: "(bx_mmu \<Rightarrow> (bx_trap + 'a) \<times> bx_mmu) \<Rightarrow> 'a sys_op" where
  "on_mmu f s = (case f (mmu_view s) of (r, m) \<Rightarrow> (r, s\<lparr>mmu := m\<rparr>))"

text \<open>Sequencing: an exception ends the operation and keeps the state reached so far.\<close>

definition sys_return :: "'a \<Rightarrow> 'a sys_op" where "sys_return x = (\<lambda>s. (Inr x, s))"
definition exception :: "bx_exception \<Rightarrow> Bit32u \<Rightarrow> 'a sys_op" where "exception vector error_code = (\<lambda>s. (Inl (vector, error_code), s))"

definition and_then :: "'a sys_op \<Rightarrow> ('a \<Rightarrow> 'b sys_op) \<Rightarrow> 'b sys_op" where
  "and_then m f = (\<lambda>s. case m s of (Inl t, s) \<Rightarrow> (Inl t, s) | (Inr x, s) \<Rightarrow> f x s)"

definition sys_get :: "(bx_sys \<Rightarrow> 'a) \<Rightarrow> 'a sys_op" where "sys_get f = (\<lambda>s. (Inr (f s), s))"
definition sys_modify :: "(bx_sys \<Rightarrow> bx_sys) \<Rightarrow> unit sys_op" where "sys_modify f = (\<lambda>s. (Inr (), f s))"

section \<open>Type and limit checks\<close>

definition BX_MAX_MEM_ACCESS_LENGTH :: Bit32u where "BX_MAX_MEM_ACCESS_LENGTH = 64"

definition set_seg_valid :: "Bit32u \<Rightarrow> bx_segment_reg_t \<Rightarrow> bx_segment_reg_t" where
  "set_seg_valid flags seg = seg\<lparr>cache := (cache seg)\<lparr>d_valid := d_valid (cache seg) OR flags\<rparr>\<rparr>"

definition misaligned :: "bx_segment_reg_t \<Rightarrow> Bit32u \<Rightarrow> Bit32u \<Rightarrow> bool \<Rightarrow> bool" where
  "misaligned seg offset off align \<longleftrightarrow> align \<and> (ucast (d_base (cache seg) + ucast offset) :: Bit32u) AND off \<noteq> 0"

definition expand_down_beyond :: "bx_descriptor_t \<Rightarrow> Bit32u \<Rightarrow> Bit32u \<Rightarrow> bool" where
  "expand_down_beyond d offset off =
    (let upper_limit = (if d_d_b d then 0xffffffff else 0x0000ffff)
     in offset \<le> d_limit_scaled d \<or> offset > upper_limit \<or> upper_limit - offset < off)"

definition limit_beyond :: "bx_descriptor_t \<Rightarrow> Bit32u \<Rightarrow> Bit32u \<Rightarrow> bool" where
  "limit_beyond d offset off \<longleftrightarrow> offset > d_limit_scaled d - off \<or> off > d_limit_scaled d"

definition write_virtual_checks ::
  "bx_segment_reg_t \<Rightarrow> Bit32u \<Rightarrow> Bit32u \<Rightarrow> bool \<Rightarrow> (bx_trap + bool) \<times> bx_segment_reg_t" where
  "write_virtual_checks seg offset len align =
    (let off = len - 1; d = cache seg
     in if misaligned seg offset off align then (Inl (BX_GP_EXCEPTION, 0), seg)
        else if d_valid d = 0 then (Inr False, seg)
        else if \<not> d_p d then (Inr False, seg)
        else if d_type d \<in> {0, 1, 4, 5, 8, 9, 10, 11, 12, 13, 14, 15} then (Inr False, seg)
        else if d_type d \<in> {2, 3} then
          (if d_limit_scaled d = 0xffffffff \<and> d_base d = 0 then
             (Inr True, set_seg_valid (SegAccessROK OR SegAccessWOK OR SegAccessROK4G OR SegAccessWOK4G) seg)
           else if limit_beyond d offset off then (Inr False, seg)
           else if d_limit_scaled d \<ge> BX_MAX_MEM_ACCESS_LENGTH - 1 then (Inr True, set_seg_valid (SegAccessROK OR SegAccessWOK) seg)
           else (Inr True, seg))
        else if d_type d \<in> {6, 7} then
          (if expand_down_beyond d offset off then (Inr False, seg) else (Inr True, seg))
        else (Inr True, seg))"

definition read_virtual_checks ::
  "bx_segment_reg_t \<Rightarrow> Bit32u \<Rightarrow> Bit32u \<Rightarrow> bool \<Rightarrow> (bx_trap + bool) \<times> bx_segment_reg_t" where
  "read_virtual_checks seg offset len align =
    (let off = len - 1; d = cache seg
     in if misaligned seg offset off align then (Inl (BX_GP_EXCEPTION, 0), seg)
        else if d_valid d = 0 then (Inr False, seg)
        else if \<not> d_p d then (Inr False, seg)
        else if d_type d \<in> {0, 1, 2, 3, 10, 11, 14, 15} then
          (if d_limit_scaled d = 0xffffffff \<and> d_base d = 0 then (Inr True, set_seg_valid (SegAccessROK OR SegAccessROK4G) seg)
           else if limit_beyond d offset off then (Inr False, seg)
           else if d_limit_scaled d \<ge> BX_MAX_MEM_ACCESS_LENGTH - 1 then (Inr True, set_seg_valid SegAccessROK seg)
           else (Inr True, seg))
        else if d_type d \<in> {4, 5, 6, 7} then
          (if expand_down_beyond d offset off then (Inr False, seg) else (Inr True, seg))
        else if d_type d \<in> {8, 9, 12, 13} then (Inr False, seg)
        else (Inr True, seg))"

definition execute_virtual_checks :: "bx_segment_reg_t \<Rightarrow> Bit32u \<Rightarrow> Bit32u \<Rightarrow> bool \<times> bx_segment_reg_t" where
  "execute_virtual_checks seg offset len =
    (let d = cache seg; off = len - 1
     in if d_valid d = 0 then (False, seg)
        else if \<not> d_p d then (False, seg)
        else if d_type d \<in> {0, 1, 2, 3, 10, 11, 14, 15} then
          (if d_limit_scaled d = 0xffffffff \<and> d_base d = 0 then (True, set_seg_valid (SegAccessROK OR SegAccessROK4G) seg)
           else if limit_beyond d offset off then (False, seg)
           else if d_limit_scaled d \<ge> BX_MAX_MEM_ACCESS_LENGTH - 1 then (True, set_seg_valid SegAccessROK seg)
           else (True, seg))
        else if d_type d \<in> {8, 9, 12, 13} then (\<not> limit_beyond d offset off, seg)
        else if d_type d \<in> {4, 5, 6, 7} then (\<not> expand_down_beyond d offset off, seg)
        else (True, seg))"

section \<open>Address generation\<close>

definition get_segment_base :: "nat \<Rightarrow> bx_sys \<Rightarrow> bx_address" where
  "get_segment_base seg s = (if cpu_mode s = BX_MODE_LONG_64 \<and> seg < BX_SEG_REG_FS then 0 else d_base (cache (sregs s seg)))"

definition get_laddr32 :: "nat \<Rightarrow> Bit32u \<Rightarrow> bx_sys \<Rightarrow> Bit32u" where
  "get_laddr32 seg offset s = ucast (d_base (cache (sregs s seg))) + offset"

definition get_laddr64 :: "nat \<Rightarrow> Bit64u \<Rightarrow> bx_sys \<Rightarrow> Bit64u" where
  "get_laddr64 seg offset s = (if seg < BX_SEG_REG_FS then offset else d_base (cache (sregs s seg)) + offset)"

definition get_laddr :: "nat \<Rightarrow> bx_address \<Rightarrow> bx_sys \<Rightarrow> bx_address" where
  "get_laddr seg offset s =
    (if cpu_mode s = BX_MODE_LONG_64 then get_laddr64 seg offset s else ucast (get_laddr32 seg (ucast offset) s))"

definition agen_read_execute32 :: "nat \<Rightarrow> Bit32u \<Rightarrow> Bit32u \<Rightarrow> Bit32u sys_op" where
  "agen_read_execute32 n offset len s =
    (let seg = sregs s n
     in if d_valid (cache seg) AND SegAccessROK4G \<noteq> 0 then (Inr offset, s)
        else if d_valid (cache seg) AND SegAccessROK \<noteq> 0 \<and> offset \<le> d_limit_scaled (cache seg) - len + 1 then (Inr (get_laddr32 n offset s), s)
        else
          (let (ok, seg) = execute_virtual_checks seg offset len; s = s\<lparr>sregs := (sregs s)(n := seg)\<rparr>
           in if \<not> ok then (Inl (int_number n, 0), s) else (Inr (get_laddr32 n offset s), s)))"

definition checked_agen32 ::
  "(bx_segment_reg_t \<Rightarrow> Bit32u \<Rightarrow> Bit32u \<Rightarrow> bool \<Rightarrow> (bx_trap + bool) \<times> bx_segment_reg_t) \<Rightarrow>
    Bit32u \<Rightarrow> Bit32u \<Rightarrow> bool \<Rightarrow> nat \<Rightarrow> Bit32u \<Rightarrow> Bit32u \<Rightarrow> Bit32u sys_op" where
  "checked_agen32 virtual_checks flag4G flag align n offset len s =
    (let seg = sregs s n
     in if d_valid (cache seg) AND flag4G \<noteq> 0 then (Inr offset, s)
        else if d_valid (cache seg) AND flag \<noteq> 0 \<and> offset \<le> d_limit_scaled (cache seg) - len + 1 then (Inr (get_laddr32 n offset s), s)
        else
          (let (r, seg) = virtual_checks seg offset len align; s = s\<lparr>sregs := (sregs s)(n := seg)\<rparr>
           in case r of Inl t \<Rightarrow> (Inl t, s)
              | Inr ok \<Rightarrow> if \<not> ok then (Inl (int_number n, 0), s) else (Inr (get_laddr32 n offset s), s)))"

definition agen_read32 :: "nat \<Rightarrow> Bit32u \<Rightarrow> Bit32u \<Rightarrow> Bit32u sys_op" where
  "agen_read32 = checked_agen32 read_virtual_checks SegAccessROK4G SegAccessROK False"

definition agen_read_aligned32 :: "nat \<Rightarrow> Bit32u \<Rightarrow> Bit32u \<Rightarrow> Bit32u sys_op" where
  "agen_read_aligned32 = checked_agen32 read_virtual_checks SegAccessROK4G SegAccessROK True"

definition agen_write32 :: "nat \<Rightarrow> Bit32u \<Rightarrow> Bit32u \<Rightarrow> Bit32u sys_op" where
  "agen_write32 = checked_agen32 write_virtual_checks SegAccessWOK4G SegAccessWOK False"

definition agen_write_aligned32 :: "nat \<Rightarrow> Bit32u \<Rightarrow> Bit32u \<Rightarrow> Bit32u sys_op" where
  "agen_write_aligned32 = checked_agen32 write_virtual_checks SegAccessWOK4G SegAccessWOK True"

definition agen :: "(nat \<Rightarrow> Bit32u \<Rightarrow> Bit32u \<Rightarrow> Bit32u sys_op) \<Rightarrow> nat \<Rightarrow> bx_address \<Rightarrow> Bit32u \<Rightarrow> bx_address sys_op" where
  "agen agen32 n offset len s =
    (if cpu_mode s = BX_MODE_LONG_64 then (Inr (get_laddr64 n offset s), s)
     else apfst (map_sum (\<lambda>t. t) ucast) (agen32 n (ucast offset) len s))"

definition agen_read :: "nat \<Rightarrow> bx_address \<Rightarrow> Bit32u \<Rightarrow> bx_address sys_op" where "agen_read = agen agen_read32"
definition agen_read_aligned :: "nat \<Rightarrow> bx_address \<Rightarrow> Bit32u \<Rightarrow> bx_address sys_op" where "agen_read_aligned = agen agen_read_aligned32"
definition agen_write :: "nat \<Rightarrow> bx_address \<Rightarrow> Bit32u \<Rightarrow> bx_address sys_op" where "agen_write = agen agen_write32"
definition agen_write_aligned :: "nat \<Rightarrow> bx_address \<Rightarrow> Bit32u \<Rightarrow> bx_address sys_op" where "agen_write_aligned = agen agen_write_aligned32"

section \<open>Virtual accesses\<close>

text \<open>One definition for accesses of \<open>len\<close> bytes; the forms with the suffix \<open>_32\<close> are the ones that the handlers of 32-bit code use.\<close>

definition read_virtual_32 :: "nat \<Rightarrow> nat \<Rightarrow> Bit32u \<Rightarrow> Bit8u list sys_op" where
  "read_virtual_32 len n offset = and_then (agen_read32 n offset (of_nat len)) (\<lambda>laddr. on_mmu (read_linear len n (ucast laddr)))"

definition write_virtual_32 :: "nat \<Rightarrow> nat \<Rightarrow> Bit32u \<Rightarrow> Bit8u list \<Rightarrow> unit sys_op" where
  "write_virtual_32 len n offset data =
    and_then (agen_write32 n offset (of_nat len)) (\<lambda>laddr. on_mmu (write_linear len n (ucast laddr) data))"

definition read_virtual_vector_32 :: "nat \<Rightarrow> nat \<Rightarrow> Bit32u \<Rightarrow> Bit8u list sys_op" where
  "read_virtual_vector_32 len n offset =
    and_then (agen_read32 n offset (of_nat len)) (\<lambda>laddr. on_mmu (read_linear_vector len n (ucast laddr)))"

definition read_virtual_vector_aligned_32 :: "nat \<Rightarrow> nat \<Rightarrow> Bit32u \<Rightarrow> Bit8u list sys_op" where
  "read_virtual_vector_aligned_32 len n offset =
    and_then (agen_read_aligned32 n offset (of_nat len)) (\<lambda>laddr. on_mmu (read_linear_vector_aligned len n (ucast laddr)))"

definition write_virtual_vector_32 :: "nat \<Rightarrow> nat \<Rightarrow> Bit32u \<Rightarrow> Bit8u list \<Rightarrow> unit sys_op" where
  "write_virtual_vector_32 len n offset data =
    and_then (agen_write32 n offset (of_nat len)) (\<lambda>laddr. on_mmu (write_linear_vector len n (ucast laddr) data))"

definition write_virtual_vector_aligned_32 :: "nat \<Rightarrow> nat \<Rightarrow> Bit32u \<Rightarrow> Bit8u list \<Rightarrow> unit sys_op" where
  "write_virtual_vector_aligned_32 len n offset data =
    and_then (agen_write_aligned32 n offset (of_nat len)) (\<lambda>laddr. on_mmu (write_linear_vector_aligned len n (ucast laddr) data))"

definition tickle_read_virtual_32 :: "nat \<Rightarrow> Bit32u \<Rightarrow> unit sys_op" where
  "tickle_read_virtual_32 n offset = and_then (agen_read32 n offset 1) (\<lambda>laddr. on_mmu (tickle_read_linear n (ucast laddr)))"

definition tickle_write_virtual_32 :: "nat \<Rightarrow> Bit32u \<Rightarrow> nat \<Rightarrow> unit sys_op" where
  "tickle_write_virtual_32 n offset len =
    and_then (agen_read32 n offset (of_nat len)) (\<lambda>laddr. on_mmu (tickle_write_linear n (ucast laddr) len))"

definition read_virtual :: "nat \<Rightarrow> nat \<Rightarrow> bx_address \<Rightarrow> Bit8u list sys_op" where
  "read_virtual len n offset = and_then (agen_read n offset (of_nat len)) (\<lambda>laddr. on_mmu (read_linear len n laddr))"

definition write_virtual :: "nat \<Rightarrow> nat \<Rightarrow> bx_address \<Rightarrow> Bit8u list \<Rightarrow> unit sys_op" where
  "write_virtual len n offset data = and_then (agen_write n offset (of_nat len)) (\<lambda>laddr. on_mmu (write_linear len n laddr data))"

definition read_virtual_vector :: "nat \<Rightarrow> nat \<Rightarrow> bx_address \<Rightarrow> Bit8u list sys_op" where
  "read_virtual_vector len n offset = and_then (agen_read n offset (of_nat len)) (\<lambda>laddr. on_mmu (read_linear_vector len n laddr))"

definition read_virtual_vector_aligned :: "nat \<Rightarrow> nat \<Rightarrow> bx_address \<Rightarrow> Bit8u list sys_op" where
  "read_virtual_vector_aligned len n offset =
    and_then (agen_read_aligned n offset (of_nat len)) (\<lambda>laddr. on_mmu (read_linear_vector_aligned len n laddr))"

definition write_virtual_vector :: "nat \<Rightarrow> nat \<Rightarrow> bx_address \<Rightarrow> Bit8u list \<Rightarrow> unit sys_op" where
  "write_virtual_vector len n offset data =
    and_then (agen_write n offset (of_nat len)) (\<lambda>laddr. on_mmu (write_linear_vector len n laddr data))"

definition write_virtual_vector_aligned :: "nat \<Rightarrow> nat \<Rightarrow> bx_address \<Rightarrow> Bit8u list \<Rightarrow> unit sys_op" where
  "write_virtual_vector_aligned len n offset data =
    and_then (agen_write_aligned n offset (of_nat len)) (\<lambda>laddr. on_mmu (write_linear_vector_aligned len n laddr data))"

definition tickle_read_virtual :: "nat \<Rightarrow> bx_address \<Rightarrow> unit sys_op" where
  "tickle_read_virtual n offset = and_then (agen_read n offset 1) (\<lambda>laddr. on_mmu (tickle_read_linear n laddr))"

definition tickle_write_virtual :: "nat \<Rightarrow> bx_address \<Rightarrow> nat \<Rightarrow> unit sys_op" where
  "tickle_write_virtual n offset len =
    and_then (agen_read n offset (of_nat len)) (\<lambda>laddr. on_mmu (tickle_write_linear n laddr len))"

definition read_RMW_virtual_32 :: "nat \<Rightarrow> nat \<Rightarrow> Bit32u \<Rightarrow> Bit8u list sys_op" where
  "read_RMW_virtual_32 len n offset = and_then (agen_write32 n offset (of_nat len)) (\<lambda>laddr. on_mmu (read_RMW_linear len n (ucast laddr)))"

definition read_RMW_virtual :: "nat \<Rightarrow> nat \<Rightarrow> bx_address \<Rightarrow> Bit8u list sys_op" where
  "read_RMW_virtual len n offset = and_then (agen_write n offset (of_nat len)) (\<lambda>laddr. on_mmu (read_RMW_linear len n laddr))"

definition write_RMW :: "nat \<Rightarrow> Bit8u list \<Rightarrow> unit sys_op" where
  "write_RMW len data = on_mmu (\<lambda>m. (Inr (), write_RMW_linear len data m))"

section \<open>Writes to a new stack\<close>

text \<open>A push on a stack whose segment is not yet in SS; \<open>len\<close> is 2, 4 or 8, and each width has its own form of the limit test.
  The segment is returned with the flags that the checks set.\<close>

definition write_new_stack_seg :: "nat \<Rightarrow> bx_segment_reg_t \<Rightarrow> Bit32u \<Rightarrow> nat \<Rightarrow> Bit8u list \<Rightarrow> bx_segment_reg_t sys_op" where
  "write_new_stack_seg len seg offset curr_pl data s =
    (let d = cache seg;
         accessOK = (\<lambda>seg. and_then (on_mmu (write_new_stack len (ucast (ucast (d_base (cache seg)) + offset :: Bit32u)) curr_pl data)) (\<lambda>_. sys_return seg))
     in if d_valid d AND SegAccessWOK4G \<noteq> 0 then accessOK seg s
        else if d_valid d AND SegAccessWOK \<noteq> 0 \<and>
          (if len = 2 then offset < d_limit_scaled d else if len = 4 then offset < d_limit_scaled d - 2 else offset \<le> d_limit_scaled d - 7)
        then accessOK seg s
        else
          (case write_virtual_checks seg offset (of_nat len) False of
             (Inl t, seg) \<Rightarrow> (Inl t, s)
           | (Inr ok, seg) \<Rightarrow>
               if \<not> ok then
                 (Inl (BX_SS_EXCEPTION, if sel_rpl (selector seg) \<noteq> cpl s then ucast (sel_value (selector seg) AND 0xfffc) else 0), s)
               else accessOK seg s))"

end
