(* ===== verification/PageWalks.thy ===== *)
theory PageWalks
  imports Paging
begin

text \<open>
  The page walks one level at a time: which bits of the tables a translation sets, that they touch nothing else, and that
  two memories whose entries differ in accessed and dirty bits only give the same walk.
\<close>

section \<open>Tests of single bits\<close>

lemma and_exp_zero: "w AND 2 ^ n = 0 \<longleftrightarrow> \<not> bit w n" for w :: "'a::len word"
proof
  assume e: "w AND 2 ^ n = 0"
  show "\<not> bit w n"
  proof
    assume "bit w n"
    then have "bit (w AND 2 ^ n) n" by (auto simp: bit_and_iff bit_exp_iff dest: bit_imp_le_length)
    then show False using e by simp
  qed
next
  assume "\<not> bit w n"
  then show "w AND 2 ^ n = 0" by (intro bit_word_eqI) (auto simp: bit_and_iff bit_exp_iff)
qed

lemma or_exp_self: "bit w n \<Longrightarrow> w OR 2 ^ n = w" for w :: "'a::len word"
  by (intro bit_word_eqI) (auto simp: bit_or_iff bit_exp_iff)

lemma and_bit_tests:
  "w AND 0x1 = 0 \<longleftrightarrow> \<not> bit w 0" "w AND 0x2 = 0 \<longleftrightarrow> \<not> bit w 1" "w AND 0x4 = 0 \<longleftrightarrow> \<not> bit w 2"
  "w AND 0x20 = 0 \<longleftrightarrow> \<not> bit w 5" "w AND 0x40 = 0 \<longleftrightarrow> \<not> bit w 6" "w AND 0x80 = 0 \<longleftrightarrow> \<not> bit w 7"
  for w :: "'a::len word"
  using and_exp_zero[of w 0] and_exp_zero[of w 1] and_exp_zero[of w 2] and_exp_zero[of w 5] and_exp_zero[of w 6]
    and_exp_zero[of w 7] by simp_all

lemma or_bit_self: "bit w 5 \<Longrightarrow> w OR 0x20 = w" "bit w 6 \<Longrightarrow> w OR 0x40 = w" for w :: "'a::len word"
  using or_exp_self[of w 5] or_exp_self[of w 6] by simp_all

section \<open>Accessed and dirty bits\<close>

context cell_store
begin

definition mark :: "Bit64u \<times> 'e word \<Rightarrow> 'm \<Rightarrow> 'm" where
  "mark = (\<lambda>(a, e) m. if e AND 0x20 = 0 then wr m a (e OR 0x20) else m)"

definition mark_leaf :: "bool \<Rightarrow> Bit64u \<times> 'e word \<Rightarrow> 'm \<Rightarrow> 'm" where
  "mark_leaf write = (\<lambda>(a, e) m.
     let d = (write \<and> e AND 0x40 = 0)
     in if e AND 0x20 = 0 \<or> d then wr m a (if d then e OR 0x20 OR 0x40 else e OR 0x20) else m)"

definition path_of :: "'m \<Rightarrow> Bit64u list \<Rightarrow> (Bit64u \<times> 'e word) list" where
  "path_of m as = map (\<lambda>a. (a, rd m a)) as"

text \<open>The memory after some bits of some cells have been set.\<close>

definition sets :: "(Bit64u \<Rightarrow> 'e word) \<Rightarrow> 'm \<Rightarrow> 'm \<Rightarrow> bool" where
  "sets f m m' \<longleftrightarrow> cell m' = cell m \<and> ram m' = ram m \<and> (\<forall>b. aligned b \<longrightarrow> rd m' b = rd m b OR f (cell m b))"

lemma sets_write:
  assumes s: "sets f m m'" and a: "aligned a" and v: "f (cell m a) OR v = v"
  shows "sets (\<lambda>c. if c = cell m a then v else f c) m (wr m' a (rd m a OR v))"
proof -
  have c: "cell m' = cell m" "ram m' = ram m" and r: "\<And>b. aligned b \<Longrightarrow> rd m' b = rd m b OR f (cell m b)"
    using s by (auto simp: sets_def)
  have "rd (wr m' a (rd m a OR v)) b = rd m b OR (if cell m b = cell m a then v else f (cell m b))" if b: "aligned b" for b
  proof -
    have "rd m' a OR v = rd m a OR v" using r[OF a] v by (simp add: or.assoc)
    then have "rd (wr m' a (rd m a OR v)) b = (if cell m b = cell m a then rd m' b OR v else rd m' b)"
      using rd_merge[OF a b, of m' v "rd m a"] c rd_bogus[of m a] by simp
    then show ?thesis using r[OF b] v by (simp add: or.assoc)
  qed
  then show ?thesis by (simp add: sets_def cell_wr ram_wr c)
qed

lemma sets_cong: "sets f m m' \<Longrightarrow> (\<And>b. aligned b \<Longrightarrow> rd m b OR f (cell m b) = rd m b OR g (cell m b)) \<Longrightarrow> sets g m m'"
  by (simp add: sets_def)

lemma or_cell:
  assumes "cell m b = cell m a" "rd m a OR v = rd m a"
  shows "rd m b OR v = rd m b"
  using rd_cell[OF assms(1)] assms(2) by simp

lemma fold_mark:
  assumes "list_all aligned as" "sets f m m'" "\<And>a. a \<in> set as \<Longrightarrow> f (cell m a) OR 0x20 = 0x20"
  shows "sets (\<lambda>c. if c \<in> cell m ` set as then 0x20 else f c) m (fold mark (path_of m as) m')"
  using assms
proof (induction as arbitrary: f m')
  case Nil
  then show ?case by (simp add: path_of_def)
next
  case (Cons a as)
  let ?g = "\<lambda>c. if c = cell m a then 0x20 else f c"
  have "sets ?g m (mark (a, rd m a) m')"
  proof (cases "rd m a AND 0x20 = 0")
    case True
    then show ?thesis using sets_write[OF Cons.prems(2), of a "0x20"] Cons.prems(1,3) by (simp add: mark_def)
  next
    case False
    then have a: "rd m a OR 0x20 = rd m a" by (simp only: and_bit_tests or_bit_self not_not)
    have "rd m b OR f (cell m b) = rd m b OR ?g (cell m b)" for b
    proof (cases "cell m b = cell m a")
      case True
      have "rd m b OR f (cell m b) = rd m b OR (f (cell m a) OR 0x20)"
        using or_cell[OF True a] True by (metis or.assoc or.commute)
      then show ?thesis using Cons.prems(3)[of a] True by simp
    qed simp
    then show ?thesis using Cons.prems(2) False by (auto simp: mark_def intro: sets_cong)
  qed
  then have "sets (\<lambda>c. if c \<in> cell m ` set as then 0x20 else ?g c) m (fold mark (path_of m as) (mark (a, rd m a) m'))"
    using Cons by (intro Cons.IH) auto
  moreover have "(\<lambda>c. if c \<in> cell m ` set as then 0x20 else ?g c) = (\<lambda>c. if c \<in> cell m ` set (a # as) then 0x20 else f c)"
    by auto
  ultimately show ?case by (simp add: path_of_def)
qed

lemma sets_merge:
  assumes "sets f m m'" "aligned a" "f (cell m a) OR u = u" "rd m a OR v = rd m a OR u"
  shows "sets (\<lambda>c. if c = cell m a then u else f c) m (wr m' a (rd m a OR v))"
  using sets_write[OF assms(1-3)] assms(4) by simp

lemma sets_present:
  assumes "sets f m m'" "rd m a OR u = rd m a" "f (cell m a) OR u = u"
  shows "sets (\<lambda>c. if c = cell m a then u else f c) m m'"
proof (rule sets_cong[OF assms(1)])
  fix b
  show "rd m b OR f (cell m b) = rd m b OR (if cell m b = cell m a then u else f (cell m b))"
  proof (cases "cell m b = cell m a")
    case True
    have "rd m b OR f (cell m b) = rd m b OR (f (cell m a) OR u)"
      using or_cell[OF True assms(2)] True by (metis or.assoc or.commute)
    then show ?thesis using assms(3) True by simp
  qed simp
qed

lemma leaf_bits:
  assumes "sets f m m'" "aligned a" "f (cell m a) OR 0x20 = 0x20"
  shows "sets (\<lambda>c. if c = cell m a then (if write then 0x20 OR 0x40 else 0x20) else f c) m (mark_leaf write (a, rd m a) m')"
proof -
  let ?u = "if write then 0x20 OR 0x40 else 0x20 :: 'e word"
  have f: "f (cell m a) OR ?u = ?u" using assms(3) by (cases "write") (simp_all only: if_True if_False flip: or.assoc)
  consider (dirty) "write" "\<not> bit (rd m a) 6" | (accessed) "\<not> bit (rd m a) 5" "write \<Longrightarrow> bit (rd m a) 6"
    | (none) "bit (rd m a) 5" "write \<Longrightarrow> bit (rd m a) 6" by blast
  then show ?thesis
  proof cases
    case dirty
    then show ?thesis using sets_write[OF assms(1,2) f] by (simp add: mark_leaf_def and_bit_tests or.assoc)
  next
    case accessed
    have "rd m a OR 0x20 = rd m a OR (0x20 OR 0x40)" if "write"
      by (simp only: or.left_commute[of "rd m a" "0x20" "0x40"] or_bit_self(2)[OF accessed(2)[OF that]] or.commute[of "0x20" "rd m a"])
    then have "rd m a OR 0x20 = rd m a OR ?u" by (cases "write") simp_all
    from sets_merge[OF assms(1,2) f this] show ?thesis using accessed by (cases "write") (simp_all add: mark_leaf_def and_bit_tests)
  next
    case none
    have "rd m a OR (0x20 OR 0x40) = rd m a" if "write"
      by (simp only: or.assoc[symmetric] or_bit_self(1)[OF none(1)] or_bit_self(2)[OF none(2)[OF that]])
    then have "rd m a OR ?u = rd m a" using none(1) or_bit_self(1)[of "rd m a"] by (cases "write") simp_all
    from sets_present[OF assms(1) this f] show ?thesis using none by (cases "write") (simp_all add: mark_leaf_def and_bit_tests)
  qed
qed

definition ad_bits :: "'m \<Rightarrow> Bit64u list \<Rightarrow> bool \<Rightarrow> Bit64u \<Rightarrow> 'e word" where
  "ad_bits m as write c =
    (if c = cell m (last as) then (if write then 0x20 OR 0x40 else 0x20)
     else if c \<in> cell m ` set (butlast as) then 0x20 else 0)"

lemma update_path:
  assumes "list_all aligned as" "as \<noteq> []"
  shows "sets (ad_bits m as write) m
    (mark_leaf write (last (path_of m as)) (fold mark (butlast (path_of m as)) m))"
proof -
  have "sets (\<lambda>c. 0) m m" by (simp add: sets_def)
  moreover have "list_all aligned (butlast as)" "aligned (last as)" using assms by (auto simp: list_all_iff dest: in_set_butlastD)
  ultimately have "sets (\<lambda>c. if c = cell m (last as) then (if write then 0x20 OR 0x40 else 0x20)
      else if c \<in> cell m ` set (butlast as) then 0x20 else 0) m
      (mark_leaf write (last as, rd m (last as)) (fold mark (path_of m (butlast as)) m))"
    by (intro leaf_bits fold_mark) auto
  moreover have "last (path_of m as) = (last as, rd m (last as))" "butlast (path_of m as) = path_of m (butlast as)"
    using assms(2) by (simp_all add: path_of_def last_map map_butlast)
  ultimately show ?thesis by (simp add: ad_bits_def[abs_def])
qed

lemma update_path_done:
  assumes "\<And>a e. (a, e) \<in> set path \<Longrightarrow> bit e 5" "path \<noteq> []" "write \<Longrightarrow> bit (snd (last path)) 6"
  shows "mark_leaf write (last path) (fold mark (butlast path) m) = m"
proof -
  have "mark x m = m" if "x \<in> set path" for x using assms(1)[of "fst x" "snd x"] that by (simp add: mark_def case_prod_beta and_bit_tests)
  then have "fold mark (butlast path) m = m" by (intro fold_invariant[where Q = "\<lambda>x. x \<in> set path" and P = "\<lambda>x. x = m"])
      (auto dest: in_set_butlastD)
  moreover have "bit (snd (last path)) 5" using assms(1)[of "fst (last path)" "snd (last path)"] assms(2) by simp
  ultimately show ?thesis using assms(3) by (auto simp: mark_leaf_def Let_def case_prod_beta and_bit_tests)
qed

end

lemma update_PAE_mark: "update_access_dirty_PAE path write m = qword.mark_leaf write (last path) (fold qword.mark (butlast path) m)"
proof -
  have "mark_accessed_PAE = qword.mark" by (simp add: fun_eq_iff mark_accessed_PAE_def qword.mark_def)
  then show ?thesis by (simp add: update_access_dirty_PAE_def qword.mark_leaf_def case_prod_beta Let_def)
qed

lemma update_legacy_mark: "update_access_dirty path write m = dword.mark_leaf write (last path) (fold dword.mark (butlast path) m)"
proof -
  have "mark_accessed = dword.mark" by (simp add: fun_eq_iff mark_accessed_def dword.mark_def)
  then show ?thesis by (simp add: update_access_dirty_def dword.mark_leaf_def case_prod_beta Let_def)
qed

section \<open>Entries that differ in their accessed and dirty bits\<close>

definition agree :: "'a::len word \<Rightarrow> 'a word \<Rightarrow> bool" where
  "agree e e' \<longleftrightarrow> (\<forall>k. k \<noteq> 5 \<longrightarrow> k \<noteq> 6 \<longrightarrow> bit e k = bit e' k)"

lemma agree_and: "agree e e' \<Longrightarrow> \<not> bit m 5 \<Longrightarrow> \<not> bit m 6 \<Longrightarrow> e' AND m = e AND m"
  by (rule bit_word_eqI) (auto simp: agree_def bit_and_iff; metis)

lemma agree_and_ucast: "agree e e' \<Longrightarrow> \<not> bit m 5 \<Longrightarrow> \<not> bit m 6 \<Longrightarrow> m AND ucast e' = m AND ucast e"
  by (rule bit_word_eqI) (auto simp: agree_def bit_and_iff bit_ucast_iff; metis)

lemma agree_bit: "agree e e' \<Longrightarrow> k \<noteq> 5 \<Longrightarrow> k \<noteq> 6 \<Longrightarrow> bit e' k = bit e k"
  by (simp add: agree_def)

lemma agree_or:
  assumes "x OR 0x60 = (0x60 :: 'a::len word)"
  shows "agree e (e OR x)"
proof -
  have "(0x60 :: 'a word) = 2 ^ 5 OR 2 ^ 6" by simp
  moreover have "bit x k \<Longrightarrow> bit (0x60 :: 'a word) k" for k using assms by (metis bit_or_iff)
  ultimately have "bit x k \<Longrightarrow> k = 5 \<or> k = 6" for k by (auto simp only: bit_or_iff bit_exp_iff)
  then show ?thesis by (auto simp: agree_def bit_or_iff)
qed

lemma bit_reserved:
  assumes "12 \<le> maxphyaddr s" "k < 12"
  shows "\<not> bit (BX_PAGING_PHY_ADDRESS_RESERVED_BITS s) k"
proof -
  have "push_bit (maxphyaddr s) 1 - 1 = (mask (maxphyaddr s) :: Bit64u)" by (simp add: mask_eq_exp_minus_1)
  then show ?thesis using assms
    by (simp add: BX_PAGING_PHY_ADDRESS_RESERVED_BITS_def BX_PHY_ADDRESS_RESERVED_BITS_def bit_and_iff bit_not_iff bit_mask_iff)
qed

lemma check_entry_agree:
  assumes "agree e e'" "\<not> bit reserved 5" "\<not> bit reserved 6"
  shows "check_entry_PAE (s\<lparr>phys := m\<rparr>) leaf e' reserved nx = check_entry_PAE s leaf e reserved nx"
proof -
  have "\<not> bit PAGE_DIRECTORY_NX_BIT 5" "\<not> bit PAGE_DIRECTORY_NX_BIT 6" by (simp_all add: PAGE_DIRECTORY_NX_BIT_def)
  then show ?thesis unfolding check_entry_PAE_def and_bit_tests
    using agree_and[OF assms] agree_and[OF assms(1), of PAGE_DIRECTORY_NX_BIT] agree_bit[OF assms(1)] by simp
qed

section \<open>Addresses of entries\<close>

abbreviation page_aligned :: "Bit64u \<Rightarrow> bool" where "page_aligned a \<equiv> take_bit 12 a = 0"

lemma take_bit_mono: "take_bit n w = 0 \<Longrightarrow> k \<le> n \<Longrightarrow> take_bit k w = 0" for w :: "'a::len word"
  by (metis min_absorb1 take_bit_of_0 take_bit_take_bit)

lemma aligned_add:
  fixes a b :: "'a::len word"
  assumes "take_bit k a = 0" "take_bit k b = 0"
  shows "take_bit k (a + b) = 0"
  using aligned_diff[of k a "- b"] aligned_diff[of k 0 b] assms by simp

lemma entry_addr_aligned:
  assumes "page_aligned base"
  shows "take_bit 3 (base + (x AND 0xff8)) = 0" "take_bit 2 (base + (x AND 0xffc)) = 0"
proof -
  have "take_bit 3 (x AND 0xff8) = 0" "take_bit 2 (x AND 0xffc) = 0" by (simp_all add: take_bit_and)
  then show "take_bit 3 (base + (x AND 0xff8)) = 0" "take_bit 2 (base + (x AND 0xffc)) = 0"
    using take_bit_mono[OF assms, of 3] take_bit_mono[OF assms, of 2] by (simp_all add: aligned_add)
qed

lemma frame_aligned: "page_aligned (e AND 0x000ffffffffff000)" "page_aligned (ucast (d AND 0xfffff000 :: Bit32u))"
  by (simp_all add: take_bit_and unsigned_and_eq)

lemma same_page_bits:
  assumes "LPFOf a = LPFOf b" "12 \<le> k"
  shows "bit a k = bit b k"
  using assms by (metis bit_LPFOf)

lemma same_page_index:
  assumes "LPFOf a = LPFOf b"
  shows "drop_bit (9 + 9 * leaf) a AND 0xff8 = drop_bit (9 + 9 * leaf) b AND 0xff8"
    "drop_bit (10 + 10 * leaf) a AND 0xffc = drop_bit (10 + 10 * leaf) b AND 0xffc"
proof -
  have low: "\<not> bit (0xff8 :: Bit64u) k" if "k < 3" for k
    using that by (auto simp: less_Suc_eq numeral_eq_Suc)
  have low': "\<not> bit (0xffc :: Bit64u) k" if "k < 2" for k
    using that by (auto simp: less_Suc_eq numeral_eq_Suc)
  show "drop_bit (9 + 9 * leaf) a AND 0xff8 = drop_bit (9 + 9 * leaf) b AND 0xff8"
  proof (rule bit_word_eqI)
    show "bit (drop_bit (9 + 9 * leaf) a AND 0xff8) k = bit (drop_bit (9 + 9 * leaf) b AND 0xff8) k" for k
      using low[of k] same_page_bits[OF assms, of "9 + 9 * leaf + k"]
      by (cases "k < 3") (auto simp: bit_and_iff bit_drop_bit_eq)
  qed
  show "drop_bit (10 + 10 * leaf) a AND 0xffc = drop_bit (10 + 10 * leaf) b AND 0xffc"
  proof (rule bit_word_eqI)
    show "bit (drop_bit (10 + 10 * leaf) a AND 0xffc) k = bit (drop_bit (10 + 10 * leaf) b AND 0xffc) k" for k
      using low'[of k] same_page_bits[OF assms, of "10 + 10 * leaf + k"]
      by (cases "k < 2") (auto simp: bit_and_iff bit_drop_bit_eq)
  qed
qed

section \<open>Walks over tables that differ in accessed and dirty bits\<close>

definition stable :: "bx_mem \<Rightarrow> bx_mem \<Rightarrow> bool" where
  "stable m m' \<longleftrightarrow> (\<forall>a. take_bit 3 a = 0 \<longrightarrow> agree (read_physical_qword m a) (read_physical_qword m' a))"

definition reread :: "bx_mem \<Rightarrow> Bit64u page_walk \<Rightarrow> Bit64u page_walk" where
  "reread m w = w\<lparr>w_path := qword.path_of m (map fst (w_path w))\<rparr>"

text \<open>What holds of the result of a walk.\<close>

definition walk_ok :: "bx_mem \<Rightarrow> Bit64u page_walk \<Rightarrow> bool" where
  "walk_ok m w \<longleftrightarrow>
    (\<exists>as. w_path w = qword.path_of m as \<and> as \<noteq> [] \<and> list_all (\<lambda>a. take_bit 3 a = 0) as) \<and>
    (\<forall>k<12. \<not> bit (w_ppf w) k \<and> bit (w_lpf_mask w) k) \<and> \<not> bit (w_access w) 5 \<and> \<not> bit (w_access w) 6"

lemma path_of_append: "qword.path_of m as @ [(a, read_physical_qword m a)] = qword.path_of m (as @ [a])"
  by (simp add: qword.path_of_def)

lemma map_fst_path_of [simp]: "map fst (qword.path_of m as) = as"
  by (simp add: qword.path_of_def comp_def)

lemma frame_low: "k < 12 \<Longrightarrow> \<not> bit (e AND 0x000ffffffffff000 :: Bit64u) k"
  "k < 12 \<Longrightarrow> \<not> bit ((e AND 0x000ffffffffff000) AND 0x000fffffffffe000 :: Bit64u) k"
  "k < 12 \<Longrightarrow> \<not> bit (e AND 0x000fffffffe00000 :: Bit64u) k"
proof -
  have "take_bit 12 (e AND 0x000ffffffffff000 :: Bit64u) = 0" "take_bit 12 ((e AND 0x000ffffffffff000) AND 0x000fffffffffe000) = 0"
    "take_bit 12 (e AND 0x000fffffffe00000) = 0" by (simp_all add: take_bit_and)
  then show "k < 12 \<Longrightarrow> \<not> bit (e AND 0x000ffffffffff000 :: Bit64u) k"
    "k < 12 \<Longrightarrow> \<not> bit ((e AND 0x000ffffffffff000) AND 0x000fffffffffe000 :: Bit64u) k"
    "k < 12 \<Longrightarrow> \<not> bit (e AND 0x000fffffffe00000 :: Bit64u) k"
    by (metis bit_0_eq bit_take_bit_iff bot_apply bot_bool_def)+
qed

text \<open>The simplifier reduces bits of word numerals to bits of integers.\<close>

lemma bit_fff:
  "bit (0xfff :: int) k \<longleftrightarrow> k < 12" "bit (0x1fffff :: int) k \<longleftrightarrow> k < 21" "bit (0x3fffff :: int) k \<longleftrightarrow> k < 22"
proof -
  have e: "(0xfff :: int) = mask 12" "(0x1fffff :: int) = mask 21" "(0x3fffff :: int) = mask 22"
    by (simp_all add: mask_eq_exp_minus_1)
  show "bit (0xfff :: int) k \<longleftrightarrow> k < 12" "bit (0x1fffff :: int) k \<longleftrightarrow> k < 21" "bit (0x3fffff :: int) k \<longleftrightarrow> k < 22"
    unfolding e by (auto simp: bit_mask_iff)
qed

lemma drop_mask: "9 \<le> n \<Longrightarrow> n \<le> 64 \<Longrightarrow> drop_bit 9 (mask n :: Bit64u) = mask (n - 9)"
  by (rule bit_word_eqI) (auto simp: bit_drop_bit_eq bit_mask_iff)

lemma long_mode_walk_ok:
  assumes "long_mode_walk s laddr reserved leaf base (mask (21 + 9 * leaf)) ca nx (qword.path_of (phys s) as) = Inr w"
    "page_aligned base" "list_all (\<lambda>a. take_bit 3 a = 0) as" "leaf \<le> 4" "\<not> bit ca 5" "\<not> bit ca 6"
  shows "walk_ok (phys s) w"
  using assms
proof (induction leaf arbitrary: base ca nx as)
  case 0
  then show ?case
    by (subst (asm) long_mode_walk.simps)
      (auto simp: Let_def path_of_append walk_ok_def entry_addr_aligned frame_low bit_fff split: sum.splits)
next
  case (Suc leaf)
  let ?a = "base + (drop_bit (9 + 9 * Suc leaf) laddr AND 0xff8)"
  let ?e = "read_physical_qword (phys s) ?a"
  have dm: "drop_bit 9 (mask (21 + 9 * Suc leaf) :: Bit64u) = mask (21 + 9 * leaf)" using Suc.prems(4) by (subst drop_mask) auto
  have low: "bit (ucast (mask (21 + 9 * leaf) :: Bit64u) :: Bit32u) k" if "k < 12" for k
    using that by (simp add: bit_ucast_iff bit_mask_iff)
  have as: "list_all (\<lambda>a. take_bit 3 a = 0) (as @ [?a])" using Suc.prems(2,3) entry_addr_aligned(1) by auto
  obtain nx' where nx': "check_entry_PAE s (Suc leaf) ?e reserved nx = Inr nx'"
    using Suc.prems(1) by (subst (asm) long_mode_walk.simps) (auto simp: Let_def split: sum.splits)
  show ?case
  proof (cases "bit ?e 7")
    case True
    then have "w = \<lparr>w_path = qword.path_of (phys s) (as @ [?a]), w_ppf = (?e AND 0x000ffffffffff000) AND 0x000fffffffffe000,
        w_lpf_mask = ucast (mask (21 + 9 * leaf) :: Bit64u), w_access = ca, w_nx = nx'\<rparr>"
      using Suc.prems(1) nx' unfolding long_mode_walk.simps[of _ _ _ "Suc leaf"] Let_def path_of_append dm and_bit_tests
      by (simp only: sum.case nat.case if_True not_not simp_thms) (simp split: if_splits)
    then show ?thesis using as low frame_low(2) Suc.prems(5,6) by (auto simp: walk_ok_def)
  next
    case False
    then have "long_mode_walk s laddr reserved leaf (?e AND 0x000ffffffffff000) (mask (21 + 9 * leaf)) (ca AND ucast ?e) nx'
        (qword.path_of (phys s) (as @ [?a])) = Inr w"
      using Suc.prems(1) nx'
      by (subst (asm) long_mode_walk.simps) (simp only: Let_def path_of_append dm and_bit_tests sum.case nat.case if_False not_not simp_thms)
    then show ?thesis by (rule Suc.IH) (use Suc.prems as in \<open>auto simp: frame_aligned bit_and_iff\<close>)
  qed
qed

lemma reread_record [simp]:
  "reread m \<lparr>w_path = p, w_ppf = f, w_lpf_mask = k, w_access = c, w_nx = n\<rparr> =
    \<lparr>w_path = qword.path_of m (map fst p), w_ppf = f, w_lpf_mask = k, w_access = c, w_nx = n\<rparr>"
  by (simp add: reread_def)

lemma phys_of_update: "phys (s\<lparr>phys := m\<rparr>) = m"
  by simp

lemma frame_masks: "\<not> bit (0x000ffffffffff000 :: Bit64u) 5" "\<not> bit (0x000ffffffffff000 :: Bit64u) 6"
  "\<not> bit (0x000fffffffe00000 :: Bit64u) 5" "\<not> bit (0x000fffffffe00000 :: Bit64u) 6"
  by simp_all

lemma long_mode_walk_stable:
  assumes "stable m m'" "LPFOf laddr' = LPFOf laddr" "\<not> bit reserved 5" "\<not> bit reserved 6"
    "page_aligned base" "\<not> bit ca 5" "\<not> bit ca 6"
  shows "long_mode_walk (s\<lparr>phys := m'\<rparr>) laddr' reserved leaf base om ca nx (qword.path_of m' as) =
    map_sum (\<lambda>f. f) (reread m') (long_mode_walk (s\<lparr>phys := m\<rparr>) laddr reserved leaf base om ca nx (qword.path_of m as))"
  using assms(5-)
proof (induction leaf arbitrary: base om ca nx as)
  case 0
  let ?a = "base + (drop_bit (9 + 9 * 0) laddr AND 0xff8)"
  have ag: "agree (read_physical_qword m ?a) (read_physical_qword m' ?a)"
    using assms(1) entry_addr_aligned(1)[OF 0(1)] unfolding stable_def by blast
  show ?case
    unfolding long_mode_walk.simps[of _ _ _ 0] Let_def same_page_index(1)[OF assms(2)]
    using check_entry_agree[OF ag assms(3,4), of m' "s\<lparr>phys := m\<rparr>"] agree_and[OF ag frame_masks(1,2)]
    by (simp add: path_of_append split: sum.split)
next
  case (Suc leaf)
  let ?a = "base + (drop_bit (9 + 9 * Suc leaf) laddr AND 0xff8)"
  let ?e = "read_physical_qword m ?a" and ?e' = "read_physical_qword m' ?a"
  have ag: "agree ?e ?e'" using assms(1) entry_addr_aligned(1)[OF Suc.prems(1)] unfolding stable_def by blast
  have ih: "long_mode_walk (s\<lparr>phys := m'\<rparr>) laddr' reserved leaf (?e AND 0x000ffffffffff000) om' (ca AND ucast ?e) nx'
      (qword.path_of m' (as @ [?a])) = map_sum (\<lambda>f. f) (reread m')
      (long_mode_walk (s\<lparr>phys := m\<rparr>) laddr reserved leaf (?e AND 0x000ffffffffff000) om' (ca AND ucast ?e) nx'
        (qword.path_of m (as @ [?a])))" for om' nx'
    by (rule Suc.IH) (use Suc.prems(2,3) in \<open>auto simp: frame_aligned bit_and_iff\<close>)
  have eq: "check_entry_PAE (s\<lparr>phys := m'\<rparr>) (Suc leaf) ?e' reserved nx = check_entry_PAE (s\<lparr>phys := m\<rparr>) (Suc leaf) ?e reserved nx"
    "?e' AND 0x000ffffffffff000 = ?e AND 0x000ffffffffff000" "bit ?e' 7 = bit ?e 7" "ca AND ucast ?e' = ca AND ucast ?e"
    using check_entry_agree[OF ag assms(3,4), of m' "s\<lparr>phys := m\<rparr>"] agree_and[OF ag frame_masks(1,2)] agree_bit[OF ag, of 7]
      agree_and_ucast[OF ag Suc.prems(2,3)] by simp_all
  show ?case
    unfolding long_mode_walk.simps[of _ _ _ "Suc leaf"] Let_def same_page_index(1)[OF assms(2)] and_bit_tests
      phys_of_update path_of_append eq nat.case ih
    by (simp split: sum.split)
qed

lemma PAE_walk_ok:
  assumes "PAE_walk s laddr reserved leaf base ca nx (qword.path_of (phys s) as) = Inr w"
    "page_aligned base" "list_all (\<lambda>a. take_bit 3 a = 0) as" "\<not> bit ca 5" "\<not> bit ca 6"
  shows "walk_ok (phys s) w"
  using assms
proof (induction leaf arbitrary: base ca nx as)
  case 0
  then show ?case
    by (subst (asm) PAE_walk.simps)
      (auto simp: Let_def path_of_append walk_ok_def entry_addr_aligned frame_low bit_fff split: sum.splits)
next
  case (Suc leaf)
  let ?a = "base + (drop_bit (9 + 9 * Suc leaf) laddr AND 0xff8)"
  let ?e = "read_physical_qword (phys s) ?a"
  have as: "list_all (\<lambda>a. take_bit 3 a = 0) (as @ [?a])" using Suc.prems(2,3) entry_addr_aligned(1) by auto
  obtain nx' where nx': "check_entry_PAE s (Suc leaf) ?e reserved nx = Inr nx'"
    using Suc.prems(1) by (subst (asm) PAE_walk.simps) (auto simp: Let_def split: sum.splits)
  show ?case
  proof (cases "bit ?e 7")
    case True
    then have "w = \<lparr>w_path = qword.path_of (phys s) (as @ [?a]), w_ppf = ?e AND 0x000fffffffe00000,
        w_lpf_mask = 0x1fffff, w_access = ca, w_nx = nx'\<rparr>"
      using Suc.prems(1) nx' unfolding PAE_walk.simps[of _ _ _ "Suc leaf"] Let_def path_of_append and_bit_tests
      by (simp only: sum.case nat.case if_True not_not simp_thms) (simp split: if_splits)
    then show ?thesis using as frame_low(3) Suc.prems(4,5) by (auto simp: walk_ok_def bit_fff)
  next
    case False
    then have "PAE_walk s laddr reserved leaf (?e AND 0x000ffffffffff000) (ca AND ucast ?e) nx'
        (qword.path_of (phys s) (as @ [?a])) = Inr w"
      using Suc.prems(1) nx' unfolding PAE_walk.simps[of _ _ _ "Suc leaf"] Let_def path_of_append and_bit_tests
      by (simp only: sum.case nat.case if_False not_not simp_thms)
    then show ?thesis by (rule Suc.IH) (use Suc.prems as in \<open>auto simp: frame_aligned bit_and_iff\<close>)
  qed
qed

lemma PAE_walk_stable:
  assumes "stable m m'" "LPFOf laddr' = LPFOf laddr" "\<not> bit reserved 5" "\<not> bit reserved 6" "12 \<le> maxphyaddr s"
    "page_aligned base" "\<not> bit ca 5" "\<not> bit ca 6"
  shows "PAE_walk (s\<lparr>phys := m'\<rparr>) laddr' reserved leaf base ca nx (qword.path_of m' as) =
    map_sum (\<lambda>f. f) (reread m') (PAE_walk (s\<lparr>phys := m\<rparr>) laddr reserved leaf base ca nx (qword.path_of m as))"
  using assms(6-)
proof (induction leaf arbitrary: base ca nx as)
  case 0
  let ?a = "base + (drop_bit (9 + 9 * 0) laddr AND 0xff8)"
  have ag: "agree (read_physical_qword m ?a) (read_physical_qword m' ?a)"
    using assms(1) entry_addr_aligned(1)[OF 0(1)] unfolding stable_def by blast
  show ?case
    unfolding PAE_walk.simps[of _ _ _ 0] Let_def same_page_index(1)[OF assms(2)]
    using check_entry_agree[OF ag assms(3,4), of m' "s\<lparr>phys := m\<rparr>"] agree_and[OF ag frame_masks(1,2)]
    by (simp add: path_of_append split: sum.split)
next
  case (Suc leaf)
  let ?a = "base + (drop_bit (9 + 9 * Suc leaf) laddr AND 0xff8)"
  let ?e = "read_physical_qword m ?a" and ?e' = "read_physical_qword m' ?a"
  let ?r = "PAGING_PAE_PDE2M_RESERVED_BITS s"
  have ag: "agree ?e ?e'" using assms(1) entry_addr_aligned(1)[OF Suc.prems(1)] unfolding stable_def by blast
  have ih: "PAE_walk (s\<lparr>phys := m'\<rparr>) laddr' reserved leaf (?e AND 0x000ffffffffff000) (ca AND ucast ?e) nx'
      (qword.path_of m' (as @ [?a])) = map_sum (\<lambda>f. f) (reread m')
      (PAE_walk (s\<lparr>phys := m\<rparr>) laddr reserved leaf (?e AND 0x000ffffffffff000) (ca AND ucast ?e) nx'
        (qword.path_of m (as @ [?a])))" for nx'
    by (rule Suc.IH) (use Suc.prems(2,3) in \<open>auto simp: frame_aligned bit_and_iff\<close>)
  have r: "PAGING_PAE_PDE2M_RESERVED_BITS (s\<lparr>phys := x\<rparr>) = ?r" for x
    by (simp add: PAGING_PAE_PDE2M_RESERVED_BITS_def BX_PAGING_PHY_ADDRESS_RESERVED_BITS_def BX_PHY_ADDRESS_RESERVED_BITS_def)
  have "\<not> bit ?r 5" "\<not> bit ?r 6"
    using bit_reserved[OF assms(5)] by (simp_all add: PAGING_PAE_PDE2M_RESERVED_BITS_def bit_or_iff)
  then have eq: "check_entry_PAE (s\<lparr>phys := m'\<rparr>) (Suc leaf) ?e' reserved nx = check_entry_PAE (s\<lparr>phys := m\<rparr>) (Suc leaf) ?e reserved nx"
    "?e' AND 0x000ffffffffff000 = ?e AND 0x000ffffffffff000" "bit ?e' 7 = bit ?e 7" "ca AND ucast ?e' = ca AND ucast ?e"
    "?e' AND ?r = ?e AND ?r" "?e' AND 0x000fffffffe00000 = ?e AND 0x000fffffffe00000"
    using check_entry_agree[OF ag assms(3,4), of m' "s\<lparr>phys := m\<rparr>"] agree_and[OF ag frame_masks(1,2)] agree_bit[OF ag, of 7]
      agree_and_ucast[OF ag Suc.prems(2,3)] agree_and[OF ag, of ?r] agree_and[OF ag frame_masks(3,4)] by simp_all
  show ?case
    unfolding PAE_walk.simps[of _ _ _ "Suc leaf"] Let_def same_page_index(1)[OF assms(2)] and_bit_tests
      phys_of_update path_of_append r eq nat.case ih
    by (simp split: sum.split)
qed

section \<open>Legacy walks\<close>

definition stable4 :: "bx_mem \<Rightarrow> bx_mem \<Rightarrow> bool" where
  "stable4 m m' \<longleftrightarrow> (\<forall>a. take_bit 2 a = 0 \<longrightarrow> agree (read_physical_dword m a) (read_physical_dword m' a))"

definition reread4 :: "bx_mem \<Rightarrow> Bit32u page_walk \<Rightarrow> Bit32u page_walk" where
  "reread4 m w = w\<lparr>w_path := dword.path_of m (map fst (w_path w))\<rparr>"

definition walk_ok4 :: "bx_mem \<Rightarrow> Bit32u page_walk \<Rightarrow> bool" where
  "walk_ok4 m w \<longleftrightarrow>
    (\<exists>as. w_path w = dword.path_of m as \<and> as \<noteq> [] \<and> list_all (\<lambda>a. take_bit 2 a = 0) as) \<and>
    (\<forall>k<12. \<not> bit (w_ppf w) k \<and> bit (w_lpf_mask w) k) \<and> \<not> bit (w_access w) 5 \<and> \<not> bit (w_access w) 6"

lemma path_of_append4: "dword.path_of m as @ [(a, read_physical_dword m a)] = dword.path_of m (as @ [a])"
  by (simp add: dword.path_of_def)

lemma map_fst_path_of4 [simp]: "map fst (dword.path_of m as) = as"
  by (simp add: dword.path_of_def comp_def)

lemma reread4_record [simp]:
  "reread4 m \<lparr>w_path = p, w_ppf = f, w_lpf_mask = k, w_access = c, w_nx = n\<rparr> =
    \<lparr>w_path = dword.path_of m (map fst p), w_ppf = f, w_lpf_mask = k, w_access = c, w_nx = n\<rparr>"
  by (simp add: reread4_def)

lemma low_zero: "take_bit 12 w = 0 \<Longrightarrow> k < 12 \<Longrightarrow> \<not> bit w k" for w :: "'a::len word"
  by (metis bit_0_eq bit_take_bit_iff bot_apply bot_bool_def)

lemma frame4M_low: "k < 12 \<Longrightarrow> \<not> bit (ucast (e AND 0xffc00000 :: Bit32u) OR push_bit 19 (ucast (e AND 0x003fe000)) :: Bit64u) k"
  by (rule low_zero) (simp_all add: take_bit_or take_bit_and unsigned_and_eq take_bit_push_bit)

lemma bit_reserved4M:
  assumes "32 \<le> maxphyaddr s" "k < 12"
  shows "\<not> bit (PAGING_PDE4M_RESERVED_BITS s) k"
proof -
  have "k < (if maxphyaddr s < 40 then maxphyaddr s else 40) - 19" using assms by auto
  then show ?thesis unfolding PAGING_PDE4M_RESERVED_BITS_def Let_def bit_push_bit_iff by simp
qed

lemma legacy_walk_ok:
  assumes "legacy_walk s laddr leaf base ca (dword.path_of (phys s) as) = Inr w"
    "page_aligned base" "list_all (\<lambda>a. take_bit 2 a = 0) as" "\<not> bit ca 5" "\<not> bit ca 6"
  shows "walk_ok4 (phys s) w"
  using assms
proof (induction leaf arbitrary: base ca as)
  case 0
  let ?a = "base + (drop_bit (10 + 10 * 0) laddr AND 0xffc)"
  have as: "list_all (\<lambda>a. take_bit 2 a = 0) (as @ [?a])" using 0(2,3) entry_addr_aligned(2) by auto
  from 0(1) have "w = \<lparr>w_path = dword.path_of (phys s) (as @ [?a]), w_ppf = ucast (read_physical_dword (phys s) ?a AND 0xfffff000),
      w_lpf_mask = 0xfff, w_access = ca, w_nx = False\<rparr>"
    unfolding legacy_walk.simps[of _ _ 0] Let_def path_of_append4 by (simp split: if_splits)
  then show ?case using as 0(4,5) low_zero[OF frame_aligned(2)] by (auto simp: walk_ok4_def bit_fff)
next
  case (Suc leaf)
  let ?a = "base + (drop_bit (10 + 10 * Suc leaf) laddr AND 0xffc)"
  let ?e = "read_physical_dword (phys s) ?a"
  have as: "list_all (\<lambda>a. take_bit 2 a = 0) (as @ [?a])" using Suc.prems(2,3) entry_addr_aligned(2) by auto
  have p: "bit ?e 0" using Suc.prems(1) unfolding legacy_walk.simps[of _ _ "Suc leaf"] Let_def and_bit_tests by (simp split: if_splits)
  show ?case
  proof (cases "bit ?e 7 \<and> get_PSE s")
    case True
    then have "w = \<lparr>w_path = dword.path_of (phys s) (as @ [?a]),
        w_ppf = ucast (?e AND 0xffc00000) OR push_bit 19 (ucast (?e AND 0x003fe000)),
        w_lpf_mask = 0x3fffff, w_access = ca, w_nx = False\<rparr>"
      using Suc.prems(1) p unfolding legacy_walk.simps[of _ _ "Suc leaf"] Let_def path_of_append4 and_bit_tests
      by (simp only: nat.case if_True if_False not_not simp_thms) (simp split: if_splits)
    then show ?thesis using as frame4M_low Suc.prems(4,5) by (auto simp: walk_ok4_def bit_fff)
  next
    case False
    then have "legacy_walk s laddr leaf (ucast (?e AND 0xfffff000)) (ca AND ?e) (dword.path_of (phys s) (as @ [?a])) = Inr w"
      using Suc.prems(1) p unfolding legacy_walk.simps[of _ _ "Suc leaf"] Let_def path_of_append4 and_bit_tests
      by (simp only: nat.case if_False if_True not_not simp_thms)
    then show ?thesis by (rule Suc.IH) (use Suc.prems as in \<open>auto simp: frame_aligned bit_and_iff\<close>)
  qed
qed

lemma frame_masks4: "\<not> bit (0xfffff000 :: Bit32u) 5" "\<not> bit (0xfffff000 :: Bit32u) 6" "\<not> bit (0xffc00000 :: Bit32u) 5"
  "\<not> bit (0xffc00000 :: Bit32u) 6" "\<not> bit (0x003fe000 :: Bit32u) 5" "\<not> bit (0x003fe000 :: Bit32u) 6"
  by simp_all

lemma legacy_walk_stable:
  assumes "stable4 m m'" "LPFOf laddr' = LPFOf laddr" "32 \<le> maxphyaddr s"
    "page_aligned base" "\<not> bit ca 5" "\<not> bit ca 6"
  shows "legacy_walk (s\<lparr>phys := m'\<rparr>) laddr' leaf base ca (dword.path_of m' as) =
    map_sum (\<lambda>f. f) (reread4 m') (legacy_walk (s\<lparr>phys := m\<rparr>) laddr leaf base ca (dword.path_of m as))"
  using assms(4-)
proof (induction leaf arbitrary: base ca as)
  case 0
  let ?a = "base + (drop_bit (10 + 10 * 0) laddr AND 0xffc)"
  let ?e = "read_physical_dword m ?a" and ?e' = "read_physical_dword m' ?a"
  have ag: "agree ?e ?e'" using assms(1) entry_addr_aligned(2)[OF 0(1)] unfolding stable4_def by blast
  have eq: "bit ?e' 0 = bit ?e 0" "?e' AND 0xfffff000 = ?e AND 0xfffff000"
    using agree_bit[OF ag, of 0] agree_and[OF ag frame_masks4(1,2)] by simp_all
  show ?case
    unfolding legacy_walk.simps[of _ _ 0] Let_def same_page_index(2)[OF assms(2)] and_bit_tests phys_of_update path_of_append4 eq
    by simp
next
  case (Suc leaf)
  let ?a = "base + (drop_bit (10 + 10 * Suc leaf) laddr AND 0xffc)"
  let ?e = "read_physical_dword m ?a" and ?e' = "read_physical_dword m' ?a"
  let ?r = "PAGING_PDE4M_RESERVED_BITS s"
  have ag: "agree ?e ?e'" using assms(1) entry_addr_aligned(2)[OF Suc.prems(1)] unfolding stable4_def by blast
  have ih: "legacy_walk (s\<lparr>phys := m'\<rparr>) laddr' leaf (ucast (?e AND 0xfffff000)) (ca AND ?e) (dword.path_of m' (as @ [?a])) =
      map_sum (\<lambda>f. f) (reread4 m') (legacy_walk (s\<lparr>phys := m\<rparr>) laddr leaf (ucast (?e AND 0xfffff000)) (ca AND ?e)
        (dword.path_of m (as @ [?a])))"
    by (rule Suc.IH) (use Suc.prems(2,3) in \<open>auto simp: frame_aligned bit_and_iff\<close>)
  have r: "PAGING_PDE4M_RESERVED_BITS (s\<lparr>phys := x\<rparr>) = ?r" "get_PSE (s\<lparr>phys := x\<rparr>) = get_PSE s" for x
    by (simp_all add: PAGING_PDE4M_RESERVED_BITS_def get_PSE_def)
  have "\<not> bit ?r 5" "\<not> bit ?r 6" using bit_reserved4M[OF assms(3)] by simp_all
  then have eq: "bit ?e' 0 = bit ?e 0" "bit ?e' 7 = bit ?e 7" "?e' AND 0xfffff000 = ?e AND 0xfffff000"
    "?e' AND 0xffc00000 = ?e AND 0xffc00000" "?e' AND 0x003fe000 = ?e AND 0x003fe000" "ca AND ?e' = ca AND ?e"
    "?e' AND ?r = ?e AND ?r"
    using agree_bit[OF ag, of 0] agree_bit[OF ag, of 7] agree_and[OF ag frame_masks4(1,2)] agree_and[OF ag frame_masks4(3,4)]
      agree_and[OF ag frame_masks4(5,6)] agree_and[OF ag Suc.prems(2,3)] agree_and[OF ag, of ?r] by (simp_all add: and.commute)
  show ?case
    unfolding legacy_walk.simps[of _ _ "Suc leaf"] Let_def same_page_index(2)[OF assms(2)] and_bit_tests
      phys_of_update path_of_append4 r eq nat.case ih
    by simp
qed

end
