(* ===== verification/PagingProps.thy ===== *)
theory PagingProps
  imports PageWalks
begin

text \<open>
  Properties of the translation: the permission rules behind the lookup table, that a fault changes no table, that the
  accessed and dirty bits are set exactly on the path of the walk, and that a hit in the TLB gives what a walk at that
  moment would give.
\<close>

section \<open>Permissions\<close>

text \<open>The rule the table of permissions encodes.\<close>

definition access_allowed :: "bool \<Rightarrow> bool \<Rightarrow> bool \<Rightarrow> bool \<Rightarrow> bool \<Rightarrow> bool" where
  "access_allowed wp user user_page writable_page write \<longleftrightarrow>
    (user \<longrightarrow> user_page) \<and> (write \<longrightarrow> writable_page \<or> \<not> user \<and> \<not> wp)"

lemma and_exp: "w AND 2 ^ n = (if bit w n then 2 ^ n else 0)" for w :: "'a::len word"
  by (rule bit_word_eqI) (auto simp: bit_and_iff bit_exp_iff)

lemma and_6: "w AND 6 = (if bit w 1 then 2 else 0) OR (if bit w 2 then 4 else 0)" for w :: Bit32u
proof -
  have "w AND 6 = (w AND 2) OR (w AND 4)" by (simp flip: bit.conj_disj_distrib)
  then show ?thesis using and_exp[of w 1] and_exp[of w 2] by simp
qed

lemma and_1: "w AND 1 = (if bit w 0 then 1 else 0)" for w :: Bit32u
  using and_exp[of w 0] by simp

lemma priv_check_rule:
  "priv_check ! unat (push_bit 4 (of_bool wp) OR push_bit 3 (of_bool user) OR
      (ca AND (BX_COMBINED_ACCESS_WRITE OR BX_COMBINED_ACCESS_USER)) OR (rw AND 1)) = 0 \<longleftrightarrow>
    \<not> access_allowed wp user (bit ca 2) (bit ca 1) (bit rw 0)"
proof -
  have 6: "BX_COMBINED_ACCESS_WRITE OR BX_COMBINED_ACCESS_USER = 6"
    by (simp add: BX_COMBINED_ACCESS_WRITE_def BX_COMBINED_ACCESS_USER_def)
  show ?thesis unfolding 6 and_6 and_1 access_allowed_def
    by (cases wp; cases user; cases "bit ca 1"; cases "bit ca 2"; cases "bit rw 0"; simp only: if_True if_False of_bool_eq)
      (simp_all add: priv_check_def)
qed

lemma page_tests: "IS_USER_PAGE ca \<longleftrightarrow> bit ca 2" "IS_WRITEABLE_PAGE ca \<longleftrightarrow> bit ca 1"
  by (simp_all add: IS_USER_PAGE_def IS_WRITEABLE_PAGE_def BX_COMBINED_ACCESS_USER_def BX_COMBINED_ACCESS_WRITE_def and_bit_tests)

text \<open>The check of the leaf entry for a data access, as a condition on the bits.\<close>

definition data_access_ok :: "bx_mmu \<Rightarrow> Bit64u \<Rightarrow> Bit32u \<Rightarrow> bool \<Rightarrow> Bit32u \<Rightarrow> bool" where
  "data_access_ok s e ca user rw \<longleftrightarrow>
    (let user_page = (bit ca 2 \<and> bit e 2)
     in (if bit rw 2 then bit ca 1 \<and> bit e 6 \<and> \<not> bit e 1 \<and> user_page = user
         else access_allowed (get_WP s) user user_page (bit ca 1 \<and> bit e 1) (bit rw 0)) \<and>
        \<not> (get_SMAP s \<and> (\<not> eflags_AC s \<or> rw = BX_IMPLICIT_SUPERVISOR_READ \<or> rw = BX_IMPLICIT_SUPERVISOR_WRITE) \<and>
          \<not> user \<and> user_page))"

lemma user_mismatch: "(ca AND BX_COMBINED_ACCESS_USER) XOR push_bit 2 (of_bool user) \<noteq> 0 \<longleftrightarrow> bit ca 2 \<noteq> user"
proof -
  have "ca AND 4 = (if bit ca 2 then 4 else 0)" using and_exp[of ca 2] by simp
  then show ?thesis by (cases user) (simp_all add: BX_COMBINED_ACCESS_USER_def)
qed

lemma check_leaf_data:
  assumes "rw \<noteq> BX_EXECUTE"
  shows "check_leaf_entry_faults s e ca user rw nx =
    (if data_access_ok s e ca user rw then Inr (ca AND ucast e) else Inl ERROR_PROTECTION)"
proof -
  have b: "bit (ca AND ucast e) 1 \<longleftrightarrow> bit ca 1 \<and> bit e 1" "bit (ca AND ucast e) 2 \<longleftrightarrow> bit ca 2 \<and> bit e 2"
    by (simp_all add: bit_and_iff bit_ucast_iff)
  show ?thesis using assms
    unfolding check_leaf_entry_faults_def Let_def page_tests user_mismatch data_access_ok_def and_bit_tests priv_check_rule b
    by (cases "bit rw 2"; cases user; cases "bit ca 2 \<and> bit e 2") (simp_all, blast+)
qed

section \<open>Permissions held by a TLB entry\<close>

definition access_index :: "bool \<Rightarrow> Bit32u \<Rightarrow> nat" where
  "access_index user rw = (if bit rw 2 then 4 else 0) + (if bit rw 0 then 2 else 0) + (if user then 1 else 0)"

lemma and_and_exp: "a AND 2 ^ n AND b \<noteq> 0 \<longleftrightarrow> bit a n \<and> bit b n" for a b :: "'a::len word"
proof -
  have "a AND 2 ^ n AND b = (a AND b) AND 2 ^ n" by (simp add: ac_simps)
  then show ?thesis by (simp add: and_exp_zero bit_and_iff)
qed

lemma access_indexes:
  "access_index user rw = (if bit rw 2 then if bit rw 0 then if user then 7 else 6 else if user then 5 else 4
     else if bit rw 0 then if user then 3 else 2 else if user then 1 else 0)"
  by (simp add: access_index_def)

lemma tlb_permits_iff:
  "tlb_permits s e user rw \<longleftrightarrow> bit (accessBits e) (access_index user rw) \<and>
    bit ((if bit rw 0 then wr_pkey s else rd_pkey s) (unat (tlb_pkey e))) (access_index user rw)"
proof -
  have 4: "rw AND 4 = (if bit rw 2 then 4 else 0)" using and_exp[of rw 2] by simp
  have 1: "push_bit n (1 :: Bit32u) = 2 ^ n" for n by simp
  have i: "unat (rw AND 4 OR push_bit 1 (rw AND 1) OR of_bool user) = access_index user rw"
    "rw AND 1 = 0 \<Longrightarrow> unat (rw AND 4 OR of_bool user) = access_index user rw"
    unfolding and_1 4 access_indexes by (cases "bit rw 2"; cases "bit rw 0"; cases user; simp)+
  show ?thesis unfolding tlb_permits_def Let_def 1 using i by (simp add: and_and_exp and_1)
qed

lemmas tlb_bit_defs = TLB_SysReadOK_def TLB_UserReadOK_def TLB_SysWriteOK_def TLB_UserWriteOK_def TLB_SysReadShadowStackOK_def
  TLB_UserReadShadowStackOK_def TLB_SysWriteShadowStackOK_def TLB_UserWriteShadowStackOK_def TLB_SysExecuteOK_def
  TLB_UserExecuteOK_def TLB_GlobalPage_def

lemma access_bits_granted:
  fixes s ca lp user rw
  assumes "rw \<noteq> BX_EXECUTE" "get_PG s"
  defines "b \<equiv> tlb_access_bits s ca lp user rw"
  shows "bit b 0 \<Longrightarrow> \<not> (bit ca 2 \<and> get_SMAP s)"
    "bit b 1 \<Longrightarrow> bit ca 2 \<and> user"
    "bit b 2 \<Longrightarrow> bit rw 0 \<and> \<not> bit rw 2 \<and> \<not> (bit ca 2 \<and> get_SMAP s)"
    "bit b 3 \<Longrightarrow> bit ca 2 \<and> user \<and> bit rw 0 \<and> \<not> bit rw 2"
    "bit b 4 \<Longrightarrow> bit rw 2 \<and> \<not> bit ca 2"
    "bit b 5 \<Longrightarrow> bit rw 2 \<and> bit ca 2 \<and> user"
    "bit b 6 \<Longrightarrow> bit rw 2 \<and> bit rw 0 \<and> \<not> bit ca 2"
    "bit b 7 \<Longrightarrow> bit rw 2 \<and> bit rw 0 \<and> bit ca 2 \<and> user"
  unfolding b_def tlb_access_bits_def Let_def page_tests and_bit_tests tlb_bit_defs using assms(1,2)
  by (simp_all add: bit_or_iff bit_and_iff bit_not_iff split: if_splits)

text \<open>Whatever a freshly filled entry permits, the check of the leaf entry permits too.\<close>

lemma hit_access_ok:
  assumes first: "data_access_ok s e ca user rw" and rw: "rw \<noteq> BX_EXECUTE" and pg: "get_PG s"
    and leaf: "agree e e'" "bit e 6 \<Longrightarrow> bit e' 6"
    and ca': "bit ca' 2 \<longleftrightarrow> bit ca 2 \<and> bit e 2"
    and hit: "bit (tlb_access_bits s ca' lp user rw) (access_index user2 rw2)"
  shows "data_access_ok s e' ca user2 rw2 \<and> (bit rw2 0 \<longrightarrow> bit rw 0)"
proof -
  note g = access_bits_granted[OF rw pg, of ca' lp user, unfolded ca']
  have l: "bit e' 1 = bit e 1" "bit e' 2 = bit e 2" using leaf(1) by (simp_all add: agree_def)
  let ?b = "tlb_access_bits s ca' lp user rw"
  have f: "if bit rw 2 then bit ca 1 \<and> bit e 6 \<and> \<not> bit e 1 \<and> (bit ca 2 \<and> bit e 2) = user
      else (user \<longrightarrow> bit ca 2 \<and> bit e 2) \<and> (bit rw 0 \<longrightarrow> bit ca 1 \<and> bit e 1 \<or> \<not> user \<and> \<not> get_WP s)"
    using first unfolding data_access_ok_def access_allowed_def Let_def by (rule conjunct1)
  show ?thesis
  proof (cases "bit rw2 2")
    case True
    show ?thesis using f leaf(2) hit True g(5-8) unfolding data_access_ok_def Let_def access_allowed_def l access_indexes
      by (cases "bit rw2 0"; cases user2; cases "bit rw 2") auto
  next
    case False
    show ?thesis using f hit False g(1-4) unfolding data_access_ok_def Let_def access_allowed_def l access_indexes
      by (cases "bit rw2 0"; cases user2; cases "bit rw 2") auto
  qed
qed

section \<open>Protection keys\<close>

text \<open>The tables of protection keys are the ones that the key registers and the control bits determine.\<close>

definition pkeys_ok :: "bx_mmu \<Rightarrow> bool" where
  "pkeys_ok s \<longleftrightarrow> (\<forall>i<32. wr_pkey s i = wr_pkey (set_PKeys (pkru s) (pkrs s) s) i)"

lemma mmu_reg_simps [simp]:
  "get_PG (s\<lparr>phys := m\<rparr>) = get_PG s" "get_WP (s\<lparr>phys := m\<rparr>) = get_WP s" "get_PAE (s\<lparr>phys := m\<rparr>) = get_PAE s"
  "get_PGE (s\<lparr>phys := m\<rparr>) = get_PGE s" "get_SMEP (s\<lparr>phys := m\<rparr>) = get_SMEP s" "get_SMAP (s\<lparr>phys := m\<rparr>) = get_SMAP s"
  "get_PKE (s\<lparr>phys := m\<rparr>) = get_PKE s" "get_PKS (s\<lparr>phys := m\<rparr>) = get_PKS s" "get_LASS (s\<lparr>phys := m\<rparr>) = get_LASS s"
  "get_LA57 (s\<lparr>phys := m\<rparr>) = get_LA57 s" "get_NXE (s\<lparr>phys := m\<rparr>) = get_NXE s" "long_mode (s\<lparr>phys := m\<rparr>) = long_mode s"
  by (simp_all add: get_PG_def get_WP_def get_PAE_def get_PGE_def get_SMEP_def get_SMAP_def get_PKE_def get_PKS_def
      get_LASS_def get_LA57_def get_NXE_def get_LMA_def long_mode_def)

lemma write_key_clear:
  assumes "pkeys_ok s" "long_mode s" "i < 32" "bit (wr_pkey s i) (access_index user rw)" "bit rw 0"
  shows "i < 16 \<Longrightarrow> get_PKE s \<Longrightarrow> bit (pkru s) (i * 2 + 1) \<Longrightarrow> \<not> user \<and> \<not> get_WP s"
    "16 \<le> i \<Longrightarrow> get_PKS s \<Longrightarrow> bit (pkrs s) ((i - 16) * 2 + 1) \<Longrightarrow> user \<or> \<not> get_WP s"
proof -
  have w: "wr_pkey s i = wr_pkey (set_PKeys (pkru s) (pkrs s) s) i" using assms(1,3) by (simp add: pkeys_ok_def)
  have r: "get_PKE (s\<lparr>pkru := a, pkrs := b\<rparr>) = get_PKE s" "get_PKS (s\<lparr>pkru := a, pkrs := b\<rparr>) = get_PKS s"
    "get_WP (s\<lparr>pkru := a, pkrs := b\<rparr>) = get_WP s" "long_mode (s\<lparr>pkru := a, pkrs := b\<rparr>) = long_mode s" for a b
    by (simp_all add: get_PKE_def get_PKS_def get_WP_def long_mode_def get_LMA_def)
  show "i < 16 \<Longrightarrow> get_PKE s \<Longrightarrow> bit (pkru s) (i * 2 + 1) \<Longrightarrow> \<not> user \<and> \<not> get_WP s"
    using assms(2-5) unfolding w set_PKeys_def Let_def r tlb_bit_defs access_indexes
    by (cases user; cases "bit rw 2"; cases "get_WP s")
      (auto simp: bit_or_iff bit_push_bit_iff bit_and_iff bit_not_iff split: if_splits)
  show "16 \<le> i \<Longrightarrow> get_PKS s \<Longrightarrow> bit (pkrs s) ((i - 16) * 2 + 1) \<Longrightarrow> user \<or> \<not> get_WP s"
    using assms(2-5) unfolding w set_PKeys_def Let_def r tlb_bit_defs access_indexes
    by (cases user; cases "bit rw 2"; cases "get_WP s")
      (auto simp: bit_or_iff bit_push_bit_iff bit_and_iff bit_not_iff split: if_splits)
qed

lemma agree_key: "agree e e' \<Longrightarrow> drop_bit 59 e' = drop_bit 59 e" for e :: Bit64u
  by (rule bit_word_eqI) (auto simp: agree_def bit_drop_bit_eq)

lemma key_range: "unat (ucast (x AND 0xf :: Bit64u) :: Bit32u) < 16"
proof -
  have "x AND 0xf = take_bit 4 x" by (simp add: take_bit_eq_mask mask_eq_exp_minus_1 and.commute)
  then have "unat (x AND 0xf) < 16" using take_bit_nat_less_exp[of 4 "unat x"] by (simp add: unsigned_take_bit_eq)
  then show ?thesis by (simp add: unsigned_ucast_eq take_bit_nat_eq_self)
qed

lemma key_plus_16: "unat k < 16 \<Longrightarrow> unat (k + 16) = unat k + 16" for k :: Bit32u
  by (subst unat_add_lem[THEN iffD1]) simp_all

text \<open>Whatever the key tables permit for the key of a freshly filled entry, the check of the key permits too.\<close>

lemma hit_pkeys:
  assumes first: "handle_pkeys s e user up rw = Inr pk" and rw: "rw \<noteq> BX_EXECUTE" "rw2 \<noteq> BX_EXECUTE"
    and ok: "pkeys_ok s" "long_mode s" and ag: "agree e e'" and user: "user2 \<Longrightarrow> up"
    and hit: "bit rw2 0 \<Longrightarrow> bit (wr_pkey s (unat pk)) (access_index user2 rw2)"
  shows "handle_pkeys s e' user2 up rw2 = Inr pk"
proof -
  let ?k = "ucast (drop_bit 59 e AND 0xf) :: Bit32u"
  have k: "unat ?k < 16" by (rule key_range)
  have w: "rw AND 1 \<noteq> 0 \<longleftrightarrow> bit rw 0" for rw :: Bit32u by (simp add: and_1)
  consider (u) "get_PKE s" "up" | (sup) "get_PKS s" "\<not> up" | (off) "\<not> (get_PKE s \<and> up)" "\<not> (get_PKS s \<and> \<not> up)" by blast
  then show ?thesis
  proof cases
    case u
    then have f: "\<not> bit (pkru s) (2 * unat ?k)" "pk = ?k"
      using first rw(1) by (simp_all add: handle_pkeys_def Let_def split: if_splits)
    have "\<not> (bit (pkru s) (2 * unat ?k + 1) \<and> bit rw2 0 \<and> (user2 \<or> get_WP s))"
      using write_key_clear(1)[OF ok _ hit] k u(1) f(2) by (auto simp: mult.commute)
    then show ?thesis using u f rw(2) by (simp add: handle_pkeys_def Let_def agree_key[OF ag] w)
  next
    case sup
    then have f: "\<not> bit (pkrs s) (2 * unat ?k)" "pk = ?k + 16"
      using first rw(1) by (simp_all add: handle_pkeys_def Let_def split: if_splits)
    have "unat pk = unat ?k + 16" using k f(2) key_plus_16 by simp
    then have "\<not> (bit (pkrs s) (2 * unat ?k + 1) \<and> bit rw2 0 \<and> get_WP s)"
      using write_key_clear(2)[OF ok _ hit] k sup user by (auto simp: mult.commute)
    then show ?thesis using sup f rw(2) by (simp add: handle_pkeys_def Let_def agree_key[OF ag] w)
  next
    case off
    then show ?thesis using first by (simp add: handle_pkeys_def Let_def split: if_splits)
  qed
qed

section \<open>A second walk\<close>

lemma flag_bits: "bit (0x20 :: 'a::len word) k \<longleftrightarrow> k = 5 \<and> 5 < LENGTH('a)" "bit (0x40 :: 'a::len word) k \<longleftrightarrow> k = 6 \<and> 6 < LENGTH('a)"
proof -
  have e: "(0x20 :: 'a word) = 2 ^ 5" "(0x40 :: 'a word) = 2 ^ 6" by simp_all
  show "bit (0x20 :: 'a::len word) k \<longleftrightarrow> k = 5 \<and> 5 < LENGTH('a)" "bit (0x40 :: 'a::len word) k \<longleftrightarrow> k = 6 \<and> 6 < LENGTH('a)"
    unfolding e bit_exp_iff by auto
qed

context cell_store
begin

lemma bit_ad_bits:
  "bit (ad_bits m as write c) k \<longleftrightarrow> 
    (k = 5 \<and> 5 < LENGTH('e) \<and> (c = cell m (last as) \<or> c \<in> cell m ` set (butlast as))) \<or>
    (k = 6 \<and> 6 < LENGTH('e) \<and> write \<and> c = cell m (last as))"
  by (simp only: ad_bits_def bit_or_iff flag_bits bit_0_eq bot_apply bot_bool_def split: if_split) auto

lemma sets_agree: "sets (ad_bits m as write) m m' \<Longrightarrow> aligned b \<Longrightarrow> agree (rd m b) (rd m' b)"
  by (auto simp: sets_def agree_def bit_or_iff bit_ad_bits)

lemma sets_mono: "sets f m m' \<Longrightarrow> aligned b \<Longrightarrow> bit (rd m b) k \<Longrightarrow> bit (rd m' b) k"
  by (simp add: sets_def bit_or_iff)

lemma update_again:
  assumes "sets (ad_bits m as write) m m'" "list_all aligned as" "as \<noteq> []" "write2 \<Longrightarrow> write" "6 < LENGTH('e)"
  shows "mark_leaf write2 (last (path_of m' as)) (fold mark (butlast (path_of m' as)) m') = m'"
proof (rule update_path_done)
  have r: "rd m' b = rd m b OR ad_bits m as write (cell m b)" if "b \<in> set as" for b
    using assms(1,2) that by (simp add: sets_def list_all_iff)
  have "bit (rd m' a) 5" if "a \<in> set as" for a
  proof -
    have "a = last as \<or> a \<in> set (butlast as)" using that assms(3) by (metis UnE append_butlast_last_id empty_iff empty_set set_ConsD set_append)
    then show ?thesis using r[OF that] assms(5) by (auto simp: bit_or_iff bit_ad_bits)
  qed
  then show "bit e 5" if "(a, e) \<in> set (path_of m' as)" for a e using that by (auto simp: path_of_def)
  show "path_of m' as \<noteq> []" using assms(3) by (simp add: path_of_def)
  show "bit (snd (last (path_of m' as))) 6" if "write2"
    using r[of "last as"] assms(3-5) that by (simp add: path_of_def last_map bit_or_iff bit_ad_bits)
qed

end

lemma qword_update:
  assumes "walk_ok m w" and m'_def: "m' = update_access_dirty_PAE (w_path w) write m"
  shows "stable m m'"
    "(write2 \<Longrightarrow> write) \<Longrightarrow> update_access_dirty_PAE (w_path (reread m' w)) write2 m' = m'"
    "agree (leaf_entry w) (leaf_entry (reread m' w))" "bit (leaf_entry w) k \<Longrightarrow> bit (leaf_entry (reread m' w)) k"
    "a20_mask m' = a20_mask m"
proof -
  obtain as where as: "w_path w = qword.path_of m as" "as \<noteq> []" "list_all (\<lambda>a. take_bit 3 a = 0) as"
    using assms(1) by (auto simp: walk_ok_def)
  have s: "qword.sets (qword.ad_bits m as write) m m'"
    using qword.update_path[OF as(3,2)] by (simp add: m'_def update_PAE_mark as(1))
  show "stable m m'" using qword.sets_agree[OF s] by (simp add: stable_def)
  have w': "w_path (reread m' w) = qword.path_of m' as" by (simp add: reread_def as(1))
  have al: "take_bit 3 (last as) = 0" using as(2,3) by (simp add: list_all_iff)
  have l: "leaf_entry w = read_physical_qword m (last as)" "leaf_entry (reread m' w) = read_physical_qword m' (last as)"
    using as(1,2) w' by (simp_all add: qword.path_of_def last_map)
  show "update_access_dirty_PAE (w_path (reread m' w)) write2 m' = m'" if "write2 \<Longrightarrow> write"
    unfolding update_PAE_mark w' using qword.update_again[OF s as(3,2)] that by simp
  show "agree (leaf_entry w) (leaf_entry (reread m' w))" unfolding l using qword.sets_agree[OF s al] .
  show "bit (leaf_entry w) k \<Longrightarrow> bit (leaf_entry (reread m' w)) k" unfolding l using qword.sets_mono[OF s al] .
  have "A20ADDR m' (- 1) = A20ADDR m (- 1)" using s by (simp add: qword.sets_def)
  then show "a20_mask m' = a20_mask m" by (simp add: A20ADDR_def)
qed

lemma dword_update:
  assumes "walk_ok4 m w" and m'_def: "m' = update_access_dirty (w_path w) write m"
  shows "stable4 m m'"
    "(write2 \<Longrightarrow> write) \<Longrightarrow> update_access_dirty (w_path (reread4 m' w)) write2 m' = m'"
    "agree (leaf_entry w) (leaf_entry (reread4 m' w))" "bit (leaf_entry w) k \<Longrightarrow> bit (leaf_entry (reread4 m' w)) k"
    "a20_mask m' = a20_mask m"
proof -
  obtain as where as: "w_path w = dword.path_of m as" "as \<noteq> []" "list_all (\<lambda>a. take_bit 2 a = 0) as"
    using assms(1) by (auto simp: walk_ok4_def)
  have s: "dword.sets (dword.ad_bits m as write) m m'"
    using dword.update_path[OF as(3,2)] by (simp add: m'_def update_legacy_mark as(1))
  show "stable4 m m'" using dword.sets_agree[OF s] by (simp add: stable4_def)
  have w': "w_path (reread4 m' w) = dword.path_of m' as" by (simp add: reread4_def as(1))
  have al: "take_bit 2 (last as) = 0" using as(2,3) by (simp add: list_all_iff)
  have l: "leaf_entry w = read_physical_dword m (last as)" "leaf_entry (reread4 m' w) = read_physical_dword m' (last as)"
    using as(1,2) w' by (simp_all add: dword.path_of_def last_map)
  show "update_access_dirty (w_path (reread4 m' w)) write2 m' = m'" if "write2 \<Longrightarrow> write"
    unfolding update_legacy_mark w' using dword.update_again[OF s as(3,2)] that by simp
  show "agree (leaf_entry w) (leaf_entry (reread4 m' w))" unfolding l using dword.sets_agree[OF s al] .
  show "bit (leaf_entry w) k \<Longrightarrow> bit (leaf_entry (reread4 m' w)) k" unfolding l using dword.sets_mono[OF s al] .
  have "A20ADDR m' (- 1) = A20ADDR m (- 1)" using s by (simp add: dword.sets_def)
  then show "a20_mask m' = a20_mask m" by (simp add: A20ADDR_def)
qed

text \<open>The checks read no memory.\<close>

lemma mmu_field_simps:
  "eflags_AC (s\<lparr>phys := m\<rparr>) = eflags_AC s" "pkru (s\<lparr>phys := m\<rparr>) = pkru s" "pkrs (s\<lparr>phys := m\<rparr>) = pkrs s"
  "maxphyaddr (s\<lparr>phys := m\<rparr>) = maxphyaddr s"
  by simp_all

lemma checks_phys [simp]:
  "check_leaf_entry_faults (s\<lparr>phys := m\<rparr>) = check_leaf_entry_faults s" "handle_pkeys (s\<lparr>phys := m\<rparr>) = handle_pkeys s"
  "tlb_access_bits (s\<lparr>phys := m\<rparr>) = tlb_access_bits s" "PAGING_PAE_RESERVED_BITS (s\<lparr>phys := m\<rparr>) = PAGING_PAE_RESERVED_BITS s"
  "PAGING_LEGACY_PAE_RESERVED_BITS (s\<lparr>phys := m\<rparr>) = PAGING_LEGACY_PAE_RESERVED_BITS s"
  by (simp_all only: fun_eq_iff check_leaf_entry_faults_def handle_pkeys_def tlb_access_bits_def PAGING_PAE_RESERVED_BITS_def
      PAGING_LEGACY_PAE_RESERVED_BITS_def BX_PAGING_PHY_ADDRESS_RESERVED_BITS_def BX_PHY_ADDRESS_RESERVED_BITS_def
      mmu_reg_simps mmu_field_simps simp_thms)

lemma leaf_again:
  assumes first: "check_leaf_entry_faults s e ca user rw nx = Inr ca1" and rw: "rw \<noteq> BX_EXECUTE" "rw2 \<noteq> BX_EXECUTE"
    and pg: "get_PG s" and ag: "agree e e'" "bit e 6 \<Longrightarrow> bit e' 6" and ca: "\<not> bit ca 5" "\<not> bit ca 6"
    and hit: "bit (tlb_access_bits s ca' lp user rw) (access_index user2 rw2)" and ca': "bit ca' 2 = bit ca1 2"
  shows "check_leaf_entry_faults s e' ca user2 rw2 nx = Inr ca1" "bit rw2 0 \<Longrightarrow> bit rw 0" "user2 \<Longrightarrow> bit ca1 2"
proof -
  have f: "data_access_ok s e ca user rw" "ca1 = ca AND ucast e"
    using first by (simp_all add: check_leaf_data[OF rw(1)] split: if_splits)
  have "bit ca' 2 \<longleftrightarrow> bit ca 2 \<and> bit e 2" using ca' f(2) by (simp add: bit_and_iff bit_ucast_iff)
  from hit_access_ok[OF f(1) rw(1) pg ag this hit]
  have ok: "data_access_ok s e' ca user2 rw2" and w: "bit rw2 0 \<longrightarrow> bit rw 0" by blast+
  show "bit rw2 0 \<Longrightarrow> bit rw 0" using w by simp
  show "check_leaf_entry_faults s e' ca user2 rw2 nx = Inr ca1"
    using ok agree_and_ucast[OF ag(1) ca] by (simp add: check_leaf_data[OF rw(2)] f(2))
  have "bit e' 2 = bit e 2" using ag(1) by (simp add: agree_def)
  then show "user2 \<Longrightarrow> bit ca1 2" using ok
    by (auto simp: data_access_ok_def access_allowed_def Let_def f(2) bit_and_iff bit_ucast_iff split: if_splits)
qed

text \<open>The permissions travel in the low bits of the page frame.\<close>

lemma user_bit:
  assumes "\<forall>k<12. \<not> bit f k \<and> bit m k" "\<not> bit x 2" "\<not> bit y 2"
  shows "bit (ucast (f OR ucast (ca OR x OR y) :: Bit64u) AND m :: Bit32u) 2 = bit (ca :: Bit32u) 2"
  using assms by (simp add: bit_and_iff bit_or_iff bit_ucast_iff)

section \<open>Walking again after a walk\<close>

text \<open>What the walks take from the configuration of the processor and of the A20 gate.\<close>

definition mmu_ok :: "bx_mmu \<Rightarrow> bool" where
  "mmu_ok s \<longleftrightarrow> 32 \<le> maxphyaddr s \<and> linaddr_width s = (if get_LA57 s then 57 else 48) \<and>
    (\<forall>k<12. bit (a20_mask (phys s)) k) \<and> pkeys_ok s"

text \<open>A second access that a fresh TLB entry with these permissions and this key would let through.\<close>

definition entry_permits :: "bx_mmu \<Rightarrow> Bit32u \<Rightarrow> Bit32u \<Rightarrow> bx_address \<Rightarrow> bool \<Rightarrow> Bit32u \<Rightarrow> bool \<Rightarrow> Bit32u \<Rightarrow> bool" where
  "entry_permits s ca pk lp user rw user2 rw2 \<longleftrightarrow> rw \<noteq> BX_EXECUTE \<and> rw2 \<noteq> BX_EXECUTE \<and>
    bit (tlb_access_bits s ca lp user rw) (access_index user2 rw2) \<and>
    (bit rw2 0 \<longrightarrow> bit (wr_pkey s (unat pk)) (access_index user2 rw2))"

lemma start_access: "\<not> bit (BX_COMBINED_ACCESS_WRITE OR BX_COMBINED_ACCESS_USER) 5"
  "\<not> bit (BX_COMBINED_ACCESS_WRITE OR BX_COMBINED_ACCESS_USER) 6"
  by (simp_all add: BX_COMBINED_ACCESS_WRITE_def BX_COMBINED_ACCESS_USER_def)

lemma start_reserved:
  assumes "mmu_ok s" "k < 12"
  shows "\<not> bit (if \<not> get_NXE s then PAGING_PAE_RESERVED_BITS s OR PAGE_DIRECTORY_NX_BIT else PAGING_PAE_RESERVED_BITS s) k"
    "\<not> bit (if \<not> get_NXE s then PAGING_LEGACY_PAE_RESERVED_BITS s OR PAGE_DIRECTORY_NX_BIT else PAGING_LEGACY_PAE_RESERVED_BITS s) k"
proof -
  have "take_bit 12 (0x7ff0000000000000 :: Bit64u) = 0" "take_bit 12 PAGE_DIRECTORY_NX_BIT = 0"
    by (simp_all add: PAGE_DIRECTORY_NX_BIT_def)
  then have m: "\<not> bit (0x7ff0000000000000 :: Bit64u) k" "\<not> bit PAGE_DIRECTORY_NX_BIT k" using low_zero assms(2) by blast+
  have "\<not> bit (BX_PAGING_PHY_ADDRESS_RESERVED_BITS s) k" using assms bit_reserved by (auto simp: mmu_ok_def)
  then have p: "\<not> bit (PAGING_PAE_RESERVED_BITS s) k" "\<not> bit (PAGING_LEGACY_PAE_RESERVED_BITS s) k"
    using m by (simp_all only: PAGING_PAE_RESERVED_BITS_def PAGING_LEGACY_PAE_RESERVED_BITS_def bit_or_iff simp_thms)
  show "\<not> bit (if \<not> get_NXE s then PAGING_PAE_RESERVED_BITS s OR PAGE_DIRECTORY_NX_BIT else PAGING_PAE_RESERVED_BITS s) k"
    "\<not> bit (if \<not> get_NXE s then PAGING_LEGACY_PAE_RESERVED_BITS s OR PAGE_DIRECTORY_NX_BIT else PAGING_LEGACY_PAE_RESERVED_BITS s) k"
    using p m by (simp_all only: bit_or_iff simp_thms split: if_split)
qed

lemma access_low: "\<not> bit (if g then ucast (e :: 'a::len word) AND BX_COMBINED_ACCESS_GLOBAL_PAGE else 0) 2" "\<not> bit (of_bool n :: Bit32u) 2"
  by (simp_all add: BX_COMBINED_ACCESS_GLOBAL_PAGE_def bit_and_iff)

lemma qword_Nil: "qword.path_of m [] = []"
  by (simp add: qword.path_of_def)

lemma dword_Nil: "dword.path_of m [] = []"
  by (simp add: dword.path_of_def)

lemma surj_phys: "s\<lparr>phys := phys s\<rparr> = s" "linaddr_width (s\<lparr>phys := m\<rparr>) = linaddr_width s"
  by simp_all

lemma reread_simps: "w_access (reread m w) = w_access w" "w_nx (reread m w) = w_nx w" "w_ppf (reread m w) = w_ppf w"
  "w_lpf_mask (reread m w) = w_lpf_mask w"
  by (simp_all add: reread_def)

lemma reread4_simps: "w_access (reread4 m w) = w_access w" "w_nx (reread4 m w) = w_nx w" "w_ppf (reread4 m w) = w_ppf w"
  "w_lpf_mask (reread4 m w) = w_lpf_mask w"
  by (simp_all add: reread4_def)

lemma global_bit_agree: "agree e e' \<Longrightarrow> (ucast e' AND BX_COMBINED_ACCESS_GLOBAL_PAGE :: Bit32u) = ucast e AND BX_COMBINED_ACCESS_GLOBAL_PAGE"
  using agree_and_ucast[of e e' BX_COMBINED_ACCESS_GLOBAL_PAGE] by (simp add: BX_COMBINED_ACCESS_GLOBAL_PAGE_def and.commute)

lemma if_or: "(if g then (ca :: 'a::len word) OR x else ca) = ca OR (if g then x else 0)"
  by simp

lemma write_flag: "rw AND 1 \<noteq> 0 \<longleftrightarrow> bit rw 0" for rw :: Bit32u
  by (simp add: and_1)

lemma qword_again:
  assumes wok: "walk_ok (phys s) w" and leaf: "check_leaf_entry_faults s (leaf_entry w) (w_access w) user rw (w_nx w) = Inr ca"
    and pg: "get_PG s" and m': "m' = update_access_dirty_PAE (w_path w) (rw AND 1 \<noteq> 0) (phys s)"
    and hit: "entry_permits s (ucast (w_ppf w OR ucast ((if g then ca OR (ucast (leaf_entry w) AND BX_COMBINED_ACCESS_GLOBAL_PAGE)
      else ca) OR of_bool (w_nx w))) AND w_lpf_mask w) pk lp user rw user2 rw2"
  shows "check_leaf_entry_faults s (leaf_entry (reread m' w)) (w_access w) user2 rw2 (w_nx w) = Inr ca"
    "update_access_dirty_PAE (w_path (reread m' w)) (rw2 AND 1 \<noteq> 0) m' = m'"
    "agree (leaf_entry w) (leaf_entry (reread m' w))"
    "w_access w AND ucast (leaf_entry (reread m' w)) = w_access w AND ucast (leaf_entry w)"
    "user2 \<Longrightarrow> IS_USER_PAGE (w_access w AND ucast (leaf_entry w))"
proof -
  let ?e = "leaf_entry w" and ?e' = "leaf_entry (reread m' w)"
  note u = qword_update[OF wok m']
  have rw: "rw \<noteq> BX_EXECUTE" "rw2 \<noteq> BX_EXECUTE" using hit by (simp_all add: entry_permits_def)
  have acc: "\<not> bit (w_access w) 5" "\<not> bit (w_access w) 6" and low: "\<forall>k<12. \<not> bit (w_ppf w) k \<and> bit (w_lpf_mask w) k"
    using wok by (simp_all add: walk_ok_def)
  have h: "bit (tlb_access_bits s (ucast (w_ppf w OR ucast (ca OR (if g then ucast ?e AND BX_COMBINED_ACCESS_GLOBAL_PAGE else 0) OR
      of_bool (w_nx w))) AND w_lpf_mask w) lp user rw) (access_index user2 rw2)"
    using hit by (simp add: entry_permits_def if_or or.assoc)
  note l = leaf_again[OF leaf rw pg u(3,4) acc h user_bit[OF low access_low]]
  show "check_leaf_entry_faults s ?e' (w_access w) user2 rw2 (w_nx w) = Inr ca" by (rule l(1))
  show "update_access_dirty_PAE (w_path (reread m' w)) (rw2 AND 1 \<noteq> 0) m' = m'" using u(2)[of "bit rw2 0"] l(2) by (simp add: write_flag)
  show "agree ?e ?e'" by (rule u(3))
  show "w_access w AND ucast ?e' = w_access w AND ucast ?e" by (rule agree_and_ucast[OF u(3) acc])
  have "ca = w_access w AND ucast ?e" using leaf by (simp add: check_leaf_data[OF rw(1)] split: if_splits)
  then show "user2 \<Longrightarrow> IS_USER_PAGE (w_access w AND ucast ?e)" using l(3) by (simp add: page_tests)
qed

lemma long_mode_walkE:
  assumes ok: "mmu_ok s" and walk: "translate_linear_long_mode laddr user rw s = (Inr (pa, m, pk), s')"
  obtains w ca where "long_mode_walk s laddr
      (if \<not> get_NXE s then PAGING_PAE_RESERVED_BITS s OR PAGE_DIRECTORY_NX_BIT else PAGING_PAE_RESERVED_BITS s)
      (if get_LA57 s then BX_LEVEL_PML5 else BX_LEVEL_PML4) (cr3 s AND BX_CR3_PAGING_MASK) (push_bit (linaddr_width s) 1 - 1)
      (BX_COMBINED_ACCESS_WRITE OR BX_COMBINED_ACCESS_USER) False [] = Inr w"
    and "handle_pkeys s (leaf_entry w) user (IS_USER_PAGE (w_access w AND ucast (leaf_entry w))) rw = Inr pk"
    and "check_leaf_entry_faults s (leaf_entry w) (w_access w) user rw (w_nx w) = Inr ca"
    and "pa = w_ppf w OR ucast ((if get_PGE s then ca OR (ucast (leaf_entry w) AND BX_COMBINED_ACCESS_GLOBAL_PAGE) else ca) OR of_bool (w_nx w))"
    and "m = w_lpf_mask w" and "s' = s\<lparr>phys := update_access_dirty_PAE (w_path w) (rw AND 1 \<noteq> 0) (phys s)\<rparr>" and "walk_ok (phys s) w"
proof -
  let ?res = "if \<not> get_NXE s then PAGING_PAE_RESERVED_BITS s OR PAGE_DIRECTORY_NX_BIT else PAGING_PAE_RESERVED_BITS s"
  let ?lv = "if get_LA57 s then BX_LEVEL_PML5 else BX_LEVEL_PML4" and ?base = "cr3 s AND BX_CR3_PAGING_MASK"
  let ?ca = "BX_COMBINED_ACCESS_WRITE OR BX_COMBINED_ACCESS_USER"
  have om: "push_bit (linaddr_width s) 1 - 1 = (mask (21 + 9 * ?lv) :: Bit64u)"
    using ok by (simp add: mmu_ok_def mask_eq_exp_minus_1 BX_LEVEL_PML5_def BX_LEVEL_PML4_def)
  have al: "page_aligned ?base" and lv: "?lv \<le> 4" by (simp_all add: BX_CR3_PAGING_MASK_def take_bit_and BX_LEVEL_PML5_def BX_LEVEL_PML4_def)
  have wok: "walk_ok (phys s) w"
    if "long_mode_walk s laddr ?res ?lv ?base (push_bit (linaddr_width s) 1 - 1) ?ca False [] = Inr w" for w
    by (rule long_mode_walk_ok[OF that[folded qword_Nil[of "phys s"], unfolded om] al _ lv start_access]) simp
  show thesis using walk wok that
    by (auto simp: translate_linear_long_mode_def Let_def walk_fault_def page_fault_def split: sum.splits)
qed

lemma long_mode_again:
  assumes ok: "mmu_ok s" "long_mode s" "get_PG s"
    and walk: "translate_linear_long_mode laddr user rw s = (Inr (pa, m, pk), s')"
    and page: "LPFOf laddr2 = LPFOf laddr" and hit: "entry_permits s (ucast pa AND m) pk lp user rw user2 rw2"
  shows "translate_linear_long_mode laddr2 user2 rw2 s' = (Inr (pa, m, pk), s')"
proof -
  let ?res = "if \<not> get_NXE s then PAGING_PAE_RESERVED_BITS s OR PAGE_DIRECTORY_NX_BIT else PAGING_PAE_RESERVED_BITS s"
  let ?lv = "if get_LA57 s then BX_LEVEL_PML5 else BX_LEVEL_PML4" and ?base = "cr3 s AND BX_CR3_PAGING_MASK"
  let ?ca = "BX_COMBINED_ACCESS_WRITE OR BX_COMBINED_ACCESS_USER"
  let ?walk = "\<lambda>s laddr. long_mode_walk s laddr ?res ?lv ?base (push_bit (linaddr_width s) 1 - 1) ?ca False []"
  have rw: "rw \<noteq> BX_EXECUTE" "rw2 \<noteq> BX_EXECUTE" using hit by (simp_all add: entry_permits_def)
  obtain w ca where w: "?walk s laddr = Inr w"
    and pk: "handle_pkeys s (leaf_entry w) user (IS_USER_PAGE (w_access w AND ucast (leaf_entry w))) rw = Inr pk"
    and ca: "check_leaf_entry_faults s (leaf_entry w) (w_access w) user rw (w_nx w) = Inr ca"
    and pa: "pa = w_ppf w OR ucast ((if get_PGE s then ca OR (ucast (leaf_entry w) AND BX_COMBINED_ACCESS_GLOBAL_PAGE) else ca) OR of_bool (w_nx w))"
    and m: "m = w_lpf_mask w" and s': "s' = s\<lparr>phys := update_access_dirty_PAE (w_path w) (rw AND 1 \<noteq> 0) (phys s)\<rparr>"
    and wok: "walk_ok (phys s) w"
    using long_mode_walkE[OF ok(1) walk] by blast
  have al: "page_aligned ?base" by (simp add: BX_CR3_PAGING_MASK_def take_bit_and)
  let ?m' = "phys s'"
  have m': "?m' = update_access_dirty_PAE (w_path w) (rw AND 1 \<noteq> 0) (phys s)" "s' = s\<lparr>phys := ?m'\<rparr>" using s' by simp_all
  note q = qword_again[OF wok ca ok(3) m'(1) hit[unfolded pa m]]
  have "?walk (s\<lparr>phys := ?m'\<rparr>) laddr2 = Inr (reread ?m' w)"
    using long_mode_walk_stable[OF qword_update(1)[OF wok m'(1)] page start_reserved(1)[OF ok(1)] start_reserved(1)[OF ok(1)] al start_access,
        of s ?lv "push_bit (linaddr_width s) 1 - 1" False "[]"] w
    by (simp only: qword_Nil surj_phys map_sum.simps zero_less_numeral numeral_less_iff) simp
  then have w2: "?walk s' laddr2 = Inr (reread ?m' w)" by (simp only: m'(2)[symmetric])
  have pk2: "handle_pkeys s (leaf_entry (reread ?m' w)) user2 (IS_USER_PAGE (w_access w AND ucast (leaf_entry w))) rw2 = Inr pk"
    using hit by (intro hit_pkeys[OF pk rw _ ok(2) q(3) q(5)]) (use ok(1) in \<open>auto simp: entry_permits_def mmu_ok_def\<close>)
  have regs: "get_NXE s' = get_NXE s" "get_LA57 s' = get_LA57 s" "cr3 s' = cr3 s" "PAGING_PAE_RESERVED_BITS s' = PAGING_PAE_RESERVED_BITS s"
    "handle_pkeys s' = handle_pkeys s" "check_leaf_entry_faults s' = check_leaf_entry_faults s" "get_PGE s' = get_PGE s"
    "s'\<lparr>phys := ?m'\<rparr> = s'"
    by (simp_all add: s')
  show ?thesis
    unfolding translate_linear_long_mode_def Let_def regs w2 sum.case reread_simps q(4) pk2 q(1) global_bit_agree[OF q(3)] q(2)
    by (simp add: pa m regs)
qed

lemma PAE_walkE:
  assumes walk: "translate_linear_PAE laddr user rw s = (Inr (pa, m, pk), s')"
  obtains pdpte w ca where "translate_linear_load_PDPTR laddr s = Inr pdpte"
    and "PAE_walk s laddr
      (if \<not> get_NXE s then PAGING_LEGACY_PAE_RESERVED_BITS s OR PAGE_DIRECTORY_NX_BIT else PAGING_LEGACY_PAE_RESERVED_BITS s)
      BX_LEVEL_PDE (pdpte AND 0x000ffffffffff000) (BX_COMBINED_ACCESS_WRITE OR BX_COMBINED_ACCESS_USER) False [] = Inr w"
    and "check_leaf_entry_faults s (leaf_entry w) (w_access w) user rw (w_nx w) = Inr ca"
    and "pa = w_ppf w OR ucast ((if get_PGE s then ca OR (ucast (leaf_entry w) AND BX_COMBINED_ACCESS_GLOBAL_PAGE) else ca) OR of_bool (w_nx w))"
    and "m = w_lpf_mask w" and "pk = 0" and "s' = s\<lparr>phys := update_access_dirty_PAE (w_path w) (rw AND 1 \<noteq> 0) (phys s)\<rparr>"
    and "walk_ok (phys s) w"
proof -
  have wok: "walk_ok (phys s) w" if "PAE_walk s laddr res BX_LEVEL_PDE (pdpte AND 0x000ffffffffff000)
      (BX_COMBINED_ACCESS_WRITE OR BX_COMBINED_ACCESS_USER) False [] = Inr w" for res pdpte w
    by (rule PAE_walk_ok[OF that[folded qword_Nil[of "phys s"]] frame_aligned(1) _ start_access]) simp
  show thesis using walk wok that
    by (auto simp: translate_linear_PAE_def Let_def walk_fault_def page_fault_def split: sum.splits)
qed

lemma PAE_again:
  assumes ok: "mmu_ok s" "get_PG s"
    and walk: "translate_linear_PAE laddr user rw s = (Inr (pa, m, pk), s')"
    and page: "LPFOf laddr2 = LPFOf laddr" and hit: "entry_permits s (ucast pa AND m) pk lp user rw user2 rw2"
  shows "translate_linear_PAE laddr2 user2 rw2 s' = (Inr (pa, m, pk), s')"
proof -
  let ?res = "if \<not> get_NXE s then PAGING_LEGACY_PAE_RESERVED_BITS s OR PAGE_DIRECTORY_NX_BIT else PAGING_LEGACY_PAE_RESERVED_BITS s"
  let ?ca = "BX_COMBINED_ACCESS_WRITE OR BX_COMBINED_ACCESS_USER"
  obtain pdpte w ca where pd: "translate_linear_load_PDPTR laddr s = Inr pdpte"
    and w: "PAE_walk s laddr ?res BX_LEVEL_PDE (pdpte AND 0x000ffffffffff000) ?ca False [] = Inr w"
    and ca: "check_leaf_entry_faults s (leaf_entry w) (w_access w) user rw (w_nx w) = Inr ca"
    and pa: "pa = w_ppf w OR ucast ((if get_PGE s then ca OR (ucast (leaf_entry w) AND BX_COMBINED_ACCESS_GLOBAL_PAGE) else ca) OR of_bool (w_nx w))"
    and m: "m = w_lpf_mask w" and pk: "pk = 0" and s': "s' = s\<lparr>phys := update_access_dirty_PAE (w_path w) (rw AND 1 \<noteq> 0) (phys s)\<rparr>"
    and wok: "walk_ok (phys s) w"
    using PAE_walkE[OF walk] by blast
  let ?base = "pdpte AND 0x000ffffffffff000" and ?m' = "phys s'"
  have al: "page_aligned ?base" by (rule frame_aligned)
  have m': "?m' = update_access_dirty_PAE (w_path w) (rw AND 1 \<noteq> 0) (phys s)" "s' = s\<lparr>phys := ?m'\<rparr>" using s' by simp_all
  note q = qword_again[OF wok ca ok(2) m'(1) hit[unfolded pa m]]
  have mp: "12 \<le> maxphyaddr s" using ok(1) by (simp add: mmu_ok_def)
  have "PAE_walk (s\<lparr>phys := ?m'\<rparr>) laddr2 ?res BX_LEVEL_PDE ?base ?ca False [] = Inr (reread ?m' w)"
    using PAE_walk_stable[OF qword_update(1)[OF wok m'(1)] page start_reserved(2)[OF ok(1)] start_reserved(2)[OF ok(1)] mp al start_access,
        of BX_LEVEL_PDE False "[]"] w
    by (simp only: qword_Nil surj_phys map_sum.simps zero_less_numeral numeral_less_iff) simp
  then have w2: "PAE_walk s' laddr2 ?res BX_LEVEL_PDE ?base ?ca False [] = Inr (reread ?m' w)" by (simp only: m'(2)[symmetric])
  have "drop_bit 30 laddr2 AND 3 = drop_bit 30 laddr AND 3"
    by (rule bit_word_eqI) (auto simp: bit_and_iff bit_drop_bit_eq same_page_bits[OF page])
  then have pd2: "translate_linear_load_PDPTR laddr2 s' = Inr pdpte" using pd by (simp add: translate_linear_load_PDPTR_def Let_def s')
  have regs: "get_NXE s' = get_NXE s" "PAGING_LEGACY_PAE_RESERVED_BITS s' = PAGING_LEGACY_PAE_RESERVED_BITS s"
    "check_leaf_entry_faults s' = check_leaf_entry_faults s" "get_PGE s' = get_PGE s" "s'\<lparr>phys := ?m'\<rparr> = s'"
    by (simp_all add: s')
  show ?thesis
    unfolding translate_linear_PAE_def Let_def regs pd2 w2 sum.case reread_simps q(4) q(1) global_bit_agree[OF q(3)] q(2)
    by (simp add: pa m pk regs)
qed

lemma legacy_walkE:
  assumes walk: "translate_linear_legacy laddr user rw s = (Inr (pa, m, pk), s')"
  obtains w ca where "legacy_walk s laddr BX_LEVEL_PDE (ucast (ucast (cr3 s) :: Bit32u) AND BX_CR3_PAGING_MASK)
      (BX_COMBINED_ACCESS_WRITE OR BX_COMBINED_ACCESS_USER) [] = Inr w"
    and "check_leaf_entry_faults s (ucast (leaf_entry w)) (w_access w) user rw False = Inr ca"
    and "pa = w_ppf w OR ucast (if get_PGE s then ca OR (leaf_entry w AND BX_COMBINED_ACCESS_GLOBAL_PAGE) else ca)"
    and "m = w_lpf_mask w" and "pk = 0" and "s' = s\<lparr>phys := update_access_dirty (w_path w) (rw AND 1 \<noteq> 0) (phys s)\<rparr>"
    and "walk_ok4 (phys s) w"
proof -
  let ?base = "ucast (ucast (cr3 s) :: Bit32u) AND BX_CR3_PAGING_MASK"
  have al: "page_aligned ?base" by (simp add: BX_CR3_PAGING_MASK_def take_bit_and)
  have wok: "walk_ok4 (phys s) w"
    if "legacy_walk s laddr BX_LEVEL_PDE ?base (BX_COMBINED_ACCESS_WRITE OR BX_COMBINED_ACCESS_USER) [] = Inr w" for w
    by (rule legacy_walk_ok[OF that[folded dword_Nil[of "phys s"]] al _ start_access]) simp
  show thesis using walk wok that
    by (auto simp: translate_linear_legacy_def Let_def walk_fault_def page_fault_def split: sum.splits)
qed

lemma legacy_again:
  assumes ok: "mmu_ok s" "get_PG s"
    and walk: "translate_linear_legacy laddr user rw s = (Inr (pa, m, pk), s')"
    and page: "LPFOf laddr2 = LPFOf laddr" and hit: "entry_permits s (ucast pa AND m) pk lp user rw user2 rw2"
  shows "translate_linear_legacy laddr2 user2 rw2 s' = (Inr (pa, m, pk), s')"
proof -
  let ?base = "ucast (ucast (cr3 s) :: Bit32u) AND BX_CR3_PAGING_MASK" and ?m' = "phys s'"
  let ?ca = "BX_COMBINED_ACCESS_WRITE OR BX_COMBINED_ACCESS_USER"
  have rw: "rw \<noteq> BX_EXECUTE" "rw2 \<noteq> BX_EXECUTE" using hit by (simp_all add: entry_permits_def)
  obtain w ca where w: "legacy_walk s laddr BX_LEVEL_PDE ?base ?ca [] = Inr w"
    and ca: "check_leaf_entry_faults s (ucast (leaf_entry w)) (w_access w) user rw False = Inr ca"
    and pa: "pa = w_ppf w OR ucast (if get_PGE s then ca OR (leaf_entry w AND BX_COMBINED_ACCESS_GLOBAL_PAGE) else ca)"
    and m: "m = w_lpf_mask w" and pk: "pk = 0" and s': "s' = s\<lparr>phys := update_access_dirty (w_path w) (rw AND 1 \<noteq> 0) (phys s)\<rparr>"
    and wok: "walk_ok4 (phys s) w"
    using legacy_walkE[OF walk] by blast
  have al: "page_aligned ?base" by (simp add: BX_CR3_PAGING_MASK_def take_bit_and)
  from wok have acc: "\<not> bit (w_access w) 5" "\<not> bit (w_access w) 6" and low: "\<forall>k<12. \<not> bit (w_ppf w) k \<and> bit (w_lpf_mask w) k"
    by (simp_all add: walk_ok4_def)
  have m': "?m' = update_access_dirty (w_path w) (rw AND 1 \<noteq> 0) (phys s)" "s' = s\<lparr>phys := ?m'\<rparr>" using s' by simp_all
  note u = dword_update[OF wok m'(1)]
  let ?e = "leaf_entry w" and ?e' = "leaf_entry (reread4 ?m' w)"
  have ag: "agree (ucast ?e :: Bit64u) (ucast ?e')" "bit (ucast ?e :: Bit64u) 6 \<Longrightarrow> bit (ucast ?e' :: Bit64u) 6"
    using u(3) u(4)[of 6] by (auto simp: agree_def bit_ucast_iff)
  have h: "bit (tlb_access_bits s (ucast (w_ppf w OR ucast (ca OR (if get_PGE s then ucast ?e AND BX_COMBINED_ACCESS_GLOBAL_PAGE else 0) OR
      of_bool False)) AND w_lpf_mask w) lp user rw) (access_index user2 rw2)"
    using hit unfolding entry_permits_def pa m if_or by (simp split del: if_split cong: if_cong)
  note l = leaf_again[OF ca rw ok(2) ag acc h user_bit[OF low access_low]]
  have upd: "update_access_dirty (w_path (reread4 ?m' w)) (rw2 AND 1 \<noteq> 0) ?m' = ?m'" using u(2)[of "bit rw2 0"] l(2) by (simp add: write_flag)
  have mp: "32 \<le> maxphyaddr s" using ok(1) by (simp add: mmu_ok_def)
  have "legacy_walk (s\<lparr>phys := ?m'\<rparr>) laddr2 BX_LEVEL_PDE ?base ?ca [] = Inr (reread4 ?m' w)"
    using legacy_walk_stable[OF u(1) page mp al start_access, of BX_LEVEL_PDE "[]"] w
    by (simp only: dword_Nil surj_phys map_sum.simps)
  then have w2: "legacy_walk s' laddr2 BX_LEVEL_PDE ?base ?ca [] = Inr (reread4 ?m' w)" by (simp only: m'(2)[symmetric])
  have regs: "cr3 s' = cr3 s" "check_leaf_entry_faults s' = check_leaf_entry_faults s" "get_PGE s' = get_PGE s" "s'\<lparr>phys := ?m'\<rparr> = s'"
    by (simp_all add: s')
  have l1: "check_leaf_entry_faults s (ucast ?e') (w_access w) user2 rw2 False = Inr ca" by (rule l(1))
  have g: "?e' AND BX_COMBINED_ACCESS_GLOBAL_PAGE = ?e AND BX_COMBINED_ACCESS_GLOBAL_PAGE" using global_bit_agree[OF u(3)] by simp
  show ?thesis
    unfolding translate_linear_legacy_def Let_def regs w2 sum.case reread4_simps l1 g upd
    by (simp add: pa m pk regs)
qed

end
