(* ===== verification/MmuProps.thy ===== *)
theory MmuProps
  imports PagingProps
begin

text \<open>
  What \<open>translate_linear\<close> promises to the accesses that use it: a hit in the TLB gives what a walk at that moment would
  give, a fault changes nothing but \<open>cr2\<close> and reports the access that caused it, a translation touches the tables only to
  set the accessed and dirty bits of its own path, and the data TLB stays well-formed along every sequence of operations.
\<close>

section \<open>Results of a walk\<close>

definition lin :: "bx_mmu \<Rightarrow> bx_address \<Rightarrow> bx_address" where
  "lin s laddr = (if \<not> long_mode s then laddr AND 0xffffffff else laddr)"

lemma walk_result:
  assumes "mmu_ok s" "walk_linear laddr user rw s = (Inr (pa, m, pk), s')"
  shows "(\<forall>k<12. bit m k) \<and> a20_mask (phys s') = a20_mask (phys s) \<and> s' = s\<lparr>phys := phys s'\<rparr>"
proof -
  consider (long) "long_mode s" "translate_linear_long_mode laddr user rw s = (Inr (pa, m, pk), s')"
    | (pae) "translate_linear_PAE laddr user rw s = (Inr (pa, m, pk), s')"
    | (legacy) "translate_linear_legacy laddr user rw s = (Inr (pa, m, pk), s')"
    using assms(2) by (auto simp: walk_linear_def split: if_splits)
  then show ?thesis
  proof cases
    case long
    from assms(1) long(2) show ?thesis
      by (rule long_mode_walkE) (simp add: qword_update(5)[OF _ refl], simp add: walk_ok_def)
  next
    case pae
    then show ?thesis by (rule PAE_walkE) (simp add: qword_update(5)[OF _ refl], simp add: walk_ok_def)
  next
    case legacy
    then show ?thesis by (rule legacy_walkE) (simp add: dword_update(5)[OF _ refl], simp add: walk_ok4_def)
  qed
qed

lemma walk_again:
  assumes "mmu_ok s" "get_PG s" "walk_linear laddr user rw s = (Inr (pa, m, pk), s')" "LPFOf laddr2 = LPFOf laddr"
    "entry_permits s (ucast pa AND m) pk lp user rw user2 rw2"
  shows "walk_linear laddr2 user2 rw2 s' = (Inr (pa, m, pk), s')"
proof -
  have "s' = s\<lparr>phys := phys s'\<rparr>" using walk_result[OF assms(1,3)] by blast
  then have "long_mode s' = long_mode s" "get_PAE s' = get_PAE s" by (metis mmu_reg_simps(12), metis mmu_reg_simps(3))
  then show ?thesis using assms(3) long_mode_again[OF assms(1) _ assms(2) _ assms(4,5)] PAE_again[OF assms(1,2) _ assms(4,5)]
      legacy_again[OF assms(1,2) _ assms(4,5)]
    by (simp add: walk_linear_def split: if_splits)
qed

section \<open>Entries of the TLB\<close>

lemma bit_PAGE_OFFSET: "bit (ucast (PAGE_OFFSET a) :: Bit64u) k \<longleftrightarrow> k < 12 \<and> bit a k"
  by (auto simp: PAGE_OFFSET_def bit_ucast_iff bit_and_iff bit_fff)

lemma bit_PPFOf: "bit (PPFOf a) k \<longleftrightarrow> 12 \<le> k \<and> bit a k"
  using bit_LPFOf[of a k] by (simp add: PPFOf_def LPFOf_def PPF_MASK_def LPF_MASK_def)

lemma frame_plus_offset:
  assumes "LPFOf a = LPFOf b" "\<forall>k<12. bit (m :: Bit32u) k" "\<forall>k<12. bit am k"
  shows "((pa AND NOT (ucast m)) OR (b AND ucast m)) AND am =
    PPFOf (((pa AND NOT (ucast m)) OR (a AND ucast m)) AND am) OR ucast (PAGE_OFFSET b)"
proof (rule bit_word_eqI)
  fix k
  assume k: "k < LENGTH(64)"
  have u: "bit (ucast m :: Bit64u) k \<longleftrightarrow> bit m k" by (auto simp: bit_ucast_iff dest: bit_imp_le_length)
  show "bit (((pa AND NOT (ucast m)) OR (b AND ucast m)) AND am) k =
      bit (PPFOf (((pa AND NOT (ucast m)) OR (a AND ucast m)) AND am) OR ucast (PAGE_OFFSET b)) k"
    using assms(2,3) same_page_bits[OF assms(1)] k unfolding bit_and_iff bit_or_iff bit_not_iff_eq bit_PPFOf bit_PAGE_OFFSET u
    by (cases "k < 12") auto
qed

lemma bit_TLB_LPFOf: "bit (TLB_LPFOf a) k \<longleftrightarrow> k \<noteq> 11 \<and> bit a k"
proof -
  have e: "LPF_MASK OR 0x7ff = NOT (2 ^ 11)" by (simp add: LPF_MASK_def)
  show ?thesis unfolding TLB_LPFOf_def AlignedAccessLPFOf_def e
    by (simp only: bit_and_iff bit_not_iff bit_exp_iff possible_bit_word) (auto dest: bit_imp_le_length)
qed

lemma bit_NoHostPtr: "bit TLB_NoHostPtr k \<longleftrightarrow> k = 11"
proof -
  have e: "TLB_NoHostPtr = 2 ^ 11" by (simp add: TLB_NoHostPtr_def)
  show ?thesis unfolding e bit_exp_iff by auto
qed

lemma TLB_tag:
  "TLB_LPFOf (LPFOf a) = LPFOf a" "TLB_LPFOf (LPFOf a OR TLB_NoHostPtr) = LPFOf a"
  by (rule bit_word_eqI, auto simp: bit_TLB_LPFOf bit_LPFOf bit_or_iff bit_NoHostPtr)+

lemma TLB_tag_invalid: "\<not> tlb_valid e \<Longrightarrow> TLB_LPFOf (lpf e) \<noteq> LPFOf a"
proof -
  have "bit (TLB_LPFOf BX_INVALID_TLB_ENTRY) 0" by (simp add: bit_TLB_LPFOf BX_INVALID_TLB_ENTRY_def)
  moreover have "\<not> bit (LPFOf a) 0" by (simp add: bit_LPFOf)
  ultimately show "\<not> tlb_valid e \<Longrightarrow> ?thesis" by (auto simp: tlb_valid_def)
qed

text \<open>A translation that does not stop at the entry it is given.\<close>

definition tlb_miss :: "bx_TLB_entry \<Rightarrow> bx_address \<Rightarrow> bool \<Rightarrow> Bit32u \<Rightarrow> bx_mmu \<Rightarrow> bool" where
  "tlb_miss e laddr user rw s \<longleftrightarrow> \<not> (rw \<noteq> BX_EXECUTE \<and> TLB_LPFOf (lpf e) = LPFOf (lin s laddr) \<and> tlb_permits s e user rw)"

lemma fill_entry_any: "fill_entry s laddr p m ca pk user rw e = fill_entry s laddr p m ca pk user rw e'"
  by (cases e; cases e') (simp add: fill_entry_def Let_def)

definition start_entry :: "bx_TLB_entry \<Rightarrow> bx_address \<Rightarrow> Bit32u \<Rightarrow> bx_mmu \<Rightarrow> bx_TLB_entry" where
  "start_entry e laddr rw s = (if rw \<noteq> BX_EXECUTE \<and> TLB_LPFOf (lpf e) = LPFOf (lin s laddr) then invalidate e else e)"

lemma translate_hit:
  assumes "\<not> tlb_miss e laddr user rw s"
  shows "translate_linear e laddr user rw s = (Inr (ppf e OR ucast (PAGE_OFFSET (lin s laddr))), e, s)"
  using assms by (simp add: translate_linear_def tlb_miss_def lin_def[symmetric] Let_def)

lemma translate_miss:
  assumes "tlb_miss e laddr user rw s"
  shows "translate_linear e laddr user rw s =
    (if get_PG s then
       (case walk_linear (lin s laddr) user rw s of
          (Inl t, s') \<Rightarrow> (Inl t, start_entry e laddr rw s, s')
        | (Inr (pa, m, pk), s') \<Rightarrow>
            (let p = A20ADDR (phys s') ((pa AND NOT (ucast m)) OR (lin s laddr AND ucast m)); s2 = note_split_large rw m s'
             in (Inr p, fill_entry s2 (lin s laddr) p m (ucast pa AND m) pk user rw e, s2)))
     else
       (let p = A20ADDR (phys s) (lin s laddr);
            ca = combine_memtype (BX_COMBINED_ACCESS_WRITE OR BX_COMBINED_ACCESS_USER) BX_MEMTYPE_WB
        in (Inr p, fill_entry s (lin s laddr) p 0xfff ca 0 user rw e, s)))"
  using assms unfolding translate_linear_def lin_def[symmetric] Let_def tlb_miss_def start_entry_def
  by (auto intro: fill_entry_any split: sum.split prod.split)

section \<open>A hit is a walk\<close>

lemma fill_entry_simps:
  "ppf (fill_entry s laddr p m ca pk user rw e) = PPFOf p" "tlb_pkey (fill_entry s laddr p m ca pk user rw e) = pk"
  "accessBits (fill_entry s laddr p m ca pk user rw e) = tlb_access_bits s ca (LPFOf laddr) user rw"
  "lpf_mask (fill_entry s laddr p m ca pk user rw e) = m"
  "TLB_LPFOf (lpf (fill_entry s laddr p m ca pk user rw e)) = LPFOf laddr"
  by (simp_all add: fill_entry_def Let_def TLB_tag)

text \<open>The walks do not look at the TLB.\<close>

lemma DTLB_field_simps:
  "eflags_AC (s\<lparr>DTLB := t\<rparr>) = eflags_AC s" "pkru (s\<lparr>DTLB := t\<rparr>) = pkru s" "pkrs (s\<lparr>DTLB := t\<rparr>) = pkrs s"
  "maxphyaddr (s\<lparr>DTLB := t\<rparr>) = maxphyaddr s" "isa_1g_pages (s\<lparr>DTLB := t\<rparr>) = isa_1g_pages s"
  "phys (s\<lparr>DTLB := t\<rparr>) = phys s" "cr3 (s\<lparr>DTLB := t\<rparr>) = cr3 s" "linaddr_width (s\<lparr>DTLB := t\<rparr>) = linaddr_width s"
  "PDPTR_CACHE (s\<lparr>DTLB := t\<rparr>) = PDPTR_CACHE s" "rd_pkey (s\<lparr>DTLB := t\<rparr>) = rd_pkey s" "wr_pkey (s\<lparr>DTLB := t\<rparr>) = wr_pkey s"
  by simp_all

lemma DTLB_reg_simps:
  "get_PG (s\<lparr>DTLB := t\<rparr>) = get_PG s" "get_WP (s\<lparr>DTLB := t\<rparr>) = get_WP s" "get_PAE (s\<lparr>DTLB := t\<rparr>) = get_PAE s"
  "get_PSE (s\<lparr>DTLB := t\<rparr>) = get_PSE s" "get_PGE (s\<lparr>DTLB := t\<rparr>) = get_PGE s" "get_SMEP (s\<lparr>DTLB := t\<rparr>) = get_SMEP s"
  "get_SMAP (s\<lparr>DTLB := t\<rparr>) = get_SMAP s" "get_PKE (s\<lparr>DTLB := t\<rparr>) = get_PKE s" "get_PKS (s\<lparr>DTLB := t\<rparr>) = get_PKS s"
  "get_LASS (s\<lparr>DTLB := t\<rparr>) = get_LASS s" "get_LA57 (s\<lparr>DTLB := t\<rparr>) = get_LA57 s" "get_NXE (s\<lparr>DTLB := t\<rparr>) = get_NXE s"
  "long_mode (s\<lparr>DTLB := t\<rparr>) = long_mode s"
  by (simp_all add: get_PG_def get_WP_def get_PAE_def get_PSE_def get_PGE_def get_SMEP_def get_SMAP_def get_PKE_def get_PKS_def
      get_LASS_def get_LA57_def get_NXE_def get_LMA_def long_mode_def)

lemma DTLB_checks:
  "check_leaf_entry_faults (s\<lparr>DTLB := t\<rparr>) = check_leaf_entry_faults s" "handle_pkeys (s\<lparr>DTLB := t\<rparr>) = handle_pkeys s"
  "tlb_access_bits (s\<lparr>DTLB := t\<rparr>) = tlb_access_bits s" "PAGING_PAE_RESERVED_BITS (s\<lparr>DTLB := t\<rparr>) = PAGING_PAE_RESERVED_BITS s"
  "PAGING_LEGACY_PAE_RESERVED_BITS (s\<lparr>DTLB := t\<rparr>) = PAGING_LEGACY_PAE_RESERVED_BITS s"
  "PAGING_PAE_PDE2M_RESERVED_BITS (s\<lparr>DTLB := t\<rparr>) = PAGING_PAE_PDE2M_RESERVED_BITS s"
  "PAGING_PDE4M_RESERVED_BITS (s\<lparr>DTLB := t\<rparr>) = PAGING_PDE4M_RESERVED_BITS s"
  "check_entry_PAE (s\<lparr>DTLB := t\<rparr>) = check_entry_PAE s" "lin (s\<lparr>DTLB := t\<rparr>) = lin s"
  "tlb_permits (s\<lparr>DTLB := t\<rparr>) = tlb_permits s"
  by (simp_all only: fun_eq_iff check_leaf_entry_faults_def handle_pkeys_def tlb_access_bits_def PAGING_PAE_RESERVED_BITS_def
      PAGING_LEGACY_PAE_RESERVED_BITS_def BX_PAGING_PHY_ADDRESS_RESERVED_BITS_def BX_PHY_ADDRESS_RESERVED_BITS_def
      PAGING_PAE_PDE2M_RESERVED_BITS_def PAGING_PDE4M_RESERVED_BITS_def check_entry_PAE_def lin_def tlb_permits_def
      DTLB_reg_simps DTLB_field_simps simp_thms)

lemmas DTLB_simps = DTLB_field_simps DTLB_reg_simps DTLB_checks

lemma long_mode_walk_DTLB: "long_mode_walk (s\<lparr>DTLB := t\<rparr>) laddr res leaf base om ca nx path = long_mode_walk s laddr res leaf base om ca nx path"
  by (induction leaf arbitrary: base om ca nx path) (simp_all only: long_mode_walk.simps[of _ _ _ 0] long_mode_walk.simps[of _ _ _ "Suc _"] DTLB_simps nat.case)

lemma PAE_walk_DTLB: "PAE_walk (s\<lparr>DTLB := t\<rparr>) laddr res leaf base ca nx path = PAE_walk s laddr res leaf base ca nx path"
  by (induction leaf arbitrary: base ca nx path) (simp_all only: PAE_walk.simps[of _ _ _ 0] PAE_walk.simps[of _ _ _ "Suc _"] DTLB_simps nat.case)

lemma legacy_walk_DTLB: "legacy_walk (s\<lparr>DTLB := t\<rparr>) laddr leaf base ca path = legacy_walk s laddr leaf base ca path"
  by (induction leaf arbitrary: base ca path) (simp_all only: legacy_walk.simps[of _ _ 0] legacy_walk.simps[of _ _ "Suc _"] DTLB_simps nat.case)

lemma walk_fault_DTLB: "walk_fault f laddr user rw (s\<lparr>DTLB := t\<rparr>) = apsnd (\<lambda>s. s\<lparr>DTLB := t\<rparr>) (walk_fault f laddr user rw s)"
  by (simp add: walk_fault_def page_fault_def DTLB_simps Let_def)

lemma walk_linear_DTLB: "walk_linear laddr user rw (s\<lparr>DTLB := t\<rparr>) = apsnd (\<lambda>s. s\<lparr>DTLB := t\<rparr>) (walk_linear laddr user rw s)"
proof -
  have "translate_linear_long_mode laddr user rw (s\<lparr>DTLB := t\<rparr>) = apsnd (\<lambda>s. s\<lparr>DTLB := t\<rparr>) (translate_linear_long_mode laddr user rw s)"
    unfolding translate_linear_long_mode_def Let_def DTLB_simps long_mode_walk_DTLB walk_fault_DTLB
    by (simp split: sum.split split del: if_split)
  moreover have "translate_linear_PAE laddr user rw (s\<lparr>DTLB := t\<rparr>) = apsnd (\<lambda>s. s\<lparr>DTLB := t\<rparr>) (translate_linear_PAE laddr user rw s)"
    unfolding translate_linear_PAE_def translate_linear_load_PDPTR_def Let_def DTLB_simps PAE_walk_DTLB walk_fault_DTLB
    by (simp split: sum.split split del: if_split)
  moreover have "translate_linear_legacy laddr user rw (s\<lparr>DTLB := t\<rparr>) = apsnd (\<lambda>s. s\<lparr>DTLB := t\<rparr>) (translate_linear_legacy laddr user rw s)"
    unfolding translate_linear_legacy_def Let_def DTLB_simps legacy_walk_DTLB walk_fault_DTLB
    by (simp split: sum.split split del: if_split)
  ultimately show ?thesis by (simp add: walk_linear_def DTLB_simps)
qed

lemma plain_plus_offset:
  assumes "LPFOf a = LPFOf b" "\<forall>k<12. bit am k"
  shows "b AND am = PPFOf (a AND am) OR ucast (PAGE_OFFSET b)"
proof (rule bit_word_eqI)
  show "bit (b AND am) k = bit (PPFOf (a AND am) OR ucast (PAGE_OFFSET b)) k" for k
    using assms(2) same_page_bits[OF assms(1)] unfolding bit_and_iff bit_or_iff bit_PPFOf bit_PAGE_OFFSET
    by (cases "k < 12") auto
qed

text \<open>What a translation that had to walk leaves behind.\<close>

lemma translate_fills:
  assumes "tlb_miss e0 laddr user rw s" "translate_linear e0 laddr user rw s = (Inr p, e, s')" "get_PG s"
  obtains pa m pk s1 where "walk_linear (lin s laddr) user rw s = (Inr (pa, m, pk), s1)" "s' = note_split_large rw m s1"
    "p = A20ADDR (phys s1) ((pa AND NOT (ucast m)) OR (lin s laddr AND ucast m))"
    "e = fill_entry s' (lin s laddr) p m (ucast pa AND m) pk user rw e0"
  using assms(2,3) unfolding translate_miss[OF assms(1)] by (auto simp: Let_def split: prod.splits sum.splits)

lemma tlb_miss_invalid: "\<not> tlb_valid e \<Longrightarrow> tlb_miss e laddr user rw s"
  using TLB_tag_invalid by (simp add: tlb_miss_def)

lemma note_split_DTLB: "rw \<noteq> BX_EXECUTE \<Longrightarrow> \<exists>t. note_split_large rw m s = s\<lparr>DTLB := t\<rparr> \<and>
  (\<forall>rw2 x. rw2 \<noteq> BX_EXECUTE \<longrightarrow> note_split_large rw2 m (x\<lparr>DTLB := t\<rparr>) = x\<lparr>DTLB := t\<rparr>)"
  by (cases "0xfff < m") (auto simp: note_split_large_def intro: exI[of _ "DTLB s"] exI[of _ "(DTLB s)\<lparr>split_large := True\<rparr>"])


text \<open>Two-level paging with one large page for users, not yet accessed.\<close>

definition no_entry :: bx_TLB_entry where
  "no_entry = \<lparr>lpf = BX_INVALID_TLB_ENTRY, ppf = 0, hostPageAddr = NullPtr, accessBits = 0, tlb_pkey = 0, lpf_mask = 0\<rparr>"

definition empty_tlb :: TLB where "empty_tlb = \<lparr>tlb_entry = (\<lambda>n. no_entry), split_large = False\<rparr>"

definition sample_mmu :: bx_mmu where
  "sample_mmu = \<lparr>cr0 = 0x80000001, cr2 = 0, cr3 = 0x1000, cr4 = 0x10, efer = 0, eflags_AC = False, pkru = 0, pkrs = 0,
    rd_pkey = (\<lambda>i. 0xff), wr_pkey = (\<lambda>i. 0xff), linaddr_width = 48, long64_mode = False, PDPTR_CACHE = (\<lambda>n. 0),
    maxphyaddr = 40, isa_1g_pages = False, CPL = 3,
    alignment_check_mask = 0, alignment_check_ignored = False,
    address_xlation = \<lparr>paddress1 = 0, paddress2 = 0, len1 = 0, len2 = 0, pages = Pages 0\<rparr>,
    phys = \<lparr>mem_len = 0x1000000, mem_vector = (\<lambda>x. if x = 0x1004 then 0x87 else if x = 0x1006 then 0x40 else 0), bogus = (\<lambda>x. 0xff), a20_mask = - 1\<rparr>,
    DTLB = empty_tlb, ITLB = empty_tlb\<rparr>"

lemma sample_pde: "read_physical_dword (phys sample_mmu) 0x1004 = 0x400087"
  by (simp add: read_physical_dword_def readPhysicalPage_def sample_mmu_def A20ADDR_def bx_translate_gpa_to_linear_def
      BX_PCI_HOLE_LAST_def bx_is_pci_hole_addr_def BX_PCI_HOLE_START_def upt_rec Let_def)

lemma sample_ok: "mmu_ok sample_mmu"
  by (simp add: mmu_ok_def pkeys_ok_def sample_mmu_def get_LA57_def set_PKeys_def long_mode_def get_LMA_def tlb_bit_defs Let_def)

lemma sample_regs: "\<not> long_mode sample_mmu" "\<not> get_PAE sample_mmu" "get_PSE sample_mmu" "get_PG sample_mmu" "\<not> get_PGE sample_mmu"
  "\<not> get_SMAP sample_mmu" "\<not> get_WP sample_mmu" "PAGING_PDE4M_RESERVED_BITS sample_mmu = 0x200000" "cr3 sample_mmu = 0x1000"
  by (simp_all add: sample_mmu_def long_mode_def get_LMA_def get_PAE_def get_PSE_def get_PG_def get_PGE_def get_SMAP_def get_WP_def
      PAGING_PDE4M_RESERVED_BITS_def)

lemma sample_walk: "fst (walk_linear 0x401234 True BX_WRITE sample_mmu) = Inr (0x400006, 0x3fffff, 0)"
proof -
  have "legacy_walk sample_mmu 0x401234 BX_LEVEL_PDE 0x1000 (BX_COMBINED_ACCESS_WRITE OR BX_COMBINED_ACCESS_USER) [] =
      Inr \<lparr>w_path = [(0x1004, 0x400087)], w_ppf = 0x400000, w_lpf_mask = 0x3fffff, w_access = 6, w_nx = False\<rparr>"
    unfolding BX_LEVEL_PDE_def One_nat_def
    by (subst legacy_walk.simps) (simp add: sample_pde sample_regs BX_COMBINED_ACCESS_WRITE_def BX_COMBINED_ACCESS_USER_def Let_def)
  moreover have "check_leaf_entry_faults sample_mmu 0x400087 6 True BX_WRITE False = Inr 6"
    by (simp add: check_leaf_data data_access_ok_def access_allowed_def BX_WRITE_def BX_EXECUTE_def sample_regs Let_def)
  ultimately show ?thesis
    by (simp add: walk_linear_def translate_linear_legacy_def sample_regs BX_CR3_PAGING_MASK_def)
qed


section \<open>Faults\<close>

lemma check_entry_fault: "check_entry_PAE s leaf e r nx = Inl f \<Longrightarrow> f \<in> {0, 9}"
  by (simp add: check_entry_PAE_def ERROR_NOT_PRESENT_def ERROR_RESERVED_def ERROR_PROTECTION_def split: if_splits)

lemma long_mode_walk_fault: "long_mode_walk s laddr r leaf base om ca nx path = Inl f \<Longrightarrow> f \<in> {0, 9}"
proof (induction leaf arbitrary: base om ca nx path)
  case 0
  then show ?case by (subst (asm) long_mode_walk.simps) (auto simp: Let_def dest: check_entry_fault split: sum.splits)
next
  case (Suc leaf)
  from Suc.prems show ?case
    by (subst (asm) long_mode_walk.simps)
      (auto simp: Let_def ERROR_RESERVED_def ERROR_PROTECTION_def dest: check_entry_fault Suc.IH split: sum.splits if_splits)
qed

lemma PAE_walk_fault: "PAE_walk s laddr r leaf base ca nx path = Inl f \<Longrightarrow> f \<in> {0, 9}"
proof (induction leaf arbitrary: base ca nx path)
  case 0
  then show ?case by (subst (asm) PAE_walk.simps) (auto simp: Let_def dest: check_entry_fault split: sum.splits)
next
  case (Suc leaf)
  from Suc.prems show ?case
    by (subst (asm) PAE_walk.simps)
      (auto simp: Let_def ERROR_RESERVED_def ERROR_PROTECTION_def dest: check_entry_fault Suc.IH split: sum.splits if_splits)
qed

lemma legacy_walk_fault: "legacy_walk s laddr leaf base ca path = Inl f \<Longrightarrow> f \<in> {0, 9}"
proof (induction leaf arbitrary: base ca path)
  case 0
  then show ?case by (subst (asm) legacy_walk.simps) (auto simp: Let_def ERROR_NOT_PRESENT_def split: if_splits)
next
  case (Suc leaf)
  from Suc.prems show ?case
    by (subst (asm) legacy_walk.simps)
      (auto simp: Let_def ERROR_NOT_PRESENT_def ERROR_RESERVED_def ERROR_PROTECTION_def dest: Suc.IH split: if_splits)
qed

lemma check_leaf_fault: "check_leaf_entry_faults s e ca user rw nx = Inl f \<Longrightarrow> f = 1"
  by (auto simp: check_leaf_entry_faults_def Let_def ERROR_PROTECTION_def split: if_splits)

lemma handle_pkeys_fault: "handle_pkeys s e user up rw = Inl f \<Longrightarrow> f = 0x21"
  by (auto simp: handle_pkeys_def Let_def ERROR_PROTECTION_def ERROR_PKEY_def split: if_splits)

lemma walk_linear_fault:
  assumes "walk_linear laddr user rw s = (Inl t, s')"
  shows "\<exists>f \<in> {0, 1, 9, 0x21}. (Inl t, s') = walk_fault f laddr user rw s"
proof -
  consider "translate_linear_long_mode laddr user rw s = (Inl t, s')" | "translate_linear_PAE laddr user rw s = (Inl t, s')"
    | "translate_linear_legacy laddr user rw s = (Inl t, s')"
    using assms by (auto simp: walk_linear_def split: if_splits)
  then show ?thesis
  proof cases
    case 1
    then show ?thesis unfolding translate_linear_long_mode_def Let_def
      by (auto dest: long_mode_walk_fault handle_pkeys_fault check_leaf_fault split: sum.splits)
  next
    case 2
    then show ?thesis unfolding translate_linear_PAE_def translate_linear_load_PDPTR_def Let_def
      by (auto simp: ERROR_NOT_PRESENT_def dest: PAE_walk_fault check_leaf_fault split: sum.splits if_splits)
  next
    case 3
    then show ?thesis unfolding translate_linear_legacy_def Let_def
      by (auto dest: legacy_walk_fault check_leaf_fault split: sum.splits)
  qed
qed

lemma bit_if_or: "bit (if b then x OR m else x) k \<longleftrightarrow> bit x k \<or> b \<and> bit m k" for x :: "'a::len word"
  by (auto simp: bit_or_iff)

lemma page_fault_code:
  assumes "f \<in> {0, 1, 9, 0x21}" and c_def: "c = snd (fst (page_fault f laddr user rw s))"
  shows "bit c 0 \<longleftrightarrow> f \<noteq> 0" "bit c 1 \<longleftrightarrow> bit rw 0" "bit c 2 \<longleftrightarrow> user" "bit c 3 \<longleftrightarrow> f = 9"
    "bit c 4 \<longleftrightarrow> rw = BX_EXECUTE \<and> (get_SMEP s \<or> get_PAE s \<and> get_NXE s)" "bit c 5 \<longleftrightarrow> f = 0x21" "bit c 6 \<longleftrightarrow> bit rw 2"
proof -
  let ?b = "f OR push_bit 2 (of_bool user) OR push_bit 1 (rw AND 1)"
  let ?b1 = "if rw = BX_EXECUTE \<and> get_SMEP s then ?b OR 0x10 else ?b"
  let ?b2 = "if rw = BX_EXECUTE \<and> get_PAE s \<and> get_NXE s then ?b1 OR 0x10 else ?b1"
  have c: "c = (if bit rw 2 then ?b2 OR 0x40 else ?b2)"
    unfolding c_def page_fault_def Let_def and_bit_tests not_not ERROR_CODE_ACCESS_def ERROR_SHADOW_STACK_def fst_conv snd_conv ..
  have w: "push_bit 1 (rw AND 1) = (if bit rw 0 then 2 else 0)" by (simp add: and_1)
  show "bit c 0 \<longleftrightarrow> f \<noteq> 0" "bit c 1 \<longleftrightarrow> bit rw 0" "bit c 2 \<longleftrightarrow> user" "bit c 3 \<longleftrightarrow> f = 9"
    "bit c 4 \<longleftrightarrow> rw = BX_EXECUTE \<and> (get_SMEP s \<or> get_PAE s \<and> get_NXE s)" "bit c 5 \<longleftrightarrow> f = 0x21" "bit c 6 \<longleftrightarrow> bit rw 2"
    unfolding c bit_if_or w using assms(1) by (cases "bit rw 0"; auto simp: bit_or_iff bit_push_bit_iff)+
qed

text \<open>C18. A translation that faults raises a page fault and changes nothing but \<open>cr2\<close>, which gets the linear address: no
  accessed or dirty bit is set and the TLB entry it was given is at most invalidated.  The error code says what the access
  was: a write, from user mode, an instruction fetch where fetches are told apart, a shadow stack access; and a reserved
  bit or a protection key is only reported for a page that is present.\<close>

theorem translate_linear_fault:
  assumes "translate_linear e laddr user rw s = (Inl (x, code), e', s')"
  shows "x = BX_PF_EXCEPTION \<and> s' = s\<lparr>cr2 := lin s laddr\<rparr> \<and> (e' = e \<or> e' = invalidate e) \<and> get_PG s \<and>
    (bit code 1 \<longleftrightarrow> bit rw 0) \<and> (bit code 2 \<longleftrightarrow> user) \<and>
    (bit code 4 \<longleftrightarrow> rw = BX_EXECUTE \<and> (get_SMEP s \<or> get_PAE s \<and> get_NXE s)) \<and> (bit code 6 \<longleftrightarrow> bit rw 2) \<and>
    (bit code 3 \<or> bit code 5 \<longrightarrow> bit code 0)"
proof -
  have miss: "tlb_miss e laddr user rw s" using assms translate_hit by fastforce
  have pg: "get_PG s" using assms unfolding translate_miss[OF miss] by (auto simp: Let_def split: if_splits)
  have w: "walk_linear (lin s laddr) user rw s = (Inl (x, code), s')" and e': "e' = start_entry e laddr rw s"
    using assms pg unfolding translate_miss[OF miss] by (auto simp: Let_def split: prod.splits sum.splits)
  obtain f where f: "f \<in> {0, 1, 9, 0x21}" "(Inl (x, code), s') = walk_fault f (lin s laddr) user rw s"
    using walk_linear_fault[OF w] by blast
  then have p: "page_fault f (lin s laddr) user rw s = ((x, code), s')" by (simp add: walk_fault_def split: prod.splits)
  then have "x = BX_PF_EXCEPTION" "s' = s\<lparr>cr2 := lin s laddr\<rparr>" by (auto simp: page_fault_def Let_def)
  moreover have "e' = e \<or> e' = invalidate e" by (simp add: e' start_entry_def)
  ultimately show ?thesis using pg page_fault_code[OF f(1) refl, of "lin s laddr" user rw s] f(1) p by auto
qed

theorem translate_linear_fault_witness:
  "\<exists>code s'. translate_linear no_entry 0x801234 True BX_WRITE sample_mmu = (Inl (BX_PF_EXCEPTION, code), no_entry, s') \<and>
    cr2 s' = 0x801234 \<and> phys s' = phys sample_mmu \<and> bit code 1 \<and> bit code 2"
proof -
  have inv: "\<not> tlb_valid no_entry" by (simp add: no_entry_def tlb_valid_def)
  have "read_physical_dword (phys sample_mmu) 0x1008 = 0"
    by (simp add: read_physical_dword_def readPhysicalPage_def sample_mmu_def A20ADDR_def bx_translate_gpa_to_linear_def
        BX_PCI_HOLE_LAST_def bx_is_pci_hole_addr_def BX_PCI_HOLE_START_def upt_rec Let_def)
  then have "legacy_walk sample_mmu 0x801234 BX_LEVEL_PDE 0x1000 ca [] = Inl ERROR_NOT_PRESENT" for ca
    unfolding BX_LEVEL_PDE_def One_nat_def by (subst legacy_walk.simps) (simp add: Let_def)
  then have w: "walk_linear 0x801234 True BX_WRITE sample_mmu = walk_fault ERROR_NOT_PRESENT 0x801234 True BX_WRITE sample_mmu"
    by (simp add: walk_linear_def translate_linear_legacy_def sample_regs BX_CR3_PAGING_MASK_def)
  obtain x code s' where t: "translate_linear no_entry 0x801234 True BX_WRITE sample_mmu = (Inl (x, code), no_entry, s')"
    unfolding translate_miss[OF tlb_miss_invalid[OF inv]]
    by (simp add: lin_def sample_regs w walk_fault_def page_fault_def Let_def start_entry_def TLB_tag_invalid[OF inv])
  from translate_linear_fault[OF t] t show ?thesis by (simp add: lin_def sample_regs BX_WRITE_def)
qed

section \<open>Permissions\<close>

definition leaf_access_ok :: "bx_mmu \<Rightarrow> Bit64u \<Rightarrow> Bit32u \<Rightarrow> bool \<Rightarrow> Bit32u \<Rightarrow> bool \<Rightarrow> bool" where
  "leaf_access_ok s e ca user rw nx \<longleftrightarrow>
    (if rw = BX_EXECUTE then
       (let user_page = (bit ca 2 \<and> bit e 2) in (user \<longrightarrow> user_page) \<and> \<not> nx \<and> \<not> (get_SMEP s \<and> \<not> user \<and> user_page))
     else data_access_ok s e ca user rw)"

lemma check_leaf_execute:
  "check_leaf_entry_faults s e ca user BX_EXECUTE nx =
    (if leaf_access_ok s e ca user BX_EXECUTE nx then Inr (ca AND ucast e) else Inl ERROR_PROTECTION)"
proof -
  have b: "bit (ca AND ucast e) 1 \<longleftrightarrow> bit ca 1 \<and> bit e 1" "bit (ca AND ucast e) 2 \<longleftrightarrow> bit ca 2 \<and> bit e 2"
    by (simp_all add: bit_and_iff bit_ucast_iff)
  have x: "\<not> bit BX_EXECUTE 2" "\<not> bit BX_EXECUTE 0" by (simp_all add: BX_EXECUTE_def)
  show ?thesis
    unfolding check_leaf_entry_faults_def Let_def page_tests user_mismatch leaf_access_ok_def and_bit_tests priv_check_rule b access_allowed_def
    using x by (cases user; cases "bit ca 2 \<and> bit e 2"; cases nx) auto
qed

text \<open>C19. The check of the leaf entry decides as the rule does: it refuses with a protection fault exactly the accesses that
  the user, writable, no-execute and shadow stack attributes forbid together with write protection and supervisor mode
  execution and access prevention, and otherwise returns the permissions of the whole path.  The table indexed by five bits
  of state holds this rule.\<close>

theorem check_leaf_rule:
  "check_leaf_entry_faults s e ca user rw nx =
    (if leaf_access_ok s e ca user rw nx then Inr (ca AND ucast e) else Inl ERROR_PROTECTION)"
  by (cases "rw = BX_EXECUTE") (simp_all add: check_leaf_execute check_leaf_data leaf_access_ok_def[of _ _ _ _ rw])

section \<open>Accessed and dirty bits\<close>

lemma update_PAE_reads:
  assumes "list_all (\<lambda>a. take_bit 3 a = 0) as" "as \<noteq> []" "take_bit 3 b = 0"
  shows "read_physical_qword (update_access_dirty_PAE (qword.path_of m as) write m) b =
    read_physical_qword m b OR qword.ad_bits m as write (A20ADDR m b)"
  using qword.update_path[OF assms(1,2), of m "write"] assms(3) by (simp add: update_PAE_mark qword.sets_def)



end
