(* ===== verification/SegProps.thy ===== *)
theory SegProps
  imports Segment MmuProps
begin

text \<open>
  The checks on type and limit and the flags that remember them: address generation through a segment register accepts
  exactly the accesses that the descriptor allows, counted in integers.
\<close>

section \<open>The rule\<close>

definition readable_type :: "Bit8u \<Rightarrow> bool" where "readable_type t \<longleftrightarrow> \<not> IS_CODE_SEGMENT t \<or> IS_CODE_SEGMENT_READABLE t"
definition writable_type :: "Bit8u \<Rightarrow> bool" where "writable_type t \<longleftrightarrow> IS_DATA_SEGMENT t \<and> IS_DATA_SEGMENT_WRITEABLE t"
definition expands_down :: "Bit8u \<Rightarrow> bool" where "expands_down t \<longleftrightarrow> IS_DATA_SEGMENT t \<and> IS_DATA_SEGMENT_EXPAND_DOWN t"

definition within_limit :: "bx_descriptor_t \<Rightarrow> nat \<Rightarrow> nat \<Rightarrow> bool" where
  "within_limit d offset len \<longleftrightarrow>
    (if expands_down (d_type d) then unat (d_limit_scaled d) < offset \<and> offset + len \<le> (if d_d_b d then 2 ^ 32 else 2 ^ 16)
     else offset + len \<le> unat (d_limit_scaled d) + 1)"

text \<open>A segment that is the whole address space and does not expand down accepts every offset, also an access that wraps around.\<close>

definition flat_4G :: "bx_descriptor_t \<Rightarrow> bool" where
  "flat_4G d \<longleftrightarrow> \<not> expands_down (d_type d) \<and> d_limit_scaled d = 0xffffffff \<and> d_base d = 0"

definition segment_allows :: "(Bit8u \<Rightarrow> bool) \<Rightarrow> bx_descriptor_t \<Rightarrow> nat \<Rightarrow> nat \<Rightarrow> bool" where
  "segment_allows typ d offset len \<longleftrightarrow> d_valid d \<noteq> 0 \<and> d_p d \<and> typ (d_type d) \<and> (flat_4G d \<or> within_limit d offset len)"

section \<open>The remembered flags\<close>

definition flags_ok :: "bx_descriptor_t \<Rightarrow> bool" where
  "flags_ok d \<longleftrightarrow> unat (d_type d) < 16 \<and>
    (\<forall>flag\<in>{SegAccessROK, SegAccessROK4G}. d_valid d AND flag \<noteq> 0 \<longrightarrow>
      d_p d \<and> readable_type (d_type d) \<and> \<not> expands_down (d_type d) \<and> 63 \<le> d_limit_scaled d) \<and>
    (\<forall>flag\<in>{SegAccessWOK, SegAccessWOK4G}. d_valid d AND flag \<noteq> 0 \<longrightarrow>
      d_p d \<and> writable_type (d_type d) \<and> \<not> expands_down (d_type d) \<and> 63 \<le> d_limit_scaled d) \<and>
    (\<forall>flag\<in>{SegAccessROK4G, SegAccessWOK4G}. d_valid d AND flag \<noteq> 0 \<longrightarrow> flat_4G d)"

lemma types_16: "unat t < 16 \<Longrightarrow> t \<in> {0, 1, 2, 3, 4, 5, 6, 7, 8, 9, 10, 11, 12, 13, 14, 15 :: Bit8u}"
proof -
  assume "unat t < 16"
  then have "unat t \<in> set [0..<16]" by simp
  then have "(of_nat (unat t) :: Bit8u) \<in> of_nat ` set [0..<16]" by (rule imageI)
  then show ?thesis by (simp add: upt_rec)
qed

lemmas type_tests = readable_type_def writable_type_def expands_down_def IS_DATA_SEGMENT_def IS_CODE_SEGMENT_def IS_CODE_SEGMENT_READABLE_def
  IS_DATA_SEGMENT_WRITEABLE_def IS_DATA_SEGMENT_EXPAND_DOWN_def

lemma read_types:
  assumes "unat t < 16"
  shows "t \<in> {0, 1, 2, 3, 10, 11, 14, 15} \<longleftrightarrow> readable_type t \<and> \<not> expands_down t" "t \<in> {4, 5, 6, 7} \<longleftrightarrow> expands_down t"
    "t \<in> {8, 9, 12, 13} \<longleftrightarrow> \<not> readable_type t" "t \<in> {2, 3} \<longleftrightarrow> writable_type t \<and> \<not> expands_down t" "t \<in> {6, 7} \<longleftrightarrow> writable_type t \<and> expands_down t"
    "t \<in> {0, 1, 4, 5, 8, 9, 10, 11, 12, 13, 14, 15} \<longleftrightarrow> \<not> writable_type t" "writable_type t \<Longrightarrow> readable_type t"
  using types_16[OF assms] by (elim insertE emptyE; simp add: type_tests)+

lemma last_offset: "0 < unat len \<Longrightarrow> unat (len - 1) = unat len - 1" for len :: Bit32u
  by (cases "len = 0") (simp_all add: unat_minus_one)

lemma expands_readable: "expands_down t \<Longrightarrow> readable_type t" by (simp add: type_tests)

text \<open>The comparisons of the code on 32-bit words are comparisons of integers.\<close>

lemma limit_beyond_exact:
  assumes "0 < unat len" "\<not> expands_down (d_type d)"
  shows "limit_beyond d offset (len - 1) \<longleftrightarrow> \<not> within_limit d (unat offset) (unat len)"
proof -
  note l = last_offset[OF assms(1)]
  show ?thesis
  proof (cases "len - 1 \<le> d_limit_scaled d")
    case True
    then have "unat (d_limit_scaled d - (len - 1)) = unat (d_limit_scaled d) - (unat len - 1)" using l by (simp add: unat_sub)
    then show ?thesis using assms l True unfolding limit_beyond_def within_limit_def word_less_nat_alt word_le_nat_alt by auto
  next
    case False
    then show ?thesis using assms l unfolding limit_beyond_def within_limit_def word_less_nat_alt word_le_nat_alt by auto
  qed
qed

lemma expand_down_exact:
  assumes "0 < unat len" "expands_down (d_type d)"
  shows "expand_down_beyond d offset (len - 1) \<longleftrightarrow> \<not> within_limit d (unat offset) (unat len)"
proof -
  note l = last_offset[OF assms(1)]
  define u :: Bit32u where "u = (if d_d_b d then 0xffffffff else 0x0000ffff)"
  have u: "unat u + 1 = (if d_d_b d then 2 ^ 32 else 2 ^ 16)" by (simp add: u_def)
  have "expand_down_beyond d offset (len - 1) \<longleftrightarrow> \<not> (unat (d_limit_scaled d) < unat offset \<and> unat offset + unat len \<le> unat u + 1)"
  proof (cases "offset \<le> u")
    case True
    then have "unat (u - offset) = unat u - unat offset" by (simp add: unat_sub)
    then show ?thesis using assms(1) l True
      unfolding expand_down_beyond_def Let_def u_def[symmetric] word_less_nat_alt word_le_nat_alt by auto
  next
    case False
    then show ?thesis using assms(1) l
      unfolding expand_down_beyond_def Let_def u_def[symmetric] word_less_nat_alt word_le_nat_alt by auto
  qed
  then show ?thesis unfolding u using assms(2) by (simp add: within_limit_def)
qed

lemma flag_limit:
  assumes "63 \<le> d_limit_scaled d" "0 < unat len" "unat len \<le> 64" "\<not> expands_down (d_type d)"
  shows "offset \<le> d_limit_scaled d - len + 1 \<longleftrightarrow> within_limit d (unat offset) (unat len)"
proof -
  note l = last_offset[OF assms(2)]
  have "len - 1 \<le> d_limit_scaled d" using assms(1,3) l by (simp add: word_le_nat_alt)
  then have "unat (d_limit_scaled d - (len - 1)) = unat (d_limit_scaled d) - (unat len - 1)" using l by (simp add: unat_sub)
  moreover have e: "d_limit_scaled d - len + 1 = d_limit_scaled d - (len - 1)" by simp
  moreover have "unat len - 1 \<le> unat (d_limit_scaled d)" using assms(1,3) by (simp add: word_le_nat_alt)
  ultimately show ?thesis using assms(2,4) unfolding e word_le_nat_alt within_limit_def by auto
qed

section \<open>Checks\<close>

text \<open>What a check of the slow path answers, and what it leaves behind.\<close>

lemma set_seg_valid_simps [simp]:
  "d_valid (cache (set_seg_valid f seg)) = d_valid (cache seg) OR f" "d_type (cache (set_seg_valid f seg)) = d_type (cache seg)"
  "d_p (cache (set_seg_valid f seg)) = d_p (cache seg)" "d_limit_scaled (cache (set_seg_valid f seg)) = d_limit_scaled (cache seg)"
  "d_base (cache (set_seg_valid f seg)) = d_base (cache seg)" "selector (set_seg_valid f seg) = selector seg"
  "d_dpl (cache (set_seg_valid f seg)) = d_dpl (cache seg)" "d_segment (cache (set_seg_valid f seg)) = d_segment (cache seg)"
  by (simp_all add: set_seg_valid_def)

lemma set_seg_valid_0: "set_seg_valid 0 seg = seg" by (simp add: set_seg_valid_def)

lemma flat_set [simp]: "flat_4G (cache (set_seg_valid f seg)) = flat_4G (cache seg)" by (simp add: flat_4G_def)

lemma seg_flag_bits:
  "d_valid d AND SegAccessROK \<noteq> 0 \<longleftrightarrow> bit (d_valid d) 1" "d_valid d AND SegAccessWOK \<noteq> 0 \<longleftrightarrow> bit (d_valid d) 2"
  "d_valid d AND SegAccessROK4G \<noteq> 0 \<longleftrightarrow> bit (d_valid d) 3" "d_valid d AND SegAccessWOK4G \<noteq> 0 \<longleftrightarrow> bit (d_valid d) 4"
  using and_exp_eq_0_iff_not_bit[of "d_valid d" 1] and_exp_eq_0_iff_not_bit[of "d_valid d" 2] and_exp_eq_0_iff_not_bit[of "d_valid d" 3]
    and_exp_eq_0_iff_not_bit[of "d_valid d" 4]
  by (simp_all add: SegAccessROK_def SegAccessWOK_def SegAccessROK4G_def SegAccessWOK4G_def)

lemma flags_ok_iff:
  "flags_ok d \<longleftrightarrow> unat (d_type d) < 16 \<and>
    (bit (d_valid d) 1 \<or> bit (d_valid d) 3 \<longrightarrow> d_p d \<and> readable_type (d_type d) \<and> \<not> expands_down (d_type d) \<and> 63 \<le> d_limit_scaled d) \<and>
    (bit (d_valid d) 2 \<or> bit (d_valid d) 4 \<longrightarrow> d_p d \<and> writable_type (d_type d) \<and> \<not> expands_down (d_type d) \<and> 63 \<le> d_limit_scaled d) \<and>
    (bit (d_valid d) 3 \<or> bit (d_valid d) 4 \<longrightarrow> flat_4G d)"
  unfolding flags_ok_def by (auto simp: seg_flag_bits)

lemma new_flags:
  assumes "flags_ok (cache seg)" "d_p (cache seg)" "readable_type (d_type (cache seg))" "\<not> expands_down (d_type (cache seg))" "63 \<le> d_limit_scaled (cache seg)"
    "bit f 2 \<or> bit f 4 \<longrightarrow> writable_type (d_type (cache seg))" "bit f 3 \<or> bit f 4 \<longrightarrow> flat_4G (cache seg)"
  shows "flags_ok (cache (set_seg_valid f seg))"
  using assms by (auto simp: flags_ok_iff bit_or_iff)

lemma flag_values:
  "SegAccessROK OR SegAccessWOK OR SegAccessROK4G OR SegAccessWOK4G = 0x1e" "SegAccessROK OR SegAccessWOK = 6" "SegAccessROK OR SegAccessROK4G = 0xa"
  by (simp_all add: SegAccessROK_def SegAccessWOK_def SegAccessROK4G_def SegAccessWOK4G_def)

lemma read_checks:
  assumes "flags_ok (cache seg)" "0 < unat len"
  shows "\<exists>f. read_virtual_checks seg offset len align =
      (if misaligned seg offset (len - 1) align then (Inl (BX_GP_EXCEPTION, 0), seg)
       else (Inr (segment_allows readable_type (cache seg) (unat offset) (unat len)), set_seg_valid f seg)) \<and>
    flags_ok (cache (set_seg_valid f seg))"
proof -
  let ?d = "cache seg"
  have t: "unat (d_type ?d) < 16" using assms(1) by (simp add: flags_ok_iff)
  note l = limit_beyond_exact[OF assms(2), of ?d offset] expand_down_exact[OF assms(2), of ?d offset]
  have nf: "flags_ok (cache (set_seg_valid 0 seg))" using assms(1) by (simp add: set_seg_valid_0)
  show ?thesis
  proof (cases "misaligned seg offset (len - 1) align \<or> d_valid ?d = 0 \<or> \<not> d_p ?d \<or> \<not> readable_type (d_type ?d) \<or> expands_down (d_type ?d)")
    case True
    then show ?thesis using nf l(2) expands_readable[of "d_type ?d"] unfolding read_virtual_checks_def Let_def read_types[OF t]
      by (intro exI[of _ 0]) (auto simp: segment_allows_def set_seg_valid_0 flat_4G_def)
  next
    case False
    show ?thesis
    proof (cases "d_limit_scaled ?d = 0xffffffff \<and> d_base ?d = 0")
      case True
      have "flags_ok (cache (set_seg_valid 0xa seg))"
        by (rule new_flags[OF assms(1)]) (use False True in \<open>simp_all add: flat_4G_def\<close>)
      then show ?thesis using False True unfolding read_virtual_checks_def Let_def read_types[OF t] flag_values
        by (intro exI[of _ "0xa"]) (simp add: segment_allows_def flat_4G_def)
    next
      case nflat: False
      show ?thesis
      proof (cases "within_limit ?d (unat offset) (unat len) \<and> 63 \<le> d_limit_scaled ?d")
        case True
        have "flags_ok (cache (set_seg_valid SegAccessROK seg))"
          by (rule new_flags[OF assms(1)]) (use False True in \<open>simp_all add: SegAccessROK_def\<close>)
        then show ?thesis using False True nflat l(1) unfolding read_virtual_checks_def Let_def read_types[OF t] flag_values
          by (intro exI[of _ SegAccessROK]) (auto simp: segment_allows_def flat_4G_def BX_MAX_MEM_ACCESS_LENGTH_def)
      next
        case small: False
        then show ?thesis using False nflat l(1) nf unfolding read_virtual_checks_def Let_def read_types[OF t]
          by (intro exI[of _ 0]) (auto simp: segment_allows_def flat_4G_def BX_MAX_MEM_ACCESS_LENGTH_def set_seg_valid_0)
      qed
    qed
  qed
qed

lemma write_checks:
  assumes "flags_ok (cache seg)" "0 < unat len"
  shows "\<exists>f. write_virtual_checks seg offset len align =
      (if misaligned seg offset (len - 1) align then (Inl (BX_GP_EXCEPTION, 0), seg)
       else (Inr (segment_allows writable_type (cache seg) (unat offset) (unat len)), set_seg_valid f seg)) \<and>
    flags_ok (cache (set_seg_valid f seg))"
proof -
  let ?d = "cache seg"
  have t: "unat (d_type ?d) < 16" using assms(1) by (simp add: flags_ok_iff)
  note l = limit_beyond_exact[OF assms(2), of ?d offset] expand_down_exact[OF assms(2), of ?d offset]
  have nf: "flags_ok (cache (set_seg_valid 0 seg))" using assms(1) by (simp add: set_seg_valid_0)
  show ?thesis
  proof (cases "misaligned seg offset (len - 1) align \<or> d_valid ?d = 0 \<or> \<not> d_p ?d \<or> \<not> writable_type (d_type ?d) \<or> expands_down (d_type ?d)")
    case True
    then show ?thesis using nf l(2) unfolding write_virtual_checks_def Let_def read_types[OF t]
      by (intro exI[of _ 0]) (auto simp: segment_allows_def set_seg_valid_0 flat_4G_def)
  next
    case False
    then have rd: "readable_type (d_type ?d)" using read_types(7)[OF t] by blast
    show ?thesis
    proof (cases "d_limit_scaled ?d = 0xffffffff \<and> d_base ?d = 0")
      case True
      have "flags_ok (cache (set_seg_valid 0x1e seg))"
        by (rule new_flags[OF assms(1)]) (use False True rd in \<open>simp_all add: flat_4G_def\<close>)
      then show ?thesis using False True unfolding write_virtual_checks_def Let_def read_types[OF t] flag_values
        by (intro exI[of _ "0x1e"]) (simp add: segment_allows_def flat_4G_def)
    next
      case nflat: False
      show ?thesis
      proof (cases "within_limit ?d (unat offset) (unat len) \<and> 63 \<le> d_limit_scaled ?d")
        case True
        have "flags_ok (cache (set_seg_valid 6 seg))"
          by (rule new_flags[OF assms(1)]) (use False True rd in \<open>simp_all\<close>)
        then show ?thesis using False True nflat l(1) unfolding write_virtual_checks_def Let_def read_types[OF t] flag_values
          by (intro exI[of _ 6]) (auto simp: segment_allows_def flat_4G_def BX_MAX_MEM_ACCESS_LENGTH_def)
      next
        case small: False
        then show ?thesis using False nflat l(1) nf unfolding write_virtual_checks_def Let_def read_types[OF t]
          by (intro exI[of _ 0]) (auto simp: segment_allows_def flat_4G_def BX_MAX_MEM_ACCESS_LENGTH_def set_seg_valid_0)
      qed
    qed
  qed
qed

lemma execute_checks:
  assumes "flags_ok (cache seg)" "0 < unat len"
  shows "\<exists>f. execute_virtual_checks seg offset len = (segment_allows (\<lambda>_. True) (cache seg) (unat offset) (unat len) \<and>
      (flat_4G (cache seg) \<longrightarrow> readable_type (d_type (cache seg)) \<or> within_limit (cache seg) (unat offset) (unat len)), set_seg_valid f seg) \<and>
    flags_ok (cache (set_seg_valid f seg))"
proof -
  let ?d = "cache seg"
  have t: "unat (d_type ?d) < 16" using assms(1) by (simp add: flags_ok_iff)
  note l = limit_beyond_exact[OF assms(2), of ?d offset] expand_down_exact[OF assms(2), of ?d offset]
  show ?thesis
  proof (cases "readable_type (d_type ?d)")
    case True
    obtain f where f: "read_virtual_checks seg offset len False = (Inr (segment_allows readable_type ?d (unat offset) (unat len)), set_seg_valid f seg)"
      "flags_ok (cache (set_seg_valid f seg))"
      using read_checks[OF assms, of offset False] by (auto simp: misaligned_def)
    have "apfst Inr (execute_virtual_checks seg offset len) = read_virtual_checks seg offset len False"
      unfolding execute_virtual_checks_def read_virtual_checks_def Let_def read_types[OF t] misaligned_def using True by auto
    then show ?thesis using f True by (cases "execute_virtual_checks seg offset len") (auto simp: segment_allows_def)
  next
    case False
    then have "\<not> expands_down (d_type ?d)" using expands_readable by blast
    then have "execute_virtual_checks seg offset len = (d_valid ?d \<noteq> 0 \<and> d_p ?d \<and> within_limit ?d (unat offset) (unat len), seg)"
      unfolding execute_virtual_checks_def Let_def read_types[OF t] using False l(1) by auto
    then show ?thesis using False assms(1) by (intro exI[of _ 0]) (auto simp: segment_allows_def set_seg_valid_0)
  qed
qed

text \<open>Where a flag answers, the check would have answered the same.\<close>

lemma flag_answers:
  assumes "flags_ok d" "0 < unat len" "unat len \<le> 64"
  shows "d_valid d AND SegAccessROK4G \<noteq> 0 \<Longrightarrow> segment_allows readable_type d (unat offset) (unat len) \<and> d_base d = 0"
    "d_valid d AND SegAccessWOK4G \<noteq> 0 \<Longrightarrow> segment_allows writable_type d (unat offset) (unat len) \<and> d_base d = 0"
    "d_valid d AND SegAccessROK \<noteq> 0 \<Longrightarrow> offset \<le> d_limit_scaled d - len + 1 \<Longrightarrow> segment_allows readable_type d (unat offset) (unat len)"
    "d_valid d AND SegAccessWOK \<noteq> 0 \<Longrightarrow> offset \<le> d_limit_scaled d - len + 1 \<Longrightarrow> segment_allows writable_type d (unat offset) (unat len)"
  using assms flag_limit[of d len offset]
  by (auto simp: flags_ok_iff seg_flag_bits segment_allows_def flat_4G_def)

lemma sregs_idem: "s\<lparr>sregs := (sregs s)(n := sregs s n)\<rparr> = s" by simp

definition set_flags :: "nat \<Rightarrow> Bit32u \<Rightarrow> bx_sys \<Rightarrow> bx_sys" where
  "set_flags n f s = s\<lparr>sregs := (sregs s)(n := set_seg_valid f (sregs s n))\<rparr>"

lemma set_flags_0: "set_flags n 0 s = s" by (simp add: set_flags_def set_seg_valid_0)

lemma agen_checked:
  assumes f: "flags_ok (cache (sregs s n))" "0 < unat len" "unat len \<le> 64"
    and c: "checks = read_virtual_checks \<and> typ = readable_type \<and> flag4G = SegAccessROK4G \<and> flag = SegAccessROK \<or>
      checks = write_virtual_checks \<and> typ = writable_type \<and> flag4G = SegAccessWOK4G \<and> flag = SegAccessWOK"
  defines "d \<equiv> cache (sregs s n)"
  shows "\<exists>k. snd (checked_agen32 checks flag4G flag al n offset len s) = set_flags n k s \<and> flags_ok (cache (set_seg_valid k (sregs s n))) \<and>
    (fst (checked_agen32 checks flag4G flag al n offset len s) = Inl (BX_GP_EXCEPTION, 0) \<and> misaligned (sregs s n) offset (len - 1) al \<or>
     fst (checked_agen32 checks flag4G flag al n offset len s) =
      (if segment_allows typ d (unat offset) (unat len) then Inr (get_laddr32 n offset s) else Inl (int_number n, 0)))"
proof -
  consider "d_valid d AND flag4G \<noteq> 0" | "d_valid d AND flag4G = 0" "d_valid d AND flag \<noteq> 0" "offset \<le> d_limit_scaled d - len + 1"
    | "d_valid d AND flag4G = 0" "\<not> (d_valid d AND flag \<noteq> 0 \<and> offset \<le> d_limit_scaled d - len + 1)" by blast
  then show ?thesis
  proof cases
    case 1
    then have "segment_allows typ d (unat offset) (unat len) \<and> d_base d = 0" using flag_answers(1,2)[OF f, of offset] c unfolding d_def by blast
    then show ?thesis using 1 f(1) unfolding d_def
      by (intro exI[of _ 0]) (simp add: checked_agen32_def Let_def set_flags_0 set_seg_valid_0 get_laddr32_def)
  next
    case 2
    then have "segment_allows typ d (unat offset) (unat len)" using flag_answers(3,4)[OF f, of offset] c unfolding d_def by blast
    then show ?thesis using 2 f(1) unfolding d_def
      by (intro exI[of _ 0]) (simp add: checked_agen32_def Let_def set_flags_0 set_seg_valid_0)
  next
    case 3
    obtain k where k: "checks (sregs s n) offset len al =
      (if misaligned (sregs s n) offset (len - 1) al then (Inl (BX_GP_EXCEPTION, 0), sregs s n)
       else (Inr (segment_allows typ d (unat offset) (unat len)), set_seg_valid k (sregs s n)))" "flags_ok (cache (set_seg_valid k (sregs s n)))"
      using read_checks[OF f(1,2), of offset al] write_checks[OF f(1,2), of offset al] c unfolding d_def by blast
    have l: "get_laddr32 n offset (set_flags n k s) = get_laddr32 n offset s" by (simp add: get_laddr32_def set_flags_def)
    show ?thesis
    proof (cases "misaligned (sregs s n) offset (len - 1) al")
      case True
      then show ?thesis using 3 k f(1) unfolding d_def
        by (intro exI[of _ 0]) (auto simp add: checked_agen32_def Let_def set_flags_0 set_seg_valid_0)
    next
      case False
      then show ?thesis using 3 k l unfolding d_def
        by (intro exI[of _ k]) (auto simp add: checked_agen32_def Let_def set_flags_def[symmetric])
    qed
  qed
qed

section \<open>Address generation\<close>

text \<open>C22. Outside 64-bit mode an access through a segment register is accepted exactly when the descriptor is present, of a type
  that allows it, and every byte lies within the limit (above it for a segment that expands down), counted in integers;
  the remembered flags never change the answer.  The one exception is a flat 4G segment, which lets an access wrap
  around the end of the address space.  A refusal raises a stack fault for SS and a general protection fault otherwise, and
  nothing but the flags of the segment changes.\<close>

theorem agen_exact:
  assumes "flags_ok (cache (sregs s n))" "0 < unat len" "unat len \<le> 64"
  shows "fst (agen_read32 n offset len s) =
      (if segment_allows readable_type (cache (sregs s n)) (unat offset) (unat len) then Inr (get_laddr32 n offset s) else Inl (int_number n, 0)) \<and>
    fst (agen_write32 n offset len s) =
      (if segment_allows writable_type (cache (sregs s n)) (unat offset) (unat len) then Inr (get_laddr32 n offset s) else Inl (int_number n, 0)) \<and>
    (\<exists>k. snd (agen_read32 n offset len s) = set_flags n k s) \<and> (\<exists>k. snd (agen_write32 n offset len s) = set_flags n k s)"
proof -
  have m: "\<not> misaligned (sregs s n) offset (len - 1) False" by (simp add: misaligned_def)
  obtain r k where "snd (agen_read32 n offset len s) = set_flags n k s"
    "fst (agen_read32 n offset len s) = (if segment_allows readable_type (cache (sregs s n)) (unat offset) (unat len)
       then Inr (get_laddr32 n offset s) else Inl (int_number n, 0))"
    using agen_checked[OF assms, of read_virtual_checks readable_type SegAccessROK4G SegAccessROK False offset] m
    unfolding agen_read32_def by blast
  moreover obtain j where "snd (agen_write32 n offset len s) = set_flags n j s"
    "fst (agen_write32 n offset len s) = (if segment_allows writable_type (cache (sregs s n)) (unat offset) (unat len)
       then Inr (get_laddr32 n offset s) else Inl (int_number n, 0))"
    using agen_checked[OF assms, of write_virtual_checks writable_type SegAccessWOK4G SegAccessWOK False offset] m
    unfolding agen_write32_def by blast
  ultimately show ?thesis by blast
qed

text \<open>A read of the last four bytes of a data segment of 64K, and one byte further.\<close>

definition sample_segment :: bx_segment_reg_t where
  "sample_segment = \<lparr>selector = parse_selector 8,
     cache = \<lparr>d_valid = 1, d_p = True, d_dpl = 0, d_segment = True, d_type = 3, d_base = 0x10000, d_limit_scaled = 0xffff, d_g = False, d_d_b = True,
       d_l = False, d_avl = False, gate_param_count = 0, gate_dest_selector = 0, gate_dest_offset = 0, taskgate_tss_selector = 0\<rparr>\<rparr>"

definition sample_sys :: bx_sys where
  "sample_sys = \<lparr>core = \<lparr>gen_reg = (\<lambda>n. 0), eflags = 2, oszapc = \<lparr>lf_result = 0, lf_auxbits = 0\<rparr>\<rparr>, mmu = sample_mmu,
     sregs = (\<lambda>n. sample_segment), gdtr = \<lparr>gs_base = 0x1000, gs_limit = 0xff\<rparr>, idtr = \<lparr>gs_base = 0, gs_limit = 0\<rparr>,
     ldtr = sample_segment, tr = sample_segment, cpu_mode = BX_MODE_IA32_PROTECTED\<rparr>"

lemma sample_flags: "flags_ok (cache sample_segment)"
  by (simp add: flags_ok_iff sample_segment_def bit_1_iff)

theorem agen_exact_witness:
  "fst (agen_read32 3 0xfffc 4 sample_sys) = Inr 0x1fffc \<and> fst (agen_read32 3 0xfffd 4 sample_sys) = Inl (BX_GP_EXCEPTION, 0)"
proof -
  have f: "flags_ok (cache (sregs sample_sys 3))" using sample_flags by (simp add: sample_sys_def)
  show ?thesis
    using agen_exact[OF f, of 4 "0xfffc"] agen_exact[OF f, of 4 "0xfffd"]
    by (simp add: segment_allows_def within_limit_def flat_4G_def type_tests sample_sys_def sample_segment_def get_laddr32_def int_number_def BX_SEG_REG_SS_def)
qed

end
