(* ===== verification/AccessProps.thy ===== *)
theory AccessProps
  imports Access MmuProps
begin

text \<open>
  Properties of the accesses to linear addresses: the invariant of the two TLBs along every sequence of accesses, fetches
  and invalidations, and that an access that faults has written nothing.
\<close>

section \<open>What a translation leaves alone\<close>

definition mmu_frame :: "bx_mmu \<Rightarrow> bx_mmu \<Rightarrow> bool" where
  "mmu_frame s s' \<longleftrightarrow>
    s' = s\<lparr>cr2 := cr2 s', phys := phys s', DTLB := DTLB s', ITLB := ITLB s', address_xlation := address_xlation s'\<rparr> \<and>
    a20_mask (phys s') = a20_mask (phys s)"

lemma mmu_frame_refl [simp]: "mmu_frame s s"
  by (simp add: mmu_frame_def)

lemma mmu_frame_fields:
  "mmu_frame s s' \<longleftrightarrow>
    cr0 s' = cr0 s \<and> cr3 s' = cr3 s \<and> cr4 s' = cr4 s \<and> efer s' = efer s \<and> eflags_AC s' = eflags_AC s \<and> pkru s' = pkru s \<and>
    pkrs s' = pkrs s \<and> rd_pkey s' = rd_pkey s \<and> wr_pkey s' = wr_pkey s \<and> linaddr_width s' = linaddr_width s \<and>
    long64_mode s' = long64_mode s \<and> PDPTR_CACHE s' = PDPTR_CACHE s \<and> maxphyaddr s' = maxphyaddr s \<and>
    isa_1g_pages s' = isa_1g_pages s \<and> CPL s' = CPL s \<and> alignment_check_mask s' = alignment_check_mask s \<and>
    alignment_check_ignored s' = alignment_check_ignored s \<and> bx_mmu.more s' = bx_mmu.more s \<and>
    a20_mask (phys s') = a20_mask (phys s)"
  by (cases s; cases s') (auto simp: mmu_frame_def)

lemma mmu_frame_trans: "mmu_frame s s' \<Longrightarrow> mmu_frame s' s'' \<Longrightarrow> mmu_frame s s''"
  by (simp add: mmu_frame_fields)

lemma mmu_frame_update [simp]:
  "mmu_frame s (s'\<lparr>cr2 := x\<rparr>) = mmu_frame s s'" "mmu_frame s (s'\<lparr>DTLB := t\<rparr>) = mmu_frame s s'"
  "mmu_frame s (s'\<lparr>ITLB := t\<rparr>) = mmu_frame s s'" "mmu_frame s (s'\<lparr>address_xlation := y\<rparr>) = mmu_frame s s'"
  by (simp_all add: mmu_frame_fields)

lemma mmu_frame_regs:
  assumes "mmu_frame s s'"
  shows "get_PG s' = get_PG s" "get_WP s' = get_WP s" "get_SMAP s' = get_SMAP s" "get_LASS s' = get_LASS s" "get_LA57 s' = get_LA57 s"
    "get_PKE s' = get_PKE s" "get_PKS s' = get_PKS s" "long_mode s' = long_mode s" "lin s' = lin s"
  using assms
  by (simp_all add: mmu_frame_fields get_PG_def get_WP_def get_SMAP_def get_LASS_def get_LA57_def get_PKE_def get_PKS_def
      long_mode_def get_LMA_def lin_def fun_eq_iff)

lemma mmu_ok_frame:
  assumes "mmu_ok s" "mmu_frame s s'"
  shows "mmu_ok s'"
proof -
  have f: "pkru s' = pkru s" "pkrs s' = pkrs s" "wr_pkey s' = wr_pkey s" "maxphyaddr s' = maxphyaddr s"
    "linaddr_width s' = linaddr_width s" "a20_mask (phys s') = a20_mask (phys s)" "cr4 s' = cr4 s" "cr0 s' = cr0 s" "efer s' = efer s"
    using assms(2) by (simp_all add: mmu_frame_fields)
  have "wr_pkey (set_PKeys a b s') = wr_pkey (set_PKeys a b s)" for a b
    by (rule ext) (simp add: set_PKeys_def Let_def get_PKE_def get_PKS_def get_WP_def long_mode_def get_LMA_def f)
  then show ?thesis using assms(1) mmu_frame_regs(5)[OF assms(2)] by (simp add: mmu_ok_def pkeys_ok_def f)
qed

lemma translate_frame:
  assumes "mmu_ok s" "translate_linear e laddr user rw s = (r, e', s')"
  shows "mmu_frame s s' \<and> tlb_entry (DTLB s') = tlb_entry (DTLB s) \<and> tlb_entry (ITLB s') = tlb_entry (ITLB s) \<and>
    (split_large (DTLB s) \<longrightarrow> split_large (DTLB s')) \<and> (split_large (ITLB s) \<longrightarrow> split_large (ITLB s')) \<and>
    address_xlation s' = address_xlation s"
proof (cases "tlb_miss e laddr user rw s")
  case False
  then show ?thesis using translate_hit[OF False] assms(2) by auto
next
  case miss: True
  show ?thesis
  proof (cases r)
    case (Inl t)
    then show ?thesis using translate_linear_fault[of e laddr user rw s "fst t" "snd t" e' s'] assms(2) by auto
  next
    case (Inr p)
    show ?thesis
    proof (cases "get_PG s")
      case True
      from translate_fills[OF miss _ True] assms(2) Inr obtain pa m pk s1
        where w: "walk_linear (lin s laddr) user rw s = (Inr (pa, m, pk), s1)" and s': "s' = note_split_large rw m s1"
        by metis
      obtain x where "s1 = s\<lparr>phys := x\<rparr>" "a20_mask x = a20_mask (phys s)" using walk_result[OF assms(1) w] by blast
      then show ?thesis by (simp add: s' note_split_large_def mmu_frame_fields)
    next
      case False
      then show ?thesis using assms(2) unfolding translate_miss[OF miss] by (auto simp: Let_def)
    qed
  qed
qed

section \<open>The slot of an entry\<close>

lemma index_lin: "get_index_of sz (lin s laddr) 0 = get_index_of sz laddr 0"
proof -
  have m: "(0xffffffff :: Bit64u) = mask 32" by (simp add: mask_eq_exp_minus_1)
  have "ucast (laddr AND 0xffffffff) = (ucast laddr :: Bit32u)"
    unfolding m by (rule bit_word_eqI) (auto simp: bit_ucast_iff bit_and_iff bit_mask_iff)
  then show ?thesis by (simp add: lin_def get_index_of_def)
qed

lemma fill_index: "get_index_of sz (lpf (fill_entry s laddr p m ca pk user rw e)) 0 = get_index_of sz laddr 0"
proof (rule get_index_of_LPFOf)
  show "LPFOf (lpf (fill_entry s laddr p m ca pk user rw e)) = LPFOf laddr"
    by (rule bit_word_eqI) (auto simp: fill_entry_def Let_def bit_LPFOf bit_or_iff bit_NoHostPtr)
qed

lemma page_mask_cases:
  assumes "\<forall>k<12. bit m k"
  shows "m = 0xfff \<or> 0xfff < (m :: Bit32u)"
proof (cases "0xfff < m")
  case False
  then have "\<not> bit m k" if "12 \<le> k" for k using that wide_mask_iff by blast
  moreover have "bit (0xfff :: Bit32u) k \<longleftrightarrow> k < 12" for k
  proof -
    have e: "(0xfff :: Bit32u) = mask 12" by (simp add: mask_eq_exp_minus_1)
    show ?thesis unfolding e by (auto simp: bit_mask_iff)
  qed
  ultimately have "m = 0xfff" using assms by (intro bit_word_eqI) (metis not_le_imp_less)
  then show ?thesis by simp
qed simp

lemma translate_entry_ok:
  assumes "mmu_ok s" "translate_linear e laddr user rw s = (r, e', s')"
    and "entry_ok sz (split_large (if rw = BX_EXECUTE then ITLB s else DTLB s)) n e" "n = get_index_of sz laddr 0"
  shows "entry_ok sz (split_large (if rw = BX_EXECUTE then ITLB s' else DTLB s')) n e'"
proof (cases "tlb_miss e laddr user rw s")
  case False
  then have "s' = s" "e' = e" using translate_hit[OF False] assms(2) by simp_all
  then show ?thesis using assms(3) by (simp only:)
next
  case miss: True
  show ?thesis
  proof (cases r)
    case (Inl t)
    then have "s' = s\<lparr>cr2 := lin s laddr\<rparr>" "e' = e \<or> e' = invalidate e"
      using translate_linear_fault[of e laddr user rw s "fst t" "snd t" e' s'] assms(2) by auto
    then show ?thesis using assms(3) by auto
  next
    case (Inr p)
    show ?thesis
    proof (cases "get_PG s")
      case True
      from translate_fills[OF miss _ True] assms(2) Inr obtain pa m pk s1
        where w: "walk_linear (lin s laddr) user rw s = (Inr (pa, m, pk), s1)" and s': "s' = note_split_large rw m s1"
          and e': "e' = fill_entry s' (lin s laddr) p m (ucast pa AND m) pk user rw e"
        by metis
      have "m = 0xfff \<or> 0xfff < m" using walk_result[OF assms(1) w] page_mask_cases by blast
      moreover have "0xfff < m \<longrightarrow> split_large (if rw = BX_EXECUTE then ITLB s' else DTLB s')" by (simp add: s' note_split_large_def)
      ultimately show ?thesis by (auto simp: entry_ok_def e' fill_index index_lin fill_entry_simps assms(4))
    next
      case False
      then have "e' = fill_entry s (lin s laddr) p 0xfff (combine_memtype (BX_COMBINED_ACCESS_WRITE OR BX_COMBINED_ACCESS_USER) BX_MEMTYPE_WB)
          0 user rw e"
        using assms(2) Inr unfolding translate_miss[OF miss] by (auto simp: Let_def)
      then show ?thesis by (auto simp: entry_ok_def fill_index index_lin fill_entry_simps assms(4))
    qed
  qed
qed

definition mmu_inv :: "bx_mmu \<Rightarrow> bool" where
  "mmu_inv s \<longleftrightarrow> mmu_ok s \<and> tlb_ok BX_DTLB_SIZE (DTLB s) \<and> tlb_ok BX_ITLB_SIZE (ITLB s)"

lemma tlb_ok_mono: "tlb_ok sz t \<Longrightarrow> tlb_entry t' = tlb_entry t \<Longrightarrow> split_large t \<longrightarrow> split_large t' \<Longrightarrow> tlb_ok sz t'"
  by (auto simp: tlb_ok_def entry_ok_def)

lemma take_bit_less: "unat (take_bit n w) < 2 ^ n" for w :: "'a::len word"
  using take_bit_nat_less_exp[of n "unat w"] by (simp add: unsigned_take_bit_eq)

lemma index_less: "BX_DTLB_INDEX_OF l len < BX_DTLB_SIZE" "BX_ITLB_INDEX_OF l < BX_ITLB_SIZE"
proof -
  have "drop_bit 12 (x AND 0x7ff000) = take_bit 11 (drop_bit 12 x)" "drop_bit 12 (x AND 0x3ff000) = take_bit 10 (drop_bit 12 x)"
    for x :: Bit32u by (simp_all add: drop_bit_and take_bit_eq_mask mask_eq_exp_minus_1)
  then show "BX_DTLB_INDEX_OF l len < BX_DTLB_SIZE" "BX_ITLB_INDEX_OF l < BX_ITLB_SIZE"
    using take_bit_less[of 11 "drop_bit 12 (ucast l + len)"] take_bit_less[of 10 "drop_bit 12 (ucast l)"]
    by (simp_all add: BX_DTLB_INDEX_OF_def BX_ITLB_INDEX_OF_def get_index_of_def BX_DTLB_SIZE_def BX_ITLB_SIZE_def)
qed

text \<open>Translating through the slot of the address keeps the invariant.\<close>

lemma translate_dtlb_inv:
  assumes "mmu_inv s" "rw \<noteq> BX_EXECUTE" "translate_dtlb (BX_DTLB_INDEX_OF laddr 0) laddr user rw s = (r, s')"
  shows "mmu_inv s' \<and> mmu_frame s s'"
proof -
  let ?n = "BX_DTLB_INDEX_OF laddr 0"
  obtain e' s1 where t: "translate_linear (tlb_entry (DTLB s) ?n) laddr user rw s = (r, e', s1)"
    and s': "s' = s1\<lparr>DTLB := set_entry ?n e' (DTLB s1)\<rparr>"
    using assms(3) by (auto simp: translate_dtlb_def Let_def split: prod.splits)
  have ok: "mmu_ok s" using assms(1) by (simp add: mmu_inv_def)
  note f = translate_frame[OF ok t]
  have e: "entry_ok BX_DTLB_SIZE (split_large (DTLB s)) ?n (tlb_entry (DTLB s) ?n)"
    using assms(1) index_less(1) by (simp add: mmu_inv_def tlb_ok_def)
  have "entry_ok BX_DTLB_SIZE (split_large (DTLB s1)) ?n e'"
    using translate_entry_ok[OF ok t, of BX_DTLB_SIZE ?n] assms(2) e by (simp add: BX_DTLB_INDEX_OF_def)
  moreover have "tlb_ok BX_DTLB_SIZE (DTLB s1)" "tlb_ok BX_ITLB_SIZE (ITLB s1)"
    using assms(1) f tlb_ok_mono by (auto simp: mmu_inv_def)
  moreover have "mmu_ok s'" "mmu_frame s s'" using f mmu_ok_frame[OF ok] by (simp_all add: s')
  ultimately show ?thesis by (simp add: mmu_inv_def s' tlb_ok_set_entry)
qed

lemma fetch_page_inv:
  assumes "mmu_inv s" "fetch_page laddr s = (r, s')"
  shows "mmu_inv s' \<and> mmu_frame s s'"
proof -
  let ?n = "BX_ITLB_INDEX_OF laddr"
  obtain r1 e' s1 where t: "translate_linear (tlb_entry (ITLB s) ?n) laddr (USER_PL s) BX_EXECUTE s = (r1, e', s1)"
    by (metis prod_cases3)
  consider "s' = s" | "s' = s1\<lparr>ITLB := set_entry ?n e' (ITLB s1)\<rparr>"
    using assms(2) t by (auto simp: fetch_page_def Let_def split: if_splits)
  then show ?thesis
  proof cases
    case 2
    have ok: "mmu_ok s" using assms(1) by (simp add: mmu_inv_def)
    note f = translate_frame[OF ok t]
    have e: "entry_ok BX_ITLB_SIZE (split_large (ITLB s)) ?n (tlb_entry (ITLB s) ?n)"
      using assms(1) index_less(2) by (simp add: mmu_inv_def tlb_ok_def)
    have "entry_ok BX_ITLB_SIZE (split_large (ITLB s1)) ?n e'"
      using translate_entry_ok[OF ok t, of BX_ITLB_SIZE ?n] e by (simp add: BX_ITLB_INDEX_OF_def)
    moreover have "tlb_ok BX_DTLB_SIZE (DTLB s1)" "tlb_ok BX_ITLB_SIZE (ITLB s1)"
      using assms(1) f tlb_ok_mono by (auto simp: mmu_inv_def)
    moreover have "mmu_ok s'" "mmu_frame s s'" using f mmu_ok_frame[OF ok] by (simp_all add: 2)
    ultimately show ?thesis by (simp add: mmu_inv_def 2 tlb_ok_set_entry)
  qed (use assms(1) in simp)
qed

section \<open>Every operation keeps the invariant\<close>

lemma inv_step:
  assumes "mmu_inv s" "mmu_frame s s'" "tlb_ok BX_DTLB_SIZE (DTLB s')" "tlb_ok BX_ITLB_SIZE (ITLB s')"
  shows "mmu_inv s'"
  using assms mmu_ok_frame[OF _ assms(2)] by (simp add: mmu_inv_def)

lemma inv_xlation: "mmu_inv s \<Longrightarrow> mmu_inv (s\<lparr>address_xlation := x\<rparr>)"
  by (rule inv_step[of s]) (simp_all add: mmu_inv_def)

lemma inv_phys:
  assumes "mmu_inv s" "a20_mask m = a20_mask (phys s)"
  shows "mmu_inv (s\<lparr>phys := m\<rparr>)" "mmu_frame s (s\<lparr>phys := m\<rparr>)"
proof -
  show f: "mmu_frame s (s\<lparr>phys := m\<rparr>)" using assms(2) by (simp add: mmu_frame_fields)
  show "mmu_inv (s\<lparr>phys := m\<rparr>)" by (rule inv_step[OF assms(1) f]) (use assms(1) in \<open>simp_all add: mmu_inv_def\<close>)
qed

lemma inv_set_one_page: "mmu_inv s \<Longrightarrow> mmu_inv (set_one_page p s)" "mmu_frame s (set_one_page p s') = mmu_frame s s'"
  by (simp_all add: set_one_page_def inv_xlation)

text \<open>What holds along the steps of an access holds of the whole.\<close>

lemma access_pages_rel:
  assumes run: "access_pages laddr len pl rw acm s = (r, s')" and refl: "R s"
    and step: "\<And>s1 a u q s2. R s1 \<Longrightarrow> IsCanonicalAccess s a rw (pl = 3) \<or> take_bit 32 a = a \<Longrightarrow>
      translate_dtlb (BX_DTLB_INDEX_OF a 0) a u rw s1 = (q, s2) \<Longrightarrow> R s2"
    and xl: "\<And>s1 x. R s1 \<Longrightarrow> pages x = pages (address_xlation s1) \<or> (\<exists>n. pages x = Pages n) \<Longrightarrow> R (s1\<lparr>address_xlation := x\<rparr>)"
  shows "R s'"
proof (cases "IsCanonicalAccess s laddr rw (pl = 3)")
  case False
  then show ?thesis using run refl by (simp add: access_pages_def Let_def)
next
  case canon: True
  show ?thesis
  proof (cases "unat (PAGE_OFFSET laddr) + len \<le> 4096")
    case True
    then show ?thesis using run refl canon
      by (auto simp: access_pages_def Let_def set_one_page_def xl split: if_splits prod.splits sum.splits dest: step)
  next
    case False
    let ?l1 = "4096 - unat (PAGE_OFFSET laddr)"
    let ?s0 = "s\<lparr>address_xlation := (address_xlation s)\<lparr>len1 := ?l1, len2 := len - ?l1, pages := Pages 2\<rparr>\<rparr>"
    let ?a2 = "if \<not> long64_mode s then (laddr + of_nat ?l1) AND 0xffffffff else laddr + of_nat ?l1"
    obtain r1 s1 where 1: "translate_dtlb (BX_DTLB_INDEX_OF laddr 0) laddr (pl = 3) rw ?s0 = (r1, s1)" by (metis surj_pair)
    let ?s1 = "\<lambda>p. s1\<lparr>address_xlation := (address_xlation s1)\<lparr>paddress1 := p\<rparr>\<rparr>"
    have R1: "R s1" using step[OF xl[OF refl] _ 1] canon by simp
    have low: "take_bit 32 (x AND 0xffffffff) = x AND 0xffffffff" for x :: Bit64u
      by (simp add: take_bit_eq_mask mask_eq_exp_minus_1 ac_simps)
    have c0: "IsCanonicalAccess ?s0 a = IsCanonicalAccess s a" "long64_mode ?s0 = long64_mode s" for a
      by (simp_all add: fun_eq_iff IsCanonicalAccess_def IsCanonical_def long_mode_def get_LMA_def get_LASS_def get_SMAP_def)
    have a2: "IsCanonicalAccess s ?a2 rw (pl = 3) \<or> take_bit 32 ?a2 = ?a2"
      if "\<not> (long64_mode s \<and> \<not> IsCanonicalAccess s ?a2 rw (pl = 3))"
      using that low by (cases "long64_mode s") (simp_all del: take_bit_and)
    have run2: "s' = s \<or> s' = ?s0 \<or> s' = s1 \<or>
        (\<exists>p q s2 p2. \<not> (long64_mode s \<and> \<not> IsCanonicalAccess s ?a2 rw (pl = 3)) \<and>
          translate_dtlb (BX_DTLB_INDEX_OF ?a2 0) ?a2 (pl = 3) rw (?s1 p) = (q, s2) \<and>
          (s' = s2 \<or> s' = s2\<lparr>address_xlation := (address_xlation s2)\<lparr>paddress2 := p2\<rparr>\<rparr>))"
      using run False 1
      unfolding access_pages_def Let_def c0
      by (simp add: c0 split: if_splits prod.splits sum.splits) blast+
    have R2: "R s2" if "\<not> (long64_mode s \<and> \<not> IsCanonicalAccess s ?a2 rw (pl = 3))"
      "translate_dtlb (BX_DTLB_INDEX_OF ?a2 0) ?a2 (pl = 3) rw (?s1 p) = (q, s2)" for p q s2
      using step[OF xl[OF R1] a2[OF that(1)] that(2)] by simp
    have "R ?s0" by (rule xl[OF refl]) simp
    moreover have "R (s2\<lparr>address_xlation := (address_xlation s2)\<lparr>paddress2 := p2\<rparr>\<rparr>)" if "R s2" for s2 p2
      by (rule xl[OF that]) simp
    ultimately show ?thesis using run2 refl R1 R2 by blast
  qed
qed

lemma access_pages_inv:
  assumes "mmu_inv s" "rw \<noteq> BX_EXECUTE" "access_pages laddr len pl rw acm s = (r, s')"
  shows "mmu_inv s' \<and> mmu_frame s s'"
  using assms(3)
proof (rule access_pages_rel)
  show "mmu_inv s2 \<and> mmu_frame s s2"
    if "mmu_inv s1 \<and> mmu_frame s s1" "translate_dtlb (BX_DTLB_INDEX_OF a 0) a u rw s1 = (q, s2)" for s1 a u q s2
    using translate_dtlb_inv[OF _ assms(2) that(2)] that(1) mmu_frame_trans by blast
qed (simp_all add: assms(1) inv_xlation)

lemma write_keeps_a20: "a20_mask (write_pages ps data m) = a20_mask m" "a20_mask (WriteHost m p data) = a20_mask m"
  by (induction ps data m rule: write_pages.induct) (auto simp: WriteHost_def split: host_ptr.split)

lemma write_pages_a20: "a20_mask (write_pages ps data m) = a20_mask m"
  by (induction ps data m rule: write_pages.induct) auto

lemma access_read_linear_inv:
  assumes "mmu_inv s" "rw \<noteq> BX_EXECUTE" "access_read_linear laddr len pl rw acm s = (r, s')"
  shows "mmu_inv s' \<and> mmu_frame s s'"
  using access_pages_inv[OF assms(1,2)] assms(3) by (auto simp: access_read_linear_def Let_def split: prod.splits)

lemma access_write_linear_inv:
  assumes "mmu_inv s" "rw \<noteq> BX_EXECUTE" "access_write_linear laddr len pl rw acm data s = (r, s')"
  shows "mmu_inv s' \<and> mmu_frame s s'"
proof -
  obtain q s1 where p: "access_pages laddr len pl rw acm s = (q, s1)" by (metis surj_pair)
  note i = access_pages_inv[OF assms(1,2) p]
  have "s' = s1 \<or> (\<exists>ps. s' = s1\<lparr>phys := write_pages ps data (phys s1)\<rparr>)"
    using assms(3) p by (auto simp: access_write_linear_def split: sum.splits option.splits)
  then show ?thesis using i inv_phys[of s1, OF _ write_pages_a20] mmu_frame_trans by blast
qed

lemma rw_not_execute: "BX_READ \<noteq> BX_EXECUTE" "BX_WRITE \<noteq> BX_EXECUTE" "BX_RW \<noteq> BX_EXECUTE"
  by (simp_all add: BX_READ_def BX_WRITE_def BX_RW_def BX_EXECUTE_def)

lemma raise_unless_done_state: "snd (raise_unless_done t x) = snd x"
  by (cases x) (auto simp: raise_unless_done_def split: sum.split option.split)

text \<open>The operations of the guest and of the processor on the TLBs.\<close>

inductive mmu_step :: "bx_mmu \<Rightarrow> bx_mmu \<Rightarrow> bool" where
  read: "mmu_step s (snd (read_linear len seg laddr s))"
| store: "mmu_step s (snd (write_linear len seg laddr data s))"
| read_RMW: "mmu_step s (snd (read_RMW_linear len seg laddr s))"
| write_RMW: "mmu_step s (write_RMW_linear len data s)"
| tickle_read: "mmu_step s (snd (tickle_read_linear seg laddr s))"
| system: "rw \<noteq> BX_EXECUTE \<Longrightarrow> mmu_step s (snd (access_read_linear laddr len pl rw acm s))"
| system_write: "rw \<noteq> BX_EXECUTE \<Longrightarrow> mmu_step s (snd (access_write_linear laddr len pl rw acm data s))"
| fetch: "mmu_step s (snd (fetch_page laddr s))"
| flush: "mmu_step s (TLB_flush s)"
| flushNonGlobal: "mmu_step s (TLB_flushNonGlobal s)"
| invlpg: "mmu_step s (TLB_invlpg laddr s)"

lemma mmu_inv_step:
  assumes "mmu_step s s'" "mmu_inv s"
  shows "mmu_inv s' \<and> mmu_frame s s'"
  using assms
proof (induction rule: mmu_step.induct)
  case (read s len seg laddr)
  have "mmu_inv (snd (access_read_linear laddr len (CPL s) BX_READ m s)) \<and>
      mmu_frame s (snd (access_read_linear laddr len (CPL s) BX_READ m s))" for m
    using access_read_linear_inv[OF read rw_not_execute(1)] by (metis prod.collapse)
  then show ?case using read by (simp add: read_linear_def Let_def raise_unless_done_state)
next
  case (store s len seg laddr data)
  have "mmu_inv (snd (access_write_linear laddr len (CPL s) BX_WRITE m data s)) \<and>
      mmu_frame s (snd (access_write_linear laddr len (CPL s) BX_WRITE m data s))" for m
    using access_write_linear_inv[OF store rw_not_execute(2)] by (metis prod.collapse)
  then show ?case using inv_phys[OF store write_keeps_a20(2)] by (simp add: write_linear_def Let_def raise_unless_done_state)
next
  case (read_RMW s len seg laddr)
  have "mmu_inv (snd (access_read_linear laddr len (CPL s) BX_RW m s)) \<and>
      mmu_frame s (snd (access_read_linear laddr len (CPL s) BX_RW m s))" for m
    using access_read_linear_inv[OF read_RMW rw_not_execute(3)] by (metis prod.collapse)
  then show ?case using read_RMW by (simp add: read_RMW_linear_def Let_def raise_unless_done_state inv_xlation)
next
  case (write_RMW s len data)
  then show ?case using inv_phys[OF write_RMW] write_keeps_a20(2)
    by (auto simp: write_RMW_linear_def Let_def split: xlation_pages.split)
next
  case (tickle_read s seg laddr)
  then show ?case
    using translate_dtlb_inv[OF tickle_read rw_not_execute(1)]
    by (auto simp: tickle_read_linear_def Let_def inv_set_one_page split: prod.split sum.split)
next
  case (system rw s laddr len pl acm)
  then show ?case using access_read_linear_inv by (metis prod.collapse)
next
  case (system_write rw s laddr len pl acm data)
  then show ?case using access_write_linear_inv by (metis prod.collapse)
next
  case (fetch s laddr)
  then show ?case using fetch_page_inv by (metis prod.collapse)
next
  case (flush s)
  have f: "mmu_frame s (TLB_flush s)" by (simp add: TLB_flush_def)
  have "mmu_inv (TLB_flush s)" by (rule inv_step[OF flush f]) (use flush in \<open>simp_all add: TLB_flush_def tlb_ok_flush\<close>)
  with f show ?case by simp
next
  case (flushNonGlobal s)
  have f: "mmu_frame s (TLB_flushNonGlobal s)" by (simp add: TLB_flushNonGlobal_def)
  have "mmu_inv (TLB_flushNonGlobal s)" by (rule inv_step[OF flushNonGlobal f]) (use flushNonGlobal in \<open>simp_all add: TLB_flushNonGlobal_def tlb_ok_flushNonGlobal mmu_inv_def\<close>)
  with f show ?case by simp
next
  case (invlpg s laddr)
  have f: "mmu_frame s (TLB_invlpg laddr s)" by (simp add: TLB_invlpg_def)
  have "mmu_inv (TLB_invlpg laddr s)" by (rule inv_step[OF invlpg f]) (use invlpg in \<open>simp_all add: TLB_invlpg_def tlb_ok_invlpg mmu_inv_def\<close>)
  with f show ?case by simp
qed

lemma mmu_inv_reachable:
  assumes "mmu_step\<^sup>*\<^sup>* s s'" "mmu_inv s"
  shows "mmu_inv s'"
  using assms by (induction rule: rtranclp_induct) (auto dest: mmu_inv_step)

lemma mmu_inv_flush: "mmu_ok s \<Longrightarrow> mmu_inv (TLB_flush s)"
  using mmu_ok_frame[of s "TLB_flush s"] by (simp add: mmu_inv_def TLB_flush_def tlb_ok_flush)

text \<open>Starting from flushed buffers, after any sequence of reads, writes, read-modify-writes, system accesses, fetches,
  flushes and page invalidations every valid entry of both TLBs stands in the slot of its page and carries the mask of a
  page of at least 4K, and a buffer that holds an entry of a large page says so; on this the invalidation of a single page
  relies.\<close>

theorem tlb_invariant:
  assumes "mmu_ok s0" "mmu_step\<^sup>*\<^sup>* (TLB_flush s0) s"
  shows "tlb_ok BX_DTLB_SIZE (DTLB s) \<and> tlb_ok BX_ITLB_SIZE (ITLB s)"
  using mmu_inv_reachable[OF assms(2) mmu_inv_flush[OF assms(1)]] by (simp add: mmu_inv_def)

theorem tlb_invariant_witness:
  "tlb_ok BX_DTLB_SIZE (DTLB (TLB_invlpg 0x400000 (snd (read_linear 4 3 0x401234 (TLB_flush sample_mmu)))))"
proof -
  have "mmu_step\<^sup>*\<^sup>* (TLB_flush sample_mmu) (TLB_invlpg 0x400000 (snd (read_linear 4 3 0x401234 (TLB_flush sample_mmu))))"
    by (rule rtranclp.rtrancl_into_rtrancl[OF r_into_rtranclp]) (rule mmu_step.read, rule mmu_step.invlpg)
  from tlb_invariant[OF sample_ok this] show ?thesis by simp
qed

section \<open>Memory written by a translation\<close>

text \<open>One update of accessed and dirty bits on the path of a walk.\<close>

inductive ad_update :: "bx_mem \<Rightarrow> bx_mem \<Rightarrow> bool" where
  qword: "walk_ok m w \<Longrightarrow> ad_update m (update_access_dirty_PAE (w_path w) write m)"
| dword: "walk_ok4 m w \<Longrightarrow> ad_update m (update_access_dirty (w_path w) write m)"

lemma walk_memory:
  assumes "mmu_ok s" "walk_linear laddr user rw s = (Inr (pa, m, pk), s')"
  shows "ad_update (phys s) (phys s')"
proof -
  consider (long) "translate_linear_long_mode laddr user rw s = (Inr (pa, m, pk), s')"
    | (pae) "translate_linear_PAE laddr user rw s = (Inr (pa, m, pk), s')"
    | (legacy) "translate_linear_legacy laddr user rw s = (Inr (pa, m, pk), s')"
    using assms(2) by (auto simp: walk_linear_def split: if_splits)
  then show ?thesis
  proof cases
    case long
    from assms(1) long show ?thesis by (rule long_mode_walkE) (simp add: ad_update.qword)
  next
    case pae
    then show ?thesis by (rule PAE_walkE) (simp add: ad_update.qword)
  next
    case legacy
    then show ?thesis by (rule legacy_walkE) (simp add: ad_update.dword)
  qed
qed

lemma translate_memory:
  assumes "mmu_ok s" "translate_linear e laddr user rw s = (r, e', s')"
  shows "ad_update\<^sup>*\<^sup>* (phys s) (phys s')"
proof (cases "tlb_miss e laddr user rw s")
  case False
  then show ?thesis using translate_hit[OF False] assms(2) by auto
next
  case miss: True
  show ?thesis
  proof (cases "get_PG s")
    case True
    show ?thesis
    proof (cases r)
      case (Inl t)
      then show ?thesis using translate_linear_fault[of e laddr user rw s "fst t" "snd t" e' s'] assms(2) by auto
    next
      case (Inr p)
      from translate_fills[OF miss _ True] assms(2) Inr obtain pa m pk s1
        where "walk_linear (lin s laddr) user rw s = (Inr (pa, m, pk), s1)" "s' = note_split_large rw m s1"
        by metis
      then show ?thesis using walk_memory[OF assms(1)] by (auto simp: note_split_large_def)
    qed
  next
    case False
    then show ?thesis using assms(2) unfolding translate_miss[OF miss] by (auto simp: Let_def)
  qed
qed

lemma access_pages_memory:
  assumes "mmu_ok s" "access_pages laddr len pl rw acm s = (r, s')"
  shows "ad_update\<^sup>*\<^sup>* (phys s) (phys s')"
proof -
  have "mmu_ok s' \<and> ad_update\<^sup>*\<^sup>* (phys s) (phys s')"
    using assms(2)
  proof (rule access_pages_rel)
    show "mmu_ok s2 \<and> ad_update\<^sup>*\<^sup>* (phys s) (phys s2)"
      if R: "mmu_ok s1 \<and> ad_update\<^sup>*\<^sup>* (phys s) (phys s1)"
        and t: "translate_dtlb (BX_DTLB_INDEX_OF a 0) a u rw s1 = (q, s2)" for s1 a u q s2
    proof -
      let ?n = "BX_DTLB_INDEX_OF a 0"
      obtain e' s3 where "translate_linear (tlb_entry (DTLB s1) ?n) a u rw s1 = (q, e', s3)"
        and "s2 = s3\<lparr>DTLB := set_entry ?n e' (DTLB s3)\<rparr>"
        using t by (auto simp: translate_dtlb_def Let_def split: prod.splits)
      then show ?thesis using translate_memory[of s1] translate_frame[of s1] mmu_ok_frame[of s1 s2] R
        by (auto intro: rtranclp_trans)
    qed
    show "mmu_ok (s1\<lparr>address_xlation := x\<rparr>) \<and> ad_update\<^sup>*\<^sup>* (phys s) (phys (s1\<lparr>address_xlation := x\<rparr>))"
      if "mmu_ok s1 \<and> ad_update\<^sup>*\<^sup>* (phys s) (phys s1)" for s1 x
      using that mmu_ok_frame[of s1 "s1\<lparr>address_xlation := x\<rparr>"] by simp
  qed (use assms(1) in simp)
  then show ?thesis by simp
qed

text \<open>An access writes either all of its bytes or none, also when it spans two pages: a write that faults on any of its
  pages, or has a page that is not canonical, has changed memory only by setting accessed and dirty bits on the paths of
  walks, and so has every read, whatever its outcome.\<close>

theorem faulting_access_writes_nothing:
  assumes "mmu_ok s"
  shows "ad_update\<^sup>*\<^sup>* (phys s) (phys (snd (access_read_linear laddr len pl rw acm s))) \<and>
    (fst (access_write_linear laddr len pl rw acm data s) \<noteq> Inr (Some ()) \<longrightarrow>
      ad_update\<^sup>*\<^sup>* (phys s) (phys (snd (access_write_linear laddr len pl rw acm data s))))"
proof -
  obtain r s1 where p: "access_pages laddr len pl rw acm s = (r, s1)" by (metis surj_pair)
  note m = access_pages_memory[OF assms p]
  have "ad_update\<^sup>*\<^sup>* (phys s) (phys (snd (access_read_linear laddr len pl rw acm s)))"
    using m p by (simp add: access_read_linear_def)
  moreover have "ad_update\<^sup>*\<^sup>* (phys s) (phys (snd (access_write_linear laddr len pl rw acm data s)))"
    if "fst (access_write_linear laddr len pl rw acm data s) \<noteq> Inr (Some ())"
    using that m p by (auto simp: access_write_linear_def split: sum.splits option.splits)
  ultimately show ?thesis by blast
qed

theorem faulting_access_writes_nothing_witness:
  "ad_update\<^sup>*\<^sup>* (phys sample_mmu) (phys (snd (access_write_linear 0x8000000000000000 4 3 BX_WRITE 3 [1, 2, 3, 4] sample_mmu)))"
proof -
  have "fst (access_write_linear 0x8000000000000000 4 3 BX_WRITE 3 [1, 2, 3, 4] sample_mmu) \<noteq> Inr (Some ())"
    by (simp add: access_write_linear_def access_pages_def IsCanonicalAccess_def IsCanonical_def IsCanonicalToWidth_def
        sample_mmu_def)
  with faulting_access_writes_nothing[OF sample_ok] show ?thesis by blast
qed

end
