(* ===== verification/MemOperand.thy ===== *)
theory MemOperand
  imports Segment AccessProps
begin

text \<open>
  Memory operands of instructions: the effective address of \<^verbatim>\<open>cpu/cpu.h\<close>, loads, stores and read-modify-writes of one
  word through a segment register (\<^verbatim>\<open>cpu/access.h\<close>, \<^verbatim>\<open>cpu/access2.cc\<close>), and what such an access may change when it
  faults.
\<close>

section \<open>The effective address\<close>

definition bx_asize_mask :: "nat \<Rightarrow> bx_address" where
  "bx_asize_mask n = [0xffff, 0xffffffff, 0xffffffffffffffff, 0xffffffffffffffff] ! n"

definition asize :: "bxInstruction_c \<Rightarrow> nat" where "asize i = of_bool (as32L i) + 2 * of_bool (as64L i)"
definition asize_mask :: "bxInstruction_c \<Rightarrow> bx_address" where "asize_mask i = bx_asize_mask (asize i)"

definition BxResolve64 :: "bxInstruction_c \<Rightarrow> bx_cpu \<Rightarrow> Bit64u" where
  "BxResolve64 i s =
    (let eaddr = BX_READ_64BIT_REG (sibBase i) s + scast (displ32u i)
     in if sibIndex i \<noteq> 4 then eaddr + push_bit (sibScale i) (BX_READ_64BIT_REG (sibIndex i) s) else eaddr)"

definition BxResolve32 :: "bxInstruction_c \<Rightarrow> bx_cpu \<Rightarrow> Bit32u" where
  "BxResolve32 i s =
    (let eaddr = BX_READ_32BIT_REG (sibBase i) s + displ32u i;
         eaddr = (if sibIndex i \<noteq> 4 then eaddr + push_bit (sibScale i) (BX_READ_32BIT_REG (sibIndex i) s) else eaddr)
     in ucast (ucast eaddr AND asize_mask i))"

definition BX_CPU_RESOLVE_ADDR :: "bxInstruction_c \<Rightarrow> bx_cpu \<Rightarrow> bx_address" where
  "BX_CPU_RESOLVE_ADDR i s = (if as64L i then BxResolve64 i s else ucast (BxResolve32 i s))"

definition BX_CPU_RESOLVE_ADDR_64 :: "bxInstruction_c \<Rightarrow> bx_cpu \<Rightarrow> bx_address" where
  "BX_CPU_RESOLVE_ADDR_64 i s = (if as64L i then BxResolve64 i s else ucast (BxResolve32 i s))"

section \<open>Reading registers, loading and storing\<close>

definition with_core :: "(bx_cpu \<Rightarrow> 'a sys_op) \<Rightarrow> 'a sys_op" where "with_core f = (\<lambda>s. f (core s) s)"
definition on_core :: "(bx_cpu \<Rightarrow> bx_cpu) \<Rightarrow> unit sys_op" where "on_core f = sys_modify (\<lambda>s. s\<lparr>core := f (core s)\<rparr>)"

definition load :: "Bit8u list sys_op \<Rightarrow> 'a::len word sys_op" where "load m = and_then m (\<lambda>bs. sys_return (word_of_bytes bs))"

definition read_virtual_byte :: "nat \<Rightarrow> bx_address \<Rightarrow> Bit8u sys_op" where "read_virtual_byte s offset = load (read_virtual 1 s offset)"
definition read_virtual_word :: "nat \<Rightarrow> bx_address \<Rightarrow> Bit16u sys_op" where "read_virtual_word s offset = load (read_virtual 2 s offset)"
definition read_virtual_dword :: "nat \<Rightarrow> bx_address \<Rightarrow> Bit32u sys_op" where "read_virtual_dword s offset = load (read_virtual 4 s offset)"
definition read_virtual_qword :: "nat \<Rightarrow> bx_address \<Rightarrow> Bit64u sys_op" where "read_virtual_qword s offset = load (read_virtual 8 s offset)"

definition write_virtual_byte :: "nat \<Rightarrow> bx_address \<Rightarrow> Bit8u \<Rightarrow> unit sys_op" where
  "write_virtual_byte s offset data = write_virtual 1 s offset (bytes_of_word 1 data)"
definition write_virtual_word :: "nat \<Rightarrow> bx_address \<Rightarrow> Bit16u \<Rightarrow> unit sys_op" where
  "write_virtual_word s offset data = write_virtual 2 s offset (bytes_of_word 2 data)"
definition write_virtual_dword :: "nat \<Rightarrow> bx_address \<Rightarrow> Bit32u \<Rightarrow> unit sys_op" where
  "write_virtual_dword s offset data = write_virtual 4 s offset (bytes_of_word 4 data)"
definition write_virtual_qword :: "nat \<Rightarrow> bx_address \<Rightarrow> Bit64u \<Rightarrow> unit sys_op" where
  "write_virtual_qword s offset data = write_virtual 8 s offset (bytes_of_word 8 data)"

definition read_RMW_virtual_byte :: "nat \<Rightarrow> bx_address \<Rightarrow> Bit8u sys_op" where "read_RMW_virtual_byte s offset = load (read_RMW_virtual 1 s offset)"
definition read_RMW_virtual_word :: "nat \<Rightarrow> bx_address \<Rightarrow> Bit16u sys_op" where "read_RMW_virtual_word s offset = load (read_RMW_virtual 2 s offset)"
definition read_RMW_virtual_dword :: "nat \<Rightarrow> bx_address \<Rightarrow> Bit32u sys_op" where "read_RMW_virtual_dword s offset = load (read_RMW_virtual 4 s offset)"
definition read_RMW_virtual_qword :: "nat \<Rightarrow> bx_address \<Rightarrow> Bit64u sys_op" where "read_RMW_virtual_qword s offset = load (read_RMW_virtual 8 s offset)"

definition write_RMW_linear_byte :: "Bit8u \<Rightarrow> unit sys_op" where "write_RMW_linear_byte val8 = write_RMW 1 (bytes_of_word 1 val8)"
definition write_RMW_linear_word :: "Bit16u \<Rightarrow> unit sys_op" where "write_RMW_linear_word val16 = write_RMW 2 (bytes_of_word 2 val16)"
definition write_RMW_linear_dword :: "Bit32u \<Rightarrow> unit sys_op" where "write_RMW_linear_dword val32 = write_RMW 4 (bytes_of_word 4 val32)"
definition write_RMW_linear_qword :: "Bit64u \<Rightarrow> unit sys_op" where "write_RMW_linear_qword val64 = write_RMW 8 (bytes_of_word 8 val64)"

definition read_virtual_byte_32 :: "nat \<Rightarrow> Bit32u \<Rightarrow> Bit8u sys_op" where "read_virtual_byte_32 s offset = load (read_virtual_32 1 s offset)"
definition read_virtual_word_32 :: "nat \<Rightarrow> Bit32u \<Rightarrow> Bit16u sys_op" where "read_virtual_word_32 s offset = load (read_virtual_32 2 s offset)"
definition read_virtual_dword_32 :: "nat \<Rightarrow> Bit32u \<Rightarrow> Bit32u sys_op" where "read_virtual_dword_32 s offset = load (read_virtual_32 4 s offset)"
definition write_virtual_byte_32 :: "nat \<Rightarrow> Bit32u \<Rightarrow> Bit8u \<Rightarrow> unit sys_op" where
  "write_virtual_byte_32 s offset data = write_virtual_32 1 s offset (bytes_of_word 1 data)"
definition write_virtual_word_32 :: "nat \<Rightarrow> Bit32u \<Rightarrow> Bit16u \<Rightarrow> unit sys_op" where
  "write_virtual_word_32 s offset data = write_virtual_32 2 s offset (bytes_of_word 2 data)"
definition write_virtual_dword_32 :: "nat \<Rightarrow> Bit32u \<Rightarrow> Bit32u \<Rightarrow> unit sys_op" where
  "write_virtual_dword_32 s offset data = write_virtual_32 4 s offset (bytes_of_word 4 data)"

text \<open>The accesses of 64-bit code, which need no segment check.\<close>

definition laddr64 :: "nat \<Rightarrow> bx_address \<Rightarrow> (bx_address \<Rightarrow> 'a sys_op) \<Rightarrow> 'a sys_op" where
  "laddr64 n offset f = (\<lambda>s. f (get_laddr64 n offset s) s)"

definition read_linear_byte :: "nat \<Rightarrow> bx_address \<Rightarrow> Bit8u sys_op" where "read_linear_byte s laddr = load (on_mmu (read_linear 1 s laddr))"
definition read_linear_word :: "nat \<Rightarrow> bx_address \<Rightarrow> Bit16u sys_op" where "read_linear_word s laddr = load (on_mmu (read_linear 2 s laddr))"
definition read_linear_dword :: "nat \<Rightarrow> bx_address \<Rightarrow> Bit32u sys_op" where "read_linear_dword s laddr = load (on_mmu (read_linear 4 s laddr))"
definition read_linear_qword :: "nat \<Rightarrow> bx_address \<Rightarrow> Bit64u sys_op" where "read_linear_qword s laddr = load (on_mmu (read_linear 8 s laddr))"
definition read_RMW_linear_qword :: "nat \<Rightarrow> bx_address \<Rightarrow> Bit64u sys_op" where
  "read_RMW_linear_qword s laddr = load (on_mmu (read_RMW_linear 8 s laddr))"
definition write_linear_byte :: "nat \<Rightarrow> bx_address \<Rightarrow> Bit8u \<Rightarrow> unit sys_op" where
  "write_linear_byte s laddr data = on_mmu (write_linear 1 s laddr (bytes_of_word 1 data))"
definition write_linear_word :: "nat \<Rightarrow> bx_address \<Rightarrow> Bit16u \<Rightarrow> unit sys_op" where
  "write_linear_word s laddr data = on_mmu (write_linear 2 s laddr (bytes_of_word 2 data))"
definition write_linear_dword :: "nat \<Rightarrow> bx_address \<Rightarrow> Bit32u \<Rightarrow> unit sys_op" where
  "write_linear_dword s laddr data = on_mmu (write_linear 4 s laddr (bytes_of_word 4 data))"
definition write_linear_qword :: "nat \<Rightarrow> bx_address \<Rightarrow> Bit64u \<Rightarrow> unit sys_op" where
  "write_linear_qword s laddr data = on_mmu (write_linear 8 s laddr (bytes_of_word 8 data))"

section \<open>What a fault leaves behind\<close>

text \<open>
  Two states that differ only in what an access may change before it transfers data: the memory unit (memory by accessed and
  dirty bits), and the flags that remember a successful check of a segment.
\<close>

definition same_segment :: "bx_segment_reg_t \<Rightarrow> bx_segment_reg_t \<Rightarrow> bool" where
  "same_segment a b \<longleftrightarrow> b = a\<lparr>cache := (cache a)\<lparr>d_valid := d_valid (cache b)\<rparr>\<rparr>"

definition quiet :: "bx_sys \<Rightarrow> bx_sys \<Rightarrow> bool" where
  "quiet s s' \<longleftrightarrow> core s' = core s \<and> gdtr s' = gdtr s \<and> idtr s' = idtr s \<and> ldtr s' = ldtr s \<and> tr s' = tr s \<and> cpu_mode s' = cpu_mode s \<and>
    (\<forall>n. same_segment (sregs s n) (sregs s' n)) \<and>
    ad_update\<^sup>*\<^sup>* (phys (mmu s)) (phys (mmu s')) \<and> mmu_ok (mmu_view s')"

abbreviation sys_ok :: "bx_sys \<Rightarrow> bool" where "sys_ok s \<equiv> mmu_ok (mmu_view s)"

definition quiet_op :: "'a sys_op \<Rightarrow> bool" where
  "quiet_op m \<longleftrightarrow> (\<forall>s. sys_ok s \<longrightarrow> quiet s (snd (m s)))"

definition never_faults :: "'a sys_op \<Rightarrow> bool" where
  "never_faults m \<longleftrightarrow> (\<forall>s. \<exists>x s'. m s = (Inr x, s'))"

definition precise :: "'a sys_op \<Rightarrow> bool" where
  "precise m \<longleftrightarrow> (\<forall>s t s'. sys_ok s \<longrightarrow> m s = (Inl t, s') \<longrightarrow> quiet s s')"

named_theorems precise_intros

lemma same_segment_refl [simp]: "same_segment a a" by (simp add: same_segment_def)

lemma same_segment_trans: "same_segment a b \<Longrightarrow> same_segment b c \<Longrightarrow> same_segment a c"
  unfolding same_segment_def by (cases a; cases b; cases c; cases "cache a"; cases "cache b"; cases "cache c") auto

lemma same_segment_fields: "same_segment a b \<Longrightarrow> selector b = selector a \<and> d_base (cache b) = d_base (cache a)"
  by (cases a; cases b; cases "cache a"; cases "cache b") (auto simp: same_segment_def)

lemma quiet_refl: "sys_ok s \<Longrightarrow> quiet s s" by (simp add: quiet_def)

lemma quiet_trans: "quiet s s1 \<Longrightarrow> quiet s1 s2 \<Longrightarrow> quiet s s2"
  unfolding quiet_def by (auto intro: same_segment_trans rtranclp_trans)

lemma quiet_ok: "quiet s s' \<Longrightarrow> sys_ok s'" by (simp add: quiet_def)

lemma quiet_opD: "quiet_op m \<Longrightarrow> sys_ok s \<Longrightarrow> m s = (r, s') \<Longrightarrow> quiet s s'"
  unfolding quiet_op_def by (metis snd_conv)

lemma quiet_op_precise [precise_intros]: "quiet_op m \<Longrightarrow> precise m"
  unfolding precise_def by (blast intro: quiet_opD)

lemma never_faultsD: "never_faults m \<Longrightarrow> m s \<noteq> (Inl t, s')"
  unfolding never_faults_def by (metis Inl_Inr_False Pair_inject)

lemma never_faults_precise [precise_intros]: "never_faults m \<Longrightarrow> precise m"
  unfolding precise_def by (simp add: never_faultsD del: split_paired_All)

lemma quiet_op_and_then [precise_intros]:
  assumes "quiet_op m" "\<And>x. quiet_op (f x)"
  shows "quiet_op (and_then m f)"
  unfolding quiet_op_def
proof (intro allI impI)
  fix s assume ok: "sys_ok s"
  obtain r s1 where m: "m s = (r, s1)" by (cases "m s")
  note q = quiet_opD [OF assms(1) ok m]
  show "quiet s (snd (and_then m f s))"
  proof (cases r)
    case (Inl t)
    then show ?thesis using m q by (simp add: and_then_def)
  next
    case (Inr x)
    then have "quiet s1 (snd (f x s1))" using assms(2) quiet_ok [OF q] by (simp add: quiet_op_def)
    then show ?thesis using m q Inr by (auto simp: and_then_def intro: quiet_trans)
  qed
qed

lemma precise_and_then [precise_intros]:
  assumes "quiet_op m" "\<And>x. precise (f x)"
  shows "precise (and_then m f)"
  unfolding precise_def
proof (intro allI impI)
  fix s t s' assume ok: "sys_ok s" and f: "and_then m f s = (Inl t, s')"
  obtain r s1 where m: "m s = (r, s1)" by (cases "m s")
  note q = quiet_opD [OF assms(1) ok m]
  show "quiet s s'"
  proof (cases r)
    case (Inl t')
    then show ?thesis using m q f by (simp add: and_then_def)
  next
    case (Inr x)
    then have "f x s1 = (Inl t, s')" using m f by (simp add: and_then_def)
    then have "quiet s1 s'" using assms(2) [of x] quiet_ok [OF q] unfolding precise_def by blast
    then show ?thesis using q quiet_trans by blast
  qed
qed

text \<open>After an access that may have written, nothing may fault.\<close>

lemma precise_then_total [precise_intros]:
  assumes "precise m" "\<And>x. never_faults (f x)"
  shows "precise (and_then m f)"
  unfolding precise_def
proof (intro allI impI)
  fix s t s' assume ok: "sys_ok s" and f: "and_then m f s = (Inl t, s')"
  obtain r s1 where m: "m s = (r, s1)" by (cases "m s")
  show "quiet s s'"
  proof (cases r)
    case (Inl t')
    then show ?thesis using m f assms(1) ok by (auto simp: and_then_def precise_def)
  next
    case (Inr x)
    then have "f x s1 = (Inl t, s')" using m f by (simp add: and_then_def)
    then show ?thesis using never_faultsD [OF assms(2)] by blast
  qed
qed

lemma never_faults_and_then [precise_intros]: "never_faults m \<Longrightarrow> (\<And>x. never_faults (f x)) \<Longrightarrow> never_faults (and_then m f)"
  unfolding never_faults_def and_then_def by (metis (mono_tags, lifting) case_prod_conv sum.case(2))

lemma total_intros [precise_intros]:
  "never_faults (on_core g)" "never_faults (sys_modify h)" "never_faults (sys_return x)" "never_faults (write_RMW len bs)"
  by (simp_all add: never_faults_def on_core_def sys_modify_def sys_return_def write_RMW_def on_mmu_def)

lemma write_RMW_total [precise_intros]:
  "never_faults (write_RMW_linear_byte v8)" "never_faults (write_RMW_linear_word v16)" "never_faults (write_RMW_linear_dword v32)"
  "never_faults (write_RMW_linear_qword v64)"
  by (simp_all add: write_RMW_linear_byte_def write_RMW_linear_word_def write_RMW_linear_dword_def write_RMW_linear_qword_def total_intros)

lemma with_core_intros [precise_intros]:
  "(\<And>c. precise (f c)) \<Longrightarrow> precise (with_core f)" "(\<And>c. quiet_op (f c)) \<Longrightarrow> quiet_op (with_core f)"
  "(\<And>c. never_faults (f c)) \<Longrightarrow> never_faults (with_core f)"
  by (auto simp: with_core_def precise_def quiet_op_def never_faults_def)

lemma laddr64_intros [precise_intros]:
  "(\<And>a. precise (g a)) \<Longrightarrow> precise (laddr64 n off g)" "(\<And>a. quiet_op (h a)) \<Longrightarrow> quiet_op (laddr64 n off h)"
  by (auto simp: laddr64_def precise_def quiet_op_def)

lemma if_intros [precise_intros]:
  "(b \<Longrightarrow> precise m) \<Longrightarrow> (\<not> b \<Longrightarrow> precise n) \<Longrightarrow> precise (if b then m else n)"
  "(b \<Longrightarrow> never_faults m) \<Longrightarrow> (\<not> b \<Longrightarrow> never_faults n) \<Longrightarrow> never_faults (if b then m else n)"
  by simp_all

lemma quiet_return [precise_intros]: "quiet_op (sys_return x)"
  by (simp add: quiet_op_def sys_return_def quiet_refl)

lemma quiet_load [precise_intros]: "quiet_op m \<Longrightarrow> quiet_op (load m)"
  unfolding load_def by (intro precise_intros) simp_all

section \<open>The accesses are precise\<close>

lemma mmu_view_frame: "mmu_frame (mmu_view s) m \<Longrightarrow> mmu_view (s\<lparr>mmu := m\<rparr>) = m"
  by (cases m) (simp add: mmu_frame_fields mmu_view_def cpl_def in_long64_mode_def)

lemma mmu_ok_view: "sys_ok s \<Longrightarrow> mmu_frame (mmu_view s) m \<Longrightarrow> mmu_ok (mmu_view (s\<lparr>mmu := m\<rparr>))"
  by (simp add: mmu_view_frame mmu_ok_frame)

text \<open>An operation of the memory unit is quiet when it only translates.\<close>

definition translates :: "(bx_mmu \<Rightarrow> 'r \<times> bx_mmu) \<Rightarrow> ('r \<Rightarrow> bool) \<Rightarrow> bool" where
  "translates f P \<longleftrightarrow> (\<forall>m r m'. mmu_ok m \<longrightarrow> f m = (r, m') \<longrightarrow> P r \<longrightarrow> mmu_frame m m' \<and> ad_update\<^sup>*\<^sup>* (phys m) (phys m'))"

lemma quiet_on_mmu: "translates f (\<lambda>_. True) \<Longrightarrow> quiet_op (on_mmu f)"
  unfolding quiet_op_def
proof (intro allI impI)
  fix s assume t: "translates f (\<lambda>_. True)" and ok: "sys_ok s"
  obtain r m where f: "f (mmu_view s) = (r, m)" by (cases "f (mmu_view s)")
  with t ok have "mmu_frame (mmu_view s) m" "ad_update\<^sup>*\<^sup>* (phys (mmu_view s)) (phys m)" by (auto simp: translates_def)
  then show "quiet s (snd (on_mmu f s))"
    using mmu_ok_view [OF ok] f by (simp add: on_mmu_def quiet_def) (simp add: mmu_view_def)
qed

lemma precise_on_mmu: "translates f (\<lambda>r. \<exists>t. r = Inl t) \<Longrightarrow> precise (on_mmu f)"
  unfolding precise_def
proof (intro allI impI)
  fix s t s' assume tr: "translates f (\<lambda>r. \<exists>t. r = Inl t)" and ok: "sys_ok s" and o: "on_mmu f s = (Inl t, s')"
  then obtain m where f: "f (mmu_view s) = (Inl t, m)" "s' = s\<lparr>mmu := m\<rparr>" by (auto simp: on_mmu_def split: prod.splits)
  with tr ok have "mmu_frame (mmu_view s) m" "ad_update\<^sup>*\<^sup>* (phys (mmu_view s)) (phys m)" by (auto simp: translates_def)
  then show "quiet s s'"
    using mmu_ok_view [OF ok] f(2) by (simp add: quiet_def) (simp add: mmu_view_def)
qed

lemma access_pages_quiet:
  assumes "mmu_ok s" "access_pages laddr len pl rw acm s = (r, s')"
  shows "mmu_frame s s' \<and> ad_update\<^sup>*\<^sup>* (phys s) (phys s')"
proof -
  have "mmu_ok s' \<and> mmu_frame s s'"
    using assms(2)
  proof (rule access_pages_rel)
    show "mmu_ok s2 \<and> mmu_frame s s2"
      if R: "mmu_ok s1 \<and> mmu_frame s s1" and t: "translate_dtlb (BX_DTLB_INDEX_OF a 0) a u rw s1 = (q, s2)" for s1 a u q s2
    proof -
      let ?n = "BX_DTLB_INDEX_OF a 0"
      obtain e' s3 where "translate_linear (tlb_entry (DTLB s1) ?n) a u rw s1 = (q, e', s3)"
        and "s2 = s3\<lparr>DTLB := set_entry ?n e' (DTLB s3)\<rparr>"
        using t by (auto simp: translate_dtlb_def Let_def split: prod.splits)
      then have "mmu_frame s1 s2" using translate_frame [of s1] R by simp
      then show ?thesis using R mmu_ok_frame mmu_frame_trans by blast
    qed
    show "mmu_ok (s1\<lparr>address_xlation := x\<rparr>) \<and> mmu_frame s (s1\<lparr>address_xlation := x\<rparr>)"
      if "mmu_ok s1 \<and> mmu_frame s s1" for s1 x
      using that mmu_ok_frame [of s1 "s1\<lparr>address_xlation := x\<rparr>"] by simp
  qed (use assms(1) in simp)
  then show ?thesis using access_pages_memory [OF assms] by simp
qed

lemma raise_done_Inl: "raise_unless_done t x = (r, s') \<Longrightarrow> s' = snd x"
  by (cases x) (auto simp: raise_unless_done_def split: sum.splits option.splits)

lemma read_linear_translates: "translates (read_linear len n laddr) (\<lambda>_. True)"
  unfolding translates_def read_linear_def Let_def
  by (auto simp: access_read_linear_def split: if_splits prod.splits dest!: raise_done_Inl access_pages_quiet)

lemma read_RMW_linear_translates: "translates (read_RMW_linear len n laddr) (\<lambda>_. True)"
  unfolding translates_def read_RMW_linear_def Let_def
  by (auto simp: access_read_linear_def split: if_splits prod.splits dest!: raise_done_Inl access_pages_quiet)

lemma write_linear_translates: "translates (write_linear len n laddr data) (\<lambda>r. \<exists>t. r = Inl t)"
proof -
  have "mmu_frame m m' \<and> ad_update\<^sup>*\<^sup>* (phys m) (phys m')"
    if ok: "mmu_ok m" and w: "raise_unless_done e (access_write_linear laddr len pl rw acm data m) = (Inl t, m')" for m m' e pl rw acm t
  proof -
    obtain q m1 where p: "access_pages laddr len pl rw acm m = (q, m1)" by (cases "access_pages laddr len pl rw acm m")
    have "m' = m1" using w p by (auto simp: access_write_linear_def raise_unless_done_def split: sum.splits option.splits)
    then show ?thesis using access_pages_quiet [OF ok p] by simp
  qed
  then show ?thesis unfolding translates_def write_linear_def Let_def by (auto split: if_splits)
qed

lemma agen_quiet [precise_intros]: "quiet_op (agen_read n offset len)" "quiet_op (agen_write n offset len)"
    "quiet_op (agen_read32 n off32 len)" "quiet_op (agen_write32 n off32 len)"
proof -
  have seg: "quiet s (s\<lparr>sregs := (sregs s)(n := x)\<rparr>)" if "sys_ok s" "same_segment (sregs s n) x" for s n x
  proof -
    have "mmu_view (s\<lparr>sregs := (sregs s)(n := x)\<rparr>) = mmu_view s"
      using same_segment_fields [OF that(2)] by (simp add: mmu_view_def cpl_def in_long64_mode_def)
    then show ?thesis using that by (simp add: quiet_def)
  qed
  have valid: "same_segment a (set_seg_valid f a)" for a f
    by (cases a; cases "cache a") (simp add: same_segment_def set_seg_valid_def)
  have rd: "same_segment a (snd (read_virtual_checks a off len al))" for a off len al
    by (simp add: read_virtual_checks_def Let_def valid)
  have wr: "same_segment a (snd (write_virtual_checks a off len al))" for a off len al
    by (simp add: write_virtual_checks_def Let_def valid)
  have c: "quiet_op (checked_agen32 vc f4 f al n off len)" if vc: "\<And>a off len al. same_segment a (snd (vc a off len al))" for vc f4 f al n off len
    unfolding quiet_op_def
  proof (intro allI impI)
    fix s assume ok: "sys_ok s"
    obtain r x where x: "vc (sregs s n) off len al = (r, x)" by (cases "vc (sregs s n) off len al")
    then have "quiet s (s\<lparr>sregs := (sregs s)(n := x)\<rparr>)" using seg [OF ok] vc [of "sregs s n" off len al] by simp
    then show "quiet s (snd (checked_agen32 vc f4 f al n off len s))"
      using ok x by (auto simp: checked_agen32_def Let_def quiet_refl split: sum.split)
  qed
  show r: "quiet_op (agen_read32 n off32 len)" and w: "quiet_op (agen_write32 n off32 len)" for n off32 len
    unfolding agen_read32_def agen_write32_def by (rule c, rule rd wr)+
  have a: "quiet_op (agen g n offset len)" if "\<And>o32. quiet_op (g n o32 len)" for g n offset len
    unfolding quiet_op_def
  proof (intro allI impI)
    fix s assume ok: "sys_ok s"
    then have "quiet s (snd (g n (ucast offset) len s))" using that by (simp add: quiet_op_def)
    then show "quiet s (snd (agen g n offset len s))" using ok by (simp add: agen_def quiet_refl)
  qed
  show "quiet_op (agen_read n offset len)" "quiet_op (agen_write n offset len)"
    unfolding agen_read_def agen_write_def by (rule a, rule r w)+
qed

lemma access_quiet [precise_intros]:
  "quiet_op (read_virtual len n offset)" "quiet_op (read_RMW_virtual len n offset)" "quiet_op (on_mmu (read_linear len n laddr))"
  "quiet_op (on_mmu (read_RMW_linear len n laddr))" "quiet_op (read_virtual_32 len n off32)" "quiet_op (read_RMW_virtual_32 len n off32)"
  unfolding read_virtual_def read_RMW_virtual_def read_virtual_32_def read_RMW_virtual_32_def
  by (intro precise_intros quiet_on_mmu read_linear_translates read_RMW_linear_translates)+

lemma write_precise [precise_intros]:
  "precise (write_virtual len n offset data)" "precise (on_mmu (write_linear len n laddr data))" "precise (write_virtual_32 len n off32 data)"
proof -
  show w: "precise (on_mmu (write_linear len n laddr data))" for laddr by (rule precise_on_mmu [OF write_linear_translates])
  show "precise (write_virtual len n offset data)" "precise (write_virtual_32 len n off32 data)"
    unfolding write_virtual_def write_virtual_32_def by (rule precise_and_then, rule agen_quiet, rule w)+
qed

lemma word_access_precise [precise_intros]:
  "quiet_op (read_virtual_byte n offset)" "quiet_op (read_virtual_word n offset)" "quiet_op (read_virtual_dword n offset)"
  "quiet_op (read_virtual_qword n offset)" "quiet_op (read_RMW_virtual_byte n offset)" "quiet_op (read_RMW_virtual_word n offset)"
  "quiet_op (read_RMW_virtual_dword n offset)" "quiet_op (read_RMW_virtual_qword n offset)"
  "quiet_op (read_linear_byte n offset)" "quiet_op (read_linear_word n offset)" "quiet_op (read_linear_dword n offset)"
  "quiet_op (read_linear_qword n offset)" "quiet_op (read_RMW_linear_qword n offset)"
  "precise (write_virtual_byte n offset v8)" "precise (write_virtual_word n offset v16)" "precise (write_virtual_dword n offset v32)"
  "precise (write_virtual_qword n offset v64)" "precise (write_linear_byte n offset v8)" "precise (write_linear_word n offset v16)"
  "precise (write_linear_dword n offset v32)" "precise (write_linear_qword n offset v64)"
  unfolding read_virtual_byte_def read_virtual_word_def read_virtual_dword_def read_virtual_qword_def read_RMW_virtual_byte_def
    read_RMW_virtual_word_def read_RMW_virtual_dword_def read_RMW_virtual_qword_def read_linear_byte_def read_linear_word_def
    read_linear_dword_def read_linear_qword_def read_RMW_linear_qword_def write_virtual_byte_def write_virtual_word_def
    write_virtual_dword_def write_virtual_qword_def write_linear_byte_def write_linear_word_def write_linear_dword_def write_linear_qword_def
  by (intro quiet_load access_quiet write_precise)+

lemma access32_precise [precise_intros]:
  "quiet_op (read_virtual_byte_32 n off32)" "quiet_op (read_virtual_word_32 n off32)" "quiet_op (read_virtual_dword_32 n off32)"
  "precise (write_virtual_byte_32 n off32 v8)" "precise (write_virtual_word_32 n off32 v16)" "precise (write_virtual_dword_32 n off32 v32)"
  unfolding read_virtual_byte_32_def read_virtual_word_32_def read_virtual_dword_32_def write_virtual_byte_32_def write_virtual_word_32_def
    write_virtual_dword_32_def
  by (intro quiet_load access_quiet write_precise)+

lemma quiet_trivial [precise_intros]: "quiet_op (exception v e)" "quiet_op (sys_get f)"
  by (simp_all add: quiet_op_def exception_def sys_get_def quiet_refl)

section \<open>Outcomes of instructions with a memory operand\<close>

definition keeps_core :: "'a sys_op \<Rightarrow> bool" where "keeps_core m \<longleftrightarrow> (\<forall>s. core (snd (m s)) = core s)"

lemma keeps_coreD: "keeps_core m \<Longrightarrow> m s = (r, s') \<Longrightarrow> core s' = core s"
  unfolding keeps_core_def by (metis snd_conv)

lemma keeps_core_intros [intro, simp]: "keeps_core (on_mmu f)" "keeps_core (sys_return x)"
  by (simp_all add: keeps_core_def on_mmu_def sys_return_def split: prod.split)

lemma keeps_core_and_then [intro]: "keeps_core m \<Longrightarrow> (\<And>x. keeps_core (f x)) \<Longrightarrow> keeps_core (and_then m f)"
  by (simp add: keeps_core_def and_then_def split: prod.split sum.split) (metis snd_conv)

lemma keeps_core_load [intro]: "keeps_core m \<Longrightarrow> keeps_core (load m)"
  unfolding load_def by (intro keeps_core_and_then) simp_all

lemma keeps_core_agen [simp]: "keeps_core (agen_read n offset len)" "keeps_core (agen_write n offset len)"
  by (simp_all add: keeps_core_def agen_read_def agen_write_def agen_def agen_read32_def agen_write32_def checked_agen32_def Let_def
      split: prod.split sum.split)

lemma keeps_core_access [simp]:
  "keeps_core (read_virtual_byte n offset)" "keeps_core (read_virtual_word n offset)" "keeps_core (read_virtual_dword n offset)"
  "keeps_core (read_virtual_qword n offset)" "keeps_core (read_RMW_virtual_byte n offset)" "keeps_core (read_RMW_virtual_word n offset)"
  "keeps_core (read_RMW_virtual_dword n offset)" "keeps_core (read_RMW_virtual_qword n offset)"
  "keeps_core (read_linear_byte n offset)" "keeps_core (read_linear_word n offset)" "keeps_core (read_linear_dword n offset)"
  "keeps_core (read_linear_qword n offset)" "keeps_core (read_RMW_linear_qword n offset)"
  unfolding read_virtual_byte_def read_virtual_word_def read_virtual_dword_def read_virtual_qword_def read_RMW_virtual_byte_def
    read_RMW_virtual_word_def read_RMW_virtual_dword_def read_RMW_virtual_qword_def read_linear_byte_def read_linear_word_def
    read_linear_dword_def read_linear_qword_def read_RMW_linear_qword_def read_virtual_def read_RMW_virtual_def
  by (intro keeps_core_load keeps_core_and_then keeps_core_agen keeps_core_intros)+

text \<open>
  \<open>rmw_spec rd wr f P op s\<close>: the instruction \<open>op\<close> in state \<open>s\<close> faults exactly when the read-modify-write access \<open>rd\<close> does, and
  in the same state; otherwise it writes \<open>f v\<close> back through \<open>wr\<close> for the value \<open>v\<close> read, and leaves registers and flags
  that satisfy \<open>P v\<close>.  \<open>load_spec rd P op s\<close> is the same for an instruction that only reads its operand.
\<close>

definition rmw_spec :: "'a sys_op \<Rightarrow> ('a \<Rightarrow> unit sys_op) \<Rightarrow> ('a \<Rightarrow> 'a) \<Rightarrow> ('a \<Rightarrow> bx_cpu \<Rightarrow> bool) \<Rightarrow> unit sys_op \<Rightarrow> bx_sys \<Rightarrow> bool" where
  "rmw_spec rd wr f P op s \<longleftrightarrow>
    (case rd s of (Inl t, s1) \<Rightarrow> op s = (Inl t, s1)
     | (Inr v, s1) \<Rightarrow> \<exists>c. op s = (Inr (), (snd (wr (f v) s1))\<lparr>core := c\<rparr>) \<and> P v c)"

definition load_spec :: "'a sys_op \<Rightarrow> ('a \<Rightarrow> bx_cpu \<Rightarrow> bool) \<Rightarrow> unit sys_op \<Rightarrow> bx_sys \<Rightarrow> bool" where
  "load_spec rd P op s \<longleftrightarrow>
    (case rd s of (Inl t, s1) \<Rightarrow> op s = (Inl t, s1) | (Inr v, s1) \<Rightarrow> \<exists>c. op s = (Inr (), s1\<lparr>core := c\<rparr>) \<and> P v c)"

lemma rmw_specI:
  assumes "op s = and_then rd k s" "keeps_core rd"
    and k: "\<And>v s1. core s1 = core s \<Longrightarrow> \<exists>c. k v s1 = (Inr (), (snd (wr (f v) s1))\<lparr>core := c\<rparr>) \<and> P v c"
  shows "rmw_spec rd wr f P op s"
proof -
  obtain r s1 where r: "rd s = (r, s1)" by (cases "rd s")
  note c = keeps_coreD [OF assms(2) r]
  show ?thesis
  proof (cases r)
    case (Inl t)
    then show ?thesis using r assms(1) by (simp add: rmw_spec_def and_then_def)
  next
    case (Inr v)
    then show ?thesis using r assms(1) k [OF c, of v] by (simp add: rmw_spec_def and_then_def)
  qed
qed

lemma load_specI:
  assumes "op s = and_then rd k s" "keeps_core rd"
    and k: "\<And>v s1. core s1 = core s \<Longrightarrow> \<exists>c. k v s1 = (Inr (), s1\<lparr>core := c\<rparr>) \<and> P v c"
  shows "load_spec rd P op s"
proof -
  obtain r s1 where r: "rd s = (r, s1)" by (cases "rd s")
  note c = keeps_coreD [OF assms(2) r]
  show ?thesis
  proof (cases r)
    case (Inl t)
    then show ?thesis using r assms(1) by (simp add: load_spec_def and_then_def)
  next
    case (Inr v)
    then show ?thesis using r assms(1) k [OF c, of v] by (simp add: load_spec_def and_then_def)
  qed
qed

lemma write_RMW_eq: "write_RMW len bs s = (Inr (), s\<lparr>mmu := write_RMW_linear len bs (mmu_view s)\<rparr>)"
  by (simp add: write_RMW_def on_mmu_def)

lemmas write_RMW_word_defs = write_RMW_linear_byte_def write_RMW_linear_word_def write_RMW_linear_dword_def write_RMW_linear_qword_def

lemma mmu_view_core: "eflags c = eflags (core s) \<Longrightarrow> mmu_view (s\<lparr>core := c\<rparr>) = mmu_view s"
  by (simp add: mmu_view_def cpl_def in_long64_mode_def)

lemma with_core_apply: "with_core f s = f (core s) s" by (simp add: with_core_def)

lemma on_core_apply: "on_core f s = (Inr (), s\<lparr>core := f (core s)\<rparr>)" by (simp add: on_core_def sys_modify_def)

lemma laddr64_apply: "laddr64 n offset f s = f (get_laddr64 n offset s) s" by (simp add: laddr64_def)

lemma load_spec_intro:
  assumes "op s = and_then rd k s" "keeps_core rd"
    and "\<And>v s1. core s1 = core s \<Longrightarrow> k v s1 = on_core (g v) s1" "\<And>v. P v (g v (core s))"
  shows "load_spec rd P op s"
  using assms(1,2)
proof (rule load_specI)
  fix v and s1 :: bx_sys assume c: "core s1 = core s"
  show "\<exists>ca. k v s1 = (Inr (), s1\<lparr>core := ca\<rparr>) \<and> P v ca"
    using assms(4) unfolding assms(3) [OF c] on_core_apply c by blast
qed

section \<open>Memory forms as register forms\<close>

text \<open>
  \<open>operand_spec rd wr p get put h op s\<close>: the instruction \<open>op\<close> acts on the value read by \<open>rd\<close> as the register form \<open>h\<close> acts on a
  register that holds it.  It faults as \<open>rd\<close> does; otherwise it stores through \<open>wr\<close> what the register form leaves in that
  register, if \<open>p\<close>, and keeps its flags.  The register is one that the instruction does not use otherwise.
\<close>

definition operand_reg :: "bxInstruction_c \<Rightarrow> nat" where "operand_reg i = src i + 2"

definition on_operand_reg :: "bxInstruction_c \<Rightarrow> bxInstruction_c" where
  "on_operand_reg i = i\<lparr>dst := operand_reg i, extend8bitL := True\<rparr>"

definition shift_operand_count :: "Ia_opcode \<Rightarrow> bxInstruction_c \<Rightarrow> bx_sys \<Rightarrow> nat" where
  "shift_operand_count opc i s = unat (if getIaOpcode i = opc then CL (core s) else Ib i)"

definition operand_spec :: "'a sys_op \<Rightarrow> ('a \<Rightarrow> unit sys_op) \<Rightarrow> bool \<Rightarrow> (bx_cpu \<Rightarrow> 'a) \<Rightarrow> ('a \<Rightarrow> bx_cpu \<Rightarrow> bx_cpu) \<Rightarrow> (bx_cpu \<Rightarrow> bx_cpu) \<Rightarrow>
    unit sys_op \<Rightarrow> bx_sys \<Rightarrow> bool" where
  "operand_spec rd wr p get put h op s \<longleftrightarrow>
    (case rd s of (Inl t, s1) \<Rightarrow> op s = (Inl t, s1)
     | (Inr v, s1) \<Rightarrow> let c = h (put v (core s)) in
         op s = (Inr (), (if p then snd (wr (get c) s1) else s1)\<lparr>core := (core s)\<lparr>oszapc := oszapc c\<rparr>\<rparr>))"

lemma operand_reg_distinct: "operand_reg i \<noteq> src i" "operand_reg i \<noteq> 1" "src i \<noteq> operand_reg i" "1 \<noteq> operand_reg i" "operand_reg i \<noteq> Suc 0" "Suc 0 \<noteq> operand_reg i"
  by (simp_all add: operand_reg_def)

lemma put_operand_reg:
  fixes i :: bxInstruction_c and c :: bx_cpu
  shows "oszapc (BX_WRITE_8BIT_REGx n e v8 c) = oszapc c" "oszapc (BX_WRITE_16BIT_REG n v16 c) = oszapc c"
    "oszapc (BX_WRITE_32BIT_REGZ n v32 c) = oszapc c" "oszapc (BX_WRITE_64BIT_REG n v64 c) = oszapc c" "oszapc (BX_CLEAR_64BIT_HIGH n c) = oszapc c"
    "n \<noteq> Suc 0 \<Longrightarrow> reg_rl (gen_reg (BX_WRITE_8BIT_REGx n True v8 c) (Suc 0)) = reg_rl (gen_reg c (Suc 0))" "n \<noteq> Suc 0 \<Longrightarrow> reg_rl (gen_reg (BX_WRITE_16BIT_REG n v16 c) (Suc 0)) = reg_rl (gen_reg c (Suc 0))"
    "n \<noteq> Suc 0 \<Longrightarrow> reg_rl (gen_reg (BX_WRITE_32BIT_REGZ n v32 c) (Suc 0)) = reg_rl (gen_reg c (Suc 0))" "n \<noteq> Suc 0 \<Longrightarrow> reg_rl (gen_reg (BX_WRITE_64BIT_REG n v64 c) (Suc 0)) = reg_rl (gen_reg c (Suc 0))"
    "BX_READ_16BIT_REG (src i) (BX_WRITE_16BIT_REG (operand_reg i) v16 c) = BX_READ_16BIT_REG (src i) c"
    "BX_READ_32BIT_REG (src i) (BX_WRITE_32BIT_REGZ (operand_reg i) v32 c) = BX_READ_32BIT_REG (src i) c"
    "BX_READ_64BIT_REG (src i) (BX_WRITE_64BIT_REG (operand_reg i) v64 c) = BX_READ_64BIT_REG (src i) c"
  by (simp_all add: BX_WRITE_8BIT_REGx_def BX_WRITE_8BIT_REGL_def BX_WRITE_8BIT_REGH_def BX_WRITE_16BIT_REG_def BX_WRITE_32BIT_REGZ_def
      BX_WRITE_64BIT_REG_def BX_CLEAR_64BIT_HIGH_def set_gen_reg_def BX_READ_16BIT_REG_def BX_READ_32BIT_REG_def BX_READ_64BIT_REG_def operand_reg_distinct)

lemma read_oszapc_update:
  "BX_READ_8BIT_REGx n e (c\<lparr>oszapc := z\<rparr>) = BX_READ_8BIT_REGx n e c" "BX_READ_16BIT_REG n (c\<lparr>oszapc := z\<rparr>) = BX_READ_16BIT_REG n c"
  "BX_READ_32BIT_REG n (c\<lparr>oszapc := z\<rparr>) = BX_READ_32BIT_REG n c" "BX_READ_64BIT_REG n (c\<lparr>oszapc := z\<rparr>) = BX_READ_64BIT_REG n c"
  by (simp_all add: BX_READ_8BIT_REGx_def BX_READ_16BIT_REG_def BX_READ_32BIT_REG_def BX_READ_64BIT_REG_def)

lemma on_operand_reg_fields:
  "dst (on_operand_reg i) = operand_reg i" "extend8bitL (on_operand_reg i)" "src1 (on_operand_reg i) = src1 i"
  "getIaOpcode (on_operand_reg i) = getIaOpcode i" "Ib (on_operand_reg i) = Ib i"
  by (simp_all add: on_operand_reg_def)

text \<open>
  What the handlers rely on when they write an operand back: the write never faults, and depends on registers and flags
  only through the stored EFLAGS image.
\<close>

locale write_back =
  fixes wr :: "'a \<Rightarrow> unit sys_op"
  assumes returns: "\<exists>s'. wr w s = (Inr (), s') \<and> core s' = core s"
    and other_core: "eflags c = eflags (core s) \<Longrightarrow> wr w (s\<lparr>core := c\<rparr>) = (Inr (), (snd (wr w s))\<lparr>core := c\<rparr>)"
begin

lemma wr_last: "wr w s = (Inr (), (snd (wr w s))\<lparr>core := core s\<rparr>)"
  using other_core [of "core s" s w] by simp

lemma wr_then: "and_then (wr w) (\<lambda>_. on_core g) s = (Inr (), (snd (wr w s))\<lparr>core := g (core s)\<rparr>)"
proof -
  obtain s' where "wr w s = (Inr (), s')" "core s' = core s" using returns by blast
  then show ?thesis by (simp add: and_then_def on_core_apply)
qed

lemma spec_intro:
  assumes "op s = and_then rd k s" "keeps_core rd"
    and "\<And>v s1. core s1 = core s \<Longrightarrow> k v s1 = and_then (wr (h v)) (\<lambda>_. on_core (g v)) s1"
    and "\<And>v. h v = f v" "\<And>v. P v (g v (core s))"
  shows "rmw_spec rd wr f P op s"
  using assms(1,2)
proof (rule rmw_specI)
  fix v and s1 :: bx_sys assume c: "core s1 = core s"
  have "k v s1 = (Inr (), (snd (wr (f v) s1))\<lparr>core := g v (core s)\<rparr>)"
    unfolding assms(3) [OF c] assms(4) wr_then c ..
  then show "\<exists>ca. k v s1 = (Inr (), (snd (wr (f v) s1))\<lparr>core := ca\<rparr>) \<and> P v ca" using assms(5) by blast
qed

lemma spec_last:
  assumes "op s = and_then rd k s" "keeps_core rd"
    and "\<And>v s1. core s1 = core s \<Longrightarrow> k v s1 = wr (h v) s1" and "\<And>v. h v = f v" "\<And>v. P v (core s)"
  shows "rmw_spec rd wr f P op s"
  using assms(1,2)
proof (rule rmw_specI)
  fix v and s1 :: bx_sys assume c: "core s1 = core s"
  have "k v s1 = (Inr (), (snd (wr (f v) s1))\<lparr>core := core s\<rparr>)"
    unfolding assms(3) [OF c] assms(4) c [symmetric] by (rule wr_last)
  then show "\<exists>ca. k v s1 = (Inr (), (snd (wr (f v) s1))\<lparr>core := ca\<rparr>) \<and> P v ca" using assms(5) by blast
qed

lemma spec_core_first:
  assumes "op s = and_then rd k s" "keeps_core rd"
    and "\<And>v s1. core s1 = core s \<Longrightarrow> k v s1 = and_then (on_core (g v)) (\<lambda>_. wr (h v)) s1"
    and "\<And>v. eflags (g v (core s)) = eflags (core s)" "\<And>v. h v = f v" "\<And>v. P v (g v (core s))"
  shows "rmw_spec rd wr f P op s"
  using assms(1,2)
proof (rule rmw_specI)
  fix v and s1 :: bx_sys assume c: "core s1 = core s"
  have "k v s1 = (Inr (), (snd (wr (f v) s1))\<lparr>core := g v (core s)\<rparr>)"
    unfolding assms(3) [OF c] assms(5) using other_core [of "g v (core s1)" s1 "f v"] assms(4) [of v] by (simp add: and_then_def on_core_apply c)
  then show "\<exists>ca. k v s1 = (Inr (), (snd (wr (f v) s1))\<lparr>core := ca\<rparr>) \<and> P v ca" using assms(6) by blast
qed

text \<open>Flags first, then either a new value is written back or the old one, with an update of the accumulator.\<close>

lemma compare_swap:
  assumes "op s = and_then rd k s" "keeps_core rd"
    and "\<And>v s1. core s1 = core s \<Longrightarrow> k v s1 = and_then (on_core (g v)) (\<lambda>_.
      if p v then with_core (\<lambda>c. wr (b c)) else and_then (wr (h v)) (\<lambda>_. on_core (a v))) s1"
    and "\<And>v. eflags (g v (core s)) = eflags (core s)"
    and "\<And>v. (if p v then b (g v (core s)) else h v) = f v"
    and "\<And>v. P v (if p v then g v (core s) else a v (g v (core s)))"
  shows "rmw_spec rd wr f P op s"
  using assms(1,2)
proof (rule rmw_specI)
  fix v and s1 :: bx_sys assume c: "core s1 = core s"
  define s2 where "s2 = s1\<lparr>core := g v (core s)\<rparr>"
  have e: "eflags (g v (core s)) = eflags (core s1)" unfolding c by (rule assms(4))
  have k: "k v s1 = (if p v then wr (b (g v (core s))) s2 else and_then (wr (h v)) (\<lambda>_. on_core (a v)) s2)"
    unfolding assms(3) [OF c] by (simp add: and_then_def on_core_apply c s2_def with_core_def)
  have w: "wr x s2 = (Inr (), (snd (wr x s1))\<lparr>core := g v (core s)\<rparr>)" for x
    unfolding s2_def by (rule other_core [OF e])
  have c2: "core s2 = g v (core s)" by (simp add: s2_def)
  have "k v s1 = (Inr (), (snd (wr (f v) s1))\<lparr>core := if p v then g v (core s) else a v (g v (core s))\<rparr>)"
    using assms(5) [of v] c2 unfolding k wr_then by (cases "p v") (simp_all add: w)
  then show "\<exists>ca. k v s1 = (Inr (), (snd (wr (f v) s1))\<lparr>core := ca\<rparr>) \<and> P v ca" using assms(6) by blast
qed

text \<open>An operand that is written back only under a condition.\<close>

lemma operand_form:
  assumes "op s = and_then rd k s" "keeps_core rd"
    and "\<And>v s1. core s1 = core s \<Longrightarrow> k v s1 = (let c = h (put v (core s)) in
      if p then (Inr (), (snd (wr (get c) s1))\<lparr>core := (core s)\<lparr>oszapc := oszapc c\<rparr>\<rparr>) else (Inr (), s1\<lparr>core := (core s)\<lparr>oszapc := oszapc c\<rparr>\<rparr>))"
  shows "operand_spec rd wr p get put h op s"
proof -
  obtain r s1 where r: "rd s = (r, s1)" by (cases "rd s")
  note c = keeps_coreD [OF assms(2) r]
  show ?thesis
  proof (cases r)
    case (Inl t)
    then show ?thesis using r assms(1) by (simp add: operand_spec_def and_then_def)
  next
    case (Inr v)
    then show ?thesis using r assms(1) assms(3) [OF c, of v] by (simp add: operand_spec_def and_then_def Let_def)
  qed
qed

end

interpretation rmw8: write_back write_RMW_linear_byte
  unfolding write_RMW_word_defs by unfold_locales (simp_all add: write_RMW_eq mmu_view_core)

interpretation rmw16: write_back write_RMW_linear_word
  unfolding write_RMW_word_defs by unfold_locales (simp_all add: write_RMW_eq mmu_view_core)

interpretation rmw32: write_back write_RMW_linear_dword
  unfolding write_RMW_word_defs by unfold_locales (simp_all add: write_RMW_eq mmu_view_core)

interpretation rmw64: write_back write_RMW_linear_qword
  unfolding write_RMW_word_defs by unfold_locales (simp_all add: write_RMW_eq mmu_view_core)

lemmas operand_form_simps = read_oszapc_update on_operand_reg_fields put_operand_reg operand_reg_distinct shift_operand_count_def upd_oszapc_def
  r8x.rd_wr_same r16.rd_wr_same r32.rd_wr_same r64.rd_wr_same rmw8.wr_then rmw16.wr_then rmw32.wr_then rmw64.wr_then
  on_core_apply sys_return_def with_core_apply

end
