(* ===== verification/ArithMem8.thy ===== *)
theory ArithMem8
  imports MemOperand Arith8
begin

text \<open>
  The memory forms of the 8-bit integer arithmetic handlers of \<^verbatim>\<open>cpu/arith8.cc\<close>.  A handler with a memory destination
  checks write access when it reads the operand and writes the result back through the saved translation.
\<close>

section \<open>Handlers\<close>

definition ADD_EbGbM :: "bxInstruction_c \<Rightarrow> unit sys_op" where
  "ADD_EbGbM i = with_core (\<lambda>c.
    let eaddr = BX_CPU_RESOLVE_ADDR i c in
    and_then (read_RMW_virtual_byte (instr_seg i) eaddr) (\<lambda>m.
    with_core (\<lambda>c.
      let op1_8 = ucast m :: Bit32u;
          op2_8 = ucast (BX_READ_8BIT_REGx (src i) (extend8bitL i) c);
          sum_8 = op1_8 + op2_8
      in and_then (write_RMW_linear_byte (ucast sum_8)) (\<lambda>_. on_core (upd_oszapc (SET_FLAGS_OSZAPC_ADD_8 op1_8 op2_8 sum_8))))))"

definition ADD_GbEbM :: "bxInstruction_c \<Rightarrow> unit sys_op" where
  "ADD_GbEbM i = with_core (\<lambda>c.
    let eaddr = BX_CPU_RESOLVE_ADDR i c; op1_8 = ucast (BX_READ_8BIT_REGx (dst i) (extend8bitL i) c) :: Bit32u in
    and_then (read_virtual_byte (instr_seg i) eaddr) (\<lambda>m.
    let op2_8 = ucast m;
        sum_8 = op1_8 + op2_8
    in on_core (\<lambda>c. upd_oszapc (SET_FLAGS_OSZAPC_ADD_8 op1_8 op2_8 sum_8) (BX_WRITE_8BIT_REGx (dst i) (extend8bitL i) (ucast sum_8) c))))"

definition ADD_EbIbM :: "bxInstruction_c \<Rightarrow> unit sys_op" where
  "ADD_EbIbM i = with_core (\<lambda>c.
    let eaddr = BX_CPU_RESOLVE_ADDR i c in
    and_then (read_RMW_virtual_byte (instr_seg i) eaddr) (\<lambda>m.
    with_core (\<lambda>c.
      let op1_8 = ucast m :: Bit32u;
          op2_8 = ucast (Ib i);
          sum_8 = op1_8 + op2_8
      in and_then (write_RMW_linear_byte (ucast sum_8)) (\<lambda>_. on_core (upd_oszapc (SET_FLAGS_OSZAPC_ADD_8 op1_8 op2_8 sum_8))))))"

definition ADC_EbGbM :: "bxInstruction_c \<Rightarrow> unit sys_op" where
  "ADC_EbGbM i = with_core (\<lambda>c.
    let eaddr = BX_CPU_RESOLVE_ADDR i c in
    and_then (read_RMW_virtual_byte (instr_seg i) eaddr) (\<lambda>m.
    with_core (\<lambda>c.
      let op1_8 = ucast m :: Bit32u;
          op2_8 = ucast (BX_READ_8BIT_REGx (src i) (extend8bitL i) c);
          sum_8 = op1_8 + op2_8 + getB_CF (oszapc c)
      in and_then (write_RMW_linear_byte (ucast sum_8)) (\<lambda>_. on_core (upd_oszapc (SET_FLAGS_OSZAPC_ADD_8 op1_8 op2_8 sum_8))))))"

definition ADC_GbEbM :: "bxInstruction_c \<Rightarrow> unit sys_op" where
  "ADC_GbEbM i = with_core (\<lambda>c.
    let eaddr = BX_CPU_RESOLVE_ADDR i c; op1_8 = ucast (BX_READ_8BIT_REGx (dst i) (extend8bitL i) c) :: Bit32u in
    and_then (read_virtual_byte (instr_seg i) eaddr) (\<lambda>m.
    with_core (\<lambda>c.
    let op2_8 = ucast m;
        sum_8 = op1_8 + op2_8 + getB_CF (oszapc c)
    in on_core (\<lambda>c. upd_oszapc (SET_FLAGS_OSZAPC_ADD_8 op1_8 op2_8 sum_8) (BX_WRITE_8BIT_REGx (dst i) (extend8bitL i) (ucast sum_8) c)))))"

definition ADC_EbIbM :: "bxInstruction_c \<Rightarrow> unit sys_op" where
  "ADC_EbIbM i = with_core (\<lambda>c.
    let eaddr = BX_CPU_RESOLVE_ADDR i c in
    and_then (read_RMW_virtual_byte (instr_seg i) eaddr) (\<lambda>m.
    with_core (\<lambda>c.
      let op1_8 = ucast m :: Bit32u;
          op2_8 = ucast (Ib i);
          sum_8 = op1_8 + op2_8 + getB_CF (oszapc c)
      in and_then (write_RMW_linear_byte (ucast sum_8)) (\<lambda>_. on_core (upd_oszapc (SET_FLAGS_OSZAPC_ADD_8 op1_8 op2_8 sum_8))))))"

definition SBB_EbGbM :: "bxInstruction_c \<Rightarrow> unit sys_op" where
  "SBB_EbGbM i = with_core (\<lambda>c.
    let eaddr = BX_CPU_RESOLVE_ADDR i c in
    and_then (read_RMW_virtual_byte (instr_seg i) eaddr) (\<lambda>m.
    with_core (\<lambda>c.
      let op1_8 = ucast m :: Bit32u;
          op2_8 = ucast (BX_READ_8BIT_REGx (src i) (extend8bitL i) c);
          diff_8 = op1_8 - (op2_8 + getB_CF (oszapc c))
      in and_then (write_RMW_linear_byte (ucast diff_8)) (\<lambda>_. on_core (upd_oszapc (SET_FLAGS_OSZAPC_SUB_8 op1_8 op2_8 diff_8))))))"

definition SBB_GbEbM :: "bxInstruction_c \<Rightarrow> unit sys_op" where
  "SBB_GbEbM i = with_core (\<lambda>c.
    let eaddr = BX_CPU_RESOLVE_ADDR i c; op1_8 = ucast (BX_READ_8BIT_REGx (dst i) (extend8bitL i) c) :: Bit32u in
    and_then (read_virtual_byte (instr_seg i) eaddr) (\<lambda>m.
    with_core (\<lambda>c.
    let op2_8 = ucast m;
        diff_8 = op1_8 - (op2_8 + getB_CF (oszapc c))
    in on_core (\<lambda>c. upd_oszapc (SET_FLAGS_OSZAPC_SUB_8 op1_8 op2_8 diff_8) (BX_WRITE_8BIT_REGx (dst i) (extend8bitL i) (ucast diff_8) c)))))"

definition SBB_EbIbM :: "bxInstruction_c \<Rightarrow> unit sys_op" where
  "SBB_EbIbM i = with_core (\<lambda>c.
    let eaddr = BX_CPU_RESOLVE_ADDR i c in
    and_then (read_RMW_virtual_byte (instr_seg i) eaddr) (\<lambda>m.
    with_core (\<lambda>c.
      let op1_8 = ucast m :: Bit32u;
          op2_8 = ucast (Ib i);
          diff_8 = op1_8 - (op2_8 + getB_CF (oszapc c))
      in and_then (write_RMW_linear_byte (ucast diff_8)) (\<lambda>_. on_core (upd_oszapc (SET_FLAGS_OSZAPC_SUB_8 op1_8 op2_8 diff_8))))))"

definition SUB_EbGbM :: "bxInstruction_c \<Rightarrow> unit sys_op" where
  "SUB_EbGbM i = with_core (\<lambda>c.
    let eaddr = BX_CPU_RESOLVE_ADDR i c in
    and_then (read_RMW_virtual_byte (instr_seg i) eaddr) (\<lambda>m.
    with_core (\<lambda>c.
      let op1_8 = ucast m :: Bit32u;
          op2_8 = ucast (BX_READ_8BIT_REGx (src i) (extend8bitL i) c);
          diff_8 = op1_8 - op2_8
      in and_then (write_RMW_linear_byte (ucast diff_8)) (\<lambda>_. on_core (upd_oszapc (SET_FLAGS_OSZAPC_SUB_8 op1_8 op2_8 diff_8))))))"

definition SUB_GbEbM :: "bxInstruction_c \<Rightarrow> unit sys_op" where
  "SUB_GbEbM i = with_core (\<lambda>c.
    let eaddr = BX_CPU_RESOLVE_ADDR i c; op1_8 = ucast (BX_READ_8BIT_REGx (dst i) (extend8bitL i) c) :: Bit32u in
    and_then (read_virtual_byte (instr_seg i) eaddr) (\<lambda>m.
    let op2_8 = ucast m;
        diff_8 = op1_8 - op2_8
    in on_core (\<lambda>c. upd_oszapc (SET_FLAGS_OSZAPC_SUB_8 op1_8 op2_8 diff_8) (BX_WRITE_8BIT_REGx (dst i) (extend8bitL i) (ucast diff_8) c))))"

definition SUB_EbIbM :: "bxInstruction_c \<Rightarrow> unit sys_op" where
  "SUB_EbIbM i = with_core (\<lambda>c.
    let eaddr = BX_CPU_RESOLVE_ADDR i c in
    and_then (read_RMW_virtual_byte (instr_seg i) eaddr) (\<lambda>m.
    with_core (\<lambda>c.
      let op1_8 = ucast m :: Bit32u;
          op2_8 = ucast (Ib i);
          diff_8 = op1_8 - op2_8
      in and_then (write_RMW_linear_byte (ucast diff_8)) (\<lambda>_. on_core (upd_oszapc (SET_FLAGS_OSZAPC_SUB_8 op1_8 op2_8 diff_8))))))"

definition CMP_EbGbM :: "bxInstruction_c \<Rightarrow> unit sys_op" where
  "CMP_EbGbM i = with_core (\<lambda>c.
    let eaddr = BX_CPU_RESOLVE_ADDR i c in
    and_then (read_virtual_byte (instr_seg i) eaddr) (\<lambda>m.
    with_core (\<lambda>c.
      let op1_8 = ucast m :: Bit32u;
          op2_8 = ucast (BX_READ_8BIT_REGx (src i) (extend8bitL i) c);
          diff_8 = op1_8 - op2_8
      in on_core (upd_oszapc (SET_FLAGS_OSZAPC_SUB_8 op1_8 op2_8 diff_8)))))"

definition CMP_GbEbM :: "bxInstruction_c \<Rightarrow> unit sys_op" where
  "CMP_GbEbM i = with_core (\<lambda>c.
    let eaddr = BX_CPU_RESOLVE_ADDR i c; op1_8 = ucast (BX_READ_8BIT_REGx (dst i) (extend8bitL i) c) :: Bit32u in
    and_then (read_virtual_byte (instr_seg i) eaddr) (\<lambda>m.
    let op2_8 = ucast m;
        diff_8 = op1_8 - op2_8
    in on_core (upd_oszapc (SET_FLAGS_OSZAPC_SUB_8 op1_8 op2_8 diff_8))))"

definition CMP_EbIbM :: "bxInstruction_c \<Rightarrow> unit sys_op" where
  "CMP_EbIbM i = with_core (\<lambda>c.
    let eaddr = BX_CPU_RESOLVE_ADDR i c in
    and_then (read_virtual_byte (instr_seg i) eaddr) (\<lambda>m.
    with_core (\<lambda>c.
      let op1_8 = ucast m :: Bit32u;
          op2_8 = ucast (Ib i);
          diff_8 = op1_8 - op2_8
      in on_core (upd_oszapc (SET_FLAGS_OSZAPC_SUB_8 op1_8 op2_8 diff_8)))))"

definition XADD_EbGbM :: "bxInstruction_c \<Rightarrow> unit sys_op" where
  "XADD_EbGbM i = with_core (\<lambda>c.
    let eaddr = BX_CPU_RESOLVE_ADDR i c in
    and_then (read_RMW_virtual_byte (instr_seg i) eaddr) (\<lambda>m.
    with_core (\<lambda>c.
      let op1_8 = ucast m :: Bit32u;
          op2_8 = ucast (BX_READ_8BIT_REGx (src i) (extend8bitL i) c);
          sum_8 = op1_8 + op2_8
      in and_then (write_RMW_linear_byte (ucast sum_8)) (\<lambda>_. on_core (\<lambda>c. upd_oszapc (SET_FLAGS_OSZAPC_ADD_8 op1_8 op2_8 sum_8) (BX_WRITE_8BIT_REGx (src i) (extend8bitL i) (ucast op1_8) c))))))"

definition NEG_EbM :: "bxInstruction_c \<Rightarrow> unit sys_op" where
  "NEG_EbM i = with_core (\<lambda>c.
    let eaddr = BX_CPU_RESOLVE_ADDR i c in
    and_then (read_RMW_virtual_byte (instr_seg i) eaddr) (\<lambda>m.
    let op1_8 = ucast m :: Bit32u;
        op1_8 = - op1_8
    in and_then (write_RMW_linear_byte (ucast op1_8)) (\<lambda>_. on_core (upd_oszapc (SET_FLAGS_OSZAPC_SUB_8 0 (0 - op1_8) op1_8)))))"

definition INC_EbM :: "bxInstruction_c \<Rightarrow> unit sys_op" where
  "INC_EbM i = with_core (\<lambda>c.
    let eaddr = BX_CPU_RESOLVE_ADDR i c in
    and_then (read_RMW_virtual_byte (instr_seg i) eaddr) (\<lambda>m.
    let op1_8 = ucast m :: Bit32u;
        op1_8 = op1_8 + 1
    in and_then (write_RMW_linear_byte (ucast op1_8)) (\<lambda>_. on_core (upd_oszapc (SET_FLAGS_OSZAP_ADD_8 (op1_8 - 1) 0 op1_8)))))"

definition DEC_EbM :: "bxInstruction_c \<Rightarrow> unit sys_op" where
  "DEC_EbM i = with_core (\<lambda>c.
    let eaddr = BX_CPU_RESOLVE_ADDR i c in
    and_then (read_RMW_virtual_byte (instr_seg i) eaddr) (\<lambda>m.
    let op1_8 = ucast m :: Bit32u;
        op1_8 = op1_8 - 1
    in and_then (write_RMW_linear_byte (ucast op1_8)) (\<lambda>_. on_core (upd_oszapc (SET_FLAGS_OSZAP_SUB_8 (op1_8 + 1) 0 op1_8)))))"

definition CMPXCHG_EbGbM :: "bxInstruction_c \<Rightarrow> unit sys_op" where
  "CMPXCHG_EbGbM i = with_core (\<lambda>c.
    let eaddr = BX_CPU_RESOLVE_ADDR i c in
    and_then (read_RMW_virtual_byte (instr_seg i) eaddr) (\<lambda>m.
    with_core (\<lambda>c.
      let op1_8 = ucast m :: Bit32u;
          diff_8 = ucast (AL c) - op1_8
      in and_then (on_core (upd_oszapc (SET_FLAGS_OSZAPC_SUB_8 (ucast (AL c)) op1_8 diff_8))) (\<lambda>_.
         if diff_8 = 0 then with_core (\<lambda>c. write_RMW_linear_byte (BX_READ_8BIT_REGx (src i) (extend8bitL i) c))
         else and_then (write_RMW_linear_byte (ucast op1_8)) (\<lambda>_. on_core (BX_WRITE_8BIT_REGL 0 (ucast op1_8)))))))"

section \<open>Results and flags\<close>

lemma arith8_mem_reg:
  fixes i :: bxInstruction_c and s :: bx_sys
  defines "rd \<equiv> read_RMW_virtual_byte (instr_seg i) (BX_CPU_RESOLVE_ADDR i (core s))"
    and "a \<equiv> BX_READ_8BIT_REGx (dst i) (extend8bitL i) (core s)" and "b \<equiv> BX_READ_8BIT_REGx (src i) (extend8bitL i) (core s)" and "c \<equiv> fCF (cpu_flags (core s))"
  shows "rmw_spec rd write_RMW_linear_byte (\<lambda>v. v + b) (\<lambda>v k. with_flags k (core s) (add_flags v b False)) (ADD_EbGbM i) s"
    "rmw_spec rd write_RMW_linear_byte (\<lambda>v. v + b + of_bool c) (\<lambda>v k. with_flags k (core s) (add_flags v b c)) (ADC_EbGbM i) s"
    "rmw_spec rd write_RMW_linear_byte (\<lambda>v. v - b) (\<lambda>v k. with_flags k (core s) (sub_flags v b False)) (SUB_EbGbM i) s"
    "rmw_spec rd write_RMW_linear_byte (\<lambda>v. v - (b + of_bool c)) (\<lambda>v k. with_flags k (core s) (sub_flags v b c)) (SBB_EbGbM i) s"
    "rmw_spec rd write_RMW_linear_byte (\<lambda>v. v + b) (\<lambda>v k. with_flags k (BX_WRITE_8BIT_REGx (src i) (extend8bitL i) v (core s)) (add_flags v b False)) (XADD_EbGbM i) s"
  unfolding assms
  by (rule rmw8.spec_intro, simp only: ADD_EbGbM_def ADC_EbGbM_def SUB_EbGbM_def SBB_EbGbM_def XADD_EbGbM_def with_core_apply laddr64_apply Let_def, simp, simp only: with_core_apply Let_def,
      simp add: ucast_add_down ucast_sub_down ucast_minus_down getB_flags, simp add: with_flags_def ucast_add_down ucast_sub_down ucast_minus_down getB_flags flags_ADD0(1) flags_SUB0(1)
      flags_ADD(1) [where c = "fCF (cpu_flags (core s))"] flags_SUB(1) [where c = "fCF (cpu_flags (core s))"])+

lemma arith8_mem_imm:
  fixes i :: bxInstruction_c and s :: bx_sys
  defines "rd \<equiv> read_RMW_virtual_byte (instr_seg i) (BX_CPU_RESOLVE_ADDR i (core s))"
    and "a \<equiv> BX_READ_8BIT_REGx (dst i) (extend8bitL i) (core s)" and "b \<equiv> Ib i" and "c \<equiv> fCF (cpu_flags (core s))"
  shows "rmw_spec rd write_RMW_linear_byte (\<lambda>v. v + b) (\<lambda>v k. with_flags k (core s) (add_flags v b False)) (ADD_EbIbM i) s"
    "rmw_spec rd write_RMW_linear_byte (\<lambda>v. v + b + of_bool c) (\<lambda>v k. with_flags k (core s) (add_flags v b c)) (ADC_EbIbM i) s"
    "rmw_spec rd write_RMW_linear_byte (\<lambda>v. v - b) (\<lambda>v k. with_flags k (core s) (sub_flags v b False)) (SUB_EbIbM i) s"
    "rmw_spec rd write_RMW_linear_byte (\<lambda>v. v - (b + of_bool c)) (\<lambda>v k. with_flags k (core s) (sub_flags v b c)) (SBB_EbIbM i) s"
  unfolding assms
  by (rule rmw8.spec_intro, simp only: ADD_EbIbM_def ADC_EbIbM_def SUB_EbIbM_def SBB_EbIbM_def with_core_apply laddr64_apply Let_def, simp, simp only: with_core_apply Let_def,
      simp add: ucast_add_down ucast_sub_down ucast_minus_down getB_flags, simp add: with_flags_def ucast_add_down ucast_sub_down ucast_minus_down getB_flags flags_ADD0(1) flags_SUB0(1)
      flags_ADD(1) [where c = "fCF (cpu_flags (core s))"] flags_SUB(1) [where c = "fCF (cpu_flags (core s))"])+

lemma arith8_reg_mem:
  fixes i :: bxInstruction_c and s :: bx_sys
  defines "rd \<equiv> read_virtual_byte (instr_seg i) (BX_CPU_RESOLVE_ADDR i (core s))"
    and "a \<equiv> BX_READ_8BIT_REGx (dst i) (extend8bitL i) (core s)" and "b \<equiv> 0 :: nat" and "c \<equiv> fCF (cpu_flags (core s))"
  shows "load_spec rd (\<lambda>v k. with_flags k (BX_WRITE_8BIT_REGx (dst i) (extend8bitL i) (a + v) (core s)) (add_flags a v False)) (ADD_GbEbM i) s"
    "load_spec rd (\<lambda>v k. with_flags k (BX_WRITE_8BIT_REGx (dst i) (extend8bitL i) (a + v + of_bool c) (core s)) (add_flags a v c)) (ADC_GbEbM i) s"
    "load_spec rd (\<lambda>v k. with_flags k (BX_WRITE_8BIT_REGx (dst i) (extend8bitL i) (a - v) (core s)) (sub_flags a v False)) (SUB_GbEbM i) s"
    "load_spec rd (\<lambda>v k. with_flags k (BX_WRITE_8BIT_REGx (dst i) (extend8bitL i) (a - (v + of_bool c)) (core s)) (sub_flags a v c)) (SBB_GbEbM i) s"
    "load_spec rd (\<lambda>v k. with_flags k (core s) (sub_flags a v False)) (CMP_GbEbM i) s"
  unfolding assms
  by (rule load_spec_intro, simp only: ADD_GbEbM_def ADC_GbEbM_def SUB_GbEbM_def SBB_GbEbM_def CMP_GbEbM_def with_core_apply laddr64_apply Let_def, simp, simp only: with_core_apply Let_def,
      simp add: with_flags_def ucast_add_down ucast_sub_down ucast_minus_down getB_flags flags_ADD0(1) flags_SUB0(1)
      flags_ADD(1) [where c = "fCF (cpu_flags (core s))"] flags_SUB(1) [where c = "fCF (cpu_flags (core s))"])+

lemma arith8_cmp_mem:
  fixes i :: bxInstruction_c and s :: bx_sys
  defines "rd \<equiv> read_virtual_byte (instr_seg i) (BX_CPU_RESOLVE_ADDR i (core s))"
    and "a \<equiv> BX_READ_8BIT_REGx (dst i) (extend8bitL i) (core s)" and "b \<equiv> BX_READ_8BIT_REGx (src i) (extend8bitL i) (core s)" and "c \<equiv> fCF (cpu_flags (core s))"
  shows "load_spec rd (\<lambda>v k. with_flags k (core s) (sub_flags v b False)) (CMP_EbGbM i) s"
  unfolding assms
  by (rule load_spec_intro, simp only: CMP_EbGbM_def with_core_apply laddr64_apply Let_def, simp, simp only: with_core_apply Let_def,
      simp add: with_flags_def ucast_add_down ucast_sub_down ucast_minus_down getB_flags flags_ADD0(1) flags_SUB0(1)
      flags_ADD(1) [where c = "fCF (cpu_flags (core s))"] flags_SUB(1) [where c = "fCF (cpu_flags (core s))"])+

lemma arith8_cmp_mem_imm:
  fixes i :: bxInstruction_c and s :: bx_sys
  defines "rd \<equiv> read_virtual_byte (instr_seg i) (BX_CPU_RESOLVE_ADDR i (core s))"
    and "a \<equiv> BX_READ_8BIT_REGx (dst i) (extend8bitL i) (core s)" and "b \<equiv> Ib i" and "c \<equiv> fCF (cpu_flags (core s))"
  shows "load_spec rd (\<lambda>v k. with_flags k (core s) (sub_flags v b False)) (CMP_EbIbM i) s"
  unfolding assms
  by (rule load_spec_intro, simp only: CMP_EbIbM_def with_core_apply laddr64_apply Let_def, simp, simp only: with_core_apply Let_def,
      simp add: with_flags_def ucast_add_down ucast_sub_down ucast_minus_down getB_flags flags_ADD0(1) flags_SUB0(1)
      flags_ADD(1) [where c = "fCF (cpu_flags (core s))"] flags_SUB(1) [where c = "fCF (cpu_flags (core s))"])+

lemma arith8_mem_unary:
  fixes i :: bxInstruction_c and s :: bx_sys
  defines "rd \<equiv> read_RMW_virtual_byte (instr_seg i) (BX_CPU_RESOLVE_ADDR i (core s))"
    and "a \<equiv> BX_READ_8BIT_REGx (dst i) (extend8bitL i) (core s)" and "b \<equiv> 0 :: nat" and "c \<equiv> fCF (cpu_flags (core s))"
  shows "rmw_spec rd write_RMW_linear_byte (\<lambda>v. - v) (\<lambda>v k. with_flags k (core s) (sub_flags 0 v False)) (NEG_EbM i) s"
    "rmw_spec rd write_RMW_linear_byte (\<lambda>v. v + 1) (\<lambda>v k. with_flags k (core s) ((add_flags v 1 False)\<lparr>fCF := c\<rparr>)) (INC_EbM i) s"
    "rmw_spec rd write_RMW_linear_byte (\<lambda>v. v - 1) (\<lambda>v k. with_flags k (core s) ((sub_flags v 1 False)\<lparr>fCF := c\<rparr>)) (DEC_EbM i) s"
  unfolding assms
  by (rule rmw8.spec_intro, simp only: NEG_EbM_def INC_EbM_def DEC_EbM_def with_core_apply laddr64_apply Let_def, simp, simp only: with_core_apply Let_def,
      simp add: ucast_add_down ucast_sub_down ucast_minus_down getB_flags, simp add: with_flags_def ucast_add_down ucast_sub_down ucast_minus_down getB_flags flags_ADD0(1) flags_SUB0(1)
      flags_ADD(1) [where c = "fCF (cpu_flags (core s))"] flags_SUB(1) [where c = "fCF (cpu_flags (core s))"]
      flags_OSZAP flags_ADD1(1) flags_SUB1(1) add_flags_inc sub_flags_dec)+

lemma arith8_cmpxchg_mem:
  fixes i :: bxInstruction_c and s :: bx_sys
  defines "rd \<equiv> read_RMW_virtual_byte (instr_seg i) (BX_CPU_RESOLVE_ADDR i (core s))"
    and "a \<equiv> AL (core s)" and "b \<equiv> BX_READ_8BIT_REGx (src i) (extend8bitL i) (core s)"
  shows "rmw_spec rd write_RMW_linear_byte (\<lambda>v. if a = v then b else v)
      (\<lambda>v k. with_flags k (if a = v then core s else BX_WRITE_8BIT_REGL 0 v (core s)) (sub_flags a v False)) (CMPXCHG_EbGbM i) s"
  unfolding assms
  by (rule rmw8.compare_swap, simp only: CMPXCHG_EbGbM_def with_core_apply laddr64_apply Let_def, simp,
      simp only: with_core_apply Let_def, simp, auto simp: ucast_eq_up ucast_sub_down with_flags_def flags_SUB0 reg_write_upd)

section \<open>Faults\<close>

lemmas arith8_mem_defs = ADD_EbGbM_def ADD_GbEbM_def ADD_EbIbM_def ADC_EbGbM_def ADC_GbEbM_def ADC_EbIbM_def SBB_EbGbM_def SBB_GbEbM_def SBB_EbIbM_def SUB_EbGbM_def SUB_GbEbM_def SUB_EbIbM_def CMP_EbGbM_def CMP_GbEbM_def CMP_EbIbM_def XADD_EbGbM_def NEG_EbM_def INC_EbM_def DEC_EbM_def CMPXCHG_EbGbM_def

lemma arith8_mem_precise:
  "precise (ADD_EbGbM i)"  "precise (ADD_GbEbM i)"  "precise (ADD_EbIbM i)"  "precise (ADC_EbGbM i)"  "precise (ADC_GbEbM i)"
  "precise (ADC_EbIbM i)"  "precise (SBB_EbGbM i)"  "precise (SBB_GbEbM i)"  "precise (SBB_EbIbM i)"  "precise (SUB_EbGbM i)"
  "precise (SUB_GbEbM i)"  "precise (SUB_EbIbM i)"  "precise (CMP_EbGbM i)"  "precise (CMP_GbEbM i)"  "precise (CMP_EbIbM i)"
  "precise (XADD_EbGbM i)"  "precise (NEG_EbM i)"  "precise (INC_EbM i)"  "precise (DEC_EbM i)"  "precise (CMPXCHG_EbGbM i)"
  unfolding arith8_mem_defs Let_def by (intro precise_intros)+

end
