(* ===== verification/ArithMem16.thy ===== *)
theory ArithMem16
  imports MemOperand Arith16
begin

text \<open>
  The memory forms of the 16-bit integer arithmetic handlers of \<^verbatim>\<open>cpu/arith16.cc\<close>.  A handler with a memory destination
  checks write access when it reads the operand and writes the result back through the saved translation.
\<close>

section \<open>Handlers\<close>

definition ADD_EwGwM :: "bxInstruction_c \<Rightarrow> unit sys_op" where
  "ADD_EwGwM i = with_core (\<lambda>c.
    let eaddr = BX_CPU_RESOLVE_ADDR i c in
    and_then (read_RMW_virtual_word (instr_seg i) eaddr) (\<lambda>m.
    with_core (\<lambda>c.
      let op1_16 = ucast m :: Bit32u;
          op2_16 = ucast (BX_READ_16BIT_REG (src i) c);
          sum_16 = op1_16 + op2_16
      in and_then (write_RMW_linear_word (ucast sum_16)) (\<lambda>_. on_core (upd_oszapc (SET_FLAGS_OSZAPC_ADD_16 op1_16 op2_16 sum_16))))))"

definition ADD_GwEwM :: "bxInstruction_c \<Rightarrow> unit sys_op" where
  "ADD_GwEwM i = with_core (\<lambda>c.
    let eaddr = BX_CPU_RESOLVE_ADDR i c; op1_16 = ucast (BX_READ_16BIT_REG (dst i) c) :: Bit32u in
    and_then (read_virtual_word (instr_seg i) eaddr) (\<lambda>m.
    let op2_16 = ucast m;
        sum_16 = op1_16 + op2_16
    in on_core (\<lambda>c. upd_oszapc (SET_FLAGS_OSZAPC_ADD_16 op1_16 op2_16 sum_16) (BX_WRITE_16BIT_REG (dst i) (ucast sum_16) c))))"

definition ADD_EwIwM :: "bxInstruction_c \<Rightarrow> unit sys_op" where
  "ADD_EwIwM i = with_core (\<lambda>c.
    let eaddr = BX_CPU_RESOLVE_ADDR i c in
    and_then (read_RMW_virtual_word (instr_seg i) eaddr) (\<lambda>m.
    with_core (\<lambda>c.
      let op1_16 = ucast m :: Bit32u;
          op2_16 = ucast (Iw i);
          sum_16 = op1_16 + op2_16
      in and_then (write_RMW_linear_word (ucast sum_16)) (\<lambda>_. on_core (upd_oszapc (SET_FLAGS_OSZAPC_ADD_16 op1_16 op2_16 sum_16))))))"

definition ADC_EwGwM :: "bxInstruction_c \<Rightarrow> unit sys_op" where
  "ADC_EwGwM i = with_core (\<lambda>c.
    let eaddr = BX_CPU_RESOLVE_ADDR i c in
    and_then (read_RMW_virtual_word (instr_seg i) eaddr) (\<lambda>m.
    with_core (\<lambda>c.
      let op1_16 = ucast m :: Bit32u;
          op2_16 = ucast (BX_READ_16BIT_REG (src i) c);
          sum_16 = op1_16 + op2_16 + getB_CF (oszapc c)
      in and_then (write_RMW_linear_word (ucast sum_16)) (\<lambda>_. on_core (upd_oszapc (SET_FLAGS_OSZAPC_ADD_16 op1_16 op2_16 sum_16))))))"

definition ADC_GwEwM :: "bxInstruction_c \<Rightarrow> unit sys_op" where
  "ADC_GwEwM i = with_core (\<lambda>c.
    let eaddr = BX_CPU_RESOLVE_ADDR i c; op1_16 = ucast (BX_READ_16BIT_REG (dst i) c) :: Bit32u in
    and_then (read_virtual_word (instr_seg i) eaddr) (\<lambda>m.
    with_core (\<lambda>c.
    let op2_16 = ucast m;
        sum_16 = op1_16 + op2_16 + getB_CF (oszapc c)
    in on_core (\<lambda>c. upd_oszapc (SET_FLAGS_OSZAPC_ADD_16 op1_16 op2_16 sum_16) (BX_WRITE_16BIT_REG (dst i) (ucast sum_16) c)))))"

definition ADC_EwIwM :: "bxInstruction_c \<Rightarrow> unit sys_op" where
  "ADC_EwIwM i = with_core (\<lambda>c.
    let eaddr = BX_CPU_RESOLVE_ADDR i c in
    and_then (read_RMW_virtual_word (instr_seg i) eaddr) (\<lambda>m.
    with_core (\<lambda>c.
      let op1_16 = ucast m :: Bit32u;
          op2_16 = ucast (Iw i);
          sum_16 = op1_16 + op2_16 + getB_CF (oszapc c)
      in and_then (write_RMW_linear_word (ucast sum_16)) (\<lambda>_. on_core (upd_oszapc (SET_FLAGS_OSZAPC_ADD_16 op1_16 op2_16 sum_16))))))"

definition SBB_EwGwM :: "bxInstruction_c \<Rightarrow> unit sys_op" where
  "SBB_EwGwM i = with_core (\<lambda>c.
    let eaddr = BX_CPU_RESOLVE_ADDR i c in
    and_then (read_RMW_virtual_word (instr_seg i) eaddr) (\<lambda>m.
    with_core (\<lambda>c.
      let op1_16 = ucast m :: Bit32u;
          op2_16 = ucast (BX_READ_16BIT_REG (src i) c);
          diff_16 = op1_16 - (op2_16 + getB_CF (oszapc c))
      in and_then (write_RMW_linear_word (ucast diff_16)) (\<lambda>_. on_core (upd_oszapc (SET_FLAGS_OSZAPC_SUB_16 op1_16 op2_16 diff_16))))))"

definition SBB_GwEwM :: "bxInstruction_c \<Rightarrow> unit sys_op" where
  "SBB_GwEwM i = with_core (\<lambda>c.
    let eaddr = BX_CPU_RESOLVE_ADDR i c; op1_16 = ucast (BX_READ_16BIT_REG (dst i) c) :: Bit32u in
    and_then (read_virtual_word (instr_seg i) eaddr) (\<lambda>m.
    with_core (\<lambda>c.
    let op2_16 = ucast m;
        diff_16 = op1_16 - (op2_16 + getB_CF (oszapc c))
    in on_core (\<lambda>c. upd_oszapc (SET_FLAGS_OSZAPC_SUB_16 op1_16 op2_16 diff_16) (BX_WRITE_16BIT_REG (dst i) (ucast diff_16) c)))))"

definition SBB_EwIwM :: "bxInstruction_c \<Rightarrow> unit sys_op" where
  "SBB_EwIwM i = with_core (\<lambda>c.
    let eaddr = BX_CPU_RESOLVE_ADDR i c in
    and_then (read_RMW_virtual_word (instr_seg i) eaddr) (\<lambda>m.
    with_core (\<lambda>c.
      let op1_16 = ucast m :: Bit32u;
          op2_16 = ucast (Iw i);
          diff_16 = op1_16 - (op2_16 + getB_CF (oszapc c))
      in and_then (write_RMW_linear_word (ucast diff_16)) (\<lambda>_. on_core (upd_oszapc (SET_FLAGS_OSZAPC_SUB_16 op1_16 op2_16 diff_16))))))"

definition SUB_EwGwM :: "bxInstruction_c \<Rightarrow> unit sys_op" where
  "SUB_EwGwM i = with_core (\<lambda>c.
    let eaddr = BX_CPU_RESOLVE_ADDR i c in
    and_then (read_RMW_virtual_word (instr_seg i) eaddr) (\<lambda>m.
    with_core (\<lambda>c.
      let op1_16 = ucast m :: Bit32u;
          op2_16 = ucast (BX_READ_16BIT_REG (src i) c);
          diff_16 = op1_16 - op2_16
      in and_then (write_RMW_linear_word (ucast diff_16)) (\<lambda>_. on_core (upd_oszapc (SET_FLAGS_OSZAPC_SUB_16 op1_16 op2_16 diff_16))))))"

definition SUB_GwEwM :: "bxInstruction_c \<Rightarrow> unit sys_op" where
  "SUB_GwEwM i = with_core (\<lambda>c.
    let eaddr = BX_CPU_RESOLVE_ADDR i c; op1_16 = ucast (BX_READ_16BIT_REG (dst i) c) :: Bit32u in
    and_then (read_virtual_word (instr_seg i) eaddr) (\<lambda>m.
    let op2_16 = ucast m;
        diff_16 = op1_16 - op2_16
    in on_core (\<lambda>c. upd_oszapc (SET_FLAGS_OSZAPC_SUB_16 op1_16 op2_16 diff_16) (BX_WRITE_16BIT_REG (dst i) (ucast diff_16) c))))"

definition SUB_EwIwM :: "bxInstruction_c \<Rightarrow> unit sys_op" where
  "SUB_EwIwM i = with_core (\<lambda>c.
    let eaddr = BX_CPU_RESOLVE_ADDR i c in
    and_then (read_RMW_virtual_word (instr_seg i) eaddr) (\<lambda>m.
    with_core (\<lambda>c.
      let op1_16 = ucast m :: Bit32u;
          op2_16 = ucast (Iw i);
          diff_16 = op1_16 - op2_16
      in and_then (write_RMW_linear_word (ucast diff_16)) (\<lambda>_. on_core (upd_oszapc (SET_FLAGS_OSZAPC_SUB_16 op1_16 op2_16 diff_16))))))"

definition CMP_EwGwM :: "bxInstruction_c \<Rightarrow> unit sys_op" where
  "CMP_EwGwM i = with_core (\<lambda>c.
    let eaddr = BX_CPU_RESOLVE_ADDR i c in
    and_then (read_virtual_word (instr_seg i) eaddr) (\<lambda>m.
    with_core (\<lambda>c.
      let op1_16 = ucast m :: Bit32u;
          op2_16 = ucast (BX_READ_16BIT_REG (src i) c);
          diff_16 = op1_16 - op2_16
      in on_core (upd_oszapc (SET_FLAGS_OSZAPC_SUB_16 op1_16 op2_16 diff_16)))))"

definition CMP_GwEwM :: "bxInstruction_c \<Rightarrow> unit sys_op" where
  "CMP_GwEwM i = with_core (\<lambda>c.
    let eaddr = BX_CPU_RESOLVE_ADDR i c; op1_16 = ucast (BX_READ_16BIT_REG (dst i) c) :: Bit32u in
    and_then (read_virtual_word (instr_seg i) eaddr) (\<lambda>m.
    let op2_16 = ucast m;
        diff_16 = op1_16 - op2_16
    in on_core (upd_oszapc (SET_FLAGS_OSZAPC_SUB_16 op1_16 op2_16 diff_16))))"

definition CMP_EwIwM :: "bxInstruction_c \<Rightarrow> unit sys_op" where
  "CMP_EwIwM i = with_core (\<lambda>c.
    let eaddr = BX_CPU_RESOLVE_ADDR i c in
    and_then (read_virtual_word (instr_seg i) eaddr) (\<lambda>m.
    with_core (\<lambda>c.
      let op1_16 = ucast m :: Bit32u;
          op2_16 = ucast (Iw i);
          diff_16 = op1_16 - op2_16
      in on_core (upd_oszapc (SET_FLAGS_OSZAPC_SUB_16 op1_16 op2_16 diff_16)))))"

definition XADD_EwGwM :: "bxInstruction_c \<Rightarrow> unit sys_op" where
  "XADD_EwGwM i = with_core (\<lambda>c.
    let eaddr = BX_CPU_RESOLVE_ADDR i c in
    and_then (read_RMW_virtual_word (instr_seg i) eaddr) (\<lambda>m.
    with_core (\<lambda>c.
      let op1_16 = ucast m :: Bit32u;
          op2_16 = ucast (BX_READ_16BIT_REG (src i) c);
          sum_16 = op1_16 + op2_16
      in and_then (write_RMW_linear_word (ucast sum_16)) (\<lambda>_. on_core (\<lambda>c. upd_oszapc (SET_FLAGS_OSZAPC_ADD_16 op1_16 op2_16 sum_16) (BX_WRITE_16BIT_REG (src i) (ucast op1_16) c))))))"

definition NEG_EwM :: "bxInstruction_c \<Rightarrow> unit sys_op" where
  "NEG_EwM i = with_core (\<lambda>c.
    let eaddr = BX_CPU_RESOLVE_ADDR i c in
    and_then (read_RMW_virtual_word (instr_seg i) eaddr) (\<lambda>m.
    let op1_16 = ucast m :: Bit32u;
        op1_16 = - op1_16
    in and_then (write_RMW_linear_word (ucast op1_16)) (\<lambda>_. on_core (upd_oszapc (SET_FLAGS_OSZAPC_SUB_16 0 (0 - op1_16) op1_16)))))"

definition INC_EwM :: "bxInstruction_c \<Rightarrow> unit sys_op" where
  "INC_EwM i = with_core (\<lambda>c.
    let eaddr = BX_CPU_RESOLVE_ADDR i c in
    and_then (read_RMW_virtual_word (instr_seg i) eaddr) (\<lambda>m.
    let op1_16 = ucast m :: Bit32u;
        op1_16 = op1_16 + 1
    in and_then (write_RMW_linear_word (ucast op1_16)) (\<lambda>_. on_core (upd_oszapc (SET_FLAGS_OSZAP_ADD_16 (op1_16 - 1) 0 op1_16)))))"

definition DEC_EwM :: "bxInstruction_c \<Rightarrow> unit sys_op" where
  "DEC_EwM i = with_core (\<lambda>c.
    let eaddr = BX_CPU_RESOLVE_ADDR i c in
    and_then (read_RMW_virtual_word (instr_seg i) eaddr) (\<lambda>m.
    let op1_16 = ucast m :: Bit32u;
        op1_16 = op1_16 - 1
    in and_then (write_RMW_linear_word (ucast op1_16)) (\<lambda>_. on_core (upd_oszapc (SET_FLAGS_OSZAP_SUB_16 (op1_16 + 1) 0 op1_16)))))"

definition CMPXCHG_EwGwM :: "bxInstruction_c \<Rightarrow> unit sys_op" where
  "CMPXCHG_EwGwM i = with_core (\<lambda>c.
    let eaddr = BX_CPU_RESOLVE_ADDR i c in
    and_then (read_RMW_virtual_word (instr_seg i) eaddr) (\<lambda>m.
    with_core (\<lambda>c.
      let op1_16 = m :: Bit16u;
          diff_16 = AX c - op1_16
      in and_then (on_core (upd_oszapc (SET_FLAGS_OSZAPC_SUB_16 (ucast (AX c)) (ucast op1_16) (ucast diff_16)))) (\<lambda>_.
         if diff_16 = 0 then with_core (\<lambda>c. write_RMW_linear_word (BX_READ_16BIT_REG (src i) c))
         else and_then (write_RMW_linear_word op1_16) (\<lambda>_. on_core (BX_WRITE_16BIT_REG 0 op1_16))))))"

section \<open>Results and flags\<close>

lemma arith16_mem_reg:
  fixes i :: bxInstruction_c and s :: bx_sys
  defines "rd \<equiv> read_RMW_virtual_word (instr_seg i) (BX_CPU_RESOLVE_ADDR i (core s))"
    and "a \<equiv> BX_READ_16BIT_REG (dst i) (core s)" and "b \<equiv> BX_READ_16BIT_REG (src i) (core s)" and "c \<equiv> fCF (cpu_flags (core s))"
  shows "rmw_spec rd write_RMW_linear_word (\<lambda>v. v + b) (\<lambda>v k. with_flags k (core s) (add_flags v b False)) (ADD_EwGwM i) s"
    "rmw_spec rd write_RMW_linear_word (\<lambda>v. v + b + of_bool c) (\<lambda>v k. with_flags k (core s) (add_flags v b c)) (ADC_EwGwM i) s"
    "rmw_spec rd write_RMW_linear_word (\<lambda>v. v - b) (\<lambda>v k. with_flags k (core s) (sub_flags v b False)) (SUB_EwGwM i) s"
    "rmw_spec rd write_RMW_linear_word (\<lambda>v. v - (b + of_bool c)) (\<lambda>v k. with_flags k (core s) (sub_flags v b c)) (SBB_EwGwM i) s"
    "rmw_spec rd write_RMW_linear_word (\<lambda>v. v + b) (\<lambda>v k. with_flags k (BX_WRITE_16BIT_REG (src i) v (core s)) (add_flags v b False)) (XADD_EwGwM i) s"
  unfolding assms
  by (rule rmw16.spec_intro, simp only: ADD_EwGwM_def ADC_EwGwM_def SUB_EwGwM_def SBB_EwGwM_def XADD_EwGwM_def with_core_apply laddr64_apply Let_def, simp, simp only: with_core_apply Let_def,
      simp add: ucast_add_down ucast_sub_down ucast_minus_down getB_flags, simp add: with_flags_def ucast_add_down ucast_sub_down ucast_minus_down getB_flags flags_ADD0(2) flags_SUB0(2)
      flags_ADD(2) [where c = "fCF (cpu_flags (core s))"] flags_SUB(2) [where c = "fCF (cpu_flags (core s))"])+

lemma arith16_mem_imm:
  fixes i :: bxInstruction_c and s :: bx_sys
  defines "rd \<equiv> read_RMW_virtual_word (instr_seg i) (BX_CPU_RESOLVE_ADDR i (core s))"
    and "a \<equiv> BX_READ_16BIT_REG (dst i) (core s)" and "b \<equiv> Iw i" and "c \<equiv> fCF (cpu_flags (core s))"
  shows "rmw_spec rd write_RMW_linear_word (\<lambda>v. v + b) (\<lambda>v k. with_flags k (core s) (add_flags v b False)) (ADD_EwIwM i) s"
    "rmw_spec rd write_RMW_linear_word (\<lambda>v. v + b + of_bool c) (\<lambda>v k. with_flags k (core s) (add_flags v b c)) (ADC_EwIwM i) s"
    "rmw_spec rd write_RMW_linear_word (\<lambda>v. v - b) (\<lambda>v k. with_flags k (core s) (sub_flags v b False)) (SUB_EwIwM i) s"
    "rmw_spec rd write_RMW_linear_word (\<lambda>v. v - (b + of_bool c)) (\<lambda>v k. with_flags k (core s) (sub_flags v b c)) (SBB_EwIwM i) s"
  unfolding assms
  by (rule rmw16.spec_intro, simp only: ADD_EwIwM_def ADC_EwIwM_def SUB_EwIwM_def SBB_EwIwM_def with_core_apply laddr64_apply Let_def, simp, simp only: with_core_apply Let_def,
      simp add: ucast_add_down ucast_sub_down ucast_minus_down getB_flags, simp add: with_flags_def ucast_add_down ucast_sub_down ucast_minus_down getB_flags flags_ADD0(2) flags_SUB0(2)
      flags_ADD(2) [where c = "fCF (cpu_flags (core s))"] flags_SUB(2) [where c = "fCF (cpu_flags (core s))"])+

lemma arith16_reg_mem:
  fixes i :: bxInstruction_c and s :: bx_sys
  defines "rd \<equiv> read_virtual_word (instr_seg i) (BX_CPU_RESOLVE_ADDR i (core s))"
    and "a \<equiv> BX_READ_16BIT_REG (dst i) (core s)" and "b \<equiv> 0 :: nat" and "c \<equiv> fCF (cpu_flags (core s))"
  shows "load_spec rd (\<lambda>v k. with_flags k (BX_WRITE_16BIT_REG (dst i) (a + v) (core s)) (add_flags a v False)) (ADD_GwEwM i) s"
    "load_spec rd (\<lambda>v k. with_flags k (BX_WRITE_16BIT_REG (dst i) (a + v + of_bool c) (core s)) (add_flags a v c)) (ADC_GwEwM i) s"
    "load_spec rd (\<lambda>v k. with_flags k (BX_WRITE_16BIT_REG (dst i) (a - v) (core s)) (sub_flags a v False)) (SUB_GwEwM i) s"
    "load_spec rd (\<lambda>v k. with_flags k (BX_WRITE_16BIT_REG (dst i) (a - (v + of_bool c)) (core s)) (sub_flags a v c)) (SBB_GwEwM i) s"
    "load_spec rd (\<lambda>v k. with_flags k (core s) (sub_flags a v False)) (CMP_GwEwM i) s"
  unfolding assms
  by (rule load_spec_intro, simp only: ADD_GwEwM_def ADC_GwEwM_def SUB_GwEwM_def SBB_GwEwM_def CMP_GwEwM_def with_core_apply laddr64_apply Let_def, simp, simp only: with_core_apply Let_def,
      simp add: with_flags_def ucast_add_down ucast_sub_down ucast_minus_down getB_flags flags_ADD0(2) flags_SUB0(2)
      flags_ADD(2) [where c = "fCF (cpu_flags (core s))"] flags_SUB(2) [where c = "fCF (cpu_flags (core s))"])+

lemma arith16_cmp_mem:
  fixes i :: bxInstruction_c and s :: bx_sys
  defines "rd \<equiv> read_virtual_word (instr_seg i) (BX_CPU_RESOLVE_ADDR i (core s))"
    and "a \<equiv> BX_READ_16BIT_REG (dst i) (core s)" and "b \<equiv> BX_READ_16BIT_REG (src i) (core s)" and "c \<equiv> fCF (cpu_flags (core s))"
  shows "load_spec rd (\<lambda>v k. with_flags k (core s) (sub_flags v b False)) (CMP_EwGwM i) s"
  unfolding assms
  by (rule load_spec_intro, simp only: CMP_EwGwM_def with_core_apply laddr64_apply Let_def, simp, simp only: with_core_apply Let_def,
      simp add: with_flags_def ucast_add_down ucast_sub_down ucast_minus_down getB_flags flags_ADD0(2) flags_SUB0(2)
      flags_ADD(2) [where c = "fCF (cpu_flags (core s))"] flags_SUB(2) [where c = "fCF (cpu_flags (core s))"])+

lemma arith16_cmp_mem_imm:
  fixes i :: bxInstruction_c and s :: bx_sys
  defines "rd \<equiv> read_virtual_word (instr_seg i) (BX_CPU_RESOLVE_ADDR i (core s))"
    and "a \<equiv> BX_READ_16BIT_REG (dst i) (core s)" and "b \<equiv> Iw i" and "c \<equiv> fCF (cpu_flags (core s))"
  shows "load_spec rd (\<lambda>v k. with_flags k (core s) (sub_flags v b False)) (CMP_EwIwM i) s"
  unfolding assms
  by (rule load_spec_intro, simp only: CMP_EwIwM_def with_core_apply laddr64_apply Let_def, simp, simp only: with_core_apply Let_def,
      simp add: with_flags_def ucast_add_down ucast_sub_down ucast_minus_down getB_flags flags_ADD0(2) flags_SUB0(2)
      flags_ADD(2) [where c = "fCF (cpu_flags (core s))"] flags_SUB(2) [where c = "fCF (cpu_flags (core s))"])+

lemma arith16_mem_unary:
  fixes i :: bxInstruction_c and s :: bx_sys
  defines "rd \<equiv> read_RMW_virtual_word (instr_seg i) (BX_CPU_RESOLVE_ADDR i (core s))"
    and "a \<equiv> BX_READ_16BIT_REG (dst i) (core s)" and "b \<equiv> 0 :: nat" and "c \<equiv> fCF (cpu_flags (core s))"
  shows "rmw_spec rd write_RMW_linear_word (\<lambda>v. - v) (\<lambda>v k. with_flags k (core s) (sub_flags 0 v False)) (NEG_EwM i) s"
    "rmw_spec rd write_RMW_linear_word (\<lambda>v. v + 1) (\<lambda>v k. with_flags k (core s) ((add_flags v 1 False)\<lparr>fCF := c\<rparr>)) (INC_EwM i) s"
    "rmw_spec rd write_RMW_linear_word (\<lambda>v. v - 1) (\<lambda>v k. with_flags k (core s) ((sub_flags v 1 False)\<lparr>fCF := c\<rparr>)) (DEC_EwM i) s"
  unfolding assms
  by (rule rmw16.spec_intro, simp only: NEG_EwM_def INC_EwM_def DEC_EwM_def with_core_apply laddr64_apply Let_def, simp, simp only: with_core_apply Let_def,
      simp add: ucast_add_down ucast_sub_down ucast_minus_down getB_flags, simp add: with_flags_def ucast_add_down ucast_sub_down ucast_minus_down getB_flags flags_ADD0(2) flags_SUB0(2)
      flags_ADD(2) [where c = "fCF (cpu_flags (core s))"] flags_SUB(2) [where c = "fCF (cpu_flags (core s))"]
      flags_OSZAP flags_ADD1(2) flags_SUB1(2) add_flags_inc sub_flags_dec)+

lemma arith16_cmpxchg_mem:
  fixes i :: bxInstruction_c and s :: bx_sys
  defines "rd \<equiv> read_RMW_virtual_word (instr_seg i) (BX_CPU_RESOLVE_ADDR i (core s))"
    and "a \<equiv> AX (core s)" and "b \<equiv> BX_READ_16BIT_REG (src i) (core s)"
  shows "rmw_spec rd write_RMW_linear_word (\<lambda>v. if a = v then b else v)
      (\<lambda>v k. with_flags k (if a = v then core s else BX_WRITE_16BIT_REG 0 v (core s)) (sub_flags a v False)) (CMPXCHG_EwGwM i) s"
  unfolding assms
  by (rule rmw16.compare_swap, simp only: CMPXCHG_EwGwM_def with_core_apply laddr64_apply Let_def, simp,
      simp only: with_core_apply Let_def, simp, auto simp: ucast_eq_up ucast_sub_down with_flags_def flags_SUB0 reg_write_upd)

section \<open>Faults\<close>

lemmas arith16_mem_defs = ADD_EwGwM_def ADD_GwEwM_def ADD_EwIwM_def ADC_EwGwM_def ADC_GwEwM_def ADC_EwIwM_def SBB_EwGwM_def SBB_GwEwM_def SBB_EwIwM_def SUB_EwGwM_def SUB_GwEwM_def SUB_EwIwM_def CMP_EwGwM_def CMP_GwEwM_def CMP_EwIwM_def XADD_EwGwM_def NEG_EwM_def INC_EwM_def DEC_EwM_def CMPXCHG_EwGwM_def

lemma arith16_mem_precise:
  "precise (ADD_EwGwM i)"  "precise (ADD_GwEwM i)"  "precise (ADD_EwIwM i)"  "precise (ADC_EwGwM i)"  "precise (ADC_GwEwM i)"
  "precise (ADC_EwIwM i)"  "precise (SBB_EwGwM i)"  "precise (SBB_GwEwM i)"  "precise (SBB_EwIwM i)"  "precise (SUB_EwGwM i)"
  "precise (SUB_GwEwM i)"  "precise (SUB_EwIwM i)"  "precise (CMP_EwGwM i)"  "precise (CMP_GwEwM i)"  "precise (CMP_EwIwM i)"
  "precise (XADD_EwGwM i)"  "precise (NEG_EwM i)"  "precise (INC_EwM i)"  "precise (DEC_EwM i)"  "precise (CMPXCHG_EwGwM i)"
  unfolding arith16_mem_defs Let_def by (intro precise_intros)+

end
