(* ===== verification/ArithMem32.thy ===== *)
theory ArithMem32
  imports MemOperand Arith32
begin

text \<open>
  The memory forms of the 32-bit integer arithmetic handlers of \<^verbatim>\<open>cpu/arith32.cc\<close>.  A handler with a memory destination
  checks write access when it reads the operand and writes the result back through the saved translation.
\<close>

section \<open>Handlers\<close>

definition ADD_EdGdM :: "bxInstruction_c \<Rightarrow> unit sys_op" where
  "ADD_EdGdM i = with_core (\<lambda>c.
    let eaddr = BX_CPU_RESOLVE_ADDR i c in
    and_then (read_RMW_virtual_dword (instr_seg i) eaddr) (\<lambda>m.
    with_core (\<lambda>c.
      let op1_32 = m :: Bit32u;
          op2_32 = BX_READ_32BIT_REG (src i) c;
          sum_32 = op1_32 + op2_32
      in and_then (write_RMW_linear_dword sum_32) (\<lambda>_. on_core (upd_oszapc (SET_FLAGS_OSZAPC_ADD_32 op1_32 op2_32 sum_32))))))"

definition ADD_GdEdM :: "bxInstruction_c \<Rightarrow> unit sys_op" where
  "ADD_GdEdM i = with_core (\<lambda>c.
    let eaddr = BX_CPU_RESOLVE_ADDR i c; op1_32 = BX_READ_32BIT_REG (dst i) c :: Bit32u in
    and_then (read_virtual_dword (instr_seg i) eaddr) (\<lambda>m.
    let op2_32 = m;
        sum_32 = op1_32 + op2_32
    in on_core (\<lambda>c. upd_oszapc (SET_FLAGS_OSZAPC_ADD_32 op1_32 op2_32 sum_32) (BX_WRITE_32BIT_REGZ (dst i) sum_32 c))))"

definition ADD_EdIdM :: "bxInstruction_c \<Rightarrow> unit sys_op" where
  "ADD_EdIdM i = with_core (\<lambda>c.
    let eaddr = BX_CPU_RESOLVE_ADDR i c in
    and_then (read_RMW_virtual_dword (instr_seg i) eaddr) (\<lambda>m.
    with_core (\<lambda>c.
      let op1_32 = m :: Bit32u;
          op2_32 = Id i;
          sum_32 = op1_32 + op2_32
      in and_then (write_RMW_linear_dword sum_32) (\<lambda>_. on_core (upd_oszapc (SET_FLAGS_OSZAPC_ADD_32 op1_32 op2_32 sum_32))))))"

definition ADC_EdGdM :: "bxInstruction_c \<Rightarrow> unit sys_op" where
  "ADC_EdGdM i = with_core (\<lambda>c.
    let temp_CF = getB_CF (oszapc c); eaddr = BX_CPU_RESOLVE_ADDR i c in
    and_then (read_RMW_virtual_dword (instr_seg i) eaddr) (\<lambda>m.
    with_core (\<lambda>c.
      let op1_32 = m :: Bit32u;
          op2_32 = BX_READ_32BIT_REG (src i) c;
          sum_32 = op1_32 + op2_32 + temp_CF
      in and_then (write_RMW_linear_dword sum_32) (\<lambda>_. on_core (upd_oszapc (SET_FLAGS_OSZAPC_ADD_32 op1_32 op2_32 sum_32))))))"

definition ADC_GdEdM :: "bxInstruction_c \<Rightarrow> unit sys_op" where
  "ADC_GdEdM i = with_core (\<lambda>c.
    let temp_CF = getB_CF (oszapc c); eaddr = BX_CPU_RESOLVE_ADDR i c; op1_32 = BX_READ_32BIT_REG (dst i) c :: Bit32u in
    and_then (read_virtual_dword (instr_seg i) eaddr) (\<lambda>m.
    let op2_32 = m;
        sum_32 = op1_32 + op2_32 + temp_CF
    in on_core (\<lambda>c. upd_oszapc (SET_FLAGS_OSZAPC_ADD_32 op1_32 op2_32 sum_32) (BX_WRITE_32BIT_REGZ (dst i) sum_32 c))))"

definition ADC_EdIdM :: "bxInstruction_c \<Rightarrow> unit sys_op" where
  "ADC_EdIdM i = with_core (\<lambda>c.
    let temp_CF = getB_CF (oszapc c); eaddr = BX_CPU_RESOLVE_ADDR i c in
    and_then (read_RMW_virtual_dword (instr_seg i) eaddr) (\<lambda>m.
    with_core (\<lambda>c.
      let op1_32 = m :: Bit32u;
          op2_32 = Id i;
          sum_32 = op1_32 + op2_32 + temp_CF
      in and_then (write_RMW_linear_dword sum_32) (\<lambda>_. on_core (upd_oszapc (SET_FLAGS_OSZAPC_ADD_32 op1_32 op2_32 sum_32))))))"

definition SBB_EdGdM :: "bxInstruction_c \<Rightarrow> unit sys_op" where
  "SBB_EdGdM i = with_core (\<lambda>c.
    let temp_CF = getB_CF (oszapc c); eaddr = BX_CPU_RESOLVE_ADDR i c in
    and_then (read_RMW_virtual_dword (instr_seg i) eaddr) (\<lambda>m.
    with_core (\<lambda>c.
      let op1_32 = m :: Bit32u;
          op2_32 = BX_READ_32BIT_REG (src i) c;
          diff_32 = op1_32 - (op2_32 + temp_CF)
      in and_then (write_RMW_linear_dword diff_32) (\<lambda>_. on_core (upd_oszapc (SET_FLAGS_OSZAPC_SUB_32 op1_32 op2_32 diff_32))))))"

definition SBB_GdEdM :: "bxInstruction_c \<Rightarrow> unit sys_op" where
  "SBB_GdEdM i = with_core (\<lambda>c.
    let temp_CF = getB_CF (oszapc c); eaddr = BX_CPU_RESOLVE_ADDR i c; op1_32 = BX_READ_32BIT_REG (dst i) c :: Bit32u in
    and_then (read_virtual_dword (instr_seg i) eaddr) (\<lambda>m.
    let op2_32 = m;
        diff_32 = op1_32 - (op2_32 + temp_CF)
    in on_core (\<lambda>c. upd_oszapc (SET_FLAGS_OSZAPC_SUB_32 op1_32 op2_32 diff_32) (BX_WRITE_32BIT_REGZ (dst i) diff_32 c))))"

definition SBB_EdIdM :: "bxInstruction_c \<Rightarrow> unit sys_op" where
  "SBB_EdIdM i = with_core (\<lambda>c.
    let temp_CF = getB_CF (oszapc c); eaddr = BX_CPU_RESOLVE_ADDR i c in
    and_then (read_RMW_virtual_dword (instr_seg i) eaddr) (\<lambda>m.
    with_core (\<lambda>c.
      let op1_32 = m :: Bit32u;
          op2_32 = Id i;
          diff_32 = op1_32 - (op2_32 + temp_CF)
      in and_then (write_RMW_linear_dword diff_32) (\<lambda>_. on_core (upd_oszapc (SET_FLAGS_OSZAPC_SUB_32 op1_32 op2_32 diff_32))))))"

definition SUB_EdGdM :: "bxInstruction_c \<Rightarrow> unit sys_op" where
  "SUB_EdGdM i = with_core (\<lambda>c.
    let eaddr = BX_CPU_RESOLVE_ADDR i c in
    and_then (read_RMW_virtual_dword (instr_seg i) eaddr) (\<lambda>m.
    with_core (\<lambda>c.
      let op1_32 = m :: Bit32u;
          op2_32 = BX_READ_32BIT_REG (src i) c;
          diff_32 = op1_32 - op2_32
      in and_then (write_RMW_linear_dword diff_32) (\<lambda>_. on_core (upd_oszapc (SET_FLAGS_OSZAPC_SUB_32 op1_32 op2_32 diff_32))))))"

definition SUB_GdEdM :: "bxInstruction_c \<Rightarrow> unit sys_op" where
  "SUB_GdEdM i = with_core (\<lambda>c.
    let eaddr = BX_CPU_RESOLVE_ADDR i c; op1_32 = BX_READ_32BIT_REG (dst i) c :: Bit32u in
    and_then (read_virtual_dword (instr_seg i) eaddr) (\<lambda>m.
    let op2_32 = m;
        diff_32 = op1_32 - op2_32
    in on_core (\<lambda>c. upd_oszapc (SET_FLAGS_OSZAPC_SUB_32 op1_32 op2_32 diff_32) (BX_WRITE_32BIT_REGZ (dst i) diff_32 c))))"

definition SUB_EdIdM :: "bxInstruction_c \<Rightarrow> unit sys_op" where
  "SUB_EdIdM i = with_core (\<lambda>c.
    let eaddr = BX_CPU_RESOLVE_ADDR i c in
    and_then (read_RMW_virtual_dword (instr_seg i) eaddr) (\<lambda>m.
    with_core (\<lambda>c.
      let op1_32 = m :: Bit32u;
          op2_32 = Id i;
          diff_32 = op1_32 - op2_32
      in and_then (write_RMW_linear_dword diff_32) (\<lambda>_. on_core (upd_oszapc (SET_FLAGS_OSZAPC_SUB_32 op1_32 op2_32 diff_32))))))"

definition CMP_EdGdM :: "bxInstruction_c \<Rightarrow> unit sys_op" where
  "CMP_EdGdM i = with_core (\<lambda>c.
    let eaddr = BX_CPU_RESOLVE_ADDR i c in
    and_then (read_virtual_dword (instr_seg i) eaddr) (\<lambda>m.
    with_core (\<lambda>c.
      let op1_32 = m :: Bit32u;
          op2_32 = BX_READ_32BIT_REG (src i) c;
          diff_32 = op1_32 - op2_32
      in on_core (upd_oszapc (SET_FLAGS_OSZAPC_SUB_32 op1_32 op2_32 diff_32)))))"

definition CMP_GdEdM :: "bxInstruction_c \<Rightarrow> unit sys_op" where
  "CMP_GdEdM i = with_core (\<lambda>c.
    let eaddr = BX_CPU_RESOLVE_ADDR i c; op1_32 = BX_READ_32BIT_REG (dst i) c :: Bit32u in
    and_then (read_virtual_dword (instr_seg i) eaddr) (\<lambda>m.
    let op2_32 = m;
        diff_32 = op1_32 - op2_32
    in on_core (upd_oszapc (SET_FLAGS_OSZAPC_SUB_32 op1_32 op2_32 diff_32))))"

definition CMP_EdIdM :: "bxInstruction_c \<Rightarrow> unit sys_op" where
  "CMP_EdIdM i = with_core (\<lambda>c.
    let eaddr = BX_CPU_RESOLVE_ADDR i c in
    and_then (read_virtual_dword (instr_seg i) eaddr) (\<lambda>m.
    with_core (\<lambda>c.
      let op1_32 = m :: Bit32u;
          op2_32 = Id i;
          diff_32 = op1_32 - op2_32
      in on_core (upd_oszapc (SET_FLAGS_OSZAPC_SUB_32 op1_32 op2_32 diff_32)))))"

definition XADD_EdGdM :: "bxInstruction_c \<Rightarrow> unit sys_op" where
  "XADD_EdGdM i = with_core (\<lambda>c.
    let eaddr = BX_CPU_RESOLVE_ADDR i c in
    and_then (read_RMW_virtual_dword (instr_seg i) eaddr) (\<lambda>m.
    with_core (\<lambda>c.
      let op1_32 = m :: Bit32u;
          op2_32 = BX_READ_32BIT_REG (src i) c;
          sum_32 = op1_32 + op2_32
      in and_then (write_RMW_linear_dword sum_32) (\<lambda>_. on_core (\<lambda>c. upd_oszapc (SET_FLAGS_OSZAPC_ADD_32 op1_32 op2_32 sum_32) (BX_WRITE_32BIT_REGZ (src i) op1_32 c))))))"

definition NEG_EdM :: "bxInstruction_c \<Rightarrow> unit sys_op" where
  "NEG_EdM i = with_core (\<lambda>c.
    let eaddr = BX_CPU_RESOLVE_ADDR i c in
    and_then (read_RMW_virtual_dword (instr_seg i) eaddr) (\<lambda>m.
    let op1_32 = m :: Bit32u;
        op1_32 = - op1_32
    in and_then (write_RMW_linear_dword op1_32) (\<lambda>_. on_core (upd_oszapc (SET_FLAGS_OSZAPC_SUB_32 0 (0 - op1_32) op1_32)))))"

definition INC_EdM :: "bxInstruction_c \<Rightarrow> unit sys_op" where
  "INC_EdM i = with_core (\<lambda>c.
    let eaddr = BX_CPU_RESOLVE_ADDR i c in
    and_then (read_RMW_virtual_dword (instr_seg i) eaddr) (\<lambda>m.
    let op1_32 = m :: Bit32u;
        op1_32 = op1_32 + 1
    in and_then (write_RMW_linear_dword op1_32) (\<lambda>_. on_core (upd_oszapc (SET_FLAGS_OSZAP_ADD_32 (op1_32 - 1) 0 op1_32)))))"

definition DEC_EdM :: "bxInstruction_c \<Rightarrow> unit sys_op" where
  "DEC_EdM i = with_core (\<lambda>c.
    let eaddr = BX_CPU_RESOLVE_ADDR i c in
    and_then (read_RMW_virtual_dword (instr_seg i) eaddr) (\<lambda>m.
    let op1_32 = m :: Bit32u;
        op1_32 = op1_32 - 1
    in and_then (write_RMW_linear_dword op1_32) (\<lambda>_. on_core (upd_oszapc (SET_FLAGS_OSZAP_SUB_32 (op1_32 + 1) 0 op1_32)))))"

definition CMPXCHG_EdGdM :: "bxInstruction_c \<Rightarrow> unit sys_op" where
  "CMPXCHG_EdGdM i = with_core (\<lambda>c.
    let eaddr = BX_CPU_RESOLVE_ADDR i c in
    and_then (read_RMW_virtual_dword (instr_seg i) eaddr) (\<lambda>m.
    with_core (\<lambda>c.
      let op1_32 = m :: Bit32u;
          diff_32 = EAX c - op1_32
      in and_then (on_core (upd_oszapc (SET_FLAGS_OSZAPC_SUB_32 (EAX c) op1_32 diff_32))) (\<lambda>_.
         if diff_32 = 0 then with_core (\<lambda>c. write_RMW_linear_dword (BX_READ_32BIT_REG (src i) c))
         else and_then (write_RMW_linear_dword op1_32) (\<lambda>_. on_core (BX_WRITE_32BIT_REGZ 0 op1_32))))))"

section \<open>Results and flags\<close>

lemma arith32_mem_reg:
  fixes i :: bxInstruction_c and s :: bx_sys
  defines "rd \<equiv> read_RMW_virtual_dword (instr_seg i) (BX_CPU_RESOLVE_ADDR i (core s))"
    and "a \<equiv> BX_READ_32BIT_REG (dst i) (core s)" and "b \<equiv> BX_READ_32BIT_REG (src i) (core s)" and "c \<equiv> fCF (cpu_flags (core s))"
  shows "rmw_spec rd write_RMW_linear_dword (\<lambda>v. v + b) (\<lambda>v k. with_flags k (core s) (add_flags v b False)) (ADD_EdGdM i) s"
    "rmw_spec rd write_RMW_linear_dword (\<lambda>v. v + b + of_bool c) (\<lambda>v k. with_flags k (core s) (add_flags v b c)) (ADC_EdGdM i) s"
    "rmw_spec rd write_RMW_linear_dword (\<lambda>v. v - b) (\<lambda>v k. with_flags k (core s) (sub_flags v b False)) (SUB_EdGdM i) s"
    "rmw_spec rd write_RMW_linear_dword (\<lambda>v. v - (b + of_bool c)) (\<lambda>v k. with_flags k (core s) (sub_flags v b c)) (SBB_EdGdM i) s"
    "rmw_spec rd write_RMW_linear_dword (\<lambda>v. v + b) (\<lambda>v k. with_flags k (BX_WRITE_32BIT_REGZ (src i) v (core s)) (add_flags v b False)) (XADD_EdGdM i) s"
  unfolding assms
  by (rule rmw32.spec_intro, simp only: ADD_EdGdM_def ADC_EdGdM_def SUB_EdGdM_def SBB_EdGdM_def XADD_EdGdM_def with_core_apply laddr64_apply Let_def, simp, simp only: with_core_apply Let_def,
      simp add: ucast_add_down ucast_sub_down ucast_minus_down getB_flags, simp add: with_flags_def ucast_add_down ucast_sub_down ucast_minus_down getB_flags flags_ADD0(3) flags_SUB0(3)
      flags_ADD(3) [where c = "fCF (cpu_flags (core s))"] flags_SUB(3) [where c = "fCF (cpu_flags (core s))"])+

lemma arith32_mem_imm:
  fixes i :: bxInstruction_c and s :: bx_sys
  defines "rd \<equiv> read_RMW_virtual_dword (instr_seg i) (BX_CPU_RESOLVE_ADDR i (core s))"
    and "a \<equiv> BX_READ_32BIT_REG (dst i) (core s)" and "b \<equiv> Id i" and "c \<equiv> fCF (cpu_flags (core s))"
  shows "rmw_spec rd write_RMW_linear_dword (\<lambda>v. v + b) (\<lambda>v k. with_flags k (core s) (add_flags v b False)) (ADD_EdIdM i) s"
    "rmw_spec rd write_RMW_linear_dword (\<lambda>v. v + b + of_bool c) (\<lambda>v k. with_flags k (core s) (add_flags v b c)) (ADC_EdIdM i) s"
    "rmw_spec rd write_RMW_linear_dword (\<lambda>v. v - b) (\<lambda>v k. with_flags k (core s) (sub_flags v b False)) (SUB_EdIdM i) s"
    "rmw_spec rd write_RMW_linear_dword (\<lambda>v. v - (b + of_bool c)) (\<lambda>v k. with_flags k (core s) (sub_flags v b c)) (SBB_EdIdM i) s"
  unfolding assms
  by (rule rmw32.spec_intro, simp only: ADD_EdIdM_def ADC_EdIdM_def SUB_EdIdM_def SBB_EdIdM_def with_core_apply laddr64_apply Let_def, simp, simp only: with_core_apply Let_def,
      simp add: ucast_add_down ucast_sub_down ucast_minus_down getB_flags, simp add: with_flags_def ucast_add_down ucast_sub_down ucast_minus_down getB_flags flags_ADD0(3) flags_SUB0(3)
      flags_ADD(3) [where c = "fCF (cpu_flags (core s))"] flags_SUB(3) [where c = "fCF (cpu_flags (core s))"])+

lemma arith32_reg_mem:
  fixes i :: bxInstruction_c and s :: bx_sys
  defines "rd \<equiv> read_virtual_dword (instr_seg i) (BX_CPU_RESOLVE_ADDR i (core s))"
    and "a \<equiv> BX_READ_32BIT_REG (dst i) (core s)" and "b \<equiv> 0 :: nat" and "c \<equiv> fCF (cpu_flags (core s))"
  shows "load_spec rd (\<lambda>v k. with_flags k (BX_WRITE_32BIT_REGZ (dst i) (a + v) (core s)) (add_flags a v False)) (ADD_GdEdM i) s"
    "load_spec rd (\<lambda>v k. with_flags k (BX_WRITE_32BIT_REGZ (dst i) (a + v + of_bool c) (core s)) (add_flags a v c)) (ADC_GdEdM i) s"
    "load_spec rd (\<lambda>v k. with_flags k (BX_WRITE_32BIT_REGZ (dst i) (a - v) (core s)) (sub_flags a v False)) (SUB_GdEdM i) s"
    "load_spec rd (\<lambda>v k. with_flags k (BX_WRITE_32BIT_REGZ (dst i) (a - (v + of_bool c)) (core s)) (sub_flags a v c)) (SBB_GdEdM i) s"
    "load_spec rd (\<lambda>v k. with_flags k (core s) (sub_flags a v False)) (CMP_GdEdM i) s"
  unfolding assms
  by (rule load_spec_intro, simp only: ADD_GdEdM_def ADC_GdEdM_def SUB_GdEdM_def SBB_GdEdM_def CMP_GdEdM_def with_core_apply laddr64_apply Let_def, simp, simp only: with_core_apply Let_def,
      simp add: with_flags_def ucast_add_down ucast_sub_down ucast_minus_down getB_flags flags_ADD0(3) flags_SUB0(3)
      flags_ADD(3) [where c = "fCF (cpu_flags (core s))"] flags_SUB(3) [where c = "fCF (cpu_flags (core s))"])+

lemma arith32_cmp_mem:
  fixes i :: bxInstruction_c and s :: bx_sys
  defines "rd \<equiv> read_virtual_dword (instr_seg i) (BX_CPU_RESOLVE_ADDR i (core s))"
    and "a \<equiv> BX_READ_32BIT_REG (dst i) (core s)" and "b \<equiv> BX_READ_32BIT_REG (src i) (core s)" and "c \<equiv> fCF (cpu_flags (core s))"
  shows "load_spec rd (\<lambda>v k. with_flags k (core s) (sub_flags v b False)) (CMP_EdGdM i) s"
  unfolding assms
  by (rule load_spec_intro, simp only: CMP_EdGdM_def with_core_apply laddr64_apply Let_def, simp, simp only: with_core_apply Let_def,
      simp add: with_flags_def ucast_add_down ucast_sub_down ucast_minus_down getB_flags flags_ADD0(3) flags_SUB0(3)
      flags_ADD(3) [where c = "fCF (cpu_flags (core s))"] flags_SUB(3) [where c = "fCF (cpu_flags (core s))"])+

lemma arith32_cmp_mem_imm:
  fixes i :: bxInstruction_c and s :: bx_sys
  defines "rd \<equiv> read_virtual_dword (instr_seg i) (BX_CPU_RESOLVE_ADDR i (core s))"
    and "a \<equiv> BX_READ_32BIT_REG (dst i) (core s)" and "b \<equiv> Id i" and "c \<equiv> fCF (cpu_flags (core s))"
  shows "load_spec rd (\<lambda>v k. with_flags k (core s) (sub_flags v b False)) (CMP_EdIdM i) s"
  unfolding assms
  by (rule load_spec_intro, simp only: CMP_EdIdM_def with_core_apply laddr64_apply Let_def, simp, simp only: with_core_apply Let_def,
      simp add: with_flags_def ucast_add_down ucast_sub_down ucast_minus_down getB_flags flags_ADD0(3) flags_SUB0(3)
      flags_ADD(3) [where c = "fCF (cpu_flags (core s))"] flags_SUB(3) [where c = "fCF (cpu_flags (core s))"])+

lemma arith32_mem_unary:
  fixes i :: bxInstruction_c and s :: bx_sys
  defines "rd \<equiv> read_RMW_virtual_dword (instr_seg i) (BX_CPU_RESOLVE_ADDR i (core s))"
    and "a \<equiv> BX_READ_32BIT_REG (dst i) (core s)" and "b \<equiv> 0 :: nat" and "c \<equiv> fCF (cpu_flags (core s))"
  shows "rmw_spec rd write_RMW_linear_dword (\<lambda>v. - v) (\<lambda>v k. with_flags k (core s) (sub_flags 0 v False)) (NEG_EdM i) s"
    "rmw_spec rd write_RMW_linear_dword (\<lambda>v. v + 1) (\<lambda>v k. with_flags k (core s) ((add_flags v 1 False)\<lparr>fCF := c\<rparr>)) (INC_EdM i) s"
    "rmw_spec rd write_RMW_linear_dword (\<lambda>v. v - 1) (\<lambda>v k. with_flags k (core s) ((sub_flags v 1 False)\<lparr>fCF := c\<rparr>)) (DEC_EdM i) s"
  unfolding assms
  by (rule rmw32.spec_intro, simp only: NEG_EdM_def INC_EdM_def DEC_EdM_def with_core_apply laddr64_apply Let_def, simp, simp only: with_core_apply Let_def,
      simp add: ucast_add_down ucast_sub_down ucast_minus_down getB_flags, simp add: with_flags_def ucast_add_down ucast_sub_down ucast_minus_down getB_flags flags_ADD0(3) flags_SUB0(3)
      flags_ADD(3) [where c = "fCF (cpu_flags (core s))"] flags_SUB(3) [where c = "fCF (cpu_flags (core s))"]
      flags_OSZAP flags_ADD1(3) flags_SUB1(3) add_flags_inc sub_flags_dec)+

lemma arith32_cmpxchg_mem:
  fixes i :: bxInstruction_c and s :: bx_sys
  defines "rd \<equiv> read_RMW_virtual_dword (instr_seg i) (BX_CPU_RESOLVE_ADDR i (core s))"
    and "a \<equiv> EAX (core s)" and "b \<equiv> BX_READ_32BIT_REG (src i) (core s)"
  shows "rmw_spec rd write_RMW_linear_dword (\<lambda>v. if a = v then b else v)
      (\<lambda>v k. with_flags k (if a = v then core s else BX_WRITE_32BIT_REGZ 0 v (core s)) (sub_flags a v False)) (CMPXCHG_EdGdM i) s"
  unfolding assms
  by (rule rmw32.compare_swap, simp only: CMPXCHG_EdGdM_def with_core_apply laddr64_apply Let_def, simp,
      simp only: with_core_apply Let_def, simp, auto simp: ucast_eq_up ucast_sub_down with_flags_def flags_SUB0 reg_write_upd)

section \<open>Faults\<close>

lemmas arith32_mem_defs = ADD_EdGdM_def ADD_GdEdM_def ADD_EdIdM_def ADC_EdGdM_def ADC_GdEdM_def ADC_EdIdM_def SBB_EdGdM_def SBB_GdEdM_def SBB_EdIdM_def SUB_EdGdM_def SUB_GdEdM_def SUB_EdIdM_def CMP_EdGdM_def CMP_GdEdM_def CMP_EdIdM_def XADD_EdGdM_def NEG_EdM_def INC_EdM_def DEC_EdM_def CMPXCHG_EdGdM_def

lemma arith32_mem_precise:
  "precise (ADD_EdGdM i)"  "precise (ADD_GdEdM i)"  "precise (ADD_EdIdM i)"  "precise (ADC_EdGdM i)"  "precise (ADC_GdEdM i)"
  "precise (ADC_EdIdM i)"  "precise (SBB_EdGdM i)"  "precise (SBB_GdEdM i)"  "precise (SBB_EdIdM i)"  "precise (SUB_EdGdM i)"
  "precise (SUB_GdEdM i)"  "precise (SUB_EdIdM i)"  "precise (CMP_EdGdM i)"  "precise (CMP_GdEdM i)"  "precise (CMP_EdIdM i)"
  "precise (XADD_EdGdM i)"  "precise (NEG_EdM i)"  "precise (INC_EdM i)"  "precise (DEC_EdM i)"  "precise (CMPXCHG_EdGdM i)"
  unfolding arith32_mem_defs Let_def by (intro precise_intros)+

end
