(* ===== verification/ArithMem64.thy ===== *)
theory ArithMem64
  imports MemOperand Arith64
begin

text \<open>
  The memory forms of the 64-bit integer arithmetic handlers of \<^verbatim>\<open>cpu/arith64.cc\<close>.  A handler with a memory destination
  checks write access when it reads the operand and writes the result back through the saved translation.
\<close>

section \<open>Handlers\<close>

definition ADD_EqGqM :: "bxInstruction_c \<Rightarrow> unit sys_op" where
  "ADD_EqGqM i = with_core (\<lambda>c.
    let eaddr = BX_CPU_RESOLVE_ADDR_64 i c in
    laddr64 (instr_seg i) eaddr (\<lambda>laddr.
    and_then (read_RMW_linear_qword (instr_seg i) laddr) (\<lambda>m.
    with_core (\<lambda>c.
      let op1_64 = m :: Bit64u;
          op2_64 = BX_READ_64BIT_REG (src i) c;
          sum_64 = op1_64 + op2_64
      in and_then (write_RMW_linear_qword sum_64) (\<lambda>_. on_core (upd_oszapc (SET_FLAGS_OSZAPC_ADD_64 op1_64 op2_64 sum_64)))))))"

definition ADD_GqEqM :: "bxInstruction_c \<Rightarrow> unit sys_op" where
  "ADD_GqEqM i = with_core (\<lambda>c.
    let eaddr = BX_CPU_RESOLVE_ADDR_64 i c; op1_64 = BX_READ_64BIT_REG (dst i) c :: Bit64u in
    laddr64 (instr_seg i) eaddr (\<lambda>laddr.
    and_then (read_linear_qword (instr_seg i) laddr) (\<lambda>m.
    let op2_64 = m;
        sum_64 = op1_64 + op2_64
    in on_core (\<lambda>c. upd_oszapc (SET_FLAGS_OSZAPC_ADD_64 op1_64 op2_64 sum_64) (BX_WRITE_64BIT_REG (dst i) sum_64 c)))))"

definition ADD_EqIdM :: "bxInstruction_c \<Rightarrow> unit sys_op" where
  "ADD_EqIdM i = with_core (\<lambda>c.
    let eaddr = BX_CPU_RESOLVE_ADDR_64 i c in
    laddr64 (instr_seg i) eaddr (\<lambda>laddr.
    and_then (read_RMW_linear_qword (instr_seg i) laddr) (\<lambda>m.
    with_core (\<lambda>c.
      let op1_64 = m :: Bit64u;
          op2_64 = scast (Id i);
          sum_64 = op1_64 + op2_64
      in and_then (write_RMW_linear_qword sum_64) (\<lambda>_. on_core (upd_oszapc (SET_FLAGS_OSZAPC_ADD_64 op1_64 op2_64 sum_64)))))))"

definition ADC_EqGqM :: "bxInstruction_c \<Rightarrow> unit sys_op" where
  "ADC_EqGqM i = with_core (\<lambda>c.
    let eaddr = BX_CPU_RESOLVE_ADDR_64 i c in
    laddr64 (instr_seg i) eaddr (\<lambda>laddr.
    and_then (read_RMW_linear_qword (instr_seg i) laddr) (\<lambda>m.
    with_core (\<lambda>c.
      let op1_64 = m :: Bit64u;
          op2_64 = BX_READ_64BIT_REG (src i) c;
          sum_64 = op1_64 + op2_64 + ucast (getB_CF (oszapc c))
      in and_then (write_RMW_linear_qword sum_64) (\<lambda>_. on_core (upd_oszapc (SET_FLAGS_OSZAPC_ADD_64 op1_64 op2_64 sum_64)))))))"

definition ADC_GqEqM :: "bxInstruction_c \<Rightarrow> unit sys_op" where
  "ADC_GqEqM i = with_core (\<lambda>c.
    let eaddr = BX_CPU_RESOLVE_ADDR_64 i c; op1_64 = BX_READ_64BIT_REG (dst i) c :: Bit64u in
    laddr64 (instr_seg i) eaddr (\<lambda>laddr.
    and_then (read_linear_qword (instr_seg i) laddr) (\<lambda>m.
    with_core (\<lambda>c.
    let op2_64 = m;
        sum_64 = op1_64 + op2_64 + ucast (getB_CF (oszapc c))
    in on_core (\<lambda>c. upd_oszapc (SET_FLAGS_OSZAPC_ADD_64 op1_64 op2_64 sum_64) (BX_WRITE_64BIT_REG (dst i) sum_64 c))))))"

definition ADC_EqIdM :: "bxInstruction_c \<Rightarrow> unit sys_op" where
  "ADC_EqIdM i = with_core (\<lambda>c.
    let eaddr = BX_CPU_RESOLVE_ADDR_64 i c in
    laddr64 (instr_seg i) eaddr (\<lambda>laddr.
    and_then (read_RMW_linear_qword (instr_seg i) laddr) (\<lambda>m.
    with_core (\<lambda>c.
      let op1_64 = m :: Bit64u;
          op2_64 = scast (Id i);
          sum_64 = op1_64 + op2_64 + ucast (getB_CF (oszapc c))
      in and_then (write_RMW_linear_qword sum_64) (\<lambda>_. on_core (upd_oszapc (SET_FLAGS_OSZAPC_ADD_64 op1_64 op2_64 sum_64)))))))"

definition SBB_EqGqM :: "bxInstruction_c \<Rightarrow> unit sys_op" where
  "SBB_EqGqM i = with_core (\<lambda>c.
    let eaddr = BX_CPU_RESOLVE_ADDR_64 i c in
    laddr64 (instr_seg i) eaddr (\<lambda>laddr.
    and_then (read_RMW_linear_qword (instr_seg i) laddr) (\<lambda>m.
    with_core (\<lambda>c.
      let op1_64 = m :: Bit64u;
          op2_64 = BX_READ_64BIT_REG (src i) c;
          diff_64 = op1_64 - (op2_64 + ucast (getB_CF (oszapc c)))
      in and_then (write_RMW_linear_qword diff_64) (\<lambda>_. on_core (upd_oszapc (SET_FLAGS_OSZAPC_SUB_64 op1_64 op2_64 diff_64)))))))"

definition SBB_GqEqM :: "bxInstruction_c \<Rightarrow> unit sys_op" where
  "SBB_GqEqM i = with_core (\<lambda>c.
    let eaddr = BX_CPU_RESOLVE_ADDR_64 i c; op1_64 = BX_READ_64BIT_REG (dst i) c :: Bit64u in
    laddr64 (instr_seg i) eaddr (\<lambda>laddr.
    and_then (read_linear_qword (instr_seg i) laddr) (\<lambda>m.
    with_core (\<lambda>c.
    let op2_64 = m;
        diff_64 = op1_64 - (op2_64 + ucast (getB_CF (oszapc c)))
    in on_core (\<lambda>c. upd_oszapc (SET_FLAGS_OSZAPC_SUB_64 op1_64 op2_64 diff_64) (BX_WRITE_64BIT_REG (dst i) diff_64 c))))))"

definition SBB_EqIdM :: "bxInstruction_c \<Rightarrow> unit sys_op" where
  "SBB_EqIdM i = with_core (\<lambda>c.
    let eaddr = BX_CPU_RESOLVE_ADDR_64 i c in
    laddr64 (instr_seg i) eaddr (\<lambda>laddr.
    and_then (read_RMW_linear_qword (instr_seg i) laddr) (\<lambda>m.
    with_core (\<lambda>c.
      let op1_64 = m :: Bit64u;
          op2_64 = scast (Id i);
          diff_64 = op1_64 - (op2_64 + ucast (getB_CF (oszapc c)))
      in and_then (write_RMW_linear_qword diff_64) (\<lambda>_. on_core (upd_oszapc (SET_FLAGS_OSZAPC_SUB_64 op1_64 op2_64 diff_64)))))))"

definition SUB_EqGqM :: "bxInstruction_c \<Rightarrow> unit sys_op" where
  "SUB_EqGqM i = with_core (\<lambda>c.
    let eaddr = BX_CPU_RESOLVE_ADDR_64 i c in
    laddr64 (instr_seg i) eaddr (\<lambda>laddr.
    and_then (read_RMW_linear_qword (instr_seg i) laddr) (\<lambda>m.
    with_core (\<lambda>c.
      let op1_64 = m :: Bit64u;
          op2_64 = BX_READ_64BIT_REG (src i) c;
          diff_64 = op1_64 - op2_64
      in and_then (write_RMW_linear_qword diff_64) (\<lambda>_. on_core (upd_oszapc (SET_FLAGS_OSZAPC_SUB_64 op1_64 op2_64 diff_64)))))))"

definition SUB_GqEqM :: "bxInstruction_c \<Rightarrow> unit sys_op" where
  "SUB_GqEqM i = with_core (\<lambda>c.
    let eaddr = BX_CPU_RESOLVE_ADDR_64 i c; op1_64 = BX_READ_64BIT_REG (dst i) c :: Bit64u in
    laddr64 (instr_seg i) eaddr (\<lambda>laddr.
    and_then (read_linear_qword (instr_seg i) laddr) (\<lambda>m.
    let op2_64 = m;
        diff_64 = op1_64 - op2_64
    in on_core (\<lambda>c. upd_oszapc (SET_FLAGS_OSZAPC_SUB_64 op1_64 op2_64 diff_64) (BX_WRITE_64BIT_REG (dst i) diff_64 c)))))"

definition SUB_EqIdM :: "bxInstruction_c \<Rightarrow> unit sys_op" where
  "SUB_EqIdM i = with_core (\<lambda>c.
    let eaddr = BX_CPU_RESOLVE_ADDR_64 i c in
    laddr64 (instr_seg i) eaddr (\<lambda>laddr.
    and_then (read_RMW_linear_qword (instr_seg i) laddr) (\<lambda>m.
    with_core (\<lambda>c.
      let op1_64 = m :: Bit64u;
          op2_64 = scast (Id i);
          diff_64 = op1_64 - op2_64
      in and_then (write_RMW_linear_qword diff_64) (\<lambda>_. on_core (upd_oszapc (SET_FLAGS_OSZAPC_SUB_64 op1_64 op2_64 diff_64)))))))"

definition CMP_EqGqM :: "bxInstruction_c \<Rightarrow> unit sys_op" where
  "CMP_EqGqM i = with_core (\<lambda>c.
    let eaddr = BX_CPU_RESOLVE_ADDR_64 i c in
    laddr64 (instr_seg i) eaddr (\<lambda>laddr.
    and_then (read_linear_qword (instr_seg i) laddr) (\<lambda>m.
    with_core (\<lambda>c.
      let op1_64 = m :: Bit64u;
          op2_64 = BX_READ_64BIT_REG (src i) c;
          diff_64 = op1_64 - op2_64
      in on_core (upd_oszapc (SET_FLAGS_OSZAPC_SUB_64 op1_64 op2_64 diff_64))))))"

definition CMP_GqEqM :: "bxInstruction_c \<Rightarrow> unit sys_op" where
  "CMP_GqEqM i = with_core (\<lambda>c.
    let eaddr = BX_CPU_RESOLVE_ADDR_64 i c; op1_64 = BX_READ_64BIT_REG (dst i) c :: Bit64u in
    laddr64 (instr_seg i) eaddr (\<lambda>laddr.
    and_then (read_linear_qword (instr_seg i) laddr) (\<lambda>m.
    let op2_64 = m;
        diff_64 = op1_64 - op2_64
    in on_core (upd_oszapc (SET_FLAGS_OSZAPC_SUB_64 op1_64 op2_64 diff_64)))))"

definition CMP_EqIdM :: "bxInstruction_c \<Rightarrow> unit sys_op" where
  "CMP_EqIdM i = with_core (\<lambda>c.
    let eaddr = BX_CPU_RESOLVE_ADDR_64 i c in
    laddr64 (instr_seg i) eaddr (\<lambda>laddr.
    and_then (read_linear_qword (instr_seg i) laddr) (\<lambda>m.
    with_core (\<lambda>c.
      let op1_64 = m :: Bit64u;
          op2_64 = scast (Id i);
          diff_64 = op1_64 - op2_64
      in on_core (upd_oszapc (SET_FLAGS_OSZAPC_SUB_64 op1_64 op2_64 diff_64))))))"

definition XADD_EqGqM :: "bxInstruction_c \<Rightarrow> unit sys_op" where
  "XADD_EqGqM i = with_core (\<lambda>c.
    let eaddr = BX_CPU_RESOLVE_ADDR_64 i c in
    laddr64 (instr_seg i) eaddr (\<lambda>laddr.
    and_then (read_RMW_linear_qword (instr_seg i) laddr) (\<lambda>m.
    with_core (\<lambda>c.
      let op1_64 = m :: Bit64u;
          op2_64 = BX_READ_64BIT_REG (src i) c;
          sum_64 = op1_64 + op2_64
      in and_then (write_RMW_linear_qword sum_64) (\<lambda>_. on_core (\<lambda>c. upd_oszapc (SET_FLAGS_OSZAPC_ADD_64 op1_64 op2_64 sum_64) (BX_WRITE_64BIT_REG (src i) op1_64 c)))))))"

definition NEG_EqM :: "bxInstruction_c \<Rightarrow> unit sys_op" where
  "NEG_EqM i = with_core (\<lambda>c.
    let eaddr = BX_CPU_RESOLVE_ADDR_64 i c in
    laddr64 (instr_seg i) eaddr (\<lambda>laddr.
    and_then (read_RMW_linear_qword (instr_seg i) laddr) (\<lambda>m.
    let op1_64 = m :: Bit64u;
        op1_64 = - op1_64
    in and_then (write_RMW_linear_qword op1_64) (\<lambda>_. on_core (upd_oszapc (SET_FLAGS_OSZAPC_SUB_64 0 (- op1_64) op1_64))))))"

definition INC_EqM :: "bxInstruction_c \<Rightarrow> unit sys_op" where
  "INC_EqM i = with_core (\<lambda>c.
    let eaddr = BX_CPU_RESOLVE_ADDR_64 i c in
    laddr64 (instr_seg i) eaddr (\<lambda>laddr.
    and_then (read_RMW_linear_qword (instr_seg i) laddr) (\<lambda>m.
    let op1_64 = m :: Bit64u;
        op1_64 = op1_64 + 1
    in and_then (write_RMW_linear_qword op1_64) (\<lambda>_. on_core (upd_oszapc (SET_FLAGS_OSZAP_ADD_64 (op1_64 - 1) 0 op1_64))))))"

definition DEC_EqM :: "bxInstruction_c \<Rightarrow> unit sys_op" where
  "DEC_EqM i = with_core (\<lambda>c.
    let eaddr = BX_CPU_RESOLVE_ADDR_64 i c in
    laddr64 (instr_seg i) eaddr (\<lambda>laddr.
    and_then (read_RMW_linear_qword (instr_seg i) laddr) (\<lambda>m.
    let op1_64 = m :: Bit64u;
        op1_64 = op1_64 - 1
    in and_then (write_RMW_linear_qword op1_64) (\<lambda>_. on_core (upd_oszapc (SET_FLAGS_OSZAP_SUB_64 (op1_64 + 1) 0 op1_64))))))"

definition CMPXCHG_EqGqM :: "bxInstruction_c \<Rightarrow> unit sys_op" where
  "CMPXCHG_EqGqM i = with_core (\<lambda>c.
    let eaddr = BX_CPU_RESOLVE_ADDR_64 i c in
    laddr64 (instr_seg i) eaddr (\<lambda>laddr.
    and_then (read_RMW_linear_qword (instr_seg i) laddr) (\<lambda>m.
    with_core (\<lambda>c.
      let op1_64 = m :: Bit64u;
          diff_64 = RAX c - op1_64
      in and_then (on_core (upd_oszapc (SET_FLAGS_OSZAPC_SUB_64 (RAX c) op1_64 diff_64))) (\<lambda>_.
         if diff_64 = 0 then with_core (\<lambda>c. write_RMW_linear_qword (BX_READ_64BIT_REG (src i) c))
         else and_then (write_RMW_linear_qword op1_64) (\<lambda>_. on_core (BX_WRITE_64BIT_REG 0 op1_64)))))))"

section \<open>Results and flags\<close>

lemma arith64_mem_reg:
  fixes i :: bxInstruction_c and s :: bx_sys
  defines "rd \<equiv> read_RMW_linear_qword (instr_seg i) (get_laddr64 (instr_seg i) (BX_CPU_RESOLVE_ADDR_64 i (core s)) s)"
    and "a \<equiv> BX_READ_64BIT_REG (dst i) (core s)" and "b \<equiv> BX_READ_64BIT_REG (src i) (core s)" and "c \<equiv> fCF (cpu_flags (core s))"
  shows "rmw_spec rd write_RMW_linear_qword (\<lambda>v. v + b) (\<lambda>v k. with_flags k (core s) (add_flags v b False)) (ADD_EqGqM i) s"
    "rmw_spec rd write_RMW_linear_qword (\<lambda>v. v + b + of_bool c) (\<lambda>v k. with_flags k (core s) (add_flags v b c)) (ADC_EqGqM i) s"
    "rmw_spec rd write_RMW_linear_qword (\<lambda>v. v - b) (\<lambda>v k. with_flags k (core s) (sub_flags v b False)) (SUB_EqGqM i) s"
    "rmw_spec rd write_RMW_linear_qword (\<lambda>v. v - (b + of_bool c)) (\<lambda>v k. with_flags k (core s) (sub_flags v b c)) (SBB_EqGqM i) s"
    "rmw_spec rd write_RMW_linear_qword (\<lambda>v. v + b) (\<lambda>v k. with_flags k (BX_WRITE_64BIT_REG (src i) v (core s)) (add_flags v b False)) (XADD_EqGqM i) s"
  unfolding assms
  by (rule rmw64.spec_intro, simp only: ADD_EqGqM_def ADC_EqGqM_def SUB_EqGqM_def SBB_EqGqM_def XADD_EqGqM_def with_core_apply laddr64_apply Let_def, simp, simp only: with_core_apply Let_def,
      simp add: ucast_add_down ucast_sub_down ucast_minus_down getB_flags, simp add: with_flags_def ucast_add_down ucast_sub_down ucast_minus_down getB_flags flags_ADD0(4) flags_SUB0(4)
      flags_ADD(4) [where c = "fCF (cpu_flags (core s))"] flags_SUB(4) [where c = "fCF (cpu_flags (core s))"])+

lemma arith64_mem_imm:
  fixes i :: bxInstruction_c and s :: bx_sys
  defines "rd \<equiv> read_RMW_linear_qword (instr_seg i) (get_laddr64 (instr_seg i) (BX_CPU_RESOLVE_ADDR_64 i (core s)) s)"
    and "a \<equiv> BX_READ_64BIT_REG (dst i) (core s)" and "b \<equiv> scast (Id i)" and "c \<equiv> fCF (cpu_flags (core s))"
  shows "rmw_spec rd write_RMW_linear_qword (\<lambda>v. v + b) (\<lambda>v k. with_flags k (core s) (add_flags v b False)) (ADD_EqIdM i) s"
    "rmw_spec rd write_RMW_linear_qword (\<lambda>v. v + b + of_bool c) (\<lambda>v k. with_flags k (core s) (add_flags v b c)) (ADC_EqIdM i) s"
    "rmw_spec rd write_RMW_linear_qword (\<lambda>v. v - b) (\<lambda>v k. with_flags k (core s) (sub_flags v b False)) (SUB_EqIdM i) s"
    "rmw_spec rd write_RMW_linear_qword (\<lambda>v. v - (b + of_bool c)) (\<lambda>v k. with_flags k (core s) (sub_flags v b c)) (SBB_EqIdM i) s"
  unfolding assms
  by (rule rmw64.spec_intro, simp only: ADD_EqIdM_def ADC_EqIdM_def SUB_EqIdM_def SBB_EqIdM_def with_core_apply laddr64_apply Let_def, simp, simp only: with_core_apply Let_def,
      simp add: ucast_add_down ucast_sub_down ucast_minus_down getB_flags, simp add: with_flags_def ucast_add_down ucast_sub_down ucast_minus_down getB_flags flags_ADD0(4) flags_SUB0(4)
      flags_ADD(4) [where c = "fCF (cpu_flags (core s))"] flags_SUB(4) [where c = "fCF (cpu_flags (core s))"])+

lemma arith64_reg_mem:
  fixes i :: bxInstruction_c and s :: bx_sys
  defines "rd \<equiv> read_linear_qword (instr_seg i) (get_laddr64 (instr_seg i) (BX_CPU_RESOLVE_ADDR_64 i (core s)) s)"
    and "a \<equiv> BX_READ_64BIT_REG (dst i) (core s)" and "b \<equiv> 0 :: nat" and "c \<equiv> fCF (cpu_flags (core s))"
  shows "load_spec rd (\<lambda>v k. with_flags k (BX_WRITE_64BIT_REG (dst i) (a + v) (core s)) (add_flags a v False)) (ADD_GqEqM i) s"
    "load_spec rd (\<lambda>v k. with_flags k (BX_WRITE_64BIT_REG (dst i) (a + v + of_bool c) (core s)) (add_flags a v c)) (ADC_GqEqM i) s"
    "load_spec rd (\<lambda>v k. with_flags k (BX_WRITE_64BIT_REG (dst i) (a - v) (core s)) (sub_flags a v False)) (SUB_GqEqM i) s"
    "load_spec rd (\<lambda>v k. with_flags k (BX_WRITE_64BIT_REG (dst i) (a - (v + of_bool c)) (core s)) (sub_flags a v c)) (SBB_GqEqM i) s"
    "load_spec rd (\<lambda>v k. with_flags k (core s) (sub_flags a v False)) (CMP_GqEqM i) s"
  unfolding assms
  by (rule load_spec_intro, simp only: ADD_GqEqM_def ADC_GqEqM_def SUB_GqEqM_def SBB_GqEqM_def CMP_GqEqM_def with_core_apply laddr64_apply Let_def, simp, simp only: with_core_apply Let_def,
      simp add: with_flags_def ucast_add_down ucast_sub_down ucast_minus_down getB_flags flags_ADD0(4) flags_SUB0(4)
      flags_ADD(4) [where c = "fCF (cpu_flags (core s))"] flags_SUB(4) [where c = "fCF (cpu_flags (core s))"])+

lemma arith64_cmp_mem:
  fixes i :: bxInstruction_c and s :: bx_sys
  defines "rd \<equiv> read_linear_qword (instr_seg i) (get_laddr64 (instr_seg i) (BX_CPU_RESOLVE_ADDR_64 i (core s)) s)"
    and "a \<equiv> BX_READ_64BIT_REG (dst i) (core s)" and "b \<equiv> BX_READ_64BIT_REG (src i) (core s)" and "c \<equiv> fCF (cpu_flags (core s))"
  shows "load_spec rd (\<lambda>v k. with_flags k (core s) (sub_flags v b False)) (CMP_EqGqM i) s"
  unfolding assms
  by (rule load_spec_intro, simp only: CMP_EqGqM_def with_core_apply laddr64_apply Let_def, simp, simp only: with_core_apply Let_def,
      simp add: with_flags_def ucast_add_down ucast_sub_down ucast_minus_down getB_flags flags_ADD0(4) flags_SUB0(4)
      flags_ADD(4) [where c = "fCF (cpu_flags (core s))"] flags_SUB(4) [where c = "fCF (cpu_flags (core s))"])+

lemma arith64_cmp_mem_imm:
  fixes i :: bxInstruction_c and s :: bx_sys
  defines "rd \<equiv> read_linear_qword (instr_seg i) (get_laddr64 (instr_seg i) (BX_CPU_RESOLVE_ADDR_64 i (core s)) s)"
    and "a \<equiv> BX_READ_64BIT_REG (dst i) (core s)" and "b \<equiv> scast (Id i)" and "c \<equiv> fCF (cpu_flags (core s))"
  shows "load_spec rd (\<lambda>v k. with_flags k (core s) (sub_flags v b False)) (CMP_EqIdM i) s"
  unfolding assms
  by (rule load_spec_intro, simp only: CMP_EqIdM_def with_core_apply laddr64_apply Let_def, simp, simp only: with_core_apply Let_def,
      simp add: with_flags_def ucast_add_down ucast_sub_down ucast_minus_down getB_flags flags_ADD0(4) flags_SUB0(4)
      flags_ADD(4) [where c = "fCF (cpu_flags (core s))"] flags_SUB(4) [where c = "fCF (cpu_flags (core s))"])+

lemma arith64_mem_unary:
  fixes i :: bxInstruction_c and s :: bx_sys
  defines "rd \<equiv> read_RMW_linear_qword (instr_seg i) (get_laddr64 (instr_seg i) (BX_CPU_RESOLVE_ADDR_64 i (core s)) s)"
    and "a \<equiv> BX_READ_64BIT_REG (dst i) (core s)" and "b \<equiv> 0 :: nat" and "c \<equiv> fCF (cpu_flags (core s))"
  shows "rmw_spec rd write_RMW_linear_qword (\<lambda>v. - v) (\<lambda>v k. with_flags k (core s) (sub_flags 0 v False)) (NEG_EqM i) s"
    "rmw_spec rd write_RMW_linear_qword (\<lambda>v. v + 1) (\<lambda>v k. with_flags k (core s) ((add_flags v 1 False)\<lparr>fCF := c\<rparr>)) (INC_EqM i) s"
    "rmw_spec rd write_RMW_linear_qword (\<lambda>v. v - 1) (\<lambda>v k. with_flags k (core s) ((sub_flags v 1 False)\<lparr>fCF := c\<rparr>)) (DEC_EqM i) s"
  unfolding assms
  by (rule rmw64.spec_intro, simp only: NEG_EqM_def INC_EqM_def DEC_EqM_def with_core_apply laddr64_apply Let_def, simp, simp only: with_core_apply Let_def,
      simp add: ucast_add_down ucast_sub_down ucast_minus_down getB_flags, simp add: with_flags_def ucast_add_down ucast_sub_down ucast_minus_down getB_flags flags_ADD0(4) flags_SUB0(4)
      flags_ADD(4) [where c = "fCF (cpu_flags (core s))"] flags_SUB(4) [where c = "fCF (cpu_flags (core s))"]
      flags_OSZAP flags_ADD1(4) flags_SUB1(4) add_flags_inc sub_flags_dec)+

lemma arith64_cmpxchg_mem:
  fixes i :: bxInstruction_c and s :: bx_sys
  defines "rd \<equiv> read_RMW_linear_qword (instr_seg i) (get_laddr64 (instr_seg i) (BX_CPU_RESOLVE_ADDR_64 i (core s)) s)"
    and "a \<equiv> RAX (core s)" and "b \<equiv> BX_READ_64BIT_REG (src i) (core s)"
  shows "rmw_spec rd write_RMW_linear_qword (\<lambda>v. if a = v then b else v)
      (\<lambda>v k. with_flags k (if a = v then core s else BX_WRITE_64BIT_REG 0 v (core s)) (sub_flags a v False)) (CMPXCHG_EqGqM i) s"
  unfolding assms
  by (rule rmw64.compare_swap, simp only: CMPXCHG_EqGqM_def with_core_apply laddr64_apply Let_def, simp,
      simp only: with_core_apply Let_def, simp, auto simp: ucast_eq_up ucast_sub_down with_flags_def flags_SUB0 reg_write_upd)

section \<open>Faults\<close>

lemmas arith64_mem_defs = ADD_EqGqM_def ADD_GqEqM_def ADD_EqIdM_def ADC_EqGqM_def ADC_GqEqM_def ADC_EqIdM_def SBB_EqGqM_def SBB_GqEqM_def SBB_EqIdM_def SUB_EqGqM_def SUB_GqEqM_def SUB_EqIdM_def CMP_EqGqM_def CMP_GqEqM_def CMP_EqIdM_def XADD_EqGqM_def NEG_EqM_def INC_EqM_def DEC_EqM_def CMPXCHG_EqGqM_def

lemma arith64_mem_precise:
  "precise (ADD_EqGqM i)"  "precise (ADD_GqEqM i)"  "precise (ADD_EqIdM i)"  "precise (ADC_EqGqM i)"  "precise (ADC_GqEqM i)"
  "precise (ADC_EqIdM i)"  "precise (SBB_EqGqM i)"  "precise (SBB_GqEqM i)"  "precise (SBB_EqIdM i)"  "precise (SUB_EqGqM i)"
  "precise (SUB_GqEqM i)"  "precise (SUB_EqIdM i)"  "precise (CMP_EqGqM i)"  "precise (CMP_GqEqM i)"  "precise (CMP_EqIdM i)"
  "precise (XADD_EqGqM i)"  "precise (NEG_EqM i)"  "precise (INC_EqM i)"  "precise (DEC_EqM i)"  "precise (CMPXCHG_EqGqM i)"
  unfolding arith64_mem_defs Let_def by (intro precise_intros)+

end
