(* ===== verification/Logical8.thy ===== *)
theory Logical8
  imports MemOperand
begin

text \<open>
  The 8-bit logical handlers of \<^verbatim>\<open>cpu/logical8.cc\<close>, register and memory forms.
\<close>

section \<open>Register forms\<close>

definition XOR_GbEbR :: "bxInstruction_c \<Rightarrow> bx_cpu \<Rightarrow> bx_cpu" where
  "XOR_GbEbR i s =
    (let op1_8 = BX_READ_8BIT_REGx (dst i) (extend8bitL i) s;
         op2_8 = BX_READ_8BIT_REGx (src i) (extend8bitL i) s;
         op1_8 = op1_8 XOR op2_8;
         s = BX_WRITE_8BIT_REGx (dst i) (extend8bitL i) op1_8 s
     in upd_oszapc (SET_FLAGS_OSZAPC_LOGIC_8 (ucast op1_8)) s)"

definition XOR_EbIbR :: "bxInstruction_c \<Rightarrow> bx_cpu \<Rightarrow> bx_cpu" where
  "XOR_EbIbR i s =
    (let op1_8 = BX_READ_8BIT_REGx (dst i) (extend8bitL i) s;
         op2_8 = Ib i;
         op1_8 = op1_8 XOR op2_8;
         s = BX_WRITE_8BIT_REGx (dst i) (extend8bitL i) op1_8 s
     in upd_oszapc (SET_FLAGS_OSZAPC_LOGIC_8 (ucast op1_8)) s)"

definition OR_GbEbR :: "bxInstruction_c \<Rightarrow> bx_cpu \<Rightarrow> bx_cpu" where
  "OR_GbEbR i s =
    (let op1_8 = BX_READ_8BIT_REGx (dst i) (extend8bitL i) s;
         op2_8 = BX_READ_8BIT_REGx (src i) (extend8bitL i) s;
         op1_8 = op1_8 OR op2_8;
         s = BX_WRITE_8BIT_REGx (dst i) (extend8bitL i) op1_8 s
     in upd_oszapc (SET_FLAGS_OSZAPC_LOGIC_8 (ucast op1_8)) s)"

definition OR_EbIbR :: "bxInstruction_c \<Rightarrow> bx_cpu \<Rightarrow> bx_cpu" where
  "OR_EbIbR i s =
    (let op1_8 = BX_READ_8BIT_REGx (dst i) (extend8bitL i) s;
         op2_8 = Ib i;
         op1_8 = op1_8 OR op2_8;
         s = BX_WRITE_8BIT_REGx (dst i) (extend8bitL i) op1_8 s
     in upd_oszapc (SET_FLAGS_OSZAPC_LOGIC_8 (ucast op1_8)) s)"

definition AND_GbEbR :: "bxInstruction_c \<Rightarrow> bx_cpu \<Rightarrow> bx_cpu" where
  "AND_GbEbR i s =
    (let op1_8 = BX_READ_8BIT_REGx (dst i) (extend8bitL i) s;
         op2_8 = BX_READ_8BIT_REGx (src i) (extend8bitL i) s;
         op1_8 = op1_8 AND op2_8;
         s = BX_WRITE_8BIT_REGx (dst i) (extend8bitL i) op1_8 s
     in upd_oszapc (SET_FLAGS_OSZAPC_LOGIC_8 (ucast op1_8)) s)"

definition AND_EbIbR :: "bxInstruction_c \<Rightarrow> bx_cpu \<Rightarrow> bx_cpu" where
  "AND_EbIbR i s =
    (let op1_8 = BX_READ_8BIT_REGx (dst i) (extend8bitL i) s;
         op2_8 = Ib i;
         op1_8 = op1_8 AND op2_8;
         s = BX_WRITE_8BIT_REGx (dst i) (extend8bitL i) op1_8 s
     in upd_oszapc (SET_FLAGS_OSZAPC_LOGIC_8 (ucast op1_8)) s)"

definition TEST_EbGbR :: "bxInstruction_c \<Rightarrow> bx_cpu \<Rightarrow> bx_cpu" where
  "TEST_EbGbR i s =
    (let op1_8 = BX_READ_8BIT_REGx (dst i) (extend8bitL i) s;
         op2_8 = BX_READ_8BIT_REGx (src i) (extend8bitL i) s;
         op1_8 = op1_8 AND op2_8
     in upd_oszapc (SET_FLAGS_OSZAPC_LOGIC_8 (ucast op1_8)) s)"

definition TEST_EbIbR :: "bxInstruction_c \<Rightarrow> bx_cpu \<Rightarrow> bx_cpu" where
  "TEST_EbIbR i s =
    (let op1_8 = BX_READ_8BIT_REGx (dst i) (extend8bitL i) s;
         op2_8 = Ib i;
         op1_8 = op1_8 AND op2_8
     in upd_oszapc (SET_FLAGS_OSZAPC_LOGIC_8 (ucast op1_8)) s)"

definition NOT_EbR :: "bxInstruction_c \<Rightarrow> bx_cpu \<Rightarrow> bx_cpu" where
  "NOT_EbR i s =
    (let op1_8 = BX_READ_8BIT_REGx (dst i) (extend8bitL i) s;
         op1_8 = NOT op1_8
     in BX_WRITE_8BIT_REGx (dst i) (extend8bitL i) op1_8 s)"

section \<open>Memory forms\<close>

definition XOR_EbGbM :: "bxInstruction_c \<Rightarrow> unit sys_op" where
  "XOR_EbGbM i = with_core (\<lambda>c.
    let eaddr = BX_CPU_RESOLVE_ADDR i c in
    and_then (read_RMW_virtual_byte (instr_seg i) eaddr) (\<lambda>m.
    with_core (\<lambda>c.
      let op1_8 = m;
          op2_8 = BX_READ_8BIT_REGx (src i) (extend8bitL i) c;
          op1_8 = op1_8 XOR op2_8
      in and_then (write_RMW_linear_byte op1_8) (\<lambda>_. on_core (upd_oszapc (SET_FLAGS_OSZAPC_LOGIC_8 (ucast op1_8)))))))"

definition XOR_EbIbM :: "bxInstruction_c \<Rightarrow> unit sys_op" where
  "XOR_EbIbM i = with_core (\<lambda>c.
    let eaddr = BX_CPU_RESOLVE_ADDR i c in
    and_then (read_RMW_virtual_byte (instr_seg i) eaddr) (\<lambda>m.
    with_core (\<lambda>c.
      let op1_8 = m;
          op2_8 = Ib i;
          op1_8 = op1_8 XOR op2_8
      in and_then (write_RMW_linear_byte op1_8) (\<lambda>_. on_core (upd_oszapc (SET_FLAGS_OSZAPC_LOGIC_8 (ucast op1_8)))))))"

definition XOR_GbEbM :: "bxInstruction_c \<Rightarrow> unit sys_op" where
  "XOR_GbEbM i = with_core (\<lambda>c.
    let eaddr = BX_CPU_RESOLVE_ADDR i c; op1_8 = BX_READ_8BIT_REGx (dst i) (extend8bitL i) c in
    and_then (read_virtual_byte (instr_seg i) eaddr) (\<lambda>m.
    let op2_8 = m;
        op1_8 = op1_8 XOR op2_8
    in on_core (\<lambda>c. upd_oszapc (SET_FLAGS_OSZAPC_LOGIC_8 (ucast op1_8)) (BX_WRITE_8BIT_REGx (dst i) (extend8bitL i) op1_8 c))))"

definition OR_EbGbM :: "bxInstruction_c \<Rightarrow> unit sys_op" where
  "OR_EbGbM i = with_core (\<lambda>c.
    let eaddr = BX_CPU_RESOLVE_ADDR i c in
    and_then (read_RMW_virtual_byte (instr_seg i) eaddr) (\<lambda>m.
    with_core (\<lambda>c.
      let op1_8 = m;
          op2_8 = BX_READ_8BIT_REGx (src i) (extend8bitL i) c;
          op1_8 = op1_8 OR op2_8
      in and_then (write_RMW_linear_byte op1_8) (\<lambda>_. on_core (upd_oszapc (SET_FLAGS_OSZAPC_LOGIC_8 (ucast op1_8)))))))"

definition OR_EbIbM :: "bxInstruction_c \<Rightarrow> unit sys_op" where
  "OR_EbIbM i = with_core (\<lambda>c.
    let eaddr = BX_CPU_RESOLVE_ADDR i c in
    and_then (read_RMW_virtual_byte (instr_seg i) eaddr) (\<lambda>m.
    with_core (\<lambda>c.
      let op1_8 = m;
          op2_8 = Ib i;
          op1_8 = op1_8 OR op2_8
      in and_then (write_RMW_linear_byte op1_8) (\<lambda>_. on_core (upd_oszapc (SET_FLAGS_OSZAPC_LOGIC_8 (ucast op1_8)))))))"

definition OR_GbEbM :: "bxInstruction_c \<Rightarrow> unit sys_op" where
  "OR_GbEbM i = with_core (\<lambda>c.
    let eaddr = BX_CPU_RESOLVE_ADDR i c; op1_8 = BX_READ_8BIT_REGx (dst i) (extend8bitL i) c in
    and_then (read_virtual_byte (instr_seg i) eaddr) (\<lambda>m.
    let op2_8 = m;
        op1_8 = op1_8 OR op2_8
    in on_core (\<lambda>c. upd_oszapc (SET_FLAGS_OSZAPC_LOGIC_8 (ucast op1_8)) (BX_WRITE_8BIT_REGx (dst i) (extend8bitL i) op1_8 c))))"

definition AND_EbGbM :: "bxInstruction_c \<Rightarrow> unit sys_op" where
  "AND_EbGbM i = with_core (\<lambda>c.
    let eaddr = BX_CPU_RESOLVE_ADDR i c in
    and_then (read_RMW_virtual_byte (instr_seg i) eaddr) (\<lambda>m.
    with_core (\<lambda>c.
      let op1_8 = m;
          op2_8 = BX_READ_8BIT_REGx (src i) (extend8bitL i) c;
          op1_8 = op1_8 AND op2_8
      in and_then (write_RMW_linear_byte op1_8) (\<lambda>_. on_core (upd_oszapc (SET_FLAGS_OSZAPC_LOGIC_8 (ucast op1_8)))))))"

definition AND_EbIbM :: "bxInstruction_c \<Rightarrow> unit sys_op" where
  "AND_EbIbM i = with_core (\<lambda>c.
    let eaddr = BX_CPU_RESOLVE_ADDR i c in
    and_then (read_RMW_virtual_byte (instr_seg i) eaddr) (\<lambda>m.
    with_core (\<lambda>c.
      let op1_8 = m;
          op2_8 = Ib i;
          op1_8 = op1_8 AND op2_8
      in and_then (write_RMW_linear_byte op1_8) (\<lambda>_. on_core (upd_oszapc (SET_FLAGS_OSZAPC_LOGIC_8 (ucast op1_8)))))))"

definition AND_GbEbM :: "bxInstruction_c \<Rightarrow> unit sys_op" where
  "AND_GbEbM i = with_core (\<lambda>c.
    let eaddr = BX_CPU_RESOLVE_ADDR i c; op1_8 = BX_READ_8BIT_REGx (dst i) (extend8bitL i) c in
    and_then (read_virtual_byte (instr_seg i) eaddr) (\<lambda>m.
    let op2_8 = m;
        op1_8 = op1_8 AND op2_8
    in on_core (\<lambda>c. upd_oszapc (SET_FLAGS_OSZAPC_LOGIC_8 (ucast op1_8)) (BX_WRITE_8BIT_REGx (dst i) (extend8bitL i) op1_8 c))))"

definition TEST_EbGbM :: "bxInstruction_c \<Rightarrow> unit sys_op" where
  "TEST_EbGbM i = with_core (\<lambda>c.
    let eaddr = BX_CPU_RESOLVE_ADDR i c in
    and_then (read_virtual_byte (instr_seg i) eaddr) (\<lambda>m.
    with_core (\<lambda>c.
      let op1_8 = m;
          op2_8 = BX_READ_8BIT_REGx (src i) (extend8bitL i) c;
          op1_8 = op1_8 AND op2_8
      in on_core (upd_oszapc (SET_FLAGS_OSZAPC_LOGIC_8 (ucast op1_8))))))"

definition TEST_EbIbM :: "bxInstruction_c \<Rightarrow> unit sys_op" where
  "TEST_EbIbM i = with_core (\<lambda>c.
    let eaddr = BX_CPU_RESOLVE_ADDR i c in
    and_then (read_virtual_byte (instr_seg i) eaddr) (\<lambda>m.
    with_core (\<lambda>c.
      let op1_8 = m;
          op2_8 = Ib i;
          op1_8 = op1_8 AND op2_8
      in on_core (upd_oszapc (SET_FLAGS_OSZAPC_LOGIC_8 (ucast op1_8))))))"

definition NOT_EbM :: "bxInstruction_c \<Rightarrow> unit sys_op" where
  "NOT_EbM i = with_core (\<lambda>c.
    let eaddr = BX_CPU_RESOLVE_ADDR i c in
    and_then (read_RMW_virtual_byte (instr_seg i) eaddr) (\<lambda>m.
    let op1_8 = m;
        op1_8 = NOT op1_8
    in write_RMW_linear_byte op1_8))"

section \<open>Results and flags\<close>

lemmas logical8_reg_defs = XOR_GbEbR_def XOR_EbIbR_def OR_GbEbR_def OR_EbIbR_def AND_GbEbR_def AND_EbIbR_def TEST_EbGbR_def TEST_EbIbR_def NOT_EbR_def

lemmas logical8_mem_defs = XOR_EbGbM_def XOR_EbIbM_def XOR_GbEbM_def OR_EbGbM_def OR_EbIbM_def OR_GbEbM_def AND_EbGbM_def AND_EbIbM_def AND_GbEbM_def TEST_EbGbM_def TEST_EbIbM_def NOT_EbM_def

lemma logical8_reg:
  fixes i :: bxInstruction_c and s :: bx_cpu
  defines "a \<equiv> BX_READ_8BIT_REGx (dst i) (extend8bitL i) s" and "b \<equiv> BX_READ_8BIT_REGx (src i) (extend8bitL i) s"
  shows "with_flags (XOR_GbEbR i s) (BX_WRITE_8BIT_REGx (dst i) (extend8bitL i) (a XOR b) s) (logic_flags (a XOR b))"
    "with_flags (OR_GbEbR i s) (BX_WRITE_8BIT_REGx (dst i) (extend8bitL i) (a OR b) s) (logic_flags (a OR b))"
    "with_flags (AND_GbEbR i s) (BX_WRITE_8BIT_REGx (dst i) (extend8bitL i) (a AND b) s) (logic_flags (a AND b))"
    "with_flags (TEST_EbGbR i s) (s) (logic_flags (a AND b))"
  unfolding assms logical8_reg_defs Let_def with_flags_def by (simp_all add: flags_LOGIC)

lemma logical8_imm:
  fixes i :: bxInstruction_c and s :: bx_cpu
  defines "a \<equiv> BX_READ_8BIT_REGx (dst i) (extend8bitL i) s" and "b \<equiv> Ib i"
  shows "with_flags (XOR_EbIbR i s) (BX_WRITE_8BIT_REGx (dst i) (extend8bitL i) (a XOR b) s) (logic_flags (a XOR b))"
    "with_flags (OR_EbIbR i s) (BX_WRITE_8BIT_REGx (dst i) (extend8bitL i) (a OR b) s) (logic_flags (a OR b))"
    "with_flags (AND_EbIbR i s) (BX_WRITE_8BIT_REGx (dst i) (extend8bitL i) (a AND b) s) (logic_flags (a AND b))"
    "with_flags (TEST_EbIbR i s) (s) (logic_flags (a AND b))"
  unfolding assms logical8_reg_defs Let_def with_flags_def by (simp_all add: flags_LOGIC)

lemma logical8_mem_reg:
  fixes i :: bxInstruction_c and s :: bx_sys
  defines "rd \<equiv> read_RMW_virtual_byte (instr_seg i) (BX_CPU_RESOLVE_ADDR i (core s))"
    and "a \<equiv> BX_READ_8BIT_REGx (dst i) (extend8bitL i) (core s)" and "b \<equiv> BX_READ_8BIT_REGx (src i) (extend8bitL i) (core s)"
  shows "rmw_spec rd write_RMW_linear_byte (\<lambda>v. v XOR b) (\<lambda>v k. with_flags k (core s) (logic_flags (v XOR b))) (XOR_EbGbM i) s"
    "rmw_spec rd write_RMW_linear_byte (\<lambda>v. v OR b) (\<lambda>v k. with_flags k (core s) (logic_flags (v OR b))) (OR_EbGbM i) s"
    "rmw_spec rd write_RMW_linear_byte (\<lambda>v. v AND b) (\<lambda>v k. with_flags k (core s) (logic_flags (v AND b))) (AND_EbGbM i) s"
  unfolding assms
  by (rule rmw8.spec_intro, simp only: XOR_EbGbM_def OR_EbGbM_def AND_EbGbM_def with_core_apply laddr64_apply Let_def, simp, simp only: with_core_apply Let_def,
      simp, simp add: with_flags_def flags_LOGIC)+

lemma logical8_mem_imm:
  fixes i :: bxInstruction_c and s :: bx_sys
  defines "rd \<equiv> read_RMW_virtual_byte (instr_seg i) (BX_CPU_RESOLVE_ADDR i (core s))"
    and "a \<equiv> BX_READ_8BIT_REGx (dst i) (extend8bitL i) (core s)" and "b \<equiv> Ib i"
  shows "rmw_spec rd write_RMW_linear_byte (\<lambda>v. v XOR b) (\<lambda>v k. with_flags k (core s) (logic_flags (v XOR b))) (XOR_EbIbM i) s"
    "rmw_spec rd write_RMW_linear_byte (\<lambda>v. v OR b) (\<lambda>v k. with_flags k (core s) (logic_flags (v OR b))) (OR_EbIbM i) s"
    "rmw_spec rd write_RMW_linear_byte (\<lambda>v. v AND b) (\<lambda>v k. with_flags k (core s) (logic_flags (v AND b))) (AND_EbIbM i) s"
  unfolding assms
  by (rule rmw8.spec_intro, simp only: XOR_EbIbM_def OR_EbIbM_def AND_EbIbM_def with_core_apply laddr64_apply Let_def, simp, simp only: with_core_apply Let_def,
      simp, simp add: with_flags_def flags_LOGIC)+

lemma logical8_reg_mem:
  fixes i :: bxInstruction_c and s :: bx_sys
  defines "rd \<equiv> read_virtual_byte (instr_seg i) (BX_CPU_RESOLVE_ADDR i (core s))"
    and "a \<equiv> BX_READ_8BIT_REGx (dst i) (extend8bitL i) (core s)" and "b \<equiv> 0 :: nat"
  shows "load_spec rd (\<lambda>v k. with_flags k (BX_WRITE_8BIT_REGx (dst i) (extend8bitL i) (a XOR v) (core s)) (logic_flags (a XOR v))) (XOR_GbEbM i) s"
    "load_spec rd (\<lambda>v k. with_flags k (BX_WRITE_8BIT_REGx (dst i) (extend8bitL i) (a OR v) (core s)) (logic_flags (a OR v))) (OR_GbEbM i) s"
    "load_spec rd (\<lambda>v k. with_flags k (BX_WRITE_8BIT_REGx (dst i) (extend8bitL i) (a AND v) (core s)) (logic_flags (a AND v))) (AND_GbEbM i) s"
  unfolding assms
  by (rule load_spec_intro, simp only: XOR_GbEbM_def OR_GbEbM_def AND_GbEbM_def with_core_apply laddr64_apply Let_def, simp, simp only: with_core_apply Let_def,
      simp add: with_flags_def flags_LOGIC)+

lemma logical8_test_mem:
  fixes i :: bxInstruction_c and s :: bx_sys
  defines "rd \<equiv> read_virtual_byte (instr_seg i) (BX_CPU_RESOLVE_ADDR i (core s))"
    and "a \<equiv> BX_READ_8BIT_REGx (dst i) (extend8bitL i) (core s)" and "b \<equiv> BX_READ_8BIT_REGx (src i) (extend8bitL i) (core s)"
  shows "load_spec rd (\<lambda>v k. with_flags k (core s) (logic_flags (v AND b))) (TEST_EbGbM i) s"
  unfolding assms
  by (rule load_spec_intro, simp only: TEST_EbGbM_def with_core_apply laddr64_apply Let_def, simp, simp only: with_core_apply Let_def,
      simp add: with_flags_def flags_LOGIC)+

lemma logical8_test_mem_imm:
  fixes i :: bxInstruction_c and s :: bx_sys
  defines "rd \<equiv> read_virtual_byte (instr_seg i) (BX_CPU_RESOLVE_ADDR i (core s))"
    and "a \<equiv> BX_READ_8BIT_REGx (dst i) (extend8bitL i) (core s)" and "b \<equiv> Ib i"
  shows "load_spec rd (\<lambda>v k. with_flags k (core s) (logic_flags (v AND b))) (TEST_EbIbM i) s"
  unfolding assms
  by (rule load_spec_intro, simp only: TEST_EbIbM_def with_core_apply laddr64_apply Let_def, simp, simp only: with_core_apply Let_def,
      simp add: with_flags_def flags_LOGIC)+

lemma logical8_not_mem:
  "rmw_spec (read_RMW_virtual_byte (instr_seg i) (BX_CPU_RESOLVE_ADDR i (core s))) write_RMW_linear_byte (\<lambda>v. NOT v) (\<lambda>v k. k = core s) (NOT_EbM i) s"
  by (rule rmw8.spec_last, simp only: NOT_EbM_def with_core_apply laddr64_apply Let_def, simp, simp only: Let_def, rule refl, rule refl)

section \<open>Faults\<close>

lemma logical8_mem_precise:
  "precise (XOR_EbGbM i)"  "precise (XOR_EbIbM i)"  "precise (XOR_GbEbM i)"  "precise (OR_EbGbM i)"  "precise (OR_EbIbM i)"
  "precise (OR_GbEbM i)"  "precise (AND_EbGbM i)"  "precise (AND_EbIbM i)"  "precise (AND_GbEbM i)"  "precise (TEST_EbGbM i)"
  "precise (TEST_EbIbM i)"  "precise (NOT_EbM i)"
  unfolding logical8_mem_defs Let_def by (intro precise_intros)+

end
