(* ===== verification/Logical16.thy ===== *)
theory Logical16
  imports MemOperand
begin

text \<open>
  The 16-bit logical handlers of \<^verbatim>\<open>cpu/logical16.cc\<close>, register and memory forms.
\<close>

section \<open>Register forms\<close>

definition XOR_GwEwR :: "bxInstruction_c \<Rightarrow> bx_cpu \<Rightarrow> bx_cpu" where
  "XOR_GwEwR i s =
    (let op1_16 = BX_READ_16BIT_REG (dst i) s;
         op2_16 = BX_READ_16BIT_REG (src i) s;
         op1_16 = op1_16 XOR op2_16;
         s = BX_WRITE_16BIT_REG (dst i) op1_16 s
     in upd_oszapc (SET_FLAGS_OSZAPC_LOGIC_16 (ucast op1_16)) s)"

definition XOR_EwIwR :: "bxInstruction_c \<Rightarrow> bx_cpu \<Rightarrow> bx_cpu" where
  "XOR_EwIwR i s =
    (let op1_16 = BX_READ_16BIT_REG (dst i) s;
         op2_16 = Iw i;
         op1_16 = op1_16 XOR op2_16;
         s = BX_WRITE_16BIT_REG (dst i) op1_16 s
     in upd_oszapc (SET_FLAGS_OSZAPC_LOGIC_16 (ucast op1_16)) s)"

definition OR_GwEwR :: "bxInstruction_c \<Rightarrow> bx_cpu \<Rightarrow> bx_cpu" where
  "OR_GwEwR i s =
    (let op1_16 = BX_READ_16BIT_REG (dst i) s;
         op2_16 = BX_READ_16BIT_REG (src i) s;
         op1_16 = op1_16 OR op2_16;
         s = BX_WRITE_16BIT_REG (dst i) op1_16 s
     in upd_oszapc (SET_FLAGS_OSZAPC_LOGIC_16 (ucast op1_16)) s)"

definition OR_EwIwR :: "bxInstruction_c \<Rightarrow> bx_cpu \<Rightarrow> bx_cpu" where
  "OR_EwIwR i s =
    (let op1_16 = BX_READ_16BIT_REG (dst i) s;
         op2_16 = Iw i;
         op1_16 = op1_16 OR op2_16;
         s = BX_WRITE_16BIT_REG (dst i) op1_16 s
     in upd_oszapc (SET_FLAGS_OSZAPC_LOGIC_16 (ucast op1_16)) s)"

definition AND_GwEwR :: "bxInstruction_c \<Rightarrow> bx_cpu \<Rightarrow> bx_cpu" where
  "AND_GwEwR i s =
    (let op1_16 = BX_READ_16BIT_REG (dst i) s;
         op2_16 = BX_READ_16BIT_REG (src i) s;
         op1_16 = op1_16 AND op2_16;
         s = BX_WRITE_16BIT_REG (dst i) op1_16 s
     in upd_oszapc (SET_FLAGS_OSZAPC_LOGIC_16 (ucast op1_16)) s)"

definition AND_EwIwR :: "bxInstruction_c \<Rightarrow> bx_cpu \<Rightarrow> bx_cpu" where
  "AND_EwIwR i s =
    (let op1_16 = BX_READ_16BIT_REG (dst i) s;
         op2_16 = Iw i;
         op1_16 = op1_16 AND op2_16;
         s = BX_WRITE_16BIT_REG (dst i) op1_16 s
     in upd_oszapc (SET_FLAGS_OSZAPC_LOGIC_16 (ucast op1_16)) s)"

definition TEST_EwGwR :: "bxInstruction_c \<Rightarrow> bx_cpu \<Rightarrow> bx_cpu" where
  "TEST_EwGwR i s =
    (let op1_16 = BX_READ_16BIT_REG (dst i) s;
         op2_16 = BX_READ_16BIT_REG (src i) s;
         op1_16 = op1_16 AND op2_16
     in upd_oszapc (SET_FLAGS_OSZAPC_LOGIC_16 (ucast op1_16)) s)"

definition TEST_EwIwR :: "bxInstruction_c \<Rightarrow> bx_cpu \<Rightarrow> bx_cpu" where
  "TEST_EwIwR i s =
    (let op1_16 = BX_READ_16BIT_REG (dst i) s;
         op2_16 = Iw i;
         op1_16 = op1_16 AND op2_16
     in upd_oszapc (SET_FLAGS_OSZAPC_LOGIC_16 (ucast op1_16)) s)"

definition NOT_EwR :: "bxInstruction_c \<Rightarrow> bx_cpu \<Rightarrow> bx_cpu" where
  "NOT_EwR i s =
    (let op1_16 = BX_READ_16BIT_REG (dst i) s;
         op1_16 = NOT op1_16
     in BX_WRITE_16BIT_REG (dst i) op1_16 s)"

section \<open>Memory forms\<close>

definition XOR_EwGwM :: "bxInstruction_c \<Rightarrow> unit sys_op" where
  "XOR_EwGwM i = with_core (\<lambda>c.
    let eaddr = BX_CPU_RESOLVE_ADDR i c in
    and_then (read_RMW_virtual_word (instr_seg i) eaddr) (\<lambda>m.
    with_core (\<lambda>c.
      let op1_16 = m;
          op2_16 = BX_READ_16BIT_REG (src i) c;
          op1_16 = op1_16 XOR op2_16
      in and_then (write_RMW_linear_word op1_16) (\<lambda>_. on_core (upd_oszapc (SET_FLAGS_OSZAPC_LOGIC_16 (ucast op1_16)))))))"

definition XOR_EwIwM :: "bxInstruction_c \<Rightarrow> unit sys_op" where
  "XOR_EwIwM i = with_core (\<lambda>c.
    let eaddr = BX_CPU_RESOLVE_ADDR i c in
    and_then (read_RMW_virtual_word (instr_seg i) eaddr) (\<lambda>m.
    with_core (\<lambda>c.
      let op1_16 = m;
          op2_16 = Iw i;
          op1_16 = op1_16 XOR op2_16
      in and_then (write_RMW_linear_word op1_16) (\<lambda>_. on_core (upd_oszapc (SET_FLAGS_OSZAPC_LOGIC_16 (ucast op1_16)))))))"

definition XOR_GwEwM :: "bxInstruction_c \<Rightarrow> unit sys_op" where
  "XOR_GwEwM i = with_core (\<lambda>c.
    let eaddr = BX_CPU_RESOLVE_ADDR i c; op1_16 = BX_READ_16BIT_REG (dst i) c in
    and_then (read_virtual_word (instr_seg i) eaddr) (\<lambda>m.
    let op2_16 = m;
        op1_16 = op1_16 XOR op2_16
    in on_core (\<lambda>c. upd_oszapc (SET_FLAGS_OSZAPC_LOGIC_16 (ucast op1_16)) (BX_WRITE_16BIT_REG (dst i) op1_16 c))))"

definition OR_EwGwM :: "bxInstruction_c \<Rightarrow> unit sys_op" where
  "OR_EwGwM i = with_core (\<lambda>c.
    let eaddr = BX_CPU_RESOLVE_ADDR i c in
    and_then (read_RMW_virtual_word (instr_seg i) eaddr) (\<lambda>m.
    with_core (\<lambda>c.
      let op1_16 = m;
          op2_16 = BX_READ_16BIT_REG (src i) c;
          op1_16 = op1_16 OR op2_16
      in and_then (write_RMW_linear_word op1_16) (\<lambda>_. on_core (upd_oszapc (SET_FLAGS_OSZAPC_LOGIC_16 (ucast op1_16)))))))"

definition OR_EwIwM :: "bxInstruction_c \<Rightarrow> unit sys_op" where
  "OR_EwIwM i = with_core (\<lambda>c.
    let eaddr = BX_CPU_RESOLVE_ADDR i c in
    and_then (read_RMW_virtual_word (instr_seg i) eaddr) (\<lambda>m.
    with_core (\<lambda>c.
      let op1_16 = m;
          op2_16 = Iw i;
          op1_16 = op1_16 OR op2_16
      in and_then (write_RMW_linear_word op1_16) (\<lambda>_. on_core (upd_oszapc (SET_FLAGS_OSZAPC_LOGIC_16 (ucast op1_16)))))))"

definition OR_GwEwM :: "bxInstruction_c \<Rightarrow> unit sys_op" where
  "OR_GwEwM i = with_core (\<lambda>c.
    let eaddr = BX_CPU_RESOLVE_ADDR i c; op1_16 = BX_READ_16BIT_REG (dst i) c in
    and_then (read_virtual_word (instr_seg i) eaddr) (\<lambda>m.
    let op2_16 = m;
        op1_16 = op1_16 OR op2_16
    in on_core (\<lambda>c. upd_oszapc (SET_FLAGS_OSZAPC_LOGIC_16 (ucast op1_16)) (BX_WRITE_16BIT_REG (dst i) op1_16 c))))"

definition AND_EwGwM :: "bxInstruction_c \<Rightarrow> unit sys_op" where
  "AND_EwGwM i = with_core (\<lambda>c.
    let eaddr = BX_CPU_RESOLVE_ADDR i c in
    and_then (read_RMW_virtual_word (instr_seg i) eaddr) (\<lambda>m.
    with_core (\<lambda>c.
      let op1_16 = m;
          op2_16 = BX_READ_16BIT_REG (src i) c;
          op1_16 = op1_16 AND op2_16
      in and_then (write_RMW_linear_word op1_16) (\<lambda>_. on_core (upd_oszapc (SET_FLAGS_OSZAPC_LOGIC_16 (ucast op1_16)))))))"

definition AND_EwIwM :: "bxInstruction_c \<Rightarrow> unit sys_op" where
  "AND_EwIwM i = with_core (\<lambda>c.
    let eaddr = BX_CPU_RESOLVE_ADDR i c in
    and_then (read_RMW_virtual_word (instr_seg i) eaddr) (\<lambda>m.
    with_core (\<lambda>c.
      let op1_16 = m;
          op2_16 = Iw i;
          op1_16 = op1_16 AND op2_16
      in and_then (write_RMW_linear_word op1_16) (\<lambda>_. on_core (upd_oszapc (SET_FLAGS_OSZAPC_LOGIC_16 (ucast op1_16)))))))"

definition AND_GwEwM :: "bxInstruction_c \<Rightarrow> unit sys_op" where
  "AND_GwEwM i = with_core (\<lambda>c.
    let eaddr = BX_CPU_RESOLVE_ADDR i c; op1_16 = BX_READ_16BIT_REG (dst i) c in
    and_then (read_virtual_word (instr_seg i) eaddr) (\<lambda>m.
    let op2_16 = m;
        op1_16 = op1_16 AND op2_16
    in on_core (\<lambda>c. upd_oszapc (SET_FLAGS_OSZAPC_LOGIC_16 (ucast op1_16)) (BX_WRITE_16BIT_REG (dst i) op1_16 c))))"

definition TEST_EwGwM :: "bxInstruction_c \<Rightarrow> unit sys_op" where
  "TEST_EwGwM i = with_core (\<lambda>c.
    let eaddr = BX_CPU_RESOLVE_ADDR i c in
    and_then (read_virtual_word (instr_seg i) eaddr) (\<lambda>m.
    with_core (\<lambda>c.
      let op1_16 = m;
          op2_16 = BX_READ_16BIT_REG (src i) c;
          op1_16 = op1_16 AND op2_16
      in on_core (upd_oszapc (SET_FLAGS_OSZAPC_LOGIC_16 (ucast op1_16))))))"

definition TEST_EwIwM :: "bxInstruction_c \<Rightarrow> unit sys_op" where
  "TEST_EwIwM i = with_core (\<lambda>c.
    let eaddr = BX_CPU_RESOLVE_ADDR i c in
    and_then (read_virtual_word (instr_seg i) eaddr) (\<lambda>m.
    with_core (\<lambda>c.
      let op1_16 = m;
          op2_16 = Iw i;
          op1_16 = op1_16 AND op2_16
      in on_core (upd_oszapc (SET_FLAGS_OSZAPC_LOGIC_16 (ucast op1_16))))))"

definition NOT_EwM :: "bxInstruction_c \<Rightarrow> unit sys_op" where
  "NOT_EwM i = with_core (\<lambda>c.
    let eaddr = BX_CPU_RESOLVE_ADDR i c in
    and_then (read_RMW_virtual_word (instr_seg i) eaddr) (\<lambda>m.
    let op1_16 = m;
        op1_16 = NOT op1_16
    in write_RMW_linear_word op1_16))"

section \<open>Results and flags\<close>

lemmas logical16_reg_defs = XOR_GwEwR_def XOR_EwIwR_def OR_GwEwR_def OR_EwIwR_def AND_GwEwR_def AND_EwIwR_def TEST_EwGwR_def TEST_EwIwR_def NOT_EwR_def

lemmas logical16_mem_defs = XOR_EwGwM_def XOR_EwIwM_def XOR_GwEwM_def OR_EwGwM_def OR_EwIwM_def OR_GwEwM_def AND_EwGwM_def AND_EwIwM_def AND_GwEwM_def TEST_EwGwM_def TEST_EwIwM_def NOT_EwM_def

lemma logical16_reg:
  fixes i :: bxInstruction_c and s :: bx_cpu
  defines "a \<equiv> BX_READ_16BIT_REG (dst i) s" and "b \<equiv> BX_READ_16BIT_REG (src i) s"
  shows "with_flags (XOR_GwEwR i s) (BX_WRITE_16BIT_REG (dst i) (a XOR b) s) (logic_flags (a XOR b))"
    "with_flags (OR_GwEwR i s) (BX_WRITE_16BIT_REG (dst i) (a OR b) s) (logic_flags (a OR b))"
    "with_flags (AND_GwEwR i s) (BX_WRITE_16BIT_REG (dst i) (a AND b) s) (logic_flags (a AND b))"
    "with_flags (TEST_EwGwR i s) (s) (logic_flags (a AND b))"
  unfolding assms logical16_reg_defs Let_def with_flags_def by (simp_all add: flags_LOGIC)

lemma logical16_imm:
  fixes i :: bxInstruction_c and s :: bx_cpu
  defines "a \<equiv> BX_READ_16BIT_REG (dst i) s" and "b \<equiv> Iw i"
  shows "with_flags (XOR_EwIwR i s) (BX_WRITE_16BIT_REG (dst i) (a XOR b) s) (logic_flags (a XOR b))"
    "with_flags (OR_EwIwR i s) (BX_WRITE_16BIT_REG (dst i) (a OR b) s) (logic_flags (a OR b))"
    "with_flags (AND_EwIwR i s) (BX_WRITE_16BIT_REG (dst i) (a AND b) s) (logic_flags (a AND b))"
    "with_flags (TEST_EwIwR i s) (s) (logic_flags (a AND b))"
  unfolding assms logical16_reg_defs Let_def with_flags_def by (simp_all add: flags_LOGIC)

lemma logical16_mem_reg:
  fixes i :: bxInstruction_c and s :: bx_sys
  defines "rd \<equiv> read_RMW_virtual_word (instr_seg i) (BX_CPU_RESOLVE_ADDR i (core s))"
    and "a \<equiv> BX_READ_16BIT_REG (dst i) (core s)" and "b \<equiv> BX_READ_16BIT_REG (src i) (core s)"
  shows "rmw_spec rd write_RMW_linear_word (\<lambda>v. v XOR b) (\<lambda>v k. with_flags k (core s) (logic_flags (v XOR b))) (XOR_EwGwM i) s"
    "rmw_spec rd write_RMW_linear_word (\<lambda>v. v OR b) (\<lambda>v k. with_flags k (core s) (logic_flags (v OR b))) (OR_EwGwM i) s"
    "rmw_spec rd write_RMW_linear_word (\<lambda>v. v AND b) (\<lambda>v k. with_flags k (core s) (logic_flags (v AND b))) (AND_EwGwM i) s"
  unfolding assms
  by (rule rmw16.spec_intro, simp only: XOR_EwGwM_def OR_EwGwM_def AND_EwGwM_def with_core_apply laddr64_apply Let_def, simp, simp only: with_core_apply Let_def,
      simp, simp add: with_flags_def flags_LOGIC)+

lemma logical16_mem_imm:
  fixes i :: bxInstruction_c and s :: bx_sys
  defines "rd \<equiv> read_RMW_virtual_word (instr_seg i) (BX_CPU_RESOLVE_ADDR i (core s))"
    and "a \<equiv> BX_READ_16BIT_REG (dst i) (core s)" and "b \<equiv> Iw i"
  shows "rmw_spec rd write_RMW_linear_word (\<lambda>v. v XOR b) (\<lambda>v k. with_flags k (core s) (logic_flags (v XOR b))) (XOR_EwIwM i) s"
    "rmw_spec rd write_RMW_linear_word (\<lambda>v. v OR b) (\<lambda>v k. with_flags k (core s) (logic_flags (v OR b))) (OR_EwIwM i) s"
    "rmw_spec rd write_RMW_linear_word (\<lambda>v. v AND b) (\<lambda>v k. with_flags k (core s) (logic_flags (v AND b))) (AND_EwIwM i) s"
  unfolding assms
  by (rule rmw16.spec_intro, simp only: XOR_EwIwM_def OR_EwIwM_def AND_EwIwM_def with_core_apply laddr64_apply Let_def, simp, simp only: with_core_apply Let_def,
      simp, simp add: with_flags_def flags_LOGIC)+

lemma logical16_reg_mem:
  fixes i :: bxInstruction_c and s :: bx_sys
  defines "rd \<equiv> read_virtual_word (instr_seg i) (BX_CPU_RESOLVE_ADDR i (core s))"
    and "a \<equiv> BX_READ_16BIT_REG (dst i) (core s)" and "b \<equiv> 0 :: nat"
  shows "load_spec rd (\<lambda>v k. with_flags k (BX_WRITE_16BIT_REG (dst i) (a XOR v) (core s)) (logic_flags (a XOR v))) (XOR_GwEwM i) s"
    "load_spec rd (\<lambda>v k. with_flags k (BX_WRITE_16BIT_REG (dst i) (a OR v) (core s)) (logic_flags (a OR v))) (OR_GwEwM i) s"
    "load_spec rd (\<lambda>v k. with_flags k (BX_WRITE_16BIT_REG (dst i) (a AND v) (core s)) (logic_flags (a AND v))) (AND_GwEwM i) s"
  unfolding assms
  by (rule load_spec_intro, simp only: XOR_GwEwM_def OR_GwEwM_def AND_GwEwM_def with_core_apply laddr64_apply Let_def, simp, simp only: with_core_apply Let_def,
      simp add: with_flags_def flags_LOGIC)+

lemma logical16_test_mem:
  fixes i :: bxInstruction_c and s :: bx_sys
  defines "rd \<equiv> read_virtual_word (instr_seg i) (BX_CPU_RESOLVE_ADDR i (core s))"
    and "a \<equiv> BX_READ_16BIT_REG (dst i) (core s)" and "b \<equiv> BX_READ_16BIT_REG (src i) (core s)"
  shows "load_spec rd (\<lambda>v k. with_flags k (core s) (logic_flags (v AND b))) (TEST_EwGwM i) s"
  unfolding assms
  by (rule load_spec_intro, simp only: TEST_EwGwM_def with_core_apply laddr64_apply Let_def, simp, simp only: with_core_apply Let_def,
      simp add: with_flags_def flags_LOGIC)+

lemma logical16_test_mem_imm:
  fixes i :: bxInstruction_c and s :: bx_sys
  defines "rd \<equiv> read_virtual_word (instr_seg i) (BX_CPU_RESOLVE_ADDR i (core s))"
    and "a \<equiv> BX_READ_16BIT_REG (dst i) (core s)" and "b \<equiv> Iw i"
  shows "load_spec rd (\<lambda>v k. with_flags k (core s) (logic_flags (v AND b))) (TEST_EwIwM i) s"
  unfolding assms
  by (rule load_spec_intro, simp only: TEST_EwIwM_def with_core_apply laddr64_apply Let_def, simp, simp only: with_core_apply Let_def,
      simp add: with_flags_def flags_LOGIC)+

lemma logical16_not_mem:
  "rmw_spec (read_RMW_virtual_word (instr_seg i) (BX_CPU_RESOLVE_ADDR i (core s))) write_RMW_linear_word (\<lambda>v. NOT v) (\<lambda>v k. k = core s) (NOT_EwM i) s"
  by (rule rmw16.spec_last, simp only: NOT_EwM_def with_core_apply laddr64_apply Let_def, simp, simp only: Let_def, rule refl, rule refl)

section \<open>Faults\<close>

lemma logical16_mem_precise:
  "precise (XOR_EwGwM i)"  "precise (XOR_EwIwM i)"  "precise (XOR_GwEwM i)"  "precise (OR_EwGwM i)"  "precise (OR_EwIwM i)"
  "precise (OR_GwEwM i)"  "precise (AND_EwGwM i)"  "precise (AND_EwIwM i)"  "precise (AND_GwEwM i)"  "precise (TEST_EwGwM i)"
  "precise (TEST_EwIwM i)"  "precise (NOT_EwM i)"
  unfolding logical16_mem_defs Let_def by (intro precise_intros)+

end
