(* ===== verification/Logical32.thy ===== *)
theory Logical32
  imports MemOperand
begin

text \<open>
  The 32-bit logical handlers of \<^verbatim>\<open>cpu/logical32.cc\<close>, register and memory forms.
\<close>

section \<open>Register forms\<close>

definition XOR_GdEdR :: "bxInstruction_c \<Rightarrow> bx_cpu \<Rightarrow> bx_cpu" where
  "XOR_GdEdR i s =
    (let op1_32 = BX_READ_32BIT_REG (dst i) s;
         op2_32 = BX_READ_32BIT_REG (src i) s;
         op1_32 = op1_32 XOR op2_32;
         s = BX_WRITE_32BIT_REGZ (dst i) op1_32 s
     in upd_oszapc (SET_FLAGS_OSZAPC_LOGIC_32 op1_32) s)"

definition XOR_EdIdR :: "bxInstruction_c \<Rightarrow> bx_cpu \<Rightarrow> bx_cpu" where
  "XOR_EdIdR i s =
    (let op1_32 = BX_READ_32BIT_REG (dst i) s;
         op2_32 = Id i;
         op1_32 = op1_32 XOR op2_32;
         s = BX_WRITE_32BIT_REGZ (dst i) op1_32 s
     in upd_oszapc (SET_FLAGS_OSZAPC_LOGIC_32 op1_32) s)"

definition OR_GdEdR :: "bxInstruction_c \<Rightarrow> bx_cpu \<Rightarrow> bx_cpu" where
  "OR_GdEdR i s =
    (let op1_32 = BX_READ_32BIT_REG (dst i) s;
         op2_32 = BX_READ_32BIT_REG (src i) s;
         op1_32 = op1_32 OR op2_32;
         s = BX_WRITE_32BIT_REGZ (dst i) op1_32 s
     in upd_oszapc (SET_FLAGS_OSZAPC_LOGIC_32 op1_32) s)"

definition OR_EdIdR :: "bxInstruction_c \<Rightarrow> bx_cpu \<Rightarrow> bx_cpu" where
  "OR_EdIdR i s =
    (let op1_32 = BX_READ_32BIT_REG (dst i) s;
         op2_32 = Id i;
         op1_32 = op1_32 OR op2_32;
         s = BX_WRITE_32BIT_REGZ (dst i) op1_32 s
     in upd_oszapc (SET_FLAGS_OSZAPC_LOGIC_32 op1_32) s)"

definition AND_GdEdR :: "bxInstruction_c \<Rightarrow> bx_cpu \<Rightarrow> bx_cpu" where
  "AND_GdEdR i s =
    (let op1_32 = BX_READ_32BIT_REG (dst i) s;
         op2_32 = BX_READ_32BIT_REG (src i) s;
         op1_32 = op1_32 AND op2_32;
         s = BX_WRITE_32BIT_REGZ (dst i) op1_32 s
     in upd_oszapc (SET_FLAGS_OSZAPC_LOGIC_32 op1_32) s)"

definition AND_EdIdR :: "bxInstruction_c \<Rightarrow> bx_cpu \<Rightarrow> bx_cpu" where
  "AND_EdIdR i s =
    (let op1_32 = BX_READ_32BIT_REG (dst i) s;
         op2_32 = Id i;
         op1_32 = op1_32 AND op2_32;
         s = BX_WRITE_32BIT_REGZ (dst i) op1_32 s
     in upd_oszapc (SET_FLAGS_OSZAPC_LOGIC_32 op1_32) s)"

definition TEST_EdGdR :: "bxInstruction_c \<Rightarrow> bx_cpu \<Rightarrow> bx_cpu" where
  "TEST_EdGdR i s =
    (let op1_32 = BX_READ_32BIT_REG (dst i) s;
         op2_32 = BX_READ_32BIT_REG (src i) s;
         op1_32 = op1_32 AND op2_32
     in upd_oszapc (SET_FLAGS_OSZAPC_LOGIC_32 op1_32) s)"

definition TEST_EdIdR :: "bxInstruction_c \<Rightarrow> bx_cpu \<Rightarrow> bx_cpu" where
  "TEST_EdIdR i s =
    (let op1_32 = BX_READ_32BIT_REG (dst i) s;
         op2_32 = Id i;
         op1_32 = op1_32 AND op2_32
     in upd_oszapc (SET_FLAGS_OSZAPC_LOGIC_32 op1_32) s)"

definition NOT_EdR :: "bxInstruction_c \<Rightarrow> bx_cpu \<Rightarrow> bx_cpu" where
  "NOT_EdR i s =
    (let op1_32 = BX_READ_32BIT_REG (dst i) s;
         op1_32 = NOT op1_32
     in BX_WRITE_32BIT_REGZ (dst i) op1_32 s)"

section \<open>Memory forms\<close>

definition XOR_EdGdM :: "bxInstruction_c \<Rightarrow> unit sys_op" where
  "XOR_EdGdM i = with_core (\<lambda>c.
    let eaddr = BX_CPU_RESOLVE_ADDR i c in
    and_then (read_RMW_virtual_dword (instr_seg i) eaddr) (\<lambda>m.
    with_core (\<lambda>c.
      let op1_32 = m;
          op2_32 = BX_READ_32BIT_REG (src i) c;
          op1_32 = op1_32 XOR op2_32
      in and_then (write_RMW_linear_dword op1_32) (\<lambda>_. on_core (upd_oszapc (SET_FLAGS_OSZAPC_LOGIC_32 op1_32))))))"

definition XOR_EdIdM :: "bxInstruction_c \<Rightarrow> unit sys_op" where
  "XOR_EdIdM i = with_core (\<lambda>c.
    let eaddr = BX_CPU_RESOLVE_ADDR i c in
    and_then (read_RMW_virtual_dword (instr_seg i) eaddr) (\<lambda>m.
    with_core (\<lambda>c.
      let op1_32 = m;
          op2_32 = Id i;
          op1_32 = op1_32 XOR op2_32
      in and_then (write_RMW_linear_dword op1_32) (\<lambda>_. on_core (upd_oszapc (SET_FLAGS_OSZAPC_LOGIC_32 op1_32))))))"

definition XOR_GdEdM :: "bxInstruction_c \<Rightarrow> unit sys_op" where
  "XOR_GdEdM i = with_core (\<lambda>c.
    let eaddr = BX_CPU_RESOLVE_ADDR i c; op1_32 = BX_READ_32BIT_REG (dst i) c in
    and_then (read_virtual_dword (instr_seg i) eaddr) (\<lambda>m.
    let op2_32 = m;
        op1_32 = op1_32 XOR op2_32
    in on_core (\<lambda>c. upd_oszapc (SET_FLAGS_OSZAPC_LOGIC_32 op1_32) (BX_WRITE_32BIT_REGZ (dst i) op1_32 c))))"

definition OR_EdGdM :: "bxInstruction_c \<Rightarrow> unit sys_op" where
  "OR_EdGdM i = with_core (\<lambda>c.
    let eaddr = BX_CPU_RESOLVE_ADDR i c in
    and_then (read_RMW_virtual_dword (instr_seg i) eaddr) (\<lambda>m.
    with_core (\<lambda>c.
      let op1_32 = m;
          op2_32 = BX_READ_32BIT_REG (src i) c;
          op1_32 = op1_32 OR op2_32
      in and_then (write_RMW_linear_dword op1_32) (\<lambda>_. on_core (upd_oszapc (SET_FLAGS_OSZAPC_LOGIC_32 op1_32))))))"

definition OR_EdIdM :: "bxInstruction_c \<Rightarrow> unit sys_op" where
  "OR_EdIdM i = with_core (\<lambda>c.
    let eaddr = BX_CPU_RESOLVE_ADDR i c in
    and_then (read_RMW_virtual_dword (instr_seg i) eaddr) (\<lambda>m.
    with_core (\<lambda>c.
      let op1_32 = m;
          op2_32 = Id i;
          op1_32 = op1_32 OR op2_32
      in and_then (write_RMW_linear_dword op1_32) (\<lambda>_. on_core (upd_oszapc (SET_FLAGS_OSZAPC_LOGIC_32 op1_32))))))"

definition OR_GdEdM :: "bxInstruction_c \<Rightarrow> unit sys_op" where
  "OR_GdEdM i = with_core (\<lambda>c.
    let eaddr = BX_CPU_RESOLVE_ADDR i c; op1_32 = BX_READ_32BIT_REG (dst i) c in
    and_then (read_virtual_dword (instr_seg i) eaddr) (\<lambda>m.
    let op2_32 = m;
        op1_32 = op1_32 OR op2_32
    in on_core (\<lambda>c. upd_oszapc (SET_FLAGS_OSZAPC_LOGIC_32 op1_32) (BX_WRITE_32BIT_REGZ (dst i) op1_32 c))))"

definition AND_EdGdM :: "bxInstruction_c \<Rightarrow> unit sys_op" where
  "AND_EdGdM i = with_core (\<lambda>c.
    let eaddr = BX_CPU_RESOLVE_ADDR i c in
    and_then (read_RMW_virtual_dword (instr_seg i) eaddr) (\<lambda>m.
    with_core (\<lambda>c.
      let op1_32 = m;
          op2_32 = BX_READ_32BIT_REG (src i) c;
          op1_32 = op1_32 AND op2_32
      in and_then (write_RMW_linear_dword op1_32) (\<lambda>_. on_core (upd_oszapc (SET_FLAGS_OSZAPC_LOGIC_32 op1_32))))))"

definition AND_EdIdM :: "bxInstruction_c \<Rightarrow> unit sys_op" where
  "AND_EdIdM i = with_core (\<lambda>c.
    let eaddr = BX_CPU_RESOLVE_ADDR i c in
    and_then (read_RMW_virtual_dword (instr_seg i) eaddr) (\<lambda>m.
    with_core (\<lambda>c.
      let op1_32 = m;
          op2_32 = Id i;
          op1_32 = op1_32 AND op2_32
      in and_then (write_RMW_linear_dword op1_32) (\<lambda>_. on_core (upd_oszapc (SET_FLAGS_OSZAPC_LOGIC_32 op1_32))))))"

definition AND_GdEdM :: "bxInstruction_c \<Rightarrow> unit sys_op" where
  "AND_GdEdM i = with_core (\<lambda>c.
    let eaddr = BX_CPU_RESOLVE_ADDR i c; op1_32 = BX_READ_32BIT_REG (dst i) c in
    and_then (read_virtual_dword (instr_seg i) eaddr) (\<lambda>m.
    let op2_32 = m;
        op1_32 = op1_32 AND op2_32
    in on_core (\<lambda>c. upd_oszapc (SET_FLAGS_OSZAPC_LOGIC_32 op1_32) (BX_WRITE_32BIT_REGZ (dst i) op1_32 c))))"

definition TEST_EdGdM :: "bxInstruction_c \<Rightarrow> unit sys_op" where
  "TEST_EdGdM i = with_core (\<lambda>c.
    let eaddr = BX_CPU_RESOLVE_ADDR i c in
    and_then (read_virtual_dword (instr_seg i) eaddr) (\<lambda>m.
    with_core (\<lambda>c.
      let op1_32 = m;
          op2_32 = BX_READ_32BIT_REG (src i) c;
          op1_32 = op1_32 AND op2_32
      in on_core (upd_oszapc (SET_FLAGS_OSZAPC_LOGIC_32 op1_32)))))"

definition TEST_EdIdM :: "bxInstruction_c \<Rightarrow> unit sys_op" where
  "TEST_EdIdM i = with_core (\<lambda>c.
    let eaddr = BX_CPU_RESOLVE_ADDR i c in
    and_then (read_virtual_dword (instr_seg i) eaddr) (\<lambda>m.
    with_core (\<lambda>c.
      let op1_32 = m;
          op2_32 = Id i;
          op1_32 = op1_32 AND op2_32
      in on_core (upd_oszapc (SET_FLAGS_OSZAPC_LOGIC_32 op1_32)))))"

definition NOT_EdM :: "bxInstruction_c \<Rightarrow> unit sys_op" where
  "NOT_EdM i = with_core (\<lambda>c.
    let eaddr = BX_CPU_RESOLVE_ADDR i c in
    and_then (read_RMW_virtual_dword (instr_seg i) eaddr) (\<lambda>m.
    let op1_32 = m;
        op1_32 = NOT op1_32
    in write_RMW_linear_dword op1_32))"

section \<open>Results and flags\<close>

lemmas logical32_reg_defs = XOR_GdEdR_def XOR_EdIdR_def OR_GdEdR_def OR_EdIdR_def AND_GdEdR_def AND_EdIdR_def TEST_EdGdR_def TEST_EdIdR_def NOT_EdR_def

lemmas logical32_mem_defs = XOR_EdGdM_def XOR_EdIdM_def XOR_GdEdM_def OR_EdGdM_def OR_EdIdM_def OR_GdEdM_def AND_EdGdM_def AND_EdIdM_def AND_GdEdM_def TEST_EdGdM_def TEST_EdIdM_def NOT_EdM_def

lemma logical32_reg:
  fixes i :: bxInstruction_c and s :: bx_cpu
  defines "a \<equiv> BX_READ_32BIT_REG (dst i) s" and "b \<equiv> BX_READ_32BIT_REG (src i) s"
  shows "with_flags (XOR_GdEdR i s) (BX_WRITE_32BIT_REGZ (dst i) (a XOR b) s) (logic_flags (a XOR b))"
    "with_flags (OR_GdEdR i s) (BX_WRITE_32BIT_REGZ (dst i) (a OR b) s) (logic_flags (a OR b))"
    "with_flags (AND_GdEdR i s) (BX_WRITE_32BIT_REGZ (dst i) (a AND b) s) (logic_flags (a AND b))"
    "with_flags (TEST_EdGdR i s) (s) (logic_flags (a AND b))"
  unfolding assms logical32_reg_defs Let_def with_flags_def by (simp_all add: flags_LOGIC)

lemma logical32_imm:
  fixes i :: bxInstruction_c and s :: bx_cpu
  defines "a \<equiv> BX_READ_32BIT_REG (dst i) s" and "b \<equiv> Id i"
  shows "with_flags (XOR_EdIdR i s) (BX_WRITE_32BIT_REGZ (dst i) (a XOR b) s) (logic_flags (a XOR b))"
    "with_flags (OR_EdIdR i s) (BX_WRITE_32BIT_REGZ (dst i) (a OR b) s) (logic_flags (a OR b))"
    "with_flags (AND_EdIdR i s) (BX_WRITE_32BIT_REGZ (dst i) (a AND b) s) (logic_flags (a AND b))"
    "with_flags (TEST_EdIdR i s) (s) (logic_flags (a AND b))"
  unfolding assms logical32_reg_defs Let_def with_flags_def by (simp_all add: flags_LOGIC)

lemma logical32_mem_reg:
  fixes i :: bxInstruction_c and s :: bx_sys
  defines "rd \<equiv> read_RMW_virtual_dword (instr_seg i) (BX_CPU_RESOLVE_ADDR i (core s))"
    and "a \<equiv> BX_READ_32BIT_REG (dst i) (core s)" and "b \<equiv> BX_READ_32BIT_REG (src i) (core s)"
  shows "rmw_spec rd write_RMW_linear_dword (\<lambda>v. v XOR b) (\<lambda>v k. with_flags k (core s) (logic_flags (v XOR b))) (XOR_EdGdM i) s"
    "rmw_spec rd write_RMW_linear_dword (\<lambda>v. v OR b) (\<lambda>v k. with_flags k (core s) (logic_flags (v OR b))) (OR_EdGdM i) s"
    "rmw_spec rd write_RMW_linear_dword (\<lambda>v. v AND b) (\<lambda>v k. with_flags k (core s) (logic_flags (v AND b))) (AND_EdGdM i) s"
  unfolding assms
  by (rule rmw32.spec_intro, simp only: XOR_EdGdM_def OR_EdGdM_def AND_EdGdM_def with_core_apply laddr64_apply Let_def, simp, simp only: with_core_apply Let_def,
      simp, simp add: with_flags_def flags_LOGIC)+

lemma logical32_mem_imm:
  fixes i :: bxInstruction_c and s :: bx_sys
  defines "rd \<equiv> read_RMW_virtual_dword (instr_seg i) (BX_CPU_RESOLVE_ADDR i (core s))"
    and "a \<equiv> BX_READ_32BIT_REG (dst i) (core s)" and "b \<equiv> Id i"
  shows "rmw_spec rd write_RMW_linear_dword (\<lambda>v. v XOR b) (\<lambda>v k. with_flags k (core s) (logic_flags (v XOR b))) (XOR_EdIdM i) s"
    "rmw_spec rd write_RMW_linear_dword (\<lambda>v. v OR b) (\<lambda>v k. with_flags k (core s) (logic_flags (v OR b))) (OR_EdIdM i) s"
    "rmw_spec rd write_RMW_linear_dword (\<lambda>v. v AND b) (\<lambda>v k. with_flags k (core s) (logic_flags (v AND b))) (AND_EdIdM i) s"
  unfolding assms
  by (rule rmw32.spec_intro, simp only: XOR_EdIdM_def OR_EdIdM_def AND_EdIdM_def with_core_apply laddr64_apply Let_def, simp, simp only: with_core_apply Let_def,
      simp, simp add: with_flags_def flags_LOGIC)+

lemma logical32_reg_mem:
  fixes i :: bxInstruction_c and s :: bx_sys
  defines "rd \<equiv> read_virtual_dword (instr_seg i) (BX_CPU_RESOLVE_ADDR i (core s))"
    and "a \<equiv> BX_READ_32BIT_REG (dst i) (core s)" and "b \<equiv> 0 :: nat"
  shows "load_spec rd (\<lambda>v k. with_flags k (BX_WRITE_32BIT_REGZ (dst i) (a XOR v) (core s)) (logic_flags (a XOR v))) (XOR_GdEdM i) s"
    "load_spec rd (\<lambda>v k. with_flags k (BX_WRITE_32BIT_REGZ (dst i) (a OR v) (core s)) (logic_flags (a OR v))) (OR_GdEdM i) s"
    "load_spec rd (\<lambda>v k. with_flags k (BX_WRITE_32BIT_REGZ (dst i) (a AND v) (core s)) (logic_flags (a AND v))) (AND_GdEdM i) s"
  unfolding assms
  by (rule load_spec_intro, simp only: XOR_GdEdM_def OR_GdEdM_def AND_GdEdM_def with_core_apply laddr64_apply Let_def, simp, simp only: with_core_apply Let_def,
      simp add: with_flags_def flags_LOGIC)+

lemma logical32_test_mem:
  fixes i :: bxInstruction_c and s :: bx_sys
  defines "rd \<equiv> read_virtual_dword (instr_seg i) (BX_CPU_RESOLVE_ADDR i (core s))"
    and "a \<equiv> BX_READ_32BIT_REG (dst i) (core s)" and "b \<equiv> BX_READ_32BIT_REG (src i) (core s)"
  shows "load_spec rd (\<lambda>v k. with_flags k (core s) (logic_flags (v AND b))) (TEST_EdGdM i) s"
  unfolding assms
  by (rule load_spec_intro, simp only: TEST_EdGdM_def with_core_apply laddr64_apply Let_def, simp, simp only: with_core_apply Let_def,
      simp add: with_flags_def flags_LOGIC)+

lemma logical32_test_mem_imm:
  fixes i :: bxInstruction_c and s :: bx_sys
  defines "rd \<equiv> read_virtual_dword (instr_seg i) (BX_CPU_RESOLVE_ADDR i (core s))"
    and "a \<equiv> BX_READ_32BIT_REG (dst i) (core s)" and "b \<equiv> Id i"
  shows "load_spec rd (\<lambda>v k. with_flags k (core s) (logic_flags (v AND b))) (TEST_EdIdM i) s"
  unfolding assms
  by (rule load_spec_intro, simp only: TEST_EdIdM_def with_core_apply laddr64_apply Let_def, simp, simp only: with_core_apply Let_def,
      simp add: with_flags_def flags_LOGIC)+

lemma logical32_not_mem:
  "rmw_spec (read_RMW_virtual_dword (instr_seg i) (BX_CPU_RESOLVE_ADDR i (core s))) write_RMW_linear_dword (\<lambda>v. NOT v) (\<lambda>v k. k = core s) (NOT_EdM i) s"
  by (rule rmw32.spec_last, simp only: NOT_EdM_def with_core_apply laddr64_apply Let_def, simp, simp only: Let_def, rule refl, rule refl)

section \<open>Faults\<close>

lemma logical32_mem_precise:
  "precise (XOR_EdGdM i)"  "precise (XOR_EdIdM i)"  "precise (XOR_GdEdM i)"  "precise (OR_EdGdM i)"  "precise (OR_EdIdM i)"
  "precise (OR_GdEdM i)"  "precise (AND_EdGdM i)"  "precise (AND_EdIdM i)"  "precise (AND_GdEdM i)"  "precise (TEST_EdGdM i)"
  "precise (TEST_EdIdM i)"  "precise (NOT_EdM i)"
  unfolding logical32_mem_defs Let_def by (intro precise_intros)+

end
