(* ===== verification/Logical64.thy ===== *)
theory Logical64
  imports MemOperand
begin

text \<open>
  The 64-bit logical handlers of \<^verbatim>\<open>cpu/logical64.cc\<close>, register and memory forms.
\<close>

section \<open>Register forms\<close>

definition XOR_GqEqR :: "bxInstruction_c \<Rightarrow> bx_cpu \<Rightarrow> bx_cpu" where
  "XOR_GqEqR i s =
    (let op1_64 = BX_READ_64BIT_REG (dst i) s;
         op2_64 = BX_READ_64BIT_REG (src i) s;
         op1_64 = op1_64 XOR op2_64;
         s = BX_WRITE_64BIT_REG (dst i) op1_64 s
     in upd_oszapc (SET_FLAGS_OSZAPC_LOGIC_64 op1_64) s)"

definition XOR_EqIdR :: "bxInstruction_c \<Rightarrow> bx_cpu \<Rightarrow> bx_cpu" where
  "XOR_EqIdR i s =
    (let op1_64 = BX_READ_64BIT_REG (dst i) s;
         op2_64 = scast (Id i);
         op1_64 = op1_64 XOR op2_64;
         s = BX_WRITE_64BIT_REG (dst i) op1_64 s
     in upd_oszapc (SET_FLAGS_OSZAPC_LOGIC_64 op1_64) s)"

definition OR_GqEqR :: "bxInstruction_c \<Rightarrow> bx_cpu \<Rightarrow> bx_cpu" where
  "OR_GqEqR i s =
    (let op1_64 = BX_READ_64BIT_REG (dst i) s;
         op2_64 = BX_READ_64BIT_REG (src i) s;
         op1_64 = op1_64 OR op2_64;
         s = BX_WRITE_64BIT_REG (dst i) op1_64 s
     in upd_oszapc (SET_FLAGS_OSZAPC_LOGIC_64 op1_64) s)"

definition OR_EqIdR :: "bxInstruction_c \<Rightarrow> bx_cpu \<Rightarrow> bx_cpu" where
  "OR_EqIdR i s =
    (let op1_64 = BX_READ_64BIT_REG (dst i) s;
         op2_64 = scast (Id i);
         op1_64 = op1_64 OR op2_64;
         s = BX_WRITE_64BIT_REG (dst i) op1_64 s
     in upd_oszapc (SET_FLAGS_OSZAPC_LOGIC_64 op1_64) s)"

definition AND_GqEqR :: "bxInstruction_c \<Rightarrow> bx_cpu \<Rightarrow> bx_cpu" where
  "AND_GqEqR i s =
    (let op1_64 = BX_READ_64BIT_REG (dst i) s;
         op2_64 = BX_READ_64BIT_REG (src i) s;
         op1_64 = op1_64 AND op2_64;
         s = BX_WRITE_64BIT_REG (dst i) op1_64 s
     in upd_oszapc (SET_FLAGS_OSZAPC_LOGIC_64 op1_64) s)"

definition AND_EqIdR :: "bxInstruction_c \<Rightarrow> bx_cpu \<Rightarrow> bx_cpu" where
  "AND_EqIdR i s =
    (let op1_64 = BX_READ_64BIT_REG (dst i) s;
         op2_64 = scast (Id i);
         op1_64 = op1_64 AND op2_64;
         s = BX_WRITE_64BIT_REG (dst i) op1_64 s
     in upd_oszapc (SET_FLAGS_OSZAPC_LOGIC_64 op1_64) s)"

definition TEST_EqGqR :: "bxInstruction_c \<Rightarrow> bx_cpu \<Rightarrow> bx_cpu" where
  "TEST_EqGqR i s =
    (let op1_64 = BX_READ_64BIT_REG (dst i) s;
         op2_64 = BX_READ_64BIT_REG (src i) s;
         op1_64 = op1_64 AND op2_64
     in upd_oszapc (SET_FLAGS_OSZAPC_LOGIC_64 op1_64) s)"

definition TEST_EqIdR :: "bxInstruction_c \<Rightarrow> bx_cpu \<Rightarrow> bx_cpu" where
  "TEST_EqIdR i s =
    (let op1_64 = BX_READ_64BIT_REG (dst i) s;
         op2_64 = scast (Id i);
         op1_64 = op1_64 AND op2_64
     in upd_oszapc (SET_FLAGS_OSZAPC_LOGIC_64 op1_64) s)"

definition NOT_EqR :: "bxInstruction_c \<Rightarrow> bx_cpu \<Rightarrow> bx_cpu" where
  "NOT_EqR i s =
    (let op1_64 = BX_READ_64BIT_REG (dst i) s;
         op1_64 = NOT op1_64
     in BX_WRITE_64BIT_REG (dst i) op1_64 s)"

section \<open>Memory forms\<close>

definition XOR_EqGqM :: "bxInstruction_c \<Rightarrow> unit sys_op" where
  "XOR_EqGqM i = with_core (\<lambda>c.
    let eaddr = BX_CPU_RESOLVE_ADDR_64 i c in
    laddr64 (instr_seg i) eaddr (\<lambda>laddr.
    and_then (read_RMW_linear_qword (instr_seg i) laddr) (\<lambda>m.
    with_core (\<lambda>c.
      let op1_64 = m;
          op2_64 = BX_READ_64BIT_REG (src i) c;
          op1_64 = op1_64 XOR op2_64
      in and_then (write_RMW_linear_qword op1_64) (\<lambda>_. on_core (upd_oszapc (SET_FLAGS_OSZAPC_LOGIC_64 op1_64)))))))"

definition XOR_EqIdM :: "bxInstruction_c \<Rightarrow> unit sys_op" where
  "XOR_EqIdM i = with_core (\<lambda>c.
    let eaddr = BX_CPU_RESOLVE_ADDR_64 i c in
    laddr64 (instr_seg i) eaddr (\<lambda>laddr.
    and_then (read_RMW_linear_qword (instr_seg i) laddr) (\<lambda>m.
    with_core (\<lambda>c.
      let op1_64 = m;
          op2_64 = scast (Id i);
          op1_64 = op1_64 XOR op2_64
      in and_then (write_RMW_linear_qword op1_64) (\<lambda>_. on_core (upd_oszapc (SET_FLAGS_OSZAPC_LOGIC_64 op1_64)))))))"

definition XOR_GqEqM :: "bxInstruction_c \<Rightarrow> unit sys_op" where
  "XOR_GqEqM i = with_core (\<lambda>c.
    let eaddr = BX_CPU_RESOLVE_ADDR_64 i c; op1_64 = BX_READ_64BIT_REG (dst i) c in
    laddr64 (instr_seg i) eaddr (\<lambda>laddr.
    and_then (read_linear_qword (instr_seg i) laddr) (\<lambda>m.
    let op2_64 = m;
        op1_64 = op1_64 XOR op2_64
    in on_core (\<lambda>c. upd_oszapc (SET_FLAGS_OSZAPC_LOGIC_64 op1_64) (BX_WRITE_64BIT_REG (dst i) op1_64 c)))))"

definition OR_EqGqM :: "bxInstruction_c \<Rightarrow> unit sys_op" where
  "OR_EqGqM i = with_core (\<lambda>c.
    let eaddr = BX_CPU_RESOLVE_ADDR_64 i c in
    laddr64 (instr_seg i) eaddr (\<lambda>laddr.
    and_then (read_RMW_linear_qword (instr_seg i) laddr) (\<lambda>m.
    with_core (\<lambda>c.
      let op1_64 = m;
          op2_64 = BX_READ_64BIT_REG (src i) c;
          op1_64 = op1_64 OR op2_64
      in and_then (write_RMW_linear_qword op1_64) (\<lambda>_. on_core (upd_oszapc (SET_FLAGS_OSZAPC_LOGIC_64 op1_64)))))))"

definition OR_EqIdM :: "bxInstruction_c \<Rightarrow> unit sys_op" where
  "OR_EqIdM i = with_core (\<lambda>c.
    let eaddr = BX_CPU_RESOLVE_ADDR_64 i c in
    laddr64 (instr_seg i) eaddr (\<lambda>laddr.
    and_then (read_RMW_linear_qword (instr_seg i) laddr) (\<lambda>m.
    with_core (\<lambda>c.
      let op1_64 = m;
          op2_64 = scast (Id i);
          op1_64 = op1_64 OR op2_64
      in and_then (write_RMW_linear_qword op1_64) (\<lambda>_. on_core (upd_oszapc (SET_FLAGS_OSZAPC_LOGIC_64 op1_64)))))))"

definition OR_GqEqM :: "bxInstruction_c \<Rightarrow> unit sys_op" where
  "OR_GqEqM i = with_core (\<lambda>c.
    let eaddr = BX_CPU_RESOLVE_ADDR_64 i c; op1_64 = BX_READ_64BIT_REG (dst i) c in
    laddr64 (instr_seg i) eaddr (\<lambda>laddr.
    and_then (read_linear_qword (instr_seg i) laddr) (\<lambda>m.
    let op2_64 = m;
        op1_64 = op1_64 OR op2_64
    in on_core (\<lambda>c. upd_oszapc (SET_FLAGS_OSZAPC_LOGIC_64 op1_64) (BX_WRITE_64BIT_REG (dst i) op1_64 c)))))"

definition AND_EqGqM :: "bxInstruction_c \<Rightarrow> unit sys_op" where
  "AND_EqGqM i = with_core (\<lambda>c.
    let eaddr = BX_CPU_RESOLVE_ADDR_64 i c in
    laddr64 (instr_seg i) eaddr (\<lambda>laddr.
    and_then (read_RMW_linear_qword (instr_seg i) laddr) (\<lambda>m.
    with_core (\<lambda>c.
      let op1_64 = m;
          op2_64 = BX_READ_64BIT_REG (src i) c;
          op1_64 = op1_64 AND op2_64
      in and_then (write_RMW_linear_qword op1_64) (\<lambda>_. on_core (upd_oszapc (SET_FLAGS_OSZAPC_LOGIC_64 op1_64)))))))"

definition AND_EqIdM :: "bxInstruction_c \<Rightarrow> unit sys_op" where
  "AND_EqIdM i = with_core (\<lambda>c.
    let eaddr = BX_CPU_RESOLVE_ADDR_64 i c in
    laddr64 (instr_seg i) eaddr (\<lambda>laddr.
    and_then (read_RMW_linear_qword (instr_seg i) laddr) (\<lambda>m.
    with_core (\<lambda>c.
      let op1_64 = m;
          op2_64 = scast (Id i);
          op1_64 = op1_64 AND op2_64
      in and_then (write_RMW_linear_qword op1_64) (\<lambda>_. on_core (upd_oszapc (SET_FLAGS_OSZAPC_LOGIC_64 op1_64)))))))"

definition AND_GqEqM :: "bxInstruction_c \<Rightarrow> unit sys_op" where
  "AND_GqEqM i = with_core (\<lambda>c.
    let eaddr = BX_CPU_RESOLVE_ADDR_64 i c; op1_64 = BX_READ_64BIT_REG (dst i) c in
    laddr64 (instr_seg i) eaddr (\<lambda>laddr.
    and_then (read_linear_qword (instr_seg i) laddr) (\<lambda>m.
    let op2_64 = m;
        op1_64 = op1_64 AND op2_64
    in on_core (\<lambda>c. upd_oszapc (SET_FLAGS_OSZAPC_LOGIC_64 op1_64) (BX_WRITE_64BIT_REG (dst i) op1_64 c)))))"

definition TEST_EqGqM :: "bxInstruction_c \<Rightarrow> unit sys_op" where
  "TEST_EqGqM i = with_core (\<lambda>c.
    let eaddr = BX_CPU_RESOLVE_ADDR_64 i c in
    laddr64 (instr_seg i) eaddr (\<lambda>laddr.
    and_then (read_linear_qword (instr_seg i) laddr) (\<lambda>m.
    with_core (\<lambda>c.
      let op1_64 = m;
          op2_64 = BX_READ_64BIT_REG (src i) c;
          op1_64 = op1_64 AND op2_64
      in on_core (upd_oszapc (SET_FLAGS_OSZAPC_LOGIC_64 op1_64))))))"

definition TEST_EqIdM :: "bxInstruction_c \<Rightarrow> unit sys_op" where
  "TEST_EqIdM i = with_core (\<lambda>c.
    let eaddr = BX_CPU_RESOLVE_ADDR_64 i c in
    laddr64 (instr_seg i) eaddr (\<lambda>laddr.
    and_then (read_linear_qword (instr_seg i) laddr) (\<lambda>m.
    with_core (\<lambda>c.
      let op1_64 = m;
          op2_64 = scast (Id i);
          op1_64 = op1_64 AND op2_64
      in on_core (upd_oszapc (SET_FLAGS_OSZAPC_LOGIC_64 op1_64))))))"

definition NOT_EqM :: "bxInstruction_c \<Rightarrow> unit sys_op" where
  "NOT_EqM i = with_core (\<lambda>c.
    let eaddr = BX_CPU_RESOLVE_ADDR_64 i c in
    laddr64 (instr_seg i) eaddr (\<lambda>laddr.
    and_then (read_RMW_linear_qword (instr_seg i) laddr) (\<lambda>m.
    let op1_64 = m;
        op1_64 = NOT op1_64
    in write_RMW_linear_qword op1_64)))"

section \<open>Results and flags\<close>

lemmas logical64_reg_defs = XOR_GqEqR_def XOR_EqIdR_def OR_GqEqR_def OR_EqIdR_def AND_GqEqR_def AND_EqIdR_def TEST_EqGqR_def TEST_EqIdR_def NOT_EqR_def

lemmas logical64_mem_defs = XOR_EqGqM_def XOR_EqIdM_def XOR_GqEqM_def OR_EqGqM_def OR_EqIdM_def OR_GqEqM_def AND_EqGqM_def AND_EqIdM_def AND_GqEqM_def TEST_EqGqM_def TEST_EqIdM_def NOT_EqM_def

lemma logical64_reg:
  fixes i :: bxInstruction_c and s :: bx_cpu
  defines "a \<equiv> BX_READ_64BIT_REG (dst i) s" and "b \<equiv> BX_READ_64BIT_REG (src i) s"
  shows "with_flags (XOR_GqEqR i s) (BX_WRITE_64BIT_REG (dst i) (a XOR b) s) (logic_flags (a XOR b))"
    "with_flags (OR_GqEqR i s) (BX_WRITE_64BIT_REG (dst i) (a OR b) s) (logic_flags (a OR b))"
    "with_flags (AND_GqEqR i s) (BX_WRITE_64BIT_REG (dst i) (a AND b) s) (logic_flags (a AND b))"
    "with_flags (TEST_EqGqR i s) (s) (logic_flags (a AND b))"
  unfolding assms logical64_reg_defs Let_def with_flags_def by (simp_all add: flags_LOGIC)

lemma logical64_imm:
  fixes i :: bxInstruction_c and s :: bx_cpu
  defines "a \<equiv> BX_READ_64BIT_REG (dst i) s" and "b \<equiv> scast (Id i)"
  shows "with_flags (XOR_EqIdR i s) (BX_WRITE_64BIT_REG (dst i) (a XOR b) s) (logic_flags (a XOR b))"
    "with_flags (OR_EqIdR i s) (BX_WRITE_64BIT_REG (dst i) (a OR b) s) (logic_flags (a OR b))"
    "with_flags (AND_EqIdR i s) (BX_WRITE_64BIT_REG (dst i) (a AND b) s) (logic_flags (a AND b))"
    "with_flags (TEST_EqIdR i s) (s) (logic_flags (a AND b))"
  unfolding assms logical64_reg_defs Let_def with_flags_def by (simp_all add: flags_LOGIC)

lemma logical64_mem_reg:
  fixes i :: bxInstruction_c and s :: bx_sys
  defines "rd \<equiv> read_RMW_linear_qword (instr_seg i) (get_laddr64 (instr_seg i) (BX_CPU_RESOLVE_ADDR_64 i (core s)) s)"
    and "a \<equiv> BX_READ_64BIT_REG (dst i) (core s)" and "b \<equiv> BX_READ_64BIT_REG (src i) (core s)"
  shows "rmw_spec rd write_RMW_linear_qword (\<lambda>v. v XOR b) (\<lambda>v k. with_flags k (core s) (logic_flags (v XOR b))) (XOR_EqGqM i) s"
    "rmw_spec rd write_RMW_linear_qword (\<lambda>v. v OR b) (\<lambda>v k. with_flags k (core s) (logic_flags (v OR b))) (OR_EqGqM i) s"
    "rmw_spec rd write_RMW_linear_qword (\<lambda>v. v AND b) (\<lambda>v k. with_flags k (core s) (logic_flags (v AND b))) (AND_EqGqM i) s"
  unfolding assms
  by (rule rmw64.spec_intro, simp only: XOR_EqGqM_def OR_EqGqM_def AND_EqGqM_def with_core_apply laddr64_apply Let_def, simp, simp only: with_core_apply Let_def,
      simp, simp add: with_flags_def flags_LOGIC)+

lemma logical64_mem_imm:
  fixes i :: bxInstruction_c and s :: bx_sys
  defines "rd \<equiv> read_RMW_linear_qword (instr_seg i) (get_laddr64 (instr_seg i) (BX_CPU_RESOLVE_ADDR_64 i (core s)) s)"
    and "a \<equiv> BX_READ_64BIT_REG (dst i) (core s)" and "b \<equiv> scast (Id i)"
  shows "rmw_spec rd write_RMW_linear_qword (\<lambda>v. v XOR b) (\<lambda>v k. with_flags k (core s) (logic_flags (v XOR b))) (XOR_EqIdM i) s"
    "rmw_spec rd write_RMW_linear_qword (\<lambda>v. v OR b) (\<lambda>v k. with_flags k (core s) (logic_flags (v OR b))) (OR_EqIdM i) s"
    "rmw_spec rd write_RMW_linear_qword (\<lambda>v. v AND b) (\<lambda>v k. with_flags k (core s) (logic_flags (v AND b))) (AND_EqIdM i) s"
  unfolding assms
  by (rule rmw64.spec_intro, simp only: XOR_EqIdM_def OR_EqIdM_def AND_EqIdM_def with_core_apply laddr64_apply Let_def, simp, simp only: with_core_apply Let_def,
      simp, simp add: with_flags_def flags_LOGIC)+

lemma logical64_reg_mem:
  fixes i :: bxInstruction_c and s :: bx_sys
  defines "rd \<equiv> read_linear_qword (instr_seg i) (get_laddr64 (instr_seg i) (BX_CPU_RESOLVE_ADDR_64 i (core s)) s)"
    and "a \<equiv> BX_READ_64BIT_REG (dst i) (core s)" and "b \<equiv> 0 :: nat"
  shows "load_spec rd (\<lambda>v k. with_flags k (BX_WRITE_64BIT_REG (dst i) (a XOR v) (core s)) (logic_flags (a XOR v))) (XOR_GqEqM i) s"
    "load_spec rd (\<lambda>v k. with_flags k (BX_WRITE_64BIT_REG (dst i) (a OR v) (core s)) (logic_flags (a OR v))) (OR_GqEqM i) s"
    "load_spec rd (\<lambda>v k. with_flags k (BX_WRITE_64BIT_REG (dst i) (a AND v) (core s)) (logic_flags (a AND v))) (AND_GqEqM i) s"
  unfolding assms
  by (rule load_spec_intro, simp only: XOR_GqEqM_def OR_GqEqM_def AND_GqEqM_def with_core_apply laddr64_apply Let_def, simp, simp only: with_core_apply Let_def,
      simp add: with_flags_def flags_LOGIC)+

lemma logical64_test_mem:
  fixes i :: bxInstruction_c and s :: bx_sys
  defines "rd \<equiv> read_linear_qword (instr_seg i) (get_laddr64 (instr_seg i) (BX_CPU_RESOLVE_ADDR_64 i (core s)) s)"
    and "a \<equiv> BX_READ_64BIT_REG (dst i) (core s)" and "b \<equiv> BX_READ_64BIT_REG (src i) (core s)"
  shows "load_spec rd (\<lambda>v k. with_flags k (core s) (logic_flags (v AND b))) (TEST_EqGqM i) s"
  unfolding assms
  by (rule load_spec_intro, simp only: TEST_EqGqM_def with_core_apply laddr64_apply Let_def, simp, simp only: with_core_apply Let_def,
      simp add: with_flags_def flags_LOGIC)+

lemma logical64_test_mem_imm:
  fixes i :: bxInstruction_c and s :: bx_sys
  defines "rd \<equiv> read_linear_qword (instr_seg i) (get_laddr64 (instr_seg i) (BX_CPU_RESOLVE_ADDR_64 i (core s)) s)"
    and "a \<equiv> BX_READ_64BIT_REG (dst i) (core s)" and "b \<equiv> scast (Id i)"
  shows "load_spec rd (\<lambda>v k. with_flags k (core s) (logic_flags (v AND b))) (TEST_EqIdM i) s"
  unfolding assms
  by (rule load_spec_intro, simp only: TEST_EqIdM_def with_core_apply laddr64_apply Let_def, simp, simp only: with_core_apply Let_def,
      simp add: with_flags_def flags_LOGIC)+

lemma logical64_not_mem:
  "rmw_spec (read_RMW_linear_qword (instr_seg i) (get_laddr64 (instr_seg i) (BX_CPU_RESOLVE_ADDR_64 i (core s)) s)) write_RMW_linear_qword (\<lambda>v. NOT v) (\<lambda>v k. k = core s) (NOT_EqM i) s"
  by (rule rmw64.spec_last, simp only: NOT_EqM_def with_core_apply laddr64_apply Let_def, simp, simp only: Let_def, rule refl, rule refl)

section \<open>Faults\<close>

lemma logical64_mem_precise:
  "precise (XOR_EqGqM i)"  "precise (XOR_EqIdM i)"  "precise (XOR_GqEqM i)"  "precise (OR_EqGqM i)"  "precise (OR_EqIdM i)"
  "precise (OR_GqEqM i)"  "precise (AND_EqGqM i)"  "precise (AND_EqIdM i)"  "precise (AND_GqEqM i)"  "precise (TEST_EqGqM i)"
  "precise (TEST_EqIdM i)"  "precise (NOT_EqM i)"
  unfolding logical64_mem_defs Let_def by (intro precise_intros)+

end
