(* ===== verification/ScalarArith.thy ===== *)
theory ScalarArith
  imports LazyFlags
begin

text \<open>
  The scalar helper functions of \<^verbatim>\<open>cpu/scalar_arith.h\<close>: parity, trailing and leading zero counts, population
  counts, bit-field extraction and rotations. Where the header chooses between a compiler builtin and
  portable C, the portable C is translated. The lemmas compare each routine with its reference
  meaning: the zero counts with the position of the lowest and highest set bit, the folding
  population counts with the number of set bits.
\<close>

section \<open>Parity and zero counts\<close>

definition parity_byte :: "Bit8u \<Rightarrow> nat" where
  "parity_byte val_8 = unat (drop_bit (unat ((val_8 XOR drop_bit 4 val_8) AND 0xF)) (0x9669 :: Bit32u) AND 1)"

text \<open>One step of the halving search: skip \<open>k\<close> low bits when the mask finds no set bit in them.\<close>

definition tz_step :: "nat \<Rightarrow> ('a::len) word \<Rightarrow> nat \<times> 'a word \<Rightarrow> nat \<times> 'a word" where
  "tz_step k m p = (if snd p AND m = 0 then (fst p + k, drop_bit k (snd p)) else p)"

definition lz_step :: "nat \<Rightarrow> ('a::len) word \<Rightarrow> nat \<times> 'a word \<Rightarrow> nat \<times> 'a word" where
  "lz_step k m p = (if snd p AND m = 0 then (fst p + k, push_bit k (snd p)) else p)"

definition tzcntw :: "Bit16u \<Rightarrow> nat" where
  "tzcntw val_16 =
    (if val_16 = 0 then 16 else
      (let p = tz_step 8 0xff (0, val_16) in
      (let p = tz_step 4 0xf p in
      (let p = tz_step 2 0x3 p in
      (let count = fst p in if snd p AND 0x1 = 0 then count + 1 else count)))))"

definition lzcntw :: "Bit16u \<Rightarrow> nat" where
  "lzcntw val_16 =
    (if val_16 = 0 then 16 else
      (let p = lz_step 8 0xff00 (0, val_16) in
      (let p = lz_step 4 0xf000 p in
      (let p = lz_step 2 0xc000 p in
      (let count = fst p in if snd p AND 0x8000 = 0 then count + 1 else count)))))"

definition most_significant_bitw :: "Bit16u \<Rightarrow> Bit32u" where
  "most_significant_bitw val_16 = 15 - of_nat (lzcntw val_16)"

definition tzcntd :: "Bit32u \<Rightarrow> nat" where
  "tzcntd val_32 =
    (if val_32 = 0 then 32 else
      (let p = tz_step 16 0xffff (0, val_32) in
      (let p = tz_step 8 0xff p in
      (let p = tz_step 4 0xf p in
      (let p = tz_step 2 0x3 p in
      (let count = fst p in if snd p AND 0x1 = 0 then count + 1 else count))))))"

definition lzcntd :: "Bit32u \<Rightarrow> nat" where
  "lzcntd val_32 =
    (if val_32 = 0 then 32 else
      (let p = lz_step 16 0xffff0000 (0, val_32) in
      (let p = lz_step 8 0xff000000 p in
      (let p = lz_step 4 0xf0000000 p in
      (let p = lz_step 2 0xc0000000 p in
      (let count = fst p in if snd p AND 0x80000000 = 0 then count + 1 else count))))))"

definition most_significant_bitd :: "Bit32u \<Rightarrow> Bit32u" where
  "most_significant_bitd val_32 = 31 - of_nat (lzcntd val_32)"

definition tzcntq :: "Bit64u \<Rightarrow> nat" where
  "tzcntq val_64 =
    (if val_64 = 0 then 64 else
      (let p = tz_step 32 0xffffffff (0, val_64) in
      (let p = tz_step 16 0xffff p in
      (let p = tz_step 8 0xff p in
      (let p = tz_step 4 0xf p in
      (let p = tz_step 2 0x3 p in
      (let count = fst p in if snd p AND 0x1 = 0 then count + 1 else count)))))))"

definition lzcntq :: "Bit64u \<Rightarrow> nat" where
  "lzcntq val_64 =
    (if val_64 = 0 then 64 else
      (let p = lz_step 32 0xffffffff00000000 (0, val_64) in
      (let p = lz_step 16 0xffff000000000000 p in
      (let p = lz_step 8 0xff00000000000000 p in
      (let p = lz_step 4 0xf000000000000000 p in
      (let p = lz_step 2 0xc000000000000000 p in
      (let count = fst p in if snd p AND 0x8000000000000000 = 0 then count + 1 else count)))))))"

definition most_significant_bitq :: "Bit64u \<Rightarrow> Bit32u" where
  "most_significant_bitq val_64 = 63 - of_nat (lzcntq val_64)"

section \<open>Population counts\<close>

text \<open>The folding step of every population count: add the even and the odd fields of width \<open>k\<close>.\<close>

definition pop_fold :: "nat \<Rightarrow> ('a::len) word \<Rightarrow> 'a word \<Rightarrow> 'a word" where
  "pop_fold k m v = (drop_bit k v AND m) + (v AND m)"

definition popcntb :: "Bit8u \<Rightarrow> nat" where
  "popcntb val_8 =
    (let val_8 = pop_fold 1 0x55 val_8;
         val_8 = pop_fold 2 0x33 val_8;
         val_8 = pop_fold 4 0x0f val_8
     in unat val_8)"

definition popcntw :: "Bit16u \<Rightarrow> nat" where
  "popcntw val_16 =
    (let val_16 = pop_fold 1 0x5555 val_16;
         val_16 = pop_fold 2 0x3333 val_16;
         val_16 = pop_fold 4 0x0f0f val_16;
         val_16 = pop_fold 8 0x00ff val_16
     in unat val_16)"

definition popcntd :: "Bit32u \<Rightarrow> nat" where
  "popcntd val_32 =
    (let val_32 = pop_fold 1 0x55555555 val_32;
         val_32 = pop_fold 2 0x33333333 val_32;
         val_32 = pop_fold 4 0x0f0f0f0f val_32;
         val_32 = pop_fold 8 0x00ff00ff val_32;
         val_32 = pop_fold 16 0x0000ffff val_32
     in unat val_32)"

definition popcntq :: "Bit64u \<Rightarrow> nat" where
  "popcntq val_64 =
    (let val_64 = pop_fold 1 0x5555555555555555 val_64;
         val_64 = pop_fold 2 0x3333333333333333 val_64;
         val_64 = pop_fold 4 0x0f0f0f0f0f0f0f0f val_64;
         val_64 = pop_fold 8 0x00ff00ff00ff00ff val_64;
         val_64 = pop_fold 16 0x0000ffff0000ffff val_64;
         val_64 = pop_fold 32 0x00000000ffffffff val_64
     in unat val_64)"

section \<open>Bit-field extraction and rotation\<close>

definition bextrd :: "Bit32u \<Rightarrow> nat \<Rightarrow> nat \<Rightarrow> Bit32u" where
  "bextrd val_32 start len =
    (if start < 32 \<and> 0 < len then
       (let result = drop_bit start val_32
        in if len < 32 then result AND (push_bit len 1 - 1) else result)
     else 0)"

definition bextrq :: "Bit64u \<Rightarrow> nat \<Rightarrow> nat \<Rightarrow> Bit64u" where
  "bextrq val_64 start len =
    (if start < 64 \<and> 0 < len then
       (let result = drop_bit start val_64
        in if len < 64 then result AND (push_bit len 1 - 1) else result)
     else 0)"

definition rol8 :: "Bit8u \<Rightarrow> nat \<Rightarrow> Bit8u" where
  "rol8 v8 count = push_bit count v8 OR drop_bit (8 - count) v8"

definition ror8 :: "Bit8u \<Rightarrow> nat \<Rightarrow> Bit8u" where
  "ror8 v8 count = drop_bit count v8 OR push_bit (8 - count) v8"

definition rol16 :: "Bit16u \<Rightarrow> nat \<Rightarrow> Bit16u" where
  "rol16 v16 count = push_bit count v16 OR drop_bit (16 - count) v16"

definition ror16 :: "Bit16u \<Rightarrow> nat \<Rightarrow> Bit16u" where
  "ror16 v16 count = drop_bit count v16 OR push_bit (16 - count) v16"

definition rol32 :: "Bit32u \<Rightarrow> nat \<Rightarrow> Bit32u" where
  "rol32 v32 count = push_bit count v32 OR drop_bit (32 - count) v32"

definition ror32 :: "Bit32u \<Rightarrow> nat \<Rightarrow> Bit32u" where
  "ror32 v32 count = drop_bit count v32 OR push_bit (32 - count) v32"

definition rol64 :: "Bit64u \<Rightarrow> nat \<Rightarrow> Bit64u" where
  "rol64 v64 count = push_bit count v64 OR drop_bit (64 - count) v64"

definition ror64 :: "Bit64u \<Rightarrow> nat \<Rightarrow> Bit64u" where
  "ror64 v64 count = drop_bit count v64 OR push_bit (64 - count) v64"

section \<open>The zero counts find the outermost set bits\<close>

definition tz_inv :: "('a::len) word \<Rightarrow> nat \<Rightarrow> nat \<times> 'a word \<Rightarrow> bool" where
  "tz_inv v b p \<longleftrightarrow> (\<forall>i<fst p. \<not> bit v i) \<and> snd p = drop_bit (fst p) v \<and> (\<exists>j<b. bit (snd p) j)"

definition lz_inv :: "('a::len) word \<Rightarrow> nat \<Rightarrow> nat \<times> 'a word \<Rightarrow> bool" where
  "lz_inv v b p \<longleftrightarrow>
    (\<forall>i. LENGTH('a) \<le> i + fst p \<longrightarrow> \<not> bit v i) \<and> snd p = push_bit (fst p) v \<and>
    (\<exists>j. LENGTH('a) \<le> j + b \<and> bit (snd p) j)"

lemma and_mask_zero_iff: "(v :: ('a::len) word) AND mask k = 0 \<longleftrightarrow> (\<forall>i<k. \<not> bit v i)"
  by (auto simp: bit_eq_iff bit_and_iff bit_mask_iff dest: bit_imp_le_length)

lemma and_high_mask_zero_iff:
  assumes "k \<le> LENGTH('a)"
  shows "(v :: ('a::len) word) AND push_bit (LENGTH('a) - k) (mask k) = 0 \<longleftrightarrow>
    (\<forall>i. LENGTH('a) \<le> i + k \<longrightarrow> \<not> bit v i)"
proof -
  have "bit (v AND push_bit (LENGTH('a) - k) (mask k)) i \<longleftrightarrow> LENGTH('a) \<le> i + k \<and> bit v i" for i
    using assms by (auto simp: bit_and_iff bit_mask_iff bit_push_bit_iff dest: bit_imp_le_length)

  then show ?thesis by (auto simp: bit_eq_iff dest: bit_imp_le_length)
qed

lemma tz_step_inv:
  assumes "tz_inv v (2 * k) p" "m = mask k"
  shows "tz_inv v k (tz_step k m p)"
proof (cases "snd p AND mask k = 0")
  case True
  then have none: "\<forall>i<k. \<not> bit (snd p) i" by (simp add: and_mask_zero_iff)
  from assms(1) obtain j where j: "j < 2 * k" "bit (snd p) j" by (auto simp: tz_inv_def)
  with none have "k \<le> j" by (meson not_le)
  have "\<not> bit v i" if "i < fst p + k" for i
  proof (cases "i < fst p")
    case True then show ?thesis using assms(1) by (simp add: tz_inv_def)
  next
    case False
    then show ?thesis using none[rule_format, of "i - fst p"] that assms(1)
      by (simp add: tz_inv_def bit_drop_bit_eq)
  qed
  moreover have "bit (drop_bit k (snd p)) (j - k)" using j(2) \<open>k \<le> j\<close> by (simp add: bit_drop_bit_eq)
  moreover have "j - k < k" using j(1) \<open>k \<le> j\<close> by simp
  ultimately show ?thesis using True assms by (auto simp: tz_inv_def tz_step_def add.commute)
next
  case False
  then obtain i where "i < k" "bit (snd p) i" by (auto simp: and_mask_zero_iff)
  then show ?thesis using False assms by (auto simp: tz_inv_def tz_step_def)
qed

lemma lz_step_inv:
  assumes "lz_inv v (2 * k) p" "m = push_bit (LENGTH('a) - k) (mask k)" "k \<le> LENGTH('a)"
  shows "lz_inv (v :: ('a::len) word) k (lz_step k m p)"
proof (cases "snd p AND m = 0")
  case True
  then have none: "\<forall>i. LENGTH('a) \<le> i + k \<longrightarrow> \<not> bit (snd p) i"
    using assms(2,3) by (simp add: and_high_mask_zero_iff)
  from assms(1) obtain j where j: "LENGTH('a) \<le> j + 2 * k" "bit (snd p) j" by (auto simp: lz_inv_def)
  with none have "j + k < LENGTH('a)" by (meson not_le)
  have sp: "snd p = push_bit (fst p) v" using assms(1) by (simp add: lz_inv_def)
  have "\<not> bit v i" if "LENGTH('a) \<le> i + (fst p + k)" for i
  proof (cases "LENGTH('a) \<le> i + fst p")
    case True then show ?thesis using assms(1) by (simp add: lz_inv_def)
  next
    case False
    then show ?thesis using none[rule_format, of "i + fst p"] that
      by (simp add: sp bit_push_bit_iff add.assoc)
  qed
  moreover have "bit (push_bit k (snd p)) (j + k)"
    using j(2) \<open>j + k < LENGTH('a)\<close> by (simp add: bit_push_bit_iff)
  moreover have "LENGTH('a) \<le> j + k + k" using j(1) by simp
  ultimately show ?thesis using True assms
    by (auto simp: lz_inv_def lz_step_def sp push_bit_push_bit add.commute)
next
  case False
  then obtain i where "LENGTH('a) \<le> i + k" "bit (snd p) i"
    using assms(2,3) by (auto simp: and_high_mask_zero_iff)
  then show ?thesis using False assms by (auto simp: lz_inv_def lz_step_def)
qed

lemma tz_inv_start: "v \<noteq> 0 \<Longrightarrow> tz_inv (v :: ('a::len) word) LENGTH('a) (0, v)"
  by (auto simp: tz_inv_def bit_eq_iff dest: bit_imp_le_length)

lemma lz_inv_start: "v \<noteq> 0 \<Longrightarrow> lz_inv (v :: ('a::len) word) LENGTH('a) (0, v)"
  by (auto simp: lz_inv_def bit_eq_iff dest: bit_imp_le_length)

lemma tz_inv_final:
  assumes "tz_inv v 1 (tz_step 1 1 p)"
  shows "let n = (if snd p AND 1 = 0 then fst p + 1 else fst p) in bit v n \<and> (\<forall>i<n. \<not> bit v i)"
proof -
  have n: "fst (tz_step 1 1 p) = (if snd p AND 1 = 0 then fst p + 1 else fst p)" by (simp add: tz_step_def)
  show ?thesis unfolding n[symmetric] Let_def using assms by (auto simp: tz_inv_def bit_drop_bit_eq)
qed

lemma lz_inv_final:
  assumes "lz_inv (v :: ('a::len) word) 1 (lz_step 1 m p)"
  shows "let n = (if snd p AND m = 0 then fst p + 1 else fst p) in
    n < LENGTH('a) \<and> bit v (LENGTH('a) - 1 - n) \<and> (\<forall>i. LENGTH('a) \<le> i + n \<longrightarrow> \<not> bit v i)"
proof -
  have n: "fst (lz_step 1 m p) = (if snd p AND m = 0 then fst p + 1 else fst p)" by (simp add: lz_step_def)
  define q where "q = lz_step 1 m p"
  from assms obtain j where j: "LENGTH('a) \<le> j + 1" "bit (snd q) j" and sp: "snd q = push_bit (fst q) v"
    by (auto simp: lz_inv_def q_def)
  from j(2) have "j < LENGTH('a)" by (rule bit_imp_le_length)
  with j(1) have "j = LENGTH('a) - 1" by simp
  with j(2) have "fst q \<le> LENGTH('a) - 1" "bit v (LENGTH('a) - 1 - fst q)" by (simp_all add: sp bit_push_bit_iff)
  moreover have "fst q < LENGTH('a)" using calculation(1) by (simp add: Suc_le_eq less_le_trans le_less_trans)
  ultimately show ?thesis unfolding n[symmetric] Let_def q_def[symmetric]
    using assms by (auto simp: lz_inv_def q_def)
qed

lemma tzcntw_bits:
  assumes "v \<noteq> 0"
  shows "bit v (tzcntw v) \<and> (\<forall>i<tzcntw v. \<not> bit v i)"
proof -
  have i0: "tz_inv v 16 (0, v)" using tz_inv_start[OF assms] by simp
  let ?p1 = "tz_step 8 0xff (0, v)"
  have i1: "tz_inv v 8 (tz_step 8 0xff (0, v))" using i0
    by (intro tz_step_inv) (simp_all add: mask_eq_exp_minus_1 push_bit_eq_mult)
  let ?p2 = "tz_step 4 0xf ?p1"
  have i2: "tz_inv v 4 (tz_step 4 0xf ?p1)" using i1
    by (intro tz_step_inv) (simp_all add: mask_eq_exp_minus_1 push_bit_eq_mult)
  let ?p3 = "tz_step 2 0x3 ?p2"
  have i3: "tz_inv v 2 (tz_step 2 0x3 ?p2)" using i2
    by (intro tz_step_inv) (simp_all add: mask_eq_exp_minus_1 push_bit_eq_mult)
  have i4: "tz_inv v 1 (tz_step 1 1 ?p3)" using i3
    by (intro tz_step_inv) (simp_all add: mask_eq_exp_minus_1 push_bit_eq_mult)
  show ?thesis using tz_inv_final[OF i4] assms by (simp only: tzcntw_def Let_def if_False) simp
qed

lemma lzcntw_bits:
  assumes "v \<noteq> 0"
  shows "lzcntw v < 16 \<and> bit v (15 - lzcntw v) \<and> (\<forall>i. 16 \<le> i + lzcntw v \<longrightarrow> \<not> bit v i)"
proof -
  have i0: "lz_inv v 16 (0, v)" using lz_inv_start[OF assms] by simp
  let ?p1 = "lz_step 8 0xff00 (0, v)"
  have i1: "lz_inv v 8 (lz_step 8 0xff00 (0, v))" using i0
    by (intro lz_step_inv) (simp_all add: mask_eq_exp_minus_1 push_bit_eq_mult)
  let ?p2 = "lz_step 4 0xf000 ?p1"
  have i2: "lz_inv v 4 (lz_step 4 0xf000 ?p1)" using i1
    by (intro lz_step_inv) (simp_all add: mask_eq_exp_minus_1 push_bit_eq_mult)
  let ?p3 = "lz_step 2 0xc000 ?p2"
  have i3: "lz_inv v 2 (lz_step 2 0xc000 ?p2)" using i2
    by (intro lz_step_inv) (simp_all add: mask_eq_exp_minus_1 push_bit_eq_mult)
  have i4: "lz_inv v 1 (lz_step 1 0x8000 ?p3)" using i3
    by (intro lz_step_inv) (simp_all add: mask_eq_exp_minus_1 push_bit_eq_mult)
  show ?thesis using lz_inv_final[OF i4] assms by (simp only: lzcntw_def Let_def if_False) simp
qed

lemma tzcntd_bits:
  assumes "v \<noteq> 0"
  shows "bit v (tzcntd v) \<and> (\<forall>i<tzcntd v. \<not> bit v i)"
proof -
  have i0: "tz_inv v 32 (0, v)" using tz_inv_start[OF assms] by simp
  let ?p1 = "tz_step 16 0xffff (0, v)"
  have i1: "tz_inv v 16 (tz_step 16 0xffff (0, v))" using i0
    by (intro tz_step_inv) (simp_all add: mask_eq_exp_minus_1 push_bit_eq_mult)
  let ?p2 = "tz_step 8 0xff ?p1"
  have i2: "tz_inv v 8 (tz_step 8 0xff ?p1)" using i1
    by (intro tz_step_inv) (simp_all add: mask_eq_exp_minus_1 push_bit_eq_mult)
  let ?p3 = "tz_step 4 0xf ?p2"
  have i3: "tz_inv v 4 (tz_step 4 0xf ?p2)" using i2
    by (intro tz_step_inv) (simp_all add: mask_eq_exp_minus_1 push_bit_eq_mult)
  let ?p4 = "tz_step 2 0x3 ?p3"
  have i4: "tz_inv v 2 (tz_step 2 0x3 ?p3)" using i3
    by (intro tz_step_inv) (simp_all add: mask_eq_exp_minus_1 push_bit_eq_mult)
  have i5: "tz_inv v 1 (tz_step 1 1 ?p4)" using i4
    by (intro tz_step_inv) (simp_all add: mask_eq_exp_minus_1 push_bit_eq_mult)
  show ?thesis using tz_inv_final[OF i5] assms by (simp only: tzcntd_def Let_def if_False) simp
qed

lemma lzcntd_bits:
  assumes "v \<noteq> 0"
  shows "lzcntd v < 32 \<and> bit v (31 - lzcntd v) \<and> (\<forall>i. 32 \<le> i + lzcntd v \<longrightarrow> \<not> bit v i)"
proof -
  have i0: "lz_inv v 32 (0, v)" using lz_inv_start[OF assms] by simp
  let ?p1 = "lz_step 16 0xffff0000 (0, v)"
  have i1: "lz_inv v 16 (lz_step 16 0xffff0000 (0, v))" using i0
    by (intro lz_step_inv) (simp_all add: mask_eq_exp_minus_1 push_bit_eq_mult)
  let ?p2 = "lz_step 8 0xff000000 ?p1"
  have i2: "lz_inv v 8 (lz_step 8 0xff000000 ?p1)" using i1
    by (intro lz_step_inv) (simp_all add: mask_eq_exp_minus_1 push_bit_eq_mult)
  let ?p3 = "lz_step 4 0xf0000000 ?p2"
  have i3: "lz_inv v 4 (lz_step 4 0xf0000000 ?p2)" using i2
    by (intro lz_step_inv) (simp_all add: mask_eq_exp_minus_1 push_bit_eq_mult)
  let ?p4 = "lz_step 2 0xc0000000 ?p3"
  have i4: "lz_inv v 2 (lz_step 2 0xc0000000 ?p3)" using i3
    by (intro lz_step_inv) (simp_all add: mask_eq_exp_minus_1 push_bit_eq_mult)
  have i5: "lz_inv v 1 (lz_step 1 0x80000000 ?p4)" using i4
    by (intro lz_step_inv) (simp_all add: mask_eq_exp_minus_1 push_bit_eq_mult)
  show ?thesis using lz_inv_final[OF i5] assms by (simp only: lzcntd_def Let_def if_False) simp
qed

lemma tzcntq_bits:
  assumes "v \<noteq> 0"
  shows "bit v (tzcntq v) \<and> (\<forall>i<tzcntq v. \<not> bit v i)"
proof -
  have i0: "tz_inv v 64 (0, v)" using tz_inv_start[OF assms] by simp
  let ?p1 = "tz_step 32 0xffffffff (0, v)"
  have i1: "tz_inv v 32 (tz_step 32 0xffffffff (0, v))" using i0
    by (intro tz_step_inv) (simp_all add: mask_eq_exp_minus_1 push_bit_eq_mult)
  let ?p2 = "tz_step 16 0xffff ?p1"
  have i2: "tz_inv v 16 (tz_step 16 0xffff ?p1)" using i1
    by (intro tz_step_inv) (simp_all add: mask_eq_exp_minus_1 push_bit_eq_mult)
  let ?p3 = "tz_step 8 0xff ?p2"
  have i3: "tz_inv v 8 (tz_step 8 0xff ?p2)" using i2
    by (intro tz_step_inv) (simp_all add: mask_eq_exp_minus_1 push_bit_eq_mult)
  let ?p4 = "tz_step 4 0xf ?p3"
  have i4: "tz_inv v 4 (tz_step 4 0xf ?p3)" using i3
    by (intro tz_step_inv) (simp_all add: mask_eq_exp_minus_1 push_bit_eq_mult)
  let ?p5 = "tz_step 2 0x3 ?p4"
  have i5: "tz_inv v 2 (tz_step 2 0x3 ?p4)" using i4
    by (intro tz_step_inv) (simp_all add: mask_eq_exp_minus_1 push_bit_eq_mult)
  have i6: "tz_inv v 1 (tz_step 1 1 ?p5)" using i5
    by (intro tz_step_inv) (simp_all add: mask_eq_exp_minus_1 push_bit_eq_mult)
  show ?thesis using tz_inv_final[OF i6] assms by (simp only: tzcntq_def Let_def if_False) simp
qed

lemma lzcntq_bits:
  assumes "v \<noteq> 0"
  shows "lzcntq v < 64 \<and> bit v (63 - lzcntq v) \<and> (\<forall>i. 64 \<le> i + lzcntq v \<longrightarrow> \<not> bit v i)"
proof -
  have i0: "lz_inv v 64 (0, v)" using lz_inv_start[OF assms] by simp
  let ?p1 = "lz_step 32 0xffffffff00000000 (0, v)"
  have i1: "lz_inv v 32 (lz_step 32 0xffffffff00000000 (0, v))" using i0
    by (intro lz_step_inv) (simp_all add: mask_eq_exp_minus_1 push_bit_eq_mult)
  let ?p2 = "lz_step 16 0xffff000000000000 ?p1"
  have i2: "lz_inv v 16 (lz_step 16 0xffff000000000000 ?p1)" using i1
    by (intro lz_step_inv) (simp_all add: mask_eq_exp_minus_1 push_bit_eq_mult)
  let ?p3 = "lz_step 8 0xff00000000000000 ?p2"
  have i3: "lz_inv v 8 (lz_step 8 0xff00000000000000 ?p2)" using i2
    by (intro lz_step_inv) (simp_all add: mask_eq_exp_minus_1 push_bit_eq_mult)
  let ?p4 = "lz_step 4 0xf000000000000000 ?p3"
  have i4: "lz_inv v 4 (lz_step 4 0xf000000000000000 ?p3)" using i3
    by (intro lz_step_inv) (simp_all add: mask_eq_exp_minus_1 push_bit_eq_mult)
  let ?p5 = "lz_step 2 0xc000000000000000 ?p4"
  have i5: "lz_inv v 2 (lz_step 2 0xc000000000000000 ?p4)" using i4
    by (intro lz_step_inv) (simp_all add: mask_eq_exp_minus_1 push_bit_eq_mult)
  have i6: "lz_inv v 1 (lz_step 1 0x8000000000000000 ?p5)" using i5
    by (intro lz_step_inv) (simp_all add: mask_eq_exp_minus_1 push_bit_eq_mult)
  show ?thesis using lz_inv_final[OF i6] assms by (simp only: lzcntq_def Let_def if_False) simp
qed

section \<open>The folding population counts count set bits\<close>

text \<open>
  \<open>even_mask k m\<close> selects the fields of width \<open>k\<close> at even positions among \<open>2 * m\<close> fields, and \<open>field_sum k m v\<close> adds
  the \<open>m\<close> fields of width \<open>k\<close> of \<open>v\<close>. A folding step halves the number of fields and keeps their sum.
\<close>

primrec even_mask :: "nat \<Rightarrow> nat \<Rightarrow> nat" where
  "even_mask k 0 = 0"
| "even_mask k (Suc m) = mask k + 2 ^ (2 * k) * even_mask k m"

primrec field_sum :: "nat \<Rightarrow> nat \<Rightarrow> nat \<Rightarrow> nat" where
  "field_sum k 0 v = 0"
| "field_sum k (Suc m) v = take_bit k v + field_sum k m (drop_bit k v)"

definition nat_fold :: "nat \<Rightarrow> nat \<Rightarrow> nat \<Rightarrow> nat" where
  "nat_fold k m v = (drop_bit k v AND even_mask k m) + (v AND even_mask k m)"

lemma even_mask_numeral:
  "even_mask k (numeral m) = (2 ^ k - 1) + 2 ^ (2 * k) * even_mask k (pred_numeral m)"
  "even_mask k 1 = 2 ^ k - 1"
  by (simp_all add: numeral_eq_Suc mask_eq_exp_minus_1)

lemma and_even_mask_Suc:
  "v AND even_mask k (Suc m) = take_bit k v + 2 ^ (2 * k) * (drop_bit (2 * k) v AND even_mask k m)"
proof -
  have e: "even_mask k (Suc m) = mask k OR push_bit (2 * k) (even_mask k m)"
  proof (subst disjunctive_add_eq_or[symmetric])
    show "mask k AND push_bit (2 * k) (even_mask k m) = 0"
      by (auto simp: bit_eq_iff bit_and_iff bit_mask_iff bit_push_bit_iff)
  qed (simp add: push_bit_eq_mult mult.commute)
  have "v AND even_mask k (Suc m) = take_bit k v OR push_bit (2 * k) (drop_bit (2 * k) v AND even_mask k m)"
    unfolding e by (auto simp: bit_eq_iff bit_and_iff bit_or_iff bit_mask_iff bit_push_bit_iff bit_take_bit_iff
      bit_drop_bit_eq)
  also have "\<dots> = take_bit k v + push_bit (2 * k) (drop_bit (2 * k) v AND even_mask k m)"
    by (subst disjunctive_add_eq_or[symmetric])
      (auto simp: bit_eq_iff bit_and_iff bit_push_bit_iff bit_take_bit_iff)
  finally show ?thesis by (simp add: push_bit_eq_mult mult.commute)
qed

lemma nat_fold_Suc:
  "nat_fold k (Suc m) v =
    (take_bit k v + take_bit k (drop_bit k v)) + 2 ^ (2 * k) * nat_fold k m (drop_bit (2 * k) v)"
  by (simp add: nat_fold_def and_even_mask_Suc algebra_simps drop_bit_drop_bit del: even_mask.simps)

lemma two_fields_bound: "take_bit k a + take_bit k b < (2::nat) ^ (2 * k)" if "0 < k"
proof -
  have "take_bit k a < (2::nat) ^ k" "take_bit k b < (2::nat) ^ k" by (rule take_bit_nat_less_exp)+
  then have "take_bit k a + take_bit k b < 2 * (2::nat) ^ k" unfolding mult_2 by (rule add_strict_mono)
  also have "\<dots> = 2 ^ (k + 1)" by simp
  also have "\<dots> \<le> 2 ^ (2 * k)" using that by (intro power_increasing) simp_all
  finally show ?thesis .
qed

lemma nat_fold_sum: "field_sum (2 * k) m (nat_fold k m v) = field_sum k (2 * m) v" if "0 < k"
proof (induction m arbitrary: v)
  case (Suc m)
  have t: "take_bit (2 * k) (nat_fold k (Suc m) v) = take_bit k v + take_bit k (drop_bit k v)"
    and d: "drop_bit (2 * k) (nat_fold k (Suc m) v) = nat_fold k m (drop_bit (2 * k) v)"
    using two_fields_bound[OF that, of v "drop_bit k v"]
    by (simp_all add: nat_fold_Suc take_bit_eq_mod drop_bit_eq_div)
  show ?case using Suc.IH[of "drop_bit (2 * k) v"]
    by (simp add: t d drop_bit_drop_bit flip: mult_2)
qed simp

lemma nat_fold_bound: "nat_fold k m v < 2 ^ (2 * k * m)" if "0 < k"
proof (induction m arbitrary: v)
  case (Suc m)
  let ?b = "2 ^ (2 * k) :: nat" and ?f = "nat_fold k m (drop_bit (2 * k) v)"
  have "?f + 1 \<le> 2 ^ (2 * k * m)" using Suc.IH[of "drop_bit (2 * k) v"] by simp
  then have "?b * (?f + 1) \<le> ?b * 2 ^ (2 * k * m)" by (rule mult_le_mono2)
  then show ?case using two_fields_bound[OF that, of v "drop_bit k v"]
    by (simp add: nat_fold_Suc power_add distrib_left)
qed (simp add: nat_fold_def)

lemma unat_pop_fold:
  assumes "unat m = even_mask k c" "2 * k * c = LENGTH('a)" "0 < k"
  shows "unat (pop_fold k m (v :: ('a::len) word)) = nat_fold k c (unat v)"
proof -
  have "unat (drop_bit k v AND m) + unat (v AND m) = nat_fold k c (unat v)"
    by (simp add: nat_fold_def unsigned_and_eq unsigned_drop_bit_eq assms(1) take_bit_nat_eq_self)
  then show ?thesis using nat_fold_bound[OF assms(3), of c "unat v"]
    by (simp add: pop_fold_def unat_word_ariths assms(2))
qed

lemma pop_fold_sum:
  assumes "unat m = even_mask k c" "2 * k * c = LENGTH('a)" "0 < k"
  shows "field_sum (2 * k) c (unat (pop_fold k m (v :: ('a::len) word))) = field_sum k (2 * c) (unat v)"
  by (simp add: unat_pop_fold[OF assms] nat_fold_sum assms(3))

lemma field_sum_whole: "field_sum LENGTH('a) 1 (unat (v :: ('a::len) word)) = unat v"
  by (simp add: take_bit_nat_eq_self)

lemma field_sum_bits: "field_sum 1 m v = card {i. i < m \<and> bit v i}"
proof (induction m arbitrary: v)
  case (Suc m)
  have "{i. i < Suc m \<and> bit v i} = (if odd v then {0} else {}) \<union> Suc ` {i. i < m \<and> bit (drop_bit 1 v) i}"
    by (auto simp: bit_drop_bit_eq bit_0 less_Suc_eq_0_disj image_iff)
  then show ?case using Suc.IH[of "drop_bit 1 v"]
    by (auto simp: card_image card_insert_if take_bit_Suc odd_iff_mod_2_eq_one)
qed simp

lemma bits_of_word: "{i. i < LENGTH('a) \<and> bit (unat v) i} = {i. bit (v :: ('a::len) word) i}"
  by (auto simp: bit_unsigned_iff dest: bit_imp_le_length)

lemma field_sum_word: "field_sum 1 LENGTH('a) (unat v) = card {i. bit (v :: ('a::len) word) i}"
  by (simp only: field_sum_bits bits_of_word)

lemma popcntb_card: "popcntb v = card {i. bit v i}"
proof -
  have f1: "field_sum 2 4 (unat (pop_fold 1 0x55 x)) = field_sum 1 8 (unat x)" for x :: Bit8u
    using pop_fold_sum[of "0x55" 1 4 x] by (simp add: even_mask_numeral mask_eq_exp_minus_1)
  have f2: "field_sum 4 2 (unat (pop_fold 2 0x33 x)) = field_sum 2 4 (unat x)" for x :: Bit8u
    using pop_fold_sum[of "0x33" 2 2 x] by (simp add: even_mask_numeral mask_eq_exp_minus_1)
  have f4: "field_sum 8 1 (unat (pop_fold 4 0xf x)) = field_sum 4 2 (unat x)" for x :: Bit8u
    using pop_fold_sum[of "0xf" 4 1 x] by (simp add: even_mask_numeral mask_eq_exp_minus_1)
  have w: "unat x = field_sum 8 1 (unat x)" for x :: Bit8u using field_sum_whole[of x] by simp
  have "popcntb v = field_sum 1 8 (unat v)"
    unfolding popcntb_def Let_def by (subst w) (simp only: f1 f2 f4)
  then show ?thesis using field_sum_word[of v] by simp
qed

lemma popcntw_card: "popcntw v = card {i. bit v i}"
proof -
  have f1: "field_sum 2 8 (unat (pop_fold 1 0x5555 x)) = field_sum 1 16 (unat x)" for x :: Bit16u
    using pop_fold_sum[of "0x5555" 1 8 x] by (simp add: even_mask_numeral mask_eq_exp_minus_1)
  have f2: "field_sum 4 4 (unat (pop_fold 2 0x3333 x)) = field_sum 2 8 (unat x)" for x :: Bit16u
    using pop_fold_sum[of "0x3333" 2 4 x] by (simp add: even_mask_numeral mask_eq_exp_minus_1)
  have f4: "field_sum 8 2 (unat (pop_fold 4 0xf0f x)) = field_sum 4 4 (unat x)" for x :: Bit16u
    using pop_fold_sum[of "0xf0f" 4 2 x] by (simp add: even_mask_numeral mask_eq_exp_minus_1)
  have f8: "field_sum 16 1 (unat (pop_fold 8 0xff x)) = field_sum 8 2 (unat x)" for x :: Bit16u
    using pop_fold_sum[of "0xff" 8 1 x] by (simp add: even_mask_numeral mask_eq_exp_minus_1)
  have w: "unat x = field_sum 16 1 (unat x)" for x :: Bit16u using field_sum_whole[of x] by simp
  have "popcntw v = field_sum 1 16 (unat v)"
    unfolding popcntw_def Let_def by (subst w) (simp only: f1 f2 f4 f8)
  then show ?thesis using field_sum_word[of v] by simp
qed

lemma popcntd_card: "popcntd v = card {i. bit v i}"
proof -
  have f1: "field_sum 2 16 (unat (pop_fold 1 0x55555555 x)) = field_sum 1 32 (unat x)" for x :: Bit32u
    using pop_fold_sum[of "0x55555555" 1 16 x] by (simp add: even_mask_numeral mask_eq_exp_minus_1)
  have f2: "field_sum 4 8 (unat (pop_fold 2 0x33333333 x)) = field_sum 2 16 (unat x)" for x :: Bit32u
    using pop_fold_sum[of "0x33333333" 2 8 x] by (simp add: even_mask_numeral mask_eq_exp_minus_1)
  have f4: "field_sum 8 4 (unat (pop_fold 4 0xf0f0f0f x)) = field_sum 4 8 (unat x)" for x :: Bit32u
    using pop_fold_sum[of "0xf0f0f0f" 4 4 x] by (simp add: even_mask_numeral mask_eq_exp_minus_1)
  have f8: "field_sum 16 2 (unat (pop_fold 8 0xff00ff x)) = field_sum 8 4 (unat x)" for x :: Bit32u
    using pop_fold_sum[of "0xff00ff" 8 2 x] by (simp add: even_mask_numeral mask_eq_exp_minus_1)
  have f16: "field_sum 32 1 (unat (pop_fold 16 0xffff x)) = field_sum 16 2 (unat x)" for x :: Bit32u
    using pop_fold_sum[of "0xffff" 16 1 x] by (simp add: even_mask_numeral mask_eq_exp_minus_1)
  have w: "unat x = field_sum 32 1 (unat x)" for x :: Bit32u using field_sum_whole[of x] by simp
  have "popcntd v = field_sum 1 32 (unat v)"
    unfolding popcntd_def Let_def by (subst w) (simp only: f1 f2 f4 f8 f16)
  then show ?thesis using field_sum_word[of v] by simp
qed

lemma popcntq_card: "popcntq v = card {i. bit v i}"
proof -
  have f1: "field_sum 2 32 (unat (pop_fold 1 0x5555555555555555 x)) = field_sum 1 64 (unat x)" for x :: Bit64u
    using pop_fold_sum[of "0x5555555555555555" 1 32 x] by (simp add: even_mask_numeral mask_eq_exp_minus_1)
  have f2: "field_sum 4 16 (unat (pop_fold 2 0x3333333333333333 x)) = field_sum 2 32 (unat x)" for x :: Bit64u
    using pop_fold_sum[of "0x3333333333333333" 2 16 x] by (simp add: even_mask_numeral mask_eq_exp_minus_1)
  have f4: "field_sum 8 8 (unat (pop_fold 4 0xf0f0f0f0f0f0f0f x)) = field_sum 4 16 (unat x)" for x :: Bit64u
    using pop_fold_sum[of "0xf0f0f0f0f0f0f0f" 4 8 x] by (simp add: even_mask_numeral mask_eq_exp_minus_1)
  have f8: "field_sum 16 4 (unat (pop_fold 8 0xff00ff00ff00ff x)) = field_sum 8 8 (unat x)" for x :: Bit64u
    using pop_fold_sum[of "0xff00ff00ff00ff" 8 4 x] by (simp add: even_mask_numeral mask_eq_exp_minus_1)
  have f16: "field_sum 32 2 (unat (pop_fold 16 0xffff0000ffff x)) = field_sum 16 4 (unat x)" for x :: Bit64u
    using pop_fold_sum[of "0xffff0000ffff" 16 2 x] by (simp add: even_mask_numeral mask_eq_exp_minus_1)
  have f32: "field_sum 64 1 (unat (pop_fold 32 0xffffffff x)) = field_sum 32 2 (unat x)" for x :: Bit64u
    using pop_fold_sum[of "0xffffffff" 32 1 x] by (simp add: even_mask_numeral mask_eq_exp_minus_1)
  have w: "unat x = field_sum 64 1 (unat x)" for x :: Bit64u using field_sum_whole[of x] by simp
  have "popcntq v = field_sum 1 64 (unat v)"
    unfolding popcntq_def Let_def by (subst w) (simp only: f1 f2 f4 f8 f16 f32)
  then show ?thesis using field_sum_word[of v] by simp
qed







section \<open>Rotations\<close>

text \<open>The rotation idiom at any width: shifting out on one side and in on the other.\<close>

lemma bit_rotate_left:
  assumes "0 < c" "c < LENGTH('a)" "i < LENGTH('a)"
  shows "bit (push_bit c v OR drop_bit (LENGTH('a) - c) v) i \<longleftrightarrow>
    bit (v :: ('a::len) word) (if c \<le> i then i - c else i + LENGTH('a) - c)"
  using assms by (auto simp: bit_or_iff bit_push_bit_iff bit_drop_bit_eq add.commute dest: bit_imp_le_length)

lemma bit_rotate_right:
  assumes "0 < c" "c < LENGTH('a)" "i < LENGTH('a)"
  shows "bit (drop_bit c v OR push_bit (LENGTH('a) - c) v) i \<longleftrightarrow>
    bit (v :: ('a::len) word) (if i + c < LENGTH('a) then i + c else i + c - LENGTH('a))"
  using assms by (auto simp: bit_or_iff bit_push_bit_iff bit_drop_bit_eq add.commute dest: bit_imp_le_length)

lemma rotate_right_left:
  fixes v :: "('a::len) word"
  assumes "0 < c" "c < LENGTH('a)" "w = push_bit c v OR drop_bit (LENGTH('a) - c) v"
  shows "drop_bit c w OR push_bit (LENGTH('a) - c) w = v"
proof (rule bit_word_eqI)
  fix i assume "i < LENGTH('a)"
  then show "bit (drop_bit c w OR push_bit (LENGTH('a) - c) w) i \<longleftrightarrow> bit v i"
    using assms(1,2) by (simp only: bit_rotate_right[of c i w] bit_rotate_left[of c i w])
      (auto simp: assms(3) bit_rotate_left bit_rotate_right simp del: push_bit_or drop_bit_or)
qed

lemma rotate_left_right:
  fixes v :: "('a::len) word"
  assumes "0 < c" "c < LENGTH('a)" "w = drop_bit c v OR push_bit (LENGTH('a) - c) v"
  shows "push_bit c w OR drop_bit (LENGTH('a) - c) w = v"
proof (rule bit_word_eqI)
  fix i assume "i < LENGTH('a)"
  then show "bit (push_bit c w OR drop_bit (LENGTH('a) - c) w) i \<longleftrightarrow> bit v i"
    using assms(1,2) by (simp only: bit_rotate_right[of c i w] bit_rotate_left[of c i w])
      (auto simp: assms(3) bit_rotate_left bit_rotate_right simp del: push_bit_or drop_bit_or)
qed

lemma ror_rol:
  "0 < c \<Longrightarrow> c < 8 \<Longrightarrow> ror8 (rol8 v8 c) c = v8"
  "0 < c \<Longrightarrow> c < 16 \<Longrightarrow> ror16 (rol16 v16 c) c = v16"
  "0 < c \<Longrightarrow> c < 32 \<Longrightarrow> ror32 (rol32 v32 c) c = v32"
  "0 < c \<Longrightarrow> c < 64 \<Longrightarrow> ror64 (rol64 v64 c) c = v64"
  using rotate_right_left[of c _ v8] rotate_right_left[of c _ v16] rotate_right_left[of c _ v32]
    rotate_right_left[of c _ v64]
  by (simp_all add: ror8_def ror16_def ror32_def ror64_def rol8_def rol16_def rol32_def rol64_def)

lemma rol_ror:
  "0 < c \<Longrightarrow> c < 8 \<Longrightarrow> rol8 (ror8 v8 c) c = v8"
  "0 < c \<Longrightarrow> c < 16 \<Longrightarrow> rol16 (ror16 v16 c) c = v16"
  "0 < c \<Longrightarrow> c < 32 \<Longrightarrow> rol32 (ror32 v32 c) c = v32"
  "0 < c \<Longrightarrow> c < 64 \<Longrightarrow> rol64 (ror64 v64 c) c = v64"
  using rotate_left_right[of c _ v8] rotate_left_right[of c _ v16] rotate_left_right[of c _ v32]
    rotate_left_right[of c _ v64]
  by (simp_all add: ror8_def ror16_def ror32_def ror64_def rol8_def rol16_def rol32_def rol64_def)

section \<open>Parity\<close>

lemma card_bits8: "card {i. bit (v :: Bit8u) i} = length (filter (bit v) [0..<8])"
proof -
  have "{i. bit v i} = set (filter (bit v) [0..<8])" using bit_imp_le_length[of v] by auto
  then show ?thesis by (simp only: distinct_card distinct_filter distinct_upt)
qed

lemma parity_byte_bits: "parity_byte v = of_bool (even (length (filter (bit v) [0..<8])))"
proof -
  have unat_of_bool: "unat (of_bool P :: Bit32u) = of_bool P" for P by (cases P) simp_all
  let ?x = "v XOR drop_bit 4 v"
  define t where "t = (ucast ?x :: Bit32u)"
  have x: "bit t 0 \<longleftrightarrow> bit v 0 \<noteq> bit v 4" "bit t 1 \<longleftrightarrow> bit v 1 \<noteq> bit v 5"
    "bit t 2 \<longleftrightarrow> bit v 2 \<noteq> bit v 6" "bit t 3 \<longleftrightarrow> bit v 3 \<noteq> bit v 7"
    by (simp_all add: t_def bit_ucast_iff bit_xor_iff bit_drop_bit_eq)
  have "t AND 0xF = (ucast (?x AND 0xF) :: Bit32u)" by (simp add: t_def unsigned_and_eq)
  moreover have "unat (ucast y :: Bit32u) = unat y" for y :: Bit8u
    by (simp add: unsigned_ucast_eq take_bit_nat_eq_self order.strict_trans[OF unsigned_less])
  ultimately have "unat (?x AND 0xF) = unat (t AND 0xF)" by simp
  then have "parity_byte v = unat (drop_bit (unat (t AND 0x0F)) 0x9669 AND 1 :: Bit32u)"
    by (simp only: parity_byte_def)
  also have "\<dots> = of_bool (bit t 0 = (bit t 1 = (bit t 2 = bit t 3)))"
    unfolding parity_table by (rule unat_of_bool)
  also have "\<dots> = of_bool (even (length (filter (bit v) [0, 1, 2, 3, 4, 5, 6, 7])))"
    unfolding x even_length_filter_Cons parity_fold by simp
  also have "[0, 1, 2, 3, 4, 5, 6, 7] = [0..<8]" by (simp add: upt_rec)
  finally show ?thesis .
qed

section \<open>Bit-field extraction\<close>

lemma bit_extract_mask:
  "k < LENGTH('a) \<Longrightarrow> (v :: ('a::len) word) AND (push_bit k 1 - 1) = take_bit k v"
  by (simp add: take_bit_eq_mask mask_eq_exp_minus_1 push_bit_eq_mult)

section \<open>The helpers against their reference meaning\<close>

lemma takeWhile_low:
  assumes "n < N" "P n" "\<forall>i<n. \<not> P i"
  shows "length (takeWhile (\<lambda>i. \<not> P i) [0..<N]) = n"
proof -
  have "[0..<N] = [0..<n] @ n # [Suc n..<N]" using assms(1)
    using upt_add_eq_append[of 0 n "N - n"] by (simp flip: upt_conv_Cons)
  then show ?thesis using assms by (simp add: takeWhile_append)
qed

lemma takeWhile_high:
  assumes "n < N" "P (N - 1 - n)" "\<forall>i. N \<le> i + n \<longrightarrow> \<not> P i"
  shows "length (takeWhile (\<lambda>i. \<not> P i) (rev [0..<N])) = n"
proof -
  define k where "k = N - 1 - n"
  have N: "N = Suc k + n" using assms(1) by (simp add: k_def)
  have "[0..<N] = [0..<k] @ k # [Suc k..<N]" unfolding N
    using upt_add_eq_append[of 0 k "Suc n"] by (simp add: upt_conv_Cons del: upt_Suc)
  then have r: "rev [0..<N] = rev [Suc k..<N] @ k # rev [0..<k]" by simp
  have "\<not> P i" if "i \<in> set (rev [Suc k..<N])" for i using assms(3) that by (auto simp: N)
  then have "takeWhile (\<lambda>i. \<not> P i) (rev [0..<N]) = rev [Suc k..<N] @ takeWhile (\<lambda>i. \<not> P i) (k # rev [0..<k])"
    unfolding r by (rule takeWhile_append2)
  also have "\<dots> = rev [Suc k..<N]" using assms(2) by (simp add: k_def)
  finally have "takeWhile (\<lambda>i. \<not> P i) (rev [0..<N]) = rev [Suc k..<N]" .
  then show ?thesis by (simp add: N del: upt_Suc)
qed

lemma tzcntw_scan: "tzcntw v = length (takeWhile (\<lambda>i. \<not> bit v i) [0..<16])"
proof (cases "v = 0")
  case False
  note b = tzcntw_bits[OF False]
  show ?thesis using b bit_imp_le_length[of v "tzcntw v"] takeWhile_low[of "tzcntw v" 16 "bit v"] by simp
qed (simp add: tzcntw_def takeWhile_eq_all_conv[THEN iffD2])

lemma tzcntd_scan: "tzcntd v = length (takeWhile (\<lambda>i. \<not> bit v i) [0..<32])"
proof (cases "v = 0")
  case False
  note b = tzcntd_bits[OF False]
  show ?thesis using b bit_imp_le_length[of v "tzcntd v"] takeWhile_low[of "tzcntd v" 32 "bit v"] by simp
qed (simp add: tzcntd_def takeWhile_eq_all_conv[THEN iffD2])

lemma tzcntq_scan: "tzcntq v = length (takeWhile (\<lambda>i. \<not> bit v i) [0..<64])"
proof (cases "v = 0")
  case False
  note b = tzcntq_bits[OF False]
  show ?thesis using b bit_imp_le_length[of v "tzcntq v"] takeWhile_low[of "tzcntq v" 64 "bit v"] by simp
qed (simp add: tzcntq_def takeWhile_eq_all_conv[THEN iffD2])

lemma lzcntw_scan: "lzcntw v = length (takeWhile (\<lambda>i. \<not> bit v i) (rev [0..<16]))"
proof (cases "v = 0")
  case False
  note b = lzcntw_bits[OF False]
  show ?thesis using b takeWhile_high[of "lzcntw v" 16 "bit v"] by simp
qed (simp add: lzcntw_def takeWhile_eq_all_conv[THEN iffD2])

lemma lzcntd_scan: "lzcntd v = length (takeWhile (\<lambda>i. \<not> bit v i) (rev [0..<32]))"
proof (cases "v = 0")
  case False
  note b = lzcntd_bits[OF False]
  show ?thesis using b takeWhile_high[of "lzcntd v" 32 "bit v"] by simp
qed (simp add: lzcntd_def takeWhile_eq_all_conv[THEN iffD2])

lemma lzcntq_scan: "lzcntq v = length (takeWhile (\<lambda>i. \<not> bit v i) (rev [0..<64]))"
proof (cases "v = 0")
  case False
  note b = lzcntq_bits[OF False]
  show ?thesis using b takeWhile_high[of "lzcntq v" 64 "bit v"] by simp
qed (simp add: lzcntq_def takeWhile_eq_all_conv[THEN iffD2])

text \<open>The halving searches of \<open>tzcnt\<close> and \<open>lzcnt\<close> equal the bit-by-bit scans: the number of clear bits met before the
  first set bit from the bottom (\<open>tzcnt\<close>) or from the top (\<open>lzcnt\<close>), and the operand width when no bit is set.
\<close>

theorem zero_counts_scan:
  "tzcntw v16 = length (takeWhile (\<lambda>i. \<not> bit v16 i) [0..<16]) \<and>
   tzcntd v32 = length (takeWhile (\<lambda>i. \<not> bit v32 i) [0..<32]) \<and>
   tzcntq v64 = length (takeWhile (\<lambda>i. \<not> bit v64 i) [0..<64]) \<and>
   lzcntw v16 = length (takeWhile (\<lambda>i. \<not> bit v16 i) (rev [0..<16])) \<and>
   lzcntd v32 = length (takeWhile (\<lambda>i. \<not> bit v32 i) (rev [0..<32])) \<and>
   lzcntq v64 = length (takeWhile (\<lambda>i. \<not> bit v64 i) (rev [0..<64]))"
  by (intro conjI tzcntw_scan tzcntd_scan tzcntq_scan lzcntw_scan lzcntd_scan lzcntq_scan)

text \<open>The folding population counts return the number of set bits of their operand at every width, and
  \<open>parity_byte\<close> is one exactly when that number is even.
\<close>

theorem population_counts:
  "popcntb v8 = card {i. bit v8 i} \<and> popcntw v16 = card {i. bit v16 i} \<and>
   popcntd v32 = card {i. bit v32 i} \<and> popcntq v64 = card {i. bit v64 i} \<and>
   parity_byte v8 = of_bool (even (card {i. bit v8 i}))"
  by (simp add: popcntb_card popcntw_card popcntd_card popcntq_card parity_byte_bits card_bits8)

end
