(* ===== verification/Shift8.thy ===== *)
theory Shift8
  imports CpuState ScalarArith
begin

text \<open>
  The register forms of the 8-bit shift and rotate handlers of \<^verbatim>\<open>cpu/shift8.cc\<close>. The count comes from CL
  or from the immediate byte, depending on the opcode; most handlers return early when it is zero.
\<close>

section \<open>Handlers\<close>

definition ROL_EbR :: "bxInstruction_c \<Rightarrow> bx_cpu \<Rightarrow> bx_cpu" where
  "ROL_EbR i s =
    (let count = unat (if getIaOpcode i = BX_IA_ROL_Eb then CL s else Ib i);
         op1_8 = BX_READ_8BIT_REGx (dst i) (extend8bitL i) s
     in if count AND 0x07 = 0 then
          (if count AND 0x18 \<noteq> 0 then
             (let bit0 = ucast (op1_8 AND 1) :: Bit32u;
                  bit7 = ucast (drop_bit 7 op1_8)
              in upd_oszapc (set_flags_OxxxxC (bit0 XOR bit7) bit0) s)
           else s)
        else
          (let count = count AND 0x07;
               result_8 = rol8 op1_8 count;
               s = BX_WRITE_8BIT_REGx (dst i) (extend8bitL i) result_8 s;
               bit0 = ucast (result_8 AND 1) :: Bit32u;
               bit7 = ucast (drop_bit 7 result_8)
           in upd_oszapc (set_flags_OxxxxC (bit0 XOR bit7) bit0) s))"

definition ROR_EbR :: "bxInstruction_c \<Rightarrow> bx_cpu \<Rightarrow> bx_cpu" where
  "ROR_EbR i s =
    (let count = unat (if getIaOpcode i = BX_IA_ROR_Eb then CL s else Ib i);
         op1_8 = BX_READ_8BIT_REGx (dst i) (extend8bitL i) s
     in if count AND 0x07 = 0 then
          (if count AND 0x18 \<noteq> 0 then
             (let bit6 = ucast (drop_bit 6 op1_8 AND 1) :: Bit32u;
                  bit7 = ucast (drop_bit 7 op1_8 AND 1)
              in upd_oszapc (set_flags_OxxxxC (bit6 XOR bit7) bit7) s)
           else s)
        else
          (let count = count AND 0x07;
               result_8 = ror8 op1_8 count;
               s = BX_WRITE_8BIT_REGx (dst i) (extend8bitL i) result_8 s;
               bit6 = ucast (drop_bit 6 result_8 AND 1) :: Bit32u;
               bit7 = ucast (drop_bit 7 result_8 AND 1)
           in upd_oszapc (set_flags_OxxxxC (bit6 XOR bit7) bit7) s))"

definition RCL_EbR :: "bxInstruction_c \<Rightarrow> bx_cpu \<Rightarrow> bx_cpu" where
  "RCL_EbR i s =
    (let count = unat (if getIaOpcode i = BX_IA_RCL_Eb then CL s else Ib i);
         count = (count AND 0x1f) mod 9
     in if count = 0 then s
        else
          (let op1_8 = BX_READ_8BIT_REGx (dst i) (extend8bitL i) s;
               temp_CF = ucast (getB_CF (oszapc s)) :: Bit8u;
               result_8 = (if count = 1 then push_bit 1 op1_8 OR temp_CF
                  else push_bit count op1_8 OR push_bit (count - 1) temp_CF OR drop_bit (9 - count) op1_8);
               s = BX_WRITE_8BIT_REGx (dst i) (extend8bitL i) result_8 s;
               cf = ucast (drop_bit (8 - count) op1_8 AND 0x1) :: Bit32u;
               ovf = cf XOR (ucast (drop_bit 7 result_8))
           in upd_oszapc (set_flags_OxxxxC ovf cf) s))"

definition RCR_EbR :: "bxInstruction_c \<Rightarrow> bx_cpu \<Rightarrow> bx_cpu" where
  "RCR_EbR i s =
    (let count = unat (if getIaOpcode i = BX_IA_RCR_Eb then CL s else Ib i);
         count = (count AND 0x1f) mod 9
     in if count = 0 then s
        else
          (let op1_8 = BX_READ_8BIT_REGx (dst i) (extend8bitL i) s;
               temp_CF = ucast (getB_CF (oszapc s)) :: Bit8u;
               result_8 = drop_bit count op1_8 OR push_bit (8 - count) temp_CF OR push_bit (9 - count) op1_8;
               s = BX_WRITE_8BIT_REGx (dst i) (extend8bitL i) result_8 s;
               cf = ucast (drop_bit (count - 1) op1_8 AND 0x1) :: Bit32u;
               ovf = ucast (drop_bit 7 (push_bit 1 result_8 XOR result_8) AND 0x1)
           in upd_oszapc (set_flags_OxxxxC ovf cf) s))"

definition SHL_EbR :: "bxInstruction_c \<Rightarrow> bx_cpu \<Rightarrow> bx_cpu" where
  "SHL_EbR i s =
    (let count = unat (if getIaOpcode i = BX_IA_SHL_Eb then CL s else Ib i);
         count = count AND 0x1f
     in if count = 0 then s
        else
          (let op1_8 = BX_READ_8BIT_REGx (dst i) (extend8bitL i) s;
               result_8 = (if count \<le> 8 then push_bit count op1_8 else 0);
               cf = (if count \<le> 8 then ucast (drop_bit (8 - count) op1_8 AND 0x1) else 0) :: Bit32u;
               ovf = (if count \<le> 8 then cf XOR ucast (drop_bit 7 result_8) else 0);
               s = BX_WRITE_8BIT_REGx (dst i) (extend8bitL i) result_8 s;
               s = upd_oszapc (SET_FLAGS_OSZAPC_LOGIC_8 (ucast result_8)) s
           in upd_oszapc (set_flags_OxxxxC ovf cf) s))"

definition SHR_EbR :: "bxInstruction_c \<Rightarrow> bx_cpu \<Rightarrow> bx_cpu" where
  "SHR_EbR i s =
    (let count = unat (if getIaOpcode i = BX_IA_SHR_Eb then CL s else Ib i);
         count = count AND 0x1f
     in if count = 0 then s
        else
          (let op1_8 = BX_READ_8BIT_REGx (dst i) (extend8bitL i) s;
               result_8 = drop_bit count op1_8;
               s = BX_WRITE_8BIT_REGx (dst i) (extend8bitL i) result_8 s;
               cf = ucast (drop_bit (count - 1) op1_8 AND 0x1) :: Bit32u;
               ovf = ucast (drop_bit 7 (push_bit 1 result_8 XOR result_8) AND 0x1);
               s = upd_oszapc (SET_FLAGS_OSZAPC_LOGIC_8 (ucast result_8)) s
           in upd_oszapc (set_flags_OxxxxC ovf cf) s))"

definition SAR_EbR :: "bxInstruction_c \<Rightarrow> bx_cpu \<Rightarrow> bx_cpu" where
  "SAR_EbR i s =
    (let count = unat (if getIaOpcode i = BX_IA_SAR_Eb then CL s else Ib i);
         count = count AND 0x1f
     in if count = 0 then s
        else
          (let op1_8 = BX_READ_8BIT_REGx (dst i) (extend8bitL i) s;
               result_8 = signed_drop_bit count op1_8;
               s = BX_WRITE_8BIT_REGx (dst i) (extend8bitL i) result_8 s;
               cf = ucast (signed_drop_bit (count - 1) op1_8 AND 0x1) :: Bit32u;
               s = upd_oszapc (SET_FLAGS_OSZAPC_LOGIC_8 (ucast result_8)) s
           in upd_oszapc (set_flags_OxxxxC 0 cf) s))"

end
