(* ===== verification/ShiftMem8.thy ===== *)
theory ShiftMem8
  imports MemOperand Shift8
begin

text \<open>
  The memory forms of the 8-bit shifts and rotates of \<^verbatim>\<open>cpu/shift8.cc\<close>.  The operand is read for writing even when the
  count is zero; it is written back only when the masked count is not.
\<close>

section \<open>Handlers\<close>

definition ROL_EbM :: "bxInstruction_c \<Rightarrow> unit sys_op" where
  "ROL_EbM i = with_core (\<lambda>c.
    let count = unat (if getIaOpcode i = BX_IA_ROL_Eb then CL c else Ib i); eaddr = BX_CPU_RESOLVE_ADDR i c in
    and_then (read_RMW_virtual_byte (instr_seg i) eaddr) (\<lambda>m.
    with_core (\<lambda>c.
      let op1_8 = m
      in if count AND 0x07 = 0 then 
          (if count AND 0x18 \<noteq> 0 then
            (let bit0 = ucast (op1_8 AND 1) :: Bit32u;
                 bit7 = ucast (drop_bit 7 op1_8)
             in on_core (upd_oszapc (set_flags_OxxxxC (bit0 XOR bit7) bit0)))
           else sys_return ())
         else
          (let count = count AND 0x07;
             result_8 = rol8 op1_8 count;
             bit0 = ucast (result_8 AND 1) :: Bit32u;
             bit7 = ucast (drop_bit 7 result_8)
           in and_then (write_RMW_linear_byte result_8) (\<lambda>_. on_core (upd_oszapc (set_flags_OxxxxC (bit0 XOR bit7) bit0)))))))"

definition ROR_EbM :: "bxInstruction_c \<Rightarrow> unit sys_op" where
  "ROR_EbM i = with_core (\<lambda>c.
    let count = unat (if getIaOpcode i = BX_IA_ROR_Eb then CL c else Ib i); eaddr = BX_CPU_RESOLVE_ADDR i c in
    and_then (read_RMW_virtual_byte (instr_seg i) eaddr) (\<lambda>m.
    with_core (\<lambda>c.
      let op1_8 = m
      in if count AND 0x07 = 0 then 
          (if count AND 0x18 \<noteq> 0 then
            (let bit6 = ucast (drop_bit 6 op1_8 AND 1) :: Bit32u;
                 bit7 = ucast (drop_bit 7 op1_8 AND 1)
             in on_core (upd_oszapc (set_flags_OxxxxC (bit6 XOR bit7) bit7)))
           else sys_return ())
         else
          (let count = count AND 0x07;
             result_8 = ror8 op1_8 count;
             bit6 = ucast (drop_bit 6 result_8 AND 1) :: Bit32u;
             bit7 = ucast (drop_bit 7 result_8 AND 1)
           in and_then (write_RMW_linear_byte result_8) (\<lambda>_. on_core (upd_oszapc (set_flags_OxxxxC (bit6 XOR bit7) bit7)))))))"

definition RCL_EbM :: "bxInstruction_c \<Rightarrow> unit sys_op" where
  "RCL_EbM i = with_core (\<lambda>c.
    let count = unat (if getIaOpcode i = BX_IA_RCL_Eb then CL c else Ib i); eaddr = BX_CPU_RESOLVE_ADDR i c in
    and_then (read_RMW_virtual_byte (instr_seg i) eaddr) (\<lambda>m.
    with_core (\<lambda>c.
      let count = (count AND 0x1f) mod 9
      in if count = 0 then sys_return ()
         else
          (let op1_8 = m;
             temp_CF = ucast (getB_CF (oszapc c)) :: Bit8u;
             result_8 = (if count = 1 then push_bit 1 op1_8 OR temp_CF
             else push_bit count op1_8 OR push_bit (count - 1) temp_CF OR drop_bit (9 - count) op1_8);
             cf = ucast (drop_bit (8 - count) op1_8 AND 0x1) :: Bit32u;
             ovf = cf XOR (ucast (drop_bit 7 result_8))
           in and_then (write_RMW_linear_byte result_8) (\<lambda>_. on_core (upd_oszapc (set_flags_OxxxxC ovf cf)))))))"

definition RCR_EbM :: "bxInstruction_c \<Rightarrow> unit sys_op" where
  "RCR_EbM i = with_core (\<lambda>c.
    let count = unat (if getIaOpcode i = BX_IA_RCR_Eb then CL c else Ib i); eaddr = BX_CPU_RESOLVE_ADDR i c in
    and_then (read_RMW_virtual_byte (instr_seg i) eaddr) (\<lambda>m.
    with_core (\<lambda>c.
      let count = (count AND 0x1f) mod 9
      in if count = 0 then sys_return ()
         else
          (let op1_8 = m;
             temp_CF = ucast (getB_CF (oszapc c)) :: Bit8u;
             result_8 = drop_bit count op1_8 OR push_bit (8 - count) temp_CF OR push_bit (9 - count) op1_8;
             cf = ucast (drop_bit (count - 1) op1_8 AND 0x1) :: Bit32u;
             ovf = ucast (drop_bit 7 (push_bit 1 result_8 XOR result_8) AND 0x1)
           in and_then (write_RMW_linear_byte result_8) (\<lambda>_. on_core (upd_oszapc (set_flags_OxxxxC ovf cf)))))))"

definition SHL_EbM :: "bxInstruction_c \<Rightarrow> unit sys_op" where
  "SHL_EbM i = with_core (\<lambda>c.
    let count = unat (if getIaOpcode i = BX_IA_SHL_Eb then CL c else Ib i); eaddr = BX_CPU_RESOLVE_ADDR i c in
    and_then (read_RMW_virtual_byte (instr_seg i) eaddr) (\<lambda>m.
    with_core (\<lambda>c.
      let count = count AND 0x1f
      in if count = 0 then sys_return ()
         else
          (let op1_8 = m;
             result_8 = (if count \<le> 8 then push_bit count op1_8 else 0);
             cf = (if count \<le> 8 then ucast (drop_bit (8 - count) op1_8 AND 0x1) else 0) :: Bit32u;
             ovf = (if count \<le> 8 then cf XOR ucast (drop_bit 7 result_8) else 0)
           in and_then (write_RMW_linear_byte result_8) (\<lambda>_. on_core (\<lambda>c. upd_oszapc (set_flags_OxxxxC ovf cf) (upd_oszapc (SET_FLAGS_OSZAPC_LOGIC_8 (ucast result_8)) c)))))))"

definition SHR_EbM :: "bxInstruction_c \<Rightarrow> unit sys_op" where
  "SHR_EbM i = with_core (\<lambda>c.
    let count = unat (if getIaOpcode i = BX_IA_SHR_Eb then CL c else Ib i); eaddr = BX_CPU_RESOLVE_ADDR i c in
    and_then (read_RMW_virtual_byte (instr_seg i) eaddr) (\<lambda>m.
    with_core (\<lambda>c.
      let count = count AND 0x1f
      in if count = 0 then sys_return ()
         else
          (let op1_8 = m;
             result_8 = drop_bit count op1_8;
             cf = ucast (drop_bit (count - 1) op1_8 AND 0x1) :: Bit32u;
             ovf = ucast (drop_bit 7 (push_bit 1 result_8 XOR result_8) AND 0x1)
           in and_then (write_RMW_linear_byte result_8) (\<lambda>_. on_core (\<lambda>c. upd_oszapc (set_flags_OxxxxC ovf cf) (upd_oszapc (SET_FLAGS_OSZAPC_LOGIC_8 (ucast result_8)) c)))))))"

definition SAR_EbM :: "bxInstruction_c \<Rightarrow> unit sys_op" where
  "SAR_EbM i = with_core (\<lambda>c.
    let count = unat (if getIaOpcode i = BX_IA_SAR_Eb then CL c else Ib i); eaddr = BX_CPU_RESOLVE_ADDR i c in
    and_then (read_RMW_virtual_byte (instr_seg i) eaddr) (\<lambda>m.
    with_core (\<lambda>c.
      let count = count AND 0x1f
      in if count = 0 then sys_return ()
         else
          (let op1_8 = m;
             result_8 = signed_drop_bit count op1_8;
             cf = ucast (signed_drop_bit (count - 1) op1_8 AND 0x1) :: Bit32u
           in and_then (write_RMW_linear_byte result_8) (\<lambda>_. on_core (\<lambda>c. upd_oszapc (set_flags_OxxxxC 0 cf) (upd_oszapc (SET_FLAGS_OSZAPC_LOGIC_8 (ucast result_8)) c)))))))"

section \<open>The memory forms are the register forms on the operand\<close>

lemma ROL_EbM_register_form:
  "operand_spec (read_RMW_virtual_byte (instr_seg i) (BX_CPU_RESOLVE_ADDR i (core s))) write_RMW_linear_byte (shift_operand_count BX_IA_ROL_Eb i s AND 0x07 \<noteq> 0)
     (BX_READ_8BIT_REGx (operand_reg i) True) (BX_WRITE_8BIT_REGx (operand_reg i) True) (ROL_EbR (on_operand_reg i)) (ROL_EbM i) s"
  by (rule rmw8.operand_form, simp only: ROL_EbM_def with_core_apply laddr64_apply Let_def, simp, simp only: with_core_apply Let_def,
      cases "getIaOpcode i = BX_IA_ROL_Eb"; auto simp: ROL_EbR_def operand_form_simps Let_def simp del: drop_bit_or drop_bit_xor push_bit_or push_bit_xor)

lemma ROR_EbM_register_form:
  "operand_spec (read_RMW_virtual_byte (instr_seg i) (BX_CPU_RESOLVE_ADDR i (core s))) write_RMW_linear_byte (shift_operand_count BX_IA_ROR_Eb i s AND 0x07 \<noteq> 0)
     (BX_READ_8BIT_REGx (operand_reg i) True) (BX_WRITE_8BIT_REGx (operand_reg i) True) (ROR_EbR (on_operand_reg i)) (ROR_EbM i) s"
  by (rule rmw8.operand_form, simp only: ROR_EbM_def with_core_apply laddr64_apply Let_def, simp, simp only: with_core_apply Let_def,
      cases "getIaOpcode i = BX_IA_ROR_Eb"; auto simp: ROR_EbR_def operand_form_simps Let_def simp del: drop_bit_or drop_bit_xor push_bit_or push_bit_xor)

lemma RCL_EbM_register_form:
  "operand_spec (read_RMW_virtual_byte (instr_seg i) (BX_CPU_RESOLVE_ADDR i (core s))) write_RMW_linear_byte ((shift_operand_count BX_IA_RCL_Eb i s AND 0x1f) mod 9 \<noteq> 0)
     (BX_READ_8BIT_REGx (operand_reg i) True) (BX_WRITE_8BIT_REGx (operand_reg i) True) (RCL_EbR (on_operand_reg i)) (RCL_EbM i) s"
  by (rule rmw8.operand_form, simp only: RCL_EbM_def with_core_apply laddr64_apply Let_def, simp, simp only: with_core_apply Let_def,
      cases "getIaOpcode i = BX_IA_RCL_Eb"; auto simp: RCL_EbR_def operand_form_simps Let_def simp del: drop_bit_or drop_bit_xor push_bit_or push_bit_xor)

lemma RCR_EbM_register_form:
  "operand_spec (read_RMW_virtual_byte (instr_seg i) (BX_CPU_RESOLVE_ADDR i (core s))) write_RMW_linear_byte ((shift_operand_count BX_IA_RCR_Eb i s AND 0x1f) mod 9 \<noteq> 0)
     (BX_READ_8BIT_REGx (operand_reg i) True) (BX_WRITE_8BIT_REGx (operand_reg i) True) (RCR_EbR (on_operand_reg i)) (RCR_EbM i) s"
  by (rule rmw8.operand_form, simp only: RCR_EbM_def with_core_apply laddr64_apply Let_def, simp, simp only: with_core_apply Let_def,
      cases "getIaOpcode i = BX_IA_RCR_Eb"; auto simp: RCR_EbR_def operand_form_simps Let_def simp del: drop_bit_or drop_bit_xor push_bit_or push_bit_xor)

lemma SHL_EbM_register_form:
  "operand_spec (read_RMW_virtual_byte (instr_seg i) (BX_CPU_RESOLVE_ADDR i (core s))) write_RMW_linear_byte (shift_operand_count BX_IA_SHL_Eb i s AND 0x1f \<noteq> 0)
     (BX_READ_8BIT_REGx (operand_reg i) True) (BX_WRITE_8BIT_REGx (operand_reg i) True) (SHL_EbR (on_operand_reg i)) (SHL_EbM i) s"
  by (rule rmw8.operand_form, simp only: SHL_EbM_def with_core_apply laddr64_apply Let_def, simp, simp only: with_core_apply Let_def,
      cases "getIaOpcode i = BX_IA_SHL_Eb"; auto simp: SHL_EbR_def operand_form_simps Let_def simp del: drop_bit_or drop_bit_xor push_bit_or push_bit_xor)

lemma SHR_EbM_register_form:
  "operand_spec (read_RMW_virtual_byte (instr_seg i) (BX_CPU_RESOLVE_ADDR i (core s))) write_RMW_linear_byte (shift_operand_count BX_IA_SHR_Eb i s AND 0x1f \<noteq> 0)
     (BX_READ_8BIT_REGx (operand_reg i) True) (BX_WRITE_8BIT_REGx (operand_reg i) True) (SHR_EbR (on_operand_reg i)) (SHR_EbM i) s"
  by (rule rmw8.operand_form, simp only: SHR_EbM_def with_core_apply laddr64_apply Let_def, simp, simp only: with_core_apply Let_def,
      cases "getIaOpcode i = BX_IA_SHR_Eb"; auto simp: SHR_EbR_def operand_form_simps Let_def simp del: drop_bit_or drop_bit_xor push_bit_or push_bit_xor)

lemma SAR_EbM_register_form:
  "operand_spec (read_RMW_virtual_byte (instr_seg i) (BX_CPU_RESOLVE_ADDR i (core s))) write_RMW_linear_byte (shift_operand_count BX_IA_SAR_Eb i s AND 0x1f \<noteq> 0)
     (BX_READ_8BIT_REGx (operand_reg i) True) (BX_WRITE_8BIT_REGx (operand_reg i) True) (SAR_EbR (on_operand_reg i)) (SAR_EbM i) s"
  by (rule rmw8.operand_form, simp only: SAR_EbM_def with_core_apply laddr64_apply Let_def, simp, simp only: with_core_apply Let_def,
      cases "getIaOpcode i = BX_IA_SAR_Eb"; auto simp: SAR_EbR_def operand_form_simps Let_def simp del: drop_bit_or drop_bit_xor push_bit_or push_bit_xor)

section \<open>Faults\<close>

lemmas shift8_mem_defs = ROL_EbM_def ROR_EbM_def RCL_EbM_def RCR_EbM_def SHL_EbM_def SHR_EbM_def SAR_EbM_def

lemma shift8_mem_precise:
  "precise (ROL_EbM i)"  "precise (ROR_EbM i)"  "precise (RCL_EbM i)"  "precise (RCR_EbM i)"  "precise (SHL_EbM i)"
  "precise (SHR_EbM i)"  "precise (SAR_EbM i)"
  unfolding shift8_mem_defs Let_def by (intro precise_intros)+

end
