(* ===== verification/Shift16.thy ===== *)
theory Shift16
  imports CpuState ScalarArith
begin

text \<open>
  The register forms of the 16-bit shift and rotate handlers of \<^verbatim>\<open>cpu/shift16.cc\<close>. The count comes from CL
  or from the immediate byte, depending on the opcode; most handlers return early when it is zero.
\<close>

section \<open>Handlers\<close>

definition ROL_EwR :: "bxInstruction_c \<Rightarrow> bx_cpu \<Rightarrow> bx_cpu" where
  "ROL_EwR i s =
    (let count = unat (if getIaOpcode i = BX_IA_ROL_Ew then CL s else Ib i);
         op1_16 = BX_READ_16BIT_REG (dst i) s
     in if count AND 0x0f = 0 then
          (if count AND 0x10 \<noteq> 0 then
             (let bit0 = ucast (op1_16 AND 1) :: Bit32u;
                  bit15 = ucast (drop_bit 15 op1_16)
              in upd_oszapc (set_flags_OxxxxC (bit0 XOR bit15) bit0) s)
           else s)
        else
          (let count = count AND 0x0f;
               result_16 = rol16 op1_16 count;
               s = BX_WRITE_16BIT_REG (dst i) result_16 s;
               bit0 = ucast (result_16 AND 1) :: Bit32u;
               bit15 = ucast (drop_bit 15 result_16)
           in upd_oszapc (set_flags_OxxxxC (bit0 XOR bit15) bit0) s))"

definition ROR_EwR :: "bxInstruction_c \<Rightarrow> bx_cpu \<Rightarrow> bx_cpu" where
  "ROR_EwR i s =
    (let count = unat (if getIaOpcode i = BX_IA_ROR_Ew then CL s else Ib i);
         op1_16 = BX_READ_16BIT_REG (dst i) s
     in if count AND 0x0f = 0 then
          (if count AND 0x10 \<noteq> 0 then
             (let bit14 = ucast (drop_bit 14 op1_16 AND 1) :: Bit32u;
                  bit15 = ucast (drop_bit 15 op1_16 AND 1)
              in upd_oszapc (set_flags_OxxxxC (bit14 XOR bit15) bit15) s)
           else s)
        else
          (let count = count AND 0x0f;
               result_16 = ror16 op1_16 count;
               s = BX_WRITE_16BIT_REG (dst i) result_16 s;
               bit14 = ucast (drop_bit 14 result_16 AND 1) :: Bit32u;
               bit15 = ucast (drop_bit 15 result_16 AND 1)
           in upd_oszapc (set_flags_OxxxxC (bit14 XOR bit15) bit15) s))"

definition RCL_EwR :: "bxInstruction_c \<Rightarrow> bx_cpu \<Rightarrow> bx_cpu" where
  "RCL_EwR i s =
    (let count = unat (if getIaOpcode i = BX_IA_RCL_Ew then CL s else Ib i);
         count = (count AND 0x1f) mod 17
     in if count = 0 then s
        else
          (let op1_16 = BX_READ_16BIT_REG (dst i) s;
               temp_CF = ucast (getB_CF (oszapc s)) :: Bit16u;
               result_16 = (if count = 1 then push_bit 1 op1_16 OR temp_CF
                  else if count = 16 then push_bit 15 temp_CF OR drop_bit 1 op1_16
                  else push_bit count op1_16 OR push_bit (count - 1) temp_CF OR drop_bit (17 - count) op1_16);
               s = BX_WRITE_16BIT_REG (dst i) result_16 s;
               cf = ucast (drop_bit (16 - count) op1_16 AND 0x1) :: Bit32u;
               ovf = cf XOR (ucast (drop_bit 15 result_16))
           in upd_oszapc (set_flags_OxxxxC ovf cf) s))"

definition RCR_EwR :: "bxInstruction_c \<Rightarrow> bx_cpu \<Rightarrow> bx_cpu" where
  "RCR_EwR i s =
    (let count = unat (if getIaOpcode i = BX_IA_RCR_Ew then CL s else Ib i);
         count = (count AND 0x1f) mod 17
     in if count = 0 then s
        else
          (let op1_16 = BX_READ_16BIT_REG (dst i) s;
               temp_CF = ucast (getB_CF (oszapc s)) :: Bit16u;
               result_16 = drop_bit count op1_16 OR push_bit (16 - count) temp_CF OR push_bit (17 - count) op1_16;
               s = BX_WRITE_16BIT_REG (dst i) result_16 s;
               cf = ucast (drop_bit (count - 1) op1_16 AND 0x1) :: Bit32u;
               ovf = ucast (drop_bit 15 (push_bit 1 result_16 XOR result_16) AND 0x1)
           in upd_oszapc (set_flags_OxxxxC ovf cf) s))"

definition SHL_EwR :: "bxInstruction_c \<Rightarrow> bx_cpu \<Rightarrow> bx_cpu" where
  "SHL_EwR i s =
    (let count = unat (if getIaOpcode i = BX_IA_SHL_Ew then CL s else Ib i);
         count = count AND 0x1f
     in if count = 0 then s
        else
          (let op1_16 = BX_READ_16BIT_REG (dst i) s;
               result_16 = (if count \<le> 16 then push_bit count op1_16 else 0);
               cf = (if count \<le> 16 then ucast (drop_bit (16 - count) op1_16 AND 0x1) else 0) :: Bit32u;
               ovf = (if count \<le> 16 then cf XOR ucast (drop_bit 15 result_16) else 0);
               s = BX_WRITE_16BIT_REG (dst i) result_16 s;
               s = upd_oszapc (SET_FLAGS_OSZAPC_LOGIC_16 (ucast result_16)) s
           in upd_oszapc (set_flags_OxxxxC ovf cf) s))"

definition SHR_EwR :: "bxInstruction_c \<Rightarrow> bx_cpu \<Rightarrow> bx_cpu" where
  "SHR_EwR i s =
    (let count = unat (if getIaOpcode i = BX_IA_SHR_Ew then CL s else Ib i);
         count = count AND 0x1f
     in if count = 0 then s
        else
          (let op1_16 = BX_READ_16BIT_REG (dst i) s;
               result_16 = drop_bit count op1_16;
               s = BX_WRITE_16BIT_REG (dst i) result_16 s;
               cf = ucast (drop_bit (count - 1) op1_16 AND 0x1) :: Bit32u;
               ovf = ucast (drop_bit 15 (push_bit 1 result_16 XOR result_16) AND 0x1);
               s = upd_oszapc (SET_FLAGS_OSZAPC_LOGIC_16 (ucast result_16)) s
           in upd_oszapc (set_flags_OxxxxC ovf cf) s))"

definition SAR_EwR :: "bxInstruction_c \<Rightarrow> bx_cpu \<Rightarrow> bx_cpu" where
  "SAR_EwR i s =
    (let count = unat (if getIaOpcode i = BX_IA_SAR_Ew then CL s else Ib i);
         count = count AND 0x1f
     in if count = 0 then s
        else
          (let op1_16 = BX_READ_16BIT_REG (dst i) s;
               result_16 = signed_drop_bit count op1_16;
               s = BX_WRITE_16BIT_REG (dst i) result_16 s;
               cf = ucast (signed_drop_bit (count - 1) op1_16 AND 0x1) :: Bit32u;
               s = upd_oszapc (SET_FLAGS_OSZAPC_LOGIC_16 (ucast result_16)) s
           in upd_oszapc (set_flags_OxxxxC 0 cf) s))"

definition SHLD_EwGwR :: "bxInstruction_c \<Rightarrow> bx_cpu \<Rightarrow> bx_cpu" where
  "SHLD_EwGwR i s =
    (let count = unat (if getIaOpcode i = BX_IA_SHLD_EwGw then CL s else Ib i);
         count = count AND 0x1f
     in if count = 0 then s
        else
          (let op1_16 = ucast (BX_READ_16BIT_REG (dst i) s) :: Bit32u;
               op2_16 = ucast (BX_READ_16BIT_REG (src i) s) :: Bit32u;
               temp_32 = push_bit 16 op1_16 OR op2_16;
               result_32 = push_bit count temp_32;
               result_32 = (if count > 16 then result_32 OR push_bit (count - 16) op1_16 else result_32);
               result_16 = ucast (drop_bit 16 result_32) :: Bit16u;
               s = BX_WRITE_16BIT_REG (dst i) result_16 s;
               s = upd_oszapc (SET_FLAGS_OSZAPC_LOGIC_16 (ucast result_16)) s;
               cf = drop_bit (32 - count) temp_32 AND 0x1;
               ovf = cf XOR ucast (drop_bit 15 result_16)
           in upd_oszapc (set_flags_OxxxxC ovf cf) s))"

definition SHRD_EwGwR :: "bxInstruction_c \<Rightarrow> bx_cpu \<Rightarrow> bx_cpu" where
  "SHRD_EwGwR i s =
    (let count = unat (if getIaOpcode i = BX_IA_SHRD_EwGw then CL s else Ib i);
         count = count AND 0x1f
     in if count = 0 then s
        else
          (let op1_16 = ucast (BX_READ_16BIT_REG (dst i) s) :: Bit32u;
               op2_16 = ucast (BX_READ_16BIT_REG (src i) s) :: Bit32u;
               temp_32 = push_bit 16 op2_16 OR op1_16;
               result_32 = drop_bit count temp_32;
               result_32 = (if count > 16 then result_32 OR push_bit (32 - count) op1_16 else result_32);
               result_16 = ucast result_32 :: Bit16u;
               s = BX_WRITE_16BIT_REG (dst i) result_16 s;
               s = upd_oszapc (SET_FLAGS_OSZAPC_LOGIC_16 (ucast result_16)) s;
               cf = drop_bit (count - 1) op1_16 AND 0x1;
               ovf = ucast (drop_bit 15 (push_bit 1 result_16 XOR result_16) AND 0x1);
               cf = (if count > 16 then drop_bit (count - 17) op2_16 AND 0x1 else cf)
           in upd_oszapc (set_flags_OxxxxC ovf cf) s))"

end
