(* ===== verification/ShiftMem16.thy ===== *)
theory ShiftMem16
  imports MemOperand Shift16
begin

text \<open>
  The memory forms of the 16-bit shifts and rotates of \<^verbatim>\<open>cpu/shift16.cc\<close>.  The operand is read for writing even when the
  count is zero; it is written back only when the masked count is not.
\<close>

section \<open>Handlers\<close>

definition ROL_EwM :: "bxInstruction_c \<Rightarrow> unit sys_op" where
  "ROL_EwM i = with_core (\<lambda>c.
    let count = unat (if getIaOpcode i = BX_IA_ROL_Ew then CL c else Ib i); eaddr = BX_CPU_RESOLVE_ADDR i c in
    and_then (read_RMW_virtual_word (instr_seg i) eaddr) (\<lambda>m.
    with_core (\<lambda>c.
      let op1_16 = m
      in if count AND 0x0f = 0 then 
          (if count AND 0x10 \<noteq> 0 then
            (let bit0 = ucast (op1_16 AND 1) :: Bit32u;
                 bit15 = ucast (drop_bit 15 op1_16)
             in on_core (upd_oszapc (set_flags_OxxxxC (bit0 XOR bit15) bit0)))
           else sys_return ())
         else
          (let count = count AND 0x0f;
             result_16 = rol16 op1_16 count;
             bit0 = ucast (result_16 AND 1) :: Bit32u;
             bit15 = ucast (drop_bit 15 result_16)
           in and_then (write_RMW_linear_word result_16) (\<lambda>_. on_core (upd_oszapc (set_flags_OxxxxC (bit0 XOR bit15) bit0)))))))"

definition ROR_EwM :: "bxInstruction_c \<Rightarrow> unit sys_op" where
  "ROR_EwM i = with_core (\<lambda>c.
    let count = unat (if getIaOpcode i = BX_IA_ROR_Ew then CL c else Ib i); eaddr = BX_CPU_RESOLVE_ADDR i c in
    and_then (read_RMW_virtual_word (instr_seg i) eaddr) (\<lambda>m.
    with_core (\<lambda>c.
      let op1_16 = m
      in if count AND 0x0f = 0 then 
          (if count AND 0x10 \<noteq> 0 then
            (let bit14 = ucast (drop_bit 14 op1_16 AND 1) :: Bit32u;
                 bit15 = ucast (drop_bit 15 op1_16 AND 1)
             in on_core (upd_oszapc (set_flags_OxxxxC (bit14 XOR bit15) bit15)))
           else sys_return ())
         else
          (let count = count AND 0x0f;
             result_16 = ror16 op1_16 count;
             bit14 = ucast (drop_bit 14 result_16 AND 1) :: Bit32u;
             bit15 = ucast (drop_bit 15 result_16 AND 1)
           in and_then (write_RMW_linear_word result_16) (\<lambda>_. on_core (upd_oszapc (set_flags_OxxxxC (bit14 XOR bit15) bit15)))))))"

definition RCL_EwM :: "bxInstruction_c \<Rightarrow> unit sys_op" where
  "RCL_EwM i = with_core (\<lambda>c.
    let count = unat (if getIaOpcode i = BX_IA_RCL_Ew then CL c else Ib i); eaddr = BX_CPU_RESOLVE_ADDR i c in
    and_then (read_RMW_virtual_word (instr_seg i) eaddr) (\<lambda>m.
    with_core (\<lambda>c.
      let count = (count AND 0x1f) mod 17
      in if count = 0 then sys_return ()
         else
          (let op1_16 = m;
             temp_CF = ucast (getB_CF (oszapc c)) :: Bit16u;
             result_16 = (if count = 1 then push_bit 1 op1_16 OR temp_CF
             else if count = 16 then push_bit 15 temp_CF OR drop_bit 1 op1_16
             else push_bit count op1_16 OR push_bit (count - 1) temp_CF OR drop_bit (17 - count) op1_16);
             cf = ucast (drop_bit (16 - count) op1_16 AND 0x1) :: Bit32u;
             ovf = cf XOR (ucast (drop_bit 15 result_16))
           in and_then (write_RMW_linear_word result_16) (\<lambda>_. on_core (upd_oszapc (set_flags_OxxxxC ovf cf)))))))"

definition RCR_EwM :: "bxInstruction_c \<Rightarrow> unit sys_op" where
  "RCR_EwM i = with_core (\<lambda>c.
    let count = unat (if getIaOpcode i = BX_IA_RCR_Ew then CL c else Ib i); eaddr = BX_CPU_RESOLVE_ADDR i c in
    and_then (read_RMW_virtual_word (instr_seg i) eaddr) (\<lambda>m.
    with_core (\<lambda>c.
      let count = (count AND 0x1f) mod 17
      in if count = 0 then sys_return ()
         else
          (let op1_16 = m;
             temp_CF = ucast (getB_CF (oszapc c)) :: Bit16u;
             result_16 = drop_bit count op1_16 OR push_bit (16 - count) temp_CF OR push_bit (17 - count) op1_16;
             cf = ucast (drop_bit (count - 1) op1_16 AND 0x1) :: Bit32u;
             ovf = ucast (drop_bit 15 (push_bit 1 result_16 XOR result_16) AND 0x1)
           in and_then (write_RMW_linear_word result_16) (\<lambda>_. on_core (upd_oszapc (set_flags_OxxxxC ovf cf)))))))"

definition SHL_EwM :: "bxInstruction_c \<Rightarrow> unit sys_op" where
  "SHL_EwM i = with_core (\<lambda>c.
    let count = unat (if getIaOpcode i = BX_IA_SHL_Ew then CL c else Ib i); eaddr = BX_CPU_RESOLVE_ADDR i c in
    and_then (read_RMW_virtual_word (instr_seg i) eaddr) (\<lambda>m.
    with_core (\<lambda>c.
      let count = count AND 0x1f
      in if count = 0 then sys_return ()
         else
          (let op1_16 = m;
             result_16 = (if count \<le> 16 then push_bit count op1_16 else 0);
             cf = (if count \<le> 16 then ucast (drop_bit (16 - count) op1_16 AND 0x1) else 0) :: Bit32u;
             ovf = (if count \<le> 16 then cf XOR ucast (drop_bit 15 result_16) else 0)
           in and_then (write_RMW_linear_word result_16) (\<lambda>_. on_core (\<lambda>c. upd_oszapc (set_flags_OxxxxC ovf cf) (upd_oszapc (SET_FLAGS_OSZAPC_LOGIC_16 (ucast result_16)) c)))))))"

definition SHR_EwM :: "bxInstruction_c \<Rightarrow> unit sys_op" where
  "SHR_EwM i = with_core (\<lambda>c.
    let count = unat (if getIaOpcode i = BX_IA_SHR_Ew then CL c else Ib i); eaddr = BX_CPU_RESOLVE_ADDR i c in
    and_then (read_RMW_virtual_word (instr_seg i) eaddr) (\<lambda>m.
    with_core (\<lambda>c.
      let count = count AND 0x1f
      in if count = 0 then sys_return ()
         else
          (let op1_16 = m;
             result_16 = drop_bit count op1_16;
             cf = ucast (drop_bit (count - 1) op1_16 AND 0x1) :: Bit32u;
             ovf = ucast (drop_bit 15 (push_bit 1 result_16 XOR result_16) AND 0x1)
           in and_then (write_RMW_linear_word result_16) (\<lambda>_. on_core (\<lambda>c. upd_oszapc (set_flags_OxxxxC ovf cf) (upd_oszapc (SET_FLAGS_OSZAPC_LOGIC_16 (ucast result_16)) c)))))))"

definition SAR_EwM :: "bxInstruction_c \<Rightarrow> unit sys_op" where
  "SAR_EwM i = with_core (\<lambda>c.
    let count = unat (if getIaOpcode i = BX_IA_SAR_Ew then CL c else Ib i); eaddr = BX_CPU_RESOLVE_ADDR i c in
    and_then (read_RMW_virtual_word (instr_seg i) eaddr) (\<lambda>m.
    with_core (\<lambda>c.
      let count = count AND 0x1f
      in if count = 0 then sys_return ()
         else
          (let op1_16 = m;
             result_16 = signed_drop_bit count op1_16;
             cf = ucast (signed_drop_bit (count - 1) op1_16 AND 0x1) :: Bit32u
           in and_then (write_RMW_linear_word result_16) (\<lambda>_. on_core (\<lambda>c. upd_oszapc (set_flags_OxxxxC 0 cf) (upd_oszapc (SET_FLAGS_OSZAPC_LOGIC_16 (ucast result_16)) c)))))))"

definition SHLD_EwGwM :: "bxInstruction_c \<Rightarrow> unit sys_op" where
  "SHLD_EwGwM i = with_core (\<lambda>c.
    let count = unat (if getIaOpcode i = BX_IA_SHLD_EwGw then CL c else Ib i); eaddr = BX_CPU_RESOLVE_ADDR i c in
    and_then (read_RMW_virtual_word (instr_seg i) eaddr) (\<lambda>m.
    with_core (\<lambda>c.
      let count = count AND 0x1f
      in if count = 0 then sys_return ()
         else
          (let op1_16 = ucast m :: Bit32u;
             op2_16 = ucast (BX_READ_16BIT_REG (src i) c) :: Bit32u;
             temp_32 = push_bit 16 op1_16 OR op2_16;
             result_32 = push_bit count temp_32;
             result_32 = (if count > 16 then result_32 OR push_bit (count - 16) op1_16 else result_32);
             result_16 = ucast (drop_bit 16 result_32) :: Bit16u;
             cf = drop_bit (32 - count) temp_32 AND 0x1;
             ovf = cf XOR ucast (drop_bit 15 result_16)
           in and_then (write_RMW_linear_word result_16) (\<lambda>_. on_core (\<lambda>c. upd_oszapc (set_flags_OxxxxC ovf cf) (upd_oszapc (SET_FLAGS_OSZAPC_LOGIC_16 (ucast result_16)) c)))))))"

definition SHRD_EwGwM :: "bxInstruction_c \<Rightarrow> unit sys_op" where
  "SHRD_EwGwM i = with_core (\<lambda>c.
    let count = unat (if getIaOpcode i = BX_IA_SHRD_EwGw then CL c else Ib i); eaddr = BX_CPU_RESOLVE_ADDR i c in
    and_then (read_RMW_virtual_word (instr_seg i) eaddr) (\<lambda>m.
    with_core (\<lambda>c.
      let count = count AND 0x1f
      in if count = 0 then sys_return ()
         else
          (let op1_16 = ucast m :: Bit32u;
             op2_16 = ucast (BX_READ_16BIT_REG (src i) c) :: Bit32u;
             temp_32 = push_bit 16 op2_16 OR op1_16;
             result_32 = drop_bit count temp_32;
             result_32 = (if count > 16 then result_32 OR push_bit (32 - count) op1_16 else result_32);
             result_16 = ucast result_32 :: Bit16u;
             cf = drop_bit (count - 1) op1_16 AND 0x1;
             ovf = ucast (drop_bit 15 (push_bit 1 result_16 XOR result_16) AND 0x1);
             cf = (if count > 16 then drop_bit (count - 17) op2_16 AND 0x1 else cf)
           in and_then (write_RMW_linear_word result_16) (\<lambda>_. on_core (\<lambda>c. upd_oszapc (set_flags_OxxxxC ovf cf) (upd_oszapc (SET_FLAGS_OSZAPC_LOGIC_16 (ucast result_16)) c)))))))"

section \<open>The memory forms are the register forms on the operand\<close>

lemma ROL_EwM_register_form:
  "operand_spec (read_RMW_virtual_word (instr_seg i) (BX_CPU_RESOLVE_ADDR i (core s))) write_RMW_linear_word (shift_operand_count BX_IA_ROL_Ew i s AND 0x0f \<noteq> 0)
     (BX_READ_16BIT_REG (operand_reg i)) (BX_WRITE_16BIT_REG (operand_reg i)) (ROL_EwR (on_operand_reg i)) (ROL_EwM i) s"
  by (rule rmw16.operand_form, simp only: ROL_EwM_def with_core_apply laddr64_apply Let_def, simp, simp only: with_core_apply Let_def,
      cases "getIaOpcode i = BX_IA_ROL_Ew"; auto simp: ROL_EwR_def operand_form_simps Let_def simp del: drop_bit_or drop_bit_xor push_bit_or push_bit_xor)

lemma ROR_EwM_register_form:
  "operand_spec (read_RMW_virtual_word (instr_seg i) (BX_CPU_RESOLVE_ADDR i (core s))) write_RMW_linear_word (shift_operand_count BX_IA_ROR_Ew i s AND 0x0f \<noteq> 0)
     (BX_READ_16BIT_REG (operand_reg i)) (BX_WRITE_16BIT_REG (operand_reg i)) (ROR_EwR (on_operand_reg i)) (ROR_EwM i) s"
  by (rule rmw16.operand_form, simp only: ROR_EwM_def with_core_apply laddr64_apply Let_def, simp, simp only: with_core_apply Let_def,
      cases "getIaOpcode i = BX_IA_ROR_Ew"; auto simp: ROR_EwR_def operand_form_simps Let_def simp del: drop_bit_or drop_bit_xor push_bit_or push_bit_xor)

lemma RCL_EwM_register_form:
  "operand_spec (read_RMW_virtual_word (instr_seg i) (BX_CPU_RESOLVE_ADDR i (core s))) write_RMW_linear_word ((shift_operand_count BX_IA_RCL_Ew i s AND 0x1f) mod 17 \<noteq> 0)
     (BX_READ_16BIT_REG (operand_reg i)) (BX_WRITE_16BIT_REG (operand_reg i)) (RCL_EwR (on_operand_reg i)) (RCL_EwM i) s"
  by (rule rmw16.operand_form, simp only: RCL_EwM_def with_core_apply laddr64_apply Let_def, simp, simp only: with_core_apply Let_def,
      cases "getIaOpcode i = BX_IA_RCL_Ew"; auto simp: RCL_EwR_def operand_form_simps Let_def simp del: drop_bit_or drop_bit_xor push_bit_or push_bit_xor)

lemma RCR_EwM_register_form:
  "operand_spec (read_RMW_virtual_word (instr_seg i) (BX_CPU_RESOLVE_ADDR i (core s))) write_RMW_linear_word ((shift_operand_count BX_IA_RCR_Ew i s AND 0x1f) mod 17 \<noteq> 0)
     (BX_READ_16BIT_REG (operand_reg i)) (BX_WRITE_16BIT_REG (operand_reg i)) (RCR_EwR (on_operand_reg i)) (RCR_EwM i) s"
  by (rule rmw16.operand_form, simp only: RCR_EwM_def with_core_apply laddr64_apply Let_def, simp, simp only: with_core_apply Let_def,
      cases "getIaOpcode i = BX_IA_RCR_Ew"; auto simp: RCR_EwR_def operand_form_simps Let_def simp del: drop_bit_or drop_bit_xor push_bit_or push_bit_xor)

lemma SHL_EwM_register_form:
  "operand_spec (read_RMW_virtual_word (instr_seg i) (BX_CPU_RESOLVE_ADDR i (core s))) write_RMW_linear_word (shift_operand_count BX_IA_SHL_Ew i s AND 0x1f \<noteq> 0)
     (BX_READ_16BIT_REG (operand_reg i)) (BX_WRITE_16BIT_REG (operand_reg i)) (SHL_EwR (on_operand_reg i)) (SHL_EwM i) s"
  by (rule rmw16.operand_form, simp only: SHL_EwM_def with_core_apply laddr64_apply Let_def, simp, simp only: with_core_apply Let_def,
      cases "getIaOpcode i = BX_IA_SHL_Ew"; auto simp: SHL_EwR_def operand_form_simps Let_def simp del: drop_bit_or drop_bit_xor push_bit_or push_bit_xor)

lemma SHR_EwM_register_form:
  "operand_spec (read_RMW_virtual_word (instr_seg i) (BX_CPU_RESOLVE_ADDR i (core s))) write_RMW_linear_word (shift_operand_count BX_IA_SHR_Ew i s AND 0x1f \<noteq> 0)
     (BX_READ_16BIT_REG (operand_reg i)) (BX_WRITE_16BIT_REG (operand_reg i)) (SHR_EwR (on_operand_reg i)) (SHR_EwM i) s"
  by (rule rmw16.operand_form, simp only: SHR_EwM_def with_core_apply laddr64_apply Let_def, simp, simp only: with_core_apply Let_def,
      cases "getIaOpcode i = BX_IA_SHR_Ew"; auto simp: SHR_EwR_def operand_form_simps Let_def simp del: drop_bit_or drop_bit_xor push_bit_or push_bit_xor)

lemma SAR_EwM_register_form:
  "operand_spec (read_RMW_virtual_word (instr_seg i) (BX_CPU_RESOLVE_ADDR i (core s))) write_RMW_linear_word (shift_operand_count BX_IA_SAR_Ew i s AND 0x1f \<noteq> 0)
     (BX_READ_16BIT_REG (operand_reg i)) (BX_WRITE_16BIT_REG (operand_reg i)) (SAR_EwR (on_operand_reg i)) (SAR_EwM i) s"
  by (rule rmw16.operand_form, simp only: SAR_EwM_def with_core_apply laddr64_apply Let_def, simp, simp only: with_core_apply Let_def,
      cases "getIaOpcode i = BX_IA_SAR_Ew"; auto simp: SAR_EwR_def operand_form_simps Let_def simp del: drop_bit_or drop_bit_xor push_bit_or push_bit_xor)

lemma SHLD_EwGwM_register_form:
  "operand_spec (read_RMW_virtual_word (instr_seg i) (BX_CPU_RESOLVE_ADDR i (core s))) write_RMW_linear_word (shift_operand_count BX_IA_SHLD_EwGw i s AND 0x1f \<noteq> 0)
     (BX_READ_16BIT_REG (operand_reg i)) (BX_WRITE_16BIT_REG (operand_reg i)) (SHLD_EwGwR (on_operand_reg i)) (SHLD_EwGwM i) s"
  by (rule rmw16.operand_form, simp only: SHLD_EwGwM_def with_core_apply laddr64_apply Let_def, simp, simp only: with_core_apply Let_def,
      cases "getIaOpcode i = BX_IA_SHLD_EwGw"; auto simp: SHLD_EwGwR_def operand_form_simps Let_def simp del: drop_bit_or drop_bit_xor push_bit_or push_bit_xor)

lemma SHRD_EwGwM_register_form:
  "operand_spec (read_RMW_virtual_word (instr_seg i) (BX_CPU_RESOLVE_ADDR i (core s))) write_RMW_linear_word (shift_operand_count BX_IA_SHRD_EwGw i s AND 0x1f \<noteq> 0)
     (BX_READ_16BIT_REG (operand_reg i)) (BX_WRITE_16BIT_REG (operand_reg i)) (SHRD_EwGwR (on_operand_reg i)) (SHRD_EwGwM i) s"
  by (rule rmw16.operand_form, simp only: SHRD_EwGwM_def with_core_apply laddr64_apply Let_def, simp, simp only: with_core_apply Let_def,
      cases "getIaOpcode i = BX_IA_SHRD_EwGw"; auto simp: SHRD_EwGwR_def operand_form_simps Let_def simp del: drop_bit_or drop_bit_xor push_bit_or push_bit_xor)

section \<open>Faults\<close>

lemmas shift16_mem_defs = ROL_EwM_def ROR_EwM_def RCL_EwM_def RCR_EwM_def SHL_EwM_def SHR_EwM_def SAR_EwM_def SHLD_EwGwM_def SHRD_EwGwM_def

lemma shift16_mem_precise:
  "precise (ROL_EwM i)"  "precise (ROR_EwM i)"  "precise (RCL_EwM i)"  "precise (RCR_EwM i)"  "precise (SHL_EwM i)"
  "precise (SHR_EwM i)"  "precise (SAR_EwM i)"  "precise (SHLD_EwGwM i)"  "precise (SHRD_EwGwM i)"
  unfolding shift16_mem_defs Let_def by (intro precise_intros)+

end
