(* ===== verification/Shift32.thy ===== *)
theory Shift32
  imports CpuState ScalarArith
begin

text \<open>
  The register forms of the 32-bit shift and rotate handlers of \<^verbatim>\<open>cpu/shift32.cc\<close>. The count comes from CL
  or from the immediate byte, depending on the opcode; most handlers return early when it is zero.
\<close>

section \<open>Handlers\<close>

definition ROL_EdR :: "bxInstruction_c \<Rightarrow> bx_cpu \<Rightarrow> bx_cpu" where
  "ROL_EdR i s =
    (let count = unat (if getIaOpcode i = BX_IA_ROL_Ed then CL s else Ib i);
         count = count AND 0x1f
     in if count = 0 then BX_CLEAR_64BIT_HIGH (dst i) s
        else
          (let op1_32 = BX_READ_32BIT_REG (dst i) s;
               result_32 = rol32 op1_32 count;
               s = BX_WRITE_32BIT_REGZ (dst i) result_32 s;
               bit0 = result_32 AND 1 :: Bit32u;
               bit31 = drop_bit 31 result_32
           in upd_oszapc (set_flags_OxxxxC (bit0 XOR bit31) bit0) s))"

definition ROR_EdR :: "bxInstruction_c \<Rightarrow> bx_cpu \<Rightarrow> bx_cpu" where
  "ROR_EdR i s =
    (let count = unat (if getIaOpcode i = BX_IA_ROR_Ed then CL s else Ib i);
         count = count AND 0x1f
     in if count = 0 then BX_CLEAR_64BIT_HIGH (dst i) s
        else
          (let op1_32 = BX_READ_32BIT_REG (dst i) s;
               result_32 = ror32 op1_32 count;
               s = BX_WRITE_32BIT_REGZ (dst i) result_32 s;
               bit31 = drop_bit 31 result_32 AND 1 :: Bit32u;
               bit30 = drop_bit 30 result_32 AND 1
           in upd_oszapc (set_flags_OxxxxC (bit30 XOR bit31) bit31) s))"

definition RCL_EdR :: "bxInstruction_c \<Rightarrow> bx_cpu \<Rightarrow> bx_cpu" where
  "RCL_EdR i s =
    (let count = unat (if getIaOpcode i = BX_IA_RCL_Ed then CL s else Ib i);
         count = count AND 0x1f
     in if count = 0 then BX_CLEAR_64BIT_HIGH (dst i) s
        else
          (let op1_32 = BX_READ_32BIT_REG (dst i) s;
               temp_CF = getB_CF (oszapc s);
               result_32 = (if count = 1 then push_bit 1 op1_32 OR temp_CF
                  else push_bit count op1_32 OR push_bit (count - 1) temp_CF OR drop_bit (33 - count) op1_32);
               s = BX_WRITE_32BIT_REGZ (dst i) result_32 s;
               cf = drop_bit (32 - count) op1_32 AND 0x1 :: Bit32u;
               ovf = cf XOR drop_bit 31 result_32
           in upd_oszapc (set_flags_OxxxxC ovf cf) s))"

definition RCR_EdR :: "bxInstruction_c \<Rightarrow> bx_cpu \<Rightarrow> bx_cpu" where
  "RCR_EdR i s =
    (let count = unat (if getIaOpcode i = BX_IA_RCR_Ed then CL s else Ib i);
         count = count AND 0x1f
     in if count = 0 then BX_CLEAR_64BIT_HIGH (dst i) s
        else
          (let op1_32 = BX_READ_32BIT_REG (dst i) s;
               temp_CF = getB_CF (oszapc s);
               result_32 = (if count = 1 then drop_bit 1 op1_32 OR push_bit 31 temp_CF
                  else drop_bit count op1_32 OR push_bit (32 - count) temp_CF OR push_bit (33 - count) op1_32);
               s = BX_WRITE_32BIT_REGZ (dst i) result_32 s;
               cf = drop_bit (count - 1) op1_32 AND 0x1 :: Bit32u;
               ovf = drop_bit 31 (push_bit 1 result_32 XOR result_32)
           in upd_oszapc (set_flags_OxxxxC ovf cf) s))"

definition SHL_EdR :: "bxInstruction_c \<Rightarrow> bx_cpu \<Rightarrow> bx_cpu" where
  "SHL_EdR i s =
    (let count = unat (if getIaOpcode i = BX_IA_SHL_Ed then CL s else Ib i);
         count = count AND 0x1f
     in if count = 0 then BX_CLEAR_64BIT_HIGH (dst i) s
        else
          (let op1_32 = BX_READ_32BIT_REG (dst i) s;
               result_32 = push_bit count op1_32;
               s = BX_WRITE_32BIT_REGZ (dst i) result_32 s;
               cf = drop_bit (32 - count) op1_32 AND 0x1 :: Bit32u;
               ovf = cf XOR drop_bit 31 result_32;
               s = upd_oszapc (SET_FLAGS_OSZAPC_LOGIC_32 result_32) s
           in upd_oszapc (set_flags_OxxxxC ovf cf) s))"

definition SHR_EdR :: "bxInstruction_c \<Rightarrow> bx_cpu \<Rightarrow> bx_cpu" where
  "SHR_EdR i s =
    (let count = unat (if getIaOpcode i = BX_IA_SHR_Ed then CL s else Ib i);
         count = count AND 0x1f
     in if count = 0 then BX_CLEAR_64BIT_HIGH (dst i) s
        else
          (let op1_32 = BX_READ_32BIT_REG (dst i) s;
               result_32 = drop_bit count op1_32;
               s = BX_WRITE_32BIT_REGZ (dst i) result_32 s;
               cf = drop_bit (count - 1) op1_32 AND 0x1 :: Bit32u;
               ovf = drop_bit 31 (push_bit 1 result_32 XOR result_32);
               s = upd_oszapc (SET_FLAGS_OSZAPC_LOGIC_32 result_32) s
           in upd_oszapc (set_flags_OxxxxC ovf cf) s))"

definition SAR_EdR :: "bxInstruction_c \<Rightarrow> bx_cpu \<Rightarrow> bx_cpu" where
  "SAR_EdR i s =
    (let count = unat (if getIaOpcode i = BX_IA_SAR_Ed then CL s else Ib i);
         count = count AND 0x1f
     in if count = 0 then BX_CLEAR_64BIT_HIGH (dst i) s
        else
          (let op1_32 = BX_READ_32BIT_REG (dst i) s;
               result_32 = signed_drop_bit count op1_32;
               s = BX_WRITE_32BIT_REGZ (dst i) result_32 s;
               cf = drop_bit (count - 1) op1_32 AND 0x1 :: Bit32u;
               s = upd_oszapc (SET_FLAGS_OSZAPC_LOGIC_32 result_32) s
           in upd_oszapc (set_flags_OxxxxC 0 cf) s))"

definition SHLD_EdGdR :: "bxInstruction_c \<Rightarrow> bx_cpu \<Rightarrow> bx_cpu" where
  "SHLD_EdGdR i s =
    (let count = unat (if getIaOpcode i = BX_IA_SHLD_EdGd then CL s else Ib i);
         count = count AND 0x1f
     in if count = 0 then BX_CLEAR_64BIT_HIGH (dst i) s
        else
          (let op1_32 = BX_READ_32BIT_REG (dst i) s;
               op2_32 = BX_READ_32BIT_REG (src i) s;
               result_32 = push_bit count op1_32 OR drop_bit (32 - count) op2_32;
               s = BX_WRITE_32BIT_REGZ (dst i) result_32 s;
               s = upd_oszapc (SET_FLAGS_OSZAPC_LOGIC_32 result_32) s;
               cf = drop_bit (32 - count) op1_32 AND 0x1 :: Bit32u;
               ovf = cf XOR drop_bit 31 result_32
           in upd_oszapc (set_flags_OxxxxC ovf cf) s))"

definition SHRD_EdGdR :: "bxInstruction_c \<Rightarrow> bx_cpu \<Rightarrow> bx_cpu" where
  "SHRD_EdGdR i s =
    (let count = unat (if getIaOpcode i = BX_IA_SHRD_EdGd then CL s else Ib i);
         count = count AND 0x1f
     in if count = 0 then BX_CLEAR_64BIT_HIGH (dst i) s
        else
          (let op1_32 = BX_READ_32BIT_REG (dst i) s;
               op2_32 = BX_READ_32BIT_REG (src i) s;
               result_32 = push_bit (32 - count) op2_32 OR drop_bit count op1_32;
               s = BX_WRITE_32BIT_REGZ (dst i) result_32 s;
               s = upd_oszapc (SET_FLAGS_OSZAPC_LOGIC_32 result_32) s;
               cf = drop_bit (count - 1) op1_32 AND 0x1 :: Bit32u;
               ovf = drop_bit 31 (push_bit 1 result_32 XOR result_32)
           in upd_oszapc (set_flags_OxxxxC ovf cf) s))"

end
