(* ===== verification/ShiftMem32.thy ===== *)
theory ShiftMem32
  imports MemOperand Shift32
begin

text \<open>
  The memory forms of the 32-bit shifts and rotates of \<^verbatim>\<open>cpu/shift32.cc\<close>.  The operand is read for writing even when the
  count is zero; it is written back only when the masked count is not.
\<close>

section \<open>Handlers\<close>

definition ROL_EdM :: "bxInstruction_c \<Rightarrow> unit sys_op" where
  "ROL_EdM i = with_core (\<lambda>c.
    let count = unat (if getIaOpcode i = BX_IA_ROL_Ed then CL c else Ib i); eaddr = BX_CPU_RESOLVE_ADDR i c in
    and_then (read_RMW_virtual_dword (instr_seg i) eaddr) (\<lambda>m.
    with_core (\<lambda>c.
      let count = count AND 0x1f
      in if count = 0 then sys_return ()
         else
          (let op1_32 = m;
             result_32 = rol32 op1_32 count;
             bit0 = result_32 AND 1 :: Bit32u;
             bit31 = drop_bit 31 result_32
           in and_then (write_RMW_linear_dword result_32) (\<lambda>_. on_core (upd_oszapc (set_flags_OxxxxC (bit0 XOR bit31) bit0)))))))"

definition ROR_EdM :: "bxInstruction_c \<Rightarrow> unit sys_op" where
  "ROR_EdM i = with_core (\<lambda>c.
    let count = unat (if getIaOpcode i = BX_IA_ROR_Ed then CL c else Ib i); eaddr = BX_CPU_RESOLVE_ADDR i c in
    and_then (read_RMW_virtual_dword (instr_seg i) eaddr) (\<lambda>m.
    with_core (\<lambda>c.
      let count = count AND 0x1f
      in if count = 0 then sys_return ()
         else
          (let op1_32 = m;
             result_32 = ror32 op1_32 count;
             bit31 = drop_bit 31 result_32 AND 1 :: Bit32u;
             bit30 = drop_bit 30 result_32 AND 1
           in and_then (write_RMW_linear_dword result_32) (\<lambda>_. on_core (upd_oszapc (set_flags_OxxxxC (bit30 XOR bit31) bit31)))))))"

definition RCL_EdM :: "bxInstruction_c \<Rightarrow> unit sys_op" where
  "RCL_EdM i = with_core (\<lambda>c.
    let count = unat (if getIaOpcode i = BX_IA_RCL_Ed then CL c else Ib i); eaddr = BX_CPU_RESOLVE_ADDR i c in
    and_then (read_RMW_virtual_dword (instr_seg i) eaddr) (\<lambda>m.
    with_core (\<lambda>c.
      let count = count AND 0x1f
      in if count = 0 then sys_return ()
         else
          (let op1_32 = m;
             temp_CF = getB_CF (oszapc c);
             result_32 = (if count = 1 then push_bit 1 op1_32 OR temp_CF
             else push_bit count op1_32 OR push_bit (count - 1) temp_CF OR drop_bit (33 - count) op1_32);
             cf = drop_bit (32 - count) op1_32 AND 0x1 :: Bit32u;
             ovf = cf XOR drop_bit 31 result_32
           in and_then (write_RMW_linear_dword result_32) (\<lambda>_. on_core (upd_oszapc (set_flags_OxxxxC ovf cf)))))))"

definition RCR_EdM :: "bxInstruction_c \<Rightarrow> unit sys_op" where
  "RCR_EdM i = with_core (\<lambda>c.
    let count = unat (if getIaOpcode i = BX_IA_RCR_Ed then CL c else Ib i); eaddr = BX_CPU_RESOLVE_ADDR i c in
    and_then (read_RMW_virtual_dword (instr_seg i) eaddr) (\<lambda>m.
    with_core (\<lambda>c.
      let count = count AND 0x1f
      in if count = 0 then sys_return ()
         else
          (let op1_32 = m;
             temp_CF = getB_CF (oszapc c);
             result_32 = (if count = 1 then drop_bit 1 op1_32 OR push_bit 31 temp_CF
             else drop_bit count op1_32 OR push_bit (32 - count) temp_CF OR push_bit (33 - count) op1_32);
             cf = drop_bit (count - 1) op1_32 AND 0x1 :: Bit32u;
             ovf = drop_bit 31 (push_bit 1 result_32 XOR result_32)
           in and_then (write_RMW_linear_dword result_32) (\<lambda>_. on_core (upd_oszapc (set_flags_OxxxxC ovf cf)))))))"

definition SHL_EdM :: "bxInstruction_c \<Rightarrow> unit sys_op" where
  "SHL_EdM i = with_core (\<lambda>c.
    let count = unat (if getIaOpcode i = BX_IA_SHL_Ed then CL c else Ib i); eaddr = BX_CPU_RESOLVE_ADDR i c in
    and_then (read_RMW_virtual_dword (instr_seg i) eaddr) (\<lambda>m.
    with_core (\<lambda>c.
      let count = count AND 0x1f
      in if count = 0 then sys_return ()
         else
          (let op1_32 = m;
             result_32 = push_bit count op1_32;
             cf = drop_bit (32 - count) op1_32 AND 0x1 :: Bit32u;
             ovf = cf XOR drop_bit 31 result_32
           in and_then (write_RMW_linear_dword result_32) (\<lambda>_. on_core (\<lambda>c. upd_oszapc (set_flags_OxxxxC ovf cf) (upd_oszapc (SET_FLAGS_OSZAPC_LOGIC_32 result_32) c)))))))"

definition SHR_EdM :: "bxInstruction_c \<Rightarrow> unit sys_op" where
  "SHR_EdM i = with_core (\<lambda>c.
    let count = unat (if getIaOpcode i = BX_IA_SHR_Ed then CL c else Ib i); eaddr = BX_CPU_RESOLVE_ADDR i c in
    and_then (read_RMW_virtual_dword (instr_seg i) eaddr) (\<lambda>m.
    with_core (\<lambda>c.
      let count = count AND 0x1f
      in if count = 0 then sys_return ()
         else
          (let op1_32 = m;
             result_32 = drop_bit count op1_32;
             cf = drop_bit (count - 1) op1_32 AND 0x1 :: Bit32u;
             ovf = drop_bit 31 (push_bit 1 result_32 XOR result_32)
           in and_then (write_RMW_linear_dword result_32) (\<lambda>_. on_core (\<lambda>c. upd_oszapc (set_flags_OxxxxC ovf cf) (upd_oszapc (SET_FLAGS_OSZAPC_LOGIC_32 result_32) c)))))))"

definition SAR_EdM :: "bxInstruction_c \<Rightarrow> unit sys_op" where
  "SAR_EdM i = with_core (\<lambda>c.
    let count = unat (if getIaOpcode i = BX_IA_SAR_Ed then CL c else Ib i); eaddr = BX_CPU_RESOLVE_ADDR i c in
    and_then (read_RMW_virtual_dword (instr_seg i) eaddr) (\<lambda>m.
    with_core (\<lambda>c.
      let count = count AND 0x1f
      in if count = 0 then sys_return ()
         else
          (let op1_32 = m;
             result_32 = signed_drop_bit count op1_32;
             cf = drop_bit (count - 1) op1_32 AND 0x1 :: Bit32u
           in and_then (write_RMW_linear_dword result_32) (\<lambda>_. on_core (\<lambda>c. upd_oszapc (set_flags_OxxxxC 0 cf) (upd_oszapc (SET_FLAGS_OSZAPC_LOGIC_32 result_32) c)))))))"

definition SHLD_EdGdM :: "bxInstruction_c \<Rightarrow> unit sys_op" where
  "SHLD_EdGdM i = with_core (\<lambda>c.
    let count = unat (if getIaOpcode i = BX_IA_SHLD_EdGd then CL c else Ib i); eaddr = BX_CPU_RESOLVE_ADDR i c in
    and_then (read_RMW_virtual_dword (instr_seg i) eaddr) (\<lambda>m.
    with_core (\<lambda>c.
      let count = count AND 0x1f
      in if count = 0 then sys_return ()
         else
          (let op1_32 = m;
             op2_32 = BX_READ_32BIT_REG (src i) c;
             result_32 = push_bit count op1_32 OR drop_bit (32 - count) op2_32;
             cf = drop_bit (32 - count) op1_32 AND 0x1 :: Bit32u;
             ovf = cf XOR drop_bit 31 result_32
           in and_then (write_RMW_linear_dword result_32) (\<lambda>_. on_core (\<lambda>c. upd_oszapc (set_flags_OxxxxC ovf cf) (upd_oszapc (SET_FLAGS_OSZAPC_LOGIC_32 result_32) c)))))))"

definition SHRD_EdGdM :: "bxInstruction_c \<Rightarrow> unit sys_op" where
  "SHRD_EdGdM i = with_core (\<lambda>c.
    let count = unat (if getIaOpcode i = BX_IA_SHRD_EdGd then CL c else Ib i); eaddr = BX_CPU_RESOLVE_ADDR i c in
    and_then (read_RMW_virtual_dword (instr_seg i) eaddr) (\<lambda>m.
    with_core (\<lambda>c.
      let count = count AND 0x1f
      in if count = 0 then sys_return ()
         else
          (let op1_32 = m;
             op2_32 = BX_READ_32BIT_REG (src i) c;
             result_32 = push_bit (32 - count) op2_32 OR drop_bit count op1_32;
             cf = drop_bit (count - 1) op1_32 AND 0x1 :: Bit32u;
             ovf = drop_bit 31 (push_bit 1 result_32 XOR result_32)
           in and_then (write_RMW_linear_dword result_32) (\<lambda>_. on_core (\<lambda>c. upd_oszapc (set_flags_OxxxxC ovf cf) (upd_oszapc (SET_FLAGS_OSZAPC_LOGIC_32 result_32) c)))))))"

section \<open>The memory forms are the register forms on the operand\<close>

lemma ROL_EdM_register_form:
  "operand_spec (read_RMW_virtual_dword (instr_seg i) (BX_CPU_RESOLVE_ADDR i (core s))) write_RMW_linear_dword (shift_operand_count BX_IA_ROL_Ed i s AND 0x1f \<noteq> 0)
     (BX_READ_32BIT_REG (operand_reg i)) (BX_WRITE_32BIT_REGZ (operand_reg i)) (ROL_EdR (on_operand_reg i)) (ROL_EdM i) s"
  by (rule rmw32.operand_form, simp only: ROL_EdM_def with_core_apply laddr64_apply Let_def, simp, simp only: with_core_apply Let_def,
      cases "getIaOpcode i = BX_IA_ROL_Ed"; auto simp: ROL_EdR_def operand_form_simps Let_def simp del: drop_bit_or drop_bit_xor push_bit_or push_bit_xor)

lemma ROR_EdM_register_form:
  "operand_spec (read_RMW_virtual_dword (instr_seg i) (BX_CPU_RESOLVE_ADDR i (core s))) write_RMW_linear_dword (shift_operand_count BX_IA_ROR_Ed i s AND 0x1f \<noteq> 0)
     (BX_READ_32BIT_REG (operand_reg i)) (BX_WRITE_32BIT_REGZ (operand_reg i)) (ROR_EdR (on_operand_reg i)) (ROR_EdM i) s"
  by (rule rmw32.operand_form, simp only: ROR_EdM_def with_core_apply laddr64_apply Let_def, simp, simp only: with_core_apply Let_def,
      cases "getIaOpcode i = BX_IA_ROR_Ed"; auto simp: ROR_EdR_def operand_form_simps Let_def simp del: drop_bit_or drop_bit_xor push_bit_or push_bit_xor)

lemma RCL_EdM_register_form:
  "operand_spec (read_RMW_virtual_dword (instr_seg i) (BX_CPU_RESOLVE_ADDR i (core s))) write_RMW_linear_dword (shift_operand_count BX_IA_RCL_Ed i s AND 0x1f \<noteq> 0)
     (BX_READ_32BIT_REG (operand_reg i)) (BX_WRITE_32BIT_REGZ (operand_reg i)) (RCL_EdR (on_operand_reg i)) (RCL_EdM i) s"
  by (rule rmw32.operand_form, simp only: RCL_EdM_def with_core_apply laddr64_apply Let_def, simp, simp only: with_core_apply Let_def,
      cases "getIaOpcode i = BX_IA_RCL_Ed"; auto simp: RCL_EdR_def operand_form_simps Let_def simp del: drop_bit_or drop_bit_xor push_bit_or push_bit_xor)

lemma RCR_EdM_register_form:
  "operand_spec (read_RMW_virtual_dword (instr_seg i) (BX_CPU_RESOLVE_ADDR i (core s))) write_RMW_linear_dword (shift_operand_count BX_IA_RCR_Ed i s AND 0x1f \<noteq> 0)
     (BX_READ_32BIT_REG (operand_reg i)) (BX_WRITE_32BIT_REGZ (operand_reg i)) (RCR_EdR (on_operand_reg i)) (RCR_EdM i) s"
  by (rule rmw32.operand_form, simp only: RCR_EdM_def with_core_apply laddr64_apply Let_def, simp, simp only: with_core_apply Let_def,
      cases "getIaOpcode i = BX_IA_RCR_Ed"; auto simp: RCR_EdR_def operand_form_simps Let_def simp del: drop_bit_or drop_bit_xor push_bit_or push_bit_xor)

lemma SHL_EdM_register_form:
  "operand_spec (read_RMW_virtual_dword (instr_seg i) (BX_CPU_RESOLVE_ADDR i (core s))) write_RMW_linear_dword (shift_operand_count BX_IA_SHL_Ed i s AND 0x1f \<noteq> 0)
     (BX_READ_32BIT_REG (operand_reg i)) (BX_WRITE_32BIT_REGZ (operand_reg i)) (SHL_EdR (on_operand_reg i)) (SHL_EdM i) s"
  by (rule rmw32.operand_form, simp only: SHL_EdM_def with_core_apply laddr64_apply Let_def, simp, simp only: with_core_apply Let_def,
      cases "getIaOpcode i = BX_IA_SHL_Ed"; auto simp: SHL_EdR_def operand_form_simps Let_def simp del: drop_bit_or drop_bit_xor push_bit_or push_bit_xor)

lemma SHR_EdM_register_form:
  "operand_spec (read_RMW_virtual_dword (instr_seg i) (BX_CPU_RESOLVE_ADDR i (core s))) write_RMW_linear_dword (shift_operand_count BX_IA_SHR_Ed i s AND 0x1f \<noteq> 0)
     (BX_READ_32BIT_REG (operand_reg i)) (BX_WRITE_32BIT_REGZ (operand_reg i)) (SHR_EdR (on_operand_reg i)) (SHR_EdM i) s"
  by (rule rmw32.operand_form, simp only: SHR_EdM_def with_core_apply laddr64_apply Let_def, simp, simp only: with_core_apply Let_def,
      cases "getIaOpcode i = BX_IA_SHR_Ed"; auto simp: SHR_EdR_def operand_form_simps Let_def simp del: drop_bit_or drop_bit_xor push_bit_or push_bit_xor)

lemma SAR_EdM_register_form:
  "operand_spec (read_RMW_virtual_dword (instr_seg i) (BX_CPU_RESOLVE_ADDR i (core s))) write_RMW_linear_dword (shift_operand_count BX_IA_SAR_Ed i s AND 0x1f \<noteq> 0)
     (BX_READ_32BIT_REG (operand_reg i)) (BX_WRITE_32BIT_REGZ (operand_reg i)) (SAR_EdR (on_operand_reg i)) (SAR_EdM i) s"
  by (rule rmw32.operand_form, simp only: SAR_EdM_def with_core_apply laddr64_apply Let_def, simp, simp only: with_core_apply Let_def,
      cases "getIaOpcode i = BX_IA_SAR_Ed"; auto simp: SAR_EdR_def operand_form_simps Let_def simp del: drop_bit_or drop_bit_xor push_bit_or push_bit_xor)

lemma SHLD_EdGdM_register_form:
  "operand_spec (read_RMW_virtual_dword (instr_seg i) (BX_CPU_RESOLVE_ADDR i (core s))) write_RMW_linear_dword (shift_operand_count BX_IA_SHLD_EdGd i s AND 0x1f \<noteq> 0)
     (BX_READ_32BIT_REG (operand_reg i)) (BX_WRITE_32BIT_REGZ (operand_reg i)) (SHLD_EdGdR (on_operand_reg i)) (SHLD_EdGdM i) s"
  by (rule rmw32.operand_form, simp only: SHLD_EdGdM_def with_core_apply laddr64_apply Let_def, simp, simp only: with_core_apply Let_def,
      cases "getIaOpcode i = BX_IA_SHLD_EdGd"; auto simp: SHLD_EdGdR_def operand_form_simps Let_def simp del: drop_bit_or drop_bit_xor push_bit_or push_bit_xor)

lemma SHRD_EdGdM_register_form:
  "operand_spec (read_RMW_virtual_dword (instr_seg i) (BX_CPU_RESOLVE_ADDR i (core s))) write_RMW_linear_dword (shift_operand_count BX_IA_SHRD_EdGd i s AND 0x1f \<noteq> 0)
     (BX_READ_32BIT_REG (operand_reg i)) (BX_WRITE_32BIT_REGZ (operand_reg i)) (SHRD_EdGdR (on_operand_reg i)) (SHRD_EdGdM i) s"
  by (rule rmw32.operand_form, simp only: SHRD_EdGdM_def with_core_apply laddr64_apply Let_def, simp, simp only: with_core_apply Let_def,
      cases "getIaOpcode i = BX_IA_SHRD_EdGd"; auto simp: SHRD_EdGdR_def operand_form_simps Let_def simp del: drop_bit_or drop_bit_xor push_bit_or push_bit_xor)

section \<open>Faults\<close>

lemmas shift32_mem_defs = ROL_EdM_def ROR_EdM_def RCL_EdM_def RCR_EdM_def SHL_EdM_def SHR_EdM_def SAR_EdM_def SHLD_EdGdM_def SHRD_EdGdM_def

lemma shift32_mem_precise:
  "precise (ROL_EdM i)"  "precise (ROR_EdM i)"  "precise (RCL_EdM i)"  "precise (RCR_EdM i)"  "precise (SHL_EdM i)"
  "precise (SHR_EdM i)"  "precise (SAR_EdM i)"  "precise (SHLD_EdGdM i)"  "precise (SHRD_EdGdM i)"
  unfolding shift32_mem_defs Let_def by (intro precise_intros)+

end
