(* ===== verification/Shift64.thy ===== *)
theory Shift64
  imports CpuState ScalarArith
begin

text \<open>
  The register forms of the 64-bit shift and rotate handlers of \<^verbatim>\<open>cpu/shift64.cc\<close>. The count comes from CL
  or from the immediate byte, depending on the opcode; most handlers return early when it is zero.
\<close>

section \<open>Handlers\<close>

definition ROL_EqR :: "bxInstruction_c \<Rightarrow> bx_cpu \<Rightarrow> bx_cpu" where
  "ROL_EqR i s =
    (let count = unat (if getIaOpcode i = BX_IA_ROL_Eq then CL s else Ib i);
         count = count AND 0x3f
     in if count = 0 then s
        else
          (let op1_64 = BX_READ_64BIT_REG (dst i) s;
               result_64 = rol64 op1_64 count;
               s = BX_WRITE_64BIT_REG (dst i) result_64 s;
               bit0 = ucast (result_64 AND 1) :: Bit32u;
               bit63 = ucast (drop_bit 63 result_64)
           in upd_oszapc (set_flags_OxxxxC (bit0 XOR bit63) bit0) s))"

definition ROR_EqR :: "bxInstruction_c \<Rightarrow> bx_cpu \<Rightarrow> bx_cpu" where
  "ROR_EqR i s =
    (let count = unat (if getIaOpcode i = BX_IA_ROR_Eq then CL s else Ib i);
         count = count AND 0x3f
     in if count = 0 then s
        else
          (let op1_64 = BX_READ_64BIT_REG (dst i) s;
               result_64 = ror64 op1_64 count;
               s = BX_WRITE_64BIT_REG (dst i) result_64 s;
               bit63 = ucast (drop_bit 63 result_64 AND 1) :: Bit32u;
               bit62 = ucast (drop_bit 62 result_64 AND 1)
           in upd_oszapc (set_flags_OxxxxC (bit62 XOR bit63) bit63) s))"

definition RCL_EqR :: "bxInstruction_c \<Rightarrow> bx_cpu \<Rightarrow> bx_cpu" where
  "RCL_EqR i s =
    (let count = unat (if getIaOpcode i = BX_IA_RCL_Eq then CL s else Ib i);
         count = count AND 0x3f
     in if count = 0 then s
        else
          (let op1_64 = BX_READ_64BIT_REG (dst i) s;
               temp_CF = ucast (getB_CF (oszapc s)) :: Bit64u;
               result_64 = (if count = 1 then push_bit 1 op1_64 OR temp_CF
                  else push_bit count op1_64 OR push_bit (count - 1) temp_CF OR drop_bit (65 - count) op1_64);
               s = BX_WRITE_64BIT_REG (dst i) result_64 s;
               cf = ucast (drop_bit (64 - count) op1_64 AND 0x1) :: Bit32u;
               ovf = cf XOR (ucast (drop_bit 63 result_64))
           in upd_oszapc (set_flags_OxxxxC ovf cf) s))"

definition RCR_EqR :: "bxInstruction_c \<Rightarrow> bx_cpu \<Rightarrow> bx_cpu" where
  "RCR_EqR i s =
    (let count = unat (if getIaOpcode i = BX_IA_RCR_Eq then CL s else Ib i);
         count = count AND 0x3f
     in if count = 0 then s
        else
          (let op1_64 = BX_READ_64BIT_REG (dst i) s;
               temp_CF = ucast (getB_CF (oszapc s)) :: Bit64u;
               result_64 = (if count = 1 then drop_bit 1 op1_64 OR push_bit 63 temp_CF
                  else drop_bit count op1_64 OR push_bit (64 - count) temp_CF OR push_bit (65 - count) op1_64);
               s = BX_WRITE_64BIT_REG (dst i) result_64 s;
               cf = ucast (drop_bit (count - 1) op1_64 AND 0x1) :: Bit32u;
               ovf = ucast (drop_bit 63 (push_bit 1 result_64 XOR result_64))
           in upd_oszapc (set_flags_OxxxxC ovf cf) s))"

definition SHL_EqR :: "bxInstruction_c \<Rightarrow> bx_cpu \<Rightarrow> bx_cpu" where
  "SHL_EqR i s =
    (let count = unat (if getIaOpcode i = BX_IA_SHL_Eq then CL s else Ib i);
         count = count AND 0x3f
     in if count = 0 then s
        else
          (let op1_64 = BX_READ_64BIT_REG (dst i) s;
               result_64 = push_bit count op1_64;
               s = BX_WRITE_64BIT_REG (dst i) result_64 s;
               cf = ucast (drop_bit (64 - count) op1_64 AND 0x1) :: Bit32u;
               ovf = cf XOR ucast (drop_bit 63 result_64);
               s = upd_oszapc (SET_FLAGS_OSZAPC_LOGIC_64 result_64) s
           in upd_oszapc (set_flags_OxxxxC ovf cf) s))"

definition SHR_EqR :: "bxInstruction_c \<Rightarrow> bx_cpu \<Rightarrow> bx_cpu" where
  "SHR_EqR i s =
    (let count = unat (if getIaOpcode i = BX_IA_SHR_Eq then CL s else Ib i);
         count = count AND 0x3f
     in if count = 0 then s
        else
          (let op1_64 = BX_READ_64BIT_REG (dst i) s;
               result_64 = drop_bit count op1_64;
               s = BX_WRITE_64BIT_REG (dst i) result_64 s;
               cf = ucast (drop_bit (count - 1) op1_64 AND 0x1) :: Bit32u;
               ovf = ucast (drop_bit 63 (push_bit 1 result_64 XOR result_64));
               s = upd_oszapc (SET_FLAGS_OSZAPC_LOGIC_64 result_64) s
           in upd_oszapc (set_flags_OxxxxC ovf cf) s))"

definition SAR_EqR :: "bxInstruction_c \<Rightarrow> bx_cpu \<Rightarrow> bx_cpu" where
  "SAR_EqR i s =
    (let count = unat (if getIaOpcode i = BX_IA_SAR_Eq then CL s else Ib i);
         count = count AND 0x3f
     in if count = 0 then s
        else
          (let op1_64 = BX_READ_64BIT_REG (dst i) s;
               result_64 = signed_drop_bit count op1_64;
               s = BX_WRITE_64BIT_REG (dst i) result_64 s;
               cf = ucast (drop_bit (count - 1) op1_64 AND 0x1) :: Bit32u;
               s = upd_oszapc (SET_FLAGS_OSZAPC_LOGIC_64 result_64) s
           in upd_oszapc (set_flags_OxxxxC 0 cf) s))"

definition SHLD_EqGqR :: "bxInstruction_c \<Rightarrow> bx_cpu \<Rightarrow> bx_cpu" where
  "SHLD_EqGqR i s =
    (let count = unat (if getIaOpcode i = BX_IA_SHLD_EqGq then CL s else Ib i);
         count = count AND 0x3f
     in if count = 0 then s
        else
          (let op1_64 = BX_READ_64BIT_REG (dst i) s;
               op2_64 = BX_READ_64BIT_REG (src i) s;
               result_64 = push_bit count op1_64 OR drop_bit (64 - count) op2_64;
               s = BX_WRITE_64BIT_REG (dst i) result_64 s;
               s = upd_oszapc (SET_FLAGS_OSZAPC_LOGIC_64 result_64) s;
               cf = ucast (drop_bit (64 - count) op1_64 AND 0x1) :: Bit32u;
               ovf = cf XOR ucast (drop_bit 63 result_64)
           in upd_oszapc (set_flags_OxxxxC ovf cf) s))"

definition SHRD_EqGqR :: "bxInstruction_c \<Rightarrow> bx_cpu \<Rightarrow> bx_cpu" where
  "SHRD_EqGqR i s =
    (let count = unat (if getIaOpcode i = BX_IA_SHRD_EqGq then CL s else Ib i);
         count = count AND 0x3f
     in if count = 0 then s
        else
          (let op1_64 = BX_READ_64BIT_REG (dst i) s;
               op2_64 = BX_READ_64BIT_REG (src i) s;
               result_64 = push_bit (64 - count) op2_64 OR drop_bit count op1_64;
               s = BX_WRITE_64BIT_REG (dst i) result_64 s;
               s = upd_oszapc (SET_FLAGS_OSZAPC_LOGIC_64 result_64) s;
               cf = ucast (drop_bit (count - 1) op1_64 AND 0x1) :: Bit32u;
               ovf = ucast (drop_bit 63 (push_bit 1 result_64 XOR result_64))
           in upd_oszapc (set_flags_OxxxxC ovf cf) s))"

end
