(* ===== verification/ShiftMem64.thy ===== *)
theory ShiftMem64
  imports MemOperand Shift64
begin

text \<open>
  The memory forms of the 64-bit shifts and rotates of \<^verbatim>\<open>cpu/shift64.cc\<close>.  The operand is read for writing even when the
  count is zero; it is written back only when the masked count is not.
\<close>

section \<open>Handlers\<close>

definition ROL_EqM :: "bxInstruction_c \<Rightarrow> unit sys_op" where
  "ROL_EqM i = with_core (\<lambda>c.
    let count = unat (if getIaOpcode i = BX_IA_ROL_Eq then CL c else Ib i); eaddr = BX_CPU_RESOLVE_ADDR_64 i c in
    laddr64 (instr_seg i) eaddr (\<lambda>laddr.
    and_then (read_RMW_linear_qword (instr_seg i) laddr) (\<lambda>m.
    with_core (\<lambda>c.
      let count = count AND 0x3f
      in if count = 0 then sys_return ()
         else
          (let op1_64 = m;
             result_64 = rol64 op1_64 count;
             bit0 = ucast (result_64 AND 1) :: Bit32u;
             bit63 = ucast (drop_bit 63 result_64)
           in and_then (write_RMW_linear_qword result_64) (\<lambda>_. on_core (upd_oszapc (set_flags_OxxxxC (bit0 XOR bit63) bit0))))))))"

definition ROR_EqM :: "bxInstruction_c \<Rightarrow> unit sys_op" where
  "ROR_EqM i = with_core (\<lambda>c.
    let count = unat (if getIaOpcode i = BX_IA_ROR_Eq then CL c else Ib i); eaddr = BX_CPU_RESOLVE_ADDR_64 i c in
    laddr64 (instr_seg i) eaddr (\<lambda>laddr.
    and_then (read_RMW_linear_qword (instr_seg i) laddr) (\<lambda>m.
    with_core (\<lambda>c.
      let count = count AND 0x3f
      in if count = 0 then sys_return ()
         else
          (let op1_64 = m;
             result_64 = ror64 op1_64 count;
             bit63 = ucast (drop_bit 63 result_64 AND 1) :: Bit32u;
             bit62 = ucast (drop_bit 62 result_64 AND 1)
           in and_then (write_RMW_linear_qword result_64) (\<lambda>_. on_core (upd_oszapc (set_flags_OxxxxC (bit62 XOR bit63) bit63))))))))"

definition RCL_EqM :: "bxInstruction_c \<Rightarrow> unit sys_op" where
  "RCL_EqM i = with_core (\<lambda>c.
    let count = unat (if getIaOpcode i = BX_IA_RCL_Eq then CL c else Ib i); eaddr = BX_CPU_RESOLVE_ADDR_64 i c in
    laddr64 (instr_seg i) eaddr (\<lambda>laddr.
    and_then (read_RMW_linear_qword (instr_seg i) laddr) (\<lambda>m.
    with_core (\<lambda>c.
      let count = count AND 0x3f
      in if count = 0 then sys_return ()
         else
          (let op1_64 = m;
             temp_CF = ucast (getB_CF (oszapc c)) :: Bit64u;
             result_64 = (if count = 1 then push_bit 1 op1_64 OR temp_CF
             else push_bit count op1_64 OR push_bit (count - 1) temp_CF OR drop_bit (65 - count) op1_64);
             cf = ucast (drop_bit (64 - count) op1_64 AND 0x1) :: Bit32u;
             ovf = cf XOR (ucast (drop_bit 63 result_64))
           in and_then (write_RMW_linear_qword result_64) (\<lambda>_. on_core (upd_oszapc (set_flags_OxxxxC ovf cf))))))))"

definition RCR_EqM :: "bxInstruction_c \<Rightarrow> unit sys_op" where
  "RCR_EqM i = with_core (\<lambda>c.
    let count = unat (if getIaOpcode i = BX_IA_RCR_Eq then CL c else Ib i); eaddr = BX_CPU_RESOLVE_ADDR_64 i c in
    laddr64 (instr_seg i) eaddr (\<lambda>laddr.
    and_then (read_RMW_linear_qword (instr_seg i) laddr) (\<lambda>m.
    with_core (\<lambda>c.
      let count = count AND 0x3f
      in if count = 0 then sys_return ()
         else
          (let op1_64 = m;
             temp_CF = ucast (getB_CF (oszapc c)) :: Bit64u;
             result_64 = (if count = 1 then drop_bit 1 op1_64 OR push_bit 63 temp_CF
             else drop_bit count op1_64 OR push_bit (64 - count) temp_CF OR push_bit (65 - count) op1_64);
             cf = ucast (drop_bit (count - 1) op1_64 AND 0x1) :: Bit32u;
             ovf = ucast (drop_bit 63 (push_bit 1 result_64 XOR result_64))
           in and_then (write_RMW_linear_qword result_64) (\<lambda>_. on_core (upd_oszapc (set_flags_OxxxxC ovf cf))))))))"

definition SHL_EqM :: "bxInstruction_c \<Rightarrow> unit sys_op" where
  "SHL_EqM i = with_core (\<lambda>c.
    let count = unat (if getIaOpcode i = BX_IA_SHL_Eq then CL c else Ib i); eaddr = BX_CPU_RESOLVE_ADDR_64 i c in
    laddr64 (instr_seg i) eaddr (\<lambda>laddr.
    and_then (read_RMW_linear_qword (instr_seg i) laddr) (\<lambda>m.
    with_core (\<lambda>c.
      let count = count AND 0x3f
      in if count = 0 then sys_return ()
         else
          (let op1_64 = m;
             result_64 = push_bit count op1_64;
             cf = ucast (drop_bit (64 - count) op1_64 AND 0x1) :: Bit32u;
             ovf = cf XOR ucast (drop_bit 63 result_64)
           in and_then (write_RMW_linear_qword result_64) (\<lambda>_. on_core (\<lambda>c. upd_oszapc (set_flags_OxxxxC ovf cf) (upd_oszapc (SET_FLAGS_OSZAPC_LOGIC_64 result_64) c))))))))"

definition SHR_EqM :: "bxInstruction_c \<Rightarrow> unit sys_op" where
  "SHR_EqM i = with_core (\<lambda>c.
    let count = unat (if getIaOpcode i = BX_IA_SHR_Eq then CL c else Ib i); eaddr = BX_CPU_RESOLVE_ADDR_64 i c in
    laddr64 (instr_seg i) eaddr (\<lambda>laddr.
    and_then (read_RMW_linear_qword (instr_seg i) laddr) (\<lambda>m.
    with_core (\<lambda>c.
      let count = count AND 0x3f
      in if count = 0 then sys_return ()
         else
          (let op1_64 = m;
             result_64 = drop_bit count op1_64;
             cf = ucast (drop_bit (count - 1) op1_64 AND 0x1) :: Bit32u;
             ovf = ucast (drop_bit 63 (push_bit 1 result_64 XOR result_64))
           in and_then (write_RMW_linear_qword result_64) (\<lambda>_. on_core (\<lambda>c. upd_oszapc (set_flags_OxxxxC ovf cf) (upd_oszapc (SET_FLAGS_OSZAPC_LOGIC_64 result_64) c))))))))"

definition SAR_EqM :: "bxInstruction_c \<Rightarrow> unit sys_op" where
  "SAR_EqM i = with_core (\<lambda>c.
    let count = unat (if getIaOpcode i = BX_IA_SAR_Eq then CL c else Ib i); eaddr = BX_CPU_RESOLVE_ADDR_64 i c in
    laddr64 (instr_seg i) eaddr (\<lambda>laddr.
    and_then (read_RMW_linear_qword (instr_seg i) laddr) (\<lambda>m.
    with_core (\<lambda>c.
      let count = count AND 0x3f
      in if count = 0 then sys_return ()
         else
          (let op1_64 = m;
             result_64 = signed_drop_bit count op1_64;
             cf = ucast (drop_bit (count - 1) op1_64 AND 0x1) :: Bit32u
           in and_then (write_RMW_linear_qword result_64) (\<lambda>_. on_core (\<lambda>c. upd_oszapc (set_flags_OxxxxC 0 cf) (upd_oszapc (SET_FLAGS_OSZAPC_LOGIC_64 result_64) c))))))))"

definition SHLD_EqGqM :: "bxInstruction_c \<Rightarrow> unit sys_op" where
  "SHLD_EqGqM i = with_core (\<lambda>c.
    let count = unat (if getIaOpcode i = BX_IA_SHLD_EqGq then CL c else Ib i); eaddr = BX_CPU_RESOLVE_ADDR_64 i c in
    laddr64 (instr_seg i) eaddr (\<lambda>laddr.
    and_then (read_RMW_linear_qword (instr_seg i) laddr) (\<lambda>m.
    with_core (\<lambda>c.
      let count = count AND 0x3f
      in if count = 0 then sys_return ()
         else
          (let op1_64 = m;
             op2_64 = BX_READ_64BIT_REG (src i) c;
             result_64 = push_bit count op1_64 OR drop_bit (64 - count) op2_64;
             cf = ucast (drop_bit (64 - count) op1_64 AND 0x1) :: Bit32u;
             ovf = cf XOR ucast (drop_bit 63 result_64)
           in and_then (write_RMW_linear_qword result_64) (\<lambda>_. on_core (\<lambda>c. upd_oszapc (set_flags_OxxxxC ovf cf) (upd_oszapc (SET_FLAGS_OSZAPC_LOGIC_64 result_64) c))))))))"

definition SHRD_EqGqM :: "bxInstruction_c \<Rightarrow> unit sys_op" where
  "SHRD_EqGqM i = with_core (\<lambda>c.
    let count = unat (if getIaOpcode i = BX_IA_SHRD_EqGq then CL c else Ib i); eaddr = BX_CPU_RESOLVE_ADDR_64 i c in
    laddr64 (instr_seg i) eaddr (\<lambda>laddr.
    and_then (read_RMW_linear_qword (instr_seg i) laddr) (\<lambda>m.
    with_core (\<lambda>c.
      let count = count AND 0x3f
      in if count = 0 then sys_return ()
         else
          (let op1_64 = m;
             op2_64 = BX_READ_64BIT_REG (src i) c;
             result_64 = push_bit (64 - count) op2_64 OR drop_bit count op1_64;
             cf = ucast (drop_bit (count - 1) op1_64 AND 0x1) :: Bit32u;
             ovf = ucast (drop_bit 63 (push_bit 1 result_64 XOR result_64))
           in and_then (write_RMW_linear_qword result_64) (\<lambda>_. on_core (\<lambda>c. upd_oszapc (set_flags_OxxxxC ovf cf) (upd_oszapc (SET_FLAGS_OSZAPC_LOGIC_64 result_64) c))))))))"

section \<open>The memory forms are the register forms on the operand\<close>

lemma ROL_EqM_register_form:
  "operand_spec (read_RMW_linear_qword (instr_seg i) (get_laddr64 (instr_seg i) (BX_CPU_RESOLVE_ADDR_64 i (core s)) s)) write_RMW_linear_qword (shift_operand_count BX_IA_ROL_Eq i s AND 0x3f \<noteq> 0)
     (BX_READ_64BIT_REG (operand_reg i)) (BX_WRITE_64BIT_REG (operand_reg i)) (ROL_EqR (on_operand_reg i)) (ROL_EqM i) s"
  by (rule rmw64.operand_form, simp only: ROL_EqM_def with_core_apply laddr64_apply Let_def, simp, simp only: with_core_apply Let_def,
      cases "getIaOpcode i = BX_IA_ROL_Eq"; auto simp: ROL_EqR_def operand_form_simps Let_def simp del: drop_bit_or drop_bit_xor push_bit_or push_bit_xor)

lemma ROR_EqM_register_form:
  "operand_spec (read_RMW_linear_qword (instr_seg i) (get_laddr64 (instr_seg i) (BX_CPU_RESOLVE_ADDR_64 i (core s)) s)) write_RMW_linear_qword (shift_operand_count BX_IA_ROR_Eq i s AND 0x3f \<noteq> 0)
     (BX_READ_64BIT_REG (operand_reg i)) (BX_WRITE_64BIT_REG (operand_reg i)) (ROR_EqR (on_operand_reg i)) (ROR_EqM i) s"
  by (rule rmw64.operand_form, simp only: ROR_EqM_def with_core_apply laddr64_apply Let_def, simp, simp only: with_core_apply Let_def,
      cases "getIaOpcode i = BX_IA_ROR_Eq"; auto simp: ROR_EqR_def operand_form_simps Let_def simp del: drop_bit_or drop_bit_xor push_bit_or push_bit_xor)

lemma RCL_EqM_register_form:
  "operand_spec (read_RMW_linear_qword (instr_seg i) (get_laddr64 (instr_seg i) (BX_CPU_RESOLVE_ADDR_64 i (core s)) s)) write_RMW_linear_qword (shift_operand_count BX_IA_RCL_Eq i s AND 0x3f \<noteq> 0)
     (BX_READ_64BIT_REG (operand_reg i)) (BX_WRITE_64BIT_REG (operand_reg i)) (RCL_EqR (on_operand_reg i)) (RCL_EqM i) s"
  by (rule rmw64.operand_form, simp only: RCL_EqM_def with_core_apply laddr64_apply Let_def, simp, simp only: with_core_apply Let_def,
      cases "getIaOpcode i = BX_IA_RCL_Eq"; auto simp: RCL_EqR_def operand_form_simps Let_def simp del: drop_bit_or drop_bit_xor push_bit_or push_bit_xor)

lemma RCR_EqM_register_form:
  "operand_spec (read_RMW_linear_qword (instr_seg i) (get_laddr64 (instr_seg i) (BX_CPU_RESOLVE_ADDR_64 i (core s)) s)) write_RMW_linear_qword (shift_operand_count BX_IA_RCR_Eq i s AND 0x3f \<noteq> 0)
     (BX_READ_64BIT_REG (operand_reg i)) (BX_WRITE_64BIT_REG (operand_reg i)) (RCR_EqR (on_operand_reg i)) (RCR_EqM i) s"
  by (rule rmw64.operand_form, simp only: RCR_EqM_def with_core_apply laddr64_apply Let_def, simp, simp only: with_core_apply Let_def,
      cases "getIaOpcode i = BX_IA_RCR_Eq"; auto simp: RCR_EqR_def operand_form_simps Let_def simp del: drop_bit_or drop_bit_xor push_bit_or push_bit_xor)

lemma SHL_EqM_register_form:
  "operand_spec (read_RMW_linear_qword (instr_seg i) (get_laddr64 (instr_seg i) (BX_CPU_RESOLVE_ADDR_64 i (core s)) s)) write_RMW_linear_qword (shift_operand_count BX_IA_SHL_Eq i s AND 0x3f \<noteq> 0)
     (BX_READ_64BIT_REG (operand_reg i)) (BX_WRITE_64BIT_REG (operand_reg i)) (SHL_EqR (on_operand_reg i)) (SHL_EqM i) s"
  by (rule rmw64.operand_form, simp only: SHL_EqM_def with_core_apply laddr64_apply Let_def, simp, simp only: with_core_apply Let_def,
      cases "getIaOpcode i = BX_IA_SHL_Eq"; auto simp: SHL_EqR_def operand_form_simps Let_def simp del: drop_bit_or drop_bit_xor push_bit_or push_bit_xor)

lemma SHR_EqM_register_form:
  "operand_spec (read_RMW_linear_qword (instr_seg i) (get_laddr64 (instr_seg i) (BX_CPU_RESOLVE_ADDR_64 i (core s)) s)) write_RMW_linear_qword (shift_operand_count BX_IA_SHR_Eq i s AND 0x3f \<noteq> 0)
     (BX_READ_64BIT_REG (operand_reg i)) (BX_WRITE_64BIT_REG (operand_reg i)) (SHR_EqR (on_operand_reg i)) (SHR_EqM i) s"
  by (rule rmw64.operand_form, simp only: SHR_EqM_def with_core_apply laddr64_apply Let_def, simp, simp only: with_core_apply Let_def,
      cases "getIaOpcode i = BX_IA_SHR_Eq"; auto simp: SHR_EqR_def operand_form_simps Let_def simp del: drop_bit_or drop_bit_xor push_bit_or push_bit_xor)

lemma SAR_EqM_register_form:
  "operand_spec (read_RMW_linear_qword (instr_seg i) (get_laddr64 (instr_seg i) (BX_CPU_RESOLVE_ADDR_64 i (core s)) s)) write_RMW_linear_qword (shift_operand_count BX_IA_SAR_Eq i s AND 0x3f \<noteq> 0)
     (BX_READ_64BIT_REG (operand_reg i)) (BX_WRITE_64BIT_REG (operand_reg i)) (SAR_EqR (on_operand_reg i)) (SAR_EqM i) s"
  by (rule rmw64.operand_form, simp only: SAR_EqM_def with_core_apply laddr64_apply Let_def, simp, simp only: with_core_apply Let_def,
      cases "getIaOpcode i = BX_IA_SAR_Eq"; auto simp: SAR_EqR_def operand_form_simps Let_def simp del: drop_bit_or drop_bit_xor push_bit_or push_bit_xor)

lemma SHLD_EqGqM_register_form:
  "operand_spec (read_RMW_linear_qword (instr_seg i) (get_laddr64 (instr_seg i) (BX_CPU_RESOLVE_ADDR_64 i (core s)) s)) write_RMW_linear_qword (shift_operand_count BX_IA_SHLD_EqGq i s AND 0x3f \<noteq> 0)
     (BX_READ_64BIT_REG (operand_reg i)) (BX_WRITE_64BIT_REG (operand_reg i)) (SHLD_EqGqR (on_operand_reg i)) (SHLD_EqGqM i) s"
  by (rule rmw64.operand_form, simp only: SHLD_EqGqM_def with_core_apply laddr64_apply Let_def, simp, simp only: with_core_apply Let_def,
      cases "getIaOpcode i = BX_IA_SHLD_EqGq"; auto simp: SHLD_EqGqR_def operand_form_simps Let_def simp del: drop_bit_or drop_bit_xor push_bit_or push_bit_xor)

lemma SHRD_EqGqM_register_form:
  "operand_spec (read_RMW_linear_qword (instr_seg i) (get_laddr64 (instr_seg i) (BX_CPU_RESOLVE_ADDR_64 i (core s)) s)) write_RMW_linear_qword (shift_operand_count BX_IA_SHRD_EqGq i s AND 0x3f \<noteq> 0)
     (BX_READ_64BIT_REG (operand_reg i)) (BX_WRITE_64BIT_REG (operand_reg i)) (SHRD_EqGqR (on_operand_reg i)) (SHRD_EqGqM i) s"
  by (rule rmw64.operand_form, simp only: SHRD_EqGqM_def with_core_apply laddr64_apply Let_def, simp, simp only: with_core_apply Let_def,
      cases "getIaOpcode i = BX_IA_SHRD_EqGq"; auto simp: SHRD_EqGqR_def operand_form_simps Let_def simp del: drop_bit_or drop_bit_xor push_bit_or push_bit_xor)

section \<open>Faults\<close>

lemmas shift64_mem_defs = ROL_EqM_def ROR_EqM_def RCL_EqM_def RCR_EqM_def SHL_EqM_def SHR_EqM_def SAR_EqM_def SHLD_EqGqM_def SHRD_EqGqM_def

lemma shift64_mem_precise:
  "precise (ROL_EqM i)"  "precise (ROR_EqM i)"  "precise (RCL_EqM i)"  "precise (RCR_EqM i)"  "precise (SHL_EqM i)"
  "precise (SHR_EqM i)"  "precise (SAR_EqM i)"  "precise (SHLD_EqGqM i)"  "precise (SHRD_EqGqM i)"
  unfolding shift64_mem_defs Let_def by (intro precise_intros)+

end
