(* ===== verification/DataXfer8.thy ===== *)
theory DataXfer8
  imports MemOperand
begin

text \<open>
  The data transfer handlers of \<^verbatim>\<open>cpu/data_xfer8.cc\<close>: moves, exchanges.
\<close>

section \<open>Handlers\<close>

definition MOV_EbIbR :: "bxInstruction_c \<Rightarrow> bx_cpu \<Rightarrow> bx_cpu" where
  "MOV_EbIbR i s = BX_WRITE_8BIT_REGx (dst i) (extend8bitL i) (Ib i) s"

definition MOV_EbGbM :: "bxInstruction_c \<Rightarrow> unit sys_op" where
  "MOV_EbGbM i = with_core (\<lambda>c.
    let eaddr = BX_CPU_RESOLVE_ADDR i c in
    write_virtual_byte (instr_seg i) eaddr (BX_READ_8BIT_REGx (src i) (extend8bitL i) c))"

definition MOV_GbEbM :: "bxInstruction_c \<Rightarrow> unit sys_op" where
  "MOV_GbEbM i = with_core (\<lambda>c.
    let eaddr = BX_CPU_RESOLVE_ADDR i c in
    and_then (read_virtual_byte (instr_seg i) eaddr) (\<lambda>v. on_core (BX_WRITE_8BIT_REGx (dst i) (extend8bitL i) v)))"

definition MOV_GbEbR :: "bxInstruction_c \<Rightarrow> bx_cpu \<Rightarrow> bx_cpu" where
  "MOV_GbEbR i s = BX_WRITE_8BIT_REGx (dst i) (extend8bitL i) (BX_READ_8BIT_REGx (src i) (extend8bitL i) s) s"

definition MOV_ALOd :: "bxInstruction_c \<Rightarrow> unit sys_op" where
  "MOV_ALOd i = with_core (\<lambda>c.
    and_then (read_virtual_byte_32 (instr_seg i) (Id i)) (\<lambda>v. on_core (BX_WRITE_8BIT_REGL 0 v)))"

definition MOV_OdAL :: "bxInstruction_c \<Rightarrow> unit sys_op" where
  "MOV_OdAL i = with_core (\<lambda>c.
    write_virtual_byte_32 (instr_seg i) (Id i) (AL c))"

definition MOV_EbIbM :: "bxInstruction_c \<Rightarrow> unit sys_op" where
  "MOV_EbIbM i = with_core (\<lambda>c.
    let eaddr = BX_CPU_RESOLVE_ADDR i c in
    write_virtual_byte (instr_seg i) eaddr (Ib i))"

definition XLAT :: "bxInstruction_c \<Rightarrow> unit sys_op" where
  "XLAT i = with_core (\<lambda>c.
    if as64L i then laddr64 (instr_seg i) (BX_READ_64BIT_REG 3 c + ucast (AL c)) (\<lambda>laddr.
      and_then (read_linear_byte (instr_seg i) laddr) (\<lambda>v. on_core (BX_WRITE_8BIT_REGL 0 v)))
    else and_then (read_virtual_byte (instr_seg i) (ucast (BX_READ_32BIT_REG 3 c + ucast (AL c)) AND asize_mask i)) (\<lambda>v. on_core (BX_WRITE_8BIT_REGL 0 v)))"

definition XCHG_EbGbM :: "bxInstruction_c \<Rightarrow> unit sys_op" where
  "XCHG_EbGbM i = with_core (\<lambda>c.
    let eaddr = BX_CPU_RESOLVE_ADDR i c in
    and_then (read_RMW_virtual_byte (instr_seg i) eaddr) (\<lambda>op1.
    with_core (\<lambda>c. and_then (write_RMW_linear_byte (BX_READ_8BIT_REGx (src i) (extend8bitL i) c)) (\<lambda>_. on_core (BX_WRITE_8BIT_REGx (src i) (extend8bitL i) op1)))))"

definition XCHG_EbGbR :: "bxInstruction_c \<Rightarrow> bx_cpu \<Rightarrow> bx_cpu" where
  "XCHG_EbGbR i s = 
    (let op1 = BX_READ_8BIT_REGx (dst i) (extend8bitL i) s;
         op2 = BX_READ_8BIT_REGx (src i) (extend8bitL i) s;
         s = BX_WRITE_8BIT_REGx (src i) (extend8bitL i) op1 s
     in BX_WRITE_8BIT_REGx (dst i) (extend8bitL i) op2 s)"

section \<open>Faults\<close>

lemmas data_xfer8_mem_defs = MOV_EbGbM_def MOV_GbEbM_def MOV_ALOd_def MOV_OdAL_def MOV_EbIbM_def XLAT_def XCHG_EbGbM_def

lemma data_xfer8_mem_precise:
  "precise (MOV_EbGbM i)"  "precise (MOV_GbEbM i)"  "precise (MOV_ALOd i)"  "precise (MOV_OdAL i)"  "precise (MOV_EbIbM i)"
  "precise (XLAT i)"  "precise (XCHG_EbGbM i)"
  unfolding data_xfer8_mem_defs Let_def by (intro precise_intros)+

end
