(* ===== verification/FlagCtrl.thy ===== *)
theory FlagCtrl
  imports CpuState
begin

text \<open>
  The flag instructions of \<^verbatim>\<open>cpu/flag_ctrl.cc\<close> that need neither memory nor privilege checks: loading and
  storing the status flags through AH, and setting single flags.
\<close>

section \<open>Handlers\<close>

definition assert_DF :: "bx_cpu \<Rightarrow> bx_cpu" where
  "assert_DF s = s\<lparr>eflags := eflags s OR push_bit 10 1\<rparr>"

definition clear_DF :: "bx_cpu \<Rightarrow> bx_cpu" where
  "clear_DF s = s\<lparr>eflags := eflags s AND NOT (push_bit 10 1)\<rparr>"

definition SAHF :: "bxInstruction_c \<Rightarrow> bx_cpu \<Rightarrow> bx_cpu" where
  "SAHF i s =
    (let s = upd_oszapc (set_SF (drop_bit 7 (AH s AND 0x80) \<noteq> 0)) s;
         s = upd_oszapc (set_ZF (drop_bit 6 (AH s AND 0x40) \<noteq> 0)) s;
         s = upd_oszapc (set_AF (drop_bit 4 (AH s AND 0x10) \<noteq> 0)) s;
         s = upd_oszapc (set_CF (AH s AND 0x01 \<noteq> 0)) s
     in upd_oszapc (set_PF (drop_bit 2 (AH s AND 0x04) \<noteq> 0)) s)"

definition LAHF :: "bxInstruction_c \<Rightarrow> bx_cpu \<Rightarrow> bx_cpu" where
  "LAHF i s = (let (flags, s) = read_eflags s in BX_WRITE_8BIT_REGH 0 (ucast (flags AND 0xFF)) s)"

definition CLC :: "bxInstruction_c \<Rightarrow> bx_cpu \<Rightarrow> bx_cpu" where
  "CLC i s = upd_oszapc clear_CF s"

definition STC :: "bxInstruction_c \<Rightarrow> bx_cpu \<Rightarrow> bx_cpu" where
  "STC i s = upd_oszapc assert_CF s"

definition CLD :: "bxInstruction_c \<Rightarrow> bx_cpu \<Rightarrow> bx_cpu" where
  "CLD i s = clear_DF s"

definition STD :: "bxInstruction_c \<Rightarrow> bx_cpu \<Rightarrow> bx_cpu" where
  "STD i s = assert_DF s"

definition CMC :: "bxInstruction_c \<Rightarrow> bx_cpu \<Rightarrow> bx_cpu" where
  "CMC i s = upd_oszapc (set_CF (\<not> (get_CF (oszapc s) \<noteq> 0))) s"

definition SALC :: "bxInstruction_c \<Rightarrow> bx_cpu \<Rightarrow> bx_cpu" where
  "SALC i s = (if get_CF (oszapc s) \<noteq> 0 then BX_WRITE_8BIT_REGL 0 0xff s else BX_WRITE_8BIT_REGL 0 0x00 s)"

section \<open>Status flags through AH\<close>

lemma get_CF_nonzero: "get_CF e \<noteq> 0 \<longleftrightarrow> fCF (flags_of e)"
proof -
  have "bit (get_CF e) n \<longleftrightarrow> n = 31 \<and> bit (lf_auxbits e) 31" for n
    by (auto simp: get_CF_def bit_LF_MASK bit_ucast_iff bit_and_iff)
  then have "get_CF e = 0 \<longleftrightarrow> \<not> bit (lf_auxbits e) 31" by (metis bit_word_eqI bit_0_eq bot_apply bot_bool_def)
  then show ?thesis by (simp add: flags_of_bits)
qed

lemma flags_clear_assert_CF:
  "flags_of (clear_CF e) = (flags_of e)\<lparr>fCF := False\<rparr>" "flags_of (assert_CF e) = (flags_of e)\<lparr>fCF := True\<rparr>"
  using flags_setters(6) [of False e] flags_setters(6) [of True e]
  by (simp_all add: clear_CF_def assert_CF_def set_CF_def)

lemma byte_field:
  fixes w :: Bit8u
  shows "drop_bit 7 (w AND 0x80) \<noteq> 0 \<longleftrightarrow> bit w 7" "drop_bit 6 (w AND 0x40) \<noteq> 0 \<longleftrightarrow> bit w 6"
    "drop_bit 4 (w AND 0x10) \<noteq> 0 \<longleftrightarrow> bit w 4" "w AND 0x01 \<noteq> 0 \<longleftrightarrow> bit w 0"
    "drop_bit 2 (w AND 0x04) \<noteq> 0 \<longleftrightarrow> bit w 2"
proof -
  have *: "drop_bit n (w AND push_bit n 1) = of_bool (bit w n)" if "n < 8" for n
    by (rule bit_word_eqI)
      (use that in \<open>auto simp: reg_bit_rules bit_of_bool_iff push_bit_eq_mult bit_exp_iff\<close>)
  show "drop_bit 7 (w AND 0x80) \<noteq> 0 \<longleftrightarrow> bit w 7" using * [of 7] by simp
  show "drop_bit 6 (w AND 0x40) \<noteq> 0 \<longleftrightarrow> bit w 6" using * [of 6] by simp
  show "drop_bit 4 (w AND 0x10) \<noteq> 0 \<longleftrightarrow> bit w 4" using * [of 4] by simp
  show "w AND 0x01 \<noteq> 0 \<longleftrightarrow> bit w 0" using * [of 0] by simp
  show "drop_bit 2 (w AND 0x04) \<noteq> 0 \<longleftrightarrow> bit w 2" using * [of 2] by simp
qed

lemma flags_SAHF:
  "cpu_flags (SAHF i s) = \<lparr>fOF = fOF (cpu_flags s), fSF = bit (AH s) 7, fZF = bit (AH s) 6,
    fAF = bit (AH s) 4, fPF = bit (AH s) 2, fCF = bit (AH s) 0\<rparr>"
  by (simp only: SAHF_def Let_def byte_field upd_oszapc_simps) (simp add: flags_setters)

lemma bit_AH_LAHF:
  "n < 8 \<Longrightarrow> bit (AH (LAHF i s)) n \<longleftrightarrow> bit (fst (read_eflags s)) n"
  by (simp add: LAHF_def split_beta reg_access_defs bit_ucast_iff bit_and_iff bit_255 del: bit_numeral_word_iff)

lemma LAHF_frame:
  "oszapc (LAHF i s) = oszapc s" "r \<noteq> 0 \<Longrightarrow> gen_reg (LAHF i s) r = gen_reg s r"
  by (simp_all add: LAHF_def split_beta reg_access_defs read_eflags_def force_flags_state)

lemma SAHF_frame [simp]: "gen_reg (SAHF i s) = gen_reg s" "eflags (SAHF i s) = eflags s"
  by (simp_all add: SAHF_def Let_def)

text \<open>SAHF followed by LAHF returns the five status flags stored in AH and the stored EFLAGS image in
  the three other bits; LAHF followed by SAHF leaves all six arithmetic flags as they were.\<close>

theorem sahf_lahf_roundtrip:
  "AH (LAHF j (SAHF i s)) = (AH s AND 0xD5) OR (ucast (eflags s) AND 0x2A)
    \<and> cpu_flags (SAHF i (LAHF j s)) = cpu_flags s"
proof
  have m: "bit (0xD5 :: Bit8u) n \<longleftrightarrow> n \<in> {0, 2, 4, 6, 7}" "bit (0x2A :: Bit8u) n \<longleftrightarrow> n \<in> {1, 3, 5}"
    if "n < 8" for n
    using that by (auto simp: eval_nat_numeral less_Suc_eq)
  show "AH (LAHF j (SAHF i s)) = (AH s AND 0xD5) OR (ucast (eflags s) AND 0x2A)"
    by (rule bit_word_eqI)
      (auto simp: bit_AH_LAHF read_eflags_def bit_force_flags flags_SAHF m reg_bit_rules less_Suc_eq eval_nat_numeral)
  have "cpu_flags (LAHF j s) = cpu_flags s" by (simp add: LAHF_frame)
  then show "cpu_flags (SAHF i (LAHF j s)) = cpu_flags s"
    by (simp add: flags_SAHF bit_AH_LAHF read_eflags_def bit_force_flags)
qed

lemma carry_instructions:
  "cpu_flags (CLC i s) = (cpu_flags s)\<lparr>fCF := False\<rparr>" "cpu_flags (STC i s) = (cpu_flags s)\<lparr>fCF := True\<rparr>"
  "cpu_flags (CMC i s) = (cpu_flags s)\<lparr>fCF := \<not> fCF (cpu_flags s)\<rparr>"
  by (simp_all add: CLC_def STC_def CMC_def flags_setters flags_clear_assert_CF get_CF_nonzero)

end
