(* ===== verification/DataXfer16.thy ===== *)
theory DataXfer16
  imports DataXfer8 FlagCtrl
begin

text \<open>
  The data transfer handlers of \<^verbatim>\<open>cpu/data_xfer16.cc\<close>: moves, exchanges, extensions, effective addresses and conditional moves.
\<close>

section \<open>Reading a flag\<close>

lemma mask_top_zero: "(ucast (x AND ucast (push_bit LF_BIT_CF (1::Bit32u))) :: Bit32u) = 0 \<longleftrightarrow> \<not> bit x 31" for x :: Bit64u
proof -
  have "bit (ucast (x AND ucast (push_bit LF_BIT_CF (1::Bit32u))) :: Bit32u) n \<longleftrightarrow> n = 31 \<and> bit x 31" for n
    by (auto simp: bit_and_iff bit_ucast_iff bit_push_bit_iff LF_BIT_CF_def bit_1_iff simp del: push_bit_of_1 push_bit_numeral)
  then show ?thesis by (metis bit_word_eqI bit_0_eq bot_apply bot_bool_def)
qed

lemma get_OF_nonzero: "get_OF e \<noteq> 0 \<longleftrightarrow> fOF (flags_of e)"
proof -
  have "fOF (flags_of e) \<longleftrightarrow> bit (lf_auxbits e + ucast (push_bit LF_BIT_PO (1::Bit32u))) 31"
    unfolding flags_of_def getB_OF_def LF_BIT_CF_def by (simp only: drop_bit_and_1 ucast_of_bool oszapc_flags.simps of_bool_eq_0_iff not_not)
  then show ?thesis unfolding get_OF_def mask_top_zero by blast
qed

lemma get_flags_nonzero: "get_OF e = 0 \<longleftrightarrow> \<not> fOF (flags_of e)" "get_CF e = 0 \<longleftrightarrow> \<not> fCF (flags_of e)"
  using get_OF_nonzero get_CF_nonzero by blast+

lemma clear_high_write: "BX_CLEAR_64BIT_HIGH n (BX_WRITE_32BIT_REGZ n v s) = BX_WRITE_32BIT_REGZ n v s"
proof -
  have "reg_set_hrx 0 (ucast v) = ucast v" by (rule bit_word_eqI) (auto simp: reg_view_defs reg_bit_rules dest: bit_imp_le_length)
  then show ?thesis by (simp add: BX_CLEAR_64BIT_HIGH_def BX_WRITE_32BIT_REGZ_def set_gen_reg_def)
qed

definition sreg_value :: "nat \<Rightarrow> bx_sys \<Rightarrow> Bit16u" where "sreg_value n s = sel_value (selector (sregs s n))"

section \<open>Handlers\<close>

definition MOV_EwIwM :: "bxInstruction_c \<Rightarrow> unit sys_op" where
  "MOV_EwIwM i = with_core (\<lambda>c.
    let eaddr = BX_CPU_RESOLVE_ADDR i c in
    write_virtual_word (instr_seg i) eaddr (Iw i))"

definition MOV_EwIwR :: "bxInstruction_c \<Rightarrow> bx_cpu \<Rightarrow> bx_cpu" where
  "MOV_EwIwR i s = BX_WRITE_16BIT_REG (dst i) (Iw i) s"

definition MOV_EwGwM :: "bxInstruction_c \<Rightarrow> unit sys_op" where
  "MOV_EwGwM i = with_core (\<lambda>c.
    let eaddr = BX_CPU_RESOLVE_ADDR i c in
    write_virtual_word (instr_seg i) eaddr (BX_READ_16BIT_REG (src i) c))"

definition MOV_GwEwR :: "bxInstruction_c \<Rightarrow> bx_cpu \<Rightarrow> bx_cpu" where
  "MOV_GwEwR i s = BX_WRITE_16BIT_REG (dst i) (BX_READ_16BIT_REG (src i) s) s"

definition MOV_GwEwM :: "bxInstruction_c \<Rightarrow> unit sys_op" where
  "MOV_GwEwM i = with_core (\<lambda>c.
    let eaddr = BX_CPU_RESOLVE_ADDR i c in
    and_then (read_virtual_word (instr_seg i) eaddr) (\<lambda>v. on_core (BX_WRITE_16BIT_REG (dst i) v)))"

definition MOV_EwSwR :: "bxInstruction_c \<Rightarrow> unit sys_op" where
  "MOV_EwSwR i =
    (if src i \<ge> 6 then exception BX_UD_EXCEPTION 0
     else and_then (sys_get (sreg_value (src i))) (\<lambda>seg_reg.
       on_core (if os32L i then BX_WRITE_32BIT_REGZ (dst i) (ucast seg_reg) else BX_WRITE_16BIT_REG (dst i) seg_reg)))"

definition MOV_EwSwM :: "bxInstruction_c \<Rightarrow> unit sys_op" where
  "MOV_EwSwM i =
    (if src i \<ge> 6 then exception BX_UD_EXCEPTION 0
     else with_core (\<lambda>c.
       let eaddr = BX_CPU_RESOLVE_ADDR i c in
       and_then (sys_get (sreg_value (src i))) (\<lambda>seg_reg. write_virtual_word (instr_seg i) eaddr seg_reg)))"

definition LEA_GwM :: "bxInstruction_c \<Rightarrow> bx_cpu \<Rightarrow> bx_cpu" where
  "LEA_GwM i s = BX_WRITE_16BIT_REG (dst i) (ucast (BX_CPU_RESOLVE_ADDR i s)) s"

definition MOV_AXOd :: "bxInstruction_c \<Rightarrow> unit sys_op" where
  "MOV_AXOd i = with_core (\<lambda>c.
    and_then (read_virtual_word_32 (instr_seg i) (Id i)) (\<lambda>v. on_core (BX_WRITE_16BIT_REG 0 v)))"

definition MOV_OdAX :: "bxInstruction_c \<Rightarrow> unit sys_op" where
  "MOV_OdAX i = with_core (\<lambda>c.
    write_virtual_word_32 (instr_seg i) (Id i) (AX c))"

definition MOVZX_GwEbM :: "bxInstruction_c \<Rightarrow> unit sys_op" where
  "MOVZX_GwEbM i = with_core (\<lambda>c.
    let eaddr = BX_CPU_RESOLVE_ADDR i c in
    and_then (read_virtual_byte (instr_seg i) eaddr) (\<lambda>v. on_core (BX_WRITE_16BIT_REG (dst i) (ucast v))))"

definition MOVZX_GwEbR :: "bxInstruction_c \<Rightarrow> bx_cpu \<Rightarrow> bx_cpu" where
  "MOVZX_GwEbR i s = BX_WRITE_16BIT_REG (dst i) (ucast (BX_READ_8BIT_REGx (src i) (extend8bitL i) s)) s"

definition MOVSX_GwEbM :: "bxInstruction_c \<Rightarrow> unit sys_op" where
  "MOVSX_GwEbM i = with_core (\<lambda>c.
    let eaddr = BX_CPU_RESOLVE_ADDR i c in
    and_then (read_virtual_byte (instr_seg i) eaddr) (\<lambda>v. on_core (BX_WRITE_16BIT_REG (dst i) (scast v))))"

definition MOVSX_GwEbR :: "bxInstruction_c \<Rightarrow> bx_cpu \<Rightarrow> bx_cpu" where
  "MOVSX_GwEbR i s = BX_WRITE_16BIT_REG (dst i) (scast (BX_READ_8BIT_REGx (src i) (extend8bitL i) s)) s"

definition XCHG_EwGwM :: "bxInstruction_c \<Rightarrow> unit sys_op" where
  "XCHG_EwGwM i = with_core (\<lambda>c.
    let eaddr = BX_CPU_RESOLVE_ADDR i c in
    and_then (read_RMW_virtual_word (instr_seg i) eaddr) (\<lambda>op1.
    with_core (\<lambda>c. and_then (write_RMW_linear_word (BX_READ_16BIT_REG (src i) c)) (\<lambda>_. on_core (BX_WRITE_16BIT_REG (src i) op1)))))"

definition XCHG_EwGwR :: "bxInstruction_c \<Rightarrow> bx_cpu \<Rightarrow> bx_cpu" where
  "XCHG_EwGwR i s = 
    (let op1 = BX_READ_16BIT_REG (dst i) s;
         op2 = BX_READ_16BIT_REG (src i) s;
         s = BX_WRITE_16BIT_REG (src i) op1 s
     in BX_WRITE_16BIT_REG (dst i) op2 s)"

definition CMOV_GwEwR :: "(bx_lazyflags_entry \<Rightarrow> bool) \<Rightarrow> bxInstruction_c \<Rightarrow> bx_cpu \<Rightarrow> bx_cpu" where
  "CMOV_GwEwR cond i s =
    (if cond (oszapc s) then BX_WRITE_16BIT_REG (dst i) (BX_READ_16BIT_REG (src i) s) s else s)"

definition CMOVO_GwEwR :: "bxInstruction_c \<Rightarrow> bx_cpu \<Rightarrow> bx_cpu" where
  "CMOVO_GwEwR = CMOV_GwEwR (\<lambda>e. get_OF e \<noteq> 0)"

definition CMOVNO_GwEwR :: "bxInstruction_c \<Rightarrow> bx_cpu \<Rightarrow> bx_cpu" where
  "CMOVNO_GwEwR = CMOV_GwEwR (\<lambda>e. get_OF e = 0)"

definition CMOVB_GwEwR :: "bxInstruction_c \<Rightarrow> bx_cpu \<Rightarrow> bx_cpu" where
  "CMOVB_GwEwR = CMOV_GwEwR (\<lambda>e. get_CF e \<noteq> 0)"

definition CMOVNB_GwEwR :: "bxInstruction_c \<Rightarrow> bx_cpu \<Rightarrow> bx_cpu" where
  "CMOVNB_GwEwR = CMOV_GwEwR (\<lambda>e. get_CF e = 0)"

definition CMOVZ_GwEwR :: "bxInstruction_c \<Rightarrow> bx_cpu \<Rightarrow> bx_cpu" where
  "CMOVZ_GwEwR = CMOV_GwEwR (\<lambda>e. getB_ZF e \<noteq> 0)"

definition CMOVNZ_GwEwR :: "bxInstruction_c \<Rightarrow> bx_cpu \<Rightarrow> bx_cpu" where
  "CMOVNZ_GwEwR = CMOV_GwEwR (\<lambda>e. getB_ZF e = 0)"

definition CMOVBE_GwEwR :: "bxInstruction_c \<Rightarrow> bx_cpu \<Rightarrow> bx_cpu" where
  "CMOVBE_GwEwR = CMOV_GwEwR (\<lambda>e. get_CF e \<noteq> 0 \<or> getB_ZF e \<noteq> 0)"

definition CMOVNBE_GwEwR :: "bxInstruction_c \<Rightarrow> bx_cpu \<Rightarrow> bx_cpu" where
  "CMOVNBE_GwEwR = CMOV_GwEwR (\<lambda>e. \<not> (get_CF e \<noteq> 0 \<or> getB_ZF e \<noteq> 0))"

definition CMOVS_GwEwR :: "bxInstruction_c \<Rightarrow> bx_cpu \<Rightarrow> bx_cpu" where
  "CMOVS_GwEwR = CMOV_GwEwR (\<lambda>e. getB_SF e \<noteq> 0)"

definition CMOVNS_GwEwR :: "bxInstruction_c \<Rightarrow> bx_cpu \<Rightarrow> bx_cpu" where
  "CMOVNS_GwEwR = CMOV_GwEwR (\<lambda>e. getB_SF e = 0)"

definition CMOVP_GwEwR :: "bxInstruction_c \<Rightarrow> bx_cpu \<Rightarrow> bx_cpu" where
  "CMOVP_GwEwR = CMOV_GwEwR (\<lambda>e. getB_PF e \<noteq> 0)"

definition CMOVNP_GwEwR :: "bxInstruction_c \<Rightarrow> bx_cpu \<Rightarrow> bx_cpu" where
  "CMOVNP_GwEwR = CMOV_GwEwR (\<lambda>e. getB_PF e = 0)"

definition CMOVL_GwEwR :: "bxInstruction_c \<Rightarrow> bx_cpu \<Rightarrow> bx_cpu" where
  "CMOVL_GwEwR = CMOV_GwEwR (\<lambda>e. getB_SF e \<noteq> getB_OF e)"

definition CMOVNL_GwEwR :: "bxInstruction_c \<Rightarrow> bx_cpu \<Rightarrow> bx_cpu" where
  "CMOVNL_GwEwR = CMOV_GwEwR (\<lambda>e. getB_SF e = getB_OF e)"

definition CMOVLE_GwEwR :: "bxInstruction_c \<Rightarrow> bx_cpu \<Rightarrow> bx_cpu" where
  "CMOVLE_GwEwR = CMOV_GwEwR (\<lambda>e. getB_ZF e \<noteq> 0 \<or> getB_SF e \<noteq> getB_OF e)"

definition CMOVNLE_GwEwR :: "bxInstruction_c \<Rightarrow> bx_cpu \<Rightarrow> bx_cpu" where
  "CMOVNLE_GwEwR = CMOV_GwEwR (\<lambda>e. getB_ZF e = 0 \<and> getB_SF e = getB_OF e)"

section \<open>The condition of each move\<close>

lemma CMOV16_conditions:
  fixes i :: bxInstruction_c and s :: bx_cpu
  defines "mv \<equiv> \<lambda>p. if p then BX_WRITE_16BIT_REG (dst i) (BX_READ_16BIT_REG (src i) s) s else s" and "f \<equiv> cpu_flags s"
  shows "CMOVO_GwEwR i s = mv (fOF f)"
    "CMOVNO_GwEwR i s = mv (\<not> fOF f)"
    "CMOVB_GwEwR i s = mv (fCF f)"
    "CMOVNB_GwEwR i s = mv (\<not> fCF f)"
    "CMOVZ_GwEwR i s = mv (fZF f)"
    "CMOVNZ_GwEwR i s = mv (\<not> fZF f)"
    "CMOVBE_GwEwR i s = mv (fCF f \<or> fZF f)"
    "CMOVNBE_GwEwR i s = mv (\<not> (fCF f \<or> fZF f))"
    "CMOVS_GwEwR i s = mv (fSF f)"
    "CMOVNS_GwEwR i s = mv (\<not> fSF f)"
    "CMOVP_GwEwR i s = mv (fPF f)"
    "CMOVNP_GwEwR i s = mv (\<not> fPF f)"
    "CMOVL_GwEwR i s = mv (fSF f \<noteq> fOF f)"
    "CMOVNL_GwEwR i s = mv (fSF f = fOF f)"
    "CMOVLE_GwEwR i s = mv (fZF f \<or> fSF f \<noteq> fOF f)"
    "CMOVNLE_GwEwR i s = mv (\<not> fZF f \<and> fSF f = fOF f)"
  by (simp_all add: CMOVO_GwEwR_def CMOVNO_GwEwR_def CMOVB_GwEwR_def CMOVNB_GwEwR_def CMOVZ_GwEwR_def CMOVNZ_GwEwR_def CMOVBE_GwEwR_def CMOVNBE_GwEwR_def CMOVS_GwEwR_def CMOVNS_GwEwR_def CMOVP_GwEwR_def CMOVNP_GwEwR_def CMOVL_GwEwR_def CMOVNL_GwEwR_def CMOVLE_GwEwR_def CMOVNLE_GwEwR_def CMOV_GwEwR_def mv_def f_def
      get_flags_nonzero getB_flags clear_high_write Let_def)

section \<open>Faults\<close>

lemmas data_xfer16_mem_defs = MOV_EwIwM_def MOV_EwGwM_def MOV_GwEwM_def MOV_EwSwR_def MOV_EwSwM_def MOV_AXOd_def MOV_OdAX_def MOVZX_GwEbM_def MOVSX_GwEbM_def XCHG_EwGwM_def

lemma data_xfer16_mem_precise:
  "precise (MOV_EwIwM i)"  "precise (MOV_EwGwM i)"  "precise (MOV_GwEwM i)"  "precise (MOV_EwSwR i)"  "precise (MOV_EwSwM i)"
  "precise (MOV_AXOd i)"  "precise (MOV_OdAX i)"  "precise (MOVZX_GwEbM i)"  "precise (MOVSX_GwEbM i)"  "precise (XCHG_EwGwM i)"
  unfolding data_xfer16_mem_defs Let_def by (intro precise_intros)+

end
