(* ===== verification/DataXfer64.thy ===== *)
theory DataXfer64
  imports DataXfer16
begin

text \<open>
  The data transfer handlers of \<^verbatim>\<open>cpu/data_xfer64.cc\<close>: moves, exchanges, extensions, effective addresses and conditional moves.
\<close>

section \<open>Handlers\<close>

definition MOV_RRXIq :: "bxInstruction_c \<Rightarrow> bx_cpu \<Rightarrow> bx_cpu" where
  "MOV_RRXIq i s = BX_WRITE_64BIT_REG (dst i) (Iq i) s"

definition MOV64_GdEdM :: "bxInstruction_c \<Rightarrow> unit sys_op" where
  "MOV64_GdEdM i = with_core (\<lambda>c.
    let eaddr = BX_CPU_RESOLVE_ADDR_64 i c in
    and_then (laddr64 (instr_seg i) eaddr (\<lambda>laddr.
    read_linear_dword (instr_seg i) laddr)) (\<lambda>v. on_core (BX_WRITE_32BIT_REGZ (dst i) v)))"

definition MOV64_EdGdM :: "bxInstruction_c \<Rightarrow> unit sys_op" where
  "MOV64_EdGdM i = with_core (\<lambda>c.
    let eaddr = BX_CPU_RESOLVE_ADDR_64 i c in
    laddr64 (instr_seg i) eaddr (\<lambda>laddr.
    write_linear_dword (instr_seg i) laddr (BX_READ_32BIT_REG (src i) c)))"

definition MOV_EqGqM :: "bxInstruction_c \<Rightarrow> unit sys_op" where
  "MOV_EqGqM i = with_core (\<lambda>c.
    let eaddr = BX_CPU_RESOLVE_ADDR_64 i c in
    laddr64 (instr_seg i) eaddr (\<lambda>laddr.
    write_linear_qword (instr_seg i) laddr (BX_READ_64BIT_REG (src i) c)))"

definition MOV_GqEqM :: "bxInstruction_c \<Rightarrow> unit sys_op" where
  "MOV_GqEqM i = with_core (\<lambda>c.
    let eaddr = BX_CPU_RESOLVE_ADDR_64 i c in
    and_then (laddr64 (instr_seg i) eaddr (\<lambda>laddr.
    read_linear_qword (instr_seg i) laddr)) (\<lambda>v. on_core (BX_WRITE_64BIT_REG (dst i) v)))"

definition MOV_GqEqR :: "bxInstruction_c \<Rightarrow> bx_cpu \<Rightarrow> bx_cpu" where
  "MOV_GqEqR i s = BX_WRITE_64BIT_REG (dst i) (BX_READ_64BIT_REG (src i) s) s"

definition LEA_GqM :: "bxInstruction_c \<Rightarrow> bx_cpu \<Rightarrow> bx_cpu" where
  "LEA_GqM i s = BX_WRITE_64BIT_REG (dst i) (BX_CPU_RESOLVE_ADDR_64 i s) s"

definition MOV_ALOq :: "bxInstruction_c \<Rightarrow> unit sys_op" where
  "MOV_ALOq i = with_core (\<lambda>c.
    and_then (laddr64 (instr_seg i) (Iq i) (\<lambda>laddr.
    read_linear_byte (instr_seg i) laddr)) (\<lambda>v. on_core (BX_WRITE_8BIT_REGL 0 v)))"

definition MOV_OqAL :: "bxInstruction_c \<Rightarrow> unit sys_op" where
  "MOV_OqAL i = with_core (\<lambda>c.
    laddr64 (instr_seg i) (Iq i) (\<lambda>laddr.
    write_linear_byte (instr_seg i) laddr (AL c)))"

definition MOV_AXOq :: "bxInstruction_c \<Rightarrow> unit sys_op" where
  "MOV_AXOq i = with_core (\<lambda>c.
    and_then (laddr64 (instr_seg i) (Iq i) (\<lambda>laddr.
    read_linear_word (instr_seg i) laddr)) (\<lambda>v. on_core (BX_WRITE_16BIT_REG 0 v)))"

definition MOV_OqAX :: "bxInstruction_c \<Rightarrow> unit sys_op" where
  "MOV_OqAX i = with_core (\<lambda>c.
    laddr64 (instr_seg i) (Iq i) (\<lambda>laddr.
    write_linear_word (instr_seg i) laddr (AX c)))"

definition MOV_EAXOq :: "bxInstruction_c \<Rightarrow> unit sys_op" where
  "MOV_EAXOq i = with_core (\<lambda>c.
    and_then (laddr64 (instr_seg i) (Iq i) (\<lambda>laddr.
    read_linear_dword (instr_seg i) laddr)) (\<lambda>v. on_core (BX_WRITE_64BIT_REG 0 (ucast v))))"

definition MOV_OqEAX :: "bxInstruction_c \<Rightarrow> unit sys_op" where
  "MOV_OqEAX i = with_core (\<lambda>c.
    laddr64 (instr_seg i) (Iq i) (\<lambda>laddr.
    write_linear_dword (instr_seg i) laddr (EAX c)))"

definition MOV_RAXOq :: "bxInstruction_c \<Rightarrow> unit sys_op" where
  "MOV_RAXOq i = with_core (\<lambda>c.
    and_then (laddr64 (instr_seg i) (Iq i) (\<lambda>laddr.
    read_linear_qword (instr_seg i) laddr)) (\<lambda>v. on_core (BX_WRITE_64BIT_REG 0 v)))"

definition MOV_OqRAX :: "bxInstruction_c \<Rightarrow> unit sys_op" where
  "MOV_OqRAX i = with_core (\<lambda>c.
    laddr64 (instr_seg i) (Iq i) (\<lambda>laddr.
    write_linear_qword (instr_seg i) laddr (RAX c)))"

definition MOV_EqIdM :: "bxInstruction_c \<Rightarrow> unit sys_op" where
  "MOV_EqIdM i = with_core (\<lambda>c.
    let eaddr = BX_CPU_RESOLVE_ADDR_64 i c in
    laddr64 (instr_seg i) eaddr (\<lambda>laddr.
    write_linear_qword (instr_seg i) laddr (scast (Id i))))"

definition MOV_EqIdR :: "bxInstruction_c \<Rightarrow> bx_cpu \<Rightarrow> bx_cpu" where
  "MOV_EqIdR i s = BX_WRITE_64BIT_REG (dst i) (scast (Id i)) s"

definition MOVZX_GqEbM :: "bxInstruction_c \<Rightarrow> unit sys_op" where
  "MOVZX_GqEbM i = with_core (\<lambda>c.
    let eaddr = BX_CPU_RESOLVE_ADDR_64 i c in
    and_then (laddr64 (instr_seg i) eaddr (\<lambda>laddr.
    read_linear_byte (instr_seg i) laddr)) (\<lambda>v. on_core (BX_WRITE_64BIT_REG (dst i) (ucast v))))"

definition MOVZX_GqEbR :: "bxInstruction_c \<Rightarrow> bx_cpu \<Rightarrow> bx_cpu" where
  "MOVZX_GqEbR i s = BX_WRITE_64BIT_REG (dst i) (ucast (BX_READ_8BIT_REGx (src i) (extend8bitL i) s)) s"

definition MOVZX_GqEwM :: "bxInstruction_c \<Rightarrow> unit sys_op" where
  "MOVZX_GqEwM i = with_core (\<lambda>c.
    let eaddr = BX_CPU_RESOLVE_ADDR_64 i c in
    and_then (laddr64 (instr_seg i) eaddr (\<lambda>laddr.
    read_linear_word (instr_seg i) laddr)) (\<lambda>v. on_core (BX_WRITE_64BIT_REG (dst i) (ucast v))))"

definition MOVZX_GqEwR :: "bxInstruction_c \<Rightarrow> bx_cpu \<Rightarrow> bx_cpu" where
  "MOVZX_GqEwR i s = BX_WRITE_64BIT_REG (dst i) (ucast (BX_READ_16BIT_REG (src i) s)) s"

definition MOVSX_GqEbM :: "bxInstruction_c \<Rightarrow> unit sys_op" where
  "MOVSX_GqEbM i = with_core (\<lambda>c.
    let eaddr = BX_CPU_RESOLVE_ADDR_64 i c in
    and_then (laddr64 (instr_seg i) eaddr (\<lambda>laddr.
    read_linear_byte (instr_seg i) laddr)) (\<lambda>v. on_core (BX_WRITE_64BIT_REG (dst i) (scast v))))"

definition MOVSX_GqEbR :: "bxInstruction_c \<Rightarrow> bx_cpu \<Rightarrow> bx_cpu" where
  "MOVSX_GqEbR i s = BX_WRITE_64BIT_REG (dst i) (scast (BX_READ_8BIT_REGx (src i) (extend8bitL i) s)) s"

definition MOVSX_GqEwM :: "bxInstruction_c \<Rightarrow> unit sys_op" where
  "MOVSX_GqEwM i = with_core (\<lambda>c.
    let eaddr = BX_CPU_RESOLVE_ADDR_64 i c in
    and_then (laddr64 (instr_seg i) eaddr (\<lambda>laddr.
    read_linear_word (instr_seg i) laddr)) (\<lambda>v. on_core (BX_WRITE_64BIT_REG (dst i) (scast v))))"

definition MOVSX_GqEwR :: "bxInstruction_c \<Rightarrow> bx_cpu \<Rightarrow> bx_cpu" where
  "MOVSX_GqEwR i s = BX_WRITE_64BIT_REG (dst i) (scast (BX_READ_16BIT_REG (src i) s)) s"

definition MOVSX_GqEdM :: "bxInstruction_c \<Rightarrow> unit sys_op" where
  "MOVSX_GqEdM i = with_core (\<lambda>c.
    let eaddr = BX_CPU_RESOLVE_ADDR_64 i c in
    and_then (laddr64 (instr_seg i) eaddr (\<lambda>laddr.
    read_linear_dword (instr_seg i) laddr)) (\<lambda>v. on_core (BX_WRITE_64BIT_REG (dst i) (scast v))))"

definition MOVSX_GqEdR :: "bxInstruction_c \<Rightarrow> bx_cpu \<Rightarrow> bx_cpu" where
  "MOVSX_GqEdR i s = BX_WRITE_64BIT_REG (dst i) (scast (BX_READ_32BIT_REG (src i) s)) s"

definition XCHG_EqGqM :: "bxInstruction_c \<Rightarrow> unit sys_op" where
  "XCHG_EqGqM i = with_core (\<lambda>c.
    let eaddr = BX_CPU_RESOLVE_ADDR_64 i c in
    and_then (laddr64 (instr_seg i) eaddr (\<lambda>laddr. read_RMW_linear_qword (instr_seg i) laddr)) (\<lambda>op1.
    with_core (\<lambda>c. and_then (write_RMW_linear_qword (BX_READ_64BIT_REG (src i) c)) (\<lambda>_. on_core (BX_WRITE_64BIT_REG (src i) op1)))))"

definition XCHG_EqGqR :: "bxInstruction_c \<Rightarrow> bx_cpu \<Rightarrow> bx_cpu" where
  "XCHG_EqGqR i s = 
    (let op1 = BX_READ_64BIT_REG (dst i) s;
         op2 = BX_READ_64BIT_REG (src i) s;
         s = BX_WRITE_64BIT_REG (src i) op1 s
     in BX_WRITE_64BIT_REG (dst i) op2 s)"

definition CMOV_GqEqR :: "(bx_lazyflags_entry \<Rightarrow> bool) \<Rightarrow> bxInstruction_c \<Rightarrow> bx_cpu \<Rightarrow> bx_cpu" where
  "CMOV_GqEqR cond i s =
    (if cond (oszapc s) then BX_WRITE_64BIT_REG (dst i) (BX_READ_64BIT_REG (src i) s) s else s)"

definition CMOVO_GqEqR :: "bxInstruction_c \<Rightarrow> bx_cpu \<Rightarrow> bx_cpu" where
  "CMOVO_GqEqR = CMOV_GqEqR (\<lambda>e. get_OF e \<noteq> 0)"

definition CMOVNO_GqEqR :: "bxInstruction_c \<Rightarrow> bx_cpu \<Rightarrow> bx_cpu" where
  "CMOVNO_GqEqR = CMOV_GqEqR (\<lambda>e. get_OF e = 0)"

definition CMOVB_GqEqR :: "bxInstruction_c \<Rightarrow> bx_cpu \<Rightarrow> bx_cpu" where
  "CMOVB_GqEqR = CMOV_GqEqR (\<lambda>e. get_CF e \<noteq> 0)"

definition CMOVNB_GqEqR :: "bxInstruction_c \<Rightarrow> bx_cpu \<Rightarrow> bx_cpu" where
  "CMOVNB_GqEqR = CMOV_GqEqR (\<lambda>e. get_CF e = 0)"

definition CMOVZ_GqEqR :: "bxInstruction_c \<Rightarrow> bx_cpu \<Rightarrow> bx_cpu" where
  "CMOVZ_GqEqR = CMOV_GqEqR (\<lambda>e. getB_ZF e \<noteq> 0)"

definition CMOVNZ_GqEqR :: "bxInstruction_c \<Rightarrow> bx_cpu \<Rightarrow> bx_cpu" where
  "CMOVNZ_GqEqR = CMOV_GqEqR (\<lambda>e. getB_ZF e = 0)"

definition CMOVBE_GqEqR :: "bxInstruction_c \<Rightarrow> bx_cpu \<Rightarrow> bx_cpu" where
  "CMOVBE_GqEqR = CMOV_GqEqR (\<lambda>e. get_CF e \<noteq> 0 \<or> getB_ZF e \<noteq> 0)"

definition CMOVNBE_GqEqR :: "bxInstruction_c \<Rightarrow> bx_cpu \<Rightarrow> bx_cpu" where
  "CMOVNBE_GqEqR = CMOV_GqEqR (\<lambda>e. \<not> (get_CF e \<noteq> 0 \<or> getB_ZF e \<noteq> 0))"

definition CMOVS_GqEqR :: "bxInstruction_c \<Rightarrow> bx_cpu \<Rightarrow> bx_cpu" where
  "CMOVS_GqEqR = CMOV_GqEqR (\<lambda>e. getB_SF e \<noteq> 0)"

definition CMOVNS_GqEqR :: "bxInstruction_c \<Rightarrow> bx_cpu \<Rightarrow> bx_cpu" where
  "CMOVNS_GqEqR = CMOV_GqEqR (\<lambda>e. getB_SF e = 0)"

definition CMOVP_GqEqR :: "bxInstruction_c \<Rightarrow> bx_cpu \<Rightarrow> bx_cpu" where
  "CMOVP_GqEqR = CMOV_GqEqR (\<lambda>e. getB_PF e \<noteq> 0)"

definition CMOVNP_GqEqR :: "bxInstruction_c \<Rightarrow> bx_cpu \<Rightarrow> bx_cpu" where
  "CMOVNP_GqEqR = CMOV_GqEqR (\<lambda>e. getB_PF e = 0)"

definition CMOVL_GqEqR :: "bxInstruction_c \<Rightarrow> bx_cpu \<Rightarrow> bx_cpu" where
  "CMOVL_GqEqR = CMOV_GqEqR (\<lambda>e. getB_SF e \<noteq> getB_OF e)"

definition CMOVNL_GqEqR :: "bxInstruction_c \<Rightarrow> bx_cpu \<Rightarrow> bx_cpu" where
  "CMOVNL_GqEqR = CMOV_GqEqR (\<lambda>e. getB_SF e = getB_OF e)"

definition CMOVLE_GqEqR :: "bxInstruction_c \<Rightarrow> bx_cpu \<Rightarrow> bx_cpu" where
  "CMOVLE_GqEqR = CMOV_GqEqR (\<lambda>e. getB_ZF e \<noteq> 0 \<or> getB_SF e \<noteq> getB_OF e)"

definition CMOVNLE_GqEqR :: "bxInstruction_c \<Rightarrow> bx_cpu \<Rightarrow> bx_cpu" where
  "CMOVNLE_GqEqR = CMOV_GqEqR (\<lambda>e. getB_ZF e = 0 \<and> getB_SF e = getB_OF e)"

section \<open>The condition of each move\<close>

lemma CMOV64_conditions:
  fixes i :: bxInstruction_c and s :: bx_cpu
  defines "mv \<equiv> \<lambda>p. if p then BX_WRITE_64BIT_REG (dst i) (BX_READ_64BIT_REG (src i) s) s else s" and "f \<equiv> cpu_flags s"
  shows "CMOVO_GqEqR i s = mv (fOF f)"
    "CMOVNO_GqEqR i s = mv (\<not> fOF f)"
    "CMOVB_GqEqR i s = mv (fCF f)"
    "CMOVNB_GqEqR i s = mv (\<not> fCF f)"
    "CMOVZ_GqEqR i s = mv (fZF f)"
    "CMOVNZ_GqEqR i s = mv (\<not> fZF f)"
    "CMOVBE_GqEqR i s = mv (fCF f \<or> fZF f)"
    "CMOVNBE_GqEqR i s = mv (\<not> (fCF f \<or> fZF f))"
    "CMOVS_GqEqR i s = mv (fSF f)"
    "CMOVNS_GqEqR i s = mv (\<not> fSF f)"
    "CMOVP_GqEqR i s = mv (fPF f)"
    "CMOVNP_GqEqR i s = mv (\<not> fPF f)"
    "CMOVL_GqEqR i s = mv (fSF f \<noteq> fOF f)"
    "CMOVNL_GqEqR i s = mv (fSF f = fOF f)"
    "CMOVLE_GqEqR i s = mv (fZF f \<or> fSF f \<noteq> fOF f)"
    "CMOVNLE_GqEqR i s = mv (\<not> fZF f \<and> fSF f = fOF f)"
  by (simp_all add: CMOVO_GqEqR_def CMOVNO_GqEqR_def CMOVB_GqEqR_def CMOVNB_GqEqR_def CMOVZ_GqEqR_def CMOVNZ_GqEqR_def CMOVBE_GqEqR_def CMOVNBE_GqEqR_def CMOVS_GqEqR_def CMOVNS_GqEqR_def CMOVP_GqEqR_def CMOVNP_GqEqR_def CMOVL_GqEqR_def CMOVNL_GqEqR_def CMOVLE_GqEqR_def CMOVNLE_GqEqR_def CMOV_GqEqR_def mv_def f_def
      get_flags_nonzero getB_flags clear_high_write Let_def)

section \<open>Faults\<close>

lemmas data_xfer64_mem_defs = MOV64_GdEdM_def MOV64_EdGdM_def MOV_EqGqM_def MOV_GqEqM_def MOV_ALOq_def MOV_OqAL_def MOV_AXOq_def MOV_OqAX_def MOV_EAXOq_def MOV_OqEAX_def MOV_RAXOq_def MOV_OqRAX_def MOV_EqIdM_def MOVZX_GqEbM_def MOVZX_GqEwM_def MOVSX_GqEbM_def MOVSX_GqEwM_def MOVSX_GqEdM_def XCHG_EqGqM_def

lemma data_xfer64_mem_precise:
  "precise (MOV64_GdEdM i)"  "precise (MOV64_EdGdM i)"  "precise (MOV_EqGqM i)"  "precise (MOV_GqEqM i)"  "precise (MOV_ALOq i)"
  "precise (MOV_OqAL i)"  "precise (MOV_AXOq i)"  "precise (MOV_OqAX i)"  "precise (MOV_EAXOq i)"  "precise (MOV_OqEAX i)"
  "precise (MOV_RAXOq i)"  "precise (MOV_OqRAX i)"  "precise (MOV_EqIdM i)"  "precise (MOVZX_GqEbM i)"  "precise (MOVZX_GqEwM i)"
  "precise (MOVSX_GqEbM i)"  "precise (MOVSX_GqEwM i)"  "precise (MOVSX_GqEdM i)"  "precise (XCHG_EqGqM i)"
  unfolding data_xfer64_mem_defs Let_def by (intro precise_intros)+

end
