(* ===== verification/DataXfer32.thy ===== *)
theory DataXfer32
  imports DataXfer16
begin

text \<open>
  The data transfer handlers of \<^verbatim>\<open>cpu/data_xfer32.cc\<close>: moves, exchanges, extensions, effective addresses and conditional moves.
\<close>

section \<open>Handlers\<close>

definition MOV_EdIdM :: "bxInstruction_c \<Rightarrow> unit sys_op" where
  "MOV_EdIdM i = with_core (\<lambda>c.
    let eaddr = BX_CPU_RESOLVE_ADDR i c in
    write_virtual_dword (instr_seg i) eaddr (Id i))"

definition MOV_EdIdR :: "bxInstruction_c \<Rightarrow> bx_cpu \<Rightarrow> bx_cpu" where
  "MOV_EdIdR i s = BX_WRITE_32BIT_REGZ (dst i) (Id i) s"

definition MOV32_EdGdM :: "bxInstruction_c \<Rightarrow> unit sys_op" where
  "MOV32_EdGdM i = with_core (\<lambda>c.
    let eaddr = BxResolve32 i c in
    write_virtual_dword_32 (instr_seg i) eaddr (BX_READ_32BIT_REG (src i) c))"

definition MOV_GdEdR :: "bxInstruction_c \<Rightarrow> bx_cpu \<Rightarrow> bx_cpu" where
  "MOV_GdEdR i s = BX_WRITE_32BIT_REGZ (dst i) (BX_READ_32BIT_REG (src i) s) s"

definition MOV32_GdEdM :: "bxInstruction_c \<Rightarrow> unit sys_op" where
  "MOV32_GdEdM i = with_core (\<lambda>c.
    let eaddr = BxResolve32 i c in
    and_then (read_virtual_dword_32 (instr_seg i) eaddr) (\<lambda>v. on_core (BX_WRITE_32BIT_REGZ (dst i) v)))"

definition LEA_GdM :: "bxInstruction_c \<Rightarrow> bx_cpu \<Rightarrow> bx_cpu" where
  "LEA_GdM i s = BX_WRITE_32BIT_REGZ (dst i) (ucast (BX_CPU_RESOLVE_ADDR i s)) s"

definition MOV_EAXOd :: "bxInstruction_c \<Rightarrow> unit sys_op" where
  "MOV_EAXOd i = with_core (\<lambda>c.
    and_then (read_virtual_dword_32 (instr_seg i) (Id i)) (\<lambda>v. on_core (BX_WRITE_64BIT_REG 0 (ucast v))))"

definition MOV_OdEAX :: "bxInstruction_c \<Rightarrow> unit sys_op" where
  "MOV_OdEAX i = with_core (\<lambda>c.
    write_virtual_dword_32 (instr_seg i) (Id i) (EAX c))"

definition MOVZX_GdEbM :: "bxInstruction_c \<Rightarrow> unit sys_op" where
  "MOVZX_GdEbM i = with_core (\<lambda>c.
    let eaddr = BX_CPU_RESOLVE_ADDR i c in
    and_then (read_virtual_byte (instr_seg i) eaddr) (\<lambda>v. on_core (BX_WRITE_32BIT_REGZ (dst i) (ucast v))))"

definition MOVZX_GdEbR :: "bxInstruction_c \<Rightarrow> bx_cpu \<Rightarrow> bx_cpu" where
  "MOVZX_GdEbR i s = BX_WRITE_32BIT_REGZ (dst i) (ucast (BX_READ_8BIT_REGx (src i) (extend8bitL i) s)) s"

definition MOVZX_GdEwM :: "bxInstruction_c \<Rightarrow> unit sys_op" where
  "MOVZX_GdEwM i = with_core (\<lambda>c.
    let eaddr = BX_CPU_RESOLVE_ADDR i c in
    and_then (read_virtual_word (instr_seg i) eaddr) (\<lambda>v. on_core (BX_WRITE_32BIT_REGZ (dst i) (ucast v))))"

definition MOVZX_GdEwR :: "bxInstruction_c \<Rightarrow> bx_cpu \<Rightarrow> bx_cpu" where
  "MOVZX_GdEwR i s = BX_WRITE_32BIT_REGZ (dst i) (ucast (BX_READ_16BIT_REG (src i) s)) s"

definition MOVSX_GdEbM :: "bxInstruction_c \<Rightarrow> unit sys_op" where
  "MOVSX_GdEbM i = with_core (\<lambda>c.
    let eaddr = BX_CPU_RESOLVE_ADDR i c in
    and_then (read_virtual_byte (instr_seg i) eaddr) (\<lambda>v. on_core (BX_WRITE_32BIT_REGZ (dst i) (scast v))))"

definition MOVSX_GdEbR :: "bxInstruction_c \<Rightarrow> bx_cpu \<Rightarrow> bx_cpu" where
  "MOVSX_GdEbR i s = BX_WRITE_32BIT_REGZ (dst i) (scast (BX_READ_8BIT_REGx (src i) (extend8bitL i) s)) s"

definition MOVSX_GdEwM :: "bxInstruction_c \<Rightarrow> unit sys_op" where
  "MOVSX_GdEwM i = with_core (\<lambda>c.
    let eaddr = BX_CPU_RESOLVE_ADDR i c in
    and_then (read_virtual_word (instr_seg i) eaddr) (\<lambda>v. on_core (BX_WRITE_32BIT_REGZ (dst i) (scast v))))"

definition MOVSX_GdEwR :: "bxInstruction_c \<Rightarrow> bx_cpu \<Rightarrow> bx_cpu" where
  "MOVSX_GdEwR i s = BX_WRITE_32BIT_REGZ (dst i) (scast (BX_READ_16BIT_REG (src i) s)) s"

definition XCHG_EdGdM :: "bxInstruction_c \<Rightarrow> unit sys_op" where
  "XCHG_EdGdM i = with_core (\<lambda>c.
    let eaddr = BX_CPU_RESOLVE_ADDR i c in
    and_then (read_RMW_virtual_dword (instr_seg i) eaddr) (\<lambda>op1.
    with_core (\<lambda>c. and_then (write_RMW_linear_dword (BX_READ_32BIT_REG (src i) c)) (\<lambda>_. on_core (BX_WRITE_32BIT_REGZ (src i) op1)))))"

definition XCHG_EdGdR :: "bxInstruction_c \<Rightarrow> bx_cpu \<Rightarrow> bx_cpu" where
  "XCHG_EdGdR i s = 
    (let op1 = BX_READ_32BIT_REG (dst i) s;
         op2 = BX_READ_32BIT_REG (src i) s;
         s = BX_WRITE_32BIT_REGZ (src i) op1 s
     in BX_WRITE_32BIT_REGZ (dst i) op2 s)"

definition CMOV_GdEdR :: "(bx_lazyflags_entry \<Rightarrow> bool) \<Rightarrow> bxInstruction_c \<Rightarrow> bx_cpu \<Rightarrow> bx_cpu" where
  "CMOV_GdEdR cond i s =
    (let s = (if cond (oszapc s) then BX_WRITE_32BIT_REGZ (dst i) (BX_READ_32BIT_REG (src i) s) s else s) in BX_CLEAR_64BIT_HIGH (dst i) s)"

definition CMOVO_GdEdR :: "bxInstruction_c \<Rightarrow> bx_cpu \<Rightarrow> bx_cpu" where
  "CMOVO_GdEdR = CMOV_GdEdR (\<lambda>e. get_OF e \<noteq> 0)"

definition CMOVNO_GdEdR :: "bxInstruction_c \<Rightarrow> bx_cpu \<Rightarrow> bx_cpu" where
  "CMOVNO_GdEdR = CMOV_GdEdR (\<lambda>e. get_OF e = 0)"

definition CMOVB_GdEdR :: "bxInstruction_c \<Rightarrow> bx_cpu \<Rightarrow> bx_cpu" where
  "CMOVB_GdEdR = CMOV_GdEdR (\<lambda>e. get_CF e \<noteq> 0)"

definition CMOVNB_GdEdR :: "bxInstruction_c \<Rightarrow> bx_cpu \<Rightarrow> bx_cpu" where
  "CMOVNB_GdEdR = CMOV_GdEdR (\<lambda>e. get_CF e = 0)"

definition CMOVZ_GdEdR :: "bxInstruction_c \<Rightarrow> bx_cpu \<Rightarrow> bx_cpu" where
  "CMOVZ_GdEdR = CMOV_GdEdR (\<lambda>e. getB_ZF e \<noteq> 0)"

definition CMOVNZ_GdEdR :: "bxInstruction_c \<Rightarrow> bx_cpu \<Rightarrow> bx_cpu" where
  "CMOVNZ_GdEdR = CMOV_GdEdR (\<lambda>e. getB_ZF e = 0)"

definition CMOVBE_GdEdR :: "bxInstruction_c \<Rightarrow> bx_cpu \<Rightarrow> bx_cpu" where
  "CMOVBE_GdEdR = CMOV_GdEdR (\<lambda>e. get_CF e \<noteq> 0 \<or> getB_ZF e \<noteq> 0)"

definition CMOVNBE_GdEdR :: "bxInstruction_c \<Rightarrow> bx_cpu \<Rightarrow> bx_cpu" where
  "CMOVNBE_GdEdR = CMOV_GdEdR (\<lambda>e. \<not> (get_CF e \<noteq> 0 \<or> getB_ZF e \<noteq> 0))"

definition CMOVS_GdEdR :: "bxInstruction_c \<Rightarrow> bx_cpu \<Rightarrow> bx_cpu" where
  "CMOVS_GdEdR = CMOV_GdEdR (\<lambda>e. getB_SF e \<noteq> 0)"

definition CMOVNS_GdEdR :: "bxInstruction_c \<Rightarrow> bx_cpu \<Rightarrow> bx_cpu" where
  "CMOVNS_GdEdR = CMOV_GdEdR (\<lambda>e. getB_SF e = 0)"

definition CMOVP_GdEdR :: "bxInstruction_c \<Rightarrow> bx_cpu \<Rightarrow> bx_cpu" where
  "CMOVP_GdEdR = CMOV_GdEdR (\<lambda>e. getB_PF e \<noteq> 0)"

definition CMOVNP_GdEdR :: "bxInstruction_c \<Rightarrow> bx_cpu \<Rightarrow> bx_cpu" where
  "CMOVNP_GdEdR = CMOV_GdEdR (\<lambda>e. getB_PF e = 0)"

definition CMOVL_GdEdR :: "bxInstruction_c \<Rightarrow> bx_cpu \<Rightarrow> bx_cpu" where
  "CMOVL_GdEdR = CMOV_GdEdR (\<lambda>e. getB_SF e \<noteq> getB_OF e)"

definition CMOVNL_GdEdR :: "bxInstruction_c \<Rightarrow> bx_cpu \<Rightarrow> bx_cpu" where
  "CMOVNL_GdEdR = CMOV_GdEdR (\<lambda>e. getB_SF e = getB_OF e)"

definition CMOVLE_GdEdR :: "bxInstruction_c \<Rightarrow> bx_cpu \<Rightarrow> bx_cpu" where
  "CMOVLE_GdEdR = CMOV_GdEdR (\<lambda>e. getB_ZF e \<noteq> 0 \<or> getB_SF e \<noteq> getB_OF e)"

definition CMOVNLE_GdEdR :: "bxInstruction_c \<Rightarrow> bx_cpu \<Rightarrow> bx_cpu" where
  "CMOVNLE_GdEdR = CMOV_GdEdR (\<lambda>e. getB_ZF e = 0 \<and> getB_SF e = getB_OF e)"

section \<open>The condition of each move\<close>

lemma CMOV32_conditions:
  fixes i :: bxInstruction_c and s :: bx_cpu
  defines "mv \<equiv> \<lambda>p. if p then BX_WRITE_32BIT_REGZ (dst i) (BX_READ_32BIT_REG (src i) s) s else BX_CLEAR_64BIT_HIGH (dst i) s" and "f \<equiv> cpu_flags s"
  shows "CMOVO_GdEdR i s = mv (fOF f)"
    "CMOVNO_GdEdR i s = mv (\<not> fOF f)"
    "CMOVB_GdEdR i s = mv (fCF f)"
    "CMOVNB_GdEdR i s = mv (\<not> fCF f)"
    "CMOVZ_GdEdR i s = mv (fZF f)"
    "CMOVNZ_GdEdR i s = mv (\<not> fZF f)"
    "CMOVBE_GdEdR i s = mv (fCF f \<or> fZF f)"
    "CMOVNBE_GdEdR i s = mv (\<not> (fCF f \<or> fZF f))"
    "CMOVS_GdEdR i s = mv (fSF f)"
    "CMOVNS_GdEdR i s = mv (\<not> fSF f)"
    "CMOVP_GdEdR i s = mv (fPF f)"
    "CMOVNP_GdEdR i s = mv (\<not> fPF f)"
    "CMOVL_GdEdR i s = mv (fSF f \<noteq> fOF f)"
    "CMOVNL_GdEdR i s = mv (fSF f = fOF f)"
    "CMOVLE_GdEdR i s = mv (fZF f \<or> fSF f \<noteq> fOF f)"
    "CMOVNLE_GdEdR i s = mv (\<not> fZF f \<and> fSF f = fOF f)"
  by (simp_all add: CMOVO_GdEdR_def CMOVNO_GdEdR_def CMOVB_GdEdR_def CMOVNB_GdEdR_def CMOVZ_GdEdR_def CMOVNZ_GdEdR_def CMOVBE_GdEdR_def CMOVNBE_GdEdR_def CMOVS_GdEdR_def CMOVNS_GdEdR_def CMOVP_GdEdR_def CMOVNP_GdEdR_def CMOVL_GdEdR_def CMOVNL_GdEdR_def CMOVLE_GdEdR_def CMOVNLE_GdEdR_def CMOV_GdEdR_def mv_def f_def
      get_flags_nonzero getB_flags clear_high_write Let_def)

section \<open>Faults\<close>

lemmas data_xfer32_mem_defs = MOV_EdIdM_def MOV32_EdGdM_def MOV32_GdEdM_def MOV_EAXOd_def MOV_OdEAX_def MOVZX_GdEbM_def MOVZX_GdEwM_def MOVSX_GdEbM_def MOVSX_GdEwM_def XCHG_EdGdM_def

lemma data_xfer32_mem_precise:
  "precise (MOV_EdIdM i)"  "precise (MOV32_EdGdM i)"  "precise (MOV32_GdEdM i)"  "precise (MOV_EAXOd i)"  "precise (MOV_OdEAX i)"
  "precise (MOVZX_GdEbM i)"  "precise (MOVZX_GdEwM i)"  "precise (MOVSX_GdEbM i)"  "precise (MOVSX_GdEwM i)"  "precise (XCHG_EdGdM i)"
  unfolding data_xfer32_mem_defs Let_def by (intro precise_intros)+

end
