(* ===== verification/BitBase.thy ===== *)
theory BitBase
  imports MemOperand ScalarArith "HOL-Library.While_Combinator" "HOL-Library.Signed_Division"
begin

text \<open>
  What the bit instructions of \<^verbatim>\<open>cpu/bit16.cc\<close>, \<^verbatim>\<open>cpu/bit32.cc\<close> and \<^verbatim>\<open>cpu/bit64.cc\<close> share: the numbers of the lowest and
  highest set bit, the loop of BSR, and the element of a bit string in memory that a signed bit number selects.
\<close>

section \<open>Lowest and highest set bit\<close>

lemma finite_bits: "finite {k. bit (v :: 'a::len word) k}"
  by (rule finite_subset [of _ "{..<LENGTH('a)}"]) (auto dest: bit_imp_le_length)

lemma some_bit: "v \<noteq> 0 \<Longrightarrow> {k. bit (v :: 'a::len word) k} \<noteq> {}"
  by (auto simp: bit_eq_iff)

lemma takeWhile_first:
  assumes "P m" "m < n" "\<And>k. k < m \<Longrightarrow> \<not> P k"
  shows "length (takeWhile (\<lambda>i. \<not> P i) [0..<n]) = m"
proof -
  have "[0..<n] = [0..<m] @ m # [Suc m..<n]"
    using assms(2) by (metis append.simps less_imp_le_nat upt_add_eq_append upt_conv_Cons le_add_diff_inverse zero_le)
  moreover have "takeWhile (\<lambda>i. \<not> P i) ([0..<m] @ m # [Suc m..<n]) = [0..<m] @ takeWhile (\<lambda>i. \<not> P i) (m # [Suc m..<n])"
    by (rule takeWhile_append2) (simp add: assms(3))
  ultimately show ?thesis using assms(1) by simp
qed

lemma takeWhile_last:
  assumes "P m" "m < n" "\<And>k. m < k \<Longrightarrow> \<not> P k"
  shows "length (takeWhile (\<lambda>i. \<not> P i) (rev [0..<n])) = n - 1 - m"
proof -
  have "[0..<n] = [0..<m] @ m # [Suc m..<n]"
    using assms(2) by (metis append.simps less_imp_le_nat upt_add_eq_append upt_conv_Cons le_add_diff_inverse zero_le)
  then have "rev [0..<n] = rev [Suc m..<n] @ m # rev [0..<m]" by simp
  moreover have "takeWhile (\<lambda>i. \<not> P i) (rev [Suc m..<n] @ m # rev [0..<m]) = rev [Suc m..<n] @ takeWhile (\<lambda>i. \<not> P i) (m # rev [0..<m])"
    by (rule takeWhile_append2) (simp add: assms(3))
  ultimately show ?thesis using assms(1) by simp
qed

definition lowest_bit :: "'a::len word \<Rightarrow> nat" where "lowest_bit v = Min {k. bit v k}"
definition highest_bit :: "'a::len word \<Rightarrow> nat" where "highest_bit v = Max {k. bit v k}"

lemma lowest_bitD: "v \<noteq> 0 \<Longrightarrow> bit v (lowest_bit v)" "k < lowest_bit v \<Longrightarrow> \<not> bit v k" "v \<noteq> 0 \<Longrightarrow> lowest_bit v < LENGTH('a)"
  for v :: "'a::len word"
proof -
  show b: "v \<noteq> 0 \<Longrightarrow> bit v (lowest_bit v)" using Min_in [OF finite_bits some_bit] by (simp add: lowest_bit_def)
  show "k < lowest_bit v \<Longrightarrow> \<not> bit v k" by (metis (mono_tags) Min_le finite_bits lowest_bit_def mem_Collect_eq not_le)
  show "v \<noteq> 0 \<Longrightarrow> lowest_bit v < LENGTH('a)" using b bit_imp_le_length by blast
qed

lemma highest_bitD: "v \<noteq> 0 \<Longrightarrow> bit v (highest_bit v)" "highest_bit v < k \<Longrightarrow> \<not> bit v k" "v \<noteq> 0 \<Longrightarrow> highest_bit v < LENGTH('a)"
  for v :: "'a::len word"
proof -
  show b: "v \<noteq> 0 \<Longrightarrow> bit v (highest_bit v)" using Max_in [OF finite_bits some_bit] by (simp add: highest_bit_def)
  show "highest_bit v < k \<Longrightarrow> \<not> bit v k" by (metis (mono_tags) Max_ge finite_bits highest_bit_def mem_Collect_eq not_le)
  show "v \<noteq> 0 \<Longrightarrow> highest_bit v < LENGTH('a)" using b bit_imp_le_length by blast
qed

lemma takeWhile_all: "takeWhile (\<lambda>i. True) xs = xs"
  by (induction xs) simp_all

lemma scan_up: "length (takeWhile (\<lambda>i. \<not> bit v i) [0..<LENGTH('a)]) = (if v = 0 then LENGTH('a) else lowest_bit v)" for v :: "'a::len word"
  using takeWhile_first [of "bit v" "lowest_bit v" "LENGTH('a)"] lowest_bitD [where v = v] by (auto simp: takeWhile_all)

lemma scan_down: "length (takeWhile (\<lambda>i. \<not> bit v i) (rev [0..<LENGTH('a)])) = (if v = 0 then LENGTH('a) else LENGTH('a) - 1 - highest_bit v)"
  for v :: "'a::len word"
  using takeWhile_last [of "bit v" "highest_bit v" "LENGTH('a)"] highest_bitD [where v = v] by (auto simp: takeWhile_all)

lemma counts:
  "tzcntw v16 = (if v16 = 0 then 16 else lowest_bit v16)" "tzcntd v32 = (if v32 = 0 then 32 else lowest_bit v32)"
  "tzcntq v64 = (if v64 = 0 then 64 else lowest_bit v64)" "lzcntw v16 = (if v16 = 0 then 16 else 15 - highest_bit v16)"
  "lzcntd v32 = (if v32 = 0 then 32 else 31 - highest_bit v32)" "lzcntq v64 = (if v64 = 0 then 64 else 63 - highest_bit v64)"
  using scan_up [of v16] scan_up [of v32] scan_up [of v64] scan_down [of v16] scan_down [of v32] scan_down [of v64]
  by (simp_all add: tzcntw_scan tzcntd_scan tzcntq_scan lzcntw_scan lzcntd_scan lzcntq_scan)

text \<open>The loop of BSR: it ends for every operand that is not zero, at the highest set bit.\<close>

lemma bsr_while:
  fixes v :: "'a::len word"
  defines "n \<equiv> LENGTH('a) - 1"
  assumes "v \<noteq> 0"
  shows "fst (while (\<lambda>(a, b). b AND push_bit n 1 = 0) (\<lambda>(a, b). (a - 1, push_bit 1 b)) (of_nat n, v)) = (of_nat (highest_bit v) :: 'b::len word)"
proof -
  note h = highest_bitD(1,3) [OF assms(2)] highest_bitD(2) [where v = v]
  define T where "T = (push_bit n 1 :: 'a word)"
  define up where "up = (push_bit 1 :: 'a word \<Rightarrow> 'a word)"
  have top: "b AND T = 0 \<longleftrightarrow> \<not> bit b n" for b :: "'a word"
  proof -
    have "bit (b AND T) k \<longleftrightarrow> k = n \<and> bit b n" for k
      by (auto simp: bit_simps n_def T_def)
    then show ?thesis by (metis bit_word_eqI bit_0_eq bot_apply bot_bool_def)
  qed
  have up: "up (push_bit j v) = push_bit (Suc j) v" for j by (simp only: up_def push_bit_push_bit) simp
  let ?w = "while (\<lambda>(a, b). b AND T = 0) (\<lambda>(a, b). (a - 1, up b)) :: 'b word \<times> 'a word \<Rightarrow> 'b word \<times> 'a word"
  have "fst (?w (of_nat (n - j), push_bit j v)) = of_nat (highest_bit v)" if "j + highest_bit v + d = n" for j d
    using that
  proof (induction d arbitrary: j)
    case 0
    then have e: "n - j = highest_bit v" and "j \<le> n" by simp_all
    moreover have "n < LENGTH('a)" by (simp add: n_def)
    ultimately have "bit (push_bit j v) n" using h by (simp add: bit_push_bit_iff)
    then show ?case by (subst while_unfold) (simp add: top e)
  next
    case (Suc d)
    then have "\<not> bit (push_bit j v) n" using h(3) [of "n - j"] by (simp add: bit_push_bit_iff)
    moreover have "n - j = Suc (n - Suc j)" using Suc.prems by simp
    ultimately show ?case using Suc.IH [of "Suc j"] Suc.prems by (subst while_unfold) (simp add: top up algebra_simps)
  qed
  from this [of 0 "n - highest_bit v"] h(2) have "fst (?w (of_nat n, v)) = of_nat (highest_bit v)" by (simp add: n_def)
  then show ?thesis unfolding T_def up_def .
qed

section \<open>Bit strings in memory\<close>

text \<open>The signed number of the bit that a register source selects, and the address of the element that holds it.\<close>

definition bit_number :: "nat \<Rightarrow> bxInstruction_c \<Rightarrow> bx_cpu \<Rightarrow> int" where
  "bit_number w i c = (if w = 16 then sint (BX_READ_16BIT_REG (src i) c) else if w = 32 then sint (BX_READ_32BIT_REG (src i) c)
     else sint (BX_READ_64BIT_REG (src i) c))"

definition bit_index :: "nat \<Rightarrow> bxInstruction_c \<Rightarrow> bx_cpu \<Rightarrow> nat" where
  "bit_index w i c = nat (bit_number w i c mod int w)"

definition bit_address :: "nat \<Rightarrow> bxInstruction_c \<Rightarrow> bx_cpu \<Rightarrow> bx_address" where
  "bit_address w i c =
    (let a = BX_CPU_RESOLVE_ADDR i c + of_int (int (w div 8) * (bit_number w i c div int w))
     in if w < 64 then a AND asize_mask i else if as64L i then a else take_bit 32 a)"

lemma sint_and_high: "sint (x AND NOT (mask k)) = sint x div 2 ^ k * 2 ^ k" if "k < LENGTH('a)" for x :: "'a::len word"
proof -
  have "sint (x AND NOT (mask k)) = push_bit k (drop_bit k (sint x))"
    by (rule bit_eqI) (use that in \<open>auto simp: bit_simps min_def\<close>)
  then show ?thesis by (simp add: push_bit_eq_mult drop_bit_eq_div)
qed

lemma exact_sdiv: "b > 0 \<Longrightarrow> (a * b) sdiv b = a" for a b :: int
  by (simp add: signed_divide_int_def abs_mult sgn_mult sgn_mult_abs)

lemma sint_mod: "int (unat (x AND mask k)) = sint x mod 2 ^ k" if "k \<le> LENGTH('a)" for x :: "'a::len word"
proof -
  have "take_bit k (uint x) = take_bit k (sint x)"
  proof (rule bit_eqI)
    fix n
    have "min n (LENGTH('a) - 1) = n" if "n < k" using that \<open>k \<le> LENGTH('a)\<close> by (simp add: min_def)
    then show "bit (take_bit k (uint x)) n = bit (take_bit k (sint x)) n" by (auto simp: bit_simps min.commute)
  qed
  then show ?thesis by (simp add: unsigned_take_bit_eq of_nat_take_bit flip: take_bit_eq_mask take_bit_eq_mod)
qed

lemma element_number: "sint (x AND NOT (mask k)) sdiv 2 ^ k = sint x div 2 ^ k" if "k < LENGTH('a)" for x :: "'a::len word"
  by (simp add: sint_and_high [OF that] exact_sdiv)

lemma high_masks: "0xfff0 = NOT (mask 4 :: Bit16u)" "0xffffffe0 = NOT (mask 5 :: Bit32u)" "0xffffffffffffffc0 = NOT (mask 6 :: Bit64u)"
  "0xf = (mask 4 :: Bit16u)" "0x1f = (mask 5 :: Bit32u)" "0x3f = (mask 6 :: Bit64u)"
  by (simp_all add: mask_eq_exp_minus_1)

lemma widen_offset: "(scast (word_of_int d :: Bit32u) :: Bit64u) = word_of_int d" "(scast (word_of_int e :: Bit16u) :: Bit32u) = word_of_int e"
  if "- (2 ^ 31) \<le> d" "d < 2 ^ 31" "- (2 ^ 15) \<le> e" "e < 2 ^ 15"
proof -
  have "signed_take_bit 31 d = d" by (rule signed_take_bit_int_eq_self) (use that in simp_all)
  then show "(scast (word_of_int d :: Bit32u) :: Bit64u) = word_of_int d" by (simp add: signed_of_int)
  have "signed_take_bit 15 e = e" by (rule signed_take_bit_int_eq_self) (use that in simp_all)
  then show "(scast (word_of_int e :: Bit16u) :: Bit32u) = word_of_int e" by (simp add: signed_of_int)
qed

lemma bit_index_mask:
  "unat (BX_READ_16BIT_REG (src i) c AND 0xf) = bit_index 16 i c" "unat (BX_READ_32BIT_REG (src i) c AND 0x1f) = bit_index 32 i c"
  "unat (BX_READ_64BIT_REG (src i) c AND 0x3f) = bit_index 64 i c"
  using sint_mod [of 4 "BX_READ_16BIT_REG (src i) c", THEN arg_cong [where f = nat]] sint_mod [of 5 "BX_READ_32BIT_REG (src i) c", THEN arg_cong [where f = nat]]
    sint_mod [of 6 "BX_READ_64BIT_REG (src i) c", THEN arg_cong [where f = nat]]
  unfolding high_masks bit_index_def bit_number_def nat_int by simp_all

lemma bit_address_16:
  fixes i :: bxInstruction_c and c :: bx_cpu
  defines "n \<equiv> sint (BX_READ_16BIT_REG (src i) c AND 0xfff0) sdiv 16"
  shows "BX_CPU_RESOLVE_ADDR i c + scast (2 * (word_of_int n :: Bit32u)) AND asize_mask i = bit_address 16 i c"
    "BX_CPU_RESOLVE_ADDR i c + scast (2 * (scast (word_of_int n :: Bit16u) :: Bit32u)) AND asize_mask i = bit_address 16 i c"
proof -
  let ?x = "BX_READ_16BIT_REG (src i) c"
  have n: "n = sint ?x div 16" using element_number [of 4 ?x] by (simp add: n_def high_masks)
  have b: "- 2048 \<le> n" "n < 2048" using sint_greater_eq [of ?x] sint_less [of ?x] by (simp_all add: n)
  have "(scast (2 * (word_of_int n :: Bit32u)) :: Bit64u) = word_of_int (2 * n)"
    using widen_offset(1) [of "2 * n" 0] b by simp
  moreover have "(scast (word_of_int n :: Bit16u) :: Bit32u) = word_of_int n" using widen_offset(2) [of 0 n] b by simp
  ultimately show "BX_CPU_RESOLVE_ADDR i c + scast (2 * (word_of_int n :: Bit32u)) AND asize_mask i = bit_address 16 i c"
    "BX_CPU_RESOLVE_ADDR i c + scast (2 * (scast (word_of_int n :: Bit16u) :: Bit32u)) AND asize_mask i = bit_address 16 i c"
    by (simp_all add: bit_address_def bit_number_def n Let_def)
qed

lemma bit_address_32:
  "BX_CPU_RESOLVE_ADDR i c + scast (4 * (word_of_int (sint (BX_READ_32BIT_REG (src i) c AND 0xffffffe0) sdiv 32) :: Bit32u)) AND asize_mask i = bit_address 32 i c"
proof -
  let ?x = "BX_READ_32BIT_REG (src i) c"
  let ?n = "sint (?x AND 0xffffffe0) sdiv 32"
  have n: "?n = sint ?x div 32" using element_number [of 5 ?x] by (simp add: high_masks)
  have b: "- 67108864 \<le> ?n" "?n < 67108864" using sint_greater_eq [of ?x] sint_less [of ?x] unfolding n by simp_all
  have "(scast (4 * (word_of_int ?n :: Bit32u)) :: Bit64u) = word_of_int (4 * ?n)"
    using widen_offset(1) [of "4 * ?n" 0] b by simp
  then show ?thesis by (simp add: bit_address_def bit_number_def n Let_def)
qed

lemma bit_address_64:
  fixes i :: bxInstruction_c and c :: bx_cpu
  defines "a \<equiv> BX_CPU_RESOLVE_ADDR_64 i c + 8 * (word_of_int (sint (BX_READ_64BIT_REG (src i) c AND 0xffffffffffffffc0) sdiv 64) :: Bit64u)"
  shows "(if \<not> as64L i then ucast (ucast a :: Bit32u) else a) = bit_address 64 i c"
proof -
  have n: "sint (BX_READ_64BIT_REG (src i) c AND 0xffffffffffffffc0) sdiv 64 = sint (BX_READ_64BIT_REG (src i) c) div 64"
    using element_number [of 6 "BX_READ_64BIT_REG (src i) c"] by (simp add: high_masks)
  have t: "(ucast (ucast x :: Bit32u) :: Bit64u) = take_bit 32 x" for x :: Bit64u
    by (rule bit_word_eqI) (auto simp: bit_simps)
  have "BX_CPU_RESOLVE_ADDR_64 i c = BX_CPU_RESOLVE_ADDR i c" by (simp add: BX_CPU_RESOLVE_ADDR_def BX_CPU_RESOLVE_ADDR_64_def)
  then show ?thesis by (simp add: a_def n t bit_address_def bit_number_def Let_def)
qed

lemma set_bit_forms:
  "a OR push_bit k 1 = set_bit k a" "a AND NOT (push_bit k 1) = unset_bit k a" "a XOR push_bit k 1 = flip_bit k a" for a :: "'a::len word"
  by (simp_all add: set_bit_eq_or unset_bit_eq_and_not flip_bit_eq_xor)

lemma tested_bit: "drop_bit k a AND 1 \<noteq> 0 \<longleftrightarrow> bit a k" for a :: "'a::len word"
  by (simp only: drop_bit_and_1) simp

section \<open>Flags and registers after a scan\<close>

lemma flags_ZF: "flags_of (clear_ZF e) = (flags_of e)\<lparr>fZF := False\<rparr>" "flags_of (assert_ZF e) = (flags_of e)\<lparr>fZF := True\<rparr>"
  using flags_setters(3) [of False e] flags_setters(3) [of True e] by (simp_all add: set_ZF_def)

lemma small_zero: "(of_nat n :: 'a::len word) = 0 \<longleftrightarrow> n = 0" if "n \<le> LENGTH('a)"
proof -
  have "n < 2 ^ LENGTH('a)" using that less_exp [of "LENGTH('a)"] by linarith
  then show ?thesis by (auto simp: word_of_nat_eq_0_iff dest: dvd_imp_le)
qed

lemma count_zero: "(of_nat (card {k. bit v k}) :: 'a word) = 0 \<longleftrightarrow> v = 0" for v :: "'a::len word"
proof -
  have "card {k. bit v k} \<le> card {..<LENGTH('a)}" by (rule card_mono) (auto dest: bit_imp_le_length)
  moreover have "card {k. bit v k} = 0 \<longleftrightarrow> v = 0" using some_bit [of v] finite_bits [of v] by auto
  ultimately show ?thesis using small_zero [where 'a = 'a] by simp
qed

lemma scan_zero:
  "(of_nat (if v = 0 then LENGTH('a) else lowest_bit v) :: 'a word) = 0 \<longleftrightarrow> bit v 0"
  "(of_nat (if v = 0 then LENGTH('a) else LENGTH('a) - 1 - highest_bit v) :: 'a word) = 0 \<longleftrightarrow> bit v (LENGTH('a) - 1)" for v :: "'a::len word"
proof -
  have l: "lowest_bit v = 0 \<longleftrightarrow> bit v 0" if "v \<noteq> 0" using lowest_bitD [where v = v] that by (metis gr_zeroI)
  show "(of_nat (if v = 0 then LENGTH('a) else lowest_bit v) :: 'a word) = 0 \<longleftrightarrow> bit v 0"
    using small_zero [where 'a = 'a, of "if v = 0 then LENGTH('a) else lowest_bit v"] lowest_bitD(3) [where v = v] l by (cases "v = 0") auto
  have h: "LENGTH('a) - 1 - highest_bit v = 0 \<longleftrightarrow> bit v (LENGTH('a) - 1)" if "v \<noteq> 0"
  proof
    assume "LENGTH('a) - 1 - highest_bit v = 0"
    then have "highest_bit v = LENGTH('a) - 1" using highest_bitD(3) [OF that] by linarith
    then show "bit v (LENGTH('a) - 1)" using highest_bitD(1) [OF that] by simp
  next
    assume "bit v (LENGTH('a) - 1)"
    then have "\<not> highest_bit v < LENGTH('a) - 1" using highest_bitD(2) by blast
    then show "LENGTH('a) - 1 - highest_bit v = 0" by simp
  qed
  show "(of_nat (if v = 0 then LENGTH('a) else LENGTH('a) - 1 - highest_bit v) :: 'a word) = 0 \<longleftrightarrow> bit v (LENGTH('a) - 1)"
    using small_zero [where 'a = 'a, of "if v = 0 then LENGTH('a) else LENGTH('a) - 1 - highest_bit v"] h by (cases "v = 0") auto
qed

lemma clear_write:
  "gen_reg (BX_WRITE_16BIT_REG n v16 (clearEFlagsOSZAPC s)) = gen_reg (BX_WRITE_16BIT_REG n v16 s)"
  "gen_reg (BX_WRITE_32BIT_REGZ n v32 (clearEFlagsOSZAPC s)) = gen_reg (BX_WRITE_32BIT_REGZ n v32 s)"
  "gen_reg (BX_WRITE_64BIT_REG n v64 (clearEFlagsOSZAPC s)) = gen_reg (BX_WRITE_64BIT_REG n v64 s)"
  "eflags (clearEFlagsOSZAPC s) = eflags s"
  by (simp_all add: clearEFlagsOSZAPC_def reg_write_upd)

lemmas reg_write_frame = r16.wr_oszapc r16.wr_eflags r32.wr_oszapc r32.wr_eflags r64.wr_oszapc r64.wr_eflags

end
