(* ===== verification/Bit16.thy ===== *)
theory Bit16
  imports BitBase
begin

text \<open>
  The 16-bit bit scans, bit tests and bit counts of \<^verbatim>\<open>cpu/bit16.cc\<close> (builds without APX).
\<close>

section \<open>Handlers\<close>

definition BSF_GwEwR :: "bxInstruction_c \<Rightarrow> bx_cpu \<Rightarrow> bx_cpu" where
  "BSF_GwEwR i s =
    (let op2_16 = BX_READ_16BIT_REG (src i) s
     in if op2_16 = 0 then upd_oszapc assert_ZF s
        else
          (let op1_16 = of_nat (tzcntw op2_16) :: Bit16u;
               s = upd_oszapc (SET_FLAGS_OSZAPC_LOGIC_16 (ucast op1_16)) s;
               s = upd_oszapc clear_ZF s
           in BX_WRITE_16BIT_REG (dst i) op1_16 s))"

definition bsr_loop16 :: "Bit16u \<Rightarrow> Bit16u" where
  "bsr_loop16 v = fst (while (\<lambda>(op1_16, op2_16). op2_16 AND 0x8000 = 0) (\<lambda>(op1_16, op2_16). (op1_16 - 1, push_bit 1 op2_16)) (15, v))"

definition BSR_GwEwR :: "bxInstruction_c \<Rightarrow> bx_cpu \<Rightarrow> bx_cpu" where
  "BSR_GwEwR i s =
    (let op2_16 = BX_READ_16BIT_REG (src i) s
     in if op2_16 = 0 then upd_oszapc assert_ZF s
        else
          (let op1_16 = bsr_loop16 op2_16;
               s = upd_oszapc (SET_FLAGS_OSZAPC_LOGIC_16 (ucast op1_16)) s;
               s = upd_oszapc clear_ZF s
           in BX_WRITE_16BIT_REG (dst i) op1_16 s))"

definition BT_EwGwM :: "bxInstruction_c \<Rightarrow> unit sys_op" where
  "BT_EwGwM i = with_core (\<lambda>c.
    let eaddr = BX_CPU_RESOLVE_ADDR i c;
        op2_16 = BX_READ_16BIT_REG (src i) c;
        index = op2_16 AND 0xf;
        displacement32 = word_of_int (sint (op2_16 AND 0xfff0) sdiv 16) :: Bit32u;
        op1_addr = eaddr + scast (2 * displacement32)
    in and_then (read_virtual_word (instr_seg i) (op1_addr AND asize_mask i)) (\<lambda>op1_16.
    on_core (upd_oszapc (set_CF (drop_bit (unat index) op1_16 AND 0x01 \<noteq> 0)))))"

definition BT_EwGwR :: "bxInstruction_c \<Rightarrow> bx_cpu \<Rightarrow> bx_cpu" where
  "BT_EwGwR i s =
    (let op1_16 = BX_READ_16BIT_REG (dst i) s;
         op2_16 = BX_READ_16BIT_REG (src i) s;
         op2_16 = op2_16 AND 0xf
     in upd_oszapc (set_CF (drop_bit (unat op2_16) op1_16 AND 0x01 \<noteq> 0)) s)"

definition BTS_EwGwM :: "bxInstruction_c \<Rightarrow> unit sys_op" where
  "BTS_EwGwM i = with_core (\<lambda>c.
    let eaddr = BX_CPU_RESOLVE_ADDR i c;
        op2_16 = BX_READ_16BIT_REG (src i) c;
        index = op2_16 AND 0xf;
        displacement32 = word_of_int (sint (op2_16 AND 0xfff0) sdiv 16) :: Bit32u;
        op1_addr = eaddr + scast (2 * displacement32)
    in and_then (read_RMW_virtual_word (instr_seg i) (op1_addr AND asize_mask i)) (\<lambda>op1_16.
    let temp_CF = drop_bit (unat index) op1_16 AND 0x01 \<noteq> 0;
        op1_16 = op1_16 OR push_bit (unat index) 1
    in and_then (write_RMW_linear_word op1_16) (\<lambda>_. on_core (upd_oszapc (set_CF temp_CF)))))"

definition BTS_EwGwR :: "bxInstruction_c \<Rightarrow> bx_cpu \<Rightarrow> bx_cpu" where
  "BTS_EwGwR i s =
    (let op1_16 = BX_READ_16BIT_REG (dst i) s;
         op2_16 = BX_READ_16BIT_REG (src i) s;
         op2_16 = op2_16 AND 0xf;
         s = upd_oszapc (set_CF (drop_bit (unat op2_16) op1_16 AND 0x01 \<noteq> 0)) s;
         op1_16 = op1_16 OR push_bit (unat op2_16) 1
     in BX_WRITE_16BIT_REG (dst i) op1_16 s)"

definition BTR_EwGwM :: "bxInstruction_c \<Rightarrow> unit sys_op" where
  "BTR_EwGwM i = with_core (\<lambda>c.
    let eaddr = BX_CPU_RESOLVE_ADDR i c;
        op2_16 = BX_READ_16BIT_REG (src i) c;
        index = op2_16 AND 0xf;
        displacement32 = word_of_int (sint (op2_16 AND 0xfff0) sdiv 16) :: Bit32u;
        op1_addr = eaddr + scast (2 * displacement32)
    in and_then (read_RMW_virtual_word (instr_seg i) (op1_addr AND asize_mask i)) (\<lambda>op1_16.
    let temp_CF = drop_bit (unat index) op1_16 AND 0x01 \<noteq> 0;
        op1_16 = op1_16 AND NOT (push_bit (unat index) 1)
    in and_then (write_RMW_linear_word op1_16) (\<lambda>_. on_core (upd_oszapc (set_CF temp_CF)))))"

definition BTR_EwGwR :: "bxInstruction_c \<Rightarrow> bx_cpu \<Rightarrow> bx_cpu" where
  "BTR_EwGwR i s =
    (let op1_16 = BX_READ_16BIT_REG (dst i) s;
         op2_16 = BX_READ_16BIT_REG (src i) s;
         op2_16 = op2_16 AND 0xf;
         s = upd_oszapc (set_CF (drop_bit (unat op2_16) op1_16 AND 0x01 \<noteq> 0)) s;
         op1_16 = op1_16 AND NOT (push_bit (unat op2_16) 1)
     in BX_WRITE_16BIT_REG (dst i) op1_16 s)"

definition BTC_EwGwM :: "bxInstruction_c \<Rightarrow> unit sys_op" where
  "BTC_EwGwM i = with_core (\<lambda>c.
    let eaddr = BX_CPU_RESOLVE_ADDR i c;
        op2_16 = BX_READ_16BIT_REG (src i) c;
        index = op2_16 AND 0xf;
        displacement16 = word_of_int (sint (op2_16 AND 0xfff0) sdiv 16) :: Bit16u;
        op1_addr = eaddr + scast (2 * (scast displacement16 :: Bit32u))
    in and_then (read_RMW_virtual_word (instr_seg i) (op1_addr AND asize_mask i)) (\<lambda>op1_16.
    let temp_CF = drop_bit (unat index) op1_16 AND 0x01 \<noteq> 0;
        op1_16 = op1_16 XOR push_bit (unat index) 1
    in and_then (write_RMW_linear_word op1_16) (\<lambda>_. on_core (upd_oszapc (set_CF temp_CF)))))"

definition BTC_EwGwR :: "bxInstruction_c \<Rightarrow> bx_cpu \<Rightarrow> bx_cpu" where
  "BTC_EwGwR i s =
    (let op1_16 = BX_READ_16BIT_REG (dst i) s;
         op2_16 = BX_READ_16BIT_REG (src i) s;
         op2_16 = op2_16 AND 0xf;
         temp_CF = drop_bit (unat op2_16) op1_16 AND 0x01 \<noteq> 0;
         op1_16 = op1_16 XOR push_bit (unat op2_16) 1;
         s = BX_WRITE_16BIT_REG (dst i) op1_16 s
     in upd_oszapc (set_CF temp_CF) s)"

definition BT_EwIbM :: "bxInstruction_c \<Rightarrow> unit sys_op" where
  "BT_EwIbM i = with_core (\<lambda>c.
    let eaddr = BX_CPU_RESOLVE_ADDR i c in
    and_then (read_virtual_word (instr_seg i) eaddr) (\<lambda>op1_16.
    let op2_8 = Ib i AND 0xf in on_core (upd_oszapc (set_CF (drop_bit (unat op2_8) op1_16 AND 0x01 \<noteq> 0)))))"

definition BT_EwIbR :: "bxInstruction_c \<Rightarrow> bx_cpu \<Rightarrow> bx_cpu" where
  "BT_EwIbR i s =
    (let op1_16 = BX_READ_16BIT_REG (dst i) s;
         op2_8 = Ib i AND 0xf
     in upd_oszapc (set_CF (drop_bit (unat op2_8) op1_16 AND 0x01 \<noteq> 0)) s)"

definition BTS_EwIbM :: "bxInstruction_c \<Rightarrow> unit sys_op" where
  "BTS_EwIbM i = with_core (\<lambda>c.
    let op2_8 = Ib i AND 0xf; eaddr = BX_CPU_RESOLVE_ADDR i c in
    and_then (read_RMW_virtual_word (instr_seg i) eaddr) (\<lambda>op1_16.
    let temp_CF = drop_bit (unat op2_8) op1_16 AND 0x01 \<noteq> 0;
        op1_16 = op1_16 OR push_bit (unat op2_8) 1
    in and_then (write_RMW_linear_word op1_16) (\<lambda>_. on_core (upd_oszapc (set_CF temp_CF)))))"

definition BTS_EwIbR :: "bxInstruction_c \<Rightarrow> bx_cpu \<Rightarrow> bx_cpu" where
  "BTS_EwIbR i s =
    (let op2_8 = Ib i AND 0xf;
         op1_16 = BX_READ_16BIT_REG (dst i) s;
         temp_CF = drop_bit (unat op2_8) op1_16 AND 0x01 \<noteq> 0;
         op1_16 = op1_16 OR push_bit (unat op2_8) 1;
         s = BX_WRITE_16BIT_REG (dst i) op1_16 s
     in upd_oszapc (set_CF temp_CF) s)"

definition BTC_EwIbM :: "bxInstruction_c \<Rightarrow> unit sys_op" where
  "BTC_EwIbM i = with_core (\<lambda>c.
    let op2_8 = Ib i AND 0xf; eaddr = BX_CPU_RESOLVE_ADDR i c in
    and_then (read_RMW_virtual_word (instr_seg i) eaddr) (\<lambda>op1_16.
    let temp_CF = drop_bit (unat op2_8) op1_16 AND 0x01 \<noteq> 0;
        op1_16 = op1_16 XOR push_bit (unat op2_8) 1
    in and_then (write_RMW_linear_word op1_16) (\<lambda>_. on_core (upd_oszapc (set_CF temp_CF)))))"

definition BTC_EwIbR :: "bxInstruction_c \<Rightarrow> bx_cpu \<Rightarrow> bx_cpu" where
  "BTC_EwIbR i s =
    (let op2_8 = Ib i AND 0xf;
         op1_16 = BX_READ_16BIT_REG (dst i) s;
         temp_CF = drop_bit (unat op2_8) op1_16 AND 0x01 \<noteq> 0;
         op1_16 = op1_16 XOR push_bit (unat op2_8) 1;
         s = BX_WRITE_16BIT_REG (dst i) op1_16 s
     in upd_oszapc (set_CF temp_CF) s)"

definition BTR_EwIbM :: "bxInstruction_c \<Rightarrow> unit sys_op" where
  "BTR_EwIbM i = with_core (\<lambda>c.
    let op2_8 = Ib i AND 0xf; eaddr = BX_CPU_RESOLVE_ADDR i c in
    and_then (read_RMW_virtual_word (instr_seg i) eaddr) (\<lambda>op1_16.
    let temp_CF = drop_bit (unat op2_8) op1_16 AND 0x01 \<noteq> 0;
        op1_16 = op1_16 AND NOT (push_bit (unat op2_8) 1)
    in and_then (write_RMW_linear_word op1_16) (\<lambda>_. on_core (upd_oszapc (set_CF temp_CF)))))"

definition BTR_EwIbR :: "bxInstruction_c \<Rightarrow> bx_cpu \<Rightarrow> bx_cpu" where
  "BTR_EwIbR i s =
    (let op2_8 = Ib i AND 0xf;
         op1_16 = BX_READ_16BIT_REG (dst i) s;
         temp_CF = drop_bit (unat op2_8) op1_16 AND 0x01 \<noteq> 0;
         op1_16 = op1_16 AND NOT (push_bit (unat op2_8) 1);
         s = BX_WRITE_16BIT_REG (dst i) op1_16 s
     in upd_oszapc (set_CF temp_CF) s)"

definition POPCNT_GwEwR :: "bxInstruction_c \<Rightarrow> bx_cpu \<Rightarrow> bx_cpu" where
  "POPCNT_GwEwR i s =
    (let op_16 = of_nat (popcntw (BX_READ_16BIT_REG (src i) s)) :: Bit16u;
         s = clearEFlagsOSZAPC s;
         s = (if op_16 = 0 then upd_oszapc assert_ZF s else s)
     in BX_WRITE_16BIT_REG (dst i) op_16 s)"

definition TZCNT_GwEwR :: "bxInstruction_c \<Rightarrow> bx_cpu \<Rightarrow> bx_cpu" where
  "TZCNT_GwEwR i s =
    (let op1_16 = BX_READ_16BIT_REG (src i) s;
         result_16 = of_nat (tzcntw op1_16) :: Bit16u;
         s = upd_oszapc (set_CF (op1_16 = 0)) s;
         s = upd_oszapc (set_ZF (result_16 = 0)) s
     in BX_WRITE_16BIT_REG (dst i) result_16 s)"

definition LZCNT_GwEwR :: "bxInstruction_c \<Rightarrow> bx_cpu \<Rightarrow> bx_cpu" where
  "LZCNT_GwEwR i s =
    (let op1_16 = BX_READ_16BIT_REG (src i) s;
         result_16 = of_nat (lzcntw op1_16) :: Bit16u;
         s = upd_oszapc (set_CF (op1_16 = 0)) s;
         s = upd_oszapc (set_ZF (result_16 = 0)) s
     in BX_WRITE_16BIT_REG (dst i) result_16 s)"

section \<open>Bit scans and counts\<close>

lemma bsr16_highest: "v \<noteq> 0 \<Longrightarrow> bsr_loop16 v = of_nat (highest_bit v)"
  using bsr_while [of v, where 'b = 16] by (simp add: bsr_loop16_def)

lemma bit_scan16:
  fixes i :: bxInstruction_c and s :: bx_cpu
  defines "v \<equiv> BX_READ_16BIT_REG (src i) s"
  shows "if v = 0 then with_flags (BSF_GwEwR i s) s ((cpu_flags s)\<lparr>fZF := True\<rparr>)
     else with_flags (BSF_GwEwR i s) (BX_WRITE_16BIT_REG (dst i) (of_nat (lowest_bit v)) s) ((logic_flags (of_nat (lowest_bit v) :: Bit16u))\<lparr>fZF := False\<rparr>)"
    "if v = 0 then with_flags (BSR_GwEwR i s) s ((cpu_flags s)\<lparr>fZF := True\<rparr>)
     else with_flags (BSR_GwEwR i s) (BX_WRITE_16BIT_REG (dst i) (of_nat (highest_bit v)) s) ((logic_flags (of_nat (highest_bit v) :: Bit16u))\<lparr>fZF := False\<rparr>)"
  by (simp_all add: BSF_GwEwR_def BSR_GwEwR_def v_def with_flags_def Let_def counts bsr16_highest flags_ZF flags_LOGIC reg_write_upd reg_write_frame)

lemma bit_count16:
  fixes i :: bxInstruction_c and s :: bx_cpu
  defines "v \<equiv> BX_READ_16BIT_REG (src i) s"
  shows "with_flags (POPCNT_GwEwR i s) (BX_WRITE_16BIT_REG (dst i) (of_nat (card {k. bit v k})) s)
      \<lparr>fOF = False, fSF = False, fZF = v = 0, fAF = False, fPF = False, fCF = False\<rparr>"
    "with_flags (TZCNT_GwEwR i s) (BX_WRITE_16BIT_REG (dst i) (of_nat (if v = 0 then 16 else lowest_bit v)) s)
      ((cpu_flags s)\<lparr>fCF := v = 0, fZF := bit v 0\<rparr>)"
    "with_flags (LZCNT_GwEwR i s) (BX_WRITE_16BIT_REG (dst i) (of_nat (if v = 0 then 16 else 15 - highest_bit v)) s)
      ((cpu_flags s)\<lparr>fCF := v = 0, fZF := bit v 15\<rparr>)"
proof -
  have z: "(of_nat (if v = 0 then 16 else lowest_bit v) :: Bit16u) = 0 \<longleftrightarrow> bit v 0"
    "(of_nat (if v = 0 then 16 else 15 - highest_bit v) :: Bit16u) = 0 \<longleftrightarrow> bit v 15"
    using scan_zero [of v] by (cases "v = 0"; simp)+
  show "with_flags (POPCNT_GwEwR i s) (BX_WRITE_16BIT_REG (dst i) (of_nat (card {k. bit v k})) s)
      \<lparr>fOF = False, fSF = False, fZF = v = 0, fAF = False, fPF = False, fCF = False\<rparr>"
    unfolding POPCNT_GwEwR_def Let_def v_def [symmetric] popcntw_card count_zero
    by (simp add: with_flags_def flags_ZF clear_write clearEFlagsOSZAPC_flags reg_write_upd reg_write_frame)
  show "with_flags (TZCNT_GwEwR i s) (BX_WRITE_16BIT_REG (dst i) (of_nat (if v = 0 then 16 else lowest_bit v)) s)
      ((cpu_flags s)\<lparr>fCF := v = 0, fZF := bit v 0\<rparr>)"
    unfolding TZCNT_GwEwR_def Let_def v_def [symmetric] counts z
    by (simp add: with_flags_def flags_setters reg_write_upd reg_write_frame)
  show "with_flags (LZCNT_GwEwR i s) (BX_WRITE_16BIT_REG (dst i) (of_nat (if v = 0 then 16 else 15 - highest_bit v)) s)
      ((cpu_flags s)\<lparr>fCF := v = 0, fZF := bit v 15\<rparr>)"
    unfolding LZCNT_GwEwR_def Let_def v_def [symmetric] counts z
    by (simp add: with_flags_def flags_setters reg_write_upd reg_write_frame)
qed

section \<open>Bit tests\<close>

lemma bit_test_reg16:
  fixes i :: bxInstruction_c and s :: bx_cpu
  defines "a \<equiv> BX_READ_16BIT_REG (dst i) s" and "k \<equiv> unat (BX_READ_16BIT_REG (src i) s AND 0xf)" and "put \<equiv> \<lambda>v. BX_WRITE_16BIT_REG (dst i) v s"
  shows "with_flags (BT_EwGwR i s) s ((cpu_flags s)\<lparr>fCF := bit a k\<rparr>)"
    "with_flags (BTS_EwGwR i s) (put (set_bit k a)) ((cpu_flags s)\<lparr>fCF := bit a k\<rparr>)"
    "with_flags (BTR_EwGwR i s) (put (unset_bit k a)) ((cpu_flags s)\<lparr>fCF := bit a k\<rparr>)"
    "with_flags (BTC_EwGwR i s) (put (flip_bit k a)) ((cpu_flags s)\<lparr>fCF := bit a k\<rparr>)"
  unfolding BT_EwGwR_def BTS_EwGwR_def BTR_EwGwR_def BTC_EwGwR_def Let_def tested_bit set_bit_forms assms
  by (simp_all add: with_flags_def flags_setters reg_write_upd reg_write_frame)

lemma bit_test_imm16:
  fixes i :: bxInstruction_c and s :: bx_cpu
  defines "a \<equiv> BX_READ_16BIT_REG (dst i) s" and "k \<equiv> unat (Ib i AND 0xf)" and "put \<equiv> \<lambda>v. BX_WRITE_16BIT_REG (dst i) v s"
  shows "with_flags (BT_EwIbR i s) s ((cpu_flags s)\<lparr>fCF := bit a k\<rparr>)"
    "with_flags (BTS_EwIbR i s) (put (set_bit k a)) ((cpu_flags s)\<lparr>fCF := bit a k\<rparr>)"
    "with_flags (BTR_EwIbR i s) (put (unset_bit k a)) ((cpu_flags s)\<lparr>fCF := bit a k\<rparr>)"
    "with_flags (BTC_EwIbR i s) (put (flip_bit k a)) ((cpu_flags s)\<lparr>fCF := bit a k\<rparr>)"
  unfolding BT_EwIbR_def BTS_EwIbR_def BTR_EwIbR_def BTC_EwIbR_def Let_def tested_bit set_bit_forms assms
  by (simp_all add: with_flags_def flags_setters reg_write_upd reg_write_frame)

lemma bit_test_mem16:
  fixes i :: bxInstruction_c and s :: bx_sys
  defines "rd \<equiv> read_RMW_virtual_word (instr_seg i) (bit_address 16 i (core s))" and "k \<equiv> bit_index 16 i (core s)" and "P \<equiv> \<lambda>v c. with_flags c (core s) ((cpu_flags (core s))\<lparr>fCF := bit v (bit_index 16 i (core s))\<rparr>)"
  shows "load_spec (read_virtual_word (instr_seg i) (bit_address 16 i (core s))) P (BT_EwGwM i) s"
    "rmw_spec rd write_RMW_linear_word (set_bit k) P (BTS_EwGwM i) s"
    "rmw_spec rd write_RMW_linear_word (unset_bit k) P (BTR_EwGwM i) s"
    "rmw_spec rd write_RMW_linear_word (flip_bit k) P (BTC_EwGwM i) s"
proof -
  show "load_spec (read_virtual_word (instr_seg i) (bit_address 16 i (core s))) P (BT_EwGwM i) s"
    unfolding assms
    by (rule load_spec_intro, simp only: BT_EwGwM_def with_core_apply laddr64_apply Let_def tested_bit set_bit_forms bit_index_mask bit_address_16 bit_address_32 bit_address_64, simp, rule refl, simp add: with_flags_def flags_setters)
  show "rmw_spec rd write_RMW_linear_word (set_bit k) P (BTS_EwGwM i) s"
    unfolding assms
    by (rule rmw16.spec_intro, simp only: BTS_EwGwM_def with_core_apply laddr64_apply Let_def tested_bit set_bit_forms bit_index_mask bit_address_16 bit_address_32 bit_address_64, simp, rule refl, simp, simp add: with_flags_def flags_setters)
  show "rmw_spec rd write_RMW_linear_word (unset_bit k) P (BTR_EwGwM i) s"
    unfolding assms
    by (rule rmw16.spec_intro, simp only: BTR_EwGwM_def with_core_apply laddr64_apply Let_def tested_bit set_bit_forms bit_index_mask bit_address_16 bit_address_32 bit_address_64, simp, rule refl, simp, simp add: with_flags_def flags_setters)
  show "rmw_spec rd write_RMW_linear_word (flip_bit k) P (BTC_EwGwM i) s"
    unfolding assms
    by (rule rmw16.spec_intro, simp only: BTC_EwGwM_def with_core_apply laddr64_apply Let_def tested_bit set_bit_forms bit_index_mask bit_address_16 bit_address_32 bit_address_64, simp, rule refl, simp, simp add: with_flags_def flags_setters)
qed

lemma bit_test_mem_imm16:
  fixes i :: bxInstruction_c and s :: bx_sys
  defines "rd \<equiv> read_RMW_virtual_word (instr_seg i) (BX_CPU_RESOLVE_ADDR i (core s))" and "k \<equiv> unat (Ib i AND 0xf)" and "P \<equiv> \<lambda>v c. with_flags c (core s) ((cpu_flags (core s))\<lparr>fCF := bit v (unat (Ib i AND 0xf))\<rparr>)"
  shows "load_spec (read_virtual_word (instr_seg i) (BX_CPU_RESOLVE_ADDR i (core s))) P (BT_EwIbM i) s"
    "rmw_spec rd write_RMW_linear_word (set_bit k) P (BTS_EwIbM i) s"
    "rmw_spec rd write_RMW_linear_word (unset_bit k) P (BTR_EwIbM i) s"
    "rmw_spec rd write_RMW_linear_word (flip_bit k) P (BTC_EwIbM i) s"
proof -
  show "load_spec (read_virtual_word (instr_seg i) (BX_CPU_RESOLVE_ADDR i (core s))) P (BT_EwIbM i) s"
    unfolding assms
    by (rule load_spec_intro, simp only: BT_EwIbM_def with_core_apply laddr64_apply Let_def tested_bit set_bit_forms, simp, rule refl, simp add: with_flags_def flags_setters)
  show "rmw_spec rd write_RMW_linear_word (set_bit k) P (BTS_EwIbM i) s"
    unfolding assms
    by (rule rmw16.spec_intro, simp only: BTS_EwIbM_def with_core_apply laddr64_apply Let_def tested_bit set_bit_forms, simp, rule refl, simp, simp add: with_flags_def flags_setters)
  show "rmw_spec rd write_RMW_linear_word (unset_bit k) P (BTR_EwIbM i) s"
    unfolding assms
    by (rule rmw16.spec_intro, simp only: BTR_EwIbM_def with_core_apply laddr64_apply Let_def tested_bit set_bit_forms, simp, rule refl, simp, simp add: with_flags_def flags_setters)
  show "rmw_spec rd write_RMW_linear_word (flip_bit k) P (BTC_EwIbM i) s"
    unfolding assms
    by (rule rmw16.spec_intro, simp only: BTC_EwIbM_def with_core_apply laddr64_apply Let_def tested_bit set_bit_forms, simp, rule refl, simp, simp add: with_flags_def flags_setters)
qed

section \<open>Faults\<close>

lemmas bit16_mem_defs = BT_EwGwM_def BTS_EwGwM_def BTR_EwGwM_def BTC_EwGwM_def BT_EwIbM_def BTS_EwIbM_def BTC_EwIbM_def BTR_EwIbM_def

lemma bit16_mem_precise:
  "precise (BT_EwGwM i)"  "precise (BTS_EwGwM i)"  "precise (BTR_EwGwM i)"  "precise (BTC_EwGwM i)"  "precise (BT_EwIbM i)"
  "precise (BTS_EwIbM i)"  "precise (BTC_EwIbM i)"  "precise (BTR_EwIbM i)"
  unfolding bit16_mem_defs Let_def by (intro precise_intros)+

end
