(* ===== verification/Bit32.thy ===== *)
theory Bit32
  imports BitBase
begin

text \<open>
  The 32-bit bit scans, bit tests and bit counts of \<^verbatim>\<open>cpu/bit32.cc\<close> (builds without APX).
\<close>

section \<open>Handlers\<close>

definition BSF_GdEdR :: "bxInstruction_c \<Rightarrow> bx_cpu \<Rightarrow> bx_cpu" where
  "BSF_GdEdR i s =
    (let op2_32 = BX_READ_32BIT_REG (src i) s
     in if op2_32 = 0 then upd_oszapc assert_ZF s
        else
          (let op1_32 = of_nat (tzcntd op2_32) :: Bit32u;
               s = upd_oszapc (SET_FLAGS_OSZAPC_LOGIC_32 op1_32) s;
               s = upd_oszapc clear_ZF s
           in BX_WRITE_32BIT_REGZ (dst i) op1_32 s))"

definition bsr_loop32 :: "Bit32u \<Rightarrow> Bit32u" where
  "bsr_loop32 v = fst (while (\<lambda>(op1_32, op2_32). op2_32 AND 0x80000000 = 0) (\<lambda>(op1_32, op2_32). (op1_32 - 1, push_bit 1 op2_32)) (31, v))"

definition BSR_GdEdR :: "bxInstruction_c \<Rightarrow> bx_cpu \<Rightarrow> bx_cpu" where
  "BSR_GdEdR i s =
    (let op2_32 = BX_READ_32BIT_REG (src i) s
     in if op2_32 = 0 then upd_oszapc assert_ZF s
        else
          (let op1_32 = bsr_loop32 op2_32;
               s = upd_oszapc (SET_FLAGS_OSZAPC_LOGIC_32 op1_32) s;
               s = upd_oszapc clear_ZF s
           in BX_WRITE_32BIT_REGZ (dst i) op1_32 s))"

definition BT_EdGdM :: "bxInstruction_c \<Rightarrow> unit sys_op" where
  "BT_EdGdM i = with_core (\<lambda>c.
    let eaddr = BX_CPU_RESOLVE_ADDR i c;
        op2_32 = BX_READ_32BIT_REG (src i) c;
        index = op2_32 AND 0x1f;
        displacement32 = word_of_int (sint (op2_32 AND 0xffffffe0) sdiv 32) :: Bit32u;
        op1_addr = eaddr + scast (4 * displacement32)
    in and_then (read_virtual_dword (instr_seg i) (op1_addr AND asize_mask i)) (\<lambda>op1_32.
    on_core (upd_oszapc (set_CF (drop_bit (unat index) op1_32 AND 0x01 \<noteq> 0)))))"

definition BT_EdGdR :: "bxInstruction_c \<Rightarrow> bx_cpu \<Rightarrow> bx_cpu" where
  "BT_EdGdR i s =
    (let op1_32 = BX_READ_32BIT_REG (dst i) s;
         op2_32 = BX_READ_32BIT_REG (src i) s;
         op2_32 = op2_32 AND 0x1f
     in upd_oszapc (set_CF (drop_bit (unat op2_32) op1_32 AND 0x01 \<noteq> 0)) s)"

definition BTS_EdGdM :: "bxInstruction_c \<Rightarrow> unit sys_op" where
  "BTS_EdGdM i = with_core (\<lambda>c.
    let eaddr = BX_CPU_RESOLVE_ADDR i c;
        op2_32 = BX_READ_32BIT_REG (src i) c;
        index = op2_32 AND 0x1f;
        displacement32 = word_of_int (sint (op2_32 AND 0xffffffe0) sdiv 32) :: Bit32u;
        op1_addr = eaddr + scast (4 * displacement32)
    in and_then (read_RMW_virtual_dword (instr_seg i) (op1_addr AND asize_mask i)) (\<lambda>op1_32.
    let temp_CF = drop_bit (unat index) op1_32 AND 0x01 \<noteq> 0;
        op1_32 = op1_32 OR push_bit (unat index) 1
    in and_then (write_RMW_linear_dword op1_32) (\<lambda>_. on_core (upd_oszapc (set_CF temp_CF)))))"

definition BTS_EdGdR :: "bxInstruction_c \<Rightarrow> bx_cpu \<Rightarrow> bx_cpu" where
  "BTS_EdGdR i s =
    (let op1_32 = BX_READ_32BIT_REG (dst i) s;
         op2_32 = BX_READ_32BIT_REG (src i) s;
         op2_32 = op2_32 AND 0x1f;
         s = upd_oszapc (set_CF (drop_bit (unat op2_32) op1_32 AND 0x01 \<noteq> 0)) s;
         op1_32 = op1_32 OR push_bit (unat op2_32) 1
     in BX_WRITE_32BIT_REGZ (dst i) op1_32 s)"

definition BTR_EdGdM :: "bxInstruction_c \<Rightarrow> unit sys_op" where
  "BTR_EdGdM i = with_core (\<lambda>c.
    let eaddr = BX_CPU_RESOLVE_ADDR i c;
        op2_32 = BX_READ_32BIT_REG (src i) c;
        index = op2_32 AND 0x1f;
        displacement32 = word_of_int (sint (op2_32 AND 0xffffffe0) sdiv 32) :: Bit32u;
        op1_addr = eaddr + scast (4 * displacement32)
    in and_then (read_RMW_virtual_dword (instr_seg i) (op1_addr AND asize_mask i)) (\<lambda>op1_32.
    let temp_CF = drop_bit (unat index) op1_32 AND 0x01 \<noteq> 0;
        op1_32 = op1_32 AND NOT (push_bit (unat index) 1)
    in and_then (write_RMW_linear_dword op1_32) (\<lambda>_. on_core (upd_oszapc (set_CF temp_CF)))))"

definition BTR_EdGdR :: "bxInstruction_c \<Rightarrow> bx_cpu \<Rightarrow> bx_cpu" where
  "BTR_EdGdR i s =
    (let op1_32 = BX_READ_32BIT_REG (dst i) s;
         op2_32 = BX_READ_32BIT_REG (src i) s;
         op2_32 = op2_32 AND 0x1f;
         s = upd_oszapc (set_CF (drop_bit (unat op2_32) op1_32 AND 0x01 \<noteq> 0)) s;
         op1_32 = op1_32 AND NOT (push_bit (unat op2_32) 1)
     in BX_WRITE_32BIT_REGZ (dst i) op1_32 s)"

definition BTC_EdGdM :: "bxInstruction_c \<Rightarrow> unit sys_op" where
  "BTC_EdGdM i = with_core (\<lambda>c.
    let eaddr = BX_CPU_RESOLVE_ADDR i c;
        op2_32 = BX_READ_32BIT_REG (src i) c;
        index = op2_32 AND 0x1f;
        displacement32 = word_of_int (sint (op2_32 AND 0xffffffe0) sdiv 32) :: Bit32u;
        op1_addr = eaddr + scast (4 * displacement32)
    in and_then (read_RMW_virtual_dword (instr_seg i) (op1_addr AND asize_mask i)) (\<lambda>op1_32.
    let temp_CF = drop_bit (unat index) op1_32 AND 0x01 \<noteq> 0;
        op1_32 = op1_32 XOR push_bit (unat index) 1
    in and_then (on_core (upd_oszapc (set_CF temp_CF))) (\<lambda>_. write_RMW_linear_dword op1_32)))"

definition BTC_EdGdR :: "bxInstruction_c \<Rightarrow> bx_cpu \<Rightarrow> bx_cpu" where
  "BTC_EdGdR i s =
    (let op1_32 = BX_READ_32BIT_REG (dst i) s;
         op2_32 = BX_READ_32BIT_REG (src i) s;
         op2_32 = op2_32 AND 0x1f;
         temp_CF = drop_bit (unat op2_32) op1_32 AND 0x01 \<noteq> 0;
         op1_32 = op1_32 XOR push_bit (unat op2_32) 1;
         s = upd_oszapc (set_CF temp_CF) s
     in BX_WRITE_32BIT_REGZ (dst i) op1_32 s)"

definition BT_EdIbM :: "bxInstruction_c \<Rightarrow> unit sys_op" where
  "BT_EdIbM i = with_core (\<lambda>c.
    let eaddr = BX_CPU_RESOLVE_ADDR i c in
    and_then (read_virtual_dword (instr_seg i) eaddr) (\<lambda>op1_32.
    let op2_8 = Ib i AND 0x1f in on_core (upd_oszapc (set_CF (drop_bit (unat op2_8) op1_32 AND 0x01 \<noteq> 0)))))"

definition BT_EdIbR :: "bxInstruction_c \<Rightarrow> bx_cpu \<Rightarrow> bx_cpu" where
  "BT_EdIbR i s =
    (let op1_32 = BX_READ_32BIT_REG (dst i) s;
         op2_8 = Ib i AND 0x1f
     in upd_oszapc (set_CF (drop_bit (unat op2_8) op1_32 AND 0x01 \<noteq> 0)) s)"

definition BTS_EdIbM :: "bxInstruction_c \<Rightarrow> unit sys_op" where
  "BTS_EdIbM i = with_core (\<lambda>c.
    let op2_8 = Ib i AND 0x1f; eaddr = BX_CPU_RESOLVE_ADDR i c in
    and_then (read_RMW_virtual_dword (instr_seg i) eaddr) (\<lambda>op1_32.
    let temp_CF = drop_bit (unat op2_8) op1_32 AND 0x01 \<noteq> 0;
        op1_32 = op1_32 OR push_bit (unat op2_8) 1
    in and_then (write_RMW_linear_dword op1_32) (\<lambda>_. on_core (upd_oszapc (set_CF temp_CF)))))"

definition BTS_EdIbR :: "bxInstruction_c \<Rightarrow> bx_cpu \<Rightarrow> bx_cpu" where
  "BTS_EdIbR i s =
    (let op2_8 = Ib i AND 0x1f;
         op1_32 = BX_READ_32BIT_REG (dst i) s;
         temp_CF = drop_bit (unat op2_8) op1_32 AND 0x01 \<noteq> 0;
         op1_32 = op1_32 OR push_bit (unat op2_8) 1;
         s = BX_WRITE_32BIT_REGZ (dst i) op1_32 s
     in upd_oszapc (set_CF temp_CF) s)"

definition BTC_EdIbM :: "bxInstruction_c \<Rightarrow> unit sys_op" where
  "BTC_EdIbM i = with_core (\<lambda>c.
    let op2_8 = Ib i AND 0x1f; eaddr = BX_CPU_RESOLVE_ADDR i c in
    and_then (read_RMW_virtual_dword (instr_seg i) eaddr) (\<lambda>op1_32.
    let temp_CF = drop_bit (unat op2_8) op1_32 AND 0x01 \<noteq> 0;
        op1_32 = op1_32 XOR push_bit (unat op2_8) 1
    in and_then (write_RMW_linear_dword op1_32) (\<lambda>_. on_core (upd_oszapc (set_CF temp_CF)))))"

definition BTC_EdIbR :: "bxInstruction_c \<Rightarrow> bx_cpu \<Rightarrow> bx_cpu" where
  "BTC_EdIbR i s =
    (let op2_8 = Ib i AND 0x1f;
         op1_32 = BX_READ_32BIT_REG (dst i) s;
         temp_CF = drop_bit (unat op2_8) op1_32 AND 0x01 \<noteq> 0;
         op1_32 = op1_32 XOR push_bit (unat op2_8) 1;
         s = BX_WRITE_32BIT_REGZ (dst i) op1_32 s
     in upd_oszapc (set_CF temp_CF) s)"

definition BTR_EdIbM :: "bxInstruction_c \<Rightarrow> unit sys_op" where
  "BTR_EdIbM i = with_core (\<lambda>c.
    let op2_8 = Ib i AND 0x1f; eaddr = BX_CPU_RESOLVE_ADDR i c in
    and_then (read_RMW_virtual_dword (instr_seg i) eaddr) (\<lambda>op1_32.
    let temp_CF = drop_bit (unat op2_8) op1_32 AND 0x01 \<noteq> 0;
        op1_32 = op1_32 AND NOT (push_bit (unat op2_8) 1)
    in and_then (write_RMW_linear_dword op1_32) (\<lambda>_. on_core (upd_oszapc (set_CF temp_CF)))))"

definition BTR_EdIbR :: "bxInstruction_c \<Rightarrow> bx_cpu \<Rightarrow> bx_cpu" where
  "BTR_EdIbR i s =
    (let op2_8 = Ib i AND 0x1f;
         op1_32 = BX_READ_32BIT_REG (dst i) s;
         temp_CF = drop_bit (unat op2_8) op1_32 AND 0x01 \<noteq> 0;
         op1_32 = op1_32 AND NOT (push_bit (unat op2_8) 1);
         s = BX_WRITE_32BIT_REGZ (dst i) op1_32 s
     in upd_oszapc (set_CF temp_CF) s)"

definition POPCNT_GdEdR :: "bxInstruction_c \<Rightarrow> bx_cpu \<Rightarrow> bx_cpu" where
  "POPCNT_GdEdR i s =
    (let op_32 = of_nat (popcntd (BX_READ_32BIT_REG (src i) s)) :: Bit32u;
         s = clearEFlagsOSZAPC s;
         s = (if op_32 = 0 then upd_oszapc assert_ZF s else s)
     in BX_WRITE_32BIT_REGZ (dst i) op_32 s)"

definition TZCNT_GdEdR :: "bxInstruction_c \<Rightarrow> bx_cpu \<Rightarrow> bx_cpu" where
  "TZCNT_GdEdR i s =
    (let op1_32 = BX_READ_32BIT_REG (src i) s;
         result_32 = of_nat (tzcntd op1_32) :: Bit32u;
         s = upd_oszapc (set_CF (op1_32 = 0)) s;
         s = upd_oszapc (set_ZF (result_32 = 0)) s
     in BX_WRITE_32BIT_REGZ (dst i) result_32 s)"

definition LZCNT_GdEdR :: "bxInstruction_c \<Rightarrow> bx_cpu \<Rightarrow> bx_cpu" where
  "LZCNT_GdEdR i s =
    (let op1_32 = BX_READ_32BIT_REG (src i) s;
         result_32 = of_nat (lzcntd op1_32) :: Bit32u;
         s = upd_oszapc (set_CF (op1_32 = 0)) s;
         s = upd_oszapc (set_ZF (result_32 = 0)) s
     in BX_WRITE_32BIT_REGZ (dst i) result_32 s)"

section \<open>Bit scans and counts\<close>

lemma bsr32_highest: "v \<noteq> 0 \<Longrightarrow> bsr_loop32 v = of_nat (highest_bit v)"
  using bsr_while [of v, where 'b = 32] by (simp add: bsr_loop32_def)

lemma bit_scan32:
  fixes i :: bxInstruction_c and s :: bx_cpu
  defines "v \<equiv> BX_READ_32BIT_REG (src i) s"
  shows "if v = 0 then with_flags (BSF_GdEdR i s) s ((cpu_flags s)\<lparr>fZF := True\<rparr>)
     else with_flags (BSF_GdEdR i s) (BX_WRITE_32BIT_REGZ (dst i) (of_nat (lowest_bit v)) s) ((logic_flags (of_nat (lowest_bit v) :: Bit32u))\<lparr>fZF := False\<rparr>)"
    "if v = 0 then with_flags (BSR_GdEdR i s) s ((cpu_flags s)\<lparr>fZF := True\<rparr>)
     else with_flags (BSR_GdEdR i s) (BX_WRITE_32BIT_REGZ (dst i) (of_nat (highest_bit v)) s) ((logic_flags (of_nat (highest_bit v) :: Bit32u))\<lparr>fZF := False\<rparr>)"
  by (simp_all add: BSF_GdEdR_def BSR_GdEdR_def v_def with_flags_def Let_def counts bsr32_highest flags_ZF flags_LOGIC reg_write_upd reg_write_frame)

lemma bit_count32:
  fixes i :: bxInstruction_c and s :: bx_cpu
  defines "v \<equiv> BX_READ_32BIT_REG (src i) s"
  shows "with_flags (POPCNT_GdEdR i s) (BX_WRITE_32BIT_REGZ (dst i) (of_nat (card {k. bit v k})) s)
      \<lparr>fOF = False, fSF = False, fZF = v = 0, fAF = False, fPF = False, fCF = False\<rparr>"
    "with_flags (TZCNT_GdEdR i s) (BX_WRITE_32BIT_REGZ (dst i) (of_nat (if v = 0 then 32 else lowest_bit v)) s)
      ((cpu_flags s)\<lparr>fCF := v = 0, fZF := bit v 0\<rparr>)"
    "with_flags (LZCNT_GdEdR i s) (BX_WRITE_32BIT_REGZ (dst i) (of_nat (if v = 0 then 32 else 31 - highest_bit v)) s)
      ((cpu_flags s)\<lparr>fCF := v = 0, fZF := bit v 31\<rparr>)"
proof -
  have z: "(of_nat (if v = 0 then 32 else lowest_bit v) :: Bit32u) = 0 \<longleftrightarrow> bit v 0"
    "(of_nat (if v = 0 then 32 else 31 - highest_bit v) :: Bit32u) = 0 \<longleftrightarrow> bit v 31"
    using scan_zero [of v] by (cases "v = 0"; simp)+
  show "with_flags (POPCNT_GdEdR i s) (BX_WRITE_32BIT_REGZ (dst i) (of_nat (card {k. bit v k})) s)
      \<lparr>fOF = False, fSF = False, fZF = v = 0, fAF = False, fPF = False, fCF = False\<rparr>"
    unfolding POPCNT_GdEdR_def Let_def v_def [symmetric] popcntd_card count_zero
    by (simp add: with_flags_def flags_ZF clear_write clearEFlagsOSZAPC_flags reg_write_upd reg_write_frame)
  show "with_flags (TZCNT_GdEdR i s) (BX_WRITE_32BIT_REGZ (dst i) (of_nat (if v = 0 then 32 else lowest_bit v)) s)
      ((cpu_flags s)\<lparr>fCF := v = 0, fZF := bit v 0\<rparr>)"
    unfolding TZCNT_GdEdR_def Let_def v_def [symmetric] counts z
    by (simp add: with_flags_def flags_setters reg_write_upd reg_write_frame)
  show "with_flags (LZCNT_GdEdR i s) (BX_WRITE_32BIT_REGZ (dst i) (of_nat (if v = 0 then 32 else 31 - highest_bit v)) s)
      ((cpu_flags s)\<lparr>fCF := v = 0, fZF := bit v 31\<rparr>)"
    unfolding LZCNT_GdEdR_def Let_def v_def [symmetric] counts z
    by (simp add: with_flags_def flags_setters reg_write_upd reg_write_frame)
qed

section \<open>Bit tests\<close>

lemma bit_test_reg32:
  fixes i :: bxInstruction_c and s :: bx_cpu
  defines "a \<equiv> BX_READ_32BIT_REG (dst i) s" and "k \<equiv> unat (BX_READ_32BIT_REG (src i) s AND 0x1f)" and "put \<equiv> \<lambda>v. BX_WRITE_32BIT_REGZ (dst i) v s"
  shows "with_flags (BT_EdGdR i s) s ((cpu_flags s)\<lparr>fCF := bit a k\<rparr>)"
    "with_flags (BTS_EdGdR i s) (put (set_bit k a)) ((cpu_flags s)\<lparr>fCF := bit a k\<rparr>)"
    "with_flags (BTR_EdGdR i s) (put (unset_bit k a)) ((cpu_flags s)\<lparr>fCF := bit a k\<rparr>)"
    "with_flags (BTC_EdGdR i s) (put (flip_bit k a)) ((cpu_flags s)\<lparr>fCF := bit a k\<rparr>)"
  unfolding BT_EdGdR_def BTS_EdGdR_def BTR_EdGdR_def BTC_EdGdR_def Let_def tested_bit set_bit_forms assms
  by (simp_all add: with_flags_def flags_setters reg_write_upd reg_write_frame)

lemma bit_test_imm32:
  fixes i :: bxInstruction_c and s :: bx_cpu
  defines "a \<equiv> BX_READ_32BIT_REG (dst i) s" and "k \<equiv> unat (Ib i AND 0x1f)" and "put \<equiv> \<lambda>v. BX_WRITE_32BIT_REGZ (dst i) v s"
  shows "with_flags (BT_EdIbR i s) s ((cpu_flags s)\<lparr>fCF := bit a k\<rparr>)"
    "with_flags (BTS_EdIbR i s) (put (set_bit k a)) ((cpu_flags s)\<lparr>fCF := bit a k\<rparr>)"
    "with_flags (BTR_EdIbR i s) (put (unset_bit k a)) ((cpu_flags s)\<lparr>fCF := bit a k\<rparr>)"
    "with_flags (BTC_EdIbR i s) (put (flip_bit k a)) ((cpu_flags s)\<lparr>fCF := bit a k\<rparr>)"
  unfolding BT_EdIbR_def BTS_EdIbR_def BTR_EdIbR_def BTC_EdIbR_def Let_def tested_bit set_bit_forms assms
  by (simp_all add: with_flags_def flags_setters reg_write_upd reg_write_frame)

lemma bit_test_mem32:
  fixes i :: bxInstruction_c and s :: bx_sys
  defines "rd \<equiv> read_RMW_virtual_dword (instr_seg i) (bit_address 32 i (core s))" and "k \<equiv> bit_index 32 i (core s)" and "P \<equiv> \<lambda>v c. with_flags c (core s) ((cpu_flags (core s))\<lparr>fCF := bit v (bit_index 32 i (core s))\<rparr>)"
  shows "load_spec (read_virtual_dword (instr_seg i) (bit_address 32 i (core s))) P (BT_EdGdM i) s"
    "rmw_spec rd write_RMW_linear_dword (set_bit k) P (BTS_EdGdM i) s"
    "rmw_spec rd write_RMW_linear_dword (unset_bit k) P (BTR_EdGdM i) s"
    "rmw_spec rd write_RMW_linear_dword (flip_bit k) P (BTC_EdGdM i) s"
proof -
  show "load_spec (read_virtual_dword (instr_seg i) (bit_address 32 i (core s))) P (BT_EdGdM i) s"
    unfolding assms
    by (rule load_spec_intro, simp only: BT_EdGdM_def with_core_apply laddr64_apply Let_def tested_bit set_bit_forms bit_index_mask bit_address_16 bit_address_32 bit_address_64, simp, rule refl, simp add: with_flags_def flags_setters)
  show "rmw_spec rd write_RMW_linear_dword (set_bit k) P (BTS_EdGdM i) s"
    unfolding assms
    by (rule rmw32.spec_intro, simp only: BTS_EdGdM_def with_core_apply laddr64_apply Let_def tested_bit set_bit_forms bit_index_mask bit_address_16 bit_address_32 bit_address_64, simp, rule refl, simp, simp add: with_flags_def flags_setters)
  show "rmw_spec rd write_RMW_linear_dword (unset_bit k) P (BTR_EdGdM i) s"
    unfolding assms
    by (rule rmw32.spec_intro, simp only: BTR_EdGdM_def with_core_apply laddr64_apply Let_def tested_bit set_bit_forms bit_index_mask bit_address_16 bit_address_32 bit_address_64, simp, rule refl, simp, simp add: with_flags_def flags_setters)
  show "rmw_spec rd write_RMW_linear_dword (flip_bit k) P (BTC_EdGdM i) s"
    unfolding assms
    by (rule rmw32.spec_core_first, simp only: BTC_EdGdM_def with_core_apply laddr64_apply Let_def tested_bit set_bit_forms bit_index_mask bit_address_16 bit_address_32 bit_address_64, simp, rule refl, simp, simp, simp add: with_flags_def flags_setters)
qed

lemma bit_test_mem_imm32:
  fixes i :: bxInstruction_c and s :: bx_sys
  defines "rd \<equiv> read_RMW_virtual_dword (instr_seg i) (BX_CPU_RESOLVE_ADDR i (core s))" and "k \<equiv> unat (Ib i AND 0x1f)" and "P \<equiv> \<lambda>v c. with_flags c (core s) ((cpu_flags (core s))\<lparr>fCF := bit v (unat (Ib i AND 0x1f))\<rparr>)"
  shows "load_spec (read_virtual_dword (instr_seg i) (BX_CPU_RESOLVE_ADDR i (core s))) P (BT_EdIbM i) s"
    "rmw_spec rd write_RMW_linear_dword (set_bit k) P (BTS_EdIbM i) s"
    "rmw_spec rd write_RMW_linear_dword (unset_bit k) P (BTR_EdIbM i) s"
    "rmw_spec rd write_RMW_linear_dword (flip_bit k) P (BTC_EdIbM i) s"
proof -
  show "load_spec (read_virtual_dword (instr_seg i) (BX_CPU_RESOLVE_ADDR i (core s))) P (BT_EdIbM i) s"
    unfolding assms
    by (rule load_spec_intro, simp only: BT_EdIbM_def with_core_apply laddr64_apply Let_def tested_bit set_bit_forms, simp, rule refl, simp add: with_flags_def flags_setters)
  show "rmw_spec rd write_RMW_linear_dword (set_bit k) P (BTS_EdIbM i) s"
    unfolding assms
    by (rule rmw32.spec_intro, simp only: BTS_EdIbM_def with_core_apply laddr64_apply Let_def tested_bit set_bit_forms, simp, rule refl, simp, simp add: with_flags_def flags_setters)
  show "rmw_spec rd write_RMW_linear_dword (unset_bit k) P (BTR_EdIbM i) s"
    unfolding assms
    by (rule rmw32.spec_intro, simp only: BTR_EdIbM_def with_core_apply laddr64_apply Let_def tested_bit set_bit_forms, simp, rule refl, simp, simp add: with_flags_def flags_setters)
  show "rmw_spec rd write_RMW_linear_dword (flip_bit k) P (BTC_EdIbM i) s"
    unfolding assms
    by (rule rmw32.spec_intro, simp only: BTC_EdIbM_def with_core_apply laddr64_apply Let_def tested_bit set_bit_forms, simp, rule refl, simp, simp add: with_flags_def flags_setters)
qed

section \<open>Faults\<close>

lemmas bit32_mem_defs = BT_EdGdM_def BTS_EdGdM_def BTR_EdGdM_def BTC_EdGdM_def BT_EdIbM_def BTS_EdIbM_def BTC_EdIbM_def BTR_EdIbM_def

lemma bit32_mem_precise:
  "precise (BT_EdGdM i)"  "precise (BTS_EdGdM i)"  "precise (BTR_EdGdM i)"  "precise (BTC_EdGdM i)"  "precise (BT_EdIbM i)"
  "precise (BTS_EdIbM i)"  "precise (BTC_EdIbM i)"  "precise (BTR_EdIbM i)"
  unfolding bit32_mem_defs Let_def by (intro precise_intros)+

end
