(* ===== verification/Bit64.thy ===== *)
theory Bit64
  imports BitBase
begin

text \<open>
  The 64-bit bit scans, bit tests and bit counts of \<^verbatim>\<open>cpu/bit64.cc\<close> (builds without APX).
\<close>

section \<open>Handlers\<close>

definition BSF_GqEqR :: "bxInstruction_c \<Rightarrow> bx_cpu \<Rightarrow> bx_cpu" where
  "BSF_GqEqR i s =
    (let op2_64 = BX_READ_64BIT_REG (src i) s
     in if op2_64 = 0 then upd_oszapc assert_ZF s
        else
          (let op1_64 = of_nat (tzcntq op2_64) :: Bit64u;
               s = upd_oszapc (SET_FLAGS_OSZAPC_LOGIC_64 op1_64) s;
               s = upd_oszapc clear_ZF s
           in BX_WRITE_64BIT_REG (dst i) op1_64 s))"

definition bsr_loop64 :: "Bit64u \<Rightarrow> Bit64u" where
  "bsr_loop64 v = fst (while (\<lambda>(op1_64, op2_64). op2_64 AND 0x8000000000000000 = 0) (\<lambda>(op1_64, op2_64). (op1_64 - 1, push_bit 1 op2_64)) (63, v))"

definition BSR_GqEqR :: "bxInstruction_c \<Rightarrow> bx_cpu \<Rightarrow> bx_cpu" where
  "BSR_GqEqR i s =
    (let op2_64 = BX_READ_64BIT_REG (src i) s
     in if op2_64 = 0 then upd_oszapc assert_ZF s
        else
          (let op1_64 = bsr_loop64 op2_64;
               s = upd_oszapc (SET_FLAGS_OSZAPC_LOGIC_64 op1_64) s;
               s = upd_oszapc clear_ZF s
           in BX_WRITE_64BIT_REG (dst i) op1_64 s))"

definition BT_EqGqM :: "bxInstruction_c \<Rightarrow> unit sys_op" where
  "BT_EqGqM i = with_core (\<lambda>c.
    let eaddr = BX_CPU_RESOLVE_ADDR_64 i c;
        op2_64 = BX_READ_64BIT_REG (src i) c;
        index = op2_64 AND 0x3f;
        displacement64 = word_of_int (sint (op2_64 AND 0xffffffffffffffc0) sdiv 64) :: Bit64u;
        op1_addr = eaddr + 8 * displacement64;
        op1_addr = (if \<not> as64L i then ucast (ucast op1_addr :: Bit32u) else op1_addr)
    in laddr64 (instr_seg i) op1_addr (\<lambda>laddr.
    and_then (read_linear_qword (instr_seg i) laddr) (\<lambda>op1_64.
    on_core (upd_oszapc (set_CF (drop_bit (unat index) op1_64 AND 0x01 \<noteq> 0))))))"

definition BT_EqGqR :: "bxInstruction_c \<Rightarrow> bx_cpu \<Rightarrow> bx_cpu" where
  "BT_EqGqR i s =
    (let op1_64 = BX_READ_64BIT_REG (dst i) s;
         op2_64 = BX_READ_64BIT_REG (src i) s;
         op2_64 = op2_64 AND 0x3f
     in upd_oszapc (set_CF (drop_bit (unat op2_64) op1_64 AND 0x01 \<noteq> 0)) s)"

definition BTS_EqGqM :: "bxInstruction_c \<Rightarrow> unit sys_op" where
  "BTS_EqGqM i = with_core (\<lambda>c.
    let eaddr = BX_CPU_RESOLVE_ADDR_64 i c;
        op2_64 = BX_READ_64BIT_REG (src i) c;
        index = op2_64 AND 0x3f;
        displacement64 = word_of_int (sint (op2_64 AND 0xffffffffffffffc0) sdiv 64) :: Bit64u;
        op1_addr = eaddr + 8 * displacement64;
        op1_addr = (if \<not> as64L i then ucast (ucast op1_addr :: Bit32u) else op1_addr)
    in laddr64 (instr_seg i) op1_addr (\<lambda>laddr.
    and_then (read_RMW_linear_qword (instr_seg i) laddr) (\<lambda>op1_64.
    let temp_CF = drop_bit (unat index) op1_64 AND 0x01 \<noteq> 0;
        op1_64 = op1_64 OR push_bit (unat index) 1
    in and_then (write_RMW_linear_qword op1_64) (\<lambda>_. on_core (upd_oszapc (set_CF temp_CF))))))"

definition BTS_EqGqR :: "bxInstruction_c \<Rightarrow> bx_cpu \<Rightarrow> bx_cpu" where
  "BTS_EqGqR i s =
    (let op1_64 = BX_READ_64BIT_REG (dst i) s;
         op2_64 = BX_READ_64BIT_REG (src i) s;
         op2_64 = op2_64 AND 0x3f;
         s = upd_oszapc (set_CF (drop_bit (unat op2_64) op1_64 AND 0x01 \<noteq> 0)) s;
         op1_64 = op1_64 OR push_bit (unat op2_64) 1
     in BX_WRITE_64BIT_REG (dst i) op1_64 s)"

definition BTR_EqGqM :: "bxInstruction_c \<Rightarrow> unit sys_op" where
  "BTR_EqGqM i = with_core (\<lambda>c.
    let eaddr = BX_CPU_RESOLVE_ADDR_64 i c;
        op2_64 = BX_READ_64BIT_REG (src i) c;
        index = op2_64 AND 0x3f;
        displacement64 = word_of_int (sint (op2_64 AND 0xffffffffffffffc0) sdiv 64) :: Bit64u;
        op1_addr = eaddr + 8 * displacement64;
        op1_addr = (if \<not> as64L i then ucast (ucast op1_addr :: Bit32u) else op1_addr)
    in laddr64 (instr_seg i) op1_addr (\<lambda>laddr.
    and_then (read_RMW_linear_qword (instr_seg i) laddr) (\<lambda>op1_64.
    let temp_CF = drop_bit (unat index) op1_64 AND 0x01 \<noteq> 0;
        op1_64 = op1_64 AND NOT (push_bit (unat index) 1)
    in and_then (write_RMW_linear_qword op1_64) (\<lambda>_. on_core (upd_oszapc (set_CF temp_CF))))))"

definition BTR_EqGqR :: "bxInstruction_c \<Rightarrow> bx_cpu \<Rightarrow> bx_cpu" where
  "BTR_EqGqR i s =
    (let op1_64 = BX_READ_64BIT_REG (dst i) s;
         op2_64 = BX_READ_64BIT_REG (src i) s;
         op2_64 = op2_64 AND 0x3f;
         s = upd_oszapc (set_CF (drop_bit (unat op2_64) op1_64 AND 0x01 \<noteq> 0)) s;
         op1_64 = op1_64 AND NOT (push_bit (unat op2_64) 1)
     in BX_WRITE_64BIT_REG (dst i) op1_64 s)"

definition BTC_EqGqM :: "bxInstruction_c \<Rightarrow> unit sys_op" where
  "BTC_EqGqM i = with_core (\<lambda>c.
    let eaddr = BX_CPU_RESOLVE_ADDR_64 i c;
        op2_64 = BX_READ_64BIT_REG (src i) c;
        index = op2_64 AND 0x3f;
        displacement64 = word_of_int (sint (op2_64 AND 0xffffffffffffffc0) sdiv 64) :: Bit64u;
        op1_addr = eaddr + 8 * displacement64;
        op1_addr = (if \<not> as64L i then ucast (ucast op1_addr :: Bit32u) else op1_addr)
    in laddr64 (instr_seg i) op1_addr (\<lambda>laddr.
    and_then (read_RMW_linear_qword (instr_seg i) laddr) (\<lambda>op1_64.
    let temp_CF = drop_bit (unat index) op1_64 AND 0x01 \<noteq> 0;
        op1_64 = op1_64 XOR push_bit (unat index) 1
    in and_then (on_core (upd_oszapc (set_CF temp_CF))) (\<lambda>_. write_RMW_linear_qword op1_64))))"

definition BTC_EqGqR :: "bxInstruction_c \<Rightarrow> bx_cpu \<Rightarrow> bx_cpu" where
  "BTC_EqGqR i s =
    (let op1_64 = BX_READ_64BIT_REG (dst i) s;
         op2_64 = BX_READ_64BIT_REG (src i) s;
         op2_64 = op2_64 AND 0x3f;
         temp_CF = drop_bit (unat op2_64) op1_64 AND 0x01 \<noteq> 0;
         op1_64 = op1_64 XOR push_bit (unat op2_64) 1;
         s = upd_oszapc (set_CF temp_CF) s
     in BX_WRITE_64BIT_REG (dst i) op1_64 s)"

definition BT_EqIbM :: "bxInstruction_c \<Rightarrow> unit sys_op" where
  "BT_EqIbM i = with_core (\<lambda>c.
    let eaddr = BX_CPU_RESOLVE_ADDR_64 i c in
    laddr64 (instr_seg i) eaddr (\<lambda>laddr.
    and_then (read_linear_qword (instr_seg i) laddr) (\<lambda>op1_64.
    let op2_8 = Ib i AND 0x3f in on_core (upd_oszapc (set_CF (drop_bit (unat op2_8) op1_64 AND 0x01 \<noteq> 0))))))"

definition BT_EqIbR :: "bxInstruction_c \<Rightarrow> bx_cpu \<Rightarrow> bx_cpu" where
  "BT_EqIbR i s =
    (let op1_64 = BX_READ_64BIT_REG (dst i) s;
         op2_8 = Ib i AND 0x3f
     in upd_oszapc (set_CF (drop_bit (unat op2_8) op1_64 AND 0x01 \<noteq> 0)) s)"

definition BTS_EqIbM :: "bxInstruction_c \<Rightarrow> unit sys_op" where
  "BTS_EqIbM i = with_core (\<lambda>c.
    let op2_8 = Ib i AND 0x3f; eaddr = BX_CPU_RESOLVE_ADDR_64 i c in
    laddr64 (instr_seg i) eaddr (\<lambda>laddr.
    and_then (read_RMW_linear_qword (instr_seg i) laddr) (\<lambda>op1_64.
    let temp_CF = drop_bit (unat op2_8) op1_64 AND 0x01 \<noteq> 0;
        op1_64 = op1_64 OR push_bit (unat op2_8) 1
    in and_then (write_RMW_linear_qword op1_64) (\<lambda>_. on_core (upd_oszapc (set_CF temp_CF))))))"

definition BTS_EqIbR :: "bxInstruction_c \<Rightarrow> bx_cpu \<Rightarrow> bx_cpu" where
  "BTS_EqIbR i s =
    (let op2_8 = Ib i AND 0x3f;
         op1_64 = BX_READ_64BIT_REG (dst i) s;
         temp_CF = drop_bit (unat op2_8) op1_64 AND 0x01 \<noteq> 0;
         op1_64 = op1_64 OR push_bit (unat op2_8) 1;
         s = BX_WRITE_64BIT_REG (dst i) op1_64 s
     in upd_oszapc (set_CF temp_CF) s)"

definition BTC_EqIbM :: "bxInstruction_c \<Rightarrow> unit sys_op" where
  "BTC_EqIbM i = with_core (\<lambda>c.
    let op2_8 = Ib i AND 0x3f; eaddr = BX_CPU_RESOLVE_ADDR_64 i c in
    laddr64 (instr_seg i) eaddr (\<lambda>laddr.
    and_then (read_RMW_linear_qword (instr_seg i) laddr) (\<lambda>op1_64.
    let temp_CF = drop_bit (unat op2_8) op1_64 AND 0x01 \<noteq> 0;
        op1_64 = op1_64 XOR push_bit (unat op2_8) 1
    in and_then (write_RMW_linear_qword op1_64) (\<lambda>_. on_core (upd_oszapc (set_CF temp_CF))))))"

definition BTC_EqIbR :: "bxInstruction_c \<Rightarrow> bx_cpu \<Rightarrow> bx_cpu" where
  "BTC_EqIbR i s =
    (let op2_8 = Ib i AND 0x3f;
         op1_64 = BX_READ_64BIT_REG (dst i) s;
         temp_CF = drop_bit (unat op2_8) op1_64 AND 0x01 \<noteq> 0;
         op1_64 = op1_64 XOR push_bit (unat op2_8) 1;
         s = BX_WRITE_64BIT_REG (dst i) op1_64 s
     in upd_oszapc (set_CF temp_CF) s)"

definition BTR_EqIbM :: "bxInstruction_c \<Rightarrow> unit sys_op" where
  "BTR_EqIbM i = with_core (\<lambda>c.
    let op2_8 = Ib i AND 0x3f; eaddr = BX_CPU_RESOLVE_ADDR_64 i c in
    laddr64 (instr_seg i) eaddr (\<lambda>laddr.
    and_then (read_RMW_linear_qword (instr_seg i) laddr) (\<lambda>op1_64.
    let temp_CF = drop_bit (unat op2_8) op1_64 AND 0x01 \<noteq> 0;
        op1_64 = op1_64 AND NOT (push_bit (unat op2_8) 1)
    in and_then (write_RMW_linear_qword op1_64) (\<lambda>_. on_core (upd_oszapc (set_CF temp_CF))))))"

definition BTR_EqIbR :: "bxInstruction_c \<Rightarrow> bx_cpu \<Rightarrow> bx_cpu" where
  "BTR_EqIbR i s =
    (let op2_8 = Ib i AND 0x3f;
         op1_64 = BX_READ_64BIT_REG (dst i) s;
         temp_CF = drop_bit (unat op2_8) op1_64 AND 0x01 \<noteq> 0;
         op1_64 = op1_64 AND NOT (push_bit (unat op2_8) 1);
         s = BX_WRITE_64BIT_REG (dst i) op1_64 s
     in upd_oszapc (set_CF temp_CF) s)"

definition POPCNT_GqEqR :: "bxInstruction_c \<Rightarrow> bx_cpu \<Rightarrow> bx_cpu" where
  "POPCNT_GqEqR i s =
    (let op_64 = of_nat (popcntq (BX_READ_64BIT_REG (src i) s)) :: Bit64u;
         s = clearEFlagsOSZAPC s;
         s = (if op_64 = 0 then upd_oszapc assert_ZF s else s)
     in BX_WRITE_64BIT_REG (dst i) op_64 s)"

definition TZCNT_GqEqR :: "bxInstruction_c \<Rightarrow> bx_cpu \<Rightarrow> bx_cpu" where
  "TZCNT_GqEqR i s =
    (let op1_64 = BX_READ_64BIT_REG (src i) s;
         result_64 = of_nat (tzcntq op1_64) :: Bit64u;
         s = upd_oszapc (set_CF (op1_64 = 0)) s;
         s = upd_oszapc (set_ZF (result_64 = 0)) s
     in BX_WRITE_64BIT_REG (dst i) result_64 s)"

definition LZCNT_GqEqR :: "bxInstruction_c \<Rightarrow> bx_cpu \<Rightarrow> bx_cpu" where
  "LZCNT_GqEqR i s =
    (let op1_64 = BX_READ_64BIT_REG (src i) s;
         result_64 = of_nat (lzcntq op1_64) :: Bit64u;
         s = upd_oszapc (set_CF (op1_64 = 0)) s;
         s = upd_oszapc (set_ZF (result_64 = 0)) s
     in BX_WRITE_64BIT_REG (dst i) result_64 s)"

section \<open>Bit scans and counts\<close>

lemma bsr64_highest: "v \<noteq> 0 \<Longrightarrow> bsr_loop64 v = of_nat (highest_bit v)"
  using bsr_while [of v, where 'b = 64] by (simp add: bsr_loop64_def)

lemma bit_scan64:
  fixes i :: bxInstruction_c and s :: bx_cpu
  defines "v \<equiv> BX_READ_64BIT_REG (src i) s"
  shows "if v = 0 then with_flags (BSF_GqEqR i s) s ((cpu_flags s)\<lparr>fZF := True\<rparr>)
     else with_flags (BSF_GqEqR i s) (BX_WRITE_64BIT_REG (dst i) (of_nat (lowest_bit v)) s) ((logic_flags (of_nat (lowest_bit v) :: Bit64u))\<lparr>fZF := False\<rparr>)"
    "if v = 0 then with_flags (BSR_GqEqR i s) s ((cpu_flags s)\<lparr>fZF := True\<rparr>)
     else with_flags (BSR_GqEqR i s) (BX_WRITE_64BIT_REG (dst i) (of_nat (highest_bit v)) s) ((logic_flags (of_nat (highest_bit v) :: Bit64u))\<lparr>fZF := False\<rparr>)"
  by (simp_all add: BSF_GqEqR_def BSR_GqEqR_def v_def with_flags_def Let_def counts bsr64_highest flags_ZF flags_LOGIC reg_write_upd reg_write_frame)

lemma bit_count64:
  fixes i :: bxInstruction_c and s :: bx_cpu
  defines "v \<equiv> BX_READ_64BIT_REG (src i) s"
  shows "with_flags (POPCNT_GqEqR i s) (BX_WRITE_64BIT_REG (dst i) (of_nat (card {k. bit v k})) s)
      \<lparr>fOF = False, fSF = False, fZF = v = 0, fAF = False, fPF = False, fCF = False\<rparr>"
    "with_flags (TZCNT_GqEqR i s) (BX_WRITE_64BIT_REG (dst i) (of_nat (if v = 0 then 64 else lowest_bit v)) s)
      ((cpu_flags s)\<lparr>fCF := v = 0, fZF := bit v 0\<rparr>)"
    "with_flags (LZCNT_GqEqR i s) (BX_WRITE_64BIT_REG (dst i) (of_nat (if v = 0 then 64 else 63 - highest_bit v)) s)
      ((cpu_flags s)\<lparr>fCF := v = 0, fZF := bit v 63\<rparr>)"
proof -
  have z: "(of_nat (if v = 0 then 64 else lowest_bit v) :: Bit64u) = 0 \<longleftrightarrow> bit v 0"
    "(of_nat (if v = 0 then 64 else 63 - highest_bit v) :: Bit64u) = 0 \<longleftrightarrow> bit v 63"
    using scan_zero [of v] by (cases "v = 0"; simp)+
  show "with_flags (POPCNT_GqEqR i s) (BX_WRITE_64BIT_REG (dst i) (of_nat (card {k. bit v k})) s)
      \<lparr>fOF = False, fSF = False, fZF = v = 0, fAF = False, fPF = False, fCF = False\<rparr>"
    unfolding POPCNT_GqEqR_def Let_def v_def [symmetric] popcntq_card count_zero
    by (simp add: with_flags_def flags_ZF clear_write clearEFlagsOSZAPC_flags reg_write_upd reg_write_frame)
  show "with_flags (TZCNT_GqEqR i s) (BX_WRITE_64BIT_REG (dst i) (of_nat (if v = 0 then 64 else lowest_bit v)) s)
      ((cpu_flags s)\<lparr>fCF := v = 0, fZF := bit v 0\<rparr>)"
    unfolding TZCNT_GqEqR_def Let_def v_def [symmetric] counts z
    by (simp add: with_flags_def flags_setters reg_write_upd reg_write_frame)
  show "with_flags (LZCNT_GqEqR i s) (BX_WRITE_64BIT_REG (dst i) (of_nat (if v = 0 then 64 else 63 - highest_bit v)) s)
      ((cpu_flags s)\<lparr>fCF := v = 0, fZF := bit v 63\<rparr>)"
    unfolding LZCNT_GqEqR_def Let_def v_def [symmetric] counts z
    by (simp add: with_flags_def flags_setters reg_write_upd reg_write_frame)
qed

section \<open>Bit tests\<close>

lemma bit_test_reg64:
  fixes i :: bxInstruction_c and s :: bx_cpu
  defines "a \<equiv> BX_READ_64BIT_REG (dst i) s" and "k \<equiv> unat (BX_READ_64BIT_REG (src i) s AND 0x3f)" and "put \<equiv> \<lambda>v. BX_WRITE_64BIT_REG (dst i) v s"
  shows "with_flags (BT_EqGqR i s) s ((cpu_flags s)\<lparr>fCF := bit a k\<rparr>)"
    "with_flags (BTS_EqGqR i s) (put (set_bit k a)) ((cpu_flags s)\<lparr>fCF := bit a k\<rparr>)"
    "with_flags (BTR_EqGqR i s) (put (unset_bit k a)) ((cpu_flags s)\<lparr>fCF := bit a k\<rparr>)"
    "with_flags (BTC_EqGqR i s) (put (flip_bit k a)) ((cpu_flags s)\<lparr>fCF := bit a k\<rparr>)"
  unfolding BT_EqGqR_def BTS_EqGqR_def BTR_EqGqR_def BTC_EqGqR_def Let_def tested_bit set_bit_forms assms
  by (simp_all add: with_flags_def flags_setters reg_write_upd reg_write_frame)

lemma bit_test_imm64:
  fixes i :: bxInstruction_c and s :: bx_cpu
  defines "a \<equiv> BX_READ_64BIT_REG (dst i) s" and "k \<equiv> unat (Ib i AND 0x3f)" and "put \<equiv> \<lambda>v. BX_WRITE_64BIT_REG (dst i) v s"
  shows "with_flags (BT_EqIbR i s) s ((cpu_flags s)\<lparr>fCF := bit a k\<rparr>)"
    "with_flags (BTS_EqIbR i s) (put (set_bit k a)) ((cpu_flags s)\<lparr>fCF := bit a k\<rparr>)"
    "with_flags (BTR_EqIbR i s) (put (unset_bit k a)) ((cpu_flags s)\<lparr>fCF := bit a k\<rparr>)"
    "with_flags (BTC_EqIbR i s) (put (flip_bit k a)) ((cpu_flags s)\<lparr>fCF := bit a k\<rparr>)"
  unfolding BT_EqIbR_def BTS_EqIbR_def BTR_EqIbR_def BTC_EqIbR_def Let_def tested_bit set_bit_forms assms
  by (simp_all add: with_flags_def flags_setters reg_write_upd reg_write_frame)

lemma bit_test_mem64:
  fixes i :: bxInstruction_c and s :: bx_sys
  defines "rd \<equiv> read_RMW_linear_qword (instr_seg i) (get_laddr64 (instr_seg i) (bit_address 64 i (core s)) s)" and "k \<equiv> bit_index 64 i (core s)" and "P \<equiv> \<lambda>v c. with_flags c (core s) ((cpu_flags (core s))\<lparr>fCF := bit v (bit_index 64 i (core s))\<rparr>)"
  shows "load_spec (read_linear_qword (instr_seg i) (get_laddr64 (instr_seg i) (bit_address 64 i (core s)) s)) P (BT_EqGqM i) s"
    "rmw_spec rd write_RMW_linear_qword (set_bit k) P (BTS_EqGqM i) s"
    "rmw_spec rd write_RMW_linear_qword (unset_bit k) P (BTR_EqGqM i) s"
    "rmw_spec rd write_RMW_linear_qword (flip_bit k) P (BTC_EqGqM i) s"
proof -
  show "load_spec (read_linear_qword (instr_seg i) (get_laddr64 (instr_seg i) (bit_address 64 i (core s)) s)) P (BT_EqGqM i) s"
    unfolding assms
    by (rule load_spec_intro, simp only: BT_EqGqM_def with_core_apply laddr64_apply Let_def tested_bit set_bit_forms bit_index_mask bit_address_16 bit_address_32 bit_address_64, simp, rule refl, simp add: with_flags_def flags_setters)
  show "rmw_spec rd write_RMW_linear_qword (set_bit k) P (BTS_EqGqM i) s"
    unfolding assms
    by (rule rmw64.spec_intro, simp only: BTS_EqGqM_def with_core_apply laddr64_apply Let_def tested_bit set_bit_forms bit_index_mask bit_address_16 bit_address_32 bit_address_64, simp, rule refl, simp, simp add: with_flags_def flags_setters)
  show "rmw_spec rd write_RMW_linear_qword (unset_bit k) P (BTR_EqGqM i) s"
    unfolding assms
    by (rule rmw64.spec_intro, simp only: BTR_EqGqM_def with_core_apply laddr64_apply Let_def tested_bit set_bit_forms bit_index_mask bit_address_16 bit_address_32 bit_address_64, simp, rule refl, simp, simp add: with_flags_def flags_setters)
  show "rmw_spec rd write_RMW_linear_qword (flip_bit k) P (BTC_EqGqM i) s"
    unfolding assms
    by (rule rmw64.spec_core_first, simp only: BTC_EqGqM_def with_core_apply laddr64_apply Let_def tested_bit set_bit_forms bit_index_mask bit_address_16 bit_address_32 bit_address_64, simp, rule refl, simp, simp, simp add: with_flags_def flags_setters)
qed

lemma bit_test_mem_imm64:
  fixes i :: bxInstruction_c and s :: bx_sys
  defines "rd \<equiv> read_RMW_linear_qword (instr_seg i) (get_laddr64 (instr_seg i) (BX_CPU_RESOLVE_ADDR_64 i (core s)) s)" and "k \<equiv> unat (Ib i AND 0x3f)" and "P \<equiv> \<lambda>v c. with_flags c (core s) ((cpu_flags (core s))\<lparr>fCF := bit v (unat (Ib i AND 0x3f))\<rparr>)"
  shows "load_spec (read_linear_qword (instr_seg i) (get_laddr64 (instr_seg i) (BX_CPU_RESOLVE_ADDR_64 i (core s)) s)) P (BT_EqIbM i) s"
    "rmw_spec rd write_RMW_linear_qword (set_bit k) P (BTS_EqIbM i) s"
    "rmw_spec rd write_RMW_linear_qword (unset_bit k) P (BTR_EqIbM i) s"
    "rmw_spec rd write_RMW_linear_qword (flip_bit k) P (BTC_EqIbM i) s"
proof -
  show "load_spec (read_linear_qword (instr_seg i) (get_laddr64 (instr_seg i) (BX_CPU_RESOLVE_ADDR_64 i (core s)) s)) P (BT_EqIbM i) s"
    unfolding assms
    by (rule load_spec_intro, simp only: BT_EqIbM_def with_core_apply laddr64_apply Let_def tested_bit set_bit_forms, simp, rule refl, simp add: with_flags_def flags_setters)
  show "rmw_spec rd write_RMW_linear_qword (set_bit k) P (BTS_EqIbM i) s"
    unfolding assms
    by (rule rmw64.spec_intro, simp only: BTS_EqIbM_def with_core_apply laddr64_apply Let_def tested_bit set_bit_forms, simp, rule refl, simp, simp add: with_flags_def flags_setters)
  show "rmw_spec rd write_RMW_linear_qword (unset_bit k) P (BTR_EqIbM i) s"
    unfolding assms
    by (rule rmw64.spec_intro, simp only: BTR_EqIbM_def with_core_apply laddr64_apply Let_def tested_bit set_bit_forms, simp, rule refl, simp, simp add: with_flags_def flags_setters)
  show "rmw_spec rd write_RMW_linear_qword (flip_bit k) P (BTC_EqIbM i) s"
    unfolding assms
    by (rule rmw64.spec_intro, simp only: BTC_EqIbM_def with_core_apply laddr64_apply Let_def tested_bit set_bit_forms, simp, rule refl, simp, simp add: with_flags_def flags_setters)
qed

section \<open>Faults\<close>

lemmas bit64_mem_defs = BT_EqGqM_def BTS_EqGqM_def BTR_EqGqM_def BTC_EqGqM_def BT_EqIbM_def BTS_EqIbM_def BTC_EqIbM_def BTR_EqIbM_def

lemma bit64_mem_precise:
  "precise (BT_EqGqM i)"  "precise (BTS_EqGqM i)"  "precise (BTR_EqGqM i)"  "precise (BTC_EqGqM i)"  "precise (BT_EqIbM i)"
  "precise (BTS_EqIbM i)"  "precise (BTC_EqIbM i)"  "precise (BTR_EqIbM i)"
  unfolding bit64_mem_defs Let_def by (intro precise_intros)+

end
