(* ===== verification/ByteSwap.thy ===== *)
theory ByteSwap
  imports MemOperand SetCC
begin

text \<open>
  The rest of \<^verbatim>\<open>cpu/bit.cc\<close>: conditional stores of a byte to memory, BSWAP and MOVBE, with the portable byte swaps of
  \<^verbatim>\<open>misc/bswap.h\<close>.
\<close>

section \<open>Byte swaps\<close>

definition bx_bswap16 :: "Bit16u \<Rightarrow> Bit16u" where "bx_bswap16 val16 = push_bit 8 val16 OR drop_bit 8 val16"

definition bx_bswap32 :: "Bit32u \<Rightarrow> Bit32u" where
  "bx_bswap32 val32 =
    (let val32 = (push_bit 8 val32 AND 0xFF00FF00) OR (drop_bit 8 val32 AND 0x00FF00FF)
     in push_bit 16 val32 OR drop_bit 16 val32)"

definition bx_bswap64 :: "Bit64u \<Rightarrow> Bit64u" where
  "bx_bswap64 val64 =
    (let lo = bx_bswap32 (ucast (drop_bit 32 val64));
         hi = bx_bswap32 (ucast (val64 AND 0xFFFFFFFF))
     in push_bit 32 (ucast hi) OR ucast lo)"

section \<open>Handlers\<close>

definition SETCC_EbM :: "(bx_lazyflags_entry \<Rightarrow> Bit32u) \<Rightarrow> bxInstruction_c \<Rightarrow> unit sys_op" where
  "SETCC_EbM cond i = with_core (\<lambda>c.
    let eaddr = BX_CPU_RESOLVE_ADDR i c; result_8 = ucast (cond (oszapc c)) in
    write_virtual_byte (instr_seg i) eaddr result_8)"

definition SETO_EbM :: "bxInstruction_c \<Rightarrow> unit sys_op" where
  "SETO_EbM = SETCC_EbM (\<lambda>e. getB_OF e)"

definition SETNO_EbM :: "bxInstruction_c \<Rightarrow> unit sys_op" where
  "SETNO_EbM = SETCC_EbM (\<lambda>e. lnot (getB_OF e))"

definition SETB_EbM :: "bxInstruction_c \<Rightarrow> unit sys_op" where
  "SETB_EbM = SETCC_EbM (\<lambda>e. getB_CF e)"

definition SETNB_EbM :: "bxInstruction_c \<Rightarrow> unit sys_op" where
  "SETNB_EbM = SETCC_EbM (\<lambda>e. lnot (getB_CF e))"

definition SETZ_EbM :: "bxInstruction_c \<Rightarrow> unit sys_op" where
  "SETZ_EbM = SETCC_EbM (\<lambda>e. getB_ZF e)"

definition SETNZ_EbM :: "bxInstruction_c \<Rightarrow> unit sys_op" where
  "SETNZ_EbM = SETCC_EbM (\<lambda>e. lnot (getB_ZF e))"

definition SETBE_EbM :: "bxInstruction_c \<Rightarrow> unit sys_op" where
  "SETBE_EbM = SETCC_EbM (\<lambda>e. getB_CF e OR getB_ZF e)"

definition SETNBE_EbM :: "bxInstruction_c \<Rightarrow> unit sys_op" where
  "SETNBE_EbM = SETCC_EbM (\<lambda>e. lnot (getB_CF e OR getB_ZF e))"

definition SETS_EbM :: "bxInstruction_c \<Rightarrow> unit sys_op" where
  "SETS_EbM = SETCC_EbM (\<lambda>e. getB_SF e)"

definition SETNS_EbM :: "bxInstruction_c \<Rightarrow> unit sys_op" where
  "SETNS_EbM = SETCC_EbM (\<lambda>e. lnot (getB_SF e))"

definition SETP_EbM :: "bxInstruction_c \<Rightarrow> unit sys_op" where
  "SETP_EbM = SETCC_EbM (\<lambda>e. getB_PF e)"

definition SETNP_EbM :: "bxInstruction_c \<Rightarrow> unit sys_op" where
  "SETNP_EbM = SETCC_EbM (\<lambda>e. lnot (getB_PF e))"

definition SETL_EbM :: "bxInstruction_c \<Rightarrow> unit sys_op" where
  "SETL_EbM = SETCC_EbM (\<lambda>e. getB_SF e XOR getB_OF e)"

definition SETNL_EbM :: "bxInstruction_c \<Rightarrow> unit sys_op" where
  "SETNL_EbM = SETCC_EbM (\<lambda>e. lnot (getB_SF e XOR getB_OF e))"

definition SETLE_EbM :: "bxInstruction_c \<Rightarrow> unit sys_op" where
  "SETLE_EbM = SETCC_EbM (\<lambda>e. getB_ZF e OR (getB_SF e XOR getB_OF e))"

definition SETNLE_EbM :: "bxInstruction_c \<Rightarrow> unit sys_op" where
  "SETNLE_EbM = SETCC_EbM (\<lambda>e. lnot (getB_ZF e OR (getB_SF e XOR getB_OF e)))"

definition BSWAP_RX :: "bxInstruction_c \<Rightarrow> bx_cpu \<Rightarrow> bx_cpu" where
  "BSWAP_RX i s = BX_WRITE_16BIT_REG (dst i) 0 s"

definition BSWAP_ERX :: "bxInstruction_c \<Rightarrow> bx_cpu \<Rightarrow> bx_cpu" where
  "BSWAP_ERX i s = BX_WRITE_32BIT_REGZ (dst i) (bx_bswap32 (BX_READ_32BIT_REG (dst i) s)) s"

definition BSWAP_RRX :: "bxInstruction_c \<Rightarrow> bx_cpu \<Rightarrow> bx_cpu" where
  "BSWAP_RRX i s = BX_WRITE_64BIT_REG (dst i) (bx_bswap64 (BX_READ_64BIT_REG (dst i) s)) s"

definition MOVBE_GwMw :: "bxInstruction_c \<Rightarrow> unit sys_op" where
  "MOVBE_GwMw i = with_core (\<lambda>c.
    let eaddr = BX_CPU_RESOLVE_ADDR i c in
    and_then (read_virtual_word (instr_seg i) eaddr) (\<lambda>v. on_core (\<lambda>c. BX_WRITE_16BIT_REG (dst i) (bx_bswap16 v) c)))"

definition MOVBE_MwGw :: "bxInstruction_c \<Rightarrow> unit sys_op" where
  "MOVBE_MwGw i = with_core (\<lambda>c.
    let eaddr = BX_CPU_RESOLVE_ADDR i c in
    write_virtual_word (instr_seg i) eaddr (bx_bswap16 (BX_READ_16BIT_REG (src i) c)))"

definition MOVBE_GdMd :: "bxInstruction_c \<Rightarrow> unit sys_op" where
  "MOVBE_GdMd i = with_core (\<lambda>c.
    let eaddr = BX_CPU_RESOLVE_ADDR i c in
    and_then (read_virtual_dword (instr_seg i) eaddr) (\<lambda>v. on_core (\<lambda>c. BX_WRITE_32BIT_REGZ (dst i) (bx_bswap32 v) c)))"

definition MOVBE_MdGd :: "bxInstruction_c \<Rightarrow> unit sys_op" where
  "MOVBE_MdGd i = with_core (\<lambda>c.
    let eaddr = BX_CPU_RESOLVE_ADDR i c in
    write_virtual_dword (instr_seg i) eaddr (bx_bswap32 (BX_READ_32BIT_REG (src i) c)))"

definition MOVBE_GwEwR :: "bxInstruction_c \<Rightarrow> bx_cpu \<Rightarrow> bx_cpu" where
  "MOVBE_GwEwR i s = BX_WRITE_16BIT_REG (dst i) (bx_bswap16 (BX_READ_16BIT_REG (src i) s)) s"

definition MOVBE_GdEdR :: "bxInstruction_c \<Rightarrow> bx_cpu \<Rightarrow> bx_cpu" where
  "MOVBE_GdEdR i s = BX_WRITE_32BIT_REGZ (dst i) (bx_bswap32 (BX_READ_32BIT_REG (src i) s)) s"

definition MOVBE_GqMq :: "bxInstruction_c \<Rightarrow> unit sys_op" where
  "MOVBE_GqMq i = with_core (\<lambda>c.
    let eaddr = BX_CPU_RESOLVE_ADDR_64 i c in
    and_then (laddr64 (instr_seg i) eaddr (\<lambda>laddr.
    read_linear_qword (instr_seg i) laddr)) (\<lambda>v. on_core (\<lambda>c. BX_WRITE_64BIT_REG (dst i) (bx_bswap64 v) c)))"

definition MOVBE_MqGq :: "bxInstruction_c \<Rightarrow> unit sys_op" where
  "MOVBE_MqGq i = with_core (\<lambda>c.
    let eaddr = BX_CPU_RESOLVE_ADDR_64 i c in
    laddr64 (instr_seg i) eaddr (\<lambda>laddr.
    write_linear_qword (instr_seg i) laddr (bx_bswap64 (BX_READ_64BIT_REG (src i) c))))"

definition MOVBE_GqEqR :: "bxInstruction_c \<Rightarrow> bx_cpu \<Rightarrow> bx_cpu" where
  "MOVBE_GqEqR i s = BX_WRITE_64BIT_REG (dst i) (bx_bswap64 (BX_READ_64BIT_REG (src i) s)) s"

section \<open>The byte swaps reverse the bytes\<close>

definition word_byte :: "'a::len word \<Rightarrow> nat \<Rightarrow> Bit8u" where "word_byte w n = ucast (drop_bit (8 * n) w)"

lemma mask_bits: "bit (0xFF00FF00 :: Bit32u) n \<longleftrightarrow> 8 \<le> n \<and> n < 16 \<or> 24 \<le> n \<and> n < 32"
    "bit (0x00FF00FF :: Bit32u) n \<longleftrightarrow> n < 8 \<or> 16 \<le> n \<and> n < 24"
proof -
  have a: "(0xFF00FF00 :: Bit32u) = push_bit 8 (mask 8) OR push_bit 24 (mask 8)" "(0x00FF00FF :: Bit32u) = mask 8 OR push_bit 16 (mask 8)"
    by (simp_all add: mask_eq_exp_minus_1)
  show "bit (0xFF00FF00 :: Bit32u) n \<longleftrightarrow> 8 \<le> n \<and> n < 16 \<or> 24 \<le> n \<and> n < 32"
    unfolding a by (auto simp: bit_simps)
  show "bit (0x00FF00FF :: Bit32u) n \<longleftrightarrow> n < 8 \<or> 16 \<le> n \<and> n < 24"
    unfolding a by (auto simp: bit_simps)
qed

lemma bit_bswap16: "bit (bx_bswap16 v) n \<longleftrightarrow> n < 16 \<and> bit v (if n < 8 then n + 8 else n - 8)"
  by (auto simp: bx_bswap16_def bit_simps add.commute dest: bit_imp_le_length)

lemma byte_position:
  fixes n :: nat
  obtains k r where "n = r + 8 * k" "r < 8" "n div 8 = k" "n mod 8 = r"
  by (rule that [of "n mod 8" "n div 8"]) simp_all

lemma bswap32_bits: "bit (bx_bswap32 v) n \<longleftrightarrow>
    (if n < 8 then bit v (n + 24) else if n < 16 then bit v (n + 8) else if n < 24 then bit v (n - 8) else n < 32 \<and> bit v (n - 24))"
proof -
  have "bit (bx_bswap32 v) n \<longleftrightarrow>
      16 \<le> n \<and> n < 32 \<and> (8 \<le> n - 16 \<and> n - 16 < 32 \<and> bit v (n - 16 - 8) \<and> (8 \<le> n - 16 \<and> n - 16 < 16 \<or> 24 \<le> n - 16 \<and> n - 16 < 32) \<or>
        bit v (8 + (n - 16)) \<and> (n - 16 < 8 \<or> 16 \<le> n - 16 \<and> n - 16 < 24)) \<or>
      (8 \<le> 16 + n \<and> 16 + n < 32 \<and> bit v (16 + n - 8) \<and> (8 \<le> 16 + n \<and> 16 + n < 16 \<or> 24 \<le> 16 + n \<and> 16 + n < 32) \<or>
        bit v (8 + (16 + n)) \<and> (16 + n < 8 \<or> 16 \<le> 16 + n \<and> 16 + n < 24))"
    by (simp only: bx_bswap32_def Let_def bit_or_iff bit_and_iff bit_push_bit_iff bit_drop_bit_eq mask_bits possible_bit_word comp_def conj_assoc
        len_num0 len_num1 len_bit0 len_bit1 conj_ac, simp)
  then show ?thesis
    by (cases "n < 8"; cases "n < 16"; cases "n < 24"; cases "n < 32") (simp_all add: add.commute diff_diff_eq less_diff_conv2 le_diff_conv2 not_le not_less)
qed

lemma bit_bswap32: "bit (bx_bswap32 v) n \<longleftrightarrow> n < 32 \<and> bit v (8 * (3 - n div 8) + n mod 8)"
proof (cases "n < 32")
  case True
  obtain k r where n: "n = r + 8 * k" "r < 8" "n div 8 = k" "n mod 8 = r" by (rule byte_position)
  then consider "k = 0" | "k = 1" | "k = 2" | "k = 3" using True by linarith
  then show ?thesis
    using n(2) unfolding n(3,4) unfolding n(1) by cases (simp_all add: bswap32_bits add.commute)
next
  case False
  then show ?thesis by (simp add: bswap32_bits)
qed

lemma bit_low_32: "bit (0xFFFFFFFF :: Bit64u) k \<longleftrightarrow> k < 32"
proof -
  have e: "(0xFFFFFFFF :: Bit64u) = mask 32" by (simp add: mask_eq_exp_minus_1)
  show ?thesis unfolding e by (auto simp: bit_simps)
qed

lemma bit_bswap64: "bit (bx_bswap64 v) n \<longleftrightarrow> n < 64 \<and> bit v (8 * (7 - n div 8) + n mod 8)"
proof (cases "n < 64")
  case True
  obtain k r where n: "n = r + 8 * k" "r < 8" "n div 8 = k" "n mod 8 = r" by (rule byte_position)
  have s: "bit (bx_bswap64 v) n \<longleftrightarrow> 32 \<le> n \<and> bit (bx_bswap32 (ucast (v AND 0xFFFFFFFF))) (n - 32) \<or>
      bit (bx_bswap32 (ucast (drop_bit 32 v))) n"
    using True by (auto simp: bx_bswap64_def Let_def bit_or_iff bit_push_bit_iff bit_unsigned_iff)
  show ?thesis
  proof (cases "k < 4")
    case True
    then have "8 * (3 - k) + r < 32" "32 + (8 * (3 - k) + r) = 8 * (7 - k) + r" "n < 32" using n(1,2) by auto
    then show ?thesis by (simp del: add_diff_cancel_right add: s bit_bswap32 n(3,4) bit_unsigned_iff bit_drop_bit_eq add.assoc [symmetric])
  next
    case False
    then obtain j where k: "k = j + 4" by (metis add.commute le_Suc_ex not_less)
    have m: "n - 32 = r + 8 * j" "(r + 8 * j) div 8 = j" "(r + 8 * j) mod 8 = r" "j < 4" "32 \<le> n" "\<not> n < 32"
      using n(1,2) k True by auto
    then have "8 * (3 - j) + r < 32" "8 * (7 - k) + r = 8 * (3 - j) + r" "r + 8 * j < 32" "r mod 8 = r" using n(2) k by auto
    then show ?thesis using m(4-6) True by (simp add: s bit_bswap32 n(3,4) m(1-3) bit_unsigned_iff bit_and_iff bit_low_32 del: bit_numeral_word_iff)
  qed
next
  case False
  then show ?thesis using bit_imp_le_length [of "bx_bswap64 v" n] by auto
qed

lemma bswap_bytes:
  "n < 2 \<Longrightarrow> word_byte (bx_bswap16 v16) n = word_byte v16 (1 - n)" "n < 4 \<Longrightarrow> word_byte (bx_bswap32 v32) n = word_byte v32 (3 - n)"
  "n < 8 \<Longrightarrow> word_byte (bx_bswap64 v64) n = word_byte v64 (7 - n)"
proof -
  show "word_byte (bx_bswap16 v16) n = word_byte v16 (1 - n)" if "n < 2"
    using that by (cases "n = 0") (auto simp: word_byte_def bit_simps bit_bswap16 add.commute less_Suc_eq numeral_2_eq_2 intro!: bit_word_eqI)
  show "word_byte (bx_bswap32 v32) n = word_byte v32 (3 - n)" if "n < 4"
    using that by (intro bit_word_eqI) (auto simp: word_byte_def bit_simps bit_bswap32)
  show "word_byte (bx_bswap64 v64) n = word_byte v64 (7 - n)" if "n < 8"
    using that by (intro bit_word_eqI) (auto simp: word_byte_def bit_simps bit_bswap64)
qed

lemma bswap_involution: "bx_bswap16 (bx_bswap16 v16) = v16" "bx_bswap32 (bx_bswap32 v32) = v32" "bx_bswap64 (bx_bswap64 v64) = v64"
proof -
  show "bx_bswap16 (bx_bswap16 v16) = v16" by (rule bit_word_eqI) (auto simp: bit_bswap16)
  have a: "8 * (m - (8 * (m - n div 8) + n mod 8) div 8) + (8 * (m - n div 8) + n mod 8) mod 8 = n" if "n div 8 \<le> m" for m n :: nat
    using that by simp
  show "bx_bswap32 (bx_bswap32 v32) = v32" proof (rule bit_word_eqI)
    fix n assume "n < LENGTH(32)"
    then have "n div 8 \<le> 3" "8 * (3 - n div 8) + n mod 8 < 32" by auto
    then show "bit (bx_bswap32 (bx_bswap32 v32)) n = bit v32 n" using a [of n 3] \<open>n < LENGTH(32)\<close> by (simp add: bit_bswap32)
  qed
  show "bx_bswap64 (bx_bswap64 v64) = v64" proof (rule bit_word_eqI)
    fix n assume "n < LENGTH(64)"
    then have "n div 8 \<le> 7" "8 * (7 - n div 8) + n mod 8 < 64" by auto
    then show "bit (bx_bswap64 (bx_bswap64 v64)) n = bit v64 n" using a [of n 7] \<open>n < LENGTH(64)\<close> by (simp add: bit_bswap64)
  qed
qed

section \<open>Conditions stored to memory\<close>

lemma SETcc_memory_conditions:
  fixes i :: bxInstruction_c and s :: bx_sys
  defines "put \<equiv> \<lambda>p. write_virtual_byte (instr_seg i) (BX_CPU_RESOLVE_ADDR i (core s)) (of_bool p) s" and "f \<equiv> cpu_flags (core s)"
  shows "SETO_EbM i s = put (fOF f)" "SETNO_EbM i s = put (\<not> fOF f)" "SETB_EbM i s = put (fCF f)" "SETNB_EbM i s = put (\<not> fCF f)"
    "SETZ_EbM i s = put (fZF f)" "SETNZ_EbM i s = put (\<not> fZF f)" "SETBE_EbM i s = put (fCF f \<or> fZF f)" "SETNBE_EbM i s = put (\<not> (fCF f \<or> fZF f))"
    "SETS_EbM i s = put (fSF f)" "SETNS_EbM i s = put (\<not> fSF f)" "SETP_EbM i s = put (fPF f)" "SETNP_EbM i s = put (\<not> fPF f)"
    "SETL_EbM i s = put (fSF f \<noteq> fOF f)" "SETNL_EbM i s = put (\<not> (fSF f \<noteq> fOF f))" "SETLE_EbM i s = put (fZF f \<or> fSF f \<noteq> fOF f)"
    "SETNLE_EbM i s = put (\<not> (fZF f \<or> fSF f \<noteq> fOF f))"
  by (simp_all only: SETO_EbM_def SETNO_EbM_def SETB_EbM_def SETNB_EbM_def SETZ_EbM_def SETNZ_EbM_def SETBE_EbM_def SETNBE_EbM_def SETS_EbM_def
      SETNS_EbM_def SETP_EbM_def SETNP_EbM_def SETL_EbM_def SETNL_EbM_def SETLE_EbM_def SETNLE_EbM_def SETCC_EbM_def with_core_apply Let_def
      getB_flags of_bool_bits lnot_of_bool ucast_of_bool put_def f_def)

section \<open>Faults\<close>

lemmas byte_store_mem_defs = SETO_EbM_def SETNO_EbM_def SETB_EbM_def SETNB_EbM_def SETZ_EbM_def SETNZ_EbM_def SETBE_EbM_def SETNBE_EbM_def SETS_EbM_def SETNS_EbM_def SETP_EbM_def SETNP_EbM_def SETL_EbM_def SETNL_EbM_def SETLE_EbM_def SETNLE_EbM_def MOVBE_GwMw_def MOVBE_MwGw_def MOVBE_GdMd_def MOVBE_MdGd_def MOVBE_GqMq_def MOVBE_MqGq_def SETCC_EbM_def

lemma byte_store_mem_precise:
  "precise (SETO_EbM i)"  "precise (SETNO_EbM i)"  "precise (SETB_EbM i)"  "precise (SETNB_EbM i)"  "precise (SETZ_EbM i)"
  "precise (SETNZ_EbM i)"  "precise (SETBE_EbM i)"  "precise (SETNBE_EbM i)"  "precise (SETS_EbM i)"  "precise (SETNS_EbM i)"
  "precise (SETP_EbM i)"  "precise (SETNP_EbM i)"  "precise (SETL_EbM i)"  "precise (SETNL_EbM i)"  "precise (SETLE_EbM i)"
  "precise (SETNLE_EbM i)"  "precise (MOVBE_GwMw i)"  "precise (MOVBE_MwGw i)"  "precise (MOVBE_GdMd i)"  "precise (MOVBE_MdGd i)"
  "precise (MOVBE_GqMq i)"  "precise (MOVBE_MqGq i)"
  unfolding byte_store_mem_defs Let_def by (intro precise_intros)+

end
