(* ===== verification/MemProps.thy ===== *)
theory MemProps
  imports SegProps ArithMem8 ArithMem16 ArithMem32 ArithMem64 Logical8 Logical16 Logical32 Logical64 ShiftMem8 ShiftMem16 ShiftMem32 ShiftMem64
    DataXfer64 DataXfer32 Bit16 Bit32 Bit64 ByteSwap
begin

text \<open>
  What the instructions with a memory operand do at every operand size, and what they leave behind when they fault.
\<close>

abbreviation (input) "rmw_8 i s \<equiv> read_RMW_virtual_byte (instr_seg i) (BX_CPU_RESOLVE_ADDR i (core s))"
abbreviation (input) "load_8 i s \<equiv> read_virtual_byte (instr_seg i) (BX_CPU_RESOLVE_ADDR i (core s))"
abbreviation (input) "dst_8 i s \<equiv> BX_READ_8BIT_REGx (dst i) (extend8bitL i) (core s)"
abbreviation (input) "src_8 i s \<equiv> BX_READ_8BIT_REGx (src i) (extend8bitL i) (core s)"
abbreviation (input) "put_8 i v s \<equiv> BX_WRITE_8BIT_REGx (dst i) (extend8bitL i) v (core s)"
abbreviation (input) "put_src_8 i v s \<equiv> BX_WRITE_8BIT_REGx (src i) (extend8bitL i) v (core s)"
abbreviation (input) "rmw_16 i s \<equiv> read_RMW_virtual_word (instr_seg i) (BX_CPU_RESOLVE_ADDR i (core s))"
abbreviation (input) "load_16 i s \<equiv> read_virtual_word (instr_seg i) (BX_CPU_RESOLVE_ADDR i (core s))"
abbreviation (input) "dst_16 i s \<equiv> BX_READ_16BIT_REG (dst i) (core s)"
abbreviation (input) "src_16 i s \<equiv> BX_READ_16BIT_REG (src i) (core s)"
abbreviation (input) "put_16 i v s \<equiv> BX_WRITE_16BIT_REG (dst i) v (core s)"
abbreviation (input) "put_src_16 i v s \<equiv> BX_WRITE_16BIT_REG (src i) v (core s)"
abbreviation (input) "rmw_32 i s \<equiv> read_RMW_virtual_dword (instr_seg i) (BX_CPU_RESOLVE_ADDR i (core s))"
abbreviation (input) "load_32 i s \<equiv> read_virtual_dword (instr_seg i) (BX_CPU_RESOLVE_ADDR i (core s))"
abbreviation (input) "dst_32 i s \<equiv> BX_READ_32BIT_REG (dst i) (core s)"
abbreviation (input) "src_32 i s \<equiv> BX_READ_32BIT_REG (src i) (core s)"
abbreviation (input) "put_32 i v s \<equiv> BX_WRITE_32BIT_REGZ (dst i) v (core s)"
abbreviation (input) "put_src_32 i v s \<equiv> BX_WRITE_32BIT_REGZ (src i) v (core s)"
abbreviation (input) "rmw_64 i s \<equiv> read_RMW_linear_qword (instr_seg i) (get_laddr64 (instr_seg i) (BX_CPU_RESOLVE_ADDR_64 i (core s)) s)"
abbreviation (input) "load_64 i s \<equiv> read_linear_qword (instr_seg i) (get_laddr64 (instr_seg i) (BX_CPU_RESOLVE_ADDR_64 i (core s)) s)"
abbreviation (input) "dst_64 i s \<equiv> BX_READ_64BIT_REG (dst i) (core s)"
abbreviation (input) "src_64 i s \<equiv> BX_READ_64BIT_REG (src i) (core s)"
abbreviation (input) "put_64 i v s \<equiv> BX_WRITE_64BIT_REG (dst i) v (core s)"
abbreviation (input) "put_src_64 i v s \<equiv> BX_WRITE_64BIT_REG (src i) v (core s)"
abbreviation (input) "carry s \<equiv> fCF (cpu_flags (core s))"

section \<open>Results, flags and the value stored\<close>

text \<open>C30. Arithmetic and logical instructions with a memory operand fault exactly when the access to the operand does and then do nothing
  else.  With a memory destination they are one read-modify-write access that stores the wrapped or bitwise result and change no
  register; with a memory source they write the destination register only (CMP and TEST none); they leave the six flags of the
  operation (NOT changes none), at every operand size.\<close>

theorem arith_logical_memory_operands:
  "rmw_spec (rmw_8 i s) write_RMW_linear_byte (\<lambda>v. v + src_8 i s) (\<lambda>v k. with_flags k (core s) (add_flags v (src_8 i s) False)) (ADD_EbGbM i) s
   \<and> rmw_spec (rmw_8 i s) write_RMW_linear_byte (\<lambda>v. v + src_8 i s + of_bool (carry s)) (\<lambda>v k. with_flags k (core s) (add_flags v (src_8 i s) (carry s))) (ADC_EbGbM i) s
   \<and> rmw_spec (rmw_8 i s) write_RMW_linear_byte (\<lambda>v. v - src_8 i s) (\<lambda>v k. with_flags k (core s) (sub_flags v (src_8 i s) False)) (SUB_EbGbM i) s
   \<and> rmw_spec (rmw_8 i s) write_RMW_linear_byte (\<lambda>v. v - (src_8 i s + of_bool (carry s))) (\<lambda>v k. with_flags k (core s) (sub_flags v (src_8 i s) (carry s))) (SBB_EbGbM i) s
   \<and> rmw_spec (rmw_16 i s) write_RMW_linear_word (\<lambda>v. v + src_16 i s) (\<lambda>v k. with_flags k (core s) (add_flags v (src_16 i s) False)) (ADD_EwGwM i) s
   \<and> rmw_spec (rmw_16 i s) write_RMW_linear_word (\<lambda>v. v + src_16 i s + of_bool (carry s)) (\<lambda>v k. with_flags k (core s) (add_flags v (src_16 i s) (carry s))) (ADC_EwGwM i) s
   \<and> rmw_spec (rmw_16 i s) write_RMW_linear_word (\<lambda>v. v - src_16 i s) (\<lambda>v k. with_flags k (core s) (sub_flags v (src_16 i s) False)) (SUB_EwGwM i) s
   \<and> rmw_spec (rmw_16 i s) write_RMW_linear_word (\<lambda>v. v - (src_16 i s + of_bool (carry s))) (\<lambda>v k. with_flags k (core s) (sub_flags v (src_16 i s) (carry s))) (SBB_EwGwM i) s
   \<and> rmw_spec (rmw_32 i s) write_RMW_linear_dword (\<lambda>v. v + src_32 i s) (\<lambda>v k. with_flags k (core s) (add_flags v (src_32 i s) False)) (ADD_EdGdM i) s
   \<and> rmw_spec (rmw_32 i s) write_RMW_linear_dword (\<lambda>v. v + src_32 i s + of_bool (carry s)) (\<lambda>v k. with_flags k (core s) (add_flags v (src_32 i s) (carry s))) (ADC_EdGdM i) s
   \<and> rmw_spec (rmw_32 i s) write_RMW_linear_dword (\<lambda>v. v - src_32 i s) (\<lambda>v k. with_flags k (core s) (sub_flags v (src_32 i s) False)) (SUB_EdGdM i) s
   \<and> rmw_spec (rmw_32 i s) write_RMW_linear_dword (\<lambda>v. v - (src_32 i s + of_bool (carry s))) (\<lambda>v k. with_flags k (core s) (sub_flags v (src_32 i s) (carry s))) (SBB_EdGdM i) s
   \<and> rmw_spec (rmw_64 i s) write_RMW_linear_qword (\<lambda>v. v + src_64 i s) (\<lambda>v k. with_flags k (core s) (add_flags v (src_64 i s) False)) (ADD_EqGqM i) s
   \<and> rmw_spec (rmw_64 i s) write_RMW_linear_qword (\<lambda>v. v + src_64 i s + of_bool (carry s)) (\<lambda>v k. with_flags k (core s) (add_flags v (src_64 i s) (carry s))) (ADC_EqGqM i) s
   \<and> rmw_spec (rmw_64 i s) write_RMW_linear_qword (\<lambda>v. v - src_64 i s) (\<lambda>v k. with_flags k (core s) (sub_flags v (src_64 i s) False)) (SUB_EqGqM i) s
   \<and> rmw_spec (rmw_64 i s) write_RMW_linear_qword (\<lambda>v. v - (src_64 i s + of_bool (carry s))) (\<lambda>v k. with_flags k (core s) (sub_flags v (src_64 i s) (carry s))) (SBB_EqGqM i) s
   \<and> load_spec (load_8 i s) (\<lambda>v k. with_flags k (put_8 i (dst_8 i s + v) s) (add_flags (dst_8 i s) v False)) (ADD_GbEbM i) s
   \<and> load_spec (load_8 i s) (\<lambda>v k. with_flags k (put_8 i (dst_8 i s + v + of_bool (carry s)) s) (add_flags (dst_8 i s) v (carry s))) (ADC_GbEbM i) s
   \<and> load_spec (load_8 i s) (\<lambda>v k. with_flags k (put_8 i (dst_8 i s - v) s) (sub_flags (dst_8 i s) v False)) (SUB_GbEbM i) s
   \<and> load_spec (load_8 i s) (\<lambda>v k. with_flags k (put_8 i (dst_8 i s - (v + of_bool (carry s))) s) (sub_flags (dst_8 i s) v (carry s))) (SBB_GbEbM i) s
   \<and> load_spec (load_8 i s) (\<lambda>v k. with_flags k (core s) (sub_flags (dst_8 i s) v False)) (CMP_GbEbM i) s
   \<and> load_spec (load_16 i s) (\<lambda>v k. with_flags k (put_16 i (dst_16 i s + v) s) (add_flags (dst_16 i s) v False)) (ADD_GwEwM i) s
   \<and> load_spec (load_16 i s) (\<lambda>v k. with_flags k (put_16 i (dst_16 i s + v + of_bool (carry s)) s) (add_flags (dst_16 i s) v (carry s))) (ADC_GwEwM i) s
   \<and> load_spec (load_16 i s) (\<lambda>v k. with_flags k (put_16 i (dst_16 i s - v) s) (sub_flags (dst_16 i s) v False)) (SUB_GwEwM i) s
   \<and> load_spec (load_16 i s) (\<lambda>v k. with_flags k (put_16 i (dst_16 i s - (v + of_bool (carry s))) s) (sub_flags (dst_16 i s) v (carry s))) (SBB_GwEwM i) s
   \<and> load_spec (load_16 i s) (\<lambda>v k. with_flags k (core s) (sub_flags (dst_16 i s) v False)) (CMP_GwEwM i) s
   \<and> load_spec (load_32 i s) (\<lambda>v k. with_flags k (put_32 i (dst_32 i s + v) s) (add_flags (dst_32 i s) v False)) (ADD_GdEdM i) s
   \<and> load_spec (load_32 i s) (\<lambda>v k. with_flags k (put_32 i (dst_32 i s + v + of_bool (carry s)) s) (add_flags (dst_32 i s) v (carry s))) (ADC_GdEdM i) s
   \<and> load_spec (load_32 i s) (\<lambda>v k. with_flags k (put_32 i (dst_32 i s - v) s) (sub_flags (dst_32 i s) v False)) (SUB_GdEdM i) s
   \<and> load_spec (load_32 i s) (\<lambda>v k. with_flags k (put_32 i (dst_32 i s - (v + of_bool (carry s))) s) (sub_flags (dst_32 i s) v (carry s))) (SBB_GdEdM i) s
   \<and> load_spec (load_32 i s) (\<lambda>v k. with_flags k (core s) (sub_flags (dst_32 i s) v False)) (CMP_GdEdM i) s
   \<and> load_spec (load_64 i s) (\<lambda>v k. with_flags k (put_64 i (dst_64 i s + v) s) (add_flags (dst_64 i s) v False)) (ADD_GqEqM i) s
   \<and> load_spec (load_64 i s) (\<lambda>v k. with_flags k (put_64 i (dst_64 i s + v + of_bool (carry s)) s) (add_flags (dst_64 i s) v (carry s))) (ADC_GqEqM i) s
   \<and> load_spec (load_64 i s) (\<lambda>v k. with_flags k (put_64 i (dst_64 i s - v) s) (sub_flags (dst_64 i s) v False)) (SUB_GqEqM i) s
   \<and> load_spec (load_64 i s) (\<lambda>v k. with_flags k (put_64 i (dst_64 i s - (v + of_bool (carry s))) s) (sub_flags (dst_64 i s) v (carry s))) (SBB_GqEqM i) s
   \<and> load_spec (load_64 i s) (\<lambda>v k. with_flags k (core s) (sub_flags (dst_64 i s) v False)) (CMP_GqEqM i) s
   \<and> rmw_spec (rmw_8 i s) write_RMW_linear_byte (\<lambda>v. v AND src_8 i s) (\<lambda>v k. with_flags k (core s) (logic_flags (v AND src_8 i s))) (AND_EbGbM i) s
   \<and> rmw_spec (rmw_8 i s) write_RMW_linear_byte (\<lambda>v. v OR src_8 i s) (\<lambda>v k. with_flags k (core s) (logic_flags (v OR src_8 i s))) (OR_EbGbM i) s
   \<and> rmw_spec (rmw_8 i s) write_RMW_linear_byte (\<lambda>v. v XOR src_8 i s) (\<lambda>v k. with_flags k (core s) (logic_flags (v XOR src_8 i s))) (XOR_EbGbM i) s
   \<and> rmw_spec (rmw_8 i s) write_RMW_linear_byte (\<lambda>v. NOT v) (\<lambda>v k. k = core s) (NOT_EbM i) s
   \<and> load_spec (load_8 i s) (\<lambda>v k. with_flags k (put_8 i (dst_8 i s AND v) s) (logic_flags (dst_8 i s AND v))) (AND_GbEbM i) s
   \<and> load_spec (load_8 i s) (\<lambda>v k. with_flags k (put_8 i (dst_8 i s OR v) s) (logic_flags (dst_8 i s OR v))) (OR_GbEbM i) s
   \<and> load_spec (load_8 i s) (\<lambda>v k. with_flags k (put_8 i (dst_8 i s XOR v) s) (logic_flags (dst_8 i s XOR v))) (XOR_GbEbM i) s
   \<and> load_spec (load_8 i s) (\<lambda>v k. with_flags k (core s) (logic_flags (v AND src_8 i s))) (TEST_EbGbM i) s
   \<and> rmw_spec (rmw_16 i s) write_RMW_linear_word (\<lambda>v. v AND src_16 i s) (\<lambda>v k. with_flags k (core s) (logic_flags (v AND src_16 i s))) (AND_EwGwM i) s
   \<and> rmw_spec (rmw_16 i s) write_RMW_linear_word (\<lambda>v. v OR src_16 i s) (\<lambda>v k. with_flags k (core s) (logic_flags (v OR src_16 i s))) (OR_EwGwM i) s
   \<and> rmw_spec (rmw_16 i s) write_RMW_linear_word (\<lambda>v. v XOR src_16 i s) (\<lambda>v k. with_flags k (core s) (logic_flags (v XOR src_16 i s))) (XOR_EwGwM i) s
   \<and> rmw_spec (rmw_16 i s) write_RMW_linear_word (\<lambda>v. NOT v) (\<lambda>v k. k = core s) (NOT_EwM i) s
   \<and> load_spec (load_16 i s) (\<lambda>v k. with_flags k (put_16 i (dst_16 i s AND v) s) (logic_flags (dst_16 i s AND v))) (AND_GwEwM i) s
   \<and> load_spec (load_16 i s) (\<lambda>v k. with_flags k (put_16 i (dst_16 i s OR v) s) (logic_flags (dst_16 i s OR v))) (OR_GwEwM i) s
   \<and> load_spec (load_16 i s) (\<lambda>v k. with_flags k (put_16 i (dst_16 i s XOR v) s) (logic_flags (dst_16 i s XOR v))) (XOR_GwEwM i) s
   \<and> load_spec (load_16 i s) (\<lambda>v k. with_flags k (core s) (logic_flags (v AND src_16 i s))) (TEST_EwGwM i) s
   \<and> rmw_spec (rmw_32 i s) write_RMW_linear_dword (\<lambda>v. v AND src_32 i s) (\<lambda>v k. with_flags k (core s) (logic_flags (v AND src_32 i s))) (AND_EdGdM i) s
   \<and> rmw_spec (rmw_32 i s) write_RMW_linear_dword (\<lambda>v. v OR src_32 i s) (\<lambda>v k. with_flags k (core s) (logic_flags (v OR src_32 i s))) (OR_EdGdM i) s
   \<and> rmw_spec (rmw_32 i s) write_RMW_linear_dword (\<lambda>v. v XOR src_32 i s) (\<lambda>v k. with_flags k (core s) (logic_flags (v XOR src_32 i s))) (XOR_EdGdM i) s
   \<and> rmw_spec (rmw_32 i s) write_RMW_linear_dword (\<lambda>v. NOT v) (\<lambda>v k. k = core s) (NOT_EdM i) s
   \<and> load_spec (load_32 i s) (\<lambda>v k. with_flags k (put_32 i (dst_32 i s AND v) s) (logic_flags (dst_32 i s AND v))) (AND_GdEdM i) s
   \<and> load_spec (load_32 i s) (\<lambda>v k. with_flags k (put_32 i (dst_32 i s OR v) s) (logic_flags (dst_32 i s OR v))) (OR_GdEdM i) s
   \<and> load_spec (load_32 i s) (\<lambda>v k. with_flags k (put_32 i (dst_32 i s XOR v) s) (logic_flags (dst_32 i s XOR v))) (XOR_GdEdM i) s
   \<and> load_spec (load_32 i s) (\<lambda>v k. with_flags k (core s) (logic_flags (v AND src_32 i s))) (TEST_EdGdM i) s
   \<and> rmw_spec (rmw_64 i s) write_RMW_linear_qword (\<lambda>v. v AND src_64 i s) (\<lambda>v k. with_flags k (core s) (logic_flags (v AND src_64 i s))) (AND_EqGqM i) s
   \<and> rmw_spec (rmw_64 i s) write_RMW_linear_qword (\<lambda>v. v OR src_64 i s) (\<lambda>v k. with_flags k (core s) (logic_flags (v OR src_64 i s))) (OR_EqGqM i) s
   \<and> rmw_spec (rmw_64 i s) write_RMW_linear_qword (\<lambda>v. v XOR src_64 i s) (\<lambda>v k. with_flags k (core s) (logic_flags (v XOR src_64 i s))) (XOR_EqGqM i) s
   \<and> rmw_spec (rmw_64 i s) write_RMW_linear_qword (\<lambda>v. NOT v) (\<lambda>v k. k = core s) (NOT_EqM i) s
   \<and> load_spec (load_64 i s) (\<lambda>v k. with_flags k (put_64 i (dst_64 i s AND v) s) (logic_flags (dst_64 i s AND v))) (AND_GqEqM i) s
   \<and> load_spec (load_64 i s) (\<lambda>v k. with_flags k (put_64 i (dst_64 i s OR v) s) (logic_flags (dst_64 i s OR v))) (OR_GqEqM i) s
   \<and> load_spec (load_64 i s) (\<lambda>v k. with_flags k (put_64 i (dst_64 i s XOR v) s) (logic_flags (dst_64 i s XOR v))) (XOR_GqEqM i) s
   \<and> load_spec (load_64 i s) (\<lambda>v k. with_flags k (core s) (logic_flags (v AND src_64 i s))) (TEST_EqGqM i) s"
  using arith8_mem_reg(1,2,3,4) [of i s] arith16_mem_reg(1,2,3,4) [of i s] arith32_mem_reg(1,2,3,4) [of i s] arith64_mem_reg(1,2,3,4) [of i s] arith8_reg_mem [of i s] arith16_reg_mem [of i s] arith32_reg_mem [of i s] arith64_reg_mem [of i s] logical8_mem_reg [of i s] logical8_not_mem [of i s] logical8_reg_mem [of i s] logical8_test_mem [of i s] logical16_mem_reg [of i s] logical16_not_mem [of i s] logical16_reg_mem [of i s] logical16_test_mem [of i s] logical32_mem_reg [of i s] logical32_not_mem [of i s] logical32_reg_mem [of i s] logical32_test_mem [of i s] logical64_mem_reg [of i s] logical64_not_mem [of i s] logical64_reg_mem [of i s] logical64_test_mem [of i s]
  by (intro conjI)

lemma laddr64_then: "and_then (laddr64 n off f) k s = and_then (f (get_laddr64 n off s)) k s"
  by (simp add: and_then_def laddr64_apply)

lemma exchange_memory:
  fixes i :: bxInstruction_c and s :: bx_sys
  shows "rmw_spec (rmw_8 i s) write_RMW_linear_byte (\<lambda>_. src_8 i s) (\<lambda>v k. k = put_src_8 i v s) (XCHG_EbGbM i) s"
    "rmw_spec (rmw_16 i s) write_RMW_linear_word (\<lambda>_. src_16 i s) (\<lambda>v k. k = put_src_16 i v s) (XCHG_EwGwM i) s"
    "rmw_spec (rmw_32 i s) write_RMW_linear_dword (\<lambda>_. src_32 i s) (\<lambda>v k. k = put_src_32 i v s) (XCHG_EdGdM i) s"
    "rmw_spec (rmw_64 i s) write_RMW_linear_qword (\<lambda>_. src_64 i s) (\<lambda>v k. k = put_src_64 i v s) (XCHG_EqGqM i) s"
proof -
  show "rmw_spec (rmw_8 i s) write_RMW_linear_byte (\<lambda>_. src_8 i s) (\<lambda>v k. k = put_src_8 i v s) (XCHG_EbGbM i) s"
    by (rule rmw8.spec_intro, simp only: XCHG_EbGbM_def with_core_apply laddr64_apply laddr64_then Let_def, simp, simp only: with_core_apply, simp, simp)
  show "rmw_spec (rmw_16 i s) write_RMW_linear_word (\<lambda>_. src_16 i s) (\<lambda>v k. k = put_src_16 i v s) (XCHG_EwGwM i) s"
    by (rule rmw16.spec_intro, simp only: XCHG_EwGwM_def with_core_apply laddr64_apply laddr64_then Let_def, simp, simp only: with_core_apply, simp, simp)
  show "rmw_spec (rmw_32 i s) write_RMW_linear_dword (\<lambda>_. src_32 i s) (\<lambda>v k. k = put_src_32 i v s) (XCHG_EdGdM i) s"
    by (rule rmw32.spec_intro, simp only: XCHG_EdGdM_def with_core_apply laddr64_apply laddr64_then Let_def, simp, simp only: with_core_apply, simp, simp)
  show "rmw_spec (rmw_64 i s) write_RMW_linear_qword (\<lambda>_. src_64 i s) (\<lambda>v k. k = put_src_64 i v s) (XCHG_EqGqM i) s"
    by (rule rmw64.spec_intro, simp only: XCHG_EqGqM_def with_core_apply laddr64_apply laddr64_then Let_def, simp, simp only: with_core_apply, simp, simp)
qed

text \<open>C31. CMPXCHG on memory is compare-and-swap with the accumulator and XADD is fetch-and-add and XCHG swaps the operand
  with a register, each as one read-modify-write access (CMPXCHG writes back the old value when the comparison fails), at every operand size.\<close>

theorem locked_exchanges:
  "rmw_spec (rmw_8 i s) write_RMW_linear_byte (\<lambda>v. if AL (core s) = v then src_8 i s else v)
       (\<lambda>v k. with_flags k (if AL (core s) = v then core s else BX_WRITE_8BIT_REGL 0 v (core s)) (sub_flags (AL (core s)) v False)) (CMPXCHG_EbGbM i) s
   \<and> rmw_spec (rmw_8 i s) write_RMW_linear_byte (\<lambda>v. v + src_8 i s) (\<lambda>v k. with_flags k (put_src_8 i v s) (add_flags v (src_8 i s) False)) (XADD_EbGbM i) s
   \<and> rmw_spec (rmw_16 i s) write_RMW_linear_word (\<lambda>v. if AX (core s) = v then src_16 i s else v)
       (\<lambda>v k. with_flags k (if AX (core s) = v then core s else BX_WRITE_16BIT_REG 0 v (core s)) (sub_flags (AX (core s)) v False)) (CMPXCHG_EwGwM i) s
   \<and> rmw_spec (rmw_16 i s) write_RMW_linear_word (\<lambda>v. v + src_16 i s) (\<lambda>v k. with_flags k (put_src_16 i v s) (add_flags v (src_16 i s) False)) (XADD_EwGwM i) s
   \<and> rmw_spec (rmw_32 i s) write_RMW_linear_dword (\<lambda>v. if EAX (core s) = v then src_32 i s else v)
       (\<lambda>v k. with_flags k (if EAX (core s) = v then core s else BX_WRITE_32BIT_REGZ 0 v (core s)) (sub_flags (EAX (core s)) v False)) (CMPXCHG_EdGdM i) s
   \<and> rmw_spec (rmw_32 i s) write_RMW_linear_dword (\<lambda>v. v + src_32 i s) (\<lambda>v k. with_flags k (put_src_32 i v s) (add_flags v (src_32 i s) False)) (XADD_EdGdM i) s
   \<and> rmw_spec (rmw_64 i s) write_RMW_linear_qword (\<lambda>v. if RAX (core s) = v then src_64 i s else v)
       (\<lambda>v k. with_flags k (if RAX (core s) = v then core s else BX_WRITE_64BIT_REG 0 v (core s)) (sub_flags (RAX (core s)) v False)) (CMPXCHG_EqGqM i) s
   \<and> rmw_spec (rmw_64 i s) write_RMW_linear_qword (\<lambda>v. v + src_64 i s) (\<lambda>v k. with_flags k (put_src_64 i v s) (add_flags v (src_64 i s) False)) (XADD_EqGqM i) s
   \<and> rmw_spec (rmw_8 i s) write_RMW_linear_byte (\<lambda>_. src_8 i s) (\<lambda>v k. k = put_src_8 i v s) (XCHG_EbGbM i) s
   \<and> rmw_spec (rmw_16 i s) write_RMW_linear_word (\<lambda>_. src_16 i s) (\<lambda>v k. k = put_src_16 i v s) (XCHG_EwGwM i) s
   \<and> rmw_spec (rmw_32 i s) write_RMW_linear_dword (\<lambda>_. src_32 i s) (\<lambda>v k. k = put_src_32 i v s) (XCHG_EdGdM i) s
   \<and> rmw_spec (rmw_64 i s) write_RMW_linear_qword (\<lambda>_. src_64 i s) (\<lambda>v k. k = put_src_64 i v s) (XCHG_EqGqM i) s"
  using arith8_cmpxchg_mem [of i s] arith8_mem_reg(5) [of i s] arith16_cmpxchg_mem [of i s] arith16_mem_reg(5) [of i s] arith32_cmpxchg_mem [of i s] arith32_mem_reg(5) [of i s] arith64_cmpxchg_mem [of i s] arith64_mem_reg(5) [of i s] exchange_memory [of i s]
  by (intro conjI)

section \<open>Faulting instructions\<close>

text \<open>The handlers with a memory operand.\<close>

definition arith8_memory_handlers :: "(bxInstruction_c \<Rightarrow> unit sys_op) list" where
  "arith8_memory_handlers = [ADD_EbGbM, ADD_GbEbM, ADD_EbIbM, ADC_EbGbM, ADC_GbEbM, ADC_EbIbM, SBB_EbGbM, SBB_GbEbM, SBB_EbIbM, SUB_EbGbM,
    SUB_GbEbM, SUB_EbIbM, CMP_EbGbM, CMP_GbEbM, CMP_EbIbM, XADD_EbGbM, NEG_EbM, INC_EbM, DEC_EbM, CMPXCHG_EbGbM]"

definition logical8_memory_handlers :: "(bxInstruction_c \<Rightarrow> unit sys_op) list" where
  "logical8_memory_handlers = [XOR_EbGbM, XOR_EbIbM, XOR_GbEbM, OR_EbGbM, OR_EbIbM, OR_GbEbM, AND_EbGbM, AND_EbIbM, AND_GbEbM, TEST_EbGbM,
    TEST_EbIbM, NOT_EbM]"

definition arith16_memory_handlers :: "(bxInstruction_c \<Rightarrow> unit sys_op) list" where
  "arith16_memory_handlers = [ADD_EwGwM, ADD_GwEwM, ADD_EwIwM, ADC_EwGwM, ADC_GwEwM, ADC_EwIwM, SBB_EwGwM, SBB_GwEwM, SBB_EwIwM, SUB_EwGwM,
    SUB_GwEwM, SUB_EwIwM, CMP_EwGwM, CMP_GwEwM, CMP_EwIwM, XADD_EwGwM, NEG_EwM, INC_EwM, DEC_EwM, CMPXCHG_EwGwM]"

definition logical16_memory_handlers :: "(bxInstruction_c \<Rightarrow> unit sys_op) list" where
  "logical16_memory_handlers = [XOR_EwGwM, XOR_EwIwM, XOR_GwEwM, OR_EwGwM, OR_EwIwM, OR_GwEwM, AND_EwGwM, AND_EwIwM, AND_GwEwM, TEST_EwGwM,
    TEST_EwIwM, NOT_EwM]"

definition arith32_memory_handlers :: "(bxInstruction_c \<Rightarrow> unit sys_op) list" where
  "arith32_memory_handlers = [ADD_EdGdM, ADD_GdEdM, ADD_EdIdM, ADC_EdGdM, ADC_GdEdM, ADC_EdIdM, SBB_EdGdM, SBB_GdEdM, SBB_EdIdM, SUB_EdGdM,
    SUB_GdEdM, SUB_EdIdM, CMP_EdGdM, CMP_GdEdM, CMP_EdIdM, XADD_EdGdM, NEG_EdM, INC_EdM, DEC_EdM, CMPXCHG_EdGdM]"

definition logical32_memory_handlers :: "(bxInstruction_c \<Rightarrow> unit sys_op) list" where
  "logical32_memory_handlers = [XOR_EdGdM, XOR_EdIdM, XOR_GdEdM, OR_EdGdM, OR_EdIdM, OR_GdEdM, AND_EdGdM, AND_EdIdM, AND_GdEdM, TEST_EdGdM,
    TEST_EdIdM, NOT_EdM]"

definition arith64_memory_handlers :: "(bxInstruction_c \<Rightarrow> unit sys_op) list" where
  "arith64_memory_handlers = [ADD_EqGqM, ADD_GqEqM, ADD_EqIdM, ADC_EqGqM, ADC_GqEqM, ADC_EqIdM, SBB_EqGqM, SBB_GqEqM, SBB_EqIdM, SUB_EqGqM,
    SUB_GqEqM, SUB_EqIdM, CMP_EqGqM, CMP_GqEqM, CMP_EqIdM, XADD_EqGqM, NEG_EqM, INC_EqM, DEC_EqM, CMPXCHG_EqGqM]"

definition logical64_memory_handlers :: "(bxInstruction_c \<Rightarrow> unit sys_op) list" where
  "logical64_memory_handlers = [XOR_EqGqM, XOR_EqIdM, XOR_GqEqM, OR_EqGqM, OR_EqIdM, OR_GqEqM, AND_EqGqM, AND_EqIdM, AND_GqEqM, TEST_EqGqM,
    TEST_EqIdM, NOT_EqM]"

definition shift8_memory_handlers :: "(bxInstruction_c \<Rightarrow> unit sys_op) list" where
  "shift8_memory_handlers = [ROL_EbM, ROR_EbM, RCL_EbM, RCR_EbM, SHL_EbM, SHR_EbM, SAR_EbM]"

definition data_xfer8_memory_handlers :: "(bxInstruction_c \<Rightarrow> unit sys_op) list" where
  "data_xfer8_memory_handlers = [MOV_EbGbM, MOV_GbEbM, MOV_ALOd, MOV_OdAL, MOV_EbIbM, XLAT, XCHG_EbGbM]"

definition shift16_memory_handlers :: "(bxInstruction_c \<Rightarrow> unit sys_op) list" where
  "shift16_memory_handlers = [ROL_EwM, ROR_EwM, RCL_EwM, RCR_EwM, SHL_EwM, SHR_EwM, SAR_EwM, SHLD_EwGwM, SHRD_EwGwM]"

definition data_xfer16_memory_handlers :: "(bxInstruction_c \<Rightarrow> unit sys_op) list" where
  "data_xfer16_memory_handlers = [MOV_EwIwM, MOV_EwGwM, MOV_GwEwM, MOV_EwSwR, MOV_EwSwM, MOV_AXOd, MOV_OdAX, MOVZX_GwEbM, MOVSX_GwEbM, XCHG_EwGwM]"

definition bit16_memory_handlers :: "(bxInstruction_c \<Rightarrow> unit sys_op) list" where
  "bit16_memory_handlers = [BT_EwGwM, BTS_EwGwM, BTR_EwGwM, BTC_EwGwM, BT_EwIbM, BTS_EwIbM, BTC_EwIbM, BTR_EwIbM]"

definition shift32_memory_handlers :: "(bxInstruction_c \<Rightarrow> unit sys_op) list" where
  "shift32_memory_handlers = [ROL_EdM, ROR_EdM, RCL_EdM, RCR_EdM, SHL_EdM, SHR_EdM, SAR_EdM, SHLD_EdGdM, SHRD_EdGdM]"

definition data_xfer32_memory_handlers :: "(bxInstruction_c \<Rightarrow> unit sys_op) list" where
  "data_xfer32_memory_handlers = [MOV_EdIdM, MOV32_EdGdM, MOV32_GdEdM, MOV_EAXOd, MOV_OdEAX, MOVZX_GdEbM, MOVZX_GdEwM, MOVSX_GdEbM, MOVSX_GdEwM,
    XCHG_EdGdM]"

definition bit32_memory_handlers :: "(bxInstruction_c \<Rightarrow> unit sys_op) list" where
  "bit32_memory_handlers = [BT_EdGdM, BTS_EdGdM, BTR_EdGdM, BTC_EdGdM, BT_EdIbM, BTS_EdIbM, BTC_EdIbM, BTR_EdIbM]"

definition shift64_memory_handlers :: "(bxInstruction_c \<Rightarrow> unit sys_op) list" where
  "shift64_memory_handlers = [ROL_EqM, ROR_EqM, RCL_EqM, RCR_EqM, SHL_EqM, SHR_EqM, SAR_EqM, SHLD_EqGqM, SHRD_EqGqM]"

definition data_xfer64_memory_handlers :: "(bxInstruction_c \<Rightarrow> unit sys_op) list" where
  "data_xfer64_memory_handlers = [MOV64_GdEdM, MOV64_EdGdM, MOV_EqGqM, MOV_GqEqM, MOV_ALOq, MOV_OqAL, MOV_AXOq, MOV_OqAX, MOV_EAXOq, MOV_OqEAX,
    MOV_RAXOq, MOV_OqRAX, MOV_EqIdM, MOVZX_GqEbM, MOVZX_GqEwM, MOVSX_GqEbM, MOVSX_GqEwM, MOVSX_GqEdM, XCHG_EqGqM]"

definition bit64_memory_handlers :: "(bxInstruction_c \<Rightarrow> unit sys_op) list" where
  "bit64_memory_handlers = [BT_EqGqM, BTS_EqGqM, BTR_EqGqM, BTC_EqGqM, BT_EqIbM, BTS_EqIbM, BTC_EqIbM, BTR_EqIbM]"

definition byte_store_memory_handlers :: "(bxInstruction_c \<Rightarrow> unit sys_op) list" where
  "byte_store_memory_handlers = [SETO_EbM, SETNO_EbM, SETB_EbM, SETNB_EbM, SETZ_EbM, SETNZ_EbM, SETBE_EbM, SETNBE_EbM, SETS_EbM, SETNS_EbM,
    SETP_EbM, SETNP_EbM, SETL_EbM, SETNL_EbM, SETLE_EbM, SETNLE_EbM, MOVBE_GwMw, MOVBE_MwGw, MOVBE_GdMd, MOVBE_MdGd,
    MOVBE_GqMq, MOVBE_MqGq]"

definition memory_handlers :: "(bxInstruction_c \<Rightarrow> unit sys_op) list" where
  "memory_handlers = arith8_memory_handlers @ logical8_memory_handlers @ arith16_memory_handlers @ logical16_memory_handlers @ arith32_memory_handlers @ logical32_memory_handlers @ arith64_memory_handlers @ logical64_memory_handlers @ shift8_memory_handlers @ data_xfer8_memory_handlers @ shift16_memory_handlers @ data_xfer16_memory_handlers @ bit16_memory_handlers @ shift32_memory_handlers @ data_xfer32_memory_handlers @ bit32_memory_handlers @ shift64_memory_handlers @ data_xfer64_memory_handlers @ bit64_memory_handlers @ byte_store_memory_handlers"

lemma arith8_memory_handlers_precise: "\<forall>h\<in>set arith8_memory_handlers. precise (h i)"
  by (simp add: arith8_memory_handlers_def arith8_mem_precise)

lemma logical8_memory_handlers_precise: "\<forall>h\<in>set logical8_memory_handlers. precise (h i)"
  by (simp add: logical8_memory_handlers_def logical8_mem_precise)

lemma arith16_memory_handlers_precise: "\<forall>h\<in>set arith16_memory_handlers. precise (h i)"
  by (simp add: arith16_memory_handlers_def arith16_mem_precise)

lemma logical16_memory_handlers_precise: "\<forall>h\<in>set logical16_memory_handlers. precise (h i)"
  by (simp add: logical16_memory_handlers_def logical16_mem_precise)

lemma arith32_memory_handlers_precise: "\<forall>h\<in>set arith32_memory_handlers. precise (h i)"
  by (simp add: arith32_memory_handlers_def arith32_mem_precise)

lemma logical32_memory_handlers_precise: "\<forall>h\<in>set logical32_memory_handlers. precise (h i)"
  by (simp add: logical32_memory_handlers_def logical32_mem_precise)

lemma arith64_memory_handlers_precise: "\<forall>h\<in>set arith64_memory_handlers. precise (h i)"
  by (simp add: arith64_memory_handlers_def arith64_mem_precise)

lemma logical64_memory_handlers_precise: "\<forall>h\<in>set logical64_memory_handlers. precise (h i)"
  by (simp add: logical64_memory_handlers_def logical64_mem_precise)

lemma shift8_memory_handlers_precise: "\<forall>h\<in>set shift8_memory_handlers. precise (h i)"
  by (simp add: shift8_memory_handlers_def shift8_mem_precise)

lemma data_xfer8_memory_handlers_precise: "\<forall>h\<in>set data_xfer8_memory_handlers. precise (h i)"
  by (simp add: data_xfer8_memory_handlers_def data_xfer8_mem_precise)

lemma shift16_memory_handlers_precise: "\<forall>h\<in>set shift16_memory_handlers. precise (h i)"
  by (simp add: shift16_memory_handlers_def shift16_mem_precise)

lemma data_xfer16_memory_handlers_precise: "\<forall>h\<in>set data_xfer16_memory_handlers. precise (h i)"
  by (simp add: data_xfer16_memory_handlers_def data_xfer16_mem_precise)

lemma bit16_memory_handlers_precise: "\<forall>h\<in>set bit16_memory_handlers. precise (h i)"
  by (simp add: bit16_memory_handlers_def bit16_mem_precise)

lemma shift32_memory_handlers_precise: "\<forall>h\<in>set shift32_memory_handlers. precise (h i)"
  by (simp add: shift32_memory_handlers_def shift32_mem_precise)

lemma data_xfer32_memory_handlers_precise: "\<forall>h\<in>set data_xfer32_memory_handlers. precise (h i)"
  by (simp add: data_xfer32_memory_handlers_def data_xfer32_mem_precise)

lemma bit32_memory_handlers_precise: "\<forall>h\<in>set bit32_memory_handlers. precise (h i)"
  by (simp add: bit32_memory_handlers_def bit32_mem_precise)

lemma shift64_memory_handlers_precise: "\<forall>h\<in>set shift64_memory_handlers. precise (h i)"
  by (simp add: shift64_memory_handlers_def shift64_mem_precise)

lemma data_xfer64_memory_handlers_precise: "\<forall>h\<in>set data_xfer64_memory_handlers. precise (h i)"
  by (simp add: data_xfer64_memory_handlers_def data_xfer64_mem_precise)

lemma bit64_memory_handlers_precise: "\<forall>h\<in>set bit64_memory_handlers. precise (h i)"
  by (simp add: bit64_memory_handlers_def bit64_mem_precise)

lemma byte_store_memory_handlers_precise: "\<forall>h\<in>set byte_store_memory_handlers. precise (h i)"
  by (simp add: byte_store_memory_handlers_def byte_store_mem_precise)

lemma memory_handlers_precise: "\<forall>h\<in>set memory_handlers. precise (h i)"
  unfolding memory_handlers_def set_append ball_Un
  by (intro conjI arith8_memory_handlers_precise logical8_memory_handlers_precise arith16_memory_handlers_precise logical16_memory_handlers_precise arith32_memory_handlers_precise logical32_memory_handlers_precise arith64_memory_handlers_precise logical64_memory_handlers_precise shift8_memory_handlers_precise data_xfer8_memory_handlers_precise shift16_memory_handlers_precise data_xfer16_memory_handlers_precise bit16_memory_handlers_precise shift32_memory_handlers_precise data_xfer32_memory_handlers_precise bit32_memory_handlers_precise shift64_memory_handlers_precise data_xfer64_memory_handlers_precise bit64_memory_handlers_precise byte_store_memory_handlers_precise)

text \<open>C32. An instruction with a memory operand that faults leaves registers, flags, descriptor tables and segment registers as they
  were; it may have set accessed and dirty bits, filled TLB entries, and recorded that a segment check succeeded.\<close>

theorem memory_faults_precise:
  assumes "h \<in> set memory_handlers" "mmu_ok (mmu_view s)" "h i s = (Inl t, s')"
  shows "core s' = core s \<and> gdtr s' = gdtr s \<and> idtr s' = idtr s \<and> ldtr s' = ldtr s \<and> tr s' = tr s \<and> cpu_mode s' = cpu_mode s
    \<and> (\<forall>n. same_segment (sregs s n) (sregs s' n)) \<and> ad_update\<^sup>*\<^sup>* (phys (mmu s)) (phys (mmu s'))"
  using bspec [OF memory_handlers_precise assms(1)] assms(2,3) unfolding precise_def quiet_def by blast

text \<open>An ADD through a segment whose limit is exceeded.\<close>

theorem memory_faults_precise_witness:
  "fst (ADD_EdGdM ((sample_instr 0 1 0)\<lparr>displ32u := 0xfffd\<rparr>) sample_sys) = Inl (BX_GP_EXCEPTION, 0)
    \<and> core (snd (ADD_EdGdM ((sample_instr 0 1 0)\<lparr>displ32u := 0xfffd\<rparr>) sample_sys)) = core sample_sys"
proof -
  let ?i = "(sample_instr 0 1 0)\<lparr>displ32u := 0xfffd\<rparr>"
  have ea: "BX_CPU_RESOLVE_ADDR ?i (core sample_sys) = 0xfffd"
    by (simp add: BX_CPU_RESOLVE_ADDR_def BxResolve32_def sample_instr_def sample_sys_def asize_mask_def asize_def bx_asize_mask_def
        BX_READ_32BIT_REG_def reg_erx_def Let_def)
  have mode: "cpu_mode sample_sys \<noteq> BX_MODE_LONG_64" by (simp add: sample_sys_def cpu_modes)
  have f: "flags_ok (cache (sregs sample_sys 3))" using sample_flags by (simp add: sample_sys_def)
  have a: "fst (agen_write32 3 0xfffd 4 sample_sys) = Inl (BX_GP_EXCEPTION, 0)"
    using agen_exact [OF f, of 4 "0xfffd"]
    by (simp add: segment_allows_def within_limit_def flat_4G_def type_tests sample_sys_def sample_segment_def int_number_def BX_SEG_REG_SS_def)
  then have r: "fst (ADD_EdGdM ?i sample_sys) = Inl (BX_GP_EXCEPTION, 0)"
    unfolding ADD_EdGdM_def with_core_apply Let_def ea
    by (cases "agen_write32 3 0xfffd 4 sample_sys")
      (simp add: sample_instr_def read_RMW_virtual_dword_def load_def read_RMW_virtual_def agen_write_def agen_def and_then_def
        mode)
  have "mmu_ok (mmu_view sample_sys)"
    using sample_ok by (simp add: mmu_ok_def mmu_view_def sample_sys_def pkeys_ok_def sample_mmu_def get_LA57_def set_PKeys_def long_mode_def get_LMA_def Let_def)
  from memory_faults_precise [OF _ this, of ADD_EdGdM ?i] r show ?thesis
    by (cases "ADD_EdGdM ?i sample_sys") (simp add: memory_handlers_def arith32_memory_handlers_def)
qed

end
