(* ===== verification/OperandProps.thy ===== *)
theory OperandProps
  imports MemProps ArithProps
begin

text \<open>
  What shifts, bit instructions and data transfers do with their operands, memory operands included, at every operand size.
\<close>

section \<open>Shifts of memory operands\<close>

text \<open>C33. A shift, rotate or double shift of a memory operand is one read-modify-write access that does to the operand what the register form
  does to a register holding it: same result, same flags, the count from CL or the immediate; it faults exactly when the access does, and
  writes nothing back when the count leaves the operand alone.\<close>

theorem shift_memory_operands:
  "operand_spec (read_RMW_virtual_byte (instr_seg i) (BX_CPU_RESOLVE_ADDR i (core s))) write_RMW_linear_byte (shift_operand_count BX_IA_ROL_Eb i s AND 0x07 \<noteq> 0)
     (BX_READ_8BIT_REGx (operand_reg i) True) (BX_WRITE_8BIT_REGx (operand_reg i) True) (ROL_EbR (on_operand_reg i)) (ROL_EbM i) s
   \<and> operand_spec (read_RMW_virtual_byte (instr_seg i) (BX_CPU_RESOLVE_ADDR i (core s))) write_RMW_linear_byte (shift_operand_count BX_IA_ROR_Eb i s AND 0x07 \<noteq> 0)
     (BX_READ_8BIT_REGx (operand_reg i) True) (BX_WRITE_8BIT_REGx (operand_reg i) True) (ROR_EbR (on_operand_reg i)) (ROR_EbM i) s
   \<and> operand_spec (read_RMW_virtual_byte (instr_seg i) (BX_CPU_RESOLVE_ADDR i (core s))) write_RMW_linear_byte ((shift_operand_count BX_IA_RCL_Eb i s AND 0x1f) mod 9 \<noteq> 0)
     (BX_READ_8BIT_REGx (operand_reg i) True) (BX_WRITE_8BIT_REGx (operand_reg i) True) (RCL_EbR (on_operand_reg i)) (RCL_EbM i) s
   \<and> operand_spec (read_RMW_virtual_byte (instr_seg i) (BX_CPU_RESOLVE_ADDR i (core s))) write_RMW_linear_byte ((shift_operand_count BX_IA_RCR_Eb i s AND 0x1f) mod 9 \<noteq> 0)
     (BX_READ_8BIT_REGx (operand_reg i) True) (BX_WRITE_8BIT_REGx (operand_reg i) True) (RCR_EbR (on_operand_reg i)) (RCR_EbM i) s
   \<and> operand_spec (read_RMW_virtual_byte (instr_seg i) (BX_CPU_RESOLVE_ADDR i (core s))) write_RMW_linear_byte (shift_operand_count BX_IA_SHL_Eb i s AND 0x1f \<noteq> 0)
     (BX_READ_8BIT_REGx (operand_reg i) True) (BX_WRITE_8BIT_REGx (operand_reg i) True) (SHL_EbR (on_operand_reg i)) (SHL_EbM i) s
   \<and> operand_spec (read_RMW_virtual_byte (instr_seg i) (BX_CPU_RESOLVE_ADDR i (core s))) write_RMW_linear_byte (shift_operand_count BX_IA_SHR_Eb i s AND 0x1f \<noteq> 0)
     (BX_READ_8BIT_REGx (operand_reg i) True) (BX_WRITE_8BIT_REGx (operand_reg i) True) (SHR_EbR (on_operand_reg i)) (SHR_EbM i) s
   \<and> operand_spec (read_RMW_virtual_byte (instr_seg i) (BX_CPU_RESOLVE_ADDR i (core s))) write_RMW_linear_byte (shift_operand_count BX_IA_SAR_Eb i s AND 0x1f \<noteq> 0)
     (BX_READ_8BIT_REGx (operand_reg i) True) (BX_WRITE_8BIT_REGx (operand_reg i) True) (SAR_EbR (on_operand_reg i)) (SAR_EbM i) s
   \<and> operand_spec (read_RMW_virtual_word (instr_seg i) (BX_CPU_RESOLVE_ADDR i (core s))) write_RMW_linear_word (shift_operand_count BX_IA_ROL_Ew i s AND 0x0f \<noteq> 0)
     (BX_READ_16BIT_REG (operand_reg i)) (BX_WRITE_16BIT_REG (operand_reg i)) (ROL_EwR (on_operand_reg i)) (ROL_EwM i) s
   \<and> operand_spec (read_RMW_virtual_word (instr_seg i) (BX_CPU_RESOLVE_ADDR i (core s))) write_RMW_linear_word (shift_operand_count BX_IA_ROR_Ew i s AND 0x0f \<noteq> 0)
     (BX_READ_16BIT_REG (operand_reg i)) (BX_WRITE_16BIT_REG (operand_reg i)) (ROR_EwR (on_operand_reg i)) (ROR_EwM i) s
   \<and> operand_spec (read_RMW_virtual_word (instr_seg i) (BX_CPU_RESOLVE_ADDR i (core s))) write_RMW_linear_word ((shift_operand_count BX_IA_RCL_Ew i s AND 0x1f) mod 17 \<noteq> 0)
     (BX_READ_16BIT_REG (operand_reg i)) (BX_WRITE_16BIT_REG (operand_reg i)) (RCL_EwR (on_operand_reg i)) (RCL_EwM i) s
   \<and> operand_spec (read_RMW_virtual_word (instr_seg i) (BX_CPU_RESOLVE_ADDR i (core s))) write_RMW_linear_word ((shift_operand_count BX_IA_RCR_Ew i s AND 0x1f) mod 17 \<noteq> 0)
     (BX_READ_16BIT_REG (operand_reg i)) (BX_WRITE_16BIT_REG (operand_reg i)) (RCR_EwR (on_operand_reg i)) (RCR_EwM i) s
   \<and> operand_spec (read_RMW_virtual_word (instr_seg i) (BX_CPU_RESOLVE_ADDR i (core s))) write_RMW_linear_word (shift_operand_count BX_IA_SHL_Ew i s AND 0x1f \<noteq> 0)
     (BX_READ_16BIT_REG (operand_reg i)) (BX_WRITE_16BIT_REG (operand_reg i)) (SHL_EwR (on_operand_reg i)) (SHL_EwM i) s
   \<and> operand_spec (read_RMW_virtual_word (instr_seg i) (BX_CPU_RESOLVE_ADDR i (core s))) write_RMW_linear_word (shift_operand_count BX_IA_SHR_Ew i s AND 0x1f \<noteq> 0)
     (BX_READ_16BIT_REG (operand_reg i)) (BX_WRITE_16BIT_REG (operand_reg i)) (SHR_EwR (on_operand_reg i)) (SHR_EwM i) s
   \<and> operand_spec (read_RMW_virtual_word (instr_seg i) (BX_CPU_RESOLVE_ADDR i (core s))) write_RMW_linear_word (shift_operand_count BX_IA_SAR_Ew i s AND 0x1f \<noteq> 0)
     (BX_READ_16BIT_REG (operand_reg i)) (BX_WRITE_16BIT_REG (operand_reg i)) (SAR_EwR (on_operand_reg i)) (SAR_EwM i) s
   \<and> operand_spec (read_RMW_virtual_word (instr_seg i) (BX_CPU_RESOLVE_ADDR i (core s))) write_RMW_linear_word (shift_operand_count BX_IA_SHLD_EwGw i s AND 0x1f \<noteq> 0)
     (BX_READ_16BIT_REG (operand_reg i)) (BX_WRITE_16BIT_REG (operand_reg i)) (SHLD_EwGwR (on_operand_reg i)) (SHLD_EwGwM i) s
   \<and> operand_spec (read_RMW_virtual_word (instr_seg i) (BX_CPU_RESOLVE_ADDR i (core s))) write_RMW_linear_word (shift_operand_count BX_IA_SHRD_EwGw i s AND 0x1f \<noteq> 0)
     (BX_READ_16BIT_REG (operand_reg i)) (BX_WRITE_16BIT_REG (operand_reg i)) (SHRD_EwGwR (on_operand_reg i)) (SHRD_EwGwM i) s
   \<and> operand_spec (read_RMW_virtual_dword (instr_seg i) (BX_CPU_RESOLVE_ADDR i (core s))) write_RMW_linear_dword (shift_operand_count BX_IA_ROL_Ed i s AND 0x1f \<noteq> 0)
     (BX_READ_32BIT_REG (operand_reg i)) (BX_WRITE_32BIT_REGZ (operand_reg i)) (ROL_EdR (on_operand_reg i)) (ROL_EdM i) s
   \<and> operand_spec (read_RMW_virtual_dword (instr_seg i) (BX_CPU_RESOLVE_ADDR i (core s))) write_RMW_linear_dword (shift_operand_count BX_IA_ROR_Ed i s AND 0x1f \<noteq> 0)
     (BX_READ_32BIT_REG (operand_reg i)) (BX_WRITE_32BIT_REGZ (operand_reg i)) (ROR_EdR (on_operand_reg i)) (ROR_EdM i) s
   \<and> operand_spec (read_RMW_virtual_dword (instr_seg i) (BX_CPU_RESOLVE_ADDR i (core s))) write_RMW_linear_dword (shift_operand_count BX_IA_RCL_Ed i s AND 0x1f \<noteq> 0)
     (BX_READ_32BIT_REG (operand_reg i)) (BX_WRITE_32BIT_REGZ (operand_reg i)) (RCL_EdR (on_operand_reg i)) (RCL_EdM i) s
   \<and> operand_spec (read_RMW_virtual_dword (instr_seg i) (BX_CPU_RESOLVE_ADDR i (core s))) write_RMW_linear_dword (shift_operand_count BX_IA_RCR_Ed i s AND 0x1f \<noteq> 0)
     (BX_READ_32BIT_REG (operand_reg i)) (BX_WRITE_32BIT_REGZ (operand_reg i)) (RCR_EdR (on_operand_reg i)) (RCR_EdM i) s
   \<and> operand_spec (read_RMW_virtual_dword (instr_seg i) (BX_CPU_RESOLVE_ADDR i (core s))) write_RMW_linear_dword (shift_operand_count BX_IA_SHL_Ed i s AND 0x1f \<noteq> 0)
     (BX_READ_32BIT_REG (operand_reg i)) (BX_WRITE_32BIT_REGZ (operand_reg i)) (SHL_EdR (on_operand_reg i)) (SHL_EdM i) s
   \<and> operand_spec (read_RMW_virtual_dword (instr_seg i) (BX_CPU_RESOLVE_ADDR i (core s))) write_RMW_linear_dword (shift_operand_count BX_IA_SHR_Ed i s AND 0x1f \<noteq> 0)
     (BX_READ_32BIT_REG (operand_reg i)) (BX_WRITE_32BIT_REGZ (operand_reg i)) (SHR_EdR (on_operand_reg i)) (SHR_EdM i) s
   \<and> operand_spec (read_RMW_virtual_dword (instr_seg i) (BX_CPU_RESOLVE_ADDR i (core s))) write_RMW_linear_dword (shift_operand_count BX_IA_SAR_Ed i s AND 0x1f \<noteq> 0)
     (BX_READ_32BIT_REG (operand_reg i)) (BX_WRITE_32BIT_REGZ (operand_reg i)) (SAR_EdR (on_operand_reg i)) (SAR_EdM i) s
   \<and> operand_spec (read_RMW_virtual_dword (instr_seg i) (BX_CPU_RESOLVE_ADDR i (core s))) write_RMW_linear_dword (shift_operand_count BX_IA_SHLD_EdGd i s AND 0x1f \<noteq> 0)
     (BX_READ_32BIT_REG (operand_reg i)) (BX_WRITE_32BIT_REGZ (operand_reg i)) (SHLD_EdGdR (on_operand_reg i)) (SHLD_EdGdM i) s
   \<and> operand_spec (read_RMW_virtual_dword (instr_seg i) (BX_CPU_RESOLVE_ADDR i (core s))) write_RMW_linear_dword (shift_operand_count BX_IA_SHRD_EdGd i s AND 0x1f \<noteq> 0)
     (BX_READ_32BIT_REG (operand_reg i)) (BX_WRITE_32BIT_REGZ (operand_reg i)) (SHRD_EdGdR (on_operand_reg i)) (SHRD_EdGdM i) s
   \<and> operand_spec (read_RMW_linear_qword (instr_seg i) (get_laddr64 (instr_seg i) (BX_CPU_RESOLVE_ADDR_64 i (core s)) s)) write_RMW_linear_qword (shift_operand_count BX_IA_ROL_Eq i s AND 0x3f \<noteq> 0)
     (BX_READ_64BIT_REG (operand_reg i)) (BX_WRITE_64BIT_REG (operand_reg i)) (ROL_EqR (on_operand_reg i)) (ROL_EqM i) s
   \<and> operand_spec (read_RMW_linear_qword (instr_seg i) (get_laddr64 (instr_seg i) (BX_CPU_RESOLVE_ADDR_64 i (core s)) s)) write_RMW_linear_qword (shift_operand_count BX_IA_ROR_Eq i s AND 0x3f \<noteq> 0)
     (BX_READ_64BIT_REG (operand_reg i)) (BX_WRITE_64BIT_REG (operand_reg i)) (ROR_EqR (on_operand_reg i)) (ROR_EqM i) s
   \<and> operand_spec (read_RMW_linear_qword (instr_seg i) (get_laddr64 (instr_seg i) (BX_CPU_RESOLVE_ADDR_64 i (core s)) s)) write_RMW_linear_qword (shift_operand_count BX_IA_RCL_Eq i s AND 0x3f \<noteq> 0)
     (BX_READ_64BIT_REG (operand_reg i)) (BX_WRITE_64BIT_REG (operand_reg i)) (RCL_EqR (on_operand_reg i)) (RCL_EqM i) s
   \<and> operand_spec (read_RMW_linear_qword (instr_seg i) (get_laddr64 (instr_seg i) (BX_CPU_RESOLVE_ADDR_64 i (core s)) s)) write_RMW_linear_qword (shift_operand_count BX_IA_RCR_Eq i s AND 0x3f \<noteq> 0)
     (BX_READ_64BIT_REG (operand_reg i)) (BX_WRITE_64BIT_REG (operand_reg i)) (RCR_EqR (on_operand_reg i)) (RCR_EqM i) s
   \<and> operand_spec (read_RMW_linear_qword (instr_seg i) (get_laddr64 (instr_seg i) (BX_CPU_RESOLVE_ADDR_64 i (core s)) s)) write_RMW_linear_qword (shift_operand_count BX_IA_SHL_Eq i s AND 0x3f \<noteq> 0)
     (BX_READ_64BIT_REG (operand_reg i)) (BX_WRITE_64BIT_REG (operand_reg i)) (SHL_EqR (on_operand_reg i)) (SHL_EqM i) s
   \<and> operand_spec (read_RMW_linear_qword (instr_seg i) (get_laddr64 (instr_seg i) (BX_CPU_RESOLVE_ADDR_64 i (core s)) s)) write_RMW_linear_qword (shift_operand_count BX_IA_SHR_Eq i s AND 0x3f \<noteq> 0)
     (BX_READ_64BIT_REG (operand_reg i)) (BX_WRITE_64BIT_REG (operand_reg i)) (SHR_EqR (on_operand_reg i)) (SHR_EqM i) s
   \<and> operand_spec (read_RMW_linear_qword (instr_seg i) (get_laddr64 (instr_seg i) (BX_CPU_RESOLVE_ADDR_64 i (core s)) s)) write_RMW_linear_qword (shift_operand_count BX_IA_SAR_Eq i s AND 0x3f \<noteq> 0)
     (BX_READ_64BIT_REG (operand_reg i)) (BX_WRITE_64BIT_REG (operand_reg i)) (SAR_EqR (on_operand_reg i)) (SAR_EqM i) s
   \<and> operand_spec (read_RMW_linear_qword (instr_seg i) (get_laddr64 (instr_seg i) (BX_CPU_RESOLVE_ADDR_64 i (core s)) s)) write_RMW_linear_qword (shift_operand_count BX_IA_SHLD_EqGq i s AND 0x3f \<noteq> 0)
     (BX_READ_64BIT_REG (operand_reg i)) (BX_WRITE_64BIT_REG (operand_reg i)) (SHLD_EqGqR (on_operand_reg i)) (SHLD_EqGqM i) s
   \<and> operand_spec (read_RMW_linear_qword (instr_seg i) (get_laddr64 (instr_seg i) (BX_CPU_RESOLVE_ADDR_64 i (core s)) s)) write_RMW_linear_qword (shift_operand_count BX_IA_SHRD_EqGq i s AND 0x3f \<noteq> 0)
     (BX_READ_64BIT_REG (operand_reg i)) (BX_WRITE_64BIT_REG (operand_reg i)) (SHRD_EqGqR (on_operand_reg i)) (SHRD_EqGqM i) s"
  using ROL_EbM_register_form [of i s] ROR_EbM_register_form [of i s] RCL_EbM_register_form [of i s] RCR_EbM_register_form [of i s] SHL_EbM_register_form [of i s] SHR_EbM_register_form [of i s] SAR_EbM_register_form [of i s] ROL_EwM_register_form [of i s] ROR_EwM_register_form [of i s] RCL_EwM_register_form [of i s] RCR_EwM_register_form [of i s] SHL_EwM_register_form [of i s] SHR_EwM_register_form [of i s] SAR_EwM_register_form [of i s] SHLD_EwGwM_register_form [of i s] SHRD_EwGwM_register_form [of i s] ROL_EdM_register_form [of i s] ROR_EdM_register_form [of i s] RCL_EdM_register_form [of i s] RCR_EdM_register_form [of i s] SHL_EdM_register_form [of i s] SHR_EdM_register_form [of i s] SAR_EdM_register_form [of i s] SHLD_EdGdM_register_form [of i s] SHRD_EdGdM_register_form [of i s] ROL_EqM_register_form [of i s] ROR_EqM_register_form [of i s] RCL_EqM_register_form [of i s] RCR_EqM_register_form [of i s] SHL_EqM_register_form [of i s] SHR_EqM_register_form [of i s] SAR_EqM_register_form [of i s] SHLD_EqGqM_register_form [of i s] SHRD_EqGqM_register_form [of i s]
  by (intro conjI)

section \<open>Bit instructions\<close>

text \<open>C34. BSF and BSR find the lowest and the highest set bit (the loop of BSR ends for every operand) and only set ZF for a zero operand, which
  leaves the destination alone; POPCNT counts the set bits, TZCNT and LZCNT the zeros below and above them; flags as defined for each.\<close>

theorem bit_scans_and_counts:
  "(if (BX_READ_16BIT_REG (src i) c) = 0 then with_flags (BSF_GwEwR i c) c ((cpu_flags c)\<lparr>fZF := True\<rparr>)
     else with_flags (BSF_GwEwR i c) (BX_WRITE_16BIT_REG (dst i) (of_nat (lowest_bit (BX_READ_16BIT_REG (src i) c))) c) ((logic_flags (of_nat (lowest_bit (BX_READ_16BIT_REG (src i) c)) :: Bit16u))\<lparr>fZF := False\<rparr>))
   \<and> (if (BX_READ_16BIT_REG (src i) c) = 0 then with_flags (BSR_GwEwR i c) c ((cpu_flags c)\<lparr>fZF := True\<rparr>)
     else with_flags (BSR_GwEwR i c) (BX_WRITE_16BIT_REG (dst i) (of_nat (highest_bit (BX_READ_16BIT_REG (src i) c))) c) ((logic_flags (of_nat (highest_bit (BX_READ_16BIT_REG (src i) c)) :: Bit16u))\<lparr>fZF := False\<rparr>))
   \<and> (with_flags (POPCNT_GwEwR i c) (BX_WRITE_16BIT_REG (dst i) (of_nat (card {k. bit (BX_READ_16BIT_REG (src i) c) k})) c)
      \<lparr>fOF = False, fSF = False, fZF = (BX_READ_16BIT_REG (src i) c) = 0, fAF = False, fPF = False, fCF = False\<rparr>)
   \<and> (with_flags (TZCNT_GwEwR i c) (BX_WRITE_16BIT_REG (dst i) (of_nat (if (BX_READ_16BIT_REG (src i) c) = 0 then 16 else lowest_bit (BX_READ_16BIT_REG (src i) c))) c)
      ((cpu_flags c)\<lparr>fCF := (BX_READ_16BIT_REG (src i) c) = 0, fZF := bit (BX_READ_16BIT_REG (src i) c) 0\<rparr>))
   \<and> (with_flags (LZCNT_GwEwR i c) (BX_WRITE_16BIT_REG (dst i) (of_nat (if (BX_READ_16BIT_REG (src i) c) = 0 then 16 else 15 - highest_bit (BX_READ_16BIT_REG (src i) c))) c)
      ((cpu_flags c)\<lparr>fCF := (BX_READ_16BIT_REG (src i) c) = 0, fZF := bit (BX_READ_16BIT_REG (src i) c) 15\<rparr>))
   \<and> (if (BX_READ_32BIT_REG (src i) c) = 0 then with_flags (BSF_GdEdR i c) c ((cpu_flags c)\<lparr>fZF := True\<rparr>)
     else with_flags (BSF_GdEdR i c) (BX_WRITE_32BIT_REGZ (dst i) (of_nat (lowest_bit (BX_READ_32BIT_REG (src i) c))) c) ((logic_flags (of_nat (lowest_bit (BX_READ_32BIT_REG (src i) c)) :: Bit32u))\<lparr>fZF := False\<rparr>))
   \<and> (if (BX_READ_32BIT_REG (src i) c) = 0 then with_flags (BSR_GdEdR i c) c ((cpu_flags c)\<lparr>fZF := True\<rparr>)
     else with_flags (BSR_GdEdR i c) (BX_WRITE_32BIT_REGZ (dst i) (of_nat (highest_bit (BX_READ_32BIT_REG (src i) c))) c) ((logic_flags (of_nat (highest_bit (BX_READ_32BIT_REG (src i) c)) :: Bit32u))\<lparr>fZF := False\<rparr>))
   \<and> (with_flags (POPCNT_GdEdR i c) (BX_WRITE_32BIT_REGZ (dst i) (of_nat (card {k. bit (BX_READ_32BIT_REG (src i) c) k})) c)
      \<lparr>fOF = False, fSF = False, fZF = (BX_READ_32BIT_REG (src i) c) = 0, fAF = False, fPF = False, fCF = False\<rparr>)
   \<and> (with_flags (TZCNT_GdEdR i c) (BX_WRITE_32BIT_REGZ (dst i) (of_nat (if (BX_READ_32BIT_REG (src i) c) = 0 then 32 else lowest_bit (BX_READ_32BIT_REG (src i) c))) c)
      ((cpu_flags c)\<lparr>fCF := (BX_READ_32BIT_REG (src i) c) = 0, fZF := bit (BX_READ_32BIT_REG (src i) c) 0\<rparr>))
   \<and> (with_flags (LZCNT_GdEdR i c) (BX_WRITE_32BIT_REGZ (dst i) (of_nat (if (BX_READ_32BIT_REG (src i) c) = 0 then 32 else 31 - highest_bit (BX_READ_32BIT_REG (src i) c))) c)
      ((cpu_flags c)\<lparr>fCF := (BX_READ_32BIT_REG (src i) c) = 0, fZF := bit (BX_READ_32BIT_REG (src i) c) 31\<rparr>))
   \<and> (if (BX_READ_64BIT_REG (src i) c) = 0 then with_flags (BSF_GqEqR i c) c ((cpu_flags c)\<lparr>fZF := True\<rparr>)
     else with_flags (BSF_GqEqR i c) (BX_WRITE_64BIT_REG (dst i) (of_nat (lowest_bit (BX_READ_64BIT_REG (src i) c))) c) ((logic_flags (of_nat (lowest_bit (BX_READ_64BIT_REG (src i) c)) :: Bit64u))\<lparr>fZF := False\<rparr>))
   \<and> (if (BX_READ_64BIT_REG (src i) c) = 0 then with_flags (BSR_GqEqR i c) c ((cpu_flags c)\<lparr>fZF := True\<rparr>)
     else with_flags (BSR_GqEqR i c) (BX_WRITE_64BIT_REG (dst i) (of_nat (highest_bit (BX_READ_64BIT_REG (src i) c))) c) ((logic_flags (of_nat (highest_bit (BX_READ_64BIT_REG (src i) c)) :: Bit64u))\<lparr>fZF := False\<rparr>))
   \<and> (with_flags (POPCNT_GqEqR i c) (BX_WRITE_64BIT_REG (dst i) (of_nat (card {k. bit (BX_READ_64BIT_REG (src i) c) k})) c)
      \<lparr>fOF = False, fSF = False, fZF = (BX_READ_64BIT_REG (src i) c) = 0, fAF = False, fPF = False, fCF = False\<rparr>)
   \<and> (with_flags (TZCNT_GqEqR i c) (BX_WRITE_64BIT_REG (dst i) (of_nat (if (BX_READ_64BIT_REG (src i) c) = 0 then 64 else lowest_bit (BX_READ_64BIT_REG (src i) c))) c)
      ((cpu_flags c)\<lparr>fCF := (BX_READ_64BIT_REG (src i) c) = 0, fZF := bit (BX_READ_64BIT_REG (src i) c) 0\<rparr>))
   \<and> (with_flags (LZCNT_GqEqR i c) (BX_WRITE_64BIT_REG (dst i) (of_nat (if (BX_READ_64BIT_REG (src i) c) = 0 then 64 else 63 - highest_bit (BX_READ_64BIT_REG (src i) c))) c)
      ((cpu_flags c)\<lparr>fCF := (BX_READ_64BIT_REG (src i) c) = 0, fZF := bit (BX_READ_64BIT_REG (src i) c) 63\<rparr>))"
  using bit_scan16 [of i c] bit_count16 [of i c] bit_scan32 [of i c] bit_count32 [of i c] bit_scan64 [of i c] bit_count64 [of i c]
  by (intro conjI)

text \<open>C35. BT, BTS, BTR and BTC put the addressed bit into CF and set, clear or flip it.  A register operand takes the bit number modulo its size;
  a memory operand is a bit string: the access goes to the element that the signed bit number selects, before or after the operand, at
  every operand size.\<close>

theorem bit_string_operands:
  "with_flags (BT_EwGwR i c) c ((cpu_flags c)\<lparr>fCF := bit (BX_READ_16BIT_REG (dst i) c) (unat (BX_READ_16BIT_REG (src i) c AND 0xf))\<rparr>)
   \<and> with_flags (BTS_EwGwR i c) ((BX_WRITE_16BIT_REG (dst i) (set_bit (unat (BX_READ_16BIT_REG (src i) c AND 0xf)) (BX_READ_16BIT_REG (dst i) c)) c)) ((cpu_flags c)\<lparr>fCF := bit (BX_READ_16BIT_REG (dst i) c) (unat (BX_READ_16BIT_REG (src i) c AND 0xf))\<rparr>)
   \<and> with_flags (BTR_EwGwR i c) ((BX_WRITE_16BIT_REG (dst i) (unset_bit (unat (BX_READ_16BIT_REG (src i) c AND 0xf)) (BX_READ_16BIT_REG (dst i) c)) c)) ((cpu_flags c)\<lparr>fCF := bit (BX_READ_16BIT_REG (dst i) c) (unat (BX_READ_16BIT_REG (src i) c AND 0xf))\<rparr>)
   \<and> with_flags (BTC_EwGwR i c) ((BX_WRITE_16BIT_REG (dst i) (flip_bit (unat (BX_READ_16BIT_REG (src i) c AND 0xf)) (BX_READ_16BIT_REG (dst i) c)) c)) ((cpu_flags c)\<lparr>fCF := bit (BX_READ_16BIT_REG (dst i) c) (unat (BX_READ_16BIT_REG (src i) c AND 0xf))\<rparr>)
   \<and> load_spec (read_virtual_word (instr_seg i) (bit_address 16 i (core s))) (\<lambda>v c. with_flags c (core s) ((cpu_flags (core s))\<lparr>fCF := bit v (bit_index 16 i (core s))\<rparr>)) (BT_EwGwM i) s
   \<and> rmw_spec (read_RMW_virtual_word (instr_seg i) (bit_address 16 i (core s))) write_RMW_linear_word (set_bit (bit_index 16 i (core s))) (\<lambda>v c. with_flags c (core s) ((cpu_flags (core s))\<lparr>fCF := bit v (bit_index 16 i (core s))\<rparr>)) (BTS_EwGwM i) s
   \<and> rmw_spec (read_RMW_virtual_word (instr_seg i) (bit_address 16 i (core s))) write_RMW_linear_word (unset_bit (bit_index 16 i (core s))) (\<lambda>v c. with_flags c (core s) ((cpu_flags (core s))\<lparr>fCF := bit v (bit_index 16 i (core s))\<rparr>)) (BTR_EwGwM i) s
   \<and> rmw_spec (read_RMW_virtual_word (instr_seg i) (bit_address 16 i (core s))) write_RMW_linear_word (flip_bit (bit_index 16 i (core s))) (\<lambda>v c. with_flags c (core s) ((cpu_flags (core s))\<lparr>fCF := bit v (bit_index 16 i (core s))\<rparr>)) (BTC_EwGwM i) s
   \<and> with_flags (BT_EdGdR i c) c ((cpu_flags c)\<lparr>fCF := bit (BX_READ_32BIT_REG (dst i) c) (unat (BX_READ_32BIT_REG (src i) c AND 0x1f))\<rparr>)
   \<and> with_flags (BTS_EdGdR i c) ((BX_WRITE_32BIT_REGZ (dst i) (set_bit (unat (BX_READ_32BIT_REG (src i) c AND 0x1f)) (BX_READ_32BIT_REG (dst i) c)) c)) ((cpu_flags c)\<lparr>fCF := bit (BX_READ_32BIT_REG (dst i) c) (unat (BX_READ_32BIT_REG (src i) c AND 0x1f))\<rparr>)
   \<and> with_flags (BTR_EdGdR i c) ((BX_WRITE_32BIT_REGZ (dst i) (unset_bit (unat (BX_READ_32BIT_REG (src i) c AND 0x1f)) (BX_READ_32BIT_REG (dst i) c)) c)) ((cpu_flags c)\<lparr>fCF := bit (BX_READ_32BIT_REG (dst i) c) (unat (BX_READ_32BIT_REG (src i) c AND 0x1f))\<rparr>)
   \<and> with_flags (BTC_EdGdR i c) ((BX_WRITE_32BIT_REGZ (dst i) (flip_bit (unat (BX_READ_32BIT_REG (src i) c AND 0x1f)) (BX_READ_32BIT_REG (dst i) c)) c)) ((cpu_flags c)\<lparr>fCF := bit (BX_READ_32BIT_REG (dst i) c) (unat (BX_READ_32BIT_REG (src i) c AND 0x1f))\<rparr>)
   \<and> load_spec (read_virtual_dword (instr_seg i) (bit_address 32 i (core s))) (\<lambda>v c. with_flags c (core s) ((cpu_flags (core s))\<lparr>fCF := bit v (bit_index 32 i (core s))\<rparr>)) (BT_EdGdM i) s
   \<and> rmw_spec (read_RMW_virtual_dword (instr_seg i) (bit_address 32 i (core s))) write_RMW_linear_dword (set_bit (bit_index 32 i (core s))) (\<lambda>v c. with_flags c (core s) ((cpu_flags (core s))\<lparr>fCF := bit v (bit_index 32 i (core s))\<rparr>)) (BTS_EdGdM i) s
   \<and> rmw_spec (read_RMW_virtual_dword (instr_seg i) (bit_address 32 i (core s))) write_RMW_linear_dword (unset_bit (bit_index 32 i (core s))) (\<lambda>v c. with_flags c (core s) ((cpu_flags (core s))\<lparr>fCF := bit v (bit_index 32 i (core s))\<rparr>)) (BTR_EdGdM i) s
   \<and> rmw_spec (read_RMW_virtual_dword (instr_seg i) (bit_address 32 i (core s))) write_RMW_linear_dword (flip_bit (bit_index 32 i (core s))) (\<lambda>v c. with_flags c (core s) ((cpu_flags (core s))\<lparr>fCF := bit v (bit_index 32 i (core s))\<rparr>)) (BTC_EdGdM i) s
   \<and> with_flags (BT_EqGqR i c) c ((cpu_flags c)\<lparr>fCF := bit (BX_READ_64BIT_REG (dst i) c) (unat (BX_READ_64BIT_REG (src i) c AND 0x3f))\<rparr>)
   \<and> with_flags (BTS_EqGqR i c) ((BX_WRITE_64BIT_REG (dst i) (set_bit (unat (BX_READ_64BIT_REG (src i) c AND 0x3f)) (BX_READ_64BIT_REG (dst i) c)) c)) ((cpu_flags c)\<lparr>fCF := bit (BX_READ_64BIT_REG (dst i) c) (unat (BX_READ_64BIT_REG (src i) c AND 0x3f))\<rparr>)
   \<and> with_flags (BTR_EqGqR i c) ((BX_WRITE_64BIT_REG (dst i) (unset_bit (unat (BX_READ_64BIT_REG (src i) c AND 0x3f)) (BX_READ_64BIT_REG (dst i) c)) c)) ((cpu_flags c)\<lparr>fCF := bit (BX_READ_64BIT_REG (dst i) c) (unat (BX_READ_64BIT_REG (src i) c AND 0x3f))\<rparr>)
   \<and> with_flags (BTC_EqGqR i c) ((BX_WRITE_64BIT_REG (dst i) (flip_bit (unat (BX_READ_64BIT_REG (src i) c AND 0x3f)) (BX_READ_64BIT_REG (dst i) c)) c)) ((cpu_flags c)\<lparr>fCF := bit (BX_READ_64BIT_REG (dst i) c) (unat (BX_READ_64BIT_REG (src i) c AND 0x3f))\<rparr>)
   \<and> load_spec (read_linear_qword (instr_seg i) (get_laddr64 (instr_seg i) (bit_address 64 i (core s)) s)) (\<lambda>v c. with_flags c (core s) ((cpu_flags (core s))\<lparr>fCF := bit v (bit_index 64 i (core s))\<rparr>)) (BT_EqGqM i) s
   \<and> rmw_spec (read_RMW_linear_qword (instr_seg i) (get_laddr64 (instr_seg i) (bit_address 64 i (core s)) s)) write_RMW_linear_qword (set_bit (bit_index 64 i (core s))) (\<lambda>v c. with_flags c (core s) ((cpu_flags (core s))\<lparr>fCF := bit v (bit_index 64 i (core s))\<rparr>)) (BTS_EqGqM i) s
   \<and> rmw_spec (read_RMW_linear_qword (instr_seg i) (get_laddr64 (instr_seg i) (bit_address 64 i (core s)) s)) write_RMW_linear_qword (unset_bit (bit_index 64 i (core s))) (\<lambda>v c. with_flags c (core s) ((cpu_flags (core s))\<lparr>fCF := bit v (bit_index 64 i (core s))\<rparr>)) (BTR_EqGqM i) s
   \<and> rmw_spec (read_RMW_linear_qword (instr_seg i) (get_laddr64 (instr_seg i) (bit_address 64 i (core s)) s)) write_RMW_linear_qword (flip_bit (bit_index 64 i (core s))) (\<lambda>v c. with_flags c (core s) ((cpu_flags (core s))\<lparr>fCF := bit v (bit_index 64 i (core s))\<rparr>)) (BTC_EqGqM i) s"
  using bit_test_reg16 [of i c] bit_test_mem16 [of i s] bit_test_reg32 [of i c] bit_test_mem32 [of i s] bit_test_reg64 [of i c] bit_test_mem64 [of i s]
  by (intro conjI)

section \<open>Data transfer\<close>

text \<open>MOV, MOVZX and MOVSX load a register with the operand, extended; when the access faults the instruction does nothing else.\<close>

lemma load_memory:
  fixes i :: bxInstruction_c and s :: bx_sys
  shows "load_spec (read_virtual_byte (instr_seg i) (BX_CPU_RESOLVE_ADDR i (core s))) (\<lambda>v k. k = BX_WRITE_8BIT_REGx (dst i) (extend8bitL i) (v) (core s)) (MOV_GbEbM i) s"
    "load_spec (read_virtual_word (instr_seg i) (BX_CPU_RESOLVE_ADDR i (core s))) (\<lambda>v k. k = BX_WRITE_16BIT_REG (dst i) (v) (core s)) (MOV_GwEwM i) s"
    "load_spec (read_virtual_byte (instr_seg i) (BX_CPU_RESOLVE_ADDR i (core s))) (\<lambda>v k. k = BX_WRITE_16BIT_REG (dst i) (ucast v) (core s)) (MOVZX_GwEbM i) s"
    "load_spec (read_virtual_byte (instr_seg i) (BX_CPU_RESOLVE_ADDR i (core s))) (\<lambda>v k. k = BX_WRITE_16BIT_REG (dst i) (scast v) (core s)) (MOVSX_GwEbM i) s"
    "load_spec (read_virtual_byte (instr_seg i) (BX_CPU_RESOLVE_ADDR i (core s))) (\<lambda>v k. k = BX_WRITE_32BIT_REGZ (dst i) (ucast v) (core s)) (MOVZX_GdEbM i) s"
    "load_spec (read_virtual_word (instr_seg i) (BX_CPU_RESOLVE_ADDR i (core s))) (\<lambda>v k. k = BX_WRITE_32BIT_REGZ (dst i) (ucast v) (core s)) (MOVZX_GdEwM i) s"
    "load_spec (read_virtual_byte (instr_seg i) (BX_CPU_RESOLVE_ADDR i (core s))) (\<lambda>v k. k = BX_WRITE_32BIT_REGZ (dst i) (scast v) (core s)) (MOVSX_GdEbM i) s"
    "load_spec (read_virtual_word (instr_seg i) (BX_CPU_RESOLVE_ADDR i (core s))) (\<lambda>v k. k = BX_WRITE_32BIT_REGZ (dst i) (scast v) (core s)) (MOVSX_GdEwM i) s"
    "load_spec (read_linear_qword (instr_seg i) (get_laddr64 (instr_seg i) (BX_CPU_RESOLVE_ADDR_64 i (core s)) s)) (\<lambda>v k. k = BX_WRITE_64BIT_REG (dst i) (v) (core s)) (MOV_GqEqM i) s"
    "load_spec (read_linear_byte (instr_seg i) (get_laddr64 (instr_seg i) (BX_CPU_RESOLVE_ADDR_64 i (core s)) s)) (\<lambda>v k. k = BX_WRITE_64BIT_REG (dst i) (ucast v) (core s)) (MOVZX_GqEbM i) s"
    "load_spec (read_linear_word (instr_seg i) (get_laddr64 (instr_seg i) (BX_CPU_RESOLVE_ADDR_64 i (core s)) s)) (\<lambda>v k. k = BX_WRITE_64BIT_REG (dst i) (ucast v) (core s)) (MOVZX_GqEwM i) s"
    "load_spec (read_linear_byte (instr_seg i) (get_laddr64 (instr_seg i) (BX_CPU_RESOLVE_ADDR_64 i (core s)) s)) (\<lambda>v k. k = BX_WRITE_64BIT_REG (dst i) (scast v) (core s)) (MOVSX_GqEbM i) s"
    "load_spec (read_linear_word (instr_seg i) (get_laddr64 (instr_seg i) (BX_CPU_RESOLVE_ADDR_64 i (core s)) s)) (\<lambda>v k. k = BX_WRITE_64BIT_REG (dst i) (scast v) (core s)) (MOVSX_GqEwM i) s"
    "load_spec (read_linear_dword (instr_seg i) (get_laddr64 (instr_seg i) (BX_CPU_RESOLVE_ADDR_64 i (core s)) s)) (\<lambda>v k. k = BX_WRITE_64BIT_REG (dst i) (scast v) (core s)) (MOVSX_GqEdM i) s"
  by (rule load_spec_intro, simp only: MOV_GbEbM_def MOV_GwEwM_def MOVZX_GwEbM_def MOVSX_GwEbM_def MOVZX_GdEbM_def MOVZX_GdEwM_def MOVSX_GdEbM_def MOVSX_GdEwM_def MOV_GqEqM_def MOVZX_GqEbM_def MOVZX_GqEwM_def MOVSX_GqEbM_def MOVSX_GqEwM_def MOVSX_GqEdM_def with_core_apply laddr64_apply laddr64_then Let_def, simp, rule refl, simp)+

text \<open>After CMP, the conditional moves equal, below, below-or-equal, less and less-or-equal copy their source exactly when the first operand
  is in that relation to the second in the unsigned or the signed order; the 32-bit forms clear the high half of the destination in any case.\<close>

theorem cmp_cmov_order:
  "CMOVZ_GwEwR j (CMP_GwEwR i s) = (if op1_of_16 i s = op2_of_16 i s then BX_WRITE_16BIT_REG (dst j) (BX_READ_16BIT_REG (src j) (CMP_GwEwR i s)) (CMP_GwEwR i s) else (CMP_GwEwR i s))
   \<and> CMOVB_GwEwR j (CMP_GwEwR i s) = (if op1_of_16 i s < op2_of_16 i s then BX_WRITE_16BIT_REG (dst j) (BX_READ_16BIT_REG (src j) (CMP_GwEwR i s)) (CMP_GwEwR i s) else (CMP_GwEwR i s))
   \<and> CMOVBE_GwEwR j (CMP_GwEwR i s) = (if op1_of_16 i s \<le> op2_of_16 i s then BX_WRITE_16BIT_REG (dst j) (BX_READ_16BIT_REG (src j) (CMP_GwEwR i s)) (CMP_GwEwR i s) else (CMP_GwEwR i s))
   \<and> CMOVL_GwEwR j (CMP_GwEwR i s) = (if sint (op1_of_16 i s) < sint (op2_of_16 i s) then BX_WRITE_16BIT_REG (dst j) (BX_READ_16BIT_REG (src j) (CMP_GwEwR i s)) (CMP_GwEwR i s) else (CMP_GwEwR i s))
   \<and> CMOVLE_GwEwR j (CMP_GwEwR i s) = (if sint (op1_of_16 i s) \<le> sint (op2_of_16 i s) then BX_WRITE_16BIT_REG (dst j) (BX_READ_16BIT_REG (src j) (CMP_GwEwR i s)) (CMP_GwEwR i s) else (CMP_GwEwR i s))
   \<and> CMOVZ_GdEdR j (CMP_GdEdR i s) = (if op1_of_32 i s = op2_of_32 i s then BX_WRITE_32BIT_REGZ (dst j) (BX_READ_32BIT_REG (src j) (CMP_GdEdR i s)) (CMP_GdEdR i s) else BX_CLEAR_64BIT_HIGH (dst j) (CMP_GdEdR i s))
   \<and> CMOVB_GdEdR j (CMP_GdEdR i s) = (if op1_of_32 i s < op2_of_32 i s then BX_WRITE_32BIT_REGZ (dst j) (BX_READ_32BIT_REG (src j) (CMP_GdEdR i s)) (CMP_GdEdR i s) else BX_CLEAR_64BIT_HIGH (dst j) (CMP_GdEdR i s))
   \<and> CMOVBE_GdEdR j (CMP_GdEdR i s) = (if op1_of_32 i s \<le> op2_of_32 i s then BX_WRITE_32BIT_REGZ (dst j) (BX_READ_32BIT_REG (src j) (CMP_GdEdR i s)) (CMP_GdEdR i s) else BX_CLEAR_64BIT_HIGH (dst j) (CMP_GdEdR i s))
   \<and> CMOVL_GdEdR j (CMP_GdEdR i s) = (if sint (op1_of_32 i s) < sint (op2_of_32 i s) then BX_WRITE_32BIT_REGZ (dst j) (BX_READ_32BIT_REG (src j) (CMP_GdEdR i s)) (CMP_GdEdR i s) else BX_CLEAR_64BIT_HIGH (dst j) (CMP_GdEdR i s))
   \<and> CMOVLE_GdEdR j (CMP_GdEdR i s) = (if sint (op1_of_32 i s) \<le> sint (op2_of_32 i s) then BX_WRITE_32BIT_REGZ (dst j) (BX_READ_32BIT_REG (src j) (CMP_GdEdR i s)) (CMP_GdEdR i s) else BX_CLEAR_64BIT_HIGH (dst j) (CMP_GdEdR i s))
   \<and> CMOVZ_GqEqR j (CMP_GqEqR i s) = (if op1_of_64 i s = op2_of_64 i s then BX_WRITE_64BIT_REG (dst j) (BX_READ_64BIT_REG (src j) (CMP_GqEqR i s)) (CMP_GqEqR i s) else (CMP_GqEqR i s))
   \<and> CMOVB_GqEqR j (CMP_GqEqR i s) = (if op1_of_64 i s < op2_of_64 i s then BX_WRITE_64BIT_REG (dst j) (BX_READ_64BIT_REG (src j) (CMP_GqEqR i s)) (CMP_GqEqR i s) else (CMP_GqEqR i s))
   \<and> CMOVBE_GqEqR j (CMP_GqEqR i s) = (if op1_of_64 i s \<le> op2_of_64 i s then BX_WRITE_64BIT_REG (dst j) (BX_READ_64BIT_REG (src j) (CMP_GqEqR i s)) (CMP_GqEqR i s) else (CMP_GqEqR i s))
   \<and> CMOVL_GqEqR j (CMP_GqEqR i s) = (if sint (op1_of_64 i s) < sint (op2_of_64 i s) then BX_WRITE_64BIT_REG (dst j) (BX_READ_64BIT_REG (src j) (CMP_GqEqR i s)) (CMP_GqEqR i s) else (CMP_GqEqR i s))
   \<and> CMOVLE_GqEqR j (CMP_GqEqR i s) = (if sint (op1_of_64 i s) \<le> sint (op2_of_64 i s) then BX_WRITE_64BIT_REG (dst j) (BX_READ_64BIT_REG (src j) (CMP_GqEqR i s)) (CMP_GqEqR i s) else (CMP_GqEqR i s))"
  by (intro conjI; simp only: CMOV16_conditions CMOV32_conditions CMOV64_conditions
      with_flags_flags [OF arith16_reg(5)] with_flags_flags [OF arith32_reg(5)] with_flags_flags [OF arith64_reg(5)] sub_flags_compare sub_flags_le)

section \<open>Byte order\<close>

text \<open>BSWAP reverses the bytes of its register, so that applying it twice restores the value; the swap used by MOVBE stores and
  loads is the same, so a value stored by MOVBE is the byte-reversed one.\<close>

theorem byte_swaps:
  "(\<forall>n<4. word_byte (BX_READ_32BIT_REG (dst i) (BSWAP_ERX i c)) n = word_byte (BX_READ_32BIT_REG (dst i) c) (3 - n))
   \<and> (\<forall>n<8. word_byte (BX_READ_64BIT_REG (dst i) (BSWAP_RRX i c)) n = word_byte (BX_READ_64BIT_REG (dst i) c) (7 - n))
   \<and> BX_READ_32BIT_REG (dst i) (BSWAP_ERX i (BSWAP_ERX i c)) = BX_READ_32BIT_REG (dst i) c
   \<and> BX_READ_64BIT_REG (dst i) (BSWAP_RRX i (BSWAP_RRX i c)) = BX_READ_64BIT_REG (dst i) c
   \<and> (\<forall>n<2. word_byte (bx_bswap16 w) n = word_byte w (1 - n)) \<and> bx_bswap16 (bx_bswap16 w) = w
   \<and> load_spec (read_virtual_word (instr_seg i) (BX_CPU_RESOLVE_ADDR i (core s))) (\<lambda>v k. k = BX_WRITE_16BIT_REG (dst i) (bx_bswap16 v) (core s)) (MOVBE_GwMw i) s
   \<and> load_spec (read_virtual_dword (instr_seg i) (BX_CPU_RESOLVE_ADDR i (core s))) (\<lambda>v k. k = BX_WRITE_32BIT_REGZ (dst i) (bx_bswap32 v) (core s)) (MOVBE_GdMd i) s
   \<and> MOVBE_MwGw i s = write_virtual_word (instr_seg i) (BX_CPU_RESOLVE_ADDR i (core s)) (bx_bswap16 (BX_READ_16BIT_REG (src i) (core s))) s
   \<and> MOVBE_MdGd i s = write_virtual_dword (instr_seg i) (BX_CPU_RESOLVE_ADDR i (core s)) (bx_bswap32 (BX_READ_32BIT_REG (src i) (core s))) s"
proof (intro conjI)
  show "load_spec (read_virtual_word (instr_seg i) (BX_CPU_RESOLVE_ADDR i (core s))) (\<lambda>v k. k = BX_WRITE_16BIT_REG (dst i) (bx_bswap16 v) (core s)) (MOVBE_GwMw i) s"
    "load_spec (read_virtual_dword (instr_seg i) (BX_CPU_RESOLVE_ADDR i (core s))) (\<lambda>v k. k = BX_WRITE_32BIT_REGZ (dst i) (bx_bswap32 v) (core s)) (MOVBE_GdMd i) s"
    by (rule load_spec_intro, simp only: MOVBE_GwMw_def MOVBE_GdMd_def with_core_apply Let_def, simp, rule refl, simp)+
qed (simp_all add: BSWAP_ERX_def BSWAP_RRX_def r32.rd_wr_same r64.rd_wr_same bswap_bytes bswap_involution MOVBE_MwGw_def MOVBE_MdGd_def with_core_apply Let_def)

end
