(* ===== verification/BitGather.thy ===== *)
theory BitGather
  imports BitBase
begin

text \<open>
  What the bit manipulation instructions of \<^verbatim>\<open>cpu/bmi32.cc\<close> and \<^verbatim>\<open>cpu/bmi64.cc\<close> share at any width.  The loops of PEXT
  and PDEP gather the bits selected by a mask and scatter bits to the places a mask selects; each undoes the other.
\<close>

definition BX_READ_8BIT_REGL :: "nat \<Rightarrow> bx_cpu \<Rightarrow> Bit8u" where
  "BX_READ_8BIT_REGL index s = reg_rl (gen_reg s index)"

section \<open>The loops\<close>

lemma shifted_smaller: "op2 \<noteq> 0 \<Longrightarrow> unat (drop_bit 1 op2) < unat op2" for op2 :: "'a::len word"
proof -
  assume "op2 \<noteq> 0"
  then have "0 < unat op2" by (simp add: unat_gt_0)
  moreover have "unat (drop_bit 1 op2) = drop_bit 1 (unat op2)" 
    by (simp only: unsigned_drop_bit_eq) (simp add: take_bit_nat_eq_self [OF unsigned_less])
  ultimately show ?thesis by (simp only: drop_bit_eq_div) simp
qed

function pext_loop :: "'a::len word \<Rightarrow> 'a word \<Rightarrow> 'a word \<Rightarrow> 'a word \<Rightarrow> 'a word" where
  "pext_loop op1 op2 wr_mask result =
    (if op2 = 0 then result
     else if op2 AND 0x1 \<noteq> 0
     then pext_loop (drop_bit 1 op1) (drop_bit 1 op2) (push_bit 1 wr_mask) (if op1 AND 0x1 \<noteq> 0 then result OR wr_mask else result)
     else pext_loop (drop_bit 1 op1) (drop_bit 1 op2) wr_mask result)"
  by pat_completeness auto

termination by (relation "measure (\<lambda>(_, op2, _, _). unat op2)") (use shifted_smaller in auto)

function pdep_loop :: "'a::len word \<Rightarrow> 'a word \<Rightarrow> 'a word \<Rightarrow> 'a word \<Rightarrow> 'a word" where
  "pdep_loop op1 op2 wr_mask result =
    (if op2 = 0 then result
     else if op2 AND 0x1 \<noteq> 0
     then pdep_loop (drop_bit 1 op1) (drop_bit 1 op2) (push_bit 1 wr_mask) (if op1 AND 0x1 \<noteq> 0 then result OR wr_mask else result)
     else pdep_loop op1 (drop_bit 1 op2) (push_bit 1 wr_mask) result)"
  by pat_completeness auto

termination by (relation "measure (\<lambda>(_, op2, _, _). unat op2)") (use shifted_smaller in auto)

declare pext_loop.simps [simp del] pdep_loop.simps [simp del]

section \<open>What they compute\<close>

text \<open>The number of mask bits below a place.\<close>

definition rank :: "'a::len word \<Rightarrow> nat \<Rightarrow> nat" where "rank m j = card {i. i < j \<and> bit m i}"

lemma rank_0 [simp]: "rank m 0 = 0"
  by (simp add: rank_def)

lemma rank_Suc: "rank m (Suc j) = rank m j + of_bool (bit m j)"
proof -
  have "{i. i < Suc j \<and> bit m i} = (if bit m j then insert j {i. i < j \<and> bit m i} else {i. i < j \<and> bit m i})"
    by (auto simp: less_Suc_eq)
  then show ?thesis by (simp add: rank_def)
qed

lemma rank_shift: "rank m (Suc j) = of_bool (bit m 0) + rank (drop_bit 1 m) j"
  by (induction j) (simp_all add: rank_Suc bit_drop_bit_eq)

lemma rank_less: "i < j \<Longrightarrow> bit m i \<Longrightarrow> rank m i < rank m j"
proof (induction j)
  case (Suc j)
  then show ?case by (cases "i = j") (auto simp: rank_Suc)
qed simp

lemma rank_inj: "bit m i \<Longrightarrow> bit m j \<Longrightarrow> rank m i = rank m j \<Longrightarrow> i = j"
  by (metis linorder_neqE_nat nat_neq_iff rank_less)

lemma rank_bound: "rank m j \<le> j"
  by (induction j) (auto simp: rank_Suc)

lemma low_bit: "w AND 1 \<noteq> 0 \<longleftrightarrow> bit w 0" for w :: "'a::len word"
  using tested_bit [of 0 w] by simp

lemma or_bit: "bit (result OR push_bit p 1) k \<longleftrightarrow> bit result k \<or> k = p \<and> p < LENGTH('a)" for result :: "'a::len word"
  by (auto simp: bit_simps)

lemma ex_shift: "(\<exists>j. P j) \<longleftrightarrow> P 0 \<or> (\<exists>j. P (Suc j))"
  by (metis not0_implies_Suc)

lemma bit_pext_loop:
  fixes op1 op2 result wr_mask :: "'a::len word"
  assumes "wr_mask = push_bit p 1"
  shows "bit (pext_loop op1 op2 wr_mask result) k \<longleftrightarrow>
    bit result k \<or> k < LENGTH('a) \<and> (\<exists>j. bit op2 j \<and> bit op1 j \<and> k = p + rank op2 j)"
  using assms
proof (induction op1 op2 wr_mask result arbitrary: p rule: pext_loop.induct)
  case (1 op1 op2 wr_mask result)
  show ?case
  proof (cases "op2 = 0")
    case True
    then show ?thesis by (simp add: pext_loop.simps)
  next
    case False
    have wr: "push_bit 1 wr_mask = push_bit (Suc p) 1" using 1 by simp
    have r: "bit (if bit op1 0 then result OR wr_mask else result) k \<longleftrightarrow> bit result k \<or> bit op1 0 \<and> k = p \<and> p < LENGTH('a)"
      unfolding 1 by (simp only: or_bit split: if_split) blast
    note split = ex_shift [of "\<lambda>j. bit op2 j \<and> bit op1 j \<and> k = p + rank op2 j"]
    show ?thesis
    proof (cases "bit op2 0")
      case True
      have "pext_loop op1 op2 wr_mask result = pext_loop (drop_bit 1 op1) (drop_bit 1 op2) (push_bit 1 wr_mask) (if op1 AND 1 \<noteq> 0 then result OR wr_mask else result)"
        using True False by (subst pext_loop.simps) (simp only: low_bit if_True if_False simp_thms)
      also have "bit \<dots> k \<longleftrightarrow> (bit result k \<or> bit op1 0 \<and> k = p \<and> p < LENGTH('a)) \<or> k < LENGTH('a) \<and>
          (\<exists>j. bit (drop_bit 1 op2) j \<and> bit (drop_bit 1 op1) j \<and> k = Suc p + rank (drop_bit 1 op2) j)"
        using 1(1) [OF False _ wr] True unfolding low_bit r by blast
      finally show ?thesis unfolding split using True by (auto simp: rank_shift bit_drop_bit_eq)
    next
      case nb: False
      have "pext_loop op1 op2 wr_mask result = pext_loop (drop_bit 1 op1) (drop_bit 1 op2) wr_mask result"
        using nb False by (subst pext_loop.simps) (simp only: low_bit if_True if_False simp_thms)
      also have "bit \<dots> k \<longleftrightarrow> bit result k \<or> k < LENGTH('a) \<and> (\<exists>j. bit (drop_bit 1 op2) j \<and> bit (drop_bit 1 op1) j \<and> k = p + rank (drop_bit 1 op2) j)"
        using 1(2) [OF False _ 1(3)] nb unfolding low_bit by blast
      finally show ?thesis unfolding split using nb by (auto simp: rank_shift bit_drop_bit_eq)
    qed
  qed
qed

lemma bit_pdep_loop:
  fixes op1 op2 result wr_mask :: "'a::len word"
  assumes "wr_mask = push_bit p 1"
  shows "bit (pdep_loop op1 op2 wr_mask result) k \<longleftrightarrow>
    bit result k \<or> k < LENGTH('a) \<and> (\<exists>j. bit op2 j \<and> bit op1 (rank op2 j) \<and> k = p + j)"
  using assms
proof (induction op1 op2 wr_mask result arbitrary: p rule: pdep_loop.induct)
  case (1 op1 op2 wr_mask result)
  show ?case
  proof (cases "op2 = 0")
    case True
    then show ?thesis by (simp add: pdep_loop.simps)
  next
    case False
    have wr: "push_bit 1 wr_mask = push_bit (Suc p) 1" using 1 by simp
    have r: "bit (if bit op1 0 then result OR wr_mask else result) k \<longleftrightarrow> bit result k \<or> bit op1 0 \<and> k = p \<and> p < LENGTH('a)"
      unfolding 1 by (simp only: or_bit split: if_split) blast
    note split = ex_shift [of "\<lambda>j. bit op2 j \<and> bit op1 (rank op2 j) \<and> k = p + j"]
    show ?thesis
    proof (cases "bit op2 0")
      case True
      have "pdep_loop op1 op2 wr_mask result = pdep_loop (drop_bit 1 op1) (drop_bit 1 op2) (push_bit 1 wr_mask) (if op1 AND 1 \<noteq> 0 then result OR wr_mask else result)"
        using True False by (subst pdep_loop.simps) (simp only: low_bit if_True if_False simp_thms)
      also have "bit \<dots> k \<longleftrightarrow> (bit result k \<or> bit op1 0 \<and> k = p \<and> p < LENGTH('a)) \<or> k < LENGTH('a) \<and>
          (\<exists>j. bit (drop_bit 1 op2) j \<and> bit (drop_bit 1 op1) (rank (drop_bit 1 op2) j) \<and> k = Suc p + j)"
        using 1(1) [OF False _ wr] True unfolding low_bit r by blast
      finally show ?thesis unfolding split using True by (auto simp: rank_shift bit_drop_bit_eq)
    next
      case nb: False
      have "pdep_loop op1 op2 wr_mask result = pdep_loop op1 (drop_bit 1 op2) (push_bit 1 wr_mask) result"
        using nb False by (subst pdep_loop.simps) (simp only: low_bit if_True if_False simp_thms)
      also have "bit \<dots> k \<longleftrightarrow> bit result k \<or> k < LENGTH('a) \<and> (\<exists>j. bit (drop_bit 1 op2) j \<and> bit op1 (rank (drop_bit 1 op2) j) \<and> k = Suc p + j)"
        using 1(2) [OF False _ wr] nb unfolding low_bit by blast
      finally show ?thesis unfolding split using nb by (auto simp: rank_shift bit_drop_bit_eq)
    qed
  qed
qed

lemma bit_pext: "bit (pext_loop a m 0x1 0) k \<longleftrightarrow> k < LENGTH('a) \<and> (\<exists>j. bit m j \<and> bit a j \<and> k = rank m j)" for a :: "'a::len word"
  using bit_pext_loop [of 1 0 a m 0 k] by simp

lemma bit_pdep: "bit (pdep_loop a m 0x1 0) k \<longleftrightarrow> bit m k \<and> bit a (rank m k)" for a :: "'a::len word"
  using bit_pdep_loop [of 1 0 a m 0 k] bit_imp_le_length [of m k] by auto

section \<open>Round trips\<close>

lemma rank_onto: "k < rank m n \<Longrightarrow> \<exists>j<n. bit m j \<and> rank m j = k"
proof (induction n)
  case (Suc n)
  show ?case
  proof (cases "k < rank m n")
    case True
    then show ?thesis using Suc.IH less_SucI by blast
  next
    case False
    then have "bit m n" "rank m n = k" using Suc.prems by (cases "bit m n"; simp add: rank_Suc)+
    then show ?thesis by blast
  qed
qed simp

lemma rank_all: "rank m LENGTH('a) = card {k. bit m k}" for m :: "'a::len word"
proof -
  have "{i. i < LENGTH('a) \<and> bit m i} = {k. bit m k}" using bit_imp_le_length by blast
  then show ?thesis by (simp add: rank_def)
qed

lemma pdep_pext: "pdep_loop (pext_loop a m 0x1 0) m 0x1 0 = a AND m" for a :: "'a::len word"
proof (rule bit_word_eqI)
  fix n assume "n < LENGTH('a)"
  then have "rank m n < LENGTH('a)" using rank_bound [of m n] by simp
  then show "bit (pdep_loop (pext_loop a m 0x1 0) m 0x1 0) n = bit (a AND m) n"
    unfolding bit_pdep bit_pext bit_and_iff using rank_inj by blast
qed

lemma pext_pdep: "pext_loop (pdep_loop a m 0x1 0) m 0x1 0 = take_bit (card {k. bit m k}) a" for a :: "'a::len word"
proof (rule bit_word_eqI)
  fix n assume "n < LENGTH('a)"
  have "(\<exists>j. bit m j \<and> n = rank m j) \<longleftrightarrow> n < rank m LENGTH('a)"
    using rank_onto rank_less bit_imp_le_length by metis
  then show "bit (pext_loop (pdep_loop a m 0x1 0) m 0x1 0) n = bit (take_bit (card {k. bit m k}) a) n"
    unfolding bit_pdep bit_pext bit_take_bit_iff rank_all using \<open>n < LENGTH('a)\<close> by auto
qed

section \<open>The lowest set bit\<close>

lemma minus_one_bits:
  fixes v :: "'a::len word"
  assumes "v \<noteq> 0"
  shows "bit (v - 1) n \<longleftrightarrow> n < LENGTH('a) \<and> (if n < lowest_bit v then True else n \<noteq> lowest_bit v \<and> bit v n)"
proof -
  let ?p = "lowest_bit v"
  have p: "bit v ?p" "\<And>k. k < ?p \<Longrightarrow> \<not> bit v k" "?p < LENGTH('a)" using lowest_bitD assms by blast+
  have "v = (v AND NOT (mask (Suc ?p))) + 2 ^ ?p"
    by (subst disjunctive_add) (auto simp: bit_simps less_Suc_eq p intro!: bit_word_eqI)
  then have "v - 1 = (v AND NOT (mask (Suc ?p))) + mask ?p" by (simp add: mask_eq_exp_minus_1)
  also have "\<dots> = (v AND NOT (mask (Suc ?p))) OR mask ?p" by (subst disjunctive_add) (auto simp: bit_simps)
  finally show ?thesis using p by (auto simp: bit_simps less_Suc_eq not_less dest: bit_imp_le_length)
qed

lemma lowest_bit_forms:
  fixes v :: "'a::len word"
  assumes "v \<noteq> 0"
  shows "(- v) AND v = push_bit (lowest_bit v) 1" "(v - 1) XOR v = mask (Suc (lowest_bit v))" "(v - 1) AND v = unset_bit (lowest_bit v) v"
proof -
  note p = lowest_bitD(1,3) [OF assms]
  show "(v - 1) XOR v = mask (Suc (lowest_bit v))" "(v - 1) AND v = unset_bit (lowest_bit v) v"
    by (rule bit_word_eqI; use p lowest_bitD(2) [of _ v] in \<open>auto simp: minus_one_bits [OF assms] bit_xor_iff bit_and_iff bit_mask_iff bit_unset_bit_iff less_Suc_eq\<close>)+
  have "- v = NOT (v - 1)" by (simp add: minus_eq_not_minus_1)
  then show "(- v) AND v = push_bit (lowest_bit v) 1"
    by (intro bit_word_eqI) (use p lowest_bitD(2) [of _ v] in \<open>auto simp: minus_one_bits [OF assms] bit_not_iff bit_and_iff bit_exp_iff\<close>)
qed

section \<open>Flags and fields\<close>

lemma flags_OSZAxC:
  "flags_of (SET_FLAGS_OSZAxC_LOGIC_32 r32 e) = (logic_flags r32)\<lparr>fPF := fPF (flags_of e)\<rparr>"
  "flags_of (SET_FLAGS_OSZAxC_LOGIC_64 r64 e) = (logic_flags r64)\<lparr>fPF := fPF (flags_of e)\<rparr>"
  using flags_LOGIC(3,4)
  by (simp_all add: SET_FLAGS_OSZAxC_LOGIC_32_def SET_FLAGS_OSZAxC_LOGIC_64_def SET_FLAGS_OSZAxC_LOGIC_SIZE_def Let_def flags_setters getB_flags
      SET_FLAGS_OSZAPC_LOGIC_32_def SET_FLAGS_OSZAPC_LOGIC_64_def SET_FLAGS_OSZAPC_32_def SET_FLAGS_OSZAPC_64_def)

lemma carry_out_top:
  fixes a b :: "'a::len word"
  assumes "LENGTH('a) = Suc m"
  shows "drop_bit m (ADD_COUT_VEC a b (a + b + of_bool c)) \<noteq> 0 \<longleftrightarrow> 2 ^ LENGTH('a) \<le> uint a + uint b + of_bool c"
proof -
  let ?v = "ADD_COUT_VEC a b (a + b + of_bool c)"
  have "bit (drop_bit m ?v) n \<longleftrightarrow> n = 0 \<and> bit ?v m" for n
    using bit_imp_le_length [of ?v "m + n"] assms by (auto simp: bit_drop_bit_eq)
  then have "drop_bit m ?v \<noteq> 0 \<longleftrightarrow> bit ?v m" by (metis bit_word_eqI bit_0_eq bot_apply bot_bool_def)
  also have "\<dots> \<longleftrightarrow> carry_in (uint a) (uint b) c LENGTH('a)" using bit_ADD_COUT_VEC [of m a b c] assms by simp
  finally show ?thesis unfolding carry_in_length .
qed

lemma bit_fields:
  "bextrd v32 start len = take_bit len (drop_bit start v32)" "bextrq v64 start len = take_bit len (drop_bit start v64)"
proof -
  have "take_bit len (drop_bit start v32) = 0" if "32 \<le> start \<or> len = 0"
    by (rule bit_word_eqI) (use that in \<open>auto simp: bit_simps dest: bit_imp_le_length\<close>)
  moreover have "take_bit len (drop_bit start v32) = drop_bit start v32" if "32 \<le> len"
    by (rule bit_word_eqI) (use that in \<open>auto simp: bit_simps dest: bit_imp_le_length\<close>)
  ultimately show "bextrd v32 start len = take_bit len (drop_bit start v32)"
    by (auto simp: bextrd_def Let_def mask_eq_exp_minus_1 take_bit_eq_mask)
  have "take_bit len (drop_bit start v64) = 0" if "64 \<le> start \<or> len = 0"
    by (rule bit_word_eqI) (use that in \<open>auto simp: bit_simps dest: bit_imp_le_length\<close>)
  moreover have "take_bit len (drop_bit start v64) = drop_bit start v64" if "64 \<le> len"
    by (rule bit_word_eqI) (use that in \<open>auto simp: bit_simps dest: bit_imp_le_length\<close>)
  ultimately show "bextrq v64 start len = take_bit len (drop_bit start v64)"
    by (auto simp: bextrq_def Let_def mask_eq_exp_minus_1 take_bit_eq_mask)
qed

lemma count_bound: "unat (b AND 0x1f :: Bit8u) < 32" "unat (b AND 0x3f :: Bit8u) < 64"
proof -
  have m: "(0x1f :: Bit8u) = mask 5" "(0x3f :: Bit8u) = mask 6" by (simp_all add: mask_eq_exp_minus_1)
  show "unat (b AND 0x1f :: Bit8u) < 32" "unat (b AND 0x3f :: Bit8u) < 64"
    unfolding m take_bit_eq_mask [symmetric] using take_bit_nat_less_exp [of 5 "unat b"] take_bit_nat_less_exp [of 6 "unat b"]
    by (simp_all add: unsigned_take_bit_eq)
qed

lemma rotate_none: "word_rotr 0 v = v"
  by (rule bit_word_eqI) (simp add: bit_word_rotr_iff)

end
