(* ===== verification/ShiftProps.thy ===== *)
theory ShiftProps
  imports Shift8 Shift16 Shift32 Shift64
begin

text \<open>
  Properties of the shift and rotate handlers at every operand size. The references are integer
  multiplication and division for the shifts, the library's word rotation for ROL and ROR, the
  rotation of a word one bit wider, with the carry flag on top, for RCL and RCR, and the shift of the
  concatenated operands for SHLD and SHRD.
\<close>

section \<open>Reference meanings\<close>

definition shift_count :: "Ia_opcode \<Rightarrow> bxInstruction_c \<Rightarrow> bx_cpu \<Rightarrow> nat" where
  "shift_count op i s = unat (if getIaOpcode i = op then CL s else Ib i)"

definition shift_flags :: "('a::len) word \<Rightarrow> bool \<Rightarrow> bool \<Rightarrow> oszapc_flags" where
  "shift_flags r ovf cf = (logic_flags r)\<lparr>fOF := ovf, fCF := cf\<rparr>"

definition shl_value :: "nat \<Rightarrow> ('a::len) word \<Rightarrow> 'a word" where
  "shl_value c a = word_of_int (uint a * 2 ^ c)"

definition shl_flags :: "nat \<Rightarrow> ('a::len) word \<Rightarrow> oszapc_flags" where
  "shl_flags c a = (let cf = odd (uint a * 2 ^ c div 2 ^ LENGTH('a))
     in shift_flags (shl_value c a) (cf \<noteq> bit (shl_value c a) (LENGTH('a) - 1)) cf)"

definition shr_value :: "nat \<Rightarrow> ('a::len) word \<Rightarrow> 'a word" where
  "shr_value c a = word_of_int (uint a div 2 ^ c)"

definition shr_flags :: "nat \<Rightarrow> ('a::len) word \<Rightarrow> oszapc_flags" where
  "shr_flags c a = shift_flags (shr_value c a) (c = 1 \<and> bit a (LENGTH('a) - 1)) (odd (uint a div 2 ^ (c - 1)))"

definition sar_value :: "nat \<Rightarrow> ('a::len) word \<Rightarrow> 'a word" where
  "sar_value c a = word_of_int (sint a div 2 ^ c)"

definition sar_flags :: "nat \<Rightarrow> ('a::len) word \<Rightarrow> oszapc_flags" where
  "sar_flags c a = shift_flags (sar_value c a) False (odd (sint a div 2 ^ (c - 1)))"

section \<open>Shifts as arithmetic\<close>

lemma shl_value_push: "push_bit c a = shl_value c a"
  by (simp add: shl_value_def push_bit_eq_mult)

lemma shr_value_drop: "drop_bit c a = shr_value c a"
  by (simp add: shr_value_def drop_bit_eq_div flip: uint_word_of_int_eq)
    (metis drop_bit_eq_div unsigned_drop_bit_eq word_of_int_uint take_bit_length_uint take_bit_drop_bit)

lemma sar_value_drop: "signed_drop_bit c a = sar_value c a"
  by (simp add: sar_value_def flip: drop_bit_eq_div sint_signed_drop_bit_eq)

lemma shl_carry: "c \<le> LENGTH('a) \<Longrightarrow> bit a (LENGTH('a) - c) \<longleftrightarrow> odd (uint a * 2 ^ c div 2 ^ LENGTH('a))"
  for a :: "('a::len) word"
proof -
  assume "c \<le> LENGTH('a)"
  then have "bit a (LENGTH('a) - c) \<longleftrightarrow> bit (push_bit c (uint a)) LENGTH('a)"
    by (auto simp: bit_push_bit_iff bit_uint_iff dest: bit_imp_le_length)
  then show ?thesis by (simp add: push_bit_eq_mult bit_iff_odd)
qed

lemma shl_no_carry: "LENGTH('a) < c \<Longrightarrow> \<not> odd (uint a * 2 ^ c div 2 ^ LENGTH('a))"
  "LENGTH('a) \<le> c \<Longrightarrow> shl_value c a = 0"
  for a :: "('a::len) word"
proof -
  assume "LENGTH('a) < c"
  moreover have "\<not> bit (push_bit c (uint a)) LENGTH('a)" using calculation by (simp add: bit_push_bit_iff)
  ultimately show "\<not> odd (uint a * 2 ^ c div 2 ^ LENGTH('a))" by (simp add: push_bit_eq_mult bit_iff_odd)
next
  assume "LENGTH('a) \<le> c"
  then show "shl_value c a = 0" unfolding shl_value_push[symmetric]
    by (auto simp: bit_eq_iff bit_push_bit_iff)
qed

lemma shr_carry: "bit a k \<longleftrightarrow> odd (uint a div 2 ^ k)" for a :: "('a::len) word"
  by (metis bit_iff_odd bit_uint_iff bit_imp_le_length)

lemma shr_overflow: "0 < c \<Longrightarrow> 2 \<le> LENGTH('a) \<Longrightarrow>
  (bit (drop_bit c a) (LENGTH('a) - 2) \<noteq> bit (drop_bit c a) (LENGTH('a) - 1)) \<longleftrightarrow> c = 1 \<and> bit a (LENGTH('a) - 1)"
  for a :: "('a::len) word"
proof -
  assume c: "0 < c" and n: "2 \<le> LENGTH('a)"
  have "\<not> bit (drop_bit c a) (LENGTH('a) - 1)" using c by (auto simp: bit_drop_bit_eq dest: bit_imp_le_length)
  moreover have "bit (drop_bit c a) (LENGTH('a) - 2) \<longleftrightarrow> c = 1 \<and> bit a (LENGTH('a) - 1)"
  proof (cases "c = 1")
    case True
    moreover have "1 + (LENGTH('a) - 2) = LENGTH('a) - 1" using n by simp
    ultimately show ?thesis by (simp only: bit_drop_bit_eq o_apply) simp
  next
    case False
    then have "LENGTH('a) \<le> c + (LENGTH('a) - 2)" using c n by linarith
    then show ?thesis using False by (auto simp: bit_drop_bit_eq dest: bit_imp_le_length)
  qed
  ultimately show ?thesis by simp
qed

lemma sar_carry: "bit (signed_drop_bit k a) 0 \<longleftrightarrow> odd (sint a div 2 ^ k)" for a :: "('a::len) word"
proof -
  have "bit (signed_drop_bit k a) 0 \<longleftrightarrow> bit (sint (signed_drop_bit k a)) 0" by (simp add: bit_sint_iff)
  also have "\<dots> \<longleftrightarrow> odd (sint a div 2 ^ k)"
    by (simp add: sint_signed_drop_bit_eq drop_bit_eq_div bit_0)
  finally show ?thesis .
qed

lemma sar_carry_low: "k < LENGTH('a) \<Longrightarrow> bit a k \<longleftrightarrow> odd (sint a div 2 ^ k)" for a :: "('a::len) word"
proof -
  assume "k < LENGTH('a)"
  then have "bit a k \<longleftrightarrow> bit (sint a) k" by (auto simp: bit_sint_iff)
  then show ?thesis by (simp add: bit_iff_odd)
qed
















section \<open>Normal forms of the flag computations\<close>

lemma and_low_bits:
  "x AND 0x07 = x mod 8" "x AND 0x0f = x mod 16" "x AND 0x1f = x mod 32" "x AND 0x3f = x mod 64" for x :: nat
  using take_bit_eq_mask[of 3 x] take_bit_eq_mask[of 4 x] take_bit_eq_mask[of 5 x] take_bit_eq_mask[of 6 x]
  by (simp_all add: take_bit_eq_mod mask_eq_exp_minus_1)

lemma xor_of_bool: "(of_bool p XOR of_bool q :: ('a::len) word) = of_bool (p \<noteq> q)"
  by (cases p; cases q) simp_all

lemma drop_top: "drop_bit (LENGTH('a) - 1) r = of_bool (bit r (LENGTH('a) - 1))" for r :: "('a::len) word"
proof (rule bit_word_eqI)
  fix n assume "n < LENGTH('a)"
  show "bit (drop_bit (LENGTH('a) - 1) r) n = bit (of_bool (bit r (LENGTH('a) - 1)) :: 'a word) n"
    by (cases n) (auto simp: bit_drop_bit_eq dest: bit_imp_le_length)
qed

lemma bit_double_xor:
  "0 < k \<Longrightarrow> k < LENGTH('a) \<Longrightarrow> bit (push_bit 1 r XOR r) k \<longleftrightarrow> bit r (k - 1) \<noteq> bit r k" for r :: "('a::len) word"
  unfolding bit_xor_iff bit_push_bit_iff by auto

lemmas drop_top8 = drop_top [where 'a = 8, simplified]
lemmas drop_top16 = drop_top [where 'a = 16, simplified]
lemmas drop_top32 = drop_top [where 'a = 32, simplified]
lemmas drop_top64 = drop_top [where 'a = 64, simplified]

lemma double_xor_top:
  "bit (push_bit 1 r8 XOR r8) 7 \<longleftrightarrow> bit r8 6 \<noteq> bit (r8 :: Bit8u) 7"
  "bit (push_bit 1 r16 XOR r16) 15 \<longleftrightarrow> bit r16 14 \<noteq> bit (r16 :: Bit16u) 15"
  "bit (push_bit 1 r32 XOR r32) 31 \<longleftrightarrow> bit r32 30 \<noteq> bit (r32 :: Bit32u) 31"
  "bit (push_bit 1 r64 XOR r64) 63 \<longleftrightarrow> bit r64 62 \<noteq> bit (r64 :: Bit64u) 63"
  using bit_double_xor[of 7 r8] bit_double_xor[of 15 r16] bit_double_xor[of 31 r32] bit_double_xor[of 63 r64]
  by simp_all

lemma and_1_of_bool: "x AND 1 = of_bool (bit x 0)" for x :: "('a::len) word"
  using drop_bit_and_1[of 0 x] by simp

text \<open>Every carry and overflow computation of the handlers as a single truth value.\<close>

lemma bit_zero_forms:
  "bit (drop_bit k a) 0 \<longleftrightarrow> bit (a :: ('a::len) word) k" "bit (of_bool p :: 'a word) 0 \<longleftrightarrow> p"
  by (simp_all add: bit_drop_bit_eq)

lemmas carry_forms = bit_zero_forms drop_top8 drop_top16 drop_top32 drop_top64 and_1_of_bool ucast_of_bool
  xor_of_bool double_xor_top

lemma if_of_bool: "(if c then of_bool p else 0) = (of_bool (c \<and> p) :: ('a::len) word)" by simp

lemma push_bit_wide: "(if c \<le> LENGTH('a) then push_bit c a else 0) = push_bit c a" for a :: "('a::len) word"
  by (auto simp: bit_eq_iff bit_push_bit_iff)

lemmas push_bit_wide8 = push_bit_wide [where 'a = 8, simplified]
lemmas push_bit_wide16 = push_bit_wide [where 'a = 16, simplified]

section \<open>Outcomes\<close>

text \<open>
  \<open>shift_outcome c s' unshifted shifted fl\<close>: with a count of zero the instruction leaves \<open>unshifted\<close>, otherwise the
  registers of \<open>shifted\<close> and the flags \<open>fl\<close>.
\<close>

definition shift_outcome :: "nat \<Rightarrow> bx_cpu \<Rightarrow> bx_cpu \<Rightarrow> bx_cpu \<Rightarrow> oszapc_flags \<Rightarrow> bool" where
  "shift_outcome c s' unshifted shifted fl = (if c = 0 then s' = unshifted else with_flags s' shifted fl)"

lemma shift_done:
  assumes "s' = upd_oszapc (set_flags_OxxxxC (of_bool v) (of_bool k)) (upd_oszapc f s0)"
    "\<And>e. flags_of (f e) = logic_flags r" "fl = shift_flags r v k"
  shows "with_flags s' s0 fl"
  using assms by (simp add: with_flags_def flags_set_flags_OxxxxC shift_flags_def)

lemma rotate_done:
  assumes "s' = upd_oszapc (set_flags_OxxxxC (of_bool v) (of_bool k)) s0" "oszapc s0 = oszapc s"
    "fl = (cpu_flags s)\<lparr>fOF := v, fCF := k\<rparr>"
  shows "with_flags s' s0 fl"
  using assms by (simp add: with_flags_def flags_set_flags_OxxxxC)

lemma shl_flags_eq:
  "shift_flags (push_bit c a)
    (c \<le> LENGTH('a) \<and> (c \<le> LENGTH('a) \<and> bit a (LENGTH('a) - c)) \<noteq> bit (push_bit c a) (LENGTH('a) - 1))
    (c \<le> LENGTH('a) \<and> bit a (LENGTH('a) - c)) = shl_flags c (a :: ('a::len) word)"
  using shl_carry[of c a] shl_no_carry[of c a] by (cases "c \<le> LENGTH('a)") (auto simp: shl_flags_def shl_value_push Let_def)

lemma shr_flags_eq:
  "0 < c \<Longrightarrow> 2 \<le> LENGTH('a) \<Longrightarrow> shift_flags (drop_bit c a)
     (bit (drop_bit c a) (LENGTH('a) - 2) \<noteq> bit (drop_bit c a) (LENGTH('a) - 1)) (bit a (c - 1)) =
   shr_flags c (a :: ('a::len) word)"
  by (simp only: shr_overflow) (simp only: shr_carry[of a "c - 1"] shr_flags_def shr_value_drop)

lemma sar_flags_eq:
  "shift_flags (signed_drop_bit c a) False (bit (signed_drop_bit (c - 1) a) 0) = sar_flags c (a :: ('a::len) word)"
  "0 < c \<Longrightarrow> c \<le> LENGTH('a) \<Longrightarrow> shift_flags (signed_drop_bit c a) False (bit a (c - 1)) = sar_flags c a"
proof -
  show "shift_flags (signed_drop_bit c a) False (bit (signed_drop_bit (c - 1) a) 0) = sar_flags c a"
    unfolding sar_carry[of "c - 1" a] by (simp add: sar_flags_def sar_value_drop)
  assume "0 < c" "c \<le> LENGTH('a)"
  then have "c - 1 < LENGTH('a)" by simp
  from sar_carry_low[OF this, of a] show "shift_flags (signed_drop_bit c a) False (bit a (c - 1)) = sar_flags c a"
    by (simp add: sar_flags_def sar_value_drop)
qed

lemma shl8_outcome:
  "shift_outcome c (SHL_EbR i s) (s) (BX_WRITE_8BIT_REGx (dst i) (extend8bitL i) (shl_value c a) s) (shl_flags c a)"
  if "c = shift_count BX_IA_SHL_Eb i s AND 0x1f" "a = BX_READ_8BIT_REGx (dst i) (extend8bitL i) s"
proof (cases "c = 0")
  case False
  let ?r = "push_bit c a"
  have "with_flags (SHL_EbR i s) (BX_WRITE_8BIT_REGx (dst i) (extend8bitL i) ?r s) (shl_flags c a)"
  proof (rule shift_done)
    show "SHL_EbR i s = upd_oszapc (set_flags_OxxxxC (of_bool (c \<le> 8 \<and> (c \<le> 8 \<and> bit a (8 - c)) \<noteq> bit (push_bit c a) 7)) (of_bool ((c \<le> 8 \<and> bit a (8 - c)))))
      (upd_oszapc (SET_FLAGS_OSZAPC_LOGIC_8 (ucast (?r :: Bit8u))) (BX_WRITE_8BIT_REGx (dst i) (extend8bitL i) ?r s))"
      using False by (simp only: SHL_EbR_def Let_def shift_count_def[symmetric] that[symmetric] if_False
        carry_forms push_bit_wide8 if_of_bool)
    show "shl_flags c a = shift_flags ?r (c \<le> 8 \<and> (c \<le> 8 \<and> bit a (8 - c)) \<noteq> bit (push_bit c a) 7) ((c \<le> 8 \<and> bit a (8 - c)))" using shl_flags_eq[of c a] by simp
  qed (rule flags_LOGIC)
  then show ?thesis using False by (simp add: shift_outcome_def shl_value_push)
qed (use that in \<open>simp add: shift_outcome_def SHL_EbR_def Let_def shift_count_def[symmetric]\<close>)

lemma shr8_outcome:
  "shift_outcome c (SHR_EbR i s) (s) (BX_WRITE_8BIT_REGx (dst i) (extend8bitL i) (shr_value c a) s) (shr_flags c a)"
  if "c = shift_count BX_IA_SHR_Eb i s AND 0x1f" "a = BX_READ_8BIT_REGx (dst i) (extend8bitL i) s"
proof (cases "c = 0")
  case False
  let ?r = "drop_bit c a"
  have "with_flags (SHR_EbR i s) (BX_WRITE_8BIT_REGx (dst i) (extend8bitL i) ?r s) (shr_flags c a)"
  proof (rule shift_done)
    show "SHR_EbR i s = upd_oszapc (set_flags_OxxxxC (of_bool (bit ?r 6 \<noteq> bit ?r 7)) (of_bool (bit a (c - 1))))
      (upd_oszapc (SET_FLAGS_OSZAPC_LOGIC_8 (ucast (?r :: Bit8u))) (BX_WRITE_8BIT_REGx (dst i) (extend8bitL i) ?r s))"
      using False by (simp only: SHR_EbR_def Let_def shift_count_def[symmetric] that[symmetric] if_False
        carry_forms)
    show "shr_flags c a = shift_flags ?r (bit ?r 6 \<noteq> bit ?r 7) (bit a (c - 1))" using shr_flags_eq[of c a] False by simp
  qed (rule flags_LOGIC)
  then show ?thesis using False by (simp add: shift_outcome_def shr_value_drop)
qed (use that in \<open>simp add: shift_outcome_def SHR_EbR_def Let_def shift_count_def[symmetric]\<close>)

lemma sar8_outcome:
  "shift_outcome c (SAR_EbR i s) (s) (BX_WRITE_8BIT_REGx (dst i) (extend8bitL i) (sar_value c a) s) (sar_flags c a)"
  if "c = shift_count BX_IA_SAR_Eb i s AND 0x1f" "a = BX_READ_8BIT_REGx (dst i) (extend8bitL i) s"
proof (cases "c = 0")
  case False
  let ?r = "signed_drop_bit c a"
  have "with_flags (SAR_EbR i s) (BX_WRITE_8BIT_REGx (dst i) (extend8bitL i) ?r s) (sar_flags c a)"
  proof (rule shift_done)
    show "SAR_EbR i s = upd_oszapc (set_flags_OxxxxC (of_bool False) (of_bool (bit (signed_drop_bit (c - 1) a) 0)))
      (upd_oszapc (SET_FLAGS_OSZAPC_LOGIC_8 (ucast (?r :: Bit8u))) (BX_WRITE_8BIT_REGx (dst i) (extend8bitL i) ?r s))"
      using False by (simp only: SAR_EbR_def Let_def shift_count_def[symmetric] that[symmetric] if_False
        carry_forms of_bool_eq(1))
    show "sar_flags c a = shift_flags ?r False (bit (signed_drop_bit (c - 1) a) 0)" by (rule sar_flags_eq(1)[symmetric])
  qed (rule flags_LOGIC)
  then show ?thesis using False by (simp add: shift_outcome_def sar_value_drop)
qed (use that in \<open>simp add: shift_outcome_def SAR_EbR_def Let_def shift_count_def[symmetric]\<close>)

lemma shl16_outcome:
  "shift_outcome c (SHL_EwR i s) (s) (BX_WRITE_16BIT_REG (dst i) (shl_value c a) s) (shl_flags c a)"
  if "c = shift_count BX_IA_SHL_Ew i s AND 0x1f" "a = BX_READ_16BIT_REG (dst i) s"
proof (cases "c = 0")
  case False
  let ?r = "push_bit c a"
  have "with_flags (SHL_EwR i s) (BX_WRITE_16BIT_REG (dst i) ?r s) (shl_flags c a)"
  proof (rule shift_done)
    show "SHL_EwR i s = upd_oszapc (set_flags_OxxxxC (of_bool (c \<le> 16 \<and> (c \<le> 16 \<and> bit a (16 - c)) \<noteq> bit (push_bit c a) 15)) (of_bool ((c \<le> 16 \<and> bit a (16 - c)))))
      (upd_oszapc (SET_FLAGS_OSZAPC_LOGIC_16 (ucast (?r :: Bit16u))) (BX_WRITE_16BIT_REG (dst i) ?r s))"
      using False by (simp only: SHL_EwR_def Let_def shift_count_def[symmetric] that[symmetric] if_False
        carry_forms push_bit_wide16 if_of_bool)
    show "shl_flags c a = shift_flags ?r (c \<le> 16 \<and> (c \<le> 16 \<and> bit a (16 - c)) \<noteq> bit (push_bit c a) 15) ((c \<le> 16 \<and> bit a (16 - c)))" using shl_flags_eq[of c a] by simp
  qed (rule flags_LOGIC)
  then show ?thesis using False by (simp add: shift_outcome_def shl_value_push)
qed (use that in \<open>simp add: shift_outcome_def SHL_EwR_def Let_def shift_count_def[symmetric]\<close>)

lemma shr16_outcome:
  "shift_outcome c (SHR_EwR i s) (s) (BX_WRITE_16BIT_REG (dst i) (shr_value c a) s) (shr_flags c a)"
  if "c = shift_count BX_IA_SHR_Ew i s AND 0x1f" "a = BX_READ_16BIT_REG (dst i) s"
proof (cases "c = 0")
  case False
  let ?r = "drop_bit c a"
  have "with_flags (SHR_EwR i s) (BX_WRITE_16BIT_REG (dst i) ?r s) (shr_flags c a)"
  proof (rule shift_done)
    show "SHR_EwR i s = upd_oszapc (set_flags_OxxxxC (of_bool (bit ?r 14 \<noteq> bit ?r 15)) (of_bool (bit a (c - 1))))
      (upd_oszapc (SET_FLAGS_OSZAPC_LOGIC_16 (ucast (?r :: Bit16u))) (BX_WRITE_16BIT_REG (dst i) ?r s))"
      using False by (simp only: SHR_EwR_def Let_def shift_count_def[symmetric] that[symmetric] if_False
        carry_forms)
    show "shr_flags c a = shift_flags ?r (bit ?r 14 \<noteq> bit ?r 15) (bit a (c - 1))" using shr_flags_eq[of c a] False by simp
  qed (rule flags_LOGIC)
  then show ?thesis using False by (simp add: shift_outcome_def shr_value_drop)
qed (use that in \<open>simp add: shift_outcome_def SHR_EwR_def Let_def shift_count_def[symmetric]\<close>)

lemma sar16_outcome:
  "shift_outcome c (SAR_EwR i s) (s) (BX_WRITE_16BIT_REG (dst i) (sar_value c a) s) (sar_flags c a)"
  if "c = shift_count BX_IA_SAR_Ew i s AND 0x1f" "a = BX_READ_16BIT_REG (dst i) s"
proof (cases "c = 0")
  case False
  let ?r = "signed_drop_bit c a"
  have "with_flags (SAR_EwR i s) (BX_WRITE_16BIT_REG (dst i) ?r s) (sar_flags c a)"
  proof (rule shift_done)
    show "SAR_EwR i s = upd_oszapc (set_flags_OxxxxC (of_bool False) (of_bool (bit (signed_drop_bit (c - 1) a) 0)))
      (upd_oszapc (SET_FLAGS_OSZAPC_LOGIC_16 (ucast (?r :: Bit16u))) (BX_WRITE_16BIT_REG (dst i) ?r s))"
      using False by (simp only: SAR_EwR_def Let_def shift_count_def[symmetric] that[symmetric] if_False
        carry_forms of_bool_eq(1))
    show "sar_flags c a = shift_flags ?r False (bit (signed_drop_bit (c - 1) a) 0)" by (rule sar_flags_eq(1)[symmetric])
  qed (rule flags_LOGIC)
  then show ?thesis using False by (simp add: shift_outcome_def sar_value_drop)
qed (use that in \<open>simp add: shift_outcome_def SAR_EwR_def Let_def shift_count_def[symmetric]\<close>)

lemma shl32_outcome:
  "shift_outcome c (SHL_EdR i s) (BX_CLEAR_64BIT_HIGH (dst i) s) (BX_WRITE_32BIT_REGZ (dst i) (shl_value c a) s) (shl_flags c a)"
  if "c = shift_count BX_IA_SHL_Ed i s AND 0x1f" "a = BX_READ_32BIT_REG (dst i) s"
proof (cases "c = 0")
  case False
  let ?r = "push_bit c a"
  have cn: "c \<le> 32" unfolding that(1) and_low_bits by (rule less_imp_le, rule less_le_trans[OF mod_less_divisor]) simp_all
  have "with_flags (SHL_EdR i s) (BX_WRITE_32BIT_REGZ (dst i) ?r s) (shl_flags c a)"
  proof (rule shift_done)
    show "SHL_EdR i s = upd_oszapc (set_flags_OxxxxC (of_bool (bit a (32 - c) \<noteq> bit (push_bit c a) 31)) (of_bool (bit a (32 - c))))
      (upd_oszapc (SET_FLAGS_OSZAPC_LOGIC_32 ?r) (BX_WRITE_32BIT_REGZ (dst i) ?r s))"
      using False by (simp only: SHL_EdR_def Let_def shift_count_def[symmetric] that[symmetric] if_False
        carry_forms)
    show "shl_flags c a = shift_flags ?r (bit a (32 - c) \<noteq> bit (push_bit c a) 31) (bit a (32 - c))" using shl_flags_eq[of c a] cn by simp
  qed (rule flags_LOGIC)
  then show ?thesis using False by (simp add: shift_outcome_def shl_value_push)
qed (use that in \<open>simp add: shift_outcome_def SHL_EdR_def Let_def shift_count_def[symmetric]\<close>)

lemma shr32_outcome:
  "shift_outcome c (SHR_EdR i s) (BX_CLEAR_64BIT_HIGH (dst i) s) (BX_WRITE_32BIT_REGZ (dst i) (shr_value c a) s) (shr_flags c a)"
  if "c = shift_count BX_IA_SHR_Ed i s AND 0x1f" "a = BX_READ_32BIT_REG (dst i) s"
proof (cases "c = 0")
  case False
  let ?r = "drop_bit c a"
  have cn: "c \<le> 32" unfolding that(1) and_low_bits by (rule less_imp_le, rule less_le_trans[OF mod_less_divisor]) simp_all
  have "with_flags (SHR_EdR i s) (BX_WRITE_32BIT_REGZ (dst i) ?r s) (shr_flags c a)"
  proof (rule shift_done)
    show "SHR_EdR i s = upd_oszapc (set_flags_OxxxxC (of_bool (bit ?r 30 \<noteq> bit ?r 31)) (of_bool (bit a (c - 1))))
      (upd_oszapc (SET_FLAGS_OSZAPC_LOGIC_32 ?r) (BX_WRITE_32BIT_REGZ (dst i) ?r s))"
      using False by (simp only: SHR_EdR_def Let_def shift_count_def[symmetric] that[symmetric] if_False
        carry_forms)
    show "shr_flags c a = shift_flags ?r (bit ?r 30 \<noteq> bit ?r 31) (bit a (c - 1))" using shr_flags_eq[of c a] False by simp
  qed (rule flags_LOGIC)
  then show ?thesis using False by (simp add: shift_outcome_def shr_value_drop)
qed (use that in \<open>simp add: shift_outcome_def SHR_EdR_def Let_def shift_count_def[symmetric]\<close>)

lemma sar32_outcome:
  "shift_outcome c (SAR_EdR i s) (BX_CLEAR_64BIT_HIGH (dst i) s) (BX_WRITE_32BIT_REGZ (dst i) (sar_value c a) s) (sar_flags c a)"
  if "c = shift_count BX_IA_SAR_Ed i s AND 0x1f" "a = BX_READ_32BIT_REG (dst i) s"
proof (cases "c = 0")
  case False
  let ?r = "signed_drop_bit c a"
  have cn: "c \<le> 32" unfolding that(1) and_low_bits by (rule less_imp_le, rule less_le_trans[OF mod_less_divisor]) simp_all
  have "with_flags (SAR_EdR i s) (BX_WRITE_32BIT_REGZ (dst i) ?r s) (sar_flags c a)"
  proof (rule shift_done)
    show "SAR_EdR i s = upd_oszapc (set_flags_OxxxxC (of_bool False) (of_bool (bit a (c - 1))))
      (upd_oszapc (SET_FLAGS_OSZAPC_LOGIC_32 ?r) (BX_WRITE_32BIT_REGZ (dst i) ?r s))"
      using False by (simp only: SAR_EdR_def Let_def shift_count_def[symmetric] that[symmetric] if_False
        carry_forms of_bool_eq(1))
    show "sar_flags c a = shift_flags ?r False (bit a (c - 1))" using sar_flags_eq(2)[of c a] False cn by simp
  qed (rule flags_LOGIC)
  then show ?thesis using False by (simp add: shift_outcome_def sar_value_drop)
qed (use that in \<open>simp add: shift_outcome_def SAR_EdR_def Let_def shift_count_def[symmetric]\<close>)

lemma shl64_outcome:
  "shift_outcome c (SHL_EqR i s) (s) (BX_WRITE_64BIT_REG (dst i) (shl_value c a) s) (shl_flags c a)"
  if "c = shift_count BX_IA_SHL_Eq i s AND 0x3f" "a = BX_READ_64BIT_REG (dst i) s"
proof (cases "c = 0")
  case False
  let ?r = "push_bit c a"
  have cn: "c \<le> 64" unfolding that(1) and_low_bits by (rule less_imp_le, rule less_le_trans[OF mod_less_divisor]) simp_all
  have "with_flags (SHL_EqR i s) (BX_WRITE_64BIT_REG (dst i) ?r s) (shl_flags c a)"
  proof (rule shift_done)
    show "SHL_EqR i s = upd_oszapc (set_flags_OxxxxC (of_bool (bit a (64 - c) \<noteq> bit (push_bit c a) 63)) (of_bool (bit a (64 - c))))
      (upd_oszapc (SET_FLAGS_OSZAPC_LOGIC_64 ?r) (BX_WRITE_64BIT_REG (dst i) ?r s))"
      using False by (simp only: SHL_EqR_def Let_def shift_count_def[symmetric] that[symmetric] if_False
        carry_forms)
    show "shl_flags c a = shift_flags ?r (bit a (64 - c) \<noteq> bit (push_bit c a) 63) (bit a (64 - c))" using shl_flags_eq[of c a] cn by simp
  qed (rule flags_LOGIC)
  then show ?thesis using False by (simp add: shift_outcome_def shl_value_push)
qed (use that in \<open>simp add: shift_outcome_def SHL_EqR_def Let_def shift_count_def[symmetric]\<close>)

lemma shr64_outcome:
  "shift_outcome c (SHR_EqR i s) (s) (BX_WRITE_64BIT_REG (dst i) (shr_value c a) s) (shr_flags c a)"
  if "c = shift_count BX_IA_SHR_Eq i s AND 0x3f" "a = BX_READ_64BIT_REG (dst i) s"
proof (cases "c = 0")
  case False
  let ?r = "drop_bit c a"
  have cn: "c \<le> 64" unfolding that(1) and_low_bits by (rule less_imp_le, rule less_le_trans[OF mod_less_divisor]) simp_all
  have "with_flags (SHR_EqR i s) (BX_WRITE_64BIT_REG (dst i) ?r s) (shr_flags c a)"
  proof (rule shift_done)
    show "SHR_EqR i s = upd_oszapc (set_flags_OxxxxC (of_bool (bit ?r 62 \<noteq> bit ?r 63)) (of_bool (bit a (c - 1))))
      (upd_oszapc (SET_FLAGS_OSZAPC_LOGIC_64 ?r) (BX_WRITE_64BIT_REG (dst i) ?r s))"
      using False by (simp only: SHR_EqR_def Let_def shift_count_def[symmetric] that[symmetric] if_False
        carry_forms)
    show "shr_flags c a = shift_flags ?r (bit ?r 62 \<noteq> bit ?r 63) (bit a (c - 1))" using shr_flags_eq[of c a] False by simp
  qed (rule flags_LOGIC)
  then show ?thesis using False by (simp add: shift_outcome_def shr_value_drop)
qed (use that in \<open>simp add: shift_outcome_def SHR_EqR_def Let_def shift_count_def[symmetric]\<close>)

lemma sar64_outcome:
  "shift_outcome c (SAR_EqR i s) (s) (BX_WRITE_64BIT_REG (dst i) (sar_value c a) s) (sar_flags c a)"
  if "c = shift_count BX_IA_SAR_Eq i s AND 0x3f" "a = BX_READ_64BIT_REG (dst i) s"
proof (cases "c = 0")
  case False
  let ?r = "signed_drop_bit c a"
  have cn: "c \<le> 64" unfolding that(1) and_low_bits by (rule less_imp_le, rule less_le_trans[OF mod_less_divisor]) simp_all
  have "with_flags (SAR_EqR i s) (BX_WRITE_64BIT_REG (dst i) ?r s) (sar_flags c a)"
  proof (rule shift_done)
    show "SAR_EqR i s = upd_oszapc (set_flags_OxxxxC (of_bool False) (of_bool (bit a (c - 1))))
      (upd_oszapc (SET_FLAGS_OSZAPC_LOGIC_64 ?r) (BX_WRITE_64BIT_REG (dst i) ?r s))"
      using False by (simp only: SAR_EqR_def Let_def shift_count_def[symmetric] that[symmetric] if_False
        carry_forms of_bool_eq(1))
    show "sar_flags c a = shift_flags ?r False (bit a (c - 1))" using sar_flags_eq(2)[of c a] False cn by simp
  qed (rule flags_LOGIC)
  then show ?thesis using False by (simp add: shift_outcome_def sar_value_drop)
qed (use that in \<open>simp add: shift_outcome_def SAR_EqR_def Let_def shift_count_def[symmetric]\<close>)


section \<open>Rotations\<close>

definition rol_flags :: "('a::len) word \<Rightarrow> bx_cpu \<Rightarrow> oszapc_flags" where
  "rol_flags r s = (cpu_flags s)\<lparr>fOF := bit r 0 \<noteq> bit r (LENGTH('a) - 1), fCF := bit r 0\<rparr>"

definition ror_flags :: "('a::len) word \<Rightarrow> bx_cpu \<Rightarrow> oszapc_flags" where
  "ror_flags r s = (cpu_flags s)\<lparr>fOF := bit r (LENGTH('a) - 2) \<noteq> bit r (LENGTH('a) - 1), fCF := bit r (LENGTH('a) - 1)\<rparr>"

lemma rotl_idiom:
  "0 < c \<Longrightarrow> c < LENGTH('a) \<Longrightarrow> push_bit c v OR drop_bit (LENGTH('a) - c) v = word_rotl c (v :: ('a::len) word)"
  by (rule bit_word_eqI) (auto simp: bit_rotate_left bit_word_rotl_iff mod_if)

lemma rotr_idiom:
  "0 < c \<Longrightarrow> c < LENGTH('a) \<Longrightarrow> drop_bit c v OR push_bit (LENGTH('a) - c) v = word_rotr c (v :: ('a::len) word)"
  by (rule bit_word_eqI) (auto simp: bit_rotate_right bit_word_rotr_iff mod_if)

lemma rol_ror_word:
  "0 < c \<Longrightarrow> c < 8 \<Longrightarrow> rol8 v8 c = word_rotl c v8" "0 < c \<Longrightarrow> c < 16 \<Longrightarrow> rol16 v16 c = word_rotl c v16"
  "0 < c \<Longrightarrow> c < 32 \<Longrightarrow> rol32 v32 c = word_rotl c v32" "0 < c \<Longrightarrow> c < 64 \<Longrightarrow> rol64 v64 c = word_rotl c v64"
  "0 < c \<Longrightarrow> c < 8 \<Longrightarrow> ror8 v8 c = word_rotr c v8" "0 < c \<Longrightarrow> c < 16 \<Longrightarrow> ror16 v16 c = word_rotr c v16"
  "0 < c \<Longrightarrow> c < 32 \<Longrightarrow> ror32 v32 c = word_rotr c v32" "0 < c \<Longrightarrow> c < 64 \<Longrightarrow> ror64 v64 c = word_rotr c v64"
  using rotl_idiom[of c v8] rotl_idiom[of c v16] rotl_idiom[of c v32] rotl_idiom[of c v64]
    rotr_idiom[of c v8] rotr_idiom[of c v16] rotr_idiom[of c v32] rotr_idiom[of c v64]
  by (simp_all add: rol8_def rol16_def rol32_def rol64_def ror8_def ror16_def ror32_def ror64_def)

lemma rot_mod: "word_rotl (c mod LENGTH('a)) v = word_rotl c v" "word_rotr (c mod LENGTH('a)) v = word_rotr c v"
  for v :: "('a::len) word"
  by (rule bit_word_eqI, simp add: bit_word_rotl_iff bit_word_rotr_iff mod_add_right_eq)+

lemma rot_zero: "word_rotl 0 v = v" "word_rotr 0 v = v" for v :: "('a::len) word"
  by (rule bit_word_eqI, simp add: bit_word_rotl_iff bit_word_rotr_iff)+

lemma write_back [simp]:
  "BX_WRITE_8BIT_REGx r x (BX_READ_8BIT_REGx r x s) s = s" "BX_WRITE_16BIT_REG r (BX_READ_16BIT_REG r s) s = s"
proof -
  have "reg_set_rl (reg_rl v) v = v" "reg_set_rh (reg_rh v) v = v" "reg_set_rx (reg_rx v) v = v" for v
    by (rule bit_word_eqI, auto simp: reg_view_defs reg_bit_rules dest: bit_imp_le_length)+
  then show "BX_WRITE_8BIT_REGx r x (BX_READ_8BIT_REGx r x s) s = s" "BX_WRITE_16BIT_REG r (BX_READ_16BIT_REG r s) s = s"
    by (simp_all add: reg_access_defs set_gen_reg_def)
qed

text \<open>The byte and word forms test the low bits of the count and the remaining masked bits apart.\<close>

lemma masked_count_zero:
  "x AND 0x1f = 0 \<longleftrightarrow> x AND 0x07 = 0 \<and> x AND 0x18 = 0" "x AND 0x1f = 0 \<longleftrightarrow> x AND 0x0f = 0 \<and> x AND 0x10 = 0"
  for x :: nat
proof -
  have d: "x AND (a OR b) = (x AND a) OR (x AND b)" for a b
    by (auto simp: bit_eq_iff bit_and_iff bit_or_iff)
  have e: "x AND 0x1f = (x AND 0x07) OR (x AND 0x18)" "x AND 0x1f = (x AND 0x0f) OR (x AND 0x10)"
    using d[of 7 24] d[of 15 16] by simp_all
  show "x AND 0x1f = 0 \<longleftrightarrow> x AND 0x07 = 0 \<and> x AND 0x18 = 0" unfolding e(1) by (simp only: or_eq_0_iff)
  show "x AND 0x1f = 0 \<longleftrightarrow> x AND 0x0f = 0 \<and> x AND 0x10 = 0" unfolding e(2) by (simp only: or_eq_0_iff)
qed

lemma masked_count_mod: "(x AND 0x1f) mod 8 = x AND 0x07" "(x AND 0x1f) mod 16 = x AND 0x0f" for x :: nat
  by (simp_all add: and_low_bits mod_mod_cancel)

lemma rol8_outcome:
  "shift_outcome c (ROL_EbR i s) (s) (BX_WRITE_8BIT_REGx (dst i) (extend8bitL i) (word_rotl c a) s) (rol_flags (word_rotl c a) s)"
  if "c = shift_count BX_IA_ROL_Eb i s AND 0x1f" "a = BX_READ_8BIT_REGx (dst i) (extend8bitL i) s"
proof (cases "c = 0")
  case False
  let ?r = "word_rotl c a" and ?k = "shift_count BX_IA_ROL_Eb i s"
  have rot: "word_rotl (?k AND 0x07) a = ?r"
    unfolding that(1) masked_count_mod[symmetric] using rot_mod[where 'a = 8] by simp
  have "with_flags (ROL_EbR i s) (BX_WRITE_8BIT_REGx (dst i) (extend8bitL i) ?r s) (rol_flags ?r s)"
  proof (rule rotate_done)
    show "ROL_EbR i s = upd_oszapc (set_flags_OxxxxC (of_bool (bit (?r) 0 \<noteq> bit (?r) 7)) (of_bool (bit (?r) 0))) (BX_WRITE_8BIT_REGx (dst i) (extend8bitL i) ?r s)"
    proof (cases "?k AND 0x07 = 0")
      case True
      then have "?k AND 0x18 \<noteq> 0" "?r = a" using False rot by (simp_all add: that(1) masked_count_zero(1) rot_zero)
      then show ?thesis using True
        by (simp only: ROL_EbR_def Let_def shift_count_def[symmetric] that(2)[symmetric] if_True if_False
          simp_thms carry_forms) (simp add: that(2))
    next
      case False
      have "?k AND 0x07 < 8" by (simp add: and_low_bits)
      then have "rol8 a (?k AND 0x07) = ?r" using False rot by (simp add: rol_ror_word)
      then show ?thesis using False
        by (simp only: ROL_EbR_def Let_def shift_count_def[symmetric] that(2)[symmetric] if_True if_False
          simp_thms carry_forms)
    qed
  qed (simp_all add: rol_flags_def)
  then show ?thesis using False by (simp add: shift_outcome_def)
qed (use that in \<open>simp add: shift_outcome_def ROL_EbR_def Let_def shift_count_def[symmetric] masked_count_zero(1)\<close>)

lemma ror8_outcome:
  "shift_outcome c (ROR_EbR i s) (s) (BX_WRITE_8BIT_REGx (dst i) (extend8bitL i) (word_rotr c a) s) (ror_flags (word_rotr c a) s)"
  if "c = shift_count BX_IA_ROR_Eb i s AND 0x1f" "a = BX_READ_8BIT_REGx (dst i) (extend8bitL i) s"
proof (cases "c = 0")
  case False
  let ?r = "word_rotr c a" and ?k = "shift_count BX_IA_ROR_Eb i s"
  have rot: "word_rotr (?k AND 0x07) a = ?r"
    unfolding that(1) masked_count_mod[symmetric] using rot_mod[where 'a = 8] by simp
  have "with_flags (ROR_EbR i s) (BX_WRITE_8BIT_REGx (dst i) (extend8bitL i) ?r s) (ror_flags ?r s)"
  proof (rule rotate_done)
    show "ROR_EbR i s = upd_oszapc (set_flags_OxxxxC (of_bool (bit (?r) 6 \<noteq> bit (?r) 7)) (of_bool (bit (?r) 7))) (BX_WRITE_8BIT_REGx (dst i) (extend8bitL i) ?r s)"
    proof (cases "?k AND 0x07 = 0")
      case True
      then have "?k AND 0x18 \<noteq> 0" "?r = a" using False rot by (simp_all add: that(1) masked_count_zero(1) rot_zero)
      then show ?thesis using True
        by (simp only: ROR_EbR_def Let_def shift_count_def[symmetric] that(2)[symmetric] if_True if_False
          simp_thms carry_forms) (simp add: that(2))
    next
      case False
      have "?k AND 0x07 < 8" by (simp add: and_low_bits)
      then have "ror8 a (?k AND 0x07) = ?r" using False rot by (simp add: rol_ror_word)
      then show ?thesis using False
        by (simp only: ROR_EbR_def Let_def shift_count_def[symmetric] that(2)[symmetric] if_True if_False
          simp_thms carry_forms)
    qed
  qed (simp_all add: ror_flags_def)
  then show ?thesis using False by (simp add: shift_outcome_def)
qed (use that in \<open>simp add: shift_outcome_def ROR_EbR_def Let_def shift_count_def[symmetric] masked_count_zero(1)\<close>)

lemma rol16_outcome:
  "shift_outcome c (ROL_EwR i s) (s) (BX_WRITE_16BIT_REG (dst i) (word_rotl c a) s) (rol_flags (word_rotl c a) s)"
  if "c = shift_count BX_IA_ROL_Ew i s AND 0x1f" "a = BX_READ_16BIT_REG (dst i) s"
proof (cases "c = 0")
  case False
  let ?r = "word_rotl c a" and ?k = "shift_count BX_IA_ROL_Ew i s"
  have rot: "word_rotl (?k AND 0x0f) a = ?r"
    unfolding that(1) masked_count_mod[symmetric] using rot_mod[where 'a = 16] by simp
  have "with_flags (ROL_EwR i s) (BX_WRITE_16BIT_REG (dst i) ?r s) (rol_flags ?r s)"
  proof (rule rotate_done)
    show "ROL_EwR i s = upd_oszapc (set_flags_OxxxxC (of_bool (bit (?r) 0 \<noteq> bit (?r) 15)) (of_bool (bit (?r) 0))) (BX_WRITE_16BIT_REG (dst i) ?r s)"
    proof (cases "?k AND 0x0f = 0")
      case True
      then have "?k AND 0x10 \<noteq> 0" "?r = a" using False rot by (simp_all add: that(1) masked_count_zero(2) rot_zero)
      then show ?thesis using True
        by (simp only: ROL_EwR_def Let_def shift_count_def[symmetric] that(2)[symmetric] if_True if_False
          simp_thms carry_forms) (simp add: that(2))
    next
      case False
      have "?k AND 0x0f < 16" by (simp add: and_low_bits)
      then have "rol16 a (?k AND 0x0f) = ?r" using False rot by (simp add: rol_ror_word)
      then show ?thesis using False
        by (simp only: ROL_EwR_def Let_def shift_count_def[symmetric] that(2)[symmetric] if_True if_False
          simp_thms carry_forms)
    qed
  qed (simp_all add: rol_flags_def)
  then show ?thesis using False by (simp add: shift_outcome_def)
qed (use that in \<open>simp add: shift_outcome_def ROL_EwR_def Let_def shift_count_def[symmetric] masked_count_zero(2)\<close>)

lemma ror16_outcome:
  "shift_outcome c (ROR_EwR i s) (s) (BX_WRITE_16BIT_REG (dst i) (word_rotr c a) s) (ror_flags (word_rotr c a) s)"
  if "c = shift_count BX_IA_ROR_Ew i s AND 0x1f" "a = BX_READ_16BIT_REG (dst i) s"
proof (cases "c = 0")
  case False
  let ?r = "word_rotr c a" and ?k = "shift_count BX_IA_ROR_Ew i s"
  have rot: "word_rotr (?k AND 0x0f) a = ?r"
    unfolding that(1) masked_count_mod[symmetric] using rot_mod[where 'a = 16] by simp
  have "with_flags (ROR_EwR i s) (BX_WRITE_16BIT_REG (dst i) ?r s) (ror_flags ?r s)"
  proof (rule rotate_done)
    show "ROR_EwR i s = upd_oszapc (set_flags_OxxxxC (of_bool (bit (?r) 14 \<noteq> bit (?r) 15)) (of_bool (bit (?r) 15))) (BX_WRITE_16BIT_REG (dst i) ?r s)"
    proof (cases "?k AND 0x0f = 0")
      case True
      then have "?k AND 0x10 \<noteq> 0" "?r = a" using False rot by (simp_all add: that(1) masked_count_zero(2) rot_zero)
      then show ?thesis using True
        by (simp only: ROR_EwR_def Let_def shift_count_def[symmetric] that(2)[symmetric] if_True if_False
          simp_thms carry_forms) (simp add: that(2))
    next
      case False
      have "?k AND 0x0f < 16" by (simp add: and_low_bits)
      then have "ror16 a (?k AND 0x0f) = ?r" using False rot by (simp add: rol_ror_word)
      then show ?thesis using False
        by (simp only: ROR_EwR_def Let_def shift_count_def[symmetric] that(2)[symmetric] if_True if_False
          simp_thms carry_forms)
    qed
  qed (simp_all add: ror_flags_def)
  then show ?thesis using False by (simp add: shift_outcome_def)
qed (use that in \<open>simp add: shift_outcome_def ROR_EwR_def Let_def shift_count_def[symmetric] masked_count_zero(2)\<close>)

lemma rol32_outcome:
  "shift_outcome c (ROL_EdR i s) (BX_CLEAR_64BIT_HIGH (dst i) s) (BX_WRITE_32BIT_REGZ (dst i) (word_rotl c a) s) (rol_flags (word_rotl c a) s)"
  if "c = shift_count BX_IA_ROL_Ed i s AND 0x1f" "a = BX_READ_32BIT_REG (dst i) s"
proof (cases "c = 0")
  case False
  let ?r = "word_rotl c a"
  have "c < 32" unfolding that(1) and_low_bits by simp
  then have r: "rol32 a c = ?r" using False by (simp add: rol_ror_word)
  have "with_flags (ROL_EdR i s) (BX_WRITE_32BIT_REGZ (dst i) ?r s) (rol_flags ?r s)"
  proof (rule rotate_done)
    show "ROL_EdR i s = upd_oszapc (set_flags_OxxxxC (of_bool (bit (?r) 0 \<noteq> bit (?r) 31)) (of_bool (bit (?r) 0))) (BX_WRITE_32BIT_REGZ (dst i) ?r s)"
      using False by (simp only: ROL_EdR_def Let_def shift_count_def[symmetric] that[symmetric] if_False
        carry_forms r)
  qed (simp_all add: rol_flags_def)
  then show ?thesis using False by (simp add: shift_outcome_def)
qed (use that in \<open>simp add: shift_outcome_def ROL_EdR_def Let_def shift_count_def[symmetric]\<close>)

lemma ror32_outcome:
  "shift_outcome c (ROR_EdR i s) (BX_CLEAR_64BIT_HIGH (dst i) s) (BX_WRITE_32BIT_REGZ (dst i) (word_rotr c a) s) (ror_flags (word_rotr c a) s)"
  if "c = shift_count BX_IA_ROR_Ed i s AND 0x1f" "a = BX_READ_32BIT_REG (dst i) s"
proof (cases "c = 0")
  case False
  let ?r = "word_rotr c a"
  have "c < 32" unfolding that(1) and_low_bits by simp
  then have r: "ror32 a c = ?r" using False by (simp add: rol_ror_word)
  have "with_flags (ROR_EdR i s) (BX_WRITE_32BIT_REGZ (dst i) ?r s) (ror_flags ?r s)"
  proof (rule rotate_done)
    show "ROR_EdR i s = upd_oszapc (set_flags_OxxxxC (of_bool (bit (?r) 30 \<noteq> bit (?r) 31)) (of_bool (bit (?r) 31))) (BX_WRITE_32BIT_REGZ (dst i) ?r s)"
      using False by (simp only: ROR_EdR_def Let_def shift_count_def[symmetric] that[symmetric] if_False
        carry_forms r)
  qed (simp_all add: ror_flags_def)
  then show ?thesis using False by (simp add: shift_outcome_def)
qed (use that in \<open>simp add: shift_outcome_def ROR_EdR_def Let_def shift_count_def[symmetric]\<close>)

lemma rol64_outcome:
  "shift_outcome c (ROL_EqR i s) (s) (BX_WRITE_64BIT_REG (dst i) (word_rotl c a) s) (rol_flags (word_rotl c a) s)"
  if "c = shift_count BX_IA_ROL_Eq i s AND 0x3f" "a = BX_READ_64BIT_REG (dst i) s"
proof (cases "c = 0")
  case False
  let ?r = "word_rotl c a"
  have "c < 64" unfolding that(1) and_low_bits by simp
  then have r: "rol64 a c = ?r" using False by (simp add: rol_ror_word)
  have "with_flags (ROL_EqR i s) (BX_WRITE_64BIT_REG (dst i) ?r s) (rol_flags ?r s)"
  proof (rule rotate_done)
    show "ROL_EqR i s = upd_oszapc (set_flags_OxxxxC (of_bool (bit (?r) 0 \<noteq> bit (?r) 63)) (of_bool (bit (?r) 0))) (BX_WRITE_64BIT_REG (dst i) ?r s)"
      using False by (simp only: ROL_EqR_def Let_def shift_count_def[symmetric] that[symmetric] if_False
        carry_forms r)
  qed (simp_all add: rol_flags_def)
  then show ?thesis using False by (simp add: shift_outcome_def)
qed (use that in \<open>simp add: shift_outcome_def ROL_EqR_def Let_def shift_count_def[symmetric]\<close>)

lemma ror64_outcome:
  "shift_outcome c (ROR_EqR i s) (s) (BX_WRITE_64BIT_REG (dst i) (word_rotr c a) s) (ror_flags (word_rotr c a) s)"
  if "c = shift_count BX_IA_ROR_Eq i s AND 0x3f" "a = BX_READ_64BIT_REG (dst i) s"
proof (cases "c = 0")
  case False
  let ?r = "word_rotr c a"
  have "c < 64" unfolding that(1) and_low_bits by simp
  then have r: "ror64 a c = ?r" using False by (simp add: rol_ror_word)
  have "with_flags (ROR_EqR i s) (BX_WRITE_64BIT_REG (dst i) ?r s) (ror_flags ?r s)"
  proof (rule rotate_done)
    show "ROR_EqR i s = upd_oszapc (set_flags_OxxxxC (of_bool (bit (?r) 62 \<noteq> bit (?r) 63)) (of_bool (bit (?r) 63))) (BX_WRITE_64BIT_REG (dst i) ?r s)"
      using False by (simp only: ROR_EqR_def Let_def shift_count_def[symmetric] that[symmetric] if_False
        carry_forms r)
  qed (simp_all add: ror_flags_def)
  then show ?thesis using False by (simp add: shift_outcome_def)
qed (use that in \<open>simp add: shift_outcome_def ROR_EqR_def Let_def shift_count_def[symmetric]\<close>)


section \<open>Rotations through the carry flag\<close>

text \<open>The operand with the carry flag above its top bit, as a word one bit wider.\<close>

definition carry_word :: "bool \<Rightarrow> ('a::len) word \<Rightarrow> ('b::len) word" where
  "carry_word cf a = push_bit LENGTH('a) (of_bool cf) OR ucast a"

definition rc_value :: "('b::len) word \<Rightarrow> ('a::len) word" where
  "rc_value x = ucast x"

definition rcl_flags :: "('b::len) word \<Rightarrow> bx_cpu \<Rightarrow> oszapc_flags" where
  "rcl_flags x s = (cpu_flags s)\<lparr>fOF := bit x (LENGTH('b) - 1) \<noteq> bit x (LENGTH('b) - 2), fCF := bit x (LENGTH('b) - 1)\<rparr>"

definition rcr_flags :: "('b::len) word \<Rightarrow> bx_cpu \<Rightarrow> oszapc_flags" where
  "rcr_flags x s = (cpu_flags s)\<lparr>fOF := bit x (LENGTH('b) - 3) \<noteq> bit x (LENGTH('b) - 2), fCF := bit x (LENGTH('b) - 1)\<rparr>"

lemma bit_carry_word:
  assumes "LENGTH('b) = Suc LENGTH('a)"
  shows "bit (carry_word cf (a :: ('a::len) word) :: ('b::len) word) k \<longleftrightarrow> (if k = LENGTH('a) then cf else bit a k)"
  using assms by (auto simp: carry_word_def bit_or_iff bit_push_bit_iff bit_ucast_iff dest: bit_imp_le_length)

lemma rcl_word:
  fixes a :: "('a::len) word" and cf :: bool
  assumes "LENGTH('b) = Suc LENGTH('a)" "0 < c" "c \<le> LENGTH('a)"
  defines "x \<equiv> word_rotl c (carry_word cf a :: ('b::len) word)"
  shows "push_bit c a OR push_bit (c - 1) (of_bool cf) OR drop_bit (Suc LENGTH('a) - c) a = rc_value x"
    and "bit a (LENGTH('a) - c) = bit x LENGTH('a)"
proof -
  have x: "bit x k \<longleftrightarrow> (if c \<le> k then bit a (k - c) else if Suc k = c then cf else bit a (k + Suc LENGTH('a) - c))"
    if "k < Suc LENGTH('a)" for k
    using that assms(2,3) by (auto simp: x_def bit_word_rotl_iff assms(1) mod_if bit_carry_word[OF assms(1)])
  show "bit a (LENGTH('a) - c) = bit x LENGTH('a)" using assms(3) by (simp add: x)
  show "push_bit c a OR push_bit (c - 1) (of_bool cf) OR drop_bit (Suc LENGTH('a) - c) a = rc_value x"
  proof (rule bit_word_eqI)
    fix k assume "k < LENGTH('a)"
    then show "bit (push_bit c a OR push_bit (c - 1) (of_bool cf) OR drop_bit (Suc LENGTH('a) - c) a) k = bit (rc_value x :: 'a word) k"
      using assms(2,3)
      by (auto simp: rc_value_def bit_ucast_iff x bit_or_iff bit_push_bit_iff bit_drop_bit_eq bit_1_iff add.commute
          dest: bit_imp_le_length)
  qed
qed

lemma rcr_word:
  fixes a :: "('a::len) word" and cf :: bool
  assumes "LENGTH('b) = Suc LENGTH('a)" "0 < c" "c \<le> LENGTH('a)"
  defines "x \<equiv> word_rotr c (carry_word cf a :: ('b::len) word)"
  shows "drop_bit c a OR push_bit (LENGTH('a) - c) (of_bool cf) OR push_bit (Suc LENGTH('a) - c) a = rc_value x"
    and "bit a (c - 1) = bit x LENGTH('a)"
proof -
  have x: "bit x k \<longleftrightarrow> (if k + c < LENGTH('a) then bit a (k + c) else if k + c = LENGTH('a) then cf
      else bit a (k + c - Suc LENGTH('a)))"
    if "k < Suc LENGTH('a)" for k
    using that assms(2,3) by (auto simp: x_def bit_word_rotr_iff assms(1) mod_if bit_carry_word[OF assms(1)])
  show "bit a (c - 1) = bit x LENGTH('a)" using assms(2) by (simp add: x)
  show "drop_bit c a OR push_bit (LENGTH('a) - c) (of_bool cf) OR push_bit (Suc LENGTH('a) - c) a = rc_value x"
  proof (rule bit_word_eqI)
    fix k assume "k < LENGTH('a)"
    then show "bit (drop_bit c a OR push_bit (LENGTH('a) - c) (of_bool cf) OR push_bit (Suc LENGTH('a) - c) a) k = bit (rc_value x :: 'a word) k"
      using assms(2,3)
      by (auto simp: rc_value_def bit_ucast_iff x bit_or_iff bit_push_bit_iff bit_drop_bit_eq bit_1_iff add.commute
          dest: bit_imp_le_length)
  qed
qed

lemma bit_rc_value: "LENGTH('b) = Suc LENGTH('a) \<Longrightarrow> k < LENGTH('a) \<Longrightarrow> bit (rc_value (x :: ('b::len) word) :: ('a::len) word) k = bit x k"
  by (simp add: rc_value_def bit_ucast_iff)

lemma rc_branches:
  fixes a :: "('a::len) word"
  shows "push_bit 1 a OR y = push_bit 1 a OR push_bit (1 - 1) y OR drop_bit LENGTH('a) a"
    and "push_bit (LENGTH('a) - 1) y OR drop_bit 1 a = push_bit LENGTH('a) a OR push_bit (LENGTH('a) - 1) y OR drop_bit 1 a"
    and "drop_bit 1 a OR y = drop_bit 1 a OR y OR push_bit LENGTH('a) a"
proof -
  have "drop_bit LENGTH('a) a = 0" "push_bit LENGTH('a) a = 0"
    by (auto simp: bit_eq_iff bit_drop_bit_eq bit_push_bit_iff dest: bit_imp_le_length)
  then show "push_bit 1 a OR y = push_bit 1 a OR push_bit (1 - 1) y OR drop_bit LENGTH('a) a"
    "push_bit (LENGTH('a) - 1) y OR drop_bit 1 a = push_bit LENGTH('a) a OR push_bit (LENGTH('a) - 1) y OR drop_bit 1 a"
    "drop_bit 1 a OR y = drop_bit 1 a OR y OR push_bit LENGTH('a) a"
    by simp_all
qed

lemma rcl8_outcome:
  "shift_outcome (c mod 9) (RCL_EbR i s) (s) (BX_WRITE_8BIT_REGx (dst i) (extend8bitL i) (rc_value (word_rotl c x)) s) (rcl_flags (word_rotl c x) s)"
  if "c = shift_count BX_IA_RCL_Eb i s AND 0x1f" "a = BX_READ_8BIT_REGx (dst i) (extend8bitL i) s"
    "x = (carry_word (fCF (cpu_flags s)) a :: 9 word)"
proof (cases "(c mod 9) = 0")
  case False
  let ?x = "word_rotl c x" and ?k = "c mod 9" and ?cf = "of_bool (fCF (cpu_flags s)) :: Bit8u"
  let ?r = "rc_value ?x :: Bit8u"
  have kn: "?k \<le> 8" using mod_less_divisor[of 9 c] by linarith
  have rot: "word_rotl ?k x = ?x" using rot_mod[where 'a = 9] by simp
  have gen: "push_bit ?k a OR push_bit (?k - 1) (?cf) OR drop_bit (9 - ?k) a = ?r" and cf: "bit a (8 - ?k) = bit ?x 8"
    using rcl_word[where 'a = 8 and 'b = 9, of ?k a "fCF (cpu_flags s)"] kn False by (simp_all add: that(3)[symmetric] rot)
  have code: "(if ?k = 1 then push_bit 1 a OR ?cf else push_bit ?k a OR push_bit (?k - 1) (?cf) OR drop_bit (9 - ?k) a) = ?r"
    unfolding gen[symmetric] using rc_branches(1)[of a] by (simp split: if_split)
  have "with_flags (RCL_EbR i s) (BX_WRITE_8BIT_REGx (dst i) (extend8bitL i) ?r s) (rcl_flags ?x s)"
  proof (rule rotate_done)
    show "RCL_EbR i s = upd_oszapc (set_flags_OxxxxC (of_bool (bit a (8 - ?k) \<noteq> bit ?r 7)) (of_bool (bit a (8 - ?k)))) (BX_WRITE_8BIT_REGx (dst i) (extend8bitL i) ?r s)"
      using False by (simp only: RCL_EbR_def Let_def shift_count_def[symmetric] that(1,2)[symmetric] if_False
        getB_flags(6) ucast_of_bool code carry_forms)
  qed (simp_all only: rcl_flags_def cf bit_rc_value write_oszapc, simp add: bit_rc_value cf)
  then show ?thesis using False by (simp add: shift_outcome_def)
qed (use that in \<open>simp add: shift_outcome_def RCL_EbR_def Let_def shift_count_def[symmetric]\<close>)

lemma rcr8_outcome:
  "shift_outcome (c mod 9) (RCR_EbR i s) (s) (BX_WRITE_8BIT_REGx (dst i) (extend8bitL i) (rc_value (word_rotr c x)) s) (rcr_flags (word_rotr c x) s)"
  if "c = shift_count BX_IA_RCR_Eb i s AND 0x1f" "a = BX_READ_8BIT_REGx (dst i) (extend8bitL i) s"
    "x = (carry_word (fCF (cpu_flags s)) a :: 9 word)"
proof (cases "(c mod 9) = 0")
  case False
  let ?x = "word_rotr c x" and ?k = "c mod 9" and ?cf = "of_bool (fCF (cpu_flags s)) :: Bit8u"
  let ?r = "rc_value ?x :: Bit8u"
  have kn: "?k \<le> 8" using mod_less_divisor[of 9 c] by linarith
  have rot: "word_rotr ?k x = ?x" using rot_mod[where 'a = 9] by simp
  have gen: "drop_bit ?k a OR push_bit (8 - ?k) (?cf) OR push_bit (9 - ?k) a = ?r" and cf: "bit a (?k - 1) = bit ?x 8"
    using rcr_word[where 'a = 8 and 'b = 9, of ?k a "fCF (cpu_flags s)"] kn False by (simp_all add: that(3)[symmetric] rot)
  have code: "drop_bit ?k a OR push_bit (8 - ?k) (?cf) OR push_bit (9 - ?k) a = ?r"
    unfolding gen[symmetric] using rc_branches(3)[of a] by (simp split: if_split)
  have "with_flags (RCR_EbR i s) (BX_WRITE_8BIT_REGx (dst i) (extend8bitL i) ?r s) (rcr_flags ?x s)"
  proof (rule rotate_done)
    show "RCR_EbR i s = upd_oszapc (set_flags_OxxxxC (of_bool (bit ?r 6 \<noteq> bit ?r 7)) (of_bool (bit a (?k - 1)))) (BX_WRITE_8BIT_REGx (dst i) (extend8bitL i) ?r s)"
      using False by (simp only: RCR_EbR_def Let_def shift_count_def[symmetric] that(1,2)[symmetric] if_False
        getB_flags(6) ucast_of_bool code carry_forms)
  qed (simp_all only: rcr_flags_def cf bit_rc_value write_oszapc, simp add: bit_rc_value cf)
  then show ?thesis using False by (simp add: shift_outcome_def)
qed (use that in \<open>simp add: shift_outcome_def RCR_EbR_def Let_def shift_count_def[symmetric]\<close>)

lemma rcl16_outcome:
  "shift_outcome (c mod 17) (RCL_EwR i s) (s) (BX_WRITE_16BIT_REG (dst i) (rc_value (word_rotl c x)) s) (rcl_flags (word_rotl c x) s)"
  if "c = shift_count BX_IA_RCL_Ew i s AND 0x1f" "a = BX_READ_16BIT_REG (dst i) s"
    "x = (carry_word (fCF (cpu_flags s)) a :: 17 word)"
proof (cases "(c mod 17) = 0")
  case False
  let ?x = "word_rotl c x" and ?k = "c mod 17" and ?cf = "of_bool (fCF (cpu_flags s)) :: Bit16u"
  let ?r = "rc_value ?x :: Bit16u"
  have kn: "?k \<le> 16" using mod_less_divisor[of 17 c] by linarith
  have rot: "word_rotl ?k x = ?x" using rot_mod[where 'a = 17] by simp
  have gen: "push_bit ?k a OR push_bit (?k - 1) (?cf) OR drop_bit (17 - ?k) a = ?r" and cf: "bit a (16 - ?k) = bit ?x 16"
    using rcl_word[where 'a = 16 and 'b = 17, of ?k a "fCF (cpu_flags s)"] kn False by (simp_all add: that(3)[symmetric] rot)
  have code: "(if ?k = 1 then push_bit 1 a OR ?cf else if ?k = 16 then push_bit 15 ?cf OR drop_bit 1 a else push_bit ?k a OR push_bit (?k - 1) (?cf) OR drop_bit (17 - ?k) a) = ?r"
    unfolding gen[symmetric] using rc_branches(1)[of a] rc_branches(2)[of _ a] by (simp split: if_split)
  have "with_flags (RCL_EwR i s) (BX_WRITE_16BIT_REG (dst i) ?r s) (rcl_flags ?x s)"
  proof (rule rotate_done)
    show "RCL_EwR i s = upd_oszapc (set_flags_OxxxxC (of_bool (bit a (16 - ?k) \<noteq> bit ?r 15)) (of_bool (bit a (16 - ?k)))) (BX_WRITE_16BIT_REG (dst i) ?r s)"
      using False by (simp only: RCL_EwR_def Let_def shift_count_def[symmetric] that(1,2)[symmetric] if_False
        getB_flags(6) ucast_of_bool code carry_forms)
  qed (simp_all only: rcl_flags_def cf bit_rc_value write_oszapc, simp add: bit_rc_value cf)
  then show ?thesis using False by (simp add: shift_outcome_def)
qed (use that in \<open>simp add: shift_outcome_def RCL_EwR_def Let_def shift_count_def[symmetric]\<close>)

lemma rcr16_outcome:
  "shift_outcome (c mod 17) (RCR_EwR i s) (s) (BX_WRITE_16BIT_REG (dst i) (rc_value (word_rotr c x)) s) (rcr_flags (word_rotr c x) s)"
  if "c = shift_count BX_IA_RCR_Ew i s AND 0x1f" "a = BX_READ_16BIT_REG (dst i) s"
    "x = (carry_word (fCF (cpu_flags s)) a :: 17 word)"
proof (cases "(c mod 17) = 0")
  case False
  let ?x = "word_rotr c x" and ?k = "c mod 17" and ?cf = "of_bool (fCF (cpu_flags s)) :: Bit16u"
  let ?r = "rc_value ?x :: Bit16u"
  have kn: "?k \<le> 16" using mod_less_divisor[of 17 c] by linarith
  have rot: "word_rotr ?k x = ?x" using rot_mod[where 'a = 17] by simp
  have gen: "drop_bit ?k a OR push_bit (16 - ?k) (?cf) OR push_bit (17 - ?k) a = ?r" and cf: "bit a (?k - 1) = bit ?x 16"
    using rcr_word[where 'a = 16 and 'b = 17, of ?k a "fCF (cpu_flags s)"] kn False by (simp_all add: that(3)[symmetric] rot)
  have code: "drop_bit ?k a OR push_bit (16 - ?k) (?cf) OR push_bit (17 - ?k) a = ?r"
    unfolding gen[symmetric] using rc_branches(3)[of a] by (simp split: if_split)
  have "with_flags (RCR_EwR i s) (BX_WRITE_16BIT_REG (dst i) ?r s) (rcr_flags ?x s)"
  proof (rule rotate_done)
    show "RCR_EwR i s = upd_oszapc (set_flags_OxxxxC (of_bool (bit ?r 14 \<noteq> bit ?r 15)) (of_bool (bit a (?k - 1)))) (BX_WRITE_16BIT_REG (dst i) ?r s)"
      using False by (simp only: RCR_EwR_def Let_def shift_count_def[symmetric] that(1,2)[symmetric] if_False
        getB_flags(6) ucast_of_bool code carry_forms)
  qed (simp_all only: rcr_flags_def cf bit_rc_value write_oszapc, simp add: bit_rc_value cf)
  then show ?thesis using False by (simp add: shift_outcome_def)
qed (use that in \<open>simp add: shift_outcome_def RCR_EwR_def Let_def shift_count_def[symmetric]\<close>)

lemma rcl32_outcome:
  "shift_outcome c (RCL_EdR i s) (BX_CLEAR_64BIT_HIGH (dst i) s) (BX_WRITE_32BIT_REGZ (dst i) (rc_value (word_rotl c x)) s) (rcl_flags (word_rotl c x) s)"
  if "c = shift_count BX_IA_RCL_Ed i s AND 0x1f" "a = BX_READ_32BIT_REG (dst i) s"
    "x = (carry_word (fCF (cpu_flags s)) a :: 33 word)"
proof (cases "c = 0")
  case False
  let ?x = "word_rotl c x" and ?k = "c" and ?cf = "of_bool (fCF (cpu_flags s)) :: Bit32u"
  let ?r = "rc_value ?x :: Bit32u"
  have kn: "?k \<le> 32" unfolding that(1) and_low_bits by (rule less_imp_le, rule less_le_trans[OF mod_less_divisor]) simp_all
  have gen: "push_bit ?k a OR push_bit (?k - 1) (?cf) OR drop_bit (33 - ?k) a = ?r" and cf: "bit a (32 - ?k) = bit ?x 32"
    using rcl_word[where 'a = 32 and 'b = 33, of ?k a "fCF (cpu_flags s)"] kn False by (simp_all add: that(3)[symmetric])
  have code: "(if ?k = 1 then push_bit 1 a OR ?cf else push_bit ?k a OR push_bit (?k - 1) (?cf) OR drop_bit (33 - ?k) a) = ?r"
    unfolding gen[symmetric] using rc_branches(1)[of a] by (simp split: if_split)
  have "with_flags (RCL_EdR i s) (BX_WRITE_32BIT_REGZ (dst i) ?r s) (rcl_flags ?x s)"
  proof (rule rotate_done)
    show "RCL_EdR i s = upd_oszapc (set_flags_OxxxxC (of_bool (bit a (32 - ?k) \<noteq> bit ?r 31)) (of_bool (bit a (32 - ?k)))) (BX_WRITE_32BIT_REGZ (dst i) ?r s)"
      using False by (simp only: RCL_EdR_def Let_def shift_count_def[symmetric] that(1,2)[symmetric] if_False
        getB_flags(6) ucast_of_bool code carry_forms)
  qed (simp_all only: rcl_flags_def cf bit_rc_value write_oszapc, simp add: bit_rc_value cf)
  then show ?thesis using False by (simp add: shift_outcome_def)
qed (use that in \<open>simp add: shift_outcome_def RCL_EdR_def Let_def shift_count_def[symmetric]\<close>)

lemma rcr32_outcome:
  "shift_outcome c (RCR_EdR i s) (BX_CLEAR_64BIT_HIGH (dst i) s) (BX_WRITE_32BIT_REGZ (dst i) (rc_value (word_rotr c x)) s) (rcr_flags (word_rotr c x) s)"
  if "c = shift_count BX_IA_RCR_Ed i s AND 0x1f" "a = BX_READ_32BIT_REG (dst i) s"
    "x = (carry_word (fCF (cpu_flags s)) a :: 33 word)"
proof (cases "c = 0")
  case False
  let ?x = "word_rotr c x" and ?k = "c" and ?cf = "of_bool (fCF (cpu_flags s)) :: Bit32u"
  let ?r = "rc_value ?x :: Bit32u"
  have kn: "?k \<le> 32" unfolding that(1) and_low_bits by (rule less_imp_le, rule less_le_trans[OF mod_less_divisor]) simp_all
  have gen: "drop_bit ?k a OR push_bit (32 - ?k) (?cf) OR push_bit (33 - ?k) a = ?r" and cf: "bit a (?k - 1) = bit ?x 32"
    using rcr_word[where 'a = 32 and 'b = 33, of ?k a "fCF (cpu_flags s)"] kn False by (simp_all add: that(3)[symmetric])
  have code: "(if ?k = 1 then drop_bit 1 a OR push_bit 31 ?cf else drop_bit ?k a OR push_bit (32 - ?k) (?cf) OR push_bit (33 - ?k) a) = ?r"
    unfolding gen[symmetric] using rc_branches(3)[of a] by (simp split: if_split)
  have "with_flags (RCR_EdR i s) (BX_WRITE_32BIT_REGZ (dst i) ?r s) (rcr_flags ?x s)"
  proof (rule rotate_done)
    show "RCR_EdR i s = upd_oszapc (set_flags_OxxxxC (of_bool (bit ?r 30 \<noteq> bit ?r 31)) (of_bool (bit a (?k - 1)))) (BX_WRITE_32BIT_REGZ (dst i) ?r s)"
      using False by (simp only: RCR_EdR_def Let_def shift_count_def[symmetric] that(1,2)[symmetric] if_False
        getB_flags(6) ucast_of_bool code carry_forms)
  qed (simp_all only: rcr_flags_def cf bit_rc_value write_oszapc, simp add: bit_rc_value cf)
  then show ?thesis using False by (simp add: shift_outcome_def)
qed (use that in \<open>simp add: shift_outcome_def RCR_EdR_def Let_def shift_count_def[symmetric]\<close>)

lemma rcl64_outcome:
  "shift_outcome c (RCL_EqR i s) (s) (BX_WRITE_64BIT_REG (dst i) (rc_value (word_rotl c x)) s) (rcl_flags (word_rotl c x) s)"
  if "c = shift_count BX_IA_RCL_Eq i s AND 0x3f" "a = BX_READ_64BIT_REG (dst i) s"
    "x = (carry_word (fCF (cpu_flags s)) a :: 65 word)"
proof (cases "c = 0")
  case False
  let ?x = "word_rotl c x" and ?k = "c" and ?cf = "of_bool (fCF (cpu_flags s)) :: Bit64u"
  let ?r = "rc_value ?x :: Bit64u"
  have kn: "?k \<le> 64" unfolding that(1) and_low_bits by (rule less_imp_le, rule less_le_trans[OF mod_less_divisor]) simp_all
  have gen: "push_bit ?k a OR push_bit (?k - 1) (?cf) OR drop_bit (65 - ?k) a = ?r" and cf: "bit a (64 - ?k) = bit ?x 64"
    using rcl_word[where 'a = 64 and 'b = 65, of ?k a "fCF (cpu_flags s)"] kn False by (simp_all add: that(3)[symmetric])
  have code: "(if ?k = 1 then push_bit 1 a OR ?cf else push_bit ?k a OR push_bit (?k - 1) (?cf) OR drop_bit (65 - ?k) a) = ?r"
    unfolding gen[symmetric] using rc_branches(1)[of a] by (simp split: if_split)
  have "with_flags (RCL_EqR i s) (BX_WRITE_64BIT_REG (dst i) ?r s) (rcl_flags ?x s)"
  proof (rule rotate_done)
    show "RCL_EqR i s = upd_oszapc (set_flags_OxxxxC (of_bool (bit a (64 - ?k) \<noteq> bit ?r 63)) (of_bool (bit a (64 - ?k)))) (BX_WRITE_64BIT_REG (dst i) ?r s)"
      using False by (simp only: RCL_EqR_def Let_def shift_count_def[symmetric] that(1,2)[symmetric] if_False
        getB_flags(6) ucast_of_bool code carry_forms)
  qed (simp_all only: rcl_flags_def cf bit_rc_value write_oszapc, simp add: bit_rc_value cf)
  then show ?thesis using False by (simp add: shift_outcome_def)
qed (use that in \<open>simp add: shift_outcome_def RCL_EqR_def Let_def shift_count_def[symmetric]\<close>)

lemma rcr64_outcome:
  "shift_outcome c (RCR_EqR i s) (s) (BX_WRITE_64BIT_REG (dst i) (rc_value (word_rotr c x)) s) (rcr_flags (word_rotr c x) s)"
  if "c = shift_count BX_IA_RCR_Eq i s AND 0x3f" "a = BX_READ_64BIT_REG (dst i) s"
    "x = (carry_word (fCF (cpu_flags s)) a :: 65 word)"
proof (cases "c = 0")
  case False
  let ?x = "word_rotr c x" and ?k = "c" and ?cf = "of_bool (fCF (cpu_flags s)) :: Bit64u"
  let ?r = "rc_value ?x :: Bit64u"
  have kn: "?k \<le> 64" unfolding that(1) and_low_bits by (rule less_imp_le, rule less_le_trans[OF mod_less_divisor]) simp_all
  have gen: "drop_bit ?k a OR push_bit (64 - ?k) (?cf) OR push_bit (65 - ?k) a = ?r" and cf: "bit a (?k - 1) = bit ?x 64"
    using rcr_word[where 'a = 64 and 'b = 65, of ?k a "fCF (cpu_flags s)"] kn False by (simp_all add: that(3)[symmetric])
  have code: "(if ?k = 1 then drop_bit 1 a OR push_bit 63 ?cf else drop_bit ?k a OR push_bit (64 - ?k) (?cf) OR push_bit (65 - ?k) a) = ?r"
    unfolding gen[symmetric] using rc_branches(3)[of a] by (simp split: if_split)
  have "with_flags (RCR_EqR i s) (BX_WRITE_64BIT_REG (dst i) ?r s) (rcr_flags ?x s)"
  proof (rule rotate_done)
    show "RCR_EqR i s = upd_oszapc (set_flags_OxxxxC (of_bool (bit ?r 62 \<noteq> bit ?r 63)) (of_bool (bit a (?k - 1)))) (BX_WRITE_64BIT_REG (dst i) ?r s)"
      using False by (simp only: RCR_EqR_def Let_def shift_count_def[symmetric] that(1,2)[symmetric] if_False
        getB_flags(6) ucast_of_bool code carry_forms)
  qed (simp_all only: rcr_flags_def cf bit_rc_value write_oszapc, simp add: bit_rc_value cf)
  then show ?thesis using False by (simp add: shift_outcome_def)
qed (use that in \<open>simp add: shift_outcome_def RCR_EqR_def Let_def shift_count_def[symmetric]\<close>)


section \<open>Double shifts\<close>

text \<open>
  Three limbs, the first operand on both sides of the second. For counts up to the operand size a
  double shift only ever reaches two of them; the 16-bit forms accept counts up to 31 and then wrap
  around into the third.
\<close>

definition limbs3 :: "('a::len) word \<Rightarrow> 'a word \<Rightarrow> int" where
  "limbs3 a b = uint a * 2 ^ (2 * LENGTH('a)) + uint b * 2 ^ LENGTH('a) + uint a"

definition shld_value :: "nat \<Rightarrow> ('a::len) word \<Rightarrow> 'a word \<Rightarrow> 'a word" where
  "shld_value c a b = word_of_int (limbs3 a b * 2 ^ c div 2 ^ (2 * LENGTH('a)))"

definition shld_flags :: "nat \<Rightarrow> ('a::len) word \<Rightarrow> 'a word \<Rightarrow> oszapc_flags" where
  "shld_flags c a b = (let cf = odd (limbs3 a b * 2 ^ c div 2 ^ (3 * LENGTH('a)))
     in shift_flags (shld_value c a b) (cf \<noteq> bit (shld_value c a b) (LENGTH('a) - 1)) cf)"

definition shrd_value :: "nat \<Rightarrow> ('a::len) word \<Rightarrow> 'a word \<Rightarrow> 'a word" where
  "shrd_value c a b = word_of_int (limbs3 a b div 2 ^ c)"

definition shrd_flags :: "nat \<Rightarrow> ('a::len) word \<Rightarrow> 'a word \<Rightarrow> oszapc_flags" where
  "shrd_flags c a b = shift_flags (shrd_value c a b)
     (bit (shrd_value c a b) (LENGTH('a) - 2) \<noteq> bit (shrd_value c a b) (LENGTH('a) - 1))
     (odd (limbs3 a b div 2 ^ (c - 1)))"

lemma bit_limbs3: "bit (limbs3 a b) k \<longleftrightarrow> (if k < LENGTH('a) then bit a k
    else if k < 2 * LENGTH('a) then bit b (k - LENGTH('a)) else bit a (k - 2 * LENGTH('a)))"
  for a b :: "('a::len) word"
proof -
  let ?n = "LENGTH('a)"
  have "push_bit ?n (uint b) + uint a = push_bit ?n (uint b) OR uint a"
    by (rule disjunctive_add_eq_or) (auto simp: bit_eq_iff bit_and_iff bit_push_bit_iff bit_uint_iff)
  moreover have "push_bit (2 * ?n) (uint a) + (push_bit ?n (uint b) OR uint a)
      = push_bit (2 * ?n) (uint a) OR (push_bit ?n (uint b) OR uint a)"
    by (rule disjunctive_add_eq_or)
      (auto simp: bit_eq_iff bit_and_iff bit_or_iff bit_push_bit_iff bit_uint_iff)
  ultimately have "limbs3 a b = push_bit (2 * ?n) (uint a) OR (push_bit ?n (uint b) OR uint a)"
    by (simp add: limbs3_def push_bit_eq_mult add.assoc)
  then show ?thesis by (auto simp: bit_or_iff bit_push_bit_iff bit_uint_iff dest: bit_imp_le_length)
qed

lemma shld_carry_bit:
  "c \<le> 3 * LENGTH('a) \<Longrightarrow> odd (limbs3 a b * 2 ^ c div 2 ^ (3 * LENGTH('a))) \<longleftrightarrow> bit (limbs3 a b) (3 * LENGTH('a) - c)"
  for a b :: "('a::len) word"
proof -
  assume "c \<le> 3 * LENGTH('a)"
  then have "bit (limbs3 a b) (3 * LENGTH('a) - c) \<longleftrightarrow> bit (push_bit c (limbs3 a b)) (3 * LENGTH('a))"
    by (simp add: bit_push_bit_iff)
  then show ?thesis by (simp add: push_bit_eq_mult bit_iff_odd)
qed

lemma bit_shld_value:
  "k < LENGTH('a) \<Longrightarrow> c \<le> 2 * LENGTH('a) \<Longrightarrow> bit (shld_value c a b) k \<longleftrightarrow> bit (limbs3 a b) (2 * LENGTH('a) + k - c)"
  for a b :: "('a::len) word"
proof -
  assume k: "k < LENGTH('a)" and c: "c \<le> 2 * LENGTH('a)"
  have "bit (shld_value c a b) k \<longleftrightarrow> bit (drop_bit (2 * LENGTH('a)) (push_bit c (limbs3 a b))) k"
    using k by (simp add: shld_value_def bit_word_of_int_iff drop_bit_eq_div push_bit_eq_mult)
  then show ?thesis using c by (simp add: bit_drop_bit_eq bit_push_bit_iff)
qed

lemma bit_shrd_value: "k < LENGTH('a) \<Longrightarrow> bit (shrd_value c a b) k \<longleftrightarrow> bit (limbs3 a b) (c + k)"
  for a b :: "('a::len) word"
  by (simp add: shrd_value_def bit_word_of_int_iff bit_drop_bit_eq flip: drop_bit_eq_div)

lemma shld_word:
  "c < LENGTH('a) \<Longrightarrow> push_bit c a OR drop_bit (LENGTH('a) - c) b = shld_value c a (b :: ('a::len) word)"
  by (rule bit_word_eqI)
    (auto simp: bit_shld_value bit_limbs3 bit_or_iff bit_push_bit_iff bit_drop_bit_eq add.commute
      dest: bit_imp_le_length)

lemma shrd_word:
  "0 < c \<Longrightarrow> c < LENGTH('a) \<Longrightarrow> push_bit (LENGTH('a) - c) b OR drop_bit c a = shrd_value c a (b :: ('a::len) word)"
  by (rule bit_word_eqI)
    (auto simp: bit_shrd_value bit_limbs3 bit_or_iff bit_push_bit_iff bit_drop_bit_eq add.commute
      dest: bit_imp_le_length)

lemma shrd_carry_bit: "odd (limbs3 a b div 2 ^ k) \<longleftrightarrow> bit (limbs3 a b) k" for a b :: "('a::len) word"
  by (simp add: bit_iff_odd)

lemma shld32_outcome:
  "shift_outcome c (SHLD_EdGdR i s) (BX_CLEAR_64BIT_HIGH (dst i) s) (BX_WRITE_32BIT_REGZ (dst i) (shld_value c a b) s) (shld_flags c a b)"
  if "c = shift_count BX_IA_SHLD_EdGd i s AND 0x1f" "a = BX_READ_32BIT_REG (dst i) s" "b = BX_READ_32BIT_REG (src i) s"
proof (cases "c = 0")
  case False
  let ?r = "shld_value c a b"
  have c: "c < 32" unfolding that(1) and_low_bits by simp
  then have r: "push_bit c a OR drop_bit (32 - c) b = ?r"
    using shld_word[of c a b] False by simp
  have "with_flags (SHLD_EdGdR i s) (BX_WRITE_32BIT_REGZ (dst i) ?r s) (shld_flags c a b)"
  proof (rule shift_done)
    show "SHLD_EdGdR i s = upd_oszapc (set_flags_OxxxxC (of_bool (bit a (32 - c) \<noteq> bit ?r 31)) (of_bool (bit a (32 - c))))
      (upd_oszapc (SET_FLAGS_OSZAPC_LOGIC_32 ?r) (BX_WRITE_32BIT_REGZ (dst i) ?r s))"
      using False by (simp only: SHLD_EdGdR_def Let_def shift_count_def[symmetric] that[symmetric] if_False
        r carry_forms)
    show "shld_flags c a b = shift_flags ?r (bit a (32 - c) \<noteq> bit ?r 31) (bit a (32 - c))" using shld_carry_bit[of c a b] c False by (simp add: shld_flags_def Let_def bit_limbs3 less_diff_conv2 mult.commute)
  qed (rule flags_LOGIC)
  then show ?thesis using False by (simp add: shift_outcome_def)
qed (use that in \<open>simp add: shift_outcome_def SHLD_EdGdR_def Let_def shift_count_def[symmetric]\<close>)

lemma shrd32_outcome:
  "shift_outcome c (SHRD_EdGdR i s) (BX_CLEAR_64BIT_HIGH (dst i) s) (BX_WRITE_32BIT_REGZ (dst i) (shrd_value c a b) s) (shrd_flags c a b)"
  if "c = shift_count BX_IA_SHRD_EdGd i s AND 0x1f" "a = BX_READ_32BIT_REG (dst i) s" "b = BX_READ_32BIT_REG (src i) s"
proof (cases "c = 0")
  case False
  let ?r = "shrd_value c a b"
  have c: "c < 32" unfolding that(1) and_low_bits by simp
  then have r: "push_bit (32 - c) b OR drop_bit c a = ?r"
    using shrd_word[of c b a] False by simp
  have "with_flags (SHRD_EdGdR i s) (BX_WRITE_32BIT_REGZ (dst i) ?r s) (shrd_flags c a b)"
  proof (rule shift_done)
    show "SHRD_EdGdR i s = upd_oszapc (set_flags_OxxxxC (of_bool (bit ?r 30 \<noteq> bit ?r 31)) (of_bool (bit a (c - 1))))
      (upd_oszapc (SET_FLAGS_OSZAPC_LOGIC_32 ?r) (BX_WRITE_32BIT_REGZ (dst i) ?r s))"
      using False by (simp only: SHRD_EdGdR_def Let_def shift_count_def[symmetric] that[symmetric] if_False
        r carry_forms)
    show "shrd_flags c a b = shift_flags ?r (bit ?r 30 \<noteq> bit ?r 31) (bit a (c - 1))" using c False by (simp add: shrd_flags_def shrd_carry_bit bit_limbs3)
  qed (rule flags_LOGIC)
  then show ?thesis using False by (simp add: shift_outcome_def)
qed (use that in \<open>simp add: shift_outcome_def SHRD_EdGdR_def Let_def shift_count_def[symmetric]\<close>)

lemma shld64_outcome:
  "shift_outcome c (SHLD_EqGqR i s) (s) (BX_WRITE_64BIT_REG (dst i) (shld_value c a b) s) (shld_flags c a b)"
  if "c = shift_count BX_IA_SHLD_EqGq i s AND 0x3f" "a = BX_READ_64BIT_REG (dst i) s" "b = BX_READ_64BIT_REG (src i) s"
proof (cases "c = 0")
  case False
  let ?r = "shld_value c a b"
  have c: "c < 64" unfolding that(1) and_low_bits by simp
  then have r: "push_bit c a OR drop_bit (64 - c) b = ?r"
    using shld_word[of c a b] False by simp
  have "with_flags (SHLD_EqGqR i s) (BX_WRITE_64BIT_REG (dst i) ?r s) (shld_flags c a b)"
  proof (rule shift_done)
    show "SHLD_EqGqR i s = upd_oszapc (set_flags_OxxxxC (of_bool (bit a (64 - c) \<noteq> bit ?r 63)) (of_bool (bit a (64 - c))))
      (upd_oszapc (SET_FLAGS_OSZAPC_LOGIC_64 ?r) (BX_WRITE_64BIT_REG (dst i) ?r s))"
      using False by (simp only: SHLD_EqGqR_def Let_def shift_count_def[symmetric] that[symmetric] if_False
        r carry_forms)
    show "shld_flags c a b = shift_flags ?r (bit a (64 - c) \<noteq> bit ?r 63) (bit a (64 - c))" using shld_carry_bit[of c a b] c False by (simp add: shld_flags_def Let_def bit_limbs3 less_diff_conv2 mult.commute)
  qed (rule flags_LOGIC)
  then show ?thesis using False by (simp add: shift_outcome_def)
qed (use that in \<open>simp add: shift_outcome_def SHLD_EqGqR_def Let_def shift_count_def[symmetric]\<close>)

lemma shrd64_outcome:
  "shift_outcome c (SHRD_EqGqR i s) (s) (BX_WRITE_64BIT_REG (dst i) (shrd_value c a b) s) (shrd_flags c a b)"
  if "c = shift_count BX_IA_SHRD_EqGq i s AND 0x3f" "a = BX_READ_64BIT_REG (dst i) s" "b = BX_READ_64BIT_REG (src i) s"
proof (cases "c = 0")
  case False
  let ?r = "shrd_value c a b"
  have c: "c < 64" unfolding that(1) and_low_bits by simp
  then have r: "push_bit (64 - c) b OR drop_bit c a = ?r"
    using shrd_word[of c b a] False by simp
  have "with_flags (SHRD_EqGqR i s) (BX_WRITE_64BIT_REG (dst i) ?r s) (shrd_flags c a b)"
  proof (rule shift_done)
    show "SHRD_EqGqR i s = upd_oszapc (set_flags_OxxxxC (of_bool (bit ?r 62 \<noteq> bit ?r 63)) (of_bool (bit a (c - 1))))
      (upd_oszapc (SET_FLAGS_OSZAPC_LOGIC_64 ?r) (BX_WRITE_64BIT_REG (dst i) ?r s))"
      using False by (simp only: SHRD_EqGqR_def Let_def shift_count_def[symmetric] that[symmetric] if_False
        r carry_forms)
    show "shrd_flags c a b = shift_flags ?r (bit ?r 62 \<noteq> bit ?r 63) (bit a (c - 1))" using c False by (simp add: shrd_flags_def shrd_carry_bit bit_limbs3)
  qed (rule flags_LOGIC)
  then show ?thesis using False by (simp add: shift_outcome_def)
qed (use that in \<open>simp add: shift_outcome_def SHRD_EqGqR_def Let_def shift_count_def[symmetric]\<close>)


lemma limbs16_bits:
  fixes a b :: Bit16u
  shows "bit (limbs3 a b) k \<longleftrightarrow> (if k < 16 then bit a k else if k < 32 then bit b (k - 16) else bit a (k - 32))"
    and "k < 16 \<Longrightarrow> c \<le> 32 \<Longrightarrow> bit (shld_value c a b) k \<longleftrightarrow> bit (limbs3 a b) (32 + k - c)"
    and "k < 16 \<Longrightarrow> bit (shrd_value c a b) k \<longleftrightarrow> bit (limbs3 a b) (c + k)"
  using bit_limbs3[of a b k] bit_shld_value[of k c a b] bit_shrd_value[of k c a b] by simp_all

lemma shld16_word:
  fixes a b :: Bit16u
  assumes "0 < c" "c < 32"
  defines "t \<equiv> push_bit 16 (ucast a) OR ucast b :: Bit32u"
  shows "ucast (drop_bit 16 (if c > 16 then push_bit c t OR push_bit (c - 16) (ucast a) else push_bit c t)) = shld_value c a b"
    and "bit t (32 - c) = odd (limbs3 a b * 2 ^ c div 2 ^ 48)"
proof -
  have t: "bit t k \<longleftrightarrow> (if k < 16 then bit b k else bit a (k - 16))" for k
    by (auto simp: t_def bit_or_iff bit_push_bit_iff bit_ucast_iff dest: bit_imp_le_length)
  show "bit t (32 - c) = odd (limbs3 a b * 2 ^ c div 2 ^ 48)"
    using shld_carry_bit[of c a b] assms(1,2) by (auto simp: t bit_limbs3)
  show "ucast (drop_bit 16 (if c > 16 then push_bit c t OR push_bit (c - 16) (ucast a) else push_bit c t)) = shld_value c a b"
  proof (rule bit_word_eqI)
    fix k assume "k < LENGTH(16)"
    then have "k < 16" by simp
    then show "bit (ucast (drop_bit 16 (if c > 16 then push_bit c t OR push_bit (c - 16) (ucast a) else push_bit c t)) :: Bit16u) k
        = bit (shld_value c a b) k"
      using assms(1,2)
      by (auto simp: limbs16_bits t bit_ucast_iff bit_drop_bit_eq bit_or_iff bit_push_bit_iff
          dest: bit_imp_le_length)
  qed
qed

lemma shrd16_word:
  fixes a b :: Bit16u
  assumes "0 < c" "c < 32"
  defines "t \<equiv> push_bit 16 (ucast b) OR ucast a :: Bit32u"
  shows "ucast (if c > 16 then drop_bit c t OR push_bit (32 - c) (ucast a) else drop_bit c t) = shrd_value c a b"
    and "(if c > 16 then bit (ucast b :: Bit32u) (c - 17) else bit (ucast a :: Bit32u) (c - 1)) = bit (limbs3 a b) (c - 1)"
proof -
  have t: "bit t k \<longleftrightarrow> (if k < 16 then bit a k else bit b (k - 16))" for k
    by (auto simp: t_def bit_or_iff bit_push_bit_iff bit_ucast_iff dest: bit_imp_le_length)
  show "(if c > 16 then bit (ucast b :: Bit32u) (c - 17) else bit (ucast a :: Bit32u) (c - 1)) = bit (limbs3 a b) (c - 1)"
    using assms(1,2) by (auto simp: bit_limbs3 bit_ucast_iff)
  show "ucast (if c > 16 then drop_bit c t OR push_bit (32 - c) (ucast a) else drop_bit c t) = shrd_value c a b"
  proof (rule bit_word_eqI)
    fix k assume "k < LENGTH(16)"
    then have "k < 16" by simp
    then show "bit (ucast (if c > 16 then drop_bit c t OR push_bit (32 - c) (ucast a) else drop_bit c t) :: Bit16u) k
        = bit (shrd_value c a b) k"
      using assms(1,2)
      by (auto simp: limbs16_bits t bit_ucast_iff bit_drop_bit_eq bit_or_iff bit_push_bit_iff add.commute
          dest: bit_imp_le_length)
  qed
qed

lemma if_of_bool_both: "(if q then of_bool p else of_bool p') = of_bool (if q then p else p')" by simp

lemma shld16_outcome:
  "shift_outcome c (SHLD_EwGwR i s) s (BX_WRITE_16BIT_REG (dst i) (shld_value c a b) s) (shld_flags c a b)"
  if "c = shift_count BX_IA_SHLD_EwGw i s AND 0x1f" "a = BX_READ_16BIT_REG (dst i) s" "b = BX_READ_16BIT_REG (src i) s"
proof (cases "c = 0")
  case False
  let ?r = "shld_value c a b" and ?cf = "odd (limbs3 a b * 2 ^ c div 2 ^ 48)"
  have c: "c < 32" unfolding that(1) and_low_bits by simp
  note r = shld16_word[of c a b, OF _ c, OF neq0_conv[THEN iffD1, OF False]]
  have "with_flags (SHLD_EwGwR i s) (BX_WRITE_16BIT_REG (dst i) ?r s) (shld_flags c a b)"
  proof (rule shift_done)
    show "SHLD_EwGwR i s = upd_oszapc (set_flags_OxxxxC (of_bool (?cf \<noteq> bit ?r 15)) (of_bool ?cf))
      (upd_oszapc (SET_FLAGS_OSZAPC_LOGIC_16 (ucast ?r)) (BX_WRITE_16BIT_REG (dst i) ?r s))"
      using False by (simp only: SHLD_EwGwR_def Let_def shift_count_def[symmetric] that[symmetric] if_False
        r carry_forms)
    show "shld_flags c a b = shift_flags ?r (?cf \<noteq> bit ?r 15) ?cf" by (simp add: shld_flags_def Let_def)
  qed (rule flags_LOGIC)
  then show ?thesis using False by (simp add: shift_outcome_def)
qed (use that in \<open>simp add: shift_outcome_def SHLD_EwGwR_def Let_def shift_count_def[symmetric]\<close>)

lemma shrd16_outcome:
  "shift_outcome c (SHRD_EwGwR i s) s (BX_WRITE_16BIT_REG (dst i) (shrd_value c a b) s) (shrd_flags c a b)"
  if "c = shift_count BX_IA_SHRD_EwGw i s AND 0x1f" "a = BX_READ_16BIT_REG (dst i) s" "b = BX_READ_16BIT_REG (src i) s"
proof (cases "c = 0")
  case False
  let ?r = "shrd_value c a b" and ?cf = "bit (limbs3 a b) (c - 1)"
  have c: "c < 32" unfolding that(1) and_low_bits by simp
  note r = shrd16_word[of c b a, OF _ c, OF neq0_conv[THEN iffD1, OF False]]
  have "with_flags (SHRD_EwGwR i s) (BX_WRITE_16BIT_REG (dst i) ?r s) (shrd_flags c a b)"
  proof (rule shift_done)
    show "SHRD_EwGwR i s = upd_oszapc (set_flags_OxxxxC (of_bool (bit ?r 14 \<noteq> bit ?r 15)) (of_bool ?cf))
      (upd_oszapc (SET_FLAGS_OSZAPC_LOGIC_16 (ucast ?r)) (BX_WRITE_16BIT_REG (dst i) ?r s))"
      using False by (simp only: SHRD_EwGwR_def Let_def shift_count_def[symmetric] that[symmetric] if_False
        r carry_forms if_of_bool_both)
    show "shrd_flags c a b = shift_flags ?r (bit ?r 14 \<noteq> bit ?r 15) ?cf"
      by (simp add: shrd_flags_def shrd_carry_bit)
  qed (rule flags_LOGIC)
  then show ?thesis using False by (simp add: shift_outcome_def)
qed (use that in \<open>simp add: shift_outcome_def SHRD_EwGwR_def Let_def shift_count_def[symmetric]\<close>)

section \<open>The handlers at every operand size\<close>

text \<open>C10. SHL, SHR and SAR on a register, at every operand size: a masked count of zero changes nothing (at 32 bits
  it clears the upper half of the destination); otherwise the destination becomes the operand times \<open>2 ^ c\<close> modulo the
  operand size, the unsigned quotient by \<open>2 ^ c\<close>, or the signed quotient rounded down, no other register changes,
  CF is the last bit shifted out, OF follows the architectural rule, and SF, ZF, PF and AF are those of the result.\<close>

theorem shift_registers:
  "shift_outcome (shift_count BX_IA_SHL_Eb i s AND 0x1f) (SHL_EbR i s) (s)
     (BX_WRITE_8BIT_REGx (dst i) (extend8bitL i) (shl_value (shift_count BX_IA_SHL_Eb i s AND 0x1f) (BX_READ_8BIT_REGx (dst i) (extend8bitL i) s)) s)
     (shl_flags (shift_count BX_IA_SHL_Eb i s AND 0x1f) (BX_READ_8BIT_REGx (dst i) (extend8bitL i) s)) \<and>
   shift_outcome (shift_count BX_IA_SHR_Eb i s AND 0x1f) (SHR_EbR i s) (s)
     (BX_WRITE_8BIT_REGx (dst i) (extend8bitL i) (shr_value (shift_count BX_IA_SHR_Eb i s AND 0x1f) (BX_READ_8BIT_REGx (dst i) (extend8bitL i) s)) s)
     (shr_flags (shift_count BX_IA_SHR_Eb i s AND 0x1f) (BX_READ_8BIT_REGx (dst i) (extend8bitL i) s)) \<and>
   shift_outcome (shift_count BX_IA_SAR_Eb i s AND 0x1f) (SAR_EbR i s) (s)
     (BX_WRITE_8BIT_REGx (dst i) (extend8bitL i) (sar_value (shift_count BX_IA_SAR_Eb i s AND 0x1f) (BX_READ_8BIT_REGx (dst i) (extend8bitL i) s)) s)
     (sar_flags (shift_count BX_IA_SAR_Eb i s AND 0x1f) (BX_READ_8BIT_REGx (dst i) (extend8bitL i) s)) \<and>
   shift_outcome (shift_count BX_IA_SHL_Ew i s AND 0x1f) (SHL_EwR i s) (s)
     (BX_WRITE_16BIT_REG (dst i) (shl_value (shift_count BX_IA_SHL_Ew i s AND 0x1f) (BX_READ_16BIT_REG (dst i) s)) s)
     (shl_flags (shift_count BX_IA_SHL_Ew i s AND 0x1f) (BX_READ_16BIT_REG (dst i) s)) \<and>
   shift_outcome (shift_count BX_IA_SHR_Ew i s AND 0x1f) (SHR_EwR i s) (s)
     (BX_WRITE_16BIT_REG (dst i) (shr_value (shift_count BX_IA_SHR_Ew i s AND 0x1f) (BX_READ_16BIT_REG (dst i) s)) s)
     (shr_flags (shift_count BX_IA_SHR_Ew i s AND 0x1f) (BX_READ_16BIT_REG (dst i) s)) \<and>
   shift_outcome (shift_count BX_IA_SAR_Ew i s AND 0x1f) (SAR_EwR i s) (s)
     (BX_WRITE_16BIT_REG (dst i) (sar_value (shift_count BX_IA_SAR_Ew i s AND 0x1f) (BX_READ_16BIT_REG (dst i) s)) s)
     (sar_flags (shift_count BX_IA_SAR_Ew i s AND 0x1f) (BX_READ_16BIT_REG (dst i) s)) \<and>
   shift_outcome (shift_count BX_IA_SHL_Ed i s AND 0x1f) (SHL_EdR i s) (BX_CLEAR_64BIT_HIGH (dst i) s)
     (BX_WRITE_32BIT_REGZ (dst i) (shl_value (shift_count BX_IA_SHL_Ed i s AND 0x1f) (BX_READ_32BIT_REG (dst i) s)) s)
     (shl_flags (shift_count BX_IA_SHL_Ed i s AND 0x1f) (BX_READ_32BIT_REG (dst i) s)) \<and>
   shift_outcome (shift_count BX_IA_SHR_Ed i s AND 0x1f) (SHR_EdR i s) (BX_CLEAR_64BIT_HIGH (dst i) s)
     (BX_WRITE_32BIT_REGZ (dst i) (shr_value (shift_count BX_IA_SHR_Ed i s AND 0x1f) (BX_READ_32BIT_REG (dst i) s)) s)
     (shr_flags (shift_count BX_IA_SHR_Ed i s AND 0x1f) (BX_READ_32BIT_REG (dst i) s)) \<and>
   shift_outcome (shift_count BX_IA_SAR_Ed i s AND 0x1f) (SAR_EdR i s) (BX_CLEAR_64BIT_HIGH (dst i) s)
     (BX_WRITE_32BIT_REGZ (dst i) (sar_value (shift_count BX_IA_SAR_Ed i s AND 0x1f) (BX_READ_32BIT_REG (dst i) s)) s)
     (sar_flags (shift_count BX_IA_SAR_Ed i s AND 0x1f) (BX_READ_32BIT_REG (dst i) s)) \<and>
   shift_outcome (shift_count BX_IA_SHL_Eq i s AND 0x3f) (SHL_EqR i s) (s)
     (BX_WRITE_64BIT_REG (dst i) (shl_value (shift_count BX_IA_SHL_Eq i s AND 0x3f) (BX_READ_64BIT_REG (dst i) s)) s)
     (shl_flags (shift_count BX_IA_SHL_Eq i s AND 0x3f) (BX_READ_64BIT_REG (dst i) s)) \<and>
   shift_outcome (shift_count BX_IA_SHR_Eq i s AND 0x3f) (SHR_EqR i s) (s)
     (BX_WRITE_64BIT_REG (dst i) (shr_value (shift_count BX_IA_SHR_Eq i s AND 0x3f) (BX_READ_64BIT_REG (dst i) s)) s)
     (shr_flags (shift_count BX_IA_SHR_Eq i s AND 0x3f) (BX_READ_64BIT_REG (dst i) s)) \<and>
   shift_outcome (shift_count BX_IA_SAR_Eq i s AND 0x3f) (SAR_EqR i s) (s)
     (BX_WRITE_64BIT_REG (dst i) (sar_value (shift_count BX_IA_SAR_Eq i s AND 0x3f) (BX_READ_64BIT_REG (dst i) s)) s)
     (sar_flags (shift_count BX_IA_SAR_Eq i s AND 0x3f) (BX_READ_64BIT_REG (dst i) s))"
  by (intro conjI) (rule shl8_outcome shr8_outcome sar8_outcome shl16_outcome shr16_outcome sar16_outcome shl32_outcome shr32_outcome sar32_outcome shl64_outcome shr64_outcome sar64_outcome, rule refl, rule refl)+

text \<open>C11. ROL and ROR on a register are the word rotation by the masked count at every operand size, whatever the
  count is relative to the operand size; only CF (the bit that crossed the end) and OF change among the
  flags, and a masked count of zero changes nothing.\<close>

theorem rotate_registers:
  "shift_outcome (shift_count BX_IA_ROL_Eb i s AND 0x1f) (ROL_EbR i s) (s)
     (BX_WRITE_8BIT_REGx (dst i) (extend8bitL i) (word_rotl (shift_count BX_IA_ROL_Eb i s AND 0x1f) (BX_READ_8BIT_REGx (dst i) (extend8bitL i) s)) s)
     (rol_flags (word_rotl (shift_count BX_IA_ROL_Eb i s AND 0x1f) (BX_READ_8BIT_REGx (dst i) (extend8bitL i) s)) s) \<and>
   shift_outcome (shift_count BX_IA_ROR_Eb i s AND 0x1f) (ROR_EbR i s) (s)
     (BX_WRITE_8BIT_REGx (dst i) (extend8bitL i) (word_rotr (shift_count BX_IA_ROR_Eb i s AND 0x1f) (BX_READ_8BIT_REGx (dst i) (extend8bitL i) s)) s)
     (ror_flags (word_rotr (shift_count BX_IA_ROR_Eb i s AND 0x1f) (BX_READ_8BIT_REGx (dst i) (extend8bitL i) s)) s) \<and>
   shift_outcome (shift_count BX_IA_ROL_Ew i s AND 0x1f) (ROL_EwR i s) (s)
     (BX_WRITE_16BIT_REG (dst i) (word_rotl (shift_count BX_IA_ROL_Ew i s AND 0x1f) (BX_READ_16BIT_REG (dst i) s)) s)
     (rol_flags (word_rotl (shift_count BX_IA_ROL_Ew i s AND 0x1f) (BX_READ_16BIT_REG (dst i) s)) s) \<and>
   shift_outcome (shift_count BX_IA_ROR_Ew i s AND 0x1f) (ROR_EwR i s) (s)
     (BX_WRITE_16BIT_REG (dst i) (word_rotr (shift_count BX_IA_ROR_Ew i s AND 0x1f) (BX_READ_16BIT_REG (dst i) s)) s)
     (ror_flags (word_rotr (shift_count BX_IA_ROR_Ew i s AND 0x1f) (BX_READ_16BIT_REG (dst i) s)) s) \<and>
   shift_outcome (shift_count BX_IA_ROL_Ed i s AND 0x1f) (ROL_EdR i s) (BX_CLEAR_64BIT_HIGH (dst i) s)
     (BX_WRITE_32BIT_REGZ (dst i) (word_rotl (shift_count BX_IA_ROL_Ed i s AND 0x1f) (BX_READ_32BIT_REG (dst i) s)) s)
     (rol_flags (word_rotl (shift_count BX_IA_ROL_Ed i s AND 0x1f) (BX_READ_32BIT_REG (dst i) s)) s) \<and>
   shift_outcome (shift_count BX_IA_ROR_Ed i s AND 0x1f) (ROR_EdR i s) (BX_CLEAR_64BIT_HIGH (dst i) s)
     (BX_WRITE_32BIT_REGZ (dst i) (word_rotr (shift_count BX_IA_ROR_Ed i s AND 0x1f) (BX_READ_32BIT_REG (dst i) s)) s)
     (ror_flags (word_rotr (shift_count BX_IA_ROR_Ed i s AND 0x1f) (BX_READ_32BIT_REG (dst i) s)) s) \<and>
   shift_outcome (shift_count BX_IA_ROL_Eq i s AND 0x3f) (ROL_EqR i s) (s)
     (BX_WRITE_64BIT_REG (dst i) (word_rotl (shift_count BX_IA_ROL_Eq i s AND 0x3f) (BX_READ_64BIT_REG (dst i) s)) s)
     (rol_flags (word_rotl (shift_count BX_IA_ROL_Eq i s AND 0x3f) (BX_READ_64BIT_REG (dst i) s)) s) \<and>
   shift_outcome (shift_count BX_IA_ROR_Eq i s AND 0x3f) (ROR_EqR i s) (s)
     (BX_WRITE_64BIT_REG (dst i) (word_rotr (shift_count BX_IA_ROR_Eq i s AND 0x3f) (BX_READ_64BIT_REG (dst i) s)) s)
     (ror_flags (word_rotr (shift_count BX_IA_ROR_Eq i s AND 0x3f) (BX_READ_64BIT_REG (dst i) s)) s)"
  by (intro conjI) (rule rol8_outcome ror8_outcome rol16_outcome ror16_outcome rol32_outcome ror32_outcome rol64_outcome ror64_outcome, rule refl, rule refl)+

text \<open>C12. RCL and RCR rotate the operand together with the carry flag: the result is the low part, and CF the top
  bit, of the rotation of the word one bit wider that has CF above the operand. The byte and word forms
  reduce the count modulo 9 and 17 and leave everything unchanged when nothing remains.\<close>

theorem rotate_through_carry_registers:
  "shift_outcome ((shift_count BX_IA_RCL_Eb i s AND 0x1f) mod 9) (RCL_EbR i s) (s)
     (BX_WRITE_8BIT_REGx (dst i) (extend8bitL i) (rc_value (word_rotl (shift_count BX_IA_RCL_Eb i s AND 0x1f) (carry_word (fCF (cpu_flags s)) (BX_READ_8BIT_REGx (dst i) (extend8bitL i) s) :: 9 word))) s)
     (rcl_flags (word_rotl (shift_count BX_IA_RCL_Eb i s AND 0x1f) (carry_word (fCF (cpu_flags s)) (BX_READ_8BIT_REGx (dst i) (extend8bitL i) s) :: 9 word)) s) \<and>
   shift_outcome ((shift_count BX_IA_RCR_Eb i s AND 0x1f) mod 9) (RCR_EbR i s) (s)
     (BX_WRITE_8BIT_REGx (dst i) (extend8bitL i) (rc_value (word_rotr (shift_count BX_IA_RCR_Eb i s AND 0x1f) (carry_word (fCF (cpu_flags s)) (BX_READ_8BIT_REGx (dst i) (extend8bitL i) s) :: 9 word))) s)
     (rcr_flags (word_rotr (shift_count BX_IA_RCR_Eb i s AND 0x1f) (carry_word (fCF (cpu_flags s)) (BX_READ_8BIT_REGx (dst i) (extend8bitL i) s) :: 9 word)) s) \<and>
   shift_outcome ((shift_count BX_IA_RCL_Ew i s AND 0x1f) mod 17) (RCL_EwR i s) (s)
     (BX_WRITE_16BIT_REG (dst i) (rc_value (word_rotl (shift_count BX_IA_RCL_Ew i s AND 0x1f) (carry_word (fCF (cpu_flags s)) (BX_READ_16BIT_REG (dst i) s) :: 17 word))) s)
     (rcl_flags (word_rotl (shift_count BX_IA_RCL_Ew i s AND 0x1f) (carry_word (fCF (cpu_flags s)) (BX_READ_16BIT_REG (dst i) s) :: 17 word)) s) \<and>
   shift_outcome ((shift_count BX_IA_RCR_Ew i s AND 0x1f) mod 17) (RCR_EwR i s) (s)
     (BX_WRITE_16BIT_REG (dst i) (rc_value (word_rotr (shift_count BX_IA_RCR_Ew i s AND 0x1f) (carry_word (fCF (cpu_flags s)) (BX_READ_16BIT_REG (dst i) s) :: 17 word))) s)
     (rcr_flags (word_rotr (shift_count BX_IA_RCR_Ew i s AND 0x1f) (carry_word (fCF (cpu_flags s)) (BX_READ_16BIT_REG (dst i) s) :: 17 word)) s) \<and>
   shift_outcome (shift_count BX_IA_RCL_Ed i s AND 0x1f) (RCL_EdR i s) (BX_CLEAR_64BIT_HIGH (dst i) s)
     (BX_WRITE_32BIT_REGZ (dst i) (rc_value (word_rotl (shift_count BX_IA_RCL_Ed i s AND 0x1f) (carry_word (fCF (cpu_flags s)) (BX_READ_32BIT_REG (dst i) s) :: 33 word))) s)
     (rcl_flags (word_rotl (shift_count BX_IA_RCL_Ed i s AND 0x1f) (carry_word (fCF (cpu_flags s)) (BX_READ_32BIT_REG (dst i) s) :: 33 word)) s) \<and>
   shift_outcome (shift_count BX_IA_RCR_Ed i s AND 0x1f) (RCR_EdR i s) (BX_CLEAR_64BIT_HIGH (dst i) s)
     (BX_WRITE_32BIT_REGZ (dst i) (rc_value (word_rotr (shift_count BX_IA_RCR_Ed i s AND 0x1f) (carry_word (fCF (cpu_flags s)) (BX_READ_32BIT_REG (dst i) s) :: 33 word))) s)
     (rcr_flags (word_rotr (shift_count BX_IA_RCR_Ed i s AND 0x1f) (carry_word (fCF (cpu_flags s)) (BX_READ_32BIT_REG (dst i) s) :: 33 word)) s) \<and>
   shift_outcome (shift_count BX_IA_RCL_Eq i s AND 0x3f) (RCL_EqR i s) (s)
     (BX_WRITE_64BIT_REG (dst i) (rc_value (word_rotl (shift_count BX_IA_RCL_Eq i s AND 0x3f) (carry_word (fCF (cpu_flags s)) (BX_READ_64BIT_REG (dst i) s) :: 65 word))) s)
     (rcl_flags (word_rotl (shift_count BX_IA_RCL_Eq i s AND 0x3f) (carry_word (fCF (cpu_flags s)) (BX_READ_64BIT_REG (dst i) s) :: 65 word)) s) \<and>
   shift_outcome (shift_count BX_IA_RCR_Eq i s AND 0x3f) (RCR_EqR i s) (s)
     (BX_WRITE_64BIT_REG (dst i) (rc_value (word_rotr (shift_count BX_IA_RCR_Eq i s AND 0x3f) (carry_word (fCF (cpu_flags s)) (BX_READ_64BIT_REG (dst i) s) :: 65 word))) s)
     (rcr_flags (word_rotr (shift_count BX_IA_RCR_Eq i s AND 0x3f) (carry_word (fCF (cpu_flags s)) (BX_READ_64BIT_REG (dst i) s) :: 65 word)) s)"
  by (intro conjI) (rule rcl8_outcome rcr8_outcome rcl16_outcome rcr16_outcome rcl32_outcome rcr32_outcome rcl64_outcome rcr64_outcome, rule refl, rule refl, rule refl)+

text \<open>SHLD and SHRD shift the concatenation of both operands: bits leaving the second operand enter the
  destination, CF is the last bit shifted out and the other flags are those of the result. The 16-bit
  forms accept counts above 16 and then wrap around into the destination's own bits.\<close>

theorem double_shift_registers:
  "shift_outcome (shift_count BX_IA_SHLD_EwGw i s AND 0x1f) (SHLD_EwGwR i s) (s)
     (BX_WRITE_16BIT_REG (dst i) (shld_value (shift_count BX_IA_SHLD_EwGw i s AND 0x1f) (BX_READ_16BIT_REG (dst i) s) (BX_READ_16BIT_REG (src i) s)) s)
     (shld_flags (shift_count BX_IA_SHLD_EwGw i s AND 0x1f) (BX_READ_16BIT_REG (dst i) s) (BX_READ_16BIT_REG (src i) s)) \<and>
   shift_outcome (shift_count BX_IA_SHRD_EwGw i s AND 0x1f) (SHRD_EwGwR i s) (s)
     (BX_WRITE_16BIT_REG (dst i) (shrd_value (shift_count BX_IA_SHRD_EwGw i s AND 0x1f) (BX_READ_16BIT_REG (dst i) s) (BX_READ_16BIT_REG (src i) s)) s)
     (shrd_flags (shift_count BX_IA_SHRD_EwGw i s AND 0x1f) (BX_READ_16BIT_REG (dst i) s) (BX_READ_16BIT_REG (src i) s)) \<and>
   shift_outcome (shift_count BX_IA_SHLD_EdGd i s AND 0x1f) (SHLD_EdGdR i s) (BX_CLEAR_64BIT_HIGH (dst i) s)
     (BX_WRITE_32BIT_REGZ (dst i) (shld_value (shift_count BX_IA_SHLD_EdGd i s AND 0x1f) (BX_READ_32BIT_REG (dst i) s) (BX_READ_32BIT_REG (src i) s)) s)
     (shld_flags (shift_count BX_IA_SHLD_EdGd i s AND 0x1f) (BX_READ_32BIT_REG (dst i) s) (BX_READ_32BIT_REG (src i) s)) \<and>
   shift_outcome (shift_count BX_IA_SHRD_EdGd i s AND 0x1f) (SHRD_EdGdR i s) (BX_CLEAR_64BIT_HIGH (dst i) s)
     (BX_WRITE_32BIT_REGZ (dst i) (shrd_value (shift_count BX_IA_SHRD_EdGd i s AND 0x1f) (BX_READ_32BIT_REG (dst i) s) (BX_READ_32BIT_REG (src i) s)) s)
     (shrd_flags (shift_count BX_IA_SHRD_EdGd i s AND 0x1f) (BX_READ_32BIT_REG (dst i) s) (BX_READ_32BIT_REG (src i) s)) \<and>
   shift_outcome (shift_count BX_IA_SHLD_EqGq i s AND 0x3f) (SHLD_EqGqR i s) (s)
     (BX_WRITE_64BIT_REG (dst i) (shld_value (shift_count BX_IA_SHLD_EqGq i s AND 0x3f) (BX_READ_64BIT_REG (dst i) s) (BX_READ_64BIT_REG (src i) s)) s)
     (shld_flags (shift_count BX_IA_SHLD_EqGq i s AND 0x3f) (BX_READ_64BIT_REG (dst i) s) (BX_READ_64BIT_REG (src i) s)) \<and>
   shift_outcome (shift_count BX_IA_SHRD_EqGq i s AND 0x3f) (SHRD_EqGqR i s) (s)
     (BX_WRITE_64BIT_REG (dst i) (shrd_value (shift_count BX_IA_SHRD_EqGq i s AND 0x3f) (BX_READ_64BIT_REG (dst i) s) (BX_READ_64BIT_REG (src i) s)) s)
     (shrd_flags (shift_count BX_IA_SHRD_EqGq i s AND 0x3f) (BX_READ_64BIT_REG (dst i) s) (BX_READ_64BIT_REG (src i) s))"
  by (intro conjI) (rule shld16_outcome shrd16_outcome shld32_outcome shrd32_outcome shld64_outcome shrd64_outcome, rule refl, rule refl, rule refl)+

end
