(* ===== verification/Bmi32.thy ===== *)
theory Bmi32
  imports BitGather ShiftProps
begin

text \<open>
  The bit manipulation instructions of \<^verbatim>\<open>cpu/bmi32.cc\<close>, in builds without APX.
\<close>

section \<open>Handlers\<close>

definition ANDN_GdBdEdR :: "bxInstruction_c \<Rightarrow> bx_cpu \<Rightarrow> bx_cpu" where
  "ANDN_GdBdEdR i s =
    (let op1_32 = BX_READ_32BIT_REG (src1 i) s;
         op2_32 = BX_READ_32BIT_REG (src2 i) s;
         op1_32 = NOT op1_32 AND op2_32;
         s = upd_oszapc (SET_FLAGS_OSZAxC_LOGIC_32 op1_32) s
     in BX_WRITE_32BIT_REGZ (dst i) op1_32 s)"

definition MULX_GdBdEdR :: "bxInstruction_c \<Rightarrow> bx_cpu \<Rightarrow> bx_cpu" where
  "MULX_GdBdEdR i s =
    (let op1_32 = EDX s;
         op2_32 = BX_READ_32BIT_REG (src2 i) s;
         product_64 = (ucast op1_32 * ucast op2_32 :: Bit64u);
         s = BX_WRITE_32BIT_REGZ (src1 i) (ucast product_64) s
     in BX_WRITE_32BIT_REGZ (dst i) (ucast (drop_bit 32 product_64)) s)"

definition BLSI_BdEdR :: "bxInstruction_c \<Rightarrow> bx_cpu \<Rightarrow> bx_cpu" where
  "BLSI_BdEdR i s =
    (let op1_32 = BX_READ_32BIT_REG (src i) s;
         tmpCF = (op1_32 \<noteq> 0);
         op1_32 = (- op1_32) AND op1_32;
         s = upd_oszapc (SET_FLAGS_OSZAxC_LOGIC_32 op1_32) s;
         s = upd_oszapc (set_CF tmpCF) s
     in BX_WRITE_32BIT_REGZ (dst i) op1_32 s)"

definition BLSMSK_BdEdR :: "bxInstruction_c \<Rightarrow> bx_cpu \<Rightarrow> bx_cpu" where
  "BLSMSK_BdEdR i s =
    (let op1_32 = BX_READ_32BIT_REG (src i) s;
         tmpCF = (op1_32 = 0);
         op1_32 = (op1_32 - 1) XOR op1_32;
         s = upd_oszapc (SET_FLAGS_OSZAxC_LOGIC_32 op1_32) s;
         s = upd_oszapc (set_CF tmpCF) s
     in BX_WRITE_32BIT_REGZ (dst i) op1_32 s)"

definition BLSR_BdEdR :: "bxInstruction_c \<Rightarrow> bx_cpu \<Rightarrow> bx_cpu" where
  "BLSR_BdEdR i s =
    (let op1_32 = BX_READ_32BIT_REG (src i) s;
         tmpCF = (op1_32 = 0);
         op1_32 = (op1_32 - 1) AND op1_32;
         s = upd_oszapc (SET_FLAGS_OSZAxC_LOGIC_32 op1_32) s;
         s = upd_oszapc (set_CF tmpCF) s
     in BX_WRITE_32BIT_REGZ (dst i) op1_32 s)"

definition RORX_GdEdIbR :: "bxInstruction_c \<Rightarrow> bx_cpu \<Rightarrow> bx_cpu" where
  "RORX_GdEdIbR i s =
    (let op1_32 = BX_READ_32BIT_REG (src i) s;
         count = unat (Ib i AND 0x1f);
         op1_32 = (if count \<noteq> 0 then ror32 op1_32 count else op1_32)
     in BX_WRITE_32BIT_REGZ (dst i) op1_32 s)"

definition SHRX_GdEdBdR :: "bxInstruction_c \<Rightarrow> bx_cpu \<Rightarrow> bx_cpu" where
  "SHRX_GdEdBdR i s =
    (let op1_32 = BX_READ_32BIT_REG (src1 i) s;
         count = unat (BX_READ_32BIT_REG (src2 i) s AND 0x1f);
         op1_32 = (if count \<noteq> 0 then drop_bit count op1_32 else op1_32)
     in BX_WRITE_32BIT_REGZ (dst i) op1_32 s)"

definition SARX_GdEdBdR :: "bxInstruction_c \<Rightarrow> bx_cpu \<Rightarrow> bx_cpu" where
  "SARX_GdEdBdR i s =
    (let op1_32 = BX_READ_32BIT_REG (src1 i) s;
         count = unat (BX_READ_32BIT_REG (src2 i) s AND 0x1f);
         op1_32 = (if count \<noteq> 0 then signed_drop_bit count op1_32 else op1_32)
     in BX_WRITE_32BIT_REGZ (dst i) op1_32 s)"

definition SHLX_GdEdBdR :: "bxInstruction_c \<Rightarrow> bx_cpu \<Rightarrow> bx_cpu" where
  "SHLX_GdEdBdR i s =
    (let op1_32 = BX_READ_32BIT_REG (src1 i) s;
         count = unat (BX_READ_32BIT_REG (src2 i) s AND 0x1f);
         op1_32 = (if count \<noteq> 0 then push_bit count op1_32 else op1_32)
     in BX_WRITE_32BIT_REGZ (dst i) op1_32 s)"

definition BEXTR_GdEdBdR :: "bxInstruction_c \<Rightarrow> bx_cpu \<Rightarrow> bx_cpu" where
  "BEXTR_GdEdBdR i s =
    (let control = BX_READ_16BIT_REG (src2 i) s;
         start = unat (control AND 0xff);
         len = unat (drop_bit 8 control);
         op1_32 = bextrd (BX_READ_32BIT_REG (src1 i) s) start len;
         s = BX_WRITE_32BIT_REGZ (dst i) op1_32 s;
         s = clearEFlagsOSZAPC s
     in if op1_32 = 0 then upd_oszapc assert_ZF s else s)"

definition BZHI_GdEdBdR :: "bxInstruction_c \<Rightarrow> bx_cpu \<Rightarrow> bx_cpu" where
  "BZHI_GdEdBdR i s =
    (let control = unat (BX_READ_8BIT_REGL (src2 i) s);
         op1_32 = BX_READ_32BIT_REG (src1 i) s;
         (tmpCF, op1_32) =
           (if control < 32 then (False, op1_32 AND (push_bit control 1 - 1)) else (True, op1_32));
         s = upd_oszapc (SET_FLAGS_OSZAxC_LOGIC_32 op1_32) s;
         s = upd_oszapc (set_CF tmpCF) s
     in BX_WRITE_32BIT_REGZ (dst i) op1_32 s)"

definition PEXT_GdBdEdR :: "bxInstruction_c \<Rightarrow> bx_cpu \<Rightarrow> bx_cpu" where
  "PEXT_GdBdEdR i s =
    (let op1_32 = BX_READ_32BIT_REG (src1 i) s;
         op2_32 = BX_READ_32BIT_REG (src2 i) s;
         result_32 = pext_loop op1_32 op2_32 0x1 0
     in BX_WRITE_32BIT_REGZ (dst i) result_32 s)"

definition PDEP_GdBdEdR :: "bxInstruction_c \<Rightarrow> bx_cpu \<Rightarrow> bx_cpu" where
  "PDEP_GdBdEdR i s =
    (let op1_32 = BX_READ_32BIT_REG (src1 i) s;
         op2_32 = BX_READ_32BIT_REG (src2 i) s;
         result_32 = pdep_loop op1_32 op2_32 0x1 0
     in BX_WRITE_32BIT_REGZ (dst i) result_32 s)"

definition ADCX_GdEdR :: "bxInstruction_c \<Rightarrow> bx_cpu \<Rightarrow> bx_cpu" where
  "ADCX_GdEdR i s =
    (let op1_32 = BX_READ_32BIT_REG (dst i) s;
         op2_32 = BX_READ_32BIT_REG (src i) s;
         sum_32 = op1_32 + op2_32 + getB_CF (oszapc s);
         s = BX_WRITE_32BIT_REGZ (dst i) sum_32 s;
         carry_out = ADD_COUT_VEC op1_32 op2_32 sum_32
     in upd_oszapc (set_CF (drop_bit 31 carry_out \<noteq> 0)) s)"

definition ADOX_GdEdR :: "bxInstruction_c \<Rightarrow> bx_cpu \<Rightarrow> bx_cpu" where
  "ADOX_GdEdR i s =
    (let op1_32 = BX_READ_32BIT_REG (dst i) s;
         op2_32 = BX_READ_32BIT_REG (src i) s;
         sum_32 = op1_32 + op2_32 + getB_OF (oszapc s);
         s = BX_WRITE_32BIT_REGZ (dst i) sum_32 s;
         carry_out = ADD_COUT_VEC op1_32 op2_32 sum_32
     in upd_oszapc (set_OF (drop_bit 31 carry_out \<noteq> 0)) s)"

section \<open>Results and flags\<close>

lemma bmi_logic32:
  fixes i :: bxInstruction_c and s :: bx_cpu
  defines "v \<equiv> BX_READ_32BIT_REG (src1 i) s" and "b \<equiv> BX_READ_32BIT_REG (src2 i) s" and "put \<equiv> \<lambda>r. BX_WRITE_32BIT_REGZ (dst i) r s"
    and "fl \<equiv> \<lambda>r c. (logic_flags (r :: Bit32u))\<lparr>fPF := fPF (cpu_flags s), fCF := c\<rparr>" and "n \<equiv> unat (BX_READ_8BIT_REGL (src2 i) s)"
  shows "with_flags (ANDN_GdBdEdR i s) (put (NOT v AND b)) (fl (NOT v AND b) False)"
    "with_flags (BLSI_BdEdR i s) (put (if v = 0 then 0 else push_bit (lowest_bit v) 1)) (fl (if v = 0 then 0 else push_bit (lowest_bit v) 1) (v \<noteq> 0))"
    "with_flags (BLSMSK_BdEdR i s) (put (if v = 0 then mask 32 else mask (Suc (lowest_bit v))))
      (fl (if v = 0 then mask 32 else mask (Suc (lowest_bit v))) (v = 0))"
    "with_flags (BLSR_BdEdR i s) (put (if v = 0 then 0 else unset_bit (lowest_bit v) v)) (fl (if v = 0 then 0 else unset_bit (lowest_bit v) v) (v = 0))"
    "with_flags (BZHI_GdEdBdR i s) (put (take_bit n v)) (fl (take_bit n v) (32 \<le> n))"
proof -
  have l: "(- v) AND v = (if v = 0 then 0 else push_bit (lowest_bit v) 1)"
    "(v - 1) XOR v = (if v = 0 then mask 32 else mask (Suc (lowest_bit v)))" "(v - 1) AND v = (if v = 0 then 0 else unset_bit (lowest_bit v) v)"
    using lowest_bit_forms [of v] by (cases "v = 0"; simp add: mask_eq_exp_minus_1)+
  have t: "v AND (push_bit n 1 - 1) = take_bit n v" "\<not> n < 32 \<Longrightarrow> v = take_bit n v"
  proof -
    show "v AND (push_bit n 1 - 1) = take_bit n v" by (simp add: take_bit_eq_mask mask_eq_exp_minus_1)
    show "v = take_bit n v" if "\<not> n < 32" by (rule bit_word_eqI) (use that in \<open>auto simp: bit_take_bit_iff\<close>)
  qed
  note e = with_flags_def flags_setters flags_OSZAxC reg_write_upd reg_write_frame put_def fl_def logic_flags_def
  show "with_flags (ANDN_GdBdEdR i s) (put (NOT v AND b)) (fl (NOT v AND b) False)"
    unfolding ANDN_GdBdEdR_def Let_def v_def [symmetric] b_def [symmetric] by (simp add: e)
  show "with_flags (BLSI_BdEdR i s) (put (if v = 0 then 0 else push_bit (lowest_bit v) 1)) (fl (if v = 0 then 0 else push_bit (lowest_bit v) 1) (v \<noteq> 0))"
    unfolding BLSI_BdEdR_def Let_def v_def [symmetric] l by (simp add: e)
  show "with_flags (BLSMSK_BdEdR i s) (put (if v = 0 then mask 32 else mask (Suc (lowest_bit v))))
      (fl (if v = 0 then mask 32 else mask (Suc (lowest_bit v))) (v = 0))"
    unfolding BLSMSK_BdEdR_def Let_def v_def [symmetric] l by (simp add: e)
  show "with_flags (BLSR_BdEdR i s) (put (if v = 0 then 0 else unset_bit (lowest_bit v) v)) (fl (if v = 0 then 0 else unset_bit (lowest_bit v) v) (v = 0))"
    unfolding BLSR_BdEdR_def Let_def v_def [symmetric] l by (simp add: e)
  show "with_flags (BZHI_GdEdBdR i s) (put (take_bit n v)) (fl (take_bit n v) (32 \<le> n))"
    unfolding BZHI_GdEdBdR_def Let_def v_def [symmetric] n_def [symmetric] t(1) using t(2) by (cases "n < 32") (simp_all add: e)
qed

lemma bmi_shift32:
  fixes i :: bxInstruction_c and s :: bx_cpu
  defines "v \<equiv> BX_READ_32BIT_REG (src1 i) s" and "c \<equiv> unat (BX_READ_32BIT_REG (src2 i) s AND 0x1f)" and "k \<equiv> unat (Ib i AND 0x1f)" and "put \<equiv> \<lambda>r. BX_WRITE_32BIT_REGZ (dst i) r s"
  shows "SHLX_GdEdBdR i s = put (push_bit c v)" "SHRX_GdEdBdR i s = put (drop_bit c v)" "SARX_GdEdBdR i s = put (signed_drop_bit c v)"
    "RORX_GdEdIbR i s = put (word_rotr k v)"
proof -
  show "SHLX_GdEdBdR i s = put (push_bit c v)" "SHRX_GdEdBdR i s = put (drop_bit c v)" "SARX_GdEdBdR i s = put (signed_drop_bit c v)"
    unfolding SHLX_GdEdBdR_def SHRX_GdEdBdR_def SARX_GdEdBdR_def Let_def v_def [symmetric] c_def [symmetric] put_def by (cases "c = 0"; simp)+
  have "k < 32" unfolding k_def by (rule count_bound)
  then show "RORX_GdEdIbR i s = put (word_rotr k v)"
    unfolding RORX_GdEdIbR_def Let_def v_def [symmetric] k_def [symmetric] put_def by (cases "k = 0") (simp_all add: rol_ror_word rotate_none)
qed

lemma bmi_bextr32:
  fixes i :: bxInstruction_c and s :: bx_cpu
  defines "control \<equiv> BX_READ_16BIT_REG (src2 i) s"
  defines "r \<equiv> take_bit (unat (drop_bit 8 control)) (drop_bit (unat (control AND 0xff)) (BX_READ_32BIT_REG (src1 i) s))"
  shows "with_flags (BEXTR_GdEdBdR i s) (BX_WRITE_32BIT_REGZ (dst i) r s) \<lparr>fOF = False, fSF = False, fZF = r = 0, fAF = False, fPF = False, fCF = False\<rparr>"
  unfolding BEXTR_GdEdBdR_def Let_def bit_fields control_def [symmetric] r_def [symmetric]
  by (simp add: with_flags_def flags_ZF clearEFlagsOSZAPC_flags) (simp add: clearEFlagsOSZAPC_def)

lemma bmi_add32:
  fixes i :: bxInstruction_c and s :: bx_cpu
  defines "a \<equiv> BX_READ_32BIT_REG (dst i) s" and "b \<equiv> BX_READ_32BIT_REG (src i) s" and "put \<equiv> \<lambda>r. BX_WRITE_32BIT_REGZ (dst i) r s"
    and "carry \<equiv> \<lambda>c. 2 ^ 32 \<le> uint (BX_READ_32BIT_REG (dst i) s) + uint (BX_READ_32BIT_REG (src i) s) + of_bool c" and "f \<equiv> cpu_flags s"
  shows "with_flags (ADCX_GdEdR i s) (put (a + b + of_bool (fCF f))) (f\<lparr>fCF := carry (fCF f)\<rparr>)"
    "with_flags (ADOX_GdEdR i s) (put (a + b + of_bool (fOF f))) (f\<lparr>fOF := carry (fOF f)\<rparr>)"
proof -
  have c: "drop_bit 31 (ADD_COUT_VEC x y (x + y + of_bool z)) \<noteq> 0 \<longleftrightarrow> 2 ^ 32 \<le> uint x + uint y + of_bool z" for x y :: Bit32u and z
    using carry_out_top [of 31 x y z] by simp
  show "with_flags (ADCX_GdEdR i s) (put (a + b + of_bool (fCF f))) (f\<lparr>fCF := carry (fCF f)\<rparr>)"
    unfolding ADCX_GdEdR_def Let_def getB_flags assms ucast_of_bool c by (simp add: with_flags_def flags_setters)
  show "with_flags (ADOX_GdEdR i s) (put (a + b + of_bool (fOF f))) (f\<lparr>fOF := carry (fOF f)\<rparr>)"
    unfolding ADOX_GdEdR_def Let_def getB_flags assms ucast_of_bool c by (simp add: with_flags_def flags_setters)
qed

end
