(* ===== verification/WideInt.thy ===== *)
theory WideInt
  imports ScalarArith
begin

text \<open>
  The 128-bit integers of \<^verbatim>\<open>cpu/wide_int.h\<close> as the classes \<open>Bit128u\<close> and \<open>Bit128s\<close> implement them on hosts
  without a native type: a value is a pair of 64-bit halves and every operator works on the halves.
  The refinement lemmas show that each operator computes the corresponding operation of 128-bit words,
  which is what the native types do.
\<close>

section \<open>Multiplication of halves\<close>

definition bx_mul64x64 :: "Bit64u \<Rightarrow> Bit64u \<Rightarrow> Bit64u \<times> Bit64u" where
  "bx_mul64x64 a b =
    (let a_lo = a AND 0xffffffff; a_hi = drop_bit 32 a;
         b_lo = b AND 0xffffffff; b_hi = drop_bit 32 b;
         p0 = a_lo * b_lo;
         p1 = a_lo * b_hi;
         p2 = a_hi * b_lo;
         p3 = a_hi * b_hi;
         mid = drop_bit 32 p0 + (p1 AND 0xffffffff) + (p2 AND 0xffffffff);
         hi = p3 + drop_bit 32 p1 + drop_bit 32 p2 + drop_bit 32 mid
     in (push_bit 32 mid OR (p0 AND 0xffffffff), hi))"

section \<open>The unsigned class\<close>

record Bit128u =
  m_hi :: Bit64u
  m_lo :: Bit64u

definition MAKE128U :: "Bit64u \<Rightarrow> Bit64u \<Rightarrow> Bit128u" where
  "MAKE128U h l = \<lparr>m_hi = h, m_lo = l\<rparr>"

definition GET128L :: "Bit128u \<Rightarrow> Bit64u" where "GET128L x = m_lo x"
definition GET128H :: "Bit128u \<Rightarrow> Bit64u" where "GET128H x = m_hi x"

text \<open>Conversion from an unsigned 64-bit value.\<close>

definition Bit128u_of :: "Bit64u \<Rightarrow> Bit128u" where
  "Bit128u_of v = \<lparr>m_hi = 0, m_lo = v\<rparr>"

definition u128_not :: "Bit128u \<Rightarrow> Bit128u" where
  "u128_not x = MAKE128U (NOT (m_hi x)) (NOT (m_lo x))"

definition u128_neg :: "Bit128u \<Rightarrow> Bit128u" where
  "u128_neg x = MAKE128U (NOT (m_hi x) + of_bool (m_lo x = 0)) (0 - m_lo x)"

definition u128_add :: "Bit128u \<Rightarrow> Bit128u \<Rightarrow> Bit128u" where
  "u128_add a b =
    (let lo = m_lo a + m_lo b
     in \<lparr>m_hi = m_hi a + (m_hi b + of_bool (lo < m_lo a)), m_lo = lo\<rparr>)"

definition u128_sub :: "Bit128u \<Rightarrow> Bit128u \<Rightarrow> Bit128u" where
  "u128_sub a b =
    (let lo = m_lo a - m_lo b
     in \<lparr>m_hi = m_hi a - (m_hi b + of_bool (m_lo a < m_lo b)), m_lo = lo\<rparr>)"

definition u128_mul :: "Bit128u \<Rightarrow> Bit128u \<Rightarrow> Bit128u" where
  "u128_mul a b =
    (let (lo, hi) = bx_mul64x64 (m_lo a) (m_lo b)
     in \<lparr>m_hi = hi + m_hi a * m_lo b + m_lo a * m_hi b, m_lo = lo\<rparr>)"

definition u128_and :: "Bit128u \<Rightarrow> Bit128u \<Rightarrow> Bit128u" where
  "u128_and a b = \<lparr>m_hi = m_hi a AND m_hi b, m_lo = m_lo a AND m_lo b\<rparr>"

definition u128_or :: "Bit128u \<Rightarrow> Bit128u \<Rightarrow> Bit128u" where
  "u128_or a b = \<lparr>m_hi = m_hi a OR m_hi b, m_lo = m_lo a OR m_lo b\<rparr>"

definition u128_xor :: "Bit128u \<Rightarrow> Bit128u \<Rightarrow> Bit128u" where
  "u128_xor a b = \<lparr>m_hi = m_hi a XOR m_hi b, m_lo = m_lo a XOR m_lo b\<rparr>"

definition u128_shl :: "Bit128u \<Rightarrow> nat \<Rightarrow> Bit128u" where
  "u128_shl a amount =
    (if 64 \<le> amount then \<lparr>m_hi = push_bit (amount - 64) (m_lo a), m_lo = 0\<rparr>
     else if 0 < amount then
       \<lparr>m_hi = push_bit amount (m_hi a) OR drop_bit (64 - amount) (m_lo a), m_lo = push_bit amount (m_lo a)\<rparr>
     else a)"

definition u128_shr :: "Bit128u \<Rightarrow> nat \<Rightarrow> Bit128u" where
  "u128_shr a amount =
    (if 64 \<le> amount then \<lparr>m_hi = 0, m_lo = drop_bit (amount - 64) (m_hi a)\<rparr>
     else if 0 < amount then
       \<lparr>m_hi = drop_bit amount (m_hi a), m_lo = drop_bit amount (m_lo a) OR push_bit (64 - amount) (m_hi a)\<rparr>
     else a)"

definition u128_eq :: "Bit128u \<Rightarrow> Bit128u \<Rightarrow> bool" where
  "u128_eq a b \<longleftrightarrow> (m_lo a XOR m_lo b) OR (m_hi a XOR m_hi b) = 0"

definition u128_less :: "Bit128u \<Rightarrow> Bit128u \<Rightarrow> bool" where
  "u128_less a b = (if m_hi a = m_hi b then m_lo a < m_lo b else m_hi a < m_hi b)"

definition BIT128U_MAX :: Bit128u where
  "BIT128U_MAX = MAKE128U 0xffffffffffffffff 0xffffffffffffffff"

section \<open>The signed class\<close>

text \<open>The high half is a two's complement value; only comparison and the right shift read its sign.\<close>

record Bit128s =
  s_hi :: Bit64u
  s_lo :: Bit64u

definition MAKE128S :: "Bit64u \<Rightarrow> Bit64u \<Rightarrow> Bit128s" where
  "MAKE128S h l = \<lparr>s_hi = h, s_lo = l\<rparr>"

definition GET128L_s :: "Bit128s \<Rightarrow> Bit64u" where "GET128L_s x = s_lo x"
definition GET128H_s :: "Bit128s \<Rightarrow> Bit64u" where "GET128H_s x = s_hi x"

definition Bit128s_of :: "Bit64u \<Rightarrow> Bit128s" where
  "Bit128s_of v = \<lparr>s_hi = (if v <s 0 then - 1 else 0), s_lo = v\<rparr>"

definition Bit128u_of_s :: "Bit128s \<Rightarrow> Bit128u" where
  "Bit128u_of_s v = \<lparr>m_hi = s_hi v, m_lo = s_lo v\<rparr>"

definition Bit128s_of_u :: "Bit128u \<Rightarrow> Bit128s" where
  "Bit128s_of_u v = MAKE128S (m_hi v) (m_lo v)"

definition s128_not :: "Bit128s \<Rightarrow> Bit128s" where
  "s128_not x = MAKE128S (NOT (s_hi x)) (NOT (s_lo x))"

definition s128_neg :: "Bit128s \<Rightarrow> Bit128s" where
  "s128_neg x = MAKE128S (NOT (s_hi x) + of_bool (s_lo x = 0)) (0 - s_lo x)"

definition s128_add :: "Bit128s \<Rightarrow> Bit128s \<Rightarrow> Bit128s" where
  "s128_add a b =
    (let lo = s_lo a + s_lo b
     in \<lparr>s_hi = s_hi a + s_hi b + of_bool (lo < s_lo a), s_lo = lo\<rparr>)"

definition s128_sub :: "Bit128s \<Rightarrow> Bit128s \<Rightarrow> Bit128s" where
  "s128_sub a b =
    (let lo = s_lo a - s_lo b
     in \<lparr>s_hi = s_hi a - s_hi b - of_bool (s_lo a < s_lo b), s_lo = lo\<rparr>)"

definition s128_mul :: "Bit128s \<Rightarrow> Bit128s \<Rightarrow> Bit128s" where
  "s128_mul a b =
    (let (lo, hi) = bx_mul64x64 (s_lo a) (s_lo b)
     in \<lparr>s_hi = hi + s_hi a * s_lo b + s_lo a * s_hi b, s_lo = lo\<rparr>)"

definition s128_and :: "Bit128s \<Rightarrow> Bit128s \<Rightarrow> Bit128s" where
  "s128_and a b = \<lparr>s_hi = s_hi a AND s_hi b, s_lo = s_lo a AND s_lo b\<rparr>"

definition s128_or :: "Bit128s \<Rightarrow> Bit128s \<Rightarrow> Bit128s" where
  "s128_or a b = \<lparr>s_hi = s_hi a OR s_hi b, s_lo = s_lo a OR s_lo b\<rparr>"

definition s128_xor :: "Bit128s \<Rightarrow> Bit128s \<Rightarrow> Bit128s" where
  "s128_xor a b = \<lparr>s_hi = s_hi a XOR s_hi b, s_lo = s_lo a XOR s_lo b\<rparr>"

definition s128_shl :: "Bit128s \<Rightarrow> nat \<Rightarrow> Bit128s" where
  "s128_shl a amount =
    (if 64 \<le> amount then \<lparr>s_hi = push_bit (amount - 64) (s_lo a), s_lo = 0\<rparr>
     else if 0 < amount then
       \<lparr>s_hi = push_bit amount (s_hi a) OR drop_bit (64 - amount) (s_lo a), s_lo = push_bit amount (s_lo a)\<rparr>
     else a)"

definition s128_shr :: "Bit128s \<Rightarrow> nat \<Rightarrow> Bit128s" where
  "s128_shr a amount =
    (if 64 \<le> amount then \<lparr>s_hi = signed_drop_bit 63 (s_hi a), s_lo = signed_drop_bit (amount - 64) (s_hi a)\<rparr>
     else if 0 < amount then
       \<lparr>s_hi = signed_drop_bit amount (s_hi a), s_lo = drop_bit amount (s_lo a) OR push_bit (64 - amount) (s_hi a)\<rparr>
     else a)"

definition s128_eq :: "Bit128s \<Rightarrow> Bit128s \<Rightarrow> bool" where
  "s128_eq a b \<longleftrightarrow> (s_lo a XOR s_lo b) OR (s_hi a XOR s_hi b) = 0"

definition s128_less :: "Bit128s \<Rightarrow> Bit128s \<Rightarrow> bool" where
  "s128_less a b = (if s_hi a = s_hi b then s_lo a < s_lo b else s_hi a <s s_hi b)"

definition BIT128S_MAX :: Bit128s where
  "BIT128S_MAX = MAKE128S 0x7fffffffffffffff 0xffffffffffffffff"

definition BIT128S_MIN :: Bit128s where
  "BIT128S_MIN = MAKE128S 0x8000000000000000 0"

section \<open>Halves of a 128-bit word\<close>

definition halves :: "Bit64u \<Rightarrow> Bit64u \<Rightarrow> 128 word" where
  "halves h l = push_bit 64 (ucast h) + ucast l"

definition U128 :: "Bit128u \<Rightarrow> 128 word" where "U128 x = halves (m_hi x) (m_lo x)"
definition S128 :: "Bit128s \<Rightarrow> 128 word" where "S128 x = halves (s_hi x) (s_lo x)"

lemma high_half_int: "push_bit 64 (ucast h) = (word_of_int (uint h * 2 ^ 64) :: 128 word)" for h :: Bit64u
  by (simp add: push_bit_eq_mult)

lemma word128_eq_iff: "(word_of_int x = (word_of_int y :: 128 word)) \<longleftrightarrow> x mod 2 ^ 128 = y mod 2 ^ 128"
  by (simp add: word_of_int_eq_iff take_bit_eq_mod)

lemma scale_mod: "x mod 2 ^ 64 * 2 ^ 64 = x * 2 ^ 64 mod 2 ^ 128" for x :: int
  using mult_mod_right[of "2 ^ 64" x "2 ^ 64"] by (simp add: mult.commute)

lemma high_half_hom:
  "push_bit 64 (ucast (x + y)) = push_bit 64 (ucast x) + (push_bit 64 (ucast y) :: 128 word)"
  "push_bit 64 (ucast (x - y)) = push_bit 64 (ucast x) - (push_bit 64 (ucast y) :: 128 word)"
  "push_bit 64 (ucast (x * y)) = push_bit 64 (ucast x) * (ucast y :: 128 word)"
  "push_bit 64 (ucast (- x)) = - (push_bit 64 (ucast x) :: 128 word)"
  for x y :: Bit64u
proof -
  have e: "push_bit 64 (ucast (word_of_int z :: Bit64u)) = (word_of_int (z * 2 ^ 64) :: 128 word)" for z
    unfolding high_half_int word128_eq_iff using scale_mod[of z] by (simp add: uint_word_of_int)
  show "push_bit 64 (ucast (x + y)) = push_bit 64 (ucast x) + (push_bit 64 (ucast y) :: 128 word)"
    using e[of "uint x + uint y"] by (simp add: push_bit_eq_mult algebra_simps)
  show "push_bit 64 (ucast (x - y)) = push_bit 64 (ucast x) - (push_bit 64 (ucast y) :: 128 word)"
    using e[of "uint x - uint y"] by (simp add: push_bit_eq_mult algebra_simps)
  show "push_bit 64 (ucast (x * y)) = push_bit 64 (ucast x) * (ucast y :: 128 word)"
    using e[of "uint x * uint y"] by (simp add: push_bit_eq_mult algebra_simps)
  show "push_bit 64 (ucast (- x)) = - (push_bit 64 (ucast x) :: 128 word)"
    using e[of "- uint x"] by (simp add: push_bit_eq_mult algebra_simps)
qed

lemma high_half_of_bool: "push_bit 64 (ucast (of_bool c :: Bit64u)) = (2 ^ 64 * of_bool c :: 128 word)"
  by (cases c) (simp_all add: push_bit_eq_mult)

lemma mod_near: "- m \<le> x \<Longrightarrow> x < 2 * m \<Longrightarrow> x mod m = (if x < 0 then x + m else if x < m then x else x - m)" for x m :: int
proof -
  assume a: "- m \<le> x" "x < 2 * m"
  have "(x + m) mod m = x mod m" "(x - m) mod m = x mod m" by simp_all
  then show ?thesis using a mod_pos_pos_trivial[of "x + m" m] mod_pos_pos_trivial[of x m] mod_pos_pos_trivial[of "x - m" m]
    by simp
qed

lemma low_half_add:
  "(ucast (a + b) :: 128 word) = ucast a + ucast b - 2 ^ 64 * of_bool (a + b < a)" for a b :: Bit64u
proof -
  have r: "0 \<le> uint a" "0 \<le> uint b" "uint a < 2 ^ 64" "uint b < 2 ^ 64"
    using uint_lt2p[of a] uint_lt2p[of b] by simp_all
  then have "uint (a + b) = (if uint a + uint b < 2 ^ 64 then uint a + uint b else uint a + uint b - 2 ^ 64)"
    using mod_near[of "2 ^ 64" "uint a + uint b"] by (simp add: uint_word_ariths)
  then have "uint (a + b) = uint a + uint b - 2 ^ 64 * of_bool (a + b < a)"
    using r by (auto simp: word_less_def split: if_splits)
  then have "(word_of_int (uint (a + b)) :: 128 word)
      = word_of_int (uint a + uint b - 2 ^ 64 * of_bool (a + b < a))" by (rule arg_cong)
  then show ?thesis by (cases "a + b < a") simp_all
qed

lemma low_half_sub:
  "(ucast (a - b) :: 128 word) = ucast a - ucast b + 2 ^ 64 * of_bool (a < b)" for a b :: Bit64u
proof -
  have r: "0 \<le> uint a" "0 \<le> uint b" "uint a < 2 ^ 64" "uint b < 2 ^ 64"
    using uint_lt2p[of a] uint_lt2p[of b] by simp_all
  then have "- (2 ^ 64) \<le> uint a - uint b" "uint a - uint b < 2 ^ 64" by linarith+
  then have "uint (a - b) = (if uint a < uint b then uint a - uint b + 2 ^ 64 else uint a - uint b)"
    using mod_near[of "2 ^ 64" "uint a - uint b"] by (simp add: uint_word_ariths)
  then have "uint (a - b) = uint a - uint b + 2 ^ 64 * of_bool (a < b)"
    by (auto simp: word_less_def split: if_splits)
  then have "(word_of_int (uint (a - b)) :: 128 word)
      = word_of_int (uint a - uint b + 2 ^ 64 * of_bool (a < b))" by (rule arg_cong)
  then show ?thesis by (cases "a < b") simp_all
qed

lemma halves_add: "halves (h1 + h2 + of_bool (l1 + l2 < l1)) (l1 + l2) = halves h1 l1 + halves h2 l2"
  unfolding halves_def high_half_hom low_half_add[of l1 l2] high_half_of_bool by (simp add: algebra_simps)

lemma halves_sub: "halves (h1 - h2 - of_bool (l1 < l2)) (l1 - l2) = halves h1 l1 - halves h2 l2"
  unfolding halves_def high_half_hom low_half_sub[of l1 l2] high_half_of_bool by (simp add: algebra_simps)

lemma halves_neg: "halves (NOT h + of_bool (l = 0)) (0 - l) = - halves h l"
proof -
  have "NOT h + of_bool (l = 0) = 0 - h - of_bool (0 < l)" by (auto simp: not_eq_complement word_gt_0)
  then show ?thesis using halves_sub[of 0 h 0 l] by (simp add: halves_def)
qed

lemma uint_halves: "uint (halves h l) = uint h * 2 ^ 64 + uint l"
proof -
  have r: "0 \<le> uint h" "0 \<le> uint l" "uint h < 2 ^ 64" "uint l < 2 ^ 64"
    using uint_lt2p[of h] uint_lt2p[of l] by simp_all
  have "uint h * 2 ^ 64 + uint l < 2 ^ 128" using r by simp
  then have "uint (word_of_int (uint h * 2 ^ 64 + uint l) :: 128 word) = uint h * 2 ^ 64 + uint l"
    using r by (simp only: uint_word_of_int) simp
  moreover have "halves h l = word_of_int (uint h * 2 ^ 64 + uint l)"
    by (simp add: halves_def push_bit_eq_mult)
  ultimately show ?thesis by simp
qed

lemma bit_halves: "bit (halves h l) k \<longleftrightarrow> (if k < 64 then bit l k else bit h (k - 64))"
proof -
  have "halves h l = push_bit 64 (ucast h) OR ucast l" unfolding halves_def
    by (rule disjunctive_add_eq_or) (auto simp: bit_eq_iff bit_and_iff bit_push_bit_iff bit_ucast_iff dest: bit_imp_le_length)
  then show ?thesis
    by (auto simp: bit_or_iff bit_push_bit_iff bit_ucast_iff dest: bit_imp_le_length)
qed

lemma halves_eq_iff: "halves h l = halves h' l' \<longleftrightarrow> h = h' \<and> l = l'"
proof
  assume e: "halves h l = halves h' l'"
  have "bit l k = bit l' k" if "k < 64" for k using arg_cong[OF e, of "\<lambda>w. bit w k"] that by (simp add: bit_halves)
  moreover have "bit h k = bit h' k" if "k < 64" for k
    using arg_cong[OF e, of "\<lambda>w. bit w (k + 64)"] that by (simp add: bit_halves)
  ultimately show "h = h' \<and> l = l'" by (auto intro: bit_word_eqI)
qed simp

section \<open>Multiplication\<close>

lemma schoolbook:
  fixes al ah bl bh B :: int
  assumes "0 < B"
  defines "p0 \<equiv> al * bl" and "p1 \<equiv> al * bh" and "p2 \<equiv> ah * bl" and "p3 \<equiv> ah * bh"
  defines "mid \<equiv> p0 div B + p1 mod B + p2 mod B"
  shows "(p3 + p1 div B + p2 div B + mid div B) * B\<^sup>2 + (mid mod B * B + p0 mod B) = (ah * B + al) * (bh * B + bl)"
proof -
  have d: "x = x div B * B + x mod B" for x by simp
  have "mid div B * B\<^sup>2 + mid mod B * B = mid * B"
    using d[of mid] by (metis (no_types, lifting) distrib_right mult.assoc power2_eq_square)
  moreover have "(p1 div B + p2 div B) * B\<^sup>2 + mid * B + p0 mod B = (p1 + p2) * B + p0"
    using d[of p1] d[of p2] d[of p0] unfolding mid_def power2_eq_square
    by (metis (no_types, opaque_lifting) add.assoc add.commute add.left_commute distrib_right mult.assoc)
  ultimately show ?thesis by (simp add: p0_def p1_def p2_def p3_def algebra_simps power2_eq_square)
qed

lemma low_mask32: "(a :: Bit64u) AND 0xffffffff = take_bit 32 a"
  by (simp add: take_bit_eq_mask mask_eq_exp_minus_1)

lemma half_values:
  "uint (take_bit 32 a) = uint a mod 2 ^ 32" "uint (drop_bit 32 a) = uint a div 2 ^ 32" for a :: Bit64u
  by (simp_all only: unsigned_take_bit_eq unsigned_drop_bit_eq take_bit_length_uint)
    (simp_all add: take_bit_eq_mod drop_bit_eq_div)

lemma half_products:
  fixes x y :: Bit64u
  assumes "uint x < 2 ^ 32" "uint y < 2 ^ 32"
  shows "uint (x * y) = uint x * uint y"
proof -
  have "uint x * uint y < 2 ^ 32 * 2 ^ 32" using assms by (intro mult_strict_mono') simp_all
  then show ?thesis by (simp add: uint_word_ariths)
qed

lemma low_product:
  fixes mid p :: Bit64u
  shows "uint (push_bit 32 mid OR take_bit 32 p) = uint mid mod 2 ^ 32 * 2 ^ 32 + uint p mod 2 ^ 32"
proof -
  have "push_bit 32 mid OR take_bit 32 p = push_bit 32 mid + take_bit 32 p"
    by (rule disjunctive_add_eq_or[symmetric]) (auto simp: bit_eq_iff bit_and_iff bit_push_bit_iff bit_take_bit_iff)
  moreover have "uint (push_bit 32 mid) = uint mid mod 2 ^ 32 * 2 ^ 32"
    using mult_mod_right[of "2 ^ 32" "uint mid" "2 ^ 32"]
    by (simp add: push_bit_eq_mult uint_word_ariths mult.commute)
  moreover have "uint mid mod 2 ^ 32 * 2 ^ 32 + uint p mod 2 ^ 32 < 2 ^ 64"
    using pos_mod_bound[of "2 ^ 32" "uint mid"] pos_mod_bound[of "2 ^ 32" "uint p"] by simp
  ultimately show ?thesis by (simp only: uint_word_ariths half_values) (simp add: pos_mod_sign)
qed

lemma mul64x64_uint:
  assumes "bx_mul64x64 a b = (lo, hi)"
  shows "uint hi * 2 ^ 64 + uint lo = uint a * uint b"
proof -
  define al ah bl bh where "al = uint a mod 2 ^ 32" "ah = uint a div 2 ^ 32" "bl = uint b mod 2 ^ 32" "bh = uint b div 2 ^ 32"
  note parts = al_ah_bl_bh_def
  have r: "0 \<le> al" "al < 2 ^ 32" "0 \<le> bl" "bl < 2 ^ 32" "0 \<le> ah" "ah < 2 ^ 32" "0 \<le> bh" "bh < 2 ^ 32"
    using uint_lt2p[of a] uint_lt2p[of b] by (simp_all add: parts pos_imp_zdiv_nonneg_iff div_less_iff_less_mult)
  define p0 p1 p2 p3 where "p0 = take_bit 32 a * take_bit 32 b" "p1 = take_bit 32 a * drop_bit 32 b"
    "p2 = drop_bit 32 a * take_bit 32 b" "p3 = drop_bit 32 a * drop_bit 32 b"
  note ps = p0_p1_p2_p3_def
  have u: "uint p0 = al * bl" "uint p1 = al * bh" "uint p2 = ah * bl" "uint p3 = ah * bh"
    unfolding ps using r by (simp_all only: half_products half_values parts)
  define mid where "mid = drop_bit 32 p0 + take_bit 32 p1 + take_bit 32 p2"
  define m where "m = al * bl div 2 ^ 32 + al * bh mod 2 ^ 32 + ah * bl mod 2 ^ 32"
  have "al * bl div 2 ^ 32 < 2 ^ 32" using uint_lt2p[of "drop_bit 32 p0"] uint_lt2p[of p0]
    by (simp add: half_values u div_less_iff_less_mult)
  moreover have "0 \<le> al * bl div 2 ^ 32" using r by (simp add: pos_imp_zdiv_nonneg_iff)
  moreover have "0 \<le> x mod 2 ^ 32" "x mod 2 ^ 32 < 2 ^ 32" for x :: int by simp_all
  ultimately have m: "0 \<le> m" "m < 2 ^ 64"
    unfolding m_def by (simp_all add: add_strict_mono order_less_le_trans add_nonneg_nonneg)
  have umid: "uint mid = m"
    using m unfolding mid_def m_def by (simp add: uint_word_ariths half_values u mod_add_left_eq)
  define H L where "H = ah * bh + al * bh div 2 ^ 32 + ah * bl div 2 ^ 32 + m div 2 ^ 32"
    and "L = m mod 2 ^ 32 * 2 ^ 32 + al * bl mod 2 ^ 32"
  have ab: "uint a = ah * 2 ^ 32 + al" "uint b = bh * 2 ^ 32 + bl" by (simp_all add: parts)
  have "H * (2 ^ 32)\<^sup>2 + L = uint a * uint b" unfolding H_def L_def m_def ab by (rule schoolbook) simp
  then have school: "H * 2 ^ 64 + L = uint a * uint b" by simp
  have "uint a * uint b < 2 ^ 64 * 2 ^ 64" using uint_lt2p[of a] uint_lt2p[of b] by (intro mult_strict_mono') simp_all
  moreover have "0 \<le> L" by (simp add: L_def)
  ultimately have "H * 2 ^ 64 < 2 ^ 64 * 2 ^ 64" using school by linarith
  moreover have "0 \<le> H" unfolding H_def using r m(1) by (simp add: pos_imp_zdiv_nonneg_iff)
  ultimately have H: "0 \<le> H" "H < 2 ^ 64" by simp_all
  have "hi = p3 + drop_bit 32 p1 + drop_bit 32 p2 + drop_bit 32 mid" and lo: "lo = push_bit 32 mid OR take_bit 32 p0"
    using assms by (simp_all add: bx_mul64x64_def Let_def low_mask32 ps mid_def)
  then have "uint hi = H mod 2 ^ 64"
    by (simp add: uint_word_ariths half_values u umid H_def mod_add_left_eq)
  with H have "uint hi = H" by simp
  then show ?thesis using school by (simp add: L_def lo low_product umid u)
qed

lemma halves_mul:
  "(case bx_mul64x64 l1 l2 of (lo, hi) \<Rightarrow> halves (hi + h1 * l2 + l1 * h2) lo) = halves h1 l1 * halves h2 l2"
proof -
  obtain lo hi where p: "bx_mul64x64 l1 l2 = (lo, hi)" by (cases "bx_mul64x64 l1 l2") auto
  have "(word_of_int (uint hi * 2 ^ 64 + uint lo) :: 128 word) = word_of_int (uint l1 * uint l2)"
    using mul64x64_uint[OF p] by simp
  then have low: "push_bit 64 (ucast hi) + ucast lo = (ucast l1 * ucast l2 :: 128 word)"
    by (simp add: push_bit_eq_mult)
  have z: "push_bit 64 (ucast h1) * push_bit 64 (ucast h2) = (0 :: 128 word)"
  proof -
    have "push_bit 64 (ucast h1) * push_bit 64 (ucast h2) = push_bit 128 (ucast h1 * ucast h2 :: 128 word)"
      by (simp add: push_bit_eq_mult)
    then show ?thesis by (simp add: push_bit_word_beyond)
  qed
  have "push_bit 64 (ucast (l1 * h2)) = (ucast l1 * push_bit 64 (ucast h2) :: 128 word)"
    using high_half_hom(3)[of h2 l1] by (simp add: mult.commute)
  then have "halves (hi + h1 * l2 + l1 * h2) lo = push_bit 64 (ucast hi) + ucast lo
      + push_bit 64 (ucast h1) * ucast l2 + ucast l1 * push_bit 64 (ucast h2)"
    unfolding halves_def high_half_hom by (simp add: algebra_simps)
  also have "\<dots> = halves h1 l1 * halves h2 l2" unfolding low halves_def using z by (simp add: algebra_simps)
  finally show ?thesis by (simp add: p)
qed

section \<open>Shifts and comparisons\<close>

lemma halves_shl:
  assumes "0 < n" "n < 64"
  shows "halves (push_bit n h OR drop_bit (64 - n) l) (push_bit n l) = push_bit n (halves h l)"
  using assms by (intro bit_word_eqI) (auto simp: bit_halves bit_or_iff bit_push_bit_iff bit_drop_bit_eq add.commute[of 64 n] dest: bit_imp_le_length)

lemma halves_shl_far: "64 \<le> n \<Longrightarrow> n < 128 \<Longrightarrow> halves (push_bit (n - 64) l) 0 = push_bit n (halves h l)"
  by (intro bit_word_eqI) (auto simp: bit_halves bit_push_bit_iff dest: bit_imp_le_length)

lemma halves_shr:
  assumes "0 < n" "n < 64"
  shows "halves (drop_bit n h) (drop_bit n l OR push_bit (64 - n) h) = drop_bit n (halves h l)"
  using assms by (intro bit_word_eqI)
    (auto simp: bit_halves bit_or_iff bit_push_bit_iff bit_drop_bit_eq not_less add.commute dest: bit_imp_le_length)

lemma halves_shr_far: "64 \<le> n \<Longrightarrow> halves 0 (drop_bit (n - 64) h) = drop_bit n (halves h l)"
  by (intro bit_word_eqI) (auto simp: bit_halves bit_drop_bit_eq dest: bit_imp_le_length)

lemma halves_sar:
  assumes "0 < n" "n < 64"
  shows "halves (signed_drop_bit n h) (drop_bit n l OR push_bit (64 - n) h) = signed_drop_bit n (halves h l)"
  using assms by (intro bit_word_eqI)
    (auto simp: bit_halves bit_or_iff bit_push_bit_iff bit_drop_bit_eq bit_signed_drop_bit_iff not_less add.commute
      dest: bit_imp_le_length)

lemma halves_sar_far:
  "64 \<le> n \<Longrightarrow> n < 128 \<Longrightarrow> halves (signed_drop_bit 63 h) (signed_drop_bit (n - 64) h) = signed_drop_bit n (halves h l)"
proof (intro bit_word_eqI)
  fix k assume "64 \<le> n" "n < 128" "k < LENGTH(128)"
  then show "bit (halves (signed_drop_bit 63 h) (signed_drop_bit (n - 64) h)) k = bit (signed_drop_bit n (halves h l)) k"
    by (cases "k = 64") (auto simp: bit_halves bit_signed_drop_bit_iff)
qed

lemma halves_bitwise:
  "halves (h AND h') (l AND l') = halves h l AND halves h' l'" "halves (h OR h') (l OR l') = halves h l OR halves h' l'"
  "halves (h XOR h') (l XOR l') = halves h l XOR halves h' l'" "halves (NOT h) (NOT l) = NOT (halves h l)"
  by (rule bit_word_eqI, auto simp: bit_halves bit_and_iff bit_or_iff bit_xor_iff bit_not_iff)+

lemma lexicographic:
  fixes a b c d m :: int
  assumes "0 \<le> c" "c < m" "0 \<le> d" "d < m"
  shows "a * m + c < b * m + d \<longleftrightarrow> (if a = b then c < d else a < b)"
proof -
  have less: "x * m + c' < y * m + d'" if "x < y" "c' < m" "0 \<le> d'" for x y c' d'
  proof -
    have "(x + 1) * m \<le> y * m" using that assms by (intro mult_right_mono) simp_all
    then show ?thesis using that by (simp add: distrib_right)
  qed
  show ?thesis using less[of a b c d] less[of b a d c] assms by (cases "a < b"; cases "b < a") auto
qed

lemma halves_less: "halves h l < halves h' l' \<longleftrightarrow> (if h = h' then l < l' else h < h')"
proof -
  have "uint l < 2 ^ 64" "uint l' < 2 ^ 64" using uint_lt2p[of l] uint_lt2p[of l'] by simp_all
  then show ?thesis
    unfolding word_less_def uint_halves by (subst lexicographic) (simp_all flip: word_uint_eq_iff)
qed

lemma sint_uint_top:
  "sint w = uint w - 2 ^ LENGTH('a) * of_bool (bit w (LENGTH('a) - 1))" for w :: "('a::len) word"
proof -
  obtain n where n: "LENGTH('a) = Suc n" by (cases "LENGTH('a)") auto
  have "uint w = take_bit (Suc n) (uint w)" using take_bit_length_uint[of w] by (simp add: n)
  then have "uint w = take_bit n (uint w) + 2 ^ n * of_bool (bit w n)"
    by (simp add: take_bit_Suc_from_most bit_uint_iff n)
  then show ?thesis using sint_top_bit[OF n, of w] by (cases "bit w n") (simp_all add: n)
qed

lemma sint_halves: "sint (halves h l) = sint h * 2 ^ 64 + uint l"
  by (simp add: sint_uint_top uint_halves bit_halves algebra_simps)

lemma sint_inject: "sint a = sint b \<longleftrightarrow> a = b" for a b :: "('a::len) word"
  by (auto intro: signed_word_eqI)

lemma halves_sless: "halves h l <s halves h' l' \<longleftrightarrow> (if h = h' then l < l' else h <s h')"
proof -
  have "uint l < 2 ^ 64" "uint l' < 2 ^ 64" using uint_lt2p[of l] uint_lt2p[of l'] by simp_all
  then show ?thesis
    unfolding word_sless_alt sint_halves by (subst lexicographic) (simp_all add: word_less_def sint_inject)
qed

section \<open>The contract of a 128-bit integer type\<close>

text \<open>
  Code that uses the wide types must behave the same over the native types and over the classes. The
  contract: a value stands for a 128-bit word, it is made of and split into its halves, and the
  operators are those of 128-bit words. Unsigned and signed types differ in the right shift, the order
  and the meaning of the value.
\<close>

locale int128 =
  fixes val :: "'a \<Rightarrow> 128 word"
    and make :: "Bit64u \<Rightarrow> Bit64u \<Rightarrow> 'a"
    and hi lo :: "'a \<Rightarrow> Bit64u"
    and add sub mul :: "'a \<Rightarrow> 'a \<Rightarrow> 'a"
    and neg :: "'a \<Rightarrow> 'a"
    and shl :: "'a \<Rightarrow> nat \<Rightarrow> 'a"
    and eq :: "'a \<Rightarrow> 'a \<Rightarrow> bool"
  assumes val_make: "val (make h l) = halves h l"
    and val_parts: "val x = halves (hi x) (lo x)"
    and val_add: "val (add x y) = val x + val y"
    and val_sub: "val (sub x y) = val x - val y"
    and val_mul: "val (mul x y) = val x * val y"
    and val_neg: "val (neg x) = - val x"
    and val_shl: "n < 128 \<Longrightarrow> val (shl x n) = push_bit n (val x)"
    and val_eq: "eq x y \<longleftrightarrow> val x = val y"
begin

lemma hi_make [simp]: "hi (make h l) = h" and lo_make [simp]: "lo (make h l) = l"
  using val_make[of h l] val_parts[of "make h l"] by (simp_all add: halves_eq_iff)

lemma lo_val: "lo x = ucast (val x)"
  by (rule bit_word_eqI) (simp add: val_parts bit_halves bit_ucast_iff)

lemma hi_val: "hi x = ucast (drop_bit 64 (val x))"
  by (rule bit_word_eqI) (auto simp: val_parts bit_halves bit_ucast_iff bit_drop_bit_eq add.commute)

lemma hi_zero_iff: "hi x = 0 \<longleftrightarrow> uint (val x) < 2 ^ 64"
proof -
  have "0 \<le> uint (lo x)" "uint (lo x) < 2 ^ 64" "0 \<le> uint (hi x)" using uint_lt2p[of "lo x"] by simp_all
  then have "uint (hi x) * 2 ^ 64 + uint (lo x) < 2 ^ 64 \<longleftrightarrow> uint (hi x) = 0"
    using lexicographic[of "uint (lo x)" "2 ^ 64" 0 "uint (hi x)" 1] by (auto simp: not_less order_le_less)
  then show ?thesis by (simp add: val_parts uint_halves word_uint_eq_iff)
qed

text \<open>The test for a product that fits into its low half, taken as a signed value.\<close>

lemma magic_compare: "hi x + drop_bit 63 (lo x) = 0 \<longleftrightarrow> sint (val x) = sint (lo x)"
proof -
  have d: "drop_bit 63 (lo x) = of_bool (bit (lo x) 63)"
    by (rule bit_word_eqI, rename_tac n, case_tac n) (auto simp: bit_drop_bit_eq dest: bit_imp_le_length)
  have "sint (val x) = sint (hi x) * 2 ^ 64 + uint (lo x)" by (simp only: val_parts sint_halves)
  moreover have "sint (lo x) = uint (lo x) - 2 ^ 64 * of_bool (bit (lo x) 63)" by (simp add: sint_uint_top)
  ultimately have "sint (val x) = sint (lo x) \<longleftrightarrow> sint (hi x) = - of_bool (bit (lo x) 63)" by auto
  also have "\<dots> \<longleftrightarrow> hi x = - of_bool (bit (lo x) 63)"
    by (cases "bit (lo x) 63") (simp_all flip: sint_inject)
  finally show ?thesis by (auto simp: d eq_neg_iff_add_eq_0)
qed

end

locale uint128 = int128 +
  fixes shr :: "'a \<Rightarrow> nat \<Rightarrow> 'a"
    and less :: "'a \<Rightarrow> 'a \<Rightarrow> bool"
  assumes val_shr: "n < 128 \<Longrightarrow> val (shr x n) = drop_bit n (val x)"
    and val_less: "less x y \<longleftrightarrow> val x < val y"

locale sint128 = int128 +
  fixes shr :: "'a \<Rightarrow> nat \<Rightarrow> 'a"
    and less :: "'a \<Rightarrow> 'a \<Rightarrow> bool"
  assumes val_shr: "n < 128 \<Longrightarrow> val (shr x n) = signed_drop_bit n (val x)"
    and val_less: "less x y \<longleftrightarrow> val x <s val y"

text \<open>The native types, as the other branch of the header defines the access to their halves.\<close>

definition MAKE128U_native :: "Bit64u \<Rightarrow> Bit64u \<Rightarrow> 128 word" where
  "MAKE128U_native h l = push_bit 64 (ucast h) OR ucast l"

definition GET128L_native :: "128 word \<Rightarrow> Bit64u" where "GET128L_native x = ucast x"
definition GET128H_native :: "128 word \<Rightarrow> Bit64u" where "GET128H_native x = ucast (drop_bit 64 x)"

lemma native_halves: "MAKE128U_native h l = halves h l" "x = halves (GET128H_native x) (GET128L_native x)"
  by (rule bit_word_eqI, auto simp: MAKE128U_native_def GET128H_native_def GET128L_native_def bit_halves bit_or_iff
      bit_push_bit_iff bit_ucast_iff bit_drop_bit_eq dest: bit_imp_le_length)+

interpretation native: uint128 "\<lambda>x. x" MAKE128U_native GET128H_native GET128L_native
  "(+)" "(-)" "(*)" uminus "\<lambda>x n. push_bit n x" "(=)" "\<lambda>x n. drop_bit n x" "(<)"
  by unfold_locales (simp_all add: native_halves flip: native_halves(2))

lemma xor_zero_word: "x XOR y = 0 \<longleftrightarrow> x = y" for x y :: Bit64u
  by (auto simp: bit_eq_iff bit_xor_iff)

interpretation u128: uint128 U128 MAKE128U GET128H GET128L u128_add u128_sub u128_mul u128_neg u128_shl u128_eq
  u128_shr u128_less
proof unfold_locales
  fix x y :: Bit128u
  show "U128 (u128_add x y) = U128 x + U128 y"
    using halves_add[of "m_hi x" "m_hi y" "m_lo x" "m_lo y"] by (simp add: U128_def u128_add_def Let_def add.assoc)
  show "U128 (u128_sub x y) = U128 x - U128 y"
    using halves_sub[of "m_hi x" "m_hi y" "m_lo x" "m_lo y"] by (simp add: U128_def u128_sub_def Let_def diff_diff_eq)
  show "U128 (u128_mul x y) = U128 x * U128 y"
    using halves_mul[of "m_hi x" "m_lo y" "m_lo x" "m_hi y"] by (simp add: U128_def u128_mul_def split: prod.splits)
qed (auto simp: U128_def MAKE128U_def GET128H_def GET128L_def u128_neg_def halves_neg[simplified] u128_shl_def
    halves_shl halves_shl_far u128_eq_def or_eq_0_iff xor_zero_word halves_eq_iff u128_shr_def halves_shr
    halves_shr_far u128_less_def halves_less)

interpretation s128: sint128 S128 MAKE128S GET128H_s GET128L_s s128_add s128_sub s128_mul s128_neg s128_shl s128_eq
  s128_shr s128_less
proof unfold_locales
  fix x y :: Bit128s
  show "S128 (s128_add x y) = S128 x + S128 y"
    using halves_add[of "s_hi x" "s_hi y" "s_lo x" "s_lo y"] by (simp add: S128_def s128_add_def Let_def)
  show "S128 (s128_sub x y) = S128 x - S128 y"
    using halves_sub[of "s_hi x" "s_hi y" "s_lo x" "s_lo y"] by (simp add: S128_def s128_sub_def Let_def)
  show "S128 (s128_mul x y) = S128 x * S128 y"
    using halves_mul[of "s_hi x" "s_lo y" "s_lo x" "s_hi y"] by (simp add: S128_def s128_mul_def split: prod.splits)
qed (auto simp: S128_def MAKE128S_def GET128H_s_def GET128L_s_def s128_neg_def halves_neg[simplified] s128_shl_def
    halves_shl halves_shl_far s128_eq_def or_eq_0_iff xor_zero_word halves_eq_iff s128_shr_def halves_sar
    halves_sar_far s128_less_def halves_sless)

text \<open>C13. The class Bit128u implements 128-bit unsigned arithmetic on pairs of 64-bit halves: with \<open>U128\<close> the word a
  pair stands for, its sum, difference, product, negation, complement, bitwise operators, shifts by 0 to 127, equality
  and order are those of 128-bit words, as for the native type.\<close>

theorem Bit128u_refines_word:
  "U128 (u128_add x y) = U128 x + U128 y \<and> U128 (u128_sub x y) = U128 x - U128 y \<and>
   U128 (u128_mul x y) = U128 x * U128 y \<and> U128 (u128_neg x) = - U128 x \<and> U128 (u128_not x) = NOT (U128 x) \<and>
   U128 (u128_and x y) = U128 x AND U128 y \<and> U128 (u128_or x y) = U128 x OR U128 y \<and>
   U128 (u128_xor x y) = U128 x XOR U128 y \<and>
   U128 (u128_shl x (n mod 128)) = push_bit (n mod 128) (U128 x) \<and>
   U128 (u128_shr x (n mod 128)) = drop_bit (n mod 128) (U128 x) \<and>
   (u128_eq x y \<longleftrightarrow> U128 x = U128 y) \<and> (u128_less x y \<longleftrightarrow> U128 x < U128 y)"
  by (simp add: u128.val_add u128.val_sub u128.val_mul u128.val_neg u128.val_shl u128.val_shr u128.val_eq u128.val_less)
    (simp add: U128_def u128_not_def u128_and_def u128_or_def u128_xor_def MAKE128U_def halves_bitwise)

text \<open>The class Bit128s implements 128-bit two's complement arithmetic on pairs of halves: sum, difference, product,
  negation, bitwise operators and left shift are those of 128-bit words, the right shift is arithmetic, the order is the signed order,
  and conversion from a signed 64-bit value keeps it.\<close>

theorem Bit128s_refines_word:
  "S128 (s128_add x y) = S128 x + S128 y \<and> S128 (s128_sub x y) = S128 x - S128 y \<and>
   S128 (s128_mul x y) = S128 x * S128 y \<and> S128 (s128_neg x) = - S128 x \<and> S128 (s128_not x) = NOT (S128 x) \<and>
   S128 (s128_and x y) = S128 x AND S128 y \<and> S128 (s128_or x y) = S128 x OR S128 y \<and>
   S128 (s128_xor x y) = S128 x XOR S128 y \<and>
   S128 (s128_shl x (n mod 128)) = push_bit (n mod 128) (S128 x) \<and>
   sint (S128 (s128_shr x (n mod 128))) = sint (S128 x) div 2 ^ (n mod 128) \<and>
   (s128_eq x y \<longleftrightarrow> S128 x = S128 y) \<and> (s128_less x y \<longleftrightarrow> sint (S128 x) < sint (S128 y)) \<and>
   sint (S128 (Bit128s_of v)) = sint v"
proof -
  have "sint (S128 (Bit128s_of v)) = sint v"
    using uint_lt2p[of v] by (auto simp: S128_def Bit128s_of_def sint_halves word_sless_alt sint_uint_top[of v] not_less)
  then show ?thesis
    by (simp add: s128.val_add s128.val_sub s128.val_mul s128.val_neg s128.val_shl s128.val_shr s128.val_eq
        s128.val_less sint_signed_drop_bit_eq drop_bit_eq_div word_sless_alt)
      (simp add: S128_def s128_not_def s128_and_def s128_or_def s128_xor_def MAKE128S_def halves_bitwise)
qed

end
