(* ===== verification/Bmi64.thy ===== *)
theory Bmi64
  imports BitGather ShiftProps WideInt
begin

text \<open>
  The bit manipulation instructions of \<^verbatim>\<open>cpu/bmi64.cc\<close>, in builds without APX.
\<close>

section \<open>Handlers\<close>

definition ANDN_GqBqEqR :: "bxInstruction_c \<Rightarrow> bx_cpu \<Rightarrow> bx_cpu" where
  "ANDN_GqBqEqR i s =
    (let op1_64 = BX_READ_64BIT_REG (src1 i) s;
         op2_64 = BX_READ_64BIT_REG (src2 i) s;
         op1_64 = NOT op1_64 AND op2_64;
         s = upd_oszapc (SET_FLAGS_OSZAxC_LOGIC_64 op1_64) s
     in BX_WRITE_64BIT_REG (dst i) op1_64 s)"

definition MULX_GqBqEqR :: "bxInstruction_c \<Rightarrow> bx_cpu \<Rightarrow> bx_cpu" where
  "MULX_GqBqEqR i s =
    (let op1_64 = RDX s;
         op2_64 = BX_READ_64BIT_REG (src2 i) s;
         product_128 = u128_mul (Bit128u_of op1_64) (Bit128u_of op2_64);
         s = BX_WRITE_64BIT_REG (src1 i) (GET128L product_128) s
     in BX_WRITE_64BIT_REG (dst i) (GET128H product_128) s)"

definition BLSI_BqEqR :: "bxInstruction_c \<Rightarrow> bx_cpu \<Rightarrow> bx_cpu" where
  "BLSI_BqEqR i s =
    (let op1_64 = BX_READ_64BIT_REG (src i) s;
         tmpCF = (op1_64 \<noteq> 0);
         op1_64 = (- op1_64) AND op1_64;
         s = upd_oszapc (SET_FLAGS_OSZAxC_LOGIC_64 op1_64) s;
         s = upd_oszapc (set_CF tmpCF) s
     in BX_WRITE_64BIT_REG (dst i) op1_64 s)"

definition BLSMSK_BqEqR :: "bxInstruction_c \<Rightarrow> bx_cpu \<Rightarrow> bx_cpu" where
  "BLSMSK_BqEqR i s =
    (let op1_64 = BX_READ_64BIT_REG (src i) s;
         tmpCF = (op1_64 = 0);
         op1_64 = (op1_64 - 1) XOR op1_64;
         s = upd_oszapc (SET_FLAGS_OSZAxC_LOGIC_64 op1_64) s;
         s = upd_oszapc (set_CF tmpCF) s
     in BX_WRITE_64BIT_REG (dst i) op1_64 s)"

definition BLSR_BqEqR :: "bxInstruction_c \<Rightarrow> bx_cpu \<Rightarrow> bx_cpu" where
  "BLSR_BqEqR i s =
    (let op1_64 = BX_READ_64BIT_REG (src i) s;
         tmpCF = (op1_64 = 0);
         op1_64 = (op1_64 - 1) AND op1_64;
         s = upd_oszapc (SET_FLAGS_OSZAxC_LOGIC_64 op1_64) s;
         s = upd_oszapc (set_CF tmpCF) s
     in BX_WRITE_64BIT_REG (dst i) op1_64 s)"

definition RORX_GqEqIbR :: "bxInstruction_c \<Rightarrow> bx_cpu \<Rightarrow> bx_cpu" where
  "RORX_GqEqIbR i s =
    (let op1_64 = BX_READ_64BIT_REG (src i) s;
         count = unat (Ib i AND 0x3f);
         op1_64 = (if count \<noteq> 0 then ror64 op1_64 count else op1_64)
     in BX_WRITE_64BIT_REG (dst i) op1_64 s)"

definition SHRX_GqEqBqR :: "bxInstruction_c \<Rightarrow> bx_cpu \<Rightarrow> bx_cpu" where
  "SHRX_GqEqBqR i s =
    (let op1_64 = BX_READ_64BIT_REG (src1 i) s;
         count = unat (BX_READ_32BIT_REG (src2 i) s AND 0x3f);
         op1_64 = (if count \<noteq> 0 then drop_bit count op1_64 else op1_64)
     in BX_WRITE_64BIT_REG (dst i) op1_64 s)"

definition SARX_GqEqBqR :: "bxInstruction_c \<Rightarrow> bx_cpu \<Rightarrow> bx_cpu" where
  "SARX_GqEqBqR i s =
    (let op1_64 = BX_READ_64BIT_REG (src1 i) s;
         count = unat (BX_READ_32BIT_REG (src2 i) s AND 0x3f);
         op1_64 = (if count \<noteq> 0 then signed_drop_bit count op1_64 else op1_64)
     in BX_WRITE_64BIT_REG (dst i) op1_64 s)"

definition SHLX_GqEqBqR :: "bxInstruction_c \<Rightarrow> bx_cpu \<Rightarrow> bx_cpu" where
  "SHLX_GqEqBqR i s =
    (let op1_64 = BX_READ_64BIT_REG (src1 i) s;
         count = unat (BX_READ_32BIT_REG (src2 i) s AND 0x3f);
         op1_64 = (if count \<noteq> 0 then push_bit count op1_64 else op1_64)
     in BX_WRITE_64BIT_REG (dst i) op1_64 s)"

definition BEXTR_GqEqBqR :: "bxInstruction_c \<Rightarrow> bx_cpu \<Rightarrow> bx_cpu" where
  "BEXTR_GqEqBqR i s =
    (let control = BX_READ_16BIT_REG (src2 i) s;
         start = unat (control AND 0xff);
         len = unat (drop_bit 8 control);
         op1_64 = bextrq (BX_READ_64BIT_REG (src1 i) s) start len;
         s = BX_WRITE_64BIT_REG (dst i) op1_64 s;
         s = clearEFlagsOSZAPC s
     in if op1_64 = 0 then upd_oszapc assert_ZF s else s)"

definition BZHI_GqEqBqR :: "bxInstruction_c \<Rightarrow> bx_cpu \<Rightarrow> bx_cpu" where
  "BZHI_GqEqBqR i s =
    (let control = unat (BX_READ_8BIT_REGL (src2 i) s);
         op1_64 = BX_READ_64BIT_REG (src1 i) s;
         (tmpCF, op1_64) =
           (if control < 64 then (False, op1_64 AND (push_bit control 1 - 1)) else (True, op1_64));
         s = upd_oszapc (SET_FLAGS_OSZAxC_LOGIC_64 op1_64) s;
         s = upd_oszapc (set_CF tmpCF) s
     in BX_WRITE_64BIT_REG (dst i) op1_64 s)"

definition PEXT_GqBqEqR :: "bxInstruction_c \<Rightarrow> bx_cpu \<Rightarrow> bx_cpu" where
  "PEXT_GqBqEqR i s =
    (let op1_64 = BX_READ_64BIT_REG (src1 i) s;
         op2_64 = BX_READ_64BIT_REG (src2 i) s;
         result_64 = pext_loop op1_64 op2_64 0x1 0
     in BX_WRITE_64BIT_REG (dst i) result_64 s)"

definition PDEP_GqBqEqR :: "bxInstruction_c \<Rightarrow> bx_cpu \<Rightarrow> bx_cpu" where
  "PDEP_GqBqEqR i s =
    (let op1_64 = BX_READ_64BIT_REG (src1 i) s;
         op2_64 = BX_READ_64BIT_REG (src2 i) s;
         result_64 = pdep_loop op1_64 op2_64 0x1 0
     in BX_WRITE_64BIT_REG (dst i) result_64 s)"

definition ADCX_GqEqR :: "bxInstruction_c \<Rightarrow> bx_cpu \<Rightarrow> bx_cpu" where
  "ADCX_GqEqR i s =
    (let op1_64 = BX_READ_64BIT_REG (dst i) s;
         op2_64 = BX_READ_64BIT_REG (src i) s;
         sum_64 = op1_64 + op2_64 + ucast (getB_CF (oszapc s));
         s = BX_WRITE_64BIT_REG (dst i) sum_64 s;
         carry_out = ADD_COUT_VEC op1_64 op2_64 sum_64
     in upd_oszapc (set_CF (drop_bit 63 carry_out \<noteq> 0)) s)"

definition ADOX_GqEqR :: "bxInstruction_c \<Rightarrow> bx_cpu \<Rightarrow> bx_cpu" where
  "ADOX_GqEqR i s =
    (let op1_64 = BX_READ_64BIT_REG (dst i) s;
         op2_64 = BX_READ_64BIT_REG (src i) s;
         sum_64 = op1_64 + op2_64 + ucast (getB_OF (oszapc s));
         s = BX_WRITE_64BIT_REG (dst i) sum_64 s;
         carry_out = ADD_COUT_VEC op1_64 op2_64 sum_64
     in upd_oszapc (set_OF (drop_bit 63 carry_out \<noteq> 0)) s)"

section \<open>Results and flags\<close>

lemma bmi_logic64:
  fixes i :: bxInstruction_c and s :: bx_cpu
  defines "v \<equiv> BX_READ_64BIT_REG (src1 i) s" and "b \<equiv> BX_READ_64BIT_REG (src2 i) s" and "put \<equiv> \<lambda>r. BX_WRITE_64BIT_REG (dst i) r s"
    and "fl \<equiv> \<lambda>r c. (logic_flags (r :: Bit64u))\<lparr>fPF := fPF (cpu_flags s), fCF := c\<rparr>" and "n \<equiv> unat (BX_READ_8BIT_REGL (src2 i) s)"
  shows "with_flags (ANDN_GqBqEqR i s) (put (NOT v AND b)) (fl (NOT v AND b) False)"
    "with_flags (BLSI_BqEqR i s) (put (if v = 0 then 0 else push_bit (lowest_bit v) 1)) (fl (if v = 0 then 0 else push_bit (lowest_bit v) 1) (v \<noteq> 0))"
    "with_flags (BLSMSK_BqEqR i s) (put (if v = 0 then mask 64 else mask (Suc (lowest_bit v))))
      (fl (if v = 0 then mask 64 else mask (Suc (lowest_bit v))) (v = 0))"
    "with_flags (BLSR_BqEqR i s) (put (if v = 0 then 0 else unset_bit (lowest_bit v) v)) (fl (if v = 0 then 0 else unset_bit (lowest_bit v) v) (v = 0))"
    "with_flags (BZHI_GqEqBqR i s) (put (take_bit n v)) (fl (take_bit n v) (64 \<le> n))"
proof -
  have l: "(- v) AND v = (if v = 0 then 0 else push_bit (lowest_bit v) 1)"
    "(v - 1) XOR v = (if v = 0 then mask 64 else mask (Suc (lowest_bit v)))" "(v - 1) AND v = (if v = 0 then 0 else unset_bit (lowest_bit v) v)"
    using lowest_bit_forms [of v] by (cases "v = 0"; simp add: mask_eq_exp_minus_1)+
  have t: "v AND (push_bit n 1 - 1) = take_bit n v" "\<not> n < 64 \<Longrightarrow> v = take_bit n v"
  proof -
    show "v AND (push_bit n 1 - 1) = take_bit n v" by (simp add: take_bit_eq_mask mask_eq_exp_minus_1)
    show "v = take_bit n v" if "\<not> n < 64" by (rule bit_word_eqI) (use that in \<open>auto simp: bit_take_bit_iff\<close>)
  qed
  note e = with_flags_def flags_setters flags_OSZAxC reg_write_upd reg_write_frame put_def fl_def logic_flags_def
  show "with_flags (ANDN_GqBqEqR i s) (put (NOT v AND b)) (fl (NOT v AND b) False)"
    unfolding ANDN_GqBqEqR_def Let_def v_def [symmetric] b_def [symmetric] by (simp add: e)
  show "with_flags (BLSI_BqEqR i s) (put (if v = 0 then 0 else push_bit (lowest_bit v) 1)) (fl (if v = 0 then 0 else push_bit (lowest_bit v) 1) (v \<noteq> 0))"
    unfolding BLSI_BqEqR_def Let_def v_def [symmetric] l by (simp add: e)
  show "with_flags (BLSMSK_BqEqR i s) (put (if v = 0 then mask 64 else mask (Suc (lowest_bit v))))
      (fl (if v = 0 then mask 64 else mask (Suc (lowest_bit v))) (v = 0))"
    unfolding BLSMSK_BqEqR_def Let_def v_def [symmetric] l by (simp add: e)
  show "with_flags (BLSR_BqEqR i s) (put (if v = 0 then 0 else unset_bit (lowest_bit v) v)) (fl (if v = 0 then 0 else unset_bit (lowest_bit v) v) (v = 0))"
    unfolding BLSR_BqEqR_def Let_def v_def [symmetric] l by (simp add: e)
  show "with_flags (BZHI_GqEqBqR i s) (put (take_bit n v)) (fl (take_bit n v) (64 \<le> n))"
    unfolding BZHI_GqEqBqR_def Let_def v_def [symmetric] n_def [symmetric] t(1) using t(2) by (cases "n < 64") (simp_all add: e)
qed

lemma bmi_shift64:
  fixes i :: bxInstruction_c and s :: bx_cpu
  defines "v \<equiv> BX_READ_64BIT_REG (src1 i) s" and "c \<equiv> unat (BX_READ_32BIT_REG (src2 i) s AND 0x3f)" and "k \<equiv> unat (Ib i AND 0x3f)" and "put \<equiv> \<lambda>r. BX_WRITE_64BIT_REG (dst i) r s"
  shows "SHLX_GqEqBqR i s = put (push_bit c v)" "SHRX_GqEqBqR i s = put (drop_bit c v)" "SARX_GqEqBqR i s = put (signed_drop_bit c v)"
    "RORX_GqEqIbR i s = put (word_rotr k v)"
proof -
  show "SHLX_GqEqBqR i s = put (push_bit c v)" "SHRX_GqEqBqR i s = put (drop_bit c v)" "SARX_GqEqBqR i s = put (signed_drop_bit c v)"
    unfolding SHLX_GqEqBqR_def SHRX_GqEqBqR_def SARX_GqEqBqR_def Let_def v_def [symmetric] c_def [symmetric] put_def by (cases "c = 0"; simp)+
  have "k < 64" unfolding k_def by (rule count_bound)
  then show "RORX_GqEqIbR i s = put (word_rotr k v)"
    unfolding RORX_GqEqIbR_def Let_def v_def [symmetric] k_def [symmetric] put_def by (cases "k = 0") (simp_all add: rol_ror_word rotate_none)
qed

lemma bmi_bextr64:
  fixes i :: bxInstruction_c and s :: bx_cpu
  defines "control \<equiv> BX_READ_16BIT_REG (src2 i) s"
  defines "r \<equiv> take_bit (unat (drop_bit 8 control)) (drop_bit (unat (control AND 0xff)) (BX_READ_64BIT_REG (src1 i) s))"
  shows "with_flags (BEXTR_GqEqBqR i s) (BX_WRITE_64BIT_REG (dst i) r s) \<lparr>fOF = False, fSF = False, fZF = r = 0, fAF = False, fPF = False, fCF = False\<rparr>"
  unfolding BEXTR_GqEqBqR_def Let_def bit_fields control_def [symmetric] r_def [symmetric]
  by (simp add: with_flags_def flags_ZF clearEFlagsOSZAPC_flags) (simp add: clearEFlagsOSZAPC_def)

lemma bmi_add64:
  fixes i :: bxInstruction_c and s :: bx_cpu
  defines "a \<equiv> BX_READ_64BIT_REG (dst i) s" and "b \<equiv> BX_READ_64BIT_REG (src i) s" and "put \<equiv> \<lambda>r. BX_WRITE_64BIT_REG (dst i) r s"
    and "carry \<equiv> \<lambda>c. 2 ^ 64 \<le> uint (BX_READ_64BIT_REG (dst i) s) + uint (BX_READ_64BIT_REG (src i) s) + of_bool c" and "f \<equiv> cpu_flags s"
  shows "with_flags (ADCX_GqEqR i s) (put (a + b + of_bool (fCF f))) (f\<lparr>fCF := carry (fCF f)\<rparr>)"
    "with_flags (ADOX_GqEqR i s) (put (a + b + of_bool (fOF f))) (f\<lparr>fOF := carry (fOF f)\<rparr>)"
proof -
  have c: "drop_bit 63 (ADD_COUT_VEC x y (x + y + of_bool z)) \<noteq> 0 \<longleftrightarrow> 2 ^ 64 \<le> uint x + uint y + of_bool z" for x y :: Bit64u and z
    using carry_out_top [of 63 x y z] by simp
  show "with_flags (ADCX_GqEqR i s) (put (a + b + of_bool (fCF f))) (f\<lparr>fCF := carry (fCF f)\<rparr>)"
    unfolding ADCX_GqEqR_def Let_def getB_flags assms ucast_of_bool c by (simp add: with_flags_def flags_setters)
  show "with_flags (ADOX_GqEqR i s) (put (a + b + of_bool (fOF f))) (f\<lparr>fOF := carry (fOF f)\<rparr>)"
    unfolding ADOX_GqEqR_def Let_def getB_flags assms ucast_of_bool c by (simp add: with_flags_def flags_setters)
qed

end
