(* ===== verification/WideDiv.thy ===== *)
theory WideDiv
  imports WideInt "HOL-Library.Signed_Division"
begin

text \<open>
  The 128-bit division of \<^verbatim>\<open>cpu/wide_int.cc\<close>: Knuth's algorithm D with 32-bit digits for a 64-bit
  divisor, its extension to 128-bit divisors by a quotient estimate and one correction, and the signed
  form. The loop that corrects a quotient digit is a function with its termination proof; the
  correctness proofs show that no intermediate product of the digit loop overflows.
\<close>

section \<open>Division of 128 by 64 bits\<close>

text \<open>The correction of one quotient digit: the while loop of the first and of the second digit.\<close>

function qhat_loop :: "Bit64u \<Rightarrow> Bit64u \<Rightarrow> Bit64u \<Rightarrow> Bit64u \<Rightarrow> Bit64u \<Rightarrow> Bit64u" where
  "qhat_loop vn1 vn0 un q rhat =
    (if 0x100000000 \<le> q \<or> 0x100000000 * rhat + un < q * vn0 then
       (let q = q - 1; rhat = rhat + vn1
        in if 0x100000000 \<le> rhat then q else qhat_loop vn1 vn0 un q rhat)
     else q)"
  by pat_completeness auto
termination
proof (relation "measure (\<lambda>(vn1, vn0, un, q, rhat). unat q)")
  fix vn1 vn0 un q rhat x y :: Bit64u
  assume c: "0x100000000 \<le> q \<or> 0x100000000 * rhat + un < q * vn0" and "x = q - 1"
  from c have "q \<noteq> 0" by auto
  then have "unat (q - 1) < unat q" by (simp add: unat_minus_one unat_gt_0)
  then show "((vn1, vn0, un, x, y), vn1, vn0, un, q, rhat) \<in> measure (\<lambda>(vn1, vn0, un, q, rhat). unat q)"
    using \<open>x = q - 1\<close> by simp
qed simp

definition udiv128by64 :: "Bit64u \<Rightarrow> Bit64u \<Rightarrow> Bit64u \<Rightarrow> Bit64u \<times> Bit64u" where
  "udiv128by64 u1 u0 v =
    (let b = push_bit 32 1;
         s = lzcntq v;
         v = push_bit s v;
         vn1 = drop_bit 32 v; vn0 = v AND 0xffffffff;
         un32 = (if s \<noteq> 0 then push_bit s u1 OR drop_bit (64 - s) u0 else u1);
         un10 = push_bit s u0;
         un1 = drop_bit 32 un10; un0 = un10 AND 0xffffffff;
         q1 = un32 div vn1;
         rhat = un32 - q1 * vn1;
         q1 = qhat_loop vn1 vn0 un1 q1 rhat;
         un21 = un32 * b + un1 - q1 * v;
         q0 = un21 div vn1;
         rhat = un21 - q0 * vn1;
         q0 = qhat_loop vn1 vn0 un0 q0 rhat;
         remainder = drop_bit s (un21 * b + un0 - q0 * v)
     in (q1 * b + q0, remainder))"

section \<open>Division of 128 by 128 bits\<close>

definition bx_divmod128u :: "Bit128u \<Rightarrow> Bit128u \<Rightarrow> Bit128u \<times> Bit128u" where
  "bx_divmod128u dividend divisor =
    (let n_hi = m_hi dividend; n_lo = m_lo dividend;
         d_hi = m_hi divisor; d_lo = m_lo divisor
     in if d_hi = 0 then
          (if n_hi = 0 then (Bit128u_of (n_lo div d_lo), Bit128u_of (n_lo mod d_lo))
           else
             (let q_hi = (if d_lo \<le> n_hi then n_hi div d_lo else 0);
                  n_hi = (if d_lo \<le> n_hi then n_hi mod d_lo else n_hi);
                  (q_lo, r) = udiv128by64 n_hi n_lo d_lo
              in (MAKE128U q_hi q_lo, Bit128u_of r)))
        else if u128_less dividend divisor then (Bit128u_of 0, dividend)
        else
          (let s = lzcntq d_hi;
               v1 = m_hi (u128_shl divisor s);
               u1 = u128_shr dividend 1;
               (q, r) = udiv128by64 (m_hi u1) (m_lo u1) v1;
               q = drop_bit (63 - s) q;
               q = (if q \<noteq> 0 then q - 1 else q);
               rem = u128_sub dividend (u128_mul (Bit128u_of q) divisor)
           in if \<not> u128_less rem divisor then (Bit128u_of (q + 1), u128_sub rem divisor)
              else (Bit128u_of q, rem)))"

definition bx_divmod128s :: "Bit128s \<Rightarrow> Bit128s \<Rightarrow> Bit128s \<times> Bit128s" where
  "bx_divmod128s dividend divisor =
    (let dividend_neg = s128_less dividend (Bit128s_of 0);
         divisor_neg = s128_less divisor (Bit128s_of 0);
         n = (if dividend_neg then u128_neg (Bit128u_of_s dividend) else Bit128u_of_s dividend);
         d = (if divisor_neg then u128_neg (Bit128u_of_s divisor) else Bit128u_of_s divisor);
         (q, r) = bx_divmod128u n d
     in (Bit128s_of_u (if dividend_neg \<noteq> divisor_neg then u128_neg q else q),
         Bit128s_of_u (if dividend_neg then u128_neg r else r)))"

text \<open>The division operators of the two classes keep one component of the result.\<close>

definition u128_div :: "Bit128u \<Rightarrow> Bit128u \<Rightarrow> Bit128u" where "u128_div a b = fst (bx_divmod128u a b)"
definition u128_mod :: "Bit128u \<Rightarrow> Bit128u \<Rightarrow> Bit128u" where "u128_mod a b = snd (bx_divmod128u a b)"
definition s128_div :: "Bit128s \<Rightarrow> Bit128s \<Rightarrow> Bit128s" where "s128_div a b = fst (bx_divmod128s a b)"
definition s128_mod :: "Bit128s \<Rightarrow> Bit128s \<Rightarrow> Bit128s" where "s128_mod a b = snd (bx_divmod128s a b)"

section \<open>The digit loop\<close>

declare qhat_loop.simps [simp del]

lemma uint_mult_exact: "uint x * uint y < 2 ^ LENGTH('a) \<Longrightarrow> uint (x * y) = uint x * uint y" for x y :: "('a::len) word"
  by (simp add: uint_word_ariths)

lemma uint_add_exact: "uint x + uint y < 2 ^ LENGTH('a) \<Longrightarrow> uint (x + y) = uint x + uint y" for x y :: "('a::len) word"
  by (simp add: uint_word_ariths)

lemma uint_sub_exact: "uint y \<le> uint x \<Longrightarrow> uint (x - y) = uint x - uint y" for x y :: "('a::len) word"
proof -
  assume "uint y \<le> uint x"
  moreover have "uint x - uint y < 2 ^ LENGTH('a)" using uint_lt2p[of x] uint_ge_0[of y] by linarith
  ultimately show ?thesis by (simp add: uint_word_ariths)
qed

text \<open>
  Let \<open>V = vn1 * 2 ^ 32 + vn0\<close> be the normalised divisor, \<open>U < V\<close> the current partial dividend and \<open>un\<close> the next digit.
  An estimate between the true digit and \<open>2 ^ 32 + 1\<close> is corrected to the true digit.
\<close>

lemma qhat_loop_correct:
  fixes vn1 vn0 un q rhat :: Bit64u and U :: int
  defines "B \<equiv> 2 ^ 32 :: int"
  defines "V \<equiv> uint vn1 * B + uint vn0"
  defines "Q \<equiv> (U * B + uint un) div V"
  assumes v: "uint vn1 < B" "uint vn0 < B" "uint un < B" "0 < V"
    and U: "U < V"
    and inv: "uint q * uint vn1 + uint rhat = U" "uint q \<le> B + 1" "uint rhat < B" "Q \<le> uint q"
  shows "uint (qhat_loop vn1 vn0 un q rhat) = Q"
  using inv
proof (induction "unat q" arbitrary: q rhat rule: less_induct)
  case less
  have nonneg: "0 \<le> uint x" for x :: Bit64u by simp
  have prod: "uint (q * vn0) = uint q * uint vn0"
  proof (rule uint_mult_exact)
    have "uint q * uint vn0 \<le> (B + 1) * (B - 1)" using less.prems(2) v(2) by (intro mult_mono) (simp_all add: B_def)
    then show "uint q * uint vn0 < 2 ^ LENGTH(64)" by (simp add: B_def)
  qed
  have shifted: "uint (0x100000000 * rhat + un) = B * uint rhat + uint un"
  proof -
    have "B * uint rhat \<le> B * (B - 1)" using less.prems(3) by (intro mult_left_mono) (simp_all add: B_def)
    then have b: "B * uint rhat + uint un < 2 ^ 64" using v(3) by (simp add: B_def)
    have "uint (0x100000000 * rhat) = B * uint rhat"
      using uint_mult_exact[of "0x100000000" rhat] less.prems(3) by (simp add: B_def)
    then show ?thesis using uint_add_exact[of "0x100000000 * rhat" un] b by simp
  qed
  let ?X = "U * B + uint un"
  have key: "k * V = ?X - (B * r + uint un) + k * uint vn0" if "k * uint vn1 + r = U" for k r
    unfolding V_def that[symmetric] by (simp add: algebra_simps)
  have below: "k \<le> Q" if "k * V \<le> ?X" for k
    using zdiv_mono1[OF that v(4)] v(4) by (simp add: Q_def)
  have above: "Q < k" if "?X < k * V" for k
    using div_mult_mod_eq[of ?X V] pos_mod_sign[OF v(4), of ?X] mult_right_mono[of k Q V] that v(4)
    unfolding Q_def[symmetric] by linarith
  show ?case
  proof (cases "0x100000000 \<le> q \<or> 0x100000000 * rhat + un < q * vn0")
    case False
    then have "uint q * uint vn0 \<le> B * uint rhat + uint un"
      by (simp add: word_less_def prod shifted not_less)
    then have "uint q * V \<le> ?X" unfolding key[OF less.prems(1)] by simp
    then have "uint q = Q" using below less.prems(4) by (simp add: order_antisym)
    then show ?thesis using False by (subst qhat_loop.simps) simp
  next
    case True
    have "Q < uint q"
    proof (cases "0x100000000 \<le> q")
      case True
      have "U * B + uint un < V * B" using U v(3) mult_right_mono[of "U + 1" V B] by (simp add: distrib_right B_def)
      then have "Q < B" using above[of B] by (simp add: mult.commute)
      then show ?thesis using True by (simp add: word_le_def B_def)
    next
      case False
      then have "B * uint rhat + uint un < uint q * uint vn0"
        using \<open>0x100000000 \<le> q \<or> _\<close> by (simp add: word_less_def prod shifted)
      then show ?thesis using above[of "uint q"] by (simp add: key[OF less.prems(1)])
    qed
    have q0: "q \<noteq> 0" using True by auto
    then have q': "uint (q - 1) = uint q - 1" using uint_sub_exact[of 1 q] by (simp add: word_uint_eq_iff int_one_le_iff_zero_less order_less_le)
    have r': "uint (rhat + vn1) = uint rhat + uint vn1"
      using uint_add_exact[of rhat vn1] less.prems(3) v(1) by (simp add: B_def)
    have inv': "uint (q - 1) * uint vn1 + uint (rhat + vn1) = U"
      using less.prems(1) by (simp add: q' r' algebra_simps)
    show ?thesis
    proof (cases "0x100000000 \<le> rhat + vn1")
      case True
      then have "B \<le> uint (rhat + vn1)" by (simp add: word_le_def B_def)
      moreover have "uint (q - 1) * uint vn0 \<le> B * B"
        using less.prems(2) v(2) q0 by (intro mult_mono) (simp_all add: q' B_def)
      ultimately have "uint (q - 1) * uint vn0 \<le> B * uint (rhat + vn1)"
        using mult_left_mono[of B "uint (rhat + vn1)" B] by (simp add: B_def)
      then have "uint (q - 1) * V \<le> ?X" unfolding key[OF inv'] using nonneg[of un] by linarith
      then have "uint (q - 1) = Q" using below \<open>Q < uint q\<close> by (simp add: q' order_antisym)
      then show ?thesis using \<open>0x100000000 \<le> q \<or> _\<close> True by (subst qhat_loop.simps) (simp add: Let_def)
    next
      case False
      have "uint (qhat_loop vn1 vn0 un (q - 1) (rhat + vn1)) = Q"
      proof (rule less.hyps)
        show "unat (q - 1) < unat q" using q0 by (simp add: unat_minus_one unat_gt_0)
        show "uint (rhat + vn1) < B" using False by (simp add: word_le_def B_def not_le)
      qed (use inv' less.prems(2) \<open>Q < uint q\<close> in \<open>simp_all add: q'\<close>)
      then show ?thesis using \<open>0x100000000 \<le> q \<or> _\<close> False by (subst qhat_loop.simps) (simp add: Let_def)
    qed
  qed
qed

lemma div_mult_below: "0 < v \<Longrightarrow> x div v * v \<le> x" for x v :: int
  using div_mult_mod_eq[of x v] pos_mod_sign[of v x] by linarith

lemma div_mult_above: "0 < v \<Longrightarrow> x < (x div v + 1) * v" for x v :: int
proof -
  assume "0 < v"
  then have "x mod v < v" by simp
  moreover have "x = x div v * v + x mod v" by simp
  ultimately show ?thesis unfolding distrib_right mult_1 by linarith
qed

lemma div_below_iff: "x div v < k \<longleftrightarrow> x < k * v" if "0 < v" for x v k :: int
proof
  assume "x div v < k"
  then have "(x div v + 1) * v \<le> k * v" using that by (intro mult_right_mono) simp_all
  with div_mult_above[OF that, of x] show "x < k * v" by linarith
next
  assume "x < k * v"
  then have "x div v * v < k * v" using div_mult_below[OF that, of x] by linarith
  then show "x div v < k" using that by simp
qed

text \<open>One digit of the quotient of a partial dividend \<open>u\<close> extended by \<open>d\<close>, and the partial remainder it leaves.\<close>

lemma quotient_digit:
  fixes u v d :: Bit64u
  assumes v: "2 ^ 63 \<le> uint v" and u: "uint u < uint v" and d: "uint d < 2 ^ 32"
  defines "q \<equiv> qhat_loop (drop_bit 32 v) (v AND 0xffffffff) d (u div drop_bit 32 v)
    (u - u div drop_bit 32 v * drop_bit 32 v)"
  shows "uint q = (uint u * 2 ^ 32 + uint d) div uint v"
    and "uint (u * push_bit 32 1 + d - q * v) = (uint u * 2 ^ 32 + uint d) mod uint v"
proof -
  let ?B = "2 ^ 32 :: int" and ?X = "uint u * 2 ^ 32 + uint d"
  define vn1 vn0 where "vn1 = drop_bit 32 v" and "vn0 = v AND 0xffffffff"
  have vs: "uint vn1 = uint v div ?B" "uint vn0 = uint v mod ?B"
    by (simp_all only: vn1_def vn0_def low_mask32 half_values)
  have V: "uint vn1 * ?B + uint vn0 = uint v" by (simp add: vs)
  have n1: "2 ^ 31 \<le> uint vn1" "uint vn1 < ?B"
    using v uint_lt2p[of v] zdiv_mono1[of "2 ^ 63" "uint v" ?B] by (simp_all add: vs div_less_iff_less_mult)
  have n0: "uint vn0 < ?B" by (simp add: vs)
  let ?q = "u div vn1" and ?r = "u - u div vn1 * vn1"
  have uq: "uint ?q = uint u div uint vn1" by (simp add: uint_div)
  have "uint ?q * uint vn1 \<le> uint u" unfolding uq using n1 by (intro div_mult_below) simp
  then have up: "uint (?q * vn1) = uint ?q * uint vn1"
    using uint_lt2p[of u] by (intro uint_mult_exact) simp
  have ur: "uint ?r = uint u mod uint vn1" by (simp add: minus_div_mult_eq_mod uint_mod)
  have "uint u < uint vn1 * (?B + 2)" using u n1 n0 V by (simp add: algebra_simps)
  then have "uint ?q < ?B + 2" using n1 by (simp add: uq div_below_iff mult.commute)
  moreover have "uint ?r < ?B" unfolding ur using n1 by (intro less_trans[OF pos_mod_bound n1(2)]) simp
  moreover have "?X div uint v \<le> uint ?q"
  proof -
    have "uint u + 1 \<le> (uint ?q + 1) * uint vn1"
      using n1 div_mult_above[of "uint vn1" "uint u"] by (simp add: uq)
    then have "(uint u + 1) * ?B \<le> (uint ?q + 1) * uint vn1 * ?B" by (rule mult_right_mono) simp
    also have "\<dots> \<le> (uint ?q + 1) * uint v" unfolding V[symmetric] by (simp add: algebra_simps)
    finally have "?X < (uint ?q + 1) * uint v" using d by (simp add: distrib_right)
    then have "?X div uint v < uint ?q + 1" by (rule div_below_iff[THEN iffD2, rotated]) (use v in simp)
    then show ?thesis by simp
  qed
  moreover have inv: "uint ?q * uint vn1 + uint ?r = uint u" unfolding uq ur by simp
  ultimately have "uint (qhat_loop vn1 vn0 d ?q ?r) = ?X div uint v"
    using qhat_loop_correct[of vn1 vn0 d "uint u" ?q ?r] n1 n0 d u v unfolding V inv by simp
  then have q: "uint q = ?X div uint v" by (simp only: q_def vn1_def vn0_def)
  show "uint q = ?X div uint v" by (fact q)
  have "uint (u * push_bit 32 1 + d - q * v) = (?X - uint q * uint v) mod 2 ^ 64"
    by (simp add: uint_word_ariths push_bit_eq_mult mod_simps)
  also have "?X - uint q * uint v = ?X mod uint v" unfolding q by (rule minus_div_mult_eq_mod)
  also have "\<dots> mod 2 ^ 64 = ?X mod uint v"
  proof (rule mod_pos_pos_trivial)
    have "0 < uint v" using v by simp
    then show "0 \<le> ?X mod uint v" "?X mod uint v < 2 ^ 64"
      using uint_lt2p[of v] by (simp, intro less_trans[OF pos_mod_bound]) simp_all
  qed
  finally show "uint (u * push_bit 32 1 + d - q * v) = ?X mod uint v" .
qed

section \<open>Normalisation\<close>

lemma uint_push_bit: "uint (push_bit n x) = uint x * 2 ^ n mod 2 ^ LENGTH('a)" for x :: "('a::len) word"
  by (simp only: unsigned_push_bit_eq) (simp add: take_bit_eq_mod push_bit_eq_mult)

lemma lzcntq_range:
  assumes "v \<noteq> 0"
  shows "lzcntq v < 64" "2 ^ (63 - lzcntq v) \<le> uint v" "uint v < 2 ^ (64 - lzcntq v)"
proof -
  note b = lzcntq_bits[OF assms]
  then show "lzcntq v < 64" by simp
  have "take_bit (64 - lzcntq v) v = v"
  proof (rule bit_word_eqI)
    fix k
    have "k < 64 - lzcntq v" if "bit v k" using b that by (meson less_diff_conv not_le)
    then show "bit (take_bit (64 - lzcntq v) v) k = bit v k" by (auto simp: bit_take_bit_iff)
  qed
  then have "uint v = take_bit (64 - lzcntq v) (uint v)" by (metis unsigned_take_bit_eq)
  then show "uint v < 2 ^ (64 - lzcntq v)" by (metis take_bit_int_less_exp)
  have "bit (uint v) (63 - lzcntq v)" using b by (simp add: bit_uint_iff)
  then have "uint v div 2 ^ (63 - lzcntq v) \<noteq> 0" by (auto simp: bit_iff_odd)
  then show "2 ^ (63 - lzcntq v) \<le> uint v" by (metis div_pos_pos_trivial not_le uint_ge_0)
qed

lemma normalised_divisor:
  assumes "v \<noteq> 0"
  shows "uint (push_bit (lzcntq v) v) = uint v * 2 ^ lzcntq v" "2 ^ 63 \<le> uint v * 2 ^ lzcntq v" "uint v * 2 ^ lzcntq v < 2 ^ 64"
proof -
  let ?s = "lzcntq v"
  note r = lzcntq_range[OF assms]
  have p: "2 ^ (64 - ?s) * 2 ^ ?s = (2 ^ 64 :: int)" "2 ^ (63 - ?s) * 2 ^ ?s = (2 ^ 63 :: int)"
    using r(1) by (simp_all flip: power_add)
  show lt: "uint v * 2 ^ ?s < 2 ^ 64" using r(3) mult_strict_right_mono[of "uint v" "2 ^ (64 - ?s)" "2 ^ ?s :: int"] by (simp add: p)
  show "2 ^ 63 \<le> uint v * 2 ^ ?s" using r(2) mult_right_mono[of "2 ^ (63 - ?s)" "uint v" "2 ^ ?s"] by (simp add: p)
  show "uint (push_bit ?s v) = uint v * 2 ^ ?s" using lt by (simp only: uint_push_bit) simp
qed

lemma len128: "LENGTH(128) = 128" by simp

lemma shifted_pair:
  fixes u1 u0 :: Bit64u
  assumes "s < 64" "uint u1 * 2 ^ s < 2 ^ 64"
  shows "uint (if s \<noteq> 0 then push_bit s u1 OR drop_bit (64 - s) u0 else u1) * 2 ^ 64 + uint (push_bit s u0)
    = (uint u1 * 2 ^ 64 + uint u0) * 2 ^ s"
proof (cases "s = 0")
  case False
  have "halves (push_bit s u1 OR drop_bit (64 - s) u0) (push_bit s u0) = push_bit s (halves u1 u0)"
    using halves_shl[of s u1 u0] False assms(1) by simp
  then have "uint (push_bit s u1 OR drop_bit (64 - s) u0) * 2 ^ 64 + uint (push_bit s u0)
      = (uint u1 * 2 ^ 64 + uint u0) * 2 ^ s mod 2 ^ 128"
    by (metis uint_halves uint_push_bit len128)
  moreover have "(uint u1 * 2 ^ 64 + uint u0) * 2 ^ s < 2 ^ 128"
  proof -
    have e: "(2 :: int) ^ 64 = 2 ^ (64 - s) * 2 ^ s" using assms(1) by (simp flip: power_add)
    have "uint u1 < 2 ^ (64 - s)" using assms(2) unfolding e by simp
    then have top: "(uint u1 + 1) * 2 ^ s \<le> 2 ^ 64" unfolding e by (intro mult_right_mono) simp_all
    have "uint u1 * 2 ^ 64 + uint u0 < (uint u1 + 1) * 2 ^ 64" using uint_lt2p[of u0] by simp
    then have "(uint u1 * 2 ^ 64 + uint u0) * 2 ^ s < (uint u1 + 1) * 2 ^ 64 * 2 ^ s"
      by (rule mult_strict_right_mono) simp
    also have "\<dots> = (uint u1 + 1) * 2 ^ s * 2 ^ 64" by (simp only: ac_simps)
    also have "\<dots> \<le> 2 ^ 64 * 2 ^ 64" using top by (intro mult_right_mono) simp_all
    finally show ?thesis by simp
  qed
  ultimately show ?thesis using False by simp
qed simp

lemma udiv128by64_correct:
  assumes "v \<noteq> 0" "uint u1 < uint v"
  shows "uint (fst (udiv128by64 u1 u0 v)) = (uint u1 * 2 ^ 64 + uint u0) div uint v"
    and "uint (snd (udiv128by64 u1 u0 v)) = (uint u1 * 2 ^ 64 + uint u0) mod uint v"
proof -
  define s v' where "s = lzcntq v" and "v' = push_bit s v"
  define un32 where "un32 = (if s \<noteq> 0 then push_bit s u1 OR drop_bit (64 - s) u0 else u1)"
  define un10 where "un10 = push_bit s u0"
  define q1 where "q1 = qhat_loop (drop_bit 32 v') (v' AND 0xffffffff) (drop_bit 32 un10) (un32 div drop_bit 32 v')
    (un32 - un32 div drop_bit 32 v' * drop_bit 32 v')"
  define un21 where "un21 = un32 * push_bit 32 1 + drop_bit 32 un10 - q1 * v'"
  define q0 where "q0 = qhat_loop (drop_bit 32 v') (v' AND 0xffffffff) (un10 AND 0xffffffff) (un21 div drop_bit 32 v')
    (un21 - un21 div drop_bit 32 v' * drop_bit 32 v')"
  define r where "r = un21 * push_bit 32 1 + (un10 AND 0xffffffff) - q0 * v'"
  have code: "udiv128by64 u1 u0 v = (q1 * push_bit 32 1 + q0, drop_bit s r)"
    by (simp only: udiv128by64_def Let_def r_def q0_def un21_def q1_def un10_def un32_def v'_def s_def)
  have nd: "uint v' = uint v * 2 ^ s" "2 ^ 63 \<le> uint v * 2 ^ s" "uint v * 2 ^ s < 2 ^ 64"
    using normalised_divisor[OF assms(1)] by (simp_all only: v'_def s_def)
  let ?U = "uint u1 * 2 ^ 64 + uint u0" and ?V = "uint v'" and ?B = "2 ^ 32 :: int"
  have s: "s < 64" using lzcntq_range(1)[OF assms(1)] by (simp add: s_def)
  have "uint u1 * 2 ^ s \<le> uint v * 2 ^ s" using assms(2) by simp
  with nd(3) have "uint u1 * 2 ^ s < 2 ^ 64" by linarith
  then have pair: "uint un32 * 2 ^ 64 + uint un10 = ?U * 2 ^ s"
    unfolding un32_def un10_def by (rule shifted_pair[OF s])
  have "?U < uint v * 2 ^ 64" using assms(2) uint_lt2p[of u0] mult_right_mono[of "uint u1 + 1" "uint v" "2 ^ 64"]
    by (simp add: distrib_right)
  then have "?U * 2 ^ s < uint v * 2 ^ 64 * 2 ^ s" by simp
  then have "uint un32 * 2 ^ 64 + uint un10 < ?V * 2 ^ 64" unfolding pair nd(1) by (simp only: ac_simps)
  then have "uint un32 * 2 ^ 64 < ?V * 2 ^ 64" using uint_ge_0[of un10] by linarith
  then have u32: "uint un32 < ?V" by simp
  have d1: "uint (drop_bit 32 un10) = uint un10 div ?B" and d0: "uint (un10 AND 0xffffffff) = uint un10 mod ?B"
    by (simp_all only: low_mask32 half_values)
  have lt: "uint (drop_bit 32 un10) < ?B" "uint (un10 AND 0xffffffff) < ?B"
    unfolding d1 d0 using uint_lt2p[of un10] by (simp_all add: div_below_iff)
  have V: "2 ^ 63 \<le> ?V" using nd by simp
  note q1 = quotient_digit[OF V u32 lt(1), folded q1_def, folded un21_def]
  have u21: "uint un21 < ?V" unfolding q1(2) using V by simp
  note q0 = quotient_digit[OF V u21 lt(2), folded q0_def, folded r_def]
  have "?U * 2 ^ s = uint un32 * (?B * ?B) + (uint un10 div ?B * ?B + uint un10 mod ?B)" unfolding pair[symmetric] by simp
  also have "\<dots> = (uint un32 * ?B + uint un10 div ?B) * ?B + uint un10 mod ?B" by (simp only: distrib_right mult.assoc add.assoc)
  also have "uint un32 * ?B + uint un10 div ?B = uint q1 * ?V + uint un21"
    unfolding q1 d1 by simp
  also have "(uint q1 * ?V + uint un21) * ?B + uint un10 mod ?B = uint q1 * ?B * ?V + (uint un21 * ?B + uint un10 mod ?B)"
    by (simp only: distrib_right ac_simps)
  also have "uint un21 * ?B + uint un10 mod ?B = uint q0 * ?V + uint r" unfolding q0 d0 by simp
  finally have total: "?U * 2 ^ s = (uint q1 * ?B + uint q0) * ?V + uint r" by (simp only: distrib_right add.assoc)
  have "0 < ?V" using V by simp
  then have r: "0 \<le> uint r" "uint r < ?V" unfolding q0(2) by simp_all
  have quot: "uint q1 * ?B + uint q0 = ?U div uint v" and rem: "uint r = ?U mod uint v * 2 ^ s"
  proof -
    have "?U * 2 ^ s div ?V = uint q1 * ?B + uint q0" "?U * 2 ^ s mod ?V = uint r"
      unfolding total using r \<open>0 < ?V\<close> by simp_all
    then show "uint q1 * ?B + uint q0 = ?U div uint v" "uint r = ?U mod uint v * 2 ^ s"
      by (simp_all add: nd(1) mult_mod_left)
  qed
  have "0 < uint v" using assms(2) uint_ge_0[of u1] by linarith
  then have "?U div uint v < 2 ^ 64" using \<open>?U < uint v * 2 ^ 64\<close> by (subst div_below_iff) (simp_all add: mult.commute)
  then have q64: "uint q1 * ?B + uint q0 < 2 ^ 64" unfolding quot .
  then have "uint q1 * ?B < 2 ^ 64" using uint_ge_0[of q0] by linarith
  then have "uint (q1 * push_bit 32 1) = uint q1 * ?B"
    using uint_mult_exact[of q1 "push_bit 32 1"] by (simp add: push_bit_eq_mult)
  then have "uint (q1 * push_bit 32 1 + q0) = uint q1 * ?B + uint q0"
    using uint_add_exact[of "q1 * push_bit 32 1" q0] q64 by simp
  then show "uint (fst (udiv128by64 u1 u0 v)) = ?U div uint v" using quot by (simp add: code)
  have "uint (drop_bit s r) = uint r div 2 ^ s" by (simp only: unsigned_drop_bit_eq take_bit_length_uint) (simp add: drop_bit_eq_div)
  then show "uint (snd (udiv128by64 u1 u0 v)) = ?U mod uint v" by (simp add: code rem)
qed

section \<open>The estimate for a 128-bit divisor\<close>

text \<open>
  For a divisor \<open>D\<close> of at least \<open>2 ^ 64\<close> the code divides by its 64 leading bits. With \<open>m = 2 ^ (64 - s)\<close> the weight of the
  bits dropped, the estimate is the quotient by \<open>D - D mod m\<close>, and it exceeds the true quotient by at most one.
\<close>

lemma estimate_at_most_one_above:
  fixes n D m :: int
  assumes n: "0 \<le> n" "n < 2 ^ 128" and m: "m = 2 \<or> 4 \<le> m" "m \<le> 2 ^ 64" and D: "2 ^ 63 * m \<le> D"
  defines "e \<equiv> D mod m"
  shows "n div D \<le> n div (D - e)" "n div (D - e) \<le> n div D + 1"
proof -
  let ?T = "D - e" and ?Q = "n div D"
  have m0: "0 < m" using m by auto
  then have e: "0 \<le> e" "e < m" by (simp_all add: e_def)
  have "?T = D div m * m" by (simp add: e_def minus_mod_eq_div_mult)
  moreover have "2 ^ 63 \<le> D div m" using m0 zdiv_mono1[OF D, of m] by simp
  ultimately have T: "2 ^ 63 * m \<le> ?T" using mult_right_mono[of "2 ^ 63" "D div m" m] m0 by simp
  have pos: "0 < D" "0 < ?T" using D T m0 by simp_all
  show "n div D \<le> n div ?T" using n pos e by (intro zdiv_mono2) simp_all
  have QD: "?Q * D \<le> n" "n < (?Q + 1) * D" "0 \<le> ?Q"
    using div_mult_below[OF pos(1), of n] div_mult_above[OF pos(1), of n] n pos by (simp_all add: pos_imp_zdiv_nonneg_iff)
  have key: "(?Q + 2) * e \<le> D"
  proof (cases "e = 0")
    case False
    with e have e1: "1 \<le> e" by simp
    from m(1) show ?thesis
    proof
      assume "m = 2"
      with e e1 have [simp]: "e = 1" by simp
      have "D \<noteq> 2 ^ 64" using \<open>e = 1\<close> \<open>m = 2\<close> unfolding e_def by auto
      with D \<open>m = 2\<close> have D1: "2 ^ 64 < D" by simp
      show ?thesis
      proof (rule ccontr)
        assume "\<not> (?Q + 2) * e \<le> D"
        then have "2 ^ 64 \<le> ?Q" using D1 by simp
        then have "2 ^ 64 * 2 ^ 64 \<le> ?Q * D" using D1 by (intro mult_mono) simp_all
        then show False using QD(1) n(2) by simp
      qed
    next
      assume m4: "4 \<le> m"
      show ?thesis
      proof (rule ccontr)
        assume "\<not> (?Q + 2) * e \<le> D"
        then have "?T - e < ?Q * e" by (simp add: algebra_simps)
        then have "(?T - e) * D < ?Q * e * D" using pos(1) by (rule mult_strict_right_mono)
        also have "\<dots> = e * (?Q * D)" by (simp only: ac_simps)
        also have "\<dots> \<le> e * 2 ^ 128" using QD(1) n(2) e by (intro mult_left_mono) simp_all
        finally have "?T * ?T < e * 2 ^ 128 + e * e" by (simp add: algebra_simps)
        also have "e * e \<le> 2 ^ 64 * 2 ^ 64" using e m(2) by (intro mult_mono) simp_all
        finally have "?T * ?T < (e + 1) * 2 ^ 128" by (simp add: distrib_right)
        also have "(e + 1) * 2 ^ 128 \<le> m * 2 ^ 128" using e by (intro mult_right_mono) simp_all
        also have "m * 2 ^ 128 = (2 ^ 63 * 4) * (2 ^ 63 * m)" by simp
        also have "\<dots> \<le> (2 ^ 63 * m) * (2 ^ 63 * m)" using m4 by (intro mult_mono) simp_all
        also have "\<dots> \<le> ?T * ?T" using T m0 by (intro mult_mono) simp_all
        finally show False by simp
      qed
    qed
  qed (use pos in simp)
  have "n < (?Q + 2) * ?T"
  proof -
    have "(?Q + 2) * ?T = (?Q + 1) * D + (D - (?Q + 2) * e)" by (simp add: algebra_simps)
    then show ?thesis using QD(2) key by linarith
  qed
  then have "n div ?T < ?Q + 2" using pos(2) by (subst div_below_iff)
  then show "n div ?T \<le> ?Q + 1" by simp
qed

section \<open>Unsigned division\<close>

lemma uint_U128: "uint (U128 x) = uint (m_hi x) * 2 ^ 64 + uint (m_lo x)"
  by (simp add: U128_def uint_halves)

lemma U128_halves: "uint (m_hi x) = uint (U128 x) div 2 ^ 64" "uint (m_lo x) = uint (U128 x) mod 2 ^ 64"
  using uint_lt2p[of "m_lo x"] by (simp_all add: uint_U128)

lemma uint_U128_of: "uint (U128 (Bit128u_of v)) = uint v"
  by (simp add: uint_U128 Bit128u_of_def)

lemma divmod_small:
  assumes "d \<noteq> 0" "m_hi divisor = 0" "m_lo divisor = d"
  shows "uint (U128 (fst (bx_divmod128u n divisor))) = uint (U128 n) div uint d \<and>
    uint (U128 (snd (bx_divmod128u n divisor))) = uint (U128 n) mod uint d"
proof (cases "m_hi n = 0")
  case True
  then show ?thesis using assms
    by (simp add: bx_divmod128u_def Let_def uint_U128_of uint_div uint_mod) (simp add: uint_U128)
next
  case False
  define h l where "h = m_hi n" and "l = m_lo n"
  have d0: "0 < uint d" using assms(1) by (simp add: word_uint_eq_iff order_less_le)
  have qr: "(if d \<le> h then h div d else 0) = h div d" "(if d \<le> h then h mod d else h) = h mod d"
    by (auto simp: word_arith_nat_div word_arith_nat_mod word_le_nat_alt not_le unat_div unat_mod)
  obtain q r where p: "udiv128by64 (h mod d) l d = (q, r)" by (cases "udiv128by64 (h mod d) l d") auto
  have "uint (h mod d) < uint d" using d0 by (simp add: uint_mod)
  note low = udiv128by64_correct[OF assms(1) this, of l, unfolded p fst_conv snd_conv uint_mod]
  have code: "bx_divmod128u n divisor = (MAKE128U (h div d) q, Bit128u_of r)"
    using False assms(2,3) by (simp add: bx_divmod128u_def Let_def h_def[symmetric] l_def[symmetric] qr p)
  let ?N = "uint h * 2 ^ 64 + uint l" and ?L = "uint h mod uint d * 2 ^ 64 + uint l"
  have "?N = (uint h div uint d * uint d + uint h mod uint d) * 2 ^ 64 + uint l" by simp
  also have "\<dots> = uint h div uint d * 2 ^ 64 * uint d + ?L" by (simp only: distrib_right distrib_left ac_simps)
  finally have N: "?N = uint h div uint d * 2 ^ 64 * uint d + ?L" .
  have "?N div uint d = uint h div uint d * 2 ^ 64 + ?L div uint d" "?N mod uint d = ?L mod uint d"
    unfolding N using d0 by (intro div_mult_self3 mod_mult_self3; simp)+
  then show ?thesis
    by (simp add: code uint_U128_of low) (simp add: uint_U128 MAKE128U_def uint_div low h_def l_def)
qed

lemma drop_bit_uint: "uint (drop_bit n x) = uint x div 2 ^ n" for x :: "('a::len) word"
  by (simp only: unsigned_drop_bit_eq take_bit_length_uint) (simp add: drop_bit_eq_div)

lemma divisor_top:
  assumes "m_hi D \<noteq> 0"
  defines "s \<equiv> lzcntq (m_hi D)"
  shows "uint (m_hi (u128_shl D s)) = uint (U128 D) div 2 ^ (64 - s)"
    and "2 ^ 63 \<le> uint (m_hi (u128_shl D s))" "2 ^ 63 * 2 ^ (64 - s) \<le> uint (U128 D)" "s < 64"
proof -
  show s: "s < 64" using lzcntq_range(1)[OF assms(1)] by (simp add: s_def)
  note r = lzcntq_range[OF assms(1), folded s_def] and nd = normalised_divisor[OF assms(1), folded s_def]
  let ?D = "uint (U128 D)"
  have p: "(2 :: int) ^ 64 = 2 ^ (64 - s) * 2 ^ s" using s by (simp flip: power_add)
  have "?D < (uint (m_hi D) + 1) * 2 ^ 64" using uint_lt2p[of "m_lo D"] by (simp add: uint_U128)
  also have "\<dots> \<le> 2 ^ (64 - s) * 2 ^ 64" using r(3) by (intro mult_right_mono) simp_all
  finally have "?D * 2 ^ s < 2 ^ (64 - s) * 2 ^ 64 * 2 ^ s" by (rule mult_strict_right_mono) simp
  also have "\<dots> = 2 ^ 128" using s by (simp only: flip: power_add) simp
  finally have D128: "?D * 2 ^ s < 2 ^ 128" .
  have "U128 (u128_shl D s) = push_bit s (U128 D)" using s by (intro u128.val_shl) simp
  then have shl: "uint (U128 (u128_shl D s)) = ?D * 2 ^ s" using D128 by (simp add: uint_push_bit)
  have "uint (m_hi (u128_shl D s)) = ?D * 2 ^ s div 2 ^ 64" by (simp only: U128_halves shl)
  also have "\<dots> = ?D div 2 ^ (64 - s)" unfolding p by simp
  finally show top: "uint (m_hi (u128_shl D s)) = ?D div 2 ^ (64 - s)" .
  have "64 - s = Suc (63 - s)" using s by simp
  then have "2 ^ 63 * 2 ^ (64 - s) = 2 ^ (63 - s) * (2 ^ 64 :: int)" by simp
  also have "\<dots> \<le> uint (m_hi D) * 2 ^ 64" using r(2) by (intro mult_right_mono) simp_all
  finally show D: "2 ^ 63 * 2 ^ (64 - s) \<le> ?D" unfolding uint_U128 using uint_ge_0[of "m_lo D"] by linarith
  show "2 ^ 63 \<le> uint (m_hi (u128_shl D s))" unfolding top using zdiv_mono1[OF D, of "2 ^ (64 - s)"] by simp
qed

lemma quotient_estimate:
  assumes "m_hi D \<noteq> 0"
  defines "s \<equiv> lzcntq (m_hi D)"
  shows "uint (drop_bit (63 - s) (fst (udiv128by64 (m_hi (u128_shr n 1)) (m_lo (u128_shr n 1)) (m_hi (u128_shl D s)))))
    = uint (U128 n) div (uint (U128 D) - uint (U128 D) mod 2 ^ (64 - s))"
proof -
  note top = divisor_top[OF assms(1), folded s_def]
  let ?v = "m_hi (u128_shl D s)" and ?u = "u128_shr n 1" and ?D = "uint (U128 D)" and ?N = "uint (U128 n)"
  let ?m = "2 ^ (64 - s) :: int"
  have "U128 ?u = drop_bit 1 (U128 n)" by (rule u128.val_shr) simp
  then have u: "uint (U128 ?u) = ?N div 2" by (simp only: drop_bit_uint) simp
  have "uint (m_hi ?u) = ?N div 2 div 2 ^ 64" by (simp only: U128_halves u)
  also have "\<dots> < 2 ^ 63" using uint_lt2p[of "U128 n"] by (simp add: div_below_iff flip: zdiv_zmult2_eq)
  finally have lt: "uint (m_hi ?u) < uint ?v" using top(2) by linarith
  have "?v \<noteq> 0" using top(2) by auto
  from udiv128by64_correct(1)[OF this lt, of "m_lo ?u"]
  have "uint (fst (udiv128by64 (m_hi ?u) (m_lo ?u) ?v)) = ?N div 2 div uint ?v"
    by (simp only: u flip: uint_U128)
  then have "uint (drop_bit (63 - s) (fst (udiv128by64 (m_hi ?u) (m_lo ?u) ?v))) = ?N div 2 div uint ?v div 2 ^ (63 - s)"
    by (simp only: drop_bit_uint)
  also have "\<dots> = ?N div (2 * uint ?v * 2 ^ (63 - s))" by (simp only: zdiv_zmult2_eq uint_ge_0 zero_le_power zero_le_numeral)
  also have "2 * uint ?v * 2 ^ (63 - s) = ?D div ?m * ?m"
  proof -
    have "64 - s = Suc (63 - s)" using top(4) by simp
    then show ?thesis by (simp add: top(1))
  qed
  also have "?D div ?m * ?m = ?D - ?D mod ?m" by (simp add: minus_mod_eq_div_mult)
  finally show ?thesis .
qed

lemma divmod_large:
  assumes "m_hi D \<noteq> 0"
  shows "uint (U128 (fst (bx_divmod128u n D))) = uint (U128 n) div uint (U128 D) \<and>
    uint (U128 (snd (bx_divmod128u n D))) = uint (U128 n) mod uint (U128 D)"
proof (cases "u128_less n D")
  case True
  then have "uint (U128 n) < uint (U128 D)" by (simp add: u128.val_less word_less_def)
  then show ?thesis using True assms by (simp add: bx_divmod128u_def Let_def uint_U128_of)
next
  case False
  define s where "s = lzcntq (m_hi D)"
  define E where "E = drop_bit (63 - s) (fst (udiv128by64 (m_hi (u128_shr n 1)) (m_lo (u128_shr n 1)) (m_hi (u128_shl D s))))"
  define q where "q = (if E \<noteq> 0 then E - 1 else E)"
  define rem where "rem = u128_sub n (u128_mul (Bit128u_of q) D)"
  have code: "bx_divmod128u n D = (if \<not> u128_less rem D then (Bit128u_of (q + 1), u128_sub rem D) else (Bit128u_of q, rem))"
    using False assms
    by (simp only: bx_divmod128u_def Let_def case_prod_beta if_False s_def q_def E_def rem_def)
  let ?N = "uint (U128 n)" and ?D = "uint (U128 D)"
  let ?Q = "?N div ?D"
  note top = divisor_top[OF assms, folded s_def]
  have m: "(2 :: int) ^ (64 - s) = 2 \<or> 4 \<le> (2 :: int) ^ (64 - s)" "(2 :: int) ^ (64 - s) \<le> 2 ^ 64"
  proof -
    have "64 - s = 1 \<or> 2 \<le> 64 - s" using top(4) by auto
    then show "(2 :: int) ^ (64 - s) = 2 \<or> 4 \<le> (2 :: int) ^ (64 - s)"
      using power_increasing[of 2 "64 - s" "2 :: int"] by auto
    show "(2 :: int) ^ (64 - s) \<le> 2 ^ 64" by (rule power_increasing) simp_all
  qed
  have uE: "uint E = ?N div (?D - ?D mod 2 ^ (64 - s))" unfolding E_def s_def by (rule quotient_estimate[OF assms])
  have E: "?Q \<le> uint E" "uint E \<le> ?Q + 1"
    using estimate_at_most_one_above[OF _ _ m top(3), of ?N] uint_lt2p[of "U128 n"]
    by (simp_all add: uE)
  have DN: "?D \<le> ?N" using False by (simp add: u128.val_less word_less_def)
  have "0 < (2 :: int) ^ 63 * 2 ^ (64 - s)" by simp
  then have D0: "0 < ?D" using top(3) by linarith
  then have Q1: "1 \<le> ?Q" using DN zdiv_mono1[OF DN D0] by simp
  then have "E \<noteq> 0" using E(1) by auto
  then have "uint q = uint E - 1" using uint_sub_exact[of 1 E] E(1) Q1 by (simp add: q_def)
  then have q: "?Q - 1 \<le> uint q" "uint q \<le> ?Q" using E by linarith+
  have qD: "uint q * ?D \<le> ?N"
    using mult_right_mono[OF q(2), of ?D] D0 div_mult_below[OF D0, of ?N] by linarith
  have urem: "uint (U128 rem) = ?N - uint q * ?D"
  proof -
    have "uint (U128 (Bit128u_of q) * U128 D) = uint q * ?D"
      using uint_mult_exact[of "U128 (Bit128u_of q)" "U128 D"] qD uint_lt2p[of "U128 n"] by (simp add: uint_U128_of)
    then show ?thesis using qD by (simp add: rem_def u128.val_sub u128.val_mul uint_sub_exact)
  qed
  have N: "?N = ?Q * ?D + ?N mod ?D" "0 \<le> ?N mod ?D" "?N mod ?D < ?D" using D0 by simp_all
  show ?thesis
  proof (cases "u128_less rem D")
    case True
    then have "?N < (uint q + 1) * ?D" by (simp add: u128.val_less word_less_def urem distrib_right)
    then have "?Q < uint q + 1" using D0 by (subst div_below_iff)
    then have "uint q = ?Q" using q by linarith
    then show ?thesis using True N(1) by (simp add: code uint_U128_of urem minus_div_mult_eq_mod)
  next
    case False
    then have rD: "?D \<le> uint (U128 rem)" by (simp add: u128.val_less word_less_def)
    then have "\<not> ?N < (uint q + 1) * ?D" by (simp add: urem distrib_right)
    then have "\<not> ?Q < uint q + 1" using D0 by (subst div_below_iff)
    then have qQ: "uint q + 1 = ?Q" using q by linarith
    have "?Q < 2 ^ 64"
    proof -
      have "uint q < 2 ^ 64 - 1" using E \<open>uint q = uint E - 1\<close> uint_lt2p[of E] by simp
      then show ?thesis using qQ by simp
    qed
    then have "uint (q + 1) = ?Q" using uint_add_exact[of q 1] qQ by simp
    moreover have "uint (U128 (u128_sub rem D)) = ?N - (uint q + 1) * ?D"
      using rD by (simp add: u128.val_sub uint_sub_exact urem distrib_right)
    ultimately show ?thesis using False by (simp add: code uint_U128_of qQ minus_div_mult_eq_mod)
  qed
qed

lemma divmod128u_uint:
  assumes "U128 d \<noteq> 0"
  shows "uint (U128 (fst (bx_divmod128u n d))) = uint (U128 n) div uint (U128 d)"
    and "uint (U128 (snd (bx_divmod128u n d))) = uint (U128 n) mod uint (U128 d)"
proof -
  have "uint (U128 (fst (bx_divmod128u n d))) = uint (U128 n) div uint (U128 d) \<and>
    uint (U128 (snd (bx_divmod128u n d))) = uint (U128 n) mod uint (U128 d)"
  proof (cases "m_hi d = 0")
    case True
    then have "uint (U128 d) = uint (m_lo d)" by (simp add: uint_U128)
    moreover from this have "m_lo d \<noteq> 0" using assms by (auto simp: word_uint_eq_iff)
    ultimately show ?thesis using divmod_small[OF _ True refl, of n] by simp
  qed (rule divmod_large)
  then show "uint (U128 (fst (bx_divmod128u n d))) = uint (U128 n) div uint (U128 d)"
    "uint (U128 (snd (bx_divmod128u n d))) = uint (U128 n) mod uint (U128 d)" by simp_all
qed

section \<open>Signed division\<close>

lemma sint_by_range: "sint w = (if uint w < 2 ^ 127 then uint w else uint w - 2 ^ 128)" for w :: "128 word"
proof -
  have "bit w 127 \<longleftrightarrow> 2 ^ 127 \<le> uint w"
    using bit_int_take_bit_ge[of "uint w" 127] take_bit_length_uint[of w] by (simp add: bit_uint_iff)
  then show ?thesis by (simp add: sint_uint_top)
qed

lemma sint_neg_magnitude: "uint w \<le> 2 ^ 127 \<Longrightarrow> sint (- w) = - uint w" for w :: "128 word"
proof -
  assume a: "uint w \<le> 2 ^ 127"
  show ?thesis
  proof (cases "uint w = 0")
    case True
    then show ?thesis by (simp add: uint_word_ariths sint_by_range)
  next
    case False
    then have w: "0 < uint w" using uint_ge_0[of w] by linarith
    then have "uint (- w) = 2 ^ 128 - uint w"
      using mod_near[of "2 ^ 128" "- uint w"] a by (simp add: uint_word_ariths)
    then show ?thesis using a w by (simp add: sint_by_range)
  qed
qed

lemma magnitude:
  fixes x :: Bit128s
  defines "m \<equiv> if s128_less x (Bit128s_of 0) then u128_neg (Bit128u_of_s x) else Bit128u_of_s x"
  shows "s128_less x (Bit128s_of 0) \<longleftrightarrow> sint (S128 x) < 0" "uint (U128 m) = \<bar>sint (S128 x)\<bar>"
proof -
  have "S128 (Bit128s_of 0) = 0" by (simp add: S128_def Bit128s_of_def halves_def)
  then show neg: "s128_less x (Bit128s_of 0) \<longleftrightarrow> sint (S128 x) < 0" by (simp add: s128.val_less word_sless_alt)
  have u: "U128 (Bit128u_of_s x) = S128 x" by (simp add: U128_def S128_def Bit128u_of_s_def)
  have r: "0 \<le> uint (S128 x)" "uint (S128 x) < 2 ^ 128" using uint_lt2p[of "S128 x"] by simp_all
  show "uint (U128 m) = \<bar>sint (S128 x)\<bar>"
  proof (cases "sint (S128 x) < 0")
    case True
    then have "uint (S128 x) \<ge> 2 ^ 127" by (simp add: sint_by_range split: if_splits)
    then have "uint (- S128 x) = 2 ^ 128 - uint (S128 x)"
      using mod_near[of "2 ^ 128" "- uint (S128 x)"] r by (simp add: uint_word_ariths)
    then show ?thesis using True r by (simp add: m_def neg u128.val_neg u sint_by_range split: if_splits)
  next
    case False
    then show ?thesis using r by (simp add: m_def neg u sint_by_range split: if_splits)
  qed
qed

lemma S128_of_u: "S128 (Bit128s_of_u x) = U128 x"
  by (simp add: S128_def U128_def Bit128s_of_u_def MAKE128S_def)

lemma divmod128s_sint:
  fixes n d :: Bit128s
  assumes d: "sint (S128 d) \<noteq> 0"
  shows "sint (S128 n) \<noteq> - (2 ^ 127) \<or> sint (S128 d) \<noteq> - 1 \<Longrightarrow>
      sint (S128 (fst (bx_divmod128s n d))) = sint (S128 n) sdiv sint (S128 d)"
    and "sint (S128 (snd (bx_divmod128s n d))) = sint (S128 n) smod sint (S128 d)"
proof -
  let ?N = "sint (S128 n)" and ?D = "sint (S128 d)"
  define nn dd where "nn = (if s128_less n (Bit128s_of 0) then u128_neg (Bit128u_of_s n) else Bit128u_of_s n)"
    and "dd = (if s128_less d (Bit128s_of 0) then u128_neg (Bit128u_of_s d) else Bit128u_of_s d)"
  note mn = magnitude[of n, folded nn_def] and md = magnitude[of d, folded dd_def]
  obtain q r where p: "bx_divmod128u nn dd = (q, r)" by (cases "bx_divmod128u nn dd") auto
  have "U128 dd \<noteq> 0" using md(2) d by auto
  from divmod128u_uint[OF this, of nn] have q: "uint (U128 q) = \<bar>?N\<bar> div \<bar>?D\<bar>" and r: "uint (U128 r) = \<bar>?N\<bar> mod \<bar>?D\<bar>"
    by (simp_all add: p mn md)
  have code: "bx_divmod128s n d = (Bit128s_of_u (if (?N < 0) \<noteq> (?D < 0) then u128_neg q else q),
      Bit128s_of_u (if ?N < 0 then u128_neg r else r))"
    by (simp add: bx_divmod128s_def Let_def p mn(1)[symmetric] md(1)[symmetric] nn_def[symmetric] dd_def[symmetric])
  have range: "- (2 ^ 127) \<le> ?N" "?N < 2 ^ 127" "- (2 ^ 127) \<le> ?D" "?D < 2 ^ 127"
    using sint_ge[of "S128 n"] sint_lt[of "S128 n"] sint_ge[of "S128 d"] sint_lt[of "S128 d"] by simp_all
  have qle: "\<bar>?N\<bar> div \<bar>?D\<bar> \<le> \<bar>?N\<bar>" using d zdiv_mono2[of "\<bar>?N\<bar>" 1 "\<bar>?D\<bar>"] by simp
  have "\<bar>?N\<bar> mod \<bar>?D\<bar> < \<bar>?D\<bar>" using d by simp
  then have rlt: "\<bar>?N\<bar> mod \<bar>?D\<bar> < 2 ^ 127" using range by linarith
  show "sint (S128 (snd (bx_divmod128s n d))) = ?N smod ?D"
    using rlt by (auto simp: code S128_of_u u128.val_neg sint_neg_magnitude r sint_by_range[of "U128 r"]
        signed_modulo_int_def sgn_if)
  assume ov: "?N \<noteq> - (2 ^ 127) \<or> ?D \<noteq> - 1"
  show "sint (S128 (fst (bx_divmod128s n d))) = ?N sdiv ?D"
  proof (cases "(?N < 0) \<noteq> (?D < 0)")
    case True
    have "uint (U128 q) \<le> 2 ^ 127" using q qle range by linarith
    then show ?thesis using True d
      by (auto simp: code S128_of_u u128.val_neg sint_neg_magnitude q signed_divide_int_def sgn_if)
  next
    case False
    have "\<bar>?N\<bar> div \<bar>?D\<bar> < 2 ^ 127"
    proof (cases "?N = - (2 ^ 127)")
      case True
      then have "2 \<le> \<bar>?D\<bar>" using False ov d by auto
      then have "\<bar>?N\<bar> div \<bar>?D\<bar> \<le> 2 ^ 127 div 2" using True zdiv_mono2[of "2 ^ 127" 2 "\<bar>?D\<bar>"] by simp
      then show ?thesis by simp
    next
      case False
      then show ?thesis using qle range by linarith
    qed
    then show ?thesis using False d
      by (auto simp: code S128_of_u q sint_by_range[of "U128 q"] signed_divide_int_def sgn_if)
  qed
qed

section \<open>Results\<close>

text \<open>C14. Division of the 128-bit class equals division of 128-bit words for every dividend and every nonzero divisor:
  Knuth's digit loop, the quotient estimate for wide divisors and its correction deliver the exact quotient and
  remainder.\<close>

theorem bx_divmod128u_correct:
  assumes "U128 d \<noteq> 0"
  shows "U128 (u128_div n d) = U128 n div U128 d \<and> U128 (u128_mod n d) = U128 n mod U128 d"
  using divmod128u_uint[OF assms, of n] by (simp add: u128_div_def u128_mod_def word_uint_eq_iff uint_div uint_mod)

theorem bx_divmod128u_correct_witness:
  "U128 (u128_div (MAKE128U 5 0) (MAKE128U 0 3)) = U128 (MAKE128U 5 0) div U128 (MAKE128U 0 3) \<and>
   U128 (u128_mod (MAKE128U 5 0) (MAKE128U 0 3)) = U128 (MAKE128U 5 0) mod U128 (MAKE128U 0 3)"
proof (rule bx_divmod128u_correct)
  show "U128 (MAKE128U 0 3) \<noteq> 0" by (simp add: U128_def MAKE128U_def halves_def)
qed

text \<open>Signed division of the 128-bit class truncates toward zero and leaves a remainder with the sign of the dividend,
  for every nonzero divisor except the one overflowing case of the least value divided by minus one.\<close>

theorem bx_divmod128s_correct:
  assumes "sint (S128 d) \<noteq> 0" "sint (S128 n) \<noteq> - (2 ^ 127) \<or> sint (S128 d) \<noteq> - 1"
  shows "sint (S128 (s128_div n d)) = sint (S128 n) sdiv sint (S128 d) \<and>
    sint (S128 (s128_mod n d)) = sint (S128 n) smod sint (S128 d)"
  unfolding s128_div_def s128_mod_def using divmod128s_sint[OF assms(1)] assms(2) by blast

theorem bx_divmod128s_correct_witness:
  "sint (S128 (s128_div (Bit128s_of (- 7)) (Bit128s_of 2))) = - 7 sdiv 2 \<and>
   sint (S128 (s128_mod (Bit128s_of (- 7)) (Bit128s_of 2))) = - 7 smod 2"
proof -
  have "sint (S128 (Bit128s_of (- 7))) = - 7" "sint (S128 (Bit128s_of 2)) = 2"
    by (simp_all add: S128_def Bit128s_of_def sint_halves word_sless_alt)
  then show ?thesis using bx_divmod128s_correct[of "Bit128s_of 2" "Bit128s_of (- 7)"] by simp
qed

end
