(* ===== verification/Mult.thy ===== *)
theory Mult
  imports CpuState WideDiv
begin

text \<open>
  Multiplication and division: the register forms of \<^verbatim>\<open>cpu/mult8.cc\<close>, \<^verbatim>\<open>cpu/mult16.cc\<close>, \<^verbatim>\<open>cpu/mult32.cc\<close> and
  \<^verbatim>\<open>cpu/mult64.cc\<close>. Division raises a divide error by calling \<open>exception\<close>, which does not return; such a
  handler returns \<open>Inl\<close> of the exception and the state is the one before it. The 64-bit forms use the 128-bit
  integer classes.
\<close>

section \<open>Byte operands\<close>

definition MUL_ALEbR :: "bxInstruction_c \<Rightarrow> bx_cpu \<Rightarrow> bx_cpu" where
  "MUL_ALEbR i s =
    (let op1 = AL s;
         op2 = BX_READ_8BIT_REGx (src i) (extend8bitL i) s;
         product_16 = ucast op1 * ucast op2 :: Bit32u;
         product_8l = ucast (product_16 AND 0xFF) :: Bit8u;
         product_8h = ucast (drop_bit 8 product_16) :: Bit8u;
         s = BX_WRITE_16BIT_REG 0 (ucast product_16) s;
         s = upd_oszapc (SET_FLAGS_OSZAPC_LOGIC_8 (ucast product_8l)) s
     in if product_8h \<noteq> 0 then upd_oszapc assert_flags_OxxxxC s else s)"

definition IMUL_ALEbR :: "bxInstruction_c \<Rightarrow> bx_cpu \<Rightarrow> bx_cpu" where
  "IMUL_ALEbR i s =
    (let op1 = AL s;
         op2 = BX_READ_8BIT_REGx (src i) (extend8bitL i) s;
         product_16 = scast op1 * scast op2 :: Bit16u;
         product_8 = ucast (product_16 AND 0xFF) :: Bit8u;
         s = BX_WRITE_16BIT_REG 0 product_16 s;
         s = upd_oszapc (SET_FLAGS_OSZAPC_LOGIC_8 (ucast product_8)) s
     in if product_16 \<noteq> scast (ucast product_16 :: Bit8u) then upd_oszapc assert_flags_OxxxxC s else s)"

definition DIV_ALEbR :: "bxInstruction_c \<Rightarrow> bx_cpu \<Rightarrow> bx_exception + bx_cpu" where
  "DIV_ALEbR i s =
    (let op2 = BX_READ_8BIT_REGx (src i) (extend8bitL i) s
     in if op2 = 0 then Inl BX_DE_EXCEPTION
        else
          (let op1 = AX s;
               quotient_16 = op1 div ucast op2;
               remainder_8 = ucast (op1 mod ucast op2) :: Bit8u;
               quotient_8l = ucast (quotient_16 AND 0xFF) :: Bit8u
           in if quotient_16 \<noteq> ucast quotient_8l then Inl BX_DE_EXCEPTION
              else Inr (BX_WRITE_8BIT_REGH 0 remainder_8 (BX_WRITE_8BIT_REGL 0 quotient_8l s))))"

definition IDIV_ALEbR :: "bxInstruction_c \<Rightarrow> bx_cpu \<Rightarrow> bx_exception + bx_cpu" where
  "IDIV_ALEbR i s =
    (let op1 = AX s
     in if op1 = 0x8000 then Inl BX_DE_EXCEPTION
        else
          (let op2 = BX_READ_8BIT_REGx (src i) (extend8bitL i) s
           in if op2 = 0 then Inl BX_DE_EXCEPTION
              else
                (let quotient_16 = word_of_int (sint op1 sdiv sint op2) :: Bit16u;
                     remainder_8 = word_of_int (sint op1 smod sint op2) :: Bit8u;
                     quotient_8l = ucast (quotient_16 AND 0xFF) :: Bit8u
                 in if quotient_16 \<noteq> scast quotient_8l then Inl BX_DE_EXCEPTION
                    else Inr (BX_WRITE_8BIT_REGH 0 remainder_8 (BX_WRITE_8BIT_REGL 0 quotient_8l s)))))"

section \<open>Word operands\<close>

definition MUL_AXEwR :: "bxInstruction_c \<Rightarrow> bx_cpu \<Rightarrow> bx_cpu" where
  "MUL_AXEwR i s =
    (let op1_16 = AX s;
         op2_16 = BX_READ_16BIT_REG (src i) s;
         product_32 = ucast op1_16 * ucast op2_16 :: Bit32u;
         product_16l = ucast (product_32 AND 0xFFFF) :: Bit16u;
         product_16h = ucast (drop_bit 16 product_32) :: Bit16u;
         s = BX_WRITE_16BIT_REG 0 product_16l s;
         s = BX_WRITE_16BIT_REG 2 product_16h s;
         s = upd_oszapc (SET_FLAGS_OSZAPC_LOGIC_16 (ucast product_16l)) s
     in if product_16h \<noteq> 0 then upd_oszapc assert_flags_OxxxxC s else s)"

definition IMUL_AXEwR :: "bxInstruction_c \<Rightarrow> bx_cpu \<Rightarrow> bx_cpu" where
  "IMUL_AXEwR i s =
    (let op1_16 = AX s;
         op2_16 = BX_READ_16BIT_REG (src i) s;
         product_32 = scast op1_16 * scast op2_16 :: Bit32u;
         product_16l = ucast (product_32 AND 0xFFFF) :: Bit16u;
         product_16h = ucast (drop_bit 16 product_32) :: Bit16u;
         s = BX_WRITE_16BIT_REG 0 product_16l s;
         s = BX_WRITE_16BIT_REG 2 product_16h s;
         s = upd_oszapc (SET_FLAGS_OSZAPC_LOGIC_16 (ucast product_16l)) s
     in if product_32 \<noteq> scast (ucast product_32 :: Bit16u) then upd_oszapc assert_flags_OxxxxC s else s)"

definition DIV_AXEwR :: "bxInstruction_c \<Rightarrow> bx_cpu \<Rightarrow> bx_exception + bx_cpu" where
  "DIV_AXEwR i s =
    (let op2_16 = BX_READ_16BIT_REG (src i) s
     in if op2_16 = 0 then Inl BX_DE_EXCEPTION
        else
          (let op1_32 = push_bit 16 (ucast (DX s)) OR ucast (AX s) :: Bit32u;
               quotient_32 = op1_32 div ucast op2_16;
               remainder_16 = ucast (op1_32 mod ucast op2_16) :: Bit16u;
               quotient_16l = ucast (quotient_32 AND 0xFFFF) :: Bit16u
           in if quotient_32 \<noteq> ucast quotient_16l then Inl BX_DE_EXCEPTION
              else Inr (let s = BX_WRITE_16BIT_REG 0 quotient_16l s in BX_WRITE_16BIT_REG 2 remainder_16 s)))"

definition IDIV_AXEwR :: "bxInstruction_c \<Rightarrow> bx_cpu \<Rightarrow> bx_exception + bx_cpu" where
  "IDIV_AXEwR i s =
    (let op1_32 = push_bit 16 (ucast (DX s)) OR ucast (AX s) :: Bit32u
     in if op1_32 = 0x80000000 then Inl BX_DE_EXCEPTION
        else
          (let op2_16 = BX_READ_16BIT_REG (src i) s
           in if op2_16 = 0 then Inl BX_DE_EXCEPTION
              else
                (let quotient_32 = word_of_int (sint op1_32 sdiv sint op2_16) :: Bit32u;
                     remainder_16 = word_of_int (sint op1_32 smod sint op2_16) :: Bit16u;
                     quotient_16l = ucast (quotient_32 AND 0xFFFF) :: Bit16u
                 in if quotient_32 \<noteq> scast quotient_16l then Inl BX_DE_EXCEPTION
                    else Inr (let s = BX_WRITE_16BIT_REG 0 quotient_16l s in BX_WRITE_16BIT_REG 2 remainder_16 s))))"

definition IMUL_GwEwIwR :: "bxInstruction_c \<Rightarrow> bx_cpu \<Rightarrow> bx_cpu" where
  "IMUL_GwEwIwR i s =
    (let op2_16 = BX_READ_16BIT_REG (src i) s;
         op3_16 = Iw i;
         product_32 = scast op2_16 * scast op3_16 :: Bit32u;
         product_16 = ucast (product_32 AND 0xFFFF) :: Bit16u;
         s = BX_WRITE_16BIT_REG (dst i) product_16 s;
         s = upd_oszapc (SET_FLAGS_OSZAPC_LOGIC_16 (ucast product_16)) s
     in if product_32 \<noteq> scast (ucast product_32 :: Bit16u) then upd_oszapc assert_flags_OxxxxC s else s)"

definition IMUL_GwEwR :: "bxInstruction_c \<Rightarrow> bx_cpu \<Rightarrow> bx_cpu" where
  "IMUL_GwEwR i s =
    (let op1_16 = BX_READ_16BIT_REG (dst i) s;
         op2_16 = BX_READ_16BIT_REG (src i) s;
         product_32 = scast op1_16 * scast op2_16 :: Bit32u;
         product_16 = ucast (product_32 AND 0xFFFF) :: Bit16u;
         s = BX_WRITE_16BIT_REG (dst i) product_16 s;
         s = upd_oszapc (SET_FLAGS_OSZAPC_LOGIC_16 (ucast product_16)) s
     in if product_32 \<noteq> scast (ucast product_32 :: Bit16u) then upd_oszapc assert_flags_OxxxxC s else s)"

section \<open>Doubleword operands\<close>

definition MUL_EAXEdR :: "bxInstruction_c \<Rightarrow> bx_cpu \<Rightarrow> bx_cpu" where
  "MUL_EAXEdR i s =
    (let op1_32 = EAX s;
         op2_32 = BX_READ_32BIT_REG (src i) s;
         product_64 = ucast op1_32 * ucast op2_32 :: Bit64u;
         product_32l = ucast (product_64 AND 0xFFFFFFFF) :: Bit32u;
         product_32h = ucast (drop_bit 32 product_64) :: Bit32u;
         s = BX_WRITE_64BIT_REG 0 (ucast product_32l) s;
         s = BX_WRITE_64BIT_REG 2 (ucast product_32h) s;
         s = upd_oszapc (SET_FLAGS_OSZAPC_LOGIC_32 product_32l) s
     in if product_32h \<noteq> 0 then upd_oszapc assert_flags_OxxxxC s else s)"

definition IMUL_EAXEdR :: "bxInstruction_c \<Rightarrow> bx_cpu \<Rightarrow> bx_cpu" where
  "IMUL_EAXEdR i s =
    (let op1_32 = EAX s;
         op2_32 = BX_READ_32BIT_REG (src i) s;
         product_64 = scast op1_32 * scast op2_32 :: Bit64u;
         product_32l = ucast (product_64 AND 0xFFFFFFFF) :: Bit32u;
         product_32h = ucast (drop_bit 32 product_64) :: Bit32u;
         s = BX_WRITE_64BIT_REG 0 (ucast product_32l) s;
         s = BX_WRITE_64BIT_REG 2 (ucast product_32h) s;
         s = upd_oszapc (SET_FLAGS_OSZAPC_LOGIC_32 product_32l) s
     in if product_64 \<noteq> scast (ucast product_64 :: Bit32u) then upd_oszapc assert_flags_OxxxxC s else s)"

definition DIV_EAXEdR :: "bxInstruction_c \<Rightarrow> bx_cpu \<Rightarrow> bx_exception + bx_cpu" where
  "DIV_EAXEdR i s =
    (let op2_32 = BX_READ_32BIT_REG (src i) s
     in if op2_32 = 0 then Inl BX_DE_EXCEPTION
        else
          (let op1_64 = push_bit 32 (ucast (EDX s)) OR ucast (EAX s) :: Bit64u;
               quotient_64 = op1_64 div ucast op2_32;
               remainder_32 = ucast (op1_64 mod ucast op2_32) :: Bit32u;
               quotient_32l = ucast (quotient_64 AND 0xFFFFFFFF) :: Bit32u
           in if quotient_64 \<noteq> ucast quotient_32l then Inl BX_DE_EXCEPTION
              else Inr (let s = BX_WRITE_64BIT_REG 0 (ucast quotient_32l) s in BX_WRITE_64BIT_REG 2 (ucast remainder_32) s)))"

definition IDIV_EAXEdR :: "bxInstruction_c \<Rightarrow> bx_cpu \<Rightarrow> bx_exception + bx_cpu" where
  "IDIV_EAXEdR i s =
    (let op1_64 = push_bit 32 (ucast (EDX s)) OR ucast (EAX s) :: Bit64u
     in if op1_64 = 0x8000000000000000 then Inl BX_DE_EXCEPTION
        else
          (let op2_32 = BX_READ_32BIT_REG (src i) s
           in if op2_32 = 0 then Inl BX_DE_EXCEPTION
              else
                (let quotient_64 = word_of_int (sint op1_64 sdiv sint op2_32) :: Bit64u;
                     remainder_32 = word_of_int (sint op1_64 smod sint op2_32) :: Bit32u;
                     quotient_32l = ucast (quotient_64 AND 0xFFFFFFFF) :: Bit32u
                 in if quotient_64 \<noteq> scast quotient_32l then Inl BX_DE_EXCEPTION
                    else Inr (let s = BX_WRITE_64BIT_REG 0 (ucast quotient_32l) s in BX_WRITE_64BIT_REG 2 (ucast remainder_32) s))))"

definition IMUL_GdEdIdR :: "bxInstruction_c \<Rightarrow> bx_cpu \<Rightarrow> bx_cpu" where
  "IMUL_GdEdIdR i s =
    (let op2_32 = BX_READ_32BIT_REG (src i) s;
         op3_32 = Id i;
         product_64 = scast op2_32 * scast op3_32 :: Bit64u;
         product_32 = ucast (product_64 AND 0xFFFFFFFF) :: Bit32u;
         s = BX_WRITE_32BIT_REGZ (dst i) product_32 s;
         s = upd_oszapc (SET_FLAGS_OSZAPC_LOGIC_32 product_32) s
     in if product_64 \<noteq> scast (ucast product_64 :: Bit32u) then upd_oszapc assert_flags_OxxxxC s else s)"

definition IMUL_GdEdR :: "bxInstruction_c \<Rightarrow> bx_cpu \<Rightarrow> bx_cpu" where
  "IMUL_GdEdR i s =
    (let op1_32 = BX_READ_32BIT_REG (dst i) s;
         op2_32 = BX_READ_32BIT_REG (src i) s;
         product_64 = scast op1_32 * scast op2_32 :: Bit64u;
         product_32 = ucast (product_64 AND 0xFFFFFFFF) :: Bit32u;
         s = BX_WRITE_32BIT_REGZ (dst i) product_32 s;
         s = upd_oszapc (SET_FLAGS_OSZAPC_LOGIC_32 product_32) s
     in if product_64 \<noteq> scast (ucast product_64 :: Bit32u) then upd_oszapc assert_flags_OxxxxC s else s)"

section \<open>Quadword operands\<close>

definition MUL_RAXEqR :: "bxInstruction_c \<Rightarrow> bx_cpu \<Rightarrow> bx_cpu" where
  "MUL_RAXEqR i s =
    (let op1_64 = RAX s;
         op2_64 = BX_READ_64BIT_REG (src i) s;
         product_128 = u128_mul (Bit128u_of op1_64) (Bit128u_of op2_64);
         s = BX_WRITE_64BIT_REG 0 (GET128L product_128) s;
         s = BX_WRITE_64BIT_REG 2 (GET128H product_128) s;
         s = upd_oszapc (SET_FLAGS_OSZAPC_LOGIC_64 (GET128L product_128)) s
     in if GET128H product_128 \<noteq> 0 then upd_oszapc assert_flags_OxxxxC s else s)"

definition IMUL_RAXEqR :: "bxInstruction_c \<Rightarrow> bx_cpu \<Rightarrow> bx_cpu" where
  "IMUL_RAXEqR i s =
    (let op1_64 = RAX s;
         op2_64 = BX_READ_64BIT_REG (src i) s;
         product_128 = s128_mul (Bit128s_of op1_64) (Bit128s_of op2_64);
         s = BX_WRITE_64BIT_REG 0 (GET128L_s product_128) s;
         s = BX_WRITE_64BIT_REG 2 (GET128H_s product_128) s;
         s = upd_oszapc (SET_FLAGS_OSZAPC_LOGIC_64 (GET128L_s product_128)) s
     in if GET128H_s product_128 + drop_bit 63 (GET128L_s product_128) \<noteq> 0 then upd_oszapc assert_flags_OxxxxC s
        else s)"

definition DIV_RAXEqR :: "bxInstruction_c \<Rightarrow> bx_cpu \<Rightarrow> bx_exception + bx_cpu" where
  "DIV_RAXEqR i s =
    (let op2_64 = BX_READ_64BIT_REG (src i) s
     in if op2_64 = 0 then Inl BX_DE_EXCEPTION
        else
          (let op1_128 = MAKE128U (RDX s) (RAX s);
               quotient_128 = u128_div op1_128 (Bit128u_of op2_64)
           in if GET128H quotient_128 \<noteq> 0 then Inl BX_DE_EXCEPTION
              else
                (let quotient_64l = GET128L quotient_128;
                     remainder_64 = RAX s - quotient_64l * op2_64
                 in Inr (BX_WRITE_64BIT_REG 2 remainder_64 (BX_WRITE_64BIT_REG 0 quotient_64l s)))))"

definition IDIV_RAXEqR :: "bxInstruction_c \<Rightarrow> bx_cpu \<Rightarrow> bx_exception + bx_cpu" where
  "IDIV_RAXEqR i s =
    (let op1_128 = MAKE128S (RDX s) (RAX s)
     in if s128_eq op1_128 BIT128S_MIN then Inl BX_DE_EXCEPTION
        else
          (let op2_64 = BX_READ_64BIT_REG (src i) s
           in if op2_64 = 0 then Inl BX_DE_EXCEPTION
              else
                (let quotient_128 = s128_div op1_128 (Bit128s_of op2_64);
                     quotient_64l = GET128L_s quotient_128
                 in if \<not> s128_eq quotient_128 (Bit128s_of quotient_64l) then Inl BX_DE_EXCEPTION
                    else
                      (let remainder_64 = RAX s - quotient_64l * op2_64
                       in Inr (BX_WRITE_64BIT_REG 2 remainder_64 (BX_WRITE_64BIT_REG 0 quotient_64l s))))))"

definition IMUL_GqEqIdR :: "bxInstruction_c \<Rightarrow> bx_cpu \<Rightarrow> bx_cpu" where
  "IMUL_GqEqIdR i s =
    (let op1_64 = BX_READ_64BIT_REG (src i) s;
         op2_64 = scast (Id i) :: Bit64u;
         product_128 = s128_mul (Bit128s_of op1_64) (Bit128s_of op2_64);
         s = BX_WRITE_64BIT_REG (dst i) (GET128L_s product_128) s;
         s = upd_oszapc (SET_FLAGS_OSZAPC_LOGIC_64 (GET128L_s product_128)) s
     in if GET128H_s product_128 + drop_bit 63 (GET128L_s product_128) \<noteq> 0 then upd_oszapc assert_flags_OxxxxC s
        else s)"

definition IMUL_GqEqR :: "bxInstruction_c \<Rightarrow> bx_cpu \<Rightarrow> bx_cpu" where
  "IMUL_GqEqR i s =
    (let op1_64 = BX_READ_64BIT_REG (dst i) s;
         op2_64 = BX_READ_64BIT_REG (src i) s;
         product_128 = s128_mul (Bit128s_of op1_64) (Bit128s_of op2_64);
         s = BX_WRITE_64BIT_REG (dst i) (GET128L_s product_128) s;
         s = upd_oszapc (SET_FLAGS_OSZAPC_LOGIC_64 (GET128L_s product_128)) s
     in if GET128H_s product_128 + drop_bit 63 (GET128L_s product_128) \<noteq> 0 then upd_oszapc assert_flags_OxxxxC s
        else s)"

end
