(* ===== verification/MultProps.thy ===== *)
theory MultProps
  imports Mult
begin

text \<open>
  Properties of the multiply and divide handlers: the full product with its overflow flags, and the exact
  conditions under which division raises a divide error, at every operand size.
\<close>

section \<open>Reference results\<close>

definition fits_signed :: "('a::len) itself \<Rightarrow> int \<Rightarrow> bool" where
  "fits_signed t x \<longleftrightarrow> - (2 ^ (LENGTH('a) - 1)) \<le> x \<and> x < 2 ^ (LENGTH('a) - 1)"

definition product_flags :: "('a::len) word \<Rightarrow> bool \<Rightarrow> oszapc_flags" where
  "product_flags r c = (logic_flags r)\<lparr>fOF := c, fCF := c\<rparr>"

definition udiv_outcome :: "('a::len) word \<Rightarrow> int \<Rightarrow> ('a word \<Rightarrow> 'a word \<Rightarrow> bx_cpu) \<Rightarrow> bx_exception + bx_cpu" where
  "udiv_outcome d n wr =
    (if d = 0 \<or> 2 ^ LENGTH('a) \<le> n div uint d then Inl BX_DE_EXCEPTION
     else Inr (wr (word_of_int (n div uint d)) (word_of_int (n mod uint d))))"

definition sdiv_outcome :: "('a::len) word \<Rightarrow> int \<Rightarrow> ('a word \<Rightarrow> 'a word \<Rightarrow> bx_cpu) \<Rightarrow> bx_exception + bx_cpu" where
  "sdiv_outcome d n wr =
    (if d = 0 \<or> \<not> fits_signed TYPE('a) (n sdiv sint d) then Inl BX_DE_EXCEPTION
     else Inr (wr (word_of_int (n sdiv sint d)) (word_of_int (n smod sint d))))"

section \<open>Products in a word of twice the width\<close>

lemma product_done:
  assumes "s' = (if c then upd_oszapc assert_flags_OxxxxC (upd_oszapc f s0) else upd_oszapc f s0)"
    "\<And>e. flags_of (f e) = logic_flags r"
  shows "with_flags s' s0 (product_flags r c)"
  using assms by (simp add: with_flags_def flags_assert_OxxxxC product_flags_def logic_flags_def)

lemma ucast_and_mask: "(ucast (w AND mask LENGTH('y)) :: ('y::len) word) = ucast w" for w :: "('x::len) word"
  by (rule bit_word_eqI) (auto simp: bit_ucast_iff bit_and_iff bit_mask_iff dest: bit_imp_le_length)

lemma low_masks:
  "(ucast (a AND 0xFF) :: Bit8u) = ucast a" "(ucast (b AND 0xFFFF) :: Bit16u) = ucast b"
  "(ucast (c AND 0xFFFFFFFF) :: Bit32u) = ucast c"
  for a :: "('a::len) word" and b :: "('b::len) word" and c :: "('c::len) word"
proof -
  have "(0xFF :: 'a word) = mask 8" "(0xFFFF :: 'b word) = mask 16" "(0xFFFFFFFF :: 'c word) = mask 32"
    by (simp_all add: mask_eq_exp_minus_1)
  then have "(ucast (a AND 0xFF) :: Bit8u) = ucast (a AND mask 8)" "(ucast (b AND 0xFFFF) :: Bit16u) = ucast (b AND mask 16)"
    "(ucast (c AND 0xFFFFFFFF) :: Bit32u) = ucast (c AND mask 32)" by simp_all
  then show "(ucast (a AND 0xFF) :: Bit8u) = ucast a" "(ucast (b AND 0xFFFF) :: Bit16u) = ucast b"
    "(ucast (c AND 0xFFFFFFFF) :: Bit32u) = ucast c"
    using ucast_and_mask[where 'y = 8, of a] ucast_and_mask[where 'y = 16, of b] ucast_and_mask[where 'y = 32, of c]
    by simp_all
qed

lemma narrow_word_of_int:
  assumes "LENGTH('a::len) \<le> LENGTH('b::len)"
  shows "ucast (word_of_int x :: 'b word) = (word_of_int x :: 'a word)"
  using assms by (intro bit_word_eqI) (simp add: bit_ucast_iff bit_word_of_int_iff)

lemma high_word_of_int:
  assumes "2 * LENGTH('a::len) \<le> LENGTH('b::len)"
  shows "ucast (drop_bit LENGTH('a) (word_of_int x :: 'b word)) = (word_of_int (x div 2 ^ LENGTH('a)) :: 'a word)"
  using assms
  by (intro bit_word_eqI) (simp add: bit_ucast_iff bit_word_of_int_iff bit_drop_bit_eq flip: drop_bit_eq_div)

lemma unsigned_product:
  fixes a b :: "('a::len) word"
  assumes "2 * LENGTH('a) \<le> LENGTH('b::len)"
  shows "(ucast a * ucast b :: 'b word) = word_of_int (uint a * uint b)"
    and "uint (ucast a * ucast b :: 'b word) = uint a * uint b"
proof -
  show p: "(ucast a * ucast b :: 'b word) = word_of_int (uint a * uint b)" by simp
  have "uint a * uint b < 2 ^ LENGTH('a) * 2 ^ LENGTH('a)"
    using uint_lt2p[of a] uint_lt2p[of b] by (intro mult_strict_mono') simp_all
  also have "\<dots> = 2 ^ (2 * LENGTH('a))" by (simp add: mult_2 power_add)
  also have "\<dots> \<le> 2 ^ LENGTH('b)" using assms by (intro power_increasing) simp_all
  finally have "uint a * uint b < 2 ^ LENGTH('b)" .
  then show "uint (ucast a * ucast b :: 'b word) = uint a * uint b"
    unfolding p by (simp only: uint_word_of_int) simp
qed

lemma unsigned_high:
  fixes a b :: "('a::len) word"
  shows "(word_of_int (uint a * uint b div 2 ^ LENGTH('a)) :: 'a word) = 0 \<longleftrightarrow> \<not> 2 ^ LENGTH('a) \<le> uint a * uint b"
proof -
  let ?p = "uint a * uint b"
  have "?p < 2 ^ LENGTH('a) * 2 ^ LENGTH('a)"
    using uint_lt2p[of a] uint_lt2p[of b] by (intro mult_strict_mono') simp_all
  then have lt: "?p div 2 ^ LENGTH('a) < 2 ^ LENGTH('a)" by (simp add: div_below_iff)
  have ge: "0 \<le> ?p" by simp
  have "uint (word_of_int (?p div 2 ^ LENGTH('a)) :: 'a word) = ?p div 2 ^ LENGTH('a)"
    using lt ge by (simp only: uint_word_of_int) (simp add: pos_imp_zdiv_nonneg_iff)
  moreover have "?p div 2 ^ LENGTH('a) = 0 \<longleftrightarrow> ?p < 2 ^ LENGTH('a)" 
    using div_below_iff[of "2 ^ LENGTH('a)" ?p 1] ge pos_imp_zdiv_nonneg_iff[of "2 ^ LENGTH('a)" ?p] by auto
  ultimately show ?thesis by (simp add: word_uint_eq_iff not_le)
qed

section \<open>Signed values\<close>

lemma sint_word_of_int_fits: "fits_signed TYPE('a::len) x \<Longrightarrow> sint (word_of_int x :: 'a word) = x"
  by (simp add: fits_signed_def sint_sbintrunc' signed_take_bit_int_eq_self)

lemma sint_fits: "fits_signed TYPE('a::len) (sint (w :: 'a word))"
  using sint_ge[of w] sint_lt[of w] by (simp add: fits_signed_def)

lemma sint_word_of_int_iff: "sint (word_of_int x :: ('a::len) word) = x \<longleftrightarrow> fits_signed TYPE('a) x"
  using sint_word_of_int_fits[where 'a = 'a, of x] sint_fits[of "word_of_int x :: 'a word"] by metis

lemma fits_mono:
  assumes "LENGTH('a::len) \<le> LENGTH('b::len)" "fits_signed TYPE('a) x"
  shows "fits_signed TYPE('b) x"
proof -
  have "(2 :: int) ^ (LENGTH('a) - 1) \<le> 2 ^ (LENGTH('b) - 1)" using assms(1) by (intro power_increasing) simp_all
  then show ?thesis using assms(2) unfolding fits_signed_def by linarith
qed

lemma sint_widen:
  assumes "LENGTH('a::len) \<le> LENGTH('b::len)"
  shows "sint (scast w :: 'b word) = sint (w :: 'a word)"
proof -
  have "(scast w :: 'b word) = word_of_int (sint w)" by simp
  then show ?thesis using sint_word_of_int_fits[OF fits_mono[OF assms sint_fits[of w]]] by simp
qed

text \<open>A wide value equals the sign extension of its low half exactly when it fits there.\<close>

lemma narrow_signed_iff:
  assumes "LENGTH('a::len) \<le> LENGTH('b::len)" "fits_signed TYPE('b) x"
  shows "(word_of_int x :: 'b word) = scast (word_of_int x :: 'a word) \<longleftrightarrow> fits_signed TYPE('a) x"
proof -
  have "(word_of_int x :: 'b word) = scast (word_of_int x :: 'a word) \<longleftrightarrow>
      sint (word_of_int x :: 'b word) = sint (scast (word_of_int x :: 'a word) :: 'b word)" by (simp only: sint_inject)
  also have "\<dots> \<longleftrightarrow> x = sint (word_of_int x :: 'a word)"
    by (simp only: sint_widen[OF assms(1)] sint_word_of_int_fits[OF assms(2)])
  finally show ?thesis using sint_word_of_int_iff[where 'a = 'a, of x] by auto
qed

lemma signed_product_fits:
  fixes a b :: "('a::len) word"
  assumes "LENGTH('b::len) = 2 * LENGTH('a)" "2 \<le> LENGTH('a)"
  shows "fits_signed TYPE('b) (sint a * sint b)"
proof -
  let ?h = "2 ^ (LENGTH('a) - 1) :: int"
  have "\<bar>sint a\<bar> \<le> ?h" "\<bar>sint b\<bar> \<le> ?h" using sint_fits[of a] sint_fits[of b] by (auto simp: fits_signed_def abs_le_iff)
  then have "\<bar>sint a * sint b\<bar> \<le> ?h * ?h" unfolding abs_mult by (intro mult_mono) simp_all
  also have "?h * ?h < 2 ^ (LENGTH('b) - 1)"
    using assms by (simp flip: power_add)
  finally show ?thesis by (simp add: fits_signed_def abs_less_iff)
qed

section \<open>Multiplication\<close>

lemma product_low:
  fixes a b :: "('a::len) word"
  assumes "LENGTH('a) \<le> LENGTH('b::len)"
  shows "(ucast (ucast a * ucast b :: 'b word) :: 'a word) = a * b" "(ucast (scast a * scast b :: 'b word) :: 'a word) = a * b"
  using narrow_word_of_int[OF assms, of "uint a * uint b"] narrow_word_of_int[OF assms, of "sint a * sint b"] by simp_all

lemma product_high:
  fixes a b :: "('a::len) word"
  assumes "2 * LENGTH('a) \<le> LENGTH('b::len)"
  shows "(ucast (drop_bit LENGTH('a) (ucast a * ucast b :: 'b word)) :: 'a word) = word_of_int (uint a * uint b div 2 ^ LENGTH('a))"
    "(ucast (drop_bit LENGTH('a) (scast a * scast b :: 'b word)) :: 'a word) = word_of_int (sint a * sint b div 2 ^ LENGTH('a))"
  using high_word_of_int[OF assms, of "uint a * uint b"] high_word_of_int[OF assms, of "sint a * sint b"] by simp_all

lemma product_fits:
  fixes a b :: "('a::len) word"
  assumes "LENGTH('b::len) = 2 * LENGTH('a)" "2 \<le> LENGTH('a)"
  shows "(scast a * scast b :: 'b word) = scast (a * b) \<longleftrightarrow> fits_signed TYPE('a) (sint a * sint b)"
  using narrow_signed_iff[OF _ signed_product_fits[OF assms, of a b], where 'a = 'a] assms by simp

text \<open>The same at the widths the handlers use.\<close>

lemmas product8 = product_low [where 'a = 8 and 'b = 32, simplified] product_high [where 'a = 8 and 'b = 32, simplified]
  product_low [where 'a = 8 and 'b = 16, simplified]
  unsigned_high [where 'a = 8, simplified] product_fits [where 'a = 8 and 'b = 16, simplified]
lemmas product16 = product_low [where 'a = 16 and 'b = 32, simplified] product_high [where 'a = 16 and 'b = 32, simplified]
  unsigned_high [where 'a = 16, simplified] product_fits [where 'a = 16 and 'b = 32, simplified]
lemmas product32 = product_low [where 'a = 32 and 'b = 64, simplified] product_high [where 'a = 32 and 'b = 64, simplified]
  unsigned_high [where 'a = 32, simplified] product_fits [where 'a = 32 and 'b = 64, simplified]

lemma mul8_done:
  fixes i s
  defines "b \<equiv> BX_READ_8BIT_REGx (src i) (extend8bitL i) s"
  shows "with_flags (MUL_ALEbR i s) (BX_WRITE_16BIT_REG 0 (ucast (AL s) * ucast b) s)
      (product_flags (AL s * b) (2 ^ 8 \<le> uint (AL s) * uint b))"
    and "with_flags (IMUL_ALEbR i s) (BX_WRITE_16BIT_REG 0 (scast (AL s) * scast b) s)
      (product_flags (AL s * b) (\<not> fits_signed TYPE(8) (sint (AL s) * sint b)))"
proof -
  have w: "(ucast (ucast x * ucast y :: Bit32u) :: Bit16u) = ucast x * ucast y" for x y :: Bit8u
    using narrow_word_of_int[where 'a = 16 and 'b = 32, of "uint x * uint y"] by simp
  show "with_flags (MUL_ALEbR i s) (BX_WRITE_16BIT_REG 0 (ucast (AL s) * ucast b) s)
      (product_flags (AL s * b) (2 ^ 8 \<le> uint (AL s) * uint b))"
    by (rule product_done[where f = "SET_FLAGS_OSZAPC_LOGIC_8 (ucast (AL s * b))"])
      (simp_all add: MUL_ALEbR_def Let_def low_masks product8 w b_def flags_LOGIC)
  show "with_flags (IMUL_ALEbR i s) (BX_WRITE_16BIT_REG 0 (scast (AL s) * scast b) s)
      (product_flags (AL s * b) (\<not> fits_signed TYPE(8) (sint (AL s) * sint b)))"
    by (rule product_done[where f = "SET_FLAGS_OSZAPC_LOGIC_8 (ucast (AL s * b))"])
      (simp_all add: IMUL_ALEbR_def Let_def low_masks product8 b_def flags_LOGIC)
qed


lemma mul16_done:
  fixes i s
  defines "b \<equiv> BX_READ_16BIT_REG (src i) s" and "d \<equiv> BX_READ_16BIT_REG (dst i) s"
  shows "with_flags (MUL_AXEwR i s) (BX_WRITE_16BIT_REG 2 (word_of_int (uint (AX s) * uint b div 2 ^ 16) :: Bit16u) (BX_WRITE_16BIT_REG 0 (AX s * b) s))
      (product_flags (AX s * b) (2 ^ 16 \<le> uint (AX s) * uint b))"
    and "with_flags (IMUL_AXEwR i s) (BX_WRITE_16BIT_REG 2 (word_of_int (sint (AX s) * sint b div 2 ^ 16) :: Bit16u) (BX_WRITE_16BIT_REG 0 (AX s * b) s))
      (product_flags (AX s * b) (\<not> fits_signed TYPE(16) (sint (AX s) * sint b)))"
    and "with_flags (IMUL_GwEwIwR i s) (BX_WRITE_16BIT_REG (dst i) (b * Iw i) s)
      (product_flags (b * Iw i) (\<not> fits_signed TYPE(16) (sint b * sint (Iw i))))"
    and "with_flags (IMUL_GwEwR i s) (BX_WRITE_16BIT_REG (dst i) (d * b) s)
      (product_flags (d * b) (\<not> fits_signed TYPE(16) (sint d * sint b)))"
proof -
  show "with_flags (MUL_AXEwR i s) (BX_WRITE_16BIT_REG 2 (word_of_int (uint (AX s) * uint b div 2 ^ 16) :: Bit16u) (BX_WRITE_16BIT_REG 0 (AX s * b) s))
      (product_flags (AX s * b) (2 ^ 16 \<le> uint (AX s) * uint b))"
    by (rule product_done[where f = "SET_FLAGS_OSZAPC_LOGIC_16 (ucast (AX s * b))"])
      (simp_all add: MUL_AXEwR_def Let_def low_masks product16 b_def d_def flags_LOGIC)
  show "with_flags (IMUL_AXEwR i s) (BX_WRITE_16BIT_REG 2 (word_of_int (sint (AX s) * sint b div 2 ^ 16) :: Bit16u) (BX_WRITE_16BIT_REG 0 (AX s * b) s))
      (product_flags (AX s * b) (\<not> fits_signed TYPE(16) (sint (AX s) * sint b)))"
    by (rule product_done[where f = "SET_FLAGS_OSZAPC_LOGIC_16 (ucast (AX s * b))"])
      (simp_all add: IMUL_AXEwR_def Let_def low_masks product16 b_def d_def flags_LOGIC)
  show "with_flags (IMUL_GwEwIwR i s) (BX_WRITE_16BIT_REG (dst i) (b * Iw i) s)
      (product_flags (b * Iw i) (\<not> fits_signed TYPE(16) (sint b * sint (Iw i))))"
    by (rule product_done[where f = "SET_FLAGS_OSZAPC_LOGIC_16 (ucast (b * Iw i))"])
      (simp_all add: IMUL_GwEwIwR_def Let_def low_masks product16 b_def d_def flags_LOGIC)
  show "with_flags (IMUL_GwEwR i s) (BX_WRITE_16BIT_REG (dst i) (d * b) s)
      (product_flags (d * b) (\<not> fits_signed TYPE(16) (sint d * sint b)))"
    by (rule product_done[where f = "SET_FLAGS_OSZAPC_LOGIC_16 (ucast (d * b))"])
      (simp_all add: IMUL_GwEwR_def Let_def low_masks product16 b_def d_def flags_LOGIC)
qed

lemma mul32_done:
  fixes i s
  defines "b \<equiv> BX_READ_32BIT_REG (src i) s" and "d \<equiv> BX_READ_32BIT_REG (dst i) s"
  shows "with_flags (MUL_EAXEdR i s) (BX_WRITE_64BIT_REG 2 (ucast (word_of_int (uint (EAX s) * uint b div 2 ^ 32) :: Bit32u)) (BX_WRITE_64BIT_REG 0 (ucast (EAX s * b)) s))
      (product_flags (EAX s * b) (2 ^ 32 \<le> uint (EAX s) * uint b))"
    and "with_flags (IMUL_EAXEdR i s) (BX_WRITE_64BIT_REG 2 (ucast (word_of_int (sint (EAX s) * sint b div 2 ^ 32) :: Bit32u)) (BX_WRITE_64BIT_REG 0 (ucast (EAX s * b)) s))
      (product_flags (EAX s * b) (\<not> fits_signed TYPE(32) (sint (EAX s) * sint b)))"
    and "with_flags (IMUL_GdEdIdR i s) (BX_WRITE_32BIT_REGZ (dst i) (b * Id i) s)
      (product_flags (b * Id i) (\<not> fits_signed TYPE(32) (sint b * sint (Id i))))"
    and "with_flags (IMUL_GdEdR i s) (BX_WRITE_32BIT_REGZ (dst i) (d * b) s)
      (product_flags (d * b) (\<not> fits_signed TYPE(32) (sint d * sint b)))"
proof -
  show "with_flags (MUL_EAXEdR i s) (BX_WRITE_64BIT_REG 2 (ucast (word_of_int (uint (EAX s) * uint b div 2 ^ 32) :: Bit32u)) (BX_WRITE_64BIT_REG 0 (ucast (EAX s * b)) s))
      (product_flags (EAX s * b) (2 ^ 32 \<le> uint (EAX s) * uint b))"
    by (rule product_done[where f = "SET_FLAGS_OSZAPC_LOGIC_32 (EAX s * b)"])
      (simp_all add: MUL_EAXEdR_def Let_def low_masks product32 b_def d_def flags_LOGIC)
  show "with_flags (IMUL_EAXEdR i s) (BX_WRITE_64BIT_REG 2 (ucast (word_of_int (sint (EAX s) * sint b div 2 ^ 32) :: Bit32u)) (BX_WRITE_64BIT_REG 0 (ucast (EAX s * b)) s))
      (product_flags (EAX s * b) (\<not> fits_signed TYPE(32) (sint (EAX s) * sint b)))"
    by (rule product_done[where f = "SET_FLAGS_OSZAPC_LOGIC_32 (EAX s * b)"])
      (simp_all add: IMUL_EAXEdR_def Let_def low_masks product32 b_def d_def flags_LOGIC)
  show "with_flags (IMUL_GdEdIdR i s) (BX_WRITE_32BIT_REGZ (dst i) (b * Id i) s)
      (product_flags (b * Id i) (\<not> fits_signed TYPE(32) (sint b * sint (Id i))))"
    by (rule product_done[where f = "SET_FLAGS_OSZAPC_LOGIC_32 (b * Id i)"])
      (simp_all add: IMUL_GdEdIdR_def Let_def low_masks product32 b_def d_def flags_LOGIC)
  show "with_flags (IMUL_GdEdR i s) (BX_WRITE_32BIT_REGZ (dst i) (d * b) s)
      (product_flags (d * b) (\<not> fits_signed TYPE(32) (sint d * sint b)))"
    by (rule product_done[where f = "SET_FLAGS_OSZAPC_LOGIC_32 (d * b)"])
      (simp_all add: IMUL_GdEdR_def Let_def low_masks product32 b_def d_def flags_LOGIC)
qed

lemma u128_value: "U128 (Bit128u_of v) = ucast v" "S128 (Bit128s_of w) = scast w"
proof -
  show "U128 (Bit128u_of v) = ucast v" by (simp add: U128_def Bit128u_of_def halves_def)
  have "sint (S128 (Bit128s_of w)) = sint (scast w :: 128 word)"
    using uint_lt2p[of w] sint_widen[where 'b = 128, of w]
    by (auto simp: S128_def Bit128s_of_def sint_halves word_sless_alt sint_uint_top[of w] not_less)
  then show "S128 (Bit128s_of w) = scast w" by (simp only: sint_inject)
qed

lemma wide_products:
  fixes a b :: Bit64u
  defines "p \<equiv> u128_mul (Bit128u_of a) (Bit128u_of b)" and "q \<equiv> s128_mul (Bit128s_of a) (Bit128s_of b)"
  shows "GET128L p = a * b" "GET128H p = word_of_int (uint a * uint b div 2 ^ 64)"
    "GET128L_s q = a * b" "GET128H_s q = word_of_int (sint a * sint b div 2 ^ 64)"
    "GET128H_s q + drop_bit 63 (GET128L_s q) = 0 \<longleftrightarrow> fits_signed TYPE(64) (sint a * sint b)"
proof -
  have v: "U128 p = ucast a * ucast b" "S128 q = scast a * scast b"
    by (simp_all add: p_def q_def u128.val_mul s128.val_mul u128_value)
  note low = product_low[where 'a = 64 and 'b = 128, of a b] and high = product_high[where 'a = 64 and 'b = 128, of a b]
  show "GET128L p = a * b" "GET128H p = word_of_int (uint a * uint b div 2 ^ 64)"
    using low(1) high(1) by (simp_all add: u128.lo_val u128.hi_val v)
  show l: "GET128L_s q = a * b" and "GET128H_s q = word_of_int (sint a * sint b div 2 ^ 64)"
    using low(2) high(2) by (simp_all add: s128.lo_val s128.hi_val v)
  have "GET128H_s q + drop_bit 63 (GET128L_s q) = 0 \<longleftrightarrow> sint (S128 q) = sint (GET128L_s q)" by (rule s128.magic_compare)
  also have "\<dots> \<longleftrightarrow> (scast a * scast b :: 128 word) = scast (a * b)"
    using sint_widen[where 'a = 64 and 'b = 128, of "a * b"] by (simp add: v l flip: sint_inject)
  also have "\<dots> \<longleftrightarrow> fits_signed TYPE(64) (sint a * sint b)" by (rule product_fits) simp_all
  finally show "GET128H_s q + drop_bit 63 (GET128L_s q) = 0 \<longleftrightarrow> fits_signed TYPE(64) (sint a * sint b)" .
qed

lemmas wide_magic = wide_products(5)[unfolded wide_products(3,4)]

lemma mul64_done:
  fixes i s
  defines "b \<equiv> BX_READ_64BIT_REG (src i) s" and "d \<equiv> BX_READ_64BIT_REG (dst i) s"
  shows "with_flags (MUL_RAXEqR i s) (BX_WRITE_64BIT_REG 2 (word_of_int (uint (RAX s) * uint b div 2 ^ 64)) (BX_WRITE_64BIT_REG 0 (RAX s * b) s))
      (product_flags (RAX s * b) (2 ^ 64 \<le> uint (RAX s) * uint b))"
    and "with_flags (IMUL_RAXEqR i s) (BX_WRITE_64BIT_REG 2 (word_of_int (sint (RAX s) * sint b div 2 ^ 64)) (BX_WRITE_64BIT_REG 0 (RAX s * b) s))
      (product_flags (RAX s * b) (\<not> fits_signed TYPE(64) (sint (RAX s) * sint b)))"
    and "with_flags (IMUL_GqEqIdR i s) (BX_WRITE_64BIT_REG (dst i) (b * scast (Id i)) s)
      (product_flags (b * scast (Id i)) (\<not> fits_signed TYPE(64) (sint b * sint (Id i))))"
    and "with_flags (IMUL_GqEqR i s) (BX_WRITE_64BIT_REG (dst i) (d * b) s)
      (product_flags (d * b) (\<not> fits_signed TYPE(64) (sint d * sint b)))"
proof -
  note uh = unsigned_high [where 'a = 64, simplified] and sw = sint_widen [where 'a = 32 and 'b = 64, simplified]
  show "with_flags (MUL_RAXEqR i s) (BX_WRITE_64BIT_REG 2 (word_of_int (uint (RAX s) * uint b div 2 ^ 64)) (BX_WRITE_64BIT_REG 0 (RAX s * b) s))
      (product_flags (RAX s * b) (2 ^ 64 \<le> uint (RAX s) * uint b))"
    by (rule product_done[where f = "SET_FLAGS_OSZAPC_LOGIC_64 (RAX s * b)"])
      (simp_all only: MUL_RAXEqR_def Let_def wide_products(1-4) wide_magic b_def d_def flags_LOGIC, (simp add: uh sw)?)
  show "with_flags (IMUL_RAXEqR i s) (BX_WRITE_64BIT_REG 2 (word_of_int (sint (RAX s) * sint b div 2 ^ 64)) (BX_WRITE_64BIT_REG 0 (RAX s * b) s))
      (product_flags (RAX s * b) (\<not> fits_signed TYPE(64) (sint (RAX s) * sint b)))"
    by (rule product_done[where f = "SET_FLAGS_OSZAPC_LOGIC_64 (RAX s * b)"])
      (simp_all only: IMUL_RAXEqR_def Let_def wide_products(1-4) wide_magic b_def d_def flags_LOGIC, (simp add: uh sw)?)
  show "with_flags (IMUL_GqEqIdR i s) (BX_WRITE_64BIT_REG (dst i) (b * scast (Id i)) s)
      (product_flags (b * scast (Id i)) (\<not> fits_signed TYPE(64) (sint b * sint (Id i))))"
    by (rule product_done[where f = "SET_FLAGS_OSZAPC_LOGIC_64 (b * scast (Id i))"])
      (simp_all only: IMUL_GqEqIdR_def Let_def wide_products(1-4) wide_magic b_def d_def flags_LOGIC, (simp add: uh sw)?)
  show "with_flags (IMUL_GqEqR i s) (BX_WRITE_64BIT_REG (dst i) (d * b) s)
      (product_flags (d * b) (\<not> fits_signed TYPE(64) (sint d * sint b)))"
    by (rule product_done[where f = "SET_FLAGS_OSZAPC_LOGIC_64 (d * b)"])
      (simp_all only: IMUL_GqEqR_def Let_def wide_products(1-4) wide_magic b_def d_def flags_LOGIC, (simp add: uh sw)?)
qed

text \<open>C15. MUL and IMUL with the accumulator, at every operand size: the double-width unsigned or signed product goes to
  AX or to the accumulator and data register pair, no other register changes, CF and OF are set exactly when the high
  half is significant, and the remaining flags are those of the low half.\<close>

theorem mul_imul_accumulator:
  "with_flags (MUL_ALEbR i s) (BX_WRITE_16BIT_REG 0 (ucast (AL s) * ucast (BX_READ_8BIT_REGx (src i) (extend8bitL i) s)) s)
      (product_flags (AL s * (BX_READ_8BIT_REGx (src i) (extend8bitL i) s)) (2 ^ 8 \<le> uint (AL s) * uint (BX_READ_8BIT_REGx (src i) (extend8bitL i) s))) \<and>
   with_flags (IMUL_ALEbR i s) (BX_WRITE_16BIT_REG 0 (scast (AL s) * scast (BX_READ_8BIT_REGx (src i) (extend8bitL i) s)) s)
      (product_flags (AL s * (BX_READ_8BIT_REGx (src i) (extend8bitL i) s)) (\<not> fits_signed TYPE(8) (sint (AL s) * sint (BX_READ_8BIT_REGx (src i) (extend8bitL i) s)))) \<and>
   with_flags (MUL_AXEwR i s) (BX_WRITE_16BIT_REG 2 (word_of_int (uint (AX s) * uint (BX_READ_16BIT_REG (src i) s) div 2 ^ 16) :: Bit16u) (BX_WRITE_16BIT_REG 0 (AX s * (BX_READ_16BIT_REG (src i) s)) s))
      (product_flags (AX s * (BX_READ_16BIT_REG (src i) s)) (2 ^ 16 \<le> uint (AX s) * uint (BX_READ_16BIT_REG (src i) s))) \<and>
   with_flags (IMUL_AXEwR i s) (BX_WRITE_16BIT_REG 2 (word_of_int (sint (AX s) * sint (BX_READ_16BIT_REG (src i) s) div 2 ^ 16) :: Bit16u) (BX_WRITE_16BIT_REG 0 (AX s * (BX_READ_16BIT_REG (src i) s)) s))
      (product_flags (AX s * (BX_READ_16BIT_REG (src i) s)) (\<not> fits_signed TYPE(16) (sint (AX s) * sint (BX_READ_16BIT_REG (src i) s)))) \<and>
   with_flags (MUL_EAXEdR i s) (BX_WRITE_64BIT_REG 2 (ucast (word_of_int (uint (EAX s) * uint (BX_READ_32BIT_REG (src i) s) div 2 ^ 32) :: Bit32u)) (BX_WRITE_64BIT_REG 0 (ucast (EAX s * (BX_READ_32BIT_REG (src i) s))) s))
      (product_flags (EAX s * (BX_READ_32BIT_REG (src i) s)) (2 ^ 32 \<le> uint (EAX s) * uint (BX_READ_32BIT_REG (src i) s))) \<and>
   with_flags (IMUL_EAXEdR i s) (BX_WRITE_64BIT_REG 2 (ucast (word_of_int (sint (EAX s) * sint (BX_READ_32BIT_REG (src i) s) div 2 ^ 32) :: Bit32u)) (BX_WRITE_64BIT_REG 0 (ucast (EAX s * (BX_READ_32BIT_REG (src i) s))) s))
      (product_flags (EAX s * (BX_READ_32BIT_REG (src i) s)) (\<not> fits_signed TYPE(32) (sint (EAX s) * sint (BX_READ_32BIT_REG (src i) s)))) \<and>
   with_flags (MUL_RAXEqR i s) (BX_WRITE_64BIT_REG 2 (word_of_int (uint (RAX s) * uint (BX_READ_64BIT_REG (src i) s) div 2 ^ 64)) (BX_WRITE_64BIT_REG 0 (RAX s * (BX_READ_64BIT_REG (src i) s)) s))
      (product_flags (RAX s * (BX_READ_64BIT_REG (src i) s)) (2 ^ 64 \<le> uint (RAX s) * uint (BX_READ_64BIT_REG (src i) s))) \<and>
   with_flags (IMUL_RAXEqR i s) (BX_WRITE_64BIT_REG 2 (word_of_int (sint (RAX s) * sint (BX_READ_64BIT_REG (src i) s) div 2 ^ 64)) (BX_WRITE_64BIT_REG 0 (RAX s * (BX_READ_64BIT_REG (src i) s)) s))
      (product_flags (RAX s * (BX_READ_64BIT_REG (src i) s)) (\<not> fits_signed TYPE(64) (sint (RAX s) * sint (BX_READ_64BIT_REG (src i) s))))"
  by (intro conjI; rule mul8_done(1) mul8_done(2) mul16_done(1) mul16_done(2) mul32_done(1) mul32_done(2) mul64_done(1) mul64_done(2))

section \<open>Division\<close>

lemma pair_value:
  fixes h l :: "('a::len) word"
  assumes "LENGTH('b::len) = 2 * LENGTH('a)"
  defines "w \<equiv> push_bit LENGTH('a) (ucast h) OR ucast l :: 'b word"
  shows "uint w = uint h * 2 ^ LENGTH('a) + uint l" "sint w = sint h * 2 ^ LENGTH('a) + uint l"
proof -
  have "w = push_bit LENGTH('a) (ucast h) + ucast l" unfolding w_def
    by (rule disjunctive_add_eq_or[symmetric])
      (auto simp: bit_eq_iff bit_and_iff bit_push_bit_iff bit_ucast_iff dest: bit_imp_le_length)
  then have "w = word_of_int (uint h * 2 ^ LENGTH('a) + uint l)" by (simp add: push_bit_eq_mult)
  moreover have "uint h * 2 ^ LENGTH('a) + uint l < 2 ^ LENGTH('b)"
  proof -
    have "uint h * 2 ^ LENGTH('a) + uint l < (uint h + 1) * 2 ^ LENGTH('a)" using uint_lt2p[of l] by (simp add: distrib_right)
    also have "\<dots> \<le> 2 ^ LENGTH('a) * 2 ^ LENGTH('a)" using uint_lt2p[of h] by (intro mult_right_mono zless_imp_add1_zle) simp_all
    finally show ?thesis using assms(1) by (simp add: mult_2 power_add)
  qed
  ultimately show u: "uint w = uint h * 2 ^ LENGTH('a) + uint l" by (simp only: uint_word_of_int) simp
  have "bit w (LENGTH('b) - 1) = bit h (LENGTH('a) - 1)"
    using assms(1) by (auto simp: w_def bit_or_iff bit_push_bit_iff bit_ucast_iff dest: bit_imp_le_length)
  then show "sint w = sint h * 2 ^ LENGTH('a) + uint l"
    by (simp add: sint_uint_top u assms(1) mult_2 mult_2_right power_add algebra_simps)
qed

lemma udiv_words:
  fixes n :: "('b::len) word" and d :: "('a::len) word"
  assumes "LENGTH('a) \<le> LENGTH('b)"
  shows "n div ucast d = ucast (word_of_int (uint n div uint d) :: 'a word) \<longleftrightarrow> \<not> 2 ^ LENGTH('a) \<le> uint n div uint d"
    and "(ucast (n div ucast d) :: 'a word) = word_of_int (uint n div uint d)"
    and "(ucast (n mod ucast d) :: 'a word) = word_of_int (uint n mod uint d)"
proof -
  have w: "uint (ucast x :: 'b word) = uint x" for x :: "'a word"
    using assms by (simp add: unsigned_ucast_eq take_bit_int_eq_self order_less_le_trans[OF uint_lt2p] power_increasing)
  then have q: "uint (n div ucast d) = uint n div uint d" and r: "uint (n mod ucast d) = uint n mod uint d"
    by (simp_all add: uint_div uint_mod)
  show l: "(ucast (n div ucast d) :: 'a word) = word_of_int (uint n div uint d)"
    and "(ucast (n mod ucast d) :: 'a word) = word_of_int (uint n mod uint d)"
    by (simp_all flip: q r)
  have "n div ucast d = ucast (ucast (n div ucast d) :: 'a word) \<longleftrightarrow> uint n div uint d = (uint n div uint d) mod 2 ^ LENGTH('a)"
    unfolding word_uint_eq_iff[of "n div ucast d"] w q l by (simp only: uint_word_of_int)
  also have "\<dots> \<longleftrightarrow> \<not> 2 ^ LENGTH('a) \<le> uint n div uint d"
  proof
    assume "uint n div uint d = (uint n div uint d) mod 2 ^ LENGTH('a)"
    then show "\<not> 2 ^ LENGTH('a) \<le> uint n div uint d"
      using pos_mod_bound[of "2 ^ LENGTH('a)" "uint n div uint d"] by (simp add: not_le)
  next
    assume "\<not> 2 ^ LENGTH('a) \<le> uint n div uint d"
    moreover have "0 \<le> uint n div uint d" by (simp flip: q)
    ultimately show "uint n div uint d = (uint n div uint d) mod 2 ^ LENGTH('a)" by simp
  qed
  finally show "n div ucast d = ucast (word_of_int (uint n div uint d) :: 'a word) \<longleftrightarrow> \<not> 2 ^ LENGTH('a) \<le> uint n div uint d"
    unfolding l .
qed

lemma sdiv_abs: "\<bar>x sdiv y\<bar> = \<bar>x\<bar> div \<bar>y\<bar>" if "y \<noteq> 0" for x y :: int
  using that by (auto simp: signed_divide_int_def abs_mult sgn_if pos_imp_zdiv_nonneg_iff)

text \<open>Only the least value can leave the wide range, and dividing it never gives a narrow quotient.\<close>

lemma sdiv_fits_wide:
  fixes x y :: int
  assumes "fits_signed TYPE('b::len) x" "x \<noteq> - (2 ^ (LENGTH('b) - 1))" "y \<noteq> 0"
  shows "fits_signed TYPE('b) (x sdiv y)"
proof -
  have "\<bar>x sdiv y\<bar> \<le> \<bar>x\<bar>" unfolding sdiv_abs[OF assms(3)] using assms(3) zdiv_mono2[of "\<bar>x\<bar>" 1 "\<bar>y\<bar>"] by simp
  then show ?thesis using assms(1,2) by (auto simp: fits_signed_def abs_le_iff)
qed

lemma sdiv_least:
  assumes "LENGTH('b::len) = 2 * LENGTH('a::len)" "fits_signed TYPE('a) y" "y \<noteq> 0"
  shows "\<not> fits_signed TYPE('a) (- (2 ^ (LENGTH('b) - 1)) sdiv y)"
proof -
  let ?h = "2 ^ (LENGTH('a) - 1) :: int"
  have y: "\<bar>y\<bar> \<le> ?h" using assms(2) by (auto simp: fits_signed_def abs_le_iff)
  have "LENGTH('b) - 1 = (LENGTH('a) - 1) + LENGTH('a)" using assms(1) by (simp add: mult_2)
  then have "2 ^ (LENGTH('b) - 1) = ?h * 2 ^ LENGTH('a)" by (simp only: power_add)
  moreover have "2 ^ LENGTH('a) \<le> ?h * 2 ^ LENGTH('a) div \<bar>y\<bar>"
    using zdiv_mono2[of "?h * 2 ^ LENGTH('a)" "\<bar>y\<bar>" ?h] y assms(3) by simp
  ultimately have "2 ^ LENGTH('a) \<le> \<bar>- (2 ^ (LENGTH('b) - 1)) sdiv y\<bar>" using sdiv_abs[OF assms(3), of "- (2 ^ (LENGTH('b) - 1))"] by simp
  moreover have "?h < 2 ^ LENGTH('a)" by (rule power_strict_increasing) simp_all
  ultimately show ?thesis unfolding fits_signed_def by linarith
qed

text \<open>The code tests for the least dividend, then for a zero divisor, then compares the wide quotient with its low half.\<close>

lemma sdiv_cases:
  fixes n :: "('b::len) word" and d :: "('a::len) word"
  assumes len: "LENGTH('b) = 2 * LENGTH('a)"
  defines "q \<equiv> word_of_int (sint n sdiv sint d) :: 'b word"
  shows "(if sint n = - (2 ^ (LENGTH('b) - 1)) then Inl BX_DE_EXCEPTION
          else if d = 0 then Inl BX_DE_EXCEPTION
          else if q \<noteq> scast (ucast q :: 'a word) then Inl BX_DE_EXCEPTION
          else Inr (wr (ucast q) (word_of_int (sint n smod sint d)))) = sdiv_outcome d (sint n) wr"
proof (cases "d = 0")
  case False
  then have d: "sint d \<noteq> 0" using sint_inject[of d 0] by simp
  have low: "ucast q = (word_of_int (sint n sdiv sint d) :: 'a word)"
    unfolding q_def using len by (intro narrow_word_of_int) simp
  show ?thesis
  proof (cases "sint n = - (2 ^ (LENGTH('b) - 1))")
    case True
    then show ?thesis using sdiv_least[OF len sint_fits d] by (simp add: sdiv_outcome_def)
  next
    case min: False
    have "q = scast (word_of_int (sint n sdiv sint d) :: 'a word) \<longleftrightarrow> fits_signed TYPE('a) (sint n sdiv sint d)"
      unfolding q_def using len by (intro narrow_signed_iff sdiv_fits_wide sint_fits min d) simp
    then show ?thesis using min False by (simp add: low sdiv_outcome_def)
  qed
qed (simp add: sdiv_outcome_def)

lemma sint_least_iff:
  "sint x = - (2 ^ 15) \<longleftrightarrow> x = 0x8000" "sint y = - (2 ^ 31) \<longleftrightarrow> y = 0x80000000"
  "sint z = - (2 ^ 63) \<longleftrightarrow> z = 0x8000000000000000"
  for x :: Bit16u and y :: Bit32u and z :: Bit64u
  using sint_inject[of x "0x8000"] sint_inject[of y "0x80000000"] sint_inject[of z "0x8000000000000000"] by simp_all

lemma div8_outcome:
  "DIV_ALEbR i s = udiv_outcome (BX_READ_8BIT_REGx (src i) (extend8bitL i) s) (uint (AX s))
     (\<lambda>q r. BX_WRITE_8BIT_REGH 0 r (BX_WRITE_8BIT_REGL 0 q s))"
  "IDIV_ALEbR i s = sdiv_outcome (BX_READ_8BIT_REGx (src i) (extend8bitL i) s) (sint (AX s))
     (\<lambda>q r. BX_WRITE_8BIT_REGH 0 r (BX_WRITE_8BIT_REGL 0 q s))"
proof -
  note u = udiv_words[where 'a = 8 and 'b = 16, simplified]
  show "DIV_ALEbR i s = udiv_outcome (BX_READ_8BIT_REGx (src i) (extend8bitL i) s) (uint (AX s))
     (\<lambda>q r. BX_WRITE_8BIT_REGH 0 r (BX_WRITE_8BIT_REGL 0 q s))"
    by (simp add: DIV_ALEbR_def Let_def low_masks u udiv_outcome_def)
  show "IDIV_ALEbR i s = sdiv_outcome (BX_READ_8BIT_REGx (src i) (extend8bitL i) s) (sint (AX s))
     (\<lambda>q r. BX_WRITE_8BIT_REGH 0 r (BX_WRITE_8BIT_REGL 0 q s))"
    using sdiv_cases[where 'a = 8 and 'b = 16, of "AX s" "BX_READ_8BIT_REGx (src i) (extend8bitL i) s"
        "\<lambda>q r. BX_WRITE_8BIT_REGH 0 r (BX_WRITE_8BIT_REGL 0 q s)"]
    unfolding IDIV_ALEbR_def Let_def low_masks by (simp add: sint_least_iff[simplified] split del: if_split)
qed

lemma div16_outcome:
  "DIV_AXEwR i s = udiv_outcome (BX_READ_16BIT_REG (src i) s) (uint (DX s) * 2 ^ 16 + uint (AX s))
     (\<lambda>q r. BX_WRITE_16BIT_REG 2 r (BX_WRITE_16BIT_REG 0 q s))"
  "IDIV_AXEwR i s = sdiv_outcome (BX_READ_16BIT_REG (src i) s) (sint (DX s) * 2 ^ 16 + uint (AX s))
     (\<lambda>q r. BX_WRITE_16BIT_REG 2 r (BX_WRITE_16BIT_REG 0 q s))"
proof -
  let ?n = "push_bit 16 (ucast (DX s)) OR ucast (AX s) :: Bit32u"
  have v: "uint ?n = uint (DX s) * 2 ^ 16 + uint (AX s)" "sint ?n = sint (DX s) * 2 ^ 16 + uint (AX s)"
    using pair_value[where 'a = 16 and 'b = 32, of "DX s" "AX s"] by simp_all
  note u = udiv_words[where 'a = 16 and 'b = 32, simplified]
  show "DIV_AXEwR i s = udiv_outcome (BX_READ_16BIT_REG (src i) s) (uint (DX s) * 2 ^ 16 + uint (AX s))
     (\<lambda>q r. BX_WRITE_16BIT_REG 2 r (BX_WRITE_16BIT_REG 0 q s))"
    unfolding v[symmetric] by (simp add: DIV_AXEwR_def Let_def low_masks u udiv_outcome_def)
  show "IDIV_AXEwR i s = sdiv_outcome (BX_READ_16BIT_REG (src i) s) (sint (DX s) * 2 ^ 16 + uint (AX s))
     (\<lambda>q r. BX_WRITE_16BIT_REG 2 r (BX_WRITE_16BIT_REG 0 q s))"
    unfolding v[symmetric]
    using sdiv_cases[where 'a = 16 and 'b = 32, of ?n "BX_READ_16BIT_REG (src i) s"
        "\<lambda>q r. BX_WRITE_16BIT_REG 2 r (BX_WRITE_16BIT_REG 0 q s)"]
    unfolding IDIV_AXEwR_def Let_def low_masks by (simp add: sint_least_iff[simplified] split del: if_split)
qed

lemma div32_outcome:
  "DIV_EAXEdR i s = udiv_outcome (BX_READ_32BIT_REG (src i) s) (uint (EDX s) * 2 ^ 32 + uint (EAX s))
     (\<lambda>q r. BX_WRITE_64BIT_REG 2 (ucast r) (BX_WRITE_64BIT_REG 0 (ucast q) s))"
  "IDIV_EAXEdR i s = sdiv_outcome (BX_READ_32BIT_REG (src i) s) (sint (EDX s) * 2 ^ 32 + uint (EAX s))
     (\<lambda>q r. BX_WRITE_64BIT_REG 2 (ucast r) (BX_WRITE_64BIT_REG 0 (ucast q) s))"
proof -
  let ?n = "push_bit 32 (ucast (EDX s)) OR ucast (EAX s) :: Bit64u"
  have v: "uint ?n = uint (EDX s) * 2 ^ 32 + uint (EAX s)" "sint ?n = sint (EDX s) * 2 ^ 32 + uint (EAX s)"
    using pair_value[where 'a = 32 and 'b = 64, of "EDX s" "EAX s"] by simp_all
  note u = udiv_words[where 'a = 32 and 'b = 64, simplified]
  show "DIV_EAXEdR i s = udiv_outcome (BX_READ_32BIT_REG (src i) s) (uint (EDX s) * 2 ^ 32 + uint (EAX s))
     (\<lambda>q r. BX_WRITE_64BIT_REG 2 (ucast r) (BX_WRITE_64BIT_REG 0 (ucast q) s))"
    unfolding v[symmetric] by (simp add: DIV_EAXEdR_def Let_def low_masks u udiv_outcome_def)
  show "IDIV_EAXEdR i s = sdiv_outcome (BX_READ_32BIT_REG (src i) s) (sint (EDX s) * 2 ^ 32 + uint (EAX s))
     (\<lambda>q r. BX_WRITE_64BIT_REG 2 (ucast r) (BX_WRITE_64BIT_REG 0 (ucast q) s))"
    unfolding v[symmetric]
    using sdiv_cases[where 'a = 32 and 'b = 64, of ?n "BX_READ_32BIT_REG (src i) s"
        "\<lambda>q r. BX_WRITE_64BIT_REG 2 (ucast r) (BX_WRITE_64BIT_REG 0 (ucast q) s)"]
    unfolding IDIV_EAXEdR_def Let_def low_masks by (simp add: sint_least_iff[simplified] split del: if_split)
qed

text \<open>At 64 bits the code has no remainder from the 128-bit division; it recomputes it in 64-bit arithmetic.\<close>

lemma low_remainder:
  fixes h l :: "('a::len) word"
  assumes "N = x * 2 ^ LENGTH('a) + uint l"
  shows "l - word_of_int q * word_of_int d = (word_of_int (N - q * d) :: 'a word)"
proof -
  have "(word_of_int (2 ^ LENGTH('a)) :: 'a word) = 0" by (simp add: word_uint_eq_iff uint_word_of_int)
  then have "(word_of_int N :: 'a word) = l" by (simp add: assms)
  then show ?thesis by simp
qed

lemma div64_outcome:
  "DIV_RAXEqR i s = udiv_outcome (BX_READ_64BIT_REG (src i) s) (uint (RDX s) * 2 ^ 64 + uint (RAX s))
     (\<lambda>q r. BX_WRITE_64BIT_REG 2 r (BX_WRITE_64BIT_REG 0 q s))"
proof -
  define d where "d = BX_READ_64BIT_REG (src i) s"
  let ?n = "MAKE128U (RDX s) (RAX s)" and ?N = "uint (RDX s) * 2 ^ 64 + uint (RAX s)"
  have n: "uint (U128 ?n) = ?N" by (simp add: uint_U128 MAKE128U_def)
  show ?thesis
  proof (cases "d = 0")
    case False
    let ?q = "fst (bx_divmod128u ?n (Bit128u_of d))"
    have "U128 (Bit128u_of d) \<noteq> 0" "uint (U128 (Bit128u_of d)) = uint d"
      using False by (simp_all add: uint_U128 Bit128u_of_def word_uint_eq_iff)
    then have q: "uint (U128 ?q) = ?N div uint d" using divmod128u_uint(1)[of "Bit128u_of d" ?n] n by simp
    have lo: "GET128L ?q = word_of_int (?N div uint d)" unfolding u128.lo_val q[symmetric] by simp
    have hi: "GET128H ?q \<noteq> 0 \<longleftrightarrow> 2 ^ 64 \<le> ?N div uint d" using u128.hi_zero_iff[of ?q] q by (simp add: not_less)
    have "RAX s - word_of_int (?N div uint d) * d = word_of_int (?N mod uint d)"
      using low_remainder[of ?N "uint (RDX s)" "RAX s" "?N div uint d" "uint d"] by (simp add: minus_div_mult_eq_mod)
    then show ?thesis using False by (simp add: DIV_RAXEqR_def udiv_outcome_def Let_def u128_div_def hi lo flip: d_def)
  qed (simp add: DIV_RAXEqR_def udiv_outcome_def d_def)
qed

lemma idiv64_outcome:
  "IDIV_RAXEqR i s = sdiv_outcome (BX_READ_64BIT_REG (src i) s) (sint (RDX s) * 2 ^ 64 + uint (RAX s))
     (\<lambda>q r. BX_WRITE_64BIT_REG 2 r (BX_WRITE_64BIT_REG 0 q s))"
proof -
  define d where "d = BX_READ_64BIT_REG (src i) s"
  define n where "n = MAKE128S (RDX s) (RAX s)"
  define N where "N = sint (S128 n)"
  let ?wr = "\<lambda>q r. BX_WRITE_64BIT_REG 2 r (BX_WRITE_64BIT_REG 0 q s)" and ?q = "fst (bx_divmod128s n (Bit128s_of d))"
  have N: "N = sint (RDX s) * 2 ^ 64 + uint (RAX s)" by (simp add: N_def n_def S128_def MAKE128S_def sint_halves)
  have "sint (S128 BIT128S_MIN) = - (2 ^ 127)" by (simp add: S128_def BIT128S_MIN_def MAKE128S_def sint_halves)
  then have least: "s128_eq n BIT128S_MIN \<longleftrightarrow> N = - (2 ^ 127)" by (simp add: s128.val_eq N_def flip: sint_inject)
  have dv: "sint (S128 (Bit128s_of d)) = sint d" using sint_widen[where 'b = 128, of d] by (simp add: u128_value)
  have quot: "S128 ?q = word_of_int (N sdiv sint d)" if "N \<noteq> - (2 ^ 127)" "d \<noteq> 0"
  proof -
    have "sint d \<noteq> 0" using that(2) sint_inject[of d 0] by simp
    then have "sint (S128 ?q) = N sdiv sint d" using divmod128s_sint(1)[of "Bit128s_of d" n] that(1) by (simp add: dv N_def)
    then have "word_of_int (N sdiv sint d) = (word_of_int (sint (S128 ?q)) :: 128 word)" by simp
    then show ?thesis by simp
  qed
  have rem: "RAX s - word_of_int (N sdiv sint d) * d = word_of_int (N smod sint d)"
    using low_remainder[of N "sint (RDX s)" "RAX s" "N sdiv sint d" "sint d"] N by (simp add: minus_sdiv_mult_eq_smod)
  have low: "ucast (word_of_int (N sdiv sint d) :: 128 word) = (word_of_int (N sdiv sint d) :: Bit64u)"
    by (rule narrow_word_of_int) simp
  show ?thesis
    using sdiv_cases[where 'a = 64 and 'b = 128, of "S128 n" d ?wr, folded N_def]
    unfolding IDIV_RAXEqR_def s128_div_def Let_def n_def[symmetric] d_def[symmetric] N[symmetric] least
    by (cases "N = - (2 ^ 127)"; cases "d = 0") (simp_all add: s128.val_eq s128.lo_val u128_value quot low rem cong: if_cong split del: if_split)
qed

text \<open>C16. DIV and IDIV at every operand size raise a divide error exactly when the divisor is zero or the exact quotient of the
  double-width dividend does not fit the operand size; otherwise they store the quotient, truncated toward zero, in the
  accumulator and the remainder in AH or the data register, and change nothing else.\<close>

theorem div_idiv_accumulator:
  "DIV_ALEbR i s = udiv_outcome (BX_READ_8BIT_REGx (src i) (extend8bitL i) s) (uint (AX s))
     (\<lambda>q r. BX_WRITE_8BIT_REGH 0 r (BX_WRITE_8BIT_REGL 0 q s)) \<and>
   IDIV_ALEbR i s = sdiv_outcome (BX_READ_8BIT_REGx (src i) (extend8bitL i) s) (sint (AX s))
     (\<lambda>q r. BX_WRITE_8BIT_REGH 0 r (BX_WRITE_8BIT_REGL 0 q s)) \<and>
   DIV_AXEwR i s = udiv_outcome (BX_READ_16BIT_REG (src i) s) (uint (DX s) * 2 ^ 16 + uint (AX s))
     (\<lambda>q r. BX_WRITE_16BIT_REG 2 r (BX_WRITE_16BIT_REG 0 q s)) \<and>
   IDIV_AXEwR i s = sdiv_outcome (BX_READ_16BIT_REG (src i) s) (sint (DX s) * 2 ^ 16 + uint (AX s))
     (\<lambda>q r. BX_WRITE_16BIT_REG 2 r (BX_WRITE_16BIT_REG 0 q s)) \<and>
   DIV_EAXEdR i s = udiv_outcome (BX_READ_32BIT_REG (src i) s) (uint (EDX s) * 2 ^ 32 + uint (EAX s))
     (\<lambda>q r. BX_WRITE_64BIT_REG 2 (ucast r) (BX_WRITE_64BIT_REG 0 (ucast q) s)) \<and>
   IDIV_EAXEdR i s = sdiv_outcome (BX_READ_32BIT_REG (src i) s) (sint (EDX s) * 2 ^ 32 + uint (EAX s))
     (\<lambda>q r. BX_WRITE_64BIT_REG 2 (ucast r) (BX_WRITE_64BIT_REG 0 (ucast q) s)) \<and>
   DIV_RAXEqR i s = udiv_outcome (BX_READ_64BIT_REG (src i) s) (uint (RDX s) * 2 ^ 64 + uint (RAX s))
     (\<lambda>q r. BX_WRITE_64BIT_REG 2 r (BX_WRITE_64BIT_REG 0 q s)) \<and>
   IDIV_RAXEqR i s = sdiv_outcome (BX_READ_64BIT_REG (src i) s) (sint (RDX s) * 2 ^ 64 + uint (RAX s))
     (\<lambda>q r. BX_WRITE_64BIT_REG 2 r (BX_WRITE_64BIT_REG 0 q s))"
  by (intro conjI; rule div8_outcome div16_outcome div32_outcome div64_outcome idiv64_outcome)

end
