(* ===== verification/BmiProps.thy ===== *)
theory BmiProps
  imports Bmi32 Bmi64 MultProps
begin

text \<open>What the bit manipulation instructions compute at both operand sizes.\<close>

lemma mulx_product:
  "MULX_GdBdEdR i s = BX_WRITE_32BIT_REGZ (dst i) (word_of_int (uint (EDX s) * uint (BX_READ_32BIT_REG (src2 i) s) div 2 ^ 32))
     (BX_WRITE_32BIT_REGZ (src1 i) (EDX s * BX_READ_32BIT_REG (src2 i) s) s)"
  "MULX_GqBqEqR i s = BX_WRITE_64BIT_REG (dst i) (word_of_int (uint (RDX s) * uint (BX_READ_64BIT_REG (src2 i) s) div 2 ^ 64))
     (BX_WRITE_64BIT_REG (src1 i) (RDX s * BX_READ_64BIT_REG (src2 i) s) s)"
proof -
  have p: "2 ^ 32 = (4294967296 :: int)" by simp
  show "MULX_GdBdEdR i s = BX_WRITE_32BIT_REGZ (dst i) (word_of_int (uint (EDX s) * uint (BX_READ_32BIT_REG (src2 i) s) div 2 ^ 32))
     (BX_WRITE_32BIT_REGZ (src1 i) (EDX s * BX_READ_32BIT_REG (src2 i) s) s)"
    by (simp only: MULX_GdBdEdR_def Let_def product32 p)
  show "MULX_GqBqEqR i s = BX_WRITE_64BIT_REG (dst i) (word_of_int (uint (RDX s) * uint (BX_READ_64BIT_REG (src2 i) s) div 2 ^ 64))
     (BX_WRITE_64BIT_REG (src1 i) (RDX s * BX_READ_64BIT_REG (src2 i) s) s)"
    by (simp only: MULX_GqBqEqR_def Let_def wide_products(1-4))
qed

text \<open>The flags of a logical result with PF kept.\<close>

definition logic_flags_keep_PF :: "'a::len word \<Rightarrow> bool \<Rightarrow> bx_cpu \<Rightarrow> oszapc_flags" where
  "logic_flags_keep_PF r cf s = (logic_flags r)\<lparr>fPF := fPF (cpu_flags s), fCF := cf\<rparr>"

text \<open>C38. ANDN, BLSI, BLSMSK, BLSR and BZHI isolate, mask and clear bits as specified, with the flags of a logical result, PF kept and CF
  as defined for each; the shifts SHLX, SHRX, SARX and RORX and the field extraction BEXTR write only their destination (BEXTR also ZF);
  MULX leaves the exact double-width product in two registers and no flag changed; ADCX and ADOX add with carry through CF or OF alone
  and leave the other five flags, so that two carry chains can be interleaved; at both operand sizes.\<close>

theorem bit_manipulation_results:
  "with_flags (ANDN_GdBdEdR i s) (BX_WRITE_32BIT_REGZ (dst i) (NOT (BX_READ_32BIT_REG (src1 i) s) AND BX_READ_32BIT_REG (src2 i) s) s) (logic_flags_keep_PF (NOT (BX_READ_32BIT_REG (src1 i) s) AND BX_READ_32BIT_REG (src2 i) s :: Bit32u) (False) s)
   \<and> with_flags (BLSI_BdEdR i s) (BX_WRITE_32BIT_REGZ (dst i) (if BX_READ_32BIT_REG (src1 i) s = 0 then 0 else push_bit (lowest_bit (BX_READ_32BIT_REG (src1 i) s)) 1) s) (logic_flags_keep_PF (if BX_READ_32BIT_REG (src1 i) s = 0 then 0 else push_bit (lowest_bit (BX_READ_32BIT_REG (src1 i) s)) 1 :: Bit32u) (BX_READ_32BIT_REG (src1 i) s \<noteq> 0) s)
   \<and> with_flags (BLSMSK_BdEdR i s) (BX_WRITE_32BIT_REGZ (dst i) (if BX_READ_32BIT_REG (src1 i) s = 0 then mask 32 else mask (Suc (lowest_bit (BX_READ_32BIT_REG (src1 i) s)))) s) (logic_flags_keep_PF (if BX_READ_32BIT_REG (src1 i) s = 0 then mask 32 else mask (Suc (lowest_bit (BX_READ_32BIT_REG (src1 i) s))) :: Bit32u) (BX_READ_32BIT_REG (src1 i) s = 0) s)
   \<and> with_flags (BLSR_BdEdR i s) (BX_WRITE_32BIT_REGZ (dst i) (if BX_READ_32BIT_REG (src1 i) s = 0 then 0 else unset_bit (lowest_bit (BX_READ_32BIT_REG (src1 i) s)) (BX_READ_32BIT_REG (src1 i) s)) s) (logic_flags_keep_PF (if BX_READ_32BIT_REG (src1 i) s = 0 then 0 else unset_bit (lowest_bit (BX_READ_32BIT_REG (src1 i) s)) (BX_READ_32BIT_REG (src1 i) s) :: Bit32u) (BX_READ_32BIT_REG (src1 i) s = 0) s)
   \<and> with_flags (BZHI_GdEdBdR i s) (BX_WRITE_32BIT_REGZ (dst i) (take_bit (unat (BX_READ_8BIT_REGL (src2 i) s)) (BX_READ_32BIT_REG (src1 i) s)) s) (logic_flags_keep_PF (take_bit (unat (BX_READ_8BIT_REGL (src2 i) s)) (BX_READ_32BIT_REG (src1 i) s) :: Bit32u) (32 \<le> unat (BX_READ_8BIT_REGL (src2 i) s)) s)
   \<and> with_flags (ANDN_GqBqEqR i s) (BX_WRITE_64BIT_REG (dst i) (NOT (BX_READ_64BIT_REG (src1 i) s) AND BX_READ_64BIT_REG (src2 i) s) s) (logic_flags_keep_PF (NOT (BX_READ_64BIT_REG (src1 i) s) AND BX_READ_64BIT_REG (src2 i) s :: Bit64u) (False) s)
   \<and> with_flags (BLSI_BqEqR i s) (BX_WRITE_64BIT_REG (dst i) (if BX_READ_64BIT_REG (src1 i) s = 0 then 0 else push_bit (lowest_bit (BX_READ_64BIT_REG (src1 i) s)) 1) s) (logic_flags_keep_PF (if BX_READ_64BIT_REG (src1 i) s = 0 then 0 else push_bit (lowest_bit (BX_READ_64BIT_REG (src1 i) s)) 1 :: Bit64u) (BX_READ_64BIT_REG (src1 i) s \<noteq> 0) s)
   \<and> with_flags (BLSMSK_BqEqR i s) (BX_WRITE_64BIT_REG (dst i) (if BX_READ_64BIT_REG (src1 i) s = 0 then mask 64 else mask (Suc (lowest_bit (BX_READ_64BIT_REG (src1 i) s)))) s) (logic_flags_keep_PF (if BX_READ_64BIT_REG (src1 i) s = 0 then mask 64 else mask (Suc (lowest_bit (BX_READ_64BIT_REG (src1 i) s))) :: Bit64u) (BX_READ_64BIT_REG (src1 i) s = 0) s)
   \<and> with_flags (BLSR_BqEqR i s) (BX_WRITE_64BIT_REG (dst i) (if BX_READ_64BIT_REG (src1 i) s = 0 then 0 else unset_bit (lowest_bit (BX_READ_64BIT_REG (src1 i) s)) (BX_READ_64BIT_REG (src1 i) s)) s) (logic_flags_keep_PF (if BX_READ_64BIT_REG (src1 i) s = 0 then 0 else unset_bit (lowest_bit (BX_READ_64BIT_REG (src1 i) s)) (BX_READ_64BIT_REG (src1 i) s) :: Bit64u) (BX_READ_64BIT_REG (src1 i) s = 0) s)
   \<and> with_flags (BZHI_GqEqBqR i s) (BX_WRITE_64BIT_REG (dst i) (take_bit (unat (BX_READ_8BIT_REGL (src2 i) s)) (BX_READ_64BIT_REG (src1 i) s)) s) (logic_flags_keep_PF (take_bit (unat (BX_READ_8BIT_REGL (src2 i) s)) (BX_READ_64BIT_REG (src1 i) s) :: Bit64u) (64 \<le> unat (BX_READ_8BIT_REGL (src2 i) s)) s)
   \<and> SHLX_GdEdBdR i s = (BX_WRITE_32BIT_REGZ (dst i) (push_bit (unat (BX_READ_32BIT_REG (src2 i) s AND 0x1f)) (BX_READ_32BIT_REG (src1 i) s)) s)
   \<and> SHRX_GdEdBdR i s = (BX_WRITE_32BIT_REGZ (dst i) (drop_bit (unat (BX_READ_32BIT_REG (src2 i) s AND 0x1f)) (BX_READ_32BIT_REG (src1 i) s)) s)
   \<and> SARX_GdEdBdR i s = (BX_WRITE_32BIT_REGZ (dst i) (signed_drop_bit (unat (BX_READ_32BIT_REG (src2 i) s AND 0x1f)) (BX_READ_32BIT_REG (src1 i) s)) s)
   \<and> RORX_GdEdIbR i s = (BX_WRITE_32BIT_REGZ (dst i) (word_rotr (unat (Ib i AND 0x1f)) (BX_READ_32BIT_REG (src1 i) s)) s)
   \<and> with_flags (BEXTR_GdEdBdR i s) (BX_WRITE_32BIT_REGZ (dst i) (take_bit (unat (drop_bit 8 (BX_READ_16BIT_REG (src2 i) s))) (drop_bit (unat (BX_READ_16BIT_REG (src2 i) s AND 0xff)) (BX_READ_32BIT_REG (src1 i) s))) s)
       \<lparr>fOF = False, fSF = False, fZF = take_bit (unat (drop_bit 8 (BX_READ_16BIT_REG (src2 i) s))) (drop_bit (unat (BX_READ_16BIT_REG (src2 i) s AND 0xff)) (BX_READ_32BIT_REG (src1 i) s)) = 0, fAF = False, fPF = False, fCF = False\<rparr>
   \<and> SHLX_GqEqBqR i s = (BX_WRITE_64BIT_REG (dst i) (push_bit (unat (BX_READ_32BIT_REG (src2 i) s AND 0x3f)) (BX_READ_64BIT_REG (src1 i) s)) s)
   \<and> SHRX_GqEqBqR i s = (BX_WRITE_64BIT_REG (dst i) (drop_bit (unat (BX_READ_32BIT_REG (src2 i) s AND 0x3f)) (BX_READ_64BIT_REG (src1 i) s)) s)
   \<and> SARX_GqEqBqR i s = (BX_WRITE_64BIT_REG (dst i) (signed_drop_bit (unat (BX_READ_32BIT_REG (src2 i) s AND 0x3f)) (BX_READ_64BIT_REG (src1 i) s)) s)
   \<and> RORX_GqEqIbR i s = (BX_WRITE_64BIT_REG (dst i) (word_rotr (unat (Ib i AND 0x3f)) (BX_READ_64BIT_REG (src1 i) s)) s)
   \<and> with_flags (BEXTR_GqEqBqR i s) (BX_WRITE_64BIT_REG (dst i) (take_bit (unat (drop_bit 8 (BX_READ_16BIT_REG (src2 i) s))) (drop_bit (unat (BX_READ_16BIT_REG (src2 i) s AND 0xff)) (BX_READ_64BIT_REG (src1 i) s))) s)
       \<lparr>fOF = False, fSF = False, fZF = take_bit (unat (drop_bit 8 (BX_READ_16BIT_REG (src2 i) s))) (drop_bit (unat (BX_READ_16BIT_REG (src2 i) s AND 0xff)) (BX_READ_64BIT_REG (src1 i) s)) = 0, fAF = False, fPF = False, fCF = False\<rparr>
   \<and> MULX_GdBdEdR i s = BX_WRITE_32BIT_REGZ (dst i) (word_of_int (uint (EDX s) * uint (BX_READ_32BIT_REG (src2 i) s) div 2 ^ 32)) (BX_WRITE_32BIT_REGZ (src1 i) (EDX s * BX_READ_32BIT_REG (src2 i) s) s)
   \<and> with_flags (ADCX_GdEdR i s) (BX_WRITE_32BIT_REGZ (dst i) (BX_READ_32BIT_REG (dst i) s + BX_READ_32BIT_REG (src i) s + of_bool (fCF (cpu_flags s))) s)
       ((cpu_flags s)\<lparr>fCF := 2 ^ 32 \<le> uint (BX_READ_32BIT_REG (dst i) s) + uint (BX_READ_32BIT_REG (src i) s) + of_bool (fCF (cpu_flags s))\<rparr>)
   \<and> with_flags (ADOX_GdEdR i s) (BX_WRITE_32BIT_REGZ (dst i) (BX_READ_32BIT_REG (dst i) s + BX_READ_32BIT_REG (src i) s + of_bool (fOF (cpu_flags s))) s)
       ((cpu_flags s)\<lparr>fOF := 2 ^ 32 \<le> uint (BX_READ_32BIT_REG (dst i) s) + uint (BX_READ_32BIT_REG (src i) s) + of_bool (fOF (cpu_flags s))\<rparr>)
   \<and> MULX_GqBqEqR i s = BX_WRITE_64BIT_REG (dst i) (word_of_int (uint (RDX s) * uint (BX_READ_64BIT_REG (src2 i) s) div 2 ^ 64)) (BX_WRITE_64BIT_REG (src1 i) (RDX s * BX_READ_64BIT_REG (src2 i) s) s)
   \<and> with_flags (ADCX_GqEqR i s) (BX_WRITE_64BIT_REG (dst i) (BX_READ_64BIT_REG (dst i) s + BX_READ_64BIT_REG (src i) s + of_bool (fCF (cpu_flags s))) s)
       ((cpu_flags s)\<lparr>fCF := 2 ^ 64 \<le> uint (BX_READ_64BIT_REG (dst i) s) + uint (BX_READ_64BIT_REG (src i) s) + of_bool (fCF (cpu_flags s))\<rparr>)
   \<and> with_flags (ADOX_GqEqR i s) (BX_WRITE_64BIT_REG (dst i) (BX_READ_64BIT_REG (dst i) s + BX_READ_64BIT_REG (src i) s + of_bool (fOF (cpu_flags s))) s)
       ((cpu_flags s)\<lparr>fOF := 2 ^ 64 \<le> uint (BX_READ_64BIT_REG (dst i) s) + uint (BX_READ_64BIT_REG (src i) s) + of_bool (fOF (cpu_flags s))\<rparr>)"
  using bmi_logic32 [of i s] bmi_logic64 [of i s] bmi_shift32 [of i s] bmi_shift64 [of i s] bmi_bextr32 [of i s] bmi_bextr64 [of i s]
    mulx_product [of i s] bmi_add32 [of i s] bmi_add64 [of i s]
  unfolding logic_flags_keep_PF_def
  by (intro conjI)

text \<open>C39. PDEP after PEXT with the same mask gives back the bits of the value under the mask, and PEXT after PDEP the low bits of the value,
  as many as the mask has; at both operand sizes.\<close>

theorem pext_pdep_roundtrip:
  assumes "src1 j = dst i" "src2 j = src2 i" "dst i \<noteq> src2 i"
  shows "BX_READ_32BIT_REG (dst j) (PDEP_GdBdEdR j (PEXT_GdBdEdR i s)) = BX_READ_32BIT_REG (src1 i) s AND BX_READ_32BIT_REG (src2 i) s
   \<and> BX_READ_32BIT_REG (dst j) (PEXT_GdBdEdR j (PDEP_GdBdEdR i s)) = take_bit (card {k. bit (BX_READ_32BIT_REG (src2 i) s) k}) (BX_READ_32BIT_REG (src1 i) s)
   \<and> BX_READ_64BIT_REG (dst j) (PDEP_GqBqEqR j (PEXT_GqBqEqR i s)) = BX_READ_64BIT_REG (src1 i) s AND BX_READ_64BIT_REG (src2 i) s
   \<and> BX_READ_64BIT_REG (dst j) (PEXT_GqBqEqR j (PDEP_GqBqEqR i s)) = take_bit (card {k. bit (BX_READ_64BIT_REG (src2 i) s) k}) (BX_READ_64BIT_REG (src1 i) s)"
  using assms
  by (simp_all add: PEXT_GdBdEdR_def PDEP_GdBdEdR_def PEXT_GqBqEqR_def PDEP_GqBqEqR_def Let_def r32.rd_wr_same r64.rd_wr_same
      r32.rd_wr_other r64.rd_wr_other pdep_pext [simplified] pext_pdep [simplified])

text \<open>The high nibble of 0xab, gathered and scattered again.\<close>

theorem pext_pdep_roundtrip_witness:
  "BX_READ_32BIT_REG 2 (PDEP_GdBdEdR ((sample_instr 2 2 0)\<lparr>src2 := 1\<rparr>) (PEXT_GdBdEdR ((sample_instr 2 0 0)\<lparr>src2 := 1\<rparr>)
     (sample_cpu ((\<lambda>_. 0)(0 := 0xab, 1 := 0xf0))))) = 0xa0"
  using pext_pdep_roundtrip [of "(sample_instr 2 2 0)\<lparr>src2 := 1\<rparr>" "(sample_instr 2 0 0)\<lparr>src2 := 1\<rparr>" "sample_cpu ((\<lambda>_. 0)(0 := 0xab, 1 := 0xf0))"]
  by (simp add: sample_defs reg_access_defs reg_view_defs)

end
