(* ===== verification/Bcd.thy ===== *)
theory Bcd
  imports Arith8 FlagCtrl
begin

text \<open>
  The decimal adjustments of \<^verbatim>\<open>cpu/bcd.cc\<close>.  After an addition or subtraction of packed digits DAA and DAS leave the
  decimal result; AAM and AAD convert between a byte and its two digits in any base.
\<close>

section \<open>Handlers\<close>

definition AAA :: "bxInstruction_c \<Rightarrow> bx_cpu \<Rightarrow> bx_cpu" where
  "AAA i s =
    (let (tmpCF, tmpAF, s) =
           (if AL s AND 0x0f > 9 \<or> get_AF (oszapc s) \<noteq> 0 then (True, True, BX_WRITE_16BIT_REG 0 (AX s + 0x106) s)
            else (False, False, s));
         s = BX_WRITE_8BIT_REGL 0 (AL s AND 0x0f) s;
         s = upd_oszapc (SET_FLAGS_OSZAPC_LOGIC_8 (ucast (AL s))) s;
         s = upd_oszapc (set_CF tmpCF) s
     in upd_oszapc (set_AF tmpAF) s)"

definition AAS :: "bxInstruction_c \<Rightarrow> bx_cpu \<Rightarrow> bx_cpu" where
  "AAS i s =
    (let (tmpCF, tmpAF, s) =
           (if AL s AND 0x0F > 0x09 \<or> get_AF (oszapc s) \<noteq> 0 then (True, True, BX_WRITE_16BIT_REG 0 (AX s - 0x106) s)
            else (False, False, s));
         s = BX_WRITE_8BIT_REGL 0 (AL s AND 0x0f) s;
         s = upd_oszapc (SET_FLAGS_OSZAPC_LOGIC_8 (ucast (AL s))) s;
         s = upd_oszapc (set_CF tmpCF) s
     in upd_oszapc (set_AF tmpAF) s)"

definition AAM :: "bxInstruction_c \<Rightarrow> bx_cpu \<Rightarrow> bx_exception + bx_cpu" where
  "AAM i s =
    (let imm8 = Ib i
     in if imm8 = 0 then Inl BX_DE_EXCEPTION
        else
          (let al = AL s;
               s = BX_WRITE_8BIT_REGH 0 (al div imm8) s;
               s = BX_WRITE_8BIT_REGL 0 (al mod imm8) s
           in Inr (upd_oszapc (SET_FLAGS_OSZAPC_LOGIC_8 (ucast (AL s))) s)))"

definition AAD :: "bxInstruction_c \<Rightarrow> bx_cpu \<Rightarrow> bx_cpu" where
  "AAD i s =
    (let tmp = AH s * Ib i;
         result = tmp + AL s;
         s = upd_oszapc (SET_FLAGS_OSZAPC_ADD_8 (ucast tmp) (ucast (AL s)) (ucast result)) s
     in BX_WRITE_16BIT_REG 0 (ucast result) s)"

definition DAA :: "bxInstruction_c \<Rightarrow> bx_cpu \<Rightarrow> bx_cpu" where
  "DAA i s =
    (let tmpAL = AL s;
         (tmpCF, tmpAF, s) =
           (if tmpAL AND 0x0F > 0x09 \<or> get_AF (oszapc s) \<noteq> 0
            then (AL s > 0xF9 \<or> get_CF (oszapc s) \<noteq> 0, True, BX_WRITE_8BIT_REGL 0 (AL s + 0x06) s)
            else (False, False, s));
         (tmpCF, s) =
           (if tmpAL > 0x99 \<or> get_CF (oszapc s) \<noteq> 0 then (True, BX_WRITE_8BIT_REGL 0 (AL s + 0x60) s) else (tmpCF, s));
         s = upd_oszapc (SET_FLAGS_OSZAPC_LOGIC_8 (ucast (AL s))) s;
         s = upd_oszapc (set_CF tmpCF) s
     in upd_oszapc (set_AF tmpAF) s)"

definition DAS :: "bxInstruction_c \<Rightarrow> bx_cpu \<Rightarrow> bx_cpu" where
  "DAS i s =
    (let tmpAL = AL s;
         (tmpCF, tmpAF, s) =
           (if tmpAL AND 0x0F > 0x09 \<or> get_AF (oszapc s) \<noteq> 0
            then (AL s < 0x06 \<or> get_CF (oszapc s) \<noteq> 0, True, BX_WRITE_8BIT_REGL 0 (AL s - 0x06) s)
            else (False, False, s));
         (tmpCF, s) =
           (if tmpAL > 0x99 \<or> get_CF (oszapc s) \<noteq> 0 then (True, BX_WRITE_8BIT_REGL 0 (AL s - 0x60) s) else (tmpCF, s));
         s = upd_oszapc (SET_FLAGS_OSZAPC_LOGIC_8 (ucast (AL s))) s;
         s = upd_oszapc (set_CF tmpCF) s
     in upd_oszapc (set_AF tmpAF) s)"

section \<open>Result and flags of the adjustments\<close>

lemma get_AF_nonzero: "get_AF e \<noteq> 0 \<longleftrightarrow> fAF (flags_of e)"
proof -
  have "bit (get_AF e) n \<longleftrightarrow> n = 3 \<and> bit (lf_auxbits e) 3" for n
    by (auto simp: get_AF_def bit_LF_MASK bit_ucast_iff bit_and_iff)
  then have "get_AF e = 0 \<longleftrightarrow> \<not> bit (lf_auxbits e) 3" by (metis bit_word_eqI bit_0_eq bot_apply bot_bool_def)
  then show ?thesis by (simp add: flags_of_bits)
qed

lemma get_AF_zero: "get_AF e = 0 \<longleftrightarrow> \<not> fAF (flags_of e)" "get_CF e = 0 \<longleftrightarrow> \<not> fCF (flags_of e)"
  using get_AF_nonzero [of e] get_CF_nonzero [of e] by auto

text \<open>The low digit is not a decimal digit or carried into the next.\<close>

definition low_adjust :: "bx_cpu \<Rightarrow> bool" where
  "low_adjust s \<longleftrightarrow> AL s AND 0x0F > 9 \<or> fAF (cpu_flags s)"

definition high_adjust :: "bx_cpu \<Rightarrow> bool" where
  "high_adjust s \<longleftrightarrow> AL s > 0x99 \<or> fCF (cpu_flags s)"

lemma AL_write: "AL (BX_WRITE_8BIT_REGL 0 v s) = v" "AH (BX_WRITE_8BIT_REGL 0 v s) = AH s"
  "BX_WRITE_8BIT_REGL 0 v (BX_WRITE_8BIT_REGL 0 w s) = BX_WRITE_8BIT_REGL 0 v s"
proof -
  show "AL (BX_WRITE_8BIT_REGL 0 v s) = v" "AH (BX_WRITE_8BIT_REGL 0 v s) = AH s" by (simp_all add: reg_access_defs)
  have "reg_set_rl v (reg_set_rl w x) = reg_set_rl v x" for x
    by (rule bit_word_eqI) (auto simp: reg_view_defs reg_bit_rules dest: bit_imp_le_length)
  then show "BX_WRITE_8BIT_REGL 0 v (BX_WRITE_8BIT_REGL 0 w s) = BX_WRITE_8BIT_REGL 0 v s"
    by (simp add: reg_access_defs set_gen_reg_def)
qed

lemma daa_das:
  fixes i :: bxInstruction_c and s :: bx_cpu
  defines "up \<equiv> AL s + (if low_adjust s then 6 else 0) + (if high_adjust s then 0x60 else 0)"
    and "dn \<equiv> AL s - (if low_adjust s then 6 else 0) - (if high_adjust s then 0x60 else 0)"
  shows "with_flags (DAA i s) (BX_WRITE_8BIT_REGL 0 up s) ((logic_flags up)\<lparr>fCF := high_adjust s, fAF := low_adjust s\<rparr>)"
    "with_flags (DAS i s) (BX_WRITE_8BIT_REGL 0 dn s)
      ((logic_flags dn)\<lparr>fCF := high_adjust s \<or> low_adjust s \<and> AL s < 6, fAF := low_adjust s\<rparr>)"
proof -
  have id: "BX_WRITE_8BIT_REGL 0 (AL s) s = s"
  proof -
    have "reg_set_rl (reg_rl x) x = x" for x by (rule bit_word_eqI) (auto simp: reg_view_defs reg_bit_rules)
    then show ?thesis by (simp add: reg_access_defs set_gen_reg_def)
  qed
  have g: "\<not> AL s > 0x99 \<Longrightarrow> (AL s > 0xF9) = False" using less_trans [of "0x99" "0xF9" "AL s"] by auto
  show "with_flags (DAA i s) (BX_WRITE_8BIT_REGL 0 up s) ((logic_flags up)\<lparr>fCF := high_adjust s, fAF := low_adjust s\<rparr>)"
    unfolding up_def DAA_def Let_def get_AF_zero low_adjust_def high_adjust_def
    by (auto simp: g with_flags_def flags_setters flags_LOGIC AL_write id)
  show "with_flags (DAS i s) (BX_WRITE_8BIT_REGL 0 dn s)
      ((logic_flags dn)\<lparr>fCF := high_adjust s \<or> low_adjust s \<and> AL s < 6, fAF := low_adjust s\<rparr>)"
    unfolding dn_def DAS_def Let_def get_AF_zero low_adjust_def high_adjust_def
    by (auto simp: with_flags_def flags_setters flags_LOGIC AL_write id)
qed

section \<open>Decimal arithmetic\<close>

text \<open>The number that a byte with two packed decimal digits stands for.\<close>

definition packed :: "Bit8u \<Rightarrow> bool" where "packed v \<longleftrightarrow> unat v div 16 \<le> 9 \<and> unat v mod 16 \<le> 9"

definition decimal :: "Bit8u \<Rightarrow> nat" where "decimal v = 10 * (unat v div 16) + unat v mod 16"

lemma packed_digits:
  assumes "packed v"
  obtains h l where "unat v = 16 * h + l" "h \<le> 9" "l \<le> 9" "decimal v = 10 * h + l" "unat v mod 16 = l"
  using assms that [of "unat v div 16" "unat v mod 16"] by (simp add: packed_def decimal_def)

lemma digits_packed:
  assumes "unat v = 16 * h + l" "h \<le> 9" "l \<le> 9"
  shows "packed v" "decimal v = 10 * h + l"
  using assms by (simp_all add: packed_def decimal_def div_add1_eq)

lemma low_digit: "unat (v AND 0x0F :: Bit8u) = unat v mod 16"
proof -
  have e: "(0x0F :: Bit8u) = mask 4" by (simp add: mask_eq_exp_minus_1)
  show ?thesis unfolding e by (simp add: take_bit_eq_mask [symmetric] unsigned_take_bit_eq take_bit_eq_mod unat_mod_distrib)
qed

lemma low_adjust_nat: "low_adjust s \<longleftrightarrow> 9 < unat (AL s) mod 16 \<or> fAF (cpu_flags s)"
  by (simp add: low_adjust_def word_less_nat_alt low_digit)

lemma high_adjust_nat: "high_adjust s \<longleftrightarrow> 153 < unat (AL s) \<or> fCF (cpu_flags s)"
  by (simp add: high_adjust_def word_less_nat_alt)

lemma word_nibble_int: "uint (v :: Bit8u) = int (unat v)" "uint v mod 16 = int (unat v mod 16)"
  by (simp_all add: zmod_int)

lemma int_carry: "16 \<le> int x + int y + of_bool c \<longleftrightarrow> 16 \<le> x + y + of_bool c" "2 ^ 8 \<le> int x + int y + of_bool c \<longleftrightarrow> 2 ^ 8 \<le> x + y + of_bool c"
  by (cases c; simp; linarith)+

lemma len_byte: "LENGTH(8) = 8" by simp

lemma digit_sum:
  fixes h l :: nat
  assumes "l \<le> 19" "h \<le> 18"
  defines "v \<equiv> (16 * h + l) mod 256" and "up \<equiv> h + of_bool (10 \<le> l)"
  shows "9 < v mod 16 \<or> 16 \<le> l \<longleftrightarrow> 10 \<le> l" "153 < v \<or> 256 \<le> 16 * h + l \<longleftrightarrow> 10 \<le> up"
    "(v + (if 10 \<le> l then 6 else 0) + (if 10 \<le> up then 96 else 0)) mod 256 = 16 * (up - 10 * of_bool (10 \<le> up)) + (l - 10 * of_bool (10 \<le> l))"
    "up - 10 * of_bool (10 \<le> up) \<le> 9" "l - 10 * of_bool (10 \<le> l) \<le> 9"
proof -
  have "up \<le> 19" using assms(2) by (simp add: up_def)
  then show "up - 10 * of_bool (10 \<le> up) \<le> 9" "l - 10 * of_bool (10 \<le> l) \<le> 9" using assms(1) by auto
  have m: "v mod 16 = (if l < 16 then l else l - 16)"
    using assms(1) by (simp add: v_def mod_mod_cancel le_mod_geq)
  have v: "v = (if 16 * h + l < 256 then 16 * h + l else 16 * h + l - 256)"
    using assms(1,2) by (simp add: v_def le_mod_geq)
  show "9 < v mod 16 \<or> 16 \<le> l \<longleftrightarrow> 10 \<le> l" unfolding m by auto
  show "153 < v \<or> 256 \<le> 16 * h + l \<longleftrightarrow> 10 \<le> up" unfolding v up_def using assms(1,2) by (cases "10 \<le> l") (simp_all, linarith+)
  show "(v + (if 10 \<le> l then 6 else 0) + (if 10 \<le> up then 96 else 0)) mod 256 = 16 * (up - 10 * of_bool (10 \<le> up)) + (l - 10 * of_bool (10 \<le> l))"
    unfolding v up_def using assms(1,2) by (cases "10 \<le> l"; cases "10 \<le> h"; cases "h = 9"; cases "16 * h + l < 256"; simp add: le_mod_geq)
qed

lemma decimal_sum:
  fixes a b :: Bit8u
  assumes "packed a" "packed b" and s: "AL s = a + b + of_bool c" "fAF (cpu_flags s) = fAF (add_flags a b c)" "fCF (cpu_flags s) = fCF (add_flags a b c)"
  defines "r \<equiv> AL s + (if low_adjust s then 6 else 0) + (if high_adjust s then 0x60 else 0)"
  shows "packed r \<and> decimal r + 100 * of_bool (high_adjust s) = decimal a + decimal b + of_bool c"
proof -
  obtain ah al where a: "unat a = 16 * ah + al" "ah \<le> 9" "al \<le> 9" "decimal a = 10 * ah + al" "unat a mod 16 = al" using assms(1) by (rule packed_digits)
  obtain bh bl where b: "unat b = 16 * bh + bl" "bh \<le> 9" "bl \<le> 9" "decimal b = 10 * bh + bl" "unat b mod 16 = bl" using assms(2) by (rule packed_digits)
  define l where "l = al + bl + of_bool c"
  define h where "h = ah + bh"
  have lh: "l \<le> 19" "h \<le> 18" using a b by (auto simp: l_def h_def)
  have AL: "unat (AL s) = (16 * h + l) mod 256" unfolding s(1) l_def h_def using a b
    by (simp add: unat_word_ariths mod_simps algebra_simps split: if_splits)
  have fl: "fAF (cpu_flags s) \<longleftrightarrow> 16 \<le> l" "fCF (cpu_flags s) \<longleftrightarrow> 256 \<le> 16 * h + l"
  proof -
    have "fAF (add_flags a b c) \<longleftrightarrow> 16 \<le> int al + int bl + of_bool c"
      unfolding add_flags_def Let_def oszapc_flags.select_convs word_nibble_int(2) a(5) b(5) ..
    then show "fAF (cpu_flags s) \<longleftrightarrow> 16 \<le> l" unfolding s(2) l_def int_carry .
    have "fCF (add_flags a b c) \<longleftrightarrow> 2 ^ 8 \<le> int (16 * ah + al) + int (16 * bh + bl) + of_bool c"
      unfolding add_flags_def Let_def oszapc_flags.select_convs word_nibble_int(1) a(1) b(1) len_byte ..
    then have "fCF (add_flags a b c) \<longleftrightarrow> 256 \<le> 16 * ah + al + (16 * bh + bl) + of_bool c" unfolding int_carry by simp
    moreover have "16 * ah + al + (16 * bh + bl) + of_bool c = 16 * h + l" by (simp add: h_def l_def)
    ultimately show "fCF (cpu_flags s) \<longleftrightarrow> 256 \<le> 16 * h + l" unfolding s(3) by simp
  qed
  have r: "unat r = (unat (AL s) + (if low_adjust s then 6 else 0) + (if high_adjust s then 96 else 0)) mod 256"
    unfolding r_def by (simp add: unat_word_ariths mod_simps)
  have d: "low_adjust s \<longleftrightarrow> 10 \<le> l" "high_adjust s \<longleftrightarrow> 10 \<le> h + of_bool (10 \<le> l)"
    unfolding low_adjust_nat high_adjust_nat fl AL by (rule digit_sum(1,2) [OF lh])+
  have "unat r = 16 * (h + of_bool (10 \<le> l) - 10 * of_bool (high_adjust s)) + (l - 10 * of_bool (10 \<le> l))"
    unfolding r d AL by (rule digit_sum(3) [OF lh])
  then have p: "packed r" "decimal r = 10 * (h + of_bool (10 \<le> l) - 10 * of_bool (high_adjust s)) + (l - 10 * of_bool (10 \<le> l))"
    unfolding d(2) using digits_packed [OF _ digit_sum(4,5) [OF lh]] by simp_all
  have "decimal r + 100 * of_bool (high_adjust s) = 10 * h + l"
    unfolding p(2) d(2) by (cases "10 \<le> l"; cases "10 \<le> h"; cases "h = 9"; simp; linarith?)
  then show ?thesis using p(1) unfolding a(4) b(4) h_def l_def by simp
qed

lemma digit_difference:
  fixes h l :: int
  assumes "- 10 \<le> l" "l \<le> 9" "- 9 \<le> h" "h \<le> 9"
  defines "v \<equiv> (16 * h + l) mod 256" and "dn \<equiv> h - of_bool (l < 0)"
  shows "9 < v mod 16 \<or> l < 0 \<longleftrightarrow> l < 0" "153 < v \<or> 16 * h + l < 0 \<longleftrightarrow> dn < 0"
    "l < 0 \<and> v < 6 \<Longrightarrow> dn < 0"
    "(v - (if l < 0 then 6 else 0) - (if dn < 0 then 96 else 0)) mod 256 = 16 * (dn + 10 * of_bool (dn < 0)) + (l + 10 * of_bool (l < 0))"
    "0 \<le> dn + 10 * of_bool (dn < 0)" "dn + 10 * of_bool (dn < 0) \<le> 9" "0 \<le> l + 10 * of_bool (l < 0)" "l + 10 * of_bool (l < 0) \<le> 9"
proof -
  show "0 \<le> dn + 10 * of_bool (dn < 0)" "dn + 10 * of_bool (dn < 0) \<le> 9" "0 \<le> l + 10 * of_bool (l < 0)" "l + 10 * of_bool (l < 0) \<le> 9"
    using assms(1-4) by (auto simp: dn_def)
  have "(16 * h + l) mod 16 = l mod 16" by simp
  then have m: "v mod 16 = (if l < 0 then l + 16 else l)"
    using assms(1,2) mod_pos_pos_trivial [of l 16] mod_pos_pos_trivial [of "l + 16" 16] by (simp add: v_def mod_mod_cancel)
  have v: "v = (if 16 * h + l < 0 then 16 * h + l + 256 else 16 * h + l)"
    using assms(1-4) mod_pos_pos_trivial [of "16 * h + l" 256] mod_pos_pos_trivial [of "16 * h + l + 256" 256] by (simp add: v_def)
  have neg: "16 * h + l < 0 \<longleftrightarrow> dn < 0" unfolding dn_def using assms(1,2) by (cases "l < 0") auto
  show "9 < v mod 16 \<or> l < 0 \<longleftrightarrow> l < 0" unfolding m using assms(2) by auto
  show "153 < v \<or> 16 * h + l < 0 \<longleftrightarrow> dn < 0" unfolding v neg unfolding dn_def using assms(1-4) by auto
  show "dn < 0" if "l < 0 \<and> v < 6" using that assms(1) unfolding v neg [symmetric] by (cases "16 * h + l < 0"; simp; presburger)
  show "(v - (if l < 0 then 6 else 0) - (if dn < 0 then 96 else 0)) mod 256 = 16 * (dn + 10 * of_bool (dn < 0)) + (l + 10 * of_bool (l < 0))"
    unfolding v neg unfolding dn_def using assms(1-4) by (cases "l < 0"; cases "h < 0"; cases "h = 0"; simp add: mod_pos_pos_trivial)
qed

lemma decimal_difference:
  fixes a b :: Bit8u
  assumes "packed a" "packed b" and s: "AL s = a - (b + of_bool c)" "fAF (cpu_flags s) = fAF (sub_flags a b c)" "fCF (cpu_flags s) = fCF (sub_flags a b c)"
  defines "r \<equiv> AL s - (if low_adjust s then 6 else 0) - (if high_adjust s then 0x60 else 0)"
    and "cf \<equiv> high_adjust s \<or> low_adjust s \<and> AL s < 6"
  shows "packed r \<and> decimal r + decimal b + of_bool c = decimal a + 100 * of_bool cf"
proof -
  obtain ah al where a: "unat a = 16 * ah + al" "ah \<le> 9" "al \<le> 9" "decimal a = 10 * ah + al" "unat a mod 16 = al" using assms(1) by (rule packed_digits)
  obtain bh bl where b: "unat b = 16 * bh + bl" "bh \<le> 9" "bl \<le> 9" "decimal b = 10 * bh + bl" "unat b mod 16 = bl" using assms(2) by (rule packed_digits)
  define l where "l = int al - int bl - of_bool c"
  define h where "h = int ah - int bh"
  have lh: "- 10 \<le> l" "l \<le> 9" "- 9 \<le> h" "h \<le> 9" using a b by (auto simp: l_def h_def)
  have D: "int (16 * ah + al) - (int (16 * bh + bl) + of_bool c) = 16 * h + l" by (simp add: h_def l_def)
  have AL: "int (unat (AL s)) = (16 * h + l) mod 256"
    unfolding D [symmetric] s(1) word_nibble_int(1) [symmetric] uint_word_ariths a(1) [symmetric] b(1) [symmetric]
    by (cases c) (simp_all add: mod_simps)
  have fl: "fAF (cpu_flags s) \<longleftrightarrow> l < 0" "fCF (cpu_flags s) \<longleftrightarrow> 16 * h + l < 0"
  proof -
    have "fAF (sub_flags a b c) \<longleftrightarrow> int al < int bl + of_bool c"
      unfolding sub_flags_def Let_def oszapc_flags.select_convs word_nibble_int(2) a(5) b(5) ..
    then show "fAF (cpu_flags s) \<longleftrightarrow> l < 0" unfolding s(2) l_def by linarith
    have "fCF (sub_flags a b c) \<longleftrightarrow> int (16 * ah + al) < int (16 * bh + bl) + of_bool c"
      unfolding sub_flags_def Let_def oszapc_flags.select_convs word_nibble_int(1) a(1) b(1) ..
    then show "fCF (cpu_flags s) \<longleftrightarrow> 16 * h + l < 0" unfolding s(3) D [symmetric] by linarith
  qed
  have nat: "9 < unat (AL s) mod 16 \<longleftrightarrow> 9 < (16 * h + l) mod 256 mod 16" "153 < unat (AL s) \<longleftrightarrow> 153 < (16 * h + l) mod 256"
    "AL s < 6 \<longleftrightarrow> (16 * h + l) mod 256 < 6"
  proof -
    have "AL s < 6 \<longleftrightarrow> unat (AL s) < 6" by (simp add: word_less_nat_alt)
    then show "AL s < 6 \<longleftrightarrow> (16 * h + l) mod 256 < 6" unfolding AL [symmetric] by linarith
    show "9 < unat (AL s) mod 16 \<longleftrightarrow> 9 < (16 * h + l) mod 256 mod 16" "153 < unat (AL s) \<longleftrightarrow> 153 < (16 * h + l) mod 256"
      unfolding AL [symmetric] by presburger+
  qed
  have d: "low_adjust s \<longleftrightarrow> l < 0" "high_adjust s \<longleftrightarrow> h - of_bool (l < 0) < 0"
    unfolding low_adjust_nat high_adjust_nat fl nat by (rule digit_difference(1,2) [OF lh])+
  have cf: "cf \<longleftrightarrow> h - of_bool (l < 0) < 0"
    unfolding cf_def d nat using digit_difference(3) [OF lh] by blast
  have "int (unat r) = (int (unat (AL s)) - (if low_adjust s then 6 else 0) - (if high_adjust s then 96 else 0)) mod 256"
    unfolding r_def word_nibble_int(1) [symmetric] by (simp add: uint_word_ariths mod_simps)
  also have "\<dots> = 16 * (h - of_bool (l < 0) + 10 * of_bool (h - of_bool (l < 0) < 0)) + (l + 10 * of_bool (l < 0))"
    unfolding d AL by (rule digit_difference(4) [OF lh])
  finally have r: "int (unat r) = \<dots>" .
  define u where "u = nat (h - of_bool (l < 0) + 10 * of_bool (h - of_bool (l < 0) < 0))"
  define w where "w = nat (l + 10 * of_bool (l < 0))"
  have uw: "int u = h - of_bool (l < 0) + 10 * of_bool (h - of_bool (l < 0) < 0)" "int w = l + 10 * of_bool (l < 0)" "u \<le> 9" "w \<le> 9"
    using digit_difference(5-8) [OF lh] by (simp_all add: u_def w_def)
  have "int (unat r) = int (16 * u + w)" unfolding r uw(1,2) [symmetric] by simp
  then have p: "packed r" "decimal r = 10 * u + w" using digits_packed [of r u w] uw(3,4) by (simp_all only: of_nat_eq_iff)
  have "int (10 * u + w) + int (decimal b) + of_bool c = int (decimal a) + 100 * of_bool cf"
    unfolding of_nat_add of_nat_mult uw(1,2) cf a(4) b(4) h_def l_def by (cases "int al - int bl - of_bool c < 0") simp_all
  then show ?thesis using p by (cases c; cases cf; simp; linarith)
qed

section \<open>Digits of a byte\<close>

lemma byte_bound: "unat v < 256" for v :: Bit8u
proof -
  have "unat v < 2 ^ LENGTH(8)" by (rule unsigned_less)
  then show ?thesis by simp
qed

lemma unat_byte_wide: "unat (ucast v :: Bit16u) = unat v" for v :: Bit8u
  using byte_bound [of v] by (simp add: unsigned_ucast_eq take_bit_nat_eq_self_iff)

lemma AX_bytes: "unat (AX s) = 256 * unat (AH s) + unat (AL s)"
proof -
  have "AX s = push_bit 8 (ucast (AH s)) OR ucast (AL s)" by (simp add: BX_READ_16BIT_REG_def reg_rx_bytes)
  also have "\<dots> = push_bit 8 (ucast (AH s)) + (ucast (AL s) :: Bit16u)"
    by (rule disjunctive_add [symmetric]) (auto simp: bit_simps dest: bit_imp_le_length)
  finally have "unat (AX s) = (256 * unat (AH s) + unat (AL s)) mod 65536"
    by (simp add: push_bit_eq_mult unat_word_ariths unat_byte_wide mult.commute mod_add_left_eq)
  then show ?thesis using byte_bound [of "AH s"] byte_bound [of "AL s"] by simp
qed

lemma AX_write:
  "AL (BX_WRITE_16BIT_REG 0 x s) = ucast x" "AH (BX_WRITE_16BIT_REG 0 x s) = ucast (drop_bit 8 x)"
  "AX (BX_WRITE_16BIT_REG 0 x s) = x"
proof -
  show "AL (BX_WRITE_16BIT_REG 0 x s) = ucast x" "AH (BX_WRITE_16BIT_REG 0 x s) = ucast (drop_bit 8 x)"
    by (rule bit_word_eqI; auto simp: reg_access_defs reg_view_defs reg_bit_rules)+
  show "AX (BX_WRITE_16BIT_REG 0 x s) = x" by (simp add: reg_access_defs)
qed

lemma bytes_write:
  "AL (BX_WRITE_8BIT_REGH 0 v s) = AL s" "AH (BX_WRITE_8BIT_REGH 0 v s) = v"
  by (simp_all add: reg_access_defs)

lemma AAM_digits:
  assumes "AAM i s = Inr s'"
  shows "AH s' = AL s div Ib i" "AL s' = AL s mod Ib i" "cpu_flags s' = logic_flags (AL s mod Ib i)" "Ib i \<noteq> 0"
  using assms by (auto simp: AAM_def Let_def AL_write bytes_write flags_LOGIC split: if_splits)

lemma AAD_result: "AX (AAD j s) = ucast (AH s * Ib j + AL s)"
  by (simp add: AAD_def Let_def AX_write)

lemma AAM_AAD:
  assumes "AAM i s = Inr s'" "Ib j = Ib i"
  shows "AX (AAD j s') = ucast (AL s)"
proof -
  note d = AAM_digits [OF assms(1)]
  have "AL s div Ib i * Ib i + AL s mod Ib i = AL s" by (rule div_mult_mod_eq)
  then show ?thesis unfolding AAD_result d(1,2) assms(2) by simp
qed

lemma AAD_AAM:
  assumes "AL s < Ib i" "unat (AH s) * unat (Ib i) + unat (AL s) < 256"
  shows "\<exists>s'. AAM i (AAD i s) = Inr s' \<and> AH s' = AH s \<and> AL s' = AL s"
proof -
  have nz: "Ib i \<noteq> 0" using assms(1) by auto
  then obtain s' where s': "AAM i (AAD i s) = Inr s'" by (auto simp: AAM_def Let_def)
  note d = AAM_digits [OF s']
  have al: "AL (AAD i s) = AH s * Ib i + AL s" by (simp add: AAD_def Let_def AX_write)
  have u: "unat (AH s * Ib i + AL s) = unat (AH s) * unat (Ib i) + unat (AL s)"
    using assms(2) by (simp add: unat_word_ariths mod_simps)
  have lt: "unat (AL s) < unat (Ib i)" using assms(1) by (simp add: word_less_nat_alt)
  have "unat (AH s') = unat (AH s)" "unat (AL s') = unat (AL s)"
    unfolding d(1,2) al unat_div_distrib unat_mod_distrib u using lt by simp_all
  then show ?thesis using s' by (auto simp: word_unat_eq_iff)
qed

section \<open>Unpacked digits\<close>

lemma aaa_aas:
  shows "AL (AAA j s) = (AL s + (if low_adjust s then 6 else 0)) AND 0x0F" "fCF (cpu_flags (AAA j s)) = low_adjust s"
    "AH (AAA j s) = (if low_adjust s then ucast (drop_bit 8 (AX s + 0x106)) else AH s)"
    "AL (AAS j s) = (AL s - (if low_adjust s then 6 else 0)) AND 0x0F" "fCF (cpu_flags (AAS j s)) = low_adjust s"
    "AH (AAS j s) = (if low_adjust s then ucast (drop_bit 8 (AX s - 0x106)) else AH s)"
proof -
  have l: "ucast (AX s) = AL s" by (simp add: BX_READ_16BIT_REG_def reg_rx_bytes) (rule bit_word_eqI, auto simp: reg_bit_rules)
  have u: "ucast (AX s + 0x106) = AL s + 6" "ucast (AX s - 0x106) = AL s - 6"
    by (simp_all add: ucast_add_down ucast_sub_down l)
  show "AL (AAA j s) = (AL s + (if low_adjust s then 6 else 0)) AND 0x0F" "fCF (cpu_flags (AAA j s)) = low_adjust s"
    "AH (AAA j s) = (if low_adjust s then ucast (drop_bit 8 (AX s + 0x106)) else AH s)"
    by (auto simp: AAA_def Let_def low_adjust_def get_AF_zero AL_write AX_write u flags_setters)
  show "AL (AAS j s) = (AL s - (if low_adjust s then 6 else 0)) AND 0x0F" "fCF (cpu_flags (AAS j s)) = low_adjust s"
    "AH (AAS j s) = (if low_adjust s then ucast (drop_bit 8 (AX s - 0x106)) else AH s)"
    by (auto simp: AAS_def Let_def low_adjust_def get_AF_zero AL_write AX_write u flags_setters)
qed

section \<open>The adjustments after arithmetic\<close>

lemma accumulator_operand: "BX_READ_8BIT_REGx 0 e s = AL s" "BX_WRITE_8BIT_REGx 0 e v s = BX_WRITE_8BIT_REGL 0 v s"
  by (simp_all add: reg_access_defs)

lemma adjust_after:
  assumes "with_flags s1 (BX_WRITE_8BIT_REGL 0 x s) fl"
  shows "AL s1 = x" "cpu_flags s1 = fl" "AH s1 = AH s" "gen_reg (BX_WRITE_8BIT_REGL 0 y s1) = gen_reg (BX_WRITE_8BIT_REGL 0 y s)"
proof -
  have g: "gen_reg s1 = gen_reg (BX_WRITE_8BIT_REGL 0 x s)" and f: "cpu_flags s1 = fl" using assms by (simp_all add: with_flags_def)
  show "AL s1 = x" "cpu_flags s1 = fl" "AH s1 = AH s" unfolding g f by (simp_all add: AL_write)
  have "gen_reg (BX_WRITE_8BIT_REGL 0 y s1) = gen_reg (BX_WRITE_8BIT_REGL 0 y (BX_WRITE_8BIT_REGL 0 x s))"
    by (simp add: reg_access_defs set_gen_reg_def g)
  then show "gen_reg (BX_WRITE_8BIT_REGL 0 y s1) = gen_reg (BX_WRITE_8BIT_REGL 0 y s)" unfolding AL_write(3) .
qed

lemma DAA_after:
  fixes j :: bxInstruction_c and s1 :: bx_cpu
  assumes "with_flags s1 (BX_WRITE_8BIT_REGL 0 (AL s + b + of_bool c) s) (add_flags (AL s) b c)" "packed (AL s)" "packed b"
  defines "t \<equiv> DAA j s1"
  shows "packed (AL t) \<and> decimal (AL t) + 100 * of_bool (fCF (cpu_flags t)) = decimal (AL s) + decimal b + of_bool c
    \<and> gen_reg t = gen_reg (BX_WRITE_8BIT_REGL 0 (AL t) s)"
proof -
  note a = adjust_after [OF assms(1)]
  have t: "AL t = AL s1 + (if low_adjust s1 then 6 else 0) + (if high_adjust s1 then 0x60 else 0)" "fCF (cpu_flags t) = high_adjust s1"
    "gen_reg t = gen_reg (BX_WRITE_8BIT_REGL 0 (AL t) s1)"
    using daa_das(1) [of j s1] unfolding with_flags_def t_def by (simp_all add: AL_write)
  have "packed (AL t) \<and> decimal (AL t) + 100 * of_bool (high_adjust s1) = decimal (AL s) + decimal b + of_bool c"
    unfolding t(1) by (rule decimal_sum [OF assms(2,3)]) (simp_all add: a)
  then show ?thesis using t(2,3) a(4) by simp
qed

lemma DAS_after:
  fixes j :: bxInstruction_c and s1 :: bx_cpu
  assumes "with_flags s1 (BX_WRITE_8BIT_REGL 0 (AL s - (b + of_bool c)) s) (sub_flags (AL s) b c)" "packed (AL s)" "packed b"
  defines "t \<equiv> DAS j s1"
  shows "packed (AL t) \<and> decimal (AL t) + decimal b + of_bool c = decimal (AL s) + 100 * of_bool (fCF (cpu_flags t))
    \<and> gen_reg t = gen_reg (BX_WRITE_8BIT_REGL 0 (AL t) s)"
proof -
  note a = adjust_after [OF assms(1)]
  have t: "AL t = AL s1 - (if low_adjust s1 then 6 else 0) - (if high_adjust s1 then 0x60 else 0)"
    "fCF (cpu_flags t) = (high_adjust s1 \<or> low_adjust s1 \<and> AL s1 < 6)" "gen_reg t = gen_reg (BX_WRITE_8BIT_REGL 0 (AL t) s1)"
    using daa_das(2) [of j s1] unfolding with_flags_def t_def by (simp_all add: AL_write)
  have "packed (AL t) \<and> decimal (AL t) + decimal b + of_bool c = decimal (AL s) + 100 * of_bool (high_adjust s1 \<or> low_adjust s1 \<and> AL s1 < 6)"
    unfolding t(1) by (rule decimal_difference [OF assms(2,3)]) (simp_all add: a)
  then show ?thesis using t(2,3) a(4) by simp
qed

text \<open>What the two instructions change: AL holds packed digits, and the other registers are as they were.\<close>

definition packed_result :: "bx_cpu \<Rightarrow> bx_cpu \<Rightarrow> bool" where
  "packed_result s t \<longleftrightarrow> packed (AL t) \<and> gen_reg t = gen_reg (BX_WRITE_8BIT_REGL 0 (AL t) s)"

text \<open>C36. On packed decimal operands DAA after ADD or ADC and DAS after SUB or SBB leave the packed decimal sum or difference of
  the operands and the carry in AL, with CF the decimal carry or borrow, and change no other register.\<close>

theorem packed_decimal_arithmetic:
  assumes "dst i = 0" "packed (AL s)" "b = BX_READ_8BIT_REGx (src i) (extend8bitL i) s" "packed b"
  shows "(let t = DAA j (ADD_GbEbR i s) in packed_result s t \<and>
        decimal (AL t) + 100 * of_bool (fCF (cpu_flags t)) = decimal (AL s) + decimal b)
    \<and> (let t = DAA j (ADC_GbEbR i s) in packed_result s t \<and>
        decimal (AL t) + 100 * of_bool (fCF (cpu_flags t)) = decimal (AL s) + decimal b + of_bool (fCF (cpu_flags s)))
    \<and> (let t = DAS j (SUB_GbEbR i s) in packed_result s t \<and>
        decimal (AL t) + decimal b = decimal (AL s) + 100 * of_bool (fCF (cpu_flags t)))
    \<and> (let t = DAS j (SBB_GbEbR i s) in packed_result s t \<and>
        decimal (AL t) + (decimal b + of_bool (fCF (cpu_flags s))) = decimal (AL s) + 100 * of_bool (fCF (cpu_flags t)))"
proof -
  note r = arith8_reg [of i s, unfolded assms(1) accumulator_operand, folded assms(3)]
  have z: "with_flags (ADD_GbEbR i s) (BX_WRITE_8BIT_REGL 0 (AL s + b + of_bool False) s) (add_flags (AL s) b False)"
    "with_flags (SUB_GbEbR i s) (BX_WRITE_8BIT_REGL 0 (AL s - (b + of_bool False)) s) (sub_flags (AL s) b False)"
    using r(1,3) by simp_all
  show ?thesis
    using DAA_after [OF z(1) assms(2,4), of j] DAA_after [OF r(2) assms(2,4), of j]
      DAS_after [OF z(2) assms(2,4), of j] DAS_after [OF r(4) assms(2,4), of j]
    by (simp add: packed_result_def Let_def add.assoc)
qed

text \<open>99 plus 1 is 0 with a carry.\<close>

theorem packed_decimal_arithmetic_witness:
  "let s = sample_cpu ((\<lambda>_. 0)(0 := 0x99, 1 := 0x01)); t = DAA (sample_instr 0 1 0) (ADD_GbEbR (sample_instr 0 1 0) s)
   in packed_result s t \<and> decimal (AL t) + 100 * of_bool (fCF (cpu_flags t)) = 100"
proof -
  let ?s = "sample_cpu ((\<lambda>_. 0)(0 := 0x99, 1 := 0x01))" and ?i = "sample_instr 0 1 0"
  have v: "AL ?s = 0x99" "BX_READ_8BIT_REGx (src1 ?i) (extend8bitL ?i) ?s = 1" "src1 ?i = src2 ?i" "dst ?i = 0"
    by (simp_all add: sample_defs reg_access_defs reg_view_defs)
  have p: "packed 0x99" "packed 1" "decimal 0x99 = 99" "decimal 1 = 1" by (simp_all add: packed_def decimal_def)
  show ?thesis
    using packed_decimal_arithmetic [of ?i ?s 1 ?i] v p by (simp add: Let_def)
qed

text \<open>C37. AAM with base zero is a divide error; otherwise it splits AL into quotient and remainder by the base, AAD with the same
  base puts the value back together, and AAM undoes AAD on digits below the base whose value fits a byte.\<close>

theorem aam_aad_roundtrip:
  "(AAM i s = Inl BX_DE_EXCEPTION \<longleftrightarrow> Ib i = 0) \<and> (\<forall>e. AAM i s = Inl e \<longrightarrow> e = BX_DE_EXCEPTION)
   \<and> (\<forall>s'. AAM i s = Inr s' \<longrightarrow> unat (AH s') * unat (Ib i) + unat (AL s') = unat (AL s) \<and> AL s' < Ib i
        \<and> cpu_flags s' = logic_flags (AL s') \<and> AX (AAD i s') = ucast (AL s))
   \<and> (AL s < Ib i \<longrightarrow> unat (AH s) * unat (Ib i) + unat (AL s) < 256 \<longrightarrow>
        (\<exists>s'. AAM i (AAD i s) = Inr s' \<and> AH s' = AH s \<and> AL s' = AL s))"
proof (intro conjI allI impI)
  show "AAM i s = Inl BX_DE_EXCEPTION \<longleftrightarrow> Ib i = 0" by (simp add: AAM_def Let_def)
  show "e = BX_DE_EXCEPTION" if "AAM i s = Inl e" for e using that by (simp add: AAM_def Let_def split: if_splits)
  show "unat (AH s') * unat (Ib i) + unat (AL s') = unat (AL s)" "AL s' < Ib i" "cpu_flags s' = logic_flags (AL s')"
    if "AAM i s = Inr s'" for s'
    using AAM_digits [OF that] by (simp_all add: unat_div_distrib unat_mod_distrib word_mod_less_divisor word_greater_zero_iff)
  show "AX (AAD i s') = ucast (AL s)" if "AAM i s = Inr s'" for s' by (rule AAM_AAD [OF that refl])
  show "\<exists>s'. AAM i (AAD i s) = Inr s' \<and> AH s' = AH s \<and> AL s' = AL s"
    if "AL s < Ib i" "unat (AH s) * unat (Ib i) + unat (AL s) < 256" by (rule AAD_AAM [OF that])
qed

text \<open>A byte of two digits in base ten.\<close>

theorem aam_aad_roundtrip_witness:
  "\<exists>s'. AAM (sample_instr 0 0 10) (AAD (sample_instr 0 0 10) (sample_cpu ((\<lambda>_. 0)(0 := 0x0403)))) = Inr s' \<and> AH s' = 4 \<and> AL s' = 3"
proof -
  let ?s = "sample_cpu ((\<lambda>_. 0)(0 := 0x0403))" and ?i = "sample_instr 0 0 10"
  have v: "AL ?s = 3" "AH ?s = 4" "Ib ?i = 10" by (simp_all add: sample_defs reg_view_defs)
  show ?thesis using aam_aad_roundtrip [of ?i ?s] v by simp
qed

end
