(* ===== verification/Crc32.thy ===== *)
theory Crc32
  imports CpuState
begin

text \<open>
  The CRC32 instructions of \<^verbatim>\<open>cpu/crc32.cc\<close>: a table driven CRC-32C, equal to the shift register that divides by the
  Castagnoli polynomial one bit at a time.
\<close>

section \<open>Handlers\<close>

definition crc32c_table :: "Bit32u list" where
  "crc32c_table =
    [0x00000000, 0xf26b8303, 0xe13b70f7, 0x1350f3f4, 0xc79a971f, 0x35f1141c, 0x26a1e7e8, 0xd4ca64eb,
     0x8ad958cf, 0x78b2dbcc, 0x6be22838, 0x9989ab3b, 0x4d43cfd0, 0xbf284cd3, 0xac78bf27, 0x5e133c24,
     0x105ec76f, 0xe235446c, 0xf165b798, 0x030e349b, 0xd7c45070, 0x25afd373, 0x36ff2087, 0xc494a384,
     0x9a879fa0, 0x68ec1ca3, 0x7bbcef57, 0x89d76c54, 0x5d1d08bf, 0xaf768bbc, 0xbc267848, 0x4e4dfb4b,
     0x20bd8ede, 0xd2d60ddd, 0xc186fe29, 0x33ed7d2a, 0xe72719c1, 0x154c9ac2, 0x061c6936, 0xf477ea35,
     0xaa64d611, 0x580f5512, 0x4b5fa6e6, 0xb93425e5, 0x6dfe410e, 0x9f95c20d, 0x8cc531f9, 0x7eaeb2fa,
     0x30e349b1, 0xc288cab2, 0xd1d83946, 0x23b3ba45, 0xf779deae, 0x05125dad, 0x1642ae59, 0xe4292d5a,
     0xba3a117e, 0x4851927d, 0x5b016189, 0xa96ae28a, 0x7da08661, 0x8fcb0562, 0x9c9bf696, 0x6ef07595,
     0x417b1dbc, 0xb3109ebf, 0xa0406d4b, 0x522bee48, 0x86e18aa3, 0x748a09a0, 0x67dafa54, 0x95b17957,
     0xcba24573, 0x39c9c670, 0x2a993584, 0xd8f2b687, 0x0c38d26c, 0xfe53516f, 0xed03a29b, 0x1f682198,
     0x5125dad3, 0xa34e59d0, 0xb01eaa24, 0x42752927, 0x96bf4dcc, 0x64d4cecf, 0x77843d3b, 0x85efbe38,
     0xdbfc821c, 0x2997011f, 0x3ac7f2eb, 0xc8ac71e8, 0x1c661503, 0xee0d9600, 0xfd5d65f4, 0x0f36e6f7,
     0x61c69362, 0x93ad1061, 0x80fde395, 0x72966096, 0xa65c047d, 0x5437877e, 0x4767748a, 0xb50cf789,
     0xeb1fcbad, 0x197448ae, 0x0a24bb5a, 0xf84f3859, 0x2c855cb2, 0xdeeedfb1, 0xcdbe2c45, 0x3fd5af46,
     0x7198540d, 0x83f3d70e, 0x90a324fa, 0x62c8a7f9, 0xb602c312, 0x44694011, 0x5739b3e5, 0xa55230e6,
     0xfb410cc2, 0x092a8fc1, 0x1a7a7c35, 0xe811ff36, 0x3cdb9bdd, 0xceb018de, 0xdde0eb2a, 0x2f8b6829,
     0x82f63b78, 0x709db87b, 0x63cd4b8f, 0x91a6c88c, 0x456cac67, 0xb7072f64, 0xa457dc90, 0x563c5f93,
     0x082f63b7, 0xfa44e0b4, 0xe9141340, 0x1b7f9043, 0xcfb5f4a8, 0x3dde77ab, 0x2e8e845f, 0xdce5075c,
     0x92a8fc17, 0x60c37f14, 0x73938ce0, 0x81f80fe3, 0x55326b08, 0xa759e80b, 0xb4091bff, 0x466298fc,
     0x1871a4d8, 0xea1a27db, 0xf94ad42f, 0x0b21572c, 0xdfeb33c7, 0x2d80b0c4, 0x3ed04330, 0xccbbc033,
     0xa24bb5a6, 0x502036a5, 0x4370c551, 0xb11b4652, 0x65d122b9, 0x97baa1ba, 0x84ea524e, 0x7681d14d,
     0x2892ed69, 0xdaf96e6a, 0xc9a99d9e, 0x3bc21e9d, 0xef087a76, 0x1d63f975, 0x0e330a81, 0xfc588982,
     0xb21572c9, 0x407ef1ca, 0x532e023e, 0xa145813d, 0x758fe5d6, 0x87e466d5, 0x94b49521, 0x66df1622,
     0x38cc2a06, 0xcaa7a905, 0xd9f75af1, 0x2b9cd9f2, 0xff56bd19, 0x0d3d3e1a, 0x1e6dcdee, 0xec064eed,
     0xc38d26c4, 0x31e6a5c7, 0x22b65633, 0xd0ddd530, 0x0417b1db, 0xf67c32d8, 0xe52cc12c, 0x1747422f,
     0x49547e0b, 0xbb3ffd08, 0xa86f0efc, 0x5a048dff, 0x8ecee914, 0x7ca56a17, 0x6ff599e3, 0x9d9e1ae0,
     0xd3d3e1ab, 0x21b862a8, 0x32e8915c, 0xc083125f, 0x144976b4, 0xe622f5b7, 0xf5720643, 0x07198540,
     0x590ab964, 0xab613a67, 0xb831c993, 0x4a5a4a90, 0x9e902e7b, 0x6cfbad78, 0x7fab5e8c, 0x8dc0dd8f,
     0xe330a81a, 0x115b2b19, 0x020bd8ed, 0xf0605bee, 0x24aa3f05, 0xd6c1bc06, 0xc5914ff2, 0x37faccf1,
     0x69e9f0d5, 0x9b8273d6, 0x88d28022, 0x7ab90321, 0xae7367ca, 0x5c18e4c9, 0x4f48173d, 0xbd23943e,
     0xf36e6f75, 0x0105ec76, 0x12551f82, 0xe03e9c81, 0x34f4f86a, 0xc69f7b69, 0xd5cf889d, 0x27a40b9e,
     0x79b737ba, 0x8bdcb4b9, 0x988c474d, 0x6ae7c44e, 0xbe2da0a5, 0x4c4623a6, 0x5f16d052, 0xad7d5351]"

definition crc32c_byte :: "Bit32u \<Rightarrow> Bit8u \<Rightarrow> Bit32u" where
  "crc32c_byte crc data = crc32c_table ! unat ((crc XOR ucast data) AND 0xff) XOR drop_bit 8 crc"

definition CRC32_GdEbR :: "bxInstruction_c \<Rightarrow> bx_cpu \<Rightarrow> bx_cpu" where
  "CRC32_GdEbR i s =
    (let op1 = BX_READ_8BIT_REGx (src i) (extend8bitL i) s;
         crc = BX_READ_32BIT_REG (dst i) s;
         crc = crc32c_byte crc op1
     in BX_WRITE_32BIT_REGZ (dst i) crc s)"

definition CRC32_GdEwR :: "bxInstruction_c \<Rightarrow> bx_cpu \<Rightarrow> bx_cpu" where
  "CRC32_GdEwR i s =
    (let crc = BX_READ_32BIT_REG (dst i) s;
         op1 = BX_READ_16BIT_REG (src i) s;
         crc = crc32c_byte crc (ucast (op1 AND 0xff));
         crc = crc32c_byte crc (ucast (drop_bit 8 op1))
     in BX_WRITE_32BIT_REGZ (dst i) crc s)"

text \<open>The loop over the bytes of an operand, with the iterations that are left.\<close>

fun crc32c_loop :: "nat \<Rightarrow> 'a::len word \<Rightarrow> Bit32u \<Rightarrow> Bit32u" where
  "crc32c_loop 0 op1 crc = crc"
| "crc32c_loop (Suc n) op1 crc = crc32c_loop n (drop_bit 8 op1) (crc32c_byte crc (ucast (op1 AND 0xff)))"

definition CRC32_GdEdR :: "bxInstruction_c \<Rightarrow> bx_cpu \<Rightarrow> bx_cpu" where
  "CRC32_GdEdR i s =
    (let crc = BX_READ_32BIT_REG (dst i) s;
         op1 = BX_READ_32BIT_REG (src i) s
     in BX_WRITE_32BIT_REGZ (dst i) (crc32c_loop 4 op1 crc) s)"

definition CRC32_GdEqR :: "bxInstruction_c \<Rightarrow> bx_cpu \<Rightarrow> bx_cpu" where
  "CRC32_GdEqR i s =
    (let crc = BX_READ_32BIT_REG (dst i) s;
         op1 = BX_READ_64BIT_REG (src i) s
     in BX_WRITE_32BIT_REGZ (dst i) (crc32c_loop 8 op1 crc) s)"

section \<open>The shift register\<close>

text \<open>
  Division by the reflected polynomial: a step shifts one bit out and, when it is set, subtracts the polynomial.  A
  message is fed in one bit at a time.
\<close>

definition crc_step :: "Bit32u \<Rightarrow> Bit32u" where
  "crc_step c = drop_bit 1 c XOR (if bit c 0 then 0x82F63B78 else 0)"

definition crc_serial :: "bool list \<Rightarrow> Bit32u \<Rightarrow> Bit32u" where
  "crc_serial bs c = fold (\<lambda>b c. crc_step (c XOR of_bool b)) bs c"

definition operand_bits :: "'a::len word \<Rightarrow> bool list" where
  "operand_bits v = map (bit v) [0..<LENGTH('a)]"

lemma crc_step_xor: "crc_step (x XOR y) = crc_step x XOR crc_step y"
  by (simp add: crc_step_def bit_xor_iff drop_bit_xor xor.assoc xor.left_commute)

lemma crc_steps_xor: "(crc_step ^^ n) (x XOR y) = (crc_step ^^ n) x XOR (crc_step ^^ n) y"
  by (induction n) (simp_all add: crc_step_xor)

lemma crc_step_even: "\<not> bit c 0 \<Longrightarrow> crc_step c = drop_bit 1 c"
  by (simp add: crc_step_def)

lemma crc_steps_low_zero: "(\<And>k. k < n \<Longrightarrow> \<not> bit c k) \<Longrightarrow> (crc_step ^^ n) c = drop_bit n c"
proof (induction n)
  case (Suc n)
  then have "(crc_step ^^ n) c = drop_bit n c" "\<not> bit c n" by simp_all
  then show ?case by (simp add: crc_step_even bit_drop_bit_eq drop_bit_drop_bit)
qed simp

lemma crc_serial_steps: "n \<le> 8 \<Longrightarrow> crc_serial (map (bit d) [0..<n]) c = (crc_step ^^ n) (c XOR take_bit n (ucast d))" for d :: Bit8u
proof (induction n)
  case 0
  then show ?case by (simp add: crc_serial_def)
next
  case (Suc n)
  let ?b = "push_bit n (of_bool (bit d n)) :: Bit32u"
  have t: "take_bit (Suc n) (ucast d :: Bit32u) = take_bit n (ucast d) XOR ?b"
    by (rule bit_word_eqI) (use Suc.prems in \<open>auto simp: bit_simps less_Suc_eq\<close>)
  have b: "(crc_step ^^ n) ?b = of_bool (bit d n)"
    by (subst crc_steps_low_zero) (use Suc.prems in \<open>auto simp: bit_simps intro!: bit_word_eqI\<close>)
  have "crc_serial (map (bit d) [0..<Suc n]) c = crc_step (crc_serial (map (bit d) [0..<n]) c XOR of_bool (bit d n))"
    by (simp add: crc_serial_def)
  also have "\<dots> = crc_step ((crc_step ^^ n) (c XOR take_bit n (ucast d)) XOR (crc_step ^^ n) ?b)"
    using Suc b by simp
  also have "\<dots> = (crc_step ^^ Suc n) (c XOR take_bit (Suc n) (ucast d))"
    unfolding t crc_steps_xor [symmetric] by (simp add: xor.assoc)
  finally show ?case .
qed

text \<open>The table by linearity: the entries of the eight powers of two, and each half of the table from the other.\<close>

lemma table_double:
  fixes f :: "Bit32u \<Rightarrow> Bit32u"
  assumes "\<And>x y. f (x XOR y) = f x XOR f y" "k < 8"
  shows "map (\<lambda>n. f (of_nat n)) [0..<2 ^ Suc k] = map (\<lambda>n. f (of_nat n)) [0..<2 ^ k] @ map (\<lambda>x. x XOR f (2 ^ k)) (map (\<lambda>n. f (of_nat n)) [0..<2 ^ k])"
proof -
  have "f (of_nat (n + 2 ^ k)) = f (of_nat n) XOR f (2 ^ k)" if "n < 2 ^ k" for n
  proof -
    have lt: "bit n m \<Longrightarrow> m < k" for m using that by (metis bit_take_bit_iff take_bit_nat_eq_self_iff)
    have d: "\<not> bit (of_nat n :: Bit32u) m \<or> \<not> bit (2 ^ k :: Bit32u) m" for m
      using lt [of m] by (auto simp: bit_of_nat_iff bit_exp_iff)
    have "of_nat n + 2 ^ k = (of_nat n OR 2 ^ k :: Bit32u)" by (rule disjunctive_add) (rule d)
    also have "\<dots> = of_nat n XOR 2 ^ k" by (rule bit_word_eqI) (use d in \<open>auto simp: bit_or_iff bit_xor_iff\<close>)
    finally show ?thesis using assms(1) by simp
  qed
  moreover have "[0..<2 ^ Suc k] = [0..<2 ^ k] @ map (\<lambda>n. n + 2 ^ k) [0..<2 ^ k]"
    using upt_add_eq_append [of 0 "2 ^ k" "2 ^ k"] map_add_upt [of "2 ^ k" "2 ^ k"] by (simp add: mult_2)
  ultimately show ?thesis by simp
qed

lemma crc_step_chain:
  "crc_step 1 = 0x82f63b78"
  "crc_step 0x82f63b78 = 0x417b1dbc"
  "crc_step 0x417b1dbc = 0x20bd8ede"
  "crc_step 0x20bd8ede = 0x105ec76f"
  "crc_step 0x105ec76f = 0x8ad958cf"
  "crc_step 0x8ad958cf = 0xc79a971f"
  "crc_step 0xc79a971f = 0xe13b70f7"
  "crc_step 0xe13b70f7 = 0xf26b8303"
  by (simp_all add: crc_step_def)

lemma crc_step_powers:
  "(crc_step ^^ 8) (2 ^ 0) = 0xf26b8303"
  "(crc_step ^^ 8) (2 ^ 1) = 0xe13b70f7"
  "(crc_step ^^ 8) (2 ^ 2) = 0xc79a971f"
  "(crc_step ^^ 8) (2 ^ 3) = 0x8ad958cf"
  "(crc_step ^^ 8) (2 ^ 4) = 0x105ec76f"
  "(crc_step ^^ 8) (2 ^ 5) = 0x20bd8ede"
  "(crc_step ^^ 8) (2 ^ 6) = 0x417b1dbc"
  "(crc_step ^^ 8) (2 ^ 7) = 0x82f63b78"
proof -
  have one: "(crc_step ^^ 8) (2 ^ k) = (crc_step ^^ (8 - k)) 1" if "k \<le> 8" for k
  proof -
    have "(crc_step ^^ k) (2 ^ k) = drop_bit k (2 ^ k)" by (rule crc_steps_low_zero) (simp add: bit_exp_iff)
    also have "\<dots> = 1" by (rule bit_word_eqI) (use that in \<open>auto simp: bit_simps\<close>)
    finally show ?thesis using that by (metis (no_types) comp_apply funpow_add le_add_diff_inverse2)
  qed
  show "(crc_step ^^ 8) (2 ^ 0) = 0xf26b8303" by (subst one) (simp_all add: eval_nat_numeral crc_step_chain)
  show "(crc_step ^^ 8) (2 ^ 1) = 0xe13b70f7" by (subst one) (simp_all add: eval_nat_numeral crc_step_chain)
  show "(crc_step ^^ 8) (2 ^ 2) = 0xc79a971f" by (subst one) (simp_all add: eval_nat_numeral crc_step_chain)
  show "(crc_step ^^ 8) (2 ^ 3) = 0x8ad958cf" by (subst one) (simp_all add: eval_nat_numeral crc_step_chain)
  show "(crc_step ^^ 8) (2 ^ 4) = 0x105ec76f" by (subst one) (simp_all add: eval_nat_numeral crc_step_chain)
  show "(crc_step ^^ 8) (2 ^ 5) = 0x20bd8ede" by (subst one) (simp_all add: eval_nat_numeral crc_step_chain)
  show "(crc_step ^^ 8) (2 ^ 6) = 0x417b1dbc" by (subst one) (simp_all add: eval_nat_numeral crc_step_chain)
  show "(crc_step ^^ 8) (2 ^ 7) = 0x82f63b78" by (subst one) (simp_all add: eval_nat_numeral crc_step_chain)
qed

lemma table_steps: "map (\<lambda>n. (crc_step ^^ 8) (of_nat n)) [0..<256] = crc32c_table"
proof -
  define T where "T k = map (\<lambda>n. (crc_step ^^ 8) (of_nat n)) [0..<2 ^ k]" for k :: nat
  have s: "T m = T k @ map (\<lambda>x. x XOR (crc_step ^^ 8) (2 ^ k)) (T k)" if "m = Suc k" "k < 8" for m k
    unfolding T_def that(1) by (rule table_double [OF crc_steps_xor that(2)])
  have "(crc_step ^^ 8) 0 = 0" using crc_steps_xor [of 8 0 0] by simp
  then have t0: "T 0 = [0]" by (simp add: T_def)
  have s1: "T (Suc 0) = T 0 @ map (\<lambda>x. x XOR (crc_step ^^ 8) (2 ^ 0)) (T 0)" by (rule s) simp_all
  have s2: "T 2 = T (Suc 0) @ map (\<lambda>x. x XOR (crc_step ^^ 8) (2 ^ 1)) (T (Suc 0))" unfolding One_nat_def by (rule s) simp_all
  have s3: "T 3 = T 2 @ map (\<lambda>x. x XOR (crc_step ^^ 8) (2 ^ 2)) (T 2)" by (rule s) simp_all
  have s4: "T 4 = T 3 @ map (\<lambda>x. x XOR (crc_step ^^ 8) (2 ^ 3)) (T 3)" by (rule s) simp_all
  have s5: "T 5 = T 4 @ map (\<lambda>x. x XOR (crc_step ^^ 8) (2 ^ 4)) (T 4)" by (rule s) simp_all
  have s6: "T 6 = T 5 @ map (\<lambda>x. x XOR (crc_step ^^ 8) (2 ^ 5)) (T 5)" by (rule s) simp_all
  have s7: "T 7 = T 6 @ map (\<lambda>x. x XOR (crc_step ^^ 8) (2 ^ 6)) (T 6)" by (rule s) simp_all
  have s8: "T 8 = T 7 @ map (\<lambda>x. x XOR (crc_step ^^ 8) (2 ^ 7)) (T 7)" by (rule s) simp_all
  note t1 = s1 [unfolded t0 crc_step_powers append.simps list.map, simplified]
  note t2 = s2 [unfolded t1 crc_step_powers append.simps list.map, simplified]
  note t3 = s3 [unfolded t2 crc_step_powers append.simps list.map, simplified]
  note t4 = s4 [unfolded t3 crc_step_powers append.simps list.map, simplified]
  note t5 = s5 [unfolded t4 crc_step_powers append.simps list.map, simplified]
  note t6 = s6 [unfolded t5 crc_step_powers append.simps list.map, simplified]
  note t7 = s7 [unfolded t6 crc_step_powers append.simps list.map, simplified]
  note t8 = s8 [unfolded t7 crc_step_powers append.simps list.map, simplified]
  have "map (\<lambda>n. (crc_step ^^ 8) (of_nat n)) [0..<256] = T 8" by (simp add: T_def)
  also have "\<dots> = crc32c_table" unfolding t8 crc32c_table_def ..
  finally show ?thesis .
qed

lemma crc32c_byte_serial: "crc32c_byte crc d = crc_serial (operand_bits d) crc"
proof -
  define x where "x = crc XOR ucast d"
  define lo where "lo = x AND 0xff"
  have m: "(0xff :: Bit32u) = mask 8" by (simp add: mask_eq_exp_minus_1)
  have x: "x = lo XOR (x AND NOT (mask 8))" unfolding lo_def m by (rule bit_word_eqI) (auto simp: bit_simps)
  have "unat lo < 256" unfolding lo_def m take_bit_eq_mask [symmetric] using take_bit_nat_less_exp [of 8 "unat x"] by (simp add: unsigned_take_bit_eq)
  then have l: "(crc_step ^^ 8) lo = crc32c_table ! unat lo"
    unfolding table_steps [symmetric] by simp
  have "(crc_step ^^ 8) x = (crc_step ^^ 8) lo XOR (crc_step ^^ 8) (x AND NOT (mask 8))"
    using x crc_steps_xor by metis
  also have "(crc_step ^^ 8) (x AND NOT (mask 8)) = drop_bit 8 (x AND NOT (mask 8))"
    by (rule crc_steps_low_zero) (auto simp: bit_simps)
  also have "\<dots> = drop_bit 8 crc"
    unfolding x_def by (rule bit_word_eqI) (auto simp: bit_simps dest: bit_imp_le_length)
  finally have "(crc_step ^^ 8) x = crc32c_byte crc d" unfolding crc32c_byte_def using l by (simp add: lo_def x_def)
  moreover have "take_bit 8 (ucast d :: Bit32u) = ucast d" by (rule bit_word_eqI) (auto simp: bit_simps dest: bit_imp_le_length)
  ultimately show ?thesis using crc_serial_steps [of 8 d crc] by (simp add: operand_bits_def x_def)
qed

section \<open>The instructions\<close>

lemma crc_serial_append: "crc_serial (xs @ ys) c = crc_serial ys (crc_serial xs c)"
  by (simp add: crc_serial_def)

lemma low_byte_bits: "operand_bits (ucast (v AND 0xff) :: Bit8u) = map (bit v) [0..<8]" if "8 \<le> LENGTH('a)" for v :: "'a::len word"
proof -
  have m: "(0xff :: 'a word) = mask 8" by (simp add: mask_eq_exp_minus_1)
  show ?thesis unfolding operand_bits_def m using that by (auto simp: bit_simps dest: bit_imp_le_length)
qed

lemma drop_bits: "map (bit (drop_bit 8 v)) [0..<n] = map (bit v) [8..<8 + n]"
  using map_add_upt [of 8 n] by (metis (no_types, lifting) add.commute bit_drop_bit_eq comp_def map_eq_conv map_map)

lemma crc32c_loop_serial:
  "8 \<le> LENGTH('a) \<Longrightarrow> crc32c_loop n v crc = crc_serial (map (bit v) [0..<8 * n]) crc" for v :: "'a::len word"
proof (induction n arbitrary: v crc)
  case (Suc n)
  have u: "[0..<8 * Suc n] = [0..<8] @ [8..<8 + 8 * n]" using upt_add_eq_append [of 0 8 "8 * n"] by simp
  show ?case
    unfolding u map_append crc_serial_append drop_bits [symmetric] low_byte_bits [OF Suc.prems, symmetric] crc32c_byte_serial [symmetric]
    by (simp add: Suc)
qed (simp add: crc_serial_def)

text \<open>C40. CRC32 leaves in its destination the remainder of the shift register after the bits of the operand, least significant
  first, at every operand size, and changes nothing else.\<close>

theorem crc32_is_polynomial_division:
  "CRC32_GdEbR i s = BX_WRITE_32BIT_REGZ (dst i) (crc_serial (operand_bits (BX_READ_8BIT_REGx (src i) (extend8bitL i) s)) (BX_READ_32BIT_REG (dst i) s)) s
   \<and> CRC32_GdEwR i s = BX_WRITE_32BIT_REGZ (dst i) (crc_serial (operand_bits (BX_READ_16BIT_REG (src i) s)) (BX_READ_32BIT_REG (dst i) s)) s
   \<and> CRC32_GdEdR i s = BX_WRITE_32BIT_REGZ (dst i) (crc_serial (operand_bits (BX_READ_32BIT_REG (src i) s)) (BX_READ_32BIT_REG (dst i) s)) s
   \<and> CRC32_GdEqR i s = BX_WRITE_32BIT_REGZ (dst i) (crc_serial (operand_bits (BX_READ_64BIT_REG (src i) s)) (BX_READ_32BIT_REG (dst i) s)) s"
proof -
  have m: "(0xff :: Bit16u) = mask 8" by (simp add: mask_eq_exp_minus_1)
  have "ucast (drop_bit 8 v AND 0xff) = (ucast (drop_bit 8 v) :: Bit8u)" for v :: Bit16u
    unfolding m by (rule bit_word_eqI) (auto simp: bit_simps)
  then have w: "crc32c_byte (crc32c_byte c (ucast (v AND 0xff))) (ucast (drop_bit 8 v)) = crc32c_loop 2 v c" for v :: Bit16u and c
    by (simp add: numeral_2_eq_2)
  show ?thesis
    unfolding CRC32_GdEbR_def CRC32_GdEwR_def CRC32_GdEdR_def CRC32_GdEqR_def Let_def crc32c_byte_serial [of _ "BX_READ_8BIT_REGx _ _ _"] w
    by (simp add: crc32c_loop_serial operand_bits_def)
qed

end
