(* ===== verification/Pic.thy ===== *)
theory Pic
  imports Prelude
begin

text \<open>
  The cascaded pair of 8259A interrupt controllers of \<^verbatim>\<open>iodev/pic.cc\<close>. A chip is the record
  \<open>bx_pic_t\<close>; the device is the two chips, the INTR pin of the processor and the calls forwarded to
  the I/O APIC, in order. A pointer to one of the two chips is a value of \<open>pic_ref\<close>. The fields
  \<open>irq\<close>, \<open>lowest_priority\<close> and \<open>byte_expected\<close>, bytes in the source, are natural numbers: the
  invariant keeps them below 8. Log output, and a panic, which only logs and returns here, leave no
  trace in the state.
\<close>

section \<open>State\<close>

record bx_pic_init =
  in_init :: bool
  requires_4 :: bool
  byte_expected :: nat

record bx_pic_t =
  master :: bool
  interrupt_offset :: Bit8u
  sfnm :: Bit8u
  buffered_mode :: Bit8u
  master_slave :: Bit8u
  auto_eoi :: bool
  imr :: Bit8u
  isr :: Bit8u
  irr :: Bit8u
  read_reg_select :: bool
  irq :: nat
  lowest_priority :: nat
  INT_pin :: bool
  IRQ_in :: "Bit8u list"
  init :: bx_pic_init
  special_mask :: bool
  polled :: bool
  rotate_on_autoeoi :: bool
  edge_level :: Bit8u

datatype pic_ref = MasterPic | SlavePic

record bx_pic_c =
  master_pic :: bx_pic_t
  slave_pic :: bx_pic_t
  INTR :: bool
  ioapic_present :: bool
  ioapic_calls :: "(nat \<times> bool) list"

definition BX_IRQ_TYPE_ISA :: Bit8u where "BX_IRQ_TYPE_ISA = 1"

primrec the_pic :: "pic_ref \<Rightarrow> bx_pic_c \<Rightarrow> bx_pic_t" where
  "the_pic MasterPic s = master_pic s"
| "the_pic SlavePic s = slave_pic s"

primrec upd_pic :: "pic_ref \<Rightarrow> (bx_pic_t \<Rightarrow> bx_pic_t) \<Rightarrow> bx_pic_c \<Rightarrow> bx_pic_c" where
  "upd_pic MasterPic f s = s\<lparr>master_pic := f (master_pic s)\<rparr>"
| "upd_pic SlavePic f s = s\<lparr>slave_pic := f (slave_pic s)\<rparr>"

definition BX_RAISE_INTR :: "bx_pic_c \<Rightarrow> bx_pic_c" where "BX_RAISE_INTR s = s\<lparr>INTR := True\<rparr>"
definition BX_CLEAR_INTR :: "bx_pic_c \<Rightarrow> bx_pic_c" where "BX_CLEAR_INTR s = s\<lparr>INTR := False\<rparr>"

definition DEV_ioapic_set_irq_level :: "nat \<Rightarrow> bool \<Rightarrow> bx_pic_c \<Rightarrow> bx_pic_c" where
  "DEV_ioapic_set_irq_level irq_no level s =
    (if ioapic_present s \<and> irq_no \<noteq> 2 then s\<lparr>ioapic_calls := ioapic_calls s @ [(irq_no, level)]\<rparr> else s)"

section \<open>Reset\<close>

definition reset_pic :: "bool \<Rightarrow> Bit8u \<Rightarrow> bx_pic_t" where
  "reset_pic is_master offset = \<lparr>master = is_master, interrupt_offset = offset, sfnm = 0, buffered_mode = 0,
    master_slave = of_bool is_master, auto_eoi = False, imr = 0xFF, isr = 0x00, irr = 0x00,
    read_reg_select = False, irq = 0, lowest_priority = 7, INT_pin = False, IRQ_in = replicate 8 0,
    init = \<lparr>in_init = False, requires_4 = False, byte_expected = 0\<rparr>,
    special_mask = False, polled = False, rotate_on_autoeoi = False, edge_level = 0\<rparr>"

definition pic_reset :: "bx_pic_c \<Rightarrow> bx_pic_c" where
  "pic_reset s = s\<lparr>master_pic := reset_pic True 0x08, slave_pic := reset_pic False 0x70\<rparr>"

section \<open>Priority resolution\<close>

definition next_irq :: "nat \<Rightarrow> nat" where
  "next_irq k = (if k + 1 > 7 then 0 else k + 1)"

definition highest_priority :: "bx_pic_t \<Rightarrow> nat" where
  "highest_priority p = next_irq (lowest_priority p)"

text \<open>The loop that looks for the highest-priority interrupt in service, run only when there is one.\<close>

function (sequential) max_irq_loop :: "Bit8u \<Rightarrow> nat \<Rightarrow> nat" where
  "max_irq_loop isr_bits k =
    (if isr_bits \<noteq> 0 \<and> \<not> bit isr_bits k then max_irq_loop isr_bits (next_irq k) else k)"
  by pat_completeness auto

text \<open>
  The loops that go round the eight inputs from \<open>k\<close> until a test succeeds or \<open>stop\<close> is reached again:
  \<open>do ... while (irq != stop)\<close>. The end points used are always below 8.
\<close>

function (sequential) circular_scan :: "(nat \<Rightarrow> bool) \<Rightarrow> nat \<Rightarrow> nat \<Rightarrow> nat option" where
  "circular_scan test k stop =
    (if test k then Some k
     else if next_irq k \<noteq> stop \<and> stop < 8 then circular_scan test (next_irq k) stop
     else None)"
  by pat_completeness auto

text \<open>Distance, going up and round, from one input to another.\<close>

definition turns :: "nat \<Rightarrow> nat \<Rightarrow> nat" where
  "turns k stop = (if stop \<le> k then stop + 8 - k else stop - k)"

definition dist_up :: "nat \<Rightarrow> nat \<Rightarrow> nat" where
  "dist_up k b = (if b < k then b + 8 - k else b - k)"

lemma next_irq_less: "next_irq k < 8"
  by (simp add: next_irq_def)

lemma next_irq_mod: "k < 8 \<Longrightarrow> next_irq k = (k + 1) mod 8"
  by (simp add: next_irq_def) presburger

text \<open>Both loops end: the first meets a bit that is set, the second meets its end point.\<close>

lemma some_bit_set:
  fixes w :: Bit8u
  assumes "w \<noteq> 0"
  shows "bit w (LEAST b. bit w b)" "(LEAST b. bit w b) < 8"
proof -
  from assms obtain b where "bit w b" by (metis bit_0_eq bit_word_eqI bot_apply bot_bool_def)
  then show *: "bit w (LEAST b. bit w b)" by (rule LeastI)
  from bit_imp_le_length [OF *] show "(LEAST b. bit w b) < 8" by simp
qed

termination max_irq_loop
proof (relation "measure (\<lambda>(w, k). if k < 8 then dist_up k (LEAST b. bit w b) else 9)")
  fix w :: Bit8u and k
  assume a: "w \<noteq> 0 \<and> \<not> bit w k"
  define b where "b = (LEAST b. bit w b)"
  have "bit w b" "b < 8" using a some_bit_set [of w] by (simp_all add: b_def)
  then have "b < 8" "k \<noteq> b" using a by auto
  then show "((w, next_irq k), w, k) \<in> measure (\<lambda>(w, k). if k < 8 then dist_up k (LEAST b. bit w b) else 9)"
    by (auto simp: dist_up_def next_irq_def b_def [symmetric] split: if_splits)
qed simp

termination circular_scan
proof (relation "measure (\<lambda>(_, k, stop). if k < 8 then turns k stop else 9)")
  fix test :: "nat \<Rightarrow> bool" and k stop
  assume "next_irq k \<noteq> stop \<and> stop < 8"
  then show "((test, next_irq k, stop), test, k, stop) \<in> measure (\<lambda>(_, k, stop). if k < 8 then turns k stop else 9)"
    by (auto simp: turns_def next_irq_def split: if_splits)
qed simp

declare max_irq_loop.simps [simp del] circular_scan.simps [simp del]

lemma circular_scan_test: "circular_scan test k stop = Some j \<Longrightarrow> test j"
  by (induction test k stop rule: circular_scan.induct)
    (subst (asm) (2) circular_scan.simps, auto split: if_splits)

section \<open>Request lines and service\<close>

datatype service_action = NoAction | Signal nat | Deassert

text \<open>What \<open>pic_service\<close> decides from the state of one chip.\<close>

definition pic_scan :: "bx_pic_t \<Rightarrow> service_action" where
  "pic_scan p =
    (let hp = highest_priority p;
         max_irq = (if special_mask p then hp else max_irq_loop (isr p) hp);
         unmasked_requests = irr p AND NOT (imr p)
     in if \<not> special_mask p \<and> isr p \<noteq> 0 \<and> max_irq = hp then NoAction
        else if unmasked_requests \<noteq> 0 then
          (case circular_scan (\<lambda>k. \<not> (special_mask p \<and> bit (isr p) k) \<and> \<not> INT_pin p \<and> bit unmasked_requests k)
                  hp max_irq of
             Some k \<Rightarrow> Signal k
           | None \<Rightarrow> NoAction)
        else if INT_pin p then Deassert else NoAction)"

definition pic_of :: "nat \<Rightarrow> pic_ref" where
  "pic_of irq_no = (if irq_no < 8 then MasterPic else SlavePic)"

definition irq_line :: "nat \<Rightarrow> bx_pic_c \<Rightarrow> Bit8u" where
  "irq_line irq_no s = IRQ_in (the_pic (pic_of irq_no) s) ! (irq_no mod 8)"

definition set_irq_line :: "nat \<Rightarrow> Bit8u \<Rightarrow> bx_pic_c \<Rightarrow> bx_pic_c" where
  "set_irq_line irq_no v s = upd_pic (pic_of irq_no) (\<lambda>p. p\<lparr>IRQ_in := (IRQ_in p)[irq_no mod 8 := v]\<rparr>) s"

definition lower_irq :: "nat \<Rightarrow> Bit8u \<Rightarrow> bx_pic_c \<Rightarrow> bx_pic_c" where
  "lower_irq irq_no irq_type s =
    (if irq_line irq_no s AND irq_type \<noteq> 0 then
       (let s = set_irq_line irq_no (irq_line irq_no s AND NOT irq_type) s
        in if irq_line irq_no s = 0 then
             DEV_ioapic_set_irq_level irq_no False
               (upd_pic (pic_of irq_no) (\<lambda>p. p\<lparr>irr := unset_bit (irq_no mod 8) (irr p)\<rparr>) s)
           else s)
     else s)"

text \<open>
  The part of \<open>raise_irq\<close> before its call of \<open>pic_service\<close>: the line and the request bit, and
  whether the call is made.
\<close>

definition raise_line :: "nat \<Rightarrow> Bit8u \<Rightarrow> bx_pic_c \<Rightarrow> bool \<times> bx_pic_c" where
  "raise_line irq_no irq_type s =
    (if irq_line irq_no s AND NOT irq_type = 0 then
       (let s = set_irq_line irq_no (irq_line irq_no s OR irq_type) s
        in if \<not> bit (irr (the_pic (pic_of irq_no) s)) (irq_no mod 8) then
             (True, upd_pic (pic_of irq_no) (\<lambda>p. p\<lparr>irr := set_bit (irq_no mod 8) (irr p)\<rparr>) s)
           else (False, s))
     else (False, s))"

text \<open>
  \<open>pic_service\<close> and \<open>raise_irq\<close> call each other: a request on the slave raises input 2 of the master.
  The body of that call of \<open>raise_irq\<close> is written out here.
\<close>

function (sequential) pic_service :: "pic_ref \<Rightarrow> bx_pic_c \<Rightarrow> bx_pic_c" where
  "pic_service r s =
    (case pic_scan (the_pic r s) of
       NoAction \<Rightarrow> s
     | Signal k \<Rightarrow>
         (let s1 = upd_pic r (\<lambda>p. p\<lparr>INT_pin := True, irq := k\<rparr>) s
          in if master (the_pic r s1) then BX_RAISE_INTR s1
             else if fst (raise_line 2 BX_IRQ_TYPE_ISA s1) then
               DEV_ioapic_set_irq_level 2 True (pic_service MasterPic (snd (raise_line 2 BX_IRQ_TYPE_ISA s1)))
             else snd (raise_line 2 BX_IRQ_TYPE_ISA s1))
     | Deassert \<Rightarrow>
         upd_pic r (\<lambda>p. p\<lparr>INT_pin := False\<rparr>)
           (if master (the_pic r s) then BX_CLEAR_INTR s else lower_irq 2 BX_IRQ_TYPE_ISA s))"
  by pat_completeness auto

definition idle_pins :: "bx_pic_c \<Rightarrow> nat" where
  "idle_pins s = of_bool (\<not> INT_pin (master_pic s)) + of_bool (\<not> INT_pin (slave_pic s))"

lemma pic_scan_Signal: "pic_scan p = Signal k \<Longrightarrow> \<not> INT_pin p"
  by (auto simp: pic_scan_def Let_def dest!: circular_scan_test split: if_splits option.splits)

lemma idle_pins_raise_line: "idle_pins (snd (raise_line n ty s)) = idle_pins s"
  by (cases "pic_of n") (simp_all add: raise_line_def set_irq_line_def Let_def idle_pins_def)

text \<open>The recursion ends because a chip is only signalled while its own output is low.\<close>

termination pic_service
proof (relation "measure (\<lambda>(_, s). idle_pins s)")
  fix r s k s1
  assume scan: "pic_scan (the_pic r s) = Signal k" and s1: "s1 = upd_pic r (\<lambda>p. p\<lparr>INT_pin := True, irq := k\<rparr>) s"
  have "idle_pins s1 < idle_pins s"
    using pic_scan_Signal [OF scan] by (cases r) (simp_all add: idle_pins_def s1)
  then show "((MasterPic, snd (raise_line 2 BX_IRQ_TYPE_ISA s1)), r, s) \<in> measure (\<lambda>(_, s). idle_pins s)"
    by (simp add: idle_pins_raise_line)
qed simp

declare pic_service.simps [simp del]

definition raise_irq :: "nat \<Rightarrow> Bit8u \<Rightarrow> bx_pic_c \<Rightarrow> bx_pic_c" where
  "raise_irq irq_no irq_type s =
    (let (serve, s) = raise_line irq_no irq_type s
     in if serve then DEV_ioapic_set_irq_level irq_no True (pic_service (pic_of irq_no) s) else s)"

definition set_irq_level :: "nat \<Rightarrow> Bit8u \<Rightarrow> bool \<Rightarrow> bx_pic_c \<Rightarrow> bx_pic_c" where
  "set_irq_level irq_no irq_type level s =
    (if level then raise_irq irq_no irq_type s else lower_irq irq_no irq_type s)"

definition set_mode :: "bool \<Rightarrow> Bit8u \<Rightarrow> bx_pic_c \<Rightarrow> bx_pic_c" where
  "set_mode ma_sl mode s =
    (if ma_sl then upd_pic MasterPic (\<lambda>p. p\<lparr>edge_level := mode\<rparr>) s
     else upd_pic SlavePic (\<lambda>p. p\<lparr>edge_level := mode\<rparr>) s)"

definition clear_highest_interrupt :: "bx_pic_t \<Rightarrow> bx_pic_t" where
  "clear_highest_interrupt p =
    (case circular_scan (bit (isr p)) (highest_priority p) (highest_priority p) of
       Some k \<Rightarrow> p\<lparr>isr := unset_bit k (isr p)\<rparr>
     | None \<Rightarrow> p)"

section \<open>Acknowledge\<close>

text \<open>The bookkeeping both acknowledge paths make for the input being acknowledged.\<close>

definition acknowledge :: "nat \<Rightarrow> bx_pic_t \<Rightarrow> bx_pic_t" where
  "acknowledge k p =
    (let p = (if \<not> bit (edge_level p) k then p\<lparr>irr := unset_bit k (irr p)\<rparr> else p)
     in if \<not> auto_eoi p then p\<lparr>isr := set_bit k (isr p)\<rparr>
        else if rotate_on_autoeoi p then p\<lparr>lowest_priority := k\<rparr> else p)"

definition poll_command :: "pic_ref \<Rightarrow> bx_pic_c \<Rightarrow> Bit8u \<times> bx_pic_c" where
  "poll_command r s =
    (let s = upd_pic r (\<lambda>p. p\<lparr>polled := False\<rparr>) s
     in if INT_pin (the_pic r s) then
          (let k = irq (the_pic r s);
               s = upd_pic r (\<lambda>p. p\<lparr>INT_pin := False\<rparr>) s;
               s = (if master (the_pic r s) then BX_CLEAR_INTR s else lower_irq 2 BX_IRQ_TYPE_ISA s);
               s = upd_pic r (acknowledge k) s
           in (0x80 OR of_nat k, pic_service r s))
        else (0x00, pic_service r s))"

definition IAC :: "bx_pic_c \<Rightarrow> Bit8u \<times> bx_pic_c" where
  "IAC s =
    (let s = BX_CLEAR_INTR s;
         s = upd_pic MasterPic (\<lambda>p. p\<lparr>INT_pin := False\<rparr>) s
     in if irr (master_pic s) AND NOT (imr (master_pic s)) = 0 then (interrupt_offset (master_pic s) + 7, s)
        else
          (let k = irq (master_pic s);
               s = upd_pic MasterPic (acknowledge k) s
           in if k \<noteq> 2 then (of_nat k + interrupt_offset (master_pic s), pic_service MasterPic s)
              else
                (let s = upd_pic SlavePic (\<lambda>p. p\<lparr>INT_pin := False\<rparr>) s;
                     s = set_irq_line 2 (irq_line 2 s AND NOT BX_IRQ_TYPE_ISA) s
                 in if irr (slave_pic s) AND NOT (imr (slave_pic s)) = 0 then
                      (interrupt_offset (slave_pic s) + 7, s)
                    else
                      (let j = irq (slave_pic s);
                           vector = of_nat j + interrupt_offset (slave_pic s);
                           s = upd_pic SlavePic (acknowledge j) s;
                           s = pic_service SlavePic s
                       in (vector, pic_service MasterPic s)))))"

section \<open>Port accesses\<close>

definition pic_read :: "Bit32u \<Rightarrow> bx_pic_c \<Rightarrow> Bit32u \<times> bx_pic_c" where
  "pic_read address s =
    (if (address = 0x20 \<or> address = 0x21) \<and> polled (master_pic s) then
       (let (v, s) = poll_command MasterPic s in (ucast v, s))
     else if (address = 0xa0 \<or> address = 0xa1) \<and> polled (slave_pic s) then
       (let (v, s) = poll_command SlavePic s in (ucast v, s))
     else if address = 0x20 then
       (if read_reg_select (master_pic s) then (ucast (isr (master_pic s)), s) else (ucast (irr (master_pic s)), s))
     else if address = 0x21 then (ucast (imr (master_pic s)), s)
     else if address = 0xA0 then
       (if read_reg_select (slave_pic s) then (ucast (isr (slave_pic s)), s) else (ucast (irr (slave_pic s)), s))
     else if address = 0xA1 then (ucast (imr (slave_pic s)), s)
     else (0, s))"

text \<open>ICW1 restarts the initialisation sequence and clears the chip.\<close>

definition write_ICW1 :: "pic_ref \<Rightarrow> Bit32u \<Rightarrow> bx_pic_c \<Rightarrow> bx_pic_c" where
  "write_ICW1 r value s =
    (let s = upd_pic r (\<lambda>p. p\<lparr>
           init := \<lparr>in_init = True, requires_4 = bit value 0, byte_expected = 2\<rparr>,
           imr := 0x00, isr := 0x00, irr := 0x00, lowest_priority := 7, auto_eoi := False,
           rotate_on_autoeoi := False, special_mask := False, read_reg_select := False,
           polled := False, INT_pin := False\<rparr>) s
     in if master (the_pic r s) then BX_CLEAR_INTR s
        else set_irq_line 2 (irq_line 2 s AND NOT BX_IRQ_TYPE_ISA) s)"

definition write_OCW3 :: "pic_ref \<Rightarrow> Bit32u \<Rightarrow> bx_pic_c \<Rightarrow> bx_pic_c" where
  "write_OCW3 r value s =
    (let special = drop_bit 5 (value AND 0x60);
         poll = drop_bit 2 (value AND 0x04);
         read_op = value AND 0x03
     in if poll \<noteq> 0 then upd_pic r (\<lambda>p. p\<lparr>polled := True\<rparr>) s
        else
          (let s = (if read_op = 0x02 then upd_pic r (\<lambda>p. p\<lparr>read_reg_select := False\<rparr>) s
                    else if read_op = 0x03 then upd_pic r (\<lambda>p. p\<lparr>read_reg_select := True\<rparr>) s
                    else s)
           in if special = 0x02 then upd_pic r (\<lambda>p. p\<lparr>special_mask := False\<rparr>) s
              else if special = 0x03 then pic_service r (upd_pic r (\<lambda>p. p\<lparr>special_mask := True\<rparr>) s)
              else s))"

definition write_OCW2 :: "pic_ref \<Rightarrow> Bit32u \<Rightarrow> bx_pic_c \<Rightarrow> bx_pic_c" where
  "write_OCW2 r value0 s =
    (let value = (if value0 AND 0x40 = 0 then value0 AND 0xe0 else value0)
     in if value = 0x00 \<or> value = 0x80 then upd_pic r (\<lambda>p. p\<lparr>rotate_on_autoeoi := (value \<noteq> 0)\<rparr>) s
        else if value = 0xA0 \<or> value = 0x20 then
          (let s = upd_pic r clear_highest_interrupt s;
               s = (if value = 0xA0
                    then upd_pic r (\<lambda>p. p\<lparr>lowest_priority := next_irq (lowest_priority p)\<rparr>) s else s)
           in pic_service r s)
        else if 0x40 \<le> value \<and> value \<le> 0x47 then s
        else if 0x60 \<le> value \<and> value \<le> 0x67 then
          pic_service r (upd_pic r (\<lambda>p. p\<lparr>isr := unset_bit (unat (value - 0x60)) (isr p)\<rparr>) s)
        else if 0xC0 \<le> value \<and> value \<le> 0xC7 then
          upd_pic r (\<lambda>p. p\<lparr>lowest_priority := unat (value - 0xC0)\<rparr>) s
        else if 0xE0 \<le> value \<and> value \<le> 0xE7 then
          pic_service r (upd_pic r (\<lambda>p. p\<lparr>isr := unset_bit (unat (value - 0xE0)) (isr p),
                                          lowest_priority := unat (value - 0xE0)\<rparr>) s)
        else s)"

text \<open>The initialisation bytes ICW2 to ICW4; an unexpected byte number ends the sequence.\<close>

definition write_ICW :: "Bit32u \<Rightarrow> bx_pic_t \<Rightarrow> bx_pic_t" where
  "write_ICW value p =
    (if byte_expected (init p) = 2 then
       p\<lparr>interrupt_offset := ucast (value AND 0xf8), init := (init p)\<lparr>byte_expected := 3\<rparr>\<rparr>
     else if byte_expected (init p) = 3 then
       (if requires_4 (init p) then p\<lparr>init := (init p)\<lparr>byte_expected := 4\<rparr>\<rparr>
        else p\<lparr>init := (init p)\<lparr>in_init := False\<rparr>\<rparr>)
     else if byte_expected (init p) = 4 then
       (p\<lparr>auto_eoi := bit value 1, init := (init p)\<lparr>in_init := False\<rparr>\<rparr>)
     else p\<lparr>init := (init p)\<lparr>in_init := False\<rparr>\<rparr>)"

definition pic_write :: "Bit32u \<Rightarrow> Bit32u \<Rightarrow> bx_pic_c \<Rightarrow> bx_pic_c" where
  "pic_write address value s =
    (let r = (if address AND 0xA0 = 0x20 then MasterPic else SlavePic)
     in if address AND 1 = 0 then
          (if value AND 0x10 \<noteq> 0 then write_ICW1 r value s
           else if value AND 0x18 = 0x08 then write_OCW3 r value s
           else write_OCW2 r value s)
        else if in_init (init (the_pic r s)) then upd_pic r (write_ICW value) s
        else pic_service r (upd_pic r (\<lambda>p. p\<lparr>imr := ucast value\<rparr>) s))"

end
