(* ===== verification/PicInvariant.thy ===== *)
theory PicInvariant
  imports PicProps
begin

text \<open>
  The interrupt controller pair as a state machine: every access by the processor and every change of
  a request line is a step, and the invariant \<open>pic_ok\<close> holds in all reachable states.
\<close>

section \<open>The invariant\<close>

text \<open>
  A chip keeps its small counters in range and its vector base aligned; the device keeps the INTR pin
  equal to the output of the master and input 2 of the master equal to the output of the slave.
\<close>

definition chip_ok :: "bx_pic_t \<Rightarrow> bool" where
  "chip_ok p \<longleftrightarrow> irq p < 8 \<and> lowest_priority p < 8 \<and> length (IRQ_in p) = 8
    \<and> interrupt_offset p AND 7 = 0 \<and> byte_expected (init p) \<in> {0, 2, 3, 4}
    \<and> (in_init (init p) \<longrightarrow> byte_expected (init p) \<noteq> 0)"

definition pic_ok :: "bx_pic_c \<Rightarrow> bool" where
  "pic_ok s \<longleftrightarrow> chip_ok (master_pic s) \<and> chip_ok (slave_pic s) \<and> master (master_pic s) \<and> \<not> master (slave_pic s)
    \<and> (INTR s \<longleftrightarrow> INT_pin (master_pic s))
    \<and> irq_line 2 s = (if INT_pin (slave_pic s) then BX_IRQ_TYPE_ISA else 0)"

lemma the_pic_upd_pic [simp]:
  "the_pic r (upd_pic q f s) = (if r = q then f (the_pic r s) else the_pic r s)"
  "master_pic (upd_pic q f s) = (if q = MasterPic then f (master_pic s) else master_pic s)"
  "slave_pic (upd_pic q f s) = (if q = SlavePic then f (slave_pic s) else slave_pic s)"
  "INTR (upd_pic q f s) = INTR s" "ioapic_present (upd_pic q f s) = ioapic_present s"
  "ioapic_calls (upd_pic q f s) = ioapic_calls s"
  by (cases q; cases r; simp)+

declare upd_pic.simps [simp del]

lemma pins_simps [simp]:
  "master_pic (BX_RAISE_INTR s) = master_pic s" "slave_pic (BX_RAISE_INTR s) = slave_pic s" "INTR (BX_RAISE_INTR s)"
  "master_pic (BX_CLEAR_INTR s) = master_pic s" "slave_pic (BX_CLEAR_INTR s) = slave_pic s" "\<not> INTR (BX_CLEAR_INTR s)"
  "master_pic (DEV_ioapic_set_irq_level n l s) = master_pic s"
  "slave_pic (DEV_ioapic_set_irq_level n l s) = slave_pic s" "INTR (DEV_ioapic_set_irq_level n l s) = INTR s"
  by (simp_all add: BX_RAISE_INTR_def BX_CLEAR_INTR_def DEV_ioapic_set_irq_level_def)

lemma line2 [simp]: "irq_line 2 s = IRQ_in (master_pic s) ! 2" "pic_of 2 = MasterPic"
  by (simp_all add: irq_line_def pic_of_def)

lemma pic_ok_cong:
  "pic_ok (DEV_ioapic_set_irq_level n l s) = pic_ok s"
  by (simp add: pic_ok_def)

text \<open>A local change of one chip keeps the invariant when it keeps the chip's own part and its pins.\<close>

definition pins_kept :: "bx_pic_t \<Rightarrow> bx_pic_t \<Rightarrow> bool" where
  "pins_kept p q \<longleftrightarrow> master q = master p \<and> INT_pin q = INT_pin p \<and> IRQ_in q ! 2 = IRQ_in p ! 2"

lemma pic_ok_upd:
  assumes "pic_ok s" "chip_ok (f (the_pic r s))" "pins_kept (the_pic r s) (f (the_pic r s))"
  shows "pic_ok (upd_pic r f s)"
  using assms by (cases r) (auto simp: pic_ok_def pins_kept_def)

section \<open>Service keeps the invariant\<close>

lemma pic_scan_less: "pic_scan p = Signal k \<Longrightarrow> k < 8"
  using pic_scan_best [of p k] by (auto simp: eligible_def)

lemma pic_scan_Deassert: "pic_scan p = Deassert \<Longrightarrow> INT_pin p"
  by (auto simp: pic_scan_def Let_def split: if_splits option.splits)

lemma pic_ok_service_master: "pic_ok s \<Longrightarrow> pic_ok (pic_service MasterPic s)"
  using pic_scan_less [of "master_pic s"]
  by (subst pic_service.simps)
    (auto simp: pic_ok_def chip_ok_def Let_def split: service_action.splits)

lemma pic_ok_raise_cascade:
  assumes "pic_ok s" "\<not> INT_pin (slave_pic s)" "k < 8"
  shows "pic_ok (snd (raise_line 2 BX_IRQ_TYPE_ISA (upd_pic SlavePic (\<lambda>p. p\<lparr>INT_pin := True, irq := k\<rparr>) s)))"
  using assms by (auto simp: pic_ok_def chip_ok_def raise_line_def set_irq_line_def Let_def)

lemma pic_ok_lower_cascade:
  assumes "pic_ok s" "INT_pin (slave_pic s)"
  shows "pic_ok (upd_pic SlavePic (\<lambda>p. p\<lparr>INT_pin := False\<rparr>) (lower_irq 2 BX_IRQ_TYPE_ISA s))"
  using assms by (auto simp: pic_ok_def chip_ok_def lower_irq_def set_irq_line_def Let_def BX_IRQ_TYPE_ISA_def)

lemma pic_ok_service: "pic_ok s \<Longrightarrow> pic_ok (pic_service r s)"
proof (cases r)
  case SlavePic
  assume ok: "pic_ok s"
  show ?thesis
  proof (cases "pic_scan (slave_pic s)")
    case (Signal k)
    let ?s = "snd (raise_line 2 BX_IRQ_TYPE_ISA (upd_pic SlavePic (\<lambda>p. p\<lparr>INT_pin := True, irq := k\<rparr>) s))"
    have "pic_ok ?s"
      using pic_ok_raise_cascade [OF ok] pic_scan_Signal pic_scan_less Signal by blast
    with Signal ok show ?thesis
      by (subst SlavePic, subst pic_service.simps)
        (auto simp: Let_def pic_ok_cong intro: pic_ok_service_master simp: pic_ok_def [of s])
  next
    case Deassert
    with ok pic_ok_lower_cascade [OF ok pic_scan_Deassert [OF Deassert]] show ?thesis
      by (simp add: SlavePic pic_service.simps [of SlavePic] pic_ok_def [of s])
  qed (simp add: SlavePic pic_service.simps [of SlavePic] ok)
qed (simp add: pic_ok_service_master)

section \<open>Every operation keeps the invariant\<close>

lemma pic_ok_set_irq_line: "pic_ok s \<Longrightarrow> n \<noteq> 2 \<Longrightarrow> pic_ok (set_irq_line n v s)"
  by (cases "pic_of n") (auto simp: pic_ok_def chip_ok_def set_irq_line_def pic_of_def split: if_splits)

lemma pic_ok_chip: "pic_ok s \<Longrightarrow> chip_ok (the_pic r s)"
  by (cases r) (simp_all add: pic_ok_def)

lemma pic_ok_irr: "pic_ok s \<Longrightarrow> pic_ok (upd_pic r (\<lambda>p. p\<lparr>irr := f (irr p)\<rparr>) s)"
  using pic_ok_chip [of s r] by (intro pic_ok_upd) (simp_all add: chip_ok_def pins_kept_def)

lemma pic_ok_lower_irq: "pic_ok s \<Longrightarrow> n \<noteq> 2 \<Longrightarrow> pic_ok (lower_irq n ty s)"
  by (simp add: lower_irq_def Let_def pic_ok_cong pic_ok_irr pic_ok_set_irq_line)

lemma pic_ok_raise_irq: "pic_ok s \<Longrightarrow> n \<noteq> 2 \<Longrightarrow> pic_ok (raise_irq n ty s)"
  by (simp add: raise_irq_def raise_line_def Let_def pic_ok_cong pic_ok_irr pic_ok_set_irq_line pic_ok_service)

lemma chip_ok_acknowledge: "chip_ok p \<Longrightarrow> k < 8 \<Longrightarrow> chip_ok (acknowledge k p)"
  by (simp add: chip_ok_def acknowledge_def Let_def)

lemma pins_kept_acknowledge: "pins_kept p (acknowledge k p)"
  by (simp add: pins_kept_def acknowledge_def Let_def)

lemma pic_ok_acknowledge: "pic_ok s \<Longrightarrow> k < 8 \<Longrightarrow> pic_ok (upd_pic r (acknowledge k) s)"
  by (rule pic_ok_upd) (simp_all add: chip_ok_acknowledge pins_kept_acknowledge pic_ok_chip)

lemma pic_ok_withdraw:
  assumes "pic_ok s" "INT_pin (the_pic r s)"
  shows "pic_ok (let s = upd_pic r (\<lambda>p. p\<lparr>INT_pin := False\<rparr>) s
                 in if master (the_pic r s) then BX_CLEAR_INTR s else lower_irq 2 BX_IRQ_TYPE_ISA s)"
  using assms
  by (cases r) (auto simp: pic_ok_def chip_ok_def lower_irq_def set_irq_line_def Let_def BX_IRQ_TYPE_ISA_def)

lemma pic_ok_poll: "pic_ok s \<Longrightarrow> pic_ok (snd (poll_command r s))"
proof -
  assume ok: "pic_ok s"
  define s0 where "s0 = upd_pic r (\<lambda>p. p\<lparr>polled := False\<rparr>) s"
  have ok0: "pic_ok s0"
    using ok pic_ok_chip [OF ok, of r] unfolding s0_def by (intro pic_ok_upd) (simp_all add: chip_ok_def pins_kept_def)
  have k: "irq (the_pic r s0) < 8" using pic_ok_chip [OF ok0, of r] by (simp add: chip_ok_def)
  show ?thesis
    unfolding poll_command_def Let_def s0_def [symmetric]
    using pic_ok_withdraw [OF ok0, of r, unfolded Let_def] ok0 k
    by (cases "INT_pin (the_pic r s0)") (simp_all only: if_True if_False snd_conv pic_ok_service pic_ok_acknowledge)
qed

lemma pic_ok_read: "pic_ok s \<Longrightarrow> pic_ok (snd (pic_read a s))"
  using pic_ok_poll [of s] by (auto simp: pic_read_def split_beta)

lemma pic_ok_IAC: "pic_ok s \<Longrightarrow> pic_ok (snd (IAC s))"
proof -
  assume ok: "pic_ok s"
  define s1 where "s1 = upd_pic MasterPic (\<lambda>p. p\<lparr>INT_pin := False\<rparr>) (BX_CLEAR_INTR s)"
  have ok1: "pic_ok s1" using ok by (auto simp: s1_def pic_ok_def chip_ok_def)
  define s2 where "s2 = upd_pic MasterPic (acknowledge (irq (master_pic s1))) s1"
  have ok2: "pic_ok s2"
    using pic_ok_acknowledge [OF ok1] pic_ok_chip [OF ok1, of MasterPic] by (simp add: s2_def chip_ok_def)
  define s3 where "s3 = (let s = upd_pic SlavePic (\<lambda>p. p\<lparr>INT_pin := False\<rparr>) s2
    in set_irq_line 2 (irq_line 2 s AND NOT BX_IRQ_TYPE_ISA) s)"
  have ok3: "pic_ok s3" using ok2 by (auto simp: s3_def Let_def set_irq_line_def pic_ok_def chip_ok_def)
  have "pic_ok (upd_pic SlavePic (acknowledge (irq (slave_pic s3))) s3)"
    using pic_ok_acknowledge [OF ok3] pic_ok_chip [OF ok3, of SlavePic] by (simp add: chip_ok_def)
  then show ?thesis
    using ok1 ok2 ok3
    unfolding IAC_def Let_def s1_def [symmetric] s2_def [symmetric] s3_def [unfolded Let_def, symmetric]
    by (auto intro!: pic_ok_service)
qed

lemma pic_ok_write_ICW1: "pic_ok s \<Longrightarrow> pic_ok (write_ICW1 r v s)"
  by (cases r) (auto simp: write_ICW1_def Let_def pic_ok_def chip_ok_def set_irq_line_def)

lemma pic_ok_chip_change:
  assumes "pic_ok s" "\<And>p. chip_ok p \<Longrightarrow> chip_ok (f p) \<and> pins_kept p (f p)"
  shows "pic_ok (upd_pic r f s)"
  using assms pic_ok_chip [of s r] by (intro pic_ok_upd) simp_all

lemma pic_ok_write_OCW3: "pic_ok s \<Longrightarrow> pic_ok (write_OCW3 r v s)"
  by (auto simp: write_OCW3_def Let_def chip_ok_def pins_kept_def intro!: pic_ok_service pic_ok_chip_change)

lemma chip_clear_highest:
  "chip_ok p \<Longrightarrow> chip_ok (clear_highest_interrupt p) \<and> pins_kept p (clear_highest_interrupt p)"
  by (auto simp: clear_highest_interrupt_def chip_ok_def pins_kept_def split: option.splits)

lemma small_difference: "a \<le> v \<Longrightarrow> v \<le> a + 7 \<Longrightarrow> unat (a + 7) = unat a + 7 \<Longrightarrow> unat (v - a) < 8"
  for a v :: Bit32u
  by (simp add: unat_sub word_le_nat_alt)

lemma pic_ok_fields:
  assumes "pic_ok s"
  shows "pic_ok (upd_pic r (\<lambda>p. p\<lparr>isr := g p\<rparr>) s)"
    "pic_ok (upd_pic r (\<lambda>p. p\<lparr>rotate_on_autoeoi := b\<rparr>) s)"
    "pic_ok (upd_pic r clear_highest_interrupt s)"
    "pic_ok (upd_pic r (\<lambda>p. p\<lparr>lowest_priority := next_irq (lowest_priority p)\<rparr>) s)"
    "n < 8 \<Longrightarrow> pic_ok (upd_pic r (\<lambda>p. p\<lparr>lowest_priority := n\<rparr>) s)"
    "n < 8 \<Longrightarrow> pic_ok (upd_pic r (\<lambda>p. p\<lparr>isr := g p, lowest_priority := n\<rparr>) s)"
  using assms chip_clear_highest
  by (auto intro!: pic_ok_chip_change simp: chip_ok_def pins_kept_def next_irq_less)

lemma pic_ok_write_OCW2: "pic_ok s \<Longrightarrow> pic_ok (write_OCW2 r v s)"
proof -
  assume ok: "pic_ok s"
  have n: "unat (x - 0xC0) < 8" if "0xC0 \<le> x" "x \<le> 0xC7" for x :: Bit32u
    using small_difference [of "0xC0" x] that by simp
  have m: "unat (x - 0xE0) < 8" if "0xE0 \<le> x" "x \<le> 0xE7" for x :: Bit32u
    using small_difference [of "0xE0" x] that by simp
  define v' where "v' = (if v AND 0x40 = 0 then v AND 0xe0 else v)"
  show ?thesis
    unfolding write_OCW2_def Let_def v'_def [symmetric]
    using n [of v'] m [of v'] by (simp add: ok pic_ok_fields pic_ok_service)
qed

lemma aligned_offset: "(ucast (v AND 0xf8 :: Bit32u) :: Bit8u) AND 7 = 0"
proof -
  have "(ucast (v AND 0xf8) :: Bit8u) AND 7 = ucast (v AND 0xf8) AND ucast (7 :: Bit32u)" by simp
  also have "\<dots> = ucast (v AND (0xf8 AND 7))" by (simp only: unsigned_and_eq [symmetric] and.assoc)
  finally show ?thesis by simp
qed

lemma pic_ok_write_ICW: "pic_ok s \<Longrightarrow> pic_ok (upd_pic r (write_ICW v) s)"
  by (rule pic_ok_chip_change) (auto simp: write_ICW_def chip_ok_def pins_kept_def aligned_offset)

lemma pic_ok_write: "pic_ok s \<Longrightarrow> pic_ok (pic_write a v s)"
  by (auto simp: pic_write_def Let_def pic_ok_write_ICW1 pic_ok_write_OCW2 pic_ok_write_OCW3 pic_ok_write_ICW
      chip_ok_def pins_kept_def intro!: pic_ok_service pic_ok_chip_change)

section \<open>Reachable states\<close>

text \<open>
  The steps of the device: changes of the request lines by other devices (input 2 of the master is
  wired to the slave and never driven by a device), port accesses and the acknowledge cycle of the
  processor, and the trigger mode set by the chip set.
\<close>

inductive pic_step :: "bx_pic_c \<Rightarrow> bx_pic_c \<Rightarrow> bool" where
  step_level: "n < 16 \<Longrightarrow> n \<noteq> 2 \<Longrightarrow> pic_step s (set_irq_level n ty level s)"
| step_read: "pic_step s (snd (pic_read a s))"
| step_write: "pic_step s (pic_write a v s)"
| step_IAC: "pic_step s (snd (IAC s))"
| step_mode: "pic_step s (set_mode ma_sl mode s)"

inductive pic_reachable :: "bx_pic_c \<Rightarrow> bool" where
  start: "\<not> INTR s \<Longrightarrow> pic_reachable (pic_reset s)"
| step: "pic_reachable s \<Longrightarrow> pic_step s s' \<Longrightarrow> pic_reachable s'"

inductive_cases pic_stepE: "pic_step s s'"

lemma pic_ok_reset: "\<not> INTR s \<Longrightarrow> pic_ok (pic_reset s)"
  by (simp add: pic_ok_def chip_ok_def pic_reset_def reset_pic_def)

lemma pic_ok_set_mode: "pic_ok s \<Longrightarrow> pic_ok (set_mode b m s)"
  by (auto simp: set_mode_def chip_ok_def pins_kept_def intro!: pic_ok_chip_change)

lemma pic_ok_step: "pic_step s s' \<Longrightarrow> pic_ok s \<Longrightarrow> pic_ok s'"
  by (erule pic_stepE)
    (simp_all add: set_irq_level_def pic_ok_raise_irq pic_ok_lower_irq pic_ok_read pic_ok_write pic_ok_IAC pic_ok_set_mode)

lemma reachable_ok: "pic_reachable s \<Longrightarrow> pic_ok s"
  by (induction rule: pic_reachable.induct) (auto intro: pic_ok_reset pic_ok_step)

text \<open>A freshly reset pair of controllers, for examples.\<close>

definition sample_pics :: bx_pic_c where
  "sample_pics = \<lparr>master_pic = reset_pic True 0x08, slave_pic = reset_pic False 0x70, INTR = False,
    ioapic_present = False, ioapic_calls = []\<rparr>"

lemma sample_pics_reset: "pic_reset sample_pics = sample_pics" "\<not> INTR sample_pics"
  by (simp_all add: sample_pics_def pic_reset_def)

lemma sample_pics_reachable: "pic_reachable sample_pics"
  using pic_reachable.start [of sample_pics] by (simp add: sample_pics_reset)

text \<open>C4. In every state the device can reach, whatever the guest writes to its ports and whenever lines
  change: the input numbers and priorities are below 8, vector bases are multiples of 8, the
  initialisation sequence expects a byte that exists, the INTR pin of the processor equals the output
  of the master, and input 2 of the master equals the output of the slave.\<close>

theorem pic_invariant:
  assumes "pic_reachable s"
  shows "pic_ok s"
  using assms by (rule reachable_ok)

theorem pic_invariant_witness:
  "pic_reachable (snd (IAC (pic_write 0x21 0 sample_pics))) \<and> pic_ok (snd (IAC (pic_write 0x21 0 sample_pics)))"
proof -
  have "pic_reachable (snd (IAC (pic_write 0x21 0 sample_pics)))"
    by (intro pic_reachable.step [OF _ step_IAC] pic_reachable.step [OF _ step_write] sample_pics_reachable)
  then show ?thesis using pic_invariant by blast
qed

section \<open>Vectors\<close>

definition program :: "bx_pic_t \<Rightarrow> bx_pic_t" where
  "program p = p\<lparr>INT_pin := False, irq := 0, IRQ_in := [], irr := 0\<rparr>"

lemma program_fields:
  "program p = program q \<Longrightarrow> isr p = isr q" "program p = program q \<Longrightarrow> imr p = imr q"
  "program p = program q \<Longrightarrow> interrupt_offset p = interrupt_offset q"
  "program p = program q \<Longrightarrow> lowest_priority p = lowest_priority q"
  by (cases p; cases q; simp add: program_def)+

lemma program_upd:
  "program (the_pic q (snd (raise_line n ty s))) = program (the_pic q s)"
  "program (the_pic q (lower_irq n ty s)) = program (the_pic q s)"
  by (cases q; simp add: raise_line_def lower_irq_def set_irq_line_def Let_def program_def)+

text \<open>Service only moves request state: masks, vectors, modes and the in-service register stay.\<close>

lemma program_service: "program (the_pic q (pic_service r s)) = program (the_pic q s)"
proof (induction r s rule: pic_service.induct)
  case (1 r s)
  show ?case
  proof (cases "pic_scan (the_pic r s)")
    case (Signal k)
    let ?s1 = "upd_pic r (\<lambda>p. p\<lparr>INT_pin := True, irq := k\<rparr>) s"
    have "program (the_pic q ?s1) = program (the_pic q s)" by (simp add: program_def)
    moreover have "program (the_pic q (pic_service r s)) = program (the_pic q ?s1)"
      using "1.IH" [OF Signal refl] Signal
      by (cases q) (auto simp: pic_service.simps [of r] Let_def program_upd
          program_upd [of MasterPic, simplified] program_upd [of SlavePic, simplified])
    ultimately show ?thesis by simp
  next
    case Deassert
    then show ?thesis
      using program_upd(2) [of q 2 BX_IRQ_TYPE_ISA s]
      by (cases q) (auto simp: pic_service.simps [of r] program_def)
  qed (simp add: pic_service.simps [of r])
qed

end

