(* ===== verification/PicDelivery.thy ===== *)
theory PicDelivery
  imports PicInvariant
begin

text \<open>
  From a request line to the vector: what the acknowledge cycle returns, the delivery of a request
  through one chip or through the cascade, and programming a chip through its ports.
\<close>

section \<open>Vectors\<close>

lemma aligned_plus_small:
  fixes a :: Bit8u
  assumes "a AND 7 = 0" "k < 8"
  shows "(of_nat k + a) AND 0xF8 = a"
proof -
  have b: "bit (7 :: Bit8u) n \<longleftrightarrow> n < 3" for n
  proof -
    have "(7 :: Bit8u) = mask 3" by (simp add: mask_eq_exp_minus_1)
    show ?thesis unfolding \<open>(7 :: Bit8u) = mask 3\<close> bit_mask_iff possible_bit_word by auto
  qed
  have f8: "(0xF8 :: Bit8u) = NOT 7" by simp
  have a: "\<not> bit a n" if "n < 3" for n
    using arg_cong [OF assms(1), of "\<lambda>w. bit w n"] that by (simp add: bit_and_iff b del: bit_numeral_word_iff)
  have kb: "\<not> bit (of_nat k :: Bit8u) n" if "\<not> n < 3" for n
  proof -
    have "(2 :: nat) ^ 3 \<le> 2 ^ n" using that by (intro power_increasing) auto
    then have "k < 2 ^ n" using assms(2) by simp
    then have "\<not> bit k n" by (simp add: bit_iff_odd)
    then show ?thesis by (simp add: bit_of_nat_iff)
  qed
  have k: "(of_nat k :: Bit8u) AND NOT 7 = 0"
    using kb by (intro bit_word_eqI) (auto simp only: bit_and_iff bit_not_iff b bit_0_eq bot_apply bot_bool_def)
  have "of_nat k AND a = 0" using a kb by (intro bit_word_eqI) (auto simp: bit_and_iff)
  then have "of_nat k + a = of_nat k OR a" by (simp add: disjunctive_add_eq_or)
  moreover have "a AND NOT 7 = a" using a by (intro bit_word_eqI) (auto simp only: bit_and_iff bit_not_iff b possible_bit_word)
  ultimately show ?thesis using k by (simp only: f8 bit.conj_disj_distrib2 or.left_neutral)
qed

lemma interrupt_offset_acknowledge [simp]:
  "interrupt_offset (acknowledge k p) = interrupt_offset p" "irq (acknowledge k p) = irq p"
  "imr (acknowledge k p) = imr p"
  by (simp_all add: acknowledge_def Let_def)

text \<open>C6. The acknowledge cycle returns a vector inside the block of eight vectors the guest programmed for
  the master or for the slave, spurious interrupts included.\<close>

theorem IAC_vector_range:
  assumes "pic_reachable s"
  shows "fst (IAC s) AND 0xF8 \<in> {interrupt_offset (master_pic s), interrupt_offset (slave_pic s)}"
proof -
  note ok = reachable_ok [OF assms, unfolded pic_ok_def chip_ok_def]
  have 7: "interrupt_offset (master_pic s) + 7 = of_nat 7 + interrupt_offset (master_pic s)"
    "interrupt_offset (slave_pic s) + 7 = of_nat 7 + interrupt_offset (slave_pic s)" by simp_all
  show ?thesis
    using ok by (auto simp: IAC_def Let_def set_irq_line_def 7 aligned_plus_small simp del: of_nat_numeral)
qed

theorem IAC_vector_range_witness:
  "pic_reachable sample_pics \<and> fst (IAC sample_pics) AND 0xF8 \<in> {0x08, 0x70}"
  using IAC_vector_range [OF sample_pics_reachable] sample_pics_reachable
  by (simp add: sample_pics_def reset_pic_def)

section \<open>Delivery\<close>

text \<open>
  A chip that is quiet for input \<open>n\<close>: its output and the line are low, no unmasked request is pending,
  and a request on \<open>n\<close> would be eligible.
\<close>

definition quiet_for :: "nat \<Rightarrow> bx_pic_t \<Rightarrow> bool" where
  "quiet_for n p \<longleftrightarrow> \<not> INT_pin p \<and> IRQ_in p ! n = 0 \<and> irr p AND NOT (imr p) = 0
    \<and> eligible (p\<lparr>irr := set_bit n (irr p)\<rparr>) n"

definition requested :: "nat \<Rightarrow> bx_pic_t \<Rightarrow> bx_pic_t" where
  "requested n p = p\<lparr>IRQ_in := (IRQ_in p)[n := BX_IRQ_TYPE_ISA], irr := set_bit n (irr p)\<rparr>"

lemma eligible_requested: "eligible (requested n p) k = eligible (p\<lparr>irr := set_bit n (irr p)\<rparr>) k"
  by (simp add: eligible_def requested_def irq_rank_def highest_priority_def)

lemma quiet_bits:
  assumes "quiet_for n p"
  shows "n < 8" "\<not> bit (imr p) n" "\<not> bit (irr p) n" "\<And>k. bit (irr p) k \<Longrightarrow> bit (imr p) k"
proof -
  show "n < 8" "\<not> bit (imr p) n" using assms by (auto simp: quiet_for_def eligible_def)
  show m: "bit (imr p) k" if "bit (irr p) k" for k
    using arg_cong [of _ _ "\<lambda>w. bit w k", OF assms [unfolded quiet_for_def, THEN conjunct2, THEN conjunct2, THEN conjunct1]]
      that bit_imp_le_length [OF that] by (simp add: bit_and_iff bit_not_iff)
  then show "\<not> bit (irr p) n" using \<open>\<not> bit (imr p) n\<close> by blast
qed

lemma quiet_scan:
  assumes "quiet_for n p"
  shows "pic_scan (requested n p) = Signal n"
proof -
  have only: "k = n" if "eligible (requested n p) k" for k
    using that quiet_bits [OF assms] by (auto simp: eligible_def requested_def bit_set_bit_iff)
  have e: "eligible (requested n p) n" "\<not> INT_pin (requested n p)"
    using assms by (simp_all add: quiet_for_def eligible_requested) (simp add: requested_def)
  show ?thesis
  proof (rule ccontr)
    assume "pic_scan (requested n p) \<noteq> Signal n"
    then obtain k where "pic_scan (requested n p) = Signal k" "k \<noteq> n" using pic_scan_none e by blast
    then show False using pic_scan_best only by blast
  qed
qed

lemma raise_line_quiet:
  assumes "quiet_for (n mod 8) (the_pic (pic_of n) s)"
  shows "raise_line n BX_IRQ_TYPE_ISA s = (True, upd_pic (pic_of n) (requested (n mod 8)) s)"
  using assms quiet_bits [OF assms]
  by (cases "pic_of n") (simp_all add: raise_line_def irq_line_def set_irq_line_def quiet_for_def requested_def Let_def upd_pic.simps)

text \<open>The chip after its request has been signalled.\<close>

definition signalled :: "nat \<Rightarrow> bx_pic_t \<Rightarrow> bx_pic_t" where
  "signalled n p = (requested n p)\<lparr>INT_pin := True, irq := n\<rparr>"

lemma signalled_simps [simp]:
  "irq (signalled n p) = n" "imr (signalled n p) = imr p" "isr (signalled n p) = isr p"
  "irr (signalled n p) = set_bit n (irr p)" "interrupt_offset (signalled n p) = interrupt_offset p"
  "auto_eoi (signalled n p) = auto_eoi p" "master (signalled n p) = master p"
  by (simp_all add: signalled_def requested_def)

lemma raise_irq_master:
  assumes "pic_ok s" "quiet_for n (master_pic s)"
  shows "raise_irq n BX_IRQ_TYPE_ISA s =
    DEV_ioapic_set_irq_level n True (BX_RAISE_INTR (upd_pic MasterPic (signalled n) s))"
proof -
  have n: "n < 8" "n mod 8 = n" "pic_of n = MasterPic" using quiet_bits(1) [OF assms(2)] by (simp_all add: pic_of_def)
  have m: "master (requested n (master_pic s))" using assms(1) by (simp add: pic_ok_def requested_def)
  show ?thesis
    using raise_line_quiet [of n s] quiet_scan [OF assms(2)] assms(2) n m
    by (simp add: raise_irq_def pic_service.simps [of MasterPic] upd_pic.simps signalled_def)
qed

lemma raise_irq_slave:
  assumes "pic_ok s" "quiet_for n (slave_pic s)" "quiet_for 2 (master_pic s)"
  shows "raise_irq (8 + n) BX_IRQ_TYPE_ISA s =
    DEV_ioapic_set_irq_level (8 + n) True (BX_RAISE_INTR (upd_pic MasterPic (signalled 2) (upd_pic SlavePic (signalled n) s)))"
proof -
  have n: "n < 8" "(8 + n) mod 8 = n" "pic_of (8 + n) = SlavePic"
    using quiet_bits(1) [OF assms(2)] by (simp_all add: pic_of_def)
  let ?s = "upd_pic SlavePic (requested n) s"
  let ?s1 = "upd_pic SlavePic (signalled n) s"
  have m: "\<not> master (slave_pic s)" "master (master_pic s)" using assms(1) by (simp_all add: pic_ok_def)
  have s1: "upd_pic SlavePic (\<lambda>p. p\<lparr>INT_pin := True, irq := n\<rparr>) ?s = ?s1"
    by (simp add: upd_pic.simps signalled_def)
  have r2: "raise_line 2 BX_IRQ_TYPE_ISA ?s1 = (True, upd_pic MasterPic (requested 2) ?s1)"
    using raise_line_quiet [of 2 ?s1] assms(3) by simp
  have "pic_service MasterPic (upd_pic MasterPic (requested 2) ?s1)
      = BX_RAISE_INTR (upd_pic MasterPic (signalled 2) ?s1)"
    using quiet_scan [OF assms(3)] m
    by (simp add: pic_service.simps [of MasterPic] requested_def [of _ "master_pic s"])
       (simp add: upd_pic.simps signalled_def requested_def)
  then have "pic_service SlavePic ?s = BX_RAISE_INTR (upd_pic MasterPic (signalled 2) ?s1)"
    using quiet_scan [OF assms(2)] m s1 r2
    by (simp add: pic_service.simps [of SlavePic] requested_def [of _ "slave_pic s", symmetric] DEV_ioapic_set_irq_level_def Let_def)
  then show ?thesis
    using raise_line_quiet [of "8 + n" s] assms(2) n by (simp add: raise_irq_def)
qed

lemma requested_unmasked:
  "quiet_for n p \<Longrightarrow> set_bit n (irr p) AND NOT (imr p) \<noteq> 0"
proof
  assume q: "quiet_for n p" and z: "set_bit n (irr p) AND NOT (imr p) = 0"
  have "bit (set_bit n (irr p) AND NOT (imr p)) n"
    using quiet_bits [OF q] by (simp add: bit_and_iff bit_not_iff bit_set_bit_iff)
  then show False by (simp add: z)
qed

lemma isr_acknowledge: "isr (acknowledge n p) = (if auto_eoi p then isr p else set_bit n (isr p))"
  by (simp add: acknowledge_def Let_def)

lemma isr_service: "isr (master_pic (pic_service r s)) = isr (master_pic s)" "isr (slave_pic (pic_service r s)) = isr (slave_pic s)"
  using program_fields(1) [OF program_service [of MasterPic r s]] program_fields(1) [OF program_service [of SlavePic r s]]
  by simp_all

text \<open>A request on an input of the master that may interrupt reaches the processor: raising the line
  asserts INTR, and the acknowledge cycle returns the programmed vector of that input and puts the
  input in service (unless automatic end of interrupt is on), leaving the others as they were.\<close>

theorem irq_delivery_master:
  assumes "pic_reachable s" "quiet_for n (master_pic s)" "n \<noteq> 2"
  shows "let s1 = raise_irq n BX_IRQ_TYPE_ISA s; (v, s2) = IAC s1; p = master_pic s
         in INTR s1 \<and> v = of_nat n + interrupt_offset p
          \<and> isr (master_pic s2) = (if auto_eoi p then isr p else set_bit n (isr p))
          \<and> isr (slave_pic s2) = isr (slave_pic s)"
  using raise_irq_master [OF reachable_ok [OF assms(1)] assms(2)] requested_unmasked [OF assms(2)] assms(3)
  by (simp add: Let_def IAC_def isr_service isr_acknowledge)


text \<open>A pair of controllers with every input unmasked.\<close>

definition open_pics :: bx_pic_c where
  "open_pics = pic_write 0x21 0 (pic_write 0xA1 0 sample_pics)"

lemma open_pics_reachable: "pic_reachable open_pics"
  unfolding open_pics_def
  by (intro pic_reachable.step [OF _ step_write] sample_pics_reachable)

lemma open_pics_state:
  "master_pic open_pics = (reset_pic True 0x08)\<lparr>imr := 0\<rparr>" "slave_pic open_pics = (reset_pic False 0x70)\<lparr>imr := 0\<rparr>"
  by (simp_all add: open_pics_def pic_write_def sample_pics_def reset_pic_def Let_def pic_service.simps pic_scan_def
      max_irq_loop.simps upd_pic.simps)

lemma open_pics_quiet: "quiet_for 1 (master_pic open_pics)" "quiet_for 2 (master_pic open_pics)"
  "quiet_for 4 (slave_pic open_pics)"
  by (simp_all add: open_pics_state quiet_for_def eligible_def reset_pic_def upt_rec bit_set_bit_iff)

theorem irq_delivery_master_witness:
  "fst (IAC (raise_irq 1 BX_IRQ_TYPE_ISA open_pics)) = 0x09"
  using irq_delivery_master [OF open_pics_reachable open_pics_quiet(1)]
  by (simp add: Let_def split_beta open_pics_state reset_pic_def)


section \<open>Programming a chip\<close>

definition command_port :: "pic_ref \<Rightarrow> Bit32u" where "command_port r = (if r = MasterPic then 0x20 else 0xA0)"
definition data_port :: "pic_ref \<Rightarrow> Bit32u" where "data_port r = (if r = MasterPic then 0x21 else 0xA1)"

lemma write_command_ICW1: "pic_write (command_port r) 0x11 s = write_ICW1 r 0x11 s"
  by (cases r) (simp_all add: pic_write_def command_port_def)

lemma write_data_init: "in_init (init (the_pic r s)) \<Longrightarrow> pic_write (data_port r) v s = upd_pic r (write_ICW v) s"
  by (cases r) (simp_all add: pic_write_def data_port_def)

definition after_ICW1 :: "bx_pic_t \<Rightarrow> bx_pic_t" where
  "after_ICW1 p = p\<lparr>init := \<lparr>in_init = True, requires_4 = True, byte_expected = 2\<rparr>,
     imr := 0x00, isr := 0x00, irr := 0x00, lowest_priority := 7, auto_eoi := False, rotate_on_autoeoi := False,
     special_mask := False, read_reg_select := False, polled := False, INT_pin := False\<rparr>"

lemma chip_write_ICW1:
  "pic_ok s \<Longrightarrow> the_pic r (write_ICW1 r 0x11 s) = after_ICW1 (the_pic r s)"
  by (cases r) (simp_all add: write_ICW1_def after_ICW1_def set_irq_line_def pic_ok_def Let_def)

lemma chip_write_ICW2_4:
  "write_ICW v4 (write_ICW v3 (write_ICW v2 (after_ICW1 p))) =
    (after_ICW1 p)\<lparr>interrupt_offset := ucast (v2 AND 0xf8), auto_eoi := bit v4 1,
       init := \<lparr>in_init = False, requires_4 = True, byte_expected = 4\<rparr>\<rparr>"
  by (simp add: write_ICW_def after_ICW1_def)

lemma init_stays:
  "in_init (init (after_ICW1 p))" "in_init (init (write_ICW v2 (after_ICW1 p)))"
  "in_init (init (write_ICW v3 (write_ICW v2 (after_ICW1 p))))"
  by (simp_all add: write_ICW_def after_ICW1_def)

lemma initialisation_chip:
  fixes r :: pic_ref and s :: bx_pic_c and v2 v3 v4 :: Bit32u
  assumes "pic_ok s"
  defines "s1 \<equiv> pic_write (command_port r) 0x11 s"
  defines "s2 \<equiv> pic_write (data_port r) v2 s1"
  defines "s3 \<equiv> pic_write (data_port r) v3 s2"
  shows "the_pic r (pic_write (data_port r) v4 s3) = write_ICW v4 (write_ICW v3 (write_ICW v2 (after_ICW1 (the_pic r s))))"
proof -
  have 1: "the_pic r s1 = after_ICW1 (the_pic r s)"
    using assms(1) by (simp add: s1_def write_command_ICW1 chip_write_ICW1)
  then have 2: "the_pic r s2 = write_ICW v2 (the_pic r s1)" using init_stays(1) by (simp add: s2_def write_data_init)
  then have 3: "the_pic r s3 = write_ICW v3 (the_pic r s2)" using init_stays(2) 1 by (simp add: s3_def write_data_init)
  then show ?thesis using init_stays(3) 1 2 by (simp add: write_data_init)
qed

text \<open>The initialisation sequence ICW1 to ICW4 written to the two ports of either chip, from any
  reachable state, programs the vector base and the automatic end of interrupt mode and leaves the
  chip unmasked, with no request, nothing in service, its output low and fixed priorities, out of
  initialisation mode; the trigger modes and the input lines stay.\<close>

theorem initialisation_sequence:
  fixes s :: bx_pic_c and r :: pic_ref and icw2 icw3 icw4 :: Bit32u
  assumes "pic_reachable s"
  shows "the_pic r (pic_write (data_port r) icw4 (pic_write (data_port r) icw3
           (pic_write (data_port r) icw2 (pic_write (command_port r) 0x11 s))))
    = (the_pic r s)\<lparr>interrupt_offset := ucast (icw2 AND 0xf8), auto_eoi := bit icw4 1,
         imr := 0, isr := 0, irr := 0, read_reg_select := False, lowest_priority := 7, INT_pin := False,
         init := \<lparr>in_init = False, requires_4 = True, byte_expected = 4\<rparr>,
         special_mask := False, polled := False, rotate_on_autoeoi := False\<rparr>"
  by (simp only: initialisation_chip [OF reachable_ok [OF assms]] chip_write_ICW2_4) (simp add: after_ICW1_def)

theorem initialisation_sequence_witness:
  "interrupt_offset (slave_pic (pic_write (data_port SlavePic) 1 (pic_write (data_port SlavePic) 2
     (pic_write (data_port SlavePic) 0x28 (pic_write (command_port SlavePic) 0x11 open_pics))))) = 0x28"
  using initialisation_sequence [OF open_pics_reachable, of SlavePic 1 2 "0x28"] by simp

section \<open>Two behaviours of the code that differ from its comments\<close>

text \<open>
  The command described as rotation on a non-specific end of interrupt moves the lowest priority to the
  next input instead of the one just ended: ending input 5 under fixed priorities makes input 0 the
  lowest, while the specific form of the same command makes input 5 the lowest.
\<close>

lemma rotate_on_eoi_advances_by_one:
  "lowest_priority (master_pic (write_OCW2 MasterPic 0xA0 (upd_pic MasterPic (\<lambda>p. p\<lparr>isr := 0x20\<rparr>) open_pics))) = 0"
  "lowest_priority (master_pic (write_OCW2 MasterPic 0xE5 (upd_pic MasterPic (\<lambda>p. p\<lparr>isr := 0x20\<rparr>) open_pics))) = 5"
proof -
  have lp: "lowest_priority (master_pic (pic_service r s)) = lowest_priority (master_pic s)" for r s
    using program_fields(4) [OF program_service [of MasterPic r s]] by simp
  show "lowest_priority (master_pic (write_OCW2 MasterPic 0xA0 (upd_pic MasterPic (\<lambda>p. p\<lparr>isr := 0x20\<rparr>) open_pics))) = 0"
    by (simp add: write_OCW2_def Let_def lp open_pics_state clear_highest_interrupt_def reset_pic_def next_irq_def split: option.splits)
  show "lowest_priority (master_pic (write_OCW2 MasterPic 0xE5 (upd_pic MasterPic (\<lambda>p. p\<lparr>isr := 0x20\<rparr>) open_pics))) = 5"
    by (simp add: write_OCW2_def Let_def lp)
qed

text \<open>
  Masking a request that has already been signalled does not withdraw it while another unmasked
  request is pending: with lines 3 and 5 raised in this order, masking input 3 leaves INTR asserted
  and the acknowledge cycle delivers the vector of the masked input 3.
\<close>

lemma pic_scan_busy: "INT_pin p \<Longrightarrow> irr p AND NOT (imr p) \<noteq> 0 \<Longrightarrow> pic_scan p = NoAction"
  by (auto simp: pic_scan_def Let_def dest: circular_scan_test split: option.splits)

lemma masked_request_still_delivered:
  defines "s \<equiv> pic_write 0x21 0x08 (raise_irq 5 BX_IRQ_TYPE_ISA (raise_irq 3 BX_IRQ_TYPE_ISA open_pics))"
  shows "bit (imr (master_pic s)) 3" "INTR s" "fst (IAC s) = 0x0B"
proof -
  have q: "quiet_for 3 (master_pic open_pics)"
    by (simp add: open_pics_state quiet_for_def eligible_def reset_pic_def upt_rec bit_set_bit_iff)
  note r3 = raise_irq_master [OF reachable_ok [OF open_pics_reachable] q]
  have no: "\<not> ioapic_present open_pics"
    using pic_ok_def by (simp add: open_pics_def pic_write_def sample_pics_def Let_def pic_service.simps pic_scan_def
        reset_pic_def max_irq_loop.simps upd_pic.simps)
  define s1 where "s1 = upd_pic MasterPic (signalled 3) (BX_RAISE_INTR open_pics)"
  have s1: "raise_irq 3 BX_IRQ_TYPE_ISA open_pics = s1"
    using r3 no by (simp add: s1_def DEV_ioapic_set_irq_level_def BX_RAISE_INTR_def upd_pic.simps)
  have p1: "master_pic s1 = (reset_pic True 0x08)\<lparr>imr := 0, INT_pin := True, irq := 3, irr := 8,
      IRQ_in := [0, 0, 0, 1, 0, 0, 0, 0]\<rparr>"
    by (simp add: s1_def open_pics_state signalled_def requested_def reset_pic_def BX_IRQ_TYPE_ISA_def
        set_bit_eq_or eval_nat_numeral)
  have no1: "\<not> ioapic_present s1" "INTR s1" using no by (simp_all add: s1_def BX_RAISE_INTR_def)
  define s2 where "s2 = upd_pic MasterPic (requested 5) s1"
  have p2: "master_pic s2 = (master_pic s1)\<lparr>irr := 0x28, IRQ_in := [0, 0, 0, 1, 0, 1, 0, 0]\<rparr>"
    by (simp add: s2_def p1 requested_def reset_pic_def BX_IRQ_TYPE_ISA_def set_bit_eq_or)
  have "raise_line 5 BX_IRQ_TYPE_ISA s1 = (True, s2)"
    by (simp add: raise_line_def irq_line_def set_irq_line_def pic_of_def p1 s2_def requested_def upd_pic.simps
        BX_IRQ_TYPE_ISA_def Let_def)
  moreover have "pic_scan (master_pic s2) = NoAction" by (rule pic_scan_busy) (simp_all add: p2 p1)
  ultimately have s2: "raise_irq 5 BX_IRQ_TYPE_ISA s1 = s2"
    using no1 by (simp add: raise_irq_def pic_of_def pic_service.simps [of MasterPic] DEV_ioapic_set_irq_level_def
        s2_def [symmetric]) (simp add: s2_def)
  define s3 where "s3 = upd_pic MasterPic (\<lambda>p. p\<lparr>imr := 8\<rparr>) s2"
  have "pic_scan (master_pic s3) = NoAction" by (rule pic_scan_busy) (simp_all add: s3_def p2 p1)
  then have s: "s = s3"
    by (simp add: s_def s1 s2 pic_write_def p2 p1 reset_pic_def s3_def pic_service.simps [of MasterPic])
  show "bit (imr (master_pic s)) 3" by (simp add: s s3_def)
  show "INTR s" using no1 by (simp add: s s3_def s2_def)
  show "fst (IAC s) = 0x0B"
    by (simp add: s s3_def IAC_def Let_def p2 p1 reset_pic_def)
qed

end
