(* ===== verification/Pit.thy ===== *)
theory Pit
  imports Prelude
begin

text \<open>
  The 82C54 programmable interval timer of \<^verbatim>\<open>iodev/pit82c54.cc\<close>: three counters, each a record
  \<open>counter_type\<close>. The 32-bit fields \<open>count\<close>, \<open>count_binary\<close> and \<open>next_change_time\<close> are natural
  numbers, with the masking and wrap-around of the source written out where a value can leave its
  range. Calls of the OUT pin handler are recorded in \<open>out_calls\<close>, in order. Log output leaves no trace.
\<close>

section \<open>State\<close>

datatype rw_status = LSByte | MSByte | LSByte_multiple | MSByte_multiple

record counter_type =
  GATE :: bool
  OUTpin :: bool
  count :: nat
  outlatch :: Bit16u
  inlatch :: Bit16u
  status_latch :: Bit8u
  rw_mode :: nat
  mode :: nat
  bcd_mode :: bool
  null_count :: bool
  count_LSB_latched :: bool
  count_MSB_latched :: bool
  status_latched :: bool
  count_binary :: nat
  triggerGATE :: bool
  write_state :: rw_status
  read_state :: rw_status
  count_written :: bool
  first_pass :: bool
  state_bit_1 :: bool
  state_bit_2 :: bool
  next_change_time :: nat
  out_handler :: bool
  out_calls :: "bool list"

record pit_82C54 =
  counter :: "nat \<Rightarrow> counter_type"
  controlword :: Bit8u

definition MAX_COUNTER :: nat where "MAX_COUNTER = 2"
definition MAX_ADDRESS :: nat where "MAX_ADDRESS = 3"
definition CONTROL_ADDRESS :: nat where "CONTROL_ADDRESS = 3"

definition upd_counter :: "nat \<Rightarrow> (counter_type \<Rightarrow> counter_type) \<Rightarrow> pit_82C54 \<Rightarrow> pit_82C54" where
  "upd_counter i f p = p\<lparr>counter := (counter p)(i := f (counter p i))\<rparr>"

section \<open>One counter\<close>

definition latch_counter :: "counter_type \<Rightarrow> counter_type" where
  "latch_counter c =
    (if count_LSB_latched c \<or> count_MSB_latched c then c
     else (case read_state c of
        MSByte \<Rightarrow> c\<lparr>outlatch := of_nat (count c), count_MSB_latched := True\<rparr>
      | LSByte \<Rightarrow> c\<lparr>outlatch := of_nat (count c), count_LSB_latched := True\<rparr>
      | LSByte_multiple \<Rightarrow>
          c\<lparr>outlatch := of_nat (count c), count_LSB_latched := True, count_MSB_latched := True\<rparr>
      | MSByte_multiple \<Rightarrow>
          c\<lparr>read_state := LSByte_multiple, outlatch := of_nat (count c),
            count_LSB_latched := True, count_MSB_latched := True\<rparr>))"

definition set_OUT :: "bool \<Rightarrow> counter_type \<Rightarrow> counter_type" where
  "set_OUT data c =
    (if OUTpin c \<noteq> data then
       (let c = c\<lparr>OUTpin := data\<rparr>
        in if out_handler c then c\<lparr>out_calls := out_calls c @ [data]\<rparr> else c)
     else c)"

text \<open>The four decimal digits of a number, one per nibble.\<close>

definition set_count_to_binary :: "counter_type \<Rightarrow> counter_type" where
  "set_count_to_binary c =
    (if bcd_mode c then
       c\<lparr>count := (count_binary c div 1 mod 10) + (count_binary c div 10 mod 10) * 2 ^ 4
           + (count_binary c div 100 mod 10) * 2 ^ 8 + (count_binary c div 1000 mod 10) * 2 ^ 12\<rparr>
     else c\<lparr>count := count_binary c\<rparr>)"

definition set_binary_to_count :: "counter_type \<Rightarrow> counter_type" where
  "set_binary_to_count c =
    (if bcd_mode c then
       c\<lparr>count_binary := 1 * (count c div 2 ^ 0 mod 16) + 10 * (count c div 2 ^ 4 mod 16)
           + 100 * (count c div 2 ^ 8 mod 16) + 1000 * (count c div 2 ^ 12 mod 16)\<rparr>
     else c\<lparr>count_binary := count c\<rparr>)"

definition set_count :: "nat \<Rightarrow> counter_type \<Rightarrow> counter_type" where
  "set_count data c = set_binary_to_count (c\<lparr>count := data mod 0x10000\<rparr>)"

definition decrement :: "counter_type \<Rightarrow> counter_type" where
  "decrement c =
    (if count c = 0 then
       (if bcd_mode c then c\<lparr>count := 0x9999, count_binary := 9999\<rparr>
        else c\<lparr>count := 0xFFFF, count_binary := 0xFFFF\<rparr>)
     else set_count_to_binary (c\<lparr>count_binary := count_binary c - 1\<rparr>))"

function (sequential) decrement_multiple :: "counter_type \<Rightarrow> nat \<Rightarrow> counter_type" where
  "decrement_multiple c cycles =
    (if cycles > 0 then
       (if cycles \<le> count_binary c then
          decrement_multiple (set_count_to_binary (c\<lparr>count_binary := count_binary c - cycles\<rparr>)) 0
        else
          decrement_multiple (decrement (set_count_to_binary (c\<lparr>count_binary := 0\<rparr>)))
            (cycles - (count_binary c + 1)))
     else c)"
  by pat_completeness auto
termination by (relation "measure snd") auto

declare decrement_multiple.simps [simp del]

text \<open>The value of \<open>init\<close> for one counter; the latches hold whatever they held.\<close>

definition init_counter :: "counter_type \<Rightarrow> counter_type" where
  "init_counter c = c\<lparr>read_state := LSByte, write_state := LSByte, GATE := True, OUTpin := True,
     triggerGATE := False, mode := 4, first_pass := False, bcd_mode := False, count := 0, count_binary := 0,
     state_bit_1 := False, state_bit_2 := False, null_count := False, rw_mode := 1, count_written := True,
     count_LSB_latched := False, count_MSB_latched := False, status_latched := False,
     next_change_time := 0, out_handler := False\<rparr>"

definition pit_init :: "pit_82C54 \<Rightarrow> pit_82C54" where
  "pit_init p = p\<lparr>counter := (\<lambda>i. if i < 3 then init_counter (counter p i) else counter p i)\<rparr>"

section \<open>Clock\<close>

text \<open>\<open>(x - 1) & 0xFFFF\<close> on 32-bit unsigned values.\<close>

definition pred16 :: "nat \<Rightarrow> nat" where
  "pred16 x = (x + 0xFFFF) mod 0x10000"

definition time_of_count :: "counter_type \<Rightarrow> counter_type" where
  "time_of_count c =
    c\<lparr>next_change_time := (if count_binary c = 0 then 1 else count_binary c mod 0x10000)\<rparr>"

definition clock_mode0 :: "counter_type \<Rightarrow> counter_type" where
  "clock_mode0 c =
    (let c = (if count_written c then
           (if null_count c then
              (let c = set_count (unat (inlatch c)) c;
                   c = (if GATE c then time_of_count c else c\<lparr>next_change_time := 0\<rparr>)
               in c\<lparr>null_count := False\<rparr>)
            else if GATE c \<and> write_state c \<noteq> MSByte_multiple then
              (let c = decrement c
               in if \<not> OUTpin c then
                    (let c = c\<lparr>next_change_time := count_binary c mod 0x10000\<rparr>
                     in if count c = 0 then set_OUT True c else c)
                  else c\<lparr>next_change_time := 0\<rparr>)
            else c\<lparr>next_change_time := 0\<rparr>)
         else c\<lparr>next_change_time := 0\<rparr>)
     in c\<lparr>triggerGATE := False\<rparr>)"

definition clock_mode1 :: "counter_type \<Rightarrow> counter_type" where
  "clock_mode1 c =
    (let c = (if count_written c then
           (if triggerGATE c then
              (let c = set_count (unat (inlatch c)) c;
                   c = time_of_count c;
                   c = c\<lparr>null_count := False\<rparr>
               in set_OUT False c)
            else
              (let c = decrement c
               in if \<not> OUTpin c then
                    (let c = time_of_count c in if count c = 0 then set_OUT True c else c)
                  else c\<lparr>next_change_time := 0\<rparr>))
         else c\<lparr>next_change_time := 0\<rparr>)
     in c\<lparr>triggerGATE := False\<rparr>)"

definition clock_mode2 :: "counter_type \<Rightarrow> counter_type" where
  "clock_mode2 c =
    (let c = (if count_written c then
           (if triggerGATE c \<or> first_pass c then
              (let c = set_count (unat (inlatch c)) c;
                   c = c\<lparr>next_change_time := pred16 (count_binary c)\<rparr>;
                   c = c\<lparr>null_count := False\<rparr>;
                   c = (if \<not> OUTpin c then set_OUT True c else c)
               in c\<lparr>first_pass := False\<rparr>)
            else if GATE c then
              (let c = decrement c;
                   c = c\<lparr>next_change_time := pred16 (count_binary c)\<rparr>
               in if count c = 1 then (set_OUT False (c\<lparr>next_change_time := 1\<rparr>))\<lparr>first_pass := True\<rparr>
                  else c)
            else c\<lparr>next_change_time := 0\<rparr>)
         else c\<lparr>next_change_time := 0\<rparr>)
     in c\<lparr>triggerGATE := False\<rparr>)"

definition clock_mode3 :: "counter_type \<Rightarrow> counter_type" where
  "clock_mode3 c =
    (let c = (if count_written c then
           (if (triggerGATE c \<or> first_pass c \<or> state_bit_2 c) \<and> GATE c then
              (let c = set_count (unat (inlatch c AND 0xFFFE)) c;
                   c = c\<lparr>state_bit_1 := bit (inlatch c) 0\<rparr>;
                   half = count_binary c div 2;
                   c = (if \<not> OUTpin c \<or> \<not> state_bit_1 c then
                          c\<lparr>next_change_time := (if half = 1 then 1 else pred16 half)\<rparr>
                        else c\<lparr>next_change_time := (if half = 0 then 1 else half mod 0x10000)\<rparr>);
                   c = c\<lparr>null_count := False\<rparr>;
                   c = (if \<not> OUTpin c then set_OUT True c
                        else if OUTpin c \<and> \<not> first_pass c then set_OUT False c else c)
               in c\<lparr>state_bit_2 := False, first_pass := False\<rparr>)
            else if GATE c then
              (let c = decrement (decrement c);
                   c = (if \<not> OUTpin c \<or> \<not> state_bit_1 c
                        then c\<lparr>next_change_time := pred16 (count_binary c div 2)\<rparr>
                        else c\<lparr>next_change_time := count_binary c div 2 mod 0x10000\<rparr>);
                   c = (if count c = 0 then c\<lparr>state_bit_2 := True, next_change_time := 1\<rparr> else c)
               in if count c = 2 \<and> (\<not> OUTpin c \<or> \<not> state_bit_1 c)
                  then c\<lparr>state_bit_2 := True, next_change_time := 1\<rparr> else c)
            else c\<lparr>next_change_time := 0\<rparr>)
         else c\<lparr>next_change_time := 0\<rparr>)
     in c\<lparr>triggerGATE := False\<rparr>)"

text \<open>Modes 4 and 5 end in the same countdown to a strobe.\<close>

definition strobe_countdown :: "counter_type \<Rightarrow> counter_type" where
  "strobe_countdown c =
    (let c = decrement c
     in if first_pass c then
          (let c = c\<lparr>next_change_time := count_binary c mod 0x10000\<rparr>
           in if count c = 0 then (set_OUT False c)\<lparr>next_change_time := 1, first_pass := False\<rparr> else c)
        else c\<lparr>next_change_time := 0\<rparr>)"

definition clock_mode4 :: "counter_type \<Rightarrow> counter_type" where
  "clock_mode4 c =
    (let c = (if count_written c then
           (let c = (if \<not> OUTpin c then set_OUT True c else c)
            in if null_count c then
                 (let c = set_count (unat (inlatch c)) c;
                      c = (if GATE c then time_of_count c else c\<lparr>next_change_time := 0\<rparr>)
                  in c\<lparr>null_count := False, first_pass := True\<rparr>)
               else if GATE c then strobe_countdown c
               else c\<lparr>next_change_time := 0\<rparr>)
         else c\<lparr>next_change_time := 0\<rparr>)
     in c\<lparr>triggerGATE := False\<rparr>)"

definition clock_mode5 :: "counter_type \<Rightarrow> counter_type" where
  "clock_mode5 c =
    (let c = (if count_written c then
           (let c = (if \<not> OUTpin c then set_OUT True c else c)
            in if triggerGATE c then
                 (let c = set_count (unat (inlatch c)) c;
                      c = time_of_count c
                  in c\<lparr>null_count := False, first_pass := True\<rparr>)
               else strobe_countdown c)
         else c\<lparr>next_change_time := 0\<rparr>)
     in c\<lparr>triggerGATE := False\<rparr>)"

definition clock_counter :: "counter_type \<Rightarrow> counter_type" where
  "clock_counter c =
    (if mode c = 0 then clock_mode0 c else if mode c = 1 then clock_mode1 c
     else if mode c = 2 then clock_mode2 c else if mode c = 3 then clock_mode3 c
     else if mode c = 4 then clock_mode4 c else if mode c = 5 then clock_mode5 c
     else c\<lparr>next_change_time := 0, triggerGATE := False\<rparr>)"

definition clock :: "nat \<Rightarrow> pit_82C54 \<Rightarrow> pit_82C54" where
  "clock cnum p = (if cnum > MAX_COUNTER then p else upd_counter cnum clock_counter p)"

text \<open>What happens to the count over a stretch of cycles in which nothing else changes.\<close>

definition idle_cycles :: "counter_type \<Rightarrow> nat \<Rightarrow> counter_type" where
  "idle_cycles c cycles =
    (if count_written c then
       (if mode c = 0 then
          (if GATE c \<and> write_state c \<noteq> MSByte_multiple then decrement_multiple c cycles else c)
        else if mode c = 1 then decrement_multiple c cycles
        else if mode c = 2 then (if \<not> first_pass c \<and> GATE c then decrement_multiple c cycles else c)
        else if mode c = 3 then
          (if \<not> first_pass c \<and> GATE c then decrement_multiple c (2 * cycles mod 2 ^ 32) else c)
        else if mode c = 4 then (if GATE c then decrement_multiple c cycles else c)
        else if mode c = 5 then decrement_multiple c cycles
        else c)
     else c)"

definition cycle_steps :: "counter_type \<Rightarrow> nat \<Rightarrow> nat" where
  "cycle_steps c cycles = (if mode c = 3 then cycles * 2 mod 2 ^ 32 else cycles)"

function (sequential) clock_multiple_counter :: "counter_type \<Rightarrow> nat \<Rightarrow> counter_type" where
  "clock_multiple_counter c cycles =
    (if cycles > 0 then
       (if next_change_time c = 0 then clock_multiple_counter (idle_cycles c cycles) 0
        else if mode c \<le> 5 then
          (if next_change_time c > cycles then
             clock_multiple_counter
               ((decrement_multiple c (cycle_steps c cycles))\<lparr>next_change_time := next_change_time c - cycles\<rparr>) 0
           else
             clock_multiple_counter (clock_counter (decrement_multiple c (cycle_steps c (next_change_time c - 1))))
               (cycles - next_change_time c))
        else clock_multiple_counter c 0)
     else c)"
  by pat_completeness auto
termination by (relation "measure snd") auto

declare clock_multiple_counter.simps [simp del]

definition clock_multiple :: "nat \<Rightarrow> nat \<Rightarrow> pit_82C54 \<Rightarrow> pit_82C54" where
  "clock_multiple cnum cycles p =
    (if cnum > MAX_COUNTER then p else upd_counter cnum (\<lambda>c. clock_multiple_counter c cycles) p)"

definition clock_all :: "nat \<Rightarrow> pit_82C54 \<Rightarrow> pit_82C54" where
  "clock_all cycles p = clock_multiple 2 cycles (clock_multiple 1 cycles (clock_multiple 0 cycles p))"

section \<open>Port accesses\<close>

definition read_counter :: "counter_type \<Rightarrow> Bit8u \<times> counter_type" where
  "read_counter c =
    (if status_latched c then
       (if count_MSB_latched c \<and> read_state c = MSByte_multiple then (0, c)
        else (status_latch c, c\<lparr>status_latched := False\<rparr>))
     else if count_LSB_latched c then
       (let c = (if read_state c = LSByte_multiple then c\<lparr>read_state := MSByte_multiple\<rparr> else c);
            c = c\<lparr>count_LSB_latched := False\<rparr>
        in (ucast (outlatch c AND 0xFF), c))
     else if count_MSB_latched c then
       (let c = (if read_state c = MSByte_multiple then c\<lparr>read_state := LSByte_multiple\<rparr> else c);
            c = c\<lparr>count_MSB_latched := False\<rparr>
        in (ucast (drop_bit 8 (outlatch c) AND 0xFF), c))
     else if read_state c = LSByte \<or> read_state c = LSByte_multiple then
       (of_nat (count c mod 0x100),
        if read_state c = LSByte_multiple then c\<lparr>read_state := MSByte_multiple\<rparr> else c)
     else
       (of_nat (count c div 2 ^ 8 mod 0x100),
        if read_state c = MSByte_multiple then c\<lparr>read_state := LSByte_multiple\<rparr> else c))"

definition pit_read :: "nat \<Rightarrow> pit_82C54 \<Rightarrow> Bit8u \<times> pit_82C54" where
  "pit_read address p =
    (if address > MAX_ADDRESS then (0, p)
     else if address = CONTROL_ADDRESS then (0, p)
     else (fst (read_counter (counter p address)), upd_counter address (\<lambda>c. snd (read_counter c)) p))"

definition latch_status :: "counter_type \<Rightarrow> counter_type" where
  "latch_status c =
    (if status_latched c then c
     else c\<lparr>status_latch := push_bit 7 (of_bool (OUTpin c)) OR push_bit 6 (of_bool (null_count c))
              OR push_bit 4 (of_nat (rw_mode c) AND 3) OR push_bit 1 (of_nat (mode c) AND 7) OR of_bool (bcd_mode c),
            status_latched := True\<rparr>)"

definition read_back :: "Bit8u \<Rightarrow> counter_type \<Rightarrow> counter_type" where
  "read_back cw c =
    (let c = (if \<not> bit cw 5 then latch_counter c else c)
     in if \<not> bit cw 4 then latch_status c else c)"

definition program_counter :: "nat \<Rightarrow> nat \<Rightarrow> bool \<Rightarrow> counter_type \<Rightarrow> counter_type" where
  "program_counter RW M BCD c =
    (let c = c\<lparr>null_count := True, count_LSB_latched := False, count_MSB_latched := False,
               status_latched := False, inlatch := 0, count_written := False, first_pass := True,
               rw_mode := RW, bcd_mode := BCD, mode := (if M > 5 then M mod 4 else M)\<rparr>;
         c = (if RW = 1 then c\<lparr>read_state := LSByte, write_state := LSByte\<rparr>
              else if RW = 2 then c\<lparr>read_state := MSByte, write_state := MSByte\<rparr>
              else if RW = 3 then c\<lparr>read_state := LSByte_multiple, write_state := LSByte_multiple\<rparr>
              else c);
         c = (if M \<noteq> 0 then set_OUT True c else set_OUT False c)
     in c\<lparr>next_change_time := 0\<rparr>)"

definition write_control :: "Bit8u \<Rightarrow> pit_82C54 \<Rightarrow> pit_82C54" where
  "write_control data p =
    (let p = p\<lparr>controlword := data\<rparr>;
         SC = unat (drop_bit 6 data AND 3);
         RW = unat (drop_bit 4 data AND 3);
         M = unat (drop_bit 1 data AND 7);
         BCD = bit data 0
     in if SC = 3 then
          fold (\<lambda>i p. if bit M i then upd_counter i (read_back data) p else p) [0, 1, 2] p
        else if RW = 0 then upd_counter SC latch_counter p
        else upd_counter SC (program_counter RW M BCD) p)"

definition write_count :: "Bit8u \<Rightarrow> counter_type \<Rightarrow> counter_type" where
  "write_count data c =
    (let c = (case write_state c of
           LSByte_multiple \<Rightarrow> c\<lparr>inlatch := ucast data, write_state := MSByte_multiple, count_written := False\<rparr>
         | LSByte \<Rightarrow> c\<lparr>inlatch := ucast data, count_written := True\<rparr>
         | MSByte_multiple \<Rightarrow> c\<lparr>write_state := LSByte_multiple, inlatch := inlatch c OR push_bit 8 (ucast data),
                               count_written := True\<rparr>
         | MSByte \<Rightarrow> c\<lparr>inlatch := push_bit 8 (ucast data), count_written := True\<rparr>);
         c = (if count_written c then set_count (unat (inlatch c)) (c\<lparr>null_count := True\<rparr>) else c)
     in if mode c = 0 then (if count_written c then set_OUT False c else c)\<lparr>next_change_time := 1\<rparr>
        else if mode c = 1 \<or> mode c = 5 then (if triggerGATE c then c\<lparr>next_change_time := 1\<rparr> else c)
        else if mode c = 6 \<or> mode c = 2 \<or> mode c = 7 \<or> mode c = 3 \<or> mode c = 4 then c\<lparr>next_change_time := 1\<rparr>
        else c)"

definition pit_write :: "nat \<Rightarrow> Bit8u \<Rightarrow> pit_82C54 \<Rightarrow> pit_82C54" where
  "pit_write address data p =
    (if address > MAX_ADDRESS then p
     else if address = CONTROL_ADDRESS then write_control data p
     else upd_counter address (write_count data) p)"

section \<open>Gate and outputs\<close>

definition set_GATE_counter :: "bool \<Rightarrow> counter_type \<Rightarrow> counter_type" where
  "set_GATE_counter data c =
    (if \<not> ((GATE c \<and> data) \<or> \<not> (GATE c \<or> data)) then
       (let c = c\<lparr>GATE := data\<rparr>;
            c = (if GATE c then c\<lparr>triggerGATE := True\<rparr> else c)
        in if mode c = 0 then
             (if data \<and> count_written c then
                (if null_count c then c\<lparr>next_change_time := 1\<rparr>
                 else if \<not> OUTpin c \<and> write_state c \<noteq> MSByte_multiple then time_of_count c
                 else c\<lparr>next_change_time := 0\<rparr>)
              else if null_count c then c\<lparr>next_change_time := 1\<rparr>
              else c\<lparr>next_change_time := 0\<rparr>)
           else if mode c = 1 then (if data \<and> count_written c then c\<lparr>next_change_time := 1\<rparr> else c)
           else if mode c = 2 then
             (if \<not> data then (set_OUT True c)\<lparr>next_change_time := 0\<rparr>
              else if count_written c then c\<lparr>next_change_time := 1\<rparr>
              else c\<lparr>next_change_time := 0\<rparr>)
           else if mode c = 3 then
             (if \<not> data then (set_OUT True c)\<lparr>first_pass := True, next_change_time := 0\<rparr>
              else if count_written c then c\<lparr>next_change_time := 1\<rparr>
              else c\<lparr>next_change_time := 0\<rparr>)
           else if mode c = 4 then
             (if \<not> OUTpin c \<or> null_count c then c\<lparr>next_change_time := 1\<rparr>
              else if data \<and> count_written c then
                (if first_pass c then time_of_count c else c\<lparr>next_change_time := 0\<rparr>)
              else c\<lparr>next_change_time := 0\<rparr>)
           else if mode c = 5 then (if data \<and> count_written c then c\<lparr>next_change_time := 1\<rparr> else c)
           else c)
     else c)"

definition set_GATE :: "nat \<Rightarrow> bool \<Rightarrow> pit_82C54 \<Rightarrow> pit_82C54" where
  "set_GATE cnum data p = (if cnum > MAX_COUNTER then p else upd_counter cnum (set_GATE_counter data) p)"

definition read_OUT :: "nat \<Rightarrow> pit_82C54 \<Rightarrow> bool" where
  "read_OUT cnum p = (if cnum > MAX_COUNTER then False else OUTpin (counter p cnum))"

definition read_GATE :: "nat \<Rightarrow> pit_82C54 \<Rightarrow> bool" where
  "read_GATE cnum p = (if cnum > MAX_COUNTER then False else GATE (counter p cnum))"

definition get_clock_event_time :: "nat \<Rightarrow> pit_82C54 \<Rightarrow> nat" where
  "get_clock_event_time cnum p = (if cnum > MAX_COUNTER then 0 else next_change_time (counter p cnum))"

definition get_next_event_time :: "pit_82C54 \<Rightarrow> nat" where
  "get_next_event_time p =
    (let time0 = get_clock_event_time 0 p;
         time1 = get_clock_event_time 1 p;
         time2 = get_clock_event_time 2 p;
         out = time0;
         out = (if time1 \<noteq> 0 \<and> (out = 0 \<or> time1 < out) then time1 else out)
     in if time2 \<noteq> 0 \<and> (out = 0 \<or> time2 < out) then time2 else out)"

definition get_inlatch :: "nat \<Rightarrow> pit_82C54 \<Rightarrow> Bit16u" where
  "get_inlatch countnum p = inlatch (counter p countnum)"

definition new_count_ready :: "nat \<Rightarrow> pit_82C54 \<Rightarrow> bool" where
  "new_count_ready countnum p = (write_state (counter p countnum) \<noteq> MSByte_multiple)"

definition set_OUT_handler :: "nat \<Rightarrow> bool \<Rightarrow> pit_82C54 \<Rightarrow> pit_82C54" where
  "set_OUT_handler counternum outh p = upd_counter counternum (\<lambda>c. c\<lparr>out_handler := outh\<rparr>) p"

end
