(* ===== verification/PitProps.thy ===== *)
theory PitProps
  imports Pit
begin

text \<open>
  Correctness of the interval timer: the two forms of the count agree, skipping cycles agrees with
  clocking one by one, the period of the rate generator, programming, latching and reading counts.
\<close>

section \<open>The two forms of the count\<close>

definition count_limit :: "counter_type \<Rightarrow> nat" where
  "count_limit c = (if bcd_mode c then 9999 else 0xFFFF)"

definition coded :: "bool \<Rightarrow> nat \<Rightarrow> nat" where
  "coded bcd b = (if bcd then (b mod 10) + (b div 10 mod 10) * 2 ^ 4 + (b div 100 mod 10) * 2 ^ 8 + (b div 1000 mod 10) * 2 ^ 12
     else b)"

lemma set_count_to_binary_coded: "set_count_to_binary c = c\<lparr>count := coded (bcd_mode c) (count_binary c)\<rparr>"
  by (simp add: set_count_to_binary_def coded_def)

text \<open>
  The displayed count is the coded form of the binary one. A BCD count written with digits above 9 may
  exceed the limit once; it stays below twice ten thousand.
\<close>

definition count_ok :: "counter_type \<Rightarrow> bool" where
  "count_ok c \<longleftrightarrow> count c = coded (bcd_mode c) (count_binary c)
    \<and> count_binary c < (if bcd_mode c then 20000 else 0x10000)"

lemma coded_zero_iff: "b < (if bcd then 20000 else 0x10000) \<Longrightarrow> coded bcd b = 0 \<longleftrightarrow> b = 0 \<or> bcd \<and> b = 10000"
proof -
  assume b: "b < (if bcd then 20000 else 0x10000)"
  define q1 q2 q3 where "q1 = b div 10" and "q2 = q1 div 10" and "q3 = q2 div 10"
  have q: "b div 100 = q2" "b div 1000 = q3" by (simp_all add: q1_def q2_def q3_def div_mult2_eq [symmetric])
  have "b = 10000 * (q3 div 10)" if "b mod 10 = 0" "q1 mod 10 = 0" "q2 mod 10 = 0" "q3 mod 10 = 0"
    using that div_mult_mod_eq [of b 10] div_mult_mod_eq [of q1 10] div_mult_mod_eq [of q2 10] div_mult_mod_eq [of q3 10]
    by (simp add: q1_def [symmetric] q2_def [symmetric] q3_def [symmetric])
  then have "b = 0 \<or> b = 10000" if "coded bcd b = 0" "bcd"
    using that b by (auto simp: coded_def q q1_def [symmetric])
  then show ?thesis by (cases bcd) (auto simp: coded_def)
qed

lemma decrement_binary:
  assumes "count_ok c"
  shows "decrement c =
    set_count_to_binary (c\<lparr>count_binary := (if count_binary c = 0 then count_limit c else count_binary c - 1)\<rparr>)"
proof -
  have z: "count c = 0 \<longleftrightarrow> count_binary c = 0 \<or> bcd_mode c \<and> count_binary c = 10000"
    using assms coded_zero_iff [of "count_binary c" "bcd_mode c"] by (simp add: count_ok_def)
  have k: "coded True 9999 = 0x9999" "coded False n = n" for n by (simp_all add: coded_def)
  show ?thesis
    by (cases "bcd_mode c") (auto simp: decrement_def z set_count_to_binary_coded count_limit_def k)
qed

lemma count_ok_update:
  "b < (if bcd_mode c then 20000 else 0x10000) \<Longrightarrow> count_ok (set_count_to_binary (c\<lparr>count_binary := b\<rparr>))"
  by (simp add: count_ok_def set_count_to_binary_coded)

lemma count_ok_decrement: "count_ok c \<Longrightarrow> count_ok (decrement c)"
  unfolding decrement_binary by (rule count_ok_update) (auto simp: count_ok_def count_limit_def)

lemma count_ok_self: "count_ok c \<Longrightarrow> set_count_to_binary c = c"
  by (simp add: count_ok_def set_count_to_binary_coded)

lemma decrement_fields [simp]:
  "bcd_mode (decrement c) = bcd_mode c" "bcd_mode (set_count_to_binary c) = bcd_mode c"
  "count_binary (set_count_to_binary c) = count_binary c"
  by (simp_all add: decrement_def set_count_to_binary_coded)

lemma decrement_below:
  "count_ok c \<Longrightarrow> n \<le> count_binary c \<Longrightarrow>
    (decrement ^^ n) c = set_count_to_binary (c\<lparr>count_binary := count_binary c - n\<rparr>)"
proof (induction n)
  case 0
  then show ?case by (simp add: count_ok_self)
next
  case (Suc n)
  let ?d = "set_count_to_binary (c\<lparr>count_binary := count_binary c - n\<rparr>)"
  have "count_ok ?d" using Suc.prems by (intro count_ok_update) (auto simp: count_ok_def)
  then have "decrement ?d = set_count_to_binary (c\<lparr>count_binary := count_binary c - Suc n\<rparr>)"
    using Suc.prems by (subst decrement_binary) (simp_all add: set_count_to_binary_coded)
  with Suc show ?case by simp
qed

lemma decrement_multiple_funpow:
  assumes "count_ok c"
  shows "decrement_multiple c n = (decrement ^^ n) c"
  using assms
proof (induction c n rule: decrement_multiple.induct)
  case (1 c n)
  consider "n = 0" | "0 < n" "n \<le> count_binary c" | "0 < n" "count_binary c < n" by linarith
  then show ?case
  proof cases
    case 2
    then show ?thesis
      using 1 by (simp add: decrement_multiple.simps [of c] decrement_multiple.simps [of _ 0] decrement_below)
  next
    case 3
    let ?b = "count_binary c"
    let ?d = "decrement (set_count_to_binary (c\<lparr>count_binary := 0\<rparr>))"
    have d: "?d = (decrement ^^ Suc ?b) c" using decrement_below [of c ?b] 1 by simp
    have "count_ok ?d" by (intro count_ok_decrement count_ok_update) (simp split: if_splits)
    then have "decrement_multiple c n = (decrement ^^ (n - (?b + 1))) ?d"
      using 1 3 by (simp add: decrement_multiple.simps [of c])
    also have "\<dots> = (decrement ^^ ((n - (?b + 1)) + Suc ?b)) c" by (simp only: d funpow_add comp_apply)
    also have "(n - (?b + 1)) + Suc ?b = n" using 3 by simp
    finally show ?thesis .
  qed (simp add: decrement_multiple.simps [of c])
qed

text \<open>Counting down several cycles at once gives the same counter as counting them down one by one, in
  binary and in BCD mode and through any number of wrap-arounds.\<close>

theorem decrement_multiple_iterates:
  assumes "count_ok c"
  shows "decrement_multiple c n = (decrement ^^ n) c"
  using assms by (rule decrement_multiple_funpow)

text \<open>A counter after \<open>init\<close>, for examples.\<close>

definition sample_counter :: counter_type where
  "sample_counter = init_counter \<lparr>GATE = False, OUTpin = False, count = 0, outlatch = 0, inlatch = 0,
     status_latch = 0, rw_mode = 0, mode = 0, bcd_mode = False, null_count = False, count_LSB_latched = False,
     count_MSB_latched = False, status_latched = False, count_binary = 0, triggerGATE = False,
     write_state = LSByte, read_state = LSByte, count_written = False, first_pass = False,
     state_bit_1 = False, state_bit_2 = False, next_change_time = 0, out_handler = False, out_calls = []\<rparr>"

theorem decrement_multiple_iterates_witness:
  "let c = set_count 0x0012 (sample_counter\<lparr>bcd_mode := True\<rparr>)
   in count_ok c \<and> count ((decrement ^^ 3) c) = 0x0009"
proof -
  let ?c = "set_count 0x0012 (sample_counter\<lparr>bcd_mode := True\<rparr>)"
  have ok: "count_ok ?c"
    by (simp add: count_ok_def coded_def set_count_def set_binary_to_count_def sample_counter_def init_counter_def)
  have "count (decrement_multiple ?c 3) = 0x0009"
    by (simp add: set_count_def set_binary_to_count_def sample_counter_def init_counter_def
        decrement_multiple.simps set_count_to_binary_def)
  with ok show ?thesis using decrement_multiple_iterates [OF ok, of 3] by (simp only: Let_def)
qed

section \<open>The rate generator\<close>

text \<open>The value the next load puts into the counter, and the length of one period; a count of zero stands
  for the largest one.\<close>

definition reload :: "counter_type \<Rightarrow> nat" where
  "reload c = count_binary (set_count (unat (inlatch c)) c)"

definition period :: "counter_type \<Rightarrow> nat" where
  "period c = (if reload c = 0 then count_limit c + 1 else reload c)"

text \<open>
  Mode 2 with its gate open is either about to load, in the clock in which its output is low, or counting
  down to one. In BCD mode the count must be written with decimal digits and not be zero.
\<close>

definition rate_program :: "counter_type \<Rightarrow> bool" where
  "rate_program c \<longleftrightarrow> mode c = 2 \<and> count_written c \<and> GATE c \<and> \<not> triggerGATE c \<and> reload c \<noteq> 1
    \<and> reload c \<le> count_limit c \<and> (bcd_mode c \<longrightarrow> reload c \<noteq> 0)
    \<and> coded (bcd_mode c) (reload c) = unat (inlatch c)"

definition rate_counting :: "counter_type \<Rightarrow> bool" where
  "rate_counting c \<longleftrightarrow> rate_program c \<and> \<not> first_pass c \<and> count_ok c \<and> count_binary c \<noteq> 1
    \<and> count_binary c \<le> count_limit c \<and> (bcd_mode c \<longrightarrow> count_binary c \<noteq> 0)
    \<and> next_change_time c = pred16 (count_binary c)"

definition rate_loading :: "counter_type \<Rightarrow> bool" where
  "rate_loading c \<longleftrightarrow> rate_program c \<and> first_pass c \<and> next_change_time c = 1"

lemma nibbles_one: "x + y * 16 + z * 256 + w * 4096 = (1::nat) \<Longrightarrow> x = 1 \<and> y = 0 \<and> z = 0 \<and> w = 0"
  by (cases y; cases z; cases w; simp)

lemma coded_one_iff: "b \<le> 9999 \<or> \<not> bcd \<Longrightarrow> coded bcd b = 1 \<longleftrightarrow> b = 1"
proof -
  assume b: "b \<le> 9999 \<or> \<not> bcd"
  define q1 q2 q3 where "q1 = b div 10" and "q2 = q1 div 10" and "q3 = q2 div 10"
  have q: "b div 100 = q2" "b div 1000 = q3" by (simp_all add: q1_def q2_def q3_def div_mult2_eq [symmetric])
  have "b = 1 + 10000 * (q3 div 10)" if "b mod 10 = 1" "q1 mod 10 = 0" "q2 mod 10 = 0" "q3 mod 10 = 0"
    using that div_mult_mod_eq [of b 10] div_mult_mod_eq [of q1 10] div_mult_mod_eq [of q2 10] div_mult_mod_eq [of q3 10]
    by (simp add: q1_def [symmetric] q2_def [symmetric] q3_def [symmetric])
  moreover have "b mod 10 = 1 \<and> q1 mod 10 = 0 \<and> q2 mod 10 = 0 \<and> q3 mod 10 = 0" if "coded bcd b = 1" bcd
  proof -
    have "b mod 10 + (q1 mod 10) * 16 + (q2 mod 10) * 256 + (q3 mod 10) * 4096 = 1"
      using that by (simp add: coded_def q q1_def [symmetric])
    then show ?thesis by (rule nibbles_one)
  qed
  ultimately have "b = 1" if "coded bcd b = 1" bcd using that b by fastforce
  then show ?thesis by (cases bcd) (auto simp: coded_def)
qed

lemma rate_program_cong:
  "inlatch d = inlatch c \<Longrightarrow> bcd_mode d = bcd_mode c \<Longrightarrow> reload d = reload c"
  "bcd_mode d = bcd_mode c \<Longrightarrow> count_limit d = count_limit c"
  by (simp_all add: reload_def set_count_def set_binary_to_count_def count_limit_def)

lemma pred16_small: "b \<noteq> 0 \<Longrightarrow> b \<le> 0xFFFF \<Longrightarrow> pred16 b = b - 1" "pred16 0 = 0xFFFF"
  by (cases b) (simp_all add: pred16_def)

lemma time_commutes:
  "set_count_to_binary (c\<lparr>next_change_time := t\<rparr>) = (set_count_to_binary c)\<lparr>next_change_time := t\<rparr>"
  "set_binary_to_count (c\<lparr>next_change_time := t\<rparr>) = (set_binary_to_count c)\<lparr>next_change_time := t\<rparr>"
  "set_OUT x (c\<lparr>next_change_time := t\<rparr>) = (set_OUT x c)\<lparr>next_change_time := t\<rparr>"
  "set_OUT x (c\<lparr>next_change_time := t, null_count := b\<rparr>) = (set_OUT x (c\<lparr>null_count := b\<rparr>))\<lparr>next_change_time := t\<rparr>"
  by (simp_all add: set_count_to_binary_def set_binary_to_count_def set_OUT_def Let_def)

lemma time_commutes_count:
  "set_count n (c\<lparr>next_change_time := t\<rparr>) = (set_count n c)\<lparr>next_change_time := t\<rparr>"
  "decrement (c\<lparr>next_change_time := t\<rparr>) = (decrement c)\<lparr>next_change_time := t\<rparr>"
  by (simp_all add: set_count_def set_binary_to_count_def decrement_def set_count_to_binary_def)

lemma clock_mode2_cases:
  "clock_mode2 c =
    (if \<not> count_written c then c\<lparr>next_change_time := 0, triggerGATE := False\<rparr>
     else if triggerGATE c \<or> first_pass c then
       (let d = set_count (unat (inlatch c)) c
        in (set_OUT True (d\<lparr>null_count := False\<rparr>))\<lparr>next_change_time := pred16 (count_binary d), first_pass := False, triggerGATE := False\<rparr>)
     else if GATE c then
       (let d = decrement c
        in if count d = 1 then (set_OUT False d)\<lparr>next_change_time := 1, first_pass := True, triggerGATE := False\<rparr>
           else d\<lparr>next_change_time := pred16 (count_binary d), triggerGATE := False\<rparr>)
     else c\<lparr>next_change_time := 0, triggerGATE := False\<rparr>)"
  by (simp add: clock_mode2_def Let_def time_commutes set_OUT_def)

lemma clock_counter_time:
  assumes "mode c = 2"
  shows "clock_counter (c\<lparr>next_change_time := t\<rparr>) = clock_counter c"
  using assms by (simp add: clock_counter_def clock_mode2_cases Let_def time_commutes time_commutes_count)

lemma pred16_limit: "b \<le> count_limit c \<Longrightarrow> b \<noteq> 0 \<Longrightarrow> pred16 b = b - 1"
  by (rule pred16_small) (auto simp: count_limit_def split: if_splits)

definition count_down :: "counter_type \<Rightarrow> nat \<Rightarrow> counter_type" where
  "count_down c b = (set_count_to_binary (c\<lparr>count_binary := b\<rparr>))\<lparr>next_change_time := pred16 b\<rparr>"

definition next_count :: "counter_type \<Rightarrow> nat" where
  "next_count c = (if count_binary c = 0 then count_limit c else count_binary c - 1)"

text \<open>One clock while counting, away from the end of the period and at the end.\<close>

lemma clock_rate_counting:
  assumes "rate_counting c"
  shows "next_count c \<noteq> 1 \<Longrightarrow> clock_counter c = count_down c (next_count c)"
    "next_count c = 1 \<Longrightarrow> clock_counter c =
      (set_OUT False ((count_down c 1)\<lparr>next_change_time := 1\<rparr>))\<lparr>first_pass := True\<rparr>"
proof -
  have b: "next_count c \<le> count_limit c"
    using assms by (auto simp: rate_counting_def next_count_def)
  have d: "decrement c = set_count_to_binary (c\<lparr>count_binary := next_count c\<rparr>)"
    using assms by (simp add: rate_counting_def decrement_binary next_count_def)
  have one: "coded (bcd_mode c) (next_count c) = 1 \<longleftrightarrow> next_count c = 1"
    using b by (intro coded_one_iff) (auto simp: count_limit_def)
  have c: "\<not> triggerGATE c" "\<not> first_pass c" "count_written c" "GATE c" "mode c = 2"
    using assms by (simp_all add: rate_counting_def rate_program_def)
  show "next_count c \<noteq> 1 \<Longrightarrow> clock_counter c = count_down c (next_count c)"
    using one c by (simp add: clock_counter_def clock_mode2_cases Let_def d set_count_to_binary_coded count_down_def)
  show "next_count c = 1 \<Longrightarrow> clock_counter c =
      (set_OUT False ((count_down c 1)\<lparr>next_change_time := 1\<rparr>))\<lparr>first_pass := True\<rparr>"
    using one c by (simp add: clock_counter_def clock_mode2_cases Let_def d set_count_to_binary_coded count_down_def set_OUT_def)
qed

lemma rate_counting_next:
  assumes "rate_counting c" "next_count c \<noteq> 1"
  shows "rate_counting (count_down c (next_count c))"
proof -
  have "next_count c \<le> count_limit c" "bcd_mode c \<longrightarrow> next_count c \<noteq> 0"
    using assms by (auto simp: rate_counting_def next_count_def count_limit_def)
  moreover have "next_count c < (if bcd_mode c then 20000 else 0x10000)"
    using calculation by (auto simp: count_limit_def split: if_splits)
  ultimately show ?thesis
    using assms rate_program_cong [of "count_down c (next_count c)" c]
    by (auto simp: rate_counting_def rate_program_def count_down_def set_count_to_binary_coded count_ok_def)
qed

lemma count_down_down: "count_down (count_down c a) b = count_down c b"
  by (simp add: count_down_def set_count_to_binary_coded)

lemma count_down_self: "rate_counting c \<Longrightarrow> count_down c (count_binary c) = c"
  by (simp add: count_down_def rate_counting_def count_ok_self)

lemma binary_count_down [simp]: "count_binary (count_down c b) = b" "next_change_time (count_down c b) = pred16 b"
  by (simp_all add: count_down_def)

text \<open>The number of clocks left to the pulse is what \<open>next_change_time\<close> holds.\<close>

definition clocks_left :: "counter_type \<Rightarrow> nat" where
  "clocks_left c = (if count_binary c = 0 then count_limit c else count_binary c - 1)"

lemma rate_counting_time:
  assumes "rate_counting c"
  shows "next_change_time c = clocks_left c" "1 \<le> clocks_left c"
proof -
  have b: "count_binary c \<le> count_limit c" "count_binary c \<noteq> 1" "bcd_mode c \<longrightarrow> count_binary c \<noteq> 0"
    "next_change_time c = pred16 (count_binary c)"
    using assms by (simp_all add: rate_counting_def)
  show "next_change_time c = clocks_left c"
    using b pred16_limit [of "count_binary c" c] by (auto simp: clocks_left_def pred16_small count_limit_def)
  show "1 \<le> clocks_left c"
    using b by (auto simp: clocks_left_def count_limit_def)
qed

lemma clock_is_decrement:
  assumes "rate_counting c" "next_count c \<noteq> 1"
  shows "clock_counter c = (decrement c)\<lparr>next_change_time := clocks_left c - 1\<rparr>"
    "rate_counting (clock_counter c)" "clocks_left (clock_counter c) = clocks_left c - 1"
proof -
  have d: "decrement c = set_count_to_binary (c\<lparr>count_binary := next_count c\<rparr>)"
    using assms by (simp add: rate_counting_def decrement_binary next_count_def)
  have n: "next_count c = clocks_left c" "next_count c \<noteq> 0"
    using assms rate_counting_time(2) [OF assms(1)] by (auto simp: next_count_def clocks_left_def)
  have l: "next_count c \<le> count_limit c" using assms by (auto simp: rate_counting_def next_count_def)
  show r: "rate_counting (clock_counter c)"
    using rate_counting_next [OF assms] clock_rate_counting(1) [OF assms] by simp
  show "clock_counter c = (decrement c)\<lparr>next_change_time := clocks_left c - 1\<rparr>"
    using clock_rate_counting(1) [OF assms] pred16_limit [OF l n(2)] n by (simp add: count_down_def d)
  show "clocks_left (clock_counter c) = clocks_left c - 1"
    using clock_rate_counting(1) [OF assms] n by (simp add: clocks_left_def)
qed

lemma counting_run:
  assumes "rate_counting c" "k < clocks_left c"
  shows "(clock_counter ^^ k) c = ((decrement ^^ k) c)\<lparr>next_change_time := clocks_left c - k\<rparr>
    \<and> rate_counting ((clock_counter ^^ k) c) \<and> clocks_left ((clock_counter ^^ k) c) = clocks_left c - k"
  using assms(2)
proof (induction k)
  case 0
  then show ?case using assms rate_counting_time(1) [OF assms(1)] by simp
next
  case (Suc k)
  let ?d = "(clock_counter ^^ k) c"
  have d: "?d = ((decrement ^^ k) c)\<lparr>next_change_time := clocks_left c - k\<rparr>" "rate_counting ?d"
    "clocks_left ?d = clocks_left c - k" using Suc.IH [OF Suc_lessD [OF Suc.prems]] by blast+
  have "next_count ?d \<noteq> 1"
    using d(3) Suc.prems unfolding next_count_def clocks_left_def [of ?d] by simp
  note s = clock_is_decrement [OF d(2) this]
  have "clock_counter ?d = ((decrement ^^ Suc k) c)\<lparr>next_change_time := clocks_left c - Suc k\<rparr>"
    using s(1) d(3) by (subst (asm) (2) d(1)) (simp add: time_commutes_count)
  then show ?case using s(2,3) d(3) by simp
qed

lemmas counting_run_state = counting_run [THEN conjunct1]
  and counting_run_inv = counting_run [THEN conjunct2, THEN conjunct1]
  and counting_run_left = counting_run [THEN conjunct2, THEN conjunct2]

text \<open>The load that starts a period.\<close>

lemma clock_rate_loading:
  assumes "rate_program c" "first_pass c"
  shows "rate_counting (clock_counter c)" "clocks_left (clock_counter c) + 1 = period c"
    "OUTpin (clock_counter c)"
proof -
  let ?d = "set_count (unat (inlatch c)) c"
  have u: "unat (inlatch c) < 0x10000" using unsigned_less [of "inlatch c"] by simp
  have p: "mode c = 2" "count_written c" "GATE c" "reload c \<noteq> 1" "reload c \<le> count_limit c"
    "bcd_mode c \<longrightarrow> reload c \<noteq> 0" "coded (bcd_mode c) (reload c) = unat (inlatch c)"
    using assms(1) by (simp_all add: rate_program_def)
  have d: "?d = c\<lparr>count := unat (inlatch c), count_binary := reload c\<rparr>"
    using u by (simp add: reload_def set_count_def set_binary_to_count_def)
  have c: "clock_counter c = (set_OUT True (c\<lparr>count := unat (inlatch c), count_binary := reload c, null_count := False\<rparr>))
      \<lparr>next_change_time := pred16 (reload c), first_pass := False, triggerGATE := False\<rparr>"
    using assms(2) p by (simp add: clock_counter_def clock_mode2_cases Let_def d)
  then show "OUTpin (clock_counter c)" by (simp add: set_OUT_def Let_def)
  have f: "inlatch (clock_counter c) = inlatch c" "bcd_mode (clock_counter c) = bcd_mode c"
    "count_binary (clock_counter c) = reload c"
    unfolding c by (simp_all add: set_OUT_def Let_def)
  show "clocks_left (clock_counter c) + 1 = period c"
    using f rate_program_cong(2) [OF f(2)] p by (auto simp: clocks_left_def period_def)
  have lim: "reload c < (if bcd_mode c then 20000 else 0x10000)"
    using p by (auto simp: count_limit_def split: if_splits)
  show "rate_counting (clock_counter c)"
    using p lim f rate_program_cong(1) [OF f(1,2)] rate_program_cong(2) [OF f(2)]
    by (simp add: rate_counting_def rate_program_def count_ok_def) (simp add: c set_OUT_def Let_def)
qed

text \<open>The clock that ends a period.\<close>

lemma clock_rate_end:
  assumes "rate_counting c" "clocks_left c = 1"
  shows "clock_counter c = (set_OUT False ((count_down c 1)\<lparr>next_change_time := 1\<rparr>))\<lparr>first_pass := True\<rparr>"
    "rate_loading (clock_counter c)"
proof -
  have "next_count c = 1" using assms(2) by (simp add: next_count_def clocks_left_def)
  from clock_rate_counting(2) [OF assms(1) this]
  show e: "clock_counter c = (set_OUT False ((count_down c 1)\<lparr>next_change_time := 1\<rparr>))\<lparr>first_pass := True\<rparr>" .
  have f: "inlatch (clock_counter c) = inlatch c" "bcd_mode (clock_counter c) = bcd_mode c"
    unfolding e by (simp_all add: set_OUT_def Let_def count_down_def set_count_to_binary_coded)
  show "rate_loading (clock_counter c)"
    using assms(1) f rate_program_cong(1) [OF f(1,2)] rate_program_cong(2) [OF f(2)]
    by (simp add: rate_loading_def rate_counting_def rate_program_def)
      (simp add: e set_OUT_def Let_def count_down_def set_count_to_binary_coded)
qed

lemma decrement_self: "decrement d = d\<lparr>count := count (decrement d), count_binary := count_binary (decrement d)\<rparr>"
  by (simp add: decrement_def set_count_to_binary_def)

lemma decrement_frame:
  "(decrement ^^ k) c = c\<lparr>count := count ((decrement ^^ k) c), count_binary := count_binary ((decrement ^^ k) c)\<rparr>"
proof (induction k)
  case (Suc k)
  define x y where "x = count ((decrement ^^ Suc k) c)" and "y = count_binary ((decrement ^^ Suc k) c)"
  have "(decrement ^^ Suc k) c = ((decrement ^^ k) c)\<lparr>count := x, count_binary := y\<rparr>"
    using decrement_self [of "(decrement ^^ k) c"] by (simp add: x_def y_def)
  also have "\<dots> = c\<lparr>count := x, count_binary := y\<rparr>" by (subst Suc) simp
  finally show ?case by (simp add: x_def y_def)
qed simp

lemma counting_run_frame:
  assumes "rate_counting c" "k < clocks_left c"
  obtains x y where "(clock_counter ^^ k) c = c\<lparr>count := x, count_binary := y, next_change_time := clocks_left c - k\<rparr>"
proof -
  obtain x y where "(decrement ^^ k) c = c\<lparr>count := x, count_binary := y\<rparr>" using decrement_frame [of k c] by blast
  with counting_run [OF assms] that show thesis by auto
qed

text \<open>The state in the clock in which the output is low.\<close>

definition rate_pulse :: "counter_type \<Rightarrow> bool" where
  "rate_pulse c \<longleftrightarrow> rate_loading c \<and> \<not> OUTpin c \<and> \<not> null_count c \<and> count c = 1 \<and> count_binary c = 1"

lemma set_OUT_change:
  "OUTpin c \<noteq> v \<Longrightarrow> set_OUT v c = c\<lparr>OUTpin := v, out_calls := out_calls c @ (if out_handler c then [v] else [])\<rparr>"
  by (simp add: set_OUT_def Let_def)

lemma rate_period_end:
  assumes "rate_pulse c"
  shows "(clock_counter ^^ period c) c = c\<lparr>out_calls := out_calls c @ (if out_handler c then [True, False] else [])\<rparr>"
proof -
  let ?c1 = "clock_counter c"
  have l: "rate_program c" "first_pass c" "\<not> triggerGATE c" "count_written c" "mode c = 2" "next_change_time c = 1"
    "\<not> OUTpin c" "\<not> null_count c" "count c = 1" "count_binary c = 1"
    using assms by (simp_all add: rate_pulse_def rate_loading_def rate_program_def)
  note ld = clock_rate_loading [OF l(1,2)]
  let ?L = "clocks_left ?c1"
  have L: "1 \<le> ?L" "period c = Suc (Suc (?L - 1))"
    using ld(2) rate_counting_time(2) [OF ld(1)] by simp_all
  let ?d = "(clock_counter ^^ (?L - 1)) ?c1"
  have run: "rate_counting ?d" "clocks_left ?d = 1" using counting_run_inv [OF ld(1), of "?L - 1"] counting_run_left [OF ld(1), of "?L - 1"] L by simp_all
  obtain x y where d: "?d = ?c1\<lparr>count := x, count_binary := y, next_change_time := ?L - (?L - 1)\<rparr>"
    using counting_run_frame [OF ld(1), of "?L - 1"] L by fastforce
  define u where "u = (if out_handler c then [True] else [])"
  have "set_count (unat (inlatch c)) c = c\<lparr>count := count (set_count (unat (inlatch c)) c), count_binary := reload c\<rparr>"
    by (simp add: set_count_def set_binary_to_count_def reload_def)
  then obtain v where v: "set_count (unat (inlatch c)) c = c\<lparr>count := v, count_binary := reload c\<rparr>" by blast
  have c1: "?c1 = c\<lparr>count := v, count_binary := reload c, null_count := False, OUTpin := True, out_calls := out_calls c @ u,
      next_change_time := pred16 (reload c), first_pass := False, triggerGATE := False\<rparr>"
    using l by (simp add: clock_counter_def clock_mode2_cases Let_def v set_OUT_change u_def)
  have d': "?d = c\<lparr>count := x, count_binary := y, null_count := False, OUTpin := True, out_calls := out_calls c @ u,
      next_change_time := 1, first_pass := False, triggerGATE := False\<rparr>"
    unfolding d using L(1) by (simp add: c1)
  have "(clock_counter ^^ period c) c = clock_counter ?d"
    by (simp add: L(2) funpow_swap1)
  also have "\<dots> = (set_OUT False ((count_down ?d 1)\<lparr>next_change_time := 1\<rparr>))\<lparr>first_pass := True\<rparr>"
    by (rule clock_rate_end(1) [OF run])
  also have "\<dots> = c\<lparr>out_calls := out_calls c @ (if out_handler c then [True, False] else [])\<rparr>"
    unfolding d' using l(2,3,6-10)
    by (cases c) (simp add: count_down_def set_count_to_binary_coded set_OUT_change coded_def u_def)
  finally show ?thesis .
qed

lemma rate_output_high:
  assumes "rate_pulse c" "0 < k" "k < period c"
  shows "OUTpin ((clock_counter ^^ k) c)"
proof -
  have l: "rate_program c" "first_pass c" using assms(1) by (simp_all add: rate_pulse_def rate_loading_def)
  note ld = clock_rate_loading [OF l]
  obtain j where j: "k = Suc j" using assms(2) by (cases k) auto
  then have "j < clocks_left (clock_counter c)" using assms(3) ld(2) by simp
  from counting_run_frame [OF ld(1) this] obtain x y
    where "(clock_counter ^^ j) (clock_counter c) =
      (clock_counter c)\<lparr>count := x, count_binary := y, next_change_time := clocks_left (clock_counter c) - j\<rparr>" .
  then show ?thesis using ld(3) by (simp add: j funpow_swap1)
qed

text \<open>C8. The rate generator (mode 2) with its gate open divides the clock by its count: from the clock in which
  the output is low, the output is high in every following clock of the period, and after exactly one
  period the counter is back in the same state, with two calls of the output handler in between.\<close>

theorem rate_generator_period:
  assumes "rate_pulse c"
  shows "(\<forall>k. 0 < k \<and> k < period c \<longrightarrow> OUTpin ((clock_counter ^^ k) c)) \<and> \<not> OUTpin c
    \<and> (clock_counter ^^ period c) c = c\<lparr>out_calls := out_calls c @ (if out_handler c then [True, False] else [])\<rparr>"
  using rate_period_end [OF assms] rate_output_high [OF assms] assms by (auto simp: rate_pulse_def)

definition sample_rate :: counter_type where
  "sample_rate = sample_counter\<lparr>mode := 2, inlatch := 3, first_pass := True, OUTpin := False, count := 1,
     count_binary := 1, next_change_time := 1, out_handler := True\<rparr>"

lemma sample_rate_pulse: "rate_pulse sample_rate" "period sample_rate = 3"
  by (simp_all add: rate_pulse_def rate_loading_def rate_program_def reload_def period_def count_limit_def coded_def
      set_count_def set_binary_to_count_def sample_rate_def sample_counter_def init_counter_def)

theorem rate_generator_period_witness:
  "rate_pulse sample_rate \<and> OUTpin ((clock_counter ^^ 2) sample_rate)
   \<and> out_calls ((clock_counter ^^ 3) sample_rate) = [True, False]"
  using rate_generator_period [OF sample_rate_pulse(1)] sample_rate_pulse
  by (simp add: sample_rate_def sample_counter_def init_counter_def)

section \<open>Skipping cycles\<close>

definition rate_sync :: "counter_type \<Rightarrow> bool" where
  "rate_sync c \<longleftrightarrow> rate_counting c \<or> rate_loading c"

lemma rate_sync_jump:
  assumes "rate_sync c"
  shows "1 \<le> next_change_time c" "mode c = 2"
    "k < next_change_time c \<Longrightarrow>
      (clock_counter ^^ k) c = (decrement_multiple c k)\<lparr>next_change_time := next_change_time c - k\<rparr>"
    "rate_sync ((clock_counter ^^ next_change_time c) c)"
proof -
  show t: "1 \<le> next_change_time c" and m: "mode c = 2"
    using assms rate_counting_time [of c] by (auto simp: rate_sync_def rate_loading_def rate_counting_def rate_program_def)
  show "(clock_counter ^^ k) c = (decrement_multiple c k)\<lparr>next_change_time := next_change_time c - k\<rparr>"
    if "k < next_change_time c"
  proof (cases "rate_counting c")
    case True
    then have "count_ok c" by (simp add: rate_counting_def)
    then show ?thesis
      using counting_run_state [OF True, of k] rate_counting_time(1) [OF True] that
      by (simp add: decrement_multiple_funpow)
  next
    case False
    then show ?thesis using assms that by (simp add: rate_sync_def rate_loading_def decrement_multiple.simps)
  qed
  show "rate_sync ((clock_counter ^^ next_change_time c) c)"
  proof (cases "rate_counting c")
    case True
    let ?L = "clocks_left c"
    have L: "next_change_time c = Suc (?L - 1)" "?L - 1 < ?L" using rate_counting_time [OF True] by simp_all
    have "clocks_left ((clock_counter ^^ (?L - 1)) c) = 1"
      using counting_run_left [OF True L(2)] rate_counting_time(2) [OF True] by simp
    from clock_rate_end(2) [OF counting_run_inv [OF True L(2)] this]
    show ?thesis unfolding L(1) rate_sync_def by simp
  next
    case False
    then show ?thesis using assms clock_rate_loading(1) [of c] by (simp add: rate_sync_def rate_loading_def)
  qed
qed

lemma decrement_multiple_frame: "mode (decrement_multiple c n) = mode c \<and> OUTpin (decrement_multiple c n) = OUTpin c"
proof (induction c n rule: decrement_multiple.induct)
  case (1 c n)
  then show ?case
    by (subst (1 2) decrement_multiple.simps) (auto simp: set_count_to_binary_def decrement_def)
qed

lemma clock_multiple_funpow:
  "rate_sync c \<Longrightarrow> clock_multiple_counter c n = (clock_counter ^^ n) c"
proof (induction c n rule: clock_multiple_counter.induct)
  case (1 c n)
  let ?t = "next_change_time c"
  note j = rate_sync_jump [OF "1.prems"]
  have stop: "clock_multiple_counter d 0 = d" for d by (simp add: clock_multiple_counter.simps)
  consider "n = 0" | "0 < n" "n < ?t" | "0 < n" "?t \<le> n" by linarith
  then show ?case
  proof cases
    case 2
    then show ?thesis using j by (simp add: clock_multiple_counter.simps [of c] stop cycle_steps_def)
  next
    case 3
    let ?d = "(clock_counter ^^ (?t - 1)) c"
    have "?d = (decrement_multiple c (?t - 1))\<lparr>next_change_time := 1\<rparr>" using j(1) j(3) [of "?t - 1"] by simp
    moreover have "mode (decrement_multiple c (?t - 1)) = 2"
      using j(2) by (simp add: decrement_multiple_frame)
    ultimately have "clock_counter (decrement_multiple c (?t - 1)) = clock_counter ?d"
      using clock_counter_time by metis
    also have "\<dots> = (clock_counter ^^ ?t) c" using j(1) by (cases ?t) simp_all
    finally have e: "clock_counter (decrement_multiple c (cycle_steps c (?t - 1))) = (clock_counter ^^ ?t) c"
      using j(2) by (simp add: cycle_steps_def)
    have "clock_multiple_counter c n = clock_multiple_counter ((clock_counter ^^ ?t) c) (n - ?t)"
      using 3 j(1,2) e by (simp add: clock_multiple_counter.simps [of c])
    also have "\<dots> = (clock_counter ^^ (n - ?t)) ((clock_counter ^^ ?t) c)"
      using "1.IH"(3) 3 j(1,2,4) e by simp
    also have "\<dots> = (clock_counter ^^ n) c" using 3 by (simp add: funpow_add [symmetric, THEN fun_cong, simplified])
    finally show ?thesis .
  qed (simp add: stop)
qed

lemma upd_counter_comp: "upd_counter i g (upd_counter i h p) = upd_counter i (g \<circ> h) p"
  by (simp add: upd_counter_def)

lemma upd_counter_funpow: "upd_counter i (f ^^ n) p = (upd_counter i f ^^ n) p"
proof (induction n)
  case (Suc n)
  have "(upd_counter i f ^^ Suc n) p = upd_counter i f (upd_counter i (f ^^ n) p)" by (simp add: Suc)
  then show ?case by (simp only: upd_counter_comp funpow.simps)
qed (simp add: upd_counter_def)


definition sample_pit :: pit_82C54 where
  "sample_pit = \<lparr>counter = (\<lambda>_. sample_rate), controlword = 0\<rparr>"


section \<open>Square wave with the largest count\<close>

text \<open>
  In mode 3 a count of zero stands for 65536, so the output changes every 32768 clocks. The time to the
  next change is computed from the count field, which is zero, and comes out as 65535: skipping
  cycles then misses the change that single clocks make.
\<close>

definition square_loaded :: "counter_type \<Rightarrow> bool" where
  "square_loaded c \<longleftrightarrow> mode c = 3 \<and> count_written c \<and> GATE c \<and> \<not> triggerGATE c \<and> \<not> first_pass c \<and> \<not> state_bit_1 c
    \<and> \<not> state_bit_2 c \<and> \<not> bcd_mode c \<and> OUTpin c \<and> inlatch c = 0"

lemma clock_square:
  assumes "square_loaded c" "count c = b" "count_binary c = b" "b = 0 \<or> 2 < b" "b \<le> 0xFFFE"
  defines "b' \<equiv> (if b = 0 then 0xFFFE else b - 2)"
  shows "clock_counter c = c\<lparr>count := b', count_binary := b', state_bit_2 := (b' = 2),
    next_change_time := (if b' = 2 then 1 else pred16 (b' div 2))\<rparr>"
proof -
  have "decrement (decrement c) = c\<lparr>count := b', count_binary := b'\<rparr>"
    using assms by (auto simp: square_loaded_def decrement_def set_count_to_binary_def)
  moreover have "b' \<noteq> 0" using assms(4) by (auto simp: b'_def)
  moreover have "mode c = 3" "count_written c" "GATE c" "\<not> triggerGATE c" "\<not> first_pass c" "\<not> state_bit_1 c"
    "\<not> state_bit_2 c" using assms(1) by (simp_all add: square_loaded_def)
  ultimately show ?thesis
    unfolding clock_counter_def clock_mode3_def Let_def by simp
qed

lemma square_run:
  assumes "square_loaded c" "count c = 0" "count_binary c = 0" "k < 32767"
  shows "square_loaded ((clock_counter ^^ k) c) \<and>
    (let b = (if k = 0 then 0 else 0x10000 - 2 * k)
     in count ((clock_counter ^^ k) c) = b \<and> count_binary ((clock_counter ^^ k) c) = b)"
  using assms(4)
proof (induction k)
  case 0
  then show ?case using assms by simp
next
  case (Suc k)
  let ?d = "(clock_counter ^^ k) c" and ?b = "if k = 0 then 0 else 0x10000 - 2 * k"
  have d: "square_loaded ?d" "count ?d = ?b" "count_binary ?d = ?b" using Suc by (auto simp: Let_def)
  have "?b = 0 \<or> 2 < ?b" "?b \<le> 0xFFFE" using Suc.prems by auto
  note step = clock_square [OF d this]
  have b': "(if ?b = 0 then 0xFFFE else ?b - 2) = 0x10000 - 2 * Suc k" "0x10000 - 2 * Suc k \<noteq> (2::nat)"
    using Suc.prems by auto
  show ?case
    unfolding funpow.simps comp_apply step b'(1) Let_def
    using d(1) b'(2) by (simp add: square_loaded_def)
qed

lemma square_wave_skip_misses_change:
  assumes "square_loaded c" "count c = 0" "count_binary c = 0" "next_change_time c = 0xFFFF"
  shows "\<not> OUTpin ((clock_counter ^^ 32768) c)" "OUTpin (clock_multiple_counter c 32768)"
proof -
  let ?d = "(clock_counter ^^ 32766) c"
  have d: "square_loaded ?d" "count ?d = 4" "count_binary ?d = 4"
    using square_run [OF assms(1-3), of 32766] by (simp_all add: Let_def)
  define e where "e = clock_counter ?d"
  have e: "e = ?d\<lparr>count := 2, count_binary := 2, state_bit_2 := True, next_change_time := 1\<rparr>"
    using clock_square [OF d] by (simp add: e_def)
  have "\<not> OUTpin (clock_counter e)"
    using d(1) by (simp add: e square_loaded_def clock_counter_def clock_mode3_def Let_def set_OUT_def
        set_count_def set_binary_to_count_def)
  moreover have "(clock_counter ^^ 32768) c = clock_counter e"
  proof -
    have "(32768 :: nat) = Suc (Suc 32766)" by simp
    then show ?thesis by (simp only: funpow.simps comp_apply e_def)
  qed
  ultimately show "\<not> OUTpin ((clock_counter ^^ 32768) c)" by simp
  show "OUTpin (clock_multiple_counter c 32768)"
    using assms by (simp add: clock_multiple_counter.simps square_loaded_def decrement_multiple_frame)
qed

end
