(* ===== verification/PitPorts.thy ===== *)
theory PitPorts
  imports PitProps
begin

text \<open>
  The interval timer seen from its ports: programming a counter, latching and reading its count, the
  one-shot of mode 0 and the time to the next event.
\<close>

section \<open>Writing, latching and reading a count\<close>

definition cw_SC :: "Bit8u \<Rightarrow> nat" where "cw_SC cw = unat (drop_bit 6 cw AND 3)"
definition cw_RW :: "Bit8u \<Rightarrow> nat" where "cw_RW cw = unat (drop_bit 4 cw AND 3)"

lemma write_control_word:
  "cw_SC cw = i \<Longrightarrow> i < 3 \<Longrightarrow> cw_RW cw \<noteq> 0 \<Longrightarrow> pit_write 3 cw p =
    upd_counter i (program_counter (cw_RW cw) (unat (drop_bit 1 cw AND 7)) (bit cw 0)) (p\<lparr>controlword := cw\<rparr>)"
  "cw_SC cw = i \<Longrightarrow> i < 3 \<Longrightarrow> cw_RW cw = 0 \<Longrightarrow> pit_write 3 cw p = upd_counter i latch_counter (p\<lparr>controlword := cw\<rparr>)"
  by (simp_all add: pit_write_def write_control_def cw_SC_def cw_RW_def Let_def MAX_ADDRESS_def CONTROL_ADDRESS_def)

lemma data_port:
  "i < 3 \<Longrightarrow> pit_write i v p = upd_counter i (write_count v) p"
  "i < 3 \<Longrightarrow> pit_read i p = (fst (read_counter (counter p i)), upd_counter i (\<lambda>c. snd (read_counter c)) p)"
  by (simp_all add: pit_write_def pit_read_def MAX_ADDRESS_def CONTROL_ADDRESS_def)

lemma counter_upd [simp]: "counter (upd_counter i f p) i = f (counter p i)"
  "counter (p\<lparr>controlword := v\<rparr>) i = counter p i"
  by (simp_all add: upd_counter_def)

text \<open>The fields of a counter that loading a count goes through.\<close>

lemma set_OUT_fields [simp]:
  "mode (set_OUT v c) = mode c" "inlatch (set_OUT v c) = inlatch c" "count (set_OUT v c) = count c"
  "write_state (set_OUT v c) = write_state c" "read_state (set_OUT v c) = read_state c"
  "count_LSB_latched (set_OUT v c) = count_LSB_latched c" "count_MSB_latched (set_OUT v c) = count_MSB_latched c"
  "status_latched (set_OUT v c) = status_latched c" "null_count (set_OUT v c) = null_count c"
  "count_written (set_OUT v c) = count_written c" "outlatch (set_OUT v c) = outlatch c" "bcd_mode (set_OUT v c) = bcd_mode c"
  by (simp_all add: set_OUT_def Let_def)

lemma set_count_fields [simp]:
  "inlatch (set_count n c) = inlatch c" "count (set_count n c) = n mod 0x10000" "mode (set_count n c) = mode c"
  "write_state (set_count n c) = write_state c" "read_state (set_count n c) = read_state c"
  "count_LSB_latched (set_count n c) = count_LSB_latched c" "count_MSB_latched (set_count n c) = count_MSB_latched c"
  "status_latched (set_count n c) = status_latched c" "null_count (set_count n c) = null_count c"
  "count_written (set_count n c) = count_written c"
  by (simp_all add: set_count_def set_binary_to_count_def)

definition word_of_bytes :: "Bit8u \<Rightarrow> Bit8u \<Rightarrow> Bit16u" where
  "word_of_bytes lo hi = ucast lo OR push_bit 8 (ucast hi)"

lemma program_fields_pit:
  assumes "c' = program_counter 3 M B c"
  shows "write_state c' = LSByte_multiple" "read_state c' = LSByte_multiple" "\<not> count_LSB_latched c'"
    "\<not> count_MSB_latched c'" "\<not> status_latched c'"
  unfolding assms by (simp_all add: program_counter_def Let_def)

lemma write_two_bytes:
  fixes c :: counter_type and lo hi :: Bit8u
  assumes "write_state c = LSByte_multiple" "read_state c = LSByte_multiple" "\<not> count_LSB_latched c"
    "\<not> count_MSB_latched c" "\<not> status_latched c"
  defines "c' \<equiv> write_count hi (write_count lo c)"
  shows "inlatch c' = word_of_bytes lo hi" "count c' = unat (word_of_bytes lo hi)" "count_written c'" "null_count c'"
    "write_state c' = LSByte_multiple" "read_state c' = LSByte_multiple" "\<not> count_LSB_latched c'"
    "\<not> count_MSB_latched c'" "\<not> status_latched c'"
proof -
  have "unat w < 0x10000" for w :: Bit16u by (rule less_le_trans [OF unsigned_less]) simp
  then have u: "unat (w :: Bit16u) mod 0x10000 = unat w" for w by simp
  have 1: "inlatch (write_count lo c) = ucast lo" "write_state (write_count lo c) = MSByte_multiple"
    "read_state (write_count lo c) = LSByte_multiple" "\<not> count_LSB_latched (write_count lo c)"
    "\<not> count_MSB_latched (write_count lo c)" "\<not> status_latched (write_count lo c)"
    using assms(1-5) by (simp_all add: write_count_def Let_def)
  show "inlatch c' = word_of_bytes lo hi" "count c' = unat (word_of_bytes lo hi)" "count_written c'" "null_count c'"
    "write_state c' = LSByte_multiple" "read_state c' = LSByte_multiple" "\<not> count_LSB_latched c'"
    "\<not> count_MSB_latched c'" "\<not> status_latched c'"
    using 1 by (simp_all add: c'_def write_count_def [of hi] Let_def word_of_bytes_def u)
qed

lemma bytes_of_word:
  "ucast (word_of_bytes lo hi AND 0xFF) = lo" "ucast (drop_bit 8 (word_of_bytes lo hi) AND 0xFF) = hi"
proof -
  have m: "(0xFF :: Bit16u) = mask 8" by (simp add: mask_eq_exp_minus_1)
  note bits = bit_and_iff bit_or_iff bit_push_bit_iff bit_drop_bit_eq bit_ucast_iff bit_mask_iff possible_bit_word
  show "ucast (word_of_bytes lo hi AND 0xFF) = lo"
    by (rule bit_word_eqI) (unfold word_of_bytes_def m, auto simp: bits simp del: mask_numeral dest: bit_imp_le_length)
  show "ucast (drop_bit 8 (word_of_bytes lo hi) AND 0xFF) = hi"
    by (rule bit_word_eqI) (unfold word_of_bytes_def m, auto simp: bits simp del: mask_numeral dest: bit_imp_le_length)
qed

lemma latch_read_two_bytes:
  assumes "read_state c = LSByte_multiple" "\<not> count_LSB_latched c" "\<not> count_MSB_latched c" "\<not> status_latched c"
    "count c = unat (word_of_bytes lo hi)"
  shows "fst (read_counter (latch_counter c)) = lo" "fst (read_counter (snd (read_counter (latch_counter c)))) = hi"
  using assms by (simp_all add: latch_counter_def read_counter_def Let_def bytes_of_word)

text \<open>C9. A 16-bit count survives the trip through the ports: after any counter has been programmed for
  two-byte access in any mode, writing a low and a high byte, latching the counter and reading twice
  returns the same two bytes, and the count is marked as written and not yet loaded.\<close>

theorem count_write_latch_read:
  assumes "i < 3" "cw_SC cw = i" "cw_RW cw = 3" "cw_SC lw = i" "cw_RW lw = 0"
  shows "let p1 = pit_write i hi (pit_write i lo (pit_write 3 cw p));
             (v1, p2) = pit_read i (pit_write 3 lw p1);
             (v2, p3) = pit_read i p2
         in v1 = lo \<and> v2 = hi \<and> get_inlatch i p1 = word_of_bytes lo hi \<and> new_count_ready i p1
          \<and> null_count (counter p1 i)"
proof -
  let ?c0 = "program_counter 3 (unat (drop_bit 1 cw AND 7)) (bit cw 0) (counter p i)"
  let ?c1 = "write_count hi (write_count lo ?c0)"
  note c1 = write_two_bytes [OF program_fields_pit [OF refl]]
  note rd = latch_read_two_bytes [OF c1(6-9) c1(2)]
  show ?thesis
    using assms c1 [of hi lo] rd by (simp add: write_control_word data_port Let_def get_inlatch_def new_count_ready_def)
qed

theorem count_write_latch_read_witness:
  "let p1 = pit_write 2 0x12 (pit_write 2 0x34 (pit_write 3 0xB6 sample_pit));
       (v1, p2) = pit_read 2 (pit_write 3 0x80 p1)
   in cw_SC 0xB6 = 2 \<and> cw_RW 0xB6 = 3 \<and> v1 = 0x34 \<and> fst (pit_read 2 p2) = 0x12"
  using count_write_latch_read [of 2 "0xB6" "0x80" "0x12" "0x34" sample_pit]
  by (simp add: cw_SC_def cw_RW_def Let_def split_beta)

section \<open>Events\<close>

text \<open>The time to the next event of the chip is the smallest of the times of the counters that expect
  one, and zero when none does.\<close>

lemma next_event_is_minimum:
  "let T = {t. t \<noteq> 0 \<and> (t = get_clock_event_time 0 p \<or> t = get_clock_event_time 1 p \<or> t = get_clock_event_time 2 p)}
   in get_next_event_time p = (if T = {} then 0 else Min T)"
proof -
  define a b c where "a = get_clock_event_time 0 p" and "b = get_clock_event_time 1 p" and "c = get_clock_event_time 2 p"
  define T where "T = {t. t \<noteq> 0 \<and> (t = a \<or> t = b \<or> t = c)}"
  define n where "n = get_next_event_time p"
  have n: "n = (let out = (if b \<noteq> 0 \<and> (a = 0 \<or> b < a) then b else a) in if c \<noteq> 0 \<and> (out = 0 \<or> c < out) then c else out)"
    by (simp add: n_def get_next_event_time_def Let_def a_def b_def c_def)
  have fin: "finite T" by (rule finite_subset [of _ "{a, b, c}"]) (auto simp: T_def)
  have "n = Min T" if "T \<noteq> {}"
  proof -
    have nz: "a \<noteq> 0 \<or> b \<noteq> 0 \<or> c \<noteq> 0" using that unfolding T_def by auto
    have "n \<in> {a, b, c}" unfolding n Let_def by (simp split: if_split)
    moreover have "n \<noteq> 0" using nz unfolding n Let_def by (cases "a = 0"; cases "b = 0"; cases "c = 0") simp_all
    ultimately have mem: "n \<in> T" unfolding T_def by blast
    have "n \<le> a" if "a \<noteq> 0" using that unfolding n Let_def by auto
    moreover have "n \<le> b" if "b \<noteq> 0" using that unfolding n Let_def by auto
    moreover have "n \<le> c" if "c \<noteq> 0" using that unfolding n Let_def by auto
    ultimately have low: "n \<le> t" if "t \<in> T" for t using that unfolding T_def by blast
    show ?thesis by (rule Min_eqI [symmetric, OF fin low mem])
  qed
  moreover have "n = 0" if "T = {}"
  proof -
    have "a = 0" "b = 0" "c = 0" using that unfolding T_def by blast+
    then show ?thesis by (simp add: n)
  qed
  ultimately show ?thesis unfolding Let_def T_def a_def b_def c_def n_def by simp
qed

section \<open>Interrupt on terminal count\<close>

text \<open>Mode 0 after its count has been loaded, with the gate open and no half-written count.\<close>

definition terminal_running :: "counter_type \<Rightarrow> bool" where
  "terminal_running c \<longleftrightarrow> mode c = 0 \<and> count_written c \<and> \<not> null_count c \<and> GATE c
    \<and> write_state c \<noteq> MSByte_multiple \<and> count_ok c \<and> count_binary c \<le> count_limit c"

lemma decrement_keeps [simp]:
  "mode (decrement c) = mode c" "count_written (decrement c) = count_written c" "null_count (decrement c) = null_count c"
  "GATE (decrement c) = GATE c" "write_state (decrement c) = write_state c" "OUTpin (decrement c) = OUTpin c"
  by (simp_all add: decrement_def set_count_to_binary_def)

lemma set_OUT_keeps [simp]:
  "GATE (set_OUT v c) = GATE c" "count_binary (set_OUT v c) = count_binary c" "OUTpin (set_OUT v c) = v"
  by (simp_all add: set_OUT_def Let_def)

lemma terminal_decrement:
  assumes "terminal_running c"
  shows "count_binary (decrement c) = (if count_binary c = 0 then count_limit c else count_binary c - 1)"
    "count (decrement c) = 0 \<longleftrightarrow> count_binary (decrement c) = 0" "count_ok (decrement c)"
    "count_binary (decrement c) \<le> count_limit (decrement c)"
proof -
  have ok: "count_ok c" and le: "count_binary c \<le> count_limit c" using assms by (simp_all add: terminal_running_def)
  show b: "count_binary (decrement c) = (if count_binary c = 0 then count_limit c else count_binary c - 1)"
    by (simp add: decrement_binary [OF ok])
  have same: "count_limit (decrement c) = count_limit c" by (simp add: count_limit_def)
  then show le': "count_binary (decrement c) \<le> count_limit (decrement c)" using b le by (cases "count_binary c = 0") simp_all
  show ok': "count_ok (decrement c)" by (rule count_ok_decrement [OF ok])
  show "count (decrement c) = 0 \<longleftrightarrow> count_binary (decrement c) = 0"
    using ok' le' coded_zero_iff [of "count_binary (decrement c)" "bcd_mode (decrement c)"]
    by (auto simp: count_ok_def count_limit_def split: if_splits)
qed

lemma clock_terminal:
  assumes "terminal_running c"
  shows "terminal_running (clock_counter c)" "count_binary (clock_counter c) = count_binary (decrement c)"
    "OUTpin (clock_counter c) \<longleftrightarrow> OUTpin c \<or> count_binary (decrement c) = 0"
proof -
  have c: "mode c = 0" "count_written c" "\<not> null_count c" "GATE c" "write_state c \<noteq> MSByte_multiple"
    using assms by (simp_all add: terminal_running_def)
  note d = terminal_decrement [OF assms]
  define x where "x = clock_counter c"
  have x: "x = (if \<not> OUTpin c then
        (let e = (decrement c)\<lparr>next_change_time := count_binary (decrement c) mod 0x10000\<rparr>
         in if count_binary (decrement c) = 0 then set_OUT True e else e)
      else (decrement c)\<lparr>next_change_time := 0\<rparr>)\<lparr>triggerGATE := False\<rparr>"
    using c d(2) by (simp add: x_def clock_counter_def clock_mode0_def Let_def)
  show "terminal_running (clock_counter c)"
    using d c unfolding x_def [symmetric] x Let_def
    by (simp add: terminal_running_def count_ok_def count_limit_def)
  show "count_binary (clock_counter c) = count_binary (decrement c)"
    unfolding x_def [symmetric] x Let_def by simp
  show "OUTpin (clock_counter c) \<longleftrightarrow> OUTpin c \<or> count_binary (decrement c) = 0"
    unfolding x_def [symmetric] x Let_def by simp
qed

lemma terminal_run: "terminal_running c \<Longrightarrow> terminal_running ((clock_counter ^^ k) c)"
  by (induction k) (simp_all add: clock_terminal)

lemma terminal_low:
  assumes "terminal_running c" "\<not> OUTpin c" "k < count_binary c"
  shows "\<not> OUTpin ((clock_counter ^^ k) c) \<and> count_binary ((clock_counter ^^ k) c) = count_binary c - k"
  using assms(3)
proof (induction k)
  case (Suc k)
  then have ih: "\<not> OUTpin ((clock_counter ^^ k) c)" "count_binary ((clock_counter ^^ k) c) = count_binary c - k" by simp_all
  from clock_terminal [OF terminal_run [OF assms(1), of k]] terminal_decrement(1) [OF terminal_run [OF assms(1), of k]] ih Suc.prems
  show ?case by simp
qed (simp add: assms)

lemma terminal_high:
  "terminal_running c \<Longrightarrow> OUTpin c \<Longrightarrow> OUTpin ((clock_counter ^^ k) c)"
  by (induction k) (simp_all add: clock_terminal terminal_run)

text \<open>Interrupt on terminal count (mode 0): with a loaded count of n the output is low for n clocks, goes high
  with the n-th clock and then stays high, for any number of clocks.\<close>

theorem terminal_count_output:
  assumes "terminal_running c" "\<not> OUTpin c" "0 < count_binary c"
  shows "OUTpin ((clock_counter ^^ k) c) \<longleftrightarrow> count_binary c \<le> k"
proof (cases "k < count_binary c")
  case True
  then show ?thesis using terminal_low [OF assms(1,2)] by simp
next
  case False
  let ?n = "count_binary c" and ?d = "(clock_counter ^^ (count_binary c - 1)) c"
  have d: "count_binary ?d = 1" using terminal_low [OF assms(1,2), of "?n - 1"] assms(3) by simp
  have "OUTpin (clock_counter ?d)"
    using clock_terminal(3) [OF terminal_run [OF assms(1)], of "?n - 1"]
      terminal_decrement(1) [OF terminal_run [OF assms(1)], of "?n - 1"] d by simp
  also have "clock_counter ?d = (clock_counter ^^ ?n) c" using assms(3) by (cases ?n) simp_all
  finally have "OUTpin ((clock_counter ^^ (k - ?n)) ((clock_counter ^^ ?n) c))"
    using terminal_high [OF terminal_run [OF assms(1)]] by blast
  also have "(clock_counter ^^ (k - ?n)) ((clock_counter ^^ ?n) c) = (clock_counter ^^ k) c"
    using False by (simp add: funpow_add [symmetric, THEN fun_cong, simplified])
  finally show ?thesis using False by simp
qed

theorem terminal_count_output_witness:
  "let c = sample_counter\<lparr>mode := 0, OUTpin := False, count := 5, count_binary := 5\<rparr>
   in terminal_running c \<and> \<not> OUTpin c \<and> 0 < count_binary c
    \<and> \<not> OUTpin ((clock_counter ^^ 4) c) \<and> OUTpin ((clock_counter ^^ 1000) c)"
proof -
  let ?c = "sample_counter\<lparr>mode := 0, OUTpin := False, count := 5, count_binary := 5\<rparr>"
  have "terminal_running ?c" "\<not> OUTpin ?c" "0 < count_binary ?c" "count_binary ?c = 5"
    by (simp_all add: terminal_running_def count_ok_def coded_def count_limit_def sample_counter_def init_counter_def)
  then show ?thesis using terminal_count_output [of ?c 4] terminal_count_output [of ?c 1000] by (simp add: Let_def)
qed

end
