(* ===== verification/FastPath.thy ===== *)
theory FastPath
  imports AccessProps
begin

text \<open>
  The fast path of the linear accesses is an optimisation of the slow path: what an access reads, writes or raises does not
  depend on whether an entry of the TLB serves it through its host pointer.  The invariant ties the host pointer of every
  entry to the page it translates, its access bits to the way the pointer was obtained, and its address to the canonical
  checks that the fast path skips.
\<close>

section \<open>Host pointers of a page\<close>

definition page_of :: "Bit64u \<Rightarrow> bool" where "page_of p \<longleftrightarrow> take_bit 12 p = 0"

text \<open>RAM is made of whole pages and nothing has written to the page of ones.\<close>

definition ram_ok :: "bx_mem \<Rightarrow> bool" where
  "ram_ok m \<longleftrightarrow> page_of (mem_len m) \<and> (\<forall>k<12. bit (a20_mask m) k) \<and> (\<forall>x<4096. bogus m x = 0xff)"

lemma page_or_offset:
  assumes "take_bit 12 (a :: Bit64u) = 0" "unat (x :: Bit32u) < 4096"
  shows "a OR ucast x = a + ucast x" "unat (a OR ucast x) = unat a + unat x"
proof -
  have low: "\<not> bit a k" if "k < 12" for k using assms(1) that by (metis bit_take_bit_iff bit_0_eq bot_apply bot_bool_def)
  have "\<not> bit x k" if "12 \<le> k" for k
  proof -
    have "take_bit 12 (unat x) = unat x" using assms(2) by (intro take_bit_nat_eq_self) simp
    then have "take_bit 12 x = x" by (metis unsigned_take_bit_eq word_unat_eq_iff)
    then show ?thesis using that by (metis bit_take_bit_iff leD)
  qed
  then have "bit a n \<longrightarrow> \<not> bit x n" for n using low by (metis not_le)
  then have "a AND ucast x = 0" by (intro bit_word_eqI) (auto simp: bit_and_iff bit_ucast_iff)
  then show e: "a OR ucast x = a + ucast x" by (rule disjunctive_add_eq_or[symmetric])
  have "take_bit 12 (unat a) = 0" using assms(1) by (metis unsigned_take_bit_eq unsigned_0)
  then obtain q where q: "unat a = 4096 * q" by (auto simp: take_bit_eq_mod)
  moreover have "unat a < 2 ^ 64" using unsigned_less[of a] by simp
  ultimately have "unat a + unat x < 2 ^ 64" using assms(2) by simp
  moreover have "unat (ucast x :: Bit64u) = unat x" using assms(2) by (simp add: unsigned_ucast_eq take_bit_nat_eq_self)
  ultimately show "unat (a OR ucast x) = unat a + unat x"
    unfolding e by (subst unat_add_lem[THEN iffD1]) simp_all
qed

lemma page_bounds:
  assumes "take_bit 12 (a :: Bit64u) = 0" "unat (x :: Bit32u) < 4096" "take_bit 12 c = 0"
  shows "a OR ucast x < c \<longleftrightarrow> a < c"
proof -
  have "take_bit 12 (unat a) = 0" "take_bit 12 (unat c) = 0" using assms(1,3) by (metis unsigned_take_bit_eq unsigned_0)+
  then obtain q r where "unat a = 4096 * q" "unat c = 4096 * r" by (auto simp: take_bit_eq_mod elim!: dvdE)
  then show ?thesis unfolding word_less_nat_alt page_or_offset(2)[OF assms(1,2)] using assms(2) by auto
qed

lemma hole_page:
  assumes "take_bit 12 (a :: Bit64u) = 0" "unat (x :: Bit32u) < 4096"
  shows "bx_is_pci_hole_addr (a OR ucast x) = bx_is_pci_hole_addr a"
    "bx_translate_gpa_to_linear (a OR ucast x) = bx_translate_gpa_to_linear a OR ucast x"
proof -
  have h: "BX_PCI_HOLE_START \<le> y \<longleftrightarrow> \<not> y < 0xC0000000" "BX_PCI_HOLE_LAST < y \<longleftrightarrow> \<not> y < 0x100000000" for y :: Bit64u
  proof -
    have "0xFFFFFFFF < y \<longleftrightarrow> 0x100000000 \<le> y" by (simp add: word_less_nat_alt word_le_nat_alt Suc_le_eq[symmetric])
    then show "BX_PCI_HOLE_START \<le> y \<longleftrightarrow> \<not> y < 0xC0000000" "BX_PCI_HOLE_LAST < y \<longleftrightarrow> \<not> y < 0x100000000"
      by (auto simp: BX_PCI_HOLE_START_def BX_PCI_HOLE_LAST_def)
  qed
  have b: "a OR ucast x < 0xC0000000 \<longleftrightarrow> a < 0xC0000000" "a OR ucast x < 0x100000000 \<longleftrightarrow> a < 0x100000000"
    using page_bounds[OF assms] by simp_all
  show "bx_is_pci_hole_addr (a OR ucast x) = bx_is_pci_hole_addr a"
    unfolding bx_is_pci_hole_addr_def not_less[symmetric, of _ BX_PCI_HOLE_LAST] h b ..
  have "take_bit 12 (a - BX_PCI_HOLE_SIZE) = 0"
    by (rule aligned_diff[OF assms(1)]) (simp add: BX_PCI_HOLE_SIZE_def BX_PCI_HOLE_LAST_def BX_PCI_HOLE_START_def)
  then show "bx_translate_gpa_to_linear (a OR ucast x) = bx_translate_gpa_to_linear a OR ucast x"
    unfolding bx_translate_gpa_to_linear_def h b
    using page_or_offset(1)[OF assms] page_or_offset(1)[OF _ assms(2)] by auto
qed

lemma A20_page:
  assumes "\<forall>k<12. bit (a20_mask m) k" "unat (x :: Bit32u) < 4096"
  shows "A20ADDR m (p OR ucast x) = A20ADDR m p OR ucast x"
proof -
  have "\<not> bit x k" if "12 \<le> k" for k
  proof -
    have "take_bit 12 (unat x) = unat x" using assms(2) by (intro take_bit_nat_eq_self) simp
    then have "take_bit 12 x = x" by (metis unsigned_take_bit_eq word_unat_eq_iff)
    then show ?thesis using that by (metis bit_take_bit_iff leD)
  qed
  then have "bit x k \<Longrightarrow> bit (a20_mask m) k" for k using assms(1) by (metis not_le)
  then show ?thesis unfolding A20ADDR_def by (intro bit_word_eqI) (auto simp: bit_and_iff bit_or_iff bit_ucast_iff)
qed

text \<open>Reading and writing through the pointer of a page is reading and writing the page.\<close>

lemma host_page:
  assumes "ram_ok m" "page_of p" "unat (x :: Bit32u) + n \<le> 4096" "unat x < 4096" "getHostMemAddr m p rw = h" "h \<noteq> NullPtr"
  shows "ReadHost m (host_or h x) n = readPhysicalPage m (p OR ucast x) n"
    "rw AND 1 \<noteq> 0 \<Longrightarrow> WriteHost m (host_or h x) bs = writePhysicalPage m (p OR ucast x) bs"
proof -
  let ?a = "A20ADDR m p" let ?l = "bx_translate_gpa_to_linear ?a"
  have al: "take_bit 12 ?a = 0" "take_bit 12 ?l = 0" "take_bit 12 (mem_len m) = 0"
    using assms(1,2) take_bit_A20ADDR take_bit_linear by (auto simp: page_of_def ram_ok_def)
  have cell: "ram_cell m (p OR ucast x) \<longleftrightarrow> ?l < mem_len m \<and> \<not> bx_is_pci_hole_addr ?a"
    and lin: "bx_translate_gpa_to_linear (A20ADDR m (p OR ucast x)) = ?l OR ucast x"
    using assms(1,4) A20_page[of m x p] hole_page[OF al(1) assms(4)] page_bounds[OF al(2) assms(4) al(3)]
    by (simp_all add: ram_cell_def ram_ok_def)
  have cases: "\<not> bx_is_pci_hole_addr ?a \<and> ?l < mem_len m \<and> h = Vector ?l \<or>
      \<not> bx_is_pci_hole_addr ?a \<and> \<not> ?l < mem_len m \<and> rw AND 1 = 0 \<and> h = Bogus (?a AND 0xfff)"
    using assms(5,6) by (auto simp: getHostMemAddr_def Let_def split: if_splits)
  have "?a AND 0xfff = 0" using al(1) by (simp add: take_bit_eq_mask mask_eq_exp_minus_1)
  moreover have "bogus m (ucast x + of_nat i) = 0xff" if "i < n" for i
  proof -
    have "unat (ucast x + of_nat i :: Bit64u) < 4096"
      using that assms(3) by (subst unat_add_lem[THEN iffD1]) (simp_all add: unsigned_ucast_eq unsigned_of_nat take_bit_nat_eq_self)
    then show ?thesis using assms(1) by (simp add: ram_ok_def word_less_nat_alt)
  qed
  ultimately show "ReadHost m (host_or h x) n = readPhysicalPage m (p OR ucast x) n"
    using cases
    by (elim disjE conjE; simp add: read_cases cell lin host_or_def ReadHost_def map_replicate_trivial[symmetric] del: map_replicate_trivial)
  show "WriteHost m (host_or h x) bs = writePhysicalPage m (p OR ucast x) bs" if "rw AND 1 \<noteq> 0"
    using cases that by (auto simp: write_cases cell lin host_or_def WriteHost_def)
qed

section \<open>What an entry of the data TLB stands for\<close>

definition entry_fast :: "bx_mmu \<Rightarrow> bx_TLB_entry \<Rightarrow> bool" where
  "entry_fast s e \<longleftrightarrow>
    (tlb_valid e \<longrightarrow>
      page_of (ppf e) \<and> (\<forall>k<11. \<not> bit (lpf e) k) \<and> lin s (lpf e) = lpf e \<and> IsCanonical s (lpf e) \<and>
      (long_mode s \<and> get_LASS s \<and> bit (lpf e) 63 \<longrightarrow> (\<forall>r. \<not> bit (accessBits e) (access_index True r))) \<and>
      (long_mode s \<and> get_LASS s \<and> \<not> bit (lpf e) 63 \<and> get_SMAP s \<longrightarrow> (\<forall>r. \<not> bit (accessBits e) (access_index False r))) \<and>
      (\<not> bit (lpf e) 11 \<longrightarrow>
        hostPageAddr e \<noteq> NullPtr \<and>
        (\<exists>rw. hostPageAddr e = getHostMemAddr (phys s) (ppf e) rw \<and>
          (\<forall>u r. bit (accessBits e) (access_index u r) \<and> bit r 0 \<longrightarrow> rw AND 1 \<noteq> 0))))"

definition dtlb_fast :: "bx_mmu \<Rightarrow> bool" where
  "dtlb_fast s \<longleftrightarrow> (\<forall>n<BX_DTLB_SIZE. entry_fast s (tlb_entry (DTLB s) n))"

text \<open>States in which the same entries are good.\<close>

definition same_map :: "bx_mmu \<Rightarrow> bx_mmu \<Rightarrow> bool" where
  "same_map s s' \<longleftrightarrow> get_PG s' = get_PG s \<and> long_mode s' = long_mode s \<and> get_LASS s' = get_LASS s \<and> get_SMAP s' = get_SMAP s \<and>
    linaddr_width s' = linaddr_width s \<and> mem_len (phys s') = mem_len (phys s) \<and> a20_mask (phys s') = a20_mask (phys s) \<and>
    bogus (phys s') = bogus (phys s)"

lemma same_map_refl [simp]: "same_map s s" by (simp add: same_map_def)

lemma same_map_trans: "same_map s s' \<Longrightarrow> same_map s' s'' \<Longrightarrow> same_map s s''" by (simp add: same_map_def)

lemma same_map_entry:
  assumes "same_map s s'"
  shows "entry_fast s' e = entry_fast s e"
proof -
  have "getHostMemAddr (phys s') = getHostMemAddr (phys s)" "lin s' = lin s" "IsCanonical s' = IsCanonical s"
    using assms by (simp_all add: same_map_def fun_eq_iff getHostMemAddr_def A20ADDR_def lin_def IsCanonical_def Let_def)
  then show ?thesis using assms by (simp add: entry_fast_def same_map_def)
qed

lemma same_map_frame:
  "mmu_frame s s' \<Longrightarrow> mem_len (phys s') = mem_len (phys s) \<Longrightarrow> bogus (phys s') = bogus (phys s) \<Longrightarrow> same_map s s'"
  using mmu_frame_regs[of s s'] by (simp add: same_map_def mmu_frame_fields)

lemma entry_fast_invalidate [simp]: "entry_fast s (invalidate e)"
  by (simp add: entry_fast_def)

lemma ad_update_frame: "ad_update m m' \<Longrightarrow> mem_len m' = mem_len m \<and> bogus m' = bogus m"
proof (induction rule: ad_update.induct)
  case (qword m w "write")
  have "mem_len (fold mark_accessed_PAE ps x) = mem_len x \<and> bogus (fold mark_accessed_PAE ps x) = bogus x" for ps x
    by (induction ps arbitrary: x) (auto simp: mark_accessed_PAE_def write_physical_qword_def write_cases)
  then show ?case by (auto simp: update_access_dirty_PAE_def write_physical_qword_def write_cases Let_def split: prod.split)
next
  case (dword m w "write")
  have "mem_len (fold mark_accessed ps x) = mem_len x \<and> bogus (fold mark_accessed ps x) = bogus x" for ps x
    by (induction ps arbitrary: x) (auto simp: mark_accessed_def write_physical_dword_def write_cases)
  then show ?case by (auto simp: update_access_dirty_def write_physical_dword_def write_cases Let_def split: prod.split)
qed

lemma ad_updates_frame: "ad_update\<^sup>*\<^sup>* m m' \<Longrightarrow> mem_len m' = mem_len m \<and> bogus m' = bogus m"
  by (induction rule: rtranclp_induct) (auto dest: ad_update_frame)

lemma canonical_width: "mmu_ok s \<Longrightarrow> \<exists>k. linaddr_width s - 1 = k \<and> 32 \<le> k \<and> k < 64"
  by (auto simp: mmu_ok_def)

lemma canonical_page:
  assumes "mmu_ok s" "\<And>k. 12 \<le> k \<Longrightarrow> bit a k = bit b k"
  shows "IsCanonical s a = IsCanonical s b"
proof -
  obtain w where w: "linaddr_width s - 1 = w" "32 \<le> w" "w < 64" using canonical_width[OF assms(1)] by blast
  then have "signed_drop_bit w a = signed_drop_bit w b"
    by (intro bit_word_eqI) (auto simp: bit_signed_drop_bit_iff assms(2))
  then show ?thesis by (simp only: IsCanonical_def IsCanonicalToWidth_def w(1))
qed

lemma canonical_low:
  assumes "mmu_ok s" "take_bit 32 a = a"
  shows "IsCanonical s a"
proof -
  obtain w where w: "linaddr_width s - 1 = w" "32 \<le> w" "w < 64" using canonical_width[OF assms(1)] by blast
  have "\<not> bit a k" if "32 \<le> k" for k using assms(2) that by (metis bit_take_bit_iff leD)
  then have "signed_drop_bit w a = 0" using w by (intro bit_word_eqI) (auto simp: bit_signed_drop_bit_iff)
  then show ?thesis by (simp only: IsCanonical_def IsCanonicalToWidth_def w(1)) simp
qed

lemma canonical_lin: "mmu_ok s \<Longrightarrow> IsCanonicalAccess s a rw user \<or> take_bit 32 a = a \<Longrightarrow> IsCanonical s (lin s a)"
proof -
  have "take_bit 32 (a AND 0xffffffff) = a AND 0xffffffff" "take_bit 32 a = a \<Longrightarrow> a AND 0xffffffff = a"
    by (simp_all add: take_bit_eq_mask mask_eq_exp_minus_1 ac_simps)
  then show "mmu_ok s \<Longrightarrow> IsCanonicalAccess s a rw user \<or> take_bit 32 a = a \<Longrightarrow> ?thesis"
    using canonical_low[of s a] canonical_low[of s "a AND 0xffffffff"]
    by (auto simp: lin_def IsCanonicalAccess_def split: if_splits)
qed

lemma lin_id: "lin s a = a \<longleftrightarrow> long_mode s \<or> (\<forall>k\<ge>32. \<not> bit a k)"
proof -
  have "a AND 0xffffffff = take_bit 32 a" by (simp add: take_bit_eq_mask mask_eq_exp_minus_1)
  moreover have "take_bit 32 a = a \<longleftrightarrow> (\<forall>k\<ge>32. \<not> bit a k)"
    by (metis bit_take_bit_iff leD leI bit_eqI)
  ultimately show ?thesis by (simp add: lin_def)
qed

lemma fill_entry_fast:
  assumes "mmu_ok s" "get_PG s" "rw \<noteq> BX_EXECUTE" "IsCanonical s l" "lin s l = l"
  shows "entry_fast s (fill_entry s l p m ca pk user rw e)"
proof -
  let ?e = "fill_entry s l p m ca pk user rw e"
  let ?b = "tlb_access_bits s ca (LPFOf l) user rw"
  have b: "bit (lpf ?e) k \<longleftrightarrow> 12 \<le> k \<and> bit l k \<or> k = 11 \<and> getHostMemAddr (phys s) (PPFOf p) rw = NullPtr" for k
    by (auto simp: fill_entry_def Let_def bit_LPFOf bit_or_iff bit_NoHostPtr)
  have bp: "bit (LPFOf l) 63 \<longleftrightarrow> bit (lpf ?e) 63" unfolding b by (simp add: bit_LPFOf)
  have host: "hostPageAddr ?e = getHostMemAddr (phys s) (PPFOf p) rw" by (simp add: fill_entry_def Let_def)
  have "page_of (PPFOf p)"
    unfolding page_of_def by (rule bit_word_eqI) (simp add: bit_take_bit_iff bit_PPFOf)
  moreover have "lin s (lpf ?e) = lpf ?e" using assms(5) unfolding lin_id b by auto
  moreover have "IsCanonical s (lpf ?e)" using assms(4) canonical_page[OF assms(1), of "lpf ?e" l] b by auto
  moreover have "\<not> bit ?b (access_index True r)" if "long_mode s" "get_LASS s" "bit (lpf ?e) 63" for r
    unfolding tlb_access_bits_def Let_def page_tests and_bit_tests tlb_bit_defs bp access_indexes using assms(2,3) that
    by (cases "bit r 2"; cases "bit r 0"; simp add: bit_or_iff bit_and_iff bit_not_iff split: if_splits)
  moreover have "\<not> bit ?b (access_index False r)" if "long_mode s" "get_LASS s" "\<not> bit (lpf ?e) 63" "get_SMAP s" for r
    unfolding tlb_access_bits_def Let_def page_tests and_bit_tests tlb_bit_defs bp access_indexes using assms(2,3) that
    by (cases "bit r 2"; cases "bit r 0"; simp add: bit_or_iff bit_and_iff bit_not_iff split: if_splits)
  moreover have "rw AND 1 \<noteq> 0" if "bit ?b (access_index u r)" "bit r 0" for u r
    using that access_bits_granted(3,4,7,8)[OF assms(3,2), of ca "LPFOf l" user]
    by (auto simp: and_1 access_indexes split: if_splits)
  moreover have "\<forall>k<11. \<not> bit (lpf ?e) k" unfolding b by simp
  moreover have "getHostMemAddr (phys s) (PPFOf p) rw \<noteq> NullPtr" if "\<not> bit (lpf ?e) 11" using that unfolding b by simp
  ultimately show ?thesis unfolding entry_fast_def fill_entry_simps host by blast
qed

lemma entry_fast_slot:
  "entry_fast s (tlb_entry (set_entry n e t) k) \<longleftrightarrow> (if k = n then entry_fast s e else entry_fast s (tlb_entry t k))"
  by simp

lemma translate_same_map:
  assumes "mmu_ok s" "translate_linear e laddr user rw s = (r, e', s')"
  shows "same_map s s'"
  using translate_frame[OF assms] ad_updates_frame[OF translate_memory[OF assms]] same_map_frame by blast

lemma translate_entry_fast:
  assumes "mmu_ok s" "get_PG s" "rw \<noteq> BX_EXECUTE" "IsCanonical s (lin s laddr)" "entry_fast s e"
    and t: "translate_linear e laddr user rw s = (r, e', s')"
  shows "entry_fast s' e'"
proof (cases "tlb_miss e laddr user rw s")
  case False
  then show ?thesis using translate_hit[OF False] t assms(5) by simp
next
  case miss: True
  note m = same_map_entry[OF translate_same_map[OF assms(1) t]]
  show ?thesis
  proof (cases r)
    case (Inl f)
    then have "e' = e \<or> e' = invalidate e"
      using translate_linear_fault[of e laddr user rw s "fst f" "snd f" e' s'] t by (cases f) simp
    then show ?thesis using assms(5) by (auto simp only: m entry_fast_invalidate)
  next
    case (Inr p)
    obtain ma pk and pa :: Bit64u where e': "e' = fill_entry s' (lin s laddr) p ma (ucast pa AND ma) pk user rw e"
      by (rule translate_fills[OF miss t[unfolded Inr] assms(2)]) (rule that)
    have sm: "same_map s s'" by (rule translate_same_map[OF assms(1) t])
    have same: "lin s' = lin s" "IsCanonical s' = IsCanonical s" "get_PG s'"
      using sm assms(2) by (simp_all add: same_map_def lin_def IsCanonical_def fun_eq_iff)
    have ok: "mmu_ok s'" using mmu_ok_frame[OF assms(1)] translate_frame[OF assms(1) t] by blast
    have "lin s (lin s laddr) = lin s laddr" by (simp add: lin_def)
    then show ?thesis unfolding e' by (intro fill_entry_fast) (simp_all add: same ok assms(3,4))
  qed
qed

section \<open>The invariant\<close>

definition fast_inv :: "bx_mmu \<Rightarrow> bool" where
  "fast_inv s \<longleftrightarrow> mmu_inv s \<and> get_PG s \<and> ram_ok (phys s) \<and> (alignment_check_mask s = 0 \<or> alignment_check_mask s = 0xf) \<and>
    dtlb_fast s \<and> (\<forall>h. pages (address_xlation s) = HostAddr h \<longrightarrow> (\<exists>l. h = Vector l))"

lemma same_map_ram: "same_map s s' \<Longrightarrow> ram_ok (phys s') = ram_ok (phys s)"
  by (simp add: same_map_def ram_ok_def)

lemma fast_inv_step:
  assumes "fast_inv s" "mmu_inv s'" "same_map s s'" "dtlb_fast s'" "alignment_check_mask s' = alignment_check_mask s"
    "\<forall>h. pages (address_xlation s') = HostAddr h \<longrightarrow> (\<exists>l. h = Vector l)"
  shows "fast_inv s'"
  using assms same_map_ram[OF assms(3)] by (simp add: fast_inv_def same_map_def)

lemma dtlb_fast_same: "same_map s s' \<Longrightarrow> tlb_entry (DTLB s') = tlb_entry (DTLB s) \<Longrightarrow> dtlb_fast s' = dtlb_fast s"
  by (simp add: dtlb_fast_def same_map_entry)

lemma translate_dtlb_fast:
  assumes "fast_inv s" "rw \<noteq> BX_EXECUTE" "IsCanonical s (lin s a)"
    and t: "translate_dtlb (BX_DTLB_INDEX_OF a 0) a user rw s = (r, s')"
  shows "fast_inv s' \<and> same_map s s'"
proof -
  let ?n = "BX_DTLB_INDEX_OF a 0"
  obtain e' s1 where t1: "translate_linear (tlb_entry (DTLB s) ?n) a user rw s = (r, e', s1)"
    and s': "s' = s1\<lparr>DTLB := set_entry ?n e' (DTLB s1)\<rparr>"
    using t by (auto simp: translate_dtlb_def Let_def split: prod.splits)
  have i: "mmu_inv s" "get_PG s" "dtlb_fast s" and ok: "mmu_ok s" using assms(1) by (simp_all add: fast_inv_def mmu_inv_def)
  note m1 = translate_same_map[OF ok t1] and f1 = translate_frame[OF ok t1]
  have e: "entry_fast s1 e'"
    by (rule translate_entry_fast[OF ok i(2) assms(2,3) _ t1]) (use i(3) index_less(1) in \<open>simp add: dtlb_fast_def\<close>)
  have m: "same_map s s'" using m1 by (simp add: s' same_map_def DTLB_simps)
  have "same_map s1 s'" by (simp add: s' same_map_def DTLB_simps)
  then have "dtlb_fast s'"
    using e f1 i(3) same_map_entry[OF m1] same_map_entry[of s1 s'] by (auto simp: dtlb_fast_def s' split: if_splits)
  moreover have "alignment_check_mask s' = alignment_check_mask s" using f1 by (simp add: s' mmu_frame_fields)
  moreover have "address_xlation s1 = address_xlation s" using f1 by simp
  moreover have "mmu_inv s'" using translate_dtlb_inv[OF i(1) assms(2) t] by blast
  moreover have "\<forall>h. pages (address_xlation s) = HostAddr h \<longrightarrow> (\<exists>l. h = Vector l)" using assms(1) unfolding fast_inv_def by blast
  ultimately show ?thesis using fast_inv_step[OF assms(1) _ m] m by (simp add: s')
qed

lemma fast_inv_xlation:
  assumes "fast_inv s" "pages x = pages (address_xlation s) \<or> (\<exists>n. pages x = Pages n)"
  shows "fast_inv (s\<lparr>address_xlation := x\<rparr>) \<and> same_map s (s\<lparr>address_xlation := x\<rparr>)"
proof -
  let ?s = "s\<lparr>address_xlation := x\<rparr>"
  have m: "same_map s ?s"
    by (simp add: same_map_def get_PG_def get_LASS_def get_SMAP_def long_mode_def get_LMA_def)
  have "mmu_inv ?s" "dtlb_fast s" "\<forall>h. pages (address_xlation s) = HostAddr h \<longrightarrow> (\<exists>l. h = Vector l)"
    using assms(1) inv_xlation by (auto simp: fast_inv_def)
  then show ?thesis using fast_inv_step[OF assms(1) _ m] dtlb_fast_same[OF m] m assms(2) by auto
qed

lemma access_pages_fast:
  assumes "fast_inv s" "rw \<noteq> BX_EXECUTE" "access_pages laddr len pl rw acm s = (r, s')"
  shows "fast_inv s' \<and> same_map s s'"
  using assms(3)
proof (rule access_pages_rel)
  have ok: "mmu_ok s" using assms(1) by (simp add: fast_inv_def mmu_inv_def)
  show "fast_inv s2 \<and> same_map s s2"
    if R: "fast_inv s1 \<and> same_map s s1" and c: "IsCanonicalAccess s a rw (pl = 3) \<or> take_bit 32 a = a"
      and t: "translate_dtlb (BX_DTLB_INDEX_OF a 0) a u rw s1 = (q, s2)" for s1 a u q s2
  proof -
    have "IsCanonical s (lin s a)" by (rule canonical_lin[OF ok c])
    then have "IsCanonical s1 (lin s1 a)" using R by (simp add: same_map_def lin_def IsCanonical_def)
    then show ?thesis using translate_dtlb_fast[OF _ assms(2) _ t] R same_map_trans by blast
  qed
  show "fast_inv (s1\<lparr>address_xlation := x\<rparr>) \<and> same_map s (s1\<lparr>address_xlation := x\<rparr>)"
    if "fast_inv s1 \<and> same_map s s1" "pages x = pages (address_xlation s1) \<or> (\<exists>n. pages x = Pages n)" for s1 x
    using fast_inv_xlation[of s1 x] that same_map_trans by blast
qed (use assms(1) in simp)

lemma fast_inv_phys:
  assumes "fast_inv s" "mem_len m = mem_len (phys s)" "a20_mask m = a20_mask (phys s)" "bogus m = bogus (phys s)"
  shows "fast_inv (s\<lparr>phys := m\<rparr>)" "same_map s (s\<lparr>phys := m\<rparr>)"
proof -
  show m: "same_map s (s\<lparr>phys := m\<rparr>)" using assms(2-4) by (simp add: same_map_def)
  have "mmu_inv (s\<lparr>phys := m\<rparr>)" using assms inv_phys(1) by (simp add: fast_inv_def)
  moreover have "dtlb_fast (s\<lparr>phys := m\<rparr>)" using assms(1) dtlb_fast_same[OF m] by (simp add: fast_inv_def)
  moreover have "\<forall>h. pages (address_xlation s) = HostAddr h \<longrightarrow> (\<exists>l. h = Vector l)" using assms(1) unfolding fast_inv_def by blast
  ultimately show "fast_inv (s\<lparr>phys := m\<rparr>)" using fast_inv_step[OF assms(1) _ m] by simp
qed

lemma write_keeps_ram:
  "mem_len (write_pages ps data m) = mem_len m" "bogus (write_pages ps data m) = bogus m"
  by (induction ps data m rule: write_pages.induct) (auto simp: write_cases)

lemma access_linear_fast:
  assumes "fast_inv s" "rw \<noteq> BX_EXECUTE"
  shows "fast_inv (snd (access_read_linear laddr len pl rw acm s))" "fast_inv (snd (access_write_linear laddr len pl rw acm data s))"
proof -
  obtain q s1 where p: "access_pages laddr len pl rw acm s = (q, s1)" by (metis surj_pair)
  have i: "fast_inv s1" using access_pages_fast[OF assms p] by blast
  show "fast_inv (snd (access_read_linear laddr len pl rw acm s))" using i p by (simp add: access_read_linear_def)
  show "fast_inv (snd (access_write_linear laddr len pl rw acm data s))"
    using i p fast_inv_phys(1)[OF i] write_keeps_ram write_keeps_a20
    by (auto simp: access_write_linear_def split: sum.splits option.splits)
qed

section \<open>A fast access stays in its page\<close>

lemma page_carry:
  fixes x y :: nat
  assumes "4096 \<le> x mod 4096 + y" "y < 4096"
  shows "(x + y) div 4096 = Suc (x div 4096)"
proof -
  obtain q r where x: "x div 4096 = q" "x mod 4096 = r" "r < 4096" "x = 4096 * q + r"
    by (metis mod_less_divisor mult_div_mod_eq zero_less_numeral)
  have "4096 * Suc q \<le> x + y" "x + y < 4096 * Suc (Suc q)" using x(3,4) assms[unfolded x(2)] by simp_all
  then show ?thesis unfolding x(1) by (rule div_nat_eqI)
qed

lemma page_number: "(x mod 2 ^ 32) div 4096 mod 2048 = x div 4096 mod 2048" for x :: nat
proof -
  have "x mod (4096 * 1048576) = 4096 * (x div 4096 mod 1048576) + x mod 4096" by (rule mod_mult2_eq)
  moreover have "(4096 * a + x mod 4096) div 4096 = a" for a by simp
  moreover have "y mod (2048 * 512) mod 2048 = y mod 2048" for y :: nat by (rule mod_mod_cancel) simp
  moreover have "(4096 * 1048576 :: nat) = 2 ^ 32" "(2048 * 512 :: nat) = 1048576" by simp_all
  ultimately show ?thesis by metis
qed

lemma index_no_cross:
  assumes "BX_DTLB_INDEX_OF laddr m = BX_DTLB_INDEX_OF laddr 0" "unat m < 4096"
  shows "unat (PAGE_OFFSET laddr) + unat m < 4096"
proof (rule ccontr)
  let ?x = "ucast laddr :: Bit32u"
  have idx: "BX_DTLB_INDEX_OF laddr k = (unat ?x + unat k) div 4096 mod 2048" for k
  proof -
    have "drop_bit 12 (y AND 0x7ff000) = take_bit 11 (drop_bit 12 y)" for y :: Bit32u
      by (simp add: drop_bit_and take_bit_eq_mask mask_eq_exp_minus_1)
    then have "BX_DTLB_INDEX_OF laddr k = unat (take_bit 11 (drop_bit 12 (?x + k)))"
      by (simp add: BX_DTLB_INDEX_OF_def get_index_of_def BX_DTLB_SIZE_def)
    also have "\<dots> = (unat ?x + unat k) mod 2 ^ 32 div 4096 mod 2048"
      by (simp add: unsigned_take_bit_eq unsigned_drop_bit_eq unat_word_ariths take_bit_eq_mod drop_bit_eq_div take_bit_nat_def)
    also have "\<dots> = (unat ?x + unat k) div 4096 mod 2048" by (rule page_number)
    finally show ?thesis .
  qed
  have off: "unat (PAGE_OFFSET laddr) = unat ?x mod 4096"
  proof -
    have "PAGE_OFFSET laddr = take_bit 12 ?x" by (simp only: PAGE_OFFSET_def take_bit_eq_mask) (simp add: mask_eq_exp_minus_1)
    then have "unat (PAGE_OFFSET laddr) = take_bit 12 (unat ?x)" by (simp only: unsigned_take_bit_eq)
    then show ?thesis by (simp add: take_bit_eq_mod)
  qed
  assume "\<not> ?thesis"
  then have "4096 \<le> unat ?x mod 4096 + unat m" unfolding off by simp
  then have "(unat ?x + unat m) div 4096 = Suc (unat ?x div 4096)" using assms(2) by (rule page_carry)
  moreover have "Suc q mod 2048 \<noteq> q mod 2048" for q :: nat by (simp add: mod_Suc)
  moreover have "(unat ?x + unat m) div 4096 mod 2048 = unat ?x div 4096 mod 2048"
    using assms(1) unfolding idx unat_0 add_0_right .
  ultimately show False by metis
qed

lemma OK_permits:
  "isReadOK s e user \<longleftrightarrow> tlb_permits s e user BX_READ" "isReadOK s e user \<longleftrightarrow> tlb_permits s e user BX_IMPLICIT_SUPERVISOR_READ"
  "isWriteOK s e user \<longleftrightarrow> tlb_permits s e user BX_WRITE" "isWriteOK s e user \<longleftrightarrow> tlb_permits s e user BX_IMPLICIT_SUPERVISOR_WRITE"
  "isWriteOK s e user \<longleftrightarrow> tlb_permits s e user BX_RW"
  "isShadowStackReadOK s e user \<longleftrightarrow> tlb_permits s e user BX_SHADOW_STACK_READ"
  "isShadowStackWriteOK s e user \<longleftrightarrow> tlb_permits s e user BX_SHADOW_STACK_WRITE"
  by (cases user; simp add: isReadOK_def isWriteOK_def isShadowStackReadOK_def isShadowStackWriteOK_def tlb_permits_iff access_indexes
      BX_READ_def BX_WRITE_def BX_RW_def BX_IMPLICIT_SUPERVISOR_READ_def BX_IMPLICIT_SUPERVISOR_WRITE_def BX_SHADOW_STACK_READ_def
      BX_SHADOW_STACK_WRITE_def and_and_exp[of _ 0, simplified] and_and_exp[of _ 1, simplified] and_and_exp[of _ 2, simplified]
      and_and_exp[of _ 3, simplified] and_and_exp[of _ 4, simplified] and_and_exp[of _ 5, simplified]
      and_and_exp[of _ 6, simplified] and_and_exp[of _ 7, simplified])+

text \<open>The tests of a fast path: the entry in the slot of the last byte carries the tag of the page and permits the access;
  \<open>k\<close> is the distance of the last byte and \<open>am\<close> the low address bits that have to be clear.\<close>

definition hit_entry :: "bx_mmu \<Rightarrow> bx_address \<Rightarrow> Bit32u \<Rightarrow> bx_TLB_entry" where
  "hit_entry s laddr k = tlb_entry (DTLB s) (BX_DTLB_INDEX_OF laddr k)"

definition fast_hit :: "bx_mmu \<Rightarrow> bx_address \<Rightarrow> Bit32u \<Rightarrow> bx_address \<Rightarrow> bool \<Rightarrow> Bit32u \<Rightarrow> bool" where
  "fast_hit s laddr k am user rw \<longleftrightarrow>
    lpf (hit_entry s laddr k) = AlignedAccessLPFOf laddr am \<and> tlb_permits s (hit_entry s laddr k) user rw"

lemma fast_hit_entry:
  assumes "fast_inv s" "fast_hit s laddr k am user rw" "\<forall>j\<ge>11. \<not> bit am j" "unat k < 4096"
  defines "e \<equiv> hit_entry s laddr k"
  shows "tlb_valid e \<and> lpf e = LPFOf laddr \<and> BX_DTLB_INDEX_OF laddr k = BX_DTLB_INDEX_OF laddr 0 \<and>
    unat (PAGE_OFFSET laddr) + unat k < 4096 \<and> entry_fast s e \<and> laddr AND am = 0 \<and> tlb_permits s e user rw"
proof -
  have tag: "lpf e = AlignedAccessLPFOf laddr am" using assms(2) by (simp add: fast_hit_def e_def)
  have b: "bit (lpf e) j \<longleftrightarrow> bit laddr j \<and> (12 \<le> j \<or> bit am j)" for j
    unfolding tag AlignedAccessLPFOf_def by (auto simp: bit_and_iff bit_or_iff bit_LPF_MASK dest: bit_imp_le_length)
  have "\<not> bit (lpf e) 11" using assms(3) unfolding b by simp
  moreover have "bit BX_INVALID_TLB_ENTRY 11" by (simp add: BX_INVALID_TLB_ENTRY_def)
  ultimately have v: "tlb_valid e" by (auto simp: tlb_valid_def)
  have fe: "entry_fast s e" using assms(1) index_less(1) by (simp add: fast_inv_def dtlb_fast_def e_def hit_entry_def)
  then have low: "\<not> bit (lpf e) j" if "j < 11" for j using v that by (simp add: entry_fast_def)
  have al: "\<not> (bit laddr j \<and> bit am j)" for j
    using assms(3) low[of j] unfolding b by (cases "j < 11") auto
  then have l: "lpf e = LPFOf laddr" by (intro bit_word_eqI) (auto simp: b bit_LPFOf)
  have "entry_ok BX_DTLB_SIZE (split_large (DTLB s)) (BX_DTLB_INDEX_OF laddr k) e"
    using assms(1) index_less(1) by (simp add: fast_inv_def mmu_inv_def tlb_ok_def e_def hit_entry_def)
  then have "BX_DTLB_INDEX_OF (lpf e) 0 = BX_DTLB_INDEX_OF laddr k" using v by (simp add: entry_ok_def BX_DTLB_INDEX_OF_def)
  moreover have "LPFOf (lpf e) = LPFOf laddr" unfolding l by (rule bit_word_eqI) (auto simp: bit_LPFOf)
  ultimately have i: "BX_DTLB_INDEX_OF laddr k = BX_DTLB_INDEX_OF laddr 0"
    using get_index_of_LPFOf[of "lpf e" laddr BX_DTLB_SIZE] by (simp add: BX_DTLB_INDEX_OF_def)
  have "laddr AND am = 0" using al by (intro bit_word_eqI) (auto simp: bit_and_iff)
  moreover have "tlb_permits s e user rw" using assms(2) by (simp add: fast_hit_def e_def)
  ultimately show ?thesis using v l i fe index_no_cross[OF i assms(4)] by blast
qed

lemma drop_bit_63: "drop_bit 63 (a :: Bit64u) = 0 \<longleftrightarrow> \<not> bit a 63"
proof
  assume "\<not> bit a 63"
  then have "\<not> bit a (63 + n)" for n by (cases n) (auto dest: bit_imp_le_length)
  then show "drop_bit 63 a = 0" by (intro bit_word_eqI) (simp add: bit_drop_bit_eq)
next
  assume "drop_bit 63 a = 0"
  then have "\<not> bit (drop_bit 63 a) 0" by simp
  then show "\<not> bit a 63" by (simp add: bit_drop_bit_eq)
qed

lemma fast_entry_canonical:
  assumes "fast_inv s" "entry_fast s e" "tlb_valid e" "lpf e = LPFOf laddr" "tlb_permits s e user rw" "rw \<noteq> BX_EXECUTE"
  shows "IsCanonicalAccess s laddr rw user"
proof -
  have b: "bit (lpf e) k \<longleftrightarrow> 12 \<le> k \<and> bit laddr k" for k unfolding assms(4) bit_LPFOf ..
  have ok: "mmu_ok s" using assms(1) by (simp add: fast_inv_def mmu_inv_def)
  have c: "IsCanonical s laddr" using assms(2,3) canonical_page[OF ok, of "lpf e" laddr] by (simp add: entry_fast_def b)
  have top: "drop_bit 63 laddr = 0 \<longleftrightarrow> \<not> bit laddr 63" by (rule drop_bit_63)
  have p: "bit (accessBits e) (access_index user rw)" using assms(5) by (simp add: tlb_permits_iff)
  have "\<not> bit laddr 63" if "long_mode s" "get_LASS s" "user" using p assms(2,3) that by (auto simp: entry_fast_def b)
  moreover have "bit laddr 63" if "long_mode s" "get_LASS s" "\<not> user" "get_SMAP s"
    using p assms(2,3) that by (auto simp: entry_fast_def b)
  ultimately show ?thesis using c assms(6) unfolding IsCanonicalAccess_def Let_def top by auto
qed

text \<open>On a hit the slow path finds the page that the fast path uses, and reading or writing the page is what it does.\<close>

lemma fast_hit_pages:
  assumes "fast_inv s" "fast_hit s laddr k am (pl = 3) rw" "\<forall>j\<ge>11. \<not> bit am j" "unat k < 4096" "rw \<noteq> BX_EXECUTE"
    and align: "pl = 3 \<Longrightarrow> alignment_check_mask s \<noteq> 0 \<Longrightarrow> laddr AND am = 0 \<Longrightarrow> PAGE_OFFSET laddr AND acm = 0"
    and fits: "unat (PAGE_OFFSET laddr) + unat k < 4096 \<Longrightarrow> laddr AND am = 0 \<Longrightarrow> unat (PAGE_OFFSET laddr) + len \<le> 4096"
  defines "e \<equiv> hit_entry s laddr k"
  defines "p \<equiv> ppf e OR ucast (PAGE_OFFSET laddr)" and "h \<equiv> host_or (hostPageAddr e) (PAGE_OFFSET laddr)"
  shows "access_pages laddr len pl rw acm s = (Inr (Some [(p, len)]), set_one_page p s)"
    "ReadHost (phys s) h len = readPhysicalPage (phys s) p len"
    "bit rw 0 \<Longrightarrow> WriteHost (phys s) h bs = writePhysicalPage (phys s) p bs"
    "bit rw 0 \<Longrightarrow> \<exists>l. h = Vector l"
proof -
  note hit = fast_hit_entry[OF assms(1-4)]
  have e: "lpf e = LPFOf laddr" "entry_fast s e" "tlb_valid e" "tlb_permits s e (pl = 3) rw" unfolding e_def using hit by blast+
  have i: "BX_DTLB_INDEX_OF laddr k = BX_DTLB_INDEX_OF laddr 0" and al: "laddr AND am = 0"
    and x: "unat (PAGE_OFFSET laddr) + len \<le> 4096" "unat (PAGE_OFFSET laddr) < 4096" using hit fits by auto
  have e0: "tlb_entry (DTLB s) (BX_DTLB_INDEX_OF laddr 0) = e" unfolding e_def hit_entry_def i ..
  have "lin s (lpf e) = lpf e" using e(2,3) by (simp add: entry_fast_def)
  then have l: "lin s laddr = laddr" unfolding e(1) lin_id bit_LPFOf by auto
  have "\<not> tlb_miss e laddr (pl = 3) rw s" using e(4) assms(5) by (simp add: tlb_miss_def l e(1) TLB_tag)
  from translate_hit[OF this] have "translate_dtlb (BX_DTLB_INDEX_OF laddr 0) laddr (pl = 3) rw s = (Inr p, s)"
    using fun_upd_idem[of "tlb_entry (DTLB s)", OF e0] by (simp add: translate_dtlb_def e0 l set_entry_def p_def)
  then show "access_pages laddr len pl rw acm s = (Inr (Some [(p, len)]), set_one_page p s)"
    using x(1) align al fast_entry_canonical[OF assms(1) e(2,3,1,4) assms(5)] by (auto simp: access_pages_def Let_def)
  have r: "ram_ok (phys s)" using assms(1) by (simp add: fast_inv_def)
  have "\<not> bit (lpf e) 11" unfolding e(1) by (simp add: bit_LPFOf)
  moreover have "bit (accessBits e) (access_index (pl = 3) rw)" using e(4) by (simp add: tlb_permits_iff)
  ultimately obtain w where w: "hostPageAddr e = getHostMemAddr (phys s) (ppf e) w" "hostPageAddr e \<noteq> NullPtr" "page_of (ppf e)"
    "bit rw 0 \<longrightarrow> w AND 1 \<noteq> 0"
    using e(2,3) unfolding entry_fast_def by blast
  note q = host_page[OF r w(3) x w(1)[symmetric] w(2)]
  show "ReadHost (phys s) h len = readPhysicalPage (phys s) p len" unfolding h_def p_def by (rule q(1))
  show "WriteHost (phys s) h bs = writePhysicalPage (phys s) p bs" if "bit rw 0" unfolding h_def p_def using q(2) w(4) that by blast
  show "\<exists>l. h = Vector l" if "bit rw 0"
    using w(1,2,4) that by (auto simp: h_def host_or_def getHostMemAddr_def Let_def split: if_splits)
qed

section \<open>One access\<close>

text \<open>Results up to the record of the last translation, which only a read-modify-write uses, within itself.\<close>

definition forget_xlation :: "'a \<times> bx_mmu \<Rightarrow> 'a \<times> bx_mmu" where
  "forget_xlation = apsnd (\<lambda>s. s\<lparr>address_xlation := \<lparr>paddress1 = 0, paddress2 = 0, len1 = 0, len2 = 0, pages = Pages 0\<rparr>\<rparr>)"

definition fast_args :: "bx_mmu \<Rightarrow> bx_address \<Rightarrow> nat \<Rightarrow> Bit32u \<Rightarrow> bx_address \<Rightarrow> nat \<Rightarrow> Bit32u \<Rightarrow> Bit32u \<Rightarrow> bool" where
  "fast_args s laddr len k am pl rw acm \<longleftrightarrow> (\<forall>j\<ge>11. \<not> bit am j) \<and> unat k < 4096 \<and> rw \<noteq> BX_EXECUTE \<and>
    (pl = 3 \<longrightarrow> alignment_check_mask s \<noteq> 0 \<longrightarrow> laddr AND am = 0 \<longrightarrow> PAGE_OFFSET laddr AND acm = 0) \<and>
    (unat (PAGE_OFFSET laddr) + unat k < 4096 \<longrightarrow> laddr AND am = 0 \<longrightarrow> unat (PAGE_OFFSET laddr) + len \<le> 4096)"

definition fast_read :: "nat \<Rightarrow> bx_address \<Rightarrow> Bit32u \<Rightarrow> bx_address \<Rightarrow> bool \<Rightarrow> Bit32u \<Rightarrow> (bx_trap + Bit8u list) \<times> bx_mmu \<Rightarrow> bx_mmu \<Rightarrow>
    (bx_trap + Bit8u list) \<times> bx_mmu" where
  "fast_read len laddr k am user rw F s =
    (if fast_hit s laddr k am user rw then
       (Inr (ReadHost (phys s) (host_or (hostPageAddr (hit_entry s laddr k)) (PAGE_OFFSET laddr)) len), s)
     else F)"

definition fast_write :: "Bit8u list \<Rightarrow> bx_address \<Rightarrow> Bit32u \<Rightarrow> bx_address \<Rightarrow> bool \<Rightarrow> Bit32u \<Rightarrow> (bx_trap + unit) \<times> bx_mmu \<Rightarrow> bx_mmu \<Rightarrow>
    (bx_trap + unit) \<times> bx_mmu" where
  "fast_write data laddr k am user rw F s =
    (if fast_hit s laddr k am user rw then
       (Inr (), s\<lparr>phys := WriteHost (phys s) (host_or (hostPageAddr (hit_entry s laddr k)) (PAGE_OFFSET laddr)) data\<rparr>)
     else F)"

lemma fast_read_slow:
  assumes "fast_inv s" "fast_args s laddr len k am pl rw acm"
    and F: "laddr AND am = 0 \<Longrightarrow> F = raise_unless_done x (access_read_linear laddr len pl rw acm s)" "fast_inv (snd F)"
  shows "forget_xlation (fast_read len laddr k am (pl = 3) rw F s) = forget_xlation F"
    "fast_inv (snd (fast_read len laddr k am (pl = 3) rw F s))"
proof -
  note a = assms(2)[unfolded fast_args_def]
  show "forget_xlation (fast_read len laddr k am (pl = 3) rw F s) = forget_xlation F"
  proof (cases "fast_hit s laddr k am (pl = 3) rw")
    case True
    have f: "F = raise_unless_done x (access_read_linear laddr len pl rw acm s)"
      using F(1) fast_hit_entry[OF assms(1) True] a by blast
    note p = fast_hit_pages(1,2)[OF assms(1) True, of acm len]
    show ?thesis using True p a
      by (simp add: f fast_read_def access_read_linear_def raise_unless_done_def read_pages_def set_one_page_def forget_xlation_def)
  qed (simp add: fast_read_def)
  show "fast_inv (snd (fast_read len laddr k am (pl = 3) rw F s))" using assms(1) F(2) by (simp add: fast_read_def)
qed

lemma fast_write_slow:
  assumes "fast_inv s" "fast_args s laddr len k am pl rw acm" "bit rw 0"
    and F: "laddr AND am = 0 \<Longrightarrow> F = raise_unless_done x (access_write_linear laddr len pl rw acm data s)" "fast_inv (snd F)"
  shows "length data = len \<Longrightarrow> forget_xlation (fast_write data laddr k am (pl = 3) rw F s) = forget_xlation F"
    "fast_inv (snd (fast_write data laddr k am (pl = 3) rw F s))"
proof -
  note a = assms(2)[unfolded fast_args_def]
  have "forget_xlation (fast_write data laddr k am (pl = 3) rw F s) = forget_xlation F \<or> length data \<noteq> len" and
    "fast_inv (snd (fast_write data laddr k am (pl = 3) rw F s))"
  proof (atomize (full), cases "fast_hit s laddr k am (pl = 3) rw")
    case True
    have f: "F = raise_unless_done x (access_write_linear laddr len pl rw acm data s)"
      using F(1) fast_hit_entry[OF assms(1) True] a by blast
    note p = fast_hit_pages(1,3,4)[OF assms(1) True, of acm len]
    have e: "forget_xlation (fast_write data laddr k am (pl = 3) rw F s) = forget_xlation F \<or> length data \<noteq> len"
      using True p(1,2) a assms(3)
      by (auto simp: f fast_write_def access_write_linear_def raise_unless_done_def set_one_page_def forget_xlation_def)
    obtain l where "host_or (hostPageAddr (hit_entry s laddr k)) (PAGE_OFFSET laddr) = Vector l" using p(3) a assms(3) by blast
    then have "fast_inv (s\<lparr>phys := WriteHost (phys s) (host_or (hostPageAddr (hit_entry s laddr k)) (PAGE_OFFSET laddr)) data\<rparr>)"
      by (intro fast_inv_phys(1)[OF assms(1)]) (simp_all add: WriteHost_def)
    then show "(forget_xlation (fast_write data laddr k am (pl = 3) rw F s) = forget_xlation F \<or> length data \<noteq> len) \<and>
        fast_inv (snd (fast_write data laddr k am (pl = 3) rw F s))"
      using e True by (simp add: fast_write_def)
  qed (use F(2) in \<open>simp add: fast_write_def\<close>)
  then show "length data = len \<Longrightarrow> forget_xlation (fast_write data laddr k am (pl = 3) rw F s) = forget_xlation F"
    "fast_inv (snd (fast_write data laddr k am (pl = 3) rw F s))" by blast+
qed

text \<open>The ways the sources test an access of \<open>2 ^ n\<close> bytes.\<close>

lemma PAGE_OFFSET_small: "unat (PAGE_OFFSET a) < 4096"
proof -
  have "PAGE_OFFSET a \<le> 0xfff" unfolding PAGE_OFFSET_def by (rule word_and_le1)
  then show ?thesis by (simp add: word_le_nat_alt)
qed

lemma aligned_fits:
  assumes "a AND mask n = (0 :: bx_address)" "n \<le> 12"
  shows "unat (PAGE_OFFSET a) + 2 ^ n \<le> 4096"
proof -
  have "\<not> bit a k" if "k < n" for k
  proof
    assume "bit a k"
    then have "bit (a AND mask n) k" using that bit_imp_le_length[of a k] by (simp add: bit_and_iff bit_mask_iff)
    then show False using assms(1) by simp
  qed
  then have "take_bit n (PAGE_OFFSET a) = 0"
    by (intro bit_word_eqI) (simp add: PAGE_OFFSET_def bit_take_bit_iff bit_and_iff bit_ucast_iff)
  then have "take_bit n (unat (PAGE_OFFSET a)) = 0" by (metis unsigned_take_bit_eq unsigned_0)
  then have "2 ^ n dvd unat (PAGE_OFFSET a)" by (simp add: take_bit_eq_mod mod_eq_0_iff_dvd)
  moreover have "(2 :: nat) ^ n dvd 2 ^ 12" using assms(2) by (rule le_imp_power_dvd)
  ultimately obtain i j where i: "unat (PAGE_OFFSET a) = 2 ^ n * i" "(2 :: nat) ^ 12 = 2 ^ n * j" by (auto elim!: dvdE)
  have "2 ^ n * i < 2 ^ n * j" using PAGE_OFFSET_small[of a] unfolding i(1) i(2)[symmetric] by simp
  then have "Suc i \<le> j" by simp
  then have "2 ^ n * Suc i \<le> 2 ^ n * j" by (rule mult_le_mono2)
  then show ?thesis unfolding i(1) using i(2) by simp
qed

definition fast_RMW :: "nat \<Rightarrow> bx_address \<Rightarrow> Bit32u \<Rightarrow> bx_address \<Rightarrow> bool \<Rightarrow> (bx_trap + Bit8u list) \<times> bx_mmu \<Rightarrow> bx_mmu \<Rightarrow>
    (bx_trap + Bit8u list) \<times> bx_mmu" where
  "fast_RMW len laddr k am user F s =
    (if fast_hit s laddr k am user BX_RW then
       (let h = host_or (hostPageAddr (hit_entry s laddr k)) (PAGE_OFFSET laddr)
        in (Inr (ReadHost (phys s) h len),
            s\<lparr>address_xlation := (address_xlation s)\<lparr>pages := HostAddr h,
              paddress1 := ppf (hit_entry s laddr k) OR ucast (PAGE_OFFSET laddr)\<rparr>\<rparr>))
     else F)"

text \<open>A read-modify-write, from the outcome of its read.\<close>

definition finish_RMW :: "nat \<Rightarrow> (Bit8u list \<Rightarrow> Bit8u list) \<Rightarrow> (bx_trap + Bit8u list) \<times> bx_mmu \<Rightarrow> (bx_trap + unit) \<times> bx_mmu" where
  "finish_RMW len f = (\<lambda>(r, s). case r of Inl t \<Rightarrow> (Inl t, s) | Inr d \<Rightarrow> (Inr (), write_RMW_linear len (f d) s))"

lemma fast_inv_any_xlation:
  assumes "fast_inv s" "\<forall>h. pages x = HostAddr h \<longrightarrow> (\<exists>l. h = Vector l)"
  shows "fast_inv (s\<lparr>address_xlation := x\<rparr>)"
proof -
  let ?s = "s\<lparr>address_xlation := x\<rparr>"
  have m: "same_map s ?s" by (simp add: same_map_def get_PG_def get_LASS_def get_SMAP_def long_mode_def get_LMA_def)
  have "mmu_inv ?s" "dtlb_fast s" using assms(1) inv_xlation by (auto simp: fast_inv_def)
  then show ?thesis using fast_inv_step[OF assms(1) _ m] dtlb_fast_same[OF m] assms(2) by simp
qed

lemma fast_RMW_slow:
  assumes "fast_inv s" "fast_args s laddr len k am pl BX_RW acm"
    and F: "laddr AND am = 0 \<Longrightarrow> F = raise_unless_done x (access_read_linear laddr len pl BX_RW acm s)" "fast_inv (snd F)"
  shows "forget_xlation (finish_RMW len f (fast_RMW len laddr k am (pl = 3) F s)) = forget_xlation (finish_RMW len f F)"
    "fast_inv (snd (fast_RMW len laddr k am (pl = 3) F s))"
proof -
  note a = assms(2)[unfolded fast_args_def]
  show "forget_xlation (finish_RMW len f (fast_RMW len laddr k am (pl = 3) F s)) = forget_xlation (finish_RMW len f F)"
  proof (cases "fast_hit s laddr k am (pl = 3) BX_RW")
    case True
    have e: "F = raise_unless_done x (access_read_linear laddr len pl BX_RW acm s)"
      using F(1) fast_hit_entry[OF assms(1) True] a by blast
    have w: "bit BX_RW 0" by (simp add: BX_RW_def)
    note p = fast_hit_pages(1,2)[OF assms(1) True, of acm len] fast_hit_pages(3)[OF assms(1) True _ _ _ _ _ w, of acm len]
    show ?thesis using True p a
      by (simp add: e fast_RMW_def access_read_linear_def raise_unless_done_def read_pages_def set_one_page_def forget_xlation_def
          finish_RMW_def write_RMW_linear_def Let_def)
  qed (simp add: fast_RMW_def)
  show "fast_inv (snd (fast_RMW len laddr k am (pl = 3) F s))"
  proof (cases "fast_hit s laddr k am (pl = 3) BX_RW")
    case True
    have w: "bit BX_RW 0" by (simp add: BX_RW_def)
    obtain l where "host_or (hostPageAddr (hit_entry s laddr k)) (PAGE_OFFSET laddr) = Vector l"
      using fast_hit_pages(4)[OF assms(1) True _ _ _ _ _ w, of acm len] a by blast
    then show ?thesis using True by (simp add: fast_RMW_def Let_def fast_inv_any_xlation[OF assms(1)])
  qed (use F(2) in \<open>simp add: fast_RMW_def\<close>)
qed

section \<open>The accesses of the sources\<close>

lemma LPFOf_as_aligned: "LPFOf a = AlignedAccessLPFOf a 0" by (simp add: LPFOf_def AlignedAccessLPFOf_def)

lemma data_accesses:
  "read_linear len seg laddr s = fast_read len laddr (of_nat (len - 1)) (ucast (of_nat (len - 1) AND alignment_check_mask s)) (CPL s = 3) BX_READ
    (fault_unless_done seg (access_read_linear laddr len (CPL s) BX_READ (of_nat (len - 1)) s)) s"
  "write_linear len seg laddr data s = fast_write data laddr (of_nat (len - 1)) (ucast (of_nat (len - 1) AND alignment_check_mask s)) (CPL s = 3) BX_WRITE
    (fault_unless_done seg (access_write_linear laddr len (CPL s) BX_WRITE (of_nat (len - 1)) data s)) s"
  "read_RMW_linear len seg laddr s = fast_RMW len laddr (of_nat (len - 1)) (ucast (of_nat (len - 1) AND alignment_check_mask s)) (CPL s = 3)
    (fault_unless_done seg (access_read_linear laddr len (CPL s) BX_RW (of_nat (len - 1)) s)) s"
  "write_new_stack len laddr pl data s = fast_write data laddr (of_nat (len - 1)) (ucast (of_nat (len - 1) AND alignment_check_mask s)) (pl = 3) BX_WRITE
    (raise_unless_done BX_SS_EXCEPTION (access_write_linear laddr len pl BX_WRITE (of_nat (len - 1)) data s)) s"
  by (simp_all only: read_linear_def write_linear_def read_RMW_linear_def write_new_stack_def fast_read_def fast_write_def fast_RMW_def
      fast_hit_def hit_entry_def Let_def OK_permits(1) OK_permits(3) USER_PL_def)
    (simp_all only: OK_permits(3)[symmetric] OK_permits(5)[symmetric])

lemma unaligned_accesses:
  "read_linear_vector len seg laddr s = fast_read len laddr (of_nat (len - 1)) 0 (CPL s = 3) BX_READ
    (fault_unless_done seg (access_read_linear laddr len (CPL s) BX_READ 0 s)) s"
  "write_linear_vector len seg laddr data s = fast_write data laddr (of_nat (len - 1)) 0 (CPL s = 3) BX_WRITE
    (fault_unless_done seg (access_write_linear laddr len (CPL s) BX_WRITE 0 data s)) s"
  "system_read len laddr s = fast_read len laddr (of_nat (len - 1)) 0 (0 = (3 :: nat)) BX_IMPLICIT_SUPERVISOR_READ
    (raise_unless_done BX_GP_EXCEPTION (access_read_linear laddr len 0 BX_IMPLICIT_SUPERVISOR_READ 0 s)) s"
  "system_write len laddr data s = fast_write data laddr (of_nat (len - 1)) 0 (0 = (3 :: nat)) BX_IMPLICIT_SUPERVISOR_WRITE
    (raise_unless_done BX_GP_EXCEPTION (access_write_linear laddr len 0 BX_IMPLICIT_SUPERVISOR_WRITE 0 data s)) s"
  by (simp_all only: read_linear_vector_def write_linear_vector_def system_read_def system_write_def fast_read_def fast_write_def
      fast_hit_def hit_entry_def Let_def LPFOf_as_aligned USER_PL_def OK_permits(1)[symmetric] OK_permits(2)[symmetric]
      OK_permits(3)[symmetric] OK_permits(4)[symmetric]) simp_all

text \<open>What the accesses that must be aligned do when the fast path is not taken.\<close>

definition when_aligned :: "bx_address \<Rightarrow> bx_address \<Rightarrow> (bx_trap + 'a) \<times> bx_mmu \<Rightarrow> bx_mmu \<Rightarrow> (bx_trap + 'a) \<times> bx_mmu" where
  "when_aligned laddr m F s = (if laddr AND m \<noteq> 0 then (Inl (BX_GP_EXCEPTION, 0), s) else F)"

lemma aligned_accesses:
  "read_linear_vector_aligned len seg laddr s = fast_read len laddr 0 (of_nat (len - 1)) (CPL s = 3) BX_READ
    (when_aligned laddr (of_nat (len - 1)) (fault_unless_done seg (access_read_linear laddr len (CPL s) BX_READ 0 s)) s) s"
  "write_linear_vector_aligned len seg laddr data s = fast_write data laddr 0 (of_nat (len - 1)) (CPL s = 3) BX_WRITE
    (when_aligned laddr (of_nat (len - 1)) (fault_unless_done seg (access_write_linear laddr len (CPL s) BX_WRITE 0 data s)) s) s"
  "read_RMW_linear_dqword_aligned_64 seg laddr s = fast_RMW 16 laddr 0 15 (CPL s = 3)
    (when_aligned laddr 15 (fault_unless_done seg (access_read_linear laddr 16 (CPL s) BX_RW 0 s)) s) s"
  "shadow_stack_read len seg laddr pl s = fast_read len laddr (of_nat (len - 1)) (of_nat (len - 1)) (pl = 3) BX_SHADOW_STACK_READ
    (when_aligned laddr (if len = 4 then 3 else 0) (fault_unless_done seg (access_read_linear laddr len pl BX_SHADOW_STACK_READ 0 s)) s) s"
  "shadow_stack_write len seg laddr pl data s = fast_write data laddr (of_nat (len - 1)) (of_nat (len - 1)) (pl = 3) BX_SHADOW_STACK_WRITE
    (when_aligned laddr (if len = 4 then 3 else 0) (fault_unless_done seg (access_write_linear laddr len pl BX_SHADOW_STACK_WRITE 0 data s)) s) s"
  by (simp_all add: read_linear_vector_aligned_def write_linear_vector_aligned_def read_RMW_linear_dqword_aligned_64_def
      shadow_stack_read_def shadow_stack_write_def fast_read_def fast_write_def fast_RMW_def when_aligned_def
      fast_hit_def hit_entry_def Let_def USER_PL_def OK_permits(1)[symmetric] OK_permits(3)[symmetric] OK_permits(5)[symmetric]
      OK_permits(6)[symmetric] OK_permits(7)[symmetric])

lemma rws [simp]: "BX_READ \<noteq> BX_EXECUTE" "BX_WRITE \<noteq> BX_EXECUTE" "BX_RW \<noteq> BX_EXECUTE" "BX_IMPLICIT_SUPERVISOR_READ \<noteq> BX_EXECUTE"
  "BX_IMPLICIT_SUPERVISOR_WRITE \<noteq> BX_EXECUTE" "BX_SHADOW_STACK_READ \<noteq> BX_EXECUTE" "BX_SHADOW_STACK_WRITE \<noteq> BX_EXECUTE"
  "bit BX_WRITE 0" "bit BX_RW 0" "bit BX_IMPLICIT_SUPERVISOR_WRITE 0" "bit BX_SHADOW_STACK_WRITE 0"
  by (simp_all add: BX_READ_def BX_WRITE_def BX_RW_def BX_IMPLICIT_SUPERVISOR_READ_def BX_IMPLICIT_SUPERVISOR_WRITE_def
      BX_SHADOW_STACK_READ_def BX_SHADOW_STACK_WRITE_def BX_EXECUTE_def)

lemma low_bits:
  assumes "len \<in> {1, 2, 4, 8, 16, 32, 64 :: nat}" "11 \<le> j"
  shows "\<not> bit (of_nat (len - 1) :: 'a :: len word) j" "\<not> bit (of_nat (len - 1) AND x :: 'a word) j"
proof -
  have "len - 1 < 2 ^ 6" using assms(1) by auto
  moreover have "(2 :: nat) ^ 6 \<le> 2 ^ j" using assms(2) by (intro power_increasing) auto
  ultimately have "(len - 1) div 2 ^ j = 0" by (intro div_less) linarith
  then have "\<not> bit (len - 1) j" by (simp only: bit_iff_odd even_zero not_not)
  then show "\<not> bit (of_nat (len - 1) :: 'a word) j" by (simp add: bit_of_nat_iff)
  then show "\<not> bit (of_nat (len - 1) AND x :: 'a word) j" by (simp add: bit_and_iff)
qed

lemma last_byte: "len \<in> {1, 2, 4, 8, 16, 32, 64} \<Longrightarrow> unat (of_nat (len - 1) :: Bit32u) = len - 1" by auto

lemma args_plain:
  assumes "len \<in> {1, 2, 4, 8, 16, 32, 64}" "rw \<noteq> BX_EXECUTE" "\<forall>j\<ge>11. \<not> bit am j"
    "alignment_check_mask s \<noteq> 0 \<longrightarrow> laddr AND am = 0 \<longrightarrow> PAGE_OFFSET laddr AND acm = 0"
  shows "fast_args s laddr len (of_nat (len - 1)) am pl rw acm"
  using assms last_byte[OF assms(1)] by (auto simp: fast_args_def)

lemma args_data:
  assumes "fast_inv s" "len \<in> {1, 2, 4, 8}" "rw \<noteq> BX_EXECUTE"
  shows "fast_args s laddr len (of_nat (len - 1)) (ucast (of_nat (len - 1) AND alignment_check_mask s)) pl rw (of_nat (len - 1))"
proof (rule args_plain)
  let ?m = "of_nat (len - 1) :: Bit32u"
  show l: "len \<in> {1, 2, 4, 8, 16, 32, 64}" using assms(2) by auto
  show "\<forall>j\<ge>11. \<not> bit (ucast (?m AND alignment_check_mask s) :: bx_address) j"
    using low_bits(2)[OF l, where 'a = 32] by (simp add: bit_ucast_iff)
  show "alignment_check_mask s \<noteq> 0 \<longrightarrow> laddr AND ucast (?m AND alignment_check_mask s) = 0 \<longrightarrow> PAGE_OFFSET laddr AND ?m = 0"
  proof (intro impI)
    assume "alignment_check_mask s \<noteq> 0" and al: "laddr AND ucast (?m AND alignment_check_mask s) = 0"
    moreover have "?m AND 0xf = ?m" using assms(2) by auto
    ultimately have "?m AND alignment_check_mask s = ?m" using assms(1) by (auto simp: fast_inv_def)
    then have z: "laddr AND ucast ?m = 0" using al by simp
    have "\<not> (bit laddr j \<and> bit ?m j)" for j
    proof
      assume "bit laddr j \<and> bit ?m j"
      then have "bit (laddr AND ucast ?m) j" using bit_imp_le_length[of laddr j] by (simp add: bit_and_iff bit_ucast_iff)
      then show False using z by simp
    qed
    then show "PAGE_OFFSET laddr AND ?m = 0"
      unfolding PAGE_OFFSET_def by (intro bit_word_eqI) (auto simp: bit_and_iff bit_ucast_iff)
  qed
qed (rule assms(3))

lemma args_low:
  assumes "len \<in> {1, 2, 4, 8, 16, 32, 64}" "rw \<noteq> BX_EXECUTE"
  shows "fast_args s laddr len (of_nat (len - 1)) 0 pl rw 0" "fast_args s laddr len (of_nat (len - 1)) (of_nat (len - 1)) pl rw 0"
  using args_plain[OF assms] low_bits(1)[OF assms(1), where 'a = 64] by simp_all

lemma args_aligned:
  assumes "len \<in> {16, 32, 64}" "rw \<noteq> BX_EXECUTE"
  shows "fast_args s laddr len 0 (of_nat (len - 1)) pl rw 0"
proof -
  obtain n where n: "len = 2 ^ n" "n \<le> 12"
  proof -
    have "len = 2 ^ 4 \<or> len = 2 ^ 5 \<or> len = 2 ^ 6" using assms(1) by auto
    then show ?thesis using that by fastforce
  qed
  then have "of_nat (len - 1) = (mask n :: bx_address)" by (simp add: mask_eq_exp_minus_1 of_nat_diff)
  then show ?thesis using assms aligned_fits[of laddr n] n low_bits(1)[of len, where 'a = 64] by (auto simp: fast_args_def)
qed

lemma fast_inv_slow:
  assumes "fast_inv s" "rw \<noteq> BX_EXECUTE"
  shows "fast_inv (snd (raise_unless_done x (access_read_linear laddr len pl rw acm s)))"
    "fast_inv (snd (raise_unless_done x (access_write_linear laddr len pl rw acm data s)))"
    "fast_inv (snd (when_aligned laddr m (raise_unless_done x (access_read_linear laddr len pl rw acm s)) s))"
    "fast_inv (snd (when_aligned laddr m (raise_unless_done x (access_write_linear laddr len pl rw acm data s)) s))"
  using access_linear_fast[OF assms] assms(1) by (auto simp: raise_unless_done_state when_aligned_def)

text \<open>Every access keeps the invariant and is its slow path.\<close>

lemma data_fast:
  assumes "fast_inv s" "len \<in> {1, 2, 4, 8}"
  shows "fast_inv (snd (read_linear len seg laddr s))" "fast_inv (snd (write_linear len seg laddr data s))"
    "fast_inv (snd (read_RMW_linear len seg laddr s))" "fast_inv (snd (write_new_stack len laddr pl data s))"
    "forget_xlation (read_linear len seg laddr s) =
      forget_xlation (fault_unless_done seg (access_read_linear laddr len (CPL s) BX_READ (of_nat (len - 1)) s))"
    "length data = len \<Longrightarrow> forget_xlation (write_linear len seg laddr data s) =
      forget_xlation (fault_unless_done seg (access_write_linear laddr len (CPL s) BX_WRITE (of_nat (len - 1)) data s))"
    "forget_xlation (finish_RMW len f (read_RMW_linear len seg laddr s)) =
      forget_xlation (finish_RMW len f (fault_unless_done seg (access_read_linear laddr len (CPL s) BX_RW (of_nat (len - 1)) s)))"
    "length data = len \<Longrightarrow> forget_xlation (write_new_stack len laddr pl data s) =
      forget_xlation (raise_unless_done BX_SS_EXCEPTION (access_write_linear laddr len pl BX_WRITE (of_nat (len - 1)) data s))"
  unfolding data_accesses
  by (rule fast_read_slow[OF assms(1) args_data[OF assms rws(1)] refl fast_inv_slow(1)[OF assms(1) rws(1)]]
      fast_write_slow[OF assms(1) args_data[OF assms rws(2)] rws(8) refl fast_inv_slow(2)[OF assms(1) rws(2)]]
      fast_RMW_slow[OF assms(1) args_data[OF assms rws(3)] refl fast_inv_slow(1)[OF assms(1) rws(3)]]; assumption?)+

lemma unaligned_fast:
  assumes "fast_inv s" "len \<in> {1, 2, 4, 8, 16, 32, 64}"
  shows "fast_inv (snd (read_linear_vector len seg laddr s))" "fast_inv (snd (write_linear_vector len seg laddr data s))"
    "fast_inv (snd (system_read len laddr s))" "fast_inv (snd (system_write len laddr data s))"
    "forget_xlation (read_linear_vector len seg laddr s) =
      forget_xlation (fault_unless_done seg (access_read_linear laddr len (CPL s) BX_READ 0 s))"
    "length data = len \<Longrightarrow> forget_xlation (write_linear_vector len seg laddr data s) =
      forget_xlation (fault_unless_done seg (access_write_linear laddr len (CPL s) BX_WRITE 0 data s))"
    "forget_xlation (system_read len laddr s) =
      forget_xlation (raise_unless_done BX_GP_EXCEPTION (access_read_linear laddr len 0 BX_IMPLICIT_SUPERVISOR_READ 0 s))"
    "length data = len \<Longrightarrow> forget_xlation (system_write len laddr data s) =
      forget_xlation (raise_unless_done BX_GP_EXCEPTION (access_write_linear laddr len 0 BX_IMPLICIT_SUPERVISOR_WRITE 0 data s))"
  unfolding unaligned_accesses
  by (rule fast_read_slow[OF assms(1) args_low(1)[OF assms(2) rws(1)] refl fast_inv_slow(1)[OF assms(1) rws(1)]]
      fast_write_slow[OF assms(1) args_low(1)[OF assms(2) rws(2)] rws(8) refl fast_inv_slow(2)[OF assms(1) rws(2)]]
      fast_read_slow[OF assms(1) args_low(1)[OF assms(2) rws(4)] refl fast_inv_slow(1)[OF assms(1) rws(4)]]
      fast_write_slow[OF assms(1) args_low(1)[OF assms(2) rws(5)] rws(10) refl fast_inv_slow(2)[OF assms(1) rws(5)]]; assumption?)+

lemma when_aligned_same: "laddr AND m = 0 \<Longrightarrow> when_aligned laddr m F s = F" by (simp add: when_aligned_def)

lemma aligned_fast:
  assumes "fast_inv s" "len \<in> {16, 32, 64}"
  shows "fast_inv (snd (read_linear_vector_aligned len seg laddr s))" "fast_inv (snd (write_linear_vector_aligned len seg laddr data s))"
    "forget_xlation (read_linear_vector_aligned len seg laddr s) = forget_xlation (when_aligned laddr (of_nat (len - 1))
      (fault_unless_done seg (access_read_linear laddr len (CPL s) BX_READ 0 s)) s)"
    "length data = len \<Longrightarrow> forget_xlation (write_linear_vector_aligned len seg laddr data s) = forget_xlation (when_aligned laddr (of_nat (len - 1))
      (fault_unless_done seg (access_write_linear laddr len (CPL s) BX_WRITE 0 data s)) s)"
  unfolding aligned_accesses
  by (rule fast_read_slow[OF assms(1) args_aligned[OF assms(2) rws(1)] when_aligned_same fast_inv_slow(3)[OF assms(1) rws(1)]]
      fast_write_slow[OF assms(1) args_aligned[OF assms(2) rws(2)] rws(8) when_aligned_same fast_inv_slow(4)[OF assms(1) rws(2)]]; assumption?)+

lemma dqword_RMW_fast:
  assumes "fast_inv s"
  shows "fast_inv (snd (read_RMW_linear_dqword_aligned_64 seg laddr s))"
    "forget_xlation (finish_RMW 16 f (read_RMW_linear_dqword_aligned_64 seg laddr s)) = forget_xlation (finish_RMW 16 f (when_aligned laddr 15
      (fault_unless_done seg (access_read_linear laddr 16 (CPL s) BX_RW 0 s)) s))"
proof -
  have "fast_args s laddr 16 0 15 (CPL s) BX_RW 0" using args_aligned[of 16 BX_RW s laddr "CPL s"] by simp
  note f = fast_RMW_slow[OF assms this when_aligned_same fast_inv_slow(3)[OF assms rws(3)]]
  show "fast_inv (snd (read_RMW_linear_dqword_aligned_64 seg laddr s))" unfolding aligned_accesses(3) by (rule f(2))
  show "forget_xlation (finish_RMW 16 f (read_RMW_linear_dqword_aligned_64 seg laddr s)) = forget_xlation (finish_RMW 16 f (when_aligned laddr 15
      (fault_unless_done seg (access_read_linear laddr 16 (CPL s) BX_RW 0 s)) s))" unfolding aligned_accesses(3) by (rule f(1))
qed

lemma shadow_fast:
  assumes "fast_inv s" "len = 4 \<or> len = 8"
  shows "fast_inv (snd (shadow_stack_read len seg laddr pl s))" "fast_inv (snd (shadow_stack_write len seg laddr pl data s))"
    "forget_xlation (shadow_stack_read len seg laddr pl s) = forget_xlation (when_aligned laddr (if len = 4 then 3 else 0)
      (fault_unless_done seg (access_read_linear laddr len pl BX_SHADOW_STACK_READ 0 s)) s)"
    "length data = len \<Longrightarrow> forget_xlation (shadow_stack_write len seg laddr pl data s) = forget_xlation (when_aligned laddr (if len = 4 then 3 else 0)
      (fault_unless_done seg (access_write_linear laddr len pl BX_SHADOW_STACK_WRITE 0 data s)) s)"
proof -
  have l: "len \<in> {1, 2, 4, 8, 16, 32, 64}" using assms(2) by auto
  have w: "laddr AND of_nat (len - 1) = 0 \<Longrightarrow> when_aligned laddr (if len = 4 then 3 else 0) F s = F" for F :: "(bx_trap + 'a) \<times> bx_mmu"
    using assms(2) by (auto simp: when_aligned_def)
  note r = fast_read_slow[OF assms(1) args_low(2)[OF l rws(6)] w fast_inv_slow(3)[OF assms(1) rws(6)]]
    fast_write_slow[OF assms(1) args_low(2)[OF l rws(7)] rws(11) w fast_inv_slow(4)[OF assms(1) rws(7)]]
  show "fast_inv (snd (shadow_stack_read len seg laddr pl s))" "fast_inv (snd (shadow_stack_write len seg laddr pl data s))"
    "forget_xlation (shadow_stack_read len seg laddr pl s) = forget_xlation (when_aligned laddr (if len = 4 then 3 else 0)
      (fault_unless_done seg (access_read_linear laddr len pl BX_SHADOW_STACK_READ 0 s)) s)"
    "length data = len \<Longrightarrow> forget_xlation (shadow_stack_write len seg laddr pl data s) = forget_xlation (when_aligned laddr (if len = 4 then 3 else 0)
      (fault_unless_done seg (access_write_linear laddr len pl BX_SHADOW_STACK_WRITE 0 data s)) s)"
    unfolding aligned_accesses by (rule r; assumption?)+
qed

section \<open>Runs\<close>

text \<open>What happens to the memory unit after paging is on: accesses of the sizes of the sources, accesses to system
  tables and shadow stacks, fetches,
  invalidations, changes of privilege level, code size, alignment checking and protection keys, and writes to memory by
  devices.\<close>

inductive guest_step :: "bx_mmu \<Rightarrow> bx_mmu \<Rightarrow> bool" where
  read: "len \<in> {1, 2, 4, 8} \<Longrightarrow> guest_step s (snd (read_linear len seg laddr s))"
| store: "len \<in> {1, 2, 4, 8} \<Longrightarrow> guest_step s (snd (write_linear len seg laddr data s))"
| read_RMW: "len \<in> {1, 2, 4, 8} \<Longrightarrow> guest_step s (snd (read_RMW_linear len seg laddr s))"
| write_RMW: "guest_step s (write_RMW_linear len data s)"
| tickle_read: "guest_step s (snd (tickle_read_linear seg laddr s))"
| new_stack: "len \<in> {1, 2, 4, 8} \<Longrightarrow> guest_step s (snd (write_new_stack len laddr pl data s))"
| vector_read: "len \<in> {16, 32, 64} \<Longrightarrow> guest_step s (snd (read_linear_vector len seg laddr s))"
| vector_store: "len \<in> {16, 32, 64} \<Longrightarrow> guest_step s (snd (write_linear_vector len seg laddr data s))"
| aligned_read: "len \<in> {16, 32, 64} \<Longrightarrow> guest_step s (snd (read_linear_vector_aligned len seg laddr s))"
| aligned_store: "len \<in> {16, 32, 64} \<Longrightarrow> guest_step s (snd (write_linear_vector_aligned len seg laddr data s))"
| dqword_RMW: "guest_step s (snd (read_RMW_linear_dqword_aligned_64 seg laddr s))"
| system_read: "len \<in> {1, 2, 4, 8} \<Longrightarrow> guest_step s (snd (system_read len laddr s))"
| system_store: "len \<in> {1, 2, 4, 8} \<Longrightarrow> guest_step s (snd (system_write len laddr data s))"
| shadow_read: "len = 4 \<or> len = 8 \<Longrightarrow> guest_step s (snd (shadow_stack_read len seg laddr pl s))"
| shadow_store: "len = 4 \<or> len = 8 \<Longrightarrow> guest_step s (snd (shadow_stack_write len seg laddr pl data s))"
| slow_read: "rw \<noteq> BX_EXECUTE \<Longrightarrow> guest_step s (snd (access_read_linear laddr n pl rw acm s))"
| slow_store: "rw \<noteq> BX_EXECUTE \<Longrightarrow> guest_step s (snd (access_write_linear laddr n pl rw acm data s))"
| fetch: "guest_step s (snd (fetch_page laddr s))"
| flush: "guest_step s (TLB_flush s)"
| flushNonGlobal: "guest_step s (TLB_flushNonGlobal s)"
| invlpg: "guest_step s (TLB_invlpg laddr s)"
| mode: "am = 0 \<or> am = 0xf \<Longrightarrow>
    guest_step s (s\<lparr>CPL := c, long64_mode := l, eflags_AC := ac, alignment_check_mask := am, alignment_check_ignored := ig\<rparr>)"
| pkeys: "guest_step s (set_PKeys a b s)"
| device: "guest_step s (s\<lparr>phys := (phys s)\<lparr>mem_vector := v\<rparr>\<rparr>)"

lemma fast_inv_DTLB:
  assumes "fast_inv s" "mmu_inv (s\<lparr>DTLB := t, ITLB := u\<rparr>)" "\<And>n. tlb_entry t n = tlb_entry (DTLB s) n \<or> \<not> tlb_valid (tlb_entry t n)"
  shows "fast_inv (s\<lparr>DTLB := t, ITLB := u\<rparr>)"
proof -
  let ?s = "s\<lparr>DTLB := t, ITLB := u\<rparr>"
  have m: "same_map s ?s" by (simp add: same_map_def get_PG_def get_LASS_def get_SMAP_def long_mode_def get_LMA_def)
  have "entry_fast s (tlb_entry t n)" if "n < BX_DTLB_SIZE" for n
    using assms(1) assms(3)[of n] that by (auto simp: fast_inv_def dtlb_fast_def entry_fast_def)
  then have "dtlb_fast ?s" by (simp add: dtlb_fast_def same_map_entry[OF m])
  moreover have "\<forall>h. pages (address_xlation s) = HostAddr h \<longrightarrow> (\<exists>l. h = Vector l)" using assms(1) unfolding fast_inv_def by blast
  ultimately show ?thesis using fast_inv_step[OF assms(1,2) m] by simp
qed

lemma kept_or_dropped:
  "tlb_entry (tlb_flush sz t) n = tlb_entry t n \<or> \<not> tlb_valid (tlb_entry (tlb_flush sz t) n)"
  "tlb_entry (flushNonGlobal sz t) n = tlb_entry t n \<or> \<not> tlb_valid (tlb_entry (flushNonGlobal sz t) n)"
  "tlb_entry (tlb_invlpg sz laddr t) n = tlb_entry t n \<or> \<not> tlb_valid (tlb_entry (tlb_invlpg sz laddr t) n)"
proof -
  have d: "tlb_entry u n = tlb_entry t n \<or> \<not> tlb_valid (tlb_entry u n)" if "drop_entries sz hit t = (u, m)" for hit u m
    using drop_entries_entry(1)[of sz hit t n] that by auto
  show "tlb_entry (tlb_flush sz t) n = tlb_entry t n \<or> \<not> tlb_valid (tlb_entry (tlb_flush sz t) n)" by (simp add: tlb_flush_def)
  show "tlb_entry (flushNonGlobal sz t) n = tlb_entry t n \<or> \<not> tlb_valid (tlb_entry (flushNonGlobal sz t) n)"
    by (auto simp: flushNonGlobal_def split: prod.split dest: d)
  show "tlb_entry (tlb_invlpg sz laddr t) n = tlb_entry t n \<or> \<not> tlb_valid (tlb_entry (tlb_invlpg sz laddr t) n)"
    by (auto simp: tlb_invlpg_def Let_def split: prod.split dest: d)
qed

lemma mmu_inv_inv: "fast_inv s \<Longrightarrow> mmu_inv s" by (simp add: fast_inv_def)

lemma fast_inv_translate_other:
  assumes "fast_inv s" "translate_linear e laddr user rw s = (r, e', s')" "mmu_inv (s'\<lparr>ITLB := u\<rparr>)"
  shows "fast_inv (s'\<lparr>ITLB := u\<rparr>)"
proof -
  have ok: "mmu_ok s" using assms(1) by (simp add: fast_inv_def mmu_inv_def)
  note f = translate_frame[OF ok assms(2)] and m = translate_same_map[OF ok assms(2)]
  have m': "same_map s (s'\<lparr>ITLB := u\<rparr>)"
    using m by (simp add: same_map_def get_PG_def get_LASS_def get_SMAP_def long_mode_def get_LMA_def)
  have "dtlb_fast (s'\<lparr>ITLB := u\<rparr>)" using dtlb_fast_same[OF m'] f assms(1) by (simp add: fast_inv_def)
  moreover have "alignment_check_mask s' = alignment_check_mask s" using f by (simp add: mmu_frame_fields)
  moreover have "\<forall>h. pages (address_xlation s) = HostAddr h \<longrightarrow> (\<exists>l. h = Vector l)" using assms(1) unfolding fast_inv_def by blast
  ultimately show ?thesis using fast_inv_step[OF assms(1,3) m'] f by simp
qed

text \<open>Changes of the registers that neither TLB depends on.\<close>

lemma fast_inv_registers:
  assumes "fast_inv s" "same_map s s'" "get_LA57 s' = get_LA57 s" "maxphyaddr s' = maxphyaddr s" "pkeys_ok s'"
    "DTLB s' = DTLB s" "ITLB s' = ITLB s" "address_xlation s' = address_xlation s"
    "alignment_check_mask s' = 0 \<or> alignment_check_mask s' = 0xf"
  shows "fast_inv s'"
proof -
  have "mmu_ok s'" using assms(1-5) by (simp add: fast_inv_def mmu_inv_def mmu_ok_def same_map_def)
  then have "mmu_inv s'" using assms(1,6,7) by (simp add: fast_inv_def mmu_inv_def)
  moreover have "dtlb_fast s'" using dtlb_fast_same[OF assms(2)] assms(1,6) by (simp add: fast_inv_def)
  ultimately show ?thesis using assms(1,8,9) same_map_ram[OF assms(2)] assms(2) by (simp add: fast_inv_def same_map_def)
qed

lemma fast_inv_guest:
  assumes "guest_step s s'" "fast_inv s"
  shows "fast_inv s'"
  using assms
proof (induction rule: guest_step.induct)
  case (write_RMW s len data)
  have v: "\<exists>l. h = Vector l" if "pages (address_xlation s) = HostAddr h" for h
    using write_RMW that unfolding fast_inv_def by blast
  show ?case
    using fast_inv_phys(1)[OF write_RMW]
    by (auto simp: write_RMW_linear_def Let_def WriteHost_def write_cases dest: v split: xlation_pages.split)
next
  case (tickle_read s seg laddr)
  have ok: "mmu_ok s" using tickle_read by (simp add: fast_inv_def mmu_inv_def)
  have 1: "fast_inv (set_one_page p s1)" if "fast_inv s1" for p s1
    using fast_inv_xlation[OF that] by (simp add: set_one_page_def)
  have 2: "fast_inv s1" if "IsCanonicalAccess s laddr BX_READ (USER_PL s)"
    "translate_dtlb (BX_DTLB_INDEX_OF laddr 0) laddr (USER_PL s) BX_READ s = (q, s1)" for q s1
    using translate_dtlb_fast[OF tickle_read rws(1) _ that(2)] canonical_lin[OF ok] that(1) by blast
  show ?case using tickle_read 1 2 by (auto simp: tickle_read_linear_def Let_def split: prod.split sum.split)
next
  case (fetch s laddr)
  obtain r1 e' s1 where t: "translate_linear (tlb_entry (ITLB s) (BX_ITLB_INDEX_OF laddr)) laddr (USER_PL s) BX_EXECUTE s = (r1, e', s1)"
    by (metis prod_cases3)
  have "mmu_inv (snd (fetch_page laddr s))" using fetch_page_inv[OF mmu_inv_inv[OF fetch]] by (metis prod.collapse)
  then show ?case using t fetch fast_inv_translate_other[OF fetch t] by (auto simp: fetch_page_def Let_def)
next
  case (flush s)
  have "mmu_inv (TLB_flush s)" using mmu_inv_step[OF mmu_step.flush mmu_inv_inv[OF flush]] by blast
  then show ?case unfolding TLB_flush_def by (intro fast_inv_DTLB[OF flush] kept_or_dropped)
next
  case (flushNonGlobal s)
  have "mmu_inv (TLB_flushNonGlobal s)" using mmu_inv_step[OF mmu_step.flushNonGlobal mmu_inv_inv[OF flushNonGlobal]] by blast
  then show ?case unfolding TLB_flushNonGlobal_def by (intro fast_inv_DTLB[OF flushNonGlobal] kept_or_dropped)
next
  case (invlpg s laddr)
  have "mmu_inv (TLB_invlpg laddr s)" using mmu_inv_step[OF mmu_step.invlpg mmu_inv_inv[OF invlpg]] by blast
  then show ?case unfolding TLB_invlpg_def by (intro fast_inv_DTLB[OF invlpg] kept_or_dropped)
next
  case (mode am s ig ac l c)
  let ?s = "s\<lparr>CPL := c, long64_mode := l, eflags_AC := ac, alignment_check_mask := am, alignment_check_ignored := ig\<rparr>"
  have r: "get_PG ?s = get_PG s" "long_mode ?s = long_mode s" "get_LASS ?s = get_LASS s" "get_SMAP ?s = get_SMAP s"
    "get_LA57 ?s = get_LA57 s" "get_PKE ?s = get_PKE s" "get_PKS ?s = get_PKS s" "get_WP ?s = get_WP s"
    by (simp_all add: get_PG_def long_mode_def get_LMA_def get_LASS_def get_SMAP_def get_LA57_def get_PKE_def get_PKS_def get_WP_def)
  have "wr_pkey (set_PKeys x y ?s) = wr_pkey (set_PKeys x y s)" for x y
    by (rule ext) (simp add: set_PKeys_def Let_def get_PKE_def get_PKS_def get_WP_def long_mode_def get_LMA_def)
  then have "pkeys_ok ?s" using mode(2) by (simp add: fast_inv_def mmu_inv_def mmu_ok_def pkeys_ok_def)
  then show ?case by (intro fast_inv_registers[OF mode(2)]) (use mode(1) in \<open>simp_all add: same_map_def r\<close>)
next
  case (pkeys s a b)
  let ?s = "set_PKeys a b s"
  have r: "cr0 ?s = cr0 s" "cr4 ?s = cr4 s" "efer ?s = efer s" "pkru ?s = a" "pkrs ?s = b" "DTLB ?s = DTLB s" "ITLB ?s = ITLB s"
    "address_xlation ?s = address_xlation s" "alignment_check_mask ?s = alignment_check_mask s" "maxphyaddr ?s = maxphyaddr s"
    "linaddr_width ?s = linaddr_width s" "phys ?s = phys s"
    by (simp_all add: set_PKeys_def Let_def)
  have "wr_pkey (set_PKeys a b ?s) i = wr_pkey ?s i" if "i < 32" for i
    using that by (simp add: set_PKeys_def Let_def get_PKE_def get_PKS_def get_WP_def long_mode_def get_LMA_def)
  then have "pkeys_ok ?s" by (simp add: pkeys_ok_def r)
  then show ?case
    by (intro fast_inv_registers[OF pkeys])
      (use pkeys in \<open>simp_all add: same_map_def r get_PG_def long_mode_def get_LMA_def get_LASS_def get_SMAP_def get_LA57_def fast_inv_def\<close>)
qed (auto simp: data_fast unaligned_fast aligned_fast dqword_RMW_fast shadow_fast access_linear_fast fast_inv_phys)

definition mmu_start :: "bx_mmu \<Rightarrow> bool" where
  "mmu_start s \<longleftrightarrow> mmu_ok s \<and> get_PG s \<and> ram_ok (phys s) \<and> (alignment_check_mask s = 0 \<or> alignment_check_mask s = 0xf) \<and>
    pages (address_xlation s) = Pages 0"

lemma fast_inv_reachable:
  assumes "mmu_start s0" "guest_step\<^sup>*\<^sup>* (TLB_flush s0) s"
  shows "fast_inv s"
proof -
  have "mmu_inv (TLB_flush s0)" using assms(1) mmu_inv_flush by (simp add: mmu_start_def)
  moreover have "entry_fast (TLB_flush s0) (tlb_entry (DTLB (TLB_flush s0)) n)" if "n < BX_DTLB_SIZE" for n
    using that by (simp add: TLB_flush_def tlb_flush_def)
  ultimately have "fast_inv (TLB_flush s0)"
    using assms(1) by (simp add: fast_inv_def mmu_start_def dtlb_fast_def) (simp add: TLB_flush_def get_PG_def)
  with assms(2) show ?thesis by (induction rule: rtranclp_induct) (auto dest: fast_inv_guest)
qed


text \<open>The other fast paths are equally invisible: an access of 16, 32 or 64 bytes checks no alignment, or raises a general
  protection fault unless it is aligned, and is then the slow path; so are an access to a system table, which is made at
  privilege level 0 as an implicit supervisor access, a push on a new stack at the privilege level of that stack, with a
  stack fault instead, and an access to a shadow stack.\<close>

theorem other_fast_paths_are_slow_paths:
  assumes "mmu_start s0" "guest_step\<^sup>*\<^sup>* (TLB_flush s0) s"
  shows "(len \<in> {16, 32, 64} \<longrightarrow>
      forget_xlation (read_linear_vector len seg laddr s) =
        forget_xlation (fault_unless_done seg (access_read_linear laddr len (CPL s) BX_READ 0 s)) \<and>
      forget_xlation (read_linear_vector_aligned len seg laddr s) =
        forget_xlation (when_aligned laddr (of_nat (len - 1)) (fault_unless_done seg (access_read_linear laddr len (CPL s) BX_READ 0 s)) s) \<and>
      (length data = len \<longrightarrow>
        forget_xlation (write_linear_vector len seg laddr data s) =
          forget_xlation (fault_unless_done seg (access_write_linear laddr len (CPL s) BX_WRITE 0 data s)) \<and>
        forget_xlation (write_linear_vector_aligned len seg laddr data s) =
          forget_xlation (when_aligned laddr (of_nat (len - 1)) (fault_unless_done seg (access_write_linear laddr len (CPL s) BX_WRITE 0 data s)) s))) \<and>
    (len \<in> {1, 2, 4, 8} \<longrightarrow>
      forget_xlation (system_read len laddr s) =
        forget_xlation (raise_unless_done BX_GP_EXCEPTION (access_read_linear laddr len 0 BX_IMPLICIT_SUPERVISOR_READ 0 s)) \<and>
      (length data = len \<longrightarrow>
        forget_xlation (system_write len laddr data s) =
          forget_xlation (raise_unless_done BX_GP_EXCEPTION (access_write_linear laddr len 0 BX_IMPLICIT_SUPERVISOR_WRITE 0 data s)) \<and>
        forget_xlation (write_new_stack len laddr pl data s) =
          forget_xlation (raise_unless_done BX_SS_EXCEPTION (access_write_linear laddr len pl BX_WRITE (of_nat (len - 1)) data s)))) \<and>
    (len \<in> {4, 8} \<longrightarrow>
      forget_xlation (shadow_stack_read len seg laddr pl s) = forget_xlation (when_aligned laddr (if len = 4 then 3 else 0)
        (fault_unless_done seg (access_read_linear laddr len pl BX_SHADOW_STACK_READ 0 s)) s) \<and>
      (length data = len \<longrightarrow>
        forget_xlation (shadow_stack_write len seg laddr pl data s) = forget_xlation (when_aligned laddr (if len = 4 then 3 else 0)
          (fault_unless_done seg (access_write_linear laddr len pl BX_SHADOW_STACK_WRITE 0 data s)) s)))"
proof -
  have i: "fast_inv s" by (rule fast_inv_reachable[OF assms])
  show ?thesis
    using unaligned_fast(5)[OF i, of len seg laddr] unaligned_fast(6)[OF i, of len data seg laddr] aligned_fast(3)[OF i, of len seg laddr]
      aligned_fast(4)[OF i, of len data seg laddr] unaligned_fast(7)[OF i, of len laddr] unaligned_fast(8)[OF i, of len data laddr]
      data_fast(8)[OF i, of len data laddr pl] shadow_fast(3)[OF i, of len seg laddr pl] shadow_fast(4)[OF i, of len data seg laddr pl]
    by (simp only: insert_iff empty_iff) blast
qed

lemma sample_start: "mmu_start sample_mmu"
  using sample_ok sample_regs by (simp add: mmu_start_def ram_ok_def page_of_def) (simp add: sample_mmu_def)


theorem other_fast_paths_are_slow_paths_witness:
  "forget_xlation (system_read 8 0x401238 (snd (write_linear 4 3 0x401234 [1, 2, 3, 4] (TLB_flush sample_mmu)))) =
    forget_xlation (raise_unless_done BX_GP_EXCEPTION (access_read_linear 0x401238 8 0 BX_IMPLICIT_SUPERVISOR_READ 0
      (snd (write_linear 4 3 0x401234 [1, 2, 3, 4] (TLB_flush sample_mmu)))))"
proof -
  let ?s = "snd (write_linear 4 3 0x401234 [1, 2, 3, 4] (TLB_flush sample_mmu))"
  have "guest_step\<^sup>*\<^sup>* (TLB_flush sample_mmu) ?s" by (rule r_into_rtranclp, rule guest_step.store) simp
  from other_fast_paths_are_slow_paths[OF sample_start this, of 8 3 "0x401238"] show ?thesis by simp
qed

end
