(* ===== verification/FastPathLimits.thy ===== *)
theory FastPathLimits
  imports FastPath
begin

text \<open>
  Two ways out of the conditions on which the fast path relies, as closed examples: an entry in the wrong slot, and a
  write permission that was granted for a pointer obtained for reading.
\<close>

section \<open>A translation through the wrong slot\<close>

text \<open>
  \<open>tickle_write_linear\<close> translates both pages of an access that spans two through the slot of the second one.  When the
  second translation faults, that slot keeps the entry of the first page: a later access of the same size at the same
  address finds it, takes the fast path and runs past the end of the page, and no invalidation of the first page reaches
  it.
\<close>

definition split_start :: bx_mmu where
  "split_start = sample_mmu\<lparr>address_xlation := \<lparr>paddress1 = 0, paddress2 = 0, len1 = 0, len2 = 0, pages = Pages 1\<rparr>\<rparr>"

lemma split_regs: "\<not> long_mode split_start" "\<not> get_PAE split_start" "get_PSE split_start" "get_PG split_start" "\<not> get_PGE split_start"
  "\<not> get_SMAP split_start" "\<not> get_WP split_start" "PAGING_PDE4M_RESERVED_BITS split_start = 0x200000" "cr3 split_start = 0x1000"
  "phys split_start = phys sample_mmu" "\<not> get_LASS split_start" "\<not> get_SMEP split_start"
  by (simp_all add: split_start_def sample_mmu_def long_mode_def get_LMA_def get_PAE_def get_PSE_def get_PG_def get_PGE_def get_SMAP_def
      get_WP_def get_LASS_def get_SMEP_def PAGING_PDE4M_RESERVED_BITS_def)

definition split_memory :: bx_mem where
  "split_memory = write_physical_dword (phys sample_mmu) 0x1004 0x4000e7"

lemma split_walk: "walk_linear 0x7ffffe True BX_WRITE split_start = (Inr (0x400006, 0x3fffff, 0), split_start\<lparr>phys := split_memory\<rparr>)"
proof -
  have "legacy_walk split_start 0x7ffffe BX_LEVEL_PDE 0x1000 (BX_COMBINED_ACCESS_WRITE OR BX_COMBINED_ACCESS_USER) [] =
      Inr \<lparr>w_path = [(0x1004, 0x400087)], w_ppf = 0x400000, w_lpf_mask = 0x3fffff, w_access = 6, w_nx = False\<rparr>"
    unfolding BX_LEVEL_PDE_def One_nat_def
    by (subst legacy_walk.simps) (simp add: sample_pde split_regs BX_COMBINED_ACCESS_WRITE_def BX_COMBINED_ACCESS_USER_def Let_def)
  moreover have "check_leaf_entry_faults split_start 0x400087 6 True BX_WRITE False = Inr 6"
    by (simp add: check_leaf_data data_access_ok_def access_allowed_def BX_WRITE_def BX_EXECUTE_def split_regs Let_def)
  moreover have "update_access_dirty [(0x1004, 0x400087)] True (phys sample_mmu) = split_memory"
    by (simp add: update_access_dirty_def split_memory_def Let_def)
  ultimately show ?thesis
    by (simp add: walk_linear_def translate_linear_legacy_def split_regs BX_CR3_PAGING_MASK_def BX_WRITE_def)
qed

lemma split_next: "read_physical_dword split_memory 0x1008 = 0"
proof -
  have "read_physical_dword (phys sample_mmu) 0x1008 = 0"
    by (simp add: read_physical_dword_def readPhysicalPage_def sample_mmu_def A20ADDR_def bx_translate_gpa_to_linear_def
        BX_PCI_HOLE_LAST_def bx_is_pci_hole_addr_def BX_PCI_HOLE_START_def upt_rec Let_def)
  then show ?thesis
    unfolding split_memory_def by (subst dword.rd_wr_other) (simp_all add: A20ADDR_def sample_mmu_def)
qed

definition split_entry :: bx_TLB_entry where
  "split_entry = fill_entry (note_split_large BX_WRITE 0x3fffff (split_start\<lparr>phys := split_memory\<rparr>)) 0x7ffffe 0x7ffffe 0x3fffff 6 0 True BX_WRITE no_entry"

definition split_first :: bx_mmu where
  "split_first = split_start\<lparr>phys := split_memory, DTLB := \<lparr>tlb_entry = (tlb_entry empty_tlb)(0 := split_entry), split_large = True\<rparr>\<rparr>"

lemma split_translate_first: "translate_dtlb 0 0x7ffffe True BX_WRITE split_start = (Inr 0x7ffffe, split_first)"
proof -
  have inv: "\<not> tlb_valid no_entry" by (simp add: no_entry_def tlb_valid_def)
  have e: "tlb_entry (DTLB split_start) 0 = no_entry" "DTLB split_start = empty_tlb" by (simp_all add: split_start_def sample_mmu_def empty_tlb_def)
  have a: "A20ADDR split_memory x = x" for x
    by (simp add: A20ADDR_def split_memory_def write_physical_dword_def) (simp add: sample_mmu_def)
  have "translate_linear no_entry 0x7ffffe True BX_WRITE split_start =
      (Inr 0x7ffffe, split_entry, note_split_large BX_WRITE 0x3fffff (split_start\<lparr>phys := split_memory\<rparr>))"
    unfolding translate_miss[OF tlb_miss_invalid[OF inv]]
    by (simp add: lin_def split_regs split_walk a split_entry_def Let_def)
  then show ?thesis
    by (simp add: translate_dtlb_def e split_first_def note_split_large_def set_entry_def BX_WRITE_def BX_EXECUTE_def empty_tlb_def)
qed

lemma split_tag: "TLB_LPFOf (lpf split_entry) = 0x7ff000"
  by (simp only: split_entry_def fill_entry_simps) (simp add: LPFOf_def LPF_MASK_def)

definition split_second :: bx_mmu where
  "split_second = split_first\<lparr>address_xlation := \<lparr>paddress1 = 0x7ffffe, paddress2 = 0, len1 = 0, len2 = 0, pages = Pages 2\<rparr>\<rparr>"

lemma split_translate_second: "translate_dtlb 0 0x800001 True BX_WRITE split_second = (Inl (BX_PF_EXCEPTION, 6), split_second\<lparr>cr2 := 0x800001\<rparr>)"
proof -
  have r: "\<not> long_mode split_second" "\<not> get_PAE split_second" "get_PG split_second" "cr3 split_second = 0x1000" "phys split_second = split_memory"
    "DTLB split_second = \<lparr>tlb_entry = (tlb_entry empty_tlb)(0 := split_entry), split_large = True\<rparr>"
    by (simp_all add: split_second_def split_first_def split_start_def sample_mmu_def long_mode_def get_LMA_def get_PAE_def get_PG_def)
  have "legacy_walk split_second 0x800001 BX_LEVEL_PDE 0x1000 ca [] = Inl ERROR_NOT_PRESENT" for ca
    unfolding BX_LEVEL_PDE_def One_nat_def by (subst legacy_walk.simps) (simp add: r split_next Let_def)
  then have w: "walk_linear 0x800001 True BX_WRITE split_second = (Inl (BX_PF_EXCEPTION, 6), split_second\<lparr>cr2 := 0x800001\<rparr>)"
    by (simp add: walk_linear_def translate_linear_legacy_def r BX_CR3_PAGING_MASK_def walk_fault_def page_fault_def
        BX_WRITE_def BX_EXECUTE_def ERROR_NOT_PRESENT_def Let_def)
  have l: "lin split_second 0x800001 = 0x800001" by (simp add: lin_def r)
  have "tlb_miss split_entry 0x800001 True BX_WRITE split_second" by (simp add: tlb_miss_def split_tag l LPFOf_def LPF_MASK_def)
  from translate_miss[OF this]
  have "translate_linear split_entry 0x800001 True BX_WRITE split_second = (Inl (BX_PF_EXCEPTION, 6), split_entry, split_second\<lparr>cr2 := 0x800001\<rparr>)"
    by (simp add: r l w start_entry_def split_tag LPFOf_def LPF_MASK_def)
  then show ?thesis by (simp add: translate_dtlb_def r set_entry_def)
qed

lemma split_tickle: "tickle_write_linear 3 0x7ffffe 4 sample_mmu = (Inl (BX_PF_EXCEPTION, 6), split_second\<lparr>cr2 := 0x800001\<rparr>)"
proof -
  have i: "BX_DTLB_INDEX_OF 0x7ffffe 3 = 0" by (simp add: BX_DTLB_INDEX_OF_def get_index_of_def BX_DTLB_SIZE_def)
  have s: "tlb_entry (DTLB sample_mmu) 0 = no_entry" "USER_PL sample_mmu" "alignment_check_mask sample_mmu = 0"
    "sample_mmu\<lparr>address_xlation := address_xlation sample_mmu\<lparr>pages := Pages (Suc 0)\<rparr>\<rparr> = split_start"
    by (simp_all add: sample_mmu_def empty_tlb_def USER_PL_def split_start_def)
  have c: "IsCanonicalAccess sample_mmu a rw u" if "a = 0x7ffffe \<or> a = 0x800001" for a rw u
    using that sample_regs(1) by (auto simp: IsCanonicalAccess_def IsCanonical_def IsCanonicalToWidth_def sample_mmu_def)
  have x: "split_first\<lparr>address_xlation := address_xlation split_first\<lparr>paddress1 := 0x7ffffe, pages := Pages 2\<rparr>\<rparr> = split_second"
    by (simp add: split_second_def split_first_def split_start_def)
  show ?thesis
    using split_translate_first split_translate_second
    by (simp add: tickle_write_linear_def i s c x no_entry_def BX_INVALID_TLB_ENTRY_def AlignedAccessLPFOf_def LPF_MASK_def Let_def)
qed

theorem tickle_write_leaves_stray_entry:
  "fst (tickle_write_linear 3 0x7ffffe 4 sample_mmu) = Inl (BX_PF_EXCEPTION, 6) \<and>
    \<not> tlb_ok BX_DTLB_SIZE (DTLB (snd (tickle_write_linear 3 0x7ffffe 4 sample_mmu))) \<and>
    fst (read_linear 4 3 0x7ffffe (snd (tickle_write_linear 3 0x7ffffe 4 sample_mmu))) \<in> range Inr"
proof -
  let ?s = "split_second\<lparr>cr2 := 0x800001\<rparr>"
  have e: "tlb_entry (DTLB ?s) 0 = split_entry" by (simp add: split_second_def split_first_def)
  have h: "getHostMemAddr split_memory 0x7ff000 BX_WRITE \<noteq> NullPtr"
    by (simp add: getHostMemAddr_def A20ADDR_def split_memory_def write_physical_dword_def BX_WRITE_def bx_is_pci_hole_addr_def
        BX_PCI_HOLE_START_def bx_translate_gpa_to_linear_def BX_PCI_HOLE_LAST_def write_cases Let_def) (simp add: sample_mmu_def)
  have l: "lpf split_entry = 0x7ff000"
    using h rw_not_execute by (simp add: split_entry_def fill_entry_def note_split_large_def Let_def LPFOf_def LPF_MASK_def PPFOf_def PPF_MASK_def)
  have "\<not> entry_ok BX_DTLB_SIZE True 0 split_entry"
    by (simp add: entry_ok_def tlb_valid_def l BX_INVALID_TLB_ENTRY_def get_index_of_def BX_DTLB_SIZE_def)
  then have "\<not> tlb_ok BX_DTLB_SIZE (DTLB ?s)" unfolding tlb_ok_def using e
    by (metis BX_DTLB_SIZE_def zero_less_numeral entry_ok_def)
  moreover have "fst (read_linear 4 3 0x7ffffe ?s) \<in> range Inr"
  proof -
    have i: "BX_DTLB_INDEX_OF 0x7ffffe 3 = 0" by (simp add: BX_DTLB_INDEX_OF_def get_index_of_def BX_DTLB_SIZE_def)
    have r: "get_PG x" "\<not> long_mode x" "\<not> get_SMAP x" if "x = note_split_large BX_WRITE 0x3fffff (split_start\<lparr>phys := m\<rparr>)" for x m
      using that by (simp_all add: note_split_large_def BX_WRITE_def BX_EXECUTE_def DTLB_simps split_regs)
    have "accessBits split_entry = 0x0f"
      using r[OF refl, of split_memory]
      by (simp add: split_entry_def fill_entry_simps tlb_access_bits_def IS_USER_PAGE_def BX_COMBINED_ACCESS_USER_def
          BX_COMBINED_ACCESS_GLOBAL_PAGE_def tlb_bit_defs BX_WRITE_def BX_EXECUTE_def Let_def)
    moreover have "tlb_pkey split_entry = 0" by (simp add: split_entry_def fill_entry_simps)
    ultimately have "isReadOK ?s split_entry (USER_PL ?s)"
      by (simp add: isReadOK_def split_second_def split_first_def split_start_def sample_mmu_def)
    moreover have "alignment_check_mask ?s = 0" by (simp add: split_second_def split_first_def split_start_def sample_mmu_def)
    ultimately show ?thesis
      by (simp add: read_linear_def i e[simplified] l AlignedAccessLPFOf_def LPF_MASK_def Let_def)
  qed
  ultimately show ?thesis by (simp add: split_tickle)
qed

section \<open>A write permission without paging\<close>

text \<open>
  With paging off a read from privilege level 3 fills an entry that permits user writes too, through the pointer obtained
  for the read.  For an address without RAM that is the page of ones: the write of the guest lands there and is read back.
\<close>

definition flat_mmu :: bx_mmu where "flat_mmu = sample_mmu\<lparr>cr0 := 1\<rparr>"

lemma flat_regs: "\<not> get_PG flat_mmu" "\<not> long_mode flat_mmu" "phys flat_mmu = phys sample_mmu" "USER_PL flat_mmu" "CPL flat_mmu = 3"
  "alignment_check_mask flat_mmu = 0" "DTLB flat_mmu = empty_tlb" "rd_pkey flat_mmu 0 = 0xff" "wr_pkey flat_mmu 0 = 0xff"
  by (simp_all add: flat_mmu_def sample_mmu_def get_PG_def long_mode_def get_LMA_def USER_PL_def)

definition flat_entry :: bx_TLB_entry where
  "flat_entry = \<lparr>lpf = 0x2000000, ppf = 0x2000000, hostPageAddr = Bogus 0, accessBits = 0x0b, tlb_pkey = 0, lpf_mask = 0xfff\<rparr>"

lemma flat_fill: "translate_linear no_entry 0x2000000 True BX_READ flat_mmu = (Inr 0x2000000, flat_entry, flat_mmu)"
proof -
  have inv: "\<not> tlb_valid no_entry" by (simp add: no_entry_def tlb_valid_def)
  have a: "A20ADDR (phys sample_mmu) x = x" for x by (simp add: A20ADDR_def sample_mmu_def)
  have "getHostMemAddr (phys sample_mmu) 0x2000000 BX_READ = Bogus 0"
    unfolding getHostMemAddr_def a Let_def
    by (simp add: bx_is_pci_hole_addr_def BX_PCI_HOLE_START_def bx_translate_gpa_to_linear_def BX_PCI_HOLE_LAST_def BX_READ_def)
      (simp add: sample_mmu_def)
  then show ?thesis
    unfolding translate_miss[OF tlb_miss_invalid[OF inv]]
    by (simp add: lin_def flat_regs a fill_entry_def flat_entry_def no_entry_def tlb_access_bits_def tlb_bit_defs BX_READ_def BX_EXECUTE_def
        LPFOf_def LPF_MASK_def PPFOf_def PPF_MASK_def combine_memtype_def BX_COMBINED_ACCESS_WRITE_def BX_COMBINED_ACCESS_USER_def
        BX_COMBINED_ACCESS_GLOBAL_PAGE_def BX_MEMTYPE_WB_def Let_def)
qed

definition flat_read :: bx_mmu where
  "flat_read = set_one_page 0x2000000 (flat_mmu\<lparr>DTLB := set_entry 0 flat_entry empty_tlb\<rparr>)"

lemma flat_first_read: "read_linear 4 3 0x2000000 flat_mmu = (Inr [0xff, 0xff, 0xff, 0xff], flat_read)"
proof -
  have i: "BX_DTLB_INDEX_OF 0x2000000 k = 0" if "k = 0 \<or> k = 3" for k
    using that by (auto simp: BX_DTLB_INDEX_OF_def get_index_of_def BX_DTLB_SIZE_def)
  have c: "IsCanonicalAccess flat_mmu 0x2000000 BX_READ True"
    using flat_regs(2) by (simp add: IsCanonicalAccess_def IsCanonical_def IsCanonicalToWidth_def) (simp add: flat_mmu_def sample_mmu_def)
  have "\<not> ram_cell (phys sample_mmu) 0x2000000"
    by (simp add: ram_cell_def A20ADDR_def bx_translate_gpa_to_linear_def BX_PCI_HOLE_LAST_def) (simp add: sample_mmu_def)
  then have p: "readPhysicalPage (phys sample_mmu) 0x2000000 4 = [0xff, 0xff, 0xff, 0xff]"
    by (simp add: read_cases eval_nat_numeral)
  have "access_pages 0x2000000 4 3 BX_READ 3 flat_mmu = (Inr (Some [(0x2000000, 4)]), flat_read)"
    using flat_fill c by (simp add: access_pages_def i flat_regs translate_dtlb_def empty_tlb_def flat_read_def PAGE_OFFSET_def Let_def)
  moreover have "phys flat_read = phys sample_mmu" by (simp add: flat_read_def set_one_page_def flat_regs)
  ultimately show ?thesis
    by (simp add: read_linear_def i flat_regs empty_tlb_def no_entry_def BX_INVALID_TLB_ENTRY_def AlignedAccessLPFOf_def LPF_MASK_def
        access_read_linear_def raise_unless_done_def read_pages_def p Let_def)
qed

theorem absent_memory_written_without_paging:
  "fst (read_linear 4 3 0x2000000 flat_mmu) = Inr [0xff, 0xff, 0xff, 0xff] \<and>
    (let s = snd (write_linear 4 3 0x2000000 [1, 2, 3, 4] (snd (read_linear 4 3 0x2000000 flat_mmu)))
     in fst (read_linear 4 3 0x2000000 s) = Inr [1, 2, 3, 4] \<and>
        writePhysicalPage (phys flat_mmu) 0x2000000 [1, 2, 3, 4] = phys flat_mmu)"
proof -
  have i: "BX_DTLB_INDEX_OF 0x2000000 3 = 0" by (simp add: BX_DTLB_INDEX_OF_def get_index_of_def BX_DTLB_SIZE_def)
  have e: "tlb_entry (DTLB flat_read) 0 = flat_entry" "USER_PL flat_read" "alignment_check_mask flat_read = 0"
    "rd_pkey flat_read 0 = 0xff" "wr_pkey flat_read 0 = 0xff"
    by (simp_all add: flat_read_def set_one_page_def flat_regs flat_mmu_def sample_mmu_def USER_PL_def)
  let ?s = "flat_read\<lparr>phys := WriteHost (phys flat_read) (Bogus 0) [1, 2, 3, 4]\<rparr>"
  have w: "write_linear 4 3 0x2000000 [1, 2, 3, 4] flat_read = (Inr (), ?s)"
    using e by (simp add: write_linear_def i flat_entry_def AlignedAccessLPFOf_def LPF_MASK_def isWriteOK_def host_or_def PAGE_OFFSET_def Let_def)
  have "fst (read_linear 4 3 0x2000000 ?s) = Inr (ReadHost (phys ?s) (Bogus 0) 4)"
    using e by (simp add: read_linear_def i flat_entry_def AlignedAccessLPFOf_def LPF_MASK_def isReadOK_def USER_PL_def host_or_def PAGE_OFFSET_def Let_def)
  moreover have "ReadHost (phys ?s) (Bogus 0) 4 = [1, 2, 3, 4]"
    by (simp add: ReadHost_def WriteHost_def store_bytes_def upt_rec Let_def)
  moreover have "writePhysicalPage (phys flat_mmu) 0x2000000 [1, 2, 3, 4] = phys flat_mmu"
    by (simp add: flat_regs write_cases ram_cell_def A20ADDR_def bx_translate_gpa_to_linear_def BX_PCI_HOLE_LAST_def)
      (simp add: sample_mmu_def)
  ultimately show ?thesis by (simp add: flat_first_read w Let_def)
qed

end
