(* ===== verification/SegLoad.thy ===== *)
theory SegLoad
  imports Segment
begin

text \<open>
  Loading segment registers: the descriptor fetches, the marking of a segment as accessed, the loads of
  \<^verbatim>\<open>cpu/segment_ctrl_pro.cc\<close> and the change of the mode of the processor of \<^verbatim>\<open>cpu/proc_ctrl.cc\<close>.  The prefetch queue, the
  cached stack pointer, the fetch mode mask and the monitor of MWAIT are not part of the state; they cache or watch it.
\<close>

section \<open>Mode changes\<close>

definition handleAlignmentCheck :: "bx_sys \<Rightarrow> bx_sys" where
  "handleAlignmentCheck s =
    s\<lparr>mmu := (mmu s)\<lparr>alignment_check_mask :=
      (if cpl s = 3 \<and> bit (cr0 (mmu s)) 18 \<and> bit (eflags (core s)) 18 then 0xF else 0)\<rparr>\<rparr>"

definition set_cpl :: "Bit8u \<Rightarrow> bx_sys \<Rightarrow> bx_sys" where
  "set_cpl rpl s =
    (let cs = sregs s BX_SEG_REG_CS
     in s\<lparr>sregs := (sregs s)(BX_SEG_REG_CS := cs\<lparr>selector := (selector cs)\<lparr>sel_rpl := rpl\<rparr>\<rparr>)\<rparr>)"

definition BX_64BIT_REG_RSP :: nat where "BX_64BIT_REG_RSP = 4"
definition BX_64BIT_REG_RIP :: nat where "BX_64BIT_REG_RIP = 16"

definition handleCpuModeChange :: "bx_sys \<Rightarrow> bx_sys" where
  "handleCpuModeChange s =
    (let s =
      (if get_LMA (mmu s) then
         (if d_l (cache (sregs s BX_SEG_REG_CS)) then s\<lparr>cpu_mode := BX_MODE_LONG_64\<rparr>
          else s\<lparr>cpu_mode := BX_MODE_LONG_COMPAT,
                 core := BX_CLEAR_64BIT_HIGH BX_64BIT_REG_RSP (BX_CLEAR_64BIT_HIGH BX_64BIT_REG_RIP (core s))\<rparr>)
       else if bit (cr0 (mmu s)) 0 then
         (if bit (eflags (core s)) 17 then set_cpl 3 (s\<lparr>cpu_mode := BX_MODE_IA32_V8086\<rparr>)
          else s\<lparr>cpu_mode := BX_MODE_IA32_PROTECTED\<rparr>)
       else
         (let cs = sregs s BX_SEG_REG_CS; cs = cs\<lparr>cache := (cache cs)\<lparr>d_p := True, d_segment := True, d_type := BX_DATA_READ_WRITE_ACCESSED\<rparr>\<rparr>
          in set_cpl 0 (s\<lparr>cpu_mode := BX_MODE_IA32_REAL, sregs := (sregs s)(BX_SEG_REG_CS := cs)\<rparr>)))
     in s\<lparr>mmu := set_PKeys (pkru (mmu s)) (pkrs (mmu s)) (mmu s)\<rparr>)"

section \<open>Descriptor fetches\<close>

definition GET32L :: "Bit64u \<Rightarrow> Bit32u" where "GET32L v = ucast v"
definition GET32H :: "Bit64u \<Rightarrow> Bit32u" where "GET32H v = ucast (drop_bit 32 v)"

definition system_read_qword :: "bx_address \<Rightarrow> Bit64u sys_op" where
  "system_read_qword laddr = and_then (on_mmu (system_read 8 laddr)) (\<lambda>bs. sys_return (word_of_bytes bs))"

text \<open>The linear address of a descriptor of \<open>span + 1\<close> bytes, when it lies inside its table.\<close>

definition descriptor_offset :: "bx_selector_t \<Rightarrow> Bit32u \<Rightarrow> bx_sys \<Rightarrow> bx_address option" where
  "descriptor_offset sel span s =
    (let index = ucast (sel_index sel) :: Bit32u
     in if sel_ti sel = 0 then
          (if index * 8 + span > ucast (gs_limit (gdtr s)) then None else Some (gs_base (gdtr s) + ucast (index * 8)))
        else if d_valid (cache (ldtr s)) = 0 then None
        else if index * 8 + span > d_limit_scaled (cache (ldtr s)) then None
        else Some (d_base (cache (ldtr s)) + ucast (index * 8)))"

definition selector_error :: "Bit16u \<Rightarrow> Bit32u" where "selector_error v = ucast (v AND 0xfffc)"

definition fetch_raw_descriptor :: "bx_selector_t \<Rightarrow> bx_exception \<Rightarrow> (Bit32u \<times> Bit32u) sys_op" where
  "fetch_raw_descriptor sel exception_no s =
    (case descriptor_offset sel 7 s of
       None \<Rightarrow> exception exception_no (selector_error (sel_value sel)) s
     | Some offset \<Rightarrow> and_then (system_read_qword offset) (\<lambda>raw_descriptor. sys_return (GET32L raw_descriptor, GET32H raw_descriptor)) s)"

definition fetch_raw_descriptor2 :: "bx_selector_t \<Rightarrow> (Bit32u \<times> Bit32u) option sys_op" where
  "fetch_raw_descriptor2 sel s =
    (case descriptor_offset sel 7 s of
       None \<Rightarrow> sys_return None s
     | Some offset \<Rightarrow> and_then (system_read_qword offset) (\<lambda>raw_descriptor. sys_return (Some (GET32L raw_descriptor, GET32H raw_descriptor))) s)"

definition fetch_raw_descriptor_64 :: "bx_selector_t \<Rightarrow> bx_exception \<Rightarrow> (Bit32u \<times> Bit32u \<times> Bit32u) sys_op" where
  "fetch_raw_descriptor_64 sel exception_no s =
    (case descriptor_offset sel 15 s of
       None \<Rightarrow> exception exception_no (selector_error (sel_value sel)) s
     | Some offset \<Rightarrow>
         and_then (system_read_qword offset) (\<lambda>raw_descriptor1.
         and_then (system_read_qword (offset + 8)) (\<lambda>raw_descriptor2.
           if raw_descriptor2 AND 0x00001F0000000000 \<noteq> 0 then exception BX_GP_EXCEPTION (selector_error (sel_value sel))
           else sys_return (GET32L raw_descriptor1, GET32H raw_descriptor1, GET32L raw_descriptor2))) s)"

definition fetch_raw_descriptor2_64 :: "bx_selector_t \<Rightarrow> (Bit32u \<times> Bit32u \<times> Bit32u) option sys_op" where
  "fetch_raw_descriptor2_64 sel s =
    (case descriptor_offset sel 15 s of
       None \<Rightarrow> sys_return None s
     | Some offset \<Rightarrow>
         and_then (system_read_qword offset) (\<lambda>raw_descriptor1.
         and_then (system_read_qword (offset + 8)) (\<lambda>raw_descriptor2.
           if raw_descriptor2 AND 0x00001F0000000000 \<noteq> 0 then sys_return None
           else sys_return (Some (GET32L raw_descriptor1, GET32H raw_descriptor1, GET32L raw_descriptor2)))) s)"

section \<open>Loads\<close>

definition set_sreg :: "nat \<Rightarrow> bx_segment_reg_t \<Rightarrow> bx_sys \<Rightarrow> bx_sys" where
  "set_sreg n seg s = s\<lparr>sregs := (sregs s)(n := seg)\<rparr>"

definition touch_segment :: "bx_selector_t \<Rightarrow> bx_descriptor_t \<Rightarrow> bx_descriptor_t sys_op" where
  "touch_segment sel descriptor s =
    (if \<not> IS_SEGMENT_ACCESSED (d_type descriptor) then
       (let AR_byte = get_ar_byte descriptor OR 1;
            descriptor = descriptor\<lparr>d_type := d_type descriptor OR 1\<rparr>;
            base = (if sel_ti sel = 0 then gs_base (gdtr s) else d_base (cache (ldtr s)))
        in and_then (on_mmu (system_write 1 (base + ucast (sel_index sel) * 8 + 5) [AR_byte])) (\<lambda>_. sys_return descriptor) s)
     else sys_return descriptor s)"

definition load_ss :: "bx_selector_t \<Rightarrow> bx_descriptor_t \<Rightarrow> Bit8u \<Rightarrow> unit sys_op" where
  "load_ss sel descriptor rpl =
    (let sel = sel\<lparr>sel_value := (0xfffc AND sel_value sel) OR ucast rpl\<rparr>
     in and_then (if sel_value sel AND 0xfffc \<noteq> 0 then touch_segment sel descriptor else sys_return descriptor) (\<lambda>descriptor.
        sys_modify (set_sreg BX_SEG_REG_SS \<lparr>selector = sel\<lparr>sel_rpl := rpl\<rparr>, cache = descriptor\<lparr>d_valid := SegValidCache\<rparr>\<rparr>)))"

definition load_null_selector :: "nat \<Rightarrow> Bit16u \<Rightarrow> bx_sys \<Rightarrow> bx_sys" where
  "load_null_selector n val s =
    (let seg = sregs s n
     in set_sreg n
       \<lparr>selector = \<lparr>sel_value = val, sel_index = 0, sel_ti = 0, sel_rpl = ucast (val AND 0x03)\<rparr>,
        cache = (cache seg)\<lparr>d_valid := 0, d_p := False, d_dpl := 0, d_segment := True, d_type := 0, d_base := 0, d_limit_scaled := 0,
          d_g := False, d_d_b := False, d_l := False, d_avl := False\<rparr>\<rparr> s)"

text \<open>A local descriptor before it is parsed into.\<close>

definition raw_local :: bx_descriptor_t where
  "raw_local = \<lparr>d_valid = 0, d_p = False, d_dpl = 0, d_segment = False, d_type = 0, d_base = 0, d_limit_scaled = 0, d_g = False,
     d_d_b = False, d_l = False, d_avl = False, gate_param_count = 0, gate_dest_selector = 0, gate_dest_offset = 0, taskgate_tss_selector = 0\<rparr>"

definition load_seg_reg_SS :: "Bit16u \<Rightarrow> unit sys_op" where
  "load_seg_reg_SS new_value s =
    (let ss_selector = parse_selector new_value; err = selector_error new_value
     in if new_value AND 0xfffc = 0 then
          (if in_long64_mode s \<and> cpl s \<noteq> 3 \<and> sel_rpl ss_selector = cpl s then (Inr (), load_null_selector BX_SEG_REG_SS new_value s)
           else exception BX_GP_EXCEPTION err s)
        else
          and_then (fetch_raw_descriptor ss_selector BX_GP_EXCEPTION) (\<lambda>(dword1, dword2) s.
            if sel_rpl ss_selector \<noteq> cpl s then exception BX_GP_EXCEPTION err s
            else
              (let descriptor = parse_descriptor dword1 dword2 raw_local
               in if d_valid descriptor = 0 then exception BX_GP_EXCEPTION err s
                  else if \<not> d_segment descriptor \<or> IS_CODE_SEGMENT (d_type descriptor) \<or> \<not> IS_DATA_SEGMENT_WRITEABLE (d_type descriptor) then
                    exception BX_GP_EXCEPTION err s
                  else if d_dpl descriptor \<noteq> cpl s then exception BX_GP_EXCEPTION err s
                  else if \<not> IS_PRESENT descriptor then exception BX_SS_EXCEPTION err s
                  else
                    and_then (touch_segment ss_selector descriptor) (\<lambda>descriptor.
                      sys_modify (set_sreg BX_SEG_REG_SS \<lparr>selector = ss_selector, cache = descriptor\<lparr>d_valid := SegValidCache\<rparr>\<rparr>)) s)) s)"

definition load_seg_reg_data :: "nat \<Rightarrow> Bit16u \<Rightarrow> unit sys_op" where
  "load_seg_reg_data n new_value s =
    (let sel = parse_selector new_value; err = selector_error new_value
     in if new_value AND 0xfffc = 0 then (Inr (), load_null_selector n new_value s)
        else
          and_then (fetch_raw_descriptor sel BX_GP_EXCEPTION) (\<lambda>(dword1, dword2) s.
            let descriptor = parse_descriptor dword1 dword2 raw_local
            in if d_valid descriptor = 0 then exception BX_GP_EXCEPTION err s
               else if \<not> d_segment descriptor \<or> IS_CODE_SEGMENT (d_type descriptor) \<and> \<not> IS_CODE_SEGMENT_READABLE (d_type descriptor) then
                 exception BX_GP_EXCEPTION err s
               else if (IS_DATA_SEGMENT (d_type descriptor) \<or> IS_CODE_SEGMENT_NON_CONFORMING (d_type descriptor)) \<and>
                   (sel_rpl sel > d_dpl descriptor \<or> cpl s > d_dpl descriptor) then
                 exception BX_GP_EXCEPTION err s
               else if \<not> IS_PRESENT descriptor then exception BX_NP_EXCEPTION err s
               else
                 and_then (touch_segment sel descriptor) (\<lambda>descriptor.
                   sys_modify (set_sreg n \<lparr>selector = sel, cache = descriptor\<lparr>d_valid := SegValidCache\<rparr>\<rparr>)) s) s)"

definition load_seg_reg_real :: "nat \<Rightarrow> Bit16u \<Rightarrow> bx_sys \<Rightarrow> bx_sys" where
  "load_seg_reg_real n new_value s =
    (let seg = sregs s n;
         sel = (selector seg)\<lparr>sel_value := new_value, sel_rpl := (if real_mode s then 0 else 3)\<rparr>;
         d = (cache seg)\<lparr>d_valid := SegValidCache, d_base := push_bit 4 (ucast new_value), d_segment := True, d_p := True\<rparr>;
         d = (if \<not> real_mode s then
                d\<lparr>d_type := BX_DATA_READ_WRITE_ACCESSED, d_dpl := 3, d_limit_scaled := 0xffff, d_g := False, d_d_b := False, d_l := False, d_avl := False\<rparr>
              else d);
         s = set_sreg n \<lparr>selector = sel, cache = d\<rparr> s
     in if n = BX_SEG_REG_CS then handleAlignmentCheck s else s)"

definition load_seg_reg :: "nat \<Rightarrow> Bit16u \<Rightarrow> unit sys_op" where
  "load_seg_reg n new_value s =
    (if protected_mode s then
       (if n = BX_SEG_REG_SS then load_seg_reg_SS new_value s
        else if n \<in> {BX_SEG_REG_DS, BX_SEG_REG_ES, BX_SEG_REG_FS, BX_SEG_REG_GS} then load_seg_reg_data n new_value s
        else (Inr (), s))
     else (Inr (), load_seg_reg_real n new_value s))"

definition validate_seg_reg :: "nat \<Rightarrow> bx_sys \<Rightarrow> bx_sys" where
  "validate_seg_reg n s =
    (let segment = sregs s n; d = cache segment
     in if d_dpl d < cpl s then
          (if d_valid d = 0 \<or> \<not> d_segment d \<or> IS_DATA_SEGMENT (d_type d) \<or> IS_CODE_SEGMENT_NON_CONFORMING (d_type d) then
             set_sreg n \<lparr>selector = (selector segment)\<lparr>sel_value := 0\<rparr>, cache = d\<lparr>d_valid := 0\<rparr>\<rparr> s
           else s)
        else s)"

definition validate_seg_regs :: "bx_sys \<Rightarrow> bx_sys" where
  "validate_seg_regs s =
    validate_seg_reg BX_SEG_REG_GS (validate_seg_reg BX_SEG_REG_FS (validate_seg_reg BX_SEG_REG_DS (validate_seg_reg BX_SEG_REG_ES s)))"

definition fetch_ss_descriptor :: "Bit16u \<Rightarrow> bx_selector_t \<Rightarrow> Bit8u \<Rightarrow> bx_exception \<Rightarrow> bx_descriptor_t sys_op" where
  "fetch_ss_descriptor raw_ss_selector ss_selector cs_rpl exception_no =
    (let err = selector_error raw_ss_selector
     in and_then (fetch_raw_descriptor ss_selector exception_no) (\<lambda>(dword1, dword2).
          let d = parse_descriptor dword1 dword2 raw_local
          in if sel_rpl ss_selector \<noteq> cs_rpl then exception exception_no err
             else if d_valid d = 0 \<or> \<not> d_segment d \<or> IS_CODE_SEGMENT (d_type d) \<or> \<not> IS_DATA_SEGMENT_WRITEABLE (d_type d) then
               exception exception_no err
             else if d_dpl d \<noteq> cs_rpl then exception exception_no err
             else if \<not> d_p d then exception BX_SS_EXCEPTION err
             else sys_return d))"

definition setup_flat_CS :: "Bit8u \<Rightarrow> bool \<Rightarrow> bx_sys \<Rightarrow> bx_sys" where
  "setup_flat_CS rpl longmode s =
    (let cs = sregs s BX_SEG_REG_CS;
         cs = cs\<lparr>cache := (cache cs)\<lparr>d_valid := SegValidCache OR SegAccessROK OR SegAccessWOK OR SegAccessROK4G OR SegAccessWOK4G, d_p := True,
           d_dpl := rpl, d_segment := True, d_type := BX_CODE_EXEC_READ_ACCESSED, d_base := 0, d_limit_scaled := 0xFFFFFFFF, d_g := True,
           d_avl := False, d_d_b := \<not> longmode, d_l := longmode\<rparr>\<rparr>
     in handleAlignmentCheck (handleCpuModeChange (set_sreg BX_SEG_REG_CS cs s)))"

definition setup_flat_SS :: "Bit8u \<Rightarrow> bx_sys \<Rightarrow> bx_sys" where
  "setup_flat_SS rpl s =
    (let ss = sregs s BX_SEG_REG_SS
     in set_sreg BX_SEG_REG_SS (ss\<lparr>cache := (cache ss)\<lparr>d_valid := SegValidCache OR SegAccessROK OR SegAccessWOK OR SegAccessROK4G OR SegAccessWOK4G,
          d_p := True, d_dpl := rpl, d_segment := True, d_type := BX_DATA_READ_WRITE_ACCESSED, d_base := 0, d_limit_scaled := 0xFFFFFFFF,
          d_g := True, d_d_b := True, d_avl := False, d_l := False\<rparr>\<rparr>) s)"

end
