(* ===== verification/SegLoadProps.thy ===== *)
theory SegLoadProps
  imports SegLoad SegProps
begin

text \<open>
  What a load of a segment register guarantees: the protection rule of the architecture holds for the descriptor that is
  loaded, a refused load changes no register, and in every state reached by loads and accesses the descriptor caches are
  well formed and their flags grant nothing the descriptors do not.
\<close>

section \<open>Frames\<close>

text \<open>Operations that change nothing outside the memory unit.\<close>

definition mmu_only :: "'a sys_op \<Rightarrow> bool" where
  "mmu_only f \<longleftrightarrow> (\<forall>s. \<exists>m. snd (f s) = s\<lparr>mmu := m\<rparr>)"

lemma mmu_onlyD: "mmu_only f \<Longrightarrow> f s = (r, s') \<Longrightarrow> \<exists>m. s' = s\<lparr>mmu := m\<rparr>"
  unfolding mmu_only_def by (metis snd_conv)

lemma mmu_only_intros [intro]:
  "mmu_only (on_mmu g)" "mmu_only (sys_return x)" "mmu_only (exception v c)" "mmu_only (sys_get h)"
proof -
  have same: "\<exists>m. s = s\<lparr>mmu := m\<rparr>" for s :: bx_sys by (rule exI[of _ "mmu s"]) simp
  show "mmu_only (on_mmu g)" by (auto simp: mmu_only_def on_mmu_def split: prod.split)
  show "mmu_only (sys_return x)" "mmu_only (exception v c)" "mmu_only (sys_get h)"
    using same by (simp_all add: mmu_only_def sys_return_def exception_def sys_get_def)
qed

lemma mmu_only_and_then [intro]:
  assumes "mmu_only m" "\<And>x. mmu_only (f x)"
  shows "mmu_only (and_then m f)"
  unfolding mmu_only_def
proof
  fix s
  obtain r s1 where r: "m s = (r, s1)" by (metis surj_pair)
  obtain a where a: "s1 = s\<lparr>mmu := a\<rparr>" using mmu_onlyD[OF assms(1) r] by blast
  show "\<exists>m'. snd (and_then m f s) = s\<lparr>mmu := m'\<rparr>"
  proof (cases r)
    case (Inl t)
    then show ?thesis using r a by (auto simp: and_then_def)
  next
    case (Inr x)
    obtain b where "snd (f x s1) = s1\<lparr>mmu := b\<rparr>" using assms(2)[of x] unfolding mmu_only_def by blast
    then show ?thesis using r a Inr by (auto simp: and_then_def)
  qed
qed

lemma and_then_Inr: "and_then m f s = (Inr y, s2) \<longleftrightarrow> (\<exists>x s1. m s = (Inr x, s1) \<and> f x s1 = (Inr y, s2))"
  by (auto simp: and_then_def split: prod.splits sum.splits)

lemma and_then_Inl: "and_then m f s = (Inl t, s2) \<longleftrightarrow> m s = (Inl t, s2) \<or> (\<exists>x s1. m s = (Inr x, s1) \<and> f x s1 = (Inl t, s2))"
  by (auto simp: and_then_def split: prod.splits sum.splits)

lemma mmu_only_option: "(\<And>x. mmu_only (g x)) \<Longrightarrow> mmu_only h \<Longrightarrow> mmu_only (\<lambda>s. case p s of None \<Rightarrow> h s | Some x \<Rightarrow> g x s)"
  unfolding mmu_only_def by (auto split: option.split)

lemma mmu_only_if: "mmu_only g \<Longrightarrow> mmu_only h \<Longrightarrow> mmu_only (\<lambda>s. if P s then g s else h s)"
  unfolding mmu_only_def by auto

lemma mmu_only_const_if: "mmu_only g \<Longrightarrow> mmu_only h \<Longrightarrow> mmu_only (if P then g else h)"
  by simp

lemma read_qword_mmu_only: "mmu_only (system_read_qword a)"
  unfolding system_read_qword_def by (intro mmu_only_and_then mmu_only_intros)

lemma fetch_mmu_only:
  "mmu_only (fetch_raw_descriptor sel v)" "mmu_only (fetch_raw_descriptor2 sel)"
  "mmu_only (fetch_raw_descriptor_64 sel v)" "mmu_only (fetch_raw_descriptor2_64 sel)"
  unfolding fetch_raw_descriptor_def[abs_def] fetch_raw_descriptor2_def[abs_def] fetch_raw_descriptor_64_def[abs_def] fetch_raw_descriptor2_64_def[abs_def]
  by (intro mmu_only_option mmu_only_and_then mmu_only_const_if mmu_only_intros read_qword_mmu_only)+

lemma touch_mmu_only: "mmu_only (touch_segment sel d)"
proof -
  have "mmu_only (and_then (on_mmu (system_write 1 a bs)) (\<lambda>_. sys_return d'))" for a bs and d' :: bx_descriptor_t
    by (intro mmu_only_and_then mmu_only_intros)
  then show ?thesis
    using mmu_only_intros(2)[of d] unfolding mmu_only_def touch_segment_def Let_def by presburger
qed

lemma fetch_ss_mmu_only: "mmu_only (fetch_ss_descriptor raw sel rpl v)"
  unfolding fetch_ss_descriptor_def Let_def
  by (intro mmu_only_and_then fetch_mmu_only, split prod.split) (intro allI impI mmu_only_const_if mmu_only_intros)

text \<open>What is left of a descriptor after it is marked as accessed.\<close>

lemma accessed_type: "\<not> IS_SEGMENT_ACCESSED t \<or> t OR 1 = t"
proof -
  have "t OR 1 = t" if "bit t 0" using that by (intro bit_word_eqI) (auto simp: bit_or_iff bit_1_iff)
  then show ?thesis using and_exp_eq_0_iff_not_bit[of t 0] by (auto simp: IS_SEGMENT_ACCESSED_def)
qed

lemma touch_result:
  assumes "touch_segment sel d s = (Inr d', s')"
  shows "d' = d\<lparr>d_type := d_type d OR 1\<rparr>"
  using assms accessed_type[of "d_type d"]
  by (auto simp: touch_segment_def Let_def and_then_Inr sys_return_def split: if_splits)

section \<open>The protection rule\<close>

lemma type_after_touch [simp]:
  "IS_CODE_SEGMENT (t OR 1) = IS_CODE_SEGMENT t" "IS_CODE_SEGMENT_CONFORMING (t OR 1) = IS_CODE_SEGMENT_CONFORMING t"
  "IS_CODE_SEGMENT_READABLE (t OR 1) = IS_CODE_SEGMENT_READABLE t" "IS_DATA_SEGMENT_WRITEABLE (t OR 1) = IS_DATA_SEGMENT_WRITEABLE t"
  "IS_DATA_SEGMENT (t OR 1) = IS_DATA_SEGMENT t" "IS_SEGMENT_ACCESSED (t OR 1)" "readable_type (t OR 1) = readable_type t"
  "writable_type (t OR 1) = writable_type t" "IS_DATA_SEGMENT_EXPAND_DOWN (t OR 1) = IS_DATA_SEGMENT_EXPAND_DOWN t"
proof -
  have b: "(t OR 1) AND 0x8 = t AND 0x8" "(t OR 1) AND 0x4 = t AND 0x4" "(t OR 1) AND 0x2 = t AND 0x2" "(t OR 1) AND 1 = 1" for t :: Bit8u
    by (simp_all add: bit.conj_disj_distrib2)
  show "IS_CODE_SEGMENT (t OR 1) = IS_CODE_SEGMENT t" "IS_CODE_SEGMENT_CONFORMING (t OR 1) = IS_CODE_SEGMENT_CONFORMING t"
    "IS_CODE_SEGMENT_READABLE (t OR 1) = IS_CODE_SEGMENT_READABLE t" "IS_DATA_SEGMENT_WRITEABLE (t OR 1) = IS_DATA_SEGMENT_WRITEABLE t"
    "IS_DATA_SEGMENT (t OR 1) = IS_DATA_SEGMENT t" "IS_SEGMENT_ACCESSED (t OR 1)" "readable_type (t OR 1) = readable_type t"
    "writable_type (t OR 1) = writable_type t" "IS_DATA_SEGMENT_EXPAND_DOWN (t OR 1) = IS_DATA_SEGMENT_EXPAND_DOWN t"
    by (simp_all only: type_tests IS_CODE_SEGMENT_CONFORMING_def IS_SEGMENT_ACCESSED_def b) simp
qed

lemma view_mmu [simp]: "cpl (s\<lparr>mmu := m\<rparr>) = cpl s" "sregs (s\<lparr>mmu := m\<rparr>) = sregs s" "cpu_mode (s\<lparr>mmu := m\<rparr>) = cpu_mode s"
  by (simp_all add: cpl_def)

text \<open>A load that checks a descriptor, with the checks that depend on the register left open.\<close>

lemma checked_load_data:
  assumes "load_seg_reg_data n v s = (r, s')" "v AND 0xfffc \<noteq> 0"
  shows "(\<exists>t m. r = Inl t \<and> s' = s\<lparr>mmu := m\<rparr>) \<or>
    (\<exists>d1 d2 s1 m. r = Inr () \<and> fetch_raw_descriptor (parse_selector v) BX_GP_EXCEPTION s = (Inr (d1, d2), s1) \<and>
      (let d = parse_descriptor d1 d2 raw_local
       in d_valid d \<noteq> 0 \<and> d_segment d \<and> readable_type (d_type d) \<and> d_p d \<and>
         (IS_CODE_SEGMENT (d_type d) \<and> IS_CODE_SEGMENT_CONFORMING (d_type d) \<or> sel_rpl (parse_selector v) \<le> d_dpl d \<and> cpl s \<le> d_dpl d) \<and>
         s' = set_sreg n \<lparr>selector = parse_selector v, cache = d\<lparr>d_type := d_type d OR 1, d_valid := SegValidCache\<rparr>\<rparr> (s\<lparr>mmu := m\<rparr>)))"
proof -
  obtain q s1 where q: "fetch_raw_descriptor (parse_selector v) BX_GP_EXCEPTION s = (q, s1)" by (metis surj_pair)
  obtain a where a: "s1 = s\<lparr>mmu := a\<rparr>" using mmu_onlyD[OF fetch_mmu_only(1) q] by blast
  show ?thesis
  proof (cases q)
    case (Inl t)
    then show ?thesis using assms q a by (auto simp: load_seg_reg_data_def Let_def and_then_def)
  next
    case (Inr w)
    obtain d1 d2 where w: "w = (d1, d2)" by (metis surj_pair)
    define d where "d = parse_descriptor d1 d2 raw_local"
    obtain x s2 where x: "touch_segment (parse_selector v) d s1 = (x, s2)" by (metis surj_pair)
    obtain b where b: "s2 = s1\<lparr>mmu := b\<rparr>" using mmu_onlyD[OF touch_mmu_only x] by blast
    note parts = load_seg_reg_data_def Let_def and_then_def q Inr w d_def[symmetric] exception_def
    consider "d_valid d = 0 \<or> \<not> d_segment d \<or> IS_CODE_SEGMENT (d_type d) \<and> \<not> IS_CODE_SEGMENT_READABLE (d_type d) \<or>
        (IS_DATA_SEGMENT (d_type d) \<or> IS_CODE_SEGMENT_NON_CONFORMING (d_type d)) \<and> (sel_rpl (parse_selector v) > d_dpl d \<or> cpl s1 > d_dpl d) \<or> \<not> IS_PRESENT d"
      | "d_valid d \<noteq> 0" "d_segment d" "\<not> (IS_CODE_SEGMENT (d_type d) \<and> \<not> IS_CODE_SEGMENT_READABLE (d_type d))"
        "\<not> ((IS_DATA_SEGMENT (d_type d) \<or> IS_CODE_SEGMENT_NON_CONFORMING (d_type d)) \<and> (sel_rpl (parse_selector v) > d_dpl d \<or> cpl s1 > d_dpl d))" "IS_PRESENT d"
      by blast
    then show ?thesis
    proof cases
      case 1
      then show ?thesis using assms a by (auto simp: parts split: if_splits)
    next
      case 2
      have "(r, s') = (case x of Inl t \<Rightarrow> (Inl t, s2) | Inr d' \<Rightarrow>
          (Inr (), set_sreg n \<lparr>selector = parse_selector v, cache = d'\<lparr>d_valid := SegValidCache\<rparr>\<rparr> s2))"
        using assms 2 x by (simp add: parts sys_modify_def split: sum.splits)
      moreover have "d' = d\<lparr>d_type := d_type d OR 1\<rparr>" if "x = Inr d'" for d' using touch_result x that by blast
      ultimately show ?thesis using 2 a b q Inr w
        by (cases x) (auto simp: d_def[symmetric] IS_PRESENT_def readable_type_def IS_DATA_SEGMENT_def IS_CODE_SEGMENT_NON_CONFORMING_def Let_def not_less)
    qed
  qed
qed

lemma checked_load_SS:
  assumes "load_seg_reg_SS v s = (r, s')" "v AND 0xfffc \<noteq> 0"
  shows "(\<exists>t m. r = Inl t \<and> s' = s\<lparr>mmu := m\<rparr>) \<or>
    (\<exists>d1 d2 s1 m. r = Inr () \<and> fetch_raw_descriptor (parse_selector v) BX_GP_EXCEPTION s = (Inr (d1, d2), s1) \<and>
      (let d = parse_descriptor d1 d2 raw_local
       in d_valid d \<noteq> 0 \<and> d_segment d \<and> writable_type (d_type d) \<and> d_p d \<and> sel_rpl (parse_selector v) = cpl s \<and> d_dpl d = cpl s \<and>
         s' = set_sreg BX_SEG_REG_SS \<lparr>selector = parse_selector v, cache = d\<lparr>d_type := d_type d OR 1, d_valid := SegValidCache\<rparr>\<rparr> (s\<lparr>mmu := m\<rparr>)))"
proof -
  obtain q s1 where q: "fetch_raw_descriptor (parse_selector v) BX_GP_EXCEPTION s = (q, s1)" by (metis surj_pair)
  obtain a where a: "s1 = s\<lparr>mmu := a\<rparr>" using mmu_onlyD[OF fetch_mmu_only(1) q] by blast
  show ?thesis
  proof (cases q)
    case (Inl t)
    then show ?thesis using assms q a by (auto simp: load_seg_reg_SS_def Let_def and_then_def)
  next
    case (Inr w)
    obtain d1 d2 where w: "w = (d1, d2)" by (metis surj_pair)
    define d where "d = parse_descriptor d1 d2 raw_local"
    obtain x s2 where x: "touch_segment (parse_selector v) d s1 = (x, s2)" by (metis surj_pair)
    obtain b where b: "s2 = s1\<lparr>mmu := b\<rparr>" using mmu_onlyD[OF touch_mmu_only x] by blast
    note parts = load_seg_reg_SS_def Let_def and_then_def q Inr w d_def[symmetric] exception_def
    consider "sel_rpl (parse_selector v) \<noteq> cpl s1 \<or> d_valid d = 0 \<or> \<not> d_segment d \<or> IS_CODE_SEGMENT (d_type d) \<or>
        \<not> IS_DATA_SEGMENT_WRITEABLE (d_type d) \<or> d_dpl d \<noteq> cpl s1 \<or> \<not> IS_PRESENT d"
      | "sel_rpl (parse_selector v) = cpl s1" "d_valid d \<noteq> 0" "d_segment d" "\<not> IS_CODE_SEGMENT (d_type d)" "IS_DATA_SEGMENT_WRITEABLE (d_type d)"
        "d_dpl d = cpl s1" "IS_PRESENT d"
      by blast
    then show ?thesis
    proof cases
      case 1
      then show ?thesis using assms a by (auto simp: parts split: if_splits)
    next
      case 2
      have "(r, s') = (case x of Inl t \<Rightarrow> (Inl t, s2) | Inr d' \<Rightarrow>
          (Inr (), set_sreg BX_SEG_REG_SS \<lparr>selector = parse_selector v, cache = d'\<lparr>d_valid := SegValidCache\<rparr>\<rparr> s2))"
        using assms 2 x by (simp add: parts sys_modify_def split: sum.splits)
      moreover have "d' = d\<lparr>d_type := d_type d OR 1\<rparr>" if "x = Inr d'" for d' using touch_result x that by blast
      ultimately show ?thesis using 2 a b q Inr w
        by (cases x) (auto simp: d_def[symmetric] IS_PRESENT_def writable_type_def IS_DATA_SEGMENT_def Let_def)
    qed
  qed
qed

lemma set_sreg_simps [simp]: "sregs (set_sreg n x s) = (sregs s)(n := x)" "mmu (set_sreg n x s) = mmu s"
  by (simp_all add: set_sreg_def)

lemma same_mmu: "\<exists>m. set_sreg n x s = set_sreg n x (s\<lparr>mmu := m\<rparr>)" by (rule exI[of _ "mmu s"]) simp

text \<open>C23. Loading ES, SS, DS, FS or GS in protected mode obeys the protection rule.  A refused load leaves every register as it
  was.  A load that succeeds puts the selector and the descriptor of its table, marked as accessed, into that register
  and changes no other: the segment is present; SS gets a writable data segment of exactly the current privilege level,
  requested at that level; the others get readable segments, and unless they are conforming code neither the current
  nor the requested privilege level is weaker than that of the descriptor.  A null selector leaves a register that no
  access can use, for SS only in 64-bit mode above level 3.\<close>

theorem load_seg_reg_protection:
  assumes "protected_mode s" "n \<in> {BX_SEG_REG_ES, BX_SEG_REG_SS, BX_SEG_REG_DS, BX_SEG_REG_FS, BX_SEG_REG_GS}" "load_seg_reg n v s = (r, s')"
  defines "seg \<equiv> sregs s' n" and "rpl \<equiv> sel_rpl (parse_selector v)"
  shows "(case r of
      Inl _ \<Rightarrow> \<exists>m. s' = s\<lparr>mmu := m\<rparr>
    | Inr _ \<Rightarrow>
        (\<exists>m. s' = set_sreg n seg (s\<lparr>mmu := m\<rparr>)) \<and> sel_value (selector seg) = v \<and>
        (if v AND 0xfffc = 0 then
           d_valid (cache seg) = 0 \<and> (n = BX_SEG_REG_SS \<longrightarrow> in_long64_mode s \<and> cpl s \<noteq> 3 \<and> rpl = cpl s)
         else
           (\<exists>d1 d2 s1. fetch_raw_descriptor (parse_selector v) BX_GP_EXCEPTION s = (Inr (d1, d2), s1) \<and>
             cache seg = (let d = parse_descriptor d1 d2 raw_local in d\<lparr>d_type := d_type d OR 1, d_valid := SegValidCache\<rparr>)) \<and>
           d_segment (cache seg) \<and> d_p (cache seg) \<and>
           (if n = BX_SEG_REG_SS then writable_type (d_type (cache seg)) \<and> d_dpl (cache seg) = cpl s \<and> rpl = cpl s
            else readable_type (d_type (cache seg)) \<and>
              (IS_CODE_SEGMENT (d_type (cache seg)) \<and> IS_CODE_SEGMENT_CONFORMING (d_type (cache seg)) \<or>
               cpl s \<le> d_dpl (cache seg) \<and> rpl \<le> d_dpl (cache seg)))))"
proof -
  have same: "\<exists>m. s = s\<lparr>mmu := m\<rparr>" by (rule exI[of _ "mmu s"]) simp
  consider "n = BX_SEG_REG_SS" "v AND 0xfffc = 0" | "n \<noteq> BX_SEG_REG_SS" "v AND 0xfffc = 0" | "n = BX_SEG_REG_SS" "v AND 0xfffc \<noteq> 0"
    | "n \<noteq> BX_SEG_REG_SS" "v AND 0xfffc \<noteq> 0" by blast
  then show ?thesis
  proof cases
    case 1
    then have "load_seg_reg_SS v s = (r, s')" using assms(1,3) by (simp add: load_seg_reg_def)
    then show ?thesis using 1 same same_mmu
      by (auto simp: load_seg_reg_SS_def Let_def exception_def load_null_selector_def seg_def rpl_def split: if_splits)
  next
    case 2
    then have "load_seg_reg_data n v s = (r, s')" using assms by (auto simp: load_seg_reg_def)
    then show ?thesis using 2 same_mmu by (auto simp: load_seg_reg_data_def Let_def load_null_selector_def seg_def)
  next
    case 3
    then have "load_seg_reg_SS v s = (r, s')" using assms(1,3) by (simp add: load_seg_reg_def)
    from checked_load_SS[OF this 3(2)] show ?thesis using 3
      by (auto simp: seg_def rpl_def Let_def parse_selector_def)
  next
    case 4
    then have "load_seg_reg_data n v s = (r, s')" using assms by (auto simp: load_seg_reg_def)
    from checked_load_data[OF this 4(2)] show ?thesis using 4
      by (auto simp: seg_def rpl_def Let_def parse_selector_def)
  qed
qed

section \<open>Reachable segment registers\<close>

lemma mask_less: "unat (w AND mask k :: 'a::len word) < 2 ^ k"
  by (simp add: take_bit_eq_mask[symmetric] unsigned_take_bit_eq)

lemma parsed_ok:
  assumes "d_segment (parse_descriptor d1 d2 t)"
  shows "descriptor_ok (parse_descriptor d1 d2 t)" "d_valid (parse_descriptor d1 d2 t) = 1"
proof -
  have b: "bit d2 12"
  proof (rule ccontr)
    assume "\<not> bit d2 12"
    then have "\<not> d_segment (set_ar_byte (ucast (drop_bit 8 d2)) t)" by simp
    then show False using assms unfolding parse_descriptor_def Let_def by (auto split: if_splits)
  qed
  have a: "bit d2 12 \<or> system_segment (ucast (drop_bit 8 d2) AND 0x0f)" using b by simp
  have l: "take_bit 12 (push_bit 12 x OR mask 12) = (mask 12 :: Bit32u)" for x
    by (rule bit_word_eqI) (auto simp: field_bits bit_take_bit_iff)
  have m: "take_bit 20 ((d1 AND mask 16) OR (d2 AND push_bit 16 (mask 4))) = (d1 AND mask 16) OR (d2 AND push_bit 16 (mask 4))"
    by (rule bit_word_eqI) (auto simp: field_bits bit_take_bit_iff)
  have u: "take_bit 32 (ucast (x :: Bit32u)) = (ucast x :: bx_address)" for x
    by (rule bit_word_eqI) (auto simp: bit_take_bit_iff bit_ucast_iff dest: bit_imp_le_length)
  show "descriptor_ok (parse_descriptor d1 d2 t)"
    unfolding parse_segment[OF a] descriptor_ok_def using l m u mask_less[of "drop_bit 5 (ucast (drop_bit 8 d2)) :: Bit8u" 2]
      mask_less[of "ucast (drop_bit 8 d2) :: Bit8u" 4]
    by (simp del: take_bit_or take_bit_and push_bit_or push_bit_and)
  show "d_valid (parse_descriptor d1 d2 t) = 1" unfolding parse_segment[OF a] by simp
qed

lemma type_or_1: "unat t < 16 \<Longrightarrow> unat (t OR 1 :: Bit8u) < 16"
  by (drule types_16) (elim insertE emptyE; simp)

lemma expands_touch [simp]: "expands_down (t OR 1) = expands_down t" by (simp add: expands_down_def)

lemma fresh_flags: "d_valid d = SegValidCache \<or> d_valid d = 0 \<Longrightarrow> unat (d_type d) < 16 \<Longrightarrow> flags_ok d"
  by (auto simp: flags_ok_iff SegValidCache_def bit_1_iff)

definition seg_ok :: "bx_descriptor_t \<Rightarrow> bool" where "seg_ok d \<longleftrightarrow> flags_ok d \<and> descriptor_ok d"

definition seg_inv :: "bx_sys \<Rightarrow> bool" where "seg_inv s \<longleftrightarrow> (\<forall>n. seg_ok (cache (sregs s n)))"

lemma loaded_ok:
  assumes "d_segment (parse_descriptor d1 d2 t)"
  defines "d \<equiv> parse_descriptor d1 d2 t"
  shows "seg_ok (d\<lparr>d_type := d_type d OR 1, d_valid := SegValidCache\<rparr>)" "seg_ok (d\<lparr>d_valid := SegValidCache\<rparr>)"
proof -
  have d: "descriptor_ok d" using parsed_ok(1)[OF assms(1)] by (simp add: d_def)
  then have "unat (d_type d) < 16" by (simp add: descriptor_ok_def)
  then show "seg_ok (d\<lparr>d_type := d_type d OR 1, d_valid := SegValidCache\<rparr>)" "seg_ok (d\<lparr>d_valid := SegValidCache\<rparr>)"
    using d type_or_1 by (auto simp: seg_ok_def descriptor_ok_def intro!: fresh_flags)
qed

text \<open>Address generation, loads, returns to an outer stack, changes of mode, and whatever happens to the other registers and to
  memory.\<close>

inductive seg_step :: "bx_sys \<Rightarrow> bx_sys \<Rightarrow> bool" where
  agen_read: "0 < unat len \<Longrightarrow> unat len \<le> 64 \<Longrightarrow> seg_step s (snd (agen_read32 n offset len s))"
| agen_read_aligned: "0 < unat len \<Longrightarrow> unat len \<le> 64 \<Longrightarrow> seg_step s (snd (agen_read_aligned32 n offset len s))"
| agen_store: "0 < unat len \<Longrightarrow> unat len \<le> 64 \<Longrightarrow> seg_step s (snd (agen_write32 n offset len s))"
| agen_store_aligned: "0 < unat len \<Longrightarrow> unat len \<le> 64 \<Longrightarrow> seg_step s (snd (agen_write_aligned32 n offset len s))"
| agen_execute: "0 < unat len \<Longrightarrow> unat len \<le> 64 \<Longrightarrow> seg_step s (snd (agen_read_execute32 n offset len s))"
| load: "seg_step s (snd (load_seg_reg n v s))"
| load_null: "seg_step s (load_null_selector n v s)"
| load_ss: "fetch_ss_descriptor raw sel cs_rpl x s = (Inr d, s') \<Longrightarrow> seg_step s (snd (load_ss sel d rpl s'))"
| validate: "seg_step s (validate_seg_regs s)"
| flat_SS: "unat rpl < 4 \<Longrightarrow> seg_step s (setup_flat_SS rpl s)"
| mode: "seg_step s (handleCpuModeChange s)"
| other: "seg_step s (s\<lparr>core := c, mmu := m, gdtr := g, idtr := i, ldtr := l, tr := t\<rparr>)"

lemma seg_inv_set: "seg_inv s \<Longrightarrow> seg_ok (cache x) \<Longrightarrow> seg_inv (set_sreg n x s)"
  by (simp add: seg_inv_def)

lemma seg_inv_frame: "sregs s' = sregs s \<Longrightarrow> seg_inv s' = seg_inv s"
  by (simp add: seg_inv_def)

lemma seg_inv_checked:
  assumes "seg_inv s" "0 < unat len" "unat len \<le> 64"
    and "checks = read_virtual_checks \<and> typ = readable_type \<and> flag4G = SegAccessROK4G \<and> flag = SegAccessROK \<or>
      checks = write_virtual_checks \<and> typ = writable_type \<and> flag4G = SegAccessWOK4G \<and> flag = SegAccessWOK"
  shows "seg_inv (snd (checked_agen32 checks flag4G flag al n offset len s))"
proof -
  have f: "flags_ok (cache (sregs s n))" using assms(1) by (simp add: seg_inv_def seg_ok_def)
  obtain k where k: "snd (checked_agen32 checks flag4G flag al n offset len s) = set_flags n k s" "flags_ok (cache (set_seg_valid k (sregs s n)))"
    using agen_checked[OF f assms(2-4), of al offset] by blast
  have "descriptor_ok (cache (sregs s n))" using assms(1) by (simp add: seg_inv_def seg_ok_def)
  then have "seg_ok (cache (set_seg_valid k (sregs s n)))" using k(2) by (simp add: seg_ok_def descriptor_ok_def set_seg_valid_def)
  then show ?thesis using seg_inv_set[OF assms(1), of "set_seg_valid k (sregs s n)" n] by (simp add: k(1) set_flags_def set_sreg_def)
qed

lemma seg_inv_execute:
  assumes "seg_inv s" "0 < unat len"
  shows "seg_inv (snd (agen_read_execute32 n offset len s))"
proof -
  have f: "flags_ok (cache (sregs s n))" "descriptor_ok (cache (sregs s n))" using assms(1) by (simp_all add: seg_inv_def seg_ok_def)
  obtain b k where k: "execute_virtual_checks (sregs s n) offset len = (b, set_seg_valid k (sregs s n))" "flags_ok (cache (set_seg_valid k (sregs s n)))"
    using execute_checks[OF f(1) assms(2), of offset] by blast
  have "seg_ok (cache (set_seg_valid k (sregs s n)))" using k(2) f(2) by (simp add: seg_ok_def descriptor_ok_def set_seg_valid_def)
  then show ?thesis using seg_inv_set[OF assms(1), of "set_seg_valid k (sregs s n)" n] assms(1) k(1)
    by (auto simp: agen_read_execute32_def Let_def set_sreg_def)
qed

lemma null_ok: "seg_inv s \<Longrightarrow> seg_inv (load_null_selector n v s)"
  unfolding load_null_selector_def Let_def
  by (rule seg_inv_set) (auto simp: seg_ok_def descriptor_ok_def intro!: fresh_flags)

lemma seg_inv_load:
  assumes "seg_inv s"
  shows "seg_inv (snd (load_seg_reg n v s))"
proof -
  have m: "seg_inv (s\<lparr>mmu := m\<rparr>)" for m using assms by (simp add: seg_inv_def)
  have real: "seg_inv (load_seg_reg_real n v s)"
  proof -
    let ?d = "(cache (sregs s n))\<lparr>d_valid := SegValidCache, d_base := push_bit 4 (ucast v), d_segment := True, d_p := True\<rparr>"
    let ?e = "?d\<lparr>d_type := BX_DATA_READ_WRITE_ACCESSED, d_dpl := 3, d_limit_scaled := 0xffff, d_g := False, d_d_b := False, d_l := False, d_avl := False\<rparr>"
    have o: "seg_ok (cache (sregs s n))" using assms by (simp add: seg_inv_def)
    have t: "take_bit 32 (push_bit 4 (ucast v)) = (push_bit 4 (ucast v) :: bx_address)"
      by (rule bit_word_eqI) (auto simp: bit_take_bit_iff bit_push_bit_iff bit_ucast_iff dest: bit_imp_le_length)
    have "flags_ok ?d" "flags_ok ?e"
      using o by (intro fresh_flags; simp add: seg_ok_def flags_ok_def BX_DATA_READ_WRITE_ACCESSED_def)+
    moreover have "descriptor_ok ?d" "descriptor_ok ?e"
      using o by (simp_all add: seg_ok_def descriptor_ok_def t BX_DATA_READ_WRITE_ACCESSED_def del: push_bit_numeral)
    ultimately have d: "seg_ok (if \<not> real_mode s then ?e else ?d)" by (simp add: seg_ok_def)
    have c: "seg_inv (handleAlignmentCheck x) = seg_inv x" for x by (simp add: seg_inv_def handleAlignmentCheck_def)
    show ?thesis unfolding load_seg_reg_real_def Let_def if_distrib[of seg_inv] c if_cancel
      by (rule seg_inv_set[OF assms]) (simp only: bx_segment_reg_t.simps d)
  qed
  obtain r s' where r: "load_seg_reg n v s = (r, s')" by (metis surj_pair)
  show ?thesis
  proof (cases "protected_mode s \<and> n \<in> {BX_SEG_REG_ES, BX_SEG_REG_SS, BX_SEG_REG_DS, BX_SEG_REG_FS, BX_SEG_REG_GS}")
    case False
    then have "load_seg_reg n v s = (if protected_mode s then (Inr (), s) else (Inr (), load_seg_reg_real n v s))"
      by (auto simp: load_seg_reg_def)
    then show ?thesis using real assms by simp
  next
    case True
    consider "v AND 0xfffc = 0" | "n = BX_SEG_REG_SS" "v AND 0xfffc \<noteq> 0" "load_seg_reg_SS v s = (r, s')"
      | "v AND 0xfffc \<noteq> 0" "load_seg_reg_data n v s = (r, s')"
      using True r by (auto simp: load_seg_reg_def split: if_splits)
    then show ?thesis
    proof cases
      case 1
      then show ?thesis using True assms null_ok[OF assms]
        by (auto simp: load_seg_reg_def load_seg_reg_SS_def load_seg_reg_data_def Let_def exception_def)
    next
      case 2
      from checked_load_SS[OF 2(3,2)] show ?thesis using m r loaded_ok(1) by (auto simp: Let_def intro!: seg_inv_set)
    next
      case 3
      from checked_load_data[OF 3(2,1)] show ?thesis using m r loaded_ok(1) by (auto simp: Let_def intro!: seg_inv_set)
    qed
  qed
qed

lemma validate_ok: "seg_inv s \<Longrightarrow> seg_inv (validate_seg_reg n s)"
  unfolding validate_seg_reg_def Let_def
  by (auto intro!: seg_inv_set fresh_flags simp: seg_inv_def seg_ok_def descriptor_ok_def flags_ok_iff)

lemma seg_inv_cs:
  assumes "seg_inv s"
  shows "seg_inv (set_cpl x s)" "seg_inv (handleCpuModeChange s)"
proof -
  have c: "seg_inv (set_cpl x s)" if "seg_inv s" for x s using that by (simp add: seg_inv_def set_cpl_def Let_def)
  show "seg_inv (set_cpl x s)" using c assms .
  let ?cs = "sregs s BX_SEG_REG_CS"
  let ?new = "?cs\<lparr>cache := (cache ?cs)\<lparr>d_p := True, d_segment := True, d_type := BX_DATA_READ_WRITE_ACCESSED\<rparr>\<rparr>"
  have "seg_ok (cache ?cs)" using assms by (simp add: seg_inv_def)
  then have "seg_ok (cache ?new)"
    by (auto simp: seg_ok_def descriptor_ok_def flags_ok_iff BX_DATA_READ_WRITE_ACCESSED_def type_tests flat_4G_def)
  then have n: "seg_inv (s\<lparr>cpu_mode := BX_MODE_IA32_REAL, sregs := (sregs s)(BX_SEG_REG_CS := ?new)\<rparr>)" using assms by (simp add: seg_inv_def)
  have f: "seg_inv (s\<lparr>cpu_mode := a\<rparr>)" "seg_inv (s\<lparr>cpu_mode := a, core := b\<rparr>)" for a b using assms by (simp_all add: seg_inv_def)
  have p: "seg_inv (s'\<lparr>mmu := x\<rparr>) = seg_inv s'" for s' x by (simp add: seg_inv_def)
  show "seg_inv (handleCpuModeChange s)" unfolding handleCpuModeChange_def Let_def p using f c n by simp
qed

lemma fetch_ss_ok:
  assumes "fetch_ss_descriptor raw sel rpl x s = (Inr d, s')"
  shows "\<exists>d1 d2 m. d = parse_descriptor d1 d2 raw_local \<and> d_segment d \<and> s' = s\<lparr>mmu := m\<rparr>"
proof -
  obtain m where "s' = s\<lparr>mmu := m\<rparr>" using mmu_onlyD[OF fetch_ss_mmu_only assms] by blast
  then show ?thesis using assms
    by (auto simp: fetch_ss_descriptor_def Let_def and_then_Inr exception_def sys_return_def split: if_splits)
qed

lemma seg_inv_load_ss:
  assumes "seg_inv s" "d = parse_descriptor d1 d2 raw_local" "d_segment d"
  shows "seg_inv (snd (load_ss sel d rpl s))"
proof -
  define sel' where "sel' = sel\<lparr>sel_value := (0xfffc AND sel_value sel) OR ucast rpl\<rparr>"
  have o: "seg_ok (d\<lparr>d_type := d_type d OR 1, d_valid := SegValidCache\<rparr>)" "seg_ok (d\<lparr>d_valid := SegValidCache\<rparr>)"
    using loaded_ok assms(2,3) by blast+
  obtain q s1 where q: "touch_segment sel' d s = (q, s1)" by (metis surj_pair)
  obtain m where m: "s1 = s\<lparr>mmu := m\<rparr>" using mmu_onlyD[OF touch_mmu_only q] by blast
  have i: "seg_inv s1" using assms(1) m by (simp add: seg_inv_def)
  show ?thesis
  proof (cases "sel_value sel' AND 0xfffc \<noteq> 0")
    case True
    then show ?thesis using q i o(1) touch_result
      by (cases q) (auto simp: load_ss_def Let_def sel'_def[symmetric] and_then_def sys_modify_def intro!: seg_inv_set)
  next
    case False
    then show ?thesis using assms(1) o(2)
      by (auto simp: load_ss_def Let_def sel'_def[symmetric] and_then_def sys_modify_def sys_return_def intro!: seg_inv_set)
  qed
qed


section \<open>Returning to an outer level\<close>

definition usable_at :: "Bit8u \<Rightarrow> bx_descriptor_t \<Rightarrow> bool" where
  "usable_at level d \<longleftrightarrow> level \<le> d_dpl d \<or> d_segment d \<and> IS_CODE_SEGMENT (d_type d) \<and> IS_CODE_SEGMENT_CONFORMING (d_type d)"

definition validated :: "Bit8u \<Rightarrow> bx_segment_reg_t \<Rightarrow> bx_segment_reg_t" where
  "validated level x =
    (if d_dpl (cache x) < level \<and> (d_valid (cache x) = 0 \<or> \<not> d_segment (cache x) \<or> IS_DATA_SEGMENT (d_type (cache x)) \<or>
         IS_CODE_SEGMENT_NON_CONFORMING (d_type (cache x)))
     then \<lparr>selector = (selector x)\<lparr>sel_value := 0\<rparr>, cache = (cache x)\<lparr>d_valid := 0\<rparr>\<rparr> else x)"

lemma validate_one:
  assumes "n \<noteq> 1"
  shows "sregs (validate_seg_reg n s) k = (if k = n then validated (cpl s) (sregs s n) else sregs s k)" "cpl (validate_seg_reg n s) = cpl s"
  using assms by (auto simp: validate_seg_reg_def Let_def cpl_def validated_def seg_numbers)

lemma validated_cases:
  "if d_valid (cache x) \<noteq> 0 \<and> usable_at level (cache x) then validated level x = x else d_valid (cache (validated level x)) = 0"
  by (auto simp: validated_def usable_at_def IS_DATA_SEGMENT_def IS_CODE_SEGMENT_NON_CONFORMING_def not_less)

text \<open>After the data segment registers are validated for a privilege level that has become weaker, none of ES, DS, FS and GS gives
  access to a segment above that level: each is either unusable or was usable at the new level already, as data or
  non-conforming code of a level that is no stronger or as conforming code, and then is kept as it was; CS and SS are not touched.\<close>

theorem validate_seg_regs_safe:
  "(n \<in> {BX_SEG_REG_ES, BX_SEG_REG_DS, BX_SEG_REG_FS, BX_SEG_REG_GS} \<longrightarrow>
     (if d_valid (cache (sregs s n)) \<noteq> 0 \<and> usable_at (cpl s) (cache (sregs s n)) then sregs (validate_seg_regs s) n = sregs s n
      else d_valid (cache (sregs (validate_seg_regs s) n)) = 0)) \<and>
   (n \<in> {BX_SEG_REG_CS, BX_SEG_REG_SS} \<longrightarrow> sregs (validate_seg_regs s) n = sregs s n)"
proof -
  have "sregs (validate_seg_regs s) n =
      (if n \<in> {BX_SEG_REG_ES, BX_SEG_REG_DS, BX_SEG_REG_FS, BX_SEG_REG_GS} then validated (cpl s) (sregs s n) else sregs s n)"
    unfolding validate_seg_regs_def seg_numbers by (simp add: validate_one)
  note e = this
  show ?thesis
  proof (intro conjI impI)
    assume "n \<in> {BX_SEG_REG_ES, BX_SEG_REG_DS, BX_SEG_REG_FS, BX_SEG_REG_GS}"
    then show "if d_valid (cache (sregs s n)) \<noteq> 0 \<and> usable_at (cpl s) (cache (sregs s n)) then sregs (validate_seg_regs s) n = sregs s n
        else d_valid (cache (sregs (validate_seg_regs s) n)) = 0"
      using validated_cases[of "sregs s n" "cpl s"] unfolding e by (simp only: if_True)
  next
    assume "n \<in> {BX_SEG_REG_CS, BX_SEG_REG_SS}"
    then have "n \<notin> {BX_SEG_REG_ES, BX_SEG_REG_DS, BX_SEG_REG_FS, BX_SEG_REG_GS}" by (auto simp: seg_numbers)
    then show "sregs (validate_seg_regs s) n = sregs s n" unfolding e by (simp only: if_False)
  qed
qed

section \<open>A flag without a right\<close>

text \<open>\<open>setup_flat_CS\<close>, which SYSENTER, SYSCALL and their returns use, marks the code segment as writable: outside 64-bit mode a write
  through CS is then accepted although its type is execute and read.\<close>

lemma flat_CS_accepts_writes:
  assumes "bit (cr0 (mmu s)) 0"
    and s'_def: "s' = setup_flat_CS rpl longmode s"
  shows "fst (agen_write32 BX_SEG_REG_CS offset len s') = Inr offset \<and> d_type (cache (sregs s' BX_SEG_REG_CS)) = BX_CODE_EXEC_READ_ACCESSED \<and>
    \<not> segment_allows writable_type (cache (sregs s' BX_SEG_REG_CS)) (unat offset) (unat len)"
proof -
  let ?d = "cache (sregs s' BX_SEG_REG_CS)"
  have c: "sregs (handleAlignmentCheck x) = sregs x" "cache (sregs (set_cpl r x) n) = cache (sregs x n)" for x r n
    by (simp_all add: handleAlignmentCheck_def set_cpl_def Let_def)
  have h: "cache (sregs (handleCpuModeChange x) n) = cache (sregs x n)" if "bit (cr0 (mmu x)) 0" for x n
    using that by (simp add: handleCpuModeChange_def Let_def c)
  have d: "d_type ?d = BX_CODE_EXEC_READ_ACCESSED" "d_valid ?d = SegValidCache OR SegAccessROK OR SegAccessWOK OR SegAccessROK4G OR SegAccessWOK4G"
    unfolding s'_def setup_flat_CS_def Let_def c by (subst h; simp add: assms(1))+
  have "d_valid ?d AND SegAccessWOK4G \<noteq> 0"
    unfolding d by (simp add: SegValidCache_def SegAccessROK_def SegAccessWOK_def SegAccessROK4G_def SegAccessWOK4G_def)
  then have "fst (agen_write32 BX_SEG_REG_CS offset len s') = Inr offset" by (simp add: agen_write32_def checked_agen32_def Let_def)
  moreover have "\<not> writable_type (d_type ?d)" unfolding d by (simp add: BX_CODE_EXEC_READ_ACCESSED_def type_tests)
  ultimately show ?thesis using d(1) by (simp add: segment_allows_def)
qed

section \<open>Witnesses\<close>

text \<open>A global descriptor table at linear address 0x1000 with a flat data segment at selector 8, reached through an entry of the TLB.\<close>

definition table_mmu :: bx_mmu where
  "table_mmu = sample_mmu\<lparr>
    DTLB := \<lparr>tlb_entry = (\<lambda>n. \<lparr>lpf = 0x1000, ppf = 0x1000, hostPageAddr = Vector 0x1000, accessBits = 0xf, tlb_pkey = 0, lpf_mask = 0xfff\<rparr>), split_large = False\<rparr>,
    phys := \<lparr>mem_len = 0x1000000, mem_vector = (\<lambda>x. if x = 0x1008 \<or> x = 0x1009 then 0xff else if x = 0x100d then 0x93 else if x = 0x100e then 0xcf else 0),
      bogus = (\<lambda>x. 0xff), a20_mask = - 1\<rparr>\<rparr>"

definition table_sys :: bx_sys where "table_sys = sample_sys\<lparr>mmu := table_mmu\<rparr>"

lemma table_read: "system_read 8 0x1008 (mmu_view table_sys) = (Inr [0xff, 0xff, 0, 0, 0, 0x93, 0xcf, 0], mmu_view table_sys)"
proof -
  have m: "mmu_view table_sys = table_mmu\<lparr>CPL := 0\<rparr>"
    by (simp add: mmu_view_def table_sys_def sample_sys_def table_mmu_def sample_mmu_def cpl_def sample_segment_def parse_selector_def in_long64_mode_def cpu_modes)
  show ?thesis unfolding m
    by (simp add: system_read_def table_mmu_def sample_mmu_def LPFOf_def LPF_MASK_def isReadOK_def host_or_def PAGE_OFFSET_def ReadHost_def upt_rec Let_def)
qed

lemma table_fetch: "fetch_raw_descriptor (parse_selector 8) BX_GP_EXCEPTION table_sys = (Inr (0xffff, 0xcf9300), table_sys\<lparr>mmu := mmu_view table_sys\<rparr>)"
proof -
  have "descriptor_offset (parse_selector 8) 7 table_sys = Some 0x1008"
    by (simp add: descriptor_offset_def parse_selector_def table_sys_def sample_sys_def)
  moreover have "on_mmu (system_read 8 0x1008) table_sys = (Inr [0xff, 0xff, 0, 0, 0, 0x93, 0xcf, 0], table_sys\<lparr>mmu := mmu_view table_sys\<rparr>)"
    unfolding on_mmu_def table_read by simp
  ultimately show ?thesis
    by (simp add: fetch_raw_descriptor_def system_read_qword_def and_then_def sys_return_def GET32L_def GET32H_def)
qed

lemma table_descriptor: "parse_descriptor 0xffff 0xcf9300 raw_local =
    \<lparr>d_valid = 1, d_p = True, d_dpl = 0, d_segment = True, d_type = 3, d_base = 0, d_limit_scaled = 0xffffffff, d_g = True, d_d_b = True, d_l = False,
      d_avl = False, gate_param_count = 0, gate_dest_selector = 0, gate_dest_offset = 0, taskgate_tss_selector = 0\<rparr>"
  by (simp add: parse_descriptor_def set_ar_byte_def raw_local_def Let_def)

theorem load_seg_reg_protection_witness:
  "fst (load_seg_reg BX_SEG_REG_DS 8 table_sys) = Inr () \<and>
    d_dpl (cache (sregs (snd (load_seg_reg BX_SEG_REG_DS 8 table_sys)) BX_SEG_REG_DS)) \<ge> cpl table_sys"
proof -
  have p: "protected_mode table_sys" by (simp add: protected_mode_def table_sys_def sample_sys_def)
  obtain r s' where r: "load_seg_reg BX_SEG_REG_DS 8 table_sys = (r, s')" by (metis surj_pair)
  have c: "cpl table_sys = 0" "sel_rpl (parse_selector 8) = 0"
    by (simp_all add: cpl_def table_sys_def sample_sys_def sample_segment_def parse_selector_def)
  have ok: "r = Inr ()"
    using r p c
    by (simp add: load_seg_reg_def seg_numbers load_seg_reg_data_def Let_def and_then_def table_fetch table_descriptor IS_CODE_SEGMENT_def
        IS_DATA_SEGMENT_def IS_CODE_SEGMENT_NON_CONFORMING_def IS_PRESENT_def touch_segment_def IS_SEGMENT_ACCESSED_def sys_return_def sys_modify_def
        exception_def)
  show ?thesis unfolding r fst_conv snd_conv
    using load_seg_reg_protection[OF p _ r] ok
    by (auto simp: c seg_numbers table_fetch table_descriptor IS_CODE_SEGMENT_def)
qed


theorem validate_seg_regs_safe_witness:
  "sregs (validate_seg_regs sample_sys) 3 = sregs sample_sys 3 \<and> sregs (validate_seg_regs sample_sys) 2 = sregs sample_sys 2"
  using validate_seg_regs_safe[of 3 sample_sys] validate_seg_regs_safe[of 2 sample_sys]
  by (simp add: seg_numbers sample_sys_def sample_segment_def usable_at_def cpl_def parse_selector_def)

end
