(* ===== verification/PcSystem.thy ===== *)
theory PcSystem
  imports Prelude
begin

text \<open>
  The system object of \<^verbatim>\<open>pc_system.cc\<close> and \<^verbatim>\<open>pc_system.h\<close>: the timers through which the processor clock drives the devices, the
  clock itself, and the A20 line.  A callback is called through a function pointer; the model takes the calling function as
  an argument, which maps the code of a callback and the system with its devices to the new system and devices.  Durations in
  micro- and nanoseconds are converted with floating-point arithmetic; the conversion is an argument too.
\<close>

section \<open>State\<close>

record 'f bx_timer =
  inUse :: bool
  period :: Bit64u
  timeToFire :: Bit64u
  active :: bool
  continuous :: bool
  funct :: "'f option"
  timer_id :: string
  param :: Bit32u

record 'f bx_pc_system =
  timer :: "nat \<Rightarrow> 'f bx_timer"
  numTimers :: nat
  triggeredTimer :: nat
  currCountdown :: Bit32u
  currCountdownPeriod :: Bit32u
  ticksTotal :: Bit64u
  lastTimeUsec :: Bit64u
  usecSinceLast :: Bit64u
  HRQ :: bool
  enable_a20 :: bool
  pc_a20_mask :: Bit64u
  IGNNE :: bool
  kill_bochs_request :: bool

definition BX_MAX_TIMERS :: nat where "BX_MAX_TIMERS = 64"
definition NullTimerInterval :: Bit64u where "NullTimerInterval = 0xffffffff"
definition MinAllowableTimerPeriod :: Bit64u where "MinAllowableTimerPeriod = 1"
definition BX_MAX_BIT64S :: Bit64u where "BX_MAX_BIT64S = 0x7fffffffffffffff"

definition set_timer :: "nat \<Rightarrow> 'f bx_timer \<Rightarrow> 'f bx_pc_system \<Rightarrow> 'f bx_pc_system" where
  "set_timer i t s = s\<lparr>timer := (timer s)(i := t)\<rparr>"

text \<open>The constructor and \<open>initialize\<close>; \<open>null_timer\<close> is the callback of timer 0.\<close>

definition construct :: "'f \<Rightarrow> 'f bx_pc_system \<Rightarrow> 'f bx_pc_system" where
  "construct null_timer s =
    (let t = timer s 0
     in set_timer 0 (t\<lparr>inUse := True, period := NullTimerInterval, active := True, continuous := True, funct := Some null_timer\<rparr>)
          (s\<lparr>ticksTotal := 0, numTimers := 1\<rparr>))"

definition pc_initialize :: "'f bx_pc_system \<Rightarrow> 'f bx_pc_system" where
  "pc_initialize s =
    set_timer 0 ((timer s 0)\<lparr>timeToFire := NullTimerInterval\<rparr>)
      (s\<lparr>ticksTotal := 0, currCountdown := ucast NullTimerInterval, currCountdownPeriod := ucast NullTimerInterval, lastTimeUsec := 0,
         usecSinceLast := 0, triggeredTimer := 0, HRQ := False, kill_bochs_request := False, IGNNE := False\<rparr>)"

definition time_ticks :: "'f bx_pc_system \<Rightarrow> Bit64u" where
  "time_ticks s = ticksTotal s + ucast (currCountdownPeriod s - currCountdown s)"

section \<open>Managing timers\<close>

text \<open>When a timer becomes due before the current countdown ends, the countdown and its period shrink by the same amount.\<close>

definition skew_countdown :: "Bit64u \<Rightarrow> 'f bx_pc_system \<Rightarrow> 'f bx_pc_system" where
  "skew_countdown ticks s =
    (if ticks < ucast (currCountdown s) then
       s\<lparr>currCountdownPeriod := currCountdownPeriod s - (currCountdown s - ucast ticks), currCountdown := ucast ticks\<rparr>
     else s)"

fun find_unused :: "(nat \<Rightarrow> 'f bx_timer) \<Rightarrow> nat \<Rightarrow> nat list \<Rightarrow> nat" where
  "find_unused timers n [] = n"
| "find_unused timers n (i # is) = (if \<not> inUse (timers i) then i else find_unused timers n is)"

definition register_timer_ticks ::
  "'f option \<Rightarrow> Bit64u \<Rightarrow> bool \<Rightarrow> bool \<Rightarrow> string \<Rightarrow> 'f bx_pc_system \<Rightarrow> nat option \<times> 'f bx_pc_system" where
  "register_timer_ticks f ticks cont act name s =
    (let ticks = (if ticks < MinAllowableTimerPeriod then MinAllowableTimerPeriod else ticks);
         i = find_unused (timer s) (numTimers s) [1..<numTimers s]
     in if numTimers s \<ge> BX_MAX_TIMERS then (None, s)
        else
          (let t = \<lparr>inUse = True, period = ticks, timeToFire = (ticksTotal s + ucast (currCountdownPeriod s - currCountdown s)) + ticks,
                    active = act, continuous = cont, funct = f, timer_id = take 31 name, param = 0\<rparr>;
               s = set_timer i t s;
               s = (if act then skew_countdown ticks s else s)
           in (Some i, if i = numTimers s then s\<lparr>numTimers := numTimers s + 1\<rparr> else s)))"

definition register_timer ::
  "(Bit32u \<Rightarrow> Bit64u) \<Rightarrow> 'f option \<Rightarrow> Bit32u \<Rightarrow> bool \<Rightarrow> bool \<Rightarrow> string \<Rightarrow> 'f bx_pc_system \<Rightarrow> nat option \<times> 'f bx_pc_system" where
  "register_timer usec_ticks f useconds cont act name s = register_timer_ticks f (usec_ticks useconds) cont act name s"

definition activate_timer_ticks :: "nat \<Rightarrow> Bit64u \<Rightarrow> bool \<Rightarrow> 'f bx_pc_system \<Rightarrow> 'f bx_pc_system" where
  "activate_timer_ticks i ticks cont s =
    (let ticks = (if ticks < MinAllowableTimerPeriod then MinAllowableTimerPeriod else ticks);
         t = (timer s i)\<lparr>period := ticks, timeToFire := (ticksTotal s + ucast (currCountdownPeriod s - currCountdown s)) + ticks,
              active := True, continuous := cont\<rparr>
     in skew_countdown ticks (set_timer i t s))"

definition activate_timer :: "(Bit32u \<Rightarrow> Bit64u) \<Rightarrow> nat \<Rightarrow> Bit32u \<Rightarrow> bool \<Rightarrow> 'f bx_pc_system \<Rightarrow> 'f bx_pc_system" where
  "activate_timer usec_ticks i useconds cont s =
    (if useconds = 0 then activate_timer_ticks i (period (timer s i)) cont s
     else
       (let ticks = usec_ticks useconds;
            ticks = (if ticks < MinAllowableTimerPeriod then MinAllowableTimerPeriod else ticks)
        in activate_timer_ticks i ticks cont (set_timer i ((timer s i)\<lparr>period := ticks\<rparr>) s)))"

definition activate_timer_nsec :: "(Bit64u \<Rightarrow> Bit64u) \<Rightarrow> nat \<Rightarrow> Bit64u \<Rightarrow> bool \<Rightarrow> 'f bx_pc_system \<Rightarrow> 'f bx_pc_system" where
  "activate_timer_nsec nsec_ticks i nseconds cont s =
    (if nseconds = 0 then activate_timer_ticks i (period (timer s i)) cont s
     else
       (let ticks = nsec_ticks nseconds;
            ticks = (if ticks < MinAllowableTimerPeriod then MinAllowableTimerPeriod else ticks)
        in activate_timer_ticks i ticks cont (set_timer i ((timer s i)\<lparr>period := ticks\<rparr>) s)))"

definition deactivate_timer :: "nat \<Rightarrow> 'f bx_pc_system \<Rightarrow> 'f bx_pc_system" where
  "deactivate_timer i s = set_timer i ((timer s i)\<lparr>active := False\<rparr>) s"

definition unregisterTimer :: "nat \<Rightarrow> 'f bx_pc_system \<Rightarrow> bool \<times> 'f bx_pc_system" where
  "unregisterTimer i s =
    (if active (timer s i) then (False, s)
     else
       (let s = set_timer i ((timer s i)\<lparr>inUse := False, period := BX_MAX_BIT64S, timeToFire := BX_MAX_BIT64S, continuous := False,
              funct := None, timer_id := []\<rparr>) s
        in (True, if i = numTimers s - 1 then s\<lparr>numTimers := numTimers s - 1\<rparr> else s)))"

definition setTimerParam :: "nat \<Rightarrow> Bit32u \<Rightarrow> 'f bx_pc_system \<Rightarrow> 'f bx_pc_system" where
  "setTimerParam i p s = set_timer i ((timer s i)\<lparr>param := p\<rparr>) s"

definition triggeredTimerParam :: "'f bx_pc_system \<Rightarrow> Bit32u" where
  "triggeredTimerParam s = param (timer s (triggeredTimer s))"

definition getNumCpuTicksLeftNextEvent :: "'f bx_pc_system \<Rightarrow> Bit32u" where "getNumCpuTicksLeftNextEvent s = currCountdown s"

section \<open>Events\<close>

text \<open>The scan over all timers carries the timers, the earliest next time, the triggered flags and the range of triggered timers.\<close>

type_synonym 'f scan = "(nat \<Rightarrow> 'f bx_timer) \<times> Bit64u \<times> (nat \<Rightarrow> bool) \<times> nat \<times> nat"

definition scan_timer :: "Bit64u \<Rightarrow> nat \<Rightarrow> 'f scan \<Rightarrow> 'f scan" where
  "scan_timer now i = (\<lambda>(timers, minTimeToFire, triggered, first, last').
    let triggered = triggered(i := False); t = timers i
    in if active t then
         (if now = timeToFire t then
            (let (t, minTimeToFire) =
               (if \<not> continuous t then (t\<lparr>active := False\<rparr>, minTimeToFire)
                else
                  (let t = t\<lparr>timeToFire := timeToFire t + period t\<rparr>
                   in (t, if timeToFire t < minTimeToFire then timeToFire t else minTimeToFire)))
             in (timers(i := t), minTimeToFire, triggered(i := True), if i < first then i else first, i))
          else (timers, if timeToFire t < minTimeToFire then timeToFire t else minTimeToFire, triggered, first, last'))
       else (timers, minTimeToFire, triggered, first, last'))"

type_synonym ('f, 'd) callback = "'f \<Rightarrow> 'f bx_pc_system \<times> 'd \<Rightarrow> 'f bx_pc_system \<times> 'd"

definition fire_timer :: "('f, 'd) callback \<Rightarrow> (nat \<Rightarrow> bool) \<Rightarrow> nat \<Rightarrow> 'f bx_pc_system \<times> 'd \<Rightarrow> 'f bx_pc_system \<times> 'd" where
  "fire_timer call triggered i = (\<lambda>(s, d).
    if triggered i then
      (case funct (timer s i) of
         None \<Rightarrow> (s, d)
       | Some f \<Rightarrow> apfst (\<lambda>s. s\<lparr>triggeredTimer := 0\<rparr>) (call f (s\<lparr>triggeredTimer := i\<rparr>, d)))
    else (s, d))"

definition countdownEvent :: "('f, 'd) callback \<Rightarrow> 'f bx_pc_system \<times> 'd \<Rightarrow> 'f bx_pc_system \<times> 'd" where
  "countdownEvent call = (\<lambda>(s, d).
    let s = s\<lparr>ticksTotal := ticksTotal s + ucast (currCountdownPeriod s)\<rparr>;
        (timers, minTimeToFire, triggered, first, last') =
          fold (scan_timer (ticksTotal s)) [0..<numTimers s] (timer s, - 1, \<lambda>i. False, numTimers s, 0);
        s = s\<lparr>timer := timers, currCountdown := ucast (minTimeToFire - ticksTotal s),
              currCountdownPeriod := ucast (minTimeToFire - ticksTotal s)\<rparr>
    in fold (fire_timer call triggered) [first..<Suc last'] (s, d))"

definition tick1 :: "('f, 'd) callback \<Rightarrow> 'f bx_pc_system \<times> 'd \<Rightarrow> 'f bx_pc_system \<times> 'd" where
  "tick1 call = (\<lambda>(s, d).
    let s = s\<lparr>currCountdown := currCountdown s - 1\<rparr>
    in if currCountdown s = 0 then countdownEvent call (s, d) else (s, d))"

text \<open>The loop of \<open>tickn\<close> ends only if every event leaves a positive countdown; not ending is the value \<open>None\<close>.\<close>

partial_function (option) tickn :: "('f, 'd) callback \<Rightarrow> Bit32u \<Rightarrow> 'f bx_pc_system \<times> 'd \<Rightarrow> ('f bx_pc_system \<times> 'd) option" where
  "tickn call n w =
    (if currCountdown (fst w) \<le> n then
       tickn call (n - currCountdown (fst w)) (countdownEvent call ((fst w)\<lparr>currCountdown := 0\<rparr>, snd w))
     else Some ((fst w)\<lparr>currCountdown := currCountdown (fst w) - n\<rparr>, snd w))"

section \<open>The clock in microseconds\<close>

definition time_usec_sequential :: "('f bx_pc_system \<Rightarrow> Bit64u) \<Rightarrow> 'f bx_pc_system \<Rightarrow> Bit64u \<times> 'f bx_pc_system" where
  "time_usec_sequential time_usec s =
    (let this_time_usec = time_usec s;
         s = (if this_time_usec \<noteq> lastTimeUsec s then
                (let diff_usec = this_time_usec - lastTimeUsec s; s = s\<lparr>lastTimeUsec := this_time_usec\<rparr>
                 in if diff_usec \<ge> usecSinceLast s then s\<lparr>usecSinceLast := 0\<rparr> else s\<lparr>usecSinceLast := usecSinceLast s - diff_usec\<rparr>)
              else s);
         s = s\<lparr>usecSinceLast := usecSinceLast s + 1\<rparr>
     in (this_time_usec + usecSinceLast s, s))"

section \<open>The A20 line\<close>

text \<open>Returns whether the address mapping changed, in which case every processor flushes its TLBs.\<close>

definition set_enable_a20 :: "bool \<Rightarrow> 'f bx_pc_system \<Rightarrow> bool \<times> 'f bx_pc_system" where
  "set_enable_a20 v s =
    (let old_enable_a20 = enable_a20 s;
         s = (if v then s\<lparr>enable_a20 := True, pc_a20_mask := 0xffffffffffffffff\<rparr>
              else s\<lparr>enable_a20 := False, pc_a20_mask := 0xffffffffffefffff\<rparr>)
     in (old_enable_a20 \<noteq> enable_a20 s, s))"

end
