(* ===== verification/PcSystemProps.thy ===== *)
theory PcSystemProps
  imports PcSystem
begin

text \<open>
  Properties of the system timers: one event fires exactly the timers that are due and sets the countdown to the earliest
  next one; no active timer is ever missed; and the loop of \<open>tickn\<close> ends, with the effect of single ticks.
\<close>

section \<open>Readings of the counters\<close>

lemma unat_up [simp]: "unat (ucast (w :: 32 word) :: 64 word) = unat w"
  by (simp add: unsigned_ucast_eq take_bit_nat_eq_self order.strict_trans [OF unsigned_less])

lemma unat_32: "unat (w :: 32 word) < 4294967296"
  using unsigned_less [of w] by simp

lemma unat_64: "unat (w :: 64 word) < 18446744073709551616"
  using unsigned_less [of w] by simp

lemma unat_add64: "unat a + unat b < 18446744073709551616 \<Longrightarrow> unat (a + b) = unat a + unat b"
  for a b :: "64 word"
  by (simp add: unat_word_ariths)

lemma unat_sub32: "b \<le> a \<Longrightarrow> unat (a - b) = unat a - unat b" for a b :: "32 word"
  by (rule unat_sub)

lemma unat_down: "unat w < 4294967296 \<Longrightarrow> unat (ucast (w :: 64 word) :: 32 word) = unat w"
  by (simp add: unsigned_ucast_eq take_bit_nat_eq_self)

text \<open>The present time, and the time at which the current countdown ends.\<close>

definition elapsed :: "'f bx_pc_system \<Rightarrow> nat" where
  "elapsed s = unat (ticksTotal s) + (unat (currCountdownPeriod s) - unat (currCountdown s))"

definition next_event :: "'f bx_pc_system \<Rightarrow> nat" where
  "next_event s = unat (ticksTotal s) + unat (currCountdownPeriod s)"

text \<open>
  An active timer is due no earlier than the end of the countdown and no later than its period from now. A timer's period is
  at most \<open>2\<^sup>6\<^sup>2\<close> ticks, and the clock has not passed \<open>2\<^sup>6\<^sup>2\<close> ticks by more than one countdown: at a thousand million
  ticks a second that is over a hundred years.
\<close>

definition max_ticks :: nat where "max_ticks = 4611686018427387904"

definition timer_ok :: "nat \<Rightarrow> nat \<Rightarrow> 'f bx_timer \<Rightarrow> bool" where
  "timer_ok now deadline t \<longleftrightarrow>
    (active t \<longrightarrow> deadline \<le> unat (timeToFire t) \<and> unat (timeToFire t) \<le> now + unat (period t) \<and>
       0 < unat (period t) \<and> unat (period t) \<le> max_ticks)"

definition null_timer_ok :: "'f bx_timer \<Rightarrow> bool" where
  "null_timer_ok t \<longleftrightarrow> active t \<and> continuous t \<and> period t = NullTimerInterval"

definition pc_counting :: "'f bx_pc_system \<Rightarrow> bool" where
  "pc_counting s \<longleftrightarrow> 1 \<le> numTimers s \<and> numTimers s \<le> BX_MAX_TIMERS \<and> null_timer_ok (timer s 0) \<and>
     currCountdown s \<le> currCountdownPeriod s \<and> next_event s \<le> max_ticks + 4294967296 \<and>
     (\<forall>i<numTimers s. timer_ok (elapsed s) (next_event s) (timer s i))"

definition pc_inv :: "'f bx_pc_system \<Rightarrow> bool" where
  "pc_inv s \<longleftrightarrow> pc_counting s \<and> 0 < currCountdown s"

section \<open>The scan of an event\<close>

definition due :: "Bit64u \<Rightarrow> 'f bx_timer \<Rightarrow> bool" where
  "due now t \<longleftrightarrow> active t \<and> timeToFire t = now"

definition rearm :: "Bit64u \<Rightarrow> 'f bx_timer \<Rightarrow> 'f bx_timer" where
  "rearm now t = (if due now t then if continuous t then t\<lparr>timeToFire := timeToFire t + period t\<rparr> else t\<lparr>active := False\<rparr> else t)"

definition earliest :: "(nat \<Rightarrow> 'f bx_timer) \<Rightarrow> nat \<Rightarrow> Bit64u" where
  "earliest timers n = Min (insert (- 1) ((\<lambda>i. timeToFire (timers i)) ` {i. i < n \<and> active (timers i)}))"

definition due_timers :: "Bit64u \<Rightarrow> (nat \<Rightarrow> 'f bx_timer) \<Rightarrow> nat \<Rightarrow> nat list" where
  "due_timers now timers n = filter (\<lambda>i. due now (timers i)) [0..<n]"

lemma earliest_0 [simp]: "earliest timers 0 = - 1"
  by (simp add: earliest_def)

lemma earliest_Suc:
  "earliest timers (Suc n) = (if active (timers n) then min (timeToFire (timers n)) (earliest timers n) else earliest timers n)"
proof -
  have "{i. i < Suc n \<and> active (timers i)} =
    (if active (timers n) then insert n {i. i < n \<and> active (timers i)} else {i. i < n \<and> active (timers i)})"
    by (auto simp: less_Suc_eq)
  moreover have "Min (insert m (insert x S)) = min x (Min (insert m S))" if "finite S" for m x :: Bit64u and S
    using that by (subst insert_commute) (rule Min_insert, simp_all)
  ultimately show ?thesis by (simp add: earliest_def del: Min_insert)
qed

lemma earliest_cong: "(\<And>i. i < n \<Longrightarrow> f i = g i) \<Longrightarrow> earliest f n = earliest g n"
  by (induction n) (simp_all add: earliest_Suc)

lemma earliest_le: "i < n \<Longrightarrow> active (timers i) \<Longrightarrow> earliest timers n \<le> timeToFire (timers i)"
  by (auto simp: earliest_def intro!: Min_le)

lemma earliest_greater:
  "(\<And>i. i < n \<Longrightarrow> active (timers i) \<Longrightarrow> x < timeToFire (timers i)) \<Longrightarrow> x < (- 1 :: Bit64u) \<Longrightarrow> x < earliest timers n"
  by (auto simp: earliest_def)

lemma scan_timers:
  assumes "n \<le> N"
  shows "fold (scan_timer now) [0..<n] (timers, - 1, \<lambda>i. False, N, 0) =
    (\<lambda>i. if i < n then rearm now (timers i) else timers i,
     earliest (\<lambda>i. rearm now (timers i)) n,
     \<lambda>i. i < n \<and> due now (timers i),
     (if due_timers now timers n = [] then N else hd (due_timers now timers n)),
     (if due_timers now timers n = [] then 0 else last (due_timers now timers n)))"
  using assms
proof (induction n)
  case 0
  show ?case by (simp add: due_timers_def fun_eq_iff)
next
  case (Suc n)
  have first: "hd (due_timers now timers n) < n" if "due_timers now timers n \<noteq> []"
    using hd_in_set [OF that] by (auto simp: due_timers_def)
  have "fold (scan_timer now) [0..<Suc n] (timers, - 1, \<lambda>i. False, N, 0) =
    scan_timer now n (fold (scan_timer now) [0..<n] (timers, - 1, \<lambda>i. False, N, 0))" by simp
  note st = this [unfolded Suc.IH [OF Suc_leD [OF Suc.prems]]]
  consider (due) "due now (timers n)" | (later) "\<not> due now (timers n)" "active (timers n)" | (off) "\<not> active (timers n)" by blast
  then show ?case
  proof cases
    case due
    then have "due_timers now timers (Suc n) = due_timers now timers n @ [n]" by (simp add: due_timers_def)
    with due first Suc.prems show ?thesis unfolding st
      by (auto simp: scan_timer_def earliest_Suc rearm_def due_def fun_eq_iff less_Suc_eq Let_def min_def)
  next
    case later
    then have "due_timers now timers (Suc n) = due_timers now timers n" by (simp add: due_timers_def)
    with later show ?thesis unfolding st
      by (auto simp: scan_timer_def earliest_Suc rearm_def due_def fun_eq_iff less_Suc_eq Let_def min_def)
  next
    case off
    then have "due_timers now timers (Suc n) = due_timers now timers n" by (simp add: due_timers_def due_def)
    with off show ?thesis unfolding st
      by (auto simp: scan_timer_def earliest_Suc rearm_def due_def fun_eq_iff less_Suc_eq Let_def)
  qed
qed

lemma fold_only: "(\<And>x w. \<not> P x \<Longrightarrow> f x w = w) \<Longrightarrow> fold f xs w = fold f (filter P xs) w"
  by (induction xs arbitrary: w) simp_all

lemma due_timers_sorted: "sorted (due_timers now timers n)"
  unfolding due_timers_def by (rule sorted_filter [where f = "\<lambda>x. x", simplified]) simp

lemma due_timers_range:
  assumes "due_timers now timers n \<noteq> []"
  shows "filter (\<lambda>i. i < n \<and> due now (timers i)) [hd (due_timers now timers n)..<Suc (last (due_timers now timers n))]
    = due_timers now timers n"
proof -
  define L where "L = due_timers now timers n"
  define a where "a = hd L"
  define b where "b = Suc (last L)"
  have L: "L \<noteq> []" "sorted L" using assms by (simp_all add: L_def due_timers_sorted)
  have mem: "i \<in> set L \<longleftrightarrow> i < n \<and> due now (timers i)" for i by (auto simp: L_def due_timers_def)
  have lo: "a \<le> i" if "i \<in> set L" for i
    using that L unfolding a_def by (cases L) auto
  have hi: "i < b" if "i \<in> set L" for i
  proof -
    have "\<forall>x \<in> set (butlast L). x \<le> last L"
      using L by (metis append_butlast_last_id list.set_intros(1) sorted_append)
    then show ?thesis using that L unfolding b_def
      by (metis append_butlast_last_id in_set_conv_decomp le_imp_less_Suc order_refl rotate1.simps(2) set_rotate1 set_ConsD)
  qed
  have "b \<le> n" using L mem [of "last L"] by (simp add: b_def Suc_le_eq)
  moreover have "a \<le> b" using lo hi L(1) by (meson last_in_set le_less_trans less_imp_le)
  ultimately have "[0..<n] = [0..<a] @ [a..<b] @ [b..<n]"
    by (metis le_add_diff_inverse le_trans less_eq_nat.simps(1) upt_add_eq_append)
  then have "L = filter (\<lambda>i. i \<in> set L) ([0..<a] @ [a..<b] @ [b..<n])"
    by (metis (mono_tags, lifting) L_def atLeastLessThan_iff due_timers_def filter_cong mem set_upt)
  also have "\<dots> = filter (\<lambda>i. i \<in> set L) [a..<b]"
  proof -
    have "filter (\<lambda>i. i \<in> set L) [0..<a] = []" "filter (\<lambda>i. i \<in> set L) [b..<n] = []"
      using lo hi by (fastforce simp: filter_empty_conv)+
    then show ?thesis by simp
  qed
  finally show ?thesis by (simp add: a_def b_def L_def [symmetric] mem)
qed

section \<open>One event\<close>

definition advance :: "'f bx_pc_system \<Rightarrow> 'f bx_pc_system" where
  "advance s =
    (let now = ticksTotal s + ucast (currCountdownPeriod s);
         timers = (\<lambda>i. if i < numTimers s then rearm now (timer s i) else timer s i);
         left = ucast (earliest timers (numTimers s) - now)
     in s\<lparr>ticksTotal := now, timer := timers, currCountdown := left, currCountdownPeriod := left\<rparr>)"

abbreviation call_timer :: "('f, 'd) callback \<Rightarrow> nat \<Rightarrow> 'f bx_pc_system \<times> 'd \<Rightarrow> 'f bx_pc_system \<times> 'd" where
  "call_timer call \<equiv> fire_timer call (\<lambda>i. True)"

lemma fold_cong_on: "(\<And>x w. x \<in> set xs \<Longrightarrow> f x w = g x w) \<Longrightarrow> fold f xs w = fold g xs w"
  by (induction xs arbitrary: w) simp_all

lemma fire_timers:
  assumes "\<And>i. triggered i \<longleftrightarrow> i < n \<and> due now (timers i)"
    and "due_timers now timers n \<noteq> []"
  shows "fold (fire_timer call triggered) [hd (due_timers now timers n)..<Suc (last (due_timers now timers n))] w =
    fold (call_timer call) (due_timers now timers n) w"
proof -
  have "fold (fire_timer call triggered) [hd (due_timers now timers n)..<Suc (last (due_timers now timers n))] w =
    fold (fire_timer call triggered) (filter (\<lambda>i. i < n \<and> due now (timers i))
      [hd (due_timers now timers n)..<Suc (last (due_timers now timers n))]) w"
    by (rule fold_only) (auto simp: fire_timer_def assms(1))
  also have "\<dots> = fold (fire_timer call triggered) (due_timers now timers n) w"
    by (simp only: due_timers_range [OF assms(2)])
  also have "\<dots> = fold (call_timer call) (due_timers now timers n) w"
    by (rule fold_cong_on) (auto simp: fire_timer_def assms(1) due_timers_def)
  finally show ?thesis .
qed

text \<open>An event of the system clock (\<open>countdownEvent\<close>) advances the clock to the end of the countdown and calls, in slot
  order, exactly the timers that are active and due then; every due one-shot timer has been deactivated and every due continuous
  timer re-armed by its period before the first call, and the new countdown runs to the earliest time of an active timer.\<close>

theorem countdown_event_fires_due:
  assumes "1 \<le> numTimers s"
  shows "countdownEvent call (s, d) =
    fold (call_timer call)
      (filter (\<lambda>i. due (ticksTotal s + ucast (currCountdownPeriod s)) (timer s i)) [0..<numTimers s]) (advance s, d)"
proof -
  define now where "now = ticksTotal s + ucast (currCountdownPeriod s)"
  have e: "earliest (\<lambda>i. if i < numTimers s then rearm now (timer s i) else timer s i) (numTimers s) =
    earliest (\<lambda>i. rearm now (timer s i)) (numTimers s)" by (rule earliest_cong) simp
  show ?thesis
  proof (cases "due_timers now (timer s) (numTimers s) = []")
    case True
    with assms show ?thesis
      by (simp add: countdownEvent_def scan_timers [OF order_refl] Let_def advance_def e now_def [symmetric] due_timers_def [symmetric] cong: if_cong)
  next
    case False
    show ?thesis
      using False
      by (simp add: countdownEvent_def scan_timers [OF order_refl] Let_def advance_def e now_def [symmetric] due_timers_def [symmetric]
          fire_timers [where n = "numTimers s" and now = now and timers = "timer s"] del: upt_Suc cong: if_cong)
  qed
qed

section \<open>The invariant\<close>

lemma NullTimerInterval_unat [simp]: "unat NullTimerInterval = 4294967295"
  by (simp add: NullTimerInterval_def)

lemma due_iff:
  assumes "pc_counting s" "i < numTimers s"
  shows "due (ticksTotal s + ucast (currCountdownPeriod s)) (timer s i) \<longleftrightarrow>
    active (timer s i) \<and> unat (timeToFire (timer s i)) = next_event s"
proof -
  have "unat (ticksTotal s + ucast (currCountdownPeriod s)) = next_event s"
    using assms(1) by (subst unat_add64) (auto simp: pc_counting_def next_event_def max_ticks_def)
  then show ?thesis by (auto simp: due_def word_unat_eq_iff)
qed

lemma advance_counting:
  assumes "pc_counting s" "next_event s \<le> max_ticks"
  shows "pc_inv (advance s)" "elapsed (advance s) = next_event s" "numTimers (advance s) = numTimers s"
proof -
  define now where "now = ticksTotal s + ucast (currCountdownPeriod s)"
  define timers where "timers = (\<lambda>i. if i < numTimers s then rearm now (timer s i) else timer s i)"
  define e where "e = earliest timers (numTimers s)"
  have now: "unat now = next_event s"
    using assms unfolding now_def by (subst unat_add64) (auto simp: next_event_def max_ticks_def)
  have ok: "unat now < unat (timeToFire (timers i)) \<and> unat (timeToFire (timers i)) \<le> unat now + unat (period (timers i)) \<and>
    0 < unat (period (timers i)) \<and> unat (period (timers i)) \<le> max_ticks"
    if "i < numTimers s" "active (timers i)" for i
  proof -
    have t: "timer_ok (elapsed s) (next_event s) (timer s i)" using assms(1) that by (simp add: pc_counting_def)
    have el: "elapsed s \<le> next_event s" by (simp add: elapsed_def next_event_def)
    have d: "due now (timer s i) \<longleftrightarrow> active (timer s i) \<and> unat (timeToFire (timer s i)) = next_event s"
      unfolding now_def using assms(1) that(1) by (rule due_iff)
    show ?thesis
    proof (cases "due now (timer s i)")
      case True
      with that have c: "continuous (timer s i)" "timers i = (timer s i)\<lparr>timeToFire := timeToFire (timer s i) + period (timer s i)\<rparr>"
        by (auto simp: timers_def rearm_def split: if_splits)
      have "unat (timeToFire (timer s i) + period (timer s i)) = unat (timeToFire (timer s i)) + unat (period (timer s i))"
        using t True d assms(2) by (intro unat_add64) (auto simp: timer_ok_def max_ticks_def)
      with c t True d now show ?thesis by (auto simp: timer_ok_def)
    next
      case False
      with that have "timers i = timer s i" by (simp add: timers_def rearm_def)
      with t d el now False that show ?thesis by (auto simp: timer_ok_def)
    qed
  qed
  have n0: "null_timer_ok (timer s 0)" and n: "1 \<le> numTimers s" "numTimers s \<le> BX_MAX_TIMERS"
    using assms(1) by (simp_all add: pc_counting_def)
  have t0: "null_timer_ok (timers 0)"
    using n0 by (auto simp: timers_def rearm_def null_timer_ok_def)
  have le: "e \<le> timeToFire (timers i)" if "i < numTimers s" "active (timers i)" for i
    unfolding e_def by (rule earliest_le) (rule that)+
  have "now < - 1" using now assms(2) by (simp add: word_less_nat_alt max_ticks_def unsigned_minus_1_eq_mask mask_eq_exp_minus_1)
  then have gt: "now < e" unfolding e_def
    by (intro earliest_greater) (auto simp: word_less_nat_alt dest: ok)
  have "e \<le> timeToFire (timers 0)" "unat (timeToFire (timers 0)) \<le> unat now + 4294967295"
    using t0 n ok [of 0] le [of 0] by (auto simp: null_timer_ok_def)
  then have "unat e \<le> unat now + 4294967295" by (simp add: word_le_nat_alt)
  moreover have en: "unat (e - now) = unat e - unat now" using gt by (simp add: unat_sub)
  ultimately have left: "unat (ucast (e - now) :: 32 word) = unat e - unat now"
    by (intro trans [OF unat_down]) auto
  have adv: "advance s = s\<lparr>ticksTotal := now, timer := timers, currCountdown := ucast (e - now), currCountdownPeriod := ucast (e - now)\<rparr>"
    by (simp add: advance_def Let_def now_def [symmetric] timers_def [symmetric] e_def [symmetric])
  have nx: "next_event (advance s) = unat e" "elapsed (advance s) = unat now"
    using left gt by (simp_all add: adv next_event_def elapsed_def word_less_nat_alt)
  show "elapsed (advance s) = next_event s" using nx now by simp
  show "numTimers (advance s) = numTimers s" by (simp add: adv)
  have "unat e \<le> max_ticks + 4294967296"
    using \<open>unat e \<le> unat now + 4294967295\<close> now assms(2) by simp
  moreover have "timer_ok (unat now) (unat e) (timers i)" if "i < numTimers s" for i
    using ok [OF that] le [OF that] by (auto simp: timer_ok_def word_le_nat_alt)
  moreover have "0 < (ucast (e - now) :: 32 word)" using left gt by (simp add: word_less_nat_alt)
  ultimately show "pc_inv (advance s)"
    using n t0 unfolding pc_inv_def pc_counting_def nx by (auto simp: adv)
qed

section \<open>The operations the devices use\<close>

text \<open>
  A callback, and the processor between events, may do any of these steps: register a timer, start or stop or release a timer
  other than timer 0 (what the assertions under \<open>BX_TIMER_DEBUG\<close> demand of callers), and change what is not a timer.
  The system object itself sets the triggered timer around a call.
\<close>

inductive pc_api :: "'f bx_pc_system \<Rightarrow> 'f bx_pc_system \<Rightarrow> bool" where
  registers: "unat ticks \<le> max_ticks \<Longrightarrow> register_timer_ticks f ticks cont act name s = (r, s') \<Longrightarrow> pc_api s s'"
| activates: "0 < i \<Longrightarrow> i < numTimers s \<Longrightarrow> unat ticks \<le> max_ticks \<Longrightarrow> pc_api s (activate_timer_ticks i ticks cont s)"
| deactivates: "0 < i \<Longrightarrow> i < numTimers s \<Longrightarrow> pc_api s (deactivate_timer i s)"
| unregisters: "0 < i \<Longrightarrow> i < numTimers s \<Longrightarrow> unregisterTimer i s = (r, s') \<Longrightarrow> pc_api s s'"
| sets_param: "i < numTimers s \<Longrightarrow> pc_api s (setTimerParam i p s)"
| triggers: "pc_api s (s\<lparr>triggeredTimer := i\<rparr>)"
| reads_clock: "time_usec_sequential usec s = (r, s') \<Longrightarrow> pc_api s s'"
| switches_a20: "set_enable_a20 v s = (r, s') \<Longrightarrow> pc_api s s'"
| holds: "pc_api s (s\<lparr>HRQ := v\<rparr>)"
| ignores_ne: "pc_api s (s\<lparr>IGNNE := v\<rparr>)"
| kills: "pc_api s (s\<lparr>kill_bochs_request := v\<rparr>)"

abbreviation pc_run :: "'f bx_pc_system \<Rightarrow> 'f bx_pc_system \<Rightarrow> bool" where
  "pc_run \<equiv> pc_api\<^sup>*\<^sup>*"

lemma elapsed_time:
  assumes "pc_counting s"
  shows "unat (time_ticks s) = elapsed s"
  using assms by (auto simp: time_ticks_def elapsed_def pc_counting_def next_event_def max_ticks_def unat_add64 unat_sub32 word_le_nat_alt)

lemma skew_fields [simp]:
  "timer (skew_countdown ticks s) = timer s" "numTimers (skew_countdown ticks s) = numTimers s"
  "ticksTotal (skew_countdown ticks s) = ticksTotal s"
  by (simp_all add: skew_countdown_def)

lemma skew_countdown_time:
  assumes "currCountdown s \<le> currCountdownPeriod s" "0 < ticks"
  shows "currCountdown (skew_countdown ticks s) \<le> currCountdownPeriod (skew_countdown ticks s)"
    and "elapsed (skew_countdown ticks s) = elapsed s"
    and "next_event (skew_countdown ticks s) = min (next_event s) (elapsed s + unat ticks)"
    and "0 < currCountdown s \<Longrightarrow> 0 < currCountdown (skew_countdown ticks s)"
proof -
  define C where "C = unat (currCountdown s)"
  define P where "P = unat (currCountdownPeriod s)"
  have CP: "C \<le> P" using assms(1) by (simp add: C_def P_def word_le_nat_alt)
  have f: "currCountdown (skew_countdown ticks s) \<le> currCountdownPeriod (skew_countdown ticks s) \<and>
    elapsed (skew_countdown ticks s) = elapsed s \<and>
    next_event (skew_countdown ticks s) = min (next_event s) (elapsed s + unat ticks) \<and>
    (0 < currCountdown s \<longrightarrow> 0 < currCountdown (skew_countdown ticks s))"
  proof (cases "unat ticks < C")
    case True
    have t: "unat (ucast ticks :: 32 word) = unat ticks"
      using True unat_32 [of "currCountdown s"] by (intro unat_down) (simp add: C_def)
    have d: "unat (currCountdown s - ucast ticks) = C - unat ticks"
      using True t by (simp add: unat_sub32 word_le_nat_alt C_def)
    have p: "unat (currCountdownPeriod s - (currCountdown s - ucast ticks)) = P - (C - unat ticks)"
      using CP d by (simp add: unat_sub32 word_le_nat_alt P_def)
    show ?thesis
      using True CP t p assms(2)
      by (auto simp: skew_countdown_def elapsed_def next_event_def word_less_nat_alt word_le_nat_alt C_def [symmetric] P_def [symmetric])
  next
    case False
    then show ?thesis
      using CP assms by (simp add: skew_countdown_def elapsed_def next_event_def word_less_nat_alt C_def [symmetric] P_def [symmetric])
  qed
  show "currCountdown (skew_countdown ticks s) \<le> currCountdownPeriod (skew_countdown ticks s)"
    "elapsed (skew_countdown ticks s) = elapsed s"
    "next_event (skew_countdown ticks s) = min (next_event s) (elapsed s + unat ticks)"
    "0 < currCountdown s \<Longrightarrow> 0 < currCountdown (skew_countdown ticks s)"
    using f by blast+
qed

lemma timer_ok_mono: "timer_ok now d t \<Longrightarrow> d' \<le> d \<Longrightarrow> timer_ok now d' t"
  by (auto simp: timer_ok_def)

text \<open>Starting a timer at slot \<open>i > 0\<close>: the common part of registration and activation.\<close>

definition starts :: "nat \<Rightarrow> 'f bx_timer \<Rightarrow> Bit64u \<Rightarrow> 'f bx_pc_system \<Rightarrow> bool" where
  "starts i t ticks s \<longleftrightarrow> 0 < i \<and> period t = ticks \<and> 0 < ticks \<and> unat ticks \<le> max_ticks \<and>
     timeToFire t = (ticksTotal s + ucast (currCountdownPeriod s - currCountdown s)) + ticks"

lemma start_timer:
  assumes "pc_inv s" "starts i t ticks s" "n = max (numTimers s) (Suc i)" "i \<le> numTimers s" "n \<le> BX_MAX_TIMERS"
  defines "s' \<equiv> (if active t then skew_countdown ticks (set_timer i t s) else set_timer i t s)\<lparr>numTimers := n\<rparr>"
  shows "pc_inv s'" and "elapsed s' = elapsed s"
proof -
  define u where "u = (if active t then skew_countdown ticks (set_timer i t s) else set_timer i t s)"
  have inv: "pc_counting s" "0 < currCountdown s" "currCountdown s \<le> currCountdownPeriod s"
    using assms(1) by (simp_all add: pc_inv_def pc_counting_def)
  have st: "0 < i" "period t = ticks" "0 < ticks" "unat ticks \<le> max_ticks" "timeToFire t = time_ticks s + ticks"
    using assms(2) by (simp_all add: starts_def time_ticks_def)
  have set_eq: "elapsed (set_timer i t s) = elapsed s" "next_event (set_timer i t s) = next_event s"
    "currCountdown (set_timer i t s) = currCountdown s" "currCountdownPeriod (set_timer i t s) = currCountdownPeriod s"
    by (simp_all add: set_timer_def elapsed_def next_event_def)
  note sk = skew_countdown_time [of "set_timer i t s" ticks, unfolded set_eq, OF inv(3) st(3)]
  have u: "elapsed u = elapsed s" "next_event u \<le> next_event s" "active t \<Longrightarrow> next_event u \<le> elapsed s + unat ticks"
    "0 < currCountdown u" "currCountdown u \<le> currCountdownPeriod u" "timer u = (timer s)(i := t)"
    using sk inv by (auto simp: u_def set_eq) (simp_all add: set_timer_def)
  have "elapsed s \<le> next_event s" by (simp add: elapsed_def next_event_def)
  then have "elapsed s \<le> max_ticks + 4294967296" using inv(1) by (simp add: pc_counting_def)
  then have "unat (timeToFire t) = elapsed s + unat ticks"
    unfolding st(5) elapsed_time [OF inv(1), symmetric] using st(4) by (intro unat_add64) (simp add: elapsed_time [OF inv(1)] max_ticks_def)
  then have new: "timer_ok (elapsed s) (next_event u) t"
    using u st by (auto simp: timer_ok_def word_less_nat_alt)
  have "timer_ok (elapsed s) (next_event u) (timer u k)" if "k < n" for k
  proof (cases "k = i")
    case True
    then show ?thesis using new u by simp
  next
    case False
    with that assms(3,4) have "k < numTimers s" by auto
    with inv(1) have "timer_ok (elapsed s) (next_event s) (timer s k)" by (simp add: pc_counting_def)
    then show ?thesis using False u timer_ok_mono by auto
  qed
  moreover have "s' = u\<lparr>numTimers := n\<rparr>" by (simp add: s'_def u_def)
  moreover have "elapsed (u\<lparr>numTimers := n\<rparr>) = elapsed u" "next_event (u\<lparr>numTimers := n\<rparr>) = next_event u"
    by (simp_all add: elapsed_def next_event_def)
  ultimately show "pc_inv s'" "elapsed s' = elapsed s"
    using inv(1) u st(1) assms(3,5) by (auto simp: pc_inv_def pc_counting_def)
qed

lemma find_unused_bounds:
  "find_unused timers n is = n \<or> find_unused timers n is \<in> set is"
  by (induction "is") auto

lemma register_timer_ticks_inv:
  assumes "pc_inv s" "unat ticks \<le> max_ticks" "register_timer_ticks f ticks cont act name s = (r, s')"
  shows "pc_inv s' \<and> elapsed s' = elapsed s"
proof (cases "numTimers s \<ge> BX_MAX_TIMERS")
  case True
  with assms show ?thesis by (simp add: register_timer_ticks_def Let_def)
next
  case False
  define tk where "tk = (if ticks < MinAllowableTimerPeriod then MinAllowableTimerPeriod else ticks)"
  define i where "i = find_unused (timer s) (numTimers s) [1..<numTimers s]"
  define t where "t = \<lparr>inUse = True, period = tk,
    timeToFire = (ticksTotal s + ucast (currCountdownPeriod s - currCountdown s)) + tk,
    active = act, continuous = cont, funct = f, timer_id = take 31 name, param = 0\<rparr>"
  have n: "1 \<le> numTimers s" using assms(1) by (simp add: pc_inv_def pc_counting_def)
  then have i: "0 < i" "i \<le> numTimers s"
    using find_unused_bounds [of "timer s" "numTimers s" "[1..<numTimers s]"] by (auto simp: i_def)
  have "0 < tk" "unat tk \<le> max_ticks"
    using assms(2) by (auto simp: tk_def MinAllowableTimerPeriod_def max_ticks_def not_less word_le_nat_alt word_less_nat_alt)
  then have "starts i t tk s" using i by (simp add: starts_def t_def)
  note start = start_timer [OF assms(1) this refl i(2)]
  have "max (numTimers s) (Suc i) \<le> BX_MAX_TIMERS" using i(2) False by auto
  note start = start [OF this]
  define n where "n = max (numTimers s) (Suc i)"
  have "s' = (if i = numTimers s then (if act then skew_countdown tk (set_timer i t s) else set_timer i t s)\<lparr>numTimers := numTimers s + 1\<rparr>
      else if act then skew_countdown tk (set_timer i t s) else set_timer i t s)"
  proof -
    have "s' = snd (register_timer_ticks f ticks cont act name s)" by (simp add: assms(3))
    then show ?thesis
      using False unfolding register_timer_ticks_def Let_def tk_def [symmetric] i_def [symmetric] t_def [symmetric]
      by (simp add: set_timer_def)
  qed
  also have "\<dots> = (if active t then skew_countdown tk (set_timer i t s) else set_timer i t s)\<lparr>numTimers := n\<rparr>"
    using i(2) by (cases "i = numTimers s") (simp_all add: n_def t_def set_timer_def skew_countdown_def max_def)
  finally have "s' = (if active t then skew_countdown tk (set_timer i t s) else set_timer i t s)\<lparr>numTimers := n\<rparr>" .
  with start show ?thesis by (simp add: n_def)
qed

lemma activate_timer_ticks_inv:
  assumes "pc_inv s" "0 < i" "i < numTimers s" "unat ticks \<le> max_ticks"
  shows "pc_inv (activate_timer_ticks i ticks cont s) \<and> elapsed (activate_timer_ticks i ticks cont s) = elapsed s"
proof -
  define tk where "tk = (if ticks < MinAllowableTimerPeriod then MinAllowableTimerPeriod else ticks)"
  define t where "t = (timer s i)\<lparr>period := tk, timeToFire := (ticksTotal s + ucast (currCountdownPeriod s - currCountdown s)) + tk,
    active := True, continuous := cont\<rparr>"
  have "0 < tk" "unat tk \<le> max_ticks"
    using assms(4) by (auto simp: tk_def MinAllowableTimerPeriod_def max_ticks_def not_less word_le_nat_alt word_less_nat_alt)
  then have "starts i t tk s" using assms(2) by (simp add: starts_def t_def)
  note start = start_timer [OF assms(1) this refl less_imp_le [OF assms(3)]]
  have m: "max (numTimers s) (Suc i) = numTimers s" using assms(3) by (simp add: max_def)
  have "numTimers s \<le> BX_MAX_TIMERS" using assms(1) by (simp add: pc_inv_def pc_counting_def)
  note start = start [unfolded m, OF this]
  have "activate_timer_ticks i ticks cont s = (skew_countdown tk (set_timer i t s))\<lparr>numTimers := numTimers s\<rparr>"
    by (simp add: activate_timer_ticks_def Let_def tk_def [symmetric] t_def [symmetric] set_timer_def skew_countdown_def)
  with start show ?thesis by (simp add: t_def)
qed

text \<open>A step that leaves the clock alone and only switches timers off or changes what the clock does not read.\<close>

lemma stop_timers:
  assumes "pc_inv s" "1 \<le> numTimers s'" "numTimers s' \<le> numTimers s" "timer s' 0 = timer s 0"
    and "ticksTotal s' = ticksTotal s" "currCountdown s' = currCountdown s" "currCountdownPeriod s' = currCountdownPeriod s"
    and "\<And>i. i < numTimers s' \<Longrightarrow> active (timer s' i) \<Longrightarrow>
      active (timer s i) \<and> timeToFire (timer s' i) = timeToFire (timer s i) \<and> period (timer s' i) = period (timer s i)"
  shows "pc_inv s' \<and> elapsed s' = elapsed s"
proof -
  have "elapsed s' = elapsed s" "next_event s' = next_event s"
    using assms by (simp_all add: elapsed_def next_event_def)
  then show ?thesis
    using assms by (auto simp: pc_inv_def pc_counting_def timer_ok_def)
qed

theorem pc_api_inv:
  assumes "pc_api s s'" "pc_inv s"
  shows "pc_inv s' \<and> elapsed s' = elapsed s"
  using assms
proof (induction rule: pc_api.induct)
  case (registers ticks f cont act name s r s')
  then show ?case by (metis register_timer_ticks_inv)
next
  case (activates i s ticks cont)
  then show ?case by (simp add: activate_timer_ticks_inv)
next
  case (deactivates i s)
  then show ?case by (intro stop_timers) (auto simp: deactivate_timer_def set_timer_def)
next
  case (unregisters i s r s')
  then show ?case by (intro stop_timers) (auto simp: unregisterTimer_def set_timer_def Let_def split: if_splits)
next
  case (sets_param i s p)
  have t: "timer (setTimerParam i p s) k = (if k = i then (timer s i)\<lparr>param := p\<rparr> else timer s k)" for k
    by (simp add: setTimerParam_def set_timer_def)
  have "elapsed (setTimerParam i p s) = elapsed s" "next_event (setTimerParam i p s) = next_event s"
    by (simp_all add: setTimerParam_def set_timer_def elapsed_def next_event_def)
  with sets_param t show ?case
    by (auto simp: pc_inv_def pc_counting_def timer_ok_def null_timer_ok_def) (simp_all add: setTimerParam_def set_timer_def)
next
  case (triggers s i)
  then show ?case by (intro stop_timers) (auto simp: pc_inv_def pc_counting_def)
next
  case (reads_clock usec s r s')
  then show ?case by (intro stop_timers) (auto simp: time_usec_sequential_def Let_def pc_inv_def pc_counting_def split: if_splits)
next
  case (switches_a20 v s r s')
  then show ?case by (intro stop_timers) (auto simp: set_enable_a20_def Let_def pc_inv_def pc_counting_def split: if_splits)
next
  case (holds s v)
  then show ?case by (intro stop_timers) (auto simp: pc_inv_def pc_counting_def)
next
  case (ignores_ne s v)
  then show ?case by (intro stop_timers) (auto simp: pc_inv_def pc_counting_def)
next
  case (kills s v)
  then show ?case by (intro stop_timers) (auto simp: pc_inv_def pc_counting_def)
qed

lemma pc_run_inv: "pc_run s s' \<Longrightarrow> pc_inv s \<Longrightarrow> pc_inv s' \<and> elapsed s' = elapsed s"
  by (induction rule: rtranclp_induct) (auto dest: pc_api_inv)

section \<open>Running the clock\<close>

text \<open>Callbacks keep to the operations of the devices.\<close>

definition well_behaved :: "('f, 'd) callback \<Rightarrow> bool" where
  "well_behaved call \<longleftrightarrow> (\<forall>f w. pc_run (fst w) (fst (call f w)))"

lemma call_timer_run:
  assumes "well_behaved call"
  shows "pc_run (fst w) (fst (call_timer call i w))"
proof (cases w)
  case (Pair s d)
  show ?thesis
  proof (cases "funct (timer s i)")
    case None
    then show ?thesis by (simp add: Pair fire_timer_def)
  next
    case (Some f)
    define w' where "w' = call f (s\<lparr>triggeredTimer := i\<rparr>, d)"
    have a: "pc_run (s\<lparr>triggeredTimer := i\<rparr>) (fst w')"
      using assms by (metis fst_conv w'_def well_behaved_def)
    moreover have "pc_run (fst w') ((fst w')\<lparr>triggeredTimer := 0\<rparr>)" by (intro r_into_rtranclp pc_api.triggers)
    moreover have "pc_run s (s\<lparr>triggeredTimer := i\<rparr>)" by (intro r_into_rtranclp pc_api.triggers)
    ultimately have "pc_run s ((fst w')\<lparr>triggeredTimer := 0\<rparr>)" by (meson rtranclp_trans)
    then show ?thesis by (simp add: Pair fire_timer_def Some w'_def [symmetric] apfst_def map_prod_def split_beta)
  qed
qed

lemma call_timers_run: "well_behaved call \<Longrightarrow> pc_run (fst w) (fst (fold (call_timer call) is w))"
proof (induction "is" arbitrary: w)
  case (Cons i "is")
  then have "pc_run (fst w) (fst (call_timer call i w))" "pc_run (fst (call_timer call i w)) (fst (fold (call_timer call) is (call_timer call i w)))"
    by (simp_all add: call_timer_run)
  then have "pc_run (fst w) (fst (fold (call_timer call) is (call_timer call i w)))" by (rule rtranclp_trans)
  then show ?case by simp
qed simp

lemma countdownEvent_inv:
  assumes "well_behaved call" "pc_counting s" "next_event s \<le> max_ticks"
  shows "pc_inv (fst (countdownEvent call (s, d)))" "elapsed (fst (countdownEvent call (s, d))) = next_event s"
proof -
  have n: "1 \<le> numTimers s" using assms(2) by (simp add: pc_counting_def)
  have "pc_run (advance s) (fst (countdownEvent call (s, d)))"
    unfolding countdown_event_fires_due [OF n] using call_timers_run [OF assms(1), of "(advance s, d)"] by simp
  from pc_run_inv [OF this advance_counting(1) [OF assms(2,3)]] advance_counting(2) [OF assms(2,3)]
  show "pc_inv (fst (countdownEvent call (s, d)))" "elapsed (fst (countdownEvent call (s, d))) = next_event s"
    by simp_all
qed

lemma ticks_within:
  "k < unat (currCountdown s) \<Longrightarrow> (tick1 call ^^ k) (s, d) = (s\<lparr>currCountdown := currCountdown s - of_nat k\<rparr>, d)"
proof (induction k)
  case (Suc k)
  have k: "unat (of_nat k :: 32 word) = k" "unat (of_nat (Suc k) :: 32 word) = Suc k"
    using Suc.prems unat_32 [of "currCountdown s"] by (simp_all add: unat_of_nat del: of_nat_Suc)
  define c where "c = currCountdown s - of_nat k"
  define e where "e = currCountdown s - of_nat (Suc k)"
  have "e \<noteq> 0" using Suc.prems k unfolding e_def by (metis right_minus_eq less_irrefl)
  moreover have "c - 1 = e" by (simp add: c_def e_def)
  ultimately have "tick1 call (s\<lparr>currCountdown := c\<rparr>, d) = (s\<lparr>currCountdown := e\<rparr>, d)"
    by (auto simp: tick1_def Let_def)
  then have "tick1 call (s\<lparr>currCountdown := currCountdown s - of_nat k\<rparr>, d) = (s\<lparr>currCountdown := currCountdown s - of_nat (Suc k)\<rparr>, d)"
    by (simp only: c_def e_def)
  with Suc show ?case by (simp del: of_nat_Suc)
qed simp

lemma ticks_to_event:
  assumes "0 < currCountdown s"
  shows "(tick1 call ^^ unat (currCountdown s)) (s, d) = countdownEvent call (s\<lparr>currCountdown := 0\<rparr>, d)"
proof -
  define C where "C = unat (currCountdown s)"
  have C: "C = Suc (C - 1)" "C - 1 < unat (currCountdown s)" using assms by (simp_all add: C_def word_less_nat_alt)
  have c: "currCountdown s = of_nat C" by (simp add: C_def)
  have "(tick1 call ^^ C) (s, d) = tick1 call (s\<lparr>currCountdown := currCountdown s - of_nat (C - 1)\<rparr>, d)"
    using ticks_within [OF C(2), of call d] by (subst C(1)) simp
  moreover have "currCountdown s - of_nat (C - 1) = 1"
    using C(1) unfolding c by (metis add_diff_cancel_right' of_nat_Suc plus_1_eq_Suc add.commute)
  ultimately show ?thesis by (simp add: tick1_def Let_def C_def)
qed

lemma counting_at_zero:
  assumes "pc_inv s"
  shows "pc_counting (s\<lparr>currCountdown := 0\<rparr>)" "next_event (s\<lparr>currCountdown := 0\<rparr>) = next_event s"
    "elapsed s + unat (currCountdown s) = next_event s"
proof -
  have a: "currCountdown s \<le> currCountdownPeriod s" "pc_counting s" using assms by (simp_all add: pc_inv_def pc_counting_def)
  then show e: "elapsed s + unat (currCountdown s) = next_event s"
    by (simp add: elapsed_def next_event_def word_le_nat_alt)
  have "timer_ok m d t" if "timer_ok n d t" "n \<le> m" for m n d and t :: "'a bx_timer"
    using that by (auto simp: timer_ok_def)
  moreover have "elapsed s \<le> elapsed (s\<lparr>currCountdown := 0\<rparr>)" by (simp add: elapsed_def)
  ultimately show "pc_counting (s\<lparr>currCountdown := 0\<rparr>)"
    using a by (auto simp: pc_counting_def next_event_def)
  show "next_event (s\<lparr>currCountdown := 0\<rparr>) = next_event s" by (simp add: next_event_def)
qed

lemma count_down:
  assumes "pc_inv s" "n < currCountdown s"
  shows "pc_inv (s\<lparr>currCountdown := currCountdown s - n\<rparr>)" "elapsed (s\<lparr>currCountdown := currCountdown s - n\<rparr>) = elapsed s + unat n"
proof -
  have a: "currCountdown s \<le> currCountdownPeriod s" "pc_counting s" using assms by (simp_all add: pc_inv_def pc_counting_def)
  have u: "unat (currCountdown s - n) = unat (currCountdown s) - unat n" using assms(2) by (simp add: unat_sub32)
  show e: "elapsed (s\<lparr>currCountdown := currCountdown s - n\<rparr>) = elapsed s + unat n"
    using a(1) assms(2) u by (simp add: elapsed_def word_le_nat_alt word_less_nat_alt)
  have "timer_ok (elapsed s + unat n) d t" if "timer_ok (elapsed s) d t" for d and t :: "'a bx_timer"
    using that by (auto simp: timer_ok_def)
  then show "pc_inv (s\<lparr>currCountdown := currCountdown s - n\<rparr>)"
    using a assms(2) u e by (auto simp: pc_inv_def pc_counting_def next_event_def word_le_nat_alt word_less_nat_alt)
qed

lemma tickn_ticks:
  assumes "well_behaved call" "pc_inv s" "elapsed s + unat n \<le> max_ticks"
  shows "tickn call n (s, d) = Some ((tick1 call ^^ unat n) (s, d)) \<and>
    pc_inv (fst ((tick1 call ^^ unat n) (s, d))) \<and> elapsed (fst ((tick1 call ^^ unat n) (s, d))) = elapsed s + unat n"
  using assms(2,3)
proof (induction "unat n" arbitrary: n s d rule: less_induct)
  case less
  show ?case
  proof (cases "currCountdown s \<le> n")
    case False
    then have "n < currCountdown s" by simp
    moreover from this have "(tick1 call ^^ unat n) (s, d) = (s\<lparr>currCountdown := currCountdown s - n\<rparr>, d)"
      using ticks_within [of "unat n" s call d] by (simp add: word_less_nat_alt)
    ultimately show ?thesis using False count_down [OF less.prems(1)] by (subst tickn.simps) simp
  next
    case True
    define w where "w = countdownEvent call (s\<lparr>currCountdown := 0\<rparr>, d)"
    obtain s' d' where w: "w = (s', d')" by (cases w)
    have pos: "0 < currCountdown s" using less.prems(1) by (simp add: pc_inv_def)
    note z = counting_at_zero [OF less.prems(1)]
    have nx: "next_event (s\<lparr>currCountdown := 0\<rparr>) \<le> max_ticks"
      using z(2,3) less.prems(2) True by (simp add: word_le_nat_alt)
    have s': "pc_inv s'" "elapsed s' = next_event s"
      using countdownEvent_inv [OF assms(1) z(1) nx, of d] w z(2) by (simp_all add: w_def)
    have u: "unat (n - currCountdown s) = unat n - unat (currCountdown s)" using True by (simp add: unat_sub32)
    have lt: "unat (n - currCountdown s) < unat n" using u pos True by (simp add: word_less_nat_alt word_le_nat_alt)
    have sum: "unat n = unat (n - currCountdown s) + unat (currCountdown s)" using u True by (simp add: word_le_nat_alt)
    have "elapsed s' + unat (n - currCountdown s) = elapsed s + unat n"
      using s'(2) z(3) sum by simp
    with less.hyps [OF lt s'(1), of d'] less.prems(2)
    have IH: "tickn call (n - currCountdown s) (s', d') = Some ((tick1 call ^^ unat (n - currCountdown s)) (s', d'))"
      "pc_inv (fst ((tick1 call ^^ unat (n - currCountdown s)) (s', d')))"
      "elapsed (fst ((tick1 call ^^ unat (n - currCountdown s)) (s', d'))) = elapsed s + unat n" by simp_all
    have "tickn call n (s, d) = tickn call (n - currCountdown s) (s', d')"
      using True w by (subst tickn.simps) (simp add: w_def)
    moreover have "(tick1 call ^^ unat n) (s, d) = (tick1 call ^^ unat (n - currCountdown s)) (s', d')"
      using ticks_to_event [OF pos, of call d] w unfolding sum funpow_add by (simp add: w_def)
    ultimately show ?thesis using IH by simp
  qed
qed

text \<open>C26. The loop of \<open>tickn\<close> ends: as long as callbacks use only the timer operations and the clock stays below \<open>2\<^sup>6\<^sup>2\<close> ticks, it
  returns, the clock has advanced by exactly the \<open>n\<close> ticks asked for, and the invariant holds again: the countdown is positive and
  no active timer is overdue.\<close>

theorem tickn_returns:
  fixes s :: "'f bx_pc_system"
  assumes "well_behaved call" "pc_inv s" "elapsed s + unat n \<le> max_ticks"
  shows "\<exists>s' d'. tickn call n (s, d) = Some (s', d') \<and> pc_inv s' \<and> unat (time_ticks s') = unat (time_ticks s) + unat n"
proof -
  obtain s' d' where w: "(tick1 call ^^ unat n) (s, d) = (s', d')" by (cases "(tick1 call ^^ unat n) (s, d)")
  with tickn_ticks [OF assms, of d] have r: "tickn call n (s, d) = Some (s', d')" "pc_inv s'" "elapsed s' = elapsed s + unat n"
    by simp_all
  moreover have "unat (time_ticks s') = elapsed s'" "unat (time_ticks s) = elapsed s"
    using r(2) assms(2) by (simp_all add: pc_inv_def elapsed_time)
  ultimately show ?thesis by simp
qed

text \<open>C27. Advancing the clock by \<open>n\<close> ticks at once is advancing it by one tick \<open>n\<close> times: the same timers fire at the same times in
  the same order, and the system and the devices end in the same state.\<close>

theorem tickn_is_single_ticks:
  fixes s :: "'f bx_pc_system"
  assumes "well_behaved call" "pc_inv s" "elapsed s + unat n \<le> max_ticks"
  shows "tickn call n (s, d) = Some ((tick1 call ^^ unat n) (s, d))"
  using tickn_ticks [OF assms] by blast

text \<open>C28. A tick fires exactly the timers that fall due with it. When the countdown has more than one tick left no active timer is
  due at the new time, and only the countdown changes; when it has one left, the callbacks of precisely those active timers
  whose time is the new time are called, in slot order.\<close>

theorem tick1_fires_exactly_due:
  assumes "pc_inv s" "elapsed s < max_ticks"
  shows "tick1 call (s, d) =
    (if currCountdown s = 1
     then fold (call_timer call)
       (filter (\<lambda>i. active (timer s i) \<and> unat (timeToFire (timer s i)) = unat (time_ticks s) + 1) [0..<numTimers s])
       (advance (s\<lparr>currCountdown := 0\<rparr>), d)
     else (s\<lparr>currCountdown := currCountdown s - 1\<rparr>, d)) \<and>
    (currCountdown s \<noteq> 1 \<longrightarrow>
     filter (\<lambda>i. active (timer s i) \<and> unat (timeToFire (timer s i)) = unat (time_ticks s) + 1) [0..<numTimers s] = [])"
proof (cases "currCountdown s = 1")
  case True
  define z where "z = s\<lparr>currCountdown := 0\<rparr>"
  have z: "pc_counting z" "next_event z = next_event s" "numTimers z = numTimers s" "timer z = timer s" "1 \<le> numTimers z"
    "elapsed s + 1 = next_event s"
    using counting_at_zero [OF assms(1)] True by (simp_all add: z_def) (simp add: pc_counting_def)
  have now: "unat (time_ticks s) + 1 = next_event z"
    using z assms(1) by (simp add: pc_inv_def elapsed_time)
  have "filter (\<lambda>i. due (ticksTotal z + ucast (currCountdownPeriod z)) (timer z i)) [0..<numTimers z] =
    filter (\<lambda>i. active (timer s i) \<and> unat (timeToFire (timer s i)) = unat (time_ticks s) + 1) [0..<numTimers s]"
    unfolding now by (rule filter_cong) (use due_iff [OF z(1)] z in auto)
  moreover have "tick1 call (s, d) = countdownEvent call (z, d)" using True by (simp add: tick1_def z_def)
  ultimately show ?thesis
    using countdown_event_fires_due [OF z(5), of call d] True by (simp add: z_def [symmetric])
next
  case False
  have "0 < currCountdown s" using assms(1) by (simp add: pc_inv_def)
  then have "1 < unat (currCountdown s)"
    using False by (simp add: word_less_nat_alt word_unat_eq_iff)
  then have "unat (time_ticks s) + 1 < next_event s"
    using counting_at_zero(3) [OF assms(1)] assms(1) by (simp add: pc_inv_def elapsed_time)
  then have "filter (\<lambda>i. active (timer s i) \<and> unat (timeToFire (timer s i)) = unat (time_ticks s) + 1) [0..<numTimers s] = []"
    using assms(1) by (auto simp: filter_empty_conv pc_inv_def pc_counting_def timer_ok_def)
  then show ?thesis using False by (auto simp: tick1_def Let_def)
qed

section \<open>From power-on\<close>

text \<open>One step of the machine as the timers see it: an operation of a device or of the processor, or a tick.\<close>

inductive clock_step :: "('f, 'd) callback \<Rightarrow> 'f bx_pc_system \<times> 'd \<Rightarrow> 'f bx_pc_system \<times> 'd \<Rightarrow> bool" for call where
  operation: "pc_api s s' \<Longrightarrow> clock_step call (s, d) (s', d')"
| tick: "elapsed (fst w) < max_ticks \<Longrightarrow> clock_step call w (tick1 call w)"
| ticks: "elapsed (fst w) + unat n \<le> max_ticks \<Longrightarrow> tickn call n w = Some w' \<Longrightarrow> clock_step call w w'"

lemma initial_inv: "pc_inv (pc_initialize (construct null_timer s))"
  by (simp add: pc_inv_def pc_counting_def pc_initialize_def construct_def Let_def set_timer_def null_timer_ok_def timer_ok_def
      next_event_def elapsed_def max_ticks_def BX_MAX_TIMERS_def NullTimerInterval_def)

lemma clock_step_inv:
  assumes "well_behaved call" "clock_step call w w'" "pc_inv (fst w)"
  shows "pc_inv (fst w')"
  using assms(2,3)
proof cases
  case (operation s s' d d')
  with assms(3) show ?thesis by (simp add: pc_api_inv)
next
  case tick
  obtain s d where w: "w = (s, d)" by (cases w)
  have "(tick1 call ^^ unat (1 :: 32 word)) (s, d) = tick1 call (s, d)" by simp
  with tickn_ticks [OF assms(1), of s 1 d] tick assms(3) w show ?thesis by simp
next
  case (ticks n)
  obtain s d where w: "w = (s, d)" by (cases w)
  with tickn_ticks [OF assms(1), of s n d] ticks assms(3) show ?thesis by simp
qed

lemma clock_run_inv: "(clock_step call)\<^sup>*\<^sup>* w w' \<Longrightarrow> well_behaved call \<Longrightarrow> pc_inv (fst w) \<Longrightarrow> pc_inv (fst w')"
  by (induction rule: rtranclp_induct) (auto dest: clock_step_inv)


section \<open>The sequential clock\<close>

text \<open>The sequential microsecond clock (\<open>time_usec_sequential\<close>) never repeats a value and never falls behind: each reading is one more
  than the later of the previous reading and the present time, which becomes the previous reading of the next call.\<close>

theorem time_usec_sequential_increases:
  assumes "lastTimeUsec s \<le> time_usec s"
    and "unat (lastTimeUsec s) + unat (usecSinceLast s) + 1 < 2 ^ 64" "unat (time_usec s) + 1 < 2 ^ 64"
    and "time_usec_sequential time_usec s = (r, s')"
  shows "unat r = max (unat (lastTimeUsec s) + unat (usecSinceLast s)) (unat (time_usec s)) + 1 \<and>
    lastTimeUsec s' = time_usec s \<and> unat (lastTimeUsec s') + unat (usecSinceLast s') = unat r"
proof -
  define t where "t = time_usec s"
  define l where "l = lastTimeUsec s"
  define u where "u = usecSinceLast s"
  define u' where "u' = (if t - l \<ge> u then 0 else u - (t - l)) + 1"
  have d: "unat (t - l) = unat t - unat l" "unat l \<le> unat t"
    using assms(1) by (simp_all add: unat_sub t_def l_def word_le_nat_alt)
  have "unat u' = (if unat t - unat l \<ge> unat u then 0 else unat u - (unat t - unat l)) + 1"
  proof (cases "t - l \<ge> u")
    case False
    then have lt: "t - l < u" by simp
    then have s: "unat (u - (t - l)) = unat u - (unat t - unat l)" by (subst unat_sub) (simp_all add: d)
    have "unat (u - (t - l) + 1) = unat (u - (t - l)) + unat (1 :: Bit64u)"
      using assms(2) s by (intro unat_add64) (simp add: u_def l_def)
    with s lt False show ?thesis by (simp add: u'_def d word_less_nat_alt)
  qed (simp add: u'_def d word_le_nat_alt)
  moreover have "u' = 1 + u \<and> t = l \<or> t \<noteq> l" by (auto simp: u'_def)
  moreover have "unat (t + u') = unat t + unat u'"
    using assms(2,3) calculation(1) d(2) by (intro unat_add64) (auto simp: u_def l_def t_def)
  moreover have "r = t + u' \<and> lastTimeUsec s' = t \<and> usecSinceLast s' = u'"
    using assms(4) by (auto simp: time_usec_sequential_def Let_def u'_def t_def l_def u_def split: if_splits)
  ultimately show ?thesis
    using d(2) by (auto simp: t_def [symmetric] l_def [symmetric] u_def [symmetric])
qed

section \<open>A machine with one device\<close>

text \<open>
  The machine on which the properties are seen at work: a device has registered a continuous timer of five ticks, and counts
  the calls it gets.
\<close>

definition fresh_system :: "unit bx_pc_system" where
  "fresh_system = \<lparr>timer = (\<lambda>i. \<lparr>inUse = False, period = 0, timeToFire = 0, active = False, continuous = False, funct = None,
       timer_id = [], param = 0\<rparr>), numTimers = 0, triggeredTimer = 0, currCountdown = 0, currCountdownPeriod = 0, ticksTotal = 0,
     lastTimeUsec = 0, usecSinceLast = 0, HRQ = False, enable_a20 = False, pc_a20_mask = 0, IGNNE = False, kill_bochs_request = False\<rparr>"

definition powered_on :: "unit bx_pc_system" where
  "powered_on = pc_initialize (construct () fresh_system)"

definition one_device :: "unit bx_pc_system" where
  "one_device = snd (register_timer_ticks (Some ()) 5 True True ''device'' powered_on)"

definition counting_calls :: "(unit, nat) callback" where
  "counting_calls f = (\<lambda>(s, n). (s, if triggeredTimer s = 1 then n + 1 else n))"

lemma counting_calls_ok: "well_behaved counting_calls"
  by (auto simp: well_behaved_def counting_calls_def)

lemma one_device_registered: "register_timer_ticks (Some ()) 5 True True ''device'' powered_on = (Some 1, one_device)"
  by (simp add: one_device_def register_timer_ticks_def powered_on_def construct_def pc_initialize_def set_timer_def Let_def BX_MAX_TIMERS_def)

lemma one_device_inv: "pc_inv one_device \<and> elapsed one_device = 0"
proof -
  have "elapsed powered_on = 0" by (simp add: powered_on_def elapsed_def pc_initialize_def construct_def set_timer_def Let_def)
  then show ?thesis
    using register_timer_ticks_inv [OF _ _ one_device_registered] initial_inv [of "()" fresh_system]
    by (simp add: powered_on_def max_ticks_def)
qed

lemma one_device_timer: "numTimers one_device = 2 \<and> active (timer one_device 1) \<and> timeToFire (timer one_device 1) = 5 \<and> currCountdown one_device = 5 \<and>
    currCountdownPeriod one_device = 5 \<and> ticksTotal one_device = 0 \<and> timeToFire (timer one_device 0) = 4294967295"
  by (simp add: one_device_def register_timer_ticks_def powered_on_def construct_def pc_initialize_def set_timer_def Let_def
      BX_MAX_TIMERS_def MinAllowableTimerPeriod_def skew_countdown_def NullTimerInterval_def)

lemma tick1_fires_exactly_due_witness:
  "tick1 counting_calls (one_device, 0) = (one_device\<lparr>currCountdown := 4\<rparr>, 0)"
  using tick1_fires_exactly_due [of one_device counting_calls 0] one_device_inv one_device_timer by (simp add: max_ticks_def)

lemma tickn_returns_witness:
  "\<exists>s' d'. tickn counting_calls 1000 (one_device, 0) = Some (s', d') \<and> pc_inv s' \<and>
     unat (time_ticks s') = unat (time_ticks one_device) + unat (1000 :: Bit32u)"
  using one_device_inv by (intro tickn_returns [OF counting_calls_ok]) (simp_all add: max_ticks_def)

lemma tickn_is_single_ticks_witness:
  "tickn counting_calls 12 (one_device, 0) = Some ((tick1 counting_calls ^^ 12) (one_device, 0))"
  using tickn_is_single_ticks [OF counting_calls_ok, of one_device 12 0] one_device_inv by (simp add: max_ticks_def)


lemma time_usec_sequential_increases_witness:
  "unat (fst (time_usec_sequential (\<lambda>s. 7) powered_on)) = 8"
proof -
  have l: "lastTimeUsec powered_on = 0" "usecSinceLast powered_on = 0"
    by (simp_all add: powered_on_def pc_initialize_def construct_def set_timer_def Let_def)
  from time_usec_sequential_increases [of powered_on "\<lambda>s. 7"] show ?thesis
    by (cases "time_usec_sequential (\<lambda>s. 7) powered_on") (simp add: l)
qed

end
