(* ===== verification/Spec2Isabelle.thy ===== *)
theory Spec2Isabelle
  imports ArithProps OperandProps BmiProps ShiftProps MultProps FlagCtrl Bcd Crc32 PicDelivery PitPorts FastPathLimits SegLoadProps PcSystemProps
begin

text \<open>
  A verification library for Bochs, an emulator of x86 processors and of the devices of a PC.

  \<^bold>\<open>The program.\<close>  The emulator consists of a processor (\<^verbatim>\<open>bochs/cpu\<close>), physical memory (\<^verbatim>\<open>bochs/memory\<close>), devices
  (\<^verbatim>\<open>bochs/iodev\<close>), a scheduler of timers that ties them together (\<^verbatim>\<open>bochs/pc_system.cc\<close>) and host-side parts for
  display, configuration and debugging.  The processor decodes an instruction into a \<^verbatim>\<open>bxInstruction_c\<close> and calls the
  handler for it; a handler reads registers, computes, writes registers and records its flags in a packed, lazily
  evaluated form.  Devices raise request lines at the interrupt controllers, which signal the processor.

  \<^bold>\<open>How the model corresponds to the code.\<close>  A C++ structure is a record with the same fields, a member function a
  function from the old state to the new one, an exception the left side of a sum type.  Integers are words of the width
  they have in the code, so wrap-around is the code's.  Loops are recursive functions with termination proofs.
  A handler with register operands only is a function on \<^theory_text>\<open>bx_cpu\<close>, the registers and flags; one with a memory operand is an
  operation on \<^theory_text>\<open>bx_sys\<close>, the joint state of registers, segment registers and memory unit, that may end in an exception.
  Host pointers into emulated memory are values of a datatype: null, an offset into the RAM block, or an offset into the
  page that stands for absent memory.

  \<^descr>[Prelude] generic lemmas on bits, words, lists and parity, and the collections of rewrite rules the components share.
  \<^descr>[LazyFlags] \<^verbatim>\<open>cpu/lazy_flags.h\<close>: the packed entry, its readers and writers and the flag-setting macros.  The packed
    carries decode to the six architectural flags of the operation at each width, and every writer changes one flag only.
  \<^descr>[CpuState] the register file of \<^verbatim>\<open>cpu/cpu.h\<close> with its overlapping views, the decoded instruction of
    \<^verbatim>\<open>cpu/decoder/instr.h\<close>, and the conversion between the lazy flags and the EFLAGS image.
  \<^descr>[Arith8, Arith16, Arith32, Arith64] the register handlers of \<^verbatim>\<open>cpu/arith8.cc\<close> to \<^verbatim>\<open>cpu/arith64.cc\<close>;
    \<^theory_text>\<open>ArithProps\<close> proves their results and flags, and the composition of two handlers to 128-bit arithmetic
    and of CMP with the condition codes.
  \<^descr>[SetCC, ByteSwap, FlagCtrl] the conditional byte stores, BSWAP and MOVBE of \<^verbatim>\<open>cpu/bit.cc\<close> with the swaps of
    \<^verbatim>\<open>misc/bswap.h\<close>, which reverse the bytes of a word, and the flag instructions of \<^verbatim>\<open>cpu/flag_ctrl.cc\<close>.
  \<^descr>[Bcd] the decimal adjustments of \<^verbatim>\<open>cpu/bcd.cc\<close>: decimal addition and subtraction of packed digits, and the round trip
    of AAM and AAD in any base.
  \<^descr>[Crc32] \<^verbatim>\<open>cpu/crc32.cc\<close> with its table, equal to the shift register that divides by the polynomial bit by bit.
  \<^descr>[ScalarArith] the portable bit-counting and rotation helpers of \<^verbatim>\<open>cpu/scalar_arith.h\<close>, equal to bit-by-bit definitions.
  \<^descr>[Shift8, Shift16, Shift32, Shift64] the shifts, rotates and double shifts of \<^verbatim>\<open>cpu/shift8.cc\<close> to \<^verbatim>\<open>cpu/shift64.cc\<close>;
    \<^theory_text>\<open>ShiftProps\<close> relates them to powers of two, to rotations of words and, for RCL and RCR, to rotations of
    the word one bit wider.
  \<^descr>[BitBase, Bit16, Bit32, Bit64] the bit scans, counts and tests of \<^verbatim>\<open>cpu/bit16.cc\<close> to \<^verbatim>\<open>cpu/bit64.cc\<close>; \<^theory_text>\<open>BitBase\<close> holds
    lowest and highest set bits and the addresses of bit strings.
  \<^descr>[BitGather, Bmi32, Bmi64] \<^verbatim>\<open>cpu/bmi32.cc\<close> and \<^verbatim>\<open>cpu/bmi64.cc\<close> in builds without APX.  The loops of PEXT and PDEP are
    proved to gather and scatter bits by their rank in the mask; \<^theory_text>\<open>BmiProps\<close> collects results, flags and round trips.
  \<^descr>[WideInt, WideDiv] the 128-bit integer classes of \<^verbatim>\<open>cpu/wide_int.h\<close> and the division of \<^verbatim>\<open>cpu/wide_int.cc\<close>.  The
    locales \<^theory_text>\<open>int128\<close>, \<^theory_text>\<open>uint128\<close> and \<^theory_text>\<open>sint128\<close> state what the sources rely on; they are interpreted for the
    native type and for both classes.  The digit loop terminates because the estimate grows until it leaves its range.
  \<^descr>[Mult] \<^verbatim>\<open>cpu/mult8.cc\<close> to \<^verbatim>\<open>cpu/mult64.cc\<close>; \<^theory_text>\<open>MultProps\<close> proves the products, and the exact condition for a
    divide error.
  \<^descr>[Pic] \<^verbatim>\<open>iodev/pic.cc\<close>: the pair of 8259 interrupt controllers.  \<^theory_text>\<open>PicProps\<close> relates the service scan to
    rotating priorities, \<^theory_text>\<open>PicInvariant\<close> proves an invariant over every sequence of port accesses, line changes and
    acknowledge cycles, and \<^theory_text>\<open>PicDelivery\<close> shows that an eligible request reaches the processor with its vector.
  \<^descr>[Pit] \<^verbatim>\<open>iodev/pit82c54.cc\<close>: the interval timer with its six modes.  \<^theory_text>\<open>PitProps\<close> proves that skipping several clocks
    at once equals single clocking, and the period of the rate generator; \<^theory_text>\<open>PitPorts\<close> covers programming and reading.
  \<^descr>[PhysMem] the stub memory of \<^verbatim>\<open>memory/memory_stub.cc\<close>: RAM as bytes, the PCI hole, the A20 mask, page reads and
    writes and host pointers.  The locale \<^theory_text>\<open>cell_store\<close> states what page walks rely on (a word read back
    after a write, other aligned words unchanged) and is interpreted for double and quad words.
  \<^descr>[Tlb] \<^verbatim>\<open>cpu/tlb.h\<close>: entries, slots, flushes and invalidation of a page.
  \<^descr>[Paging] \<^verbatim>\<open>cpu/paging.cc\<close>: page faults, the long mode, PAE and legacy walks, accessed and dirty bits, protection
    keys and \<^verbatim>\<open>translate_linear\<close>.  \<^theory_text>\<open>PageWalks\<close> proves that a walk repeated after its own accessed and dirty
    updates reads the same path, \<^theory_text>\<open>PagingProps\<close> relates the permission checks to the rule of the architecture,
    and \<^theory_text>\<open>MmuProps\<close> shows that a hit in a TLB entry agrees with a walk and what a fault leaves behind.
  \<^descr>[Access] \<^verbatim>\<open>cpu/access.cc\<close> and \<^verbatim>\<open>cpu/access2.cc\<close>: canonical checks, the slow path over one or two pages, the fast
    path through host pointers, and the translation of fetch addresses.  \<^theory_text>\<open>AccessProps\<close> proves the invariant of
    the TLBs over all operations and that a faulting access writes no data; \<^theory_text>\<open>FastPath\<close> proves the fast path
    equal to the slow path in every state reached with paging on, and \<^theory_text>\<open>FastPathLimits\<close> shows two
    operations of the code outside these conditions for which it is not.

  \<^descr>[Descriptor, Segment, SegLoad] \<^verbatim>\<open>cpu/descriptor.h\<close>, \<^verbatim>\<open>cpu/segment_ctrl_pro.cc\<close>, the checks of \<^verbatim>\<open>cpu/access.cc\<close>, address
    generation of \<^verbatim>\<open>cpu/cpu.h\<close> and the virtual accesses of \<^verbatim>\<open>cpu/access.h\<close>, on the state \<^theory_text>\<open>bx_sys\<close> that joins the
    registers, the segment registers and the memory unit.  \<^theory_text>\<open>Descriptor\<close> also proves that parsing a descriptor loses
    nothing; \<^theory_text>\<open>SegProps\<close> proves address generation equal to the rule on integers, and \<^theory_text>\<open>SegLoadProps\<close> the protection
    rule of segment loads and the well-formedness of every descriptor cache in every reachable state.

  \<^descr>[MemOperand] effective addresses, the virtual accesses at each operand size, and what instructions with a memory operand
    share: \<^theory_text>\<open>rmw_spec\<close>, \<^theory_text>\<open>load_spec\<close> and \<^theory_text>\<open>operand_spec\<close> say that an instruction is one access whose fault is
    the instruction's and whose value decides result, registers and flags; the locale \<^theory_text>\<open>write_back\<close> is what handlers rely on
    when they write the operand back, interpreted for the four sizes.
  \<^descr>[ArithMem8 to ArithMem64, Logical8 to Logical64, ShiftMem8 to ShiftMem64] the forms with a memory operand of
    \<^verbatim>\<open>cpu/arith8.cc\<close> to \<^verbatim>\<open>cpu/arith64.cc\<close> and \<^verbatim>\<open>cpu/shift8.cc\<close> to \<^verbatim>\<open>cpu/shift64.cc\<close>, and all handlers of
    \<^verbatim>\<open>cpu/logical8.cc\<close> to \<^verbatim>\<open>cpu/logical64.cc\<close>.
  \<^descr>[DataXfer8 to DataXfer64] the moves, extensions, exchanges and conditional moves of \<^verbatim>\<open>cpu/data_xfer8.cc\<close> to
    \<^verbatim>\<open>cpu/data_xfer64.cc\<close>.  \<^theory_text>\<open>MemProps\<close> and \<^theory_text>\<open>OperandProps\<close> state what the instructions of these theories do with
    their operands at every size, and that every one of them leaves registers and tables alone when it faults.

  \<^descr>[PcSystem] \<^verbatim>\<open>pc_system.cc\<close>: the timers through which the clock of the processor drives the devices.  The function that
    calls a callback is an argument of the model.  \<^theory_text>\<open>PcSystemProps\<close> gives the devices' operations as a step relation,
    proves that no active timer is ever overdue, that a tick fires exactly the timers that are due, and that advancing by
    many ticks ends and equals single ticks.

  \<^bold>\<open>Bounds and fuel.\<close>  No definition uses fuel.  The scans of the interrupt controller stop after eight inputs, the
  skipping loop of the interval timer decreases the number of cycles left, the division loop increases a bounded
  value, and a page walk descends one level of the tables per step.  The loop of \<open>tickn\<close> is a partial function; that it
  returns is proved for clocks and periods of up to \<open>2\<^sup>6\<^sup>2\<close> ticks and callbacks that use only the timer operations.

  The loops of BSR, PEXT, PDEP and CRC32 recurse on a shrinking word or a byte count.

  \<^bold>\<open>Not modelled.\<close>  Exception delivery, control transfer, stack and string instructions and the instruction decoder;
  floating point and vector instructions; virtualisation; the remaining devices; everything that talks to the host
  (display, disk images, networking, sound, configuration, debugger).  Within the modelled files, registration of state for
  save and restore and log output are left out, and of the handlers: the double-width CMPXCHG8B and CMPXCHG16B, MOV to a
  segment register, the moves through the stack page cache (MOV32S, MOV64S), and the forms of APX.  The model of paging and
  memory access is that of a processor outside virtual machines, in a build without memory types and debugger, with RAM
  only: no ROM, no device memory, no monitored pages, no write stamps of the trace cache.
\<close>

end
